(* ===== verification/Prelude.thy ===== *)
theory Prelude
  imports Main "HOL-Library.Multiset" "HOL-Library.Char_ord" "HOL-Library.List_Lexorder" "HOL-Library.Product_Lexorder"
begin

section \<open>Results, checked loops and canonical orders\<close>

text \<open>
  Shared by every component. A Go function that returns \<open>(T, error)\<close> is a HOL function
  into \<open>'a result\<close>: \<open>Inl e\<close> is the error, \<open>Inr v\<close> the value. An error keeps the format
  string of the source with its arguments and the errors it wraps with \<open>%w\<close>, so that
  \<open>errors.Is\<close> is a function on it. Byte strings (\<open>string\<close> and \<open>[]byte\<close>) are
  \<open>char list\<close>, a \<open>char\<close> being one byte. The checked loops are the two shapes of
  \<open>for\<close> loop the validators use: check every element, and check every element while a
  map of seen keys rejects duplicates.
\<close>

named_theorems result_simps "equations that invert a successful computation"

type_synonym bytes = string

datatype error = Error string "string list" "error list"

type_synonym 'a result = "error + 'a"

abbreviation Err :: "string \<Rightarrow> error" where
  "Err m \<equiv> Error m [] []"

abbreviation Errf :: "string \<Rightarrow> string list \<Rightarrow> error" where
  "Errf m xs \<equiv> Error m xs []"

abbreviation Wrapf :: "string \<Rightarrow> string list \<Rightarrow> error \<Rightarrow> error" where
  "Wrapf m xs e \<equiv> Error m xs [e]"

text \<open>\<open>errors.Is\<close>: the error itself or one it wraps, at any depth.\<close>

fun error_is :: "error \<Rightarrow> error \<Rightarrow> bool" where
  "error_is (Error m xs es) t =
     (Error m xs es = t \<or> list_ex (\<lambda>e. error_is e t) es)"

definition bind_r :: "'a result \<Rightarrow> ('a \<Rightarrow> 'b result) \<Rightarrow> 'b result" where
  "bind_r m f = (case m of Inl e \<Rightarrow> Inl e | Inr x \<Rightarrow> f x)"

lemma bind_r_simps [simp]:
  "bind_r (Inl e) f = Inl e" "bind_r (Inr x) f = f x"
  by (simp_all add: bind_r_def)

lemma bind_r_Inr_iff [result_simps]:
  "bind_r m f = Inr y \<longleftrightarrow> (\<exists>x. m = Inr x \<and> f x = Inr y)"
  by (cases m) simp_all

lemma bind_r_Inl_iff:
  "bind_r m f = Inl e \<longleftrightarrow> m = Inl e \<or> (\<exists>x. m = Inr x \<and> f x = Inl e)"
  by (cases m) simp_all

lemma bind_r_cong [fundef_cong]:
  "m = m' \<Longrightarrow> (\<And>x. m' = Inr x \<Longrightarrow> f x = f' x) \<Longrightarrow> bind_r m f = bind_r m' f'"
  by (cases m') simp_all

text \<open>A failing check: \<open>if b { return err }\<close>, followed by the rest of the function.\<close>

definition reject_if :: "bool \<Rightarrow> error \<Rightarrow> unit result" where
  "reject_if b e = (if b then Inl e else Inr ())"

lemma reject_if_Inr_iff [result_simps]: "reject_if b e = Inr u \<longleftrightarrow> \<not> b"
  by (simp add: reject_if_def)

lemma reject_if_simps [simp]:
  "reject_if True e = Inl e" "reject_if False e = Inr ()"
  by (simp_all add: reject_if_def)

definition also_r :: "unit result \<Rightarrow> 'a result \<Rightarrow> 'a result" where
  "also_r m k = (case m of Inl e \<Rightarrow> Inl e | Inr u \<Rightarrow> k)"

lemma also_r_simps [simp]: "also_r (Inl e) k = Inl e" "also_r (Inr u) k = k"
  by (simp_all add: also_r_def)

lemma also_r_Inr_iff [result_simps]: "also_r m k = Inr y \<longleftrightarrow> m = Inr () \<and> k = Inr y"
  by (cases m) simp_all

text \<open>\<open>checks\<close>: a run of checks, the first error wins.\<close>

fun checks :: "unit result list \<Rightarrow> unit result" where
  "checks [] = Inr ()"
| "checks (c # cs) = also_r c (checks cs)"

lemma checks_Inr_iff [result_simps]: "checks cs = Inr u \<longleftrightarrow> (\<forall>c\<in>set cs. c = Inr ())"
  by (induction cs) (auto simp: result_simps)

text \<open>An error that is passed on with \<open>fmt.Errorf\<close>.\<close>

definition wrap_error :: "bytes \<Rightarrow> bytes list \<Rightarrow> 'a result \<Rightarrow> 'a result" where
  "wrap_error f xs r = (case r of Inl e \<Rightarrow> Inl (Wrapf f xs e) | Inr v \<Rightarrow> Inr v)"

lemma wrap_error_Inr_iff [result_simps]: "wrap_error f xs r = Inr v \<longleftrightarrow> r = Inr v"
  by (cases r) (simp_all add: wrap_error_def)

subsection \<open>Loops over a collection\<close>

text \<open>\<open>for _, x := range xs { if err := f(x); err != nil { return err } }\<close>.\<close>

fun for_each :: "('a \<Rightarrow> unit result) \<Rightarrow> 'a list \<Rightarrow> unit result" where
  "for_each f [] = Inr ()"
| "for_each f (x # xs) = also_r (f x) (for_each f xs)"

lemma for_each_Inr_iff [result_simps]:
  "for_each f xs = Inr u \<longleftrightarrow> (\<forall>x\<in>set xs. f x = Inr ())"
  by (induction xs) (auto simp: result_simps)

lemma for_each_cong [fundef_cong]:
  "xs = ys \<Longrightarrow> (\<And>x. x \<in> set ys \<Longrightarrow> f x = g x) \<Longrightarrow> for_each f xs = for_each g ys"
  by (induction ys arbitrary: xs) auto

text \<open>A loop that threads a state and may fail.\<close>

fun fold_r :: "('s \<Rightarrow> 'a \<Rightarrow> 's result) \<Rightarrow> 's \<Rightarrow> 'a list \<Rightarrow> 's result" where
  "fold_r f s [] = Inr s"
| "fold_r f s (x # xs) = bind_r (f s x) (\<lambda>s'. fold_r f s' xs)"

lemma fold_r_append: "fold_r f s (xs @ ys) = bind_r (fold_r f s xs) (\<lambda>s'. fold_r f s' ys)"
proof (induction xs arbitrary: s)
  case (Cons x xs)
  then show ?case by (cases "f s x") simp_all
qed simp

lemma fold_r_invariant:
  assumes "fold_r f s xs = Inr t" and "P s"
    and "\<And>s x s'. x \<in> set xs \<Longrightarrow> P s \<Longrightarrow> f s x = Inr s' \<Longrightarrow> P s'"
  shows "P t"
  using assms
proof (induction xs arbitrary: s)
  case (Cons x xs)
  from Cons.prems(1) obtain s' where s': "f s x = Inr s'" "fold_r f s' xs = Inr t"
    by (auto simp: result_simps)
  have "P s'" using Cons.prems(2,3) s'(1) by auto
  from Cons.IH [OF s'(2) this] Cons.prems(3) show ?case by auto
qed simp

text \<open>\<open>out = append(out, f(x))\<close> with an early return.\<close>

fun map_r :: "('a \<Rightarrow> 'b result) \<Rightarrow> 'a list \<Rightarrow> 'b list result" where
  "map_r f [] = Inr []"
| "map_r f (x # xs) = bind_r (f x) (\<lambda>y. bind_r (map_r f xs) (\<lambda>ys. Inr (y # ys)))"

lemma map_r_Inr_iff [result_simps]:
  "map_r f xs = Inr ys \<longleftrightarrow> list_all2 (\<lambda>x y. f x = Inr y) xs ys"
  by (induction xs arbitrary: ys)
    (auto simp: result_simps list_all2_Cons1 list_all2_Nil)

text \<open>
  The duplicate-rejecting loop: per element the checks before the duplicate test, the test
  against the seen keys, the checks after it, then the key joins the seen ones.
\<close>

fun each_unique ::
  "('a \<Rightarrow> unit result) \<Rightarrow> ('a \<Rightarrow> 'k) \<Rightarrow> ('a \<Rightarrow> error) \<Rightarrow> ('a \<Rightarrow> unit result) \<Rightarrow>
   'k set \<Rightarrow> 'a list \<Rightarrow> 'k set result" where
  "each_unique pre key dup post seen [] = Inr seen"
| "each_unique pre key dup post seen (x # xs) =
     also_r (pre x)
       (if key x \<in> seen then Inl (dup x)
        else also_r (post x) (each_unique pre key dup post (insert (key x) seen) xs))"

lemma each_unique_Inr_iff [result_simps]:
  "each_unique pre key dup post seen xs = Inr s \<longleftrightarrow>
     (\<forall>x\<in>set xs. pre x = Inr () \<and> post x = Inr ()) \<and> distinct (map key xs) \<and>
     key ` set xs \<inter> seen = {} \<and> s = seen \<union> key ` set xs"
proof (induction xs arbitrary: seen)
  case Nil
  then show ?case by auto
next
  case (Cons x xs)
  then show ?case by (auto simp: result_simps)
qed

text \<open>
  The same for a loop whose iterations claim several keys each: it succeeds iff every element
  passes its checks and no key is claimed twice. Keys of several kinds are put together with
  the constructors of a sum.
\<close>

lemma fold_claims:
  assumes step: "\<And>s x s'. f s x = Inr s' \<longleftrightarrow>
      ok x \<and> distinct (ks x) \<and> set (ks x) \<inter> taken s = {} \<and> s' = upd s x"
    and upd: "\<And>s x. taken (upd s x) = taken s \<union> set (ks x)"
  shows "fold_r f s xs = Inr t \<longleftrightarrow>
      (\<forall>x\<in>set xs. ok x) \<and> distinct (concat (map ks xs)) \<and>
      set (concat (map ks xs)) \<inter> taken s = {} \<and> t = foldl upd s xs"
proof (induction xs arbitrary: s)
  case (Cons x xs)
  have "set (concat (map ks xs)) \<inter> taken (upd s x) = {} \<longleftrightarrow>
      set (concat (map ks xs)) \<inter> taken s = {} \<and> set (ks x) \<inter> set (concat (map ks xs)) = {}"
    unfolding upd by blast
  moreover have "fold_r f s (x # xs) = Inr t \<longleftrightarrow>
      (ok x \<and> distinct (ks x) \<and> set (ks x) \<inter> taken s = {}) \<and> fold_r f (upd s x) xs = Inr t"
    by (auto simp: bind_r_Inr_iff step)
  ultimately show ?case
    by (simp only: Cons.IH list.map concat.simps distinct_append set_append Int_Un_distrib2
        Un_empty foldl_Cons list.set ball_simps conj_ac)
qed auto

lemma Inr_image_disjoint [simp]: "Inr ` A \<inter> Inr ` B = {} \<longleftrightarrow> A \<inter> B = {}"
  by blast

lemma distinct_concat_sum:
  "distinct (concat (map (\<lambda>x. Inl (a x) # map Inr (b x)) xs)) \<longleftrightarrow>
     distinct (map a xs) \<and> distinct (concat (map b xs))"
proof (induction xs)
  case (Cons x xs)
  have "Inr ` set (b x) \<inter> set (concat (map (\<lambda>x. Inl (a x) # map Inr (b x)) xs)) = {} \<longleftrightarrow>
      set (b x) \<inter> set (concat (map b xs)) = {}"
    by (auto simp: disjoint_iff)
  moreover have "Inl (a x) \<in> set (concat (map (\<lambda>x. Inl (a x) # map Inr (b x)) xs)) \<longleftrightarrow> a x \<in> a ` set xs"
    by auto
  ultimately show ?case
    using Cons by (auto simp: distinct_map simp del: set_concat)
qed simp

lemma concat_sum_disjoint:
  "set (concat (map (\<lambda>x. Inl (a x) # map Inr (b x)) xs)) \<inter> (Inl ` A \<union> Inr ` B) = {} \<longleftrightarrow>
     a ` set xs \<inter> A = {} \<and> set (concat (map b xs)) \<inter> B = {}"
  by auto

subsection \<open>Searching a list\<close>

text \<open>The first element with a property, as the search loops with \<open>break\<close> find it.\<close>

lemma find_Some_in: "find P xs = Some x \<Longrightarrow> x \<in> set xs \<and> P x"
  by (auto simp: find_Some_iff)

lemma find_None_all: "find P xs = None \<longleftrightarrow> (\<forall>x\<in>set xs. \<not> P x)"
  by (auto simp: find_None_iff)

subsection \<open>Sorting by a key\<close>

text \<open>
  \<open>sort.Slice\<close> is not stable: it returns some permutation that is sorted by the key. The
  model uses the stable \<open>sort_key\<close>, and the two lemmas below say when that choice is no
  choice: where the keys are distinct, every sorted permutation is that one, and the result
  depends on the elements alone and not on the order they came in.
\<close>

lemma sorted_perm_unique:
  fixes key :: "'a \<Rightarrow> 'k::linorder"
  assumes "mset xs = mset ys" and "inj_on key (set xs)"
    and "sorted (map key xs)" and "sorted (map key ys)"
  shows "xs = ys"
proof -
  have m: "mset (map key xs) = mset (map key ys)" using assms(1) by simp
  then have "map key xs = map key ys"
    using assms(3,4) by (metis properties_for_sort)
  moreover have "inj_on key (set xs \<union> set ys)"
    using assms(1,2) by (metis mset_eq_setD sup.idem)
  ultimately show ?thesis by (simp add: inj_on_map_eq_map)
qed

lemma sort_key_canonical:
  fixes key :: "'a \<Rightarrow> 'k::linorder"
  assumes "mset xs = mset ys" and "inj_on key (set xs)"
  shows "sort_key key xs = sort_key key ys"
proof (rule sorted_perm_unique [where key = key])
  show "mset (sort_key key xs) = mset (sort_key key ys)" using assms(1) by simp
qed (simp_all add: assms(2))

lemma sorted_is_sort_key:
  fixes key :: "'a \<Rightarrow> 'k::linorder"
  assumes "mset ys = mset xs" and "inj_on key (set xs)" and "sorted (map key ys)"
  shows "ys = sort_key key xs"
proof (rule sorted_perm_unique [where key = key])
  show "mset ys = mset (sort_key key xs)" using assms(1) by simp
  show "inj_on key (set ys)" using assms(1,2) by (metis mset_eq_setD)
qed (simp_all add: assms(3))

lemma sort_key_Nil_iff [simp]: "sort_key key xs = [] \<longleftrightarrow> xs = []"
  by (metis length_0_conv length_sort)

lemma distinct_map_sort_key [simp]: "distinct (map f (sort_key k xs)) \<longleftrightarrow> distinct (map f xs)"
  by (simp add: distinct_map)

lemma sort_key_idem [simp]:
  fixes key :: "'a \<Rightarrow> 'k::linorder"
  shows "sort_key key (sort_key key xs) = sort_key key xs"
  by (simp add: sort_key_id_if_sorted)

text \<open>A map over the elements that keeps their keys commutes with sorting.\<close>

lemma map_sort_key:
  fixes key :: "'a \<Rightarrow> 'k::linorder"
  assumes "\<And>x. key (f x) = key x"
  shows "map f (sort_key key xs) = sort_key key (map f xs)"
proof (rule properties_for_sort_key [symmetric])
  show "mset (map f (sort_key key xs)) = mset (map f xs)" by simp
next
  fix k assume "k \<in> set (map f (sort_key key xs))"
  then obtain x where k: "k = f x" by auto
  have "filter (\<lambda>y. key x = key y) ys = filter (\<lambda>y. key y = key x) ys" for ys
    by (rule filter_cong) auto
  then show "filter (\<lambda>y. key k = key y) (map f (sort_key key xs)) = filter (\<lambda>y. key k = key y) (map f xs)"
    by (simp add: filter_map comp_def assms k sort_key_stable)
next
  show "sorted (map key (map f (sort_key key xs)))" by (simp add: comp_def assms)
qed

text \<open>
  Two lists that hold the same elements up to order and up to an element relation \<open>R\<close> that a
  function erases: mapping the function and sorting by an injective key gives one list.
\<close>

definition reorders :: "('a \<Rightarrow> 'a \<Rightarrow> bool) \<Rightarrow> 'a list \<Rightarrow> 'a list \<Rightarrow> bool" where
  "reorders R xs ys = (\<exists>zs. mset zs = mset xs \<and> list_all2 R zs ys)"

lemma reorders_eq: "reorders (=) xs ys \<longleftrightarrow> mset xs = mset ys"
  by (auto simp: reorders_def list.rel_eq)

lemma reorders_mset_map:
  assumes "reorders R xs ys" "\<And>x y. R x y \<Longrightarrow> f x = f y"
  shows "mset (map f xs) = mset (map f ys)"
proof -
  obtain zs where zs: "mset zs = mset xs" "list_all2 R zs ys" using assms(1) by (auto simp: reorders_def)
  have "map f zs = map f ys" using zs(2) assms(2) by induction auto
  then show ?thesis using zs(1) by (metis mset_map)
qed

text \<open>Lists related by their indices: two positions of a list, one before the other.\<close>

lemma sorted_adjacent_groups:
  fixes key :: "'a \<Rightarrow> 'k::linorder"
  assumes sorted: "sorted (map key xs)"
    and adj: "\<And>i. Suc i < length xs \<Longrightarrow> key (xs ! i) = key (xs ! Suc i) \<Longrightarrow> R (xs ! i) (xs ! Suc i)"
    and trans: "\<And>x y z. R x y \<Longrightarrow> R y z \<Longrightarrow> R x z"
    and ij: "i < j" "j < length xs" and eq: "key (xs ! i) = key (xs ! j)"
  shows "R (xs ! i) (xs ! j)"
  using ij eq
proof (induction j)
  case (Suc j)
  have le: "key (xs ! a) \<le> key (xs ! b)" if "a \<le> b" "b < length xs" for a b
    using sorted_nth_mono [OF sorted, of a b] that by simp
  have "key (xs ! j) \<le> key (xs ! Suc j)" "key (xs ! i) \<le> key (xs ! j)"
    using Suc.prems le [of j "Suc j"] le [of i j] by simp_all
  then have eqs: "key (xs ! j) = key (xs ! Suc j)" "key (xs ! i) = key (xs ! j)"
    using Suc.prems(3) by simp_all
  have step: "R (xs ! j) (xs ! Suc j)" using adj eqs(1) Suc.prems(2) by simp
  show ?case
  proof (cases "i = j")
    case True
    then show ?thesis using step by simp
  next
    case False
    then have "R (xs ! i) (xs ! j)" using Suc.IH Suc.prems eqs(2) by simp
    then show ?thesis using step by (rule trans)
  qed
qed simp

end
