(* ===== verification/Go_Text.thy ===== *)
theory Go_Text
  imports Prelude
begin

section \<open>The string functions of the Go standard library\<close>

text \<open>
  The functions of \<open>strings\<close>, \<open>strconv\<close> and \<open>encoding/hex\<close> that the program calls, on byte
  strings. \<open>strings.TrimSpace\<close> is exact on every input: it removes the UTF-8 encodings of
  the runes of \<open>unicode.IsSpace\<close> from both ends. \<open>strings.ToLower\<close> folds ASCII and the two
  runes outside ASCII whose lower case is an ASCII letter; other bytes above 127 are kept,
  which matters to no caller here, because each of them goes on to reject such bytes or to
  compare two results for equality.
\<close>

subsection \<open>Prefixes, suffixes and substrings\<close>

definition has_prefix :: "bytes \<Rightarrow> bytes \<Rightarrow> bool" where
  "has_prefix s p = (take (length p) s = p)"

definition has_suffix :: "bytes \<Rightarrow> bytes \<Rightarrow> bool" where
  "has_suffix s p = (length p \<le> length s \<and> drop (length s - length p) s = p)"

lemma has_prefix_iff: "has_prefix s p \<longleftrightarrow> (\<exists>t. s = p @ t)"
  unfolding has_prefix_def by (metis append_eq_conv_conj append_take_drop_id)

lemma has_suffix_iff: "has_suffix s p \<longleftrightarrow> (\<exists>t. s = t @ p)"
proof
  assume "has_suffix s p"
  then have "s = take (length s - length p) s @ p"
    unfolding has_suffix_def by (metis append_take_drop_id)
  then show "\<exists>t. s = t @ p" by blast
qed (auto simp: has_suffix_def)

lemma has_prefix_append [simp]: "has_prefix (p @ t) p"
  by (simp add: has_prefix_iff)

lemma has_suffix_append [simp]: "has_suffix (t @ p) p"
  by (simp add: has_suffix_iff)

definition trim_prefix :: "bytes \<Rightarrow> bytes \<Rightarrow> bytes" where
  "trim_prefix s p = (if has_prefix s p then drop (length p) s else s)"

definition trim_suffix :: "bytes \<Rightarrow> bytes \<Rightarrow> bytes" where
  "trim_suffix s p = (if has_suffix s p then take (length s - length p) s else s)"

lemma trim_prefix_append [simp]: "trim_prefix (p @ t) p = t"
  by (simp add: trim_prefix_def)

lemma trim_suffix_append [simp]: "trim_suffix (t @ p) p = t"
  by (simp add: trim_suffix_def)

fun contains_str :: "bytes \<Rightarrow> bytes \<Rightarrow> bool" where
  "contains_str [] t = (t = [])"
| "contains_str (c # s) t = (has_prefix (c # s) t \<or> contains_str s t)"

lemma contains_str_iff: "contains_str s t \<longleftrightarrow> (\<exists>u v. s = u @ t @ v)"
proof (induction s)
  case (Cons c s)
  show ?case
  proof
    assume "contains_str (c # s) t"
    then show "\<exists>u v. c # s = u @ t @ v"
      using Cons.IH by (metis append_Cons append_Nil contains_str.simps(2) has_prefix_iff)
  next
    assume "\<exists>u v. c # s = u @ t @ v"
    then obtain u v where uv: "c # s = u @ t @ v" by blast
    show "contains_str (c # s) t"
    proof (cases u)
      case Nil
      then have "has_prefix (c # s) t" using uv by (simp add: has_prefix_iff)
      then show ?thesis by simp
    next
      case (Cons a u')
      then show ?thesis using uv Cons.IH by auto
    qed
  qed
qed simp

text \<open>\<open>strings.ContainsAny\<close>, with a set of ASCII bytes.\<close>

definition contains_any :: "bytes \<Rightarrow> bytes \<Rightarrow> bool" where
  "contains_any s cs = list_ex (\<lambda>c. c \<in> set cs) s"

lemma contains_any_iff: "contains_any s cs \<longleftrightarrow> set s \<inter> set cs \<noteq> {}"
  by (auto simp: contains_any_def list_ex_iff)

text \<open>\<open>strings.LastIndex\<close> for a one-byte separator, \<open>-1\<close> when it does not occur.\<close>

fun last_index :: "char \<Rightarrow> bytes \<Rightarrow> int" where
  "last_index c [] = -1"
| "last_index c (x # s) =
     (let r = last_index c s in if r \<ge> 0 then r + 1 else if x = c then 0 else -1)"

lemma last_index_bounds: "-1 \<le> last_index c s \<and> last_index c s < int (length s)"
  by (induction s) (auto simp: Let_def)

lemma last_index_absent: "last_index c s = -1 \<longleftrightarrow> c \<notin> set s"
proof (induction s)
  case (Cons x s)
  then show ?case using last_index_bounds [of c s] by (auto simp: Let_def)
qed simp

lemma last_index_split:
  "c \<notin> set v \<Longrightarrow> last_index c (u @ c # v) = int (length u)"
proof (induction u)
  case Nil
  then show ?case using last_index_absent [of c v] by (auto simp: Let_def)
qed (simp add: Let_def)

lemma last_index_nth:
  "last_index c s = int n \<Longrightarrow> n < length s \<and> s ! n = c \<and> c \<notin> set (drop (Suc n) s)"
proof (induction s arbitrary: n)
  case (Cons x s)
  show ?case
  proof (cases "last_index c s \<ge> 0")
    case True
    then obtain k where k: "last_index c s = int k" by (metis nonneg_int_cases)
    then have "n = Suc k" using Cons.prems True by (simp add: Let_def)
    then show ?thesis using Cons.IH [OF k] by simp
  next
    case False
    then have "last_index c s = -1" using last_index_bounds [of c s] by linarith
    then show ?thesis using Cons.prems last_index_absent [of c s]
      by (auto simp: Let_def split: if_splits)
  qed
qed simp

subsection \<open>Splitting and joining\<close>

text \<open>\<open>strings.Split\<close> and \<open>strings.Join\<close> for a one-byte separator.\<close>

fun split_on :: "char \<Rightarrow> bytes \<Rightarrow> bytes list" where
  "split_on c [] = [[]]"
| "split_on c (x # s) =
     (if x = c then [] # split_on c s
      else (case split_on c s of [] \<Rightarrow> [[x]] | p # ps \<Rightarrow> (x # p) # ps))"

fun join_with :: "bytes \<Rightarrow> bytes list \<Rightarrow> bytes" where
  "join_with sep [] = []"
| "join_with sep [p] = p"
| "join_with sep (p # q # ps) = p @ sep @ join_with sep (q # ps)"

lemma split_on_nonempty [simp]: "split_on c s \<noteq> []"
  by (induction s) (auto split: list.splits)

lemma join_split: "join_with [c] (split_on c s) = s"
proof (induction s)
  case (Cons x s)
  obtain p ps where "split_on c s = p # ps" by (meson neq_Nil_conv split_on_nonempty)
  then show ?case using Cons by (cases ps) auto
qed simp

lemma split_on_free: "p \<in> set (split_on c s) \<Longrightarrow> c \<notin> set p"
  by (induction s arbitrary: p) (auto split: if_splits list.splits)

lemma split_on_absent: "c \<notin> set s \<Longrightarrow> split_on c s = [s]"
  by (induction s) auto

lemma split_on_sep: "c \<notin> set p \<Longrightarrow> split_on c (p @ c # s) = p # split_on c s"
  by (induction p) auto

lemma split_join:
  "ps \<noteq> [] \<Longrightarrow> \<forall>p\<in>set ps. c \<notin> set p \<Longrightarrow> split_on c (join_with [c] ps) = ps"
  by (induction "[c]" ps rule: join_with.induct) (auto simp: split_on_absent split_on_sep)

lemma length_split_on: "length (split_on c s) = Suc (count_list s c)"
  by (induction s) (auto split: list.splits)

text \<open>A separator that the first part lacks makes a composite key injective.\<close>

lemma sep_append_eq:
  assumes "c \<notin> set a" "c \<notin> set b" "a @ c # x = b @ c # y"
  shows "a = b \<and> x = y"
  using assms
proof (induction a arbitrary: b)
  case Nil
  then show ?case by (cases b) auto
next
  case (Cons h a)
  then show ?case by (cases b) auto
qed

subsection \<open>White space\<close>

text \<open>The UTF-8 encodings of the runes of \<open>unicode.IsSpace\<close>.\<close>

definition space_runes :: "bytes list" where
  "space_runes =
     [[CHR 0x09], [CHR 0x0A], [CHR 0x0B], [CHR 0x0C], [CHR 0x0D], [CHR 0x20],
      [CHR 0xC2, CHR 0x85], [CHR 0xC2, CHR 0xA0], [CHR 0xE1, CHR 0x9A, CHR 0x80],
      [CHR 0xE2, CHR 0x80, CHR 0x80], [CHR 0xE2, CHR 0x80, CHR 0x81],
      [CHR 0xE2, CHR 0x80, CHR 0x82], [CHR 0xE2, CHR 0x80, CHR 0x83],
      [CHR 0xE2, CHR 0x80, CHR 0x84], [CHR 0xE2, CHR 0x80, CHR 0x85],
      [CHR 0xE2, CHR 0x80, CHR 0x86], [CHR 0xE2, CHR 0x80, CHR 0x87],
      [CHR 0xE2, CHR 0x80, CHR 0x88], [CHR 0xE2, CHR 0x80, CHR 0x89],
      [CHR 0xE2, CHR 0x80, CHR 0x8A], [CHR 0xE2, CHR 0x80, CHR 0xA8],
      [CHR 0xE2, CHR 0x80, CHR 0xA9], [CHR 0xE2, CHR 0x80, CHR 0xAF],
      [CHR 0xE2, CHR 0x81, CHR 0x9F], [CHR 0xE3, CHR 0x80, CHR 0x80]]"

text \<open>Strip every leading member of \<open>ws\<close>; \<open>strip\<close> takes at most one step per byte.\<close>

fun strip_n :: "nat \<Rightarrow> bytes list \<Rightarrow> bytes \<Rightarrow> bytes" where
  "strip_n 0 ws s = s"
| "strip_n (Suc n) ws s =
     (case find (has_prefix s) ws of
        None \<Rightarrow> s
      | Some w \<Rightarrow> strip_n n ws (drop (length w) s))"

definition strip :: "bytes list \<Rightarrow> bytes \<Rightarrow> bytes" where
  "strip ws s = strip_n (length s) ws s"

definition trim_space :: "bytes \<Rightarrow> bytes" where
  "trim_space s = rev (strip (map rev space_runes) (rev (strip space_runes s)))"

lemma strip_n_clean:
  assumes "[] \<notin> set ws" "length s \<le> n"
  shows "find (has_prefix (strip_n n ws s)) ws = None"
  using assms(2)
proof (induction n arbitrary: s)
  case 0
  then show ?case using assms(1) by (auto simp: find_None_iff has_prefix_def)
next
  case (Suc n)
  show ?case
  proof (cases "find (has_prefix s) ws")
    case (Some w)
    then have w: "w \<in> set ws" "has_prefix s w" using find_Some_in by fast+
    then have "w \<noteq> []" using assms(1) by auto
    moreover from this have "s \<noteq> []" using w(2) by (auto simp: has_prefix_def)
    ultimately have "length (drop (length w) s) \<le> n"
      using Suc.prems by (cases w; cases s) auto
    then show ?thesis using Suc.IH Some by simp
  qed simp
qed

lemma strip_n_fixed: "find (has_prefix s) ws = None \<Longrightarrow> strip_n n ws s = s"
  by (cases n) simp_all

lemma strip_n_suffix: "\<exists>u. s = u @ strip_n n ws s"
proof (induction n arbitrary: s)
  case (Suc n)
  show ?case
  proof (cases "find (has_prefix s) ws")
    case (Some w)
    obtain u where "drop (length w) s = u @ strip_n n ws (drop (length w) s)"
      using Suc.IH by blast
    then have "s = (take (length w) s @ u) @ strip_n n ws (drop (length w) s)"
      by (metis append.assoc append_take_drop_id)
    then have "\<exists>v. s = v @ strip_n n ws (drop (length w) s)" by blast
    then show ?thesis using Some by simp
  qed simp
qed simp

lemma trim_space_infix: "\<exists>u v. s = u @ trim_space s @ v"
proof -
  obtain u where u: "s = u @ strip space_runes s"
    unfolding strip_def using strip_n_suffix by blast
  obtain v where "rev (strip space_runes s) =
      v @ strip (map rev space_runes) (rev (strip space_runes s))"
    unfolding strip_def using strip_n_suffix by blast
  then have "strip space_runes s = trim_space s @ rev v"
    unfolding trim_space_def by (metis rev_append rev_rev_ident)
  then show ?thesis using u by metis
qed

lemma trim_space_set: "set (trim_space s) \<subseteq> set s"
  using trim_space_infix [of s] by (metis Un_iff set_append subsetI)

lemma trim_space_Nil [simp]: "trim_space [] = []"
  using trim_space_set [of "[]"] by simp

lemma strip_free:
  assumes "[] \<notin> set ws" "set s \<inter> set (concat ws) = {}"
  shows "strip_n n ws s = s"
proof (rule strip_n_fixed)
  have "\<not> has_prefix s w" if w: "w \<in> set ws" for w
  proof
    assume "has_prefix s w"
    then obtain u where u: "s = w @ u" by (auto simp: has_prefix_iff)
    have "w \<noteq> []" using w assms(1) by metis
    then obtain c w' where "w = c # w'" by (cases w) auto
    then show False using u assms(2) w by auto
  qed
  then show "find (has_prefix s) ws = None" by (simp add: find_None_iff)
qed

lemma trim_space_free:
  assumes "set s \<inter> set (concat space_runes) = {}"
  shows "trim_space s = s"
proof -
  have ws: "[] \<notin> set space_runes" "[] \<notin> set (map rev space_runes)" by code_simp+
  have "set (rev s) \<inter> set (concat (map rev space_runes)) = {}" using assms by auto
  then show ?thesis using strip_free [OF ws(1) assms] strip_free [OF ws(2)] by (simp add: trim_space_def strip_def)
qed

subsection \<open>Letter case\<close>

definition ascii_lower :: "char \<Rightarrow> char" where
  "ascii_lower c =
     (if (65::nat) \<le> of_char c \<and> of_char c \<le> (90::nat) then char_of (of_char c + 32 :: nat) else c)"

text \<open>\<open>strings.ToLower\<close>: U+212A and U+0130 are the runes whose lower case is ASCII.\<close>

fun to_lower :: "bytes \<Rightarrow> bytes" where
  "to_lower [] = []"
| "to_lower (a # s) =
     (if has_prefix (a # s) [CHR 0xE2, CHR 0x84, CHR 0xAA] then CHR ''k'' # to_lower (drop 2 s)
      else if has_prefix (a # s) [CHR 0xC4, CHR 0xB0] then CHR ''i'' # to_lower (drop 1 s)
      else ascii_lower a # to_lower s)"

text \<open>
  \<open>strings.EqualFold(s, "latest")\<close>: besides the two ASCII cases of each letter, U+017F (the
  long s) folds to \<open>s\<close>.
\<close>

fun fold_long_s :: "bytes \<Rightarrow> bytes" where
  "fold_long_s [] = []"
| "fold_long_s (a # s) =
     (if has_prefix (a # s) [CHR 0xC5, CHR 0xBF] then CHR ''s'' # fold_long_s (drop 1 s)
      else ascii_lower a # fold_long_s s)"

definition equal_fold_latest :: "bytes \<Rightarrow> bool" where
  "equal_fold_latest s = (fold_long_s s = ''latest'')"

subsection \<open>Numbers\<close>

definition digit_char :: "nat \<Rightarrow> char" where
  "digit_char d = char_of (48 + d)"

definition digit_value :: "char \<Rightarrow> nat" where
  "digit_value c = of_char c - 48"

lemma digit_value_char [simp]: "d < 10 \<Longrightarrow> digit_value (digit_char d) = d"
  by (simp add: digit_value_def digit_char_def)

text \<open>\<open>strconv.Itoa\<close> and the verb \<open>%d\<close> on a number that is not negative.\<close>

fun decimal :: "nat \<Rightarrow> bytes" where
  "decimal n = (if n < 10 then [digit_char n] else decimal (n div 10) @ [digit_char (n mod 10)])"

declare decimal.simps [simp del]

definition decimal_value :: "bytes \<Rightarrow> nat" where
  "decimal_value s = foldl (\<lambda>v c. 10 * v + digit_value c) 0 s"

lemma decimal_value_decimal [simp]: "decimal_value (decimal n) = n"
proof (induction n rule: decimal.induct)
  case (1 n)
  show ?case
  proof (cases "n < 10")
    case True
    then show ?thesis by (simp add: decimal.simps [of n] decimal_value_def)
  next
    case False
    then have "decimal_value (decimal n) = 10 * decimal_value (decimal (n div 10)) + n mod 10"
      by (subst decimal.simps) (simp add: decimal_value_def)
    then show ?thesis using 1 False by simp
  qed
qed

lemma decimal_inject [simp]: "decimal m = decimal n \<longleftrightarrow> m = n"
  by (metis decimal_value_decimal)

lemma digit_chars: "list_all (\<lambda>d. digit_char d \<in> set ''0123456789'') [0..<10]"
  by code_simp

lemma decimal_digits: "c \<in> set (decimal n) \<Longrightarrow> c \<in> set ''0123456789''"
proof (induction n rule: decimal.induct)
  case (1 n)
  have dig: "digit_char d \<in> set ''0123456789''" if "d < 10" for d
    using that digit_chars by (simp add: list_all_iff del: set_simps)
  show ?case
  proof (cases "n < 10")
    case True
    then have "c = digit_char n" using 1(2) by (simp add: decimal.simps [of n])
    then show ?thesis using dig [OF True] by (simp only:)
  next
    case False
    then have "c \<in> set (decimal (n div 10)) \<or> c = digit_char (n mod 10)"
      using 1(2) by (subst (asm) decimal.simps) auto
    then show ?thesis using 1(1) False dig by (metis mod_less_divisor zero_less_numeral)
  qed
qed

definition decimal_int :: "int \<Rightarrow> bytes" where
  "decimal_int i = (if i < 0 then CHR ''-'' # decimal (nat (- i)) else decimal (nat i))"

text \<open>\<open>encoding/hex\<close>: two lower-case digits per byte.\<close>

definition hex_digit :: "nat \<Rightarrow> char" where
  "hex_digit d = (if d < 10 then char_of (48 + d) else char_of (87 + d))"

definition hex_byte :: "char \<Rightarrow> bytes" where
  "hex_byte c = [hex_digit (of_char c div 16), hex_digit (of_char c mod 16)]"

definition hex_encode :: "bytes \<Rightarrow> bytes" where
  "hex_encode s = concat (map hex_byte s)"

definition hex_value :: "char \<Rightarrow> nat option" where
  "hex_value c =
     (let n = of_char c in
      if 48 \<le> n \<and> n \<le> 57 then Some (n - 48)
      else if 97 \<le> n \<and> n \<le> 102 then Some (n - 87)
      else if 65 \<le> n \<and> n \<le> 70 then Some (n - 55)
      else None)"

fun hex_decode :: "bytes \<Rightarrow> bytes option" where
  "hex_decode [] = Some []"
| "hex_decode [c] = None"
| "hex_decode (a # b # s) =
     (case (hex_value a, hex_value b, hex_decode s) of
        (Some x, Some y, Some t) \<Rightarrow> Some (char_of (16 * x + y) # t)
      | _ \<Rightarrow> None)"

lemma hex_value_digit: "d < 16 \<Longrightarrow> hex_value (hex_digit d) = Some d"
  by (auto simp: hex_value_def hex_digit_def Let_def)

lemma hex_decode_encode [simp]: "hex_decode (hex_encode s) = Some s"
proof (induction s)
  case (Cons c s)
  have "of_char c div 16 < (16::nat)"
    using nat_of_char_less_256 [of c] by (simp only: div_less_iff_less_mult)
  moreover have "of_char c mod 16 < (16::nat)" by simp
  moreover have "16 * (of_char c div 16) + of_char c mod 16 = (of_char c :: nat)" by simp
  ultimately show ?case
    using Cons by (simp add: hex_encode_def hex_byte_def hex_value_digit)
qed (simp add: hex_encode_def)

lemma hex_encode_inject [simp]: "hex_encode s = hex_encode t \<longleftrightarrow> s = t"
  by (metis hex_decode_encode option.inject)

lemma length_hex_encode [simp]: "length (hex_encode s) = 2 * length s"
  by (induction s) (simp_all add: hex_encode_def hex_byte_def)

end
