(* ===== verification/Module_Types.thy ===== *)
theory Module_Types
  imports Go_Text
begin

section \<open>The data of a module package\<close>

text \<open>
  The types of \<open>internal/modulecontract/types.go\<close>, one record per struct, the fields in the
  order of the source with a prefix per record. A Go map is an association list whose keys
  are distinct: the list is one of the orders in which \<open>range\<close> may visit the map, and a
  lookup is \<open>map_of\<close>. A nil map and an empty one are the same list.
\<close>

type_synonym 'v go_map = "(bytes \<times> 'v) list"

definition keys_of :: "'v go_map \<Rightarrow> bytes set" where
  "keys_of m = set (map fst m)"

lemma keys_of_iff: "k \<in> keys_of m \<longleftrightarrow> map_of m k \<noteq> None"
  by (simp add: keys_of_def map_of_eq_None_iff)

record image =
  img_Ref :: bytes

record host_port =
  hp_HostPort :: int
  hp_ContainerPort :: int

record mount =
  mnt_StorageID :: bytes
  mnt_Target :: bytes
  mnt_ReadOnly :: bool

record container =
  ctr_ID :: bytes
  ctr_Image :: bytes
  ctr_User :: int
  ctr_UserNS :: bytes
  ctr_Capabilities :: "bytes list"
  ctr_Mounts :: "mount list"
  ctr_Networks :: "bytes list"
  ctr_HostPorts :: "host_port list"
  ctr_Environment :: "bytes go_map"

record persistent_storage =
  sto_ID :: bytes
  sto_Path :: bytes

record secret =
  sec_ID :: bytes
  sec_Source :: bytes
  sec_Delivery :: bytes
  sec_Name :: bytes
  sec_Path :: bytes
  sec_Containers :: "bytes list"

record resources =
  res_MemoryBytes :: int
  res_CPUQuota :: int
  res_PIDsLimit :: int
  res_TasksMax :: int

record network =
  net_ID :: bytes
  net_Role :: bytes

record egress_rule =
  egr_Container :: bytes
  egr_Reason :: bytes

record authelia_policy =
  aut_Mode :: bytes
  aut_Users :: "bytes list"
  aut_Groups :: "bytes list"

record public_route =
  rte_Hostname :: bytes
  rte_PathPrefix :: bytes
  rte_Container :: bytes
  rte_Port :: int
  rte_Authelia :: authelia_policy

record healthcheck =
  hc_ID :: bytes
  hc_Type :: bytes
  hc_Container :: bytes
  hc_URL :: bytes
  hc_Port :: int
  hc_Command :: "bytes list"

record internal_interface =
  ifc_ID :: bytes
  ifc_Container :: bytes
  ifc_Port :: int
  ifc_Protocol :: bytes

record dependency =
  dep_TargetModule :: bytes
  dep_InterfaceID :: bytes
  dep_Consumer :: bytes

record update_transition =
  upd_Actions :: "bytes list"

record uninstall =
  uni_DeletePersistentData :: bool
  uni_DeleteSecrets :: bool

record module_t =
  mod_ID :: bytes
  mod_Version :: bytes
  mod_CoreContract :: bytes
  mod_Images :: "image go_map"
  mod_Containers :: "container list"
  mod_Persistent :: "persistent_storage list"
  mod_Secrets :: "secret list"
  mod_Resources :: resources
  mod_Networks :: "network list"
  mod_Egress :: "egress_rule list"
  mod_PublicRoutes :: "public_route list"
  mod_Healthcheck :: healthcheck
  mod_ServiceChecks :: "healthcheck list"
  mod_ValidationAction :: bytes
  mod_Interfaces :: "internal_interface list"
  mod_Dependencies :: "dependency list"
  mod_Actions :: "bytes go_map"
  mod_UpdateFrom :: "update_transition go_map"
  mod_Uninstall :: uninstall
  mod_ActionFiles :: "bytes go_map"

text \<open>What the YAML decoder fills, before validation.\<close>

record raw_module =
  raw_ModuleID :: bytes
  raw_ModuleVersion :: bytes
  raw_CoreContract :: bytes
  raw_Images :: "image go_map"
  raw_Containers :: "container list"
  raw_Persistent :: "persistent_storage list"
  raw_Secrets :: "secret list"
  raw_Resources :: resources
  raw_Networks :: "network list"
  raw_Egress :: "egress_rule list"
  raw_PublicRoutes :: "public_route list"
  raw_Healthcheck :: healthcheck
  raw_ServiceChecks :: "healthcheck list"
  raw_ValidationAction :: bytes
  raw_Interfaces :: "internal_interface list"
  raw_Dependencies :: "dependency list"
  raw_Actions :: "bytes go_map"
  raw_UpdateFrom :: "update_transition go_map"
  raw_Uninstall :: uninstall

end
