(* ===== verification/Go_Json.thy ===== *)
theory Go_Json
  imports Go_Text
begin

section \<open>JSON as \<open>encoding/json\<close> writes it\<close>

text \<open>
  \<open>json.Marshal\<close> on the values the program marshals: structs and maps become \<open>JObj\<close> with the
  fields in the order of the output (declaration order for a struct, sorted keys for a map),
  slices \<open>JArr\<close>, a \<open>json.RawMessage\<close> is \<open>JRaw\<close>. Strings are escaped
  as \<open>Marshal\<close> does by default: the HTML characters and U+2028, U+2029 by code, a byte that is
  not part of a UTF-8 sequence as the replacement character.
\<close>

datatype json =
    JNull
  | JBool bool
  | JInt int
  | JStr bytes
  | JArr "json list"
  | JObj "(bytes \<times> json) list"
  | JRaw bytes

text \<open>The length of the UTF-8 sequence at the head of a string, 0 when there is none.\<close>

definition byte_in :: "nat \<Rightarrow> nat \<Rightarrow> bytes \<Rightarrow> nat \<Rightarrow> bool" where
  "byte_in lo hi s i = (i < length s \<and> lo \<le> of_char (s ! i) \<and> of_char (s ! i) \<le> hi)"

definition rune_length :: "bytes \<Rightarrow> nat" where
  "rune_length s =
     (if byte_in 0x00 0x7F s 0 then 1
      else if byte_in 0xC2 0xDF s 0 \<and> byte_in 0x80 0xBF s 1 then 2
      else if (byte_in 0xE0 0xE0 s 0 \<and> byte_in 0xA0 0xBF s 1 \<or>
               byte_in 0xE1 0xEC s 0 \<and> byte_in 0x80 0xBF s 1 \<or>
               byte_in 0xED 0xED s 0 \<and> byte_in 0x80 0x9F s 1 \<or>
               byte_in 0xEE 0xEF s 0 \<and> byte_in 0x80 0xBF s 1) \<and> byte_in 0x80 0xBF s 2 then 3
      else if (byte_in 0xF0 0xF0 s 0 \<and> byte_in 0x90 0xBF s 1 \<or>
               byte_in 0xF1 0xF3 s 0 \<and> byte_in 0x80 0xBF s 1 \<or>
               byte_in 0xF4 0xF4 s 0 \<and> byte_in 0x80 0x8F s 1) \<and>
              byte_in 0x80 0xBF s 2 \<and> byte_in 0x80 0xBF s 3 then 4
      else 0)"

definition backslash :: char where "backslash = CHR 0x5C"

definition escape_ascii :: "char \<Rightarrow> bytes" where
  "escape_ascii c =
     (if c = CHR 0x22 \<or> c = backslash then [backslash, c]
      else if c = CHR 0x08 then [backslash, CHR ''b'']
      else if c = CHR 0x0C then [backslash, CHR ''f'']
      else if c = CHR 0x0A then [backslash, CHR ''n'']
      else if c = CHR 0x0D then [backslash, CHR ''r'']
      else if c = CHR 0x09 then [backslash, CHR ''t'']
      else if of_char c < (32 :: nat) \<or> c = CHR ''<'' \<or> c = CHR ''>'' \<or> c = CHR 0x26
      then backslash # ''u00'' @ hex_byte c
      else [c])"

fun escape_n :: "nat \<Rightarrow> bytes \<Rightarrow> bytes" where
  "escape_n 0 s = []"
| "escape_n (Suc n) [] = []"
| "escape_n (Suc n) (c # s) =
     (let k = rune_length (c # s) in
      if k = 0 then backslash # ''ufffd'' @ escape_n n s
      else if k = 1 then escape_ascii c @ escape_n n s
      else if take 3 (c # s) = [CHR 0xE2, CHR 0x80, CHR 0xA8] then backslash # ''u2028'' @ escape_n n (drop 2 s)
      else if take 3 (c # s) = [CHR 0xE2, CHR 0x80, CHR 0xA9] then backslash # ''u2029'' @ escape_n n (drop 2 s)
      else take k (c # s) @ escape_n n (drop k (c # s)))"

text \<open>One step per byte is enough: every step consumes at least one.\<close>

definition json_string :: "bytes \<Rightarrow> bytes" where
  "json_string s = CHR 0x22 # escape_n (length s) s @ [CHR 0x22]"

text \<open>
  A raw message is compacted when it is marshalled: white space outside strings goes, the HTML
  characters and the two line separators are escaped. \<open>str\<close> says that the scan is in a string.
\<close>

definition json_space :: "char \<Rightarrow> bool" where
  "json_space c = (c = CHR 0x20 \<or> c = CHR 0x09 \<or> c = CHR 0x0A \<or> c = CHR 0x0D)"

fun compact_json :: "bool \<Rightarrow> bytes \<Rightarrow> bytes" where
  "compact_json str [] = []"
| "compact_json str (c # s) =
     (if c = CHR ''<'' \<or> c = CHR ''>'' \<or> c = CHR 0x26 then backslash # ''u00'' @ hex_byte c @ compact_json str s
      else if take 3 (c # s) = [CHR 0xE2, CHR 0x80, CHR 0xA8] then backslash # ''u2028'' @ compact_json str (drop 2 s)
      else if take 3 (c # s) = [CHR 0xE2, CHR 0x80, CHR 0xA9] then backslash # ''u2029'' @ compact_json str (drop 2 s)
      else if str then
        (if c = backslash then c # take 1 s @ compact_json True (drop 1 s)
         else c # compact_json (c \<noteq> CHR 0x22) s)
      else if json_space c then compact_json False s
      else c # compact_json (c = CHR 0x22) s)"

fun json_encode :: "json \<Rightarrow> bytes" where
  "json_encode JNull = ''null''"
| "json_encode (JBool b) = (if b then ''true'' else ''false'')"
| "json_encode (JInt i) = decimal_int i"
| "json_encode (JStr s) = json_string s"
| "json_encode (JArr xs) = ''['' @ join_with '','' (map json_encode xs) @ '']''"
| "json_encode (JObj fs) =
     ''{'' @ join_with '','' (map (\<lambda>(k, v). json_string k @ '':'' @ json_encode v) fs) @ ''}''"
| "json_encode (JRaw s) = compact_json False s"

text \<open>A nil slice is \<open>null\<close>; a string or slice field with \<open>omitempty\<close> is left out when empty.\<close>

definition j_slice :: "('a \<Rightarrow> json) \<Rightarrow> 'a list \<Rightarrow> json" where
  "j_slice f xs = (if xs = [] then JNull else JArr (map f xs))"

definition j_strings :: "bytes list \<Rightarrow> json" where
  "j_strings xs = JArr (map JStr xs)"

definition omit_empty :: "bytes \<Rightarrow> bytes \<Rightarrow> (bytes \<times> json) list" where
  "omit_empty k v = (if v = [] then [] else [(k, JStr v)])"

text \<open>A Go map with string values: sorted by key; the nil map is \<open>null\<close>.\<close>

definition j_map :: "(bytes \<times> bytes) list \<Rightarrow> json" where
  "j_map m = JObj (map (\<lambda>(k, v). (k, JStr v)) (sort_key fst m))"

lemma j_map_order:
  "mset m = mset m' \<Longrightarrow> distinct (map fst m) \<Longrightarrow> j_map m = j_map m'"
  by (metis distinct_map j_map_def sort_key_canonical)

end
