(* ===== verification/Bundle_Types.thy ===== *)
theory Bundle_Types
  imports Module_Types Go_Json
begin

section \<open>The data of execution bundles\<close>

text \<open>
  \<open>internal/executionbundle/types.go\<close>. \<open>ExpectedPost\<close> of an input is the JSON value that
  \<open>canonicalJSON\<close> encodes; in the manifest it is the encoded text. The \<open>File\<close>s of an input and
  of the archive are the same record.
\<close>

datatype bundle_kind = Installation | Migration | Validation | Other_Kind bytes

fun kind_text :: "bundle_kind \<Rightarrow> bytes" where
  "kind_text Installation = ''installation''"
| "kind_text Migration = ''migration''"
| "kind_text Validation = ''validation''"
| "kind_text (Other_Kind k) = k"

record source_identity =
  src_Kind :: bytes
  src_ID :: bytes
  src_Version :: bytes
  src_GitCommit :: bytes
  src_PackageSHA256 :: bytes

record image_identity =
  imi_Name :: bytes
  imi_Ref :: bytes
  imi_Digest :: bytes

record runner_identity =
  run_Version :: bytes
  run_Path :: bytes
  run_SHA256 :: bytes

record secret_reference =
  ref_SecretID :: bytes
  ref_Container :: bytes
  ref_Delivery :: bytes
  ref_Target :: bytes

record precondition =
  pre_Kind :: bytes
  pre_Subject :: bytes
  pre_Expected :: bytes

record validation_spec =
  val_ID :: bytes
  val_ReadOnly :: bool

record step =
  stp_ID :: bytes
  stp_Kind :: bytes
  stp_Artifact :: bytes
  stp_Action :: bytes
  stp_Args :: "bytes list"
  stp_Mutating :: bool

record artifact_entry =
  art_Path :: bytes
  art_TargetPath :: bytes
  art_SHA256 :: bytes
  art_Mode :: int

record action_entry =
  act_ID :: bytes
  act_Path :: bytes
  act_SHA256 :: bytes

record manifest =
  man_FormatVersion :: int
  man_Runner :: runner_identity
  man_BundleID :: bytes
  man_Kind :: bundle_kind
  man_TargetID :: bytes
  man_SubjectKind :: bytes
  man_SubjectID :: bytes
  man_SubjectIdentity :: bytes
  man_PackageID :: bytes
  man_PackageSHA256 :: bytes
  man_Version :: bytes
  man_Sources :: "source_identity list"
  man_Images :: "image_identity list"
  man_Artifacts :: "artifact_entry list"
  man_Actions :: "action_entry list"
  man_ActionWritablePaths :: "bytes list"
  man_Secrets :: "secret_reference list"
  man_Preconditions :: "precondition list"
  man_ExpectedPost :: bytes
  man_Validations :: "validation_spec list"
  man_Steps :: "step list"
  man_BackupRequired :: bool
  man_Nil :: "bytes list"

record bundle_file =
  fil_Path :: bytes
  fil_TargetPath :: bytes
  fil_Mode :: int
  fil_Data :: bytes

record bundle_input =
  inp_Kind :: bundle_kind
  inp_TargetID :: bytes
  inp_SubjectKind :: bytes
  inp_SubjectID :: bytes
  inp_SubjectIdentity :: bytes
  inp_PackageID :: bytes
  inp_PackageSHA256 :: bytes
  inp_Version :: bytes
  inp_Sources :: "source_identity list"
  inp_Images :: "image_identity list"
  inp_Files :: "bundle_file list"
  inp_Actions :: "bundle_file list"
  inp_ActionIDs :: "bytes list"
  inp_ActionWritablePaths :: "bytes list"
  inp_Secrets :: "secret_reference list"
  inp_Preconditions :: "precondition list"
  inp_ExpectedPost :: json
  inp_Validations :: "validation_spec list"
  inp_Steps :: "step list"
  inp_BackupRequired :: bool

record exec_bundle =
  bun_ID :: bytes
  bun_Kind :: bundle_kind
  bun_SHA256 :: bytes
  bun_Bytes :: bytes
  bun_Manifest :: manifest

subsection \<open>The JSON of a manifest\<close>

text \<open>
  Field order and \<open>omitempty\<close> are those of the struct tags. A slice that is nil is encoded as \<open>null\<close>, an
  empty one as \<open>[]\<close>: \<open>man_Nil\<close> lists the slices of a manifest that are nil. There is none in a manifest
  that was assembled (\<open>normalizeManifest\<close>); a decoded one has those that its text leaves out or gives as \<open>null\<close>, and
  \<open>Verify\<close> encodes it again. An \<open>ExpectedPost\<close> that is left out is a nil \<open>RawMessage\<close>, encoded as \<open>null\<close>.
\<close>

definition manifest_slices :: "bytes list" where
  "manifest_slices =
     [''sources'', ''images'', ''artifacts'', ''actions'', ''action_writable_paths'', ''secrets'', ''preconditions'',
      ''validations'', ''steps'']"

definition man_slice :: "manifest \<Rightarrow> bytes \<Rightarrow> ('a \<Rightarrow> json) \<Rightarrow> 'a list \<Rightarrow> bytes \<times> json" where
  "man_slice m name f xs = (name, if xs = [] \<and> name \<in> set (man_Nil m) then JNull else JArr (map f xs))"

definition source_json :: "source_identity \<Rightarrow> json" where
  "source_json s =
     JObj ([(''kind'', JStr (src_Kind s)), (''id'', JStr (src_ID s)), (''version'', JStr (src_Version s))]
       @ omit_empty ''git_commit'' (src_GitCommit s)
       @ [(''package_sha256'', JStr (src_PackageSHA256 s))])"

definition image_json :: "image_identity \<Rightarrow> json" where
  "image_json i =
     JObj [(''name'', JStr (imi_Name i)), (''ref'', JStr (imi_Ref i)), (''digest'', JStr (imi_Digest i))]"

definition runner_json :: "runner_identity \<Rightarrow> json" where
  "runner_json r =
     JObj [(''version'', JStr (run_Version r)), (''path'', JStr (run_Path r)), (''sha256'', JStr (run_SHA256 r))]"

definition secret_ref_json :: "secret_reference \<Rightarrow> json" where
  "secret_ref_json r =
     JObj [(''secret_id'', JStr (ref_SecretID r)), (''container'', JStr (ref_Container r)),
           (''delivery'', JStr (ref_Delivery r)), (''target'', JStr (ref_Target r))]"

definition precondition_json :: "precondition \<Rightarrow> json" where
  "precondition_json p =
     JObj [(''kind'', JStr (pre_Kind p)), (''subject'', JStr (pre_Subject p)), (''expected'', JStr (pre_Expected p))]"

definition validation_json :: "validation_spec \<Rightarrow> json" where
  "validation_json v = JObj [(''id'', JStr (val_ID v)), (''read_only'', JBool (val_ReadOnly v))]"

definition step_json :: "step \<Rightarrow> json" where
  "step_json s =
     JObj ([(''id'', JStr (stp_ID s)), (''kind'', JStr (stp_Kind s))]
       @ omit_empty ''artifact'' (stp_Artifact s) @ omit_empty ''action'' (stp_Action s)
       @ (if stp_Args s = [] then [] else [(''args'', j_strings (stp_Args s))])
       @ [(''mutating'', JBool (stp_Mutating s))])"

definition artifact_json :: "artifact_entry \<Rightarrow> json" where
  "artifact_json a =
     JObj [(''path'', JStr (art_Path a)), (''target_path'', JStr (art_TargetPath a)),
           (''sha256'', JStr (art_SHA256 a)), (''mode'', JInt (art_Mode a))]"

definition action_json :: "action_entry \<Rightarrow> json" where
  "action_json a =
     JObj [(''id'', JStr (act_ID a)), (''path'', JStr (act_Path a)), (''sha256'', JStr (act_SHA256 a))]"

definition manifest_json :: "manifest \<Rightarrow> json" where
  "manifest_json m =
     JObj ([(''format_version'', JInt (man_FormatVersion m)), (''runner'', runner_json (man_Runner m)),
            (''bundle_id'', JStr (man_BundleID m)), (''kind'', JStr (kind_text (man_Kind m))),
            (''target_vps_id'', JStr (man_TargetID m)), (''subject_kind'', JStr (man_SubjectKind m)),
            (''subject_id'', JStr (man_SubjectID m)), (''subject_identity'', JStr (man_SubjectIdentity m))]
       @ omit_empty ''package_id'' (man_PackageID m) @ omit_empty ''package_sha256'' (man_PackageSHA256 m)
       @ [(''version'', JStr (man_Version m)), man_slice m ''sources'' source_json (man_Sources m),
          man_slice m ''images'' image_json (man_Images m),
          man_slice m ''artifacts'' artifact_json (man_Artifacts m),
          man_slice m ''actions'' action_json (man_Actions m)]
       @ (if man_ActionWritablePaths m = [] then []
          else [(''action_writable_paths'', j_strings (man_ActionWritablePaths m))])
       @ [man_slice m ''secrets'' secret_ref_json (man_Secrets m),
          man_slice m ''preconditions'' precondition_json (man_Preconditions m),
          (''expected_post_state'', if man_ExpectedPost m = [] then JNull else JRaw (man_ExpectedPost m)),
          man_slice m ''validations'' validation_json (man_Validations m),
          man_slice m ''steps'' step_json (man_Steps m),
          (''backup_required'', JBool (man_BackupRequired m))])"

text \<open>\<open>canonicalJSON\<close>: \<open>json.Marshal\<close> writes compact text, so \<open>json.Compact\<close> changes nothing.\<close>

definition canonical_json :: "json \<Rightarrow> bytes" where
  "canonical_json j = json_encode j"

end
