(* ===== verification/Go_Path.thy ===== *)
theory Go_Path
  imports Go_Text
begin

section \<open>Slash-separated paths\<close>

text \<open>
  \<open>path.Clean\<close> and \<open>path.Base\<close> of the Go standard library. \<open>Clean\<close> is written on the
  components between slashes: empty ones and \<open>.\<close> are dropped, \<open>..\<close> removes the component
  before it, and is kept where there is none to remove and the path is not rooted. The
  lemmas say what it means for a path to be clean, the form in which the validators use it.
\<close>

definition clean_step :: "bool \<Rightarrow> bytes list \<Rightarrow> bytes \<Rightarrow> bytes list" where
  "clean_step rooted st c =
     (if c = [] \<or> c = ''.'' then st
      else if c = ''..'' then
        (case st of
           [] \<Rightarrow> (if rooted then [] else [c])
         | t # st' \<Rightarrow> (if t = ''..'' then c # st else st'))
      else c # st)"

definition clean_comps :: "bool \<Rightarrow> bytes list \<Rightarrow> bytes list" where
  "clean_comps rooted cs = rev (foldl (clean_step rooted) [] cs)"

definition path_clean :: "bytes \<Rightarrow> bytes" where
  "path_clean p =
     (case p of
        [] \<Rightarrow> ''.''
      | c # _ \<Rightarrow>
          let rooted = (c = CHR ''/''); out = clean_comps rooted (split_on CHR ''/'' p) in
          if rooted then CHR ''/'' # join_with ''/'' out
          else if out = [] then ''.''
          else join_with ''/'' out)"

definition path_base :: "bytes \<Rightarrow> bytes" where
  "path_base p =
     (if p = [] then ''.''
      else
        let q = rev (dropWhile (\<lambda>c. c = CHR ''/'') (rev p)) in
        if q = [] then ''/'' else last (split_on CHR ''/'' q))"

text \<open>A component that \<open>Clean\<close> keeps wherever it stands.\<close>

definition plain_comp :: "bytes \<Rightarrow> bool" where
  "plain_comp c = (c \<noteq> [] \<and> c \<noteq> ''.'' \<and> c \<noteq> ''..'' \<and> CHR ''/'' \<notin> set c)"

lemma clean_comps_skip [simp]: "clean_comps rooted ([] # cs) = clean_comps rooted cs"
  by (simp add: clean_comps_def clean_step_def)

lemma clean_comps_Nil [simp]: "clean_comps rooted [] = []"
  by (simp add: clean_comps_def)

definition kept_comp :: "bool \<Rightarrow> bytes \<Rightarrow> bool" where
  "kept_comp rooted c = (plain_comp c \<or> \<not> rooted \<and> c = ''..'')"

lemma clean_step_plain [simp]: "plain_comp c \<Longrightarrow> clean_step rooted st c = c # st"
  by (simp add: clean_step_def plain_comp_def)

lemma clean_comps_plain:
  assumes "\<forall>c\<in>set cs. plain_comp c"
  shows "clean_comps rooted cs = cs"
proof -
  have "foldl (clean_step rooted) st cs = rev cs @ st" for st
    using assms by (induction cs arbitrary: st) auto
  then show ?thesis by (simp add: clean_comps_def)
qed

lemma clean_step_kept:
  assumes "CHR ''/'' \<notin> set c" "\<forall>d\<in>set st. kept_comp rooted d"
  shows "\<forall>d\<in>set (clean_step rooted st c). kept_comp rooted d"
proof (cases "plain_comp c")
  case True
  then show ?thesis using assms(2) by (simp add: kept_comp_def)
next
  case False
  then consider "c = [] \<or> c = ''.''" | "c = ''..''" using assms(1) by (auto simp: plain_comp_def)
  then show ?thesis
  proof cases
    case 1
    then show ?thesis using assms(2) by (auto simp: clean_step_def)
  next
    case 2
    show ?thesis
    proof (cases st)
      case Nil
      then show ?thesis using 2 by (simp add: clean_step_def kept_comp_def)
    next
      case (Cons t st')
      then have "rooted \<Longrightarrow> t \<noteq> ''..''" using assms(2) by (auto simp: kept_comp_def plain_comp_def)
      then show ?thesis using 2 Cons assms(2) by (auto simp: clean_step_def kept_comp_def)
    qed
  qed
qed

lemma clean_comps_kept:
  assumes "\<forall>c\<in>set cs. CHR ''/'' \<notin> set c"
  shows "\<forall>c\<in>set (clean_comps rooted cs). kept_comp rooted c"
proof -
  have "\<forall>c\<in>set st. kept_comp rooted c \<Longrightarrow>
      \<forall>c\<in>set (foldl (clean_step rooted) st cs). kept_comp rooted c" for st
    using assms
  proof (induction cs arbitrary: st)
    case (Cons c cs)
    have "\<forall>d\<in>set (clean_step rooted st c). kept_comp rooted d"
      using Cons.prems by (intro clean_step_kept) simp_all
    then show ?case using Cons.IH Cons.prems(2) by simp
  qed simp
  from this [of "[]"] show ?thesis by (simp add: clean_comps_def)
qed

lemma contains_join: "c \<in> set cs \<Longrightarrow> contains_str (join_with sep cs) c"
proof (induction sep cs rule: join_with.induct)
  case (2 sep p)
  then show ?case by (auto simp: contains_str_iff intro: exI [of _ "[]"])
next
  case (3 sep p q ps)
  show ?case
  proof (cases "c = p")
    case True
    have "join_with sep (p # q # ps) = [] @ p @ (sep @ join_with sep (q # ps))" by simp
    then show ?thesis unfolding contains_str_iff True by blast
  next
    case False
    then obtain u v where "join_with sep (q # ps) = u @ c @ v"
      using 3 by (auto simp: contains_str_iff)
    then have "join_with sep (p # q # ps) = (p @ sep @ u) @ c @ v" by simp
    then show ?thesis unfolding contains_str_iff by blast
  qed
qed simp

text \<open>An absolute path is clean iff it is the root or a chain of plain components.\<close>

lemma path_clean_absolute:
  "has_prefix p ''/'' \<and> path_clean p = p \<longleftrightarrow>
   (\<exists>cs. p = CHR ''/'' # join_with ''/'' cs \<and> (\<forall>c\<in>set cs. plain_comp c))"
proof
  assume clean: "has_prefix p ''/'' \<and> path_clean p = p"
  then obtain q where p: "p = CHR ''/'' # q" by (auto simp: has_prefix_iff)
  let ?out = "clean_comps True (split_on CHR ''/'' p)"
  have "p = CHR ''/'' # join_with ''/'' ?out"
    using clean p by (simp add: path_clean_def)
  moreover have "\<forall>c\<in>set ?out. plain_comp c"
    using clean_comps_kept [of "split_on CHR ''/'' p" True] split_on_free
    by (auto simp: kept_comp_def)
  ultimately show "\<exists>cs. p = CHR ''/'' # join_with ''/'' cs \<and> (\<forall>c\<in>set cs. plain_comp c)"
    by blast
next
  assume "\<exists>cs. p = CHR ''/'' # join_with ''/'' cs \<and> (\<forall>c\<in>set cs. plain_comp c)"
  then obtain cs where p: "p = CHR ''/'' # join_with ''/'' cs"
    and plain: "\<forall>c\<in>set cs. plain_comp c" by blast
  have "clean_comps True (split_on CHR ''/'' p) = cs"
  proof (cases cs)
    case Nil
    then show ?thesis using p by simp
  next
    case (Cons c ds)
    then have "split_on CHR ''/'' (join_with ''/'' cs) = cs"
      using plain by (intro split_join) (auto simp: plain_comp_def)
    then show ?thesis using p plain by (simp add: clean_comps_plain)
  qed
  then show "has_prefix p ''/'' \<and> path_clean p = p"
    using p by (simp add: path_clean_def has_prefix_def)
qed

text \<open>A clean relative path without \<open>..\<close> is a chain of plain components, or \<open>.\<close> itself.\<close>

lemma path_clean_relative:
  assumes "path_clean p = p" "\<not> has_prefix p ''/''" "\<not> contains_str p ''..''" "p \<noteq> ''.''"
  shows "\<exists>cs. cs \<noteq> [] \<and> p = join_with ''/'' cs \<and> (\<forall>c\<in>set cs. plain_comp c)"
proof -
  have ne: "p \<noteq> []" using assms(1) by (auto simp: path_clean_def)
  then obtain h t where p: "p = h # t" by (cases p) auto
  have h: "h \<noteq> CHR ''/''" using assms(2) p by (auto simp: has_prefix_def)
  let ?out = "clean_comps False (split_on CHR ''/'' p)"
  have out: "?out \<noteq> []" "p = join_with ''/'' ?out"
    using assms(1,4) p h by (auto simp: path_clean_def Let_def split: if_splits)
  have kinds: "\<forall>c\<in>set ?out. plain_comp c \<or> c = ''..''"
    using clean_comps_kept [of "split_on CHR ''/'' p" False] split_on_free
    by (auto simp: kept_comp_def)
  have "''..'' \<notin> set ?out"
    using contains_join [of "''..''" ?out "''/''"] out(2) assms(3) by auto
  then show ?thesis using kinds out by blast
qed

lemma path_clean_plain:
  assumes "cs \<noteq> []" "\<forall>c\<in>set cs. plain_comp c"
  shows "path_clean (join_with ''/'' cs) = join_with ''/'' cs"
proof -
  have split: "split_on CHR ''/'' (join_with ''/'' cs) = cs"
    using assms by (intro split_join) (auto simp: plain_comp_def)
  obtain h t where "hd cs = h # t" "h \<noteq> CHR ''/''"
    using assms by (cases cs; cases "hd cs") (auto simp: plain_comp_def)
  then obtain t' where "join_with ''/'' cs = h # t'" using assms(1)
    by (cases cs; cases "tl cs") auto
  then show ?thesis
    using split assms \<open>h \<noteq> CHR ''/''\<close> by (simp add: path_clean_def clean_comps_plain)
qed

end
