(* ===== verification/Sha256.thy ===== *)
theory Sha256
  imports Go_Text "HOL-Library.Word"
begin

section \<open>SHA-256\<close>

unbundle bit_operations_syntax

text \<open>
  \<open>crypto/sha256\<close>: every identifier the program derives from content is one of these
  digests. The function is written out on 32-bit words as the standard FIPS 180-4 has it,
  the constants in decimal. The components use it through the interface \<open>digest\<close>: the length of a
  digest is fixed, nothing else is assumed of it; in particular no lemma of the development
  claims that two contents have different digests.
\<close>

type_synonym word32 = "32 word"

definition rotr :: "nat \<Rightarrow> word32 \<Rightarrow> word32" where
  "rotr n w = (drop_bit n w OR push_bit (32 - n) w)"

definition sha_k :: "word32 list" where
  "sha_k =
     [1116352408, 1899447441, 3049323471, 3921009573, 961987163, 1508970993, 2453635748, 2870763221,
      3624381080, 310598401, 607225278, 1426881987, 1925078388, 2162078206, 2614888103, 3248222580,
      3835390401, 4022224774, 264347078, 604807628, 770255983, 1249150122, 1555081692, 1996064986,
      2554220882, 2821834349, 2952996808, 3210313671, 3336571891, 3584528711, 113926993, 338241895,
      666307205, 773529912, 1294757372, 1396182291, 1695183700, 1986661051, 2177026350, 2456956037,
      2730485921, 2820302411, 3259730800, 3345764771, 3516065817, 3600352804, 4094571909, 275423344,
      430227734, 506948616, 659060556, 883997877, 958139571, 1322822218, 1537002063, 1747873779,
      1955562222, 2024104815, 2227730452, 2361852424, 2428436474, 2756734187, 3204031479, 3329325298]"

text \<open>Padding: the bit 1, zeros up to 56 modulo 64, the length in bits as 64 bits.\<close>

definition be_bytes :: "nat \<Rightarrow> int \<Rightarrow> bytes" where
  "be_bytes k n = map (\<lambda>i. char_of (drop_bit (8 * i) n)) (rev [0..<k])"

definition be_value :: "bytes \<Rightarrow> int" where
  "be_value s = foldl (\<lambda>v c. 256 * v + of_char c) 0 s"

definition sha_pad :: "bytes \<Rightarrow> bytes" where
  "sha_pad m =
     m @ [CHR 0x80] @ replicate ((119 - length m mod 64) mod 64) (CHR 0x00)
       @ be_bytes 8 (8 * int (length m))"

fun words_of :: "bytes \<Rightarrow> word32 list" where
  "words_of (a # b # c # d # s) = of_int (be_value [a, b, c, d]) # words_of s"
| "words_of s = []"

text \<open>The message schedule, the newest word first.\<close>

definition sigma0 :: "word32 \<Rightarrow> word32" where
  "sigma0 x = rotr 7 x XOR rotr 18 x XOR drop_bit 3 x"

definition sigma1 :: "word32 \<Rightarrow> word32" where
  "sigma1 x = rotr 17 x XOR rotr 19 x XOR drop_bit 10 x"

fun schedule :: "nat \<Rightarrow> word32 list \<Rightarrow> word32 list" where
  "schedule 0 ws = ws"
| "schedule (Suc n) ws =
     schedule n ((sigma1 (ws ! 1) + ws ! 6 + sigma0 (ws ! 14) + ws ! 15) # ws)"

fun sha_round :: "word32 list \<Rightarrow> word32 \<times> word32 \<Rightarrow> word32 list" where
  "sha_round [a, b, c, d, e, f, g, h] (k, w) =
     (let t1 = h + (rotr 6 e XOR rotr 11 e XOR rotr 25 e) + ((e AND f) XOR (NOT e AND g)) + k + w;
          t2 = (rotr 2 a XOR rotr 13 a XOR rotr 22 a) + ((a AND b) XOR (a AND c) XOR (b AND c))
      in [t1 + t2, a, b, c, d + t1, e, f, g])"
| "sha_round st kw = st"

definition sha_block :: "word32 list \<Rightarrow> word32 list \<Rightarrow> word32 list" where
  "sha_block st ws =
     map2 (+) st (foldl sha_round st (zip sha_k (rev (schedule 48 (rev ws)))))"

fun sha_blocks :: "nat \<Rightarrow> word32 list \<Rightarrow> word32 list \<Rightarrow> word32 list" where
  "sha_blocks 0 st ws = st"
| "sha_blocks (Suc n) st ws = sha_blocks n (sha_block st (take 16 ws)) (drop 16 ws)"

definition sha_init :: "word32 list" where
  "sha_init =
     [0x6a09e667, 0xbb67ae85, 0x3c6ef372, 0xa54ff53a, 0x510e527f, 0x9b05688c, 0x1f83d9ab, 0x5be0cd19]"

definition sha256 :: "bytes \<Rightarrow> bytes" where
  "sha256 m =
     (let p = sha_pad m in
      concat (map (\<lambda>w. be_bytes 4 (uint w)) (sha_blocks (length p div 64) sha_init (words_of p))))"

lemma length_be_bytes [simp]: "length (be_bytes k n) = k"
  by (simp add: be_bytes_def)

lemma be_bytes_Suc: "be_bytes (Suc k) n = char_of (drop_bit (8 * k) n) # be_bytes k n"
  by (simp add: be_bytes_def)

lemma be_value_Cons: "be_value (c # s) = of_char c * 256 ^ length s + be_value s"
proof -
  have "foldl (\<lambda>v c. 256 * v + of_char c) v s = v * 256 ^ length s + foldl (\<lambda>v c. 256 * v + of_char c) 0 s"
    for v :: int
  proof (induction s rule: rev_induct)
    case (snoc x s)
    then show ?case by simp
  qed simp
  from this [of "of_char c"] show ?thesis by (simp add: be_value_def)
qed

lemma be_value_bytes: "be_value (be_bytes k n) = n mod 256 ^ k"
proof (induction k)
  case 0
  then show ?case by (simp add: be_bytes_def be_value_def)
next
  case (Suc k)
  have "n mod (256 ^ k * 256) = 256 ^ k * (n div 256 ^ k mod 256) + n mod 256 ^ k"
    by (rule zmod_zmult2_eq) simp
  moreover have "(2::int) ^ (8 * k) = 256 ^ k" by (simp add: power_mult)
  ultimately show ?case
    using Suc by (simp add: be_bytes_Suc be_value_Cons drop_bit_eq_div mult.commute)
qed

lemma length_map2_foldl_round: "length st = 8 \<Longrightarrow> length (foldl sha_round st xs) = 8"
proof (induction xs arbitrary: st)
  case (Cons x xs)
  obtain a b c d e f g h where "st = [a, b, c, d, e, f, g, h]"
    using Cons.prems by (auto simp: numeral_eq_Suc length_Suc_conv)
  then have "length (sha_round st x) = 8" by (cases x) (simp add: Let_def)
  then show ?case using Cons.IH by simp
qed simp

lemma length_sha_blocks: "length st = 8 \<Longrightarrow> length (sha_blocks n st ws) = 8"
  by (induction n arbitrary: st ws) (simp_all add: sha_block_def length_map2_foldl_round)

subsection \<open>The interface of a digest\<close>

locale digest =
  fixes hash :: "bytes \<Rightarrow> bytes" and size :: nat
  assumes hash_length: "length (hash m) = size"
begin

lemma hex_hash_length: "length (hex_encode (hash m)) = 2 * size"
  by (simp add: hash_length)

text \<open>An identifier that is a tag followed by a digest determines both.\<close>

lemma tagged_hash_eq:
  "tag @ hex_encode (hash m) = tag' @ hex_encode (hash m') \<longleftrightarrow> tag = tag' \<and> hash m = hash m'"
  by (auto simp: append_eq_append_conv hash_length)

end

lemma length_sha256 [simp]: "length (sha256 m) = 32"
proof -
  have "length (concat (map (\<lambda>w. be_bytes 4 (uint w)) ws)) = 4 * length ws" for ws :: "word32 list"
    by (induction ws) simp_all
  moreover have "length sha_init = 8" by (simp add: sha_init_def)
  ultimately show ?thesis by (simp add: sha256_def Let_def length_sha_blocks)
qed

interpretation sha: digest sha256 32
  by unfold_locales simp

end
