(* ===== verification/Bundle_Normalize.thy ===== *)
theory Bundle_Normalize
  imports Bundle_Types Go_Path Sha256
begin

section \<open>The input of a bundle\<close>

text \<open>
  \<open>internal/executionbundle/normalize.go\<close>: the checks on the input of an assembly, the files it
  puts into the archive with the entries that describe them, and the canonical order of the
  lists of a manifest.
\<close>

definition valid_sha256 :: "bytes \<Rightarrow> bool" where
  "valid_sha256 v = (length v = 64 \<and> list_all (\<lambda>c. c \<in> set ''0123456789abcdef'') v)"

definition complete_source :: "source_identity \<Rightarrow> bool" where
  "complete_source s =
     (trim_space (src_Kind s) \<noteq> [] \<and> trim_space (src_ID s) \<noteq> [] \<and> trim_space (src_Version s) \<noteq> [] \<and>
      valid_sha256 (src_PackageSHA256 s))"

definition complete_image :: "image_identity \<Rightarrow> bool" where
  "complete_image i =
     (trim_space (imi_Name i) \<noteq> [] \<and> trim_space (imi_Ref i) \<noteq> [] \<and> has_prefix (imi_Digest i) ''sha256:'' \<and>
      valid_sha256 (trim_prefix (imi_Digest i) ''sha256:''))"

definition writable_path_ok :: "bytes \<Rightarrow> bool" where
  "writable_path_ok v =
     (v \<noteq> [] \<and> has_prefix v ''/'' \<and> path_clean v = v \<and>
      \<not> contains_any v [CHR 0x0D, CHR 0x0A, CHR 0x00, CHR 0x09, CHR 0x20])"

definition validate_input :: "bundle_input \<Rightarrow> unit result" where
  "validate_input i =
     checks
       [reject_if (case inp_Kind i of Other_Kind _ \<Rightarrow> True | _ \<Rightarrow> False) (Err ''invalid bundle kind''),
        reject_if (trim_space (inp_TargetID i) = [] \<or> trim_space (inp_SubjectKind i) = [] \<or>
            trim_space (inp_SubjectID i) = [] \<or> trim_space (inp_SubjectIdentity i) = [] \<or> trim_space (inp_Version i) = [])
          (Err ''bundle identity is incomplete''),
        reject_if (length (inp_ActionIDs i) \<noteq> length (inp_Actions i))
          (Err ''action IDs and action files must have equal length''),
        reject_if (inp_ActionWritablePaths i \<noteq> [] \<and> inp_SubjectKind i \<noteq> ''module'')
          (Err ''action writable paths are only valid for module bundles''),
        bind_r
          (each_unique
            (\<lambda>v. reject_if (\<not> writable_path_ok v) (Errf ''invalid action writable path %q'' [v]))
            (\<lambda>v. v) (\<lambda>v. Errf ''duplicate action writable path %s'' [v]) (\<lambda>v. Inr ()) {}
            (inp_ActionWritablePaths i)) (\<lambda>_. Inr ()),
        reject_if (inp_PackageSHA256 i \<noteq> [] \<and> \<not> valid_sha256 (inp_PackageSHA256 i))
          (Err ''bundle package sha256 is invalid''),
        for_each (\<lambda>s. reject_if (\<not> complete_source s) (Err ''bundle source identity is incomplete or invalid''))
          (inp_Sources i),
        for_each (\<lambda>m. reject_if (\<not> complete_image m) (Err ''bundle image identity is incomplete or invalid''))
          (inp_Images i),
        if inp_Kind i = Validation
        then for_each (\<lambda>s. reject_if (stp_Mutating s) (Errf ''validation bundle contains mutating step %s'' [stp_ID s]))
               (inp_Steps i)
        else Inr ()]"

subsection \<open>Files\<close>

text \<open>The mode bits outside \<open>0o755\<close>: \<open>f.Mode &^ 0o755 != 0\<close>, on the 64-bit two's complement.\<close>

definition unsafe_mode :: "int \<Rightarrow> bool" where
  "unsafe_mode m = (and m (not 493) \<noteq> 0)"

definition bundle_path_ok :: "bytes \<Rightarrow> bool" where
  "bundle_path_ok p =
     (p \<noteq> [] \<and> path_clean p = p \<and> \<not> has_prefix p ''/'' \<and> \<not> has_prefix p ''../'' \<and>
      \<not> contains_any p [CHR 0x0D, CHR 0x0A, CHR 0x00])"

definition target_path_ok :: "bytes \<Rightarrow> bool" where
  "target_path_ok p =
     (p \<noteq> [] \<and> has_prefix p ''/'' \<and> path_clean p = p \<and> \<not> contains_any p [CHR 0x0D, CHR 0x0A, CHR 0x00])"

abbreviation sha256_hex :: "bytes \<Rightarrow> bytes" where
  "sha256_hex s \<equiv> hex_encode (sha256 s)"

text \<open>The closure \<open>add\<close>: the archived file has the default mode, the caller's copy does not.\<close>

definition add_file :: "bundle_file list \<Rightarrow> bundle_file \<Rightarrow> bundle_file list result" where
  "add_file files f =
     (if \<not> bundle_path_ok (fil_Path f) then Inl (Errf ''invalid bundle path %q'' [fil_Path f])
      else if fil_Path f \<in> fil_Path ` set files then Inl (Errf ''duplicate bundle path %s'' [fil_Path f])
      else
        (let mode = (if fil_Mode f = 0 then 292 else fil_Mode f) in
         if unsafe_mode mode then Inl (Errf ''unsafe mode for %s'' [fil_Path f])
         else Inr (files @ [f\<lparr>fil_Mode := mode\<rparr>])))"

definition add_artifact ::
  "bundle_file list \<times> artifact_entry list \<Rightarrow> bundle_file \<Rightarrow> (bundle_file list \<times> artifact_entry list) result" where
  "add_artifact st f =
     also_r (reject_if (\<not> target_path_ok (fil_TargetPath f)) (Errf ''invalid artifact target path %q'' [fil_TargetPath f]))
       (bind_r (add_file (fst st) f) (\<lambda>files. Inr (files, snd st @
         [\<lparr>art_Path = fil_Path f, art_TargetPath = fil_TargetPath f, art_SHA256 = sha256_hex (fil_Data f),
           art_Mode = fil_Mode f\<rparr>])))"

definition add_action ::
  "bundle_file list \<times> action_entry list \<Rightarrow> bytes \<times> bundle_file \<Rightarrow> (bundle_file list \<times> action_entry list) result" where
  "add_action st p =
     (case p of (i, f) \<Rightarrow>
        bind_r (add_file (fst st) f) (\<lambda>files. Inr (files, snd st @
          [\<lparr>act_ID = i, act_Path = fil_Path f, act_SHA256 = sha256_hex (fil_Data f)\<rparr>])))"

definition normalize_files ::
  "bundle_input \<Rightarrow> (bundle_file list \<times> artifact_entry list \<times> action_entry list) result" where
  "normalize_files i =
     bind_r (fold_r add_artifact ([], []) (inp_Files i)) (\<lambda>(files, artifacts).
     bind_r (fold_r add_action (files, []) (zip (inp_ActionIDs i) (inp_Actions i))) (\<lambda>(files', actions).
     Inr (files', sort_key art_Path artifacts, actions)))"

subsection \<open>The order of a manifest\<close>

definition normalize_manifest :: "manifest \<Rightarrow> manifest" where
  "normalize_manifest m =
     m\<lparr>man_Sources := sort_key (\<lambda>s. (src_Kind s, src_ID s)) (man_Sources m),
       man_Images := sort_key imi_Name (man_Images m),
       man_Artifacts := sort_key art_Path (man_Artifacts m),
       man_ActionWritablePaths := sort (man_ActionWritablePaths m),
       man_Secrets := sort_key (\<lambda>s. (ref_SecretID s, ref_Container s, ref_Target s)) (man_Secrets m),
       man_Preconditions := sort_key (\<lambda>p. (pre_Kind p, pre_Subject p, pre_Expected p)) (man_Preconditions m),
       man_Validations := sort_key val_ID (man_Validations m),
       man_Nil := []\<rparr>"

subsection \<open>What normalization keeps\<close>

lemma add_file_Inr_iff:
  "add_file files f = Inr files' \<longleftrightarrow>
     bundle_path_ok (fil_Path f) \<and> fil_Path f \<notin> fil_Path ` set files \<and>
     \<not> unsafe_mode (if fil_Mode f = 0 then 292 else fil_Mode f) \<and>
     files' = files @ [f\<lparr>fil_Mode := if fil_Mode f = 0 then 292 else fil_Mode f\<rparr>]"
  by (auto simp: add_file_def Let_def)

text \<open>An archived file is the input file with the default mode filled in.\<close>

definition archived :: "bundle_file \<Rightarrow> bundle_file" where
  "archived f = f\<lparr>fil_Mode := if fil_Mode f = 0 then 292 else fil_Mode f\<rparr>"

definition file_ok :: "bundle_file \<Rightarrow> bool" where
  "file_ok f = (bundle_path_ok (fil_Path f) \<and> \<not> unsafe_mode (fil_Mode (archived f)))"

definition artifact_of :: "bundle_file \<Rightarrow> artifact_entry" where
  "artifact_of f =
     \<lparr>art_Path = fil_Path f, art_TargetPath = fil_TargetPath f, art_SHA256 = sha256_hex (fil_Data f),
      art_Mode = fil_Mode f\<rparr>"

definition action_of :: "bytes \<times> bundle_file \<Rightarrow> action_entry" where
  "action_of p = \<lparr>act_ID = fst p, act_Path = fil_Path (snd p), act_SHA256 = sha256_hex (fil_Data (snd p))\<rparr>"

lemma archived_path [simp]: "fil_Path (archived f) = fil_Path f" "fil_Data (archived f) = fil_Data f"
  by (simp_all add: archived_def)

lemma add_artifacts_Inr_iff:
  "fold_r add_artifact (files, arts) fs = Inr (files', arts') \<longleftrightarrow>
     (\<forall>f\<in>set fs. target_path_ok (fil_TargetPath f) \<and> file_ok f) \<and>
     distinct (map fil_Path fs) \<and> fil_Path ` set fs \<inter> fil_Path ` set files = {} \<and>
     files' = files @ map archived fs \<and> arts' = arts @ map artifact_of fs"
proof (induction fs arbitrary: files arts)
  case (Cons f fs)
  have "fold_r add_artifact (files, arts) (f # fs) = Inr (files', arts') \<longleftrightarrow>
      target_path_ok (fil_TargetPath f) \<and> file_ok f \<and> fil_Path f \<notin> fil_Path ` set files \<and>
      fold_r add_artifact (files @ [archived f], arts @ [artifact_of f]) fs = Inr (files', arts')"
    by (auto simp: result_simps add_artifact_def add_file_Inr_iff file_ok_def archived_def artifact_of_def)
  then show ?case using Cons.IH by auto
qed auto

lemma add_actions_Inr_iff:
  assumes "map snd ps = fs"
  shows "fold_r add_action (files, acts) ps = Inr (files', acts') \<longleftrightarrow>
     (\<forall>f\<in>set fs. file_ok f) \<and>
     distinct (map fil_Path fs) \<and> fil_Path ` set fs \<inter> fil_Path ` set files = {} \<and>
     files' = files @ map archived fs \<and> acts' = acts @ map action_of ps"
  using assms
proof (induction ps arbitrary: files acts fs)
  case (Cons p ps)
  obtain f gs where fs: "fs = f # gs" "snd p = f" "map snd ps = gs" using Cons.prems by auto
  have "fold_r add_action (files, acts) (p # ps) = Inr (files', acts') \<longleftrightarrow>
      file_ok f \<and> fil_Path f \<notin> fil_Path ` set files \<and>
      fold_r add_action (files @ [archived f], acts @ [action_of p]) ps = Inr (files', acts')"
    using fs(2) by (cases p) (auto simp: result_simps add_action_def add_file_Inr_iff file_ok_def archived_def action_of_def)
  then show ?case using Cons.IH [OF fs(3)] fs(1) by auto
qed auto

lemma normalize_files_accepts:
  assumes "length (inp_ActionIDs i) = length (inp_Actions i)"
  shows "normalize_files i = Inr (files, arts, acts) \<longleftrightarrow>
    (\<forall>f\<in>set (inp_Files i). target_path_ok (fil_TargetPath f)) \<and>
    (\<forall>f\<in>set (inp_Files i @ inp_Actions i). file_ok f) \<and>
    distinct (map fil_Path (inp_Files i @ inp_Actions i)) \<and>
    files = map archived (inp_Files i @ inp_Actions i) \<and>
    arts = sort_key art_Path (map artifact_of (inp_Files i)) \<and>
    acts = map action_of (zip (inp_ActionIDs i) (inp_Actions i))"
proof -
  have zip: "map snd (zip (inp_ActionIDs i) (inp_Actions i)) = inp_Actions i"
    using assms by simp
  have paths: "fil_Path ` set (map archived fs) = fil_Path ` set fs" for fs
    by (simp add: image_image)
  show ?thesis
    unfolding normalize_files_def bind_r_Inr_iff split_paired_Ex prod.case add_artifacts_Inr_iff
      add_actions_Inr_iff [OF zip] map_append distinct_append set_append ball_Un set_map [symmetric]
    by (auto simp: paths image_image)
qed

text \<open>
  normalization succeeds exactly when every path and mode is acceptable and no two files,
  artifacts and actions together, have the same path; the archive then holds every input file
  once with its data, and every entry carries the digest of its file.
\<close>

theorem normalize_files_Inr_iff:
  assumes "length (inp_ActionIDs i) = length (inp_Actions i)"
  shows "normalize_files i = Inr (files, arts, acts) \<longleftrightarrow>
    (\<forall>f\<in>set (inp_Files i). target_path_ok (fil_TargetPath f)) \<and>
    (\<forall>f\<in>set (inp_Files i @ inp_Actions i). file_ok f) \<and>
    distinct (map fil_Path (inp_Files i @ inp_Actions i)) \<and>
    files = map archived (inp_Files i @ inp_Actions i) \<and>
    arts = sort_key art_Path (map artifact_of (inp_Files i)) \<and>
    acts = map action_of (zip (inp_ActionIDs i) (inp_Actions i))"
  by (rule normalize_files_accepts [OF assms])

end
