(* ===== verification/Go_Regexp.thy ===== *)
theory Go_Regexp
  imports Go_Text
begin

section \<open>The regular expressions of the program\<close>

text \<open>
  The package \<open>regexp\<close> on the fragment the program uses: anchored expressions over ASCII
  character classes, so that a match is a statement about bytes. \<open>matches\<close> computes by
  derivatives; \<open>accepts\<close> is the language of an expression as an inductive predicate, and
  \<open>matches_iff\<close> says that they agree. A class is a list of ranges, as the source writes it.
\<close>

datatype regex =
    REmpty
  | REps
  | RClass "(char \<times> char) list"
  | RSeq regex regex
  | RAlt regex regex
  | RStar regex

definition in_class :: "(char \<times> char) list \<Rightarrow> char \<Rightarrow> bool" where
  "in_class rs c =
     list_ex (\<lambda>(lo, hi). of_char lo \<le> (of_char c :: nat) \<and> of_char c \<le> (of_char hi :: nat)) rs"

fun nullable :: "regex \<Rightarrow> bool" where
  "nullable REmpty = False"
| "nullable REps = True"
| "nullable (RClass rs) = False"
| "nullable (RSeq r s) = (nullable r \<and> nullable s)"
| "nullable (RAlt r s) = (nullable r \<or> nullable s)"
| "nullable (RStar r) = True"

text \<open>The constructors with the unit laws applied keep derivatives small.\<close>

definition mk_seq :: "regex \<Rightarrow> regex \<Rightarrow> regex" where
  "mk_seq r s = (if r = REmpty then REmpty else if r = REps then s else RSeq r s)"

definition mk_alt :: "regex \<Rightarrow> regex \<Rightarrow> regex" where
  "mk_alt r s = (if r = REmpty then s else if s = REmpty then r else RAlt r s)"

fun deriv :: "char \<Rightarrow> regex \<Rightarrow> regex" where
  "deriv c REmpty = REmpty"
| "deriv c REps = REmpty"
| "deriv c (RClass rs) = (if in_class rs c then REps else REmpty)"
| "deriv c (RSeq r s) =
     (if nullable r then mk_alt (mk_seq (deriv c r) s) (deriv c s) else mk_seq (deriv c r) s)"
| "deriv c (RAlt r s) = mk_alt (deriv c r) (deriv c s)"
| "deriv c (RStar r) = mk_seq (deriv c r) (RStar r)"

fun matches :: "regex \<Rightarrow> bytes \<Rightarrow> bool" where
  "matches r [] = nullable r"
| "matches r (c # s) = matches (deriv c r) s"

inductive accepts :: "regex \<Rightarrow> bytes \<Rightarrow> bool" where
  accepts_eps: "accepts REps []"
| accepts_class: "in_class rs c \<Longrightarrow> accepts (RClass rs) [c]"
| accepts_seq: "accepts r u \<Longrightarrow> accepts s v \<Longrightarrow> accepts (RSeq r s) (u @ v)"
| accepts_left: "accepts r u \<Longrightarrow> accepts (RAlt r s) u"
| accepts_right: "accepts s u \<Longrightarrow> accepts (RAlt r s) u"
| accepts_done: "accepts (RStar r) []"
| accepts_more: "accepts r u \<Longrightarrow> accepts (RStar r) v \<Longrightarrow> accepts (RStar r) (u @ v)"

inductive_simps accepts_simps [simp]:
  "accepts REmpty s" "accepts REps s" "accepts (RClass rs) s" "accepts (RAlt r q) s"

inductive_simps accepts_seq_iff: "accepts (RSeq r q) s"

lemma accepts_class_seq:
  "accepts (RSeq (RClass rs) q) s \<longleftrightarrow> (\<exists>c v. s = c # v \<and> in_class rs c \<and> accepts q v)"
proof
  assume "accepts (RSeq (RClass rs) q) s"
  then show "\<exists>c v. s = c # v \<and> in_class rs c \<and> accepts q v"
    by (auto simp: accepts_seq_iff)
next
  assume "\<exists>c v. s = c # v \<and> in_class rs c \<and> accepts q v"
  then obtain c v where cv: "s = c # v" "in_class rs c" "accepts q v" by blast
  have "accepts (RSeq (RClass rs) q) ([c] @ v)" by (intro accepts_seq accepts_class cv)
  then show "accepts (RSeq (RClass rs) q) s" using cv(1) by simp
qed

lemma nullable_iff: "nullable r \<longleftrightarrow> accepts r []"
  by (induction r) (auto simp: accepts_seq_iff intro: accepts_done)

lemma accepts_star_Cons:
  "accepts (RStar r) (c # s) \<longleftrightarrow>
     (\<exists>u v. s = u @ v \<and> accepts r (c # u) \<and> accepts (RStar r) v)"
proof
  have "accepts q t \<Longrightarrow> q = RStar r \<Longrightarrow> t = c # s \<Longrightarrow>
      \<exists>u v. s = u @ v \<and> accepts r (c # u) \<and> accepts (RStar r) v" for q t
  proof (induction q t rule: accepts.induct)
    case (accepts_more r' u v)
    then show ?case by (cases u) auto
  qed simp_all
  then show "accepts (RStar r) (c # s) \<Longrightarrow>
      \<exists>u v. s = u @ v \<and> accepts r (c # u) \<and> accepts (RStar r) v" by blast
next
  assume "\<exists>u v. s = u @ v \<and> accepts r (c # u) \<and> accepts (RStar r) v"
  then show "accepts (RStar r) (c # s)" using accepts_more by (metis append_Cons)
qed

lemma accepts_mk_seq [simp]: "accepts (mk_seq r q) s \<longleftrightarrow> accepts (RSeq r q) s"
  by (auto simp: mk_seq_def accepts_seq_iff)

lemma accepts_mk_alt [simp]: "accepts (mk_alt r q) s \<longleftrightarrow> accepts r s \<or> accepts q s"
  by (auto simp: mk_alt_def)

lemma accepts_seq_Cons:
  "accepts (RSeq r q) (c # s) \<longleftrightarrow>
     (\<exists>u v. s = u @ v \<and> accepts r (c # u) \<and> accepts q v) \<or>
     accepts r [] \<and> accepts q (c # s)"
  unfolding accepts_seq_iff by (auto simp: Cons_eq_append_conv)

lemma accepts_deriv: "accepts (deriv c r) s \<longleftrightarrow> accepts r (c # s)"
proof (induction r arbitrary: s)
  case (RSeq r q)
  then show ?case
    by (auto simp: accepts_seq_Cons nullable_iff) (auto simp: accepts_seq_iff)
next
  case (RStar r)
  then show ?case by (auto simp: accepts_star_Cons accepts_seq_iff)
qed auto

lemma matches_iff: "matches r s \<longleftrightarrow> accepts r s"
  by (induction s arbitrary: r) (simp_all add: nullable_iff accepts_deriv)

text \<open>The bytes an expression can consume.\<close>

fun re_chars :: "regex \<Rightarrow> (char \<times> char) list" where
  "re_chars REmpty = []"
| "re_chars REps = []"
| "re_chars (RClass rs) = rs"
| "re_chars (RSeq r s) = re_chars r @ re_chars s"
| "re_chars (RAlt r s) = re_chars r @ re_chars s"
| "re_chars (RStar r) = re_chars r"

lemma accepts_chars: "accepts r s \<Longrightarrow> c \<in> set s \<Longrightarrow> in_class (re_chars r) c"
  by (induction rule: accepts.induct) (auto simp: in_class_def)

subsection \<open>Derived forms\<close>

text \<open>Literals, strings, options, plus, counted repetition and chains.\<close>

definition r_char :: "char \<Rightarrow> regex" where
  "r_char c = RClass [(c, c)]"

fun r_seq :: "regex list \<Rightarrow> regex" where
  "r_seq [] = REps"
| "r_seq [r] = r"
| "r_seq (r # q # rs) = RSeq r (r_seq (q # rs))"

fun r_alt :: "regex list \<Rightarrow> regex" where
  "r_alt [] = REmpty"
| "r_alt [r] = r"
| "r_alt (r # q # rs) = RAlt r (r_alt (q # rs))"

definition r_str :: "bytes \<Rightarrow> regex" where
  "r_str s = r_seq (map r_char s)"

definition r_opt :: "regex \<Rightarrow> regex" where
  "r_opt r = RAlt r REps"

definition r_plus :: "regex \<Rightarrow> regex" where
  "r_plus r = RSeq r (RStar r)"

text \<open>\<open>r{0,n}\<close> and \<open>r{n}\<close>.\<close>

fun r_upto :: "nat \<Rightarrow> regex \<Rightarrow> regex" where
  "r_upto 0 r = REps"
| "r_upto (Suc n) r = r_opt (RSeq r (r_upto n r))"

fun r_exactly :: "nat \<Rightarrow> regex \<Rightarrow> regex" where
  "r_exactly 0 r = REps"
| "r_exactly (Suc n) r = RSeq r (r_exactly n r)"

lemma accepts_r_char [simp]: "accepts (r_char c) s \<longleftrightarrow> s = [c]"
  by (auto simp: r_char_def in_class_def)

lemma in_class_append [simp]: "in_class (rs @ qs) c \<longleftrightarrow> in_class rs c \<or> in_class qs c"
  by (simp add: in_class_def)

lemma in_class_Nil [simp]: "\<not> in_class [] c"
  by (simp add: in_class_def)

lemma in_class_Cons:
  "in_class (r # rs) c \<longleftrightarrow>
     of_char (fst r) \<le> (of_char c :: nat) \<and> of_char c \<le> (of_char (snd r) :: nat) \<or> in_class rs c"
  by (auto simp: in_class_def)

lemma in_class_r_upto: "in_class (re_chars (r_upto n r)) c \<Longrightarrow> in_class (re_chars r) c"
  by (induction n) (auto simp: r_opt_def)

lemma accepts_r_upto_length:
  "accepts (r_upto n (RClass rs)) s \<longleftrightarrow> length s \<le> n \<and> (\<forall>c\<in>set s. in_class rs c)"
proof (induction n arbitrary: s)
  case (Suc n)
  show ?case
    by (cases s) (auto simp: r_opt_def accepts_class_seq Suc)
qed auto

lemma accepts_r_exactly_length:
  "accepts (r_exactly n (RClass rs)) s \<longleftrightarrow> length s = n \<and> (\<forall>c\<in>set s. in_class rs c)"
proof (induction n arbitrary: s)
  case (Suc n)
  show ?case by (cases s) (auto simp: accepts_class_seq Suc)
qed auto

end
