(* ===== verification/Module_Validate.thy ===== *)
theory Module_Validate
  imports Module_Types Go_Path Go_Regexp
begin

section \<open>Validation of a module package\<close>

text \<open>
  \<open>internal/modulecontract/validation.go\<close>, \<open>validation_refs.go\<close>, \<open>validation_actions.go\<close> and the
  predicates of \<open>helpers.go\<close>. Every check is in the order of the source and fails with its
  error. \<open>url.Parse\<close> is the parameter \<open>parse_url\<close>: the scheme and the host of a URL, or
  nothing when it does not parse.
\<close>

subsection \<open>Patterns and predicates\<close>

definition lower :: "char \<times> char" where "lower = (CHR ''a'', CHR ''z'')"
definition digit :: "char \<times> char" where "digit = (CHR ''0'', CHR ''9'')"
definition upper :: "char \<times> char" where "upper = (CHR ''A'', CHR ''Z'')"
definition just :: "char \<Rightarrow> char \<times> char" where "just c = (c, c)"

definition identifier_re :: regex where
  "identifier_re =
     r_seq [RClass [lower], RStar (RClass [lower, digit]),
       RStar (RSeq (RClass [just CHR ''-'', just CHR ''_'', just CHR ''.''])
                   (r_plus (RClass [lower, digit])))]"

definition exact_version_re :: regex where
  "exact_version_re =
     r_seq [r_plus (RClass [digit]),
       r_upto 3 (RSeq (r_char CHR ''.'') (r_plus (RClass [digit]))),
       r_opt (RSeq (RClass [just CHR ''-'', just CHR ''+''])
                   (r_plus (RClass [digit, upper, lower, just CHR ''.'', just CHR ''-''])))]"

definition host_label_re :: regex where
  "host_label_re =
     RSeq (RClass [lower, digit])
       (r_opt (RSeq (r_upto 61 (RClass [lower, digit, just CHR ''-''])) (RClass [lower, digit])))"

definition hostname_re :: regex where
  "hostname_re = RSeq host_label_re (r_plus (RSeq (r_char CHR ''.'') host_label_re))"

abbreviation is_identifier :: "bytes \<Rightarrow> bool" where
  "is_identifier s \<equiv> matches identifier_re s"

definition validate_image_ref :: "bytes \<Rightarrow> unit result" where
  "validate_image_ref ref0 =
     (let ref = trim_space ref0; slash = last_index CHR ''/'' ref; colon = last_index CHR '':'' ref;
          tag = drop (nat (colon + 1)) ref
      in checks
        [reject_if (ref = []) (Err ''image ref is required''),
         reject_if (contains_str ref ''@'')
           (Err ''module image must declare a readable fixed tag, not a digest''),
         reject_if (colon \<le> slash \<or> colon = int (length ref) - 1)
           (Err ''image ref must include explicit tag''),
         reject_if (equal_fold_latest tag) (Err ''latest image tag is forbidden''),
         reject_if (contains_any tag ''*<>=^~| '') (Err ''free image version/range is forbidden'')])"

definition is_exact_version :: "bytes \<Rightarrow> bool" where
  "is_exact_version v0 =
     (let v = trim_space v0 in matches exact_version_re v \<and> \<not> contains_any v ''*<>=^~| ,'')"

definition exact_version :: "bytes \<Rightarrow> bytes \<Rightarrow> unit result" where
  "exact_version field v = reject_if (\<not> is_exact_version v) (Errf ''%s must be an exact version'' [field])"

definition is_absolute_clean_path :: "bytes \<Rightarrow> bool" where
  "is_absolute_clean_path v =
     (has_prefix v ''/'' \<and> path_clean v = v \<and>
      \<not> contains_any v [CHR 0x0D, CHR 0x0A, CHR 0x00])"

definition valid_port :: "int \<Rightarrow> bool" where
  "valid_port p = (1 \<le> p \<and> p \<le> 65535)"

subsection \<open>Containers\<close>

definition validate_container :: "bytes set \<Rightarrow> container \<Rightarrow> unit result" where
  "validate_container images c =
     checks
       [reject_if (ctr_Image c \<notin> images)
          (Errf ''container %s references unknown image %s'' [ctr_ID c, ctr_Image c]),
        reject_if (ctr_User c < 0) (Errf ''container %s requires numeric runtime user'' [ctr_ID c]),
        reject_if (ctr_UserNS c \<noteq> ''nomap'') (Errf ''container %s must use UserNS=nomap'' [ctr_ID c]),
        reject_if (ctr_HostPorts c \<noteq> [])
          (Errf ''container %s requests direct public hostports'' [ctr_ID c]),
        bind_r
          (each_unique
            (\<lambda>k. reject_if (trim_space k = []) (Errf ''container %s has empty capability'' [ctr_ID c]))
            (\<lambda>k. k) (\<lambda>k. Errf ''container %s has duplicate capability %s'' [ctr_ID c, k])
            (\<lambda>k. Inr ()) {} (ctr_Capabilities c)) (\<lambda>_. Inr ()),
        bind_r
          (each_unique (\<lambda>n. Inr ()) (\<lambda>n. n)
            (\<lambda>n. Errf ''container %s has duplicate network %s'' [ctr_ID c, n])
            (\<lambda>n. Inr ()) {} (ctr_Networks c)) (\<lambda>_. Inr ()),
        bind_r
          (each_unique (\<lambda>t. Inr ()) mnt_Target
            (\<lambda>t. Errf ''container %s has duplicate mount target %s'' [ctr_ID c, mnt_Target t])
            (\<lambda>t. Inr ()) {} (ctr_Mounts c)) (\<lambda>_. Inr ())]"

definition validate_containers :: "module_t \<Rightarrow> bytes set \<Rightarrow> bytes set result" where
  "validate_containers m images =
     each_unique
       (\<lambda>c. reject_if (\<not> is_identifier (ctr_ID c)) (Errf ''invalid container id %q'' [ctr_ID c]))
       ctr_ID (\<lambda>c. Errf ''duplicate container %s'' [ctr_ID c])
       (validate_container images) {} (mod_Containers m)"

subsection \<open>Storage and networks\<close>

fun validate_storage_items ::
  "persistent_storage list \<Rightarrow> bytes set \<Rightarrow> bytes go_map \<Rightarrow> bytes set result" where
  "validate_storage_items [] storage paths = Inr storage"
| "validate_storage_items (s # ss) storage paths =
     (if \<not> is_identifier (sto_ID s) then Inl (Errf ''invalid persistent storage id %q'' [sto_ID s])
      else if sto_ID s \<in> storage then Inl (Errf ''duplicate persistent storage %s'' [sto_ID s])
      else if \<not> is_absolute_clean_path (sto_Path s)
      then Inl (Errf ''persistent storage %s has invalid path'' [sto_ID s])
      else
        (case map_of paths (sto_Path s) of
           Some owner \<Rightarrow>
             Inl (Errf ''persistent path %s claimed by both %s and %s'' [sto_Path s, owner, sto_ID s])
         | None \<Rightarrow>
             validate_storage_items ss (insert (sto_ID s) storage) ((sto_Path s, sto_ID s) # paths)))"

definition validate_storage :: "module_t \<Rightarrow> unit result" where
  "validate_storage m =
     bind_r (validate_storage_items (mod_Persistent m) {} [])
       (\<lambda>storage.
          for_each
            (\<lambda>c. for_each
              (\<lambda>t. checks
                [reject_if (mnt_StorageID t \<notin> storage)
                   (Errf ''container %s references undeclared persistent storage %s''
                      [ctr_ID c, mnt_StorageID t]),
                 reject_if (\<not> is_absolute_clean_path (mnt_Target t))
                   (Errf ''container %s has invalid mount target'' [ctr_ID c])])
              (ctr_Mounts c))
            (mod_Containers m))"

definition network_roles :: "bytes set" where
  "network_roles = {''edge'', ''internal'', ''app'', ''egress''}"

definition validate_networks :: "module_t \<Rightarrow> unit result" where
  "validate_networks m =
     bind_r
       (each_unique
         (\<lambda>n. reject_if (\<not> is_identifier (net_ID n)) (Errf ''invalid module network id %q'' [net_ID n]))
         net_ID (\<lambda>n. Errf ''duplicate module network %s'' [net_ID n])
         (\<lambda>n. reject_if (net_Role n \<notin> network_roles)
            (Errf ''module network %s has invalid role %q'' [net_ID n, net_Role n]))
         {} (mod_Networks m))
       (\<lambda>networks.
          for_each
            (\<lambda>c. for_each
              (\<lambda>n. reject_if (n \<notin> networks)
                (Errf ''container %s references unknown module network %s'' [ctr_ID c, n]))
              (ctr_Networks c))
            (mod_Containers m))"

subsection \<open>Secrets\<close>

definition secret_target :: "secret \<Rightarrow> bytes" where
  "secret_target s = (if sec_Delivery s = ''file'' then sec_Path s else sec_Name s)"

definition secret_target_key :: "secret \<Rightarrow> bytes \<Rightarrow> bytes" where
  "secret_target_key s c = c @ '':'' @ sec_Delivery s @ '':'' @ secret_target s"

text \<open>The loop over the target containers of one secret.\<close>

definition claim_secret_target ::
  "bytes set \<Rightarrow> secret \<Rightarrow> bytes go_map \<Rightarrow> bytes \<Rightarrow> bytes go_map result" where
  "claim_secret_target containers s targets c =
     (if c \<notin> containers then Inl (Errf ''secret %s references unknown container %s'' [sec_ID s, c])
      else
        (case map_of targets (secret_target_key s c) of
           Some owner \<Rightarrow>
             Inl (Errf ''secret target %s is shared by %s and %s''
                    [secret_target_key s c, owner, sec_ID s])
         | None \<Rightarrow> Inr ((secret_target_key s c, sec_ID s) # targets)))"

record secret_scan =
  scan_IDs :: "bytes set"
  scan_EnvNames :: "bytes set"
  scan_Targets :: "bytes go_map"

definition scan_secret :: "bytes set \<Rightarrow> secret_scan \<Rightarrow> secret \<Rightarrow> secret_scan result" where
  "scan_secret containers st s =
     also_r
       (checks
         [reject_if (\<not> is_identifier (sec_ID s)) (Errf ''invalid secret id %q'' [sec_ID s]),
          reject_if (sec_ID s \<in> scan_IDs st) (Errf ''duplicate secret %s'' [sec_ID s]),
          reject_if (sec_Source s \<noteq> ''generated'' \<and> sec_Source s \<noteq> ''user'')
            (Errf ''secret %s has invalid source'' [sec_ID s]),
          reject_if (sec_Delivery s \<noteq> ''environment'' \<and> sec_Delivery s \<noteq> ''file'')
            (Errf ''secret %s has invalid delivery'' [sec_ID s]),
          reject_if (trim_space (sec_Name s) = []) (Errf ''secret %s requires target name'' [sec_ID s]),
          reject_if (sec_Delivery s = ''file'' \<and> \<not> is_absolute_clean_path (sec_Path s))
            (Errf ''secret %s file delivery requires absolute clean path'' [sec_ID s]),
          reject_if (sec_Containers s = []) (Errf ''secret %s has no target container'' [sec_ID s])])
       (bind_r (fold_r (claim_secret_target containers s) (scan_Targets st) (sec_Containers s))
         (\<lambda>targets. Inr
           \<lparr>scan_IDs = insert (sec_ID s) (scan_IDs st),
            scan_EnvNames =
              (if sec_Delivery s = ''environment'' then insert (sec_Name s) (scan_EnvNames st)
               else scan_EnvNames st),
            scan_Targets = targets\<rparr>))"

definition validate_secrets :: "module_t \<Rightarrow> bytes set \<Rightarrow> unit result" where
  "validate_secrets m containers =
     bind_r
       (fold_r (scan_secret containers) \<lparr>scan_IDs = {}, scan_EnvNames = {}, scan_Targets = []\<rparr>
         (mod_Secrets m))
       (\<lambda>st.
          for_each
            (\<lambda>c. for_each
              (\<lambda>(name, _). reject_if (name \<in> scan_EnvNames st)
                (Errf ''container %s environment %s duplicates declared secret target''
                   [ctr_ID c, name]))
              (ctr_Environment c))
            (mod_Containers m))"

subsection \<open>Integration: egress, routes, checks, interfaces and dependencies\<close>

definition validate_healthcheck ::
  "(bytes \<Rightarrow> (bytes \<times> bytes) option) \<Rightarrow> healthcheck \<Rightarrow> bytes set \<Rightarrow> bool \<Rightarrow> unit result" where
  "validate_healthcheck parse_url h containers primary =
     (let label = (if primary then ''healthcheck'' else ''service check'') in
      checks
       [reject_if (hc_ID h = [] \<and> \<not> primary) (Err ''service check requires id''),
        reject_if (hc_Container h \<notin> containers)
          (Errf ''%s references unknown container %s'' [label, hc_Container h]),
        if hc_Type h = ''http'' then
          (case parse_url (hc_URL h) of
             None \<Rightarrow> Inl (Errf ''%s requires valid http(s) url'' [label])
           | Some (scheme, host) \<Rightarrow>
               reject_if ((scheme \<noteq> ''http'' \<and> scheme \<noteq> ''https'') \<or> host = [])
                 (Errf ''%s requires valid http(s) url'' [label]))
        else if hc_Type h = ''tcp'' then
          reject_if (\<not> valid_port (hc_Port h)) (Errf ''%s requires valid tcp port'' [label])
        else if hc_Type h = ''command'' then
          reject_if (hc_Command h = [] \<or> trim_space (hd (hc_Command h)) = [])
            (Errf ''%s requires command'' [label])
        else Inl (Errf ''%s type must be http, tcp, or command'' [label])])"

text \<open>
  \<open>networkRoles\<close> and \<open>containerNetworks\<close>: the roles of the networks a container is attached
  to. A network that is not declared has the role \<open>""\<close>, as a missing key of the Go map; a
  container that is not declared has no entry, and the lookup in the nil map finds nothing.
\<close>

definition network_role :: "module_t \<Rightarrow> bytes \<Rightarrow> bytes" where
  "network_role m n =
     (case map_of (rev (map (\<lambda>k. (net_ID k, net_Role k)) (mod_Networks m))) n of
        Some r \<Rightarrow> r | None \<Rightarrow> [])"

definition container_roles :: "module_t \<Rightarrow> bytes \<Rightarrow> bytes set" where
  "container_roles m c =
     (case map_of (rev (map (\<lambda>k. (ctr_ID k, ctr_Networks k)) (mod_Containers m))) c of
        Some ns \<Rightarrow> network_role m ` set ns | None \<Rightarrow> {})"

definition validate_egress :: "module_t \<Rightarrow> bytes set \<Rightarrow> egress_rule \<Rightarrow> unit result" where
  "validate_egress m containers e =
     checks
       [reject_if (egr_Container e \<notin> containers)
          (Errf ''egress references unknown container %s'' [egr_Container e]),
        reject_if (trim_space (egr_Reason e) = [])
          (Errf ''egress for container %s requires reason'' [egr_Container e]),
        reject_if (''egress'' \<notin> container_roles m (egr_Container e))
          (Errf ''egress container %s must be attached to an egress network'' [egr_Container e])]"

definition route_key :: "public_route \<Rightarrow> bytes" where
  "route_key r = to_lower (rte_Hostname r) @ '':'' @ rte_PathPrefix r"

definition validate_routes :: "module_t \<Rightarrow> bytes set \<Rightarrow> bytes set result" where
  "validate_routes m containers =
     each_unique
       (\<lambda>r. checks
         [reject_if (\<not> matches hostname_re (to_lower (rte_Hostname r)))
            (Errf ''invalid public hostname %q'' [rte_Hostname r]),
          reject_if (rte_Container r \<notin> containers)
            (Errf ''public route references unknown container %s'' [rte_Container r]),
          reject_if (\<not> valid_port (rte_Port r))
            (Errf ''public route %s has invalid port'' [rte_Hostname r]),
          reject_if (rte_PathPrefix r = [] \<or> \<not> has_prefix (rte_PathPrefix r) ''/'')
            (Errf ''public route %s requires absolute path prefix'' [rte_Hostname r]),
          reject_if (aut_Mode (rte_Authelia r) \<noteq> ''protected'' \<and> aut_Mode (rte_Authelia r) \<noteq> ''public'')
            (Errf ''public route %s has invalid Authelia mode'' [rte_Hostname r])])
       route_key
       (\<lambda>r. Errf ''duplicate public route %s%s'' [rte_Hostname r, rte_PathPrefix r])
       (\<lambda>r. reject_if (''edge'' \<notin> container_roles m (rte_Container r))
          (Errf ''public route container %s must be attached to an edge network'' [rte_Container r]))
       {} (mod_PublicRoutes m)"

definition validate_service_checks ::
  "(bytes \<Rightarrow> (bytes \<times> bytes) option) \<Rightarrow> module_t \<Rightarrow> bytes set \<Rightarrow> bytes set result" where
  "validate_service_checks parse_url m containers =
     each_unique
       (\<lambda>h. reject_if (\<not> is_identifier (hc_ID h)) (Err ''service check requires stable id''))
       hc_ID (\<lambda>h. Errf ''duplicate service check %s'' [hc_ID h])
       (\<lambda>h. validate_healthcheck parse_url h containers False)
       {} (mod_ServiceChecks m)"

definition validate_interfaces :: "module_t \<Rightarrow> bytes set \<Rightarrow> bytes set result" where
  "validate_interfaces m containers =
     each_unique
       (\<lambda>i. reject_if (\<not> is_identifier (ifc_ID i)) (Errf ''invalid internal interface id %q'' [ifc_ID i]))
       ifc_ID (\<lambda>i. Errf ''duplicate internal interface %s'' [ifc_ID i])
       (\<lambda>i. checks
         [reject_if (ifc_Container i \<notin> containers)
            (Errf ''interface %s references unknown container %s'' [ifc_ID i, ifc_Container i]),
          reject_if (\<not> valid_port (ifc_Port i)) (Errf ''interface %s has invalid port'' [ifc_ID i]),
          reject_if (ifc_Protocol i \<noteq> ''tcp'' \<and> ifc_Protocol i \<noteq> ''http'')
            (Errf ''interface %s has invalid protocol'' [ifc_ID i])])
       {} (mod_Interfaces m)"

definition dependency_key :: "dependency \<Rightarrow> bytes" where
  "dependency_key d = dep_TargetModule d @ '':'' @ dep_InterfaceID d @ '':'' @ dep_Consumer d"

definition validate_dependencies :: "module_t \<Rightarrow> bytes set \<Rightarrow> bytes set result" where
  "validate_dependencies m containers =
     each_unique
       (\<lambda>d. checks
         [reject_if (\<not> is_identifier (dep_TargetModule d) \<or> \<not> is_identifier (dep_InterfaceID d))
            (Err ''dependency requires valid target_module and interface''),
          reject_if (dep_TargetModule d = mod_ID m)
            (Errf ''module %s cannot depend on itself through a Link-Net'' [mod_ID m]),
          reject_if (dep_Consumer d \<notin> containers)
            (Errf ''dependency references unknown consumer container %s'' [dep_Consumer d])])
       dependency_key (\<lambda>d. Errf ''duplicate dependency %s'' [dependency_key d])
       (\<lambda>d. Inr ()) {} (mod_Dependencies m)"

definition validate_integration ::
  "(bytes \<Rightarrow> (bytes \<times> bytes) option) \<Rightarrow> module_t \<Rightarrow> bytes set \<Rightarrow> unit result" where
  "validate_integration parse_url m containers =
     checks
       [for_each (validate_egress m containers) (mod_Egress m),
        bind_r (validate_routes m containers) (\<lambda>_. Inr ()),
        validate_healthcheck parse_url (mod_Healthcheck m) containers True,
        bind_r (validate_service_checks parse_url m containers) (\<lambda>_. Inr ()),
        bind_r (validate_interfaces m containers) (\<lambda>_. Inr ()),
        bind_r (validate_dependencies m containers) (\<lambda>_. Inr ())]"

subsection \<open>Actions and updates\<close>

definition validate_action_path :: "bytes \<Rightarrow> unit result" where
  "validate_action_path v =
     checks
       [reject_if (v = [] \<or> path_clean v \<noteq> v \<or> has_prefix v ''/'' \<or> contains_str v ''..'')
          (Err ''action path must be a clean relative path''),
        reject_if (\<not> has_prefix v ''actions/'' \<or> \<not> has_suffix v ''.sh'')
          (Err ''action path must match actions/<file>.sh''),
        reject_if (count_list v CHR ''/'' \<noteq> 1)
          (Err ''action scripts must live directly under actions/'')]"

definition validate_actions :: "module_t \<Rightarrow> unit result" where
  "validate_actions m =
     checks
       [reject_if (mod_Actions m = []) (Err ''at least validation action must be registered''),
        for_each
          (\<lambda>(i, rel). checks
            [reject_if (\<not> is_identifier i) (Errf ''invalid action id %q'' [i]),
             wrap_error ''action %s: %w'' [i] (validate_action_path rel)])
          (mod_Actions m),
        reject_if (mod_ValidationAction m \<notin> keys_of (mod_Actions m))
          (Errf ''unknown validation action %s'' [mod_ValidationAction m]),
        for_each
          (\<lambda>(old, transition). checks
            [exact_version ''update_from'' old,
             reject_if (old = mod_Version m)
               (Errf ''update_from cannot reference target version %s'' [old]),
             for_each
               (\<lambda>a. reject_if (a \<notin> keys_of (mod_Actions m))
                  (Errf ''unknown action id %s in update_from %s'' [a, old]))
               (upd_Actions transition)])
          (mod_UpdateFrom m)]"

subsection \<open>The module\<close>

definition validate_image :: "bytes \<times> image \<Rightarrow> unit result" where
  "validate_image p =
     checks
       [reject_if (\<not> is_identifier (fst p)) (Errf ''invalid image id %q'' [fst p]),
        wrap_error ''image %s: %w'' [fst p] (validate_image_ref (img_Ref (snd p)))]"

definition validate_module ::
  "(bytes \<Rightarrow> (bytes \<times> bytes) option) \<Rightarrow> module_t \<Rightarrow> unit result" where
  "validate_module parse_url m =
     also_r
       (checks
         [reject_if (\<not> is_identifier (mod_ID m)) (Err ''module_id must be a stable lowercase identifier''),
          exact_version ''module_version'' (mod_Version m),
          exact_version ''core_contract'' (mod_CoreContract m),
          reject_if (mod_Images m = []) (Err ''at least one image is required''),
          reject_if (mod_Containers m = []) (Err ''at least one container is required''),
          reject_if (trim_space (mod_ValidationAction m) = []) (Err ''validation_action is required''),
          reject_if (\<not> uni_DeletePersistentData (mod_Uninstall m) \<or> \<not> uni_DeleteSecrets (mod_Uninstall m))
            (Err ''uninstall must delete persistent data and module secrets''),
          reject_if (res_MemoryBytes (mod_Resources m) \<le> 0 \<or> res_CPUQuota (mod_Resources m) \<le> 0 \<or>
              res_PIDsLimit (mod_Resources m) \<le> 0 \<or> res_TasksMax (mod_Resources m) \<le> 0)
            (Err ''resource defaults must all be positive''),
          for_each validate_image (mod_Images m)])
       (bind_r (validate_containers m (keys_of (mod_Images m)))
         (\<lambda>containers. checks
           [validate_storage m, validate_networks m, validate_secrets m containers,
            validate_integration parse_url m containers, validate_actions m]))"

end
