(* ===== verification/Module_Contract.thy ===== *)
theory Module_Contract
  imports Module_Validate
begin

section \<open>What the module contract promises\<close>

text \<open>
  The contract of a module package as a declaration, independent of the order of the checks
  and of the maps the validator builds, and the theorem that \<open>validate\<close> accepts exactly the
  modules that satisfy it.
\<close>

subsection \<open>Identifiers and keys\<close>

lemma identifier_chars:
  assumes "is_identifier s" and "c \<in> set s"
  shows "in_class [lower, lower, digit, just CHR ''-'', just CHR ''_'', just CHR ''.'', lower, digit, lower, digit] c"
  using assms accepts_chars [of identifier_re s c]
  by (simp add: matches_iff identifier_re_def r_plus_def)

lemma identifier_no_colon: "is_identifier s \<Longrightarrow> CHR '':'' \<notin> set s"
  using identifier_chars [of s "CHR '':''"] by (auto simp: in_class_Cons lower_def digit_def just_def)

lemma identifier_no_slash: "is_identifier s \<Longrightarrow> CHR ''/'' \<notin> set s"
  using identifier_chars [of s "CHR ''/''"] by (auto simp: in_class_Cons lower_def digit_def just_def)

lemma identifier_first: "is_identifier s \<Longrightarrow> \<exists>h t. s = h # t \<and> in_class [lower] h"
  by (auto simp: matches_iff identifier_re_def accepts_class_seq)

text \<open>An identifier is a path component of its own: it can neither climb nor vanish.\<close>

lemma identifier_plain_comp: "is_identifier s \<Longrightarrow> plain_comp s"
  using identifier_first [of s] identifier_no_slash [of s]
  by (auto simp: plain_comp_def in_class_def lower_def)

lemma hostname_chars:
  assumes "matches hostname_re s" and "c \<in> set s"
  shows "in_class [lower, digit, just CHR ''-'', just CHR ''.''] c"
proof -
  have "in_class (re_chars hostname_re) c"
    using assms accepts_chars by (auto simp: matches_iff)
  then show ?thesis
    using in_class_r_upto [of 61 "RClass [lower, digit, just CHR ''-'']" c]
    by (auto simp: hostname_re_def host_label_re_def r_plus_def r_opt_def r_char_def just_def
        in_class_Cons simp del: r_upto.simps)
qed

lemma hostname_no_colon: "matches hostname_re s \<Longrightarrow> CHR '':'' \<notin> set s"
  using hostname_chars [of s "CHR '':''"] by (auto simp: in_class_Cons lower_def digit_def just_def)

subsection \<open>The contract\<close>

definition container_contract :: "module_t \<Rightarrow> container \<Rightarrow> bool" where
  "container_contract m c =
     (is_identifier (ctr_ID c) \<and> ctr_Image c \<in> keys_of (mod_Images m) \<and> 0 \<le> ctr_User c \<and>
      ctr_UserNS c = ''nomap'' \<and> ctr_HostPorts c = [] \<and>
      (\<forall>k\<in>set (ctr_Capabilities c). trim_space k \<noteq> []) \<and> distinct (ctr_Capabilities c) \<and>
      distinct (ctr_Networks c) \<and> distinct (map mnt_Target (ctr_Mounts c)))"

definition container_ids :: "module_t \<Rightarrow> bytes set" where
  "container_ids m = ctr_ID ` set (mod_Containers m)"

definition containers_contract :: "module_t \<Rightarrow> bool" where
  "containers_contract m =
     (distinct (map ctr_ID (mod_Containers m)) \<and>
      (\<forall>c\<in>set (mod_Containers m). container_contract m c))"

definition storage_contract :: "module_t \<Rightarrow> bool" where
  "storage_contract m =
     (distinct (map sto_ID (mod_Persistent m)) \<and> distinct (map sto_Path (mod_Persistent m)) \<and>
      (\<forall>s\<in>set (mod_Persistent m). is_identifier (sto_ID s) \<and> is_absolute_clean_path (sto_Path s)) \<and>
      (\<forall>c\<in>set (mod_Containers m). \<forall>t\<in>set (ctr_Mounts c).
         mnt_StorageID t \<in> sto_ID ` set (mod_Persistent m) \<and> is_absolute_clean_path (mnt_Target t)))"

definition networks_contract :: "module_t \<Rightarrow> bool" where
  "networks_contract m =
     (distinct (map net_ID (mod_Networks m)) \<and>
      (\<forall>n\<in>set (mod_Networks m). is_identifier (net_ID n) \<and>
         net_Role n \<in> {''edge'', ''internal'', ''app'', ''egress''}) \<and>
      (\<forall>c\<in>set (mod_Containers m). set (ctr_Networks c) \<subseteq> net_ID ` set (mod_Networks m)))"

text \<open>Where the secrets of a module land: a container, a way of delivery and a target in it.\<close>

definition secret_deliveries :: "module_t \<Rightarrow> (bytes \<times> bytes \<times> bytes) list" where
  "secret_deliveries m =
     concat (map (\<lambda>s. map (\<lambda>c. (c, sec_Delivery s, secret_target s)) (sec_Containers s)) (mod_Secrets m))"

definition secret_contract :: "module_t \<Rightarrow> secret \<Rightarrow> bool" where
  "secret_contract m s =
     (is_identifier (sec_ID s) \<and> sec_Source s \<in> {''generated'', ''user''} \<and>
      sec_Delivery s \<in> {''environment'', ''file''} \<and> trim_space (sec_Name s) \<noteq> [] \<and>
      (sec_Delivery s = ''file'' \<longrightarrow> is_absolute_clean_path (sec_Path s)) \<and>
      sec_Containers s \<noteq> [] \<and> set (sec_Containers s) \<subseteq> container_ids m)"

definition secrets_contract :: "module_t \<Rightarrow> bool" where
  "secrets_contract m =
     (distinct (map sec_ID (mod_Secrets m)) \<and> (\<forall>s\<in>set (mod_Secrets m). secret_contract m s) \<and>
      distinct (secret_deliveries m) \<and>
      (\<forall>c\<in>set (mod_Containers m). \<forall>s\<in>set (mod_Secrets m).
         sec_Delivery s = ''environment'' \<longrightarrow> sec_Name s \<notin> keys_of (ctr_Environment c)))"

definition attached :: "module_t \<Rightarrow> bytes \<Rightarrow> bytes \<Rightarrow> bool" where
  "attached m role cid =
     (\<exists>c\<in>set (mod_Containers m). \<exists>n\<in>set (mod_Networks m).
        ctr_ID c = cid \<and> net_ID n \<in> set (ctr_Networks c) \<and> net_Role n = role)"

definition healthcheck_contract ::
  "(bytes \<Rightarrow> (bytes \<times> bytes) option) \<Rightarrow> module_t \<Rightarrow> healthcheck \<Rightarrow> bool" where
  "healthcheck_contract parse_url m h =
     (hc_Container h \<in> container_ids m \<and>
      (hc_Type h = ''http'' \<and>
         (\<exists>scheme host. parse_url (hc_URL h) = Some (scheme, host) \<and>
            scheme \<in> {''http'', ''https''} \<and> host \<noteq> []) \<or>
       hc_Type h = ''tcp'' \<and> valid_port (hc_Port h) \<or>
       hc_Type h = ''command'' \<and> hc_Command h \<noteq> [] \<and> trim_space (hd (hc_Command h)) \<noteq> []))"

definition route_contract :: "module_t \<Rightarrow> public_route \<Rightarrow> bool" where
  "route_contract m r =
     (matches hostname_re (to_lower (rte_Hostname r)) \<and> valid_port (rte_Port r) \<and>
      has_prefix (rte_PathPrefix r) ''/'' \<and>
      aut_Mode (rte_Authelia r) \<in> {''protected'', ''public''} \<and> attached m ''edge'' (rte_Container r))"

definition integration_contract ::
  "(bytes \<Rightarrow> (bytes \<times> bytes) option) \<Rightarrow> module_t \<Rightarrow> bool" where
  "integration_contract parse_url m =
     ((\<forall>e\<in>set (mod_Egress m). trim_space (egr_Reason e) \<noteq> [] \<and> attached m ''egress'' (egr_Container e)) \<and>
      (\<forall>r\<in>set (mod_PublicRoutes m). route_contract m r) \<and>
      distinct (map (\<lambda>r. (to_lower (rte_Hostname r), rte_PathPrefix r)) (mod_PublicRoutes m)) \<and>
      healthcheck_contract parse_url m (mod_Healthcheck m) \<and>
      distinct (map hc_ID (mod_ServiceChecks m)) \<and>
      (\<forall>h\<in>set (mod_ServiceChecks m). is_identifier (hc_ID h) \<and> healthcheck_contract parse_url m h) \<and>
      distinct (map ifc_ID (mod_Interfaces m)) \<and>
      (\<forall>i\<in>set (mod_Interfaces m). is_identifier (ifc_ID i) \<and> ifc_Container i \<in> container_ids m \<and>
         valid_port (ifc_Port i) \<and> ifc_Protocol i \<in> {''tcp'', ''http''}) \<and>
      distinct (mod_Dependencies m) \<and>
      (\<forall>d\<in>set (mod_Dependencies m). is_identifier (dep_TargetModule d) \<and> is_identifier (dep_InterfaceID d) \<and>
         dep_TargetModule d \<noteq> mod_ID m \<and> dep_Consumer d \<in> container_ids m))"

text \<open>An action script is a file directly in \<open>actions/\<close>.\<close>

definition action_script :: "bytes \<Rightarrow> bool" where
  "action_script v =
     (\<exists>f. v = ''actions/'' @ f @ ''.sh'' \<and> CHR ''/'' \<notin> set f \<and> \<not> contains_str v ''..'')"

definition actions_contract :: "module_t \<Rightarrow> bool" where
  "actions_contract m =
     (mod_ValidationAction m \<in> keys_of (mod_Actions m) \<and>
      (\<forall>(i, rel)\<in>set (mod_Actions m). is_identifier i \<and> action_script rel) \<and>
      (\<forall>(old, t)\<in>set (mod_UpdateFrom m). is_exact_version old \<and> old \<noteq> mod_Version m \<and>
         set (upd_Actions t) \<subseteq> keys_of (mod_Actions m)))"

definition module_contract ::
  "(bytes \<Rightarrow> (bytes \<times> bytes) option) \<Rightarrow> module_t \<Rightarrow> bool" where
  "module_contract parse_url m =
     (is_identifier (mod_ID m) \<and> is_exact_version (mod_Version m) \<and> is_exact_version (mod_CoreContract m) \<and>
      mod_Images m \<noteq> [] \<and> mod_Containers m \<noteq> [] \<and> trim_space (mod_ValidationAction m) \<noteq> [] \<and>
      uni_DeletePersistentData (mod_Uninstall m) \<and> uni_DeleteSecrets (mod_Uninstall m) \<and>
      0 < res_MemoryBytes (mod_Resources m) \<and> 0 < res_CPUQuota (mod_Resources m) \<and>
      0 < res_PIDsLimit (mod_Resources m) \<and> 0 < res_TasksMax (mod_Resources m) \<and>
      (\<forall>(i, img)\<in>set (mod_Images m). is_identifier i \<and> validate_image_ref (img_Ref img) = Inr ()) \<and>
      containers_contract m \<and> storage_contract m \<and> networks_contract m \<and> secrets_contract m \<and>
      integration_contract parse_url m \<and> actions_contract m)"

subsection \<open>Each validator decides its part of the contract\<close>

lemma exact_version_Inr_iff [result_simps]: "exact_version f v = Inr u \<longleftrightarrow> is_exact_version v"
  by (simp add: exact_version_def result_simps)

lemma validate_containers_Inr_iff:
  "validate_containers m (keys_of (mod_Images m)) = Inr cs \<longleftrightarrow>
     containers_contract m \<and> cs = container_ids m"
  by (auto simp: validate_containers_def validate_container_def result_simps containers_contract_def
      container_contract_def container_ids_def)

lemma validate_storage_items_Inr_iff:
  "validate_storage_items ss st ps = Inr r \<longleftrightarrow>
     (\<forall>s\<in>set ss. is_identifier (sto_ID s) \<and> is_absolute_clean_path (sto_Path s)) \<and>
     distinct (map sto_ID ss) \<and> sto_ID ` set ss \<inter> st = {} \<and>
     distinct (map sto_Path ss) \<and> sto_Path ` set ss \<inter> fst ` set ps = {} \<and>
     r = st \<union> sto_ID ` set ss"
proof (induction ss st ps rule: validate_storage_items.induct)
  case (2 s ss st ps)
  show ?case
  proof (cases "sto_Path s \<in> fst ` set ps")
    case True
    then obtain owner where "map_of ps (sto_Path s) = Some owner"
      by (metis map_of_eq_None_iff not_None_eq)
    then show ?thesis using True by auto
  next
    case False
    then have none: "map_of ps (sto_Path s) = None" by (simp add: map_of_eq_None_iff)
    show ?thesis
    proof (cases "is_identifier (sto_ID s) \<and> sto_ID s \<notin> st \<and> is_absolute_clean_path (sto_Path s)")
      case ok: True
      have "validate_storage_items (s # ss) st ps =
          validate_storage_items ss (insert (sto_ID s) st) ((sto_Path s, sto_ID s) # ps)"
        using none ok by simp
      then show ?thesis using 2 none ok False by auto
    qed auto
  qed
qed auto

lemma validate_storage_Inr_iff: "validate_storage m = Inr u \<longleftrightarrow> storage_contract m"
  by (auto simp: validate_storage_def validate_storage_items_Inr_iff result_simps storage_contract_def)

lemma validate_networks_Inr_iff: "validate_networks m = Inr u \<longleftrightarrow> networks_contract m"
  by (auto simp: validate_networks_def result_simps networks_contract_def network_roles_def)


subsection \<open>Secrets\<close>

lemma claim_secret_target_Inr_iff [result_simps]:
  "claim_secret_target cs s ts c = Inr ts' \<longleftrightarrow>
     c \<in> cs \<and> secret_target_key s c \<notin> fst ` set ts \<and> ts' = (secret_target_key s c, sec_ID s) # ts"
proof (cases "map_of ts (secret_target_key s c)")
  case None
  then have "secret_target_key s c \<notin> fst ` set ts" by (simp add: map_of_eq_None_iff)
  then show ?thesis using None by (auto simp: claim_secret_target_def)
next
  case (Some owner)
  then have "secret_target_key s c \<in> fst ` set ts"
    by (metis map_of_eq_None_iff not_None_eq)
  then show ?thesis using Some by (simp add: claim_secret_target_def)
qed

text \<open>The keys one secret claims: its identifier and one target key per container.\<close>

definition target_keys :: "secret \<Rightarrow> bytes list" where
  "target_keys s = map (secret_target_key s) (sec_Containers s)"

definition secret_item_ok :: "bytes set \<Rightarrow> secret \<Rightarrow> bool" where
  "secret_item_ok cs s =
     (is_identifier (sec_ID s) \<and> sec_Source s \<in> {''generated'', ''user''} \<and>
      sec_Delivery s \<in> {''environment'', ''file''} \<and> trim_space (sec_Name s) \<noteq> [] \<and>
      (sec_Delivery s = ''file'' \<longrightarrow> is_absolute_clean_path (sec_Path s)) \<and>
      sec_Containers s \<noteq> [] \<and> set (sec_Containers s) \<subseteq> cs)"

definition scanned :: "secret_scan \<Rightarrow> secret \<Rightarrow> secret_scan" where
  "scanned st s =
     \<lparr>scan_IDs = insert (sec_ID s) (scan_IDs st),
      scan_EnvNames =
        (if sec_Delivery s = ''environment'' then insert (sec_Name s) (scan_EnvNames st)
         else scan_EnvNames st),
      scan_Targets = foldl (\<lambda>ts c. (secret_target_key s c, sec_ID s) # ts) (scan_Targets st) (sec_Containers s)\<rparr>"

definition scan_taken :: "secret_scan \<Rightarrow> (bytes + bytes) set" where
  "scan_taken st = Inl ` scan_IDs st \<union> Inr ` fst ` set (scan_Targets st)"

lemma claim_secret_targets_Inr_iff:
  "fold_r (claim_secret_target cs s) ts xs = Inr ts' \<longleftrightarrow>
     set xs \<subseteq> cs \<and> distinct (map (secret_target_key s) xs) \<and>
     secret_target_key s ` set xs \<inter> fst ` set ts = {} \<and>
     ts' = foldl (\<lambda>ts c. (secret_target_key s c, sec_ID s) # ts) ts xs"
proof -
  have "fold_r (claim_secret_target cs s) ts xs = Inr ts' \<longleftrightarrow>
      (\<forall>c\<in>set xs. c \<in> cs) \<and> distinct (concat (map (\<lambda>c. [secret_target_key s c]) xs)) \<and>
      set (concat (map (\<lambda>c. [secret_target_key s c]) xs)) \<inter> fst ` set ts = {} \<and>
      ts' = foldl (\<lambda>ts c. (secret_target_key s c, sec_ID s) # ts) ts xs"
    by (rule fold_claims [where taken = "\<lambda>ts. fst ` set ts"]) (auto simp: result_simps)
  then show ?thesis by (simp add: subset_eq)
qed

lemma scan_targets_keys:
  "fst ` set (foldl (\<lambda>ts c. (secret_target_key s c, sec_ID s) # ts) ts xs) =
     fst ` set ts \<union> secret_target_key s ` set xs"
  by (induction xs arbitrary: ts) auto

lemma scan_secret_Inr_iff:
  "scan_secret cs st s = Inr st' \<longleftrightarrow>
     secret_item_ok cs s \<and> distinct (Inl (sec_ID s) # map Inr (target_keys s)) \<and>
     set (Inl (sec_ID s) # map Inr (target_keys s)) \<inter> scan_taken st = {} \<and> st' = scanned st s"
proof -
  have "set (Inl (sec_ID s) # map Inr (target_keys s)) \<inter> scan_taken st = {} \<longleftrightarrow>
      sec_ID s \<notin> scan_IDs st \<and> set (target_keys s) \<inter> fst ` set (scan_Targets st) = {}"
    unfolding scan_taken_def by (auto simp: disjoint_iff)
  moreover have "distinct (Inl (sec_ID s) # map Inr (target_keys s)) \<longleftrightarrow> distinct (target_keys s)"
    by (auto simp: distinct_map)
  ultimately show ?thesis
    by (simp only:)
      (simp add: scan_secret_def result_simps claim_secret_targets_Inr_iff secret_item_ok_def
        target_keys_def scanned_def conj_ac, argo)
qed

lemma scan_taken_scanned:
  "scan_taken (scanned st s) = scan_taken st \<union> set (Inl (sec_ID s) # map Inr (target_keys s))"
  by (auto simp: scan_taken_def scanned_def scan_targets_keys target_keys_def image_iff)

lemma scan_env_names:
  "scan_EnvNames (foldl scanned st ss) =
     scan_EnvNames st \<union> {sec_Name s |s. s \<in> set ss \<and> sec_Delivery s = ''environment''}"
  by (induction ss arbitrary: st) (auto simp: scanned_def)

lemma scan_secrets_Inr_iff:
  "fold_r (scan_secret cs) \<lparr>scan_IDs = {}, scan_EnvNames = {}, scan_Targets = []\<rparr> ss = Inr st' \<longleftrightarrow>
     (\<forall>s\<in>set ss. secret_item_ok cs s) \<and> distinct (map sec_ID ss) \<and>
     distinct (concat (map target_keys ss)) \<and>
     st' = foldl scanned \<lparr>scan_IDs = {}, scan_EnvNames = {}, scan_Targets = []\<rparr> ss"
  unfolding fold_claims [OF scan_secret_Inr_iff scan_taken_scanned] distinct_concat_sum
  by (simp add: scan_taken_def)

lemma colon_key_inj:
  assumes "\<And>a b c. (a, b, c) \<in> S \<Longrightarrow> CHR '':'' \<notin> set a \<and> CHR '':'' \<notin> set b"
  shows "inj_on (\<lambda>(a, b, c). a @ '':'' @ b @ '':'' @ c) S"
proof (rule inj_onI)
  fix p q
  assume p: "p \<in> S" and q: "q \<in> S"
    and eq: "(case p of (a, b, c) \<Rightarrow> a @ '':'' @ b @ '':'' @ c) = (case q of (a, b, c) \<Rightarrow> a @ '':'' @ b @ '':'' @ c)"
  obtain a b c a' b' c' where pq: "p = (a, b, c)" "q = (a', b', c')" by (cases p; cases q) auto
  have free: "CHR '':'' \<notin> set a" "CHR '':'' \<notin> set a'" "CHR '':'' \<notin> set b" "CHR '':'' \<notin> set b'"
    using assms p q pq by blast+
  have "a @ CHR '':'' # (b @ CHR '':'' # c) = a' @ CHR '':'' # (b' @ CHR '':'' # c')"
    using eq pq by simp
  from sep_append_eq [OF free(1,2) this]
  have a: "a = a'" and rest: "b @ CHR '':'' # c = b' @ CHR '':'' # c'" by simp_all
  have "b = b' \<and> c = c'" by (rule sep_append_eq [OF free(3,4) rest])
  then show "p = q" using pq a by simp
qed

lemma target_keys_distinct:
  assumes "\<forall>s\<in>set ss. secret_item_ok cs s" and "\<forall>c\<in>cs. is_identifier c"
  shows "distinct (concat (map target_keys ss)) \<longleftrightarrow>
    distinct (concat (map (\<lambda>s. map (\<lambda>c. (c, sec_Delivery s, secret_target s)) (sec_Containers s)) ss))"
    (is "_ \<longleftrightarrow> distinct ?L")
proof -
  have keys: "concat (map target_keys ss) = map (\<lambda>(a, b, c). a @ '':'' @ b @ '':'' @ c) ?L"
    by (simp add: map_concat comp_def target_keys_def [abs_def] secret_target_key_def [abs_def])
  have "inj_on (\<lambda>(a, b, c). a @ '':'' @ b @ '':'' @ c) (set ?L)"
  proof (rule colon_key_inj)
    fix a b c assume "(a, b, c) \<in> set ?L"
    then obtain s where s: "s \<in> set ss" "a \<in> set (sec_Containers s)" "b = sec_Delivery s" by auto
    then have "a \<in> cs" "b \<in> {''environment'', ''file''}"
      using assms(1) by (auto simp: secret_item_ok_def)
    then show "CHR '':'' \<notin> set a \<and> CHR '':'' \<notin> set b"
      using assms(2) identifier_no_colon by auto
  qed
  then show ?thesis by (simp only: keys distinct_map simp_thms)
qed

lemma reject_keys_iff:
  "(\<forall>x\<in>set xs. (case x of (n, v) \<Rightarrow> reject_if (n \<in> N) (e n)) = Inr ()) \<longleftrightarrow> (\<forall>n\<in>keys_of xs. n \<notin> N)"
  by (auto simp: keys_of_def reject_if_Inr_iff split: prod.splits)

lemma validate_secrets_Inr_iff:
  assumes "containers_contract m"
  shows "validate_secrets m (container_ids m) = Inr u \<longleftrightarrow> secrets_contract m"
proof -
  have ids: "\<forall>c\<in>container_ids m. is_identifier c"
    using assms by (auto simp: containers_contract_def container_contract_def container_ids_def)
  have "validate_secrets m (container_ids m) = Inr u \<longleftrightarrow>
      (\<forall>s\<in>set (mod_Secrets m). secret_item_ok (container_ids m) s) \<and> distinct (map sec_ID (mod_Secrets m)) \<and>
      distinct (concat (map target_keys (mod_Secrets m))) \<and>
      (\<forall>c\<in>set (mod_Containers m). \<forall>n\<in>keys_of (ctr_Environment c).
         n \<notin> {sec_Name s |s. s \<in> set (mod_Secrets m) \<and> sec_Delivery s = ''environment''})"
    by (simp add: validate_secrets_def bind_r_Inr_iff scan_secrets_Inr_iff for_each_Inr_iff scan_env_names
        reject_keys_iff conj_assoc del: mem_Collect_eq)
  moreover have "(\<forall>n\<in>K. n \<notin> {sec_Name s |s. s \<in> S \<and> sec_Delivery s = d}) \<longleftrightarrow>
      (\<forall>s\<in>S. sec_Delivery s = d \<longrightarrow> sec_Name s \<notin> K)" for K d and S :: "secret set"
    by auto
  ultimately have "validate_secrets m (container_ids m) = Inr u \<longleftrightarrow>
      (\<forall>s\<in>set (mod_Secrets m). secret_item_ok (container_ids m) s) \<and> distinct (map sec_ID (mod_Secrets m)) \<and>
      distinct (concat (map target_keys (mod_Secrets m))) \<and>
      (\<forall>c\<in>set (mod_Containers m). \<forall>s\<in>set (mod_Secrets m).
         sec_Delivery s = ''environment'' \<longrightarrow> sec_Name s \<notin> keys_of (ctr_Environment c))"
    by (simp only:)
  then show ?thesis
    using target_keys_distinct [OF _ ids, of "mod_Secrets m"]
    unfolding secrets_contract_def secret_deliveries_def secret_contract_def secret_item_ok_def
    by argo
qed

subsection \<open>Integration\<close>

lemma map_of_rev_iff:
  assumes "distinct (map fst xs)"
  shows "map_of (rev xs) k = Some v \<longleftrightarrow> (k, v) \<in> set xs"
  using assms by (simp add: map_of_eq_Some_iff rev_map [symmetric])

lemma container_roles_iff:
  assumes "containers_contract m" "networks_contract m" "role \<noteq> []"
  shows "role \<in> container_roles m cid \<longleftrightarrow> attached m role cid"
proof -
  let ?cs = "map (\<lambda>k. (ctr_ID k, ctr_Networks k)) (mod_Containers m)"
  let ?ns = "map (\<lambda>k. (net_ID k, net_Role k)) (mod_Networks m)"
  have dc: "distinct (map fst ?cs)" and dn: "distinct (map fst ?ns)"
    using assms(1,2) by (simp_all add: containers_contract_def networks_contract_def comp_def)
  have role: "network_role m n = role \<longleftrightarrow> (\<exists>k\<in>set (mod_Networks m). net_ID k = n \<and> net_Role k = role)" for n
  proof (cases "map_of (rev ?ns) n")
    case None
    then have "n \<notin> net_ID ` set (mod_Networks m)"
      by (simp add: map_of_eq_None_iff image_image)
    then have "\<not> (\<exists>k\<in>set (mod_Networks m). net_ID k = n \<and> net_Role k = role)" by auto
    then show ?thesis using None assms(3) by (simp add: network_role_def)
  next
    case (Some r)
    then have in_ns: "(n, r) \<in> set ?ns" using map_of_rev_iff [OF dn] by blast
    have only: "k \<in> set (mod_Networks m) \<Longrightarrow> net_ID k = n \<Longrightarrow> net_Role k = r" for k
      using Some map_of_rev_iff [OF dn, of n "net_Role k"] by auto
    obtain k where "k \<in> set (mod_Networks m)" "net_ID k = n" using in_ns by auto
    moreover have "network_role m n = r" using Some by (simp add: network_role_def)
    ultimately show ?thesis using only by metis
  qed
  show ?thesis
  proof (cases "map_of (rev ?cs) cid")
    case None
    then have "cid \<notin> ctr_ID ` set (mod_Containers m)"
      by (simp add: map_of_eq_None_iff image_image)
    then have "\<not> attached m role cid" by (auto simp: attached_def)
    then show ?thesis using None by (simp add: container_roles_def)
  next
    case (Some ns)
    then have in_cs: "(cid, ns) \<in> set ?cs" using map_of_rev_iff [OF dc] by blast
    have only: "c \<in> set (mod_Containers m) \<Longrightarrow> ctr_ID c = cid \<Longrightarrow> ctr_Networks c = ns" for c
      using Some map_of_rev_iff [OF dc, of cid "ctr_Networks c"] by auto
    obtain c where c: "c \<in> set (mod_Containers m)" "ctr_ID c = cid" "ctr_Networks c = ns"
      using in_cs by auto
    have "container_roles m cid = network_role m ` set ns"
      using Some by (simp add: container_roles_def)
    then have "role \<in> container_roles m cid \<longleftrightarrow> (\<exists>n\<in>set ns. network_role m n = role)"
      by auto
    also have "\<dots> \<longleftrightarrow> attached m role cid"
      unfolding role attached_def using c only by metis
    finally show ?thesis .
  qed
qed

lemma attached_container: "attached m role cid \<Longrightarrow> cid \<in> container_ids m"
  by (auto simp: attached_def container_ids_def)

lemma validate_healthcheck_Inr_iff:
  "validate_healthcheck pu h (container_ids m) primary = Inr u \<longleftrightarrow>
     (primary \<or> hc_ID h \<noteq> []) \<and> healthcheck_contract pu m h"
  by (cases "pu (hc_URL h)")
    (auto simp: validate_healthcheck_def healthcheck_contract_def result_simps Let_def split: if_splits)


lemma is_identifier_not_Nil: "is_identifier s \<Longrightarrow> s \<noteq> []"
  using identifier_first by blast

lemma route_keys_distinct:
  assumes "\<forall>r\<in>set rs. matches hostname_re (to_lower (rte_Hostname r))"
  shows "distinct (map route_key rs) \<longleftrightarrow>
    distinct (map (\<lambda>r. (to_lower (rte_Hostname r), rte_PathPrefix r)) rs)" (is "_ \<longleftrightarrow> distinct ?L")
proof -
  have keys: "map route_key rs = map (\<lambda>(h, p). h @ CHR '':'' # p) ?L"
    by (simp add: route_key_def comp_def)
  have "inj_on (\<lambda>(h, p). h @ CHR '':'' # p) (set ?L)"
  proof (rule inj_onI, clarify)
    fix h p h' p' assume hp: "(h, p) \<in> set ?L" "(h', p') \<in> set ?L" and eq: "h @ CHR '':'' # p = h' @ CHR '':'' # p'"
    then have "CHR '':'' \<notin> set h" "CHR '':'' \<notin> set h'"
      using assms hostname_no_colon by auto
    from sep_append_eq [OF this eq] show "h = h' \<and> p = p'" .
  qed
  then show ?thesis by (simp only: keys distinct_map simp_thms)
qed

lemma dependency_keys_distinct:
  assumes "\<forall>d\<in>set ds. is_identifier (dep_TargetModule d) \<and> is_identifier (dep_InterfaceID d)"
  shows "distinct (map dependency_key ds) \<longleftrightarrow> distinct ds"
proof -
  let ?L = "map (\<lambda>d. (dep_TargetModule d, dep_InterfaceID d, dep_Consumer d)) ds"
  have keys: "map dependency_key ds = map (\<lambda>(a, b, c). a @ '':'' @ b @ '':'' @ c) ?L"
    by (simp add: dependency_key_def comp_def)
  have "inj_on (\<lambda>(a, b, c). a @ '':'' @ b @ '':'' @ c) (set ?L)"
    using assms identifier_no_colon by (intro colon_key_inj) auto
  then have "distinct (map dependency_key ds) \<longleftrightarrow> distinct ?L"
    by (simp only: keys distinct_map simp_thms)
  also have "\<dots> \<longleftrightarrow> distinct ds"
    by (auto simp: distinct_map intro!: inj_onI dependency.equality)
  finally show ?thesis .
qed

lemma validate_integration_Inr_iff:
  assumes "containers_contract m" "networks_contract m"
  shows "validate_integration pu m (container_ids m) = Inr u \<longleftrightarrow> integration_contract pu m"
proof -
  have egress: "for_each (validate_egress m (container_ids m)) (mod_Egress m) = Inr () \<longleftrightarrow>
      (\<forall>e\<in>set (mod_Egress m). trim_space (egr_Reason e) \<noteq> [] \<and> attached m ''egress'' (egr_Container e))"
    using attached_container
    by (auto simp: result_simps validate_egress_def container_roles_iff [OF assms])
  have routes: "(\<exists>s. validate_routes m (container_ids m) = Inr s) \<longleftrightarrow>
      (\<forall>r\<in>set (mod_PublicRoutes m). route_contract m r) \<and>
      distinct (map (\<lambda>r. (to_lower (rte_Hostname r), rte_PathPrefix r)) (mod_PublicRoutes m))"
  proof -
    have "(\<exists>s. validate_routes m (container_ids m) = Inr s) \<longleftrightarrow>
        (\<forall>r\<in>set (mod_PublicRoutes m). route_contract m r) \<and> distinct (map route_key (mod_PublicRoutes m))"
      using attached_container
      by (auto simp: result_simps validate_routes_def route_contract_def has_prefix_def
          container_roles_iff [OF assms])
    then show ?thesis using route_keys_distinct [of "mod_PublicRoutes m"]
      by (auto simp: route_contract_def)
  qed
  have checks: "(\<exists>s. validate_service_checks pu m (container_ids m) = Inr s) \<longleftrightarrow>
      distinct (map hc_ID (mod_ServiceChecks m)) \<and>
      (\<forall>h\<in>set (mod_ServiceChecks m). is_identifier (hc_ID h) \<and> healthcheck_contract pu m h)"
    using is_identifier_not_Nil
    by (auto simp: result_simps validate_service_checks_def validate_healthcheck_Inr_iff)
  have interfaces: "(\<exists>s. validate_interfaces m (container_ids m) = Inr s) \<longleftrightarrow>
      distinct (map ifc_ID (mod_Interfaces m)) \<and>
      (\<forall>i\<in>set (mod_Interfaces m). is_identifier (ifc_ID i) \<and> ifc_Container i \<in> container_ids m \<and>
         valid_port (ifc_Port i) \<and> ifc_Protocol i \<in> {''tcp'', ''http''})"
    by (auto simp: result_simps validate_interfaces_def)
  have deps: "(\<exists>s. validate_dependencies m (container_ids m) = Inr s) \<longleftrightarrow>
      distinct (mod_Dependencies m) \<and>
      (\<forall>d\<in>set (mod_Dependencies m). is_identifier (dep_TargetModule d) \<and> is_identifier (dep_InterfaceID d) \<and>
         dep_TargetModule d \<noteq> mod_ID m \<and> dep_Consumer d \<in> container_ids m)"
    using dependency_keys_distinct [of "mod_Dependencies m"]
    by (auto simp: result_simps validate_dependencies_def)
  have "validate_integration pu m (container_ids m) = Inr u \<longleftrightarrow>
      for_each (validate_egress m (container_ids m)) (mod_Egress m) = Inr () \<and>
      (\<exists>s. validate_routes m (container_ids m) = Inr s) \<and>
      validate_healthcheck pu (mod_Healthcheck m) (container_ids m) True = Inr () \<and>
      (\<exists>s. validate_service_checks pu m (container_ids m) = Inr s) \<and>
      (\<exists>s. validate_interfaces m (container_ids m) = Inr s) \<and>
      (\<exists>s. validate_dependencies m (container_ids m) = Inr s)"
    by (simp add: validate_integration_def checks_Inr_iff also_r_Inr_iff bind_r_Inr_iff)
  then show ?thesis
    unfolding egress routes checks interfaces deps validate_healthcheck_Inr_iff integration_contract_def
    by simp
qed

subsection \<open>Actions and the module\<close>

lemma action_path_parts:
  "has_prefix v ''actions/'' \<and> has_suffix v ''.sh'' \<longleftrightarrow> (\<exists>f. v = ''actions/'' @ f @ ''.sh'')"
proof
  assume "has_prefix v ''actions/'' \<and> has_suffix v ''.sh''"
  then obtain r t where r: "v = ''actions/'' @ r" and t: "v = t @ ''.sh''"
    unfolding has_prefix_iff has_suffix_iff by blast
  then have "''actions/'' @ r = t @ ''.sh''" by simp
  then consider us where "t = ''actions/'' @ us" "r = us @ ''.sh''"
    | us where "''actions/'' = t @ us" "us @ r = ''.sh''"
    unfolding append_eq_append_conv2 by metis
  then show "\<exists>f. v = ''actions/'' @ f @ ''.sh''"
  proof cases
    case 1
    then show ?thesis using r by blast
  next
    case (2 us)
    show ?thesis
    proof (cases us rule: rev_cases)
      case Nil
      then show ?thesis using 2 r by auto
    next
      case (snoc u x)
      have "last ''actions/'' = x" unfolding 2(1) snoc by simp
      then have "x = CHR ''/''" by simp
      then have "CHR ''/'' \<in> set ''.sh''" unfolding 2(2) [symmetric] snoc by simp
      then show ?thesis by simp
    qed
  qed
next
  assume "\<exists>f. v = ''actions/'' @ f @ ''.sh''"
  then obtain f where f: "v = ''actions/'' @ f @ ''.sh''" by blast
  then have "v = (''actions/'' @ f) @ ''.sh''" by simp
  then show "has_prefix v ''actions/'' \<and> has_suffix v ''.sh''"
    using f has_prefix_append has_suffix_append by metis
qed

lemma validate_action_path_Inr_iff: "validate_action_path v = Inr u \<longleftrightarrow> action_script v"
proof -
  have lhs: "validate_action_path v = Inr u \<longleftrightarrow>
      v \<noteq> [] \<and> path_clean v = v \<and> \<not> has_prefix v ''/'' \<and> \<not> contains_str v ''..'' \<and>
      (has_prefix v ''actions/'' \<and> has_suffix v ''.sh'') \<and> count_list v CHR ''/'' = 1"
    by (auto simp: validate_action_path_def result_simps)
  have slash: "count_list (''actions/'' @ f @ ''.sh'') CHR ''/'' = 1 \<longleftrightarrow> CHR ''/'' \<notin> set f" for f
    by (simp add: count_list_0_iff)
  have clean: "path_clean (''actions/'' @ f @ ''.sh'') = ''actions/'' @ f @ ''.sh''"
    if "CHR ''/'' \<notin> set f" for f
    using path_clean_plain [of "[''actions'', f @ ''.sh'']"] that
    by (auto simp: plain_comp_def append_eq_Cons_conv)
  show ?thesis
  proof
    assume "validate_action_path v = Inr u"
    then show "action_script v"
      unfolding lhs action_path_parts action_script_def using slash by blast
  next
    assume "action_script v"
    then obtain f where f: "v = ''actions/'' @ f @ ''.sh''" "CHR ''/'' \<notin> set f" "\<not> contains_str v ''..''"
      by (auto simp: action_script_def)
    have "v \<noteq> []" "\<not> has_prefix v ''/''" using f(1) by (auto simp: has_prefix_def)
    moreover have "path_clean v = v" using clean [OF f(2)] f(1) by simp
    moreover have "count_list v CHR ''/'' = 1" using slash f by blast
    moreover have "has_prefix v ''actions/'' \<and> has_suffix v ''.sh''"
      unfolding action_path_parts using f(1) by blast
    ultimately show "validate_action_path v = Inr u" unfolding lhs using f(3) by blast
  qed
qed

lemma validate_actions_Inr_iff: "validate_actions m = Inr u \<longleftrightarrow> actions_contract m"
proof -
  have "mod_ValidationAction m \<in> keys_of (mod_Actions m) \<Longrightarrow> mod_Actions m \<noteq> []"
    by (auto simp: keys_of_def)
  then show ?thesis
    by (simp add: validate_actions_def actions_contract_def result_simps validate_action_path_Inr_iff
        case_prod_beta subset_eq) blast
qed

lemma validate_module_Inr_iff:
  "validate_module parse_url m = Inr () \<longleftrightarrow> module_contract parse_url m"
proof -
  have images: "for_each validate_image (mod_Images m) = Inr () \<longleftrightarrow>
      (\<forall>(i, img)\<in>set (mod_Images m). is_identifier i \<and> validate_image_ref (img_Ref img) = Inr ())"
    by (auto simp: validate_image_def result_simps)
  show ?thesis
    unfolding validate_module_def also_r_Inr_iff checks_Inr_iff bind_r_Inr_iff validate_containers_Inr_iff
    using validate_storage_Inr_iff [of m] validate_networks_Inr_iff [of m] validate_secrets_Inr_iff [of m]
      validate_integration_Inr_iff [of m parse_url] validate_actions_Inr_iff [of m]
    by (auto simp: module_contract_def images exact_version_Inr_iff reject_if_Inr_iff not_le)
qed

text \<open>
  C1: the validator is equivalent to the declarative contract: it accepts a module exactly when
  every rule of \<open>module_contract\<close> holds, for every order in which the Go maps are visited.
\<close>

theorem validate_module_iff:
  "validate_module parse_url m = Inr () \<longleftrightarrow> module_contract parse_url m"
  by (rule validate_module_Inr_iff)


end
