(* ===== verification/Module_Compile.thy ===== *)
theory Module_Compile
  imports Module_Contract
begin

section \<open>Compiling a module package\<close>

text \<open>
  \<open>internal/modulecontract/compiler.go\<close> and \<open>normalize\<close> of \<open>helpers.go\<close>. A package is its
  file system, a function from a path to the bytes of the file or an error; the YAML decoder
  is a parameter that gives the first document and what a second call of \<open>Decode\<close> reports.
\<close>

definition normalize_container :: "container \<Rightarrow> container" where
  "normalize_container c =
     c\<lparr>ctr_Capabilities := sort (ctr_Capabilities c), ctr_Networks := sort (ctr_Networks c),
       ctr_Mounts := sort_key mnt_Target (ctr_Mounts c)\<rparr>"

definition normalize_secret :: "secret \<Rightarrow> secret" where
  "normalize_secret s = s\<lparr>sec_Containers := sort (sec_Containers s)\<rparr>"

definition normalize_route :: "public_route \<Rightarrow> public_route" where
  "normalize_route r =
     r\<lparr>rte_Authelia := (rte_Authelia r)
         \<lparr>aut_Users := sort (aut_Users (rte_Authelia r)),
          aut_Groups := sort (aut_Groups (rte_Authelia r))\<rparr>\<rparr>"

definition egress_key :: "egress_rule \<Rightarrow> bytes \<times> bytes" where
  "egress_key e = (egr_Container e, egr_Reason e)"

definition route_order :: "public_route \<Rightarrow> bytes \<times> bytes" where
  "route_order r = (rte_Hostname r, rte_PathPrefix r)"

definition dependency_order :: "dependency \<Rightarrow> bytes \<times> bytes \<times> bytes" where
  "dependency_order d = (dep_TargetModule d, dep_InterfaceID d, dep_Consumer d)"

definition normalize_module :: "module_t \<Rightarrow> module_t" where
  "normalize_module m =
     m\<lparr>mod_Containers := map normalize_container (sort_key ctr_ID (mod_Containers m)),
       mod_Persistent := sort_key sto_ID (mod_Persistent m),
       mod_Secrets := map normalize_secret (sort_key sec_ID (mod_Secrets m)),
       mod_Networks := sort_key net_ID (mod_Networks m),
       mod_Egress := sort_key egress_key (mod_Egress m),
       mod_PublicRoutes := map normalize_route (sort_key route_order (mod_PublicRoutes m)),
       mod_ServiceChecks := sort_key hc_ID (mod_ServiceChecks m),
       mod_Interfaces := sort_key ifc_ID (mod_Interfaces m),
       mod_Dependencies := sort_key dependency_order (mod_Dependencies m)\<rparr>"

datatype trailing = Another_Document | No_More | Bad_Trailing error

definition module_of_raw :: "raw_module \<Rightarrow> module_t" where
  "module_of_raw r =
     \<lparr>mod_ID = raw_ModuleID r, mod_Version = raw_ModuleVersion r, mod_CoreContract = raw_CoreContract r,
      mod_Images = raw_Images r, mod_Containers = raw_Containers r, mod_Persistent = raw_Persistent r,
      mod_Secrets = raw_Secrets r, mod_Resources = raw_Resources r, mod_Networks = raw_Networks r,
      mod_Egress = raw_Egress r, mod_PublicRoutes = raw_PublicRoutes r,
      mod_Healthcheck = raw_Healthcheck r, mod_ServiceChecks = raw_ServiceChecks r,
      mod_ValidationAction = raw_ValidationAction r, mod_Interfaces = raw_Interfaces r,
      mod_Dependencies = raw_Dependencies r, mod_Actions = raw_Actions r, mod_UpdateFrom = raw_UpdateFrom r,
      mod_Uninstall = raw_Uninstall r, mod_ActionFiles = []\<rparr>"

definition read_action :: "(bytes \<Rightarrow> bytes result) \<Rightarrow> bytes \<times> bytes \<Rightarrow> (bytes \<times> bytes) result" where
  "read_action fs p =
     (case p of (i, rel) \<Rightarrow>
        bind_r (wrap_error ''action %s: read %s: %w'' [i, rel] (fs rel)) (\<lambda>content. Inr (i, content)))"

definition compile_module ::
  "(bytes \<Rightarrow> (bytes \<times> bytes) option) \<Rightarrow> (bytes \<Rightarrow> (raw_module \<times> trailing) result) \<Rightarrow>
   (bytes \<Rightarrow> bytes result) option \<Rightarrow> module_t result" where
  "compile_module parse_url decode pkg =
     (case pkg of
        None \<Rightarrow> Inl (Err ''module package filesystem is required'')
      | Some fs \<Rightarrow>
          bind_r (wrap_error ''read module.yaml: %w'' [] (fs ''module.yaml'')) (\<lambda>raw_bytes.
          also_r (reject_if (CHR 0x00 \<in> set raw_bytes) (Err ''module.yaml contains NUL byte''))
          (bind_r (wrap_error ''decode module.yaml: %w'' [] (decode raw_bytes)) (\<lambda>(raw, extra).
          also_r
            (case extra of
               Another_Document \<Rightarrow> Inl (Err ''module.yaml must contain exactly one YAML document'')
             | Bad_Trailing e \<Rightarrow> Inl (Wrapf ''decode trailing module.yaml document: %w'' [] e)
             | No_More \<Rightarrow> Inr ())
          (let m = module_of_raw raw in
           also_r (validate_module parse_url m)
          (bind_r (map_r (read_action fs) (mod_Actions m)) (\<lambda>files.
           Inr (normalize_module (m\<lparr>mod_ActionFiles := files\<rparr>)))))))))"

subsection \<open>Normalization is canonical\<close>

definition container_sim :: "container \<Rightarrow> container \<Rightarrow> bool" where
  "container_sim c d =
     (\<exists>caps nets mnts. mset caps = mset (ctr_Capabilities c) \<and> mset nets = mset (ctr_Networks c) \<and>
        mset mnts = mset (ctr_Mounts c) \<and> distinct (map mnt_Target (ctr_Mounts c)) \<and>
        d = c\<lparr>ctr_Capabilities := caps, ctr_Networks := nets, ctr_Mounts := mnts\<rparr>)"

definition secret_sim :: "secret \<Rightarrow> secret \<Rightarrow> bool" where
  "secret_sim s t = (\<exists>cs. mset cs = mset (sec_Containers s) \<and> t = s\<lparr>sec_Containers := cs\<rparr>)"

definition route_sim :: "public_route \<Rightarrow> public_route \<Rightarrow> bool" where
  "route_sim r q =
     (\<exists>us gs. mset us = mset (aut_Users (rte_Authelia r)) \<and> mset gs = mset (aut_Groups (rte_Authelia r)) \<and>
        q = r\<lparr>rte_Authelia := (rte_Authelia r)\<lparr>aut_Users := us, aut_Groups := gs\<rparr>\<rparr>)"

text \<open>The same package with the entries of every list, nested ones included, in another order.\<close>

definition reordered :: "module_t \<Rightarrow> module_t \<Rightarrow> bool" where
  "reordered m m' =
     (\<exists>cs ps ss ns es rs hs is ds.
        reorders container_sim (mod_Containers m) cs \<and> mset ps = mset (mod_Persistent m) \<and>
        reorders secret_sim (mod_Secrets m) ss \<and> mset ns = mset (mod_Networks m) \<and>
        mset es = mset (mod_Egress m) \<and> reorders route_sim (mod_PublicRoutes m) rs \<and>
        mset hs = mset (mod_ServiceChecks m) \<and> mset is = mset (mod_Interfaces m) \<and>
        mset ds = mset (mod_Dependencies m) \<and>
        m' = m\<lparr>mod_Containers := cs, mod_Persistent := ps, mod_Secrets := ss, mod_Networks := ns,
               mod_Egress := es, mod_PublicRoutes := rs, mod_ServiceChecks := hs,
               mod_Interfaces := is, mod_Dependencies := ds\<rparr>)"

lemma sort_canonical: "mset xs = mset ys \<Longrightarrow> sort xs = sort ys"
  by (metis properties_for_sort mset_sort sorted_sort)

lemma normalize_container_sim:
  assumes "container_sim c d"
  shows "normalize_container c = normalize_container d"
proof -
  obtain caps nets mnts where eq: "mset caps = mset (ctr_Capabilities c)" "mset nets = mset (ctr_Networks c)"
      "mset mnts = mset (ctr_Mounts c)"
    and inj: "inj_on mnt_Target (set mnts)"
    and d: "d = c\<lparr>ctr_Capabilities := caps, ctr_Networks := nets, ctr_Mounts := mnts\<rparr>"
    using assms unfolding container_sim_def distinct_map by (metis mset_eq_setD)
  show ?thesis
    by (simp add: normalize_container_def d sort_canonical [OF eq(1)] sort_canonical [OF eq(2)]
        sort_key_canonical [OF eq(3) inj])
qed

lemma normalize_secret_sim: "secret_sim s t \<Longrightarrow> normalize_secret s = normalize_secret t"
  by (auto simp: secret_sim_def normalize_secret_def dest!: sort_canonical)

lemma normalize_route_sim: "route_sim r q \<Longrightarrow> normalize_route r = normalize_route q"
  by (auto simp: route_sim_def normalize_route_def dest!: sort_canonical)

lemma normalize_keys [simp]:
  "ctr_ID (normalize_container c) = ctr_ID c" "sec_ID (normalize_secret s) = sec_ID s"
  "route_order (normalize_route r) = route_order r"
  by (simp_all add: normalize_container_def normalize_secret_def normalize_route_def route_order_def)

lemma inj_egress_key: "inj_on egress_key A"
  by (auto intro!: inj_onI egress_rule.equality simp: egress_key_def)

lemma inj_dependency_order: "inj_on dependency_order A"
  by (auto intro!: inj_onI dependency.equality simp: dependency_order_def)

text \<open>Sorting a list whose elements a function normalizes, up to the order it came in.\<close>

lemma sort_map_canonical:
  fixes key :: "'a \<Rightarrow> 'k::linorder"
  assumes "reorders R xs ys" "\<And>x y. R x y \<Longrightarrow> f x = f y" "\<And>x. key (f x) = key x" "distinct (map key xs)"
  shows "map f (sort_key key xs) = map f (sort_key key ys)"
proof -
  have "sort_key key (map f xs) = sort_key key (map f ys)"
  proof (rule sort_key_canonical)
    show "mset (map f xs) = mset (map f ys)" by (rule reorders_mset_map [OF assms(1,2)])
    have "inj_on key (set xs)" using assms(4) by (simp add: distinct_map)
    then show "inj_on key (set (map f xs))"
      by (auto simp: inj_on_def assms(3))
  qed
  then show ?thesis by (simp add: map_sort_key assms(3))
qed

lemma route_order_distinct:
  "distinct (map (\<lambda>r. (to_lower (rte_Hostname r), rte_PathPrefix r)) rs) \<Longrightarrow> distinct (map route_order rs)"
  by (induction rs) (auto simp: route_order_def image_iff)

lemma normalize_reordered:
  assumes "module_contract pu m" "reordered m m'"
  shows "normalize_module m = normalize_module m'"
proof -
  have d: "distinct (map ctr_ID (mod_Containers m))" "distinct (map sto_ID (mod_Persistent m))"
      "distinct (map sec_ID (mod_Secrets m))" "distinct (map net_ID (mod_Networks m))"
      "distinct (map route_order (mod_PublicRoutes m))" "distinct (map hc_ID (mod_ServiceChecks m))"
      "distinct (map ifc_ID (mod_Interfaces m))"
    using assms(1) route_order_distinct
    by (simp_all add: module_contract_def containers_contract_def storage_contract_def secrets_contract_def
        networks_contract_def integration_contract_def)
  have i: "inj_on sto_ID (set (mod_Persistent m))" "inj_on net_ID (set (mod_Networks m))"
      "inj_on hc_ID (set (mod_ServiceChecks m))" "inj_on ifc_ID (set (mod_Interfaces m))"
    using d by (simp_all add: distinct_map)
  from assms(2) obtain cs ps ss ns es rs hs "is" ds where
      lists: "reorders container_sim (mod_Containers m) cs" "mset ps = mset (mod_Persistent m)"
        "reorders secret_sim (mod_Secrets m) ss" "mset ns = mset (mod_Networks m)"
        "mset es = mset (mod_Egress m)" "reorders route_sim (mod_PublicRoutes m) rs"
        "mset hs = mset (mod_ServiceChecks m)" "mset is = mset (mod_Interfaces m)"
        "mset ds = mset (mod_Dependencies m)"
    and m': "m' = m\<lparr>mod_Containers := cs, mod_Persistent := ps, mod_Secrets := ss, mod_Networks := ns,
               mod_Egress := es, mod_PublicRoutes := rs, mod_ServiceChecks := hs,
               mod_Interfaces := is, mod_Dependencies := ds\<rparr>"
    unfolding reordered_def by blast
  have nested:
    "map normalize_container (sort_key ctr_ID (mod_Containers m)) = map normalize_container (sort_key ctr_ID cs)"
    "map normalize_secret (sort_key sec_ID (mod_Secrets m)) = map normalize_secret (sort_key sec_ID ss)"
    "map normalize_route (sort_key route_order (mod_PublicRoutes m)) = map normalize_route (sort_key route_order rs)"
    using sort_map_canonical [OF lists(1) normalize_container_sim _ d(1)]
      sort_map_canonical [OF lists(3) normalize_secret_sim _ d(3)]
      sort_map_canonical [OF lists(6) normalize_route_sim _ d(5)]
    by simp_all
  have flat:
    "sort_key sto_ID (mod_Persistent m) = sort_key sto_ID ps" "sort_key net_ID (mod_Networks m) = sort_key net_ID ns"
    "sort_key hc_ID (mod_ServiceChecks m) = sort_key hc_ID hs" "sort_key ifc_ID (mod_Interfaces m) = sort_key ifc_ID is"
    by (rule sort_key_canonical [OF lists(2) [symmetric] i(1)] sort_key_canonical [OF lists(4) [symmetric] i(2)]
        sort_key_canonical [OF lists(7) [symmetric] i(3)] sort_key_canonical [OF lists(8) [symmetric] i(4)])+
  have keyed:
    "sort_key egress_key (mod_Egress m) = sort_key egress_key es"
    "sort_key dependency_order (mod_Dependencies m) = sort_key dependency_order ds"
    by (rule sort_key_canonical [OF lists(5) [symmetric] inj_egress_key]
        sort_key_canonical [OF lists(9) [symmetric] inj_dependency_order])+
  show ?thesis by (simp add: normalize_module_def m' nested flat keyed)
qed

lemma normalize_idem: "normalize_module (normalize_module m) = normalize_module m"
proof -
  have "normalize_container (normalize_container c) = normalize_container c" for c
    by (simp add: normalize_container_def)
  moreover have "normalize_secret (normalize_secret s) = normalize_secret s" for s
    by (simp add: normalize_secret_def)
  moreover have "normalize_route (normalize_route r) = normalize_route r" for r
    by (simp add: normalize_route_def)
  ultimately show ?thesis
    by (simp add: normalize_module_def map_sort_key [symmetric] comp_def)
qed

subsection \<open>A compiled module keeps the contract\<close>

lemma mset_concat_map:
  assumes "mset xs = mset ys"
  shows "mset (concat (map g xs)) = mset (concat (map g ys))"
proof -
  have "mset (concat (map g zs)) = \<Sum>\<^sub># (image_mset (\<lambda>z. mset (g z)) (mset zs))" for zs
    by (induction zs) simp_all
  then show ?thesis using assms by simp
qed

lemma normalize_fields [simp]:
  "set (mod_Containers (normalize_module m)) = normalize_container ` set (mod_Containers m)"
  "set (mod_Persistent (normalize_module m)) = set (mod_Persistent m)"
  "set (mod_Secrets (normalize_module m)) = normalize_secret ` set (mod_Secrets m)"
  "set (mod_Networks (normalize_module m)) = set (mod_Networks m)"
  "set (mod_Egress (normalize_module m)) = set (mod_Egress m)"
  "set (mod_PublicRoutes (normalize_module m)) = normalize_route ` set (mod_PublicRoutes m)"
  "set (mod_ServiceChecks (normalize_module m)) = set (mod_ServiceChecks m)"
  "set (mod_Interfaces (normalize_module m)) = set (mod_Interfaces m)"
  "set (mod_Dependencies (normalize_module m)) = set (mod_Dependencies m)"
  "mod_ID (normalize_module m) = mod_ID m" "mod_Version (normalize_module m) = mod_Version m"
  "mod_CoreContract (normalize_module m) = mod_CoreContract m"
  "mod_Images (normalize_module m) = mod_Images m" "mod_Resources (normalize_module m) = mod_Resources m"
  "mod_Healthcheck (normalize_module m) = mod_Healthcheck m"
  "mod_ValidationAction (normalize_module m) = mod_ValidationAction m"
  "mod_Actions (normalize_module m) = mod_Actions m" "mod_UpdateFrom (normalize_module m) = mod_UpdateFrom m"
  "mod_Uninstall (normalize_module m) = mod_Uninstall m"
  "mod_ActionFiles (normalize_module m) = mod_ActionFiles m"
  by (simp_all add: normalize_module_def)

lemma normalize_container_ids [simp]: "container_ids (normalize_module m) = container_ids m"
  by (simp add: container_ids_def image_image)

lemma normalize_attached [simp]: "attached (normalize_module m) role cid = attached m role cid"
  by (simp add: attached_def normalize_container_def)

lemma normalize_deliveries: "mset (secret_deliveries (normalize_module m)) = mset (secret_deliveries m)"
proof -
  let ?g = "\<lambda>s. map (\<lambda>c. (c, sec_Delivery s, secret_target s)) (sec_Containers s)"
  have norm: "mset (?g (normalize_secret s)) = mset (?g s)" for s
    by (simp add: normalize_secret_def secret_target_def)
  have "mset (concat (map ?g (map normalize_secret ss))) = mset (concat (map ?g ss))" for ss
    by (induction ss) (simp_all only: list.map concat.simps mset_append norm)
  then have "mset (secret_deliveries (normalize_module m)) = mset (concat (map ?g (sort_key sec_ID (mod_Secrets m))))"
    by (simp add: secret_deliveries_def normalize_module_def)
  also have "\<dots> = mset (secret_deliveries m)"
    unfolding secret_deliveries_def by (rule mset_concat_map) simp
  finally show ?thesis .
qed

lemma normalize_containers_contract: "containers_contract m \<Longrightarrow> containers_contract (normalize_module m)"
proof -
  have "container_contract (normalize_module m) (normalize_container c) = container_contract m c" for c
    by (simp add: container_contract_def normalize_container_def)
  moreover have "distinct (map ctr_ID (mod_Containers (normalize_module m))) = distinct (map ctr_ID (mod_Containers m))"
    by (simp add: normalize_module_def comp_def)
  ultimately show "containers_contract m \<Longrightarrow> containers_contract (normalize_module m)"
    by (simp add: containers_contract_def)
qed

lemma normalize_secrets_contract: "secrets_contract m \<Longrightarrow> secrets_contract (normalize_module m)"
proof -
  have "secret_contract (normalize_module m) (normalize_secret s) = secret_contract m s" for s
    by (simp add: secret_contract_def normalize_secret_def)
  moreover have "distinct (map sec_ID (mod_Secrets (normalize_module m))) = distinct (map sec_ID (mod_Secrets m))"
    by (simp add: normalize_module_def comp_def)
  moreover have "distinct (secret_deliveries (normalize_module m)) = distinct (secret_deliveries m)"
    by (rule mset_eq_imp_distinct_iff [OF normalize_deliveries])
  ultimately show "secrets_contract m \<Longrightarrow> secrets_contract (normalize_module m)"
    by (simp add: secrets_contract_def normalize_container_def normalize_secret_def)
qed

lemma normalize_integration_contract:
  "integration_contract pu m \<Longrightarrow> integration_contract pu (normalize_module m)"
proof -
  have route: "route_contract (normalize_module m) (normalize_route r) = route_contract m r" for r
    by (simp add: route_contract_def normalize_route_def)
  have check: "healthcheck_contract pu (normalize_module m) h = healthcheck_contract pu m h" for h
    by (simp add: healthcheck_contract_def)
  have "distinct (map (\<lambda>r. (to_lower (rte_Hostname r), rte_PathPrefix r)) (mod_PublicRoutes (normalize_module m))) =
      distinct (map (\<lambda>r. (to_lower (rte_Hostname r), rte_PathPrefix r)) (mod_PublicRoutes m))"
    by (simp add: normalize_module_def comp_def normalize_route_def)
  moreover have "distinct (map hc_ID (mod_ServiceChecks (normalize_module m))) = distinct (map hc_ID (mod_ServiceChecks m))"
      "distinct (map ifc_ID (mod_Interfaces (normalize_module m))) = distinct (map ifc_ID (mod_Interfaces m))"
      "distinct (mod_Dependencies (normalize_module m)) = distinct (mod_Dependencies m)"
    by (simp_all add: normalize_module_def)
  ultimately show "integration_contract pu m \<Longrightarrow> integration_contract pu (normalize_module m)"
    by (simp add: integration_contract_def route check)
qed

lemma normalize_contract:
  assumes "module_contract pu m"
  shows "module_contract pu (normalize_module m)"
proof -
  have nonempty: "mod_Containers (normalize_module m) = [] \<longleftrightarrow> mod_Containers m = []"
    by (simp add: normalize_module_def)
  have "storage_contract m \<Longrightarrow> storage_contract (normalize_module m)"
    by (simp add: storage_contract_def normalize_container_def normalize_module_def)
  moreover have "networks_contract m \<Longrightarrow> networks_contract (normalize_module m)"
    by (simp add: networks_contract_def normalize_container_def normalize_module_def)
  moreover have "actions_contract (normalize_module m) = actions_contract m"
    by (simp add: actions_contract_def)
  ultimately show ?thesis
    using assms normalize_containers_contract normalize_secrets_contract normalize_integration_contract
    by (simp add: module_contract_def nonempty)
qed

lemma contract_action_files:
  "module_contract pu (m\<lparr>mod_ActionFiles := fs\<rparr>) \<longleftrightarrow> module_contract pu m"
  by (simp add: module_contract_def containers_contract_def container_contract_def storage_contract_def
      networks_contract_def secrets_contract_def secret_contract_def secret_deliveries_def container_ids_def
      integration_contract_def route_contract_def healthcheck_contract_def attached_def actions_contract_def)

lemma read_actions_Inr_iff:
  "map_r (read_action fs) acts = Inr files \<longleftrightarrow>
     list_all2 (\<lambda>(i, rel) (j, content). j = i \<and> fs rel = Inr content) acts files"
  by (auto simp: result_simps read_action_def case_prod_beta fun_eq_iff intro!: arg_cong [where f = "\<lambda>R. list_all2 R acts files"])

lemma compiled_module_contract:
  assumes "compile_module pu decode (Some fs) = Inr m"
  shows "module_contract pu m \<and> normalize_module m = m \<and>
    list_all2 (\<lambda>(i, rel) (j, content). j = i \<and> fs rel = Inr content) (mod_Actions m) (mod_ActionFiles m) \<and>
    (\<forall>(i, rel)\<in>set (mod_Actions m). action_script rel)"
proof -
  obtain m0 files where valid: "validate_module pu m0 = Inr ()"
    and files: "map_r (read_action fs) (mod_Actions m0) = Inr files"
    and m: "m = normalize_module (m0\<lparr>mod_ActionFiles := files\<rparr>)"
    using assms unfolding compile_module_def by (auto simp: result_simps Let_def split: prod.splits)
  have contract: "module_contract pu m0" using valid by (simp add: validate_module_Inr_iff)
  then have "module_contract pu m"
    unfolding m by (intro normalize_contract) (simp add: contract_action_files)
  moreover have "mod_Actions m = mod_Actions m0" "mod_ActionFiles m = files"
    by (simp_all add: m)
  moreover have "\<forall>(i, rel)\<in>set (mod_Actions m0). action_script rel"
    using contract by (auto simp: module_contract_def actions_contract_def)
  ultimately show ?thesis
    using files by (simp add: m normalize_idem read_actions_Inr_iff)
qed

text \<open>
  normalization is canonical. Two packages that hold the same entries in another order,
  nested lists included, normalize to the same module; normalizing twice changes nothing more,
  and the normalized module still satisfies the contract.
\<close>

theorem normalize_canonical:
  assumes "module_contract pu m" and "reordered m m'"
  shows "normalize_module m' = normalize_module m \<and>
    normalize_module (normalize_module m) = normalize_module m \<and> module_contract pu (normalize_module m)"
  using assms normalize_reordered normalize_idem normalize_contract by metis

text \<open>
  what the compiler returns satisfies the module contract, is in canonical order, and
  carries for every action the bytes of its script, a file directly under \<open>actions/\<close>.
\<close>

theorem compile_module_sound:
  assumes "compile_module pu decode (Some fs) = Inr m"
  shows "module_contract pu m \<and> normalize_module m = m \<and>
    list_all2 (\<lambda>(i, rel) (j, content). j = i \<and> fs rel = Inr content) (mod_Actions m) (mod_ActionFiles m) \<and>
    (\<forall>(i, rel)\<in>set (mod_Actions m). action_script rel)"
  by (rule compiled_module_contract [OF assms])


end
