(* ===== verification/Bundle_Archive.thy ===== *)
theory Bundle_Archive
  imports Bundle_Normalize Module_Compile
begin

section \<open>Assembling, verifying and storing bundles\<close>

text \<open>
  \<open>internal/executionbundle/assembler.go\<close>, \<open>verify.go\<close> and \<open>canonical.go\<close>. Parameters:
  \<open>tar_write\<close> and \<open>tar_read\<close> are the codec of \<open>archive/tar\<close>, \<open>decode\<close> is the strict JSON
  decoder for a manifest with what a second call of \<open>Decode\<close> reports, \<open>runner\<close> is the embedded
  target runner of \<open>internal/targetrunner/runner.go\<close>, its parts by file name.
\<close>

subsection \<open>The embedded runner\<close>

definition runner_version :: bytes where "runner_version = ''1''"
definition runner_path :: bytes where "runner_path = ''runtime/runner.py''"

definition runner_bytes :: "bytes go_map \<Rightarrow> bytes" where
  "runner_bytes parts = concat (map snd (sort_key fst parts))"

definition runner_of :: "bytes go_map \<Rightarrow> runner_identity" where
  "runner_of parts =
     \<lparr>run_Version = runner_version, run_Path = runner_path, run_SHA256 = sha256_hex (runner_bytes parts)\<rparr>"

subsection \<open>Assembly\<close>

definition checksum_line :: "bundle_file \<Rightarrow> bytes" where
  "checksum_line f = sha256_hex (fil_Data f) @ ''  '' @ fil_Path f @ [CHR 0x0A]"

definition checksum_document :: "bundle_file list \<Rightarrow> bytes" where
  "checksum_document files = concat (map checksum_line (sort_key fil_Path files))"

definition draft_manifest ::
  "bytes go_map \<Rightarrow> bundle_input \<Rightarrow> artifact_entry list \<Rightarrow> action_entry list \<Rightarrow> manifest" where
  "draft_manifest parts i artifacts actions =
     normalize_manifest
       \<lparr>man_FormatVersion = 2, man_Runner = runner_of parts, man_BundleID = [], man_Kind = inp_Kind i,
        man_TargetID = inp_TargetID i, man_SubjectKind = inp_SubjectKind i, man_SubjectID = inp_SubjectID i,
        man_SubjectIdentity = inp_SubjectIdentity i, man_PackageID = inp_PackageID i,
        man_PackageSHA256 = inp_PackageSHA256 i, man_Version = inp_Version i, man_Sources = inp_Sources i,
        man_Images = inp_Images i, man_Artifacts = artifacts, man_Actions = actions,
        man_ActionWritablePaths = inp_ActionWritablePaths i, man_Secrets = inp_Secrets i,
        man_Preconditions = inp_Preconditions i, man_ExpectedPost = canonical_json (inp_ExpectedPost i),
        man_Validations = inp_Validations i, man_Steps = inp_Steps i, man_BackupRequired = inp_BackupRequired i,
        man_Nil = []\<rparr>"

definition bundle_identity :: "manifest \<Rightarrow> bytes" where
  "bundle_identity m =
     ''bundle_'' @ hex_encode (take 16 (sha256 (canonical_json (manifest_json (m\<lparr>man_BundleID := []\<rparr>)))))"

definition plain_file :: "bytes \<Rightarrow> int \<Rightarrow> bytes \<Rightarrow> bundle_file" where
  "plain_file p mode data = \<lparr>fil_Path = p, fil_TargetPath = [], fil_Mode = mode, fil_Data = data\<rparr>"

definition payload_files :: "bytes go_map \<Rightarrow> bundle_file list \<Rightarrow> manifest \<Rightarrow> bundle_file list" where
  "payload_files parts files m =
     (let listed = files @ [plain_file runner_path 365 (runner_bytes parts)]
            @ [plain_file ''manifest.json'' 292 (canonical_json (manifest_json m) @ [CHR 0x0A])]
      in sort_key fil_Path (listed @ [plain_file ''SHA256SUMS'' 292 (checksum_document listed)]))"

definition assemble_bytes ::
  "(bundle_file list \<Rightarrow> bytes result) \<Rightarrow> bytes go_map \<Rightarrow> bundle_input \<Rightarrow> exec_bundle result" where
  "assemble_bytes tar_write parts i =
     also_r (validate_input i)
       (bind_r (normalize_files i) (\<lambda>(files, artifacts, actions).
        let draft = draft_manifest parts i artifacts actions; m = draft\<lparr>man_BundleID := bundle_identity draft\<rparr> in
        bind_r (tar_write (payload_files parts files m)) (\<lambda>payload.
        Inr \<lparr>bun_ID = man_BundleID m, bun_Kind = inp_Kind i, bun_SHA256 = sha256_hex payload, bun_Bytes = payload,
             bun_Manifest = m\<rparr>)))"

subsection \<open>Verification\<close>

record tar_member =
  tmb_Name :: bytes
  tmb_Regular :: bool
  tmb_Data :: "bytes result"

definition safe_archive_path :: "bytes \<Rightarrow> bool" where
  "safe_archive_path v =
     (v \<noteq> [] \<and> path_clean v = v \<and> \<not> has_prefix v ''/'' \<and> \<not> has_prefix v ''../'' \<and>
      \<not> contains_any v [backslash, CHR 0x0D, CHR 0x0A, CHR 0x00])"

definition read_member :: "bytes go_map \<Rightarrow> tar_member \<Rightarrow> bytes go_map result" where
  "read_member files t =
     (if \<not> safe_archive_path (tmb_Name t) \<or> \<not> tmb_Regular t
      then Inl (Errf ''unsafe execution bundle member %q'' [tmb_Name t])
      else if tmb_Name t \<in> keys_of files then Inl (Errf ''duplicate execution bundle member %s'' [tmb_Name t])
      else bind_r (wrap_error ''read execution bundle member %s: %w'' [tmb_Name t] (tmb_Data t))
             (\<lambda>data. Inr (files @ [(tmb_Name t, data)])))"

text \<open>The members in archive order, and how the reading ends: end of archive or an error.\<close>

definition read_archive :: "tar_member list \<times> error option \<Rightarrow> bytes go_map result" where
  "read_archive a =
     bind_r (fold_r read_member [] (fst a)) (\<lambda>files.
     case snd a of None \<Rightarrow> Inr files | Some e \<Rightarrow> Inl (Wrapf ''read execution bundle archive: %w'' [] e))"

text \<open>\<open>strings.Cut\<close> at the first two spaces.\<close>

fun cut_spaces :: "bytes \<Rightarrow> (bytes \<times> bytes) option" where
  "cut_spaces (a # b # s) =
     (if a = CHR 0x20 \<and> b = CHR 0x20 then Some ([], s)
      else map_option (\<lambda>(d, n). (a # d, n)) (cut_spaces (b # s)))"
| "cut_spaces s = None"

definition check_line :: "bytes go_map \<Rightarrow> bytes set \<Rightarrow> bytes \<Rightarrow> bytes set result" where
  "check_line files listed l =
     (if l = [] then Inr listed
      else
        (case cut_spaces l of
           None \<Rightarrow> Inl (Err ''execution bundle SHA256SUMS is invalid'')
         | Some (dg, name) \<Rightarrow>
             if \<not> valid_sha256 dg \<or> \<not> safe_archive_path name \<or> name = ''SHA256SUMS''
             then Inl (Err ''execution bundle SHA256SUMS is invalid'')
             else if name \<in> listed then Inl (Errf ''duplicate execution bundle checksum for %s'' [name])
             else
               (case map_of files name of
                  None \<Rightarrow> Inl (Errf ''execution bundle checksum references missing member %s'' [name])
                | Some data \<Rightarrow>
                    if sha256_hex data \<noteq> dg
                    then Inl (Errf ''execution bundle member hash mismatch: %s'' [name])
                    else Inr (insert name listed))))"

definition verify_payload_checksums :: "bytes go_map \<Rightarrow> unit result" where
  "verify_payload_checksums files =
     (case map_of files ''SHA256SUMS'' of
        None \<Rightarrow> Inl (Err ''execution bundle SHA256SUMS is missing'')
      | Some document \<Rightarrow>
          bind_r (fold_r (check_line files) {} (split_on CHR 0x0A (trim_suffix document [CHR 0x0A]))) (\<lambda>listed.
          for_each (\<lambda>(name, _). reject_if (name \<noteq> ''SHA256SUMS'' \<and> name \<notin> listed)
            (Errf ''execution bundle payload is not covered by SHA256SUMS: %s'' [name])) files))"

definition check_trailer :: "trailing \<Rightarrow> unit result" where
  "check_trailer t =
     (case t of
        No_More \<Rightarrow> Inr ()
      | Bad_Trailing e \<Rightarrow> Inl (Wrapf ''decode execution bundle manifest trailer: %w'' [] e)
      | Another_Document \<Rightarrow> Inl (Err ''execution bundle manifest contains multiple JSON values''))"

definition verify_manifest :: "exec_bundle \<Rightarrow> bytes go_map \<Rightarrow> manifest \<Rightarrow> manifest result" where
  "verify_manifest b files m =
     also_r
       (checks
         [reject_if (man_FormatVersion m \<noteq> 2)
            (Errf ''unsupported execution bundle format version %d'' [decimal_int (man_FormatVersion m)]),
          reject_if (man_BundleID m \<noteq> bun_ID b) (Err ''execution bundle id does not match manifest''),
          reject_if (run_Version (man_Runner m) = [] \<or> \<not> safe_archive_path (run_Path (man_Runner m)) \<or>
              \<not> valid_sha256 (run_SHA256 (man_Runner m)))
            (Err ''execution bundle runner identity is invalid''),
          verify_payload_checksums files,
          (case map_of files (run_Path (man_Runner m)) of
             None \<Rightarrow> Inl (Err ''execution bundle runner payload is missing'')
           | Some data \<Rightarrow> reject_if (sha256_hex data \<noteq> run_SHA256 (man_Runner m))
               (Err ''execution bundle runner sha256 does not match payload'')),
          reject_if (bundle_identity m \<noteq> bun_ID b) (Err ''execution bundle content-derived id is invalid'')])
       (Inr m)"

definition verify ::
  "(bytes \<Rightarrow> tar_member list \<times> error option) \<Rightarrow> (bytes \<Rightarrow> (manifest \<times> trailing) result) \<Rightarrow>
   exec_bundle \<Rightarrow> manifest result" where
  "verify tar_read decode b =
     also_r
       (checks
         [reject_if (bun_ID b = [] \<or> bun_SHA256 b = [] \<or> bun_Bytes b = [])
            (Err ''complete execution bundle is required''),
          reject_if (sha256_hex (bun_Bytes b) \<noteq> bun_SHA256 b)
            (Err ''execution bundle sha256 does not match bytes'')])
       (bind_r (read_archive (tar_read (bun_Bytes b))) (\<lambda>files.
        case map_of files ''manifest.json'' of
          None \<Rightarrow> Inl (Err ''execution bundle manifest is missing'')
        | Some manifest_bytes \<Rightarrow>
            bind_r (wrap_error ''decode execution bundle manifest: %w'' [] (decode manifest_bytes)) (\<lambda>(m, extra).
            also_r (check_trailer extra) (verify_manifest b files m))))"

subsection \<open>What a verified bundle is\<close>

lemma cut_spaces_Some: "cut_spaces l = Some (d, n) \<Longrightarrow> l = d @ ''  '' @ n"
  by (induction l arbitrary: d rule: cut_spaces.induct) (auto split: if_splits)

lemma cut_spaces_line: "CHR 0x20 \<notin> set d \<Longrightarrow> cut_spaces (d @ ''  '' @ n) = Some (d, n)"
proof (induction d)
  case (Cons a d)
  then show ?case by (cases d) auto
qed simp

text \<open>A checksum line without its line feed.\<close>

definition sum_line :: "bytes \<Rightarrow> bytes \<Rightarrow> bytes" where
  "sum_line data name = sha256_hex data @ ''  '' @ name"

lemma check_line_Inr:
  assumes "check_line files listed l = Inr listed'"
  shows "listed' = listed \<or>
    (\<exists>name data. map_of files name = Some data \<and> l = sum_line data name \<and> listed' = insert name listed)"
proof (cases "l = []")
  case False
  then obtain d n data where "cut_spaces l = Some (d, n)" "map_of files n = Some data" "sha256_hex data = d"
      "listed' = insert n listed"
    using assms by (auto simp: check_line_def split: if_splits option.splits)
  then show ?thesis using cut_spaces_Some [of l d n] unfolding sum_line_def by blast
qed (use assms in \<open>simp add: check_line_def\<close>)

lemma check_lines_Inr:
  assumes "fold_r (check_line files) listed ls = Inr listed'" "name \<in> listed'"
  shows "name \<in> listed \<or> (\<exists>data. map_of files name = Some data \<and> sum_line data name \<in> set ls)"
  using assms
proof (induction ls arbitrary: listed)
  case (Cons l ls)
  then obtain u where u: "check_line files listed l = Inr u" "fold_r (check_line files) u ls = Inr listed'"
    by (auto simp: result_simps)
  from Cons.IH [OF u(2) Cons.prems(2)] check_line_Inr [OF u(1)] show ?case by auto
qed simp

lemma read_members_Inr:
  assumes "fold_r read_member files ts = Inr files'"
  shows "list_all2 (\<lambda>t (n, d). tmb_Name t = n \<and> tmb_Data t = Inr d) ts (drop (length files) files') \<and>
    take (length files) files' = files \<and> length files \<le> length files' \<and>
    (\<forall>t\<in>set ts. safe_archive_path (tmb_Name t) \<and> tmb_Regular t) \<and>
    (distinct (map fst files) \<longrightarrow> distinct (map fst files'))"
  using assms
proof (induction ts arbitrary: files)
  case (Cons t ts)
  obtain data where d: "tmb_Data t = Inr data" "safe_archive_path (tmb_Name t)" "tmb_Regular t"
      "tmb_Name t \<notin> keys_of files" "fold_r read_member (files @ [(tmb_Name t, data)]) ts = Inr files'"
  proof -
    obtain u where "read_member files t = Inr u" "fold_r read_member u ts = Inr files'"
      using Cons.prems by (auto simp: result_simps)
    then show ?thesis using that by (auto simp: read_member_def result_simps split: if_splits)
  qed
  note IH = Cons.IH [OF d(5)]
  have len: "Suc (length files) \<le> length files'" and take: "take (Suc (length files)) files' = files @ [(tmb_Name t, data)]"
    using IH by simp_all
  have "files' ! length files = (tmb_Name t, data)"
    using take len by (metis lessI less_le_trans nth_append_length nth_take)
  then have "drop (length files) files' = (tmb_Name t, data) # drop (Suc (length files)) files'"
    using len by (metis Cons_nth_drop_Suc Suc_le_lessD)
  moreover have "take (length files) files' = files"
    using take len by (metis append_eq_conv_conj take_take min.absorb1 le_SucI order_refl)
  ultimately show ?case using IH d len by (auto simp: keys_of_def)
qed auto

text \<open>What verification establishes of the bytes of a bundle.\<close>

definition verified_archive ::
  "(bytes \<Rightarrow> tar_member list \<times> error option) \<Rightarrow> (bytes \<Rightarrow> (manifest \<times> trailing) result) \<Rightarrow>
   bytes \<Rightarrow> manifest \<Rightarrow> bytes go_map \<Rightarrow> bool" where
  "verified_archive tar_read decode payload m files =
     ((\<exists>ts. tar_read payload = (ts, None) \<and>
         list_all2 (\<lambda>t (n, d). tmb_Name t = n \<and> tmb_Data t = Inr d) ts files \<and>
         (\<forall>t\<in>set ts. safe_archive_path (tmb_Name t) \<and> tmb_Regular t)) \<and>
      distinct (map fst files) \<and>
      (\<exists>body. map_of files ''manifest.json'' = Some body \<and> decode body = Inr (m, No_More)) \<and>
      (\<exists>sums. map_of files ''SHA256SUMS'' = Some sums \<and>
         (\<forall>name data. map_of files name = Some data \<and> name \<noteq> ''SHA256SUMS'' \<longrightarrow>
            sum_line data name \<in> set (split_on CHR 0x0A (trim_suffix sums [CHR 0x0A])))) \<and>
      (\<exists>data. map_of files (run_Path (man_Runner m)) = Some data \<and> sha256_hex data = run_SHA256 (man_Runner m)))"

lemma verify_payload_checksums_Inr:
  assumes "verify_payload_checksums files = Inr u"
  shows "\<exists>sums. map_of files ''SHA256SUMS'' = Some sums \<and>
    (\<forall>name data. map_of files name = Some data \<and> name \<noteq> ''SHA256SUMS'' \<longrightarrow>
       sum_line data name \<in> set (split_on CHR 0x0A (trim_suffix sums [CHR 0x0A])))"
proof -
  obtain sums listed where s: "map_of files ''SHA256SUMS'' = Some sums"
      "fold_r (check_line files) {} (split_on CHR 0x0A (trim_suffix sums [CHR 0x0A])) = Inr listed"
      "\<forall>p\<in>set files. fst p \<noteq> ''SHA256SUMS'' \<longrightarrow> fst p \<in> listed"
    using assms by (auto simp: verify_payload_checksums_def result_simps case_prod_beta split: option.splits)
  have "sum_line data name \<in> set (split_on CHR 0x0A (trim_suffix sums [CHR 0x0A]))"
    if n: "map_of files name = Some data" "name \<noteq> ''SHA256SUMS''" for name data
  proof -
    have "name \<in> listed" using n s(3) map_of_SomeD by fastforce
    from check_lines_Inr [OF s(2) this] n(1) show ?thesis by auto
  qed
  then show ?thesis using s(1) by blast
qed

lemma check_trailer_Inr_iff [result_simps]: "check_trailer t = Inr u \<longleftrightarrow> t = No_More"
  by (cases t) (simp_all add: check_trailer_def)

lemma verify_manifest_same: "verify_manifest b files m' = Inr m \<Longrightarrow> m' = m"
  by (simp add: verify_manifest_def also_r_Inr_iff)

text \<open>
  C3: a bundle that verifies is what its bytes say. Its digest is that of the bytes, every
  member of the archive is a regular file under a safe name, no name occurs twice, every member
  but the checksum file is covered by a checksum line with its own digest, the runner is the
  one the manifest names, and the identifier is derived from the content of the manifest.
\<close>

theorem verify_sound:
  assumes "verify tar_read decode b = Inr m"
  shows "sha256_hex (bun_Bytes b) = bun_SHA256 b \<and> bun_ID b = man_BundleID m \<and> bun_ID b = bundle_identity m \<and>
    (\<exists>files. verified_archive tar_read decode (bun_Bytes b) m files)"
proof -
  obtain files body m' where v: "sha256_hex (bun_Bytes b) = bun_SHA256 b"
      "read_archive (tar_read (bun_Bytes b)) = Inr files" "map_of files ''manifest.json'' = Some body"
      "decode body = Inr (m', No_More)" "verify_manifest b files m' = Inr m"
    using assms by (auto simp: verify_def result_simps split: option.splits)
  note v = v [unfolded verify_manifest_same [OF v(5)]]
  have m: "man_BundleID m = bun_ID b" "verify_payload_checksums files = Inr ()" "bundle_identity m = bun_ID b"
      "\<exists>data. map_of files (run_Path (man_Runner m)) = Some data \<and> sha256_hex data = run_SHA256 (man_Runner m)"
    using v(5) by (auto simp: verify_manifest_def result_simps split: option.splits)
  obtain ts where ts: "tar_read (bun_Bytes b) = (ts, None)" "fold_r read_member [] ts = Inr files"
    using v(2) by (cases "tar_read (bun_Bytes b)") (auto simp: read_archive_def result_simps split: option.splits)
  have "verified_archive tar_read decode (bun_Bytes b) m files"
    unfolding verified_archive_def
    using read_members_Inr [OF ts(2)] ts(1) v(3,4) m(4) verify_payload_checksums_Inr [OF m(2)] by auto
  then show ?thesis using v(1) m by auto
qed

subsection \<open>An assembled bundle verifies\<close>

lemma hex_encode_chars: "c \<in> set (hex_encode s) \<Longrightarrow> c \<in> set ''0123456789abcdef''"
proof -
  have digits: "list_all (\<lambda>d. hex_digit d \<in> set ''0123456789abcdef'') [0..<16]" by code_simp
  have "hex_digit d \<in> set ''0123456789abcdef''" if "d < 16" for d
    using digits that by (simp add: list_all_iff del: set_simps)
  moreover have "of_char b div 16 < (16 :: nat)" for b
    using nat_of_char_less_256 [of b] by (simp only: div_less_iff_less_mult)
  moreover have "of_char b mod 16 < (16 :: nat)" for b by simp
  ultimately have byte: "set (hex_byte b) \<subseteq> set ''0123456789abcdef''" for b
    unfolding hex_byte_def by (simp only: list.set insert_subset empty_subsetI simp_thms)
  assume "c \<in> set (hex_encode s)"
  then obtain b where "c \<in> set (hex_byte b)" by (auto simp: hex_encode_def)
  then show ?thesis using byte by blast
qed

lemma valid_sha256_hex [simp]: "valid_sha256 (sha256_hex s)"
  using hex_encode_chars by (simp add: valid_sha256_def list_all_iff del: set_simps)

lemma sum_line_free:
  assumes "CHR 0x0A \<notin> set name"
  shows "CHR 0x0A \<notin> set (sum_line data name)"
  using assms hex_encode_chars [of "CHR 0x0A" "sha256 data"] by (auto simp: sum_line_def)

lemma cut_sum_line: "cut_spaces (sum_line data name) = Some (sha256_hex data, name)"
  unfolding sum_line_def using hex_encode_chars [of "CHR 0x20" "sha256 data"]
  by (intro cut_spaces_line) auto

lemma split_lines:
  assumes "ls \<noteq> []" "\<forall>l\<in>set ls. c \<notin> set l"
  shows "split_on c (trim_suffix (concat (map (\<lambda>l. l @ [c]) ls)) [c]) = ls"
proof -
  have "concat (map (\<lambda>l. l @ [c]) ls) = join_with [c] ls @ [c]"
    using assms(1) by (induction "[c]" ls rule: join_with.induct) auto
  then show ?thesis using assms by (simp add: split_join)
qed

definition member_of :: "bundle_file \<Rightarrow> tar_member" where
  "member_of f = \<lparr>tmb_Name = fil_Path f, tmb_Regular = True, tmb_Data = Inr (fil_Data f)\<rparr>"

definition entry_of :: "bundle_file \<Rightarrow> bytes \<times> bytes" where
  "entry_of f = (fil_Path f, fil_Data f)"

lemma read_members_of:
  "\<forall>f\<in>set fs. safe_archive_path (fil_Path f) \<Longrightarrow> distinct (map fst files @ map fil_Path fs) \<Longrightarrow>
   fold_r read_member files (map member_of fs) = Inr (files @ map entry_of fs)"
proof (induction fs arbitrary: files)
  case (Cons f fs)
  then have "read_member files (member_of f) = Inr (files @ [entry_of f])"
    by (auto simp: read_member_def member_of_def entry_of_def keys_of_def wrap_error_def)
  then show ?case using Cons by (simp add: entry_of_def)
qed simp

lemma check_lines_of:
  "\<forall>f\<in>set fs. safe_archive_path (fil_Path f) \<and> fil_Path f \<noteq> ''SHA256SUMS'' \<and> map_of files (fil_Path f) = Some (fil_Data f) \<Longrightarrow>
   distinct (map fil_Path fs) \<Longrightarrow> fil_Path ` set fs \<inter> L = {} \<Longrightarrow>
   fold_r (check_line files) L (map (\<lambda>f. sum_line (fil_Data f) (fil_Path f)) fs) = Inr (L \<union> fil_Path ` set fs)"
proof (induction fs arbitrary: L)
  case (Cons f fs)
  have "sum_line (fil_Data f) (fil_Path f) \<noteq> []" by (simp add: sum_line_def)
  then have "check_line files L (sum_line (fil_Data f) (fil_Path f)) = Inr (insert (fil_Path f) L)"
    using Cons.prems by (simp add: check_line_def cut_sum_line)
  then show ?case using Cons by (auto simp: image_iff)
qed simp

lemma checksum_lines:
  assumes "fs \<noteq> []" "\<forall>f\<in>set fs. CHR 0x0A \<notin> set (fil_Path f)"
  shows "split_on CHR 0x0A (trim_suffix (checksum_document fs) [CHR 0x0A]) =
    map (\<lambda>f. sum_line (fil_Data f) (fil_Path f)) (sort_key fil_Path fs)"
proof -
  have "checksum_document fs =
      concat (map (\<lambda>l. l @ [CHR 0x0A]) (map (\<lambda>f. sum_line (fil_Data f) (fil_Path f)) (sort_key fil_Path fs)))"
    by (simp add: checksum_document_def checksum_line_def [abs_def] sum_line_def comp_def)
  then show ?thesis
    using assms sum_line_free by (simp only:) (subst split_lines, auto)
qed

lemma verify_payload_of:
  assumes paths: "\<forall>f\<in>set fs. safe_archive_path (fil_Path f) \<and> fil_Path f \<noteq> ''SHA256SUMS''"
    and distinct: "distinct (map fil_Path fs)" and fs: "fs \<noteq> []"
    and files: "mset files = mset (map entry_of (fs @ [plain_file ''SHA256SUMS'' 292 (checksum_document fs)]))"
  shows "verify_payload_checksums files = Inr ()"
proof -
  have "mset (map fst files) =
      mset (map fst (map entry_of (fs @ [plain_file ''SHA256SUMS'' 292 (checksum_document fs)])))"
    using files by (metis mset_map)
  moreover have "map fst (map entry_of xs) = map fil_Path xs" for xs by (simp add: entry_of_def comp_def)
  ultimately have keys: "mset (map fst files) = mset (map fil_Path fs @ [''SHA256SUMS''])"
    by (simp only:) (simp add: plain_file_def)
  have "distinct (map fil_Path fs @ [''SHA256SUMS''])" using distinct paths by auto
  then have d: "distinct (map fst files)" using mset_eq_imp_distinct_iff [OF keys] by blast
  have set: "set files = entry_of ` set fs \<union> {(''SHA256SUMS'', checksum_document fs)}"
    using mset_eq_setD [OF files] by (auto simp: entry_of_def plain_file_def)
  have sums: "map_of files ''SHA256SUMS'' = Some (checksum_document fs)"
    using d set by (simp add: map_of_eq_Some_iff)
  have look: "map_of files (fil_Path f) = Some (fil_Data f)" if "f \<in> set fs" for f
    using d set that by (auto simp: map_of_eq_Some_iff entry_of_def image_iff intro!: bexI [of _ f])
  have nl_free: "\<forall>f\<in>set fs. CHR 0x0A \<notin> set (fil_Path f)"
    using paths by (auto simp: safe_archive_path_def contains_any_iff)
  have "fold_r (check_line files) {} (map (\<lambda>f. sum_line (fil_Data f) (fil_Path f)) (sort_key fil_Path fs)) =
      Inr ({} \<union> fil_Path ` set (sort_key fil_Path fs))"
    using paths distinct look by (intro check_lines_of) auto
  then have "fold_r (check_line files) {} (split_on CHR 0x0A (trim_suffix (checksum_document fs) [CHR 0x0A])) =
      Inr (fil_Path ` set fs)"
    by (simp add: checksum_lines [OF fs nl_free])
  moreover have "\<forall>p\<in>set files. fst p = ''SHA256SUMS'' \<or> fst p \<in> fil_Path ` set fs"
    unfolding set by (auto simp: entry_of_def)
  ultimately show ?thesis
    by (simp add: verify_payload_checksums_def sums for_each_Inr_iff reject_if_Inr_iff case_prod_beta)
qed

text \<open>The names assembly adds itself, and the paths an archive may then hold besides.\<close>

definition reserved_names :: "bytes set" where
  "reserved_names = {runner_path, ''manifest.json'', ''SHA256SUMS''}"

definition archive_path_free :: "bundle_file \<Rightarrow> bool" where
  "archive_path_free f = (backslash \<notin> set (fil_Path f) \<and> fil_Path f \<notin> reserved_names)"

lemma bundle_path_safe: "bundle_path_ok p \<Longrightarrow> backslash \<notin> set p \<Longrightarrow> safe_archive_path p"
  by (auto simp: bundle_path_ok_def safe_archive_path_def contains_any_iff)

lemma reserved_safe:
  "safe_archive_path runner_path" "safe_archive_path ''manifest.json''" "safe_archive_path ''SHA256SUMS''"
  by code_simp+

lemma bundle_identity_id: "bundle_identity (m\<lparr>man_BundleID := x\<rparr>) = bundle_identity m"
  by (simp add: bundle_identity_def)

lemma draft_manifest_fields:
  "man_FormatVersion (draft_manifest parts i arts acts) = 2"
  "man_Runner (draft_manifest parts i arts acts) = runner_of parts"
  by (simp_all add: draft_manifest_def normalize_manifest_def)

lemma assembled_verifies:
  assumes made: "assemble_bytes tar_write parts i = Inr b"
    and files: "normalize_files i = Inr (files, arts, acts)"
    and unreserved: "\<forall>f\<in>set (inp_Files i @ inp_Actions i). archive_path_free f"
    and tar: "bun_Bytes b \<noteq> []"
      "tar_read (bun_Bytes b) = (map member_of (payload_files parts files (bun_Manifest b)), None)"
    and json: "decode (canonical_json (manifest_json (bun_Manifest b)) @ [CHR 0x0A]) = Inr (bun_Manifest b, No_More)"
  shows "verify tar_read decode b = Inr (bun_Manifest b)"
proof -
  obtain payload m where valid: "validate_input i = Inr ()"
    and m: "m = (draft_manifest parts i arts acts)\<lparr>man_BundleID := bundle_identity (draft_manifest parts i arts acts)\<rparr>"
    and b: "b = \<lparr>bun_ID = man_BundleID m, bun_Kind = inp_Kind i, bun_SHA256 = sha256_hex payload, bun_Bytes = payload,
             bun_Manifest = m\<rparr>"
    using made unfolding assemble_bytes_def by (auto simp: result_simps files Let_def)
  have len: "length (inp_ActionIDs i) = length (inp_Actions i)"
    using valid by (simp add: validate_input_def result_simps)
  note norm = files [unfolded normalize_files_accepts [OF len]]
  let ?runner = "plain_file runner_path 365 (runner_bytes parts)"
  let ?manifest = "plain_file ''manifest.json'' 292 (canonical_json (manifest_json m) @ [CHR 0x0A])"
  let ?listed = "files @ [?runner] @ [?manifest]"
  let ?all = "?listed @ [plain_file ''SHA256SUMS'' 292 (checksum_document ?listed)]"
  have paths: "fil_Path ` set files = fil_Path ` set (inp_Files i @ inp_Actions i)"
    using norm by (simp add: image_image image_Un)
  have own_ok: "safe_archive_path p \<and> p \<notin> reserved_names" if "p \<in> fil_Path ` set files" for p
    using that norm unreserved bundle_path_safe unfolding paths archive_path_free_def file_ok_def by blast
  have dist0: "distinct (map fil_Path files)" using norm by (simp add: comp_def)
  have plain: "fil_Path (plain_file p k d) = p" "fil_Data (plain_file p k d) = d" for p k d
    by (simp_all add: plain_file_def)
  have listed_ok: "\<forall>f\<in>set ?listed. safe_archive_path (fil_Path f) \<and> fil_Path f \<noteq> ''SHA256SUMS''"
    using own_ok reserved_safe by (auto simp: plain reserved_names_def runner_path_def)
  have listed_dist: "distinct (map fil_Path ?listed)"
    using dist0 own_ok by (auto simp: plain reserved_names_def runner_path_def)
  have all_dist: "distinct (map fil_Path (sort_key fil_Path ?all))"
    using listed_dist listed_ok by (auto simp: plain distinct_map_sort_key)
  have all_safe: "\<forall>f\<in>set (sort_key fil_Path ?all). safe_archive_path (fil_Path f)"
    using listed_ok reserved_safe by (auto simp: plain)
  have payload_eq: "payload_files parts files m = sort_key fil_Path ?all"
    by (simp add: payload_files_def)
  let ?entries = "map entry_of (sort_key fil_Path ?all)"
  have "fold_r read_member [] (map member_of (sort_key fil_Path ?all)) = Inr ([] @ ?entries)"
    using all_dist all_safe by (intro read_members_of) auto
  then have archive: "read_archive (tar_read (bun_Bytes b)) = Inr ?entries"
    using tar(2) by (simp add: read_archive_def b payload_eq)
  have keys_dist: "distinct (map fst ?entries)"
    using all_dist by (simp add: entry_of_def comp_def)
  have look: "map_of ?entries (fil_Path f) = Some (fil_Data f)" if "f \<in> set ?all" for f
    using keys_dist that by (auto simp: map_of_eq_Some_iff entry_of_def image_iff)
  have sums: "verify_payload_checksums ?entries = Inr ()"
    by (rule verify_payload_of [OF listed_ok listed_dist]) simp_all
  have manifest: "map_of ?entries ''manifest.json'' = Some (canonical_json (manifest_json m) @ [CHR 0x0A])"
    using look [of ?manifest] by (simp add: plain)
  have runner: "map_of ?entries runner_path = Some (runner_bytes parts)"
    using look [of ?runner] by (simp add: plain)
  have man: "man_FormatVersion m = 2" "man_Runner m = runner_of parts" "bundle_identity m = man_BundleID m"
    by (simp_all add: m draft_manifest_fields bundle_identity_id)
  have "verify_manifest b ?entries m = Inr m"
    using sums runner reserved_safe(1)
    by (simp add: verify_manifest_def b man runner_of_def runner_version_def)
  moreover have "man_BundleID m \<noteq> []" by (simp add: m bundle_identity_def)
  moreover have "sha256_hex x \<noteq> []" for x
    by (metis length_hex_encode length_sha256 list.size(3) mult_eq_0_iff zero_neq_numeral)
  ultimately show ?thesis
    unfolding verify_def archive
    using manifest json tar(1) by (simp add: b wrap_error_def check_trailer_def)
qed

text \<open>
  C2: a bundle that assembles also verifies, to the manifest it was assembled with, when the
  archive codec and the JSON decoder give back what was written, no path has a backslash and no
  path is one of the three names that assembly adds.
\<close>

theorem assemble_verifies:
  assumes made: "assemble_bytes tar_write parts i = Inr b"
    and files: "normalize_files i = Inr (files, arts, acts)"
    and unreserved: "\<forall>f\<in>set (inp_Files i @ inp_Actions i). archive_path_free f"
    and tar: "bun_Bytes b \<noteq> []"
      "tar_read (bun_Bytes b) = (map member_of (payload_files parts files (bun_Manifest b)), None)"
    and json: "decode (canonical_json (manifest_json (bun_Manifest b)) @ [CHR 0x0A]) = Inr (bun_Manifest b, No_More)"
  shows "verify tar_read decode b = Inr (bun_Manifest b)"
  by (rule assembled_verifies [of tar_write parts i b files arts acts tar_read decode, OF assms])

subsection \<open>On a sample bundle\<close>

definition sample_input :: bundle_input where
  "sample_input =
     \<lparr>inp_Kind = Installation, inp_TargetID = ''target_1'', inp_SubjectKind = ''module'', inp_SubjectID = ''db1'',
      inp_SubjectIdentity = ''db'', inp_PackageID = '''', inp_PackageSHA256 = '''', inp_Version = ''1.2.0'',
      inp_Sources = [], inp_Images = [],
      inp_Files = [\<lparr>fil_Path = ''artifacts/a.conf'', fil_TargetPath = ''/etc/a.conf'', fil_Mode = 0, fil_Data = ''a=1''\<rparr>],
      inp_Actions = [], inp_ActionIDs = [], inp_ActionWritablePaths = [''/srv/db''], inp_Secrets = [],
      inp_Preconditions = [], inp_ExpectedPost = JObj [], inp_Validations = [],
      inp_Steps = [\<lparr>stp_ID = ''apply:a'', stp_Kind = ''apply-artifact'', stp_Artifact = ''artifacts/a.conf'',
        stp_Action = '''', stp_Args = [], stp_Mutating = True\<rparr>],
      inp_BackupRequired = False\<rparr>"

definition sample_file :: bundle_file where
  "sample_file = \<lparr>fil_Path = ''artifacts/a.conf'', fil_TargetPath = ''/etc/a.conf'', fil_Mode = 0, fil_Data = ''a=1''\<rparr>"

definition sample_manifest :: manifest where
  "sample_manifest =
     (let d = draft_manifest [] sample_input [artifact_of sample_file] [] in d\<lparr>man_BundleID := bundle_identity d\<rparr>)"

definition sample_bundle :: exec_bundle where
  "sample_bundle =
     \<lparr>bun_ID = man_BundleID sample_manifest, bun_Kind = Installation, bun_SHA256 = sha256_hex ''tar'', bun_Bytes = ''tar'',
      bun_Manifest = sample_manifest\<rparr>"

text \<open>A codec and a decoder that know this one bundle.\<close>

definition sample_tar :: "bytes \<Rightarrow> tar_member list \<times> error option" where
  "sample_tar payload = (map member_of (payload_files [] [archived sample_file] sample_manifest), None)"

definition sample_decoder :: "bytes \<Rightarrow> (manifest \<times> trailing) result" where
  "sample_decoder s = Inr (sample_manifest, No_More)"

lemma sample_valid_input: "validate_input sample_input = Inr ()"
  by code_simp

lemma sample_paths: "target_path_ok ''/etc/a.conf''" "file_ok sample_file" "archive_path_free sample_file"
  by code_simp+

theorem normalize_files_Inr_iff_witness:
  "normalize_files sample_input = Inr ([archived sample_file], [artifact_of sample_file], [])"
  using sample_paths
  by (subst normalize_files_Inr_iff) (simp_all add: sample_input_def sample_file_def)

lemma sample_normalized:
  "normalize_files sample_input = Inr ([archived sample_file], [artifact_of sample_file], [])"
proof -
  have "add_artifact ([], []) sample_file = Inr ([archived sample_file], [artifact_of sample_file])"
    using sample_paths
    by (simp add: add_artifact_def add_file_def file_ok_def archived_def artifact_of_def sample_file_def Let_def)
  then show ?thesis by (simp add: normalize_files_def sample_input_def sample_file_def)
qed

lemma sample_kind: "inp_Kind sample_input = Installation"
  by (simp add: sample_input_def)

lemma sample_assembled: "assemble_bytes (\<lambda>_. Inr ''tar'') [] sample_input = Inr sample_bundle"
  by (simp add: assemble_bytes_def sample_valid_input sample_normalized sample_bundle_def sample_manifest_def Let_def
      sample_kind)

theorem assemble_verifies_witness:
  "verify sample_tar sample_decoder sample_bundle = Inr sample_manifest"
proof -
  have man: "bun_Manifest sample_bundle = sample_manifest" "bun_Bytes sample_bundle \<noteq> []"
    by (simp_all add: sample_bundle_def)
  have "\<forall>f\<in>set (inp_Files sample_input @ inp_Actions sample_input). archive_path_free f"
    using sample_paths(3) by (simp add: sample_input_def sample_file_def)
  from assemble_verifies [OF sample_assembled sample_normalized this, of sample_tar sample_decoder] show ?thesis
    by (simp add: man sample_tar_def sample_decoder_def)
qed

lemma sample_verifies: "verify sample_tar sample_decoder sample_bundle = Inr sample_manifest"
proof -
  have "\<forall>f\<in>set (inp_Files sample_input @ inp_Actions sample_input). archive_path_free f"
    using sample_paths(3) by (simp add: sample_input_def sample_file_def)
  from assembled_verifies [OF sample_assembled sample_normalized this, of sample_tar sample_decoder] show ?thesis
    by (simp add: sample_bundle_def sample_tar_def sample_decoder_def)
qed

theorem verify_sound_witness:
  "bun_ID sample_bundle = bundle_identity sample_manifest \<and>
   (\<exists>files. verified_archive sample_tar sample_decoder ''tar'' sample_manifest files)"
  using verify_sound [OF sample_verifies] by (simp add: sample_bundle_def)

end
