(* ===== verification/Bundle_Store.thy ===== *)
theory Bundle_Store
  imports Bundle_Archive
begin

section \<open>The store of bundles\<close>

text \<open>
  \<open>store\<close>, \<open>Open\<close> and \<open>Assemble\<close> of \<open>internal/executionbundle/assembler.go\<close>. The store is a
  directory, a map from a file name to the bytes of the file. Every call of the operating system
  may fail: \<open>flt_Fail\<close> gives the error of an operation, \<open>flt_Written\<close> how much of a file a failed
  write leaves behind. The theorems hold for every such environment.
\<close>

type_synonym dir = "bytes \<rightharpoonup> bytes"

datatype disk_op =
    Read_Stored bytes | Create_File bytes | Write_File bytes | Sync_File bytes | Close_File bytes
  | Remove_File bytes | Open_Root | Sync_Root | Close_Root
  | Read_Source_Dir | Make_Stage | Chmod_Stage | Read_Source bytes | Write_Stage bytes
  | Rename_File bytes | Read_Back bytes | Make_Destination | Write_Copy bytes

record disk_faults =
  flt_Fail :: "disk_op \<Rightarrow> error option"
  flt_Written :: nat

definition no_faults :: disk_faults where
  "no_faults = \<lparr>flt_Fail = (\<lambda>_. None), flt_Written = 0\<rparr>"

definition try_op :: "disk_faults \<Rightarrow> disk_op \<Rightarrow> unit result" where
  "try_op io x = (case flt_Fail io x of None \<Rightarrow> Inr () | Some e \<Rightarrow> Inl e)"

lemma try_op_Inr_iff [result_simps]: "try_op io x = Inr u \<longleftrightarrow> flt_Fail io x = None"
  by (simp add: try_op_def split: option.split)

text \<open>\<open>os.Remove\<close> with its error ignored.\<close>

definition remove_file :: "disk_faults \<Rightarrow> bytes \<Rightarrow> dir \<Rightarrow> dir" where
  "remove_file io name fs = (if flt_Fail io (Remove_File name) = None then fs(name := None) else fs)"

definition tar_name :: "bytes \<Rightarrow> bytes" where
  "tar_name i = i @ ''.tar''"

text \<open>
  \<open>store\<close>: the new file is created exclusively, written, synced and closed, then the directory is
  synced; when a step after the creation fails, the deferred function removes the file.
\<close>

definition flush_file :: "disk_faults \<Rightarrow> bytes \<Rightarrow> unit result" where
  "flush_file io name =
     checks
       [try_op io (Sync_File name), try_op io (Close_File name),
        wrap_error ''open bundle store directory: %w'' [] (try_op io Open_Root),
        wrap_error ''sync bundle store directory: %w'' [] (try_op io Sync_Root),
        wrap_error ''close bundle store directory: %w'' [] (try_op io Close_Root)]"

definition store :: "disk_faults \<Rightarrow> bytes \<Rightarrow> bytes \<Rightarrow> dir \<Rightarrow> unit result \<times> dir" where
  "store io i body fs =
     (let name = tar_name i in
      case flt_Fail io (Read_Stored name) of
        Some e \<Rightarrow> (Inl e, fs)
      | None \<Rightarrow>
          (case fs name of
             Some existing \<Rightarrow>
               if existing = body then (Inr (), fs)
               else (Inl (Errf ''historical bundle %s already exists with different bytes'' [i]), fs)
           | None \<Rightarrow>
               (case flt_Fail io (Create_File name) of
                  Some e \<Rightarrow> (Inl (Wrapf ''create immutable bundle: %w'' [] e), fs)
                | None \<Rightarrow>
                    (case flt_Fail io (Write_File name) of
                       Some e \<Rightarrow> (Inl e, remove_file io name (fs(name \<mapsto> take (flt_Written io) body)))
                     | None \<Rightarrow>
                         (case flush_file io name of
                            Inl e \<Rightarrow> (Inl e, remove_file io name (fs(name \<mapsto> body)))
                          | Inr u \<Rightarrow> (Inr (), fs(name \<mapsto> body)))))))"

definition assemble ::
  "(bundle_file list \<Rightarrow> bytes result) \<Rightarrow> bytes go_map \<Rightarrow> disk_faults \<Rightarrow> bundle_input \<Rightarrow> dir \<Rightarrow>
   exec_bundle result \<times> dir" where
  "assemble tar_write parts io i fs =
     (case assemble_bytes tar_write parts i of
        Inl e \<Rightarrow> (Inl e, fs)
      | Inr b \<Rightarrow>
          (case store io (bun_ID b) (bun_Bytes b) fs of
             (Inl e, fs') \<Rightarrow> (Inl e, fs')
           | (Inr u, fs') \<Rightarrow> (Inr b, fs')))"

text \<open>The manifest of a bundle value that has not been verified yet: every field is zero.\<close>

definition empty_manifest :: manifest where
  "empty_manifest =
     \<lparr>man_FormatVersion = 0, man_Runner = \<lparr>run_Version = [], run_Path = [], run_SHA256 = []\<rparr>, man_BundleID = [],
      man_Kind = Other_Kind [], man_TargetID = [], man_SubjectKind = [], man_SubjectID = [], man_SubjectIdentity = [],
      man_PackageID = [], man_PackageSHA256 = [], man_Version = [], man_Sources = [], man_Images = [],
      man_Artifacts = [], man_Actions = [], man_ActionWritablePaths = [], man_Secrets = [], man_Preconditions = [],
      man_ExpectedPost = [], man_Validations = [], man_Steps = [], man_BackupRequired = False,
      man_Nil = manifest_slices\<rparr>"

definition bundle_id_ok :: "bytes \<Rightarrow> bool" where
  "bundle_id_ok i = (has_prefix i ''bundle_'' \<and> \<not> contains_any i [CHR ''/'', backslash, CHR 0x00])"

definition open_stored ::
  "(bytes \<Rightarrow> tar_member list \<times> error option) \<Rightarrow> (bytes \<Rightarrow> (manifest \<times> trailing) result) \<Rightarrow>
   disk_faults \<Rightarrow> bytes \<Rightarrow> dir \<Rightarrow> exec_bundle result" where
  "open_stored tar_read decode io i fs =
     also_r (reject_if (\<not> bundle_id_ok i) (Err ''invalid bundle id''))
       (also_r (try_op io (Read_Stored (tar_name i)))
         (case fs (tar_name i) of
            None \<Rightarrow> Inl (Err ''file does not exist'')
          | Some data \<Rightarrow>
              (let b = \<lparr>bun_ID = i, bun_Kind = Other_Kind '''', bun_SHA256 = sha256_hex data, bun_Bytes = data,
                        bun_Manifest = empty_manifest\<rparr> in
               bind_r (wrap_error ''verify stored execution bundle: %w'' [] (verify tar_read decode b)) (\<lambda>m.
               Inr (b\<lparr>bun_Kind := man_Kind m, bun_Manifest := m\<rparr>)))))"

subsection \<open>The interface of an immutable store\<close>

text \<open>
  What the clients of the store rely on: a stored value is never changed or removed, a
  successful save makes the value readable, and a save concerns its own key only.
\<close>

locale immutable_store =
  fixes save :: "'io \<Rightarrow> 'k \<Rightarrow> 'v \<Rightarrow> ('n \<rightharpoonup> 'v) \<Rightarrow> unit result \<times> ('n \<rightharpoonup> 'v)"
    and slot :: "'k \<Rightarrow> 'n"
  assumes keeps: "m n = Some v \<Longrightarrow> snd (save io k w m) n = Some v"
    and saves: "fst (save io k w m) = Inr () \<Longrightarrow> snd (save io k w m) (slot k) = Some w"
    and only_slot: "n \<noteq> slot k \<Longrightarrow> snd (save io k w m) n = m n"
begin

lemma history_keeps:
  "m n = Some v \<Longrightarrow> foldl (\<lambda>m (io, k, w). snd (save io k w m)) m ops n = Some v"
  by (induction ops arbitrary: m) (auto simp: keeps split: prod.splits)

lemma saved_stays:
  "fst (save io k w m) = Inr () \<Longrightarrow>
   foldl (\<lambda>m (io, k, w). snd (save io k w m)) (snd (save io k w m)) ops (slot k) = Some w"
  by (intro history_keeps saves)

text \<open>Two successful saves under one slot, at any distance, saved the same value.\<close>

lemma saves_agree:
  assumes "fst (save io k w m) = Inr ()"
    and "fst (save io' k' w' (foldl (\<lambda>m (io, k, w). snd (save io k w m)) (snd (save io k w m)) ops)) = Inr ()"
    and "slot k = slot k'"
  shows "w = w'"
proof -
  let ?m = "foldl (\<lambda>m (io, k, w). snd (save io k w m)) (snd (save io k w m)) ops"
  have "snd (save io' k' w' ?m) (slot k) = Some w" by (intro keeps saved_stays assms(1))
  then show ?thesis using saves [OF assms(2)] assms(3) by simp
qed

end

lemma store_cases:
  "store io i body fs = (Inr (), fs) \<and> fs (tar_name i) = Some body \<or>
   fs (tar_name i) = None \<and> store io i body fs = (Inr (), fs(tar_name i \<mapsto> body)) \<or>
   (\<exists>e. store io i body fs = (Inl e, fs)) \<or>
   (\<exists>e k. fs (tar_name i) = None \<and> store io i body fs = (Inl e, remove_file io (tar_name i) (fs(tar_name i \<mapsto> take k body))))"
proof -
  have whole: "\<exists>k. remove_file io n (fs(n \<mapsto> body)) = remove_file io n (fs(n \<mapsto> take k body))" for n
    by (rule exI [of _ "length body"]) simp
  show ?thesis using whole [of "tar_name i"] by (auto simp: store_def Let_def split: option.splits sum.splits)
qed

lemma store_laws:
  "fs n = Some v \<Longrightarrow> snd (store io i body fs) n = Some v"
  "fst (store io i body fs) = Inr () \<Longrightarrow> snd (store io i body fs) (tar_name i) = Some body"
  "n \<noteq> tar_name i \<Longrightarrow> snd (store io i body fs) n = fs n"
  using store_cases [of io i body fs] by (auto simp: remove_file_def)

interpretation bundles: immutable_store store tar_name
  by unfold_locales (simp_all add: store_laws)

subsection \<open>What was assembled can be opened\<close>

lemma verify_ignores_view:
  "bun_ID b = bun_ID b' \<Longrightarrow> bun_SHA256 b = bun_SHA256 b' \<Longrightarrow> bun_Bytes b = bun_Bytes b' \<Longrightarrow>
   verify tar_read decode b = verify tar_read decode b'"
proof -
  assume same: "bun_ID b = bun_ID b'" "bun_SHA256 b = bun_SHA256 b'" "bun_Bytes b = bun_Bytes b'"
  then have "verify_manifest b = verify_manifest b'" by (simp add: verify_manifest_def fun_eq_iff)
  then show ?thesis by (simp only: verify_def same)
qed

lemma bundle_identity_ok: "bundle_id_ok (bundle_identity m)"
proof -
  let ?h = "hex_encode (take 16 (sha256 (canonical_json (manifest_json (m\<lparr>man_BundleID := []\<rparr>)))))"
  have no: "CHR ''/'' \<notin> set ''0123456789abcdef''" "backslash \<notin> set ''0123456789abcdef''" "CHR 0x00 \<notin> set ''0123456789abcdef''"
    by code_simp+
  have "c \<notin> set ?h" if "c \<in> {CHR ''/'', backslash, CHR 0x00}" for c
    using hex_encode_chars [of c] that no by blast
  then have "CHR ''/'' \<notin> set ?h" "backslash \<notin> set ?h" "CHR 0x00 \<notin> set ?h" by blast+
  moreover have "CHR ''/'' \<notin> set ''bundle_''" "backslash \<notin> set ''bundle_''" "CHR 0x00 \<notin> set ''bundle_''"
    by code_simp+
  ultimately have "set (''bundle_'' @ ?h) \<inter> set [CHR ''/'', backslash, CHR 0x00] = {}"
    unfolding set_append by (simp only: list.set disjoint_iff insert_iff empty_iff Un_iff) blast
  then show ?thesis
    unfolding bundle_id_ok_def bundle_identity_def contains_any_iff by (simp only: has_prefix_append simp_thms)
qed

lemma assemble_Inr_cases:
  assumes "assemble tar_write parts io i fs = (Inr b, fs')"
  shows "assemble_bytes tar_write parts i = Inr b \<and> store io (bun_ID b) (bun_Bytes b) fs = (Inr (), fs')"
  using assms by (auto simp: assemble_def split: sum.splits prod.splits)

lemma assembled_fields:
  assumes "assemble_bytes tar_write parts i = Inr b"
  shows "bun_ID b = man_BundleID (bun_Manifest b) \<and> bun_ID b = bundle_identity (bun_Manifest b) \<and>
    bun_SHA256 b = sha256_hex (bun_Bytes b) \<and> bun_Kind b = man_Kind (bun_Manifest b)"
proof -
  obtain files arts acts m payload where m: "m = draft_manifest parts i arts acts"
    and b: "b = \<lparr>bun_ID = bundle_identity m, bun_Kind = inp_Kind i, bun_SHA256 = sha256_hex payload, bun_Bytes = payload,
             bun_Manifest = m\<lparr>man_BundleID := bundle_identity m\<rparr>\<rparr>"
    using assms unfolding assemble_bytes_def by (auto simp: result_simps Let_def)
  have "man_Kind m = inp_Kind i" by (simp add: m draft_manifest_def normalize_manifest_def)
  then show ?thesis by (simp add: b bundle_identity_id)
qed

lemma opened_after_history:
  assumes "assemble tar_write parts io i fs = (Inr b, fs')"
    and "verify tar_read decode b = Inr (bun_Manifest b)"
    and "flt_Fail io' (Read_Stored (tar_name (bun_ID b))) = None"
  shows "open_stored tar_read decode io' (bun_ID b) (foldl (\<lambda>fs (io, i, w). snd (store io i w fs)) fs' ops) = Inr b"
proof -
  note made = assemble_Inr_cases [OF assms(1)]
  note fields = assembled_fields [OF made [THEN conjunct1]]
  let ?later = "foldl (\<lambda>fs (io, i, w). snd (store io i w fs)) fs' ops"
  have "?later (tar_name (bun_ID b)) = Some (bun_Bytes b)"
    using bundles.saved_stays [of io "bun_ID b" "bun_Bytes b" fs ops] made by simp
  moreover let ?b = "\<lparr>bun_ID = bun_ID b, bun_Kind = Other_Kind '''', bun_SHA256 = sha256_hex (bun_Bytes b),
    bun_Bytes = bun_Bytes b, bun_Manifest = empty_manifest\<rparr>"
  have "verify tar_read decode ?b = Inr (bun_Manifest b)"
    using assms(2) fields verify_ignores_view [of ?b b] by simp
  moreover have "bundle_id_ok (bun_ID b)" using fields bundle_identity_ok by metis
  moreover have "?b\<lparr>bun_Kind := man_Kind (bun_Manifest b), bun_Manifest := bun_Manifest b\<rparr> = b"
    using fields by (simp add: exec_bundle.equality)
  ultimately show ?thesis
    using assms(3) by (simp add: open_stored_def try_op_def wrap_error_def Let_def)
qed



text \<open>
  an assembled bundle can be opened again: after any later sequence of stores, failed ones
  included, opening its identifier gives the same bundle, verified from the stored bytes.
\<close>

theorem assembled_opens:
  assumes made: "assemble tar_write parts io i fs = (Inr b, fs')"
    and files: "normalize_files i = Inr (files, arts, acts)"
    and unreserved: "\<forall>f\<in>set (inp_Files i @ inp_Actions i). archive_path_free f"
    and tar: "bun_Bytes b \<noteq> []"
      "tar_read (bun_Bytes b) = (map member_of (payload_files parts files (bun_Manifest b)), None)"
    and json: "decode (canonical_json (manifest_json (bun_Manifest b)) @ [CHR 0x0A]) = Inr (bun_Manifest b, No_More)"
    and readable: "flt_Fail io' (Read_Stored (tar_name (bun_ID b))) = None"
  shows "open_stored tar_read decode io' (bun_ID b) (foldl (\<lambda>fs (io, i, w). snd (store io i w fs)) fs' ops) = Inr b"
proof (rule opened_after_history [where tar_read = tar_read and decode = decode, OF made _ readable])
  show "verify tar_read decode b = Inr (bun_Manifest b)"
    using assembled_verifies [of tar_write parts i b files arts acts tar_read decode] assemble_Inr_cases [OF made]
      files unreserved tar json by blast
qed

lemma sample_assemble:
  "assemble (\<lambda>_. Inr ''tar'') [] no_faults sample_input Map.empty =
     (Inr sample_bundle, Map.empty(tar_name (bun_ID sample_bundle) \<mapsto> ''tar''))"
  unfolding assemble_def sample_assembled
  by (simp add: store_def Let_def no_faults_def flush_file_def try_op_def wrap_error_def sample_bundle_def)

theorem assembled_opens_witness:
  "open_stored sample_tar sample_decoder no_faults (bun_ID sample_bundle)
     (snd (store no_faults (bun_ID sample_bundle) ''other'' (Map.empty(tar_name (bun_ID sample_bundle) \<mapsto> ''tar'')))) =
   Inr sample_bundle"
proof -
  have man: "bun_Manifest sample_bundle = sample_manifest" "bun_Bytes sample_bundle = ''tar''"
    by (simp_all add: sample_bundle_def)
  have "\<forall>f\<in>set (inp_Files sample_input @ inp_Actions sample_input). archive_path_free f"
    using sample_paths(3) by (simp add: sample_input_def sample_file_def)
  from assembled_opens [OF sample_assemble sample_normalized this, of sample_tar sample_decoder no_faults
      "[(no_faults, bun_ID sample_bundle, ''other'')]"]
  show ?thesis by (simp add: man sample_tar_def sample_decoder_def no_faults_def)
qed


end
