(* ===== verification/Mgmt_Types.thy ===== *)
theory Mgmt_Types
  imports Go_Json Module_Types
begin

section \<open>The data of the management state\<close>

text \<open>
  \<open>internal/managementstate/types.go\<close>, \<open>observed_facts.go\<close> and the types of \<open>source_state.go\<close>,
  with the JSON that \<open>json.Marshal\<close> writes of them. Identifiers are byte strings. The closed
  string types are datatypes with a constructor for every other value, since the columns of the
  store and the packages that are imported may carry any text.
\<close>

datatype trust_status = Trust_Unknown | Trust_Confirmed | Trust_Blocked | Other_Trust bytes
datatype secret_origin = Secret_Generated | Secret_User | Secret_System | Other_Origin bytes
datatype backup_type =
  Backup_Recovery_Package | Backup_Core | Backup_Module | Backup_System_Restore_Point | Other_Backup bytes
datatype source_kind = Source_Cloud_Init | Source_Core | Source_Embedded_N8N | Source_Custom_Module | Other_Source bytes

fun backup_type_text :: "backup_type \<Rightarrow> bytes" where
  "backup_type_text Backup_Recovery_Package = ''recovery-package''"
| "backup_type_text Backup_Core = ''core-backup''"
| "backup_type_text Backup_Module = ''module-backup''"
| "backup_type_text Backup_System_Restore_Point = ''system-restore-point''"
| "backup_type_text (Other_Backup s) = s"

fun source_kind_text :: "source_kind \<Rightarrow> bytes" where
  "source_kind_text Source_Cloud_Init = ''cloud-init''"
| "source_kind_text Source_Core = ''core''"
| "source_kind_text Source_Embedded_N8N = ''embedded-n8n''"
| "source_kind_text Source_Custom_Module = ''custom-module''"
| "source_kind_text (Other_Source s) = s"

subsection \<open>Desired state\<close>

record cloud_init_desired =
  cid_SourceSnapshotID :: bytes
  cid_DefinitionVersion :: bytes
  cid_SourceSHA256 :: bytes
  cid_RenderedSHA256 :: bytes
  cid_Hostname :: bytes
  cid_Timezone :: bytes
  cid_Administrator :: bytes

record swap_desired =
  swp_Mode :: bytes
  swp_SizeGiB :: int

record core_desired =
  cod_SourceID :: bytes
  cod_Version :: bytes
  cod_Swap :: swap_desired

record resource_overrides =
  rov_MemoryBytes :: int
  rov_CPUQuota :: int
  rov_PIDsLimit :: int
  rov_TasksMax :: int

record module_dependency =
  mde_TargetModule :: bytes
  mde_InterfaceID :: bytes
  mde_Consumer :: bytes

record module_desired =
  mds_InstanceID :: bytes
  mds_PackageID :: bytes
  mds_Version :: bytes
  mds_SecretIDs :: "bytes list"
  mds_Resources :: resource_overrides
  mds_Dependencies :: "module_dependency list"

record desired_state =
  dst_CloudInit :: cloud_init_desired
  dst_Core :: core_desired
  dst_Modules :: "module_desired list"

definition omit_int :: "bytes \<Rightarrow> int \<Rightarrow> (bytes \<times> json) list" where
  "omit_int k v = (if v = 0 then [] else [(k, JInt v)])"

definition omit_false :: "bytes \<Rightarrow> bool \<Rightarrow> (bytes \<times> json) list" where
  "omit_false k v = (if v then [(k, JBool v)] else [])"

definition omit_slice :: "bytes \<Rightarrow> ('a \<Rightarrow> json) \<Rightarrow> 'a list \<Rightarrow> (bytes \<times> json) list" where
  "omit_slice k f xs = (if xs = [] then [] else [(k, JArr (map f xs))])"

definition cloud_init_desired_json :: "cloud_init_desired \<Rightarrow> json" where
  "cloud_init_desired_json v =
     JObj (omit_empty ''source_snapshot_id'' (cid_SourceSnapshotID v)
       @ omit_empty ''definition_version'' (cid_DefinitionVersion v) @ omit_empty ''source_sha256'' (cid_SourceSHA256 v)
       @ omit_empty ''rendered_sha256'' (cid_RenderedSHA256 v) @ omit_empty ''hostname'' (cid_Hostname v)
       @ omit_empty ''timezone'' (cid_Timezone v) @ omit_empty ''administrator'' (cid_Administrator v))"

definition core_desired_json :: "core_desired \<Rightarrow> json" where
  "core_desired_json v =
     JObj (omit_empty ''source_id'' (cod_SourceID v) @ omit_empty ''version'' (cod_Version v)
       @ [(''swap'', JObj (omit_empty ''mode'' (swp_Mode (cod_Swap v)) @ omit_int ''size_gib'' (swp_SizeGiB (cod_Swap v))))])"

definition overrides_json :: "resource_overrides \<Rightarrow> json" where
  "overrides_json v =
     JObj (omit_int ''memory_bytes'' (rov_MemoryBytes v) @ omit_int ''cpu_quota_percent'' (rov_CPUQuota v)
       @ omit_int ''pids_limit'' (rov_PIDsLimit v) @ omit_int ''tasks_max'' (rov_TasksMax v))"

definition dependency_json :: "module_dependency \<Rightarrow> json" where
  "dependency_json v =
     JObj [(''target_module'', JStr (mde_TargetModule v)), (''interface_id'', JStr (mde_InterfaceID v)),
           (''consumer'', JStr (mde_Consumer v))]"

definition module_desired_json :: "module_desired \<Rightarrow> json" where
  "module_desired_json v =
     JObj ([(''instance_id'', JStr (mds_InstanceID v)), (''package_id'', JStr (mds_PackageID v)),
            (''version'', JStr (mds_Version v))]
       @ omit_slice ''secret_ids'' JStr (mds_SecretIDs v) @ [(''resources'', overrides_json (mds_Resources v))]
       @ omit_slice ''dependencies'' dependency_json (mds_Dependencies v))"

definition desired_json :: "desired_state \<Rightarrow> json" where
  "desired_json v =
     JObj ([(''cloud_init'', cloud_init_desired_json (dst_CloudInit v)), (''core'', core_desired_json (dst_Core v))]
       @ omit_slice ''modules'' module_desired_json (dst_Modules v))"

subsection \<open>Observed state\<close>

record hardening_observed =
  hob_RootPasswordLocked :: bool
  hob_SSHConfigValid :: bool
  hob_SSHValues :: "bytes go_map"
  hob_UFWActive :: bool
  hob_UFWDefaultIncoming :: bytes
  hob_UFWDefaultOutgoing :: bytes
  hob_UFWDefaultRouted :: bytes
  hob_UFWLoggingLow :: bool
  hob_UFWUnexpectedPublicAllow :: bool
  hob_UFWAllowedPublicTCPPorts :: "int list"
  hob_Fail2banSSHActive :: bool
  hob_Fail2banRecidiveActive :: bool
  hob_UnattendedUpgradesEnabled :: bool
  hob_AutomaticRebootDisabled :: bool

record memory_observed =
  meo_TotalBytes :: int
  meo_AvailableBytes :: int

record host_observed =
  hst_Reachable :: bool
  hst_SSH :: bool
  hst_Hostname :: bytes
  hst_OSID :: bytes
  hst_OSVersion :: bytes
  hst_Kernel :: bytes
  hst_RootFilesystem :: memory_observed
  hst_Memory :: memory_observed
  hst_Swap :: memory_observed
  hst_RebootRequired :: bool
  hst_UFWActive :: bool
  hst_Fail2banActive :: bool
  hst_PrimaryHardening :: hardening_observed

record podman_observed =
  pod_Present :: bool
  pod_Rootless :: bool
  pod_CgroupVersion :: bytes
  pod_RootlessNetworkCmd :: bytes

record unit_observed =
  uno_Name :: bytes
  uno_Scope :: bytes
  uno_Present :: bool
  uno_Running :: bool
  uno_ActiveState :: bytes
  uno_SubState :: bytes

record container_observed =
  cto_Name :: bytes
  cto_Present :: bool
  cto_Running :: bool
  cto_Health :: bytes
  cto_Networks :: "bytes list"

record network_observed =
  nto_Name :: bytes
  nto_Internal :: bool
  nto_Present :: bool
  nto_Subnets :: "bytes list"
  nto_Relationship :: bytes
  nto_Members :: "bytes list"

record service_observed =
  svo_Present :: bool
  svo_Running :: bool
  svo_ConfigChecked :: bool
  svo_ConfigValid :: bool

record artifact_observed =
  aro_Path :: bytes
  aro_Present :: bool
  aro_SHA256 :: bytes

record proof_observed =
  pro_ID :: bytes
  pro_BundleID :: bytes
  pro_BundleSHA256 :: bytes
  pro_Kind :: bytes
  pro_Outcome :: bytes
  pro_SHA256 :: bytes

record link_observed =
  lko_Name :: bytes
  lko_Present :: bool
  lko_Subnet :: bytes
  lko_Relationship :: bytes
  lko_DefinitionMatches :: bool
  lko_Members :: "bytes list"

record cloud_init_observed =
  cio_Present :: bool
  cio_Status :: bytes
  cio_Version :: bytes
  cio_FinishedAt :: bytes

record core_observed =
  coo_Present :: bool
  coo_SourceID :: bytes
  coo_Version :: bytes
  coo_PackageSHA256 :: bytes
  coo_Running :: bool
  coo_Podman :: podman_observed
  coo_Units :: "unit_observed list"
  coo_Containers :: "container_observed list"
  coo_Networks :: "network_observed list"
  coo_Caddy :: service_observed
  coo_Authelia :: service_observed
  coo_ExecutionProofs :: "proof_observed list"
  coo_ManagedArtifacts :: "artifact_observed list"

record module_observed =
  moo_Present :: bool
  moo_InstanceID :: bytes
  moo_PackageID :: bytes
  moo_Version :: bytes
  moo_PackageSHA256 :: bytes
  moo_Running :: bool
  moo_Health :: bytes
  moo_Units :: "unit_observed list"
  moo_Containers :: "container_observed list"
  moo_Networks :: "network_observed list"
  moo_ManagedArtifacts :: "artifact_observed list"

record target_observed =
  tob_ObservedAt :: bytes
  tob_Host :: host_observed
  tob_CloudInit :: cloud_init_observed
  tob_Core :: core_observed
  tob_Modules :: "module_observed list"
  tob_PodmanNetworks :: "network_observed list"
  tob_LinkNetworks :: "link_observed list"
  tob_ManagedArtifacts :: "artifact_observed list"

definition hardening_json :: "hardening_observed \<Rightarrow> json" where
  "hardening_json v =
     JObj ([(''root_password_locked'', JBool (hob_RootPasswordLocked v)), (''ssh_config_valid'', JBool (hob_SSHConfigValid v))]
       @ (if hob_SSHValues v = [] then [] else [(''ssh_values'', j_map (hob_SSHValues v))])
       @ [(''ufw_active'', JBool (hob_UFWActive v))]
       @ omit_empty ''ufw_default_incoming'' (hob_UFWDefaultIncoming v)
       @ omit_empty ''ufw_default_outgoing'' (hob_UFWDefaultOutgoing v)
       @ omit_empty ''ufw_default_routed'' (hob_UFWDefaultRouted v)
       @ [(''ufw_logging_low'', JBool (hob_UFWLoggingLow v)),
          (''ufw_unexpected_public_allow'', JBool (hob_UFWUnexpectedPublicAllow v))]
       @ omit_slice ''ufw_allowed_public_tcp_ports'' JInt (hob_UFWAllowedPublicTCPPorts v)
       @ [(''fail2ban_ssh_active'', JBool (hob_Fail2banSSHActive v)),
          (''fail2ban_recidive_active'', JBool (hob_Fail2banRecidiveActive v)),
          (''unattended_upgrades_enabled'', JBool (hob_UnattendedUpgradesEnabled v)),
          (''automatic_reboot_disabled'', JBool (hob_AutomaticRebootDisabled v))])"

definition memory_json :: "memory_observed \<Rightarrow> json" where
  "memory_json v = JObj [(''total_bytes'', JInt (meo_TotalBytes v)), (''available_bytes'', JInt (meo_AvailableBytes v))]"

definition host_json :: "host_observed \<Rightarrow> json" where
  "host_json v =
     JObj ([(''reachable'', JBool (hst_Reachable v)), (''ssh'', JBool (hst_SSH v))]
       @ omit_empty ''hostname'' (hst_Hostname v) @ omit_empty ''os_id'' (hst_OSID v)
       @ omit_empty ''os_version'' (hst_OSVersion v) @ omit_empty ''kernel'' (hst_Kernel v)
       @ [(''root_filesystem'', memory_json (hst_RootFilesystem v)), (''memory'', memory_json (hst_Memory v)),
          (''swap'', memory_json (hst_Swap v)), (''reboot_required'', JBool (hst_RebootRequired v)),
          (''ufw_active'', JBool (hst_UFWActive v)), (''fail2ban_active'', JBool (hst_Fail2banActive v)),
          (''primary_hardening'', hardening_json (hst_PrimaryHardening v))])"

definition podman_json :: "podman_observed \<Rightarrow> json" where
  "podman_json v =
     JObj ([(''present'', JBool (pod_Present v)), (''rootless'', JBool (pod_Rootless v))]
       @ omit_empty ''cgroup_version'' (pod_CgroupVersion v)
       @ omit_empty ''rootless_network_cmd'' (pod_RootlessNetworkCmd v))"

definition unit_json :: "unit_observed \<Rightarrow> json" where
  "unit_json v =
     JObj ([(''name'', JStr (uno_Name v)), (''scope'', JStr (uno_Scope v)), (''present'', JBool (uno_Present v)),
            (''running'', JBool (uno_Running v))]
       @ omit_empty ''active_state'' (uno_ActiveState v) @ omit_empty ''sub_state'' (uno_SubState v))"

definition container_json :: "container_observed \<Rightarrow> json" where
  "container_json v =
     JObj ([(''name'', JStr (cto_Name v)), (''present'', JBool (cto_Present v)), (''running'', JBool (cto_Running v))]
       @ omit_empty ''health'' (cto_Health v) @ omit_slice ''networks'' JStr (cto_Networks v))"

definition network_json :: "network_observed \<Rightarrow> json" where
  "network_json v =
     JObj ([(''name'', JStr (nto_Name v)), (''internal'', JBool (nto_Internal v)), (''present'', JBool (nto_Present v))]
       @ omit_slice ''subnets'' JStr (nto_Subnets v) @ omit_empty ''relationship'' (nto_Relationship v)
       @ omit_slice ''members'' JStr (nto_Members v))"

definition service_json :: "service_observed \<Rightarrow> json" where
  "service_json v =
     JObj ([(''present'', JBool (svo_Present v)), (''running'', JBool (svo_Running v))]
       @ omit_false ''config_checked'' (svo_ConfigChecked v) @ omit_false ''config_valid'' (svo_ConfigValid v))"

definition artifact_observed_json :: "artifact_observed \<Rightarrow> json" where
  "artifact_observed_json v =
     JObj ([(''path'', JStr (aro_Path v)), (''present'', JBool (aro_Present v))] @ omit_empty ''sha256'' (aro_SHA256 v))"

definition proof_json :: "proof_observed \<Rightarrow> json" where
  "proof_json v =
     JObj ([(''id'', JStr (pro_ID v)), (''bundle_id'', JStr (pro_BundleID v)), (''bundle_sha256'', JStr (pro_BundleSHA256 v))]
       @ omit_empty ''kind'' (pro_Kind v) @ omit_empty ''outcome'' (pro_Outcome v) @ omit_empty ''sha256'' (pro_SHA256 v))"

definition link_observed_json :: "link_observed \<Rightarrow> json" where
  "link_observed_json v =
     JObj ([(''name'', JStr (lko_Name v)), (''present'', JBool (lko_Present v))]
       @ omit_empty ''subnet'' (lko_Subnet v) @ omit_empty ''relationship'' (lko_Relationship v)
       @ [(''definition_matches'', JBool (lko_DefinitionMatches v))] @ omit_slice ''members'' JStr (lko_Members v))"

definition cloud_init_observed_json :: "cloud_init_observed \<Rightarrow> json" where
  "cloud_init_observed_json v =
     JObj ([(''present'', JBool (cio_Present v))] @ omit_empty ''status'' (cio_Status v)
       @ omit_empty ''version'' (cio_Version v) @ omit_empty ''finished_at'' (cio_FinishedAt v))"

definition core_observed_json :: "core_observed \<Rightarrow> json" where
  "core_observed_json v =
     JObj ([(''present'', JBool (coo_Present v))] @ omit_empty ''source_id'' (coo_SourceID v)
       @ omit_empty ''version'' (coo_Version v) @ omit_empty ''package_sha256'' (coo_PackageSHA256 v)
       @ [(''running'', JBool (coo_Running v)), (''podman'', podman_json (coo_Podman v))]
       @ omit_slice ''units'' unit_json (coo_Units v) @ omit_slice ''containers'' container_json (coo_Containers v)
       @ omit_slice ''networks'' network_json (coo_Networks v)
       @ [(''caddy'', service_json (coo_Caddy v)), (''authelia'', service_json (coo_Authelia v))]
       @ omit_slice ''execution_proofs'' proof_json (coo_ExecutionProofs v)
       @ omit_slice ''managed_artifacts'' artifact_observed_json (coo_ManagedArtifacts v))"

definition module_observed_json :: "module_observed \<Rightarrow> json" where
  "module_observed_json v =
     JObj ([(''present'', JBool (moo_Present v)), (''instance_id'', JStr (moo_InstanceID v))]
       @ omit_empty ''package_id'' (moo_PackageID v) @ omit_empty ''version'' (moo_Version v)
       @ omit_empty ''package_sha256'' (moo_PackageSHA256 v) @ [(''running'', JBool (moo_Running v))]
       @ omit_empty ''health'' (moo_Health v) @ omit_slice ''units'' unit_json (moo_Units v)
       @ omit_slice ''containers'' container_json (moo_Containers v)
       @ omit_slice ''networks'' network_json (moo_Networks v)
       @ omit_slice ''managed_artifacts'' artifact_observed_json (moo_ManagedArtifacts v))"

definition observed_json :: "target_observed \<Rightarrow> json" where
  "observed_json v =
     JObj (omit_empty ''observed_at'' (tob_ObservedAt v)
       @ [(''host'', host_json (tob_Host v)), (''cloud_init'', cloud_init_observed_json (tob_CloudInit v)),
          (''core'', core_observed_json (tob_Core v))]
       @ omit_slice ''modules'' module_observed_json (tob_Modules v)
       @ omit_slice ''podman_networks'' network_json (tob_PodmanNetworks v)
       @ omit_slice ''link_networks'' link_observed_json (tob_LinkNetworks v)
       @ omit_slice ''managed_artifacts'' artifact_observed_json (tob_ManagedArtifacts v))"


subsection \<open>Normalization of an observation\<close>

definition sort_container :: "container_observed \<Rightarrow> container_observed" where
  "sort_container c = c\<lparr>cto_Networks := sort (cto_Networks c)\<rparr>"

definition sort_network :: "network_observed \<Rightarrow> network_observed" where
  "sort_network n = n\<lparr>nto_Members := sort (nto_Members n), nto_Subnets := sort (nto_Subnets n)\<rparr>"

definition sort_link :: "link_observed \<Rightarrow> link_observed" where
  "sort_link l = l\<lparr>lko_Members := sort (lko_Members l)\<rparr>"

definition sort_core :: "core_observed \<Rightarrow> core_observed" where
  "sort_core c =
     c\<lparr>coo_Units := sort_key uno_Name (coo_Units c),
       coo_Containers := map sort_container (sort_key cto_Name (coo_Containers c)),
       coo_Networks := map sort_network (sort_key nto_Name (coo_Networks c)),
       coo_ManagedArtifacts := sort_key aro_Path (coo_ManagedArtifacts c),
       coo_ExecutionProofs := sort_key pro_ID (coo_ExecutionProofs c)\<rparr>"

definition sort_module :: "module_observed \<Rightarrow> module_observed" where
  "sort_module m =
     m\<lparr>moo_Units := sort_key uno_Name (moo_Units m),
       moo_Containers := map sort_container (sort_key cto_Name (moo_Containers m)),
       moo_Networks := map sort_network (sort_key nto_Name (moo_Networks m)),
       moo_ManagedArtifacts := sort_key aro_Path (moo_ManagedArtifacts m)\<rparr>"

definition sort_host :: "host_observed \<Rightarrow> host_observed" where
  "sort_host h =
     h\<lparr>hst_PrimaryHardening := (hst_PrimaryHardening h)
         \<lparr>hob_UFWAllowedPublicTCPPorts := sort (hob_UFWAllowedPublicTCPPorts (hst_PrimaryHardening h))\<rparr>\<rparr>"

definition normalize_observed :: "target_observed \<Rightarrow> target_observed" where
  "normalize_observed v =
     v\<lparr>tob_Host := sort_host (tob_Host v),
       tob_Core := sort_core (tob_Core v),
       tob_Modules := map sort_module (sort_key moo_InstanceID (tob_Modules v)),
       tob_PodmanNetworks := map sort_network (sort_key nto_Name (tob_PodmanNetworks v)),
       tob_LinkNetworks := map sort_link (sort_key lko_Name (tob_LinkNetworks v)),
       tob_ManagedArtifacts := sort_key aro_Path (tob_ManagedArtifacts v)\<rparr>"

lemma sort_parts_idem [simp]:
  "sort_container (sort_container c) = sort_container c" "sort_network (sort_network n) = sort_network n"
  "sort_link (sort_link l) = sort_link l" "sort_host (sort_host h) = sort_host h"
  by (simp_all add: sort_container_def sort_network_def sort_link_def sort_host_def)

lemma sort_parts_keys [simp]:
  "cto_Name (sort_container c) = cto_Name c" "nto_Name (sort_network n) = nto_Name n"
  "lko_Name (sort_link l) = lko_Name l" "moo_InstanceID (sort_module m) = moo_InstanceID m"
  by (simp_all add: sort_container_def sort_network_def sort_link_def sort_module_def)

lemma sort_map_idem:
  fixes key :: "'a \<Rightarrow> 'k::linorder"
  assumes "\<And>x. f (f x) = f x" "\<And>x. key (f x) = key x"
  shows "map f (sort_key key (map f (sort_key key xs))) = map f (sort_key key xs)"
  using assms by (simp add: map_sort_key [symmetric] comp_def)

lemma sort_module_idem [simp]: "sort_module (sort_module m) = sort_module m"
  by (simp add: sort_module_def sort_map_idem)

lemma sort_core_idem [simp]: "sort_core (sort_core c) = sort_core c"
  by (simp add: sort_core_def sort_map_idem)

lemma normalize_observed_idem:
  "normalize_observed (normalize_observed v) = normalize_observed v"
  by (simp add: normalize_observed_def sort_map_idem)

subsection \<open>Sources, history and backups\<close>

record source_artifact =
  sar_ID :: bytes
  sar_Kind :: source_kind
  sar_PackageID :: bytes
  sar_PackagePath :: bytes
  sar_Version :: bytes
  sar_Commit :: bytes
  sar_SHA256 :: bytes
  sar_StorageRef :: bytes

record source_workspace =
  wsp_ID :: bytes
  wsp_Kind :: source_kind
  wsp_PackageID :: bytes
  wsp_PackagePath :: bytes
  wsp_BaseSourceID :: bytes
  wsp_BaseCommit :: bytes
  wsp_CurrentSHA256 :: bytes
  wsp_StorageRef :: bytes
  wsp_SynchronizedCommit :: bytes

record github_config =
  ghc_Owner :: bytes
  ghc_Repository :: bytes
  ghc_Ref :: bytes
  ghc_PATSecretID :: bytes

record source_state =
  sst_Artifacts :: "source_artifact list"
  sst_Workspaces :: "source_workspace list"
  sst_Github :: "github_config option"

record secret_metadata =
  smd_ID :: bytes
  smd_Name :: bytes
  smd_Origin :: secret_origin
  smd_CreatedAt :: bytes
  smd_RotatedAt :: bytes
  smd_RotationCount :: int
  smd_IsSet :: bool

record bundle_metadata =
  bmd_ID :: bytes
  bmd_TargetID :: bytes
  bmd_Kind :: bytes
  bmd_Version :: bytes
  bmd_SHA256 :: bytes
  bmd_CreatedAt :: bytes

record record_metadata =
  rmd_ID :: bytes
  rmd_BundleID :: bytes
  rmd_TargetID :: bytes
  rmd_Outcome :: bytes
  rmd_StartedAt :: bytes
  rmd_FinishedAt :: bytes

record backup_metadata =
  bkm_ID :: bytes
  bkm_Type :: backup_type
  bkm_TargetID :: bytes
  bkm_ModuleInstanceID :: bytes
  bkm_CreatedAt :: bytes
  bkm_LocationRef :: bytes
  bkm_SHA256 :: bytes

record mgmt_target =
  tgt_ID :: bytes
  tgt_Address :: bytes
  tgt_SSHUser :: bytes
  tgt_SSHIdentitySecretID :: bytes
  tgt_SSHHostKey :: bytes
  tgt_SSHHostFingerprint :: bytes
  tgt_SSHTrust :: trust_status
  tgt_Desired :: desired_state
  tgt_Observed :: target_observed

record snapshot =
  snp_SchemaVersion :: int
  snp_Targets :: "mgmt_target list"
  snp_Sources :: source_state
  snp_Secrets :: "secret_metadata list"
  snp_ExecutionBundles :: "bundle_metadata list"
  snp_ExecutionRecords :: "record_metadata list"
  snp_Backups :: "backup_metadata list"

definition source_artifact_json :: "source_artifact \<Rightarrow> json" where
  "source_artifact_json v =
     JObj ([(''id'', JStr (sar_ID v)), (''kind'', JStr (source_kind_text (sar_Kind v)))]
       @ omit_empty ''package_id'' (sar_PackageID v) @ omit_empty ''package_path'' (sar_PackagePath v)
       @ [(''version'', JStr (sar_Version v))] @ omit_empty ''commit'' (sar_Commit v)
       @ [(''sha256'', JStr (sar_SHA256 v)), (''storage_ref'', JStr (sar_StorageRef v))])"

definition source_workspace_json :: "source_workspace \<Rightarrow> json" where
  "source_workspace_json v =
     JObj ([(''id'', JStr (wsp_ID v)), (''kind'', JStr (source_kind_text (wsp_Kind v)))]
       @ omit_empty ''package_id'' (wsp_PackageID v) @ omit_empty ''package_path'' (wsp_PackagePath v)
       @ [(''base_source_id'', JStr (wsp_BaseSourceID v))] @ omit_empty ''base_commit'' (wsp_BaseCommit v)
       @ [(''current_sha256'', JStr (wsp_CurrentSHA256 v)), (''storage_ref'', JStr (wsp_StorageRef v))]
       @ omit_empty ''synchronized_commit'' (wsp_SynchronizedCommit v))"

definition github_json :: "github_config \<Rightarrow> json" where
  "github_json v =
     JObj [(''owner'', JStr (ghc_Owner v)), (''repository'', JStr (ghc_Repository v)), (''ref'', JStr (ghc_Ref v)),
           (''pat_secret_id'', JStr (ghc_PATSecretID v))]"

definition bundle_metadata_json :: "bundle_metadata \<Rightarrow> json" where
  "bundle_metadata_json v =
     JObj [(''id'', JStr (bmd_ID v)), (''target_id'', JStr (bmd_TargetID v)), (''kind'', JStr (bmd_Kind v)),
           (''version'', JStr (bmd_Version v)), (''sha256'', JStr (bmd_SHA256 v)), (''created_at'', JStr (bmd_CreatedAt v))]"

definition record_metadata_json :: "record_metadata \<Rightarrow> json" where
  "record_metadata_json v =
     JObj ([(''id'', JStr (rmd_ID v)), (''bundle_id'', JStr (rmd_BundleID v)), (''target_id'', JStr (rmd_TargetID v)),
            (''outcome'', JStr (rmd_Outcome v)), (''started_at'', JStr (rmd_StartedAt v))]
       @ omit_empty ''finished_at'' (rmd_FinishedAt v))"

definition backup_metadata_json :: "backup_metadata \<Rightarrow> json" where
  "backup_metadata_json v =
     JObj ([(''id'', JStr (bkm_ID v)), (''type'', JStr (backup_type_text (bkm_Type v))),
            (''target_id'', JStr (bkm_TargetID v))]
       @ omit_empty ''module_instance_id'' (bkm_ModuleInstanceID v) @ [(''created_at'', JStr (bkm_CreatedAt v))]
       @ omit_empty ''location_ref'' (bkm_LocationRef v) @ omit_empty ''sha256'' (bkm_SHA256 v))"

definition normalize_target :: "mgmt_target \<Rightarrow> mgmt_target" where
  "normalize_target t =
     t\<lparr>tgt_Desired := (tgt_Desired t)\<lparr>dst_Modules := sort_key mds_InstanceID (dst_Modules (tgt_Desired t))\<rparr>,
       tgt_Observed := normalize_observed (tgt_Observed t)\<rparr>"

definition normalize_snapshot :: "snapshot \<Rightarrow> snapshot" where
  "normalize_snapshot s =
     s\<lparr>snp_Targets := sort_key tgt_ID (map normalize_target (snp_Targets s)),
       snp_Sources := (snp_Sources s)
         \<lparr>sst_Artifacts := sort_key sar_ID (sst_Artifacts (snp_Sources s)),
          sst_Workspaces := sort_key wsp_ID (sst_Workspaces (snp_Sources s))\<rparr>,
       snp_Secrets := sort_key smd_ID (snp_Secrets s),
       snp_ExecutionBundles := sort_key bmd_ID (snp_ExecutionBundles s),
       snp_ExecutionRecords := sort_key rmd_ID (snp_ExecutionRecords s),
       snp_Backups := sort_key bkm_ID (snp_Backups s)\<rparr>"

definition validate_desired :: "desired_state \<Rightarrow> unit result" where
  "validate_desired v =
     bind_r
       (each_unique
         (\<lambda>m. reject_if (mds_InstanceID m = [] \<or> mds_PackageID m = [] \<or> trim_space (mds_Version m) = [])
            (Err ''module desired state requires instance id, package id, and version''))
         mds_InstanceID
         (\<lambda>m. Errf ''duplicate module instance %s'' [mds_InstanceID m])
         (\<lambda>m. for_each (\<lambda>d. reject_if (mde_TargetModule d = [] \<or> trim_space (mde_InterfaceID d) = [] \<or>
                trim_space (mde_Consumer d) = []) (Errf ''module %s has incomplete dependency'' [mds_InstanceID m]))
            (mds_Dependencies m))
         {} (dst_Modules v)) (\<lambda>_. Inr ())"

fun valid_backup_type :: "backup_type \<Rightarrow> bool" where
  "valid_backup_type (Other_Backup s) = False"
| "valid_backup_type t = True"

fun valid_source_kind :: "source_kind \<Rightarrow> bool" where
  "valid_source_kind (Other_Source s) = False"
| "valid_source_kind k = True"

definition desired_ok :: "desired_state \<Rightarrow> bool" where
  "desired_ok v =
     (distinct (map mds_InstanceID (dst_Modules v)) \<and>
      (\<forall>m\<in>set (dst_Modules v). mds_InstanceID m \<noteq> [] \<and> mds_PackageID m \<noteq> [] \<and> trim_space (mds_Version m) \<noteq> [] \<and>
         (\<forall>d\<in>set (mds_Dependencies m). mde_TargetModule d \<noteq> [] \<and> trim_space (mde_InterfaceID d) \<noteq> [] \<and>
            trim_space (mde_Consumer d) \<noteq> [])))"

lemma validate_desired_Inr_iff [result_simps]: "validate_desired v = Inr u \<longleftrightarrow> desired_ok v"
  by (auto simp: validate_desired_def desired_ok_def result_simps)


end
