(* ===== verification/Bundle_Recovery.thy ===== *)
theory Bundle_Recovery
  imports Bundle_Store Mgmt_Types
begin

section \<open>Export and import of bundles\<close>

text \<open>
  \<open>internal/executionbundle/recovery.go\<close>. A recovery directory is what \<open>os.ReadDir\<close> lists, a list
  of names with the flag of a regular file, and what \<open>os.ReadFile\<close> gives for a name. An import
  stages every bundle in a directory of its own, publishes the staged files by renaming them into
  the store, and undoes what it published unless it is sealed.
\<close>

record recovery_dir =
  rec_Entries :: "(bytes \<times> bool) list result"
  rec_Read :: "bytes \<Rightarrow> bytes result"

record staged =
  stg_Stage :: bytes
  stg_Target :: bytes
  stg_Bytes :: bytes

record recovery_import =
  imp_Stage :: dir
  imp_Bundles :: "staged list"
  imp_Published :: "bytes list"
  imp_Sealed :: bool

definition metadata_complete :: "bundle_metadata \<Rightarrow> bool" where
  "metadata_complete item =
     (bmd_ID item \<noteq> [] \<and> bmd_TargetID item \<noteq> [] \<and> bmd_Kind item \<noteq> [] \<and> bmd_Version item \<noteq> [] \<and>
      valid_sha256 (bmd_SHA256 item))"

definition validate_recovery_shape :: "recovery_dir \<Rightarrow> bundle_metadata list \<Rightarrow> unit result" where
  "validate_recovery_shape src items =
     bind_r (wrap_error ''read recovery execution-bundle directory: %w'' [] (rec_Entries src)) (\<lambda>entries.
     let expected = (\<lambda>item. tar_name (bmd_ID item)) ` set items in
     checks
       [for_each (\<lambda>item. reject_if (\<not> metadata_complete item)
          (Errf ''recovery execution bundle %s metadata is incomplete'' [bmd_ID item])) items,
        for_each (\<lambda>(name, regular). reject_if (\<not> regular \<or> name \<notin> expected)
          (Errf ''unexpected recovery execution-bundle entry %q'' [name])) entries,
        for_each (\<lambda>item. reject_if (tar_name (bmd_ID item) \<notin> fst ` set entries)
          (Errf ''recovery execution bundle %q is missing'' [tar_name (bmd_ID item)])) items])"

definition export_recovery ::
  "(bytes \<Rightarrow> tar_member list \<times> error option) \<Rightarrow> (bytes \<Rightarrow> (manifest \<times> trailing) result) \<Rightarrow>
   disk_faults \<Rightarrow> dir \<Rightarrow> bundle_metadata list \<Rightarrow> dir \<Rightarrow> dir result" where
  "export_recovery tar_read decode io fs items dest =
     also_r (try_op io Make_Destination)
       (fold_r (\<lambda>dest item.
          bind_r (wrap_error ''open recovery bundle %s: %w'' [bmd_ID item] (open_stored tar_read decode io (bmd_ID item) fs)) (\<lambda>b.
          also_r (reject_if (bun_SHA256 b \<noteq> bmd_SHA256 item)
            (Errf ''recovery bundle %s sha256 differs from canonical history'' [bmd_ID item]))
          (also_r (try_op io (Write_Copy (tar_name (bmd_ID item))))
            (Inr (dest(tar_name (bmd_ID item) \<mapsto> bun_Bytes b)))))) dest items)"

text \<open>\<open>fmt.Sprintf("bundle-%06d.tar", i)\<close>.\<close>

definition stage_name :: "nat \<Rightarrow> bytes" where
  "stage_name i = ''bundle-'' @ replicate (6 - length (decimal i)) CHR ''0'' @ decimal i @ ''.tar''"

definition matches_history :: "bundle_metadata \<Rightarrow> manifest \<Rightarrow> bool" where
  "matches_history item m =
     (man_BundleID m = bmd_ID item \<and> man_TargetID m = bmd_TargetID item \<and> kind_text (man_Kind m) = bmd_Kind item \<and>
      man_Version m = bmd_Version item)"

definition received_bundle :: "bundle_metadata \<Rightarrow> bytes \<Rightarrow> exec_bundle" where
  "received_bundle item data =
     \<lparr>bun_ID = bmd_ID item, bun_Kind = Other_Kind [], bun_SHA256 = bmd_SHA256 item, bun_Bytes = data,
      bun_Manifest = empty_manifest\<rparr>"

definition stage_item ::
  "(bytes \<Rightarrow> tar_member list \<times> error option) \<Rightarrow> (bytes \<Rightarrow> (manifest \<times> trailing) result) \<Rightarrow>
   disk_faults \<Rightarrow> recovery_dir \<Rightarrow> dir \<Rightarrow> recovery_import \<Rightarrow> nat \<times> bundle_metadata \<Rightarrow> recovery_import result" where
  "stage_item tar_read decode io src fs r p =
     (case p of (i, item) \<Rightarrow>
      let target = tar_name (bmd_ID item); stage = stage_name i in
      bind_r (wrap_error ''read recovered execution bundle %s: %w'' [bmd_ID item] (rec_Read src target)) (\<lambda>data.
      bind_r (wrap_error ''verify recovered execution bundle %s: %w'' [bmd_ID item]
                (verify tar_read decode (received_bundle item data))) (\<lambda>m.
      also_r (reject_if (\<not> matches_history item m)
        (Errf ''recovered execution bundle %s metadata differs from canonical history'' [bmd_ID item]))
      (also_r (try_op io (Read_Stored target))
        (case fs target of
           Some existing \<Rightarrow>
             if existing \<noteq> data
             then Inl (Errf ''historical bundle %s already exists with different bytes'' [bmd_ID item])
             else Inr r
         | None \<Rightarrow>
             also_r (try_op io (Write_Stage stage))
               (Inr (r\<lparr>imp_Stage := (imp_Stage r)(stage \<mapsto> data),
                       imp_Bundles := imp_Bundles r @
                         [\<lparr>stg_Stage = stage, stg_Target = target, stg_Bytes = data\<rparr>]\<rparr>)))))))"

definition fresh_import :: recovery_import where
  "fresh_import = \<lparr>imp_Stage = Map.empty, imp_Bundles = [], imp_Published = [], imp_Sealed = False\<rparr>"

definition prepare_import ::
  "(bytes \<Rightarrow> tar_member list \<times> error option) \<Rightarrow> (bytes \<Rightarrow> (manifest \<times> trailing) result) \<Rightarrow>
   disk_faults \<Rightarrow> recovery_dir \<Rightarrow> bundle_metadata list \<Rightarrow> dir \<Rightarrow> recovery_import result" where
  "prepare_import tar_read decode io src items fs =
     also_r (validate_recovery_shape src items)
       (also_r (wrap_error ''create recovery bundle stage: %w'' [] (try_op io Make_Stage))
       (also_r (try_op io Chmod_Stage)
         (fold_r (stage_item tar_read decode io src fs) fresh_import (enumerate 0 items))))"

definition rollback :: "disk_faults \<Rightarrow> recovery_import \<times> dir \<Rightarrow> recovery_import \<times> dir" where
  "rollback io st =
     (case st of (r, fs) \<Rightarrow>
      if imp_Sealed r then (r, fs)
      else (r\<lparr>imp_Published := [], imp_Stage := Map.empty\<rparr>,
            foldl (\<lambda>fs n. remove_file io n fs) fs (rev (imp_Published r))))"

definition rename_staged :: "disk_faults \<Rightarrow> staged \<Rightarrow> recovery_import \<times> dir \<Rightarrow> (recovery_import \<times> dir) result" where
  "rename_staged io s st =
     (case st of (r, fs) \<Rightarrow>
      also_r (try_op io (Rename_File (stg_Target s)))
        (case imp_Stage r (stg_Stage s) of
           None \<Rightarrow> Inl (Err ''file does not exist'')
         | Some data \<Rightarrow>
             Inr (r\<lparr>imp_Stage := (imp_Stage r)(stg_Stage s := None), imp_Published := imp_Published r @ [stg_Target s]\<rparr>,
                  fs(stg_Target s \<mapsto> data))))"

fun publish :: "disk_faults \<Rightarrow> staged list \<Rightarrow> recovery_import \<times> dir \<Rightarrow> unit result \<times> recovery_import \<times> dir" where
  "publish io [] st = (Inr (), st)"
| "publish io (s # ss) st =
     (case rename_staged io s st of
        Inr st' \<Rightarrow> publish io ss st'
      | Inl e \<Rightarrow>
          if flt_Fail io (Read_Back (stg_Target s)) = None \<and> snd st (stg_Target s) = Some (stg_Bytes s)
          then publish io ss ((fst st)\<lparr>imp_Stage := (imp_Stage (fst st))(stg_Stage s := None)\<rparr>, snd st)
          else (Inl (Wrapf ''publish recovered execution bundle: %w'' [] e), rollback io st))"

definition commit_import :: "disk_faults \<Rightarrow> recovery_import \<times> dir \<Rightarrow> unit result \<times> recovery_import \<times> dir" where
  "commit_import io st =
     (if imp_Sealed (fst st) then (Inl (Err ''recovery bundle import is not commit-ready''), st)
      else publish io (imp_Bundles (fst st)) st)"


definition close_import :: "disk_faults \<Rightarrow> recovery_import \<times> dir \<Rightarrow> recovery_import \<times> dir" where
  "close_import io st =
     (if \<not> imp_Sealed (fst st) then rollback io st else ((fst st)\<lparr>imp_Stage := Map.empty\<rparr>, snd st))"


subsection \<open>Staging\<close>

lemma stage_name_inject: "stage_name i = stage_name j \<longleftrightarrow> i = j"
proof
  have zeros: "decimal_value (replicate k CHR ''0'' @ s) = decimal_value s" for k s
    by (induction k) (simp_all add: decimal_value_def digit_value_def)
  assume "stage_name i = stage_name j"
  then have "replicate (6 - length (decimal i)) CHR ''0'' @ decimal i = replicate (6 - length (decimal j)) CHR ''0'' @ decimal j"
    unfolding stage_name_def same_append_eq by (metis append_assoc append_same_eq)
  then have "decimal_value (decimal i) = decimal_value (decimal j)" by (metis zeros)
  then show "i = j" by (simp only: decimal_value_decimal)
qed simp

text \<open>What an accepted item is: verified bytes that agree with the history.\<close>

definition accepted ::
  "(bytes \<Rightarrow> tar_member list \<times> error option) \<Rightarrow> (bytes \<Rightarrow> (manifest \<times> trailing) result) \<Rightarrow>
   bundle_metadata \<Rightarrow> bytes \<Rightarrow> bool" where
  "accepted tar_read decode item data =
     (\<exists>m. verify tar_read decode (received_bundle item data) = Inr m \<and> matches_history item m)"

definition staged_ok :: "recovery_dir \<Rightarrow> dir \<Rightarrow> nat \<Rightarrow> recovery_import \<Rightarrow> bool" where
  "staged_ok src fs n r =
     (imp_Published r = [] \<and> \<not> imp_Sealed r \<and>
      distinct (map stg_Stage (imp_Bundles r)) \<and> stg_Stage ` set (imp_Bundles r) \<subseteq> stage_name ` {..<n} \<and>
      (\<forall>s\<in>set (imp_Bundles r). imp_Stage r (stg_Stage s) = Some (stg_Bytes s) \<and> fs (stg_Target s) = None \<and>
         rec_Read src (stg_Target s) = Inr (stg_Bytes s)))"

definition item_ready ::
  "(bytes \<Rightarrow> tar_member list \<times> error option) \<Rightarrow> (bytes \<Rightarrow> (manifest \<times> trailing) result) \<Rightarrow>
   dir \<Rightarrow> staged list \<Rightarrow> bundle_metadata \<Rightarrow> bool" where
  "item_ready tar_read decode fs ss item =
     (\<exists>data. accepted tar_read decode item data \<and>
        (fs (tar_name (bmd_ID item)) = Some data \<or>
         (\<exists>s\<in>set ss. stg_Target s = tar_name (bmd_ID item) \<and> stg_Bytes s = data)))"

lemma stage_item_Inr:
  assumes "stage_item tar_read decode io src fs r (n, item) = Inr r'" and ok: "staged_ok src fs n r"
  shows "staged_ok src fs (Suc n) r' \<and> item_ready tar_read decode fs (imp_Bundles r') item \<and>
    set (imp_Bundles r) \<subseteq> set (imp_Bundles r') \<and> stg_Target ` set (imp_Bundles r') \<subseteq>
      insert (tar_name (bmd_ID item)) (stg_Target ` set (imp_Bundles r))"
proof -
  obtain data m where read: "rec_Read src (tar_name (bmd_ID item)) = Inr data"
    and acc: "verify tar_read decode (received_bundle item data) = Inr m" "matches_history item m"
    and rest: "(case fs (tar_name (bmd_ID item)) of
           Some existing \<Rightarrow>
             if existing \<noteq> data
             then Inl (Errf ''historical bundle %s already exists with different bytes'' [bmd_ID item])
             else Inr r
         | None \<Rightarrow>
             also_r (try_op io (Write_Stage (stage_name n)))
               (Inr (r\<lparr>imp_Stage := (imp_Stage r)(stage_name n \<mapsto> data),
                       imp_Bundles := imp_Bundles r @
                         [\<lparr>stg_Stage = stage_name n, stg_Target = tar_name (bmd_ID item), stg_Bytes = data\<rparr>]\<rparr>))) = Inr r'"
    using assms(1) unfolding stage_item_def prod.case Let_def bind_r_Inr_iff also_r_Inr_iff reject_if_Inr_iff
    by (auto simp: wrap_error_Inr_iff)
  have a: "accepted tar_read decode item data" using acc by (auto simp: accepted_def)
  have fresh: "\<forall>s\<in>set (imp_Bundles r). stg_Stage s \<noteq> stage_name n"
    using ok by (fastforce simp: staged_ok_def stage_name_inject)
  have less: "stage_name ` {..<n} \<subseteq> stage_name ` {..<Suc n}" by auto
  show ?thesis
  proof (cases "fs (tar_name (bmd_ID item))")
    case None
    let ?s = "\<lparr>stg_Stage = stage_name n, stg_Target = tar_name (bmd_ID item), stg_Bytes = data\<rparr>"
    have r': "imp_Bundles r' = imp_Bundles r @ [?s]" "imp_Stage r' = (imp_Stage r)(stage_name n \<mapsto> data)"
      "imp_Published r' = imp_Published r" "imp_Sealed r' = imp_Sealed r"
      using rest by (auto simp: None result_simps)
    have "staged_ok src fs (Suc n) r'"
      using ok fresh less read None unfolding staged_ok_def r' by (auto simp: image_subset_iff)
    moreover have "item_ready tar_read decode fs (imp_Bundles r') item"
      using a unfolding item_ready_def r' by auto
    ultimately show ?thesis by (auto simp: r')
  next
    case (Some existing)
    then have "r' = r" "existing = data" using rest by (auto split: if_splits)
    then show ?thesis using ok less a Some by (auto simp: staged_ok_def item_ready_def)
  qed
qed

lemma item_ready_mono: "item_ready tar_read decode fs ss item \<Longrightarrow> set ss \<subseteq> set ss' \<Longrightarrow> item_ready tar_read decode fs ss' item"
  unfolding item_ready_def by blast

lemma stage_items_Inr:
  assumes "fold_r (stage_item tar_read decode io src fs) r (enumerate n items) = Inr r'" and "staged_ok src fs n r"
  shows "staged_ok src fs (n + length items) r' \<and> (\<forall>item\<in>set items. item_ready tar_read decode fs (imp_Bundles r') item) \<and>
    set (imp_Bundles r) \<subseteq> set (imp_Bundles r') \<and>
    stg_Target ` set (imp_Bundles r') \<subseteq> (\<lambda>item. tar_name (bmd_ID item)) ` set items \<union> stg_Target ` set (imp_Bundles r)"
  using assms
proof (induction items arbitrary: n r)
  case (Cons item items)
  obtain r1 where r1: "stage_item tar_read decode io src fs r (n, item) = Inr r1"
    "fold_r (stage_item tar_read decode io src fs) r1 (enumerate (Suc n) items) = Inr r'"
    using Cons.prems(1) by (auto simp: result_simps)
  note one = stage_item_Inr [OF r1(1) Cons.prems(2)]
  note IH = Cons.IH [OF r1(2) one [THEN conjunct1]]
  let ?targets = "\<lambda>items. (\<lambda>item. tar_name (bmd_ID item)) ` set items"
  have "item_ready tar_read decode fs (imp_Bundles r') item"
    by (rule item_ready_mono [OF one [THEN conjunct2, THEN conjunct1] IH [THEN conjunct2, THEN conjunct2, THEN conjunct1]])
  moreover have "stg_Target ` set (imp_Bundles r') \<subseteq> ?targets (item # items) \<union> stg_Target ` set (imp_Bundles r)"
    using one [THEN conjunct2, THEN conjunct2, THEN conjunct2] IH [THEN conjunct2, THEN conjunct2, THEN conjunct2]
    by (simp only: list.set image_insert) blast
  moreover have "set (imp_Bundles r) \<subseteq> set (imp_Bundles r')"
    using one [THEN conjunct2, THEN conjunct2, THEN conjunct1] IH [THEN conjunct2, THEN conjunct2, THEN conjunct1]
    by (rule subset_trans)
  ultimately show ?case using IH [THEN conjunct1] IH [THEN conjunct2, THEN conjunct1] by simp
qed simp


subsection \<open>Publishing and undoing\<close>

lemma remove_files:
  "foldl (\<lambda>fs n. remove_file io n fs) fs ns n =
     (if n \<in> set ns \<and> flt_Fail io (Remove_File n) = None then None else fs n)"
  by (induction ns arbitrary: fs) (auto simp: remove_file_def)

text \<open>The store during an import that began with \<open>fs0\<close>.\<close>

definition publishing :: "recovery_dir \<Rightarrow> dir \<Rightarrow> recovery_import \<times> dir \<Rightarrow> bool" where
  "publishing src fs0 st =
     (\<not> imp_Sealed (fst st) \<and> (\<forall>n. n \<notin> set (imp_Published (fst st)) \<longrightarrow> snd st n = fs0 n) \<and>
      (\<forall>n\<in>set (imp_Published (fst st)). fs0 n = None \<and> (\<exists>d. rec_Read src n = Inr d \<and> snd st n = Some d)))"

definition publishable :: "recovery_dir \<Rightarrow> dir \<Rightarrow> staged list \<Rightarrow> recovery_import \<Rightarrow> bool" where
  "publishable src fs0 ss r =
     (distinct (map stg_Stage ss) \<and>
      (\<forall>s\<in>set ss. imp_Stage r (stg_Stage s) = Some (stg_Bytes s) \<and> fs0 (stg_Target s) = None \<and>
         rec_Read src (stg_Target s) = Inr (stg_Bytes s)))"

text \<open>
  What a failed import may leave: every file of the store is as before, except for a new file whose
  removal failed; that one is a whole bundle of the package under its own name.
\<close>

definition undone :: "disk_faults \<Rightarrow> recovery_dir \<Rightarrow> dir \<Rightarrow> dir \<Rightarrow> bool" where
  "undone io src fs0 fs =
     (\<forall>n. fs n = fs0 n \<or>
        fs0 n = None \<and> flt_Fail io (Remove_File n) \<noteq> None \<and> (\<exists>d. rec_Read src n = Inr d \<and> fs n = Some d))"

lemma rollback_undone:
  assumes "publishing src fs0 st"
  shows "undone io src fs0 (snd (rollback io st)) \<and> imp_Published (fst (rollback io st)) = []"
proof -
  obtain r fs where st: "st = (r, fs)" by (cases st)
  have r: "\<not> imp_Sealed r" and other: "\<And>n. n \<notin> set (imp_Published r) \<Longrightarrow> fs n = fs0 n"
    and new: "\<And>n. n \<in> set (imp_Published r) \<Longrightarrow> fs0 n = None \<and> (\<exists>d. rec_Read src n = Inr d \<and> fs n = Some d)"
    using assms by (auto simp: publishing_def st)
  have "snd (rollback io st) n = (if n \<in> set (imp_Published r) \<and> flt_Fail io (Remove_File n) = None then None else fs n)" for n
    using r by (simp add: rollback_def st remove_files)
  then have "undone io src fs0 (snd (rollback io st))"
    using other new unfolding undone_def by metis
  then show ?thesis using r by (simp add: rollback_def st)
qed

lemma publishable_tail:
  assumes "publishable src fs0 (s # ss) r" and "imp_Stage r' = (imp_Stage r)(stg_Stage s := None)"
  shows "publishable src fs0 ss r'"
proof -
  have "stg_Stage t \<noteq> stg_Stage s" if "t \<in> set ss" for t
    using assms(1) that by (auto simp: publishable_def image_iff)
  then show ?thesis using assms unfolding publishable_def by simp
qed

lemma rename_staged_Inr:
  assumes "rename_staged io s st = Inr st'" and "publishing src fs0 st" and "publishable src fs0 (s # ss) (fst st)"
  shows "publishing src fs0 st' \<and> publishable src fs0 ss (fst st') \<and> snd st' (stg_Target s) = Some (stg_Bytes s) \<and>
    (\<forall>n v. snd st n = Some v \<and> n \<in> set (imp_Published (fst st)) \<longrightarrow> n \<in> set (imp_Published (fst st')) \<and> snd st' n = Some v) \<and>
    stg_Target s \<in> set (imp_Published (fst st')) \<and>
    set (imp_Published (fst st')) \<subseteq> insert (stg_Target s) (set (imp_Published (fst st)))"
proof -
  obtain r fs where st: "st = (r, fs)" by (cases st)
  have stage: "imp_Stage r (stg_Stage s) = Some (stg_Bytes s)" and s: "fs0 (stg_Target s) = None"
    "rec_Read src (stg_Target s) = Inr (stg_Bytes s)"
    using assms(3) by (auto simp: publishable_def st)
  have st': "st' = (r\<lparr>imp_Stage := (imp_Stage r)(stg_Stage s := None), imp_Published := imp_Published r @ [stg_Target s]\<rparr>,
      fs(stg_Target s \<mapsto> stg_Bytes s))"
    using assms(1) by (auto simp: rename_staged_def st stage result_simps)
  have pub: "\<And>n. n \<in> set (imp_Published r) \<Longrightarrow> \<exists>d. rec_Read src n = Inr d \<and> fs n = Some d"
    using assms(2) by (auto simp: publishing_def st)
  have same: "fs (stg_Target s) = Some v \<Longrightarrow> stg_Target s \<in> set (imp_Published r) \<Longrightarrow> v = stg_Bytes s" for v
    using pub [of "stg_Target s"] s(2) by auto
  have "publishing src fs0 st'"
    using assms(2) s unfolding publishing_def st' st by (auto 0 3)
  moreover have "publishable src fs0 ss (fst st')"
    by (rule publishable_tail [OF assms(3)]) (simp add: st' st)
  ultimately show ?thesis using same unfolding st' st by auto
qed

lemma publish_Inr:
  assumes "publish io ss st = (res, st')" and "publishing src fs0 st" and "publishable src fs0 ss (fst st)"
  shows "case res of
      Inr u \<Rightarrow> publishing src fs0 st' \<and> (\<forall>s\<in>set ss. snd st' (stg_Target s) = Some (stg_Bytes s)) \<and>
        (\<forall>n\<in>set (imp_Published (fst st)). snd st' n = snd st n) \<and>
        set (imp_Published (fst st')) \<subseteq> stg_Target ` set ss \<union> set (imp_Published (fst st))
    | Inl e \<Rightarrow> undone io src fs0 (snd st') \<and> imp_Published (fst st') = []"
  using assms
proof (induction io ss st rule: publish.induct)
  case (1 io st)
  then show ?case by auto
next
  case (2 io s ss st)
  show ?case
  proof (cases "rename_staged io s st")
    case (Inr st1)
    note one = rename_staged_Inr [OF Inr 2(4,5)]
    have run: "publish io ss st1 = (res, st')" using 2(3) Inr by simp
    note IH = 2(2) [OF Inr run one [THEN conjunct1] one [THEN conjunct2, THEN conjunct1]]
    show ?thesis
    proof (cases res)
      case (Inr u)
      note later = IH [unfolded Inr sum.case]
      have keep: "snd st' n = snd st1 n" if "n \<in> set (imp_Published (fst st1))" for n
        using later that by blast
      have "snd st' (stg_Target s) = Some (stg_Bytes s)" using keep one by metis
      moreover have "snd st' n = snd st n" if n: "n \<in> set (imp_Published (fst st))" for n
      proof -
        obtain v where "snd st n = Some v" using 2(4) n by (auto simp: publishing_def)
        then show ?thesis using n keep one by metis
      qed
      moreover have "set (imp_Published (fst st')) \<subseteq> stg_Target ` set (s # ss) \<union> set (imp_Published (fst st))"
        using later one by (simp only: list.set image_insert) blast
      ultimately show ?thesis using later by (simp add: Inr)
    qed (use IH in auto)
  next
    case (Inl e)
    show ?thesis
    proof (cases "flt_Fail io (Read_Back (stg_Target s)) = None \<and> snd st (stg_Target s) = Some (stg_Bytes s)")
      case True
      let ?st = "((fst st)\<lparr>imp_Stage := (imp_Stage (fst st))(stg_Stage s := None)\<rparr>, snd st)"
      have a: "publishing src fs0 ?st" using 2(4) by (simp add: publishing_def)
      have b: "publishable src fs0 ss (fst ?st)" by (rule publishable_tail [OF 2(5)]) simp
      have run: "publish io ss ?st = (res, st')" using 2(3) Inl True by simp
      have same: "imp_Published (fst ?st) = imp_Published (fst st)" "snd ?st = snd st" by simp_all
      note IH = 2(1) [OF Inl True run a b, unfolded same]
      have "stg_Target s \<in> set (imp_Published (fst st))"
      proof (rule ccontr)
        assume "stg_Target s \<notin> set (imp_Published (fst st))"
        then have "snd st (stg_Target s) = fs0 (stg_Target s)" using 2(4) by (auto simp: publishing_def)
        then show False using True 2(5) by (simp add: publishable_def)
      qed
      then show ?thesis using IH True by (cases res) auto
    next
      case False
      then have "res = Inl (Wrapf ''publish recovered execution bundle: %w'' [] e)" "st' = rollback io st"
        using 2(3) Inl by (auto split: if_splits)
      then show ?thesis using rollback_undone [OF 2(4)] by simp
    qed
  qed
qed


subsection \<open>All or nothing\<close>

lemma fresh_staged: "staged_ok src fs 0 fresh_import"
  by (simp add: staged_ok_def fresh_import_def)

lemma prepare_import_Inr:
  assumes "prepare_import tar_read decode io src items fs = Inr r"
  shows "publishing src fs (r, fs) \<and> publishable src fs (imp_Bundles r) r \<and> imp_Published r = [] \<and>
    (\<forall>item\<in>set items. item_ready tar_read decode fs (imp_Bundles r) item) \<and>
    stg_Target ` set (imp_Bundles r) \<subseteq> (\<lambda>item. tar_name (bmd_ID item)) ` set items"
proof -
  have "fold_r (stage_item tar_read decode io src fs) fresh_import (enumerate 0 items) = Inr r"
    using assms by (auto simp: prepare_import_def result_simps)
  from stage_items_Inr [OF this fresh_staged]
  have "staged_ok src fs (length items) r" "\<forall>item\<in>set items. item_ready tar_read decode fs (imp_Bundles r) item"
    "stg_Target ` set (imp_Bundles r) \<subseteq> (\<lambda>item. tar_name (bmd_ID item)) ` set items"
    by (simp_all add: fresh_import_def)
  then show ?thesis by (auto simp: staged_ok_def publishing_def publishable_def)
qed

lemma commit_import_result:
  assumes "prepare_import tar_read decode io src items fs = Inr r" and "commit_import io (r, fs) = (res, st)"
  shows "case res of
      Inr u \<Rightarrow> publishing src fs st \<and> (\<forall>s\<in>set (imp_Bundles r). snd st (stg_Target s) = Some (stg_Bytes s)) \<and>
        set (imp_Published (fst st)) \<subseteq> stg_Target ` set (imp_Bundles r)
    | Inl e \<Rightarrow> undone io src fs (snd st) \<and> imp_Published (fst st) = []"
proof -
  note prep = prepare_import_Inr [OF assms(1)]
  have "\<not> imp_Sealed r" using prep by (simp add: publishing_def)
  then have run: "publish io (imp_Bundles r) (r, fs) = (res, st)"
    using assms(2) by (simp add: commit_import_def)
  have b: "publishable src fs (imp_Bundles r) (fst (r, fs))" using prep by simp
  from publish_Inr [OF run prep [THEN conjunct1] b] prep show ?thesis by (cases res) auto
qed


lemma close_undone:
  assumes "undone io src fs0 (snd st)" and "imp_Published (fst st) = []"
  shows "undone io src fs0 (snd (close_import io st))"
  using assms by (cases st) (simp add: close_import_def rollback_def)


text \<open>
  an import that was committed and is closed before it is sealed is undone: nothing that
  was stored before is lost, and the store is as before when no removal fails.
\<close>

theorem unsealed_import_undone:
  assumes "prepare_import tar_read decode io src items fs = Inr r" and "commit_import io (r, fs) = (res, st)"
  shows "undone io src fs (snd (close_import io st))"
proof -
  note result = commit_import_result [OF assms]
  show ?thesis
  proof (cases res)
    case (Inl e)
    then show ?thesis using result close_undone by simp
  next
    case (Inr u)
    then have "publishing src fs st" using result by simp
    moreover from this have "\<not> imp_Sealed (fst st)" by (simp add: publishing_def)
    ultimately show ?thesis using rollback_undone [of src fs st io] by (simp add: close_import_def)
  qed
qed

subsection \<open>On the sample bundle\<close>

definition sample_item :: bundle_metadata where
  "sample_item =
     \<lparr>bmd_ID = bun_ID sample_bundle, bmd_TargetID = ''target_1'', bmd_Kind = ''installation'', bmd_Version = ''1.2.0'',
      bmd_SHA256 = bun_SHA256 sample_bundle, bmd_CreatedAt = ''2026-01-01T00:00:00Z''\<rparr>"

definition sample_recovery :: recovery_dir where
  "sample_recovery = \<lparr>rec_Entries = Inr [(tar_name (bun_ID sample_bundle), True)], rec_Read = (\<lambda>_. Inr ''tar'')\<rparr>"

lemma sample_accepted: "verify sample_tar sample_decoder (received_bundle sample_item ''tar'') = Inr sample_manifest"
proof -
  have "verify sample_tar sample_decoder (received_bundle sample_item ''tar'') = verify sample_tar sample_decoder sample_bundle"
    by (rule verify_ignores_view) (simp_all add: received_bundle_def sample_item_def sample_bundle_def)
  then show ?thesis using sample_verifies by simp
qed

lemma sample_matches: "matches_history sample_item sample_manifest"
  by (simp add: matches_history_def sample_item_def sample_bundle_def sample_manifest_def Let_def draft_manifest_def
      normalize_manifest_def sample_input_def)

lemma sample_complete: "metadata_complete sample_item"
  by (simp add: metadata_complete_def sample_item_def sample_bundle_def sample_manifest_def Let_def bundle_identity_def)

lemma sample_prepared:
  "prepare_import sample_tar sample_decoder no_faults sample_recovery [sample_item] Map.empty =
     Inr \<lparr>imp_Stage = [stage_name 0 \<mapsto> ''tar''],
          imp_Bundles = [\<lparr>stg_Stage = stage_name 0, stg_Target = tar_name (bun_ID sample_bundle), stg_Bytes = ''tar''\<rparr>],
          imp_Published = [], imp_Sealed = False\<rparr>"
proof -
  have ids: "bmd_ID sample_item = bun_ID sample_bundle" by (simp add: sample_item_def)
  have "validate_recovery_shape sample_recovery [sample_item] = Inr ()"
    by (simp add: validate_recovery_shape_def sample_recovery_def wrap_error_def sample_complete ids Let_def)
  then show ?thesis
    by (simp add: prepare_import_def stage_item_def sample_accepted sample_matches sample_recovery_def wrap_error_def
        try_op_def no_faults_def fresh_import_def ids Let_def)
qed


theorem unsealed_import_undone_witness:
  "\<exists>st. snd st (tar_name (bun_ID sample_bundle)) = Some ''tar'' \<and>
    snd (close_import no_faults st) = Map.empty"
proof -
  let ?r = "\<lparr>imp_Stage = [stage_name 0 \<mapsto> ''tar''],
          imp_Bundles = [\<lparr>stg_Stage = stage_name 0, stg_Target = tar_name (bun_ID sample_bundle), stg_Bytes = ''tar''\<rparr>],
          imp_Published = [], imp_Sealed = False\<rparr>"
  obtain res st where c: "commit_import no_faults (?r, Map.empty) = (res, st)" by (meson surj_pair)
  then have "snd st (tar_name (bun_ID sample_bundle)) = Some ''tar''"
    by (auto simp: commit_import_def rename_staged_def try_op_def no_faults_def)
  moreover have "snd (close_import no_faults st) = Map.empty"
    using unsealed_import_undone [OF sample_prepared c] by (auto simp: undone_def no_faults_def)
  ultimately show ?thesis by blast
qed


end
