(* ===== verification/Exec_Types.thy ===== *)
theory Exec_Types
  imports Bundle_Archive
begin

section \<open>Executions\<close>

text \<open>
  The types of \<open>internal/execution/types.go\<close>. The three interfaces \<open>Target\<close>, \<open>Secrets\<close> and
  \<open>History\<close> and the waiting of the loop are the fields of one record of functions over the state
  \<open>'w\<close> of the world outside: every call gives its result and the world after it. A Go string of
  type \<open>Status\<close> may hold any bytes, so the status has a constructor for the others.
\<close>

datatype status =
    Not_Started | Running | Interrupted | Failed | Success | Unknown | Other_Status bytes

record exec_run =
  exr_ID :: bytes
  exr_TargetID :: bytes
  exr_BundleID :: bytes
  exr_BundleSHA256 :: bytes
  exr_Kind :: bytes
  exr_Version :: bytes
  exr_Status :: status
  exr_Phase :: bytes

record step_result =
  srs_ID :: bytes
  srs_StartedAt :: bytes
  srs_FinishedAt :: bytes
  srs_ExitCode :: int
  srs_Stdout :: bytes
  srs_Stderr :: bytes

record exec_proof =
  prf_FormatVersion :: int
  prf_RunID :: bytes
  prf_BundleID :: bytes
  prf_BundleSHA256 :: bytes
  prf_TargetID :: bytes
  prf_Kind :: bytes
  prf_Status :: status
  prf_Phase :: bytes
  prf_StartedAt :: bytes
  prf_FinishedAt :: bytes
  prf_Steps :: "step_result list"
  prf_PostState :: "json go_map"
  prf_Error :: bytes

record observation =
  obv_Proof :: "exec_proof option"
  obv_LockHeld :: bool
  obv_UnitRunning :: bool

record secret_value =
  scv_ID :: bytes
  scv_Value :: bytes

record start_request =
  srq_RunID :: bytes
  srq_BundleID :: bytes
  srq_BundleSHA256 :: bytes
  srq_TargetID :: bytes
  srq_Runner :: runner_identity

text \<open>
  \<open>Resolve\<close> hands the value to a callback of the caller; the list holds the values of all calls
  of the callback, in order. \<open>env_Wait\<close> is the \<open>select\<close> at the end of a round: the error of the
  context when it is done, or nothing after the poll interval.
\<close>

record 'w exec_env =
  env_NewID :: "'w \<Rightarrow> bytes result \<times> 'w"
  env_Upload :: "bytes \<Rightarrow> exec_bundle \<Rightarrow> 'w \<Rightarrow> unit result \<times> 'w"
  env_Register :: "exec_run \<Rightarrow> 'w \<Rightarrow> unit result \<times> 'w"
  env_Start :: "bytes \<Rightarrow> start_request \<Rightarrow> 'w \<Rightarrow> unit result \<times> 'w"
  env_Observe :: "bytes \<Rightarrow> bytes \<Rightarrow> 'w \<Rightarrow> observation result \<times> 'w"
  env_Resolve :: "bytes \<Rightarrow> 'w \<Rightarrow> (bytes list \<times> unit result) \<times> 'w"
  env_SendSecrets :: "bytes \<Rightarrow> bytes \<Rightarrow> secret_value list \<Rightarrow> 'w \<Rightarrow> unit result \<times> 'w"
  env_Finished :: "exec_run \<Rightarrow> exec_proof \<Rightarrow> 'w \<Rightarrow> unit result \<times> 'w"
  env_Wait :: "'w \<Rightarrow> error option \<times> 'w"

text \<open>What was asked of the outside, with the outcome: the events of an execution.\<close>

datatype exec_event =
    Upload_Ev bool
  | Register_Ev bool
  | Start_Ev bool
  | Observe_Ev "observation option"
  | Resolve_Ev bytes
  | Secrets_Ev "bytes list" bool
  | Finished_Ev exec_run exec_proof bool
  | Wait_Ev bool

definition log_call :: "('w \<Rightarrow> 'r \<times> 'w) \<Rightarrow> ('r \<Rightarrow> exec_event list) \<Rightarrow> 'w \<times> exec_event list \<Rightarrow> 'r \<times> 'w \<times> exec_event list" where
  "log_call f ev s = (case s of (w, tr) \<Rightarrow> case f w of (r, w') \<Rightarrow> (r, w', tr @ ev r))"

definition ok :: "'a result \<Rightarrow> bool" where
  "ok r = (case r of Inl e \<Rightarrow> False | Inr v \<Rightarrow> True)"

lemma ok_simps [simp]: "ok (Inl e) = False" "ok (Inr v) = True"
  by (simp_all add: ok_def)

text \<open>The same outside with a record of every call.\<close>

definition logged :: "'w exec_env \<Rightarrow> ('w \<times> exec_event list) exec_env" where
  "logged env =
     \<lparr>env_NewID = log_call (env_NewID env) (\<lambda>_. []),
      env_Upload = (\<lambda>t b. log_call (env_Upload env t b) (\<lambda>r. [Upload_Ev (ok r)])),
      env_Register = (\<lambda>run. log_call (env_Register env run) (\<lambda>r. [Register_Ev (ok r)])),
      env_Start = (\<lambda>t q. log_call (env_Start env t q) (\<lambda>r. [Start_Ev (ok r)])),
      env_Observe = (\<lambda>t i. log_call (env_Observe env t i)
        (\<lambda>r. [Observe_Ev (case r of Inl e \<Rightarrow> None | Inr obs \<Rightarrow> Some obs)])),
      env_Resolve = (\<lambda>i. log_call (env_Resolve env i) (\<lambda>_. [Resolve_Ev i])),
      env_SendSecrets = (\<lambda>t i vs. log_call (env_SendSecrets env t i vs) (\<lambda>r. [Secrets_Ev (map scv_ID vs) (ok r)])),
      env_Finished = (\<lambda>run p. log_call (env_Finished env run p) (\<lambda>r. [Finished_Ev run p (ok r)])),
      env_Wait = log_call (env_Wait env) (\<lambda>r. [Wait_Ev (r = None)])\<rparr>"

end
