(* ===== verification/Exec_Run.thy ===== *)
theory Exec_Run
  imports Exec_Types
begin

section \<open>The executor\<close>

text \<open>
  \<open>internal/execution/executor.go\<close>. A run and an error are returned together, also on failure, so
  the result is a pair. The polling loop may run for ever: it is a partial function whose value
  \<open>None\<close> says that it does not return.
\<close>

definition err_status_unknown :: error where
  "err_status_unknown = Err ''execution status is unknown; reconcile before retry''"

definition validate_bundle ::
  "(bytes \<Rightarrow> tar_member list \<times> error option) \<Rightarrow> (bytes \<Rightarrow> (manifest \<times> trailing) result) \<Rightarrow>
   bytes \<Rightarrow> exec_bundle \<Rightarrow> manifest result" where
  "validate_bundle tar_read decode target b =
     also_r (reject_if (target = []) (Err ''target id is required''))
       (bind_r (verify tar_read decode b) (\<lambda>m.
        also_r (reject_if (man_TargetID m \<noteq> target) (Err ''execution bundle identity does not match target''))
          (Inr m)))"

definition proof_of_run :: "exec_run \<Rightarrow> exec_proof \<Rightarrow> bool" where
  "proof_of_run run p =
     (prf_RunID p = exr_ID run \<and> prf_BundleID p = exr_BundleID run \<and>
      prf_BundleSHA256 p = exr_BundleSHA256 run \<and> prf_TargetID p = exr_TargetID run)"

definition validate_observation_identity :: "exec_run \<Rightarrow> exec_proof option \<Rightarrow> unit result" where
  "validate_observation_identity run p =
     (case p of None \<Rightarrow> Inr ()
      | Some p \<Rightarrow> reject_if (\<not> proof_of_run run p) (Err ''execution proof identity mismatch''))"

definition terminal :: "status \<Rightarrow> bool" where
  "terminal s = (s = Success \<or> s = Failed)"

definition classify :: "exec_run \<Rightarrow> observation \<Rightarrow> exec_run" where
  "classify run obs =
     (let active = obv_LockHeld obs \<or> obv_UnitRunning obs in
      case obv_Proof obs of
        None \<Rightarrow> run\<lparr>exr_Status := (if active then Running else Not_Started)\<rparr>
      | Some p \<Rightarrow>
          run\<lparr>exr_Status :=
            (case prf_Status p of
               Success \<Rightarrow> Success
             | Failed \<Rightarrow> Failed
             | Running \<Rightarrow> if active then Running else Interrupted
             | _ \<Rightarrow> Unknown)\<rparr>)"

text \<open>\<open>resolveSecrets\<close>: the identifiers once each and sorted, then one value per identifier.\<close>

fun resolve_all :: "'w exec_env \<Rightarrow> bytes list \<Rightarrow> 'w \<Rightarrow> secret_value list result \<times> 'w" where
  "resolve_all env [] w = (Inr [], w)"
| "resolve_all env (i # is) w =
     (case env_Resolve env i w of
        ((given, Inl e), w') \<Rightarrow> (Inl (Wrapf ''resolve execution secret %s: %w'' [i] e), w')
      | ((given, Inr u), w') \<Rightarrow>
          (let copied = (if given = [] then [] else last given) in
           if copied = [] then (Inl (Errf ''execution secret %s is empty'' [i]), w')
           else (case resolve_all env is w' of
                   (Inl e, w'') \<Rightarrow> (Inl e, w'')
                 | (Inr vs, w'') \<Rightarrow> (Inr (\<lparr>scv_ID = i, scv_Value = copied\<rparr> # vs), w''))))"

definition resolve_secrets :: "'w exec_env \<Rightarrow> secret_reference list \<Rightarrow> 'w \<Rightarrow> secret_value list result \<times> 'w" where
  "resolve_secrets env refs w =
     (case for_each (\<lambda>r. reject_if (ref_SecretID r = []) (Err ''bundle contains empty secret id'')) refs of
        Inl e \<Rightarrow> (Inl e, w)
      | Inr u \<Rightarrow> resolve_all env (sort (remdups (map ref_SecretID refs))) w)"

subsection \<open>A round of the loop\<close>

datatype round = Return exec_run "unit result" | Again exec_run bool

definition awaits_secrets :: "observation \<Rightarrow> bool" where
  "awaits_secrets obs =
     (case obv_Proof obs of None \<Rightarrow> False
      | Some p \<Rightarrow> prf_Status p = Running \<and> prf_Phase p = ''awaiting-secrets'')"

definition vanished :: "observation \<Rightarrow> bool" where
  "vanished obs = (obv_Proof obs = None \<and> \<not> obv_LockHeld obs \<and> \<not> obv_UnitRunning obs)"

definition unknown :: "exec_run \<Rightarrow> exec_run" where
  "unknown run = run\<lparr>exr_Status := Unknown\<rparr>"

definition uncertain :: "string \<Rightarrow> error \<Rightarrow> error" where
  "uncertain f e = Error f [] [e, err_status_unknown]"

definition wait_round :: "'w exec_env \<Rightarrow> exec_run \<Rightarrow> bool \<Rightarrow> 'w \<Rightarrow> round \<times> 'w" where
  "wait_round env run sent w =
     (if exr_Status run = Interrupted then (Return run (Inl err_status_unknown), w)
      else (case env_Wait env w of
              (Some e, w') \<Rightarrow> (Return (unknown run) (Inl (uncertain ''execution wait cancelled: %w: %w'' e)), w')
            | (None, w') \<Rightarrow> (Again run sent, w')))"

definition record_finished :: "'w exec_env \<Rightarrow> exec_run \<Rightarrow> exec_proof \<Rightarrow> 'w \<Rightarrow> round \<times> 'w" where
  "record_finished env run p w =
     (case env_Finished env run p w of
        (Inl e, w') \<Rightarrow> (Return run (Inl (Wrapf ''record finished execution: %w'' [] e)), w')
      | (Inr u, w') \<Rightarrow>
          (Return run (if prf_Status p = Failed then Inl (Errf ''execution failed: %s'' [prf_Error p]) else Inr ()), w'))"

definition close_round :: "'w exec_env \<Rightarrow> exec_run \<Rightarrow> bool \<Rightarrow> observation \<Rightarrow> 'w \<Rightarrow> round \<times> 'w" where
  "close_round env run sent obs w =
     (case obv_Proof obs of
        None \<Rightarrow> wait_round env run sent w
      | Some p \<Rightarrow> if terminal (prf_Status p) then record_finished env run p w else wait_round env run sent w)"

definition secrets_round ::
  "'w exec_env \<Rightarrow> bytes \<Rightarrow> manifest \<Rightarrow> exec_run \<Rightarrow> bool \<Rightarrow> observation \<Rightarrow> 'w \<Rightarrow> round \<times> 'w" where
  "secrets_round env target m run sent obs w =
     (if \<not> sent \<and> awaits_secrets obs then
        (case resolve_secrets env (man_Secrets m) w of
           (Inl e, w') \<Rightarrow> (Return run (Inl e), w')
         | (Inr vs, w') \<Rightarrow>
             (case env_SendSecrets env target (exr_ID run) vs w' of
                (Inl e, w'') \<Rightarrow> (Return (unknown run) (Inl (uncertain ''deliver execution secrets: %w: %w'' e)), w'')
              | (Inr u, w'') \<Rightarrow> close_round env run True obs w''))
      else close_round env run sent obs w)"

definition observed_run :: "exec_run \<Rightarrow> observation \<Rightarrow> exec_run" where
  "observed_run run obs =
     (case obv_Proof obs of None \<Rightarrow> classify run obs | Some p \<Rightarrow> (classify run obs)\<lparr>exr_Phase := prf_Phase p\<rparr>)"

definition poll_round ::
  "'w exec_env \<Rightarrow> bytes \<Rightarrow> manifest \<Rightarrow> exec_run \<Rightarrow> bool \<Rightarrow> 'w \<Rightarrow> round \<times> 'w" where
  "poll_round env target m run sent w =
     (case env_Observe env target (exr_ID run) w of
        (Inl e, w') \<Rightarrow> (Return (unknown run) (Inl (uncertain ''observe started execution: %w: %w'' e)), w')
      | (Inr obs, w') \<Rightarrow>
          (case validate_observation_identity run (obv_Proof obs) of
             Inl e \<Rightarrow> (Return (unknown run) (Inl e), w')
           | Inr u \<Rightarrow>
               if vanished obs
               then (Return (unknown run)
                       (Inl (Wrapf ''started execution disappeared before producing a proof: %w'' [] err_status_unknown)), w')
               else secrets_round env target m (observed_run run obs) sent obs w'))"

partial_function (option) poll ::
  "'w exec_env \<Rightarrow> bytes \<Rightarrow> manifest \<Rightarrow> exec_run \<Rightarrow> bool \<Rightarrow> 'w \<Rightarrow> ((exec_run \<times> unit result) \<times> 'w) option" where
  "poll env target m run sent w =
     (case poll_round env target m run sent w of
        (Return r e, w') \<Rightarrow> Some ((r, e), w')
      | (Again r s, w') \<Rightarrow> poll env target m r s w')"

text \<open>The zero value of a run, returned where no run was made.\<close>

definition no_run :: exec_run where
  "no_run =
     \<lparr>exr_ID = [], exr_TargetID = [], exr_BundleID = [], exr_BundleSHA256 = [], exr_Kind = [], exr_Version = [],
      exr_Status = Other_Status [], exr_Phase = []\<rparr>"

definition new_run :: "bytes \<Rightarrow> bytes \<Rightarrow> exec_bundle \<Rightarrow> manifest \<Rightarrow> exec_run" where
  "new_run i target b m =
     \<lparr>exr_ID = i, exr_TargetID = target, exr_BundleID = bun_ID b, exr_BundleSHA256 = bun_SHA256 b,
      exr_Kind = kind_text (man_Kind m), exr_Version = man_Version m, exr_Status = Not_Started, exr_Phase = []\<rparr>"

definition start_request_of :: "bytes \<Rightarrow> bytes \<Rightarrow> exec_bundle \<Rightarrow> manifest \<Rightarrow> start_request" where
  "start_request_of i target b m =
     \<lparr>srq_RunID = i, srq_BundleID = bun_ID b, srq_BundleSHA256 = bun_SHA256 b, srq_TargetID = target,
      srq_Runner = man_Runner m\<rparr>"

definition execute ::
  "(bytes \<Rightarrow> tar_member list \<times> error option) \<Rightarrow> (bytes \<Rightarrow> (manifest \<times> trailing) result) \<Rightarrow>
   'w exec_env \<Rightarrow> bytes \<Rightarrow> exec_bundle \<Rightarrow> 'w \<Rightarrow> ((exec_run \<times> unit result) \<times> 'w) option" where
  "execute tar_read decode env target b w =
     (case validate_bundle tar_read decode target b of
        Inl e \<Rightarrow> Some ((no_run, Inl e), w)
      | Inr m \<Rightarrow>
          (case env_NewID env w of
             (Inl e, w1) \<Rightarrow> Some ((no_run, Inl (Wrapf ''allocate execution run id: %w'' [] e)), w1)
           | (Inr i, w1) \<Rightarrow>
               (let run = new_run i target b m in
                case env_Upload env target b w1 of
                  (Inl e, w2) \<Rightarrow> Some ((run, Inl (Wrapf ''upload execution bundle: %w'' [] e)), w2)
                | (Inr u, w2) \<Rightarrow>
                    (case env_Register env run w2 of
                       (Inl e, w3) \<Rightarrow> Some ((run, Inl (Wrapf ''register execution bundle: %w'' [] e)), w3)
                     | (Inr u, w3) \<Rightarrow>
                         (case env_Start env target (start_request_of i target b m) w3 of
                            (Inl e, w4) \<Rightarrow>
                              Some ((unknown run, Inl (uncertain ''start execution bundle: %w: %w'' e)), w4)
                          | (Inr u, w4) \<Rightarrow> poll env target m (run\<lparr>exr_Status := Running\<rparr>) False w4)))))"

definition reconcile ::
  "'w exec_env \<Rightarrow> bytes \<Rightarrow> bytes \<Rightarrow> bytes \<Rightarrow> bytes \<Rightarrow> 'w \<Rightarrow> (exec_run \<times> unit result) \<times> 'w" where
  "reconcile env target i bundle sha w =
     (if target = [] \<or> i = [] \<or> bundle = [] \<or> sha = []
      then ((no_run, Inl (Err ''complete execution identity is required'')), w)
      else
        (let run = \<lparr>exr_ID = i, exr_TargetID = target, exr_BundleID = bundle, exr_BundleSHA256 = sha, exr_Kind = [],
                    exr_Version = [], exr_Status = Unknown, exr_Phase = []\<rparr> in
         case env_Observe env target i w of
           (Inl e, w') \<Rightarrow> ((run, Inl (Wrapf ''reconcile execution: %w'' [] e)), w')
         | (Inr obs, w') \<Rightarrow>
             (case obv_Proof obs of
                None \<Rightarrow> ((classify run obs, Inr ()), w')
              | Some p \<Rightarrow>
                  if \<not> proof_of_run run p then ((run, Inl (Err ''execution proof identity mismatch'')), w')
                  else
                    (let run' = classify (run\<lparr>exr_Phase := prf_Phase p\<rparr>) obs in
                     if terminal (prf_Status p)
                     then (case env_Finished env run' p w' of
                             (Inl e, w'') \<Rightarrow> ((run', Inl (Wrapf ''record reconciled execution: %w'' [] e)), w'')
                           | (Inr u, w'') \<Rightarrow> ((run', Inr ()), w''))
                     else ((run', Inr ()), w')))))"

end
