(* ===== verification/Exec_History.thy ===== *)
theory Exec_History
  imports Exec_Run
begin

section \<open>The history behind an execution\<close>

text \<open>
  The contract between the executor and the history that it is given: registering a run makes its
  bundle known, finishing one records it, and no call to the outside forgets a bundle. Its client
  lemma says what a successful execution leaves in the history; \<open>Exec_State\<close> interprets the contract
  on the adapter of \<open>internal/executionstate\<close> over the management state.
\<close>

definition env_keeps :: "('w \<Rightarrow> bool) \<Rightarrow> 'w exec_env \<Rightarrow> bool" where
  "env_keeps I env =
     ((\<forall>w. I w \<longrightarrow> I (snd (env_NewID env w))) \<and> (\<forall>t b w. I w \<longrightarrow> I (snd (env_Upload env t b w))) \<and>
      (\<forall>r w. I w \<longrightarrow> I (snd (env_Register env r w))) \<and> (\<forall>t q w. I w \<longrightarrow> I (snd (env_Start env t q w))) \<and>
      (\<forall>t i w. I w \<longrightarrow> I (snd (env_Observe env t i w))) \<and> (\<forall>i w. I w \<longrightarrow> I (snd (env_Resolve env i w))) \<and>
      (\<forall>t i vs w. I w \<longrightarrow> I (snd (env_SendSecrets env t i vs w))) \<and>
      (\<forall>r p w. I w \<longrightarrow> I (snd (env_Finished env r p w))) \<and> (\<forall>w. I w \<longrightarrow> I (snd (env_Wait env w))))"

lemma env_keepsD:
  assumes "env_keeps I env" "I w"
  shows "env_Start env t q w = (a, w') \<Longrightarrow> I w'" "env_Observe env t i w = (b, w') \<Longrightarrow> I w'"
    "env_Resolve env i w = (c, w') \<Longrightarrow> I w'" "env_SendSecrets env t i vs w = (d, w') \<Longrightarrow> I w'"
    "env_Finished env r p w = (e, w') \<Longrightarrow> I w'" "env_Wait env w = (g, w') \<Longrightarrow> I w'"
  using assms unfolding env_keeps_def by (metis snd_conv)+

text \<open>What a run is about, whatever has been seen of it.\<close>

definition same_bundle :: "exec_run \<Rightarrow> exec_run \<Rightarrow> bool" where
  "same_bundle r r' =
     (exr_ID r = exr_ID r' \<and> exr_TargetID r = exr_TargetID r' \<and> exr_BundleID r = exr_BundleID r' \<and>
      exr_BundleSHA256 r = exr_BundleSHA256 r' \<and> exr_Kind r = exr_Kind r' \<and> exr_Version r = exr_Version r')"

lemma same_bundle_simps [simp]:
  "same_bundle r r" "same_bundle (unknown r) r' = same_bundle r r'" "same_bundle (observed_run r obs) r' = same_bundle r r'"
  "same_bundle (r\<lparr>exr_Status := s\<rparr>) r' = same_bundle r r'"
  by (auto simp: same_bundle_def unknown_def observed_run_def classify_def Let_def split: option.split)

lemma same_bundle_trans: "same_bundle r r' \<Longrightarrow> same_bundle r' r'' \<Longrightarrow> same_bundle r r''"
  by (simp add: same_bundle_def)

lemma same_bundle_proof: "same_bundle r r' \<Longrightarrow> proof_of_run r p = proof_of_run r' p"
  by (simp add: same_bundle_def proof_of_run_def)

definition finished_with :: "'w exec_env \<Rightarrow> exec_run \<Rightarrow> exec_run \<Rightarrow> unit result \<Rightarrow> 'w \<Rightarrow> bool" where
  "finished_with env run r e w =
     (same_bundle r run \<and>
      (e = Inr () \<longrightarrow> (\<exists>p w1. env_Finished env r p w1 = (Inr (), w) \<and> prf_Status p = Success \<and> proof_of_run run p)))"

definition round_left :: "'w exec_env \<Rightarrow> exec_run \<Rightarrow> round \<Rightarrow> 'w \<Rightarrow> bool" where
  "round_left env run res w =
     (case res of Again r sent \<Rightarrow> same_bundle r run | Return r e \<Rightarrow> finished_with env run r e w)"

lemma resolve_all_keeps: "env_keeps I env \<Longrightarrow> I w \<Longrightarrow> I (snd (resolve_all env is w))"
proof (induction "is" arbitrary: w)
  case (Cons i "is")
  obtain given r w' where c: "env_Resolve env i w = ((given, r), w')" by (metis surj_pair)
  have "I w'" by (rule env_keepsD(3) [OF Cons.prems c])
  then show ?case
    using Cons.IH [OF Cons.prems(1), of w'] by (auto simp: c Let_def split: sum.splits prod.splits)
qed simp

lemma resolve_secrets_keeps: "env_keeps I env \<Longrightarrow> I w \<Longrightarrow> I (snd (resolve_secrets env refs w))"
  using resolve_all_keeps by (auto simp: resolve_secrets_def split: sum.splits)

lemma close_round_kept:
  assumes "env_keeps I env" "I w" "close_round env r sent obs w = (res, w')" "same_bundle r run"
    and "\<And>p. obv_Proof obs = Some p \<Longrightarrow> proof_of_run run p"
  shows "I w' \<and> round_left env run res w'"
proof -
  have wait: "I w' \<and> round_left env run res w'" if "wait_round env r sent w = (res, w')"
    using that env_keepsD(6) [OF assms(1,2)] assms(2,4)
    by (auto simp: wait_round_def round_left_def finished_with_def split: if_splits prod.splits option.splits)
  show ?thesis
  proof (cases "obv_Proof obs")
    case None
    then show ?thesis using wait assms(3) by (simp add: close_round_def)
  next
    case (Some p)
    obtain f w1 where f: "env_Finished env r p w = (f, w1)" by (metis surj_pair)
    have w1: "I w1" by (rule env_keepsD(5) [OF assms(1,2) f])
    have mine: "proof_of_run run p" using assms(5) Some by blast
    have "I w' \<and> round_left env run res w'" if "terminal (prf_Status p)"
      using that assms(3,4) Some f w1 mine
      by (cases f) (auto simp: close_round_def record_finished_def round_left_def finished_with_def terminal_def
        intro!: exI [of _ p])
    then show ?thesis using wait assms(3) Some by (cases "terminal (prf_Status p)") (simp_all add: close_round_def)
  qed
qed

lemma secrets_round_kept:
  assumes k: "env_keeps I env" "I w" and run: "secrets_round env target m r sent obs w = (res, w')"
    and same: "same_bundle r run" "\<And>p. obv_Proof obs = Some p \<Longrightarrow> proof_of_run run p"
  shows "I w' \<and> round_left env run res w'"
proof (cases "\<not> sent \<and> awaits_secrets obs")
  case True
  obtain rs w1 where c: "resolve_secrets env (man_Secrets m) w = (rs, w1)" by (metis surj_pair)
  have w1: "I w1" using resolve_secrets_keeps [OF k, of "man_Secrets m"] by (simp add: c)
  show ?thesis
  proof (cases rs)
    case (Inl e)
    then show ?thesis using run True w1 same(1) by (auto simp: secrets_round_def c round_left_def finished_with_def)
  next
    case (Inr vs)
    obtain sr w2 where s: "env_SendSecrets env target (exr_ID r) vs w1 = (sr, w2)" by (metis surj_pair)
    have w2: "I w2" by (rule env_keepsD(4) [OF k(1) w1 s])
    show ?thesis
    proof (cases sr)
      case (Inl e)
      then show ?thesis using run True w2 same(1) Inr s
        by (auto simp: secrets_round_def c round_left_def finished_with_def)
    next
      case sent: (Inr u)
      then have "close_round env r True obs w2 = (res, w')" using run True Inr s by (simp add: secrets_round_def c)
      then show ?thesis by (rule close_round_kept [OF k(1) w2 _ same])
    qed
  qed
next
  case False
  then have "close_round env r sent obs w = (res, w')" using run by (auto simp: secrets_round_def)
  then show ?thesis by (rule close_round_kept [OF k _ same])
qed

lemma poll_round_kept:
  assumes k: "env_keeps I env" "I w" and run: "poll_round env target m r sent w = (res, w')" and same: "same_bundle r run"
  shows "I w' \<and> round_left env run res w'"
proof -
  obtain or w1 where c: "env_Observe env target (exr_ID r) w = (or, w1)" by (metis surj_pair)
  have w1: "I w1" by (rule env_keepsD(2) [OF k c])
  have stop: "I w' \<and> round_left env run res w'" if "res = Return (unknown r) (Inl e)" "w' = w1" for e
    using that w1 same by (simp add: round_left_def finished_with_def)
  show ?thesis
  proof (cases or)
    case (Inl e)
    then show ?thesis using run c by (intro stop) (auto simp: poll_round_def)
  next
    case (Inr obs)
    show ?thesis
    proof (cases "validate_observation_identity r (obv_Proof obs)")
      case (Inl e)
      then show ?thesis using run c Inr by (intro stop) (auto simp: poll_round_def)
    next
      case ok: (Inr u)
      have mine: "proof_of_run run p" if "obv_Proof obs = Some p" for p
        using ok that same_bundle_proof [OF same] by (simp add: validate_observation_identity_def reject_if_def split: if_splits)
      show ?thesis
      proof (cases "vanished obs")
        case True
        then show ?thesis using run c Inr ok by (intro stop) (auto simp: poll_round_def)
      next
        case False
        then have "secrets_round env target m (observed_run r obs) sent obs w1 = (res, w')"
          using run by (simp add: poll_round_def c Inr ok)
        then show ?thesis by (rule secrets_round_kept [OF k(1) w1 _ _ mine]) (use same in simp_all)
      qed
    qed
  qed
qed

lemma poll_kept:
  assumes ret: "poll env target m r sent w = Some ((x, e), w')" and "env_keeps I env" "I w" "same_bundle r run"
  shows "I w' \<and> finished_with env run x e w'"
proof -
  let ?P = "\<lambda>(env'::'a exec_env) target m r sent w y. env' = env \<longrightarrow> I w \<longrightarrow> same_bundle r run \<longrightarrow>
      I (snd y) \<and> finished_with env run (fst (fst y)) (snd (fst y)) (snd y)"
  have "?P env target m r sent w ((x, e), w')"
  proof (rule poll.raw_induct [where P = ?P, OF _ ret])
    fix f and env' :: "'a exec_env" and target m r sent w y
    assume IH: "\<And>env' target m r sent w y. f env' target m r sent w = Some y \<Longrightarrow> ?P env' target m r sent w y"
      and eq: "(case poll_round env' target m r sent w of
          (Return r e, w') \<Rightarrow> Some ((r, e), w') | (Again r s, w') \<Rightarrow> f env' target m r s w') = Some y"
    show "?P env' target m r sent w y"
    proof (intro impI)
      assume l: "env' = env" and w: "I w" and same: "same_bundle r run"
      obtain res w1 where c: "poll_round env target m r sent w = (res, w1)" by (metis surj_pair)
      have round: "I w1 \<and> round_left env run res w1" by (rule poll_round_kept [OF assms(2) w c same])
      show "I (snd y) \<and> finished_with env run (fst (fst y)) (snd (fst y)) (snd y)"
      proof (cases res)
        case (Return a b)
        then show ?thesis using eq round by (auto simp: l c round_left_def)
      next
        case (Again a s)
        then have "f env target m a s w1 = Some y" using eq by (simp add: l c)
        from IH [OF this] show ?thesis using round Again by (auto simp: round_left_def)
      qed
    qed
  qed
  then show ?thesis using assms(3,4) by simp
qed

lemma execute_keeps:
  assumes k: "env_keeps I env" "I w" and run: "execute tar_read decode env target b w = Some (x, w')"
  shows "I w'"
proof (cases "validate_bundle tar_read decode target b")
  case (Inl e)
  then show ?thesis using run k(2) by (simp add: execute_def)
next
  case m: (Inr m)
  obtain ir w1 where i: "env_NewID env w = (ir, w1)" by (metis surj_pair)
  have w1: "I w1" using k i unfolding env_keeps_def by (metis snd_conv)
  obtain n where n: "ir = Inr n \<or> (\<exists>e. ir = Inl e)" by (cases ir) auto
  let ?run = "new_run n target b m"
  obtain ur w2 where u: "env_Upload env target b w1 = (ur, w2)" by (metis surj_pair)
  have w2: "I w2" using k(1) w1 u unfolding env_keeps_def by (metis snd_conv)
  obtain rr w3 where r: "env_Register env ?run w2 = (rr, w3)" by (metis surj_pair)
  have w3: "I w3" using k(1) w2 r unfolding env_keeps_def by (metis snd_conv)
  obtain sr w4 where s: "env_Start env target (start_request_of n target b m) w3 = (sr, w4)" by (metis surj_pair)
  have w4: "I w4" by (rule env_keepsD(1) [OF k(1) w3 s])
  have poll: "I w'" if "poll env target m (?run\<lparr>exr_Status := Running\<rparr>) False w4 = Some (x, w')"
    using poll_kept [OF _ k(1) w4, of target m "?run\<lparr>exr_Status := Running\<rparr>" False "fst x" "snd x" w' ?run] that by simp
  show ?thesis
    using run n w1 w2 w3 w4 poll
    by (cases ur; cases rr; cases sr) (auto simp: execute_def m i u r s Let_def)
qed

subsection \<open>The contract\<close>

locale run_history =
  fixes env :: "'w exec_env"
    and known :: "exec_run \<Rightarrow> 'w \<Rightarrow> bool"
    and recorded :: "exec_run \<Rightarrow> exec_proof \<Rightarrow> 'w \<Rightarrow> bool"
  assumes registers: "env_Register env run w = (Inr (), w') \<Longrightarrow> known run w'"
    and finishes: "env_Finished env run p w = (Inr (), w') \<Longrightarrow> recorded run p w'"
    and remembers: "env_keeps (known run) env"
    and about_bundle: "same_bundle run run' \<Longrightarrow> known run w = known run' w"
begin

lemma executed_is_recorded:
  assumes "execute tar_read decode env target b w = Some ((r, Inr ()), w')"
  shows "\<exists>m p. validate_bundle tar_read decode target b = Inr m \<and> known r w' \<and> recorded r p w' \<and>
    same_bundle r (new_run (exr_ID r) target b m) \<and> prf_Status p = Success \<and> proof_of_run r p"
proof -
  obtain m where m: "validate_bundle tar_read decode target b = Inr m"
    using assms by (cases "validate_bundle tar_read decode target b") (auto simp: execute_def)
  obtain i w1 where i: "env_NewID env w = (Inr i, w1)"
    using assms by (cases "env_NewID env w"; cases "fst (env_NewID env w)") (auto simp: execute_def m)
  let ?run = "new_run i target b m"
  obtain w2 where u: "env_Upload env target b w1 = (Inr (), w2)"
    using assms by (cases "env_Upload env target b w1"; cases "fst (env_Upload env target b w1)") (auto simp: execute_def m i)
  obtain w3 where reg: "env_Register env ?run w2 = (Inr (), w3)"
    using assms by (cases "env_Register env ?run w2"; cases "fst (env_Register env ?run w2)") (auto simp: execute_def m i u)
  obtain w4 where st: "env_Start env target (start_request_of i target b m) w3 = (Inr (), w4)"
    using assms by (cases "env_Start env target (start_request_of i target b m) w3";
        cases "fst (env_Start env target (start_request_of i target b m) w3)") (auto simp: execute_def m i u reg)
  have run: "poll env target m (?run\<lparr>exr_Status := Running\<rparr>) False w4 = Some ((r, Inr ()), w')"
    using assms by (simp add: execute_def m i u reg st)
  have "known ?run w4" by (rule env_keepsD(1) [OF remembers registers [OF reg] st])
  from poll_kept [OF run remembers this, of ?run] have
    k: "known ?run w'" "finished_with env ?run r (Inr ()) w'" by simp_all
  then obtain p w5 where p: "env_Finished env r p w5 = (Inr (), w')" "prf_Status p = Success" "proof_of_run ?run p"
    and same: "same_bundle r ?run"
    by (auto simp: finished_with_def)
  have "exr_ID r = i" using same by (simp add: same_bundle_def new_run_def)
  then show ?thesis
    using m k(1) about_bundle [OF same] finishes [OF p(1)] p(2,3) same same_bundle_proof [OF same] by auto
qed

end

end
