(* ===== verification/Exec_Protocol.thy ===== *)
theory Exec_Protocol
  imports Exec_Run
begin

section \<open>The protocol of an execution\<close>

text \<open>
  An abstract machine for what an execution may ask of the target and of the history, as a step
  relation over its phases. The executor refines it: the log of every execution that returns is a
  path of the machine. What the machine guarantees is proved by induction over its paths.
\<close>

datatype phase = Fresh | Uploaded | Registered | Polling bool | Seen bool observation | Halted

definition acceptable :: "exec_run \<Rightarrow> observation \<Rightarrow> bool" where
  "acceptable run obs =
     (\<not> vanished obs \<and> (case obv_Proof obs of None \<Rightarrow> True | Some p \<Rightarrow> proof_of_run run p))"

definition finished_by :: "observation \<Rightarrow> exec_proof \<Rightarrow> bool" where
  "finished_by obs p = (obv_Proof obs = Some p \<and> terminal (prf_Status p))"

definition undecided :: "observation \<Rightarrow> bool" where
  "undecided obs = (case obv_Proof obs of None \<Rightarrow> True | Some p \<Rightarrow> \<not> terminal (prf_Status p))"

inductive protocol :: "exec_run \<Rightarrow> phase \<Rightarrow> exec_event \<Rightarrow> phase \<Rightarrow> bool" for run where
  upload: "protocol run Fresh (Upload_Ev b) (if b then Uploaded else Halted)"
| register: "protocol run Uploaded (Register_Ev b) (if b then Registered else Halted)"
| start: "protocol run Registered (Start_Ev b) (if b then Polling False else Halted)"
| observe: "acceptable run obs \<Longrightarrow> protocol run (Polling sent) (Observe_Ev (Some obs)) (Seen sent obs)"
| observe_stop: "\<not> acceptable run obs \<Longrightarrow> protocol run (Polling sent) (Observe_Ev (Some obs)) Halted"
| observe_fail: "protocol run (Polling sent) (Observe_Ev None) Halted"
| resolve: "awaits_secrets obs \<Longrightarrow> protocol run (Seen False obs) (Resolve_Ev i) (Seen False obs)"
| send: "awaits_secrets obs \<Longrightarrow>
    protocol run (Seen False obs) (Secrets_Ev ids b) (if b then Seen True obs else Halted)"
| finish: "finished_by obs p \<Longrightarrow> proof_of_run run p \<Longrightarrow> proof_of_run r p \<Longrightarrow> exr_Status r = prf_Status p \<Longrightarrow>
    protocol run (Seen sent obs) (Finished_Ev r p b) Halted"
| wait: "undecided obs \<Longrightarrow> awaits_secrets obs \<longrightarrow> sent \<Longrightarrow>
    protocol run (Seen sent obs) (Wait_Ev b) (if b then Polling sent else Halted)"

inductive_cases halted_step: "protocol run Halted ev s"

inductive path :: "exec_run \<Rightarrow> phase \<Rightarrow> exec_event list \<Rightarrow> phase \<Rightarrow> bool" for run s where
  path_Nil: "path run s [] s"
| path_snoc: "path run s tr s' \<Longrightarrow> protocol run s' ev s'' \<Longrightarrow> path run s (tr @ [ev]) s''"

lemma path_append: "path run s' tr' s'' \<Longrightarrow> path run s tr s' \<Longrightarrow> path run s (tr @ tr') s''"
proof (induction rule: path.induct)
  case (path_snoc tr' t ev u)
  then show ?case using path.path_snoc [of run s "tr @ tr'" t ev u] by simp
qed simp

lemma path_step: "protocol run s ev s' \<Longrightarrow> path run s [ev] s'"
  using path_snoc [OF path_Nil, of run s ev s'] by simp

lemma path_Cons: "protocol run s ev s' \<Longrightarrow> path run s' tr s'' \<Longrightarrow> path run s (ev # tr) s''"
  using path_append [OF _ path_step, of run s' tr s'' s ev] by simp

text \<open>The protocol reads only the identity of the run.\<close>

definition same_identity :: "exec_run \<Rightarrow> exec_run \<Rightarrow> bool" where
  "same_identity r r' =
     (exr_ID r = exr_ID r' \<and> exr_TargetID r = exr_TargetID r' \<and> exr_BundleID r = exr_BundleID r' \<and>
      exr_BundleSHA256 r = exr_BundleSHA256 r')"

lemma same_identity_proof: "same_identity r r' \<Longrightarrow> proof_of_run r p = proof_of_run r' p"
  by (simp add: same_identity_def proof_of_run_def)

lemma same_identity_acceptable: "same_identity r r' \<Longrightarrow> acceptable r obs = acceptable r' obs"
  by (simp add: acceptable_def same_identity_proof split: option.split)

lemma same_identity_simps [simp]:
  "same_identity r r" "same_identity (unknown r) r' = same_identity r r'"
  "same_identity (observed_run r obs) r' = same_identity r r'"
  by (auto simp: same_identity_def unknown_def observed_run_def classify_def Let_def split: option.split)

subsection \<open>What the machine guarantees\<close>

definition count_of :: "(exec_event \<Rightarrow> bool) \<Rightarrow> exec_event list \<Rightarrow> nat" where
  "count_of P tr = length (filter P tr)"

fun is_secrets :: "exec_event \<Rightarrow> bool" where
  "is_secrets (Secrets_Ev ids b) = True"
| "is_secrets ev = False"

fun is_finished :: "exec_event \<Rightarrow> bool" where
  "is_finished (Finished_Ev r p b) = True"
| "is_finished ev = False"

fun in_loop :: "exec_event \<Rightarrow> bool" where
  "in_loop (Upload_Ev b) = False"
| "in_loop (Register_Ev b) = False"
| "in_loop (Start_Ev b) = False"
| "in_loop ev = True"

fun secrets_bound :: "phase \<Rightarrow> nat" where
  "secrets_bound (Polling sent) = of_bool sent"
| "secrets_bound (Seen sent obs) = of_bool sent"
| "secrets_bound Halted = 1"
| "secrets_bound s = 0"

lemma secrets_at_most_once: "path run Fresh tr s \<Longrightarrow> count_of is_secrets tr \<le> secrets_bound s"
proof (induction rule: path.induct)
  case (path_snoc tr s ev s')
  from path_snoc.hyps(2) path_snoc.IH show ?case by (cases rule: protocol.cases) (auto simp: count_of_def of_bool_def split: if_splits)
qed (simp add: count_of_def)

text \<open>The three opening calls come in order, each at most once, before the loop.\<close>

fun opening_ok :: "phase \<Rightarrow> exec_event list \<Rightarrow> bool" where
  "opening_ok Fresh tr = (tr = [])"
| "opening_ok Uploaded tr = (tr = [Upload_Ev True])"
| "opening_ok Registered tr = (tr = [Upload_Ev True, Register_Ev True])"
| "opening_ok Halted tr =
     (tr = [Upload_Ev False] \<or> tr = [Upload_Ev True, Register_Ev False] \<or>
      tr = [Upload_Ev True, Register_Ev True, Start_Ev False] \<or>
      (\<exists>t. tr = [Upload_Ev True, Register_Ev True, Start_Ev True] @ t \<and> list_all in_loop t))"
| "opening_ok s tr = (\<exists>t. tr = [Upload_Ev True, Register_Ev True, Start_Ev True] @ t \<and> list_all in_loop t)"

lemma opening_in_order: "path run Fresh tr s \<Longrightarrow> opening_ok s tr"
proof (induction rule: path.induct)
  case (path_snoc tr s ev s')
  from path_snoc.hyps(2) path_snoc.IH show ?case by (cases rule: protocol.cases) auto
qed simp

text \<open>
  Secrets are only sent, and a finish is only recorded, right after an observation that asks for
  it: between the two there are only resolutions of secrets and, for a finish, the delivery.
\<close>

fun is_inner :: "exec_event \<Rightarrow> bool" where
  "is_inner (Resolve_Ev i) = True"
| "is_inner (Secrets_Ev ids b) = True"
| "is_inner ev = False"

definition after_observation :: "exec_run \<Rightarrow> exec_event list \<Rightarrow> observation \<Rightarrow> bool" where
  "after_observation run tr obs =
     (acceptable run obs \<and> (\<exists>pre inner. tr = pre @ [Observe_Ev (Some obs)] @ inner \<and> list_all is_inner inner))"

lemma after_observation_snoc: "after_observation run tr obs \<Longrightarrow> is_inner ev \<Longrightarrow> after_observation run (tr @ [ev]) obs"
proof -
  assume *: "after_observation run tr obs" "is_inner ev"
  then obtain pre inner where "tr = pre @ [Observe_Ev (Some obs)] @ inner" "list_all is_inner inner"
    by (auto simp: after_observation_def)
  then have "tr @ [ev] = pre @ [Observe_Ev (Some obs)] @ (inner @ [ev])" "list_all is_inner (inner @ [ev])"
    using *(2) by simp_all
  then show ?thesis using *(1) unfolding after_observation_def by blast
qed

lemma seen_after_observation: "path run Fresh tr (Seen sent obs) \<Longrightarrow> after_observation run tr obs"
proof (induction tr "Seen sent obs" arbitrary: sent obs rule: path.induct)
  case (path_snoc tr s ev)
  from path_snoc.hyps(3) show ?case
  proof (cases rule: protocol.cases)
    case observe
    then show ?thesis unfolding after_observation_def by (metis append_Nil2 list.pred_inject(1))
  next
    case (resolve i)
    then show ?thesis using path_snoc.hyps(2) [of False obs] after_observation_snoc by simp
  next
    case (send obs' ids b)
    then have "b" "obs' = obs" by (auto split: if_splits)
    then show ?thesis using send path_snoc.hyps(2) [of False obs] after_observation_snoc by simp
  qed (auto split: if_splits)
qed

definition event_justified :: "exec_run \<Rightarrow> exec_event list \<Rightarrow> exec_event \<Rightarrow> bool" where
  "event_justified run before ev =
     (case ev of
        Secrets_Ev ids b \<Rightarrow> (\<exists>obs. after_observation run before obs \<and> awaits_secrets obs)
      | Finished_Ev r p b \<Rightarrow> (\<exists>obs. after_observation run before obs \<and> finished_by obs p \<and> exr_Status r = prf_Status p)
      | _ \<Rightarrow> True)"

lemma path_justified:
  "path run Fresh tr s \<Longrightarrow> tr = before @ [ev] @ later \<Longrightarrow> event_justified run before ev"
proof (induction arbitrary: later rule: path.induct)
  case (path_snoc tr s ev' s')
  show ?case
  proof (cases later rule: rev_exhaust)
    case Nil
    then have eq: "tr = before" "ev' = ev" using path_snoc.prems by simp_all
    show ?thesis
      using path_snoc.hyps(2) path_snoc.hyps(1) seen_after_observation [of run tr]
      unfolding eq by (cases rule: protocol.cases) (auto simp: event_justified_def)
  next
    case (snoc later' x)
    then show ?thesis using path_snoc.prems path_snoc.IH [of later'] by simp
  qed
qed simp

text \<open>A recorded finish is the last event.\<close>

lemma finished_halts: "path run Fresh tr s \<Longrightarrow> s \<noteq> Halted \<Longrightarrow> \<not> list_ex is_finished tr"
proof (induction rule: path.induct)
  case (path_snoc tr s ev s')
  have "s \<noteq> Halted" using path_snoc.hyps(2) by (auto elim: halted_step)
  then have "\<not> list_ex is_finished tr" by (rule path_snoc.IH)
  moreover have "\<not> is_finished ev" using path_snoc.hyps(2) path_snoc.prems by (cases rule: protocol.cases) auto
  ultimately show ?case by simp
qed simp

lemma finished_last:
  assumes "path run Fresh (before @ [ev] @ later) s" and "is_finished ev"
  shows "later = []"
proof (cases later rule: rev_exhaust)
  case (snoc later' x)
  from assms(1) [unfolded snoc] show ?thesis
  proof (cases rule: path.cases)
    case (path_snoc tr s' ev')
    then have tr: "tr = before @ [ev] @ later'" by simp
    have "s' \<noteq> Halted" using path_snoc(3) by (auto elim: halted_step)
    then have "\<not> list_ex is_finished tr" by (rule finished_halts [OF path_snoc(2)])
    then show ?thesis using assms(2) by (simp add: tr)
  qed simp
qed simp

end
