(* ===== verification/Exec_Refine.thy ===== *)
theory Exec_Refine
  imports Exec_Protocol
begin

section \<open>The executor refines the protocol\<close>

text \<open>
  First the log changes nothing of an execution. Then every round of the loop is a path of the
  protocol, with an account of why it returned, and so is every execution that returns.
\<close>

lemma log_call_pair: "log_call f ev (w, tr) = (r, w', tr') \<longleftrightarrow> f w = (r, w') \<and> tr' = tr @ ev r"
  by (auto simp: log_call_def split: prod.split)

lemma log_call_apply: "log_call f ev (w, tr) = (fst (f w), snd (f w), tr @ ev (fst (f w)))"
  by (simp add: log_call_def split: prod.split)

lemma logged_sel [simp]:
  "env_NewID (logged env) = log_call (env_NewID env) (\<lambda>_. [])"
  "env_Upload (logged env) = (\<lambda>t b. log_call (env_Upload env t b) (\<lambda>r. [Upload_Ev (ok r)]))"
  "env_Register (logged env) = (\<lambda>run. log_call (env_Register env run) (\<lambda>r. [Register_Ev (ok r)]))"
  "env_Start (logged env) = (\<lambda>t q. log_call (env_Start env t q) (\<lambda>r. [Start_Ev (ok r)]))"
  "env_Observe (logged env) = (\<lambda>t i. log_call (env_Observe env t i)
     (\<lambda>r. [Observe_Ev (case r of Inl e \<Rightarrow> None | Inr obs \<Rightarrow> Some obs)]))"
  "env_Resolve (logged env) = (\<lambda>i. log_call (env_Resolve env i) (\<lambda>_. [Resolve_Ev i]))"
  "env_SendSecrets (logged env) =
     (\<lambda>t i vs. log_call (env_SendSecrets env t i vs) (\<lambda>r. [Secrets_Ev (map scv_ID vs) (ok r)]))"
  "env_Finished (logged env) = (\<lambda>run p. log_call (env_Finished env run p) (\<lambda>r. [Finished_Ev run p (ok r)]))"
  "env_Wait (logged env) = log_call (env_Wait env) (\<lambda>r. [Wait_Ev (r = None)])"
  by (simp_all add: logged_def)

subsection \<open>The log is transparent\<close>

definition unlog :: "'r \<times> 'w \<times> exec_event list \<Rightarrow> 'r \<times> 'w" where
  "unlog x = (fst x, fst (snd x))"

lemma unlog_call: "unlog (log_call f ev s) = f (fst s)"
  by (cases s) (simp add: unlog_def log_call_apply)

lemma unlog_resolve_all: "unlog (resolve_all (logged env) is s) = resolve_all env is (fst s)"
proof (induction "is" arbitrary: s)
  case (Cons i "is")
  obtain w tr where s: "s = (w, tr)" by (cases s)
  obtain given r w' where c: "env_Resolve env i w = ((given, r), w')" by (metis surj_pair)
  show ?case
    using Cons [of "(w', tr @ [Resolve_Ev i])"]
    by (cases r) (auto simp: s c log_call_apply unlog_def Let_def split: prod.splits sum.splits)
qed (simp add: unlog_def)

lemma unlog_resolve_secrets: "unlog (resolve_secrets (logged env) refs s) = resolve_secrets env refs (fst s)"
  using unlog_resolve_all [of env "sort (remdups (map ref_SecretID refs))" s]
  by (auto simp: resolve_secrets_def unlog_def split: sum.splits)

lemma unlog_wait_round: "unlog (wait_round (logged env) run sent s) = wait_round env run sent (fst s)"
  by (cases s) (auto simp: wait_round_def log_call_apply unlog_def split: prod.splits option.splits)

lemma unlog_record: "unlog (record_finished (logged env) run p s) = record_finished env run p (fst s)"
  by (cases s) (auto simp: record_finished_def log_call_apply unlog_def split: prod.splits sum.splits)

lemma unlog_close_round: "unlog (close_round (logged env) run sent obs s) = close_round env run sent obs (fst s)"
  by (auto simp: close_round_def unlog_wait_round unlog_record split: option.splits)

lemma unlog_secrets_round:
  "unlog (secrets_round (logged env) target m run sent obs s) = secrets_round env target m run sent obs (fst s)"
proof -
  obtain res w' tr' where c: "resolve_secrets (logged env) (man_Secrets m) s = (res, w', tr')" by (metis surj_pair)
  then have c': "resolve_secrets env (man_Secrets m) (fst s) = (res, w')"
    using unlog_resolve_secrets [of env "man_Secrets m" s] by (simp add: unlog_def)
  show ?thesis
  proof (cases res)
    case (Inr vs)
    obtain r w'' where d: "env_SendSecrets env target (exr_ID run) vs w' = (r, w'')" by (metis surj_pair)
    show ?thesis
      using unlog_close_round [of env run]
      by (cases r) (simp_all add: secrets_round_def c c' Inr d log_call_apply unlog_def)
  qed (use unlog_close_round [of env run] in \<open>simp add: secrets_round_def c c' unlog_def\<close>)
qed

lemma unlog_poll_round:
  "unlog (poll_round (logged env) target m run sent s) = poll_round env target m run sent (fst s)"
proof -
  obtain w tr where s: "s = (w, tr)" by (cases s)
  obtain r w' where c: "env_Observe env target (exr_ID run) w = (r, w')" by (metis surj_pair)
  show ?thesis
  proof (cases r)
    case (Inr obs)
    show ?thesis
      using unlog_secrets_round [of env target m "observed_run run obs" sent obs]
      by (cases "validate_observation_identity run (obv_Proof obs)")
        (simp_all add: poll_round_def s c Inr log_call_apply unlog_def)
  qed (simp add: poll_round_def s c log_call_apply unlog_def)
qed

lemma poll_logged:
  assumes ret: "poll env target m run sent w = Some (x, w')"
  shows "\<exists>tr'. poll (logged env) target m run sent (w, tr) = Some (x, w', tr')"
proof -
  have "\<forall>tr. \<exists>tr'. poll (logged env) target m run sent (w, tr) = Some (x, w', tr')"
  proof (rule poll.raw_induct [where P = "\<lambda>env target m run sent w y.
        \<forall>tr. \<exists>tr'. poll (logged env) target m run sent (w, tr) = Some (fst y, snd y, tr')", OF _ ret, unfolded fst_conv snd_conv])
    fix f and env :: "'a exec_env" and target m run sent w y
    assume IH: "\<And>env target m run sent w y. f env target m run sent w = Some y \<Longrightarrow>
        \<forall>tr. \<exists>tr'. poll (logged env) target m run sent (w, tr) = Some (fst y, snd y, tr')"
      and eq': "(case poll_round env target m run sent w of
          (Return r e, w') \<Rightarrow> Some ((r, e), w') | (Again r s, w') \<Rightarrow> f env target m r s w') = Some y"
    obtain x w' where y: "y = (x, w')" by (cases y)
    note eq = eq' [unfolded y]
    show "\<forall>tr. \<exists>tr'. poll (logged env) target m run sent (w, tr) = Some (fst y, snd y, tr')"
      unfolding y fst_conv snd_conv
    proof
      fix tr
      obtain res w1 tr1 where c: "poll_round (logged env) target m run sent (w, tr) = (res, w1, tr1)"
        by (metis surj_pair)
      then have "poll_round env target m run sent w = (res, w1)"
        using unlog_poll_round [of env target m run sent "(w, tr)"] by (simp add: unlog_def)
      then show "\<exists>tr'. poll (logged env) target m run sent (w, tr) = Some (x, w', tr')"
        using eq IH [of env target m _ _ w1 "(x, w')"] by (subst poll.simps) (cases res; auto simp: c)
    qed
  qed
  then show ?thesis by blast
qed

subsection \<open>Every round is a path\<close>

text \<open>Why an execution returned what it returned, from its last events.\<close>

fun secret_error :: "error \<Rightarrow> bool" where
  "secret_error (Error f xs es) =
     (f \<in> {''bundle contains empty secret id'', ''resolve execution secret %s: %w'', ''execution secret %s is empty''})"

definition ends_with :: "exec_event list \<Rightarrow> exec_event \<Rightarrow> bool" where
  "ends_with evs ev = (evs \<noteq> [] \<and> last evs = ev)"

lemma ends_with_simps [simp]: "ends_with [ev'] ev = (ev' = ev)" "\<not> ends_with [] ev"
  by (simp_all add: ends_with_def)

lemma ends_with_prefix: "ends_with evs ev \<Longrightarrow> ends_with (pre @ evs) ev"
  by (simp add: ends_with_def)

definition explained :: "exec_run \<Rightarrow> exec_event list \<Rightarrow> exec_run \<Rightarrow> unit result \<Rightarrow> bool" where
  "explained run evs r e =
     (case e of
        Inr u \<Rightarrow> \<exists>p. ends_with evs (Finished_Ev r p True) \<and> prf_Status p = Success
      | Inl err \<Rightarrow>
          error_is err err_status_unknown \<and> exr_Status r \<in> {Unknown, Interrupted}
          \<or> (\<exists>p. ends_with evs (Finished_Ev r p True) \<and> prf_Status p = Failed \<and>
               err = Errf ''execution failed: %s'' [prf_Error p])
          \<or> (\<exists>p. ends_with evs (Finished_Ev r p False))
          \<or> (\<exists>obs. ends_with evs (Observe_Ev (Some obs)) \<and> \<not> acceptable run obs \<and> exr_Status r = Unknown)
          \<or> secret_error err)"

definition round_ok :: "exec_run \<Rightarrow> phase \<Rightarrow> exec_event list \<Rightarrow> round \<Rightarrow> exec_event list \<Rightarrow> bool" where
  "round_ok run s tr res tr' =
     (\<exists>evs s'. tr' = tr @ evs \<and> path run s evs s' \<and>
       (case res of
          Again r sent \<Rightarrow> s' = Polling sent \<and> same_identity r run
        | Return r e \<Rightarrow> same_identity r run \<and> explained run evs r e))"

lemma explained_prefix: "explained run evs r e \<Longrightarrow> explained run (pre @ evs) r e"
  unfolding explained_def by (cases e) (auto dest: ends_with_prefix [where pre = pre])

lemma round_ok_prefix:
  assumes "round_ok run s' (tr @ evs) res tr'" and "path run s evs s'"
  shows "round_ok run s tr res tr'"
proof -
  obtain evs' t where a: "tr' = (tr @ evs) @ evs'" "path run s' evs' t"
    "case res of Again r sent \<Rightarrow> t = Polling sent \<and> same_identity r run
     | Return r e \<Rightarrow> same_identity r run \<and> explained run evs' r e"
    using assms(1) unfolding round_ok_def by blast
  have "case res of Again r sent \<Rightarrow> t = Polling sent \<and> same_identity r run
     | Return r e \<Rightarrow> same_identity r run \<and> explained run (evs @ evs') r e"
    using a(3) explained_prefix by (auto split: round.splits)
  moreover have "tr' = tr @ (evs @ evs')" using a(1) by simp
  ultimately show ?thesis unfolding round_ok_def using path_append [OF a(2) assms(2)] by blast
qed

lemma round_ok_step:
  "protocol run s ev s' \<Longrightarrow> (case res of Again r sent \<Rightarrow> s' = Polling sent \<and> same_identity r run
     | Return r e \<Rightarrow> same_identity r run \<and> explained run [ev] r e) \<Longrightarrow> round_ok run s tr res (tr @ [ev])"
  unfolding round_ok_def using path_step by blast

lemma round_ok_Nil:
  "(case res of Again r sent \<Rightarrow> s = Polling sent \<and> same_identity r run
     | Return r e \<Rightarrow> same_identity r run \<and> explained run [] r e) \<Longrightarrow> round_ok run s tr res tr"
  unfolding round_ok_def using path_Nil [of run s] by (intro exI [of _ "[]"] exI [of _ s]) simp

lemma uncertain_unknown [simp]: "error_is (uncertain f e) err_status_unknown" "error_is err_status_unknown err_status_unknown"
  by (simp_all add: uncertain_def err_status_unknown_def)

lemma explained_unknown: "explained run evs (unknown r) (Inl (uncertain f e))"
  by (simp add: explained_def unknown_def)

lemma wait_round_ok:
  assumes "wait_round (logged env) r sent (w, tr) = (res, w', tr')"
    and "same_identity r run" "undecided obs" "awaits_secrets obs \<longrightarrow> sent"
  shows "round_ok run (Seen sent obs) tr res tr'"
proof (cases "exr_Status r = Interrupted")
  case True
  then have "res = Return r (Inl err_status_unknown)" "tr' = tr" using assms(1) by (simp_all add: wait_round_def)
  then show ?thesis using assms(2) True by (simp add: round_ok_Nil explained_def)
next
  case False
  obtain d w1 where d: "env_Wait env w = (d, w1)" by (cases "env_Wait env w")
  have ev: "tr' = tr @ [Wait_Ev (d = None)]"
    using assms(1) False by (simp add: wait_round_def d log_call_apply split: option.splits)
  have step: "protocol run (Seen sent obs) (Wait_Ev (d = None)) (if d = None then Polling sent else Halted)"
    by (rule protocol.wait [OF assms(3,4)])
  have "case res of Again r' sent' \<Rightarrow> d = None \<and> sent' = sent \<and> r' = r
      | Return r' e \<Rightarrow> \<exists>x. r' = unknown r \<and> e = Inl (uncertain ''execution wait cancelled: %w: %w'' x)"
    using assms(1) False by (auto simp: wait_round_def d log_call_apply split: option.splits)
  then show ?thesis
    unfolding ev using assms(2) by (intro round_ok_step [OF step]) (auto simp: explained_unknown split: round.splits)
qed

lemma record_ok:
  assumes "record_finished (logged env) r p (w, tr) = (res, w', tr')"
    and "same_identity r run" "finished_by obs p" "proof_of_run run p" "exr_Status r = prf_Status p"
  shows "round_ok run (Seen sent obs) tr res tr'"
proof -
  obtain d w1 where d: "env_Finished env r p w = (d, w1)" by (cases "env_Finished env r p w")
  have ev: "tr' = tr @ [Finished_Ev r p (ok d)]"
    using assms(1) by (simp add: record_finished_def d log_call_apply split: sum.splits)
  have step: "protocol run (Seen sent obs) (Finished_Ev r p (ok d)) Halted"
    using assms same_identity_proof [OF assms(2)] by (intro protocol.finish) simp_all
  have "\<exists>e. res = Return r e \<and> explained run [Finished_Ev r p (ok d)] r e"
    using assms(1,3)
    by (cases d) (auto simp: record_finished_def d log_call_apply explained_def finished_by_def terminal_def)
  then show ?thesis unfolding ev using assms(2) by (intro round_ok_step [OF step]) auto
qed

lemma close_round_ok:
  assumes "close_round (logged env) r sent obs (w, tr) = (res, w', tr')"
    and "same_identity r run" "acceptable run obs" "r = observed_run r0 obs" "awaits_secrets obs \<longrightarrow> sent"
  shows "round_ok run (Seen sent obs) tr res tr'"
proof (cases "undecided obs")
  case True
  then have "wait_round (logged env) r sent (w, tr) = (res, w', tr')"
    using assms(1) by (auto simp: close_round_def undecided_def split: option.splits)
  then show ?thesis using assms(2,5) True by (intro wait_round_ok)
next
  case False
  then obtain p where p: "obv_Proof obs = Some p" "terminal (prf_Status p)"
    by (auto simp: undecided_def split: option.splits)
  have "exr_Status r = prf_Status p"
    using p assms(4) by (auto simp: observed_run_def classify_def Let_def terminal_def)
  moreover have "proof_of_run run p" using assms(3) p by (simp add: acceptable_def)
  moreover have "record_finished (logged env) r p (w, tr) = (res, w', tr')"
    using assms(1) p by (simp add: close_round_def)
  ultimately show ?thesis using p assms(2) by (intro record_ok) (auto simp: finished_by_def)
qed

lemma resolve_all_logged:
  "resolve_all (logged env) is (w, tr) = (res, w', tr') \<Longrightarrow>
   (\<exists>ids. tr' = tr @ map Resolve_Ev ids) \<and>
   (case res of Inl e \<Rightarrow> secret_error e | Inr vs \<Rightarrow> map scv_ID vs = is \<and> (\<forall>v\<in>set vs. scv_Value v \<noteq> []))"
proof (induction "is" arbitrary: w tr res w' tr')
  case (Cons i "is")
  obtain given r w1 where c: "env_Resolve env i w = ((given, r), w1)" by (metis surj_pair)
  let ?tr1 = "tr @ [Resolve_Ev i]" and ?c = "if given = [] then [] else last given"
  obtain res2 w2 tr2 where rec: "resolve_all (logged env) is (w1, ?tr1) = (res2, w2, tr2)" by (metis surj_pair)
  have run: "resolve_all (logged env) (i # is) (w, tr) =
      (case r of Inl e \<Rightarrow> (Inl (Wrapf ''resolve execution secret %s: %w'' [i] e), w1, ?tr1)
       | Inr u \<Rightarrow> if ?c = [] then (Inl (Errf ''execution secret %s is empty'' [i]), w1, ?tr1)
           else (case res2 of Inl e \<Rightarrow> (Inl e, w2, tr2) | Inr vs \<Rightarrow> (Inr (\<lparr>scv_ID = i, scv_Value = ?c\<rparr> # vs), w2, tr2)))"
    by (auto simp: c rec log_call_apply Let_def split: sum.splits)
  obtain ids where ids: "tr2 = ?tr1 @ map Resolve_Ev ids" using Cons.IH [OF rec] by blast
  have one: "\<exists>ids. ?tr1 = tr @ map Resolve_Ev ids" by (rule exI [of _ "[i]"]) simp
  have more: "\<exists>ids. tr2 = tr @ map Resolve_Ev ids" by (rule exI [of _ "i # ids"]) (simp add: ids)
  show ?case
    using Cons.prems Cons.IH [OF rec] one more unfolding run
    by (cases r; cases res2; cases "?c = []") auto
qed simp

lemma resolve_secrets_logged:
  assumes "resolve_secrets (logged env) refs (w, tr) = (res, w', tr')"
  shows "(\<exists>ids. tr' = tr @ map Resolve_Ev ids) \<and>
    (case res of Inl e \<Rightarrow> secret_error e
     | Inr vs \<Rightarrow> map scv_ID vs = sort (remdups (map ref_SecretID refs)) \<and> (\<forall>v\<in>set vs. scv_Value v \<noteq> []))"
proof (cases "\<forall>r\<in>set refs. ref_SecretID r \<noteq> []")
  case True
  then have "for_each (\<lambda>r. reject_if (ref_SecretID r = []) (Err ''bundle contains empty secret id'')) refs = Inr ()"
    by (simp add: for_each_Inr_iff)
  then show ?thesis using assms resolve_all_logged by (simp add: resolve_secrets_def)
next
  case False
  have "for_each (\<lambda>r. reject_if (ref_SecretID r = []) (Err ''bundle contains empty secret id'')) refs =
      Inl (Err ''bundle contains empty secret id'')"
    using False by (induction refs) (auto simp: reject_if_def)
  then have "res = Inl (Err ''bundle contains empty secret id'')" "tr' = tr"
    using assms by (simp_all add: resolve_secrets_def)
  then show ?thesis by (auto intro: exI [of _ "[]"])
qed

lemma resolve_path: "awaits_secrets obs \<Longrightarrow> path run (Seen False obs) (map Resolve_Ev ids) (Seen False obs)"
  by (induction ids) (auto intro: path_Nil path_Cons protocol.resolve)

lemma secrets_round_ok:
  assumes run: "secrets_round (logged env) target m r sent obs (w, tr) = (res, w', tr')"
    and same: "same_identity r run" and obs: "acceptable run obs" "r = observed_run r0 obs"
  shows "round_ok run (Seen sent obs) tr res tr'"
proof (cases "\<not> sent \<and> awaits_secrets obs")
  case False
  then have "close_round (logged env) r sent obs (w, tr) = (res, w', tr')"
    using run by (auto simp: secrets_round_def)
  then show ?thesis using False same obs by (intro close_round_ok) auto
next
  case True
  obtain rs w1 tr1 where c: "resolve_secrets (logged env) (man_Secrets m) (w, tr) = (rs, w1, tr1)" by (metis surj_pair)
  obtain ids where ids: "tr1 = tr @ map Resolve_Ev ids" using resolve_secrets_logged [OF c] by blast
  have resolved: "path run (Seen sent obs) (map Resolve_Ev ids) (Seen False obs)"
    using True resolve_path by simp
  show ?thesis
  proof (cases rs)
    case (Inl e)
    then have "res = Return r (Inl e)" "tr' = tr1" "secret_error e"
      using run True c resolve_secrets_logged [OF c] by (simp_all add: secrets_round_def)
    then have "round_ok run (Seen False obs) tr1 res tr'"
      using same by (simp add: round_ok_Nil explained_def)
    then show ?thesis unfolding ids by (rule round_ok_prefix [OF _ resolved])
  next
    case (Inr vs)
    obtain d w2 where d: "env_SendSecrets env target (exr_ID r) vs w1 = (d, w2)"
      by (cases "env_SendSecrets env target (exr_ID r) vs w1")
    let ?ev = "Secrets_Ev (map scv_ID vs) (ok d)"
    have step: "protocol run (Seen False obs) ?ev (if ok d then Seen True obs else Halted)"
      using True by (intro protocol.send) simp
    have "round_ok run (Seen False obs) tr1 res tr'"
    proof (cases d)
      case (Inl e)
      then have "res = Return (unknown r) (Inl (uncertain ''deliver execution secrets: %w: %w'' e))" "tr' = tr1 @ [?ev]"
        using run True by (simp_all add: secrets_round_def c Inr d log_call_apply)
      then show ?thesis using same by (simp add: round_ok_step [OF step] explained_unknown)
    next
      case ok: (Inr u)
      then have "close_round (logged env) r True obs (w2, tr1 @ [?ev]) = (res, w', tr')"
        using run True by (simp add: secrets_round_def c Inr d log_call_apply)
      then have "round_ok run (Seen True obs) (tr1 @ [?ev]) res tr'"
        using same obs by (intro close_round_ok) auto
      moreover have "path run (Seen False obs) [?ev] (Seen True obs)" using path_step [OF step] ok by simp
      ultimately show ?thesis by (rule round_ok_prefix)
    qed
    then show ?thesis unfolding ids by (rule round_ok_prefix [OF _ resolved])
  qed
qed

lemma poll_round_ok:
  assumes run: "poll_round (logged env) target m r sent (w, tr) = (res, w', tr')" and same: "same_identity r run"
  shows "round_ok run (Polling sent) tr res tr'"
proof -
  obtain d w1 where d: "env_Observe env target (exr_ID r) w = (d, w1)" by (cases "env_Observe env target (exr_ID r) w")
  show ?thesis
  proof (cases d)
    case (Inl e)
    then have "res = Return (unknown r) (Inl (uncertain ''observe started execution: %w: %w'' e))"
      "tr' = tr @ [Observe_Ev None]"
      using run by (simp_all add: poll_round_def d log_call_apply)
    then show ?thesis using same by (simp add: round_ok_step [OF protocol.observe_fail] explained_unknown)
  next
    case (Inr obs)
    let ?ev = "Observe_Ev (Some obs)"
    have check: "validate_observation_identity r (obv_Proof obs) =
        (if acceptable run obs \<or> vanished obs then Inr () else Inl (Err ''execution proof identity mismatch''))"
      by (auto simp: validate_observation_identity_def acceptable_def vanished_def same_identity_proof [OF same]
          split: option.splits)
    show ?thesis
    proof (cases "acceptable run obs")
      case True
      then have "secrets_round (logged env) target m (observed_run r obs) sent obs (w1, tr @ [?ev]) = (res, w', tr')"
        using run by (simp add: poll_round_def d Inr check log_call_apply acceptable_def)
      then have "round_ok run (Seen sent obs) (tr @ [?ev]) res tr'"
        using same True by (intro secrets_round_ok) auto
      then show ?thesis by (rule round_ok_prefix [OF _ path_step [OF protocol.observe [OF True]]])
    next
      case False
      then have "\<exists>e. res = Return (unknown r) (Inl e)" "tr' = tr @ [?ev]"
        using run by (auto simp: poll_round_def d Inr check log_call_apply split: if_splits)
      moreover have "explained run [?ev] (unknown r) (Inl e)" for e
        using False by (auto simp: explained_def unknown_def)
      ultimately show ?thesis
        using same by (auto intro!: round_ok_step [OF protocol.observe_stop [OF False]])
    qed
  qed
qed

subsection \<open>Every execution is a path\<close>

definition account :: "exec_run \<Rightarrow> phase \<Rightarrow> exec_event list \<Rightarrow> exec_run \<times> unit result \<Rightarrow> exec_event list \<Rightarrow> bool" where
  "account run s tr x tr' =
     (\<exists>evs s'. tr' = tr @ evs \<and> path run s evs s' \<and> same_identity (fst x) run \<and> explained run evs (fst x) (snd x))"

lemma account_prefix:
  assumes "account run s' (tr @ evs) x tr'" and "path run s evs s'"
  shows "account run s tr x tr'"
proof -
  obtain evs' t where a: "tr' = (tr @ evs) @ evs'" "path run s' evs' t" "same_identity (fst x) run"
    "explained run evs' (fst x) (snd x)" using assms(1) unfolding account_def by blast
  have "tr' = tr @ (evs @ evs')" using a(1) by simp
  then show ?thesis
    unfolding account_def using path_append [OF a(2) assms(2)] a(3) explained_prefix [OF a(4)] by blast
qed

lemma poll_account:
  assumes ret: "poll (logged env) target m r sent (w, tr) = Some y" and same: "same_identity r run"
  shows "account run (Polling sent) tr (fst y) (snd (snd y))"
proof -
  let ?P = "\<lambda>lenv target m r sent s y. \<forall>env. lenv = logged env \<longrightarrow> same_identity r run \<longrightarrow>
      account run (Polling sent) (snd s) (fst y) (snd (snd y))"
  have "?P (logged env) target m r sent (w, tr) y"
  proof (rule poll.raw_induct [where P = ?P, OF _ ret])
    fix f and lenv :: "('a \<times> exec_event list) exec_env" and target m r sent s y
    assume IH: "\<And>lenv target m r sent s y. f lenv target m r sent s = Some y \<Longrightarrow> ?P lenv target m r sent s y"
      and eq: "(case poll_round lenv target m r sent s of
          (Return r e, w') \<Rightarrow> Some ((r, e), w') | (Again r s, w') \<Rightarrow> f lenv target m r s w') = Some y"
    show "?P lenv target m r sent s y"
    proof (intro allI impI)
      fix env assume l: "lenv = logged env" and same: "same_identity r run"
      obtain w tr where s: "s = (w, tr)" by (cases s)
      obtain res w1 tr1 where c: "poll_round lenv target m r sent (w, tr) = (res, w1, tr1)" by (metis surj_pair)
      have round: "round_ok run (Polling sent) tr res tr1" using poll_round_ok [OF c [unfolded l] same] .
      show "account run (Polling sent) (snd s) (fst y) (snd (snd y))"
      proof (cases res)
        case (Return r' e)
        then have "y = ((r', e), w1, tr1)" using eq by (simp add: s c)
        then show ?thesis using round Return by (auto simp: round_ok_def account_def s)
      next
        case (Again r' sent')
        then have rec: "f lenv target m r' sent' (w1, tr1) = Some y" using eq by (simp add: s c)
        obtain evs where evs: "tr1 = tr @ evs" "path run (Polling sent) evs (Polling sent')" "same_identity r' run"
          using round Again by (auto simp: round_ok_def)
        from IH [OF rec] l evs(3) have "account run (Polling sent') (tr @ evs) (fst y) (snd (snd y))"
          by (auto simp: evs(1))
        then show ?thesis using account_prefix [OF _ evs(2)] by (simp add: s)
      qed
    qed
  qed
  then show ?thesis using same by (metis snd_conv)
qed

text \<open>An execution that returns: nothing was asked, or an opening call failed, or a path of the protocol.\<close>

definition opening_failed :: "exec_run \<Rightarrow> exec_event list \<Rightarrow> exec_run \<times> unit result \<Rightarrow> bool" where
  "opening_failed run tr x =
     ((tr = [Upload_Ev False] \<or> tr = [Upload_Ev True, Register_Ev False]) \<and> fst x = run \<and> \<not> ok (snd x))"

definition execution_account ::
  "(bytes \<Rightarrow> tar_member list \<times> error option) \<Rightarrow> (bytes \<Rightarrow> (manifest \<times> trailing) result) \<Rightarrow>
   bytes \<Rightarrow> exec_bundle \<Rightarrow> exec_run \<times> unit result \<Rightarrow> exec_event list \<Rightarrow> bool" where
  "execution_account tar_read decode target b x tr =
     (tr = [] \<and> fst x = no_run \<and> \<not> ok (snd x) \<or>
      (\<exists>m i s. validate_bundle tar_read decode target b = Inr m \<and> path (new_run i target b m) Fresh tr s \<and>
         same_identity (fst x) (new_run i target b m) \<and>
         (opening_failed (new_run i target b m) tr x \<or> explained (new_run i target b m) tr (fst x) (snd x))))"

lemma opening_step:
  "protocol run s ev s' \<Longrightarrow> account run s' (tr @ [ev]) x tr' \<Longrightarrow> account run s tr x tr'"
  by (erule account_prefix [OF _ path_step])

lemma execute_account:
  assumes "execute tar_read decode (logged env) target b (w, []) = Some (x, w', tr)"
  shows "execution_account tar_read decode target b x tr"
proof (cases "validate_bundle tar_read decode target b")
  case (Inl e)
  then show ?thesis using assms by (auto simp: execute_def execution_account_def)
next
  case (Inr m)
  note run = assms [unfolded execute_def, simplified Inr sum.case]
  obtain ri w1 where i: "env_NewID env w = (ri, w1)" by (cases "env_NewID env w")
  show ?thesis
  proof (cases ri)
    case (Inl e)
    then show ?thesis using run by (auto simp: i log_call_apply execution_account_def)
  next
    case Inr_i: (Inr i)
    let ?run = "new_run i target b m"
    have goal: "execution_account tar_read decode target b x tr"
      if "path ?run Fresh tr s" "same_identity (fst x) ?run" "opening_failed ?run tr x \<or> explained ?run tr (fst x) (snd x)" for s
      unfolding execution_account_def using Inr that by blast
    obtain u w2 where u: "env_Upload env target b w1 = (u, w2)" by (cases "env_Upload env target b w1")
    obtain g w3 where g: "env_Register env ?run w2 = (g, w3)" by (cases "env_Register env ?run w2")
    obtain st w4 where st: "env_Start env target (start_request_of i target b m) w3 = (st, w4)"
      by (cases "env_Start env target (start_request_of i target b m) w3")
    note calls = i [unfolded Inr_i] u g st log_call_apply Let_def
    have p1: "path ?run Fresh [Upload_Ev d] (if d then Uploaded else Halted)" for d
      by (rule path_step [OF protocol.upload])
    have p2: "path ?run Fresh [Upload_Ev True, Register_Ev d] (if d then Registered else Halted)" for d
      using path_snoc [OF p1 [of True, simplified] protocol.register [of ?run d]] by simp
    have p3: "path ?run Fresh [Upload_Ev True, Register_Ev True, Start_Ev d] (if d then Polling False else Halted)" for d
      using path_snoc [OF p2 [of True, simplified] protocol.start [of ?run d]] by simp
    show ?thesis
    proof (cases u)
      case (Inl e)
      then have "x = (?run, Inl (Wrapf ''upload execution bundle: %w'' [] e))" "tr = [Upload_Ev False]"
        using run by (simp_all add: calls)
      then show ?thesis using goal [of Halted] p1 [of False] by (simp add: opening_failed_def)
    next
      case u': (Inr z)
      show ?thesis
      proof (cases g)
        case (Inl e)
        then have "x = (?run, Inl (Wrapf ''register execution bundle: %w'' [] e))" "tr = [Upload_Ev True, Register_Ev False]"
          using run u' by (simp_all add: calls)
        then show ?thesis using goal [of Halted] p2 [of False] by (simp add: opening_failed_def)
      next
        case g': (Inr z)
        show ?thesis
        proof (cases st)
          case (Inl e)
          then have "x = (unknown ?run, Inl (uncertain ''start execution bundle: %w: %w'' e))"
            "tr = [Upload_Ev True, Register_Ev True, Start_Ev False]"
            using run u' g' by (simp_all add: calls)
          then show ?thesis using goal [of Halted] p3 [of False] by (simp add: explained_unknown)
        next
          case st': (Inr z)
          have "poll (logged env) target m (?run\<lparr>exr_Status := Running\<rparr>) False
              (w4, [Upload_Ev True, Register_Ev True, Start_Ev True]) = Some (x, w', tr)"
            using run u' g' st' by (simp add: calls)
          from poll_account [OF this, of ?run]
          have "account ?run (Polling False) ([] @ [Upload_Ev True, Register_Ev True, Start_Ev True]) x tr"
            by (simp add: same_identity_def)
          from account_prefix [OF this] p3 [of True] have "account ?run Fresh [] x tr" by simp
          then show ?thesis using goal by (auto simp: account_def)
        qed
      qed
    qed
  qed
qed

lemma execute_logged:
  assumes "execute tar_read decode env target b w = Some (x, w')"
  shows "\<exists>tr. execute tar_read decode (logged env) target b (w, []) = Some (x, w', tr)"
proof (cases "validate_bundle tar_read decode target b")
  case (Inl e)
  then show ?thesis using assms by (simp add: execute_def)
next
  case (Inr m)
  obtain ri w1 where i: "env_NewID env w = (ri, w1)" by (cases "env_NewID env w")
  show ?thesis
  proof (cases ri)
    case (Inl e)
    then show ?thesis using assms Inr by (simp add: execute_def i log_call_apply)
  next
    case Inr_i: (Inr i)
    let ?run = "new_run i target b m"
    obtain u w2 where u: "env_Upload env target b w1 = (u, w2)" by (cases "env_Upload env target b w1")
    obtain g w3 where g: "env_Register env ?run w2 = (g, w3)" by (cases "env_Register env ?run w2")
    obtain st w4 where st: "env_Start env target (start_request_of i target b m) w3 = (st, w4)"
      by (cases "env_Start env target (start_request_of i target b m) w3")
    show ?thesis
      using assms Inr poll_logged [of env target m "?run\<lparr>exr_Status := Running\<rparr>" False w4 x w']
      by (cases u; cases g; cases st) (simp_all add: execute_def i [unfolded Inr_i] u g st log_call_apply Let_def)
  qed
qed

end
