(* ===== verification/Exec_Props.thy ===== *)
theory Exec_Props
  imports Exec_Refine Exec_History
begin

section \<open>What an execution guarantees\<close>

text \<open>
  C17: the executor refines the protocol machine. Every execution that returns has a log that is a
  path of the machine for a bundle that verified, and its result is explained by the last event:
  success by a recorded proof, an error by the call that failed, the observation that does not
  belong to the run, the secret that cannot be resolved, or the unknown status.
\<close>

theorem execution_refines_protocol:
  assumes "execute tar_read decode env target b w = Some (x, w')"
  shows "\<exists>tr. execute tar_read decode (logged env) target b (w, []) = Some (x, w', tr) \<and>
    execution_account tar_read decode target b x tr"
proof -
  obtain tr where "execute tar_read decode (logged env) target b (w, []) = Some (x, w', tr)"
    using execute_logged [OF assms] by blast
  with execute_account [OF this] show ?thesis by blast
qed

lemma account_path:
  assumes "execute tar_read decode (logged env) target b (w, []) = Some (x, w', tr)"
  obtains (nothing) "tr = []" "\<not> ok (snd x)"
  | (path) m i s where "validate_bundle tar_read decode target b = Inr m" "path (new_run i target b m) Fresh tr s"
      "same_identity (fst x) (new_run i target b m)"
      "opening_failed (new_run i target b m) tr x \<or> explained (new_run i target b m) tr (fst x) (snd x)"
  using execute_account [OF assms] unfolding execution_account_def by blast

text \<open>A run that is returned after the first call has the identifier that was allocated for it.\<close>

lemma execute_allocates:
  assumes "execute tar_read decode env target b w = Some (x, w')"
  shows "w' = w \<or> w' = snd (env_NewID env w) \<or> (\<exists>w1. env_NewID env w = (Inr (exr_ID (fst x)), w1))"
proof (cases "validate_bundle tar_read decode target b")
  case (Inl e)
  then show ?thesis using assms by (simp add: execute_def)
next
  case (Inr m)
  obtain q w1 where q: "env_NewID env w = (q, w1)" by (metis surj_pair)
  show ?thesis
  proof (cases q)
    case (Inl e)
    then show ?thesis using assms by (simp add: execute_def Inr q)
  next
    case i: (Inr i)
    have "exr_ID r = i" if "poll env target m ((new_run i target b m)\<lparr>exr_Status := Running\<rparr>) False w4 = Some ((r, e), w')" for r e w4
      using poll_kept [OF that, of "\<lambda>_. True" "new_run i target b m"]
      by (simp add: env_keeps_def finished_with_def same_bundle_def new_run_def)
    then have "exr_ID (fst x) = i"
      using assms by (cases x) (auto simp: execute_def Inr q i Let_def new_run_def unknown_def split: prod.splits sum.splits)
    then show ?thesis using q i by auto
  qed
qed

text \<open>
  C18: the secrets of a bundle leave at most once, and only right after an observation that answers
  for this very run: its proof is running, waits for the secrets, and carries the identifier, bundle,
  digest and target of the run that is returned. The identifier is the one that was allocated for
  the execution, and bundle, digest and target are those of the call.
\<close>

theorem secrets_only_when_awaited:
  assumes "execute tar_read decode (logged env) target b (w, []) = Some ((r, e), w', tr)"
  shows "count_of is_secrets tr \<le> 1 \<and>
    (\<forall>before ids sent later. tr = before @ [Secrets_Ev ids sent] @ later \<longrightarrow>
      (\<exists>pre obs inner p. before = pre @ [Observe_Ev (Some obs)] @ inner \<and> list_all is_inner inner \<and>
        obv_Proof obs = Some p \<and> prf_Status p = Running \<and> prf_Phase p = ''awaiting-secrets'' \<and>
        prf_RunID p = exr_ID r \<and> fst (env_NewID env w) = Inr (exr_ID r) \<and>
        prf_BundleID p = exr_BundleID r \<and> exr_BundleID r = bun_ID b \<and>
        prf_BundleSHA256 p = exr_BundleSHA256 r \<and> exr_BundleSHA256 r = bun_SHA256 b \<and>
        prf_TargetID p = exr_TargetID r \<and> exr_TargetID r = target))"
  using assms
proof (cases rule: account_path)
  case nothing
  then show ?thesis by (simp add: count_of_def)
next
  case (path m i s)
  let ?run = "new_run i target b m"
  have "count_of is_secrets tr \<le> secrets_bound s" by (rule secrets_at_most_once [OF path(2)])
  also have "\<dots> \<le> 1" by (cases s) auto
  finally have "count_of is_secrets tr \<le> 1" .
  moreover have "\<exists>pre obs inner p. before = pre @ [Observe_Ev (Some obs)] @ inner \<and> list_all is_inner inner \<and>
      obv_Proof obs = Some p \<and> prf_Status p = Running \<and> prf_Phase p = ''awaiting-secrets'' \<and>
      prf_RunID p = exr_ID r \<and> fst (env_NewID env w) = Inr (exr_ID r) \<and>
      prf_BundleID p = exr_BundleID r \<and> exr_BundleID r = bun_ID b \<and>
      prf_BundleSHA256 p = exr_BundleSHA256 r \<and> exr_BundleSHA256 r = bun_SHA256 b \<and>
      prf_TargetID p = exr_TargetID r \<and> exr_TargetID r = target"
    if split: "tr = before @ [Secrets_Ev ids sent] @ later" for before ids sent later
  proof -
    obtain obs where obs: "after_observation ?run before obs" "awaits_secrets obs"
      using path_justified [OF path(2) split] by (auto simp: event_justified_def)
    from obs(2) obtain p where p: "obv_Proof obs = Some p" "prf_Status p = Running" "prf_Phase p = ''awaiting-secrets''"
      by (auto simp: awaits_secrets_def split: option.splits)
    have mine: "proof_of_run ?run p" using obs(1) p(1) by (simp add: after_observation_def acceptable_def)
    have fresh: "fst (env_NewID env w) = Inr (exr_ID r)"
      using execute_allocates [OF assms] split by (auto simp: logged_def log_call_apply)
    obtain pre inner where "before = pre @ [Observe_Ev (Some obs)] @ inner" "list_all is_inner inner"
      using obs(1) by (auto simp: after_observation_def)
    then show ?thesis
      using p mine fresh path(3)
      by (intro exI [of _ pre] exI [of _ obs] exI [of _ inner] exI [of _ p])
        (simp add: proof_of_run_def same_identity_def new_run_def)
  qed
  ultimately show ?thesis by blast
qed

text \<open>
  C19: an execution that succeeds has a proof. Its bundle verified for this target; the log starts
  with one upload, one registration and one start that all succeeded, and ends with an accepted
  observation, what it asked for, and the recorded finish of a successful proof of this very run.
\<close>

theorem success_is_proved:
  assumes "execute tar_read decode (logged env) target b (w, []) = Some ((r, Inr ()), w', tr)"
  shows "\<exists>m p obs mid inner. validate_bundle tar_read decode target b = Inr m \<and>
    tr = [Upload_Ev True, Register_Ev True, Start_Ev True] @ mid @ [Observe_Ev (Some obs)] @ inner @ [Finished_Ev r p True] \<and>
    list_all in_loop mid \<and> list_all is_inner inner \<and> obv_Proof obs = Some p \<and>
    prf_Status p = Success \<and> exr_Status r = Success \<and> proof_of_run r p \<and>
    exr_BundleID r = bun_ID b \<and> exr_BundleSHA256 r = bun_SHA256 b \<and> exr_TargetID r = target"
  using assms
proof (cases rule: account_path)
  case nothing
  then show ?thesis by simp
next
  case (path m i s)
  let ?run = "new_run i target b m"
  have "explained ?run tr r (Inr ())" using path(4) by (simp add: opening_failed_def)
  then obtain p where p: "tr \<noteq> []" "last tr = Finished_Ev r p True" "prf_Status p = Success"
    by (auto simp: explained_def ends_with_def)
  define before where "before = butlast tr"
  have tr: "tr = before @ [Finished_Ev r p True] @ []"
    using p(1,2) append_butlast_last_id [of tr] by (simp add: before_def)
  from path_justified [OF path(2) tr] obtain obs pre inner where obs: "acceptable ?run obs" "finished_by obs p"
      "exr_Status r = prf_Status p" "before = pre @ [Observe_Ev (Some obs)] @ inner" "list_all is_inner inner"
    by (auto simp: event_justified_def after_observation_def)
  have "opening_ok s tr" by (rule opening_in_order [OF path(2)])
  then obtain t where t: "tr = [Upload_Ev True, Register_Ev True, Start_Ev True] @ t" "list_all in_loop t"
    using p(1,2) by (cases s) (auto split: if_splits)
  have "pre @ [Observe_Ev (Some obs)] @ inner @ [Finished_Ev r p True] = [Upload_Ev True, Register_Ev True, Start_Ev True] @ t"
    using t(1) tr obs(4) by simp
  then obtain mid where mid: "pre = [Upload_Ev True, Register_Ev True, Start_Ev True] @ mid"
    by (cases pre; cases "tl pre"; cases "tl (tl pre)") auto
  have loop: "list_all in_loop mid" using t tr obs(4) mid by auto
  have shown: "obv_Proof obs = Some p" using obs(2) by (simp add: finished_by_def)
  have "proof_of_run r p"
    using obs(1) shown same_identity_proof [OF path(3)] by (simp add: acceptable_def)
  moreover have "exr_BundleID r = bun_ID b" "exr_BundleSHA256 r = bun_SHA256 b" "exr_TargetID r = target"
    using path(3) by (simp_all add: same_identity_def new_run_def)
  moreover have "tr = [Upload_Ev True, Register_Ev True, Start_Ev True] @ mid @ [Observe_Ev (Some obs)] @ inner @
      [Finished_Ev r p True]"
    using tr obs(4) mid by simp
  ultimately show ?thesis using path(1) loop shown obs(3,5) p(3) by metis
qed

text \<open>
  an error after the start tells the caller to reconcile, with four exceptions: the failure
  that a recorded proof reports, a finish that could not be recorded, an observation that is not
  of this run, and a secret that could not be resolved.
\<close>

theorem started_error_cases:
  assumes "execute tar_read decode (logged env) target b (w, []) = Some ((r, Inl err), w', tr)"
    and "list_ex (\<lambda>ev. \<exists>b. ev = Start_Ev b) tr" and "\<not> error_is err err_status_unknown"
  shows "(\<exists>p. last tr = Finished_Ev r p True \<and> prf_Status p = Failed \<and> exr_Status r = Failed \<and>
        err = Errf ''execution failed: %s'' [prf_Error p])
    \<or> (\<exists>p. last tr = Finished_Ev r p False \<and> terminal (exr_Status r))
    \<or> (\<exists>obs. last tr = Observe_Ev (Some obs) \<and> \<not> acceptable r obs \<and> exr_Status r = Unknown)
    \<or> secret_error err"
  using assms(1)
proof (cases rule: account_path)
  case nothing
  then show ?thesis using assms(2) by simp
next
  case (path m i s)
  let ?run = "new_run i target b m"
  have "\<not> opening_failed ?run tr (r, Inl err)" using assms(2) by (auto simp: opening_failed_def)
  then have e: "explained ?run tr r (Inl err)" using path(4) by simp
  have status: "exr_Status r' = prf_Status p \<and> terminal (prf_Status p)" if last: "ends_with tr (Finished_Ev r' p d)" for r' p d
  proof -
    have "tr = butlast tr @ [Finished_Ev r' p d] @ []"
      using last append_butlast_last_id [of tr] by (simp add: ends_with_def)
    from path_justified [OF path(2) this] show ?thesis by (auto simp: event_justified_def finished_by_def)
  qed
  have same: "acceptable ?run obs = acceptable r obs" for obs
    using same_identity_acceptable [OF path(3)] by simp
  from e assms(3) consider p where "ends_with tr (Finished_Ev r p True)" "prf_Status p = Failed"
      "err = Errf ''execution failed: %s'' [prf_Error p]"
    | p where "ends_with tr (Finished_Ev r p False)"
    | obs where "ends_with tr (Observe_Ev (Some obs))" "\<not> acceptable r obs" "exr_Status r = Unknown"
    | "secret_error err"
    unfolding explained_def same by auto
  then show ?thesis using status by cases (auto simp: ends_with_def)
qed

subsection \<open>Termination\<close>

text \<open>
  The loop waits for the target for as long as its context lives. Where the context has a
  deadline, that is, where some measure of the world shrinks with every poll interval that passes
  and no other call lets it grow, the executor returns.
\<close>

definition has_deadline :: "'w exec_env \<Rightarrow> ('w \<Rightarrow> nat) \<Rightarrow> bool" where
  "has_deadline env left =
     ((\<forall>t i w. left (snd (env_Observe env t i w)) \<le> left w) \<and>
      (\<forall>i w. left (snd (env_Resolve env i w)) \<le> left w) \<and>
      (\<forall>t i vs w. left (snd (env_SendSecrets env t i vs w)) \<le> left w) \<and>
      (\<forall>w w'. env_Wait env w = (None, w') \<longrightarrow> left w' < left w))"

lemma resolve_all_left: "has_deadline env left \<Longrightarrow> left (snd (resolve_all env is w)) \<le> left w"
proof (induction "is" arbitrary: w)
  case (Cons i "is")
  obtain given r w' where c: "env_Resolve env i w = ((given, r), w')" by (metis surj_pair)
  have "left w' \<le> left w" using Cons.prems c unfolding has_deadline_def by (metis snd_conv)
  then show ?case
    using Cons.IH [OF Cons.prems, of w'] by (auto simp: c Let_def split: sum.splits prod.splits)
qed simp

lemma resolve_secrets_left: "has_deadline env left \<Longrightarrow> left (snd (resolve_secrets env refs w)) \<le> left w"
  using resolve_all_left by (auto simp: resolve_secrets_def split: sum.splits)

lemma close_round_left:
  "has_deadline env left \<Longrightarrow> close_round env run sent obs w = (Again r s, w') \<Longrightarrow> left w' < left w"
  by (auto simp: close_round_def wait_round_def record_finished_def has_deadline_def
      split: option.splits if_splits prod.splits sum.splits)

lemma secrets_round_left:
  assumes d: "has_deadline env left" and run: "secrets_round env target m run sent obs w = (Again r s, w')"
  shows "left w' < left w"
proof (cases "\<not> sent \<and> awaits_secrets obs")
  case True
  obtain rs w1 where c: "resolve_secrets env (man_Secrets m) w = (rs, w1)" by (metis surj_pair)
  have w1: "left w1 \<le> left w" using resolve_secrets_left [OF d, of "man_Secrets m" w] by (simp add: c)
  obtain vs where vs: "rs = Inr vs" using run True by (cases rs) (auto simp: secrets_round_def c)
  obtain sr w2 where s: "env_SendSecrets env target (exr_ID run) vs w1 = (sr, w2)" by (metis surj_pair)
  have "left w2 \<le> left w1" using d s unfolding has_deadline_def by (metis snd_conv)
  moreover have "close_round env run True obs w2 = (Again r s, w')"
    using run True by (cases sr) (auto simp: secrets_round_def c vs s)
  ultimately show ?thesis using close_round_left [OF d] w1 by fastforce
next
  case False
  then have "close_round env run sent obs w = (Again r s, w')" using run by (auto simp: secrets_round_def)
  then show ?thesis by (rule close_round_left [OF d])
qed

lemma poll_round_left:
  assumes d: "has_deadline env left" and run: "poll_round env target m run sent w = (Again r s, w')"
  shows "left w' < left w"
proof -
  obtain or w1 where c: "env_Observe env target (exr_ID run) w = (or, w1)" by (metis surj_pair)
  have w1: "left w1 \<le> left w" using d c unfolding has_deadline_def by (metis snd_conv)
  obtain obs where obs: "or = Inr obs" using run by (cases or) (auto simp: poll_round_def c)
  have "secrets_round env target m (observed_run run obs) sent obs w1 = (Again r s, w')"
    using run by (auto simp: poll_round_def c obs split: sum.splits if_splits)
  from secrets_round_left [OF d this] w1 show ?thesis by simp
qed

lemma poll_returns: "has_deadline env left \<Longrightarrow> \<exists>y. poll env target m run sent w = Some y"
proof (induction "left w" arbitrary: w run sent rule: less_induct)
  case less
  obtain res w' where c: "poll_round env target m run sent w = (res, w')" by (metis surj_pair)
  show ?case
  proof (cases res)
    case (Return r e)
    then show ?thesis by (subst poll.simps) (simp add: c)
  next
    case (Again r s)
    then have "left w' < left w" using poll_round_left [OF less.prems] c by simp
    from less.hyps [OF this less.prems, of r s] show ?thesis by (subst poll.simps) (simp add: c Again)
  qed
qed

text \<open>C21: with a deadline on its context the executor returns, whatever the target answers.\<close>

theorem execute_returns:
  assumes "has_deadline env left"
  shows "\<exists>r e w'. execute tar_read decode env target b w = Some ((r, e), w')"
proof -
  have "\<exists>y. execute tar_read decode env target b w = Some y"
    using poll_returns [OF assms] by (auto simp: execute_def Let_def split: sum.splits prod.splits)
  then show ?thesis by (metis surj_pair)
qed

subsection \<open>Reconciliation\<close>

text \<open>
  to reconcile never asks the target to do anything: it observes once, and it records a
  finish exactly when the observed proof has the given identity and is terminal. The status it
  returns without an error is the one the observation shows.
\<close>

theorem reconcile_observes_only:
  assumes "reconcile (logged env) target i bundle sha (w, []) = ((r, e), w', tr)"
    and "target \<noteq> []" "i \<noteq> []" "bundle \<noteq> []" "sha \<noteq> []"
  shows "case fst (env_Observe env target i w) of
      Inl err \<Rightarrow> tr = [Observe_Ev None] \<and> e = Inl (Wrapf ''reconcile execution: %w'' [] err) \<and> exr_Status r = Unknown
    | Inr obs \<Rightarrow>
        (case obv_Proof obs of
           None \<Rightarrow> tr = [Observe_Ev (Some obs)] \<and> e = Inr () \<and>
             exr_Status r = (if obv_LockHeld obs \<or> obv_UnitRunning obs then Running else Not_Started)
         | Some p \<Rightarrow>
             if prf_RunID p = i \<and> prf_BundleID p = bundle \<and> prf_BundleSHA256 p = sha \<and> prf_TargetID p = target
             then exr_Status r = exr_Status (classify r obs) \<and> exr_Phase r = prf_Phase p \<and>
               (if terminal (prf_Status p)
                then \<exists>d. tr = [Observe_Ev (Some obs), Finished_Ev r p d] \<and> exr_Status r = prf_Status p \<and> (e = Inr () \<longleftrightarrow> d)
                else tr = [Observe_Ev (Some obs)] \<and> e = Inr () \<and> \<not> terminal (exr_Status r))
             else tr = [Observe_Ev (Some obs)] \<and> e = Inl (Err ''execution proof identity mismatch'') \<and> exr_Status r = Unknown)"
proof -
  obtain d w1 where d: "env_Observe env target i w = (d, w1)" by (cases "env_Observe env target i w")
  show ?thesis
  proof (cases d)
    case (Inl err)
    then show ?thesis using assms by (auto simp: reconcile_def d log_call_apply Let_def)
  next
    case (Inr obs)
    show ?thesis
    proof (cases "obv_Proof obs")
      case None
      then show ?thesis using assms by (auto simp: reconcile_def d Inr log_call_apply Let_def classify_def)
    next
      case (Some p)
      define run0 where "run0 = \<lparr>exr_ID = i, exr_TargetID = target, exr_BundleID = bundle, exr_BundleSHA256 = sha,
        exr_Kind = [], exr_Version = [], exr_Status = Unknown, exr_Phase = []\<rparr>"
      define run1 where "run1 = classify (run0\<lparr>exr_Phase := prf_Phase p\<rparr>) obs"
      define mine where "mine = (prf_RunID p = i \<and> prf_BundleID p = bundle \<and> prf_BundleSHA256 p = sha \<and> prf_TargetID p = target)"
      obtain f w2 where f: "env_Finished env run1 p w1 = (f, w2)" by (cases "env_Finished env run1 p w1")
      have mine: "proof_of_run run0 p = mine" by (simp add: proof_of_run_def run0_def mine_def)
      have run1: "exr_Status run1 = exr_Status (classify run1 obs)" "exr_Phase run1 = prf_Phase p"
        "terminal (prf_Status p) \<Longrightarrow> exr_Status run1 = prf_Status p"
        "\<not> terminal (prf_Status p) \<Longrightarrow> \<not> terminal (exr_Status run1)"
        by (auto simp: run1_def classify_def Let_def Some terminal_def split: status.splits)
      have "((r, e), w', tr) =
          (if \<not> mine then ((run0, Inl (Err ''execution proof identity mismatch'')), w1, [Observe_Ev (Some obs)])
           else if terminal (prf_Status p)
             then (case f of Inl err \<Rightarrow> ((run1, Inl (Wrapf ''record reconciled execution: %w'' [] err)), w2,
                       [Observe_Ev (Some obs), Finished_Ev run1 p False])
                   | Inr u \<Rightarrow> ((run1, Inr ()), w2, [Observe_Ev (Some obs), Finished_Ev run1 p True]))
             else ((run1, Inr ()), w1, [Observe_Ev (Some obs)]))"
        unfolding assms(1) [symmetric] reconcile_def mine [symmetric]
        using assms(2-) f
        by (simp add: d Inr Some log_call_apply Let_def run0_def [symmetric] run1_def [symmetric] split: sum.split)
      then show ?thesis
        using run1 by (cases f) (auto simp: d Inr Some mine_def [symmetric] run0_def split: if_splits)
    qed
  qed
qed

subsection \<open>On the sample bundle\<close>

text \<open>
  A target that waits for the secrets at first and then shows what it is given. The world is the
  number of poll intervals that have passed.
\<close>

definition sample_proof :: "bytes \<Rightarrow> status \<Rightarrow> bytes \<Rightarrow> exec_proof" where
  "sample_proof i st ph =
     \<lparr>prf_FormatVersion = 1, prf_RunID = i, prf_BundleID = bun_ID sample_bundle,
      prf_BundleSHA256 = bun_SHA256 sample_bundle, prf_TargetID = ''target_1'', prf_Kind = ''installation'',
      prf_Status = st, prf_Phase = ph, prf_StartedAt = ''t1'', prf_FinishedAt = ''t2'', prf_Steps = [],
      prf_PostState = [], prf_Error = ''step failed''\<rparr>"

definition sample_env :: "exec_proof \<Rightarrow> nat exec_env" where
  "sample_env p =
     \<lparr>env_NewID = (\<lambda>w. (Inr ''run_1'', w)), env_Upload = (\<lambda>t b w. (Inr (), w)), env_Register = (\<lambda>r w. (Inr (), w)),
      env_Start = (\<lambda>t q w. (Inr (), w)),
      env_Observe = (\<lambda>t i w. (Inr \<lparr>obv_Proof = Some (if w = 0 then sample_proof ''run_1'' Running ''awaiting-secrets'' else p),
        obv_LockHeld = w = 0, obv_UnitRunning = False\<rparr>, w)),
      env_Resolve = (\<lambda>i w. (([''secret''], Inr ()), w)), env_SendSecrets = (\<lambda>t i vs w. (Inr (), w)),
      env_Finished = (\<lambda>r p w. (Inr (), w)),
      env_Wait = (\<lambda>w. if w < 3 then (None, Suc w) else (Some (Err ''context deadline exceeded''), w))\<rparr>"

lemma sample_validates: "validate_bundle sample_tar sample_decoder ''target_1'' sample_bundle = Inr sample_manifest"
proof -
  have "man_TargetID sample_manifest = ''target_1''"
    by (simp add: sample_manifest_def draft_manifest_def sample_input_def normalize_manifest_def Let_def)
  then show ?thesis by (simp add: validate_bundle_def sample_verifies)
qed

lemma sample_secrets: "man_Secrets sample_manifest = []"
  by (simp add: sample_manifest_def draft_manifest_def sample_input_def normalize_manifest_def Let_def)

abbreviation sample_run :: "nat exec_env \<Rightarrow> ((exec_run \<times> unit result) \<times> nat \<times> exec_event list) option" where
  "sample_run env \<equiv> execute sample_tar sample_decoder (logged env) ''target_1'' sample_bundle (0, [])"

definition sample_log :: "exec_event list" where
  "sample_log =
     [Upload_Ev True, Register_Ev True, Start_Ev True,
      Observe_Ev (Some \<lparr>obv_Proof = Some (sample_proof ''run_1'' Running ''awaiting-secrets''),
        obv_LockHeld = True, obv_UnitRunning = False\<rparr>),
      Secrets_Ev [] True, Wait_Ev True]"

definition sample_final :: "status \<Rightarrow> bytes \<Rightarrow> exec_run" where
  "sample_final st ph =
     (new_run ''run_1'' ''target_1'' sample_bundle sample_manifest)\<lparr>exr_Status := st, exr_Phase := ph\<rparr>"

lemma sample_first_round:
  "poll_round (logged (sample_env p)) ''target_1'' sample_manifest
     ((new_run ''run_1'' ''target_1'' sample_bundle sample_manifest)\<lparr>exr_Status := Running\<rparr>) False
     (0, [Upload_Ev True, Register_Ev True, Start_Ev True]) =
   (Again (sample_final Running ''awaiting-secrets'') True, 1, sample_log)"
  by (simp add: poll_round_def sample_env_def log_call_apply validate_observation_identity_def proof_of_run_def
      sample_proof_def new_run_def vanished_def secrets_round_def awaits_secrets_def resolve_secrets_def sample_secrets
      close_round_def terminal_def wait_round_def observed_run_def classify_def Let_def sample_log_def sample_final_def)

lemma sample_execution:
  "sample_run (sample_env p) =
     poll (logged (sample_env p)) ''target_1'' sample_manifest (sample_final Running ''awaiting-secrets'') True (1, sample_log)"
proof -
  have "sample_run (sample_env p) =
      poll (logged (sample_env p)) ''target_1'' sample_manifest
        ((new_run ''run_1'' ''target_1'' sample_bundle sample_manifest)\<lparr>exr_Status := Running\<rparr>) False
        (0, [Upload_Ev True, Register_Ev True, Start_Ev True])"
    by (simp add: execute_def sample_validates sample_env_def log_call_apply Let_def)
  also have "\<dots> = poll (logged (sample_env p)) ''target_1'' sample_manifest (sample_final Running ''awaiting-secrets'') True (1, sample_log)"
    by (subst poll.simps) (simp only: sample_first_round prod.case round.case)
  finally show ?thesis .
qed

definition sample_last :: "exec_proof \<Rightarrow> exec_event" where
  "sample_last p = Observe_Ev (Some \<lparr>obv_Proof = Some p, obv_LockHeld = False, obv_UnitRunning = False\<rparr>)"

lemma sample_success:
  "sample_run (sample_env (sample_proof ''run_1'' Success ''done'')) =
     Some ((sample_final Success ''done'', Inr ()), 1,
       sample_log @ [sample_last (sample_proof ''run_1'' Success ''done''),
         Finished_Ev (sample_final Success ''done'') (sample_proof ''run_1'' Success ''done'') True])"
  unfolding sample_execution
  by (subst poll.simps)
    (simp add: poll_round_def sample_env_def log_call_apply validate_observation_identity_def proof_of_run_def
      sample_proof_def new_run_def vanished_def secrets_round_def close_round_def terminal_def record_finished_def
      observed_run_def classify_def Let_def sample_final_def sample_last_def)

lemma sample_foreign:
  "sample_run (sample_env (sample_proof ''run_2'' Success ''done'')) =
     Some ((sample_final Unknown ''awaiting-secrets'', Inl (Err ''execution proof identity mismatch'')), 1,
       sample_log @ [sample_last (sample_proof ''run_2'' Success ''done'')])"
  unfolding sample_execution
  by (subst poll.simps)
    (simp add: poll_round_def sample_env_def log_call_apply validate_observation_identity_def proof_of_run_def
      sample_proof_def new_run_def unknown_def sample_final_def sample_last_def)

theorem execution_refines_protocol_witness:
  "\<exists>tr. execution_account sample_tar sample_decoder ''target_1'' sample_bundle (sample_final Success ''done'', Inr ()) tr"
  using execution_refines_protocol [OF sample_success] by blast

theorem secrets_only_when_awaited_witness:
  "\<exists>pre obs inner p. take 4 sample_log = pre @ [Observe_Ev (Some obs)] @ inner \<and>
     obv_Proof obs = Some p \<and> prf_Phase p = ''awaiting-secrets'' \<and> prf_RunID p = ''run_1'' \<and> prf_TargetID p = ''target_1''"
proof -
  let ?later = "[Wait_Ev True, sample_last (sample_proof ''run_1'' Success ''done''),
         Finished_Ev (sample_final Success ''done'') (sample_proof ''run_1'' Success ''done'') True]"
  have "sample_log @ [sample_last (sample_proof ''run_1'' Success ''done''),
         Finished_Ev (sample_final Success ''done'') (sample_proof ''run_1'' Success ''done'') True] =
      take 4 sample_log @ [Secrets_Ev [] True] @ ?later"
    by (simp add: sample_log_def)
  moreover have "exr_ID (sample_final Success ''done'') = ''run_1''" "exr_TargetID (sample_final Success ''done'') = ''target_1''"
    by (simp_all add: sample_final_def new_run_def)
  ultimately show ?thesis
    using secrets_only_when_awaited [OF sample_success] by metis
qed

theorem success_is_proved_witness:
  "\<exists>mid p obs inner. tl (tl (tl sample_log)) @ [sample_last (sample_proof ''run_1'' Success ''done''),
         Finished_Ev (sample_final Success ''done'') (sample_proof ''run_1'' Success ''done'') True] =
     mid @ [Observe_Ev (Some obs)] @ inner @ [Finished_Ev (sample_final Success ''done'') p True] \<and> prf_Status p = Success"
  using success_is_proved [OF sample_success] by (auto simp: sample_log_def)

theorem started_error_cases_witness:
  "\<exists>obs. sample_last (sample_proof ''run_2'' Success ''done'') = Observe_Ev (Some obs) \<and>
     \<not> acceptable (sample_final Unknown ''awaiting-secrets'') obs"
  using started_error_cases [OF sample_foreign] by (auto simp: sample_log_def sample_last_def err_status_unknown_def)

theorem execute_returns_witness:
  "\<exists>r e w'. execute sample_tar sample_decoder
     ((sample_env (sample_proof ''run_1'' Success ''done''))\<lparr>env_Observe := \<lambda>t i w. (Inr \<lparr>obv_Proof = None,
        obv_LockHeld = True, obv_UnitRunning = False\<rparr>, w)\<rparr>) ''target_1'' sample_bundle 0 = Some ((r, e), w')"
proof (rule execute_returns [where left = "\<lambda>w. 3 - w"])
  show "has_deadline ((sample_env (sample_proof ''run_1'' Success ''done''))\<lparr>env_Observe := \<lambda>t i w. (Inr \<lparr>obv_Proof = None,
      obv_LockHeld = True, obv_UnitRunning = False\<rparr>, w)\<rparr>) (\<lambda>w. 3 - w)"
    by (auto simp: has_deadline_def sample_env_def split: if_splits)
qed

definition sample_reconciled :: "(exec_run \<times> unit result) \<times> nat \<times> exec_event list" where
  "sample_reconciled =
     reconcile (logged (sample_env (sample_proof ''run_1'' Success ''done''))) ''target_1'' ''run_1''
       (bun_ID sample_bundle) (bun_SHA256 sample_bundle) (1, [])"

theorem reconcile_observes_only_witness:
  "exr_Status (fst (fst sample_reconciled)) = Success \<and> length (snd (snd sample_reconciled)) = 2"
proof -
  obtain r e w' tr where s: "sample_reconciled = ((r, e), w', tr)" by (metis surj_pair)
  have ids: "bun_ID sample_bundle \<noteq> []" "bun_SHA256 sample_bundle \<noteq> []"
    using sample_verifies by (auto simp: verify_def result_simps)
  from reconcile_observes_only [OF s [unfolded sample_reconciled_def] _ _ ids]
  show ?thesis by (auto simp: s sample_env_def sample_proof_def terminal_def)
qed

section \<open>An execution that nothing hinders succeeds\<close>

text \<open>
  The other side of the safety properties of the executor: where the target keeps working on the run
  until it reports a successful proof, and no call on the way fails, the executor comes to an end and
  reports success. \<open>left\<close> bounds the poll intervals that the target still needs.
\<close>

definition works_on :: "exec_run \<Rightarrow> observation \<Rightarrow> bool" where
  "works_on run obs =
     (let active = obv_LockHeld obs \<or> obv_UnitRunning obs in
      case obv_Proof obs of
        None \<Rightarrow> active
      | Some p \<Rightarrow> proof_of_run run p \<and> (prf_Status p = Success \<or> prf_Status p = Running \<and> active))"

definition succeeded :: "observation \<Rightarrow> bool" where
  "succeeded obs = (case obv_Proof obs of None \<Rightarrow> False | Some p \<Rightarrow> prf_Status p = Success)"

definition finishes :: "'w exec_env \<Rightarrow> ('w \<Rightarrow> nat) \<Rightarrow> exec_run \<Rightarrow> bool" where
  "finishes env left run =
     (\<forall>w. \<exists>obs w'. env_Observe env (exr_TargetID run) (exr_ID run) w = (Inr obs, w') \<and> left w' \<le> left w \<and>
        works_on run obs \<and> (left w = 0 \<longrightarrow> succeeded obs))"

definition answers :: "'w exec_env \<Rightarrow> ('w \<Rightarrow> nat) \<Rightarrow> bool" where
  "answers env left =
     ((\<forall>w. \<exists>i w'. env_NewID env w = (Inr i, w')) \<and>
      (\<forall>t b w. \<exists>w'. env_Upload env t b w = (Inr (), w')) \<and>
      (\<forall>run w. \<exists>w'. env_Register env run w = (Inr (), w')) \<and>
      (\<forall>t q w. \<exists>w'. env_Start env t q w = (Inr (), w')) \<and>
      (\<forall>i w. \<exists>given w'. env_Resolve env i w = ((given, Inr ()), w') \<and> given \<noteq> [] \<and> last given \<noteq> [] \<and> left w' \<le> left w) \<and>
      (\<forall>t i vs w. \<exists>w'. env_SendSecrets env t i vs w = (Inr (), w') \<and> left w' \<le> left w) \<and>
      (\<forall>run p w. \<exists>w'. env_Finished env run p w = (Inr (), w')) \<and>
      (\<forall>w. \<exists>w'. env_Wait env w = (None, w') \<and> left w' \<le> left w - 1))"

lemma answersD:
  assumes "answers env left"
  shows "\<exists>i w'. env_NewID env w = (Inr i, w')"
    and "\<exists>w'. env_Upload env t b w = (Inr (), w')"
    and "\<exists>w'. env_Register env run w = (Inr (), w')"
    and "\<exists>w'. env_Start env t q w = (Inr (), w')"
    and "\<exists>given w'. env_Resolve env i w = ((given, Inr ()), w') \<and> given \<noteq> [] \<and> last given \<noteq> [] \<and> left w' \<le> left w"
    and "\<exists>w'. env_SendSecrets env t i vs w = (Inr (), w') \<and> left w' \<le> left w"
    and "\<exists>w'. env_Finished env run p w = (Inr (), w')"
    and "\<exists>w'. env_Wait env w = (None, w') \<and> left w' \<le> left w - 1"
  using assms unfolding answers_def by - (elim conjE; blast)+

lemma resolve_all_answers:
  assumes "answers env left"
  shows "\<exists>vs w'. resolve_all env is w = (Inr vs, w') \<and> left w' \<le> left w"
proof (induction "is" arbitrary: w)
  case (Cons i "is")
  obtain given w1 where r: "env_Resolve env i w = ((given, Inr ()), w1)" "given \<noteq> []" "last given \<noteq> []" "left w1 \<le> left w"
    using answersD(5) [OF assms] by blast
  obtain vs w2 where "resolve_all env is w1 = (Inr vs, w2)" "left w2 \<le> left w1" using Cons.IH by blast
  then show ?case using r by simp
qed simp

text \<open>What a round of the loop comes to: it returns a success or goes on with less to wait for.\<close>

definition round_ok :: "('w \<Rightarrow> nat) \<Rightarrow> exec_run \<Rightarrow> nat \<Rightarrow> bool \<Rightarrow> round \<times> 'w \<Rightarrow> bool" where
  "round_ok left run n stop x =
     (case x of
        (Return r e, w') \<Rightarrow> e = Inr () \<and> exr_Status r = Success
      | (Again r s, w') \<Rightarrow> \<not> stop \<and> left w' \<le> n - 1 \<and> proof_of_run r = proof_of_run run \<and>
          exr_ID r = exr_ID run \<and> exr_TargetID r = exr_TargetID run)"

lemma close_round_progress:
  assumes a: "answers env left" and obs: "works_on run obs" and n: "left w \<le> n"
    and same: "exr_ID run' = exr_ID run" "exr_TargetID run' = exr_TargetID run" "proof_of_run run' = proof_of_run run"
    and status: "exr_Status run' = exr_Status (classify run obs)"
  shows "round_ok left run n (succeeded obs) (close_round env run' sent obs w)"
proof (cases "succeeded obs")
  case True
  then obtain p where p: "obv_Proof obs = Some p" "prf_Status p = Success" by (auto simp: succeeded_def split: option.splits)
  obtain w' where "env_Finished env run' p w = (Inr (), w')" using answersD(7) [OF a] by blast
  then show ?thesis
    using p status by (simp add: close_round_def terminal_def record_finished_def round_ok_def classify_def)
next
  case False
  obtain w' where w: "env_Wait env w = (None, w')" "left w' \<le> left w - 1" using answersD(8) [OF a] by blast
  have "exr_Status run' = Running" "\<forall>p. obv_Proof obs = Some p \<longrightarrow> prf_Status p = Running"
    using obs False status by (auto simp: works_on_def succeeded_def classify_def Let_def split: option.splits)
  then show ?thesis
    using w n same False by (auto simp: close_round_def terminal_def wait_round_def round_ok_def split: option.split)
qed

lemma poll_round_progress:
  assumes a: "answers env left" and f: "finishes env left run" and named: "\<forall>r\<in>set (man_Secrets m). ref_SecretID r \<noteq> []"
    and same: "exr_ID run' = exr_ID run" "exr_TargetID run' = exr_TargetID run" "proof_of_run run' = proof_of_run run"
  shows "round_ok left run (left w) (left w = 0) (poll_round env (exr_TargetID run) m run' sent w)"
proof -
  obtain obs w1 where o: "env_Observe env (exr_TargetID run) (exr_ID run) w = (Inr obs, w1)" "left w1 \<le> left w"
    "works_on run obs" "left w = 0 \<longrightarrow> succeeded obs"
    using f unfolding finishes_def by blast
  have stop: "round_ok left run n (succeeded obs) x \<Longrightarrow> round_ok left run n (left w = 0) x" for n x
    using o(4) by (auto simp: round_ok_def split: prod.splits round.splits)
  let ?run = "observed_run run' obs"
  have seen: "exr_ID ?run = exr_ID run" "exr_TargetID ?run = exr_TargetID run" "proof_of_run ?run = proof_of_run run"
    "exr_Status ?run = exr_Status (classify run obs)"
    using same by (auto simp: observed_run_def classify_def Let_def proof_of_run_def [abs_def] fun_eq_iff split: option.split)
  have mine: "validate_observation_identity run' (obv_Proof obs) = Inr ()" "\<not> vanished obs"
    using o(3) same(3) by (auto simp: validate_observation_identity_def works_on_def vanished_def Let_def split: option.splits)
  have "round_ok left run (left w) (succeeded obs) (secrets_round env (exr_TargetID run) m ?run sent obs w1)"
  proof (cases "\<not> sent \<and> awaits_secrets obs")
    case True
    obtain vs w2 where r: "resolve_all env (sort (remdups (map ref_SecretID (man_Secrets m)))) w1 = (Inr vs, w2)" "left w2 \<le> left w1"
      using resolve_all_answers [OF a] by blast
    obtain w3 where s: "env_SendSecrets env (exr_TargetID run) (exr_ID run) vs w2 = (Inr (), w3)" "left w3 \<le> left w2"
      using answersD(6) [OF a] by blast
    have "for_each (\<lambda>r. reject_if (ref_SecretID r = []) (Err ''bundle contains empty secret id'')) (man_Secrets m) = Inr ()"
      using named by (simp add: result_simps)
    then have "secrets_round env (exr_TargetID run) m ?run sent obs w1 = close_round env ?run True obs w3"
      using True r s seen(1) by (simp add: secrets_round_def resolve_secrets_def)
    moreover have "left w3 \<le> left w" using r(2) s(2) o(2) by simp
    ultimately show ?thesis using close_round_progress [OF a o(3) _ seen] by simp
  next
    case False
    then have "secrets_round env (exr_TargetID run) m ?run sent obs w1 = close_round env ?run sent obs w1"
      by (auto simp: secrets_round_def)
    then show ?thesis using close_round_progress [OF a o(3) o(2) seen] by simp
  qed
  then show ?thesis using stop mine o(1) same(1) by (simp add: poll_round_def)
qed

lemma poll_succeeds:
  assumes a: "answers env left" and f: "finishes env left run" and named: "\<forall>r\<in>set (man_Secrets m). ref_SecretID r \<noteq> []"
    and same: "exr_ID run' = exr_ID run" "exr_TargetID run' = exr_TargetID run" "proof_of_run run' = proof_of_run run"
  shows "\<exists>r w'. poll env (exr_TargetID run) m run' sent w = Some ((r, Inr ()), w') \<and> exr_Status r = Success"
  using same
proof (induction "left w" arbitrary: w run' sent rule: less_induct)
  case less
  obtain res w' where c: "poll_round env (exr_TargetID run) m run' sent w = (res, w')" by (metis surj_pair)
  note good = poll_round_progress [OF a f named less.prems, of w sent, unfolded c]
  show ?case
  proof (cases res)
    case (Return r e)
    then show ?thesis using good by (subst poll.simps) (simp add: c round_ok_def)
  next
    case (Again r s)
    then have "left w' < left w" "proof_of_run r = proof_of_run run" "exr_ID r = exr_ID run" "exr_TargetID r = exr_TargetID run"
      using good by (auto simp: round_ok_def)
    from less.hyps [OF this(1,3,4,2), of s] show ?thesis by (subst poll.simps) (simp add: c Again)
  qed
qed

text \<open>
  C20: Where the target keeps working on every run of the bundle until it reports success, and nothing
  on the way fails, an execution of an acceptable bundle returns, without an error and with the status
  of a success.
\<close>

theorem execution_succeeds:
  assumes "validate_bundle tar_read decode target b = Inr m" "\<forall>r\<in>set (man_Secrets m). ref_SecretID r \<noteq> []"
    and "answers env left" "\<forall>i. finishes env left (new_run i target b m)"
  shows "\<exists>r w'. execute tar_read decode env target b w = Some ((r, Inr ()), w') \<and> exr_Status r = Success"
proof -
  obtain i w1 where n: "env_NewID env w = (Inr i, w1)" using answersD(1) [OF assms(3)] by blast
  obtain w2 where u: "env_Upload env target b w1 = (Inr (), w2)" using answersD(2) [OF assms(3)] by blast
  let ?run = "new_run i target b m"
  obtain w3 where r: "env_Register env ?run w2 = (Inr (), w3)" using answersD(3) [OF assms(3)] by blast
  obtain w4 where s: "env_Start env target (start_request_of i target b m) w3 = (Inr (), w4)"
    using answersD(4) [OF assms(3)] by blast
  have "exr_TargetID ?run = target" by (simp add: new_run_def)
  moreover have "proof_of_run (?run\<lparr>exr_Status := Running\<rparr>) = proof_of_run ?run" by (simp add: proof_of_run_def [abs_def])
  ultimately show ?thesis
    using poll_succeeds [OF assms(3) spec [OF assms(4)] assms(2), of "?run\<lparr>exr_Status := Running\<rparr>" i False w4] assms(1) n u r s
    by (simp add: execute_def)
qed

text \<open>A target that works for three poll intervals; the world counts the ones that are left.\<close>

definition working_env :: "nat exec_env" where
  "working_env =
     (sample_env (sample_proof [] Success ''done''))
       \<lparr>env_Observe := \<lambda>t i w. (Inr \<lparr>obv_Proof = Some (if w = 0 then sample_proof i Success ''done'' else sample_proof i Running ''awaiting-secrets''),
          obv_LockHeld = w > 0, obv_UnitRunning = False\<rparr>, w),
        env_Wait := \<lambda>w. (None, w - 1)\<rparr>"

lemma execution_succeeds_witness:
  "\<exists>r w'. execute sample_tar sample_decoder working_env ''target_1'' sample_bundle 3 = Some ((r, Inr ()), w') \<and> exr_Status r = Success"
proof (rule execution_succeeds [OF sample_validates, where left = "\<lambda>w. w"])
  show "\<forall>r\<in>set (man_Secrets sample_manifest). ref_SecretID r \<noteq> []" by (simp add: sample_secrets)
  show "answers working_env (\<lambda>w. w)" by (simp add: answers_def working_env_def sample_env_def)
  show "\<forall>i. finishes working_env (\<lambda>w. w) (new_run i ''target_1'' sample_bundle sample_manifest)"
    by (simp add: finishes_def working_env_def sample_env_def works_on_def succeeded_def proof_of_run_def new_run_def sample_proof_def)
qed

end
