(* ===== verification/Mgmt_Crypto.thy ===== *)
theory Mgmt_Crypto
  imports Module_Validate
begin

section \<open>Secret ciphertexts\<close>

text \<open>
  \<open>internal/managementstate/crypto.go\<close>. AES-GCM is a parameter: \<open>cry_Seal key nonce plain aad\<close> and
  \<open>cry_Open key nonce payload aad\<close> as documented for \<open>crypto/cipher\<close>, with its nonce size of 12 and
  overhead of 16 bytes. \<open>aes.NewCipher\<close> accepts keys of 16, 24 and 32 bytes. The random nonce, or
  the error of the random source, is an argument.
\<close>

record crypto =
  cry_Seal :: "bytes \<Rightarrow> bytes \<Rightarrow> bytes \<Rightarrow> bytes \<Rightarrow> bytes"
  cry_Open :: "bytes \<Rightarrow> bytes \<Rightarrow> bytes \<Rightarrow> bytes \<Rightarrow> bytes option"

definition nonce_size :: nat where "nonce_size = 12"
definition gcm_overhead :: nat where "gcm_overhead = 16"
definition secret_key_size :: nat where "secret_key_size = 32"
definition secret_format_version :: char where "secret_format_version = CHR 0x01"

definition aes_key_ok :: "bytes \<Rightarrow> bool" where
  "aes_key_ok key = (length key \<in> {16, 24, 32})"

definition secret_aad :: "bytes \<Rightarrow> bytes" where
  "secret_aad i = ''vpsmith-secret:v1:'' @ i"

definition encrypt_secret :: "crypto \<Rightarrow> bytes \<Rightarrow> bytes result \<Rightarrow> bytes \<Rightarrow> bytes \<Rightarrow> bytes result" where
  "encrypt_secret cry key nonce i plain =
     also_r (reject_if (\<not> aes_key_ok key)
       (Wrapf ''initialize secret cipher: %w'' [] (Errf ''crypto/aes: invalid key size'' [])))
    (bind_r (wrap_error ''generate secret nonce: %w'' [] nonce) (\<lambda>n.
     Inr (secret_format_version # n @ cry_Seal cry key n plain (secret_aad i))))"

definition decrypt_secret :: "crypto \<Rightarrow> bytes \<Rightarrow> bytes \<Rightarrow> bytes \<Rightarrow> bytes result" where
  "decrypt_secret cry key i ciphertext =
     also_r (checks
       [reject_if (ciphertext = [] \<or> hd ciphertext \<noteq> secret_format_version) (Err ''unsupported secret ciphertext format''),
        reject_if (\<not> aes_key_ok key) (Err ''initialize secret cipher''),
        reject_if (length ciphertext < 1 + nonce_size + gcm_overhead) (Err ''invalid secret ciphertext'')])
     (case cry_Open cry key (take nonce_size (tl ciphertext)) (drop nonce_size (tl ciphertext)) (secret_aad i) of
        None \<Rightarrow> Inl (Err ''secret authentication failed'')
      | Some plain \<Rightarrow> Inr plain)"

text \<open>What the documentation of AES-GCM promises of the two functions for a key that it accepts.\<close>

definition aead_ok :: "crypto \<Rightarrow> bool" where
  "aead_ok cry =
     (\<forall>key nonce plain aad. aes_key_ok key \<and> length nonce = nonce_size \<longrightarrow>
        length (cry_Seal cry key nonce plain aad) = length plain + gcm_overhead \<and>
        cry_Open cry key nonce (cry_Seal cry key nonce plain aad) aad = Some plain)"

lemma decrypt_encrypt:
  assumes "aead_ok cry" "encrypt_secret cry key (Inr n) i plain = Inr c" "length n = nonce_size"
  shows "decrypt_secret cry key i c = Inr plain"
proof -
  have key: "aes_key_ok key" and c: "c = secret_format_version # n @ cry_Seal cry key n plain (secret_aad i)"
    using assms(2) by (auto simp: encrypt_secret_def wrap_error_def result_simps)
  have seal: "length (cry_Seal cry key n plain (secret_aad i)) = length plain + gcm_overhead"
    "cry_Open cry key n (cry_Seal cry key n plain (secret_aad i)) (secret_aad i) = Some plain"
    using assms(1,3) key unfolding aead_ok_def by blast+
  show ?thesis using key seal assms(3) by (simp add: decrypt_secret_def c)
qed

end
