(* ===== verification/Mgmt_Store.thy ===== *)
theory Mgmt_Store
  imports Mgmt_Types Mgmt_Crypto
begin

section \<open>The store of the management state\<close>

text \<open>
  \<open>internal/managementstate/store.go\<close> with the operations of \<open>source_state.go\<close>,
  \<open>bootstrap_target.go\<close>, \<open>ssh_identity.go\<close>, \<open>ssh_identity_access.go\<close> and \<open>DeleteBackup\<close>. The
  database is a record of tables, a table a list of rows in the order of insertion. The columns
  \<open>desired_json\<close> and \<open>observed_json\<close> hold text. An SQL statement fails when the environment makes it
  fail (\<open>sql_faults\<close>, by statement and arguments) or when a constraint of the schema of
  \<open>migrations.go\<close> and \<open>source_migration.go\<close> is violated, and then changes nothing. The clock and
  the random identifiers are arguments.
\<close>

record target_row =
  trw_ID :: bytes
  trw_Address :: bytes
  trw_SSHUser :: bytes
  trw_SSHIdentitySecretID :: bytes
  trw_SSHHostKey :: bytes
  trw_SSHHostFingerprint :: bytes
  trw_SSHTrust :: trust_status
  trw_DesiredJSON :: bytes
  trw_ObservedJSON :: bytes

record secret_row =
  srw_ID :: bytes
  srw_Name :: bytes
  srw_Origin :: secret_origin
  srw_CreatedAt :: bytes
  srw_RotatedAt :: bytes
  srw_RotationCount :: int
  srw_Ciphertext :: "bytes option"

record db =
  db_Targets :: "target_row list"
  db_Secrets :: "secret_row list"
  db_Artifacts :: "source_artifact list"
  db_Workspaces :: "source_workspace list"
  db_Github :: "github_config option"
  db_Bundles :: "bundle_metadata list"
  db_Records :: "record_metadata list"
  db_Backups :: "backup_metadata list"

definition empty_db :: db where
  "empty_db =
     \<lparr>db_Targets = [], db_Secrets = [], db_Artifacts = [], db_Workspaces = [], db_Github = None, db_Bundles = [],
      db_Records = [], db_Backups = []\<rparr>"

type_synonym sql_faults = "string \<Rightarrow> bytes list \<Rightarrow> error option"

definition exec_sql :: "sql_faults \<Rightarrow> string \<Rightarrow> bytes list \<Rightarrow> 'a result \<Rightarrow> 'a result" where
  "exec_sql f stmt args r = (case f stmt args of Some e \<Rightarrow> Inl e | None \<Rightarrow> r)"

lemma exec_sql_Inr_iff [result_simps]: "exec_sql f stmt args r = Inr v \<longleftrightarrow> f stmt args = None \<and> r = Inr v"
  by (simp add: exec_sql_def split: option.split)

text \<open>A constraint of the schema.\<close>

definition constraint :: "bool \<Rightarrow> unit result" where
  "constraint b = reject_if (\<not> b) (Err ''constraint failed'')"

lemma constraint_Inr_iff [result_simps]: "constraint b = Inr u \<longleftrightarrow> b"
  by (simp add: constraint_def result_simps)

definition insert_row :: "('a \<Rightarrow> bytes) \<Rightarrow> 'a \<Rightarrow> 'a list \<Rightarrow> 'a list result" where
  "insert_row key r rows = also_r (constraint (key r \<notin> key ` set rows)) (Inr (rows @ [r]))"

lemma insert_row_Inr_iff [result_simps]:
  "insert_row key r rows = Inr rows' \<longleftrightarrow> key r \<notin> key ` set rows \<and> rows' = rows @ [r]"
  by (auto simp: insert_row_def result_simps)

text \<open>\<open>UPDATE \<dots> WHERE\<close> followed by \<open>requireOne\<close>.\<close>

definition require_one :: "bytes \<Rightarrow> nat \<Rightarrow> unit result" where
  "require_one name n = reject_if (n \<noteq> 1) (Errf ''%s does not exist'' [name])"

definition update_one :: "bytes \<Rightarrow> ('a \<Rightarrow> bool) \<Rightarrow> ('a \<Rightarrow> 'a) \<Rightarrow> 'a list \<Rightarrow> 'a list result" where
  "update_one name p g rows =
     also_r (require_one name (length (filter p rows))) (Inr (map (\<lambda>r. if p r then g r else r) rows))"

lemma update_one_Inr_iff [result_simps]:
  "update_one name p g rows = Inr rows' \<longleftrightarrow>
     length (filter p rows) = 1 \<and> rows' = map (\<lambda>r. if p r then g r else r) rows"
  by (auto simp: update_one_def require_one_def result_simps)

subsection \<open>Checks\<close>

definition require_secret :: "sql_faults \<Rightarrow> bytes \<Rightarrow> db \<Rightarrow> unit result" where
  "require_secret f i db =
     bind_r (wrap_error ''inspect secret reference: %w'' []
       (exec_sql f ''count secrets'' [i] (Inr (length (filter (\<lambda>s. srw_ID s = i) (db_Secrets db)))))) (\<lambda>n.
     reject_if (n \<noteq> 1) (Errf ''secret reference %s does not exist'' [i]))"

definition decoded_secret_ids :: "(bytes \<Rightarrow> desired_state result) \<Rightarrow> bytes \<Rightarrow> bytes list result" where
  "decoded_secret_ids decode raw =
     bind_r (wrap_error ''decode desired state: %w'' [] (decode raw)) (\<lambda>d.
     Inr (concat (map mds_SecretIDs (dst_Modules d))))"

text \<open>The loop over the desired states returns at the first row that mentions the secret.\<close>

fun desired_references :: "(bytes \<Rightarrow> desired_state result) \<Rightarrow> bytes \<Rightarrow> target_row list \<Rightarrow> bool result" where
  "desired_references decode i [] = Inr False"
| "desired_references decode i (t # ts) =
     bind_r (decoded_secret_ids decode (trw_DesiredJSON t)) (\<lambda>ids.
     if i \<in> set ids then Inr True else desired_references decode i ts)"

definition secret_referenced :: "(bytes \<Rightarrow> desired_state result) \<Rightarrow> sql_faults \<Rightarrow> bytes \<Rightarrow> db \<Rightarrow> bool result" where
  "secret_referenced decode f i db =
     bind_r (wrap_error ''inspect ssh secret references: %w'' []
       (exec_sql f ''count ssh identities'' [i] (Inr (\<exists>t\<in>set (db_Targets db). trw_SSHIdentitySecretID t = i)))) (\<lambda>ssh.
     if ssh then Inr True
     else bind_r (wrap_error ''inspect custom module github secret references: %w'' []
       (exec_sql f ''count github'' [i] (Inr (case db_Github db of Some c \<Rightarrow> ghc_PATSecretID c = i | None \<Rightarrow> False)))) (\<lambda>pat.
     if pat then Inr True
     else bind_r (wrap_error ''inspect desired secret references: %w'' [] (exec_sql f ''select desired'' [] (Inr ()))) (\<lambda>_.
       desired_references decode i (db_Targets db))))"

text \<open>The rows of \<open>SELECT id,ciphertext FROM secrets WHERE ciphertext IS NOT NULL\<close>.\<close>

definition set_secrets :: "db \<Rightarrow> (bytes \<times> bytes) list" where
  "set_secrets db =
     concat (map (\<lambda>s. case srw_Ciphertext s of None \<Rightarrow> [] | Some c \<Rightarrow> [(srw_ID s, c)]) (db_Secrets db))"

definition reject_known_secret_material :: "crypto \<Rightarrow> sql_faults \<Rightarrow> bytes \<Rightarrow> json \<Rightarrow> db \<Rightarrow> unit result" where
  "reject_known_secret_material cry f key j db =
     bind_r (wrap_error ''inspect secret material: %w'' [] (exec_sql f ''select secrets'' [] (Inr ()))) (\<lambda>_.
     for_each (\<lambda>(i, c).
       bind_r (wrap_error ''verify secret %s before domain write: %w'' [i] (decrypt_secret cry key i c)) (\<lambda>plain.
       reject_if (plain \<noteq> [] \<and> contains_str (json_encode j) plain)
         (Err ''domain write rejected because it contains secret material''))) (set_secrets db))"

definition target_texts :: "target_row \<Rightarrow> bytes list" where
  "target_texts t =
     [trw_Address t, trw_SSHUser t, trw_SSHHostKey t, trw_SSHHostFingerprint t, trw_DesiredJSON t, trw_ObservedJSON t]"

definition domain_texts :: "db \<Rightarrow> (string \<times> bytes list) list" where
  "domain_texts db =
     [(''select targets'', concat (map target_texts (db_Targets db))),
      (''select names'', map srw_Name (db_Secrets db)),
      (''select artifacts'', map (\<lambda>a. source_kind_text (sar_Kind a) @ sar_PackageID a @ sar_PackagePath a @ sar_Version a @
         sar_Commit a @ sar_SHA256 a @ sar_StorageRef a) (db_Artifacts db)),
      (''select workspaces'', map (\<lambda>w. source_kind_text (wsp_Kind w) @ wsp_PackageID w @ wsp_PackagePath w @
         wsp_BaseSourceID w @ wsp_BaseCommit w @ wsp_CurrentSHA256 w @ wsp_StorageRef w @ wsp_SynchronizedCommit w)
         (db_Workspaces db)),
      (''select github'', case db_Github db of None \<Rightarrow> [] | Some c \<Rightarrow> [ghc_Owner c @ ghc_Repository c @ ghc_Ref c]),
      (''select bundles'', map (\<lambda>b. bmd_Kind b @ bmd_Version b @ bmd_SHA256 b) (db_Bundles db)),
      (''select records'', map rmd_Outcome (db_Records db)),
      (''select backups'', map (\<lambda>b. bkm_LocationRef b @ bkm_SHA256 b) (db_Backups db))]"

definition assert_material_absent :: "sql_faults \<Rightarrow> bytes \<Rightarrow> db \<Rightarrow> unit result" where
  "assert_material_absent f material db =
     (if material = [] then Inr ()
      else for_each (\<lambda>(q, texts). exec_sql f q []
        (for_each (\<lambda>s. reject_if (contains_str s material)
           (Err ''secret value is already present in normal domain state'')) texts)) (domain_texts db))"

subsection \<open>Targets\<close>

record target_registration =
  trg_ID :: bytes
  trg_Address :: bytes
  trg_SSHUser :: bytes
  trg_SSHIdentitySecretID :: bytes
  trg_SSHHostKey :: bytes
  trg_SSHHostFingerprint :: bytes
  trg_SSHTrust :: trust_status

fun valid_trust :: "trust_status \<Rightarrow> bool" where
  "valid_trust (Other_Trust s) = False"
| "valid_trust t = True"

definition create_target :: "sql_faults \<Rightarrow> target_registration \<Rightarrow> db \<Rightarrow> db result" where
  "create_target f v db =
     (let trust = (if trg_SSHTrust v = Other_Trust [] then Trust_Unknown else trg_SSHTrust v) in
      also_r (checks
        [reject_if (trg_ID v = [] \<or> trim_space (trg_Address v) = [] \<or> trim_space (trg_SSHUser v) = [])
           (Err ''target id, address, and ssh user are required''),
         reject_if (\<not> valid_trust trust) (Err ''invalid ssh trust status''),
         if trg_SSHIdentitySecretID v \<noteq> [] then require_secret f (trg_SSHIdentitySecretID v) db else Inr ()])
      (bind_r (wrap_error ''create target %s: %w'' [trg_ID v] (exec_sql f ''insert target'' [trg_ID v]
         (insert_row trw_ID
           \<lparr>trw_ID = trg_ID v, trw_Address = trg_Address v, trw_SSHUser = trg_SSHUser v,
            trw_SSHIdentitySecretID = trg_SSHIdentitySecretID v, trw_SSHHostKey = trg_SSHHostKey v,
            trw_SSHHostFingerprint = trg_SSHHostFingerprint v, trw_SSHTrust = trust,
            trw_DesiredJSON = ''{}'', trw_ObservedJSON = ''{}''\<rparr> (db_Targets db)))) (\<lambda>rows.
       Inr (db\<lparr>db_Targets := rows\<rparr>))))"

definition create_pending_target :: "sql_faults \<Rightarrow> bytes \<Rightarrow> bytes \<Rightarrow> db \<Rightarrow> db result" where
  "create_pending_target f i user db =
     also_r (reject_if (i = [] \<or> trim_space user = []) (Err ''target id and ssh user are required''))
       (bind_r (wrap_error ''create pending target %s: %w'' [i] (exec_sql f ''insert target'' [i]
          (insert_row trw_ID
            \<lparr>trw_ID = i, trw_Address = [], trw_SSHUser = user, trw_SSHIdentitySecretID = [], trw_SSHHostKey = [],
             trw_SSHHostFingerprint = [], trw_SSHTrust = Trust_Unknown, trw_DesiredJSON = ''{}'',
             trw_ObservedJSON = ''{}''\<rparr> (db_Targets db)))) (\<lambda>rows.
        Inr (db\<lparr>db_Targets := rows\<rparr>)))"

definition update_target :: "sql_faults \<Rightarrow> string \<Rightarrow> string \<Rightarrow> bytes \<Rightarrow> (target_row \<Rightarrow> target_row) \<Rightarrow> db \<Rightarrow> db result" where
  "update_target f stmt failed i g db =
     bind_r (wrap_error failed [] (exec_sql f stmt [i] (Inr ()))) (\<lambda>_.
     bind_r (update_one ''target'' (\<lambda>t. trw_ID t = i) g (db_Targets db)) (\<lambda>rows.
     Inr (db\<lparr>db_Targets := rows\<rparr>)))"

definition set_target_address :: "sql_faults \<Rightarrow> bytes \<Rightarrow> bytes \<Rightarrow> db \<Rightarrow> db result" where
  "set_target_address f i address db =
     also_r (reject_if (trim_space address = []) (Err ''target address is required''))
       (update_target f ''update address'' ''set target address: %w'' i (\<lambda>t. t\<lparr>trw_Address := trim_space address\<rparr>) db)"

definition set_ssh_trust :: "crypto \<Rightarrow> sql_faults \<Rightarrow> bytes \<Rightarrow> bytes \<Rightarrow> bytes \<Rightarrow> bytes \<Rightarrow> trust_status \<Rightarrow> db \<Rightarrow> db result" where
  "set_ssh_trust cry f key i host_key fingerprint trust db =
     also_r (reject_if (\<not> valid_trust trust) (Err ''invalid ssh trust status''))
    (also_r (reject_known_secret_material cry f key
       (JObj [(''HostKey'', JStr host_key), (''Fingerprint'', JStr fingerprint)]) db)
     (update_target f ''update trust'' ''update target ssh trust: %w'' i
       (\<lambda>t. t\<lparr>trw_SSHHostKey := host_key, trw_SSHHostFingerprint := fingerprint, trw_SSHTrust := trust\<rparr>) db))"

definition set_ssh_identity :: "sql_faults \<Rightarrow> bytes \<Rightarrow> bytes \<Rightarrow> db \<Rightarrow> db result" where
  "set_ssh_identity f i secret db =
     also_r (reject_if (secret = []) (Err ''ssh identity secret id is required''))
    (also_r (require_secret f secret db)
     (update_target f ''update identity'' ''set target ssh identity: %w'' i
       (\<lambda>t. t\<lparr>trw_SSHIdentitySecretID := secret\<rparr>) db))"

definition ssh_identity_secret_id :: "sql_faults \<Rightarrow> bytes \<Rightarrow> db \<Rightarrow> bytes result" where
  "ssh_identity_secret_id f i db =
     bind_r (wrap_error ''read target ssh identity: %w'' [] (exec_sql f ''select identity'' [i] (Inr ()))) (\<lambda>_.
     case find (\<lambda>t. trw_ID t = i) (db_Targets db) of
       None \<Rightarrow> Inl (Err ''target does not exist'')
     | Some t \<Rightarrow> Inr (trw_SSHIdentitySecretID t))"

definition set_desired_state :: "crypto \<Rightarrow> sql_faults \<Rightarrow> bytes \<Rightarrow> bytes \<Rightarrow> desired_state \<Rightarrow> db \<Rightarrow> db result" where
  "set_desired_state cry f key i v db =
     also_r (validate_desired v)
    (also_r (for_each (\<lambda>m. for_each (\<lambda>s. require_secret f s db) (mds_SecretIDs m)) (dst_Modules v))
    (also_r (reject_known_secret_material cry f key (desired_json v) db)
     (update_target f ''update desired'' ''set desired state: %w'' i
       (\<lambda>t. t\<lparr>trw_DesiredJSON := json_encode (desired_json v)\<rparr>) db)))"

definition record_observed_state :: "crypto \<Rightarrow> sql_faults \<Rightarrow> bytes \<Rightarrow> bytes \<Rightarrow> target_observed \<Rightarrow> db \<Rightarrow> db result" where
  "record_observed_state cry f key i v db =
     also_r (reject_known_secret_material cry f key (observed_json v) db)
       (update_target f ''update observed'' ''record observed state: %w'' i
         (\<lambda>t. t\<lparr>trw_ObservedJSON := json_encode (observed_json v)\<rparr>) db)"

subsection \<open>Secrets\<close>

fun valid_origin :: "secret_origin \<Rightarrow> bool" where
  "valid_origin (Other_Origin s) = False"
| "valid_origin t = True"

definition create_secret ::
  "crypto \<Rightarrow> sql_faults \<Rightarrow> bytes \<Rightarrow> bytes result \<Rightarrow> bytes \<Rightarrow> bytes \<Rightarrow> secret_origin \<Rightarrow> db \<Rightarrow> (bytes \<times> db) result" where
  "create_secret cry f key new_id now name origin db =
     also_r (checks
       [reject_if (trim_space name = []) (Err ''secret name is required''),
        reject_if (\<not> valid_origin origin) (Err ''invalid secret origin'')])
    (bind_r new_id (\<lambda>i.
     also_r (reject_known_secret_material cry f key (JStr name) db)
    (bind_r (wrap_error ''create secret metadata: %w'' [] (exec_sql f ''insert secret'' [i]
       (insert_row srw_ID \<lparr>srw_ID = i, srw_Name = name, srw_Origin = origin, srw_CreatedAt = now, srw_RotatedAt = [],
          srw_RotationCount = 0, srw_Ciphertext = None\<rparr> (db_Secrets db)))) (\<lambda>rows.
     Inr (i, db\<lparr>db_Secrets := rows\<rparr>)))))"

definition set_secret ::
  "crypto \<Rightarrow> sql_faults \<Rightarrow> bytes \<Rightarrow> bytes result \<Rightarrow> bytes \<Rightarrow> bytes \<Rightarrow> db \<Rightarrow> db result" where
  "set_secret cry f key nonce i v db =
     also_r (reject_if (v = []) (Err ''secret value must not be empty''))
    (bind_r (wrap_error ''inspect secret: %w'' [] (exec_sql f ''count unset'' [i]
       (Inr (length (filter (\<lambda>s. srw_ID s = i \<and> srw_Ciphertext s = None) (db_Secrets db)))))) (\<lambda>n.
     also_r (reject_if (n \<noteq> 1) (Err ''secret is missing or already set; use rotate for an existing value''))
    (also_r (assert_material_absent f v db)
    (bind_r (encrypt_secret cry key nonce i v) (\<lambda>c.
     bind_r (wrap_error ''set secret: %w'' [] (exec_sql f ''update secret'' [i] (Inr ()))) (\<lambda>_.
     Inr (db\<lparr>db_Secrets := map (\<lambda>s. if srw_ID s = i then s\<lparr>srw_Ciphertext := Some c\<rparr> else s) (db_Secrets db)\<rparr>)))))))"

definition rotate_secret ::
  "crypto \<Rightarrow> sql_faults \<Rightarrow> bytes \<Rightarrow> bytes result \<Rightarrow> bytes \<Rightarrow> bytes \<Rightarrow> bytes \<Rightarrow> db \<Rightarrow> db result" where
  "rotate_secret cry f key nonce now i v db =
     also_r (reject_if (v = []) (Err ''secret value must not be empty''))
    (also_r (assert_material_absent f v db)
    (bind_r (encrypt_secret cry key nonce i v) (\<lambda>c.
     bind_r (wrap_error ''rotate secret: %w'' [] (exec_sql f ''rotate secret'' [i] (Inr ()))) (\<lambda>_.
     bind_r (update_one ''set secret'' (\<lambda>s. srw_ID s = i \<and> srw_Ciphertext s \<noteq> None)
       (\<lambda>s. s\<lparr>srw_Ciphertext := Some c, srw_RotatedAt := now, srw_RotationCount := srw_RotationCount s + 1\<rparr>)
       (db_Secrets db)) (\<lambda>rows.
     Inr (db\<lparr>db_Secrets := rows\<rparr>))))))"

definition delete_secret :: "(bytes \<Rightarrow> desired_state result) \<Rightarrow> sql_faults \<Rightarrow> bytes \<Rightarrow> db \<Rightarrow> db result" where
  "delete_secret decode f i db =
     bind_r (secret_referenced decode f i db) (\<lambda>referenced.
     also_r (reject_if referenced (Errf ''secret %s is still referenced'' [i]))
    (also_r (wrap_error ''delete secret: %w'' [] (exec_sql f ''delete secret'' [i]
       (constraint (case db_Github db of Some c \<Rightarrow> ghc_PATSecretID c \<noteq> i | None \<Rightarrow> True))))
    (also_r (require_one ''secret'' (length (filter (\<lambda>s. srw_ID s = i) (db_Secrets db))))
     (Inr (db\<lparr>db_Secrets := filter (\<lambda>s. srw_ID s \<noteq> i) (db_Secrets db)\<rparr>)))))"

text \<open>\<open>ResolveSecret\<close>: the error of the consumer is not passed on.\<close>

definition secret_value_of :: "crypto \<Rightarrow> sql_faults \<Rightarrow> bytes \<Rightarrow> bytes \<Rightarrow> db \<Rightarrow> bytes result" where
  "secret_value_of cry f key i db =
     bind_r (wrap_error ''read secret %s: %w'' [i] (exec_sql f ''select ciphertext'' [i] (Inr ()))) (\<lambda>_.
     case find (\<lambda>s. srw_ID s = i) (db_Secrets db) of
       None \<Rightarrow> Inl (Errf ''secret %s does not exist'' [i])
     | Some s \<Rightarrow>
         (case srw_Ciphertext s of
            None \<Rightarrow> Inl (Errf ''secret %s has no value'' [i])
          | Some c \<Rightarrow>
              if c = [] then Inl (Errf ''secret %s has no value'' [i])
              else wrap_error ''resolve secret %s: %w'' [i] (decrypt_secret cry key i c)))"

definition resolve_secret :: "crypto \<Rightarrow> sql_faults \<Rightarrow> bytes \<Rightarrow> bytes \<Rightarrow> (bytes \<Rightarrow> unit result) \<Rightarrow> db \<Rightarrow> unit result" where
  "resolve_secret cry f key i consume db =
     bind_r (secret_value_of cry f key i db) (\<lambda>plain.
     case consume plain of Inl e \<Rightarrow> Inl (Err ''secret consumer failed'') | Inr u \<Rightarrow> Inr ())"

subsection \<open>History and backups\<close>

definition append_execution_bundle ::
  "crypto \<Rightarrow> sql_faults \<Rightarrow> bytes \<Rightarrow> bytes \<Rightarrow> bundle_metadata \<Rightarrow> db \<Rightarrow> db result" where
  "append_execution_bundle cry f key now v0 db =
     also_r (reject_if (bmd_ID v0 = [] \<or> bmd_TargetID v0 = [] \<or> trim_space (bmd_Kind v0) = [] \<or>
         trim_space (bmd_Version v0) = [] \<or> trim_space (bmd_SHA256 v0) = []) (Err ''execution bundle metadata is incomplete''))
    (let v = (if bmd_CreatedAt v0 = [] then v0\<lparr>bmd_CreatedAt := now\<rparr> else v0) in
     also_r (reject_known_secret_material cry f key (bundle_metadata_json v) db)
    (bind_r (wrap_error ''append execution bundle: %w'' [] (exec_sql f ''insert bundle'' [bmd_ID v]
       (insert_row bmd_ID v (db_Bundles db)))) (\<lambda>rows.
     Inr (db\<lparr>db_Bundles := rows\<rparr>))))"

definition append_execution_record :: "crypto \<Rightarrow> sql_faults \<Rightarrow> bytes \<Rightarrow> record_metadata \<Rightarrow> db \<Rightarrow> db result" where
  "append_execution_record cry f key v db =
     also_r (reject_if (rmd_ID v = [] \<or> rmd_BundleID v = [] \<or> rmd_TargetID v = [] \<or> trim_space (rmd_Outcome v) = [] \<or>
         rmd_StartedAt v = []) (Err ''execution record metadata is incomplete''))
    (also_r (reject_known_secret_material cry f key (record_metadata_json v) db)
    (bind_r (wrap_error ''append execution record: %w'' [] (exec_sql f ''insert record'' [rmd_ID v]
       (also_r (constraint (rmd_BundleID v \<in> bmd_ID ` set (db_Bundles db))) (insert_row rmd_ID v (db_Records db))))) (\<lambda>rows.
     Inr (db\<lparr>db_Records := rows\<rparr>))))"

definition register_backup :: "crypto \<Rightarrow> sql_faults \<Rightarrow> bytes \<Rightarrow> bytes \<Rightarrow> backup_metadata \<Rightarrow> db \<Rightarrow> db result" where
  "register_backup cry f key now v0 db =
     also_r (checks
       [reject_if (bkm_ID v0 = [] \<or> bkm_TargetID v0 = [] \<or> \<not> valid_backup_type (bkm_Type v0))
          (Err ''backup artifact metadata is incomplete''),
        reject_if (bkm_Type v0 \<in> {Backup_Module, Backup_System_Restore_Point} \<and> bkm_ModuleInstanceID v0 = [])
          (Err ''module backup artifact requires module instance id'')])
    (let v = (if bkm_CreatedAt v0 = [] then v0\<lparr>bkm_CreatedAt := now\<rparr> else v0) in
     also_r (reject_known_secret_material cry f key (backup_metadata_json v) db)
    (bind_r (wrap_error ''register backup artifact: %w'' [] (exec_sql f ''insert backup'' [bkm_ID v]
       (insert_row bkm_ID v (db_Backups db)))) (\<lambda>rows.
     Inr (db\<lparr>db_Backups := rows\<rparr>))))"

definition delete_backup :: "sql_faults \<Rightarrow> bytes \<Rightarrow> db \<Rightarrow> db result" where
  "delete_backup f i db =
     also_r (reject_if (i = []) (Err ''backup artifact id is required''))
    (also_r (wrap_error ''delete backup artifact metadata: %w'' [] (exec_sql f ''delete backup'' [i] (Inr ())))
    (also_r (require_one ''backup artifact'' (length (filter (\<lambda>b. bkm_ID b = i) (db_Backups db))))
     (Inr (db\<lparr>db_Backups := filter (\<lambda>b. bkm_ID b \<noteq> i) (db_Backups db)\<rparr>))))"

subsection \<open>Sources\<close>

definition artifact_key :: "source_artifact \<Rightarrow> source_kind \<times> bytes \<times> bytes \<times> bytes" where
  "artifact_key a = (sar_Kind a, sar_PackageID a, sar_Commit a, sar_SHA256 a)"

definition insert_artifact :: "source_artifact \<Rightarrow> db \<Rightarrow> source_artifact list result" where
  "insert_artifact v db =
     also_r (constraint (artifact_key v \<notin> artifact_key ` set (db_Artifacts db))) (insert_row sar_ID v (db_Artifacts db))"

definition register_source_artifact :: "crypto \<Rightarrow> sql_faults \<Rightarrow> bytes \<Rightarrow> source_artifact \<Rightarrow> db \<Rightarrow> db result" where
  "register_source_artifact cry f key v db =
     also_r (checks
       [reject_if (sar_ID v = [] \<or> \<not> valid_source_kind (sar_Kind v) \<or> trim_space (sar_Version v) = [] \<or>
            trim_space (sar_SHA256 v) = [] \<or> trim_space (sar_StorageRef v) = [])
          (Err ''source artifact metadata is incomplete''),
        reject_if (sar_Kind v = Source_Custom_Module \<and>
            (sar_PackageID v = [] \<or> trim_space (sar_Commit v) = [] \<or> trim_space (sar_PackagePath v) = []))
          (Err ''custom module source requires package id, package path, and commit''),
        reject_if (sar_Kind v \<noteq> Source_Custom_Module \<and> sar_PackageID v \<noteq> [])
          (Err ''only custom module source may carry package id''),
        reject_known_secret_material cry f key (source_artifact_json v) db])
    (bind_r (wrap_error ''register immutable source artifact: %w'' [] (exec_sql f ''insert artifact'' [sar_ID v]
       (insert_artifact v db))) (\<lambda>rows.
     Inr (db\<lparr>db_Artifacts := rows\<rparr>)))"

definition create_source_workspace :: "crypto \<Rightarrow> sql_faults \<Rightarrow> bytes \<Rightarrow> source_workspace \<Rightarrow> db \<Rightarrow> db result" where
  "create_source_workspace cry f key v db =
     also_r (checks
       [reject_if (wsp_ID v = [] \<or> \<not> valid_source_kind (wsp_Kind v) \<or> wsp_BaseSourceID v = [] \<or>
            trim_space (wsp_CurrentSHA256 v) = [] \<or> trim_space (wsp_StorageRef v) = [])
          (Err ''source workspace metadata is incomplete''),
        reject_if (wsp_Kind v = Source_Custom_Module \<and>
            (wsp_PackageID v = [] \<or> trim_space (wsp_BaseCommit v) = [] \<or> trim_space (wsp_PackagePath v) = []))
          (Err ''custom module workspace requires package id, package path, and base commit'')])
    (bind_r (exec_sql f ''count base'' [wsp_BaseSourceID v]
       (Inr (length (filter (\<lambda>a. sar_ID a = wsp_BaseSourceID v \<and> sar_Kind a = wsp_Kind v) (db_Artifacts db))))) (\<lambda>n.
     also_r (reject_if (n \<noteq> 1) (Err ''workspace base source does not exist or has different kind''))
    (also_r (reject_known_secret_material cry f key (source_workspace_json v) db)
    (bind_r (wrap_error ''create source workspace: %w'' [] (exec_sql f ''insert workspace'' [wsp_ID v]
       (also_r (constraint (wsp_BaseSourceID v \<in> sar_ID ` set (db_Artifacts db)))
         (insert_row wsp_ID v (db_Workspaces db))))) (\<lambda>rows.
     Inr (db\<lparr>db_Workspaces := rows\<rparr>))))))"

definition update_workspace_current :: "sql_faults \<Rightarrow> bytes \<Rightarrow> bytes \<Rightarrow> db \<Rightarrow> db result" where
  "update_workspace_current f i sha db =
     also_r (reject_if (trim_space sha = []) (Err ''workspace sha256 is required''))
    (bind_r (wrap_error ''update source workspace: %w'' [] (exec_sql f ''update workspace'' [i] (Inr ()))) (\<lambda>_.
     bind_r (update_one ''source workspace'' (\<lambda>w. wsp_ID w = i)
       (\<lambda>w. w\<lparr>wsp_CurrentSHA256 := sha, wsp_SynchronizedCommit := []\<rparr>) (db_Workspaces db)) (\<lambda>rows.
     Inr (db\<lparr>db_Workspaces := rows\<rparr>))))"

definition mark_workspace_synchronized :: "sql_faults \<Rightarrow> bytes \<Rightarrow> bytes \<Rightarrow> bytes \<Rightarrow> db \<Rightarrow> db result" where
  "mark_workspace_synchronized f i commit sha db =
     also_r (reject_if (trim_space commit = [] \<or> trim_space sha = [])
       (Err ''synchronized commit and sha256 are required''))
    (bind_r (wrap_error ''mark source workspace synchronized: %w'' [] (exec_sql f ''mark workspace'' [i] (Inr ()))) (\<lambda>_.
     bind_r (update_one ''source workspace'' (\<lambda>w. wsp_ID w = i)
       (\<lambda>w. w\<lparr>wsp_SynchronizedCommit := commit, wsp_CurrentSHA256 := sha\<rparr>) (db_Workspaces db)) (\<lambda>rows.
     Inr (db\<lparr>db_Workspaces := rows\<rparr>))))"

definition configure_github :: "crypto \<Rightarrow> sql_faults \<Rightarrow> bytes \<Rightarrow> github_config \<Rightarrow> db \<Rightarrow> db result" where
  "configure_github cry f key v db =
     also_r (checks
       [reject_if (trim_space (ghc_Owner v) = [] \<or> trim_space (ghc_Repository v) = [] \<or> trim_space (ghc_Ref v) = [] \<or>
            ghc_PATSecretID v = []) (Err ''custom module github configuration is incomplete''),
        require_secret f (ghc_PATSecretID v) db,
        reject_known_secret_material cry f key (github_json v) db,
        wrap_error ''configure custom module github: %w'' [] (exec_sql f ''upsert github'' [ghc_PATSecretID v]
          (constraint (ghc_PATSecretID v \<in> srw_ID ` set (db_Secrets db))))])
     (Inr (db\<lparr>db_Github := Some v\<rparr>))"

subsection \<open>A change\<close>

text \<open>
  \<open>Change\<close>: the function runs inside a transaction and may do anything with the open change,
  including to go on after an error; its writes are kept only when it returns no error and the
  commit succeeds.
\<close>

definition change :: "sql_faults \<Rightarrow> (db \<Rightarrow> unit result \<times> db) \<Rightarrow> db \<Rightarrow> unit result \<times> db" where
  "change f fn db =
     (case f ''BEGIN IMMEDIATE'' [] of
        Some e \<Rightarrow> (Inl (Wrapf ''begin management-state change: %w'' [] e), db)
      | None \<Rightarrow>
          (case fn db of
             (Inl e, db') \<Rightarrow> (Inl (Wrapf ''management-state change aborted: %w'' [] e), db)
           | (Inr u, db') \<Rightarrow>
               (case f ''COMMIT'' [] of
                  Some e \<Rightarrow> (Inl (Wrapf ''commit management-state change: %w'' [] e), db)
                | None \<Rightarrow> (Inr (), db'))))"

text \<open>A change that consists of one operation.\<close>

definition op :: "(db \<Rightarrow> db result) \<Rightarrow> db \<Rightarrow> unit result \<times> db" where
  "op g db = (case g db of Inl e \<Rightarrow> (Inl e, db) | Inr db' \<Rightarrow> (Inr (), db'))"

end
