(* ===== verification/Mgmt_Ops.thy ===== *)
theory Mgmt_Ops
  imports Mgmt_Store
begin

section \<open>Changes as programs of operations\<close>

text \<open>
  What a caller of \<open>Store.Change\<close> may do: a program that performs operations of the open change,
  looks at the tables, goes on after an error or gives up. \<open>db_effect\<close> is the abstract machine of
  the store: the ways in which one operation may alter the tables. The last lemma of the theory is
  the simulation: every operation of \<open>Mgmt_Store\<close> that succeeds is such an effect.
\<close>

definition new_id :: "bytes \<Rightarrow> bytes result \<Rightarrow> bytes result" where
  "new_id prefix raw =
     bind_r (wrap_error ''generate %s id: %w'' [prefix] raw) (\<lambda>r. Inr (prefix @ ''_'' @ hex_encode r))"

datatype mgmt_op =
    Create_Target target_registration
  | Create_Pending bytes bytes
  | Set_Address bytes bytes
  | Set_Trust bytes bytes bytes trust_status
  | Set_Identity bytes bytes
  | Read_Identity bytes
  | Set_Desired bytes desired_state
  | Record_Observed bytes target_observed
  | Create_Secret "bytes result" bytes bytes secret_origin
  | Set_Secret "bytes result" bytes bytes
  | Rotate_Secret "bytes result" bytes bytes bytes
  | Delete_Secret bytes
  | Append_Bundle bytes bundle_metadata
  | Append_Record record_metadata
  | Register_Backup bytes backup_metadata
  | Delete_Backup bytes
  | Register_Artifact source_artifact
  | Create_Workspace source_workspace
  | Update_Workspace bytes bytes
  | Mark_Workspace bytes bytes bytes
  | Configure_Github github_config

definition written :: "db result \<Rightarrow> (bytes \<times> db) result" where
  "written r = bind_r r (\<lambda>db. Inr ([], db))"

lemma written_Inr_iff [result_simps]: "written r = Inr (x, db) \<longleftrightarrow> r = Inr db \<and> x = []"
  by (auto simp: written_def result_simps)

text \<open>An operation gives the identifier it returns, or the empty string, and the tables after it.\<close>

fun run_op ::
  "crypto \<Rightarrow> (bytes \<Rightarrow> desired_state result) \<Rightarrow> bytes \<Rightarrow> sql_faults \<Rightarrow> mgmt_op \<Rightarrow> db \<Rightarrow> (bytes \<times> db) result" where
  "run_op cry decode key f (Create_Target v) db = written (create_target f v db)"
| "run_op cry decode key f (Create_Pending i user) db = written (create_pending_target f i user db)"
| "run_op cry decode key f (Set_Address i a) db = written (set_target_address f i a db)"
| "run_op cry decode key f (Set_Trust i hk fp tr) db = written (set_ssh_trust cry f key i hk fp tr db)"
| "run_op cry decode key f (Set_Identity i s) db = written (set_ssh_identity f i s db)"
| "run_op cry decode key f (Read_Identity i) db = bind_r (ssh_identity_secret_id f i db) (\<lambda>s. Inr (s, db))"
| "run_op cry decode key f (Set_Desired i d) db = written (set_desired_state cry f key i d db)"
| "run_op cry decode key f (Record_Observed i v) db = written (record_observed_state cry f key i v db)"
| "run_op cry decode key f (Create_Secret raw now name origin) db =
     create_secret cry f key (new_id ''secret'' raw) now name origin db"
| "run_op cry decode key f (Set_Secret nonce i v) db = written (set_secret cry f key nonce i v db)"
| "run_op cry decode key f (Rotate_Secret nonce now i v) db = written (rotate_secret cry f key nonce now i v db)"
| "run_op cry decode key f (Delete_Secret i) db = written (delete_secret decode f i db)"
| "run_op cry decode key f (Append_Bundle now v) db = written (append_execution_bundle cry f key now v db)"
| "run_op cry decode key f (Append_Record v) db = written (append_execution_record cry f key v db)"
| "run_op cry decode key f (Register_Backup now v) db = written (register_backup cry f key now v db)"
| "run_op cry decode key f (Delete_Backup i) db = written (delete_backup f i db)"
| "run_op cry decode key f (Register_Artifact v) db = written (register_source_artifact cry f key v db)"
| "run_op cry decode key f (Create_Workspace v) db = written (create_source_workspace cry f key v db)"
| "run_op cry decode key f (Update_Workspace i sha) db = written (update_workspace_current f i sha db)"
| "run_op cry decode key f (Mark_Workspace i commit sha) db = written (mark_workspace_synchronized f i commit sha db)"
| "run_op cry decode key f (Configure_Github v) db = written (configure_github cry f key v db)"

datatype mgmt_prog =
    Finish "unit result"
  | Perform mgmt_op "bytes result \<Rightarrow> mgmt_prog"
  | Look "db \<Rightarrow> mgmt_prog"

primrec run_prog ::
  "crypto \<Rightarrow> (bytes \<Rightarrow> desired_state result) \<Rightarrow> bytes \<Rightarrow> sql_faults \<Rightarrow> mgmt_prog \<Rightarrow> db \<Rightarrow> unit result \<times> db" where
  "run_prog cry decode key f (Finish r) = (\<lambda>db. (r, db))"
| "run_prog cry decode key f (Perform a k) = (\<lambda>db.
     case run_op cry decode key f a db of
       Inl e \<Rightarrow> run_prog cry decode key f (k (Inl e)) db
     | Inr (r, db') \<Rightarrow> run_prog cry decode key f (k (Inr r)) db')"
| "run_prog cry decode key f (Look k) = (\<lambda>db. run_prog cry decode key f (k db) db)"

text \<open>
  What the environment of an operation promises: a random source that fills the buffer it is
  given, and desired states from a set \<open>D\<close> on which \<open>json.Unmarshal\<close> inverts \<open>json.Marshal\<close>
  (\<open>decodes\<close>; the states whose strings are valid UTF-8 are such a set).
\<close>

definition decodes :: "(bytes \<Rightarrow> desired_state result) \<Rightarrow> desired_state set \<Rightarrow> bool" where
  "decodes decode D = (\<forall>d\<in>D. decode (json_encode (desired_json d)) = Inr d)"

fun op_ok :: "desired_state set \<Rightarrow> mgmt_op \<Rightarrow> bool" where
  "op_ok D (Set_Desired i d) = (d \<in> D)"
| "op_ok D (Set_Secret nonce i v) = (case nonce of Inl e \<Rightarrow> True | Inr n \<Rightarrow> length n = nonce_size)"
| "op_ok D (Rotate_Secret nonce now i v) = (case nonce of Inl e \<Rightarrow> True | Inr n \<Rightarrow> length n = nonce_size)"
| "op_ok D a = True"

inductive prog_ok :: "desired_state set \<Rightarrow> mgmt_prog \<Rightarrow> bool" for D where
  prog_finish: "prog_ok D (Finish r)"
| prog_perform: "op_ok D a \<Longrightarrow> (\<And>r. prog_ok D (k r)) \<Longrightarrow> prog_ok D (Perform a k)"
| prog_look: "(\<And>db. prog_ok D (k db)) \<Longrightarrow> prog_ok D (Look k)"

inductive_cases prog_performE: "prog_ok D (Perform a k)"
inductive_cases prog_lookE: "prog_ok D (Look k)"

subsection \<open>The abstract machine\<close>

definition secret_ids :: "db \<Rightarrow> bytes set" where
  "secret_ids db = srw_ID ` set (db_Secrets db)"

definition desired_secret_ids :: "desired_state \<Rightarrow> bytes list" where
  "desired_secret_ids d = concat (map mds_SecretIDs (dst_Modules d))"

definition domain_text_set :: "db \<Rightarrow> bytes set" where
  "domain_text_set db = (\<Union>p\<in>set (domain_texts db). set (snd p))"

text \<open>A text holds the value of no secret that is set.\<close>

definition clean_text :: "crypto \<Rightarrow> bytes \<Rightarrow> db \<Rightarrow> bytes \<Rightarrow> bool" where
  "clean_text cry key db s =
     (\<forall>(i, c)\<in>set (set_secrets db). \<forall>plain. decrypt_secret cry key i c = Inr plain \<longrightarrow> plain \<noteq> [] \<longrightarrow>
        \<not> contains_str s plain)"

text \<open>What an update of a target row may do.\<close>

definition row_update_ok ::
  "crypto \<Rightarrow> bytes \<Rightarrow> desired_state set \<Rightarrow> db \<Rightarrow> target_row \<Rightarrow> target_row \<Rightarrow> bool" where
  "row_update_ok cry key D db t t' =
     (trw_ID t' = trw_ID t \<and>
      (trw_SSHTrust t' = trw_SSHTrust t \<or> valid_trust (trw_SSHTrust t')) \<and>
      (trw_SSHIdentitySecretID t' = trw_SSHIdentitySecretID t \<or> trw_SSHIdentitySecretID t' \<in> secret_ids db) \<and>
      (trw_DesiredJSON t' = trw_DesiredJSON t \<or>
        (\<exists>d\<in>D. desired_ok d \<and> set (desired_secret_ids d) \<subseteq> secret_ids db \<and>
           trw_DesiredJSON t' = json_encode (desired_json d) \<and> clean_text cry key db (trw_DesiredJSON t'))) \<and>
      (trw_ObservedJSON t' = trw_ObservedJSON t \<or> clean_text cry key db (trw_ObservedJSON t')))"

inductive db_effect :: "crypto \<Rightarrow> (bytes \<Rightarrow> desired_state result) \<Rightarrow> bytes \<Rightarrow> desired_state set \<Rightarrow> db \<Rightarrow> db \<Rightarrow> bool"
  for cry decode key D db where
  eff_none: "db_effect cry decode key D db db"
| eff_target_new:
    "trw_ID t \<notin> trw_ID ` set (db_Targets db) \<Longrightarrow> trw_ID t \<noteq> [] \<Longrightarrow> valid_trust (trw_SSHTrust t) \<Longrightarrow>
     trw_SSHIdentitySecretID t \<in> insert [] (secret_ids db) \<Longrightarrow> trw_DesiredJSON t = ''{}'' \<Longrightarrow>
     trw_ObservedJSON t = ''{}'' \<Longrightarrow>
     db_effect cry decode key D db (db\<lparr>db_Targets := db_Targets db @ [t]\<rparr>)"
| eff_target_update:
    "(\<And>t. t \<in> set (db_Targets db) \<Longrightarrow> row_update_ok cry key D db t (g t)) \<Longrightarrow>
     db_effect cry decode key D db (db\<lparr>db_Targets := map g (db_Targets db)\<rparr>)"
| eff_secret_new:
    "srw_ID s \<notin> secret_ids db \<Longrightarrow> srw_ID s \<noteq> [] \<Longrightarrow> valid_origin (srw_Origin s) \<Longrightarrow> srw_RotationCount s = 0 \<Longrightarrow>
     srw_Ciphertext s = None \<Longrightarrow>
     db_effect cry decode key D db (db\<lparr>db_Secrets := db_Secrets db @ [s]\<rparr>)"
| eff_secret_seal:
    "encrypt_secret cry key (Inr n) i v = Inr c \<Longrightarrow> length n = nonce_size \<Longrightarrow> v \<noteq> [] \<Longrightarrow>
     (\<And>s. s \<in> domain_text_set db \<Longrightarrow> \<not> contains_str s v) \<Longrightarrow>
     (\<And>s. srw_ID (g s) = srw_ID s \<and> srw_Origin (g s) = srw_Origin s \<and> srw_Ciphertext (g s) = Some c \<and>
        srw_RotationCount s \<le> srw_RotationCount (g s)) \<Longrightarrow>
     db_effect cry decode key D db
       (db\<lparr>db_Secrets := map (\<lambda>s. if srw_ID s = i then g s else s) (db_Secrets db)\<rparr>)"
| eff_secret_delete:
    "(\<And>t. t \<in> set (db_Targets db) \<Longrightarrow> trw_SSHIdentitySecretID t \<noteq> i) \<Longrightarrow>
     (\<And>c. db_Github db = Some c \<Longrightarrow> ghc_PATSecretID c \<noteq> i) \<Longrightarrow>
     (\<And>t. t \<in> set (db_Targets db) \<Longrightarrow> \<exists>d. decode (trw_DesiredJSON t) = Inr d \<and> i \<notin> set (desired_secret_ids d)) \<Longrightarrow>
     db_effect cry decode key D db (db\<lparr>db_Secrets := filter (\<lambda>s. srw_ID s \<noteq> i) (db_Secrets db)\<rparr>)"
| eff_bundle:
    "bmd_ID v \<notin> bmd_ID ` set (db_Bundles db) \<Longrightarrow> bmd_ID v \<noteq> [] \<Longrightarrow>
     db_effect cry decode key D db (db\<lparr>db_Bundles := db_Bundles db @ [v]\<rparr>)"
| eff_record:
    "rmd_ID v \<notin> rmd_ID ` set (db_Records db) \<Longrightarrow> rmd_ID v \<noteq> [] \<Longrightarrow> rmd_BundleID v \<in> bmd_ID ` set (db_Bundles db) \<Longrightarrow>
     db_effect cry decode key D db (db\<lparr>db_Records := db_Records db @ [v]\<rparr>)"
| eff_backup:
    "bkm_ID v \<notin> bkm_ID ` set (db_Backups db) \<Longrightarrow> bkm_ID v \<noteq> [] \<Longrightarrow> valid_backup_type (bkm_Type v) \<Longrightarrow>
     (bkm_Type v \<in> {Backup_Module, Backup_System_Restore_Point} \<Longrightarrow> bkm_ModuleInstanceID v \<noteq> []) \<Longrightarrow>
     db_effect cry decode key D db (db\<lparr>db_Backups := db_Backups db @ [v]\<rparr>)"
| eff_backup_delete:
    "db_effect cry decode key D db (db\<lparr>db_Backups := filter (\<lambda>b. bkm_ID b \<noteq> i) (db_Backups db)\<rparr>)"
| eff_artifact:
    "sar_ID v \<notin> sar_ID ` set (db_Artifacts db) \<Longrightarrow> artifact_key v \<notin> artifact_key ` set (db_Artifacts db) \<Longrightarrow>
     valid_source_kind (sar_Kind v) \<Longrightarrow> (sar_Kind v = Source_Custom_Module \<longleftrightarrow> sar_PackageID v \<noteq> []) \<Longrightarrow>
     db_effect cry decode key D db (db\<lparr>db_Artifacts := db_Artifacts db @ [v]\<rparr>)"
| eff_workspace:
    "wsp_ID v \<notin> wsp_ID ` set (db_Workspaces db) \<Longrightarrow>
     (wsp_BaseSourceID v, wsp_Kind v) \<in> (\<lambda>a. (sar_ID a, sar_Kind a)) ` set (db_Artifacts db) \<Longrightarrow>
     db_effect cry decode key D db (db\<lparr>db_Workspaces := db_Workspaces db @ [v]\<rparr>)"
| eff_workspace_update:
    "db_effect cry decode key D db
       (db\<lparr>db_Workspaces := map (\<lambda>w. if wsp_ID w = i then w\<lparr>wsp_CurrentSHA256 := sha, wsp_SynchronizedCommit := commit\<rparr> else w)
          (db_Workspaces db)\<rparr>)"
| eff_github:
    "ghc_PATSecretID v \<in> secret_ids db \<Longrightarrow> db_effect cry decode key D db (db\<lparr>db_Github := Some v\<rparr>)"

subsection \<open>The operations are effects\<close>

lemma wrap_error_Inr [simp]: "wrap_error fmt args (Inr v) = Inr v"
  by (simp add: wrap_error_def)

lemma require_secret_known: "require_secret f i db = Inr u \<Longrightarrow> i \<in> secret_ids db"
proof -
  assume "require_secret f i db = Inr u"
  then have "length (filter (\<lambda>s. srw_ID s = i) (db_Secrets db)) = 1"
    by (auto simp: require_secret_def result_simps)
  then have "filter (\<lambda>s. srw_ID s = i) (db_Secrets db) \<noteq> []" by auto
  then show ?thesis by (auto simp: secret_ids_def filter_empty_conv)
qed

lemma reject_clean:
  "reject_known_secret_material cry f key j db = Inr u \<Longrightarrow> clean_text cry key db (json_encode j)"
  by (auto simp: reject_known_secret_material_def clean_text_def result_simps)

lemma material_absent:
  "assert_material_absent f v db = Inr u \<Longrightarrow> v \<noteq> [] \<Longrightarrow> s \<in> domain_text_set db \<Longrightarrow> \<not> contains_str s v"
  by (fastforce simp: assert_material_absent_def domain_text_set_def result_simps)

lemma target_update_effect:
  assumes "update_target f stmt failed i g db = Inr db'"
    and "\<And>t. t \<in> set (db_Targets db) \<Longrightarrow> row_update_ok cry key D db t (g t)"
  shows "db_effect cry decode key D db db'"
proof -
  have "db' = db\<lparr>db_Targets := map (\<lambda>t. if trw_ID t = i then g t else t) (db_Targets db)\<rparr>"
    using assms(1) by (auto simp: update_target_def result_simps)
  moreover have "row_update_ok cry key D db t (if trw_ID t = i then g t else t)" if "t \<in> set (db_Targets db)" for t
    using assms(2) [OF that] by (simp add: row_update_ok_def)
  ultimately show ?thesis
    using eff_target_update [where g = "\<lambda>t. if trw_ID t = i then g t else t"] by simp
qed

lemma create_target_effect:
  assumes "create_target f v db = Inr db'"
  shows "db_effect cry decode key D db db'"
proof -
  define trust where "trust = (if trg_SSHTrust v = Other_Trust [] then Trust_Unknown else trg_SSHTrust v)"
  have v: "trg_ID v \<noteq> []" "valid_trust trust" "trg_ID v \<notin> trw_ID ` set (db_Targets db)"
    and identity: "trg_SSHIdentitySecretID v \<noteq> [] \<Longrightarrow> require_secret f (trg_SSHIdentitySecretID v) db = Inr ()"
    and db': "db' = db\<lparr>db_Targets := db_Targets db @ [\<lparr>trw_ID = trg_ID v, trw_Address = trg_Address v,
      trw_SSHUser = trg_SSHUser v, trw_SSHIdentitySecretID = trg_SSHIdentitySecretID v, trw_SSHHostKey = trg_SSHHostKey v,
      trw_SSHHostFingerprint = trg_SSHHostFingerprint v, trw_SSHTrust = trust, trw_DesiredJSON = ''{}'',
      trw_ObservedJSON = ''{}''\<rparr>]\<rparr>"
    using assms by (auto simp: create_target_def Let_def trust_def [symmetric] result_simps split: if_splits)
  show ?thesis unfolding db'
    by (rule eff_target_new) (use v identity in \<open>auto dest: require_secret_known\<close>)
qed

lemma create_pending_effect:
  assumes "create_pending_target f i user db = Inr db'"
  shows "db_effect cry decode key D db db'"
  using assms by (auto simp: create_pending_target_def result_simps intro!: eff_target_new)

lemma create_secret_effect:
  assumes "create_secret cry f key (new_id ''secret'' raw) now name origin db = Inr (i, db')"
  shows "db_effect cry decode key D db db'" "i \<notin> secret_ids db"
    "db_Secrets db' = db_Secrets db @ [\<lparr>srw_ID = i, srw_Name = name, srw_Origin = origin, srw_CreatedAt = now,
       srw_RotatedAt = [], srw_RotationCount = 0, srw_Ciphertext = None\<rparr>]"
proof -
  have new: "i \<notin> srw_ID ` set (db_Secrets db)" "valid_origin origin" "i \<noteq> []"
    and db': "db' = db\<lparr>db_Secrets := db_Secrets db @ [\<lparr>srw_ID = i, srw_Name = name, srw_Origin = origin,
      srw_CreatedAt = now, srw_RotatedAt = [], srw_RotationCount = 0, srw_Ciphertext = None\<rparr>]\<rparr>"
    using assms by (auto simp: create_secret_def new_id_def result_simps)
  show "db_effect cry decode key D db db'"
    unfolding db' by (rule eff_secret_new) (use new in \<open>auto simp: secret_ids_def\<close>)
  show "i \<notin> secret_ids db" using new by (simp add: secret_ids_def)
  show "db_Secrets db' = db_Secrets db @ [\<lparr>srw_ID = i, srw_Name = name, srw_Origin = origin, srw_CreatedAt = now,
       srw_RotatedAt = [], srw_RotationCount = 0, srw_Ciphertext = None\<rparr>]"
    by (simp add: db')
qed

lemma encrypt_nonce:
  "encrypt_secret cry key nonce i v = Inr c \<Longrightarrow> \<exists>n. nonce = Inr n"
  by (auto simp: encrypt_secret_def wrap_error_def result_simps split: sum.splits)

lemma set_secret_cases:
  assumes "set_secret cry f key nonce i v db = Inr db'"
  obtains c where "encrypt_secret cry key nonce i v = Inr c" "v \<noteq> []"
    "length (filter (\<lambda>s. srw_ID s = i \<and> srw_Ciphertext s = None) (db_Secrets db)) = 1"
    "assert_material_absent f v db = Inr ()"
    "db' = db\<lparr>db_Secrets := map (\<lambda>s. if srw_ID s = i then s\<lparr>srw_Ciphertext := Some c\<rparr> else s) (db_Secrets db)\<rparr>"
  using assms by (auto simp: set_secret_def result_simps)

lemma rotate_secret_cases:
  assumes "rotate_secret cry f key nonce now i v db = Inr db'"
  obtains c where "encrypt_secret cry key nonce i v = Inr c" "v \<noteq> []"
    "length (filter (\<lambda>s. srw_ID s = i \<and> srw_Ciphertext s \<noteq> None) (db_Secrets db)) = 1"
    "assert_material_absent f v db = Inr ()"
    "db' = db\<lparr>db_Secrets := map (\<lambda>s. if srw_ID s = i \<and> srw_Ciphertext s \<noteq> None
       then s\<lparr>srw_Ciphertext := Some c, srw_RotatedAt := now, srw_RotationCount := srw_RotationCount s + 1\<rparr> else s)
       (db_Secrets db)\<rparr>"
  using assms unfolding rotate_secret_def result_simps by (elim exE conjE) (rule that, assumption+, simp only: sum.inject)

lemma same_key_same:
  "distinct (map k xs) \<Longrightarrow> x \<in> set xs \<Longrightarrow> y \<in> set xs \<Longrightarrow> k y = k x \<Longrightarrow> y = x"
  by (auto simp: distinct_map dest: inj_onD)

lemma set_secret_effect:
  assumes "set_secret cry f key nonce i v db = Inr db'" "op_ok D (Set_Secret nonce i v)"
  shows "db_effect cry decode key D db db'"
  using assms(1)
proof (rule set_secret_cases)
  fix c
  assume c: "encrypt_secret cry key nonce i v = Inr c" "v \<noteq> []"
    and absent: "assert_material_absent f v db = Inr ()"
    and db': "db' = db\<lparr>db_Secrets := map (\<lambda>s. if srw_ID s = i then s\<lparr>srw_Ciphertext := Some c\<rparr> else s) (db_Secrets db)\<rparr>"
  obtain n where n: "nonce = Inr n" using encrypt_nonce [OF c(1)] by blast
  show ?thesis unfolding db'
    by (rule eff_secret_seal [OF c(1) [unfolded n]]) (use c n assms(2) material_absent [OF absent c(2)] in auto)
qed

lemma rotate_secret_effect:
  assumes "rotate_secret cry f key nonce now i v db = Inr db'" "op_ok D (Rotate_Secret nonce now i v)"
    and "distinct (map srw_ID (db_Secrets db))"
  shows "db_effect cry decode key D db db'"
  using assms(1)
proof (rule rotate_secret_cases)
  fix c
  assume c: "encrypt_secret cry key nonce i v = Inr c" "v \<noteq> []"
    and one: "length (filter (\<lambda>s. srw_ID s = i \<and> srw_Ciphertext s \<noteq> None) (db_Secrets db)) = 1"
    and absent: "assert_material_absent f v db = Inr ()"
    and db': "db' = db\<lparr>db_Secrets := map (\<lambda>s. if srw_ID s = i \<and> srw_Ciphertext s \<noteq> None
       then s\<lparr>srw_Ciphertext := Some c, srw_RotatedAt := now, srw_RotationCount := srw_RotationCount s + 1\<rparr> else s)
       (db_Secrets db)\<rparr>"
  from one have "filter (\<lambda>s. srw_ID s = i \<and> srw_Ciphertext s \<noteq> None) (db_Secrets db) \<noteq> []" by auto
  then obtain x where x: "x \<in> set (db_Secrets db)" "srw_ID x = i" "srw_Ciphertext x \<noteq> None"
    by (auto simp: filter_empty_conv)
  have hit: "srw_Ciphertext y \<noteq> None" if "y \<in> set (db_Secrets db)" "srw_ID y = i" for y
    using same_key_same [OF assms(3) x(1) that(1)] that(2) x by simp
  have same: "db' = db\<lparr>db_Secrets := map (\<lambda>s. if srw_ID s = i then s\<lparr>srw_Ciphertext := Some c, srw_RotatedAt := now,
       srw_RotationCount := srw_RotationCount s + 1\<rparr> else s) (db_Secrets db)\<rparr>"
    unfolding db' using hit by (auto cong: if_cong)
  obtain n where n: "nonce = Inr n" using encrypt_nonce [OF c(1)] by blast
  show ?thesis unfolding same
    by (rule eff_secret_seal [OF c(1) [unfolded n]]) (use c n assms(2) material_absent [OF absent c(2)] in auto)
qed

lemma desired_references_False:
  "desired_references decode i ts = Inr False \<Longrightarrow> t \<in> set ts \<Longrightarrow>
     \<exists>d. decode (trw_DesiredJSON t) = Inr d \<and> i \<notin> set (desired_secret_ids d)"
  by (induction ts)
    (auto simp: decoded_secret_ids_def desired_secret_ids_def wrap_error_def result_simps split: if_splits sum.splits)

lemma delete_secret_effect:
  assumes "delete_secret decode f i db = Inr db'"
  shows "db_effect cry decode key D db db'" "i \<in> secret_ids db"
    "db_Secrets db' = filter (\<lambda>s. srw_ID s \<noteq> i) (db_Secrets db)"
proof -
  have free: "secret_referenced decode f i db = Inr False"
    and one: "length (filter (\<lambda>s. srw_ID s = i) (db_Secrets db)) = 1"
    and db': "db' = db\<lparr>db_Secrets := filter (\<lambda>s. srw_ID s \<noteq> i) (db_Secrets db)\<rparr>"
    using assms by (auto simp: delete_secret_def require_one_def result_simps)
  from free have refs: "\<forall>t\<in>set (db_Targets db). trw_SSHIdentitySecretID t \<noteq> i"
    "\<And>c. db_Github db = Some c \<Longrightarrow> ghc_PATSecretID c \<noteq> i"
    "desired_references decode i (db_Targets db) = Inr False"
    by (auto simp: secret_referenced_def result_simps split: if_splits)
  show "db_effect cry decode key D db db'"
    unfolding db' by (rule eff_secret_delete) (use refs desired_references_False [OF refs(3)] in blast)+
  from one have "filter (\<lambda>s. srw_ID s = i) (db_Secrets db) \<noteq> []" by auto
  then show "i \<in> secret_ids db" by (auto simp: secret_ids_def filter_empty_conv)
  show "db_Secrets db' = filter (\<lambda>s. srw_ID s \<noteq> i) (db_Secrets db)" by (simp add: db')
qed

lemma history_effects:
  "append_execution_bundle cry f key now v db = Inr db' \<Longrightarrow> db_effect cry decode key D db db'"
  "append_execution_record cry f key r db = Inr db' \<Longrightarrow> db_effect cry decode key D db db'"
  by (auto simp: append_execution_bundle_def append_execution_record_def Let_def result_simps split: if_splits
      intro!: eff_bundle eff_record)

lemma backup_effects:
  "register_backup cry f key now b db = Inr db' \<Longrightarrow> db_effect cry decode key D db db'"
  "delete_backup f i db = Inr db' \<Longrightarrow> db_effect cry decode key D db db'"
  by (auto simp: register_backup_def delete_backup_def Let_def result_simps split: if_splits
      intro!: eff_backup eff_backup_delete)

lemma artifact_effect:
  "register_source_artifact cry f key v db = Inr db' \<Longrightarrow> db_effect cry decode key D db db'"
  by (auto simp: register_source_artifact_def insert_artifact_def result_simps intro!: eff_artifact)

lemma workspace_effect:
  assumes "create_source_workspace cry f key v db = Inr db'"
  shows "db_effect cry decode key D db db'"
proof -
  have one: "length (filter (\<lambda>a. sar_ID a = wsp_BaseSourceID v \<and> sar_Kind a = wsp_Kind v) (db_Artifacts db)) = 1"
    and new: "wsp_ID v \<notin> wsp_ID ` set (db_Workspaces db)"
    and db': "db' = db\<lparr>db_Workspaces := db_Workspaces db @ [v]\<rparr>"
    using assms by (auto simp: create_source_workspace_def result_simps)
  from one have "filter (\<lambda>a. sar_ID a = wsp_BaseSourceID v \<and> sar_Kind a = wsp_Kind v) (db_Artifacts db) \<noteq> []" by auto
  then have "(wsp_BaseSourceID v, wsp_Kind v) \<in> (\<lambda>a. (sar_ID a, sar_Kind a)) ` set (db_Artifacts db)"
    by (force simp: filter_empty_conv)
  then show ?thesis unfolding db' by (rule eff_workspace [OF new])
qed

lemma workspace_update_order:
  "(w::source_workspace)\<lparr>wsp_SynchronizedCommit := commit, wsp_CurrentSHA256 := sha\<rparr> =
   w\<lparr>wsp_CurrentSHA256 := sha, wsp_SynchronizedCommit := commit\<rparr>"
  by simp

lemma workspace_update_effects:
  "update_workspace_current f i sha db = Inr db' \<Longrightarrow> db_effect cry decode key D db db'"
  "mark_workspace_synchronized f i commit sha db = Inr db' \<Longrightarrow> db_effect cry decode key D db db'"
  unfolding update_workspace_current_def mark_workspace_synchronized_def workspace_update_order result_simps
  using eff_workspace_update [of cry decode key D db i _ sha] by auto

lemma github_effect:
  "configure_github cry f key v db = Inr db' \<Longrightarrow> db_effect cry decode key D db db'"
  by (auto simp: configure_github_def secret_ids_def result_simps intro!: eff_github)

lemma target_effects:
  "set_target_address f i a db = Inr db' \<Longrightarrow> db_effect cry decode key D db db'"
  "set_ssh_trust cry f key i hk fp tr db = Inr db' \<Longrightarrow> db_effect cry decode key D db db'"
  "set_ssh_identity f i s db = Inr db' \<Longrightarrow> db_effect cry decode key D db db'"
  "record_observed_state cry f key i v db = Inr db' \<Longrightarrow> db_effect cry decode key D db db'"
  by (auto simp: set_target_address_def set_ssh_trust_def set_ssh_identity_def record_observed_state_def result_simps
      row_update_ok_def dest: require_secret_known reject_clean elim!: target_update_effect)

lemma desired_effect:
  assumes "set_desired_state cry f key i d db = Inr db'" "d \<in> D"
  shows "db_effect cry decode key D db db'"
proof -
  have ok: "desired_ok d" "clean_text cry key db (json_encode (desired_json d))"
    and known: "\<forall>m\<in>set (dst_Modules d). \<forall>s\<in>set (mds_SecretIDs m). require_secret f s db = Inr ()"
    and up: "update_target f ''update desired'' ''set desired state: %w'' i
      (\<lambda>t. t\<lparr>trw_DesiredJSON := json_encode (desired_json d)\<rparr>) db = Inr db'"
    using assms(1) by (auto simp: set_desired_state_def result_simps dest: reject_clean)
  have "set (desired_secret_ids d) \<subseteq> secret_ids db"
    using known by (auto simp: desired_secret_ids_def dest: require_secret_known)
  then show ?thesis
    by (intro target_update_effect [OF up]) (use ok assms(2) in \<open>auto simp: row_update_ok_def\<close>)
qed

text \<open>The simulation.\<close>

lemma run_op_effect:
  assumes "run_op cry decode key f a db = Inr (r, db')" "op_ok D a" "distinct (map srw_ID (db_Secrets db))"
  shows "db_effect cry decode key D db db'"
  using assms
proof (cases a)
  case (Set_Secret nonce i v)
  then show ?thesis using assms set_secret_effect by (auto simp: result_simps)
next
  case (Rotate_Secret nonce now i v)
  then show ?thesis using assms rotate_secret_effect by (auto simp: result_simps)
qed (auto simp: result_simps intro: eff_none create_target_effect create_pending_effect create_secret_effect
    delete_secret_effect history_effects backup_effects artifact_effect workspace_effect workspace_update_effects
    github_effect target_effects desired_effect)

end
