(* ===== verification/Mgmt_Invariant.thy ===== *)
theory Mgmt_Invariant
  imports Mgmt_Ops "HOL-Library.Sublist"
begin

section \<open>What every change keeps\<close>

text \<open>
  The invariant of the management state, preserved by every effect of the abstract machine of
  \<open>Mgmt_Ops\<close>, hence by every operation, every program of operations and every change, however the
  SQL statements of the change fail. Beside the constraints of the schema it holds the references
  that only the code checks: the SSH identity of a target and the secrets that a desired state
  names exist, and every stored ciphertext opens under the key of the store.
\<close>

definition desired_column_ok :: "desired_state set \<Rightarrow> db \<Rightarrow> bytes \<Rightarrow> bool" where
  "desired_column_ok D db s =
     (s = ''{}'' \<or>
      (\<exists>d\<in>D. desired_ok d \<and> set (desired_secret_ids d) \<subseteq> secret_ids db \<and> s = json_encode (desired_json d)))"

definition targets_ok :: "desired_state set \<Rightarrow> db \<Rightarrow> bool" where
  "targets_ok D db =
     (distinct (map trw_ID (db_Targets db)) \<and>
      (\<forall>t\<in>set (db_Targets db). trw_ID t \<noteq> [] \<and> valid_trust (trw_SSHTrust t) \<and>
         trw_SSHIdentitySecretID t \<in> insert [] (secret_ids db) \<and> desired_column_ok D db (trw_DesiredJSON t)))"

definition sealed :: "crypto \<Rightarrow> bytes \<Rightarrow> secret_row \<Rightarrow> bool" where
  "sealed cry key s =
     (case srw_Ciphertext s of
        None \<Rightarrow> True
      | Some c \<Rightarrow> \<exists>plain. plain \<noteq> [] \<and> decrypt_secret cry key (srw_ID s) c = Inr plain)"

definition secrets_ok :: "crypto \<Rightarrow> bytes \<Rightarrow> db \<Rightarrow> bool" where
  "secrets_ok cry key db =
     (distinct (map srw_ID (db_Secrets db)) \<and>
      (\<forall>s\<in>set (db_Secrets db). srw_ID s \<noteq> [] \<and> valid_origin (srw_Origin s) \<and> 0 \<le> srw_RotationCount s \<and>
         sealed cry key s) \<and>
      (case db_Github db of None \<Rightarrow> True | Some c \<Rightarrow> ghc_PATSecretID c \<in> secret_ids db))"

definition sources_ok :: "db \<Rightarrow> bool" where
  "sources_ok db =
     (distinct (map sar_ID (db_Artifacts db)) \<and> distinct (map artifact_key (db_Artifacts db)) \<and>
      distinct (map wsp_ID (db_Workspaces db)) \<and>
      (\<forall>a\<in>set (db_Artifacts db). valid_source_kind (sar_Kind a) \<and>
         (sar_Kind a = Source_Custom_Module \<longleftrightarrow> sar_PackageID a \<noteq> [])) \<and>
      (\<forall>w\<in>set (db_Workspaces db).
         (wsp_BaseSourceID w, wsp_Kind w) \<in> (\<lambda>a. (sar_ID a, sar_Kind a)) ` set (db_Artifacts db)))"

definition history_ok :: "db \<Rightarrow> bool" where
  "history_ok db =
     (distinct (map bmd_ID (db_Bundles db)) \<and> distinct (map rmd_ID (db_Records db)) \<and>
      distinct (map bkm_ID (db_Backups db)) \<and>
      (\<forall>r\<in>set (db_Records db). rmd_BundleID r \<in> bmd_ID ` set (db_Bundles db)) \<and>
      (\<forall>b\<in>set (db_Backups db). valid_backup_type (bkm_Type b) \<and>
         (bkm_Type b \<in> {Backup_Module, Backup_System_Restore_Point} \<longrightarrow> bkm_ModuleInstanceID b \<noteq> [])))"

definition db_ok :: "crypto \<Rightarrow> bytes \<Rightarrow> desired_state set \<Rightarrow> db \<Rightarrow> bool" where
  "db_ok cry key D db = (targets_ok D db \<and> secrets_ok cry key db \<and> sources_ok db \<and> history_ok db)"

subsection \<open>Preservation\<close>

lemma secret_ids_update:
  "(\<And>s. srw_ID (g s) = srw_ID s) \<Longrightarrow>
     srw_ID ` (g ` (xs \<inter> {s. srw_ID s = i}) \<union> xs \<inter> {s. srw_ID s \<noteq> i}) = srw_ID ` xs"
  by (force simp: image_Un image_image)

lemma map_keep: "(\<And>x. x \<in> set xs \<Longrightarrow> k (g x) = k x) \<Longrightarrow> map k (map g xs) = map k xs"
  by simp

lemma desired_column_mono:
  "desired_column_ok D db s \<Longrightarrow> secret_ids db \<subseteq> secret_ids db' \<Longrightarrow> desired_column_ok D db' s"
  by (auto simp: desired_column_ok_def)

lemma targets_ok_mono:
  "targets_ok D db \<Longrightarrow> db_Targets db' = db_Targets db \<Longrightarrow> secret_ids db \<subseteq> secret_ids db' \<Longrightarrow> targets_ok D db'"
  by (auto simp: targets_ok_def intro: desired_column_mono)

lemma secrets_ok_same:
  "secrets_ok cry key db \<Longrightarrow> db_Secrets db' = db_Secrets db \<Longrightarrow> db_Github db' = db_Github db \<Longrightarrow> secrets_ok cry key db'"
  by (auto simp: secrets_ok_def secret_ids_def split: option.splits)

lemma effect_targets_ok:
  assumes "db_effect cry decode key D db db'" "targets_ok D db" "decodes decode D"
  shows "targets_ok D db'"
  using assms(1)
proof (cases rule: db_effect.cases)
  case (eff_target_new t)
  then show ?thesis using assms(2)
    by (auto simp: targets_ok_def secret_ids_def desired_column_ok_def)
next
  case (eff_target_update g)
  have g: "row_update_ok cry key D db t (g t)" if "t \<in> set (db_Targets db)" for t using eff_target_update that by blast
  have keys: "map trw_ID (map g (db_Targets db)) = map trw_ID (db_Targets db)"
    by (rule map_keep) (use g in \<open>simp add: row_update_ok_def\<close>)
  have rows: "trw_ID (g t) \<noteq> [] \<and> valid_trust (trw_SSHTrust (g t)) \<and>
      trw_SSHIdentitySecretID (g t) \<in> insert [] (secret_ids db) \<and> desired_column_ok D db (trw_DesiredJSON (g t))"
    if t: "t \<in> set (db_Targets db)" for t
    using g [OF t] assms(2) t unfolding targets_ok_def row_update_ok_def desired_column_ok_def by (metis insertCI)
  have same: "secret_ids db' = secret_ids db" "desired_column_ok D db' s = desired_column_ok D db s" for s
    by (simp_all add: eff_target_update(1) secret_ids_def desired_column_ok_def)
  show ?thesis using keys rows assms(2) unfolding targets_ok_def same
    by (simp add: eff_target_update(1) del: map_map)
next
  case (eff_secret_delete i)
  have free: "i \<notin> set (desired_secret_ids d)"
    if "t \<in> set (db_Targets db)" "d \<in> D" "trw_DesiredJSON t = json_encode (desired_json d)" for t d
    using eff_secret_delete(4) [OF that(1)] that assms(3) by (auto simp: decodes_def)
  have ids: "secret_ids db' = secret_ids db - {i}" by (auto simp: eff_secret_delete(1) secret_ids_def)
  have "desired_column_ok D db' (trw_DesiredJSON t)"
    if t: "t \<in> set (db_Targets db)" for t
    using assms(2) free t unfolding targets_ok_def desired_column_ok_def ids by blast
  then show ?thesis using assms(2) eff_secret_delete unfolding targets_ok_def ids by auto
next
  case (eff_secret_new s)
  show ?thesis by (rule targets_ok_mono [OF assms(2)]) (auto simp: eff_secret_new(1) secret_ids_def)
next
  case (eff_secret_seal n i v c g)
  then show ?thesis
    by (intro targets_ok_mono [OF assms(2)]) (simp_all add: secret_ids_def secret_ids_update)
qed (use assms(2) in \<open>auto intro!: targets_ok_mono [OF assms(2)] simp: secret_ids_def\<close>)

lemma effect_secrets_ok:
  assumes "db_effect cry decode key D db db'" "secrets_ok cry key db" "aead_ok cry"
  shows "secrets_ok cry key db'"
  using assms(1)
proof (cases rule: db_effect.cases)
  case (eff_secret_new s)
  then show ?thesis using assms(2)
    by (auto simp: secrets_ok_def secret_ids_def sealed_def split: option.split)
next
  case (eff_secret_seal n i v c g)
  have g: "srw_ID (g s) = srw_ID s" "srw_Origin (g s) = srw_Origin s" "srw_Ciphertext (g s) = Some c"
    "srw_RotationCount s \<le> srw_RotationCount (g s)" for s
    using eff_secret_seal(6) by blast+
  let ?h = "\<lambda>s. if srw_ID s = i then g s else s"
  have opens: "decrypt_secret cry key i c = Inr v"
    by (rule decrypt_encrypt [OF assms(3) eff_secret_seal(2,3)])
  have keys: "map srw_ID (map ?h (db_Secrets db)) = map srw_ID (db_Secrets db)"
    by (rule map_keep) (simp add: g(1))
  have ids: "secret_ids db' = secret_ids db"
    by (simp add: secret_ids_def eff_secret_seal(1) secret_ids_update [OF g(1)])
  have rows: "srw_ID (?h s) \<noteq> [] \<and> valid_origin (srw_Origin (?h s)) \<and> 0 \<le> srw_RotationCount (?h s) \<and> sealed cry key (?h s)"
    if "s \<in> set (db_Secrets db)" for s
    using assms(2) that opens eff_secret_seal(4) order_trans [OF _ g(4) [of s], of 0]
    by (auto simp: secrets_ok_def sealed_def g(1-3))
  show ?thesis using assms(2) keys rows unfolding secrets_ok_def ids
    by (simp add: eff_secret_seal(1) del: map_map if_image_distrib)
next
  case (eff_secret_delete i)
  then show ?thesis using assms(2)
    by (auto simp: secrets_ok_def secret_ids_def distinct_map_filter split: option.split)
next
  case (eff_github v)
  then show ?thesis using assms(2) by (simp add: secrets_ok_def secret_ids_def)
qed (auto intro: secrets_ok_same [OF assms(2)])

lemma effect_sources_ok:
  assumes "db_effect cry decode key D db db'" "sources_ok db"
  shows "sources_ok db'"
  using assms(1)
proof (cases rule: db_effect.cases)
  case (eff_workspace_update i sha commit)
  have keys: "map wsp_ID (db_Workspaces db') = map wsp_ID (db_Workspaces db)"
    by (simp add: eff_workspace_update)
  then show ?thesis using assms(2) unfolding sources_ok_def keys
    by (auto simp: eff_workspace_update)
qed (use assms(2) in \<open>auto simp: sources_ok_def\<close>)

lemma effect_history_ok:
  assumes "db_effect cry decode key D db db'" "history_ok db"
  shows "history_ok db'"
  using assms(1) by (cases rule: db_effect.cases) (use assms(2) in \<open>auto simp: history_ok_def distinct_map_filter\<close>)

lemma effect_db_ok:
  "db_effect cry decode key D db db' \<Longrightarrow> db_ok cry key D db \<Longrightarrow> aead_ok cry \<Longrightarrow> decodes decode D \<Longrightarrow>
     db_ok cry key D db'"
  unfolding db_ok_def by (auto intro: effect_targets_ok effect_secrets_ok effect_sources_ok effect_history_ok)

subsection \<open>No secret in the states that are kept as JSON\<close>

definition confined :: "crypto \<Rightarrow> bytes \<Rightarrow> db \<Rightarrow> bool" where
  "confined cry key db =
     (\<forall>t\<in>set (db_Targets db). \<forall>s\<in>{trw_DesiredJSON t, trw_ObservedJSON t}. s \<noteq> ''{}'' \<longrightarrow> clean_text cry key db s)"

lemma set_secrets_iff:
  "(i, c) \<in> set (set_secrets db) \<longleftrightarrow> (\<exists>s\<in>set (db_Secrets db). srw_ID s = i \<and> srw_Ciphertext s = Some c)"
  by (force simp: set_secrets_def split: option.splits)

lemma clean_text_mono:
  "clean_text cry key db s \<Longrightarrow> set (set_secrets db') \<subseteq> set (set_secrets db) \<Longrightarrow> clean_text cry key db' s"
  by (auto simp: clean_text_def)

lemma confined_mono:
  "confined cry key db \<Longrightarrow> db_Targets db' = db_Targets db \<Longrightarrow> set (set_secrets db') \<subseteq> set (set_secrets db) \<Longrightarrow>
     confined cry key db'"
  by (auto simp: confined_def intro: clean_text_mono)

lemma columns_are_domain_text:
  "t \<in> set (db_Targets db) \<Longrightarrow> s \<in> {trw_DesiredJSON t, trw_ObservedJSON t} \<Longrightarrow> s \<in> domain_text_set db"
  by (force simp: domain_text_set_def domain_texts_def target_texts_def)

lemma effect_confined:
  assumes "db_effect cry decode key D db db'" "confined cry key db" "aead_ok cry"
  shows "confined cry key db'"
  using assms(1)
proof (cases rule: db_effect.cases)
  case (eff_target_new t)
  have "clean_text cry key db' s = clean_text cry key db s" for s
    by (simp add: clean_text_def set_secrets_def eff_target_new(1))
  then show ?thesis using assms(2) eff_target_new by (auto simp: confined_def)
next
  case (eff_target_update g)
  have same: "clean_text cry key db' s = clean_text cry key db s" for s
    by (simp add: clean_text_def set_secrets_def eff_target_update(1))
  have "s = ''{}'' \<or> clean_text cry key db s"
    if "t \<in> set (db_Targets db)" "s \<in> {trw_DesiredJSON (g t), trw_ObservedJSON (g t)}" for t s
    using eff_target_update(2) [OF that(1)] that assms(2) by (auto simp: row_update_ok_def confined_def)
  then show ?thesis unfolding confined_def same by (auto simp: eff_target_update(1))
next
  case (eff_secret_new s)
  then show ?thesis by (intro confined_mono [OF assms(2)]) (auto simp: set_secrets_def)
next
  case (eff_secret_seal n i v c g)
  have opens: "decrypt_secret cry key i c = Inr v" by (rule decrypt_encrypt [OF assms(3) eff_secret_seal(2,3)])
  have g: "srw_ID (g s) = srw_ID s" "srw_Ciphertext (g s) = Some c" for s using eff_secret_seal(6) by blast+
  have now: "(j, e) \<in> set (set_secrets db) \<or> j = i \<and> e = c" if "(j, e) \<in> set (set_secrets db')" for j e
    using that by (auto simp: set_secrets_iff eff_secret_seal(1) g split: if_splits)
  have "clean_text cry key db' s"
    if "t \<in> set (db_Targets db)" "s \<in> {trw_DesiredJSON t, trw_ObservedJSON t}" "clean_text cry key db s" for t s
    using columns_are_domain_text [OF that(1,2), THEN eff_secret_seal(5)] that(3) now opens
    by (fastforce simp: clean_text_def)
  then show ?thesis using assms(2) by (auto simp: confined_def eff_secret_seal(1))
next
  case (eff_secret_delete i)
  then show ?thesis by (intro confined_mono [OF assms(2)]) (auto simp: set_secrets_def)
qed (auto intro!: confined_mono [OF assms(2)] simp: set_secrets_def)

subsection \<open>History only grows\<close>

definition workspace_base :: "source_workspace \<Rightarrow> source_workspace" where
  "workspace_base w = w\<lparr>wsp_CurrentSHA256 := [], wsp_SynchronizedCommit := []\<rparr>"

definition grows :: "db \<Rightarrow> db \<Rightarrow> bool" where
  "grows db db' =
     (prefix (db_Bundles db) (db_Bundles db') \<and> prefix (db_Records db) (db_Records db') \<and>
      prefix (db_Artifacts db) (db_Artifacts db') \<and>
      prefix (map workspace_base (db_Workspaces db)) (map workspace_base (db_Workspaces db')))"

lemma grows_trans: "grows db db' \<Longrightarrow> grows db' db'' \<Longrightarrow> grows db db''"
  by (meson grows_def prefix_order.order_trans)

lemma effect_grows:
  assumes "db_effect cry decode key D db db'"
  shows "grows db db'"
  using assms
proof (cases rule: db_effect.cases)
  case (eff_workspace_update i sha commit)
  have "map workspace_base (db_Workspaces db') = map workspace_base (db_Workspaces db)"
    by (simp add: eff_workspace_update workspace_base_def)
  then show ?thesis unfolding grows_def by (simp only:) (simp add: eff_workspace_update)
qed (simp_all add: grows_def)

subsection \<open>Programs and changes\<close>

lemma run_prog_invariant:
  assumes "prog_ok D p" "P db"
    and step: "\<And>a db r db'. op_ok D a \<Longrightarrow> P db \<Longrightarrow> run_op cry decode key f a db = Inr (r, db') \<Longrightarrow> P db'"
  shows "P (snd (run_prog cry decode key f p db))"
  using assms(1,2)
proof (induction p arbitrary: db)
  case (prog_perform a k)
  show ?case
    by (cases "run_op cry decode key f a db")
      (use prog_perform step in \<open>auto split: prod.split\<close>)
qed auto

lemma change_invariant:
  assumes "prog_ok D p" "P db" "change f (run_prog cry decode key f p) db = (r, db')"
    and "\<And>a db r db'. op_ok D a \<Longrightarrow> P db \<Longrightarrow> run_op cry decode key f a db = Inr (r, db') \<Longrightarrow> P db'"
  shows "P db'"
proof -
  have "P (snd (run_prog cry decode key f p db))" using run_prog_invariant assms(1,2,4) by blast
  moreover have "db' = db \<or> db' = snd (run_prog cry decode key f p db)"
    using assms(3) by (auto simp: change_def split: option.splits prod.splits sum.splits)
  ultimately show ?thesis using assms(2) by auto
qed

text \<open>One change of the store, by any program of operations and under any faults.\<close>

inductive mgmt_step :: "crypto \<Rightarrow> (bytes \<Rightarrow> desired_state result) \<Rightarrow> bytes \<Rightarrow> desired_state set \<Rightarrow> db \<Rightarrow> db \<Rightarrow> bool"
  for cry decode key D where
  mgmt_stepI: "prog_ok D p \<Longrightarrow> change f (run_prog cry decode key f p) db = (r, db') \<Longrightarrow> mgmt_step cry decode key D db db'"

lemma mgmt_step_kept:
  assumes "mgmt_step cry decode key D db db'" "db_ok cry key D db" "aead_ok cry" "decodes decode D"
  shows "db_ok cry key D db'" "grows db db'" "confined cry key db \<Longrightarrow> confined cry key db'"
proof -
  from assms(1) obtain f p r where p: "prog_ok D p" "change f (run_prog cry decode key f p) db = (r, db')"
    by (auto elim: mgmt_step.cases)
  have eff: "db_effect cry decode key D x x'"
    if "op_ok D a" "db_ok cry key D x" "run_op cry decode key f a x = Inr (q, x')" for a x q x'
    using run_op_effect that by (auto simp: db_ok_def secrets_ok_def)
  show "db_ok cry key D db'"
    by (rule change_invariant [where P = "db_ok cry key D", OF p(1) assms(2) p(2)]) (use eff effect_db_ok assms(3,4) in blast)
  have start: "db_ok cry key D db \<and> grows db db" using assms(2) by (simp add: grows_def)
  have "db_ok cry key D db' \<and> grows db db'"
    by (rule change_invariant [where P = "\<lambda>x. db_ok cry key D x \<and> grows db x", OF p(1) start p(2)])
      (use eff effect_db_ok effect_grows grows_trans assms(3,4) in blast)
  then show "grows db db'" by simp
  show "confined cry key db'" if c: "confined cry key db"
  proof -
    have "db_ok cry key D db' \<and> confined cry key db'"
      by (rule change_invariant [where P = "\<lambda>x. db_ok cry key D x \<and> confined cry key x", OF p(1) conjI [OF assms(2) c] p(2)])
        (use eff effect_db_ok effect_confined assms(3,4) in blast)
    then show ?thesis by simp
  qed
qed

lemma empty_db_ok: "db_ok cry key D empty_db" "confined cry key empty_db"
  by (simp_all add: db_ok_def targets_ok_def secrets_ok_def sources_ok_def history_ok_def empty_db_def confined_def)

lemma mgmt_steps_kept:
  assumes "(mgmt_step cry decode key D)\<^sup>*\<^sup>* db db'" "db_ok cry key D db" "aead_ok cry" "decodes decode D"
  shows "db_ok cry key D db' \<and> grows db db' \<and> (confined cry key db \<longrightarrow> confined cry key db')"
  using assms(1)
proof (induction rule: rtranclp_induct)
  case base
  then show ?case using assms(2) by (simp add: grows_def)
next
  case (step x y)
  then show ?case using mgmt_step_kept [OF step.hyps(2) _ assms(3,4)] grows_trans by blast
qed

end
