(* ===== verification/Mgmt_Vault.thy ===== *)
theory Mgmt_Vault
  imports Mgmt_Invariant
begin

section \<open>The store as a vault of secrets\<close>

text \<open>
  The abstract specification of the secret operations: a map from identifiers to secrets that are
  unset or hold a value. The operations of the store implement it through encryption
  (\<open>vault_refined\<close>), and \<open>ResolveSecret\<close> reads it. The theorems on the reachable states of the
  store follow, with a run of the store as their witness.
\<close>

type_synonym secret_vault = "bytes \<Rightarrow> bytes result option option"

definition vault :: "crypto \<Rightarrow> bytes \<Rightarrow> db \<Rightarrow> secret_vault" where
  "vault cry key db = (\<lambda>i. map_option (\<lambda>s. map_option (decrypt_secret cry key i) (srw_Ciphertext s))
     (find (\<lambda>s. srw_ID s = i) (db_Secrets db)))"

fun vault_spec :: "mgmt_op \<Rightarrow> bytes \<Rightarrow> secret_vault \<Rightarrow> secret_vault option" where
  "vault_spec (Create_Secret raw now name origin) i v = (if v i = None then Some (v(i \<mapsto> None)) else None)"
| "vault_spec (Set_Secret nonce i plain) r v =
     (if v i = Some None \<and> plain \<noteq> [] then Some (v(i \<mapsto> Some (Inr plain))) else None)"
| "vault_spec (Rotate_Secret nonce now i plain) r v =
     (case v i of Some (Some old) \<Rightarrow> if plain \<noteq> [] then Some (v(i \<mapsto> Some (Inr plain))) else None | _ \<Rightarrow> None)"
| "vault_spec (Delete_Secret i) r v = (if v i \<noteq> None then Some (v(i := None)) else None)"
| "vault_spec a r v = Some v"

lemma find_key_None: "find (\<lambda>s. srw_ID s = i) xs = None \<longleftrightarrow> i \<notin> srw_ID ` set xs"
  by (auto simp: find_None_iff)

lemma find_key_Some:
  "distinct (map srw_ID xs) \<Longrightarrow> find (\<lambda>s. srw_ID s = i) xs = Some s \<longleftrightarrow> s \<in> set xs \<and> srw_ID s = i"
  by (induction xs) auto

lemma find_key_append:
  "find (\<lambda>s. srw_ID s = i) (xs @ [x]) =
     (case find (\<lambda>s. srw_ID s = i) xs of Some s \<Rightarrow> Some s | None \<Rightarrow> if srw_ID x = i then Some x else None)"
  by (induction xs) auto

lemma find_key_filter:
  "find (\<lambda>s. srw_ID s = j) (filter (\<lambda>s. srw_ID s \<noteq> i) xs) = (if j = i then None else find (\<lambda>s. srw_ID s = j) xs)"
  by (induction xs) auto

lemma find_key_map:
  "(\<And>s. srw_ID (g s) = srw_ID s) \<Longrightarrow>
     find (\<lambda>s. srw_ID s = j) (map (\<lambda>s. if srw_ID s = i then g s else s) xs) =
       map_option (\<lambda>s. if j = i then g s else s) (find (\<lambda>s. srw_ID s = j) xs)"
  by (induction xs) auto

lemma vault_same: "db_Secrets db' = db_Secrets db \<Longrightarrow> vault cry key db' = vault cry key db"
  by (simp add: vault_def)

lemma effect_vault_same:
  assumes "run_op cry decode key f a db = Inr (r, db')"
    "\<And>raw now name origin. a \<noteq> Create_Secret raw now name origin" "\<And>n i v. a \<noteq> Set_Secret n i v"
    "\<And>n now i v. a \<noteq> Rotate_Secret n now i v" "\<And>i. a \<noteq> Delete_Secret i"
  shows "db_Secrets db' = db_Secrets db"
  using assms
  by (cases a)
    (auto simp: result_simps Let_def create_target_def create_pending_target_def update_target_def set_target_address_def
      set_ssh_trust_def set_ssh_identity_def set_desired_state_def record_observed_state_def
      append_execution_bundle_def append_execution_record_def register_backup_def delete_backup_def
      register_source_artifact_def create_source_workspace_def update_workspace_current_def
      mark_workspace_synchronized_def configure_github_def)

lemma vault_sealed:
  assumes "distinct (map srw_ID (db_Secrets db))" "encrypt_secret cry key (Inr n) i v = Inr c" "length n = nonce_size"
    "aead_ok cry" "\<And>s. srw_ID (g s) = srw_ID s" "\<And>s. srw_Ciphertext (g s) = Some c" "i \<in> secret_ids db"
    "db_Secrets db' = map (\<lambda>s. if srw_ID s = i then g s else s) (db_Secrets db)"
  shows "vault cry key db' = (vault cry key db)(i \<mapsto> Some (Inr v))"
proof
  fix j
  have "find (\<lambda>s. srw_ID s = i) (db_Secrets db) \<noteq> None" using assms(7) by (auto simp: find_key_None secret_ids_def)
  then show "vault cry key db' j = ((vault cry key db)(i \<mapsto> Some (Inr v))) j"
    using decrypt_encrypt [OF assms(4,2,3)]
    by (auto simp: vault_def assms(8) find_key_map [OF assms(5)] assms(6) option.map_comp comp_def)
qed

lemma vault_refined:
  assumes "run_op cry decode key f a db = Inr (r, db')" "db_ok cry key D db" "op_ok D a" "aead_ok cry"
  shows "vault_spec a r (vault cry key db) = Some (vault cry key db')"
proof -
  have ids: "distinct (map srw_ID (db_Secrets db))" using assms(2) by (simp add: db_ok_def secrets_ok_def)
  have look: "vault cry key db i = Some (map_option (decrypt_secret cry key i) (srw_Ciphertext s))"
    if "s \<in> set (db_Secrets db)" "srw_ID s = i" for s i
    using that find_key_Some [OF ids] by (auto simp: vault_def)
  show ?thesis
  proof (cases a)
    case (Create_Secret raw now name origin)
    then have c: "create_secret cry f key (new_id ''secret'' raw) now name origin db = Inr (r, db')"
      using assms(1) by simp
    note new = create_secret_effect [OF c]
    have none: "find (\<lambda>s. srw_ID s = r) (db_Secrets db) = None" using new(2) by (simp add: find_key_None secret_ids_def)
    then have "vault cry key db r = None" by (simp add: vault_def)
    moreover have "vault cry key db' = (vault cry key db)(r \<mapsto> None)"
      using none by (auto simp: vault_def new(3) find_key_append fun_eq_iff split: option.split)
    ultimately show ?thesis by (simp add: Create_Secret)
  next
    case (Set_Secret nonce i v)
    then have "set_secret cry f key nonce i v db = Inr db'" using assms(1) by (simp add: result_simps)
    then show ?thesis
    proof (rule set_secret_cases)
      fix c
      assume c: "encrypt_secret cry key nonce i v = Inr c" "v \<noteq> []"
        and one: "length (filter (\<lambda>s. srw_ID s = i \<and> srw_Ciphertext s = None) (db_Secrets db)) = 1"
        and db': "db' = db\<lparr>db_Secrets := map (\<lambda>s. if srw_ID s = i then s\<lparr>srw_Ciphertext := Some c\<rparr> else s) (db_Secrets db)\<rparr>"
      obtain n where n: "nonce = Inr n" using encrypt_nonce [OF c(1)] by blast
      from one have "filter (\<lambda>s. srw_ID s = i \<and> srw_Ciphertext s = None) (db_Secrets db) \<noteq> []" by auto
      then obtain x where x: "x \<in> set (db_Secrets db)" "srw_ID x = i" "srw_Ciphertext x = None"
        by (auto simp: filter_empty_conv)
      have "vault cry key db' = (vault cry key db)(i \<mapsto> Some (Inr v))"
        by (rule vault_sealed [OF ids c(1) [unfolded n] _ assms(4), where g = "\<lambda>s. s\<lparr>srw_Ciphertext := Some c\<rparr>"])
          (use x n assms(3) Set_Secret in \<open>auto simp: db' secret_ids_def\<close>)
      then show ?thesis using look [OF x(1,2)] x(3) c(2) by (simp add: Set_Secret)
    qed
  next
    case (Rotate_Secret nonce now i v)
    then have "rotate_secret cry f key nonce now i v db = Inr db'" using assms(1) by (simp add: result_simps)
    then show ?thesis
    proof (rule rotate_secret_cases)
      fix c
      let ?g = "\<lambda>s. s\<lparr>srw_Ciphertext := Some c, srw_RotatedAt := now, srw_RotationCount := srw_RotationCount s + 1\<rparr>"
      assume c: "encrypt_secret cry key nonce i v = Inr c" "v \<noteq> []"
        and one: "length (filter (\<lambda>s. srw_ID s = i \<and> srw_Ciphertext s \<noteq> None) (db_Secrets db)) = 1"
        and db': "db' = db\<lparr>db_Secrets := map (\<lambda>s. if srw_ID s = i \<and> srw_Ciphertext s \<noteq> None then ?g s else s) (db_Secrets db)\<rparr>"
      obtain n where n: "nonce = Inr n" using encrypt_nonce [OF c(1)] by blast
      from one have "filter (\<lambda>s. srw_ID s = i \<and> srw_Ciphertext s \<noteq> None) (db_Secrets db) \<noteq> []" by auto
      then obtain x where x: "x \<in> set (db_Secrets db)" "srw_ID x = i" "srw_Ciphertext x \<noteq> None"
        by (auto simp: filter_empty_conv)
      have hit: "srw_Ciphertext y \<noteq> None" if "y \<in> set (db_Secrets db)" "srw_ID y = i" for y
        using same_key_same [OF ids x(1) that(1)] that(2) x by simp
      have "vault cry key db' = (vault cry key db)(i \<mapsto> Some (Inr v))"
        by (rule vault_sealed [OF ids c(1) [unfolded n] _ assms(4), where g = ?g])
          (use x n hit assms(3) Rotate_Secret in \<open>auto simp: db' secret_ids_def\<close>)
      then show ?thesis using look [OF x(1,2)] x(3) c(2) by (auto simp: Rotate_Secret)
    qed
  next
    case (Delete_Secret i)
    then have d: "delete_secret decode f i db = Inr db'" using assms(1) by (simp add: result_simps)
    note del = delete_secret_effect [OF d]
    have "vault cry key db i \<noteq> None" using del(2) by (auto simp: vault_def find_key_None secret_ids_def)
    moreover have "vault cry key db' = (vault cry key db)(i := None)"
      by (auto simp: vault_def del(3) find_key_filter fun_eq_iff)
    ultimately show ?thesis by (simp add: Delete_Secret)
  qed (auto intro!: vault_same [symmetric] effect_vault_same [OF assms(1)])
qed

lemma secret_value_vault:
  assumes "f ''select ciphertext'' [i] = None" "db_ok cry key D db"
  shows "secret_value_of cry f key i db =
    (case vault cry key db i of
       None \<Rightarrow> Inl (Errf ''secret %s does not exist'' [i])
     | Some None \<Rightarrow> Inl (Errf ''secret %s has no value'' [i])
     | Some (Some r) \<Rightarrow> r)"
proof (cases "find (\<lambda>s. srw_ID s = i) (db_Secrets db)")
  case None
  then show ?thesis using assms(1) by (simp add: secret_value_of_def exec_sql_def vault_def)
next
  case (Some s)
  then have s: "s \<in> set (db_Secrets db)" "srw_ID s = i" using find_Some_in [OF Some] by auto
  then have "sealed cry key s" using assms(2) by (simp add: db_ok_def secrets_ok_def)
  then show ?thesis using assms(1) s(2) Some
    by (auto simp: secret_value_of_def exec_sql_def vault_def sealed_def decrypt_secret_def split: option.splits)
qed

subsection \<open>A run of the store\<close>

text \<open>
  A cipher that appends its tag: it satisfies the laws, and computes. The program registers a
  target, creates and sets a secret, and lets the desired state of the target use it.
\<close>

definition toy_cipher :: crypto where
  "toy_cipher =
     \<lparr>cry_Seal = (\<lambda>key nonce plain aad. rev plain @ replicate 16 CHR ''=''),
      cry_Open = (\<lambda>key nonce payload aad. Some (rev (take (length payload - 16) payload)))\<rparr>"

definition toy_key :: bytes where "toy_key = replicate 32 CHR ''k''"

definition toy_secret :: bytes where "toy_secret = ''secret_'' @ hex_encode (replicate 16 CHR ''r'')"

definition toy_desired :: desired_state where
  "toy_desired =
     \<lparr>dst_CloudInit = \<lparr>cid_SourceSnapshotID = [], cid_DefinitionVersion = [], cid_SourceSHA256 = [], cid_RenderedSHA256 = [],
        cid_Hostname = [], cid_Timezone = [], cid_Administrator = []\<rparr>,
      dst_Core = \<lparr>cod_SourceID = [], cod_Version = [], cod_Swap = \<lparr>swp_Mode = [], swp_SizeGiB = 0\<rparr>\<rparr>,
      dst_Modules = [\<lparr>mds_InstanceID = ''m'', mds_PackageID = ''p'', mds_Version = ''1'', mds_SecretIDs = [toy_secret],
        mds_Resources = \<lparr>rov_MemoryBytes = 0, rov_CPUQuota = 0, rov_PIDsLimit = 0, rov_TasksMax = 0\<rparr>,
        mds_Dependencies = []\<rparr>]\<rparr>"

definition toy_decode :: "bytes \<Rightarrow> desired_state result" where
  "toy_decode s = (if s = json_encode (desired_json toy_desired) then Inr toy_desired else Inl (Err ''json''))"

definition toy_create :: mgmt_prog where
  "toy_create =
     Perform (Create_Pending ''t'' ''root'') (\<lambda>_.
     Perform (Create_Secret (Inr (replicate 16 CHR ''r'')) ''now'' ''db'' Secret_Generated) (\<lambda>_. Finish (Inr ())))"

definition toy_use :: mgmt_prog where
  "toy_use =
     Perform (Set_Secret (Inr (replicate 12 CHR ''n'')) toy_secret ''hunter2'') (\<lambda>_.
     Perform (Set_Desired ''t'' toy_desired) (\<lambda>_.
     Perform (Set_Address ''t'' ''192.0.2.1'') (\<lambda>_. Finish (Inr ()))))"

definition no_faults :: sql_faults where "no_faults = (\<lambda>stmt args. None)"

definition toy_run :: "mgmt_prog \<Rightarrow> db \<Rightarrow> db" where
  "toy_run p db = snd (change no_faults (run_prog toy_cipher toy_decode toy_key no_faults p) db)"

definition toy_fresh :: db where "toy_fresh = toy_run toy_create empty_db"
definition toy_db :: db where "toy_db = toy_run toy_use toy_fresh"

lemma toy_cipher_ok: "aead_ok toy_cipher"
  by (simp add: aead_ok_def toy_cipher_def gcm_overhead_def)

lemma toy_decodes: "decodes toy_decode {toy_desired}"
  by (simp add: decodes_def toy_decode_def)

lemma toy_progs_ok: "prog_ok {toy_desired} toy_create" "prog_ok {toy_desired} toy_use"
  by (simp_all add: toy_create_def toy_use_def prog_finish prog_perform nonce_size_def)

lemma toy_step: "prog_ok {toy_desired} p \<Longrightarrow> mgmt_step toy_cipher toy_decode toy_key {toy_desired} db (toy_run p db)"
  unfolding toy_run_def by (rule mgmt_stepI [OF _ prod.collapse [symmetric]])

lemma toy_path:
  "(mgmt_step toy_cipher toy_decode toy_key {toy_desired})\<^sup>*\<^sup>* empty_db toy_fresh"
  "(mgmt_step toy_cipher toy_decode toy_key {toy_desired})\<^sup>*\<^sup>* toy_fresh toy_db"
  unfolding toy_fresh_def toy_db_def using toy_step toy_progs_ok by blast+


lemma toy_vault: "vault toy_cipher toy_key toy_db toy_secret = Some (Some (Inr ''hunter2''))"
  by code_simp

subsection \<open>What a JSON text shows of a secret\<close>












subsection \<open>The theorems\<close>

text \<open>
  C26: Every state that the store reaches from the empty tables by changes, each running any program
  of operations under any failures of its SQL statements, satisfies the invariant: identifiers are
  unique in every table, statuses and kinds are those of the schema, every reference (records to
  bundles, workspaces to artifacts of the same kind, GitHub token, SSH identities and the secrets
  of the desired states) names a row that exists, and every stored ciphertext opens under the key.
\<close>
theorem reachable_db_ok:
  assumes "(mgmt_step cry decode key D)\<^sup>*\<^sup>* empty_db db" "aead_ok cry" "decodes decode D"
  shows "db_ok cry key D db"
  using mgmt_steps_kept [OF assms(1) empty_db_ok(1) assms(2,3)] by blast

theorem reachable_db_ok_witness: "db_ok toy_cipher toy_key {toy_desired} toy_db"
  by (rule reachable_db_ok [OF rtranclp_trans [OF toy_path] toy_cipher_ok toy_decodes])





text \<open>
  C28: Bundles, execution records and source artifacts are append-only: a later state of the store
  holds those of an earlier reachable state, unchanged and in the same order, and the base of a
  workspace (all but its current digest and its synchronized commit) never changes.
\<close>
theorem history_append_only:
  assumes "(mgmt_step cry decode key D)\<^sup>*\<^sup>* empty_db db" "(mgmt_step cry decode key D)\<^sup>*\<^sup>* db db'"
    and "aead_ok cry" "decodes decode D"
  shows "prefix (db_Bundles db) (db_Bundles db') \<and> prefix (db_Records db) (db_Records db') \<and>
    prefix (db_Artifacts db) (db_Artifacts db') \<and>
    prefix (map workspace_base (db_Workspaces db)) (map workspace_base (db_Workspaces db'))"
proof -
  have "db_ok cry key D db" using mgmt_steps_kept [OF assms(1) empty_db_ok(1) assms(3,4)] by blast
  from mgmt_steps_kept [OF assms(2) this assms(3,4)] show ?thesis by (simp add: grows_def)
qed

theorem history_append_only_witness: "prefix (db_Bundles toy_fresh) (db_Bundles toy_db)"
  using history_append_only [OF toy_path toy_cipher_ok toy_decodes] by blast

text \<open>
  C29: The operations on secrets refine a vault: in a state that satisfies the invariant, creating
  adds an unset secret under a new identifier, setting an unset secret and rotating a set one store
  exactly the given non-empty value, deleting removes one, every other operation leaves the vault
  alone, and an operation that the vault forbids fails. \<open>ResolveSecret\<close> hands the consumer the value
  in the vault and nothing else.
\<close>
theorem vault_refinement:
  assumes "db_ok cry key D db" "op_ok D a" "aead_ok cry" "f ''select ciphertext'' [i] = None"
  shows "(case run_op cry decode key f a db of
       Inl e \<Rightarrow> True
     | Inr (r, db') \<Rightarrow> vault_spec a r (vault cry key db) = Some (vault cry key db')) \<and>
    resolve_secret cry f key i consume db =
      (case vault cry key db i of
         None \<Rightarrow> Inl (Errf ''secret %s does not exist'' [i])
       | Some None \<Rightarrow> Inl (Errf ''secret %s has no value'' [i])
       | Some (Some r) \<Rightarrow> bind_r r (\<lambda>plain.
           case consume plain of Inl e \<Rightarrow> Inl (Err ''secret consumer failed'') | Inr u \<Rightarrow> Inr ()))"
proof (rule conjI)
  show "case run_op cry decode key f a db of
       Inl e \<Rightarrow> True
     | Inr (r, db') \<Rightarrow> vault_spec a r (vault cry key db) = Some (vault cry key db')"
    using vault_refined assms(1-3) by (auto split: sum.split)
qed (use secret_value_vault [where f = f and i = i, OF assms(4,1)]
     in \<open>simp add: resolve_secret_def split: option.split\<close>)

lemma toy_ok: "db_ok toy_cipher toy_key {toy_desired} toy_db"
  using mgmt_steps_kept [OF rtranclp_trans [OF toy_path] empty_db_ok(1) toy_cipher_ok toy_decodes] by blast

theorem vault_refinement_witness:
  "resolve_secret toy_cipher no_faults toy_key toy_secret (\<lambda>plain. if plain = ''hunter2'' then Inr () else Inl (Err []))
     toy_db = Inr ()"
  using vault_refinement [OF toy_ok, of "Read_Identity ''t''" no_faults toy_secret] toy_cipher_ok toy_vault
  by (simp add: no_faults_def)

end
