(* ===== verification/Mgmt_Recovery.thy ===== *)
theory Mgmt_Recovery
  imports Mgmt_Vault
begin

section \<open>Snapshots and recovery of the management state\<close>

text \<open>
  \<open>Snapshot\<close> and the readers of \<open>store.go\<close> and \<open>canonical_source_read.go\<close>, and \<open>recovery.go\<close>: the
  export of the state with the values of its secrets, the validation of a recovery package, and the
  import into a fresh store, which is one transaction. \<open>json.Unmarshal\<close> into the two state types is
  a parameter each. The trigger \<open>source_artifacts_no_delete\<close> of \<open>source_migration.go\<close> aborts the
  statement that should clear the registered artifacts as soon as there is one.
\<close>

subsection \<open>Reading\<close>

type_synonym state_decoders = "(bytes \<Rightarrow> desired_state result) \<times> (bytes \<Rightarrow> target_observed result)"

definition target_of_row :: "state_decoders \<Rightarrow> target_row \<Rightarrow> mgmt_target result" where
  "target_of_row dec t =
     bind_r (wrap_error ''decode desired state: %w'' [] (fst dec (trw_DesiredJSON t))) (\<lambda>desired.
     bind_r (wrap_error ''decode observed state: %w'' [] (snd dec (trw_ObservedJSON t))) (\<lambda>observed.
     Inr \<lparr>tgt_ID = trw_ID t, tgt_Address = trw_Address t, tgt_SSHUser = trw_SSHUser t,
          tgt_SSHIdentitySecretID = trw_SSHIdentitySecretID t, tgt_SSHHostKey = trw_SSHHostKey t,
          tgt_SSHHostFingerprint = trw_SSHHostFingerprint t, tgt_SSHTrust = trw_SSHTrust t,
          tgt_Desired = desired, tgt_Observed = observed\<rparr>))"

definition read_canonical_sources :: "sql_faults \<Rightarrow> db \<Rightarrow> source_state result" where
  "read_canonical_sources f db =
     bind_r (wrap_error ''read source artifacts: %w'' [] (exec_sql f ''read artifacts'' [] (Inr ()))) (\<lambda>_.
     bind_r (wrap_error ''read source workspaces: %w'' [] (exec_sql f ''read workspaces'' [] (Inr ()))) (\<lambda>_.
     bind_r (wrap_error ''read custom module github configuration: %w'' [] (exec_sql f ''read github'' [] (Inr ()))) (\<lambda>_.
     Inr \<lparr>sst_Artifacts = sort_key sar_ID (db_Artifacts db), sst_Workspaces = sort_key wsp_ID (db_Workspaces db),
          sst_Github = db_Github db\<rparr>)))"

definition secret_metadata_of :: "secret_row \<Rightarrow> secret_metadata" where
  "secret_metadata_of s =
     \<lparr>smd_ID = srw_ID s, smd_Name = srw_Name s, smd_Origin = srw_Origin s, smd_CreatedAt = srw_CreatedAt s,
      smd_RotatedAt = srw_RotatedAt s, smd_RotationCount = srw_RotationCount s,
      smd_IsSet = (srw_Ciphertext s \<noteq> None)\<rparr>"

definition read_secrets :: "sql_faults \<Rightarrow> db \<Rightarrow> secret_metadata list result" where
  "read_secrets f db = exec_sql f ''read secrets'' [] (Inr (map secret_metadata_of (sort_key srw_ID (db_Secrets db))))"

definition read_history :: "sql_faults \<Rightarrow> db \<Rightarrow> (bundle_metadata list \<times> record_metadata list) result" where
  "read_history f db =
     bind_r (exec_sql f ''read bundles'' [] (Inr (sort_key bmd_ID (db_Bundles db)))) (\<lambda>bundles.
     bind_r (exec_sql f ''read records'' [] (Inr (sort_key rmd_ID (db_Records db)))) (\<lambda>records.
     Inr (bundles, records)))"

definition read_backups :: "sql_faults \<Rightarrow> db \<Rightarrow> backup_metadata list result" where
  "read_backups f db = exec_sql f ''read backups'' [] (Inr (sort_key bkm_ID (db_Backups db)))"

definition current_schema_version :: int where "current_schema_version = 3"

definition read_snapshot :: "state_decoders \<Rightarrow> sql_faults \<Rightarrow> db \<Rightarrow> snapshot result" where
  "read_snapshot dec f db =
     bind_r (wrap_error ''read targets: %w'' [] (exec_sql f ''read targets'' [] (Inr ()))) (\<lambda>_.
     bind_r (map_r (target_of_row dec) (sort_key trw_ID (db_Targets db))) (\<lambda>targets.
     bind_r (read_canonical_sources f db) (\<lambda>sources.
     bind_r (read_secrets f db) (\<lambda>secrets.
     bind_r (read_history f db) (\<lambda>(bundles, records).
     bind_r (read_backups f db) (\<lambda>backups.
     Inr (normalize_snapshot
       \<lparr>snp_SchemaVersion = current_schema_version, snp_Targets = targets, snp_Sources = sources, snp_Secrets = secrets,
        snp_ExecutionBundles = bundles, snp_ExecutionRecords = records, snp_Backups = backups\<rparr>)))))))"

subsection \<open>Export\<close>

record recovery_state =
  rcs_Snapshot :: snapshot
  rcs_SecretValues :: "(bytes \<times> bytes) list"
  rcs_Omitted :: "bytes list"

definition pat_of :: "snapshot \<Rightarrow> bytes" where
  "pat_of s = (case sst_Github (snp_Sources s) of None \<Rightarrow> [] | Some c \<Rightarrow> ghc_PATSecretID c)"

definition export_secret ::
  "crypto \<Rightarrow> sql_faults \<Rightarrow> bytes \<Rightarrow> bool \<Rightarrow> bytes \<Rightarrow> db \<Rightarrow> (bytes \<times> bytes) list \<times> bytes list \<Rightarrow> secret_metadata \<Rightarrow>
   ((bytes \<times> bytes) list \<times> bytes list) result" where
  "export_secret cry f key include_pat pat db st s =
     (if \<not> smd_IsSet s then Inr st
      else if smd_ID s = pat \<and> \<not> include_pat then Inr (fst st, snd st @ [smd_ID s])
      else bind_r (wrap_error ''export recovery secret %s: %w'' [smd_ID s] (secret_value_of cry f key (smd_ID s) db)) (\<lambda>v.
        Inr (fst st @ [(smd_ID s, v)], snd st)))"

definition export_recovery ::
  "crypto \<Rightarrow> state_decoders \<Rightarrow> sql_faults \<Rightarrow> bytes \<Rightarrow> bool \<Rightarrow> db \<Rightarrow> recovery_state result" where
  "export_recovery cry dec f key include_pat db =
     bind_r (read_snapshot dec f db) (\<lambda>s.
     bind_r (fold_r (export_secret cry f key include_pat (pat_of s) db) ([], []) (snp_Secrets s)) (\<lambda>(values, omitted).
     Inr \<lparr>rcs_Snapshot = s, rcs_SecretValues = values, rcs_Omitted = sort omitted\<rparr>))"

subsection \<open>Validation\<close>

definition validate_recovery_secret :: "recovery_state \<Rightarrow> secret_metadata \<Rightarrow> unit result" where
  "validate_recovery_secret r s =
     (let has_value = smd_ID s \<in> fst ` set (rcs_SecretValues r); omitted = smd_ID s \<in> set (rcs_Omitted r) in
      checks
       [reject_if (smd_IsSet s \<and> \<not> has_value \<and> \<not> omitted) (Errf ''recovery secret %s is missing'' [smd_ID s]),
        reject_if (\<not> smd_IsSet s \<and> has_value) (Errf ''unset recovery secret %s unexpectedly has material'' [smd_ID s]),
        reject_if (omitted \<and> \<not> smd_IsSet s) (Errf ''unset recovery secret %s cannot be omitted'' [smd_ID s])])"

definition validate_recovery_identity :: "recovery_state \<Rightarrow> mgmt_target \<Rightarrow> unit result" where
  "validate_recovery_identity r t =
     (let i = tgt_SSHIdentitySecretID t in
      if i = [] then Inr ()
      else
        (case find (\<lambda>s. smd_ID s = i) (snp_Secrets (rcs_Snapshot r)) of
           None \<Rightarrow> Inl (Errf ''target %s references missing ssh identity secret'' [tgt_ID t])
         | Some s \<Rightarrow> checks
             [reject_if (\<not> smd_IsSet s) (Errf ''target %s ssh identity secret is unset'' [tgt_ID t]),
              reject_if (i \<notin> fst ` set (rcs_SecretValues r))
                (Errf ''target %s ssh identity secret material is missing'' [tgt_ID t])]))"

definition validate_recovery_target :: "recovery_state \<Rightarrow> mgmt_target \<Rightarrow> unit result" where
  "validate_recovery_target r t =
     checks
      [reject_if (tgt_ID t = [] \<or> tgt_Address t = [] \<or> tgt_SSHUser t = [])
         (Err ''recovery package contains incomplete target identity''),
       validate_recovery_identity r t,
       wrap_error ''target %s desired state: %w'' [tgt_ID t] (validate_desired (tgt_Desired t))]"

definition validate_recovery_github :: "snapshot \<Rightarrow> unit result" where
  "validate_recovery_github s =
     (case sst_Github (snp_Sources s) of
        None \<Rightarrow> Inr ()
      | Some c \<Rightarrow> checks
          [reject_if (ghc_Owner c = [] \<or> ghc_Repository c = [] \<or> ghc_Ref c = [] \<or> ghc_PATSecretID c = [])
             (Err ''recovery custom module github configuration is incomplete''),
           reject_if (ghc_PATSecretID c \<notin> smd_ID ` set (snp_Secrets s))
             (Err ''recovery custom module github PAT metadata is missing'')])"

definition validate_recovery_snapshot :: "recovery_state \<Rightarrow> unit result" where
  "validate_recovery_snapshot r =
     (let s = rcs_Snapshot r in
      also_r (reject_if (snp_Targets s = []) (Err ''recovery package contains no target''))
     (bind_r (each_unique
        (\<lambda>m. reject_if (smd_ID m = [] \<or> smd_Name m = []) (Err ''recovery package contains invalid secret metadata''))
        smd_ID (\<lambda>m. Errf ''duplicate recovery secret %s'' [smd_ID m]) (\<lambda>m. Inr ()) {} (snp_Secrets s)) (\<lambda>_.
      bind_r (each_unique
        (\<lambda>i. reject_if (i = [] \<or> i \<noteq> pat_of s)
           (Errf ''recovery may omit only the configured Custom Module Github PAT, got %s'' [i]))
        (\<lambda>i. i) (\<lambda>i. Errf ''duplicate omitted recovery secret %s'' [i]) (\<lambda>i. Inr ()) {} (rcs_Omitted r)) (\<lambda>_.
      checks
       [for_each (validate_recovery_secret r) (snp_Secrets s),
        for_each (\<lambda>(i, v). reject_if (i \<notin> smd_ID ` set (snp_Secrets s))
          (Errf ''recovery contains material for unknown secret %s'' [i])) (rcs_SecretValues r),
        for_each (validate_recovery_target r) (snp_Targets s),
        validate_recovery_github s]))))"

subsection \<open>Import\<close>

text \<open>One loop of \<open>INSERT\<close> statements; \<open>allowed\<close> is what the schema demands beside the primary key.\<close>

definition import_rows ::
  "sql_faults \<Rightarrow> string \<Rightarrow> string \<Rightarrow> ('r \<Rightarrow> bytes) \<Rightarrow> ('r list \<Rightarrow> 'r \<Rightarrow> bool) \<Rightarrow> ('a \<Rightarrow> 'r result) \<Rightarrow> 'a list \<Rightarrow> 'r list result" where
  "import_rows f stmt failed key allowed row xs =
     fold_r (\<lambda>rows x. bind_r (row x) (\<lambda>r. wrap_error failed [key r] (exec_sql f stmt [key r]
       (also_r (constraint (allowed rows r)) (insert_row key r rows))))) [] xs"

definition imported_secret :: "crypto \<Rightarrow> bytes \<Rightarrow> (bytes \<Rightarrow> bytes result) \<Rightarrow> (bytes \<times> bytes) list \<Rightarrow> secret_metadata \<Rightarrow> secret_row result" where
  "imported_secret cry key nonce vals s =
     bind_r (case map_of vals (smd_ID s) of
        None \<Rightarrow> Inr None
      | Some v \<Rightarrow> bind_r (wrap_error ''encrypt imported secret %s: %w'' [smd_ID s]
          (encrypt_secret cry key (nonce (smd_ID s)) (smd_ID s) v)) (\<lambda>c. Inr (Some c))) (\<lambda>c.
     Inr \<lparr>srw_ID = smd_ID s, srw_Name = smd_Name s, srw_Origin = smd_Origin s, srw_CreatedAt = smd_CreatedAt s,
          srw_RotatedAt = smd_RotatedAt s, srw_RotationCount = smd_RotationCount s, srw_Ciphertext = c\<rparr>)"

definition imported_target :: "mgmt_target \<Rightarrow> target_row" where
  "imported_target t =
     \<lparr>trw_ID = tgt_ID t, trw_Address = tgt_Address t, trw_SSHUser = tgt_SSHUser t,
      trw_SSHIdentitySecretID = tgt_SSHIdentitySecretID t, trw_SSHHostKey = tgt_SSHHostKey t,
      trw_SSHHostFingerprint = tgt_SSHHostFingerprint t, trw_SSHTrust = tgt_SSHTrust t,
      trw_DesiredJSON = json_encode (desired_json (tgt_Desired t)),
      trw_ObservedJSON = json_encode (observed_json (tgt_Observed t))\<rparr>"

definition fresh_checks :: "sql_faults \<Rightarrow> db \<Rightarrow> unit result" where
  "fresh_checks f db =
     for_each (\<lambda>(q, n). bind_r (wrap_error ''inspect fresh recovery target: %w'' [] (exec_sql f q [] (Inr n))) (\<lambda>count.
       reject_if (count \<noteq> 0) (Err ''recovery import requires a fresh VPSmith management state'')))
     [(''count targets'', length (db_Targets db)), (''count secrets'', length (db_Secrets db)),
      (''count workspaces'', length (db_Workspaces db)), (''count bundles'', length (db_Bundles db)),
      (''count records'', length (db_Records db)), (''count backups'', length (db_Backups db)),
      (''count github'', case db_Github db of None \<Rightarrow> 0 | Some c \<Rightarrow> 1)]"

definition import_tables ::
  "crypto \<Rightarrow> sql_faults \<Rightarrow> bytes \<Rightarrow> (bytes \<Rightarrow> bytes result) \<Rightarrow> recovery_state \<Rightarrow> backup_metadata \<Rightarrow> db \<Rightarrow> db result" where
  "import_tables cry f key nonce r imported db =
     (let s = rcs_Snapshot r in
      also_r (fresh_checks f db)
     (also_r (wrap_error ''reset derived source registrations: %w'' [] (exec_sql f ''delete artifacts'' []
        (constraint (db_Artifacts db = []))))
     (bind_r (import_rows f ''import secret'' ''import secret metadata %s: %w'' srw_ID
        (\<lambda>rows x. valid_origin (srw_Origin x) \<and> 0 \<le> srw_RotationCount x)
        (imported_secret cry key nonce (rcs_SecretValues r)) (snp_Secrets s)) (\<lambda>secrets.
      bind_r (import_rows f ''import artifact'' ''import source artifact %s: %w'' sar_ID
        (\<lambda>rows x. valid_source_kind (sar_Kind x) \<and> artifact_key x \<notin> artifact_key ` set rows)
        Inr (sst_Artifacts (snp_Sources s))) (\<lambda>artifacts.
      bind_r (import_rows f ''import workspace'' ''import source workspace %s: %w'' wsp_ID
        (\<lambda>rows x. valid_source_kind (wsp_Kind x) \<and> wsp_BaseSourceID x \<in> sar_ID ` set artifacts)
        Inr (sst_Workspaces (snp_Sources s))) (\<lambda>workspaces.
      also_r (case sst_Github (snp_Sources s) of
          None \<Rightarrow> Inr ()
        | Some c \<Rightarrow> wrap_error ''import custom module github configuration: %w'' [] (exec_sql f ''import github'' []
            (constraint (ghc_PATSecretID c \<in> srw_ID ` set secrets))))
     (bind_r (import_rows f ''import target'' ''import target %s: %w'' trw_ID
        (\<lambda>rows x. valid_trust (trw_SSHTrust x)) (\<lambda>t. Inr (imported_target t)) (snp_Targets s)) (\<lambda>targets.
      bind_r (import_rows f ''import bundle'' ''import execution bundle %s: %w'' bmd_ID (\<lambda>rows x. True)
        Inr (snp_ExecutionBundles s)) (\<lambda>bundles.
      bind_r (import_rows f ''import record'' ''import execution record %s: %w'' rmd_ID
        (\<lambda>rows x. rmd_BundleID x \<in> bmd_ID ` set bundles) Inr (snp_ExecutionRecords s)) (\<lambda>records.
      bind_r (import_rows f ''import backup'' ''import backup metadata %s: %w'' bkm_ID
        (\<lambda>rows x. valid_backup_type (bkm_Type x)) Inr (snp_Backups s)) (\<lambda>backups.
      bind_r (wrap_error ''register imported recovery artifact: %w'' [] (exec_sql f ''insert imported'' [bkm_ID imported]
        (also_r (constraint (valid_backup_type (bkm_Type imported))) (insert_row bkm_ID imported backups)))) (\<lambda>backups'.
      Inr \<lparr>db_Targets = targets, db_Secrets = secrets, db_Artifacts = artifacts, db_Workspaces = workspaces,
           db_Github = sst_Github (snp_Sources s), db_Bundles = bundles, db_Records = records, db_Backups = backups'\<rparr>))))))))))))"

definition replace_from_recovery ::
  "crypto \<Rightarrow> sql_faults \<Rightarrow> bytes \<Rightarrow> (bytes \<Rightarrow> bytes result) \<Rightarrow> recovery_state \<Rightarrow> backup_metadata \<Rightarrow> db \<Rightarrow> unit result \<times> db" where
  "replace_from_recovery cry f key nonce r imported db =
     (case checks
        [reject_if (snp_SchemaVersion (rcs_Snapshot r) \<noteq> current_schema_version)
           (Errf ''unsupported recovery schema version %d'' [decimal_int (snp_SchemaVersion (rcs_Snapshot r))]),
         reject_if (bkm_Type imported \<noteq> Backup_Recovery_Package \<or> bkm_ID imported = [] \<or> bkm_TargetID imported = [])
           (Err ''imported recovery artifact metadata is invalid''),
         validate_recovery_snapshot r] of
        Inl e \<Rightarrow> (Inl e, db)
      | Inr _ \<Rightarrow>
          (case f ''BEGIN IMMEDIATE'' [] of
             Some e \<Rightarrow> (Inl (Wrapf ''begin recovery import: %w'' [] e), db)
           | None \<Rightarrow>
               (case import_tables cry f key nonce r imported db of
                  Inl e \<Rightarrow> (Inl e, db)
                | Inr db' \<Rightarrow>
                    (case f ''COMMIT'' [] of
                       Some e \<Rightarrow> (Inl (Wrapf ''commit recovery import: %w'' [] e), db)
                     | None \<Rightarrow> (Inr (), db')))))"

subsection \<open>What an import writes\<close>

lemma import_fold_total:
  assumes "\<And>k. f stmt [k] = None" "list_all2 (\<lambda>x r. row x = Inr r) xs rs" "distinct (map key (rows @ rs))"
    and "\<And>as r bs. rs = as @ r # bs \<Longrightarrow> allowed (rows @ as) r"
  shows "fold_r (\<lambda>rows x. bind_r (row x) (\<lambda>r. wrap_error failed [key r] (exec_sql f stmt [key r]
       (also_r (constraint (allowed rows r)) (insert_row key r rows))))) rows xs = Inr (rows @ rs)"
  using assms(2-4)
proof (induction xs arbitrary: rs rows)
  case Nil
  then show ?case by simp
next
  case (Cons x xs)
  from Cons.prems(1) obtain r ss where rs: "rs = r # ss" "row x = Inr r" "list_all2 (\<lambda>x r. row x = Inr r) xs ss"
    by (auto simp: list_all2_Cons1)
  have now: "constraint (allowed rows r) = Inr ()" using Cons.prems(3) [of "[]" r ss] rs(1) by (simp add: constraint_def)
  have new: "insert_row key r rows = Inr (rows @ [r])"
    using Cons.prems(2) rs(1) by (auto simp: insert_row_def constraint_def)
  have later: "allowed ((rows @ [r]) @ as) q" if "ss = as @ q # bs" for as q bs
    using Cons.prems(3) [of "r # as" q bs] that rs(1) by simp
  have "fold_r (\<lambda>rows x. bind_r (row x) (\<lambda>r. wrap_error failed [key r] (exec_sql f stmt [key r]
       (also_r (constraint (allowed rows r)) (insert_row key r rows))))) (rows @ [r]) xs = Inr ((rows @ [r]) @ ss)"
    by (rule Cons.IH) (use rs Cons.prems(2) later in auto)
  then show ?case using rs now new assms(1) by (simp add: exec_sql_def)
qed

lemma import_rows_total:
  assumes "\<And>k. f stmt [k] = None" "list_all2 (\<lambda>x r. row x = Inr r) xs rs" "distinct (map key rs)"
    and "\<And>as r bs. rs = as @ r # bs \<Longrightarrow> allowed as r"
  shows "import_rows f stmt failed key allowed row xs = Inr rs"
  using import_fold_total [where rows = "[]" and f = f and stmt = stmt and row = row and xs = xs and rs = rs and key = key
    and allowed = allowed, OF assms(1,2)] assms(3,4) by (simp add: import_rows_def)

end
