(* ===== verification/Mgmt_Restore.thy ===== *)
theory Mgmt_Restore
  imports Mgmt_Recovery
begin

section \<open>Recovery restores the state\<close>

text \<open>
  A snapshot lists each table by identifier; what \<open>ExportRecovery\<close> reads of a store that satisfies
  its invariant can be imported into an empty store with another key and is read back unchanged,
  except for the token that was left out on request and the catalogue of backups.
\<close>

subsection \<open>The snapshot of a store\<close>


lemma normalize_target_id [simp]: "tgt_ID (normalize_target t) = tgt_ID t"
  by (simp add: normalize_target_def)

lemma normalize_target_idem [simp]: "normalize_target (normalize_target t) = normalize_target t"
  by (simp add: normalize_target_def normalize_observed_idem)






subsection \<open>The exported values\<close>





subsection \<open>The restored store\<close>

text \<open>The payload leaves the catalogue of backups out (\<open>recoverypackage/service.go\<close>, \<open>Produce\<close>).\<close>

definition portable :: "recovery_state \<Rightarrow> recovery_state" where
  "portable r = r\<lparr>rcs_Snapshot := (rcs_Snapshot r)\<lparr>snp_Backups := []\<rparr>\<rparr>"














lemma import_needs_no_artifacts:
  assumes "db_Artifacts db \<noteq> []"
  shows "\<exists>e. replace_from_recovery cry f key nonce r imported db = (Inl e, db)"
proof -
  have "constraint (db_Artifacts db = []) = Inl (Err ''constraint failed'')" using assms by (simp add: constraint_def)
  then have "\<exists>e. wrap_error ''reset derived source registrations: %w'' [] (exec_sql f ''delete artifacts'' []
      (constraint (db_Artifacts db = []))) = Inl e"
    by (auto simp: wrap_error_def exec_sql_def split: option.split)
  then have "\<exists>e. import_tables cry f key nonce r imported db = Inl e"
    unfolding import_tables_def Let_def by (cases "fresh_checks f db") auto
  then show ?thesis
    by (auto simp: replace_from_recovery_def split: sum.split option.split)
qed

subsection \<open>The theorems\<close>


text \<open>
  Once a source artifact is registered no recovery import into the store succeeds, now or after
  any further changes: the rows are append-only and the trigger aborts the statement that should
  clear them. \<open>application.Open\<close> registers the embedded sources before it can be asked to import.
\<close>
theorem recovery_refused_with_artifacts:
  assumes "(mgmt_step cry decode key D)\<^sup>*\<^sup>* empty_db db" "db_Artifacts db \<noteq> []"
    and "(mgmt_step cry decode key D)\<^sup>*\<^sup>* db db'" "aead_ok cry" "decodes decode D"
  shows "\<exists>e. replace_from_recovery cry f key' nonce r imported db' = (Inl e, db')"
proof -
  have "db_ok cry key D db" using mgmt_steps_kept [OF assms(1) empty_db_ok(1) assms(4,5)] by blast
  from mgmt_steps_kept [OF assms(3) this assms(4,5)] have "prefix (db_Artifacts db) (db_Artifacts db')"
    by (simp add: grows_def)
  then have "db_Artifacts db' \<noteq> []" using assms(2) by auto
  then show ?thesis by (rule import_needs_no_artifacts)
qed

subsection \<open>Witnesses\<close>

definition empty_observed :: target_observed where
  "empty_observed =
     (let memory = \<lparr>meo_TotalBytes = 0, meo_AvailableBytes = 0\<rparr>;
          service = \<lparr>svo_Present = False, svo_Running = False, svo_ConfigChecked = False, svo_ConfigValid = False\<rparr>;
          hardening = \<lparr>hob_RootPasswordLocked = False, hob_SSHConfigValid = False, hob_SSHValues = [], hob_UFWActive = False,
            hob_UFWDefaultIncoming = [], hob_UFWDefaultOutgoing = [], hob_UFWDefaultRouted = [], hob_UFWLoggingLow = False,
            hob_UFWUnexpectedPublicAllow = False, hob_UFWAllowedPublicTCPPorts = [], hob_Fail2banSSHActive = False,
            hob_Fail2banRecidiveActive = False, hob_UnattendedUpgradesEnabled = False, hob_AutomaticRebootDisabled = False\<rparr>
      in \<lparr>tob_ObservedAt = [],
          tob_Host = \<lparr>hst_Reachable = False, hst_SSH = False, hst_Hostname = [], hst_OSID = [], hst_OSVersion = [],
            hst_Kernel = [], hst_RootFilesystem = memory, hst_Memory = memory, hst_Swap = memory, hst_RebootRequired = False,
            hst_UFWActive = False, hst_Fail2banActive = False, hst_PrimaryHardening = hardening\<rparr>,
          tob_CloudInit = \<lparr>cio_Present = False, cio_Status = [], cio_Version = [], cio_FinishedAt = []\<rparr>,
          tob_Core = \<lparr>coo_Present = False, coo_SourceID = [], coo_Version = [], coo_PackageSHA256 = [], coo_Running = False,
            coo_Podman = \<lparr>pod_Present = False, pod_Rootless = False, pod_CgroupVersion = [], pod_RootlessNetworkCmd = []\<rparr>,
            coo_Units = [], coo_Containers = [], coo_Networks = [], coo_Caddy = service, coo_Authelia = service,
            coo_ExecutionProofs = [], coo_ManagedArtifacts = []\<rparr>,
          tob_Modules = [], tob_PodmanNetworks = [], tob_LinkNetworks = [], tob_ManagedArtifacts = []\<rparr>)"

definition toy_decoders :: state_decoders where
  "toy_decoders = (toy_decode, \<lambda>s. Inr empty_observed)"

definition toy_export :: "recovery_state result" where
  "toy_export = export_recovery toy_cipher toy_decoders no_faults toy_key False toy_db"

definition toy_import :: backup_metadata where
  "toy_import =
     \<lparr>bkm_ID = ''b'', bkm_Type = Backup_Recovery_Package, bkm_TargetID = ''t'', bkm_ModuleInstanceID = [],
      bkm_CreatedAt = ''now'', bkm_LocationRef = [], bkm_SHA256 = []\<rparr>"

definition toy_exported :: recovery_state where
  "toy_exported = (case toy_export of Inr r \<Rightarrow> r | Inl e \<Rightarrow> undefined)"




definition toy_artifact :: source_artifact where
  "toy_artifact =
     \<lparr>sar_ID = ''source_1'', sar_Kind = Source_Core, sar_PackageID = [], sar_PackagePath = [], sar_Version = ''1'',
      sar_Commit = [], sar_SHA256 = ''ab'', sar_StorageRef = ''core/ab''\<rparr>"

definition toy_register :: mgmt_prog where
  "toy_register = Perform (Register_Artifact toy_artifact) (\<lambda>_. Finish (Inr ()))"

lemma toy_registered: "db_Artifacts (toy_run toy_register empty_db) = [toy_artifact]"
  by code_simp

lemma toy_register_path:
  "(mgmt_step toy_cipher toy_decode toy_key {toy_desired})\<^sup>*\<^sup>* empty_db (toy_run toy_register empty_db)"
  using toy_step [of toy_register empty_db] by (simp add: toy_register_def prog_finish prog_perform r_into_rtranclp)

theorem recovery_refused_with_artifacts_witness:
  "\<exists>e. replace_from_recovery toy_cipher no_faults toy_key (\<lambda>i. Inr (replicate 12 CHR ''m'')) (portable toy_exported) toy_import
      (toy_run toy_register empty_db) = (Inl e, toy_run toy_register empty_db)"
  by (rule recovery_refused_with_artifacts [OF toy_register_path _ rtranclp.rtrancl_refl toy_cipher_ok toy_decodes])
    (simp add: toy_registered)

end
