(* ===== verification/Exec_State.thy ===== *)
theory Exec_State
  imports Exec_History Exec_Props Mgmt_Restore
begin

section \<open>Executions in the management state\<close>

text \<open>
  \<open>internal/executionstate/adapter.go\<close>: the executor's secret store and history on the management
  state. Both history operations read a snapshot first, are content with an entry that agrees with
  the run, refuse one that differs, and otherwise append to the history in one change. The adapter
  with a target behind it is an interpretation of the contract of \<open>Exec_History\<close>.
\<close>

fun status_text :: "status \<Rightarrow> bytes" where
  "status_text Not_Started = ''not-started''"
| "status_text Running = ''running''"
| "status_text Interrupted = ''interrupted''"
| "status_text Failed = ''failed''"
| "status_text Success = ''success''"
| "status_text Unknown = ''unknown''"
| "status_text (Other_Status s) = s"

definition adapter_resolve :: "crypto \<Rightarrow> sql_faults \<Rightarrow> bytes \<Rightarrow> bytes \<Rightarrow> db \<Rightarrow> bytes list \<times> unit result" where
  "adapter_resolve cry f key i db =
     (if i = [] then ([], Inl (Err ''secret id and consumer are required''))
      else (case secret_value_of cry f key i db of Inl e \<Rightarrow> ([], Inl e) | Inr v \<Rightarrow> ([v], Inr ())))"

definition bundle_of_run :: "bytes \<Rightarrow> exec_run \<Rightarrow> bundle_metadata" where
  "bundle_of_run created run =
     \<lparr>bmd_ID = exr_BundleID run, bmd_TargetID = exr_TargetID run, bmd_Kind = exr_Kind run, bmd_Version = exr_Version run,
      bmd_SHA256 = exr_BundleSHA256 run, bmd_CreatedAt = created\<rparr>"

definition record_of_run :: "exec_run \<Rightarrow> exec_proof \<Rightarrow> record_metadata" where
  "record_of_run run p =
     \<lparr>rmd_ID = exr_ID run, rmd_BundleID = exr_BundleID run, rmd_TargetID = exr_TargetID run,
      rmd_Outcome = status_text (prf_Status p), rmd_StartedAt = prf_StartedAt p, rmd_FinishedAt = prf_FinishedAt p\<rparr>"

definition same_metadata :: "bundle_metadata \<Rightarrow> exec_run \<Rightarrow> bool" where
  "same_metadata b run =
     (bmd_TargetID b = exr_TargetID run \<and> bmd_SHA256 b = exr_BundleSHA256 run \<and> bmd_Kind b = exr_Kind run \<and>
      bmd_Version b = exr_Version run)"

definition adapter_register ::
  "crypto \<Rightarrow> state_decoders \<Rightarrow> sql_faults \<Rightarrow> bytes \<Rightarrow> bytes \<Rightarrow> exec_run \<Rightarrow> db \<Rightarrow> unit result \<times> db" where
  "adapter_register cry dec f key now run db =
     (case read_snapshot dec f db of
        Inl e \<Rightarrow> (Inl e, db)
      | Inr s \<Rightarrow>
          (case find (\<lambda>b. bmd_ID b = exr_BundleID run) (snp_ExecutionBundles s) of
             Some b \<Rightarrow>
               (reject_if (\<not> same_metadata b run)
                  (Errf ''execution bundle %s already exists with different immutable metadata'' [exr_BundleID run]), db)
           | None \<Rightarrow> change f (op (append_execution_bundle cry f key now (bundle_of_run [] run))) db))"

definition adapter_finished ::
  "crypto \<Rightarrow> state_decoders \<Rightarrow> sql_faults \<Rightarrow> bytes \<Rightarrow> exec_run \<Rightarrow> exec_proof \<Rightarrow> db \<Rightarrow> unit result \<times> db" where
  "adapter_finished cry dec f key run p db =
     (if \<not> proof_of_run run p then (Inl (Err ''target execution proof does not match local run identity''), db)
      else if prf_Status p \<noteq> Success \<and> prf_Status p \<noteq> Failed
      then (Inl (Err ''only terminal target proofs may enter immutable local history''), db)
      else
        (case read_snapshot dec f db of
           Inl e \<Rightarrow> (Inl e, db)
         | Inr s \<Rightarrow>
             (case find (\<lambda>r. rmd_ID r = exr_ID run) (snp_ExecutionRecords s) of
                Some r \<Rightarrow>
                  (reject_if (r \<noteq> record_of_run run p)
                     (Errf ''execution record %s already exists with different immutable metadata'' [exr_ID run]), db)
              | None \<Rightarrow> change f (op (append_execution_record cry f key (record_of_run run p))) db)))"

subsection \<open>What the adapter does to the history\<close>

definition bundle_known :: "exec_run \<Rightarrow> db \<Rightarrow> bool" where
  "bundle_known run db = (\<exists>b\<in>set (db_Bundles db). bmd_ID b = exr_BundleID run \<and> same_metadata b run)"

definition run_recorded :: "exec_run \<Rightarrow> exec_proof \<Rightarrow> db \<Rightarrow> bool" where
  "run_recorded run p db = (record_of_run run p \<in> set (db_Records db))"

lemma snapshot_history:
  assumes "read_snapshot dec f db = Inr s"
  shows "snp_ExecutionBundles s = sort_key bmd_ID (db_Bundles db)" "snp_ExecutionRecords s = sort_key rmd_ID (db_Records db)"
  using assms
  by (auto simp: read_snapshot_def read_canonical_sources_def read_secrets_def read_history_def read_backups_def result_simps
      normalize_snapshot_def)

lemma change_op_cases:
  assumes "change f (op g) db = (r, db')"
  shows "db' = db \<and> r \<noteq> Inr () \<or> r = Inr () \<and> g db = Inr db'"
  using assms by (auto simp: change_def op_def split: option.splits prod.splits sum.splits)

lemma register_cases:
  assumes "adapter_register cry dec f key now run db = (r, db')"
  shows "(db' = db \<and> (r = Inr () \<longrightarrow> bundle_known run db)) \<or>
    (\<exists>created. r = Inr () \<and> db' = db\<lparr>db_Bundles := db_Bundles db @ [bundle_of_run created run]\<rparr>)"
proof (cases "read_snapshot dec f db")
  case (Inl e)
  then show ?thesis using assms by (auto simp: adapter_register_def)
next
  case (Inr s)
  show ?thesis
  proof (cases "find (\<lambda>b. bmd_ID b = exr_BundleID run) (snp_ExecutionBundles s)")
    case None
    then have "change f (op (append_execution_bundle cry f key now (bundle_of_run [] run))) db = (r, db')"
      using assms Inr by (simp add: adapter_register_def)
    from change_op_cases [OF this] show ?thesis
      by (auto simp: append_execution_bundle_def bundle_of_run_def Let_def result_simps)
  next
    case (Some b)
    have "b \<in> set (db_Bundles db)" "bmd_ID b = exr_BundleID run"
      using find_Some_in [OF Some] by (simp_all add: snapshot_history [OF Inr])
    then show ?thesis using assms Inr Some
      by (auto simp: adapter_register_def bundle_known_def reject_if_def split: if_splits)
  qed
qed

lemma finished_cases:
  assumes "adapter_finished cry dec f key run p db = (r, db')"
  shows "db' = db \<and> (r = Inr () \<longrightarrow> run_recorded run p db) \<or>
    r = Inr () \<and> db' = db\<lparr>db_Records := db_Records db @ [record_of_run run p]\<rparr>"
proof (cases "proof_of_run run p \<and> (prf_Status p = Success \<or> prf_Status p = Failed)")
  case False
  then show ?thesis using assms by (auto simp: adapter_finished_def split: if_splits)
next
  case ok: True
  show ?thesis
  proof (cases "read_snapshot dec f db")
    case (Inl e)
    then show ?thesis using assms ok by (auto simp: adapter_finished_def split: if_splits)
  next
    case (Inr s)
    show ?thesis
    proof (cases "find (\<lambda>r. rmd_ID r = exr_ID run) (snp_ExecutionRecords s)")
      case None
      then have "change f (op (append_execution_record cry f key (record_of_run run p))) db = (r, db')"
        using assms ok Inr by (auto simp: adapter_finished_def)
      from change_op_cases [OF this] show ?thesis by (auto simp: append_execution_record_def result_simps)
    next
      case (Some q)
      have "q \<in> set (db_Records db)" using find_Some_in [OF Some] by (simp add: snapshot_history [OF Inr])
      then show ?thesis using assms ok Inr Some
        by (auto simp: adapter_finished_def run_recorded_def reject_if_def split: if_splits)
    qed
  qed
qed

lemma register_effect:
  assumes "adapter_register cry dec f key now run db = (r, db')"
  shows "bundle_known q db \<Longrightarrow> bundle_known q db'" "r = Inr () \<Longrightarrow> bundle_known run db'"
  using register_cases [OF assms] by (auto simp: bundle_known_def bundle_of_run_def same_metadata_def)

lemma finished_effect:
  assumes "adapter_finished cry dec f key run p db = (r, db')"
  shows "bundle_known q db \<Longrightarrow> bundle_known q db'" "r = Inr () \<Longrightarrow> run_recorded run p db'"
  using finished_cases [OF assms] by (auto simp: bundle_known_def run_recorded_def)

subsection \<open>The contract holds\<close>

text \<open>
  The executor's outside: the adapter on the management state and a target with a state of its own,
  on which the faults of the database, the clock and the wait may depend.
\<close>

definition on_fst :: "('a \<Rightarrow> 'r \<times> 'a) \<Rightarrow> 'a \<times> 'b \<Rightarrow> 'r \<times> 'a \<times> 'b" where
  "on_fst g w = (case g (fst w) of (r, a) \<Rightarrow> (r, a, snd w))"

definition on_snd :: "('b \<Rightarrow> 'r \<times> 'b) \<Rightarrow> 'a \<times> 'b \<Rightarrow> 'r \<times> 'a \<times> 'b" where
  "on_snd g w = (case g (snd w) of (r, b) \<Rightarrow> (r, fst w, b))"

definition studio_env ::
  "crypto \<Rightarrow> state_decoders \<Rightarrow> ('x \<Rightarrow> sql_faults) \<Rightarrow> bytes \<Rightarrow> ('x \<Rightarrow> bytes) \<Rightarrow> 'x exec_env \<Rightarrow> (db \<times> 'x) exec_env" where
  "studio_env cry dec faults key clock target =
     \<lparr>env_NewID = on_snd (env_NewID target), env_Upload = (\<lambda>t b. on_snd (env_Upload target t b)),
      env_Register = (\<lambda>run w. on_fst (adapter_register cry dec (faults (snd w)) key (clock (snd w)) run) w),
      env_Start = (\<lambda>t q. on_snd (env_Start target t q)), env_Observe = (\<lambda>t i. on_snd (env_Observe target t i)),
      env_Resolve = (\<lambda>i w. (adapter_resolve cry (faults (snd w)) key i (fst w), w)),
      env_SendSecrets = (\<lambda>t i vs. on_snd (env_SendSecrets target t i vs)),
      env_Finished = (\<lambda>run p w. on_fst (adapter_finished cry dec (faults (snd w)) key run p) w),
      env_Wait = on_snd (env_Wait target)\<rparr>"

interpretation studio: run_history "studio_env cry dec faults key clock target"
  "\<lambda>run w. bundle_known run (fst w)" "\<lambda>run p w. run_recorded run p (fst w)"
proof unfold_locales
  fix run w w'
  assume "env_Register (studio_env cry dec faults key clock target) run w = (Inr (), w')"
  then show "bundle_known run (fst w')"
    by (auto simp: studio_env_def on_fst_def split: prod.splits dest: register_effect(2))
next
  fix run p w w'
  assume "env_Finished (studio_env cry dec faults key clock target) run p w = (Inr (), w')"
  then show "run_recorded run p (fst w')"
    by (auto simp: studio_env_def on_fst_def split: prod.splits dest: finished_effect(2))
next
  fix run
  show "env_keeps (\<lambda>w. bundle_known run (fst w)) (studio_env cry dec faults key clock target)"
    by (auto simp: env_keeps_def studio_env_def on_fst_def on_snd_def split: prod.splits
        dest: register_effect(1) finished_effect(1))
next
  fix run run' and w :: "db \<times> 'a"
  assume "same_bundle run run'"
  then show "bundle_known run (fst w) = bundle_known run' (fst w)"
    by (simp add: bundle_known_def same_metadata_def same_bundle_def)
qed

subsection \<open>The theorems\<close>

definition history_extended :: "db \<Rightarrow> db \<Rightarrow> bool" where
  "history_extended db db' =
     (\<exists>bs rs. db' = db\<lparr>db_Bundles := db_Bundles db @ bs, db_Records := db_Records db @ rs\<rparr>)"

lemma history_extended_refl: "history_extended db db"
  unfolding history_extended_def by (intro exI [of _ "[]"]) simp

lemma history_extended_append:
  assumes "history_extended db0 db"
  shows "history_extended db0 (db\<lparr>db_Bundles := db_Bundles db @ [v]\<rparr>)" "history_extended db0 (db\<lparr>db_Records := db_Records db @ [q]\<rparr>)"
proof -
  from assms obtain bs rs where db: "db = db0\<lparr>db_Bundles := db_Bundles db0 @ bs, db_Records := db_Records db0 @ rs\<rparr>"
    by (auto simp: history_extended_def)
  show "history_extended db0 (db\<lparr>db_Bundles := db_Bundles db @ [v]\<rparr>)"
    unfolding history_extended_def db by (intro exI [of _ "bs @ [v]"] exI [of _ rs]) simp
  show "history_extended db0 (db\<lparr>db_Records := db_Records db @ [q]\<rparr>)"
    unfolding history_extended_def db by (intro exI [of _ bs] exI [of _ "rs @ [q]"]) simp
qed

lemma adapter_extends:
  "adapter_register cry dec f key now run db = (r, db') \<Longrightarrow> history_extended db0 db \<Longrightarrow> history_extended db0 db'"
  "adapter_finished cry dec f key run p db = (r, db') \<Longrightarrow> history_extended db0 db \<Longrightarrow> history_extended db0 db'"
  by (drule register_cases, use history_extended_append in blast) (drule finished_cases, use history_extended_append in blast)

lemma studio_extends:
  "env_keeps (\<lambda>w. history_extended db (fst w)) (studio_env cry dec faults key clock target)"
  by (auto simp: env_keeps_def studio_env_def on_fst_def on_snd_def split: prod.splits intro: adapter_extends)

text \<open>
  Whatever the target does, an execution through the Studio changes nothing of the management
  state but appends to the two history tables. When it succeeds, the bundle verified for the target,
  and afterwards the history holds the metadata of exactly that bundle and the record of a successful
  proof of exactly that run.
\<close>
theorem executed_in_history:
  assumes "execute tar_read decode (studio_env cry dec faults key clock target) t b (db, x) = Some ((r, e), db', x')"
  shows "history_extended db db' \<and>
    (e = Inr () \<longrightarrow> (\<exists>m p bundle. validate_bundle tar_read decode t b = Inr m \<and> bundle \<in> set (db_Bundles db') \<and>
      bmd_ID bundle = bun_ID b \<and> bmd_SHA256 bundle = bun_SHA256 b \<and> bmd_TargetID bundle = t \<and>
      bmd_Kind bundle = kind_text (man_Kind m) \<and> bmd_Version bundle = man_Version m \<and>
      record_of_run r p \<in> set (db_Records db') \<and> rmd_Outcome (record_of_run r p) = ''success'' \<and>
      prf_RunID p = exr_ID r \<and> prf_BundleID p = bun_ID b \<and> prf_TargetID p = t))"
proof (intro conjI impI)
  show "history_extended db db'"
    using execute_keeps [OF studio_extends [of db] _ assms] by (simp add: history_extended_refl)
  assume "e = Inr ()"
  from studio.executed_is_recorded [OF assms [unfolded this]] obtain m p where
    m: "validate_bundle tar_read decode t b = Inr m" and k: "bundle_known r db'" "run_recorded r p db'"
    and same: "same_bundle r (new_run (exr_ID r) t b m)" and p: "prf_Status p = Success" "proof_of_run r p"
    by auto
  from k(1) obtain c where c: "c \<in> set (db_Bundles db')" "bmd_ID c = exr_BundleID r" "same_metadata c r"
    by (auto simp: bundle_known_def)
  have "rmd_Outcome (record_of_run r p) = ''success''" using p(1) by (simp add: record_of_run_def)
  then show "\<exists>m p bundle. validate_bundle tar_read decode t b = Inr m \<and> bundle \<in> set (db_Bundles db') \<and>
      bmd_ID bundle = bun_ID b \<and> bmd_SHA256 bundle = bun_SHA256 b \<and> bmd_TargetID bundle = t \<and>
      bmd_Kind bundle = kind_text (man_Kind m) \<and> bmd_Version bundle = man_Version m \<and>
      record_of_run r p \<in> set (db_Records db') \<and> rmd_Outcome (record_of_run r p) = ''success'' \<and>
      prf_RunID p = exr_ID r \<and> prf_BundleID p = bun_ID b \<and> prf_TargetID p = t"
    using m c k(2) same p(2)
    by (intro exI [of _ m] exI [of _ p] exI [of _ c])
      (simp add: same_metadata_def run_recorded_def same_bundle_def new_run_def proof_of_run_def)
qed

lemma recorded_once:
  assumes "record_of_run run p \<in> set (db_Records db)" "distinct (map rmd_ID (db_Records db))" "read_snapshot dec f db = Inr s"
    and "proof_of_run run q" "terminal (prf_Status q)"
  shows "adapter_finished cry dec f key run q db =
    (reject_if (record_of_run run p \<noteq> record_of_run run q)
       (Errf ''execution record %s already exists with different immutable metadata'' [exr_ID run]), db)"
proof -
  have "\<exists>r. find (\<lambda>r. rmd_ID r = exr_ID run) (snp_ExecutionRecords s) = Some r"
    using assms(1) by (cases "find (\<lambda>r. rmd_ID r = exr_ID run) (snp_ExecutionRecords s)")
      (auto simp: find_None_iff snapshot_history [OF assms(3)] record_of_run_def)
  then obtain r where r: "find (\<lambda>r. rmd_ID r = exr_ID run) (snp_ExecutionRecords s) = Some r" by blast
  have "r \<in> set (db_Records db)" "rmd_ID r = rmd_ID (record_of_run run p)"
    using find_Some_in [OF r] by (simp_all add: snapshot_history [OF assms(3)] record_of_run_def)
  then have "r = record_of_run run p" using same_key_same [OF assms(2) assms(1)] by blast
  then show ?thesis using assms(3-5) r by (auto simp: adapter_finished_def terminal_def)
qed

text \<open>
  A finished run is recorded once. After the record of a run was accepted, in every later state of
  the history that can be read, finishing the run again with the same outcome and times succeeds and
  writes nothing, and finishing it with any other terminal proof is refused and writes nothing.
\<close>
theorem finished_once:
  assumes "adapter_finished cry dec f key run p db = (Inr (), db1)" "grows db1 db2" "history_ok db2"
    and "read_snapshot dec f' db2 = Inr s" "proof_of_run run q" "terminal (prf_Status q)"
  shows "adapter_finished cry dec f' key' run q db2 =
    (if record_of_run run q = record_of_run run p then (Inr (), db2)
     else (Inl (Errf ''execution record %s already exists with different immutable metadata'' [exr_ID run]), db2))"
proof -
  have "record_of_run run p \<in> set (db_Records db1)"
    using finished_effect(2) [OF assms(1)] by (simp add: run_recorded_def)
  then have "record_of_run run p \<in> set (db_Records db2)"
    using assms(2) by (auto simp: grows_def dest: set_mono_prefix)
  from recorded_once [OF this _ assms(4-6)] show ?thesis
    using assms(3) by (auto simp: history_ok_def reject_if_def)
qed

subsection \<open>On the sample bundle\<close>

definition sample_started :: exec_run where
  "sample_started = new_run ''run_1'' ''target_1'' sample_bundle sample_manifest"

definition sample_success_proof :: exec_proof where
  "sample_success_proof = sample_proof ''run_1'' Success ''done''"

abbreviation sample_studio :: "(db \<times> nat) exec_env" where
  "sample_studio \<equiv> studio_env toy_cipher toy_decoders (\<lambda>x. no_faults) toy_key (\<lambda>x. ''now'') (sample_env sample_success_proof)"

lemma sample_nonblank: "trim_space (sha256_hex s) \<noteq> []"
proof -
  have "set ''0123456789abcdef'' \<inter> set (concat space_runes) = {}" by code_simp
  then have "set (sha256_hex s) \<inter> set (concat space_runes) = {}"
    using hex_encode_chars [of _ "sha256 s"] by blast
  moreover have "length (sha256_hex s) = 64" by (simp add: length_sha256)
  ultimately show ?thesis using trim_space_free by (metis length_0_conv zero_neq_numeral)
qed

lemma sample_names:
  "bun_ID sample_bundle \<noteq> []" "trim_space (bun_SHA256 sample_bundle) \<noteq> []"
  "man_Version sample_manifest = ''1.2.0''" "man_Kind sample_manifest = Installation"
  using sample_nonblank
  by (simp_all add: sample_bundle_def sample_manifest_def draft_manifest_def sample_input_def normalize_manifest_def Let_def
      bundle_identity_def)

definition sample_recorded :: db where
  "sample_recorded =
     empty_db\<lparr>db_Bundles := [bundle_of_run ''now'' sample_started],
       db_Records := [record_of_run (sample_final Success ''done'') sample_success_proof]\<rparr>"

lemma read_empty: "read_snapshot dec no_faults (empty_db\<lparr>db_Bundles := bs\<rparr>) =
    Inr (normalize_snapshot \<lparr>snp_SchemaVersion = current_schema_version, snp_Targets = [],
      snp_Sources = \<lparr>sst_Artifacts = [], sst_Workspaces = [], sst_Github = None\<rparr>, snp_Secrets = [],
      snp_ExecutionBundles = sort_key bmd_ID bs, snp_ExecutionRecords = [], snp_Backups = []\<rparr>)"
  by (simp add: read_snapshot_def read_canonical_sources_def read_secrets_def read_history_def read_backups_def exec_sql_def
      no_faults_def empty_db_def)

lemma sample_registers:
  "adapter_register toy_cipher dec no_faults toy_key ''now'' sample_started empty_db =
     (Inr (), empty_db\<lparr>db_Bundles := [bundle_of_run ''now'' sample_started]\<rparr>)"
proof -
  have trims: "trim_space ''installation'' \<noteq> []" "trim_space ''1.2.0'' \<noteq> []" by code_simp+
  have "append_execution_bundle toy_cipher no_faults toy_key ''now'' (bundle_of_run [] sample_started) empty_db =
      Inr (empty_db\<lparr>db_Bundles := [bundle_of_run ''now'' sample_started]\<rparr>)"
    using sample_names trims
    by (simp add: append_execution_bundle_def bundle_of_run_def sample_started_def new_run_def reject_known_secret_material_def
        exec_sql_def no_faults_def set_secrets_def empty_db_def insert_row_def constraint_def Let_def)
  then show ?thesis
    using read_empty [of dec "[]"]
    by (simp add: adapter_register_def change_def op_def no_faults_def normalize_snapshot_def empty_db_def)
qed

lemma sample_finishes:
  "adapter_finished toy_cipher dec no_faults toy_key (sample_final Success ''done'') sample_success_proof
     (empty_db\<lparr>db_Bundles := [bundle_of_run ''now'' sample_started]\<rparr>) = (Inr (), sample_recorded)"
proof -
  have trims: "trim_space ''success'' \<noteq> []" by code_simp
  have rec: "append_execution_record toy_cipher no_faults toy_key
      (record_of_run (sample_final Success ''done'') sample_success_proof) (empty_db\<lparr>db_Bundles := [bundle_of_run ''now'' sample_started]\<rparr>) =
      Inr sample_recorded"
    using sample_names trims
    by (simp add: append_execution_record_def record_of_run_def bundle_of_run_def sample_started_def sample_final_def
        new_run_def sample_success_proof_def sample_proof_def reject_known_secret_material_def sample_recorded_def
        exec_sql_def no_faults_def set_secrets_def empty_db_def insert_row_def constraint_def)
  have mine: "proof_of_run (sample_final Success ''done'') sample_success_proof" "prf_Status sample_success_proof = Success"
    by (simp_all add: proof_of_run_def sample_final_def new_run_def sample_success_proof_def sample_proof_def)
  have none: "find (\<lambda>r. rmd_ID r = exr_ID (sample_final Success ''done'')) [] = None" by simp
  show ?thesis
    unfolding adapter_finished_def read_empty
    using mine rec by (simp add: normalize_snapshot_def change_def op_def no_faults_def)
qed

lemma sample_studio_run:
  "execute sample_tar sample_decoder sample_studio ''target_1'' sample_bundle (empty_db, 1) =
     Some ((sample_final Success ''done'', Inr ()), sample_recorded, 1)"
proof -
  have "poll sample_studio ''target_1'' sample_manifest (sample_started\<lparr>exr_Status := Running\<rparr>) False
      (empty_db\<lparr>db_Bundles := [bundle_of_run ''now'' sample_started]\<rparr>, 1) =
    Some ((sample_final Success ''done'', Inr ()), sample_recorded, 1)"
    using sample_finishes
    by (subst poll.simps)
      (simp add: poll_round_def studio_env_def on_fst_def on_snd_def sample_env_def validate_observation_identity_def
        proof_of_run_def sample_proof_def sample_success_proof_def sample_started_def new_run_def vanished_def
        secrets_round_def awaits_secrets_def close_round_def terminal_def record_finished_def
        observed_run_def classify_def Let_def sample_final_def)
  then show ?thesis
    using sample_registers
    by (simp add: execute_def sample_validates studio_env_def on_fst_def on_snd_def Let_def sample_env_def
        sample_started_def [symmetric])
qed

theorem executed_in_history_witness:
  "\<exists>p bundle. bundle \<in> set (db_Bundles sample_recorded) \<and> bmd_ID bundle = bun_ID sample_bundle \<and>
     record_of_run (sample_final Success ''done'') p \<in> set (db_Records sample_recorded)"
  using executed_in_history [OF sample_studio_run] by blast

theorem finished_once_witness:
  "adapter_finished toy_cipher toy_decoders no_faults toy_key (sample_final Success ''done'')
     (sample_success_proof\<lparr>prf_FinishedAt := ''t3''\<rparr>) sample_recorded =
   (Inl (Errf ''execution record %s already exists with different immutable metadata'' [''run_1'']), sample_recorded)"
proof -
  have ok: "history_ok sample_recorded" "grows sample_recorded sample_recorded"
    by (simp_all add: history_ok_def grows_def sample_recorded_def record_of_run_def bundle_of_run_def sample_started_def
        sample_final_def new_run_def empty_db_def)
  have readable: "\<exists>s. read_snapshot toy_decoders no_faults sample_recorded = Inr s"
    by (simp add: read_snapshot_def read_canonical_sources_def read_secrets_def read_history_def read_backups_def exec_sql_def
      no_faults_def empty_db_def sample_recorded_def)
  have mine: "proof_of_run (sample_final Success ''done'') (sample_success_proof\<lparr>prf_FinishedAt := ''t3''\<rparr>)"
    "terminal (prf_Status (sample_success_proof\<lparr>prf_FinishedAt := ''t3''\<rparr>))"
    by (simp_all add: proof_of_run_def terminal_def sample_final_def new_run_def sample_success_proof_def sample_proof_def)
  have other: "record_of_run (sample_final Success ''done'') (sample_success_proof\<lparr>prf_FinishedAt := ''t3''\<rparr>) \<noteq>
      record_of_run (sample_final Success ''done'') sample_success_proof"
    by (simp add: record_of_run_def sample_success_proof_def sample_proof_def)
  obtain s where "read_snapshot toy_decoders no_faults sample_recorded = Inr s" using readable by blast
  from finished_once [where key' = toy_key, OF sample_finishes ok(2,1) this mine] other show ?thesis
    by (simp add: sample_final_def new_run_def)
qed

end
