(* ===== verification/Deploy_Types.thy ===== *)
theory Deploy_Types
  imports Bundle_Types Module_Compile Sha256
begin

section \<open>The data of the deployment compiler\<close>

text \<open>
  \<open>internal/deployment/types.go\<close>. A frozen source carries the package it names, its file
  system as in \<open>Module_Compile\<close>. \<open>ExpectedPost\<close> is the JSON value of the anonymous struct that
  \<open>expectedPost\<close> builds.
\<close>

datatype operation_kind = Install | Update | Reconfigure | Uninstall | Restore | Validate | Other_Op bytes

record frozen_source =
  fsr_InstanceID :: bytes
  fsr_SourceID :: bytes
  fsr_PackageID :: bytes
  fsr_GitCommit :: bytes
  fsr_PackageSHA256 :: bytes
  fsr_PackageFS :: "(bytes \<Rightarrow> bytes result) option"

record resource_override =
  ovr_MemoryBytes :: int
  ovr_CPUQuota :: int
  ovr_PIDsLimit :: int
  ovr_TasksMax :: int

record desired_module =
  des_InstanceID :: bytes
  des_Source :: frozen_source
  des_SecretIDs :: "bytes go_map"
  des_Resources :: resource_override

record observed_module =
  obm_InstanceID :: bytes
  obm_ModuleID :: bytes
  obm_PackageID :: bytes
  obm_Version :: bytes
  obm_PackageSHA256 :: bytes
  obm_ImageDigests :: "bytes go_map"
  obm_ArtifactSHA256 :: "bytes go_map"
  obm_RuntimeObjects :: "bytes list"

record observed_network =
  obn_Name :: bytes
  obn_Subnet :: bytes
  obn_Relationship :: bytes

record observed_claim =
  obc_Kind :: bytes
  obc_Value :: bytes
  obc_Owner :: bytes

record observed_state =
  obs_TargetID :: bytes
  obs_CoreID :: bytes
  obs_Modules :: "observed_module list"
  obs_Networks :: "observed_network list"
  obs_Claims :: "observed_claim list"

record request =
  req_Operation :: operation_kind
  req_TargetID :: bytes
  req_SubjectInstance :: bytes
  req_DesiredModules :: "desired_module list"
  req_Observed :: observed_state
  req_CoreContract :: bytes
  req_CoreSource :: source_identity
  req_BackupRequired :: bool
  req_SubjectSource :: "frozen_source option"
  req_SubjectSecretIDs :: "bytes go_map"

record plan_step =
  pls_ID :: bytes
  pls_Description :: bytes
  pls_Mutating :: bool

record diff_fact =
  dif_Kind :: bytes
  dif_Subject :: bytes
  dif_Desired :: bytes
  dif_Observed :: bytes

record generated_artifact =
  gen_Path :: bytes
  gen_TargetPath :: bytes
  gen_Mode :: int
  gen_Data :: bytes
  gen_SHA256 :: bytes

record frozen_identity =
  fid_InstanceID :: bytes
  fid_ModuleID :: bytes
  fid_Version :: bytes
  fid_SourceID :: bytes
  fid_PackageID :: bytes
  fid_GitCommit :: bytes
  fid_PackageSHA256 :: bytes

record link_network =
  lnk_Relationship :: bytes
  lnk_Name :: bytes
  lnk_Subnet :: bytes
  lnk_Alias :: bytes
  lnk_Provider :: bytes
  lnk_Consumer :: bytes

record prepared_operation =
  pop_Operation :: operation_kind
  pop_PlanRequired :: bool
  pop_Plan :: "plan_step list"
  pop_FrozenSources :: "frozen_identity list"
  pop_ImageDigests :: "bytes go_map"
  pop_ExpectedChanges :: "diff_fact list"
  pop_Artifacts :: "generated_artifact list"
  pop_Preconditions :: "precondition list"
  pop_ExpectedPost :: json
  pop_Validations :: "validation_spec list"
  pop_LinkNetworks :: "link_network list"
  pop_Bundle :: exec_bundle

record compiled_module =
  cmp_Desired :: desired_module
  cmp_Contract :: module_t
  cmp_Images :: "bytes go_map"
  cmp_Effective :: resources

abbreviation cmp_Instance :: "compiled_module \<Rightarrow> bytes" where
  "cmp_Instance m \<equiv> des_InstanceID (cmp_Desired m)"

text \<open>Reading a Go map of strings: a missing key reads as the empty string.\<close>

definition map_get :: "bytes go_map \<Rightarrow> bytes \<Rightarrow> bytes" where
  "map_get m k = (case map_of m k of Some v \<Rightarrow> v | None \<Rightarrow> [])"

end
