(* ===== verification/Deploy_Bootstrap.thy ===== *)
theory Deploy_Bootstrap
  imports Deploy_Types Mgmt_Types
begin

section \<open>The bootstrap document\<close>

text \<open>
  \<open>internal/deployment/bootstrap.go\<close>: validation of a bootstrap request and the rendered
  Cloud-init document. \<open>text/template\<close> is the parameter \<open>render\<close>: from the template and the values
  of the data struct, in the order of its fields, the rendered bytes or an error of parsing
  (\<open>Parse_Failed\<close>) or of execution (\<open>Execute_Failed\<close>).
\<close>

record bootstrap_source =
  bso_SnapshotID :: bytes
  bso_Version :: bytes
  bso_SHA256 :: bytes
  bso_Template :: bytes

record bootstrap_request =
  brq_TargetID :: bytes
  brq_Desired :: cloud_init_desired
  brq_SSHPublicKey :: bytes
  brq_Source :: bootstrap_source

record bootstrap_artifact =
  bar_Identity :: bytes
  bar_SHA256 :: bytes
  bar_Bytes :: bytes

datatype rendered = Rendered bytes | Parse_Failed error | Execute_Failed error

definition max_cloud_init_bytes :: nat where
  "max_cloud_init_bytes = 16 * 1024"

definition administrator_re :: regex where
  "administrator_re =
     RSeq (RClass [lower]) (r_upto 31 (RClass [lower, digit, just CHR ''_'', just CHR ''-'']))"

abbreviation token_class :: regex where
  "token_class \<equiv> RClass [upper, lower, digit, just CHR ''.'', just CHR ''_'', just CHR ''+'', just CHR ''-'']"

definition definition_re :: regex where
  "definition_re = r_plus token_class"

definition timezone_re :: regex where
  "timezone_re = RSeq (r_plus token_class) (RStar (RSeq (r_char CHR ''/'') (r_plus token_class)))"

definition lowercase_sha256_re :: regex where
  "lowercase_sha256_re = r_exactly 64 (RClass [(CHR ''a'', CHR ''f''), digit])"

definition ssh_base64_re :: regex where
  "ssh_base64_re =
     RSeq (r_plus (RClass [upper, lower, digit, just CHR ''+'', just CHR ''/''])) (r_upto 2 (r_char CHR ''=''))"

subsection \<open>Host names and fields\<close>

definition label_ok :: "bytes \<Rightarrow> bool" where
  "label_ok l =
     (l \<noteq> [] \<and> length l \<le> 63 \<and> hd l \<noteq> CHR ''-'' \<and> last l \<noteq> CHR ''-'' \<and>
      list_all (in_class [lower, digit, just CHR ''-'']) l)"

definition valid_hostname :: "bytes \<Rightarrow> bool" where
  "valid_hostname v =
     (length v \<le> 253 \<and> \<not> has_prefix v ''.'' \<and> \<not> has_suffix v ''.'' \<and> list_all label_ok (split_on CHR ''.'' v))"

text \<open>\<open>strings.Fields\<close>: the runs of bytes between white space.\<close>

fun take_field :: "bytes \<Rightarrow> bytes \<times> bytes" where
  "take_field [] = ([], [])"
| "take_field (c # s) =
     (if find (has_prefix (c # s)) space_runes \<noteq> None then ([], c # s)
      else (case take_field s of (f, rest) \<Rightarrow> (c # f, rest)))"

lemma take_field_split: "take_field s = (f, rest) \<Longrightarrow> s = f @ rest"
  by (induction s arbitrary: f rest) (auto split: if_splits prod.splits)

lemma take_field_shorter:
  "find (has_prefix s) space_runes = None \<Longrightarrow> s \<noteq> [] \<Longrightarrow> length (snd (take_field s)) < length s"
  by (cases s) (auto split: prod.split dest: take_field_split)

lemma length_strip: "length (strip ws s) \<le> length s"
  using strip_n_suffix [of s "length s" ws] unfolding strip_def by (metis length_append le_add2)

function fields :: "bytes \<Rightarrow> bytes list" where
  "fields s =
     (let t = strip space_runes s in
      if t = [] then [] else (case take_field t of (f, rest) \<Rightarrow> f # fields rest))"
  by pat_completeness auto
termination
proof (relation "measure length")
  fix s t f rest
  assume t: "t = strip space_runes s" "t \<noteq> []" "(f, rest) = take_field t"
  have "find (has_prefix t) space_runes = None"
    unfolding t(1) strip_def by (rule strip_n_clean) (simp_all add: space_runes_def)
  then have "length rest < length t" using take_field_shorter [of t] t by (metis snd_conv)
  then show "(rest, s) \<in> measure length" using length_strip [of space_runes s] t(1) by simp
qed simp

declare fields.simps [simp del]

lemma fields_set: "\<forall>f\<in>set (fields s). f \<noteq> [] \<and> set f \<subseteq> set s"
proof (induction s rule: fields.induct)
  case (1 s)
  let ?t = "strip space_runes s"
  have t: "set ?t \<subseteq> set s" using strip_n_suffix [of s "length s" space_runes] unfolding strip_def by (metis Un_iff set_append subsetI)
  show ?case
  proof (cases "?t = []")
    case False
    obtain f rest where f: "take_field ?t = (f, rest)" by (cases "take_field ?t")
    have "find (has_prefix ?t) space_runes = None"
      unfolding strip_def by (rule strip_n_clean) (simp_all add: space_runes_def)
    then have "f \<noteq> []" using f False by (cases ?t) (auto split: if_splits prod.splits)
    moreover have "set f \<subseteq> set ?t" "set rest \<subseteq> set ?t" using take_field_split [OF f] by (metis Un_iff set_append subsetI)+
    moreover have "\<forall>g\<in>set (fields rest). g \<noteq> [] \<and> set g \<subseteq> set rest"
      using 1 [OF refl False f [symmetric]] .
    ultimately show ?thesis using t f False by (subst fields.simps) (auto simp: Let_def)
  qed (simp add: fields.simps)
qed

subsection \<open>Validation\<close>

definition validate_bootstrap_desired :: "cloud_init_desired \<Rightarrow> unit result" where
  "validate_bootstrap_desired d =
     checks
       [reject_if (trim_space (cid_Hostname d) = []) (Err ''hostname is required''),
        reject_if (\<not> valid_hostname (cid_Hostname d)) (Err ''hostname must be a valid lowercase DNS hostname''),
        reject_if (trim_space (cid_Timezone d) = []) (Err ''timezone is required''),
        reject_if (\<not> matches timezone_re (cid_Timezone d) \<or> contains_str (cid_Timezone d) ''..'') (Err ''invalid timezone''),
        reject_if (trim_space (cid_Administrator d) = []) (Err ''administrator is required''),
        reject_if (cid_Administrator d = ''root'' \<or> \<not> matches administrator_re (cid_Administrator d))
          (Err ''administrator must be a non-root lowercase account name using only letters, digits, underscore, or hyphen'')]"

definition ssh_key_ok :: "bytes \<Rightarrow> bool" where
  "ssh_key_ok k =
     (case fields k of
        kind # material # rest \<Rightarrow>
          kind = ''ssh-ed25519'' \<and> matches ssh_base64_re material \<and> \<not> contains_any k [CHR 0x0D, CHR 0x0A, CHR 0x00]
      | _ \<Rightarrow> False)"

definition validate_bootstrap_request :: "bootstrap_request \<Rightarrow> unit result" where
  "validate_bootstrap_request r =
     (let s = brq_Source r; d = brq_Desired r in
      checks
        [reject_if (trim_space (brq_TargetID r) = []) (Err ''target id is required''),
         validate_bootstrap_desired d,
         reject_if (bso_SnapshotID s = []) (Err ''source snapshot id is required''),
         reject_if (trim_space (bso_Version s) = []) (Err ''source version is required''),
         reject_if (\<not> matches definition_re (bso_Version s)) (Err ''cloud-init source version contains unsafe characters''),
         reject_if (\<not> matches lowercase_sha256_re (bso_SHA256 s)) (Err ''cloud-init source sha256 must be lowercase hexadecimal''),
         reject_if (bso_Template s = []) (Err ''cloud-init source template is required''),
         reject_if (cid_SourceSnapshotID d \<noteq> bso_SnapshotID s)
           (Err ''cloud-init desired source snapshot does not match frozen source''),
         reject_if (cid_DefinitionVersion d \<noteq> bso_Version s)
           (Err ''cloud-init desired version does not match frozen source version''),
         reject_if (cid_SourceSHA256 d \<noteq> bso_SHA256 s)
           (Err ''cloud-init desired source sha256 does not match frozen source''),
         reject_if (\<not> ssh_key_ok (brq_SSHPublicKey r)) (Err ''complete ssh-ed25519 public key is required'')])"

definition key_material :: "bytes \<Rightarrow> bytes" where
  "key_material k = (fields k ! 0) @ '' '' @ (fields k ! 1)"

text \<open>The fields of the data that the template sees.\<close>

definition template_data :: "bootstrap_request \<Rightarrow> (bytes \<times> bytes) list" where
  "template_data r =
     [(''Hostname'', cid_Hostname (brq_Desired r)), (''Timezone'', cid_Timezone (brq_Desired r)),
      (''Administrator'', cid_Administrator (brq_Desired r)), (''SSHPublicKey'', brq_SSHPublicKey r),
      (''SSHPublicKeyMaterial'', key_material (brq_SSHPublicKey r)), (''DefinitionVersion'', bso_Version (brq_Source r))]"

definition render_cloud_init :: "(bytes \<Rightarrow> (bytes \<times> bytes) list \<Rightarrow> rendered) \<Rightarrow> bootstrap_request \<Rightarrow> bytes result" where
  "render_cloud_init render r =
     (case render (bso_Template (brq_Source r)) (template_data r) of
        Parse_Failed e \<Rightarrow> Inl (Wrapf ''parse Cloud-init source template: %w'' [] e)
      | Execute_Failed e \<Rightarrow> Inl (Wrapf ''render Cloud-init source template: %w'' [] e)
      | Rendered out \<Rightarrow>
          if has_prefix out (''#cloud-config'' @ [CHR 0x0A]) then Inr out
          else Inl (Err ''Cloud-init source must render a #cloud-config document''))"

definition prepare_bootstrap ::
  "(bytes \<Rightarrow> (bytes \<times> bytes) list \<Rightarrow> rendered) \<Rightarrow> bootstrap_request \<Rightarrow> bootstrap_artifact result" where
  "prepare_bootstrap render r =
     also_r (validate_bootstrap_request r)
       (bind_r (render_cloud_init render r) (\<lambda>data.
        also_r (reject_if (max_cloud_init_bytes \<le> length data)
          (Errf ''cloud-init is %d bytes; must be smaller than %d'' [decimal (length data), decimal max_cloud_init_bytes]))
        (Inr \<lparr>bar_Identity = bso_Version (brq_Source r), bar_SHA256 = hex_encode (sha256 data), bar_Bytes = data\<rparr>)))"

subsection \<open>What the template is given\<close>

text \<open>Letters, digits and the punctuation that is inert in YAML scalars and in shell words.\<close>

definition inert_class :: "(char \<times> char) list" where
  "inert_class =
     [upper, lower, digit, just CHR ''.'', just CHR ''_'', just CHR ''+'', just CHR ''-'', just CHR ''/'', just CHR ''='']"

lemma matches_chars: "matches r s \<Longrightarrow> c \<in> set s \<Longrightarrow> in_class (re_chars r) c"
  by (simp add: matches_iff accepts_chars)

lemma inert_subclass: "in_class rs c \<Longrightarrow> set rs \<subseteq> set inert_class \<Longrightarrow> in_class inert_class c"
  by (auto simp: in_class_def list_ex_iff)

lemma token_chars:
  "matches administrator_re s \<Longrightarrow> c \<in> set s \<Longrightarrow> in_class inert_class c"
  "matches definition_re s \<Longrightarrow> c \<in> set s \<Longrightarrow> in_class inert_class c"
  "matches timezone_re s \<Longrightarrow> c \<in> set s \<Longrightarrow> in_class inert_class c"
  "matches ssh_base64_re s \<Longrightarrow> c \<in> set s \<Longrightarrow> in_class inert_class c"
proof -
  show "in_class inert_class c" if s: "matches administrator_re s" "c \<in> set s"
  proof -
    have "in_class [lower] c \<or> in_class [lower, digit, just CHR ''_'', just CHR ''-''] c"
      using matches_chars [OF s] in_class_r_upto [of 31 "RClass [lower, digit, just CHR ''_'', just CHR ''-'']" c]
      unfolding administrator_re_def re_chars.simps in_class_append by blast
    then show ?thesis using inert_subclass [of "[lower]"] inert_subclass [of "[lower, digit, just CHR ''_'', just CHR ''-'']"]
      by (auto simp: inert_class_def)
  qed
  show "in_class inert_class c" if s: "matches definition_re s" "c \<in> set s"
    by (rule inert_subclass [OF matches_chars [OF s]]) (simp add: definition_re_def r_plus_def inert_class_def)
  show "in_class inert_class c" if s: "matches timezone_re s" "c \<in> set s"
    by (rule inert_subclass [OF matches_chars [OF s]]) (simp add: timezone_re_def r_plus_def r_char_def inert_class_def just_def)
  show "in_class inert_class c" if s: "matches ssh_base64_re s" "c \<in> set s"
  proof -
    let ?b = "[upper, lower, digit, just CHR ''+'', just CHR ''/'']"
    have "in_class ?b c \<or> in_class [just CHR ''=''] c"
      using matches_chars [OF s] in_class_r_upto [of 2 "r_char CHR ''=''" c]
      unfolding ssh_base64_re_def r_plus_def re_chars.simps in_class_append r_char_def just_def by blast
    then show ?thesis using inert_subclass [of ?b] inert_subclass [of "[just CHR ''='']"] by (auto simp: inert_class_def)
  qed
qed

lemma bootstrap_hostname_chars:
  assumes "valid_hostname v" and "c \<in> set v"
  shows "in_class inert_class c"
proof -
  have "c \<in> set (join_with ''.'' (split_on CHR ''.'' v))" using assms(2) by (simp add: join_split)
  moreover have "set (join_with ''.'' ls) \<subseteq> insert CHR ''.'' (\<Union> (set ` set ls))" for ls
    by (induction "''.''" ls rule: join_with.induct) auto
  ultimately consider "c = CHR ''.''" | l where "l \<in> set (split_on CHR ''.'' v)" "c \<in> set l" by blast
  then show ?thesis
  proof cases
    case (2 l)
    then have "in_class [lower, digit, just CHR ''-''] c"
      using assms(1) by (simp add: valid_hostname_def label_ok_def list_all_iff)
    then show ?thesis by (rule inert_subclass) (simp add: inert_class_def)
  next
    case 1
    have "in_class [just CHR ''.''] c" by (simp add: 1 in_class_def just_def)
    then show ?thesis by (rule inert_subclass) (simp add: inert_class_def)
  qed
qed

text \<open>
  a bootstrap document that is returned is a \<open>#cloud-config\<close> document below the size limit with
  the digest of its bytes, rendered from exactly the frozen source that the desired state names.
  Every value the template can place in it, apart from the comment of the SSH key, consists of
  inert bytes, so no value can add a line, a quote or a key to the document; the key itself has no
  line break and no NUL.
\<close>

theorem bootstrap_inert:
  assumes "prepare_bootstrap render r = Inr a"
  shows "render (bso_Template (brq_Source r)) (template_data r) = Rendered (bar_Bytes a) \<and>
    has_prefix (bar_Bytes a) (''#cloud-config'' @ [CHR 0x0A]) \<and> length (bar_Bytes a) < 16384 \<and>
    bar_SHA256 a = hex_encode (sha256 (bar_Bytes a)) \<and> bar_Identity a = cid_DefinitionVersion (brq_Desired r) \<and>
    cid_SourceSHA256 (brq_Desired r) = bso_SHA256 (brq_Source r) \<and>
    cid_SourceSnapshotID (brq_Desired r) = bso_SnapshotID (brq_Source r) \<and>
    (\<forall>(name, v)\<in>set (template_data r).
       if name = ''SSHPublicKey'' then set v \<inter> {CHR 0x0D, CHR 0x0A, CHR 0x00} = {}
       else if name = ''SSHPublicKeyMaterial'' then
         (\<exists>m. v = ''ssh-ed25519 '' @ m \<and> list_all (in_class inert_class) m)
       else v \<noteq> [] \<and> list_all (in_class inert_class) v)"
proof -
  have valid: "validate_bootstrap_request r = Inr ()" and out: "render_cloud_init render r = Inr (bar_Bytes a)"
    and a: "length (bar_Bytes a) < 16384" "bar_Identity a = bso_Version (brq_Source r)"
      "bar_SHA256 a = hex_encode (sha256 (bar_Bytes a))"
    using assms by (auto simp: prepare_bootstrap_def result_simps max_cloud_init_bytes_def)
  have shown: "render (bso_Template (brq_Source r)) (template_data r) = Rendered (bar_Bytes a)"
    "has_prefix (bar_Bytes a) (''#cloud-config'' @ [CHR 0x0A])"
    using out by (auto simp: render_cloud_init_def split: rendered.splits if_splits)
  let ?d = "brq_Desired r" and ?k = "brq_SSHPublicKey r"
  have ok: "valid_hostname (cid_Hostname ?d)" "matches timezone_re (cid_Timezone ?d)"
    "matches administrator_re (cid_Administrator ?d)" "matches definition_re (bso_Version (brq_Source r))"
    "ssh_key_ok ?k" "cid_SourceSHA256 ?d = bso_SHA256 (brq_Source r)"
    "cid_SourceSnapshotID ?d = bso_SnapshotID (brq_Source r)" "cid_DefinitionVersion ?d = bso_Version (brq_Source r)"
    "cid_Hostname ?d \<noteq> []" "cid_Timezone ?d \<noteq> []" "cid_Administrator ?d \<noteq> []" "bso_Version (brq_Source r) \<noteq> []"
    using valid by (auto simp: validate_bootstrap_request_def validate_bootstrap_desired_def Let_def result_simps)
  obtain m rest where m: "fields ?k = ''ssh-ed25519'' # m # rest" "matches ssh_base64_re m"
      "set ?k \<inter> {CHR 0x0D, CHR 0x0A, CHR 0x00} = {}"
    using ok(5) by (auto simp: ssh_key_ok_def contains_any_iff split: list.splits)
  have "key_material ?k = ''ssh-ed25519 '' @ m" by (simp add: key_material_def m(1))
  moreover have "list_all (in_class inert_class) m" using token_chars(4) [OF m(2)] by (simp add: list_all_iff)
  ultimately show ?thesis
    using shown a ok m(3) token_chars(1) [OF ok(3)] token_chars(2) [OF ok(4)] token_chars(3) [OF ok(2)] bootstrap_hostname_chars [OF ok(1)]
    by (simp add: template_data_def list_all_iff)
qed

definition sample_bootstrap :: bootstrap_request where
  "sample_bootstrap =
     \<lparr>brq_TargetID = ''target_1'',
      brq_Desired = \<lparr>cid_SourceSnapshotID = ''snap_1'', cid_DefinitionVersion = ''1.0.0'', cid_SourceSHA256 = replicate 64 CHR ''a'',
        cid_RenderedSHA256 = [], cid_Hostname = ''vps-1.example.org'', cid_Timezone = ''Europe/Berlin'',
        cid_Administrator = ''admin''\<rparr>,
      brq_SSHPublicKey = ''ssh-ed25519 AAAAC3Nz= me@host'',
      brq_Source = \<lparr>bso_SnapshotID = ''snap_1'', bso_Version = ''1.0.0'', bso_SHA256 = replicate 64 CHR ''a'',
        bso_Template = ''t''\<rparr>\<rparr>"

definition sample_render :: "bytes \<Rightarrow> (bytes \<times> bytes) list \<Rightarrow> rendered" where
  "sample_render t data = Rendered (''#cloud-config'' @ [CHR 0x0A] @ ''hostname: '' @ snd (hd data))"

theorem bootstrap_inert_witness:
  "\<exists>a. prepare_bootstrap sample_render sample_bootstrap = Inr a \<and> has_prefix (bar_Bytes a) (''#cloud-config'' @ [CHR 0x0A])"
proof -
  have "validate_bootstrap_request sample_bootstrap = Inr ()" by code_simp
  then obtain a where "prepare_bootstrap sample_render sample_bootstrap = Inr a"
    by (simp add: prepare_bootstrap_def render_cloud_init_def sample_render_def template_data_def max_cloud_init_bytes_def
        sample_bootstrap_def has_prefix_def)
  then show ?thesis using bootstrap_inert by blast
qed

end
