(* ===== verification/Module_Sample.thy ===== *)
theory Module_Sample
  imports Module_Compile
begin

section \<open>Two small modules\<close>

text \<open>
  A provider and a consumer, concrete inputs on which the theorems about modules and
  deployments are applied. The provider \<open>db\<close> offers an interface and stores data, the consumer
  \<open>web\<close> depends on it and takes a generated secret.
\<close>

definition sample_check :: healthcheck where
  "sample_check =
     \<lparr>hc_ID = '''', hc_Type = ''tcp'', hc_Container = ''app'', hc_URL = '''', hc_Port = 5432, hc_Command = []\<rparr>"

definition sample_db :: raw_module where
  "sample_db =
     \<lparr>raw_ModuleID = ''db'', raw_ModuleVersion = ''1.2.0'', raw_CoreContract = ''2'',
      raw_Images = [(''postgres'', \<lparr>img_Ref = ''docker.io/library/postgres:16.3''\<rparr>)],
      raw_Containers =
        [\<lparr>ctr_ID = ''app'', ctr_Image = ''postgres'', ctr_User = 999, ctr_UserNS = ''nomap'', ctr_Capabilities = [],
          ctr_Mounts = [\<lparr>mnt_StorageID = ''data'', mnt_Target = ''/var/lib/data'', mnt_ReadOnly = False\<rparr>],
          ctr_Networks = [''back''], ctr_HostPorts = [], ctr_Environment = []\<rparr>],
      raw_Persistent = [\<lparr>sto_ID = ''data'', sto_Path = ''/srv/db''\<rparr>],
      raw_Secrets = [],
      raw_Resources = \<lparr>res_MemoryBytes = 1000000, res_CPUQuota = 50, res_PIDsLimit = 64, res_TasksMax = 64\<rparr>,
      raw_Networks = [\<lparr>net_ID = ''back'', net_Role = ''internal''\<rparr>],
      raw_Egress = [], raw_PublicRoutes = [], raw_Healthcheck = sample_check, raw_ServiceChecks = [],
      raw_ValidationAction = ''check'',
      raw_Interfaces = [\<lparr>ifc_ID = ''sql'', ifc_Container = ''app'', ifc_Port = 5432, ifc_Protocol = ''tcp''\<rparr>],
      raw_Dependencies = [], raw_Actions = [(''check'', ''actions/check.sh'')], raw_UpdateFrom = [],
      raw_Uninstall = \<lparr>uni_DeletePersistentData = True, uni_DeleteSecrets = True\<rparr>\<rparr>"

definition sample_web :: raw_module where
  "sample_web =
     sample_db\<lparr>raw_ModuleID := ''web'', raw_Interfaces := [],
       raw_Persistent := [\<lparr>sto_ID = ''data'', sto_Path = ''/srv/web''\<rparr>],
       raw_Secrets :=
         [\<lparr>sec_ID = ''session'', sec_Source = ''generated'', sec_Delivery = ''environment'',
           sec_Name = ''SESSION_KEY'', sec_Path = '''', sec_Containers = [''app'']\<rparr>],
       raw_Dependencies := [\<lparr>dep_TargetModule = ''db'', dep_InterfaceID = ''sql'', dep_Consumer = ''app''\<rparr>],
       raw_Actions := [(''migrate'', ''actions/migrate.sh''), (''check'', ''actions/check.sh'')],
       raw_UpdateFrom := [(''1.1.0'', \<lparr>upd_Actions = [''migrate'']\<rparr>)]\<rparr>"

text \<open>A package whose manifest is the name of its module, and a decoder that knows both.\<close>

definition sample_fs :: "bytes \<Rightarrow> bytes \<Rightarrow> bytes result" where
  "sample_fs name p =
     (if p = ''module.yaml'' then Inr name
      else if p = ''actions/check.sh'' then Inr ''exit 0''
      else if p = ''actions/migrate.sh'' then Inr ''true''
      else Inl (Err ''file does not exist''))"

definition sample_decode :: "bytes \<Rightarrow> (raw_module \<times> trailing) result" where
  "sample_decode s =
     (if s = ''db'' then Inr (sample_db, No_More)
      else if s = ''web'' then Inr (sample_web, No_More)
      else Inl (Err ''EOF''))"

definition sample_url :: "bytes \<Rightarrow> (bytes \<times> bytes) option" where
  "sample_url u = (if u = ''http://localhost'' then Some (''http'', ''localhost'') else None)"

definition db_module :: module_t where
  "db_module = (module_of_raw sample_db)\<lparr>mod_ActionFiles := [(''check'', ''exit 0'')]\<rparr>"

definition web_module :: module_t where
  "web_module = (module_of_raw sample_web)\<lparr>mod_ActionFiles := [(''migrate'', ''true''), (''check'', ''exit 0'')]\<rparr>"

lemma sample_valid:
  "validate_module sample_url (module_of_raw sample_db) = Inr ()"
  "validate_module sample_url (module_of_raw sample_web) = Inr ()"
  by code_simp+

lemma compile_samples:
  "compile_module sample_url sample_decode (Some (sample_fs ''db'')) = Inr db_module"
  "compile_module sample_url sample_decode (Some (sample_fs ''web'')) = Inr web_module"
  by code_simp+

text \<open>The provider with a second network, and the same with its networks swapped.\<close>

definition sample_two_networks :: module_t where
  "sample_two_networks =
     (module_of_raw sample_db)\<lparr>mod_Networks :=
        [\<lparr>net_ID = ''front'', net_Role = ''edge''\<rparr>, \<lparr>net_ID = ''back'', net_Role = ''internal''\<rparr>]\<rparr>"

definition sample_swapped_networks :: module_t where
  "sample_swapped_networks =
     sample_two_networks\<lparr>mod_Networks := rev (mod_Networks sample_two_networks)\<rparr>"

lemma reorders_same: "(\<And>x. x \<in> set xs \<Longrightarrow> R x x) \<Longrightarrow> reorders R xs xs"
  unfolding reorders_def by (intro exI [of _ xs]) (simp add: list_all2_same)

theorem normalize_canonical_witness:
  "normalize_module sample_swapped_networks = normalize_module sample_two_networks"
proof -
  have "validate_module sample_url sample_two_networks = Inr ()" by code_simp
  then have contract: "module_contract sample_url sample_two_networks"
    by (simp add: validate_module_Inr_iff)
  have "reordered sample_two_networks sample_swapped_networks"
  proof -
    have "reorders container_sim (mod_Containers sample_two_networks) (mod_Containers sample_two_networks)"
      by (rule reorders_same)
        (auto simp: container_sim_def sample_two_networks_def module_of_raw_def sample_db_def)
    moreover have "reorders secret_sim (mod_Secrets sample_two_networks) (mod_Secrets sample_two_networks)"
      "reorders route_sim (mod_PublicRoutes sample_two_networks) (mod_PublicRoutes sample_two_networks)"
      by (rule reorders_same, simp add: sample_two_networks_def module_of_raw_def sample_db_def)+
    moreover have "sample_swapped_networks =
        sample_two_networks\<lparr>mod_Containers := mod_Containers sample_two_networks,
          mod_Persistent := mod_Persistent sample_two_networks, mod_Secrets := mod_Secrets sample_two_networks,
          mod_Networks := rev (mod_Networks sample_two_networks), mod_Egress := mod_Egress sample_two_networks,
          mod_PublicRoutes := mod_PublicRoutes sample_two_networks,
          mod_ServiceChecks := mod_ServiceChecks sample_two_networks,
          mod_Interfaces := mod_Interfaces sample_two_networks,
          mod_Dependencies := mod_Dependencies sample_two_networks\<rparr>"
      by (simp add: sample_swapped_networks_def)
    ultimately show ?thesis unfolding reordered_def by (metis mset_rev)
  qed
  from normalize_canonical [OF contract this] show ?thesis by simp
qed

theorem compile_module_sound_witness:
  "module_contract sample_url db_module \<and> action_script ''actions/check.sh''"
  using compile_module_sound [OF compile_samples(1)]
  by (auto simp: db_module_def module_of_raw_def sample_db_def)


end
