(* ===== verification/Deploy_Sample.thy ===== *)
theory Deploy_Sample
  imports Deploy_Types Module_Sample
begin

section \<open>A small deployment\<close>

text \<open>
  The two sample modules as desired and compiled instances, the concrete input of the
  applications of the deployment theorems.
\<close>

definition sample_sha :: bytes where
  "sample_sha = replicate 64 CHR ''a''"

definition sample_digest :: bytes where
  "sample_digest = ''sha256:'' @ replicate 64 CHR ''b''"

definition sample_source :: "bytes \<Rightarrow> bytes \<Rightarrow> frozen_source" where
  "sample_source inst name =
     \<lparr>fsr_InstanceID = inst, fsr_SourceID = ''source_1'', fsr_PackageID = name @ ''_pkg'', fsr_GitCommit = '''',
      fsr_PackageSHA256 = sample_sha, fsr_PackageFS = Some (sample_fs name)\<rparr>"

definition no_override :: resource_override where
  "no_override = \<lparr>ovr_MemoryBytes = 0, ovr_CPUQuota = 0, ovr_PIDsLimit = 0, ovr_TasksMax = 0\<rparr>"

definition db_desired :: desired_module where
  "db_desired =
     \<lparr>des_InstanceID = ''db1'', des_Source = sample_source ''db1'' ''db'', des_SecretIDs = [],
      des_Resources = no_override\<rparr>"

definition web_desired :: desired_module where
  "web_desired =
     \<lparr>des_InstanceID = ''web1'', des_Source = sample_source ''web1'' ''web'',
      des_SecretIDs = [(''session'', ''secret_1'')], des_Resources = no_override\<rparr>"

definition db_compiled :: compiled_module where
  "db_compiled =
     \<lparr>cmp_Desired = db_desired, cmp_Contract = db_module, cmp_Images = [(''postgres'', sample_digest)],
      cmp_Effective = mod_Resources db_module\<rparr>"

definition web_compiled :: compiled_module where
  "web_compiled =
     \<lparr>cmp_Desired = web_desired, cmp_Contract = web_module, cmp_Images = [(''postgres'', sample_digest)],
      cmp_Effective = mod_Resources web_module\<rparr>"

definition sample_lan :: observed_network where
  "sample_lan = \<lparr>obn_Name = ''podman'', obn_Subnet = ''10.88.0.0/16'', obn_Relationship = ''''\<rparr>"

lemmas sample_defs =
  sample_sha_def sample_digest_def sample_source_def no_override_def db_desired_def web_desired_def
  db_compiled_def web_compiled_def sample_lan_def db_module_def web_module_def module_of_raw_def
  sample_db_def sample_web_def sample_check_def

end
