(* ===== verification/Deploy_Graph.thy ===== *)
theory Deploy_Graph
  imports Deploy_Sample
begin

section \<open>Link networks between modules\<close>

text \<open>
  \<open>internal/deployment/graph.go\<close>: for every dependency of a desired module one network that
  joins the consumer to the one provider of the interface. Names, aliases and the first
  candidate subnet come from the digest of the relationship; what is observed on the target
  is kept or avoided. \<open>netip.ParsePrefix\<close> is the predicate \<open>prefix_ok\<close>.
\<close>

record link_tables =
  tab_Relationships :: "observed_network go_map"
  tab_Names :: "bytes go_map"
  tab_Subnets :: "bytes go_map"

definition no_tables :: link_tables where
  "no_tables = \<lparr>tab_Relationships = [], tab_Names = [], tab_Subnets = []\<rparr>"

definition owner_key :: "observed_network \<Rightarrow> bytes" where
  "owner_key n =
     (if obn_Relationship n = [] then ''observed:'' @ obn_Name n else obn_Relationship n)"

text \<open>\<open>if owner, exists := used[k]; exists && owner != o { return err }; used[k] = o\<close>.\<close>

definition claim_owner :: "error \<Rightarrow> bytes go_map \<Rightarrow> bytes \<Rightarrow> bytes \<Rightarrow> bytes go_map result" where
  "claim_owner e used k o' =
     (case map_of used k of
        Some owner \<Rightarrow> if owner \<noteq> o' then Inl e else Inr ((k, o') # used)
      | None \<Rightarrow> Inr ((k, o') # used))"

definition observe_network ::
  "(bytes \<Rightarrow> bool) \<Rightarrow> link_tables \<Rightarrow> observed_network \<Rightarrow> link_tables result" where
  "observe_network prefix_ok t n =
     bind_r
       (if obn_Name n = [] then Inr (tab_Names t)
        else claim_owner (Errf ''observed network name collision %s'' [obn_Name n])
               (tab_Names t) (obn_Name n) (owner_key n)) (\<lambda>names.
     bind_r
       (if obn_Subnet n = [] then Inr (tab_Subnets t)
        else if \<not> prefix_ok (obn_Subnet n)
        then Inl (Errf ''observed network %s has invalid subnet'' [obn_Name n])
        else claim_owner (Errf ''observed subnet collision %s'' [obn_Subnet n])
               (tab_Subnets t) (obn_Subnet n) (owner_key n)) (\<lambda>subnets.
     bind_r
       (if obn_Relationship n = [] then Inr (tab_Relationships t)
        else if obn_Relationship n \<in> keys_of (tab_Relationships t)
        then Inl (Errf ''duplicate observed Link-Net relationship %s'' [obn_Relationship n])
        else Inr ((obn_Relationship n, n) # tab_Relationships t)) (\<lambda>rels.
     Inr \<lparr>tab_Relationships = rels, tab_Names = names, tab_Subnets = subnets\<rparr>)))"

definition resolve_provider ::
  "compiled_module list \<Rightarrow> compiled_module \<Rightarrow> dependency \<Rightarrow> (compiled_module \<times> internal_interface) result" where
  "resolve_provider mods consumer d =
     (case filter (\<lambda>m. mod_ID (cmp_Contract m) = dep_TargetModule d) mods of
        [] \<Rightarrow> Inl (Errf ''dependency %s/%s has missing provider %s''
                [cmp_Instance consumer, dep_InterfaceID d, dep_TargetModule d])
      | [provider] \<Rightarrow>
          (case find (\<lambda>i. ifc_ID i = dep_InterfaceID d) (mod_Interfaces (cmp_Contract provider)) of
             Some i \<Rightarrow> Inr (provider, i)
           | None \<Rightarrow> Inl (Errf ''provider %s does not offer interface %s''
                [cmp_Instance provider, dep_InterfaceID d]))
      | _ \<Rightarrow> Inl (Errf ''dependency %s/%s has ambiguous provider %s''
                [cmp_Instance consumer, dep_InterfaceID d, dep_TargetModule d]))"

text \<open>The probe \<open>v\<close> is \<open>(seed + probe) & 0x0fff\<close>.\<close>

definition subnet_text :: "nat \<Rightarrow> bytes" where
  "subnet_text v = ''10.'' @ decimal (240 + v div 256) @ ''.'' @ decimal (v mod 256) @ ''.0/24''"

definition subnet_seed :: "bytes \<Rightarrow> nat" where
  "subnet_seed dg = of_char (dg ! 0) * 256 + of_char (dg ! 1)"

definition choose_subnet :: "bytes \<Rightarrow> bytes go_map \<Rightarrow> bytes result" where
  "choose_subnet dg used =
     (case find (\<lambda>probe. map_get used (subnet_text ((subnet_seed dg + probe) mod 4096)) = []) [0..<4096] of
        Some probe \<Rightarrow> Inr (subnet_text ((subnet_seed dg + probe) mod 4096))
      | None \<Rightarrow> Inl (Err ''no collision-free Link-Net subnet available''))"

definition select_link_subnet :: "bytes \<Rightarrow> bytes \<Rightarrow> bytes \<Rightarrow> link_tables \<Rightarrow> bytes result" where
  "select_link_subnet rel name dg t =
     (case map_of (tab_Relationships t) rel of
        Some existing \<Rightarrow>
          if obn_Name existing \<noteq> name
          then Inl (Errf ''Link-Net relationship %s has unexpected observed name %s'' [rel, obn_Name existing])
          else if obn_Subnet existing = []
          then Inl (Errf ''Link-Net relationship %s has no observed subnet'' [rel])
          else
            (let owner = map_get (tab_Subnets t) (obn_Subnet existing) in
             if owner \<noteq> [] \<and> owner \<noteq> rel
             then Inl (Errf ''Link-Net subnet %s collides with %s'' [obn_Subnet existing, owner])
             else Inr (obn_Subnet existing))
      | None \<Rightarrow>
          (let owner = map_get (tab_Names t) name in
           if owner \<noteq> [] \<and> owner \<noteq> rel
           then Inl (Errf ''Link-Net name %s collides with observed network'' [name])
           else choose_subnet dg (tab_Subnets t)))"

definition link_relationship :: "compiled_module \<Rightarrow> compiled_module \<Rightarrow> dependency \<Rightarrow> bytes" where
  "link_relationship provider consumer d =
     cmp_Instance provider @ ''/'' @ dep_InterfaceID d @ ''->'' @ cmp_Instance consumer @ ''/'' @ dep_Consumer d"

definition link_name :: "bytes \<Rightarrow> bytes" where
  "link_name rel = ''vpsmith-link-'' @ hex_encode (take 6 (sha256 rel))"

definition link_alias :: "bytes \<Rightarrow> bytes" where
  "link_alias rel = ''if-'' @ hex_encode (take 4 (sha256 rel))"

definition derive_link ::
  "compiled_module list \<Rightarrow> link_tables \<times> link_network list \<Rightarrow> compiled_module \<times> dependency \<Rightarrow>
   (link_tables \<times> link_network list) result" where
  "derive_link mods st cd =
     (case (st, cd) of ((t, out), (consumer, d)) \<Rightarrow>
       bind_r (resolve_provider mods consumer d) (\<lambda>(provider, iface).
       let rel = link_relationship provider consumer d; name = link_name rel in
       bind_r (select_link_subnet rel name (sha256 rel) t) (\<lambda>subnet.
       Inr (t\<lparr>tab_Names := (name, rel) # tab_Names t, tab_Subnets := (subnet, rel) # tab_Subnets t\<rparr>,
            out @ [\<lparr>lnk_Relationship = rel, lnk_Name = name, lnk_Subnet = subnet, lnk_Alias = link_alias rel,
                    lnk_Provider = cmp_Instance provider @ ''/'' @ ifc_Container iface,
                    lnk_Consumer = cmp_Instance consumer @ ''/'' @ dep_Consumer d\<rparr>]))))"

definition module_dependencies :: "compiled_module list \<Rightarrow> (compiled_module \<times> dependency) list" where
  "module_dependencies mods =
     concat (map (\<lambda>m. map (Pair m) (mod_Dependencies (cmp_Contract m))) mods)"

definition derive_links ::
  "(bytes \<Rightarrow> bool) \<Rightarrow> compiled_module list \<Rightarrow> observed_network list \<Rightarrow> link_network list result" where
  "derive_links prefix_ok mods observed =
     bind_r (fold_r (observe_network prefix_ok) no_tables observed) (\<lambda>t.
     bind_r (fold_r (derive_link mods) (t, []) (module_dependencies mods)) (\<lambda>(t', out).
     Inr (sort_key lnk_Relationship out)))"

subsection \<open>Choosing a subnet\<close>

lemma subnet_text_inj: "inj_on subnet_text {..<4096}"
proof (rule inj_onI)
  fix v w :: nat
  assume "subnet_text v = subnet_text w"
  then have eq: "decimal (240 + v div 256) @ CHR ''.'' # (decimal (v mod 256) @ CHR ''.'' # ''0/24'') =
      decimal (240 + w div 256) @ CHR ''.'' # (decimal (w mod 256) @ CHR ''.'' # ''0/24'')"
    by (simp add: subnet_text_def)
  have dot: "CHR ''.'' \<notin> set (decimal n)" for n
    using decimal_digits [of "CHR ''.''" n] by auto
  from sep_append_eq [OF dot dot eq]
  have hi: "v div 256 = w div 256"
    and lo: "decimal (v mod 256) @ CHR ''.'' # ''0/24'' = decimal (w mod 256) @ CHR ''.'' # ''0/24''"
    by simp_all
  from lo have "v mod 256 = w mod 256" by simp
  with hi show "v = w" by (metis div_mult_mod_eq)
qed

lemma probes_cover: "(\<lambda>p. (seed + p) mod 4096) ` {..<4096} = {..<4096 :: nat}"
proof
  show "{..<4096} \<subseteq> (\<lambda>p. (seed + p) mod 4096) ` {..<4096 :: nat}"
  proof
    fix v :: nat assume "v \<in> {..<4096}"
    then have v: "v < 4096" by simp
    let ?p = "(v + (4096 - seed mod 4096)) mod 4096"
    obtain q r where qr: "seed = 4096 * q + r" "seed mod 4096 = r" "r < 4096"
      using mult_div_mod_eq [of 4096 seed] by (metis mod_less_divisor zero_less_numeral)
    have "seed + (v + (4096 - seed mod 4096)) = v + 4096 * (q + 1)"
      unfolding qr(2) using qr(1,3) by simp
    moreover have "(seed + ?p) mod 4096 = (seed + (v + (4096 - seed mod 4096))) mod 4096"
      by (rule mod_add_right_eq)
    ultimately have "(seed + ?p) mod 4096 = (v + 4096 * (q + 1)) mod 4096" by (simp only:)
    also have "\<dots> = v" using v unfolding mod_mult_self2 by (rule mod_less)
    finally have eq: "(seed + ?p) mod 4096 = v" .
    show "v \<in> (\<lambda>p. (seed + p) mod 4096) ` {..<4096}"
    proof (rule image_eqI)
      show "v = (seed + ?p) mod 4096" by (rule eq [symmetric])
      show "?p \<in> {..<4096}" by simp
    qed
  qed
qed auto

lemma choose_subnet_Inr:
  "choose_subnet dg used = Inr s \<Longrightarrow> (\<exists>v<4096. s = subnet_text v) \<and> map_get used s = []"
  unfolding choose_subnet_def
  by (auto split: option.splits dest!: find_Some_in intro!: exI [of _ "(subnet_seed dg + _) mod 4096"])

lemma choose_subnet_probe:
  assumes "choose_subnet dg used = Inr s"
  shows "\<exists>p<4096. s = subnet_text ((subnet_seed dg + p) mod 4096) \<and> map_get used s = [] \<and>
    (\<lambda>q. subnet_text ((subnet_seed dg + q) mod 4096)) ` {..<p} \<subseteq> {s. map_get used s \<noteq> []}"
proof (cases "find (\<lambda>probe. map_get used (subnet_text ((subnet_seed dg + probe) mod 4096)) = []) [0..<4096]")
  case (Some p)
  then have "p < 4096 \<and> map_get used (subnet_text ((subnet_seed dg + p) mod 4096)) = [] \<and>
      (\<forall>q<p. map_get used (subnet_text ((subnet_seed dg + q) mod 4096)) \<noteq> [])"
    by (auto simp: find_Some_iff simp del: upt_Suc)
  moreover have "s = subnet_text ((subnet_seed dg + p) mod 4096)" using assms by (simp add: choose_subnet_def Some)
  ultimately show ?thesis by auto
qed (use assms in \<open>simp add: choose_subnet_def\<close>)

lemma choose_subnet_Inl_iff:
  "(\<exists>e. choose_subnet dg used = Inl e) \<longleftrightarrow> (\<forall>v<4096. map_get used (subnet_text v) \<noteq> [])"
proof -
  have "(\<exists>e. choose_subnet dg used = Inl e) \<longleftrightarrow>
      (\<forall>p\<in>{..<4096}. map_get used (subnet_text ((subnet_seed dg + p) mod 4096)) \<noteq> [])"
    by (auto simp: choose_subnet_def find_None_iff split: option.splits dest!: find_Some_in)
  also have "\<dots> \<longleftrightarrow> (\<forall>v\<in>(\<lambda>p. (subnet_seed dg + p) mod 4096) ` {..<4096}. map_get used (subnet_text v) \<noteq> [])"
    by blast
  finally show ?thesis unfolding probes_cover by auto
qed







subsection \<open>The tables only grow\<close>

definition extends :: "link_tables \<Rightarrow> link_tables \<Rightarrow> bool" where
  "extends t t' =
     (map_of (tab_Names t) \<subseteq>\<^sub>m map_of (tab_Names t') \<and> map_of (tab_Subnets t) \<subseteq>\<^sub>m map_of (tab_Subnets t') \<and>
      map_of (tab_Relationships t) \<subseteq>\<^sub>m map_of (tab_Relationships t'))"

lemma extends_refl [simp]: "extends t t"
  by (simp add: extends_def)

lemma extends_trans: "extends t u \<Longrightarrow> extends u v \<Longrightarrow> extends t v"
  by (auto simp: extends_def intro: map_le_trans)

lemma extends_relationship:
  "extends t t' \<Longrightarrow> map_of (tab_Relationships t) k = Some n \<Longrightarrow> map_of (tab_Relationships t') k = Some n"
  unfolding extends_def map_le_def by (metis domI)

lemma map_le_cons: "m k = None \<or> m k = Some v \<Longrightarrow> m \<subseteq>\<^sub>m m(k \<mapsto> v)"
  by (auto simp: map_le_def)

text \<open>An entry is in the tables under its owner.\<close>

definition owned :: "link_tables \<Rightarrow> bytes \<Rightarrow> bytes \<Rightarrow> bytes \<Rightarrow> bool" where
  "owned t name subnet owner =
     ((name \<noteq> [] \<longrightarrow> map_of (tab_Names t) name = Some owner) \<and>
      (subnet \<noteq> [] \<longrightarrow> map_of (tab_Subnets t) subnet = Some owner))"

lemma owned_extends: "owned t n s o' \<Longrightarrow> extends t t' \<Longrightarrow> owned t' n s o'"
  by (auto simp: owned_def extends_def map_le_def dom_def)


definition tables_ok :: "link_tables \<Rightarrow> bool" where
  "tables_ok t =
     ((\<forall>k v. map_of (tab_Names t) k = Some v \<longrightarrow> v \<noteq> []) \<and>
      (\<forall>k v. map_of (tab_Subnets t) k = Some v \<longrightarrow> v \<noteq> []) \<and>
      (\<forall>rel n. map_of (tab_Relationships t) rel = Some n \<longrightarrow>
         obn_Relationship n = rel \<and> owned t (obn_Name n) (obn_Subnet n) rel))"

lemma claim_owner_Inr_iff:
  "claim_owner e used k v = Inr used' \<longleftrightarrow>
     (map_of used k = None \<or> map_of used k = Some v) \<and> used' = (k, v) # used"
  by (auto simp: claim_owner_def split: option.splits)

lemma owner_key_nonempty [simp]: "owner_key n \<noteq> []"
  by (simp add: owner_key_def)

lemma observe_network_Inr:
  assumes "observe_network prefix_ok t n = Inr t'" and "tables_ok t"
  shows "tables_ok t' \<and> extends t t' \<and> owned t' (obn_Name n) (obn_Subnet n) (owner_key n) \<and>
    (obn_Relationship n \<noteq> [] \<longrightarrow> map_of (tab_Relationships t') (obn_Relationship n) = Some n) \<and>
    (obn_Subnet n \<noteq> [] \<longrightarrow> prefix_ok (obn_Subnet n))"
proof -
  obtain names subnets rels where t': "t' = \<lparr>tab_Relationships = rels, tab_Names = names, tab_Subnets = subnets\<rparr>"
    and names: "if obn_Name n = [] then names = tab_Names t
        else (map_of (tab_Names t) (obn_Name n) = None \<or> map_of (tab_Names t) (obn_Name n) = Some (owner_key n)) \<and>
          names = (obn_Name n, owner_key n) # tab_Names t"
    and subnets: "if obn_Subnet n = [] then subnets = tab_Subnets t
        else prefix_ok (obn_Subnet n) \<and>
          (map_of (tab_Subnets t) (obn_Subnet n) = None \<or> map_of (tab_Subnets t) (obn_Subnet n) = Some (owner_key n)) \<and>
          subnets = (obn_Subnet n, owner_key n) # tab_Subnets t"
    and rels: "if obn_Relationship n = [] then rels = tab_Relationships t
        else map_of (tab_Relationships t) (obn_Relationship n) = None \<and>
          rels = (obn_Relationship n, n) # tab_Relationships t"
    using assms(1) unfolding observe_network_def
    by (auto simp: result_simps claim_owner_Inr_iff keys_of_iff split: if_splits)
  have ext: "extends t t'"
    using names subnets rels unfolding extends_def t' by (auto split: if_splits intro!: map_le_cons)
  have own: "owned t' (obn_Name n) (obn_Subnet n) (owner_key n)"
    using names subnets unfolding owned_def t' by (auto split: if_splits)
  have "tables_ok t'"
    unfolding tables_ok_def
  proof (intro conjI allI impI)
    show "v \<noteq> []" if "map_of (tab_Names t') k = Some v" for k v
      using that names assms(2) unfolding tables_ok_def t' by (auto split: if_splits)
    show "v \<noteq> []" if "map_of (tab_Subnets t') k = Some v" for k v
      using that subnets assms(2) unfolding tables_ok_def t' by (auto split: if_splits)
    fix rel m assume m: "map_of (tab_Relationships t') rel = Some m"
    have "m = n \<and> rel = obn_Relationship n \<and> rel \<noteq> [] \<or> map_of (tab_Relationships t) rel = Some m"
      using m rels unfolding t' by (auto split: if_splits)
    then show "obn_Relationship m = rel" "owned t' (obn_Name m) (obn_Subnet m) rel"
      using own assms(2) owned_extends [OF _ ext]
      by (auto simp: tables_ok_def owner_key_def)
  qed
  moreover have "obn_Relationship n \<noteq> [] \<longrightarrow> map_of (tab_Relationships t') (obn_Relationship n) = Some n"
    using rels unfolding t' by (simp split: if_splits)
  moreover have "obn_Subnet n \<noteq> [] \<longrightarrow> prefix_ok (obn_Subnet n)"
    using subnets by (simp split: if_splits)
  ultimately show ?thesis using ext own by blast
qed

lemma observe_networks_Inr:
  assumes "fold_r (observe_network prefix_ok) t ns = Inr t'" and "tables_ok t"
  shows "tables_ok t' \<and> extends t t' \<and>
    (\<forall>n\<in>set ns. owned t' (obn_Name n) (obn_Subnet n) (owner_key n) \<and>
       (obn_Relationship n \<noteq> [] \<longrightarrow> map_of (tab_Relationships t') (obn_Relationship n) = Some n))"
  using assms
proof (induction ns arbitrary: t)
  case (Cons n ns)
  then obtain u where u: "observe_network prefix_ok t n = Inr u" "fold_r (observe_network prefix_ok) u ns = Inr t'"
    by (auto simp: result_simps)
  note step = observe_network_Inr [OF u(1) Cons.prems(2)]
  note rest = Cons.IH [OF u(2)]
  have ext: "extends u t'" using step rest by blast
  have "obn_Relationship n \<noteq> [] \<longrightarrow> map_of (tab_Relationships t') (obn_Relationship n) = Some n"
    using step extends_relationship [OF ext] by blast
  moreover have "owned t' (obn_Name n) (obn_Subnet n) (owner_key n)"
    using step owned_extends [OF _ ext] by blast
  moreover have "extends t t'" using step ext extends_trans by blast
  ultimately show ?case using step rest by simp
qed simp

subsection \<open>One link per dependency\<close>

lemma resolve_provider_Inr_iff:
  "resolve_provider mods consumer d = Inr (p, i) \<longleftrightarrow>
     filter (\<lambda>m. mod_ID (cmp_Contract m) = dep_TargetModule d) mods = [p] \<and>
     find (\<lambda>i. ifc_ID i = dep_InterfaceID d) (mod_Interfaces (cmp_Contract p)) = Some i"
  by (auto simp: resolve_provider_def split: list.splits option.splits)

lemma link_name_nonempty [simp]: "link_name rel \<noteq> []"
  by (simp add: link_name_def)

lemma subnet_text_nonempty [simp]: "subnet_text v \<noteq> []"
  by (simp add: subnet_text_def)

lemma select_link_subnet_Inr:
  assumes "select_link_subnet rel name dg t = Inr subnet" "tables_ok t" "name \<noteq> []" "rel \<noteq> []"
  shows "subnet \<noteq> [] \<and>
    (map_of (tab_Names t) name = None \<or> map_of (tab_Names t) name = Some rel) \<and>
    (map_of (tab_Subnets t) subnet = None \<or> map_of (tab_Subnets t) subnet = Some rel) \<and>
    (case map_of (tab_Relationships t) rel of
       Some n \<Rightarrow> name = obn_Name n \<and> subnet = obn_Subnet n
     | None \<Rightarrow> map_of (tab_Subnets t) subnet = None \<and> (\<exists>v<4096. subnet = subnet_text v))"
proof (cases "map_of (tab_Relationships t) rel")
  case (Some n)
  then have own: "owned t (obn_Name n) (obn_Subnet n) rel" using assms(2) by (simp add: tables_ok_def)
  have "name = obn_Name n" "subnet = obn_Subnet n" "obn_Subnet n \<noteq> []"
    using assms(1) Some by (auto simp: select_link_subnet_def Let_def split: if_splits)
  then show ?thesis using own Some assms(3) by (simp add: owned_def)
next
  case None
  have absent: "map_get m k = [] \<Longrightarrow> (\<forall>k v. map_of m k = Some v \<longrightarrow> v \<noteq> []) \<Longrightarrow> map_of m k = None" for m k
    by (cases "map_of m k") (auto simp: map_get_def)
  have ok: "\<forall>k v. map_of (tab_Names t) k = Some v \<longrightarrow> v \<noteq> []" "\<forall>k v. map_of (tab_Subnets t) k = Some v \<longrightarrow> v \<noteq> []"
    using assms(2) by (simp_all add: tables_ok_def)
  have choose: "choose_subnet dg (tab_Subnets t) = Inr subnet"
    and owner: "map_get (tab_Names t) name = [] \<or> map_get (tab_Names t) name = rel"
    using assms(1) None by (auto simp: select_link_subnet_def Let_def split: if_splits)
  have "map_of (tab_Names t) name = None \<or> map_of (tab_Names t) name = Some rel"
    using owner
  proof
    assume "map_get (tab_Names t) name = []"
    then show ?thesis using absent [OF _ ok(1)] by blast
  next
    assume "map_get (tab_Names t) name = rel"
    then show ?thesis by (cases "map_of (tab_Names t) name") (auto simp: map_get_def)
  qed
  moreover obtain v where "v < 4096" "subnet = subnet_text v" "map_get (tab_Subnets t) subnet = []"
    using choose_subnet_Inr [OF choose] by blast
  ultimately show ?thesis using None absent [OF _ ok(2)] by auto
qed

text \<open>What holds of a link with respect to the tables.\<close>

definition link_ok :: "link_tables \<Rightarrow> link_network \<Rightarrow> bool" where
  "link_ok t l =
     (lnk_Subnet l \<noteq> [] \<and> lnk_Name l = link_name (lnk_Relationship l) \<and>
      owned t (lnk_Name l) (lnk_Subnet l) (lnk_Relationship l) \<and>
      (case map_of (tab_Relationships t) (lnk_Relationship l) of
         Some n \<Rightarrow> lnk_Name l = obn_Name n \<and> lnk_Subnet l = obn_Subnet n
       | None \<Rightarrow> \<exists>v<4096. lnk_Subnet l = subnet_text v))"

text \<open>The link of a dependency, up to its subnet.\<close>

definition link_of :: "compiled_module list \<Rightarrow> compiled_module \<times> dependency \<Rightarrow> link_network \<Rightarrow> bool" where
  "link_of mods cd l =
     (\<exists>p i. resolve_provider mods (fst cd) (snd cd) = Inr (p, i) \<and>
        lnk_Relationship l = link_relationship p (fst cd) (snd cd) \<and>
        lnk_Alias l = link_alias (lnk_Relationship l) \<and>
        lnk_Provider l = cmp_Instance p @ ''/'' @ ifc_Container i \<and>
        lnk_Consumer l = cmp_Instance (fst cd) @ ''/'' @ dep_Consumer (snd cd))"

lemma derive_link_Inr:
  assumes "derive_link mods (t, out) cd = Inr (t', out')" and "tables_ok t"
  shows "\<exists>l. out' = out @ [l] \<and> link_of mods cd l \<and> link_ok t' l \<and> tables_ok t' \<and> extends t t' \<and>
    tab_Relationships t' = tab_Relationships t"
proof -
  obtain consumer d where cd: "cd = (consumer, d)" by (cases cd)
  obtain p i subnet where prov: "resolve_provider mods consumer d = Inr (p, i)"
    and sel: "select_link_subnet (link_relationship p consumer d) (link_name (link_relationship p consumer d))
        (sha256 (link_relationship p consumer d)) t = Inr subnet"
    and t': "t' = t\<lparr>tab_Names := (link_name (link_relationship p consumer d), link_relationship p consumer d) # tab_Names t,
        tab_Subnets := (subnet, link_relationship p consumer d) # tab_Subnets t\<rparr>"
    and out': "out' = out @ [\<lparr>lnk_Relationship = link_relationship p consumer d,
        lnk_Name = link_name (link_relationship p consumer d), lnk_Subnet = subnet,
        lnk_Alias = link_alias (link_relationship p consumer d),
        lnk_Provider = cmp_Instance p @ ''/'' @ ifc_Container i,
        lnk_Consumer = cmp_Instance consumer @ ''/'' @ dep_Consumer d\<rparr>]" (is "_ = _ @ [?l]")
    using assms(1) unfolding cd derive_link_def by (auto simp: result_simps Let_def split: prod.splits)
  let ?rel = "link_relationship p consumer d"
  have rel: "?rel \<noteq> []" by (simp add: link_relationship_def)
  note sub = select_link_subnet_Inr [OF sel assms(2) link_name_nonempty rel]
  have ext: "extends t t'"
    using sub unfolding extends_def t' by (auto intro!: map_le_cons)
  have own: "owned t' (link_name ?rel) subnet ?rel" by (simp add: owned_def t')
  have rels: "tab_Relationships t' = tab_Relationships t" by (simp add: t')
  have "tables_ok t'"
    unfolding tables_ok_def
  proof (intro conjI allI impI)
    show "v \<noteq> []" if "map_of (tab_Names t') k = Some v" for k v
      using that rel assms(2) unfolding tables_ok_def t' by (auto split: if_splits)
    show "v \<noteq> []" if "map_of (tab_Subnets t') k = Some v" for k v
      using that rel assms(2) unfolding tables_ok_def t' by (auto split: if_splits)
    fix r n assume "map_of (tab_Relationships t') r = Some n"
    then have "obn_Relationship n = r \<and> owned t (obn_Name n) (obn_Subnet n) r"
      using assms(2) unfolding rels tables_ok_def by blast
    then show "obn_Relationship n = r" "owned t' (obn_Name n) (obn_Subnet n) r"
      using owned_extends [OF _ ext] by blast+
  qed
  moreover have "link_ok t' ?l"
    using sub own rels by (auto simp: link_ok_def split: option.splits)
  moreover have "link_of mods cd ?l" by (simp add: link_of_def cd prov)
  ultimately show ?thesis using out' ext rels by blast
qed

lemma link_ok_extends:
  "link_ok t l \<Longrightarrow> extends t t' \<Longrightarrow> tab_Relationships t' = tab_Relationships t \<Longrightarrow> link_ok t' l"
  using owned_extends by (auto simp: link_ok_def)

lemma derive_link_fold_Inr:
  assumes "fold_r (derive_link mods) (t, out) cds = Inr (t', out')" and "tables_ok t" and "\<forall>l\<in>set out. link_ok t l"
  shows "\<exists>ls. out' = out @ ls \<and> list_all2 (link_of mods) cds ls \<and> (\<forall>l\<in>set out'. link_ok t' l) \<and> extends t t' \<and>
    tab_Relationships t' = tab_Relationships t \<and> tables_ok t'"
  using assms
proof (induction cds arbitrary: t out)
  case (Cons cd cds)
  obtain u where u: "derive_link mods (t, out) cd = Inr u" "fold_r (derive_link mods) u cds = Inr (t', out')"
    using Cons.prems(1) by (auto simp: result_simps)
  obtain t1 out1 where t1: "u = (t1, out1)" by (cases u)
  obtain l where l: "out1 = out @ [l]" "link_of mods cd l" "link_ok t1 l" "tables_ok t1" "extends t t1"
      "tab_Relationships t1 = tab_Relationships t"
    using derive_link_Inr [OF u(1) [unfolded t1] Cons.prems(2)] by blast
  have "\<forall>l\<in>set out1. link_ok t1 l"
    using Cons.prems(3) link_ok_extends [OF _ l(5,6)] l(1,3) by auto
  from Cons.IH [OF u(2) [unfolded t1] l(4) this] obtain ls where
    "out' = out1 @ ls" "list_all2 (link_of mods) cds ls" "\<forall>l\<in>set out'. link_ok t' l" "extends t1 t'"
    "tab_Relationships t' = tab_Relationships t1" "tables_ok t'" by blast
  then show ?case using l extends_trans by (intro exI [of _ "l # ls"]) auto
qed simp

lemma observed_relationships:
  assumes "fold_r (observe_network prefix_ok) t ns = Inr t'" "map_of (tab_Relationships t') rel = Some n"
  shows "n \<in> set ns \<or> map_of (tab_Relationships t) rel = Some n"
  using assms
proof (induction ns arbitrary: t)
  case (Cons m ns)
  then obtain u where u: "observe_network prefix_ok t m = Inr u" "fold_r (observe_network prefix_ok) u ns = Inr t'"
    by (auto simp: result_simps)
  have "tab_Relationships u = tab_Relationships t \<or> tab_Relationships u = (obn_Relationship m, m) # tab_Relationships t"
    using u(1) by (auto simp: observe_network_def bind_r_Inr_iff split: if_splits)
  then show ?case using Cons.IH [OF u(2) Cons.prems(2)] by (auto split: if_splits)
qed simp

lemma no_tables_ok [simp]: "tables_ok no_tables"
  by (simp add: tables_ok_def no_tables_def)

lemma derive_links_cases:
  assumes "derive_links prefix_ok mods observed = Inr ls"
  obtains t out where "ls = sort_key lnk_Relationship out"
    "list_all2 (link_of mods) (module_dependencies mods) out" "\<forall>l\<in>set ls. link_ok t l"
    "\<forall>n\<in>set observed. owned t (obn_Name n) (obn_Subnet n) (owner_key n) \<and>
       (obn_Relationship n \<noteq> [] \<longrightarrow> map_of (tab_Relationships t) (obn_Relationship n) = Some n)"
    "\<forall>rel n. map_of (tab_Relationships t) rel = Some n \<longrightarrow> n \<in> set observed \<and> obn_Relationship n = rel"
proof -
  obtain t0 t1 out where t: "fold_r (observe_network prefix_ok) no_tables observed = Inr t0"
      "fold_r (derive_link mods) (t0, []) (module_dependencies mods) = Inr (t1, out)"
      "ls = sort_key lnk_Relationship out"
    using assms by (auto simp: derive_links_def result_simps)
  note obs = observe_networks_Inr [OF t(1) no_tables_ok]
  from derive_link_fold_Inr [OF t(2)] obs have links: "list_all2 (link_of mods) (module_dependencies mods) out"
      "\<forall>l\<in>set out. link_ok t1 l" "extends t0 t1" "tab_Relationships t1 = tab_Relationships t0"
      "tables_ok t1"
    by auto
  show ?thesis
  proof (rule that [of out t1])
    show "\<forall>n\<in>set observed. owned t1 (obn_Name n) (obn_Subnet n) (owner_key n) \<and>
       (obn_Relationship n \<noteq> [] \<longrightarrow> map_of (tab_Relationships t1) (obn_Relationship n) = Some n)"
      using obs owned_extends [OF _ links(3)] extends_relationship [OF links(3)] by blast
    show "\<forall>rel n. map_of (tab_Relationships t1) rel = Some n \<longrightarrow> n \<in> set observed \<and> obn_Relationship n = rel"
      using observed_relationships [OF t(1)] links(5) by (auto simp: links(4) no_tables_def tables_ok_def)
  qed (simp_all add: t(3) links)
qed

subsection \<open>Properties of the derived links\<close>


text \<open>
  C5: every dependency of a desired module gets exactly one link, between its consumer and the
  one provider of its interface, and the links come out sorted by relationship.
\<close>

theorem links_cover_dependencies:
  assumes "derive_links prefix_ok mods observed = Inr ls"
  shows "sorted (map lnk_Relationship ls) \<and>
    (\<exists>out. mset out = mset ls \<and> list_all2 (link_of mods) (module_dependencies mods) out)"
  using derive_links_cases [OF assms] by (metis mset_sort sorted_sort_key)

text \<open>
  links are stable. A relationship that is observed on the target keeps its network and
  its subnet; a new one gets a subnet of the pool 10.240.0.0 to 10.255.255.0.
\<close>

theorem links_stable:
  assumes "derive_links prefix_ok mods observed = Inr ls" and "l \<in> set ls"
  shows "(\<forall>n\<in>set observed. obn_Relationship n = lnk_Relationship l \<longrightarrow>
            lnk_Name l = obn_Name n \<and> lnk_Subnet l = obn_Subnet n) \<and>
         (lnk_Relationship l \<notin> obn_Relationship ` set observed \<longrightarrow> (\<exists>v<4096. lnk_Subnet l = subnet_text v)) \<and>
         lnk_Name l = link_name (lnk_Relationship l)"
proof -
  obtain t out where t: "ls = sort_key lnk_Relationship out"
      "list_all2 (link_of mods) (module_dependencies mods) out" "\<forall>l\<in>set ls. link_ok t l"
      "\<forall>n\<in>set observed. owned t (obn_Name n) (obn_Subnet n) (owner_key n) \<and>
        (obn_Relationship n \<noteq> [] \<longrightarrow> map_of (tab_Relationships t) (obn_Relationship n) = Some n)"
      "\<forall>rel n. map_of (tab_Relationships t) rel = Some n \<longrightarrow> n \<in> set observed \<and> obn_Relationship n = rel"
    by (rule derive_links_cases [OF assms(1)])
  then have ok: "link_ok t l" using assms(2) by blast
  have "l \<in> set out" using assms(2) t(1) by simp
  then obtain i where "i < length out" "l = out ! i" by (metis in_set_conv_nth)
  then have "link_of mods (module_dependencies mods ! i) l" using t(2) by (simp add: list_all2_conv_all_nth)
  then have rel: "lnk_Relationship l \<noteq> []" by (auto simp: link_of_def link_relationship_def)
  show ?thesis
  proof (intro conjI ballI impI)
    fix n assume n: "n \<in> set observed" "obn_Relationship n = lnk_Relationship l"
    then have "map_of (tab_Relationships t) (lnk_Relationship l) = Some n" using t(4) rel by auto
    then show "lnk_Name l = obn_Name n" "lnk_Subnet l = obn_Subnet n" using ok by (auto simp: link_ok_def)
  next
    assume none: "lnk_Relationship l \<notin> obn_Relationship ` set observed"
    show "\<exists>v<4096. lnk_Subnet l = subnet_text v"
    proof (cases "map_of (tab_Relationships t) (lnk_Relationship l)")
      case None
      then show ?thesis using ok by (simp add: link_ok_def)
    next
      case (Some n)
      then have "n \<in> set observed \<and> obn_Relationship n = lnk_Relationship l" using t(5) by blast
      then show ?thesis using none by (metis imageI)
    qed
  next
    show "lnk_Name l = link_name (lnk_Relationship l)" using ok by (simp add: link_ok_def)
  qed
qed

text \<open>
  C7: the choice of a subnet returns the first subnet of the pool, in the order of the probes from
  the two bytes of the seed on, that is not in use; it fails exactly when each of the 4096 subnets
  of the pool is in use.
\<close>

theorem choose_subnet_spec:
  "(case choose_subnet dg used of
      Inr s \<Rightarrow> \<exists>p<4096. s = subnet_text ((subnet_seed dg + p) mod 4096) \<and> map_get used s = [] \<and>
        (\<lambda>q. subnet_text ((subnet_seed dg + q) mod 4096)) ` {..<p} \<subseteq> {s. map_get used s \<noteq> []}
    | Inl e \<Rightarrow> e = Err ''no collision-free Link-Net subnet available'' \<and>
        subnet_text ` {..<4096} \<subseteq> {s. map_get used s \<noteq> []} \<and> card (subnet_text ` {..<4096}) = 4096)"
proof (cases "choose_subnet dg used")
  case (Inl e)
  then have "\<forall>v<4096. map_get used (subnet_text v) \<noteq> []" using choose_subnet_Inl_iff by blast
  moreover have "e = Err ''no collision-free Link-Net subnet available''"
    using Inl by (auto simp: choose_subnet_def split: option.splits)
  ultimately show ?thesis using Inl by (auto simp: card_image [OF subnet_text_inj])
next
  case (Inr s)
  then show ?thesis using choose_subnet_probe [OF Inr] by simp
qed

subsection \<open>On the sample deployment\<close>

lemma choose_subnet_first:
  "map_get used (subnet_text (subnet_seed dg mod 4096)) = [] \<Longrightarrow>
   choose_subnet dg used = Inr (subnet_text (subnet_seed dg mod 4096))"
proof -
  assume "map_get used (subnet_text (subnet_seed dg mod 4096)) = []"
  then have "find (\<lambda>probe. map_get used (subnet_text ((subnet_seed dg + probe) mod 4096)) = []) (0 # ps) = Some 0" for ps
    by simp
  moreover have "[0..<4096] = 0 # [Suc 0..<4096]" by (rule upt_conv_Cons) simp
  ultimately show ?thesis unfolding choose_subnet_def by (simp only: option.case add_0_right)
qed

lemma last_subnet_text: "last (subnet_text v) = CHR ''4''"
  by (simp add: subnet_text_def)

text \<open>The relationship and the link of the sample deployment.\<close>

definition sample_relationship :: bytes where
  "sample_relationship = ''db1/sql->web1/app''"

definition sample_link :: link_network where
  "sample_link =
     \<lparr>lnk_Relationship = sample_relationship, lnk_Name = link_name sample_relationship,
      lnk_Subnet = subnet_text (subnet_seed (sha256 sample_relationship) mod 4096),
      lnk_Alias = link_alias sample_relationship, lnk_Provider = ''db1/app'', lnk_Consumer = ''web1/app''\<rparr>"

lemma link_name_not_podman: "link_name rel \<noteq> ''podman''"
  by (simp add: link_name_def)

text \<open>
  the choice compares subnets as texts. An observed network 10.240.0.0/12 contains every
  subnet of the pool, and still the first candidate is chosen, inside that network.
\<close>

theorem choose_subnet_ignores_containment:
  "choose_subnet dg [(''10.240.0.0/12'', owner)] = Inr (subnet_text (subnet_seed dg mod 4096)) \<and>
   subnet_text (subnet_seed dg mod 4096) =
     ''10.'' @ decimal (240 + subnet_seed dg mod 4096 div 256) @ ''.'' @ decimal (subnet_seed dg mod 256) @ ''.0/24'' \<and>
   240 + subnet_seed dg mod 4096 div 256 < 256"
proof -
  have "subnet_text v \<noteq> ''10.240.0.0/12''" for v
  proof
    assume "subnet_text v = ''10.240.0.0/12''"
    then have "last ''10.240.0.0/12'' = CHR ''4''" using last_subnet_text [of v] by (simp only:)
    then show False by simp
  qed
  then have "choose_subnet dg [(''10.240.0.0/12'', owner)] = Inr (subnet_text (subnet_seed dg mod 4096))"
    by (intro choose_subnet_first) (simp add: map_get_def)
  moreover have "subnet_seed dg mod 4096 mod 256 = subnet_seed dg mod 256"
    by (rule mod_mod_cancel) simp
  moreover have "subnet_seed dg mod 4096 < 4096" by simp
  then have "subnet_seed dg mod 4096 div 256 < 16" by (simp only: div_less_iff_less_mult)
  ultimately show ?thesis unfolding subnet_text_def [of "subnet_seed dg mod 4096"] by simp
qed

lemma sample_choose:
  "choose_subnet (sha256 sample_relationship) [(''10.88.0.0/16'', o')] = Inr (lnk_Subnet sample_link)"
proof -
  have "subnet_text v \<noteq> ''10.88.0.0/16''" for v
  proof
    assume "subnet_text v = ''10.88.0.0/16''"
    then have "last ''10.88.0.0/16'' = CHR ''4''" using last_subnet_text [of v] by (simp only:)
    then show False by simp
  qed
  then have "choose_subnet (sha256 sample_relationship) [(''10.88.0.0/16'', o')] =
      Inr (subnet_text (subnet_seed (sha256 sample_relationship) mod 4096))"
    by (intro choose_subnet_first) (simp add: map_get_def)
  then show ?thesis by (simp add: sample_link_def)
qed

lemma sample_links:
  "derive_links (\<lambda>_. True) [db_compiled, web_compiled] [sample_lan] = Inr [sample_link]"
proof -
  have obs: "fold_r (observe_network (\<lambda>_. True)) no_tables [sample_lan] =
      Inr \<lparr>tab_Relationships = [], tab_Names = [(''podman'', ''observed:podman'')],
           tab_Subnets = [(''10.88.0.0/16'', ''observed:podman'')]\<rparr>"
    by (simp add: observe_network_def sample_lan_def no_tables_def claim_owner_def owner_key_def)
  have deps: "module_dependencies [db_compiled, web_compiled] =
      [(web_compiled, \<lparr>dep_TargetModule = ''db'', dep_InterfaceID = ''sql'', dep_Consumer = ''app''\<rparr>)]"
    by (simp add: module_dependencies_def sample_defs)
  have prov: "resolve_provider [db_compiled, web_compiled] web_compiled
        \<lparr>dep_TargetModule = ''db'', dep_InterfaceID = ''sql'', dep_Consumer = ''app''\<rparr> =
      Inr (db_compiled, \<lparr>ifc_ID = ''sql'', ifc_Container = ''app'', ifc_Port = 5432, ifc_Protocol = ''tcp''\<rparr>)"
    by (simp add: resolve_provider_def sample_defs)
  have rel: "link_relationship db_compiled web_compiled
      \<lparr>dep_TargetModule = ''db'', dep_InterfaceID = ''sql'', dep_Consumer = ''app''\<rparr> = sample_relationship"
    by (simp add: link_relationship_def sample_relationship_def sample_defs)
  have names: "cmp_Instance db_compiled = ''db1''" "cmp_Instance web_compiled = ''web1''"
    by (simp_all add: sample_defs)
  show ?thesis
    unfolding derive_links_def obs deps
    using link_name_not_podman [of sample_relationship]
    by (simp add: derive_link_def prov rel select_link_subnet_def map_get_def sample_choose names Let_def)
      (simp add: sample_link_def)
qed


theorem links_cover_dependencies_witness:
  "link_of [db_compiled, web_compiled]
     (web_compiled, \<lparr>dep_TargetModule = ''db'', dep_InterfaceID = ''sql'', dep_Consumer = ''app''\<rparr>) sample_link"
proof -
  have "module_dependencies [db_compiled, web_compiled] =
      [(web_compiled, \<lparr>dep_TargetModule = ''db'', dep_InterfaceID = ''sql'', dep_Consumer = ''app''\<rparr>)]"
    by (simp add: module_dependencies_def sample_defs)
  then show ?thesis
    using links_cover_dependencies [OF sample_links] by (auto simp: list_all2_Cons1)
qed

theorem links_stable_witness:
  "\<exists>v<4096. lnk_Subnet sample_link = subnet_text v"
proof -
  have "lnk_Relationship sample_link \<notin> obn_Relationship ` set [sample_lan]"
    by (simp add: sample_lan_def sample_link_def sample_relationship_def)
  then show ?thesis using links_stable [OF sample_links, of sample_link] by simp
qed

end
