(* ===== verification/Deploy_Claims.thy ===== *)
theory Deploy_Claims
  imports Deploy_Graph
begin

section \<open>Resource claims\<close>

text \<open>
  \<open>internal/deployment/claims.go\<close>: what the desired modules and their links would own on the
  target, what is observed to be owned there, and the check that no two owners meet. The check
  sorts the claims and compares neighbours; \<open>validate_claims_iff\<close> says that this decides the
  question for every pair.
\<close>

record claim =
  clm_Kind :: bytes
  clm_Value :: bytes
  clm_Owner :: bytes

definition mk_claim :: "bytes \<Rightarrow> bytes \<Rightarrow> bytes \<Rightarrow> claim" where
  "mk_claim k v o' = \<lparr>clm_Kind = k, clm_Value = v, clm_Owner = o'\<rparr>"

definition module_prefix :: "compiled_module \<Rightarrow> bytes" where
  "module_prefix m = ''vpsmith-'' @ cmp_Instance m"

definition module_claims :: "compiled_module \<Rightarrow> claim list" where
  "module_claims m =
     concat (map (\<lambda>c. [mk_claim ''container'' (module_prefix m @ ''-'' @ ctr_ID c) (cmp_Instance m),
                       mk_claim ''unit'' (module_prefix m @ ''-'' @ ctr_ID c @ ''.service'') (cmp_Instance m)])
              (mod_Containers (cmp_Contract m)))
     @ map (\<lambda>s. mk_claim ''path'' (sto_Path s) (cmp_Instance m)) (mod_Persistent (cmp_Contract m))
     @ map (\<lambda>n. mk_claim ''network'' (module_prefix m @ ''-'' @ net_ID n) (cmp_Instance m))
         (mod_Networks (cmp_Contract m))
     @ map (\<lambda>r. mk_claim ''hostname'' (to_lower (rte_Hostname r)) (cmp_Instance m))
         (mod_PublicRoutes (cmp_Contract m))
     @ map (\<lambda>(_, sid). mk_claim ''secret'' sid (cmp_Instance m)) (des_SecretIDs (cmp_Desired m))"

definition link_claims :: "link_network \<Rightarrow> claim list" where
  "link_claims l =
     [mk_claim ''network'' (lnk_Name l) (lnk_Relationship l),
      mk_claim ''subnet'' (lnk_Subnet l) (lnk_Relationship l),
      mk_claim ''alias'' (lnk_Name l @ '':'' @ lnk_Alias l) (lnk_Relationship l)]"

definition derive_claims :: "compiled_module list \<Rightarrow> link_network list \<Rightarrow> claim list" where
  "derive_claims mods links = concat (map module_claims mods) @ concat (map link_claims links)"

definition logical_owner :: "bytes \<Rightarrow> bytes" where
  "logical_owner v = trim_prefix v ''observed:''"

definition same_logical_owner :: "bytes \<Rightarrow> bytes \<Rightarrow> bool" where
  "same_logical_owner a b = (logical_owner a \<noteq> [] \<and> logical_owner a = logical_owner b)"

definition observed_claim_of :: "observed_claim \<Rightarrow> claim result" where
  "observed_claim_of o' =
     also_r
       (reject_if (trim_space (obc_Kind o') = [] \<or> trim_space (obc_Value o') = [])
         (Err ''observed claim is incomplete''))
       (Inr (mk_claim (obc_Kind o') (obc_Value o') (''observed:'' @ obc_Owner o')))"

definition claim_order :: "claim \<Rightarrow> bytes \<times> bytes \<times> bytes" where
  "claim_order c = (clm_Kind c, clm_Value c, clm_Owner c)"

definition claims_collide :: "claim \<Rightarrow> claim \<Rightarrow> bool" where
  "claims_collide a b =
     (clm_Kind a = clm_Kind b \<and> clm_Value a = clm_Value b \<and> \<not> same_logical_owner (clm_Owner a) (clm_Owner b))"

fun check_neighbours :: "claim list \<Rightarrow> unit result" where
  "check_neighbours (a # b # cs) =
     (if claims_collide a b
      then Inl (Errf ''resource collision: %s %s claimed by %s and %s''
             [clm_Kind a, clm_Value a, clm_Owner a, clm_Owner b])
      else check_neighbours (b # cs))"
| "check_neighbours cs = Inr ()"

definition validate_claims ::
  "compiled_module list \<Rightarrow> link_network list \<Rightarrow> observed_claim list \<Rightarrow> unit result" where
  "validate_claims mods links observed =
     bind_r (map_r observed_claim_of observed)
       (\<lambda>obs. check_neighbours (sort_key claim_order (derive_claims mods links @ obs)))"

subsection \<open>Neighbours decide every pair\<close>

lemma check_neighbours_Inr_iff:
  "check_neighbours cs = Inr u \<longleftrightarrow> (\<forall>i. Suc i < length cs \<longrightarrow> \<not> claims_collide (cs ! i) (cs ! Suc i))"
proof (induction cs rule: check_neighbours.induct)
  case (1 a b cs)
  have "(\<forall>i. Suc i < length (a # b # cs) \<longrightarrow> \<not> claims_collide ((a # b # cs) ! i) ((a # b # cs) ! Suc i)) \<longleftrightarrow>
      \<not> claims_collide a b \<and>
      (\<forall>i. Suc i < length (b # cs) \<longrightarrow> \<not> claims_collide ((b # cs) ! i) ((b # cs) ! Suc i))"
    (is "(\<forall>i. ?P i) \<longleftrightarrow> ?A \<and> (\<forall>i. ?Q i)")
  proof
    assume P: "\<forall>i. ?P i"
    from P have ?A by (auto dest: spec [of _ 0])
    moreover from P have "?Q i" for i by (auto dest: spec [of _ "Suc i"])
    ultimately show "?A \<and> (\<forall>i. ?Q i)" by blast
  next
    assume AQ: "?A \<and> (\<forall>i. ?Q i)"
    show "\<forall>i. ?P i"
    proof
      fix i show "?P i" using AQ by (cases i) auto
    qed
  qed
  then show ?case using 1 by simp
qed auto

text \<open>A symmetric relation on all pairs of positions does not depend on the order of a list.\<close>

lemma sorted_wrt_mset:
  assumes "mset xs = mset ys" "\<And>x y. R x y \<Longrightarrow> R y x"
  shows "sorted_wrt R xs \<longleftrightarrow> sorted_wrt R ys"
  using assms(1)
proof (induction xs arbitrary: ys)
  case (Cons x xs)
  then have "x \<in> set ys" by (metis list.set_intros(1) set_mset_mset)
  then obtain us vs where ys: "ys = us @ x # vs" by (meson split_list)
  then have m: "mset xs = mset (us @ vs)" using Cons.prems by simp
  then have "set xs = set (us @ vs)" by (metis set_mset_mset)
  then have "sorted_wrt R (x # xs) \<longleftrightarrow> (\<forall>y\<in>set (us @ vs). R x y) \<and> sorted_wrt R (us @ vs)"
    using Cons.IH [OF m] by simp
  also have "\<dots> \<longleftrightarrow> sorted_wrt R ys"
    unfolding ys sorted_wrt_append sorted_wrt.simps using assms(2) by auto
  finally show ?case .
qed simp

lemma same_logical_owner_trans:
  "same_logical_owner a b \<Longrightarrow> same_logical_owner b c \<Longrightarrow> same_logical_owner a c"
  by (auto simp: same_logical_owner_def)

lemma claims_collide_sym: "claims_collide a b = claims_collide b a"
  by (auto simp: claims_collide_def same_logical_owner_def)

lemma sorted_claims_pairs:
  assumes "sorted (map claim_order cs)"
  shows "check_neighbours cs = Inr () \<longleftrightarrow> sorted_wrt (\<lambda>a b. \<not> claims_collide a b) cs"
proof
  assume ok: "check_neighbours cs = Inr ()"
  have "sorted (map (\<lambda>c. (clm_Kind c, clm_Value c)) cs)"
    using assms unfolding sorted_map by (rule sorted_wrt_mono_rel [rotated]) (auto simp: claim_order_def)
  note key_sorted = this
  have "same_logical_owner (clm_Owner (cs ! i)) (clm_Owner (cs ! j))"
    if ij: "i < j" "j < length cs"
      and eq: "clm_Kind (cs ! i) = clm_Kind (cs ! j)" "clm_Value (cs ! i) = clm_Value (cs ! j)" for i j
  proof (rule sorted_adjacent_groups [OF key_sorted, where R = "\<lambda>a b. same_logical_owner (clm_Owner a) (clm_Owner b)"])
    fix k assume "Suc k < length cs"
      "(clm_Kind (cs ! k), clm_Value (cs ! k)) = (clm_Kind (cs ! Suc k), clm_Value (cs ! Suc k))"
    then show "same_logical_owner (clm_Owner (cs ! k)) (clm_Owner (cs ! Suc k))"
      using ok unfolding check_neighbours_Inr_iff claims_collide_def by blast
  qed (use ij eq same_logical_owner_trans in auto)
  then show "sorted_wrt (\<lambda>a b. \<not> claims_collide a b) cs"
    by (auto simp: sorted_wrt_iff_nth_less claims_collide_def)
next
  assume "sorted_wrt (\<lambda>a b. \<not> claims_collide a b) cs"
  then show "check_neighbours cs = Inr ()"
    by (auto simp: check_neighbours_Inr_iff sorted_wrt_iff_nth_less)
qed

definition observed_claims :: "observed_claim list \<Rightarrow> claim list" where
  "observed_claims os = map (\<lambda>o'. mk_claim (obc_Kind o') (obc_Value o') (''observed:'' @ obc_Owner o')) os"

lemma observed_claims_Inr_iff:
  "map_r observed_claim_of os = Inr cs \<longleftrightarrow>
     (\<forall>o'\<in>set os. trim_space (obc_Kind o') \<noteq> [] \<and> trim_space (obc_Value o') \<noteq> []) \<and> cs = observed_claims os"
  by (induction os arbitrary: cs)
    (auto simp: bind_r_Inr_iff observed_claim_of_def also_r_Inr_iff reject_if_Inr_iff observed_claims_def)

lemma validate_claims_Inr_iff:
  "validate_claims mods links os = Inr () \<longleftrightarrow>
     (\<forall>o'\<in>set os. trim_space (obc_Kind o') \<noteq> [] \<and> trim_space (obc_Value o') \<noteq> []) \<and>
     sorted_wrt (\<lambda>a b. \<not> claims_collide a b) (derive_claims mods links @ observed_claims os)"
proof -
  let ?cs = "derive_claims mods links @ observed_claims os"
  have "check_neighbours (sort_key claim_order ?cs) = Inr () \<longleftrightarrow>
      sorted_wrt (\<lambda>a b. \<not> claims_collide a b) (sort_key claim_order ?cs)"
    by (rule sorted_claims_pairs) simp
  also have "\<dots> \<longleftrightarrow> sorted_wrt (\<lambda>a b. \<not> claims_collide a b) ?cs"
    by (rule sorted_wrt_mset) (simp_all add: claims_collide_sym)
  finally show ?thesis
    by (auto simp: validate_claims_def bind_r_Inr_iff observed_claims_Inr_iff)
qed

lemma sorted_wrt_members:
  assumes "sorted_wrt R xs" "\<And>x y. R x y \<Longrightarrow> R y x" "a \<in> set xs" "b \<in> set xs" "a \<noteq> b"
  shows "R a b"
proof -
  obtain i j where "i < length xs" "j < length xs" "xs ! i = a" "xs ! j = b" "i \<noteq> j"
    using assms(3-5) by (metis in_set_conv_nth)
  then show ?thesis
    using assms(1,2) by (cases "i < j") (auto simp: sorted_wrt_iff_nth_less)
qed

lemma collisions_owner:
  assumes "sorted_wrt (\<lambda>a b. \<not> claims_collide a b) cs" "mk_claim k v o1 \<in> set cs" "mk_claim k v o2 \<in> set cs"
  shows "logical_owner o1 = logical_owner o2"
proof (cases "o1 = o2")
  case False
  then have "mk_claim k v o1 \<noteq> mk_claim k v o2" by (simp add: mk_claim_def)
  from sorted_wrt_members [OF assms(1) _ assms(2,3) this]
  have "\<not> claims_collide (mk_claim k v o1) (mk_claim k v o2)" by (simp add: claims_collide_sym)
  then show ?thesis by (simp add: claims_collide_def mk_claim_def same_logical_owner_def)
qed simp

lemma module_claims_in: "m \<in> set mods \<Longrightarrow> c \<in> set (module_claims m) \<Longrightarrow> c \<in> set (derive_claims mods links @ os)"
  by (auto simp: derive_claims_def)

text \<open>The values a module claims under a kind.\<close>

definition claimed :: "bytes \<Rightarrow> compiled_module \<Rightarrow> bytes set" where
  "claimed k m =
     (if k = ''path'' then sto_Path ` set (mod_Persistent (cmp_Contract m))
      else if k = ''hostname'' then (\<lambda>r. to_lower (rte_Hostname r)) ` set (mod_PublicRoutes (cmp_Contract m))
      else if k = ''secret'' then snd ` set (des_SecretIDs (cmp_Desired m))
      else {})"

lemma claimed_in: "v \<in> claimed k m \<Longrightarrow> mk_claim k v (cmp_Instance m) \<in> set (module_claims m)"
  by (auto simp: claimed_def module_claims_def split: if_splits)

text \<open>
  after a successful claim check two modules of different logical owners share no
  persistent path, no public hostname and no secret, and an observed claim on such a resource
  of a module belongs to that module.
\<close>

theorem claims_exclusive:
  assumes ok: "validate_claims mods links os = Inr ()" and m: "m \<in> set mods"
    and k: "k \<in> {''path'', ''hostname'', ''secret''}"
  shows "(\<forall>m'\<in>set mods. logical_owner (cmp_Instance m') \<noteq> logical_owner (cmp_Instance m) \<longrightarrow>
            claimed k m \<inter> claimed k m' = {}) \<and>
         (\<forall>o'\<in>set os. obc_Kind o' = k \<and> obc_Value o' \<in> claimed k m \<longrightarrow>
            obc_Owner o' = logical_owner (cmp_Instance m))"
proof -
  note pairs = ok [unfolded validate_claims_Inr_iff, THEN conjunct2]
  have mine: "v \<in> claimed k n \<Longrightarrow> n \<in> set mods \<Longrightarrow>
      mk_claim k v (cmp_Instance n) \<in> set (derive_claims mods links @ observed_claims os)" for n v
    using claimed_in module_claims_in by blast
  have "claimed k m \<inter> claimed k m' = {}"
    if "m' \<in> set mods" "logical_owner (cmp_Instance m') \<noteq> logical_owner (cmp_Instance m)" for m'
    using collisions_owner [OF pairs mine [OF _ m] mine [OF _ that(1)]] that(2) by auto
  moreover have "obc_Owner o' = logical_owner (cmp_Instance m)"
    if "o' \<in> set os" "obc_Kind o' = k" "obc_Value o' \<in> claimed k m" for o'
  proof -
    have "mk_claim k (obc_Value o') (''observed:'' @ obc_Owner o') \<in> set (derive_claims mods links @ observed_claims os)"
      using that(1,2) by (auto simp: observed_claims_def)
    from collisions_owner [OF pairs this mine [OF that(3) m]]
    show ?thesis unfolding logical_owner_def [of "''observed:'' @ obc_Owner o'"] by (simp only: trim_prefix_append)
  qed
  ultimately show ?thesis by blast
qed

text \<open>
  C6: the claim check accepts exactly when every observed claim is complete and no two claims,
  derived or observed, name the same resource of the same kind for different logical owners;
  sorting and comparing neighbours misses no pair.
\<close>

theorem validate_claims_iff:
  "validate_claims mods links os = Inr () \<longleftrightarrow>
     (\<forall>o'\<in>set os. trim_space (obc_Kind o') \<noteq> [] \<and> trim_space (obc_Value o') \<noteq> []) \<and>
     sorted_wrt (\<lambda>a b. \<not> claims_collide a b) (derive_claims mods links @ observed_claims os)"
  by (rule validate_claims_Inr_iff)

subsection \<open>On the sample deployment\<close>

definition sample_owned :: observed_claim where
  "sample_owned = \<lparr>obc_Kind = ''path'', obc_Value = ''/srv/db'', obc_Owner = ''db1''\<rparr>"

lemma sample_pairs:
  "sorted_wrt (\<lambda>a b. \<not> claims_collide a b)
     (derive_claims [db_compiled, web_compiled] [] @ observed_claims [sample_owned])"
  "trim_space (obc_Kind sample_owned) \<noteq> []" "trim_space (obc_Value sample_owned) \<noteq> []"
  by code_simp+

theorem validate_claims_iff_witness:
  "validate_claims [db_compiled, web_compiled] [] [sample_owned] = Inr ()"
  using sample_pairs by (subst validate_claims_iff) simp

theorem claims_exclusive_witness:
  "claimed ''path'' db_compiled \<inter> claimed ''path'' web_compiled = {} \<and> obc_Owner sample_owned = ''db1''"
proof -
  have ok: "validate_claims [db_compiled, web_compiled] [] [sample_owned] = Inr ()"
    using sample_pairs by (simp add: validate_claims_Inr_iff)
  have owners: "logical_owner (cmp_Instance db_compiled) = ''db1''" "logical_owner (cmp_Instance web_compiled) = ''web1''"
    by code_simp+
  have path: "obc_Value sample_owned \<in> claimed ''path'' db_compiled" "obc_Kind sample_owned = ''path''"
    by (simp_all add: claimed_def sample_owned_def sample_defs)
  show ?thesis
    using claims_exclusive [OF ok, of db_compiled "''path''"] owners path by simp
qed

end
