(* ===== verification/Deploy_State.thy ===== *)
theory Deploy_State
  imports Deploy_Claims "HOL-Library.AList"
begin

section \<open>Desired against observed state\<close>

text \<open>
  \<open>internal/deployment/state.go\<close>: the preconditions of a bundle, the differences between the
  desired and the observed state, and the state expected afterwards. Where the source ranges
  over a Go map the model ranges over the association list, in its order; the differences are
  sorted at the end.
\<close>

definition preconditions :: "request \<Rightarrow> precondition list" where
  "preconditions req =
     [\<lparr>pre_Kind = ''target'', pre_Subject = req_TargetID req, pre_Expected = ''same-target''\<rparr>]
     @ concat (map (\<lambda>o'.
         [\<lparr>pre_Kind = ''module-version'', pre_Subject = obm_InstanceID o', pre_Expected = obm_Version o'\<rparr>,
          \<lparr>pre_Kind = ''module-package-sha256'', pre_Subject = obm_InstanceID o', pre_Expected = obm_PackageSHA256 o'\<rparr>]
         @ map (\<lambda>(p, h). \<lparr>pre_Kind = ''artifact-sha256'', pre_Subject = p, pre_Expected = h\<rparr>) (obm_ArtifactSHA256 o'))
       (obs_Modules (req_Observed req)))
     @ (if obs_CoreID (req_Observed req) = [] then []
        else [\<lparr>pre_Kind = ''core'', pre_Subject = ''core'', pre_Expected = obs_CoreID (req_Observed req)\<rparr>])"

definition participant_instance :: "bytes \<Rightarrow> bytes" where
  "participant_instance v = takeWhile (\<lambda>c. c \<noteq> CHR ''/'') v"

definition participates :: "compiled_module \<Rightarrow> link_network \<Rightarrow> bool" where
  "participates m l =
     (participant_instance (lnk_Provider l) = cmp_Instance m \<or> participant_instance (lnk_Consumer l) = cmp_Instance m)"

definition runtime_objects :: "compiled_module \<Rightarrow> link_network list \<Rightarrow> bytes list" where
  "runtime_objects m links =
     sort (concat (map (\<lambda>c. [''container:'' @ module_prefix m @ ''-'' @ ctr_ID c,
                             ''unit:'' @ module_prefix m @ ''-'' @ ctr_ID c @ ''.service''])
             (mod_Containers (cmp_Contract m)))
           @ map (\<lambda>n. ''network:'' @ module_prefix m @ ''-'' @ net_ID n) (mod_Networks (cmp_Contract m))
           @ map (\<lambda>l. ''network:'' @ lnk_Name l) (filter (participates m) links))"

definition diff_fact :: "bytes \<Rightarrow> bytes \<Rightarrow> bytes \<Rightarrow> bytes \<Rightarrow> diff_fact" where
  "diff_fact k s d o' = \<lparr>dif_Kind = k, dif_Subject = s, dif_Desired = d, dif_Observed = o'\<rparr>"

text \<open>
  The runtime objects of one module: a wanted object that is not observed is missing, and
  \<open>gotRuntime\<close> loses every wanted object, so that what remains of it is unexpected.
\<close>

definition diff_runtime :: "bytes \<Rightarrow> bytes list \<Rightarrow> bytes list \<Rightarrow> diff_fact list" where
  "diff_runtime inst want got =
     (let step = (\<lambda>(left, out) v.
            (removeAll v left,
             if v \<in> set left then out else out @ [diff_fact ''runtime_missing'' inst v '''']));
          (left, out) = foldl step (remdups got, []) want
      in out @ map (\<lambda>v. diff_fact ''runtime_unexpected'' inst '''' v) left)"

definition diff_module :: "link_network list \<Rightarrow> observed_module list \<Rightarrow> compiled_module \<Rightarrow> diff_fact list" where
  "diff_module links os m =
     (case map_of (rev (map (\<lambda>o'. (obm_InstanceID o', o')) os)) (cmp_Instance m) of
        None \<Rightarrow> [diff_fact ''module_missing'' (cmp_Instance m) (mod_Version (cmp_Contract m)) '''']
      | Some o' \<Rightarrow>
          (if obm_Version o' \<noteq> mod_Version (cmp_Contract m)
           then [diff_fact ''version_changed'' (cmp_Instance m) (mod_Version (cmp_Contract m)) (obm_Version o')] else [])
          @ (if obm_PackageSHA256 o' \<noteq> fsr_PackageSHA256 (des_Source (cmp_Desired m))
             then [diff_fact ''source_changed'' (cmp_Instance m)
                     (fsr_PackageSHA256 (des_Source (cmp_Desired m))) (obm_PackageSHA256 o')] else [])
          @ concat (map (\<lambda>(i, d).
               if map_get (obm_ImageDigests o') i \<noteq> d
               then [diff_fact ''image_digest_changed'' (cmp_Instance m @ ''/'' @ i) d (map_get (obm_ImageDigests o') i)]
               else []) (cmp_Images m))
          @ diff_runtime (cmp_Instance m) (runtime_objects m links) (obm_RuntimeObjects o'))"

definition diff_artifact :: "bytes go_map \<Rightarrow> generated_artifact \<Rightarrow> diff_fact list" where
  "diff_artifact observed a =
     (let got = map_get observed (gen_TargetPath a) in
      if got \<noteq> [] \<and> got \<noteq> gen_SHA256 a
      then [diff_fact ''artifact_hash_changed'' (gen_TargetPath a) (gen_SHA256 a) got] else [])"

definition diff_state ::
  "request \<Rightarrow> compiled_module list \<Rightarrow> generated_artifact list \<Rightarrow> link_network list \<Rightarrow> diff_fact list" where
  "diff_state req mods artifacts links =
     (let os = obs_Modules (req_Observed req);
          removed =
            (if req_Operation req = Uninstall then
               (case find (\<lambda>o'. obm_InstanceID o' = req_SubjectInstance req) os of
                  Some o' \<Rightarrow> [diff_fact ''module_removed'' (obm_InstanceID o') '''' (obm_Version o')]
                | None \<Rightarrow> [])
             else []);
          observed = rev (concat (map obm_ArtifactSHA256 os))
      in sort_key (\<lambda>d. (dif_Kind d, dif_Subject d))
           (removed @ concat (map (diff_module links os) mods) @ concat (map (diff_artifact observed) artifacts)))"

definition expected_post :: "request \<Rightarrow> compiled_module list \<Rightarrow> generated_artifact list \<Rightarrow> json" where
  "expected_post req mods artifacts =
     JObj [(''target_id'', JStr (req_TargetID req)),
           (''modules'', j_slice (\<lambda>m. JObj
              [(''instance_id'', JStr (cmp_Instance m)), (''module_id'', JStr (mod_ID (cmp_Contract m))),
               (''version'', JStr (mod_Version (cmp_Contract m))),
               (''package_sha256'', JStr (fsr_PackageSHA256 (des_Source (cmp_Desired m)))),
               (''images'', j_map (cmp_Images m))]) mods),
           (''artifacts'', j_map (foldl (\<lambda>m a. AList.update (gen_TargetPath a) (gen_SHA256 a) m) [] artifacts))]"

subsection \<open>No difference means the desired state\<close>

lemma diff_runtime_foldl:
  "foldl (\<lambda>(left, out) v. (removeAll v left,
      if v \<in> set left then out else out @ [diff_fact ''runtime_missing'' inst v ''''])) (left, out) want =
   (left', out') \<Longrightarrow>
   set left' = set left - set want \<and> (\<exists>new. out' = out @ new \<and> (distinct want \<longrightarrow> (new = [] \<longleftrightarrow> set want \<subseteq> set left)))"
proof (induction want arbitrary: left out)
  case (Cons v want)
  obtain l1 o1 where s1: "l1 = removeAll v left"
    "o1 = (if v \<in> set left then out else out @ [diff_fact ''runtime_missing'' inst v ''''])" by blast
  from Cons.IH [of l1 o1] Cons.prems s1 obtain new where
    IH: "set left' = set l1 - set want" "out' = o1 @ new" "distinct want \<longrightarrow> (new = [] \<longleftrightarrow> set want \<subseteq> set l1)"
    by auto
  have sets: "set l1 = set left - {v}" by (simp add: s1)
  show ?case
  proof (intro conjI)
    show "set left' = set left - set (v # want)" using IH(1) sets by auto
    show "\<exists>new. out' = out @ new \<and> (distinct (v # want) \<longrightarrow> (new = [] \<longleftrightarrow> set (v # want) \<subseteq> set left))"
    proof (cases "v \<in> set left")
      case True
      then show ?thesis using IH(2,3) sets by (auto simp: s1)
    next
      case False
      then show ?thesis using IH(2) by (auto simp: s1)
    qed
  qed
qed simp

lemma diff_runtime_Nil_iff:
  assumes "distinct want"
  shows "diff_runtime inst want got = [] \<longleftrightarrow> set got = set want"
proof -
  obtain left out where f: "foldl (\<lambda>(left, out) v. (removeAll v left,
      if v \<in> set left then out else out @ [diff_fact ''runtime_missing'' inst v ''''])) (remdups got, []) want = (left, out)"
    by (meson surj_pair)
  from diff_runtime_foldl [OF f] assms
  have "set left = set got - set want" "out = [] \<longleftrightarrow> set want \<subseteq> set got" by auto
  moreover have "diff_runtime inst want got = [] \<longleftrightarrow> left = [] \<and> out = []"
    unfolding diff_runtime_def Let_def f by auto
  ultimately show ?thesis by (metis Diff_eq_empty_iff set_empty subset_antisym subset_refl)
qed

text \<open>An observed module that is what the desired one compiles to.\<close>

definition module_matches :: "link_network list \<Rightarrow> compiled_module \<Rightarrow> observed_module \<Rightarrow> bool" where
  "module_matches links m o' =
     (obm_InstanceID o' = cmp_Instance m \<and> obm_Version o' = mod_Version (cmp_Contract m) \<and>
      obm_PackageSHA256 o' = fsr_PackageSHA256 (des_Source (cmp_Desired m)) \<and>
      (\<forall>(i, d)\<in>set (cmp_Images m). map_get (obm_ImageDigests o') i = d) \<and>
      set (obm_RuntimeObjects o') = set (runtime_objects m links))"

lemma diff_module_Nil_iff:
  assumes "distinct (map obm_InstanceID os)" and "distinct (runtime_objects m links)"
  shows "diff_module links os m = [] \<longleftrightarrow> (\<exists>o'\<in>set os. module_matches links m o')"
proof (cases "map_of (rev (map (\<lambda>o'. (obm_InstanceID o', o')) os)) (cmp_Instance m)")
  case None
  then have "cmp_Instance m \<notin> obm_InstanceID ` set os"
    by (simp add: map_of_eq_None_iff image_image)
  then have "\<not> (\<exists>o'\<in>set os. module_matches links m o')"
    unfolding module_matches_def image_iff by metis
  then show ?thesis using None by (simp add: diff_module_def)
next
  case (Some o')
  have d: "distinct (map fst (map (\<lambda>o'. (obm_InstanceID o', o')) os))"
    using assms(1) by (simp add: comp_def)
  from Some have o': "o' \<in> set os" "obm_InstanceID o' = cmp_Instance m"
    using map_of_rev_iff [OF d] by auto
  have only: "p \<in> set os \<Longrightarrow> obm_InstanceID p = cmp_Instance m \<Longrightarrow> p = o'" for p
    using assms(1) o' by (metis distinct_map inj_onD)
  have images: "concat (map (\<lambda>(i, d). if map_get ds i \<noteq> d then [f i d] else []) xs) = [] \<longleftrightarrow>
      (\<forall>(i, d)\<in>set xs. map_get ds i = d)" for ds xs and f :: "bytes \<Rightarrow> bytes \<Rightarrow> diff_fact"
    by (induction xs) (auto split: if_splits)
  have "diff_module links os m = [] \<longleftrightarrow> module_matches links m o'"
    using o'(2) Some diff_runtime_Nil_iff [OF assms(2)]
    by (simp add: diff_module_def module_matches_def images del: concat_eq_Nil_conv)
  moreover have "(\<exists>p\<in>set os. module_matches links m p) \<longleftrightarrow> module_matches links m o'"
    using o'(1) only by (metis module_matches_def)
  ultimately show ?thesis by simp
qed

text \<open>
  the list of expected changes is empty exactly when nothing is to change: every desired
  module is observed with its version, package, image digests and runtime objects, no observed
  artifact has another hash than the generated one, and no observed module is to be removed.
\<close>

theorem diff_state_Nil_iff:
  assumes "distinct (map obm_InstanceID (obs_Modules (req_Observed req)))"
    and "\<forall>m\<in>set mods. distinct (runtime_objects m links)"
  shows "diff_state req mods artifacts links = [] \<longleftrightarrow>
     (\<forall>m\<in>set mods. \<exists>o'\<in>set (obs_Modules (req_Observed req)). module_matches links m o') \<and>
     (\<forall>a\<in>set artifacts.
        map_get (rev (concat (map obm_ArtifactSHA256 (obs_Modules (req_Observed req))))) (gen_TargetPath a)
          \<in> {[], gen_SHA256 a}) \<and>
     (req_Operation req = Uninstall \<longrightarrow>
        req_SubjectInstance req \<notin> obm_InstanceID ` set (obs_Modules (req_Observed req)))"
proof -
  let ?os = "obs_Modules (req_Observed req)"
  have mods: "(\<forall>m\<in>set mods. diff_module links ?os m = []) \<longleftrightarrow>
      (\<forall>m\<in>set mods. \<exists>o'\<in>set ?os. module_matches links m o')"
    using assms diff_module_Nil_iff by blast
  have arts: "diff_artifact observed a = [] \<longleftrightarrow> map_get observed (gen_TargetPath a) \<in> {[], gen_SHA256 a}" for observed a
    by (simp add: diff_artifact_def Let_def)
  have removed: "find (\<lambda>o'. obm_InstanceID o' = req_SubjectInstance req) ?os = None \<longleftrightarrow>
      req_SubjectInstance req \<notin> obm_InstanceID ` set ?os"
    unfolding find_None_iff image_iff by metis
  show ?thesis
    unfolding diff_state_def Let_def sort_key_Nil_iff append_is_Nil_conv concat_eq_Nil_conv
    using mods removed
    by (cases "find (\<lambda>o'. obm_InstanceID o' = req_SubjectInstance req) ?os") (auto simp: arts)
qed

subsection \<open>On the sample deployment\<close>

definition sample_observed_db :: observed_module where
  "sample_observed_db =
     \<lparr>obm_InstanceID = ''db1'', obm_ModuleID = ''db'', obm_PackageID = ''db_pkg'', obm_Version = ''1.2.0'',
      obm_PackageSHA256 = sample_sha, obm_ImageDigests = [(''postgres'', sample_digest)],
      obm_ArtifactSHA256 = [(''/var/lib/vpsmith/generated/core/Caddyfile'', sample_sha)],
      obm_RuntimeObjects = [''network:vpsmith-db1-back'', ''container:vpsmith-db1-app'', ''unit:vpsmith-db1-app.service'']\<rparr>"

definition sample_request :: "operation_kind \<Rightarrow> request" where
  "sample_request op =
     \<lparr>req_Operation = op, req_TargetID = ''target_1'', req_SubjectInstance = ''db1'', req_DesiredModules = [db_desired],
      req_Observed = \<lparr>obs_TargetID = ''target_1'', obs_CoreID = '''', obs_Modules = [sample_observed_db],
        obs_Networks = [], obs_Claims = []\<rparr>,
      req_CoreContract = ''2'',
      req_CoreSource = \<lparr>src_Kind = '''', src_ID = '''', src_Version = '''', src_GitCommit = '''', src_PackageSHA256 = ''''\<rparr>,
      req_BackupRequired = False, req_SubjectSource = None, req_SubjectSecretIDs = []\<rparr>"

theorem diff_state_Nil_iff_witness:
  "diff_state (sample_request Validate) [db_compiled] [] [] = []"
proof -
  have objects: "runtime_objects db_compiled [] =
      [''container:vpsmith-db1-app'', ''network:vpsmith-db1-back'', ''unit:vpsmith-db1-app.service'']"
    by code_simp
  have "module_matches [] db_compiled sample_observed_db"
    unfolding module_matches_def objects by (auto simp: sample_observed_db_def sample_defs map_get_def)
  then show ?thesis
    by (subst diff_state_Nil_iff) (simp_all add: sample_request_def objects)
qed

end
