(* ===== verification/Deploy_Artifacts.thy ===== *)
theory Deploy_Artifacts
  imports Deploy_State
begin

section \<open>Generated artifacts\<close>

text \<open>
  \<open>internal/deployment/generator_quadlet.go\<close>, \<open>generator_edge.go\<close> and \<open>generator_inventory.go\<close>:
  the files a deployment puts on the target, as the exact bytes the source writes.
\<close>

abbreviation nl :: bytes where "nl \<equiv> [CHR 0x0A]"
abbreviation tab :: bytes where "tab \<equiv> [CHR 0x09]"

abbreviation mode_0444 :: int where "mode_0444 \<equiv> 292"

definition line :: "bytes \<Rightarrow> bytes" where
  "line s = s @ nl"

definition lines_text :: "bytes list \<Rightarrow> bytes" where
  "lines_text ls = concat (map line ls)"

definition mk_artifact :: "bytes \<Rightarrow> bytes \<Rightarrow> int \<Rightarrow> bytes \<Rightarrow> generated_artifact" where
  "mk_artifact p target mode data =
     \<lparr>gen_Path = p, gen_TargetPath = target, gen_Mode = mode, gen_Data = data,
      gen_SHA256 = hex_encode (sha256 data)\<rparr>"

subsection \<open>Quadlet units\<close>

definition storage_path :: "compiled_module \<Rightarrow> bytes \<Rightarrow> bytes" where
  "storage_path m i =
     (case find (\<lambda>s. sto_ID s = i) (mod_Persistent (cmp_Contract m)) of Some s \<Rightarrow> sto_Path s | None \<Rightarrow> [])"

definition image_ref :: "compiled_module \<Rightarrow> bytes \<Rightarrow> bytes" where
  "image_ref m i =
     (case map_of (mod_Images (cmp_Contract m)) i of Some img \<Rightarrow> img_Ref img | None \<Rightarrow> [])"

text \<open>\<open>linkByParticipant\<close>: a link is listed under its provider and under its consumer.\<close>

definition links_at :: "link_network list \<Rightarrow> bytes \<Rightarrow> link_network list" where
  "links_at links p =
     concat (map (\<lambda>l. (if lnk_Provider l = p then [l] else []) @ (if lnk_Consumer l = p then [l] else [])) links)"

definition secret_lines :: "compiled_module \<Rightarrow> bytes \<Rightarrow> bytes list" where
  "secret_lines m cid =
     concat (map (\<lambda>s. concat (map (\<lambda>target.
        if target \<noteq> cid then []
        else
          (let sid = map_get (des_SecretIDs (cmp_Desired m)) (sec_ID s) in
           if sec_Delivery s = ''environment''
           then [''EnvironmentFile=/var/lib/vpsmith/secrets/'' @ cmp_Instance m @ ''/'' @ sid @ ''.env'']
           else [''Volume=/var/lib/vpsmith/secrets/'' @ cmp_Instance m @ ''/'' @ sid @ '':'' @ sec_Path s @ '':ro'']))
        (sec_Containers s))) (mod_Secrets (cmp_Contract m)))"

definition container_text :: "compiled_module \<Rightarrow> container \<Rightarrow> link_network list \<Rightarrow> bytes" where
  "container_text m c links =
     (let here = cmp_Instance m @ ''/'' @ ctr_ID c in
      lines_text
       ([''[Unit]'', ''Description=VPSmith '' @ cmp_Instance m @ '' '' @ ctr_ID c, [], ''[Container]'',
         ''Image='' @ image_ref m (ctr_Image c) @ ''@'' @ map_get (cmp_Images m) (ctr_Image c),
         ''ContainerName='' @ module_prefix m @ ''-'' @ ctr_ID c, ''UserNS=nomap'',
         ''User='' @ decimal_int (ctr_User c), ''DropCapability=ALL'']
        @ map (\<lambda>k. ''AddCapability='' @ k) (ctr_Capabilities c)
        @ map (\<lambda>n. ''Network='' @ module_prefix m @ ''-'' @ n @ ''.network'') (ctr_Networks c)
        @ concat (map (\<lambda>l. [''Network='' @ lnk_Name l @ ''.network'']
             @ (if lnk_Provider l = here then [''NetworkAlias='' @ lnk_Alias l] else [])) (links_at links here))
        @ map (\<lambda>t. ''Volume='' @ storage_path m (mnt_StorageID t) @ '':'' @ mnt_Target t
             @ (if mnt_ReadOnly t then '':ro'' else [])) (ctr_Mounts c)
        @ map (\<lambda>k. ''Environment='' @ k @ ''='' @ map_get (ctr_Environment c) k) (sort (map fst (ctr_Environment c)))
        @ secret_lines m (ctr_ID c)
        @ [''PidsLimit='' @ decimal_int (res_PIDsLimit (cmp_Effective m)), [], ''[Service]'',
           ''MemoryMax='' @ decimal_int (res_MemoryBytes (cmp_Effective m)),
           ''CPUQuota='' @ decimal_int (res_CPUQuota (cmp_Effective m)) @ ''%'',
           ''TasksMax='' @ decimal_int (res_TasksMax (cmp_Effective m))]))"

text \<open>
  \<open>generateContainer\<close> looks the container up by its identifier and falls back to the first one;
  it is only called with the identifier of a container of the module.
\<close>

definition generate_container :: "compiled_module \<Rightarrow> bytes \<Rightarrow> link_network list \<Rightarrow> bytes" where
  "generate_container m cid links =
     (case find (\<lambda>c. ctr_ID c = cid) (mod_Containers (cmp_Contract m)) of
        Some c \<Rightarrow> container_text m c links
      | None \<Rightarrow> container_text m (hd (mod_Containers (cmp_Contract m))) links)"

definition network_text :: "network \<Rightarrow> bytes" where
  "network_text n =
     lines_text
       [''[Network]'', ''Internal='' @ (if net_Role n \<noteq> ''edge'' \<and> net_Role n \<noteq> ''egress'' then ''true'' else ''false''),
        ''Label=vpsmith.managed=true'', ''Label=vpsmith.role='' @ net_Role n]"

definition link_network_text :: "link_network \<Rightarrow> bytes" where
  "link_network_text l =
     lines_text [''[Network]'', ''Internal=true'', ''Subnet='' @ lnk_Subnet l,
       ''Label=vpsmith.relationship='' @ lnk_Relationship l]"

definition quadlet_artifact :: "bytes \<Rightarrow> bytes \<Rightarrow> generated_artifact" where
  "quadlet_artifact name data =
     mk_artifact (''artifacts/quadlet/'' @ name) (''/var/lib/vpsmith/generated/quadlet/'' @ name) mode_0444 data"

subsection \<open>Reverse proxy and access control\<close>

definition caddy_route :: "compiled_module \<Rightarrow> public_route \<Rightarrow> bytes" where
  "caddy_route m r =
     (let sub = rte_PathPrefix r \<noteq> ''/''; indent = (if sub then tab @ tab else tab) in
      (rte_Hostname r @ '' {'' @ nl)
      @ (if sub then tab @ ''handle_path '' @ rte_PathPrefix r @ ''* {'' @ nl else [])
      @ (if aut_Mode (rte_Authelia r) = ''protected'' then
           indent @ ''forward_auth authelia:9091 {'' @ nl
           @ indent @ tab @ ''copy_headers Remote-User Remote-Groups Remote-Email Remote-Name'' @ nl
           @ indent @ ''}'' @ nl else [])
      @ indent @ ''reverse_proxy vpsmith-'' @ cmp_Instance m @ ''-'' @ rte_Container r @ '':'' @ decimal_int (rte_Port r) @ nl
      @ (if sub then tab @ ''}'' @ nl else [])
      @ ''}'' @ nl @ nl)"

definition generate_caddy :: "compiled_module list \<Rightarrow> bytes" where
  "generate_caddy mods =
     ''{'' @ nl @ tab @ ''admin off'' @ nl @ ''}'' @ nl @ nl
     @ concat (map (\<lambda>m. concat (map (caddy_route m) (mod_PublicRoutes (cmp_Contract m)))) mods)"

definition quoted_bytes :: bytes where
  "quoted_bytes = ''.+?()[]{}^$|''"

definition regexp_quote :: "bytes \<Rightarrow> bytes" where
  "regexp_quote v = concat (map (\<lambda>c. if c \<in> set quoted_bytes then [backslash, c] else [c]) v)"

definition authelia_rule :: "public_route \<Rightarrow> bytes list" where
  "authelia_rule r =
     [''    - domain: '' @ rte_Hostname r,
      ''      policy: '' @ (if aut_Mode (rte_Authelia r) = ''protected'' then ''two_factor'' else ''bypass'')]
     @ (if rte_PathPrefix r \<noteq> ''/''
        then [''      resources:'', ''        - '' @ [CHR 0x27] @ ''^'' @ regexp_quote (rte_PathPrefix r) @ ''.*$'' @ [CHR 0x27]]
        else [])
     @ (if aut_Users (rte_Authelia r) \<noteq> [] \<or> aut_Groups (rte_Authelia r) \<noteq> []
        then [''      subject:'']
          @ map (\<lambda>u. ''        - '' @ [CHR 0x27] @ ''user:'' @ u @ [CHR 0x27]) (aut_Users (rte_Authelia r))
          @ map (\<lambda>g. ''        - '' @ [CHR 0x27] @ ''group:'' @ g @ [CHR 0x27]) (aut_Groups (rte_Authelia r))
        else [])"

definition generate_authelia :: "compiled_module list \<Rightarrow> bytes" where
  "generate_authelia mods =
     lines_text ([''access_control:'', ''  default_policy: deny'', ''  rules:'']
       @ concat (map (\<lambda>m. concat (map authelia_rule (mod_PublicRoutes (cmp_Contract m)))) mods))"

definition edge_networks :: "compiled_module \<Rightarrow> bytes list" where
  "edge_networks m =
     concat (map (\<lambda>c.
       if ctr_ID c \<in> rte_Container ` set (mod_PublicRoutes (cmp_Contract m))
       then concat (map (\<lambda>nid. map (\<lambda>n. ''vpsmith-'' @ cmp_Instance m @ ''-'' @ net_ID n @ ''.network'')
              (filter (\<lambda>n. net_ID n = nid \<and> net_Role n = ''edge'') (mod_Networks (cmp_Contract m)))) (ctr_Networks c))
       else []) (mod_Containers (cmp_Contract m)))"

definition generate_caddy_networks :: "compiled_module list \<Rightarrow> bytes" where
  "generate_caddy_networks mods =
     lines_text (''[Container]'' # map (\<lambda>v. ''Network='' @ v) (sort (remdups (concat (map edge_networks mods)))))"

subsection \<open>Inventories\<close>

definition quadlet_target :: "bytes \<Rightarrow> bytes" where
  "quadlet_target name = ''/var/lib/vpsmith/generated/quadlet/'' @ name"

definition omit_zero :: "bytes \<Rightarrow> int \<Rightarrow> (bytes \<times> json) list" where
  "omit_zero k i = (if i = 0 then [] else [(k, JInt i)])"

definition healthcheck_json :: "healthcheck \<Rightarrow> json" where
  "healthcheck_json h =
     JObj ([(''type'', JStr (hc_Type h)), (''container'', JStr (hc_Container h))]
       @ omit_empty ''url'' (hc_URL h) @ omit_zero ''port'' (hc_Port h)
       @ (if hc_Command h = [] then [] else [(''command'', j_strings (hc_Command h))]))"

definition container_names :: "compiled_module \<Rightarrow> bytes list" where
  "container_names m = map (\<lambda>c. module_prefix m @ ''-'' @ ctr_ID c) (mod_Containers (cmp_Contract m))"

definition network_names :: "link_network list \<Rightarrow> compiled_module \<Rightarrow> bytes list" where
  "network_names links m =
     map (\<lambda>n. module_prefix m @ ''-'' @ net_ID n) (mod_Networks (cmp_Contract m))
     @ map lnk_Name (filter (participates m) links)"

definition managed_artifacts :: "link_network list \<Rightarrow> compiled_module \<Rightarrow> bytes list" where
  "managed_artifacts links m =
     map (\<lambda>n. quadlet_target (n @ ''.container'')) (container_names m)
     @ map (\<lambda>n. quadlet_target (n @ ''.network'')) (network_names links m)
     @ [''/var/lib/vpsmith/generated/core/Caddyfile'',
        ''/var/lib/vpsmith/generated/core/authelia-access-control.yml'']"

definition inventory_module :: "link_network list \<Rightarrow> compiled_module \<Rightarrow> json" where
  "inventory_module links m =
     JObj
       [(''instance_id'', JStr (cmp_Instance m)), (''module_id'', JStr (mod_ID (cmp_Contract m))),
        (''package_id'', JStr (fsr_PackageID (des_Source (cmp_Desired m)))),
        (''version'', JStr (mod_Version (cmp_Contract m))),
        (''package_sha256'', JStr (fsr_PackageSHA256 (des_Source (cmp_Desired m)))),
        (''image_digests'', j_map (cmp_Images m)),
        (''units'', j_slice (\<lambda>n. JObj [(''name'', JStr (n @ ''.service'')), (''scope'', JStr ''user'')]) (container_names m)),
        (''containers'', j_slice JStr (sort (container_names m))),
        (''networks'', j_slice JStr (sort (network_names links m))),
        (''managed_artifacts'', j_slice JStr (sort (managed_artifacts links m))),
        (''healthcheck'', healthcheck_json (mod_Healthcheck (cmp_Contract m)))]"

definition generate_inventory :: "compiled_module list \<Rightarrow> link_network list \<Rightarrow> bytes" where
  "generate_inventory mods links =
     json_encode (JObj [(''modules'', j_slice (inventory_module links) mods)]) @ nl"

definition link_json :: "link_network \<Rightarrow> json" where
  "link_json l =
     JObj [(''relationship'', JStr (lnk_Relationship l)), (''name'', JStr (lnk_Name l)), (''subnet'', JStr (lnk_Subnet l)),
           (''alias'', JStr (lnk_Alias l)), (''provider'', JStr (lnk_Provider l)), (''consumer'', JStr (lnk_Consumer l))]"

definition generate_link_inventory :: "link_network list \<Rightarrow> bytes" where
  "generate_link_inventory links =
     json_encode (JObj [(''networks'', j_slice link_json links)]) @ nl"

subsection \<open>All artifacts\<close>

definition module_artifacts :: "link_network list \<Rightarrow> compiled_module \<Rightarrow> generated_artifact list" where
  "module_artifacts links m =
     map (\<lambda>n. quadlet_artifact (module_prefix m @ ''-'' @ net_ID n @ ''.network'') (network_text n))
       (mod_Networks (cmp_Contract m))
     @ map (\<lambda>c. quadlet_artifact (module_prefix m @ ''-'' @ ctr_ID c @ ''.container'') (generate_container m (ctr_ID c) links))
       (mod_Containers (cmp_Contract m))"

definition core_artifact :: "bytes \<Rightarrow> bytes \<Rightarrow> generated_artifact" where
  "core_artifact name data =
     mk_artifact (''artifacts/core/'' @ name) (''/var/lib/vpsmith/generated/core/'' @ name) mode_0444 data"

definition inventory_artifact :: "bytes \<Rightarrow> bytes \<Rightarrow> generated_artifact" where
  "inventory_artifact name data =
     mk_artifact (''artifacts/inventory/'' @ name) (''/var/lib/vpsmith/inventory/'' @ name) mode_0444 data"

definition generate_artifacts :: "compiled_module list \<Rightarrow> link_network list \<Rightarrow> generated_artifact list" where
  "generate_artifacts mods links =
     sort_key gen_Path
       (concat (map (module_artifacts links) mods)
        @ map (\<lambda>l. quadlet_artifact (lnk_Name l @ ''.network'') (link_network_text l)) links
        @ [core_artifact ''Caddyfile'' (generate_caddy mods),
           core_artifact ''caddy-networks.conf'' (generate_caddy_networks mods),
           core_artifact ''authelia-access-control.yml'' (generate_authelia mods),
           inventory_artifact ''modules.json'' (generate_inventory mods links),
           inventory_artifact ''link-networks.json'' (generate_link_inventory links)])"

subsection \<open>Paths of the artifacts\<close>

text \<open>The names of the Quadlet files, in the order in which they are generated.\<close>

definition module_files :: "compiled_module \<Rightarrow> bytes list" where
  "module_files m =
     map (\<lambda>n. module_prefix m @ ''-'' @ net_ID n @ ''.network'') (mod_Networks (cmp_Contract m))
     @ map (\<lambda>c. module_prefix m @ ''-'' @ ctr_ID c @ ''.container'') (mod_Containers (cmp_Contract m))"

definition quadlet_files :: "compiled_module list \<Rightarrow> link_network list \<Rightarrow> bytes list" where
  "quadlet_files mods links = concat (map module_files mods) @ map (\<lambda>l. lnk_Name l @ ''.network'') links"

definition fixed_files :: "(bytes \<times> bytes) list" where
  "fixed_files =
     map (\<lambda>n. (''artifacts/core/'' @ n, ''/var/lib/vpsmith/generated/core/'' @ n))
       [''Caddyfile'', ''caddy-networks.conf'', ''authelia-access-control.yml'']
     @ map (\<lambda>n. (''artifacts/inventory/'' @ n, ''/var/lib/vpsmith/inventory/'' @ n))
       [''modules.json'', ''link-networks.json'']"

lemma artifact_fields [simp]:
  "gen_Path (mk_artifact p t md d) = p" "gen_TargetPath (mk_artifact p t md d) = t"
  "gen_Mode (mk_artifact p t md d) = md" "gen_Data (mk_artifact p t md d) = d"
  "gen_SHA256 (mk_artifact p t md d) = hex_encode (sha256 d)"
  by (simp_all add: mk_artifact_def)

definition artifact_place :: "generated_artifact \<Rightarrow> bytes \<times> bytes" where
  "artifact_place a = (gen_Path a, gen_TargetPath a)"

definition quadlet_place :: "bytes \<Rightarrow> bytes \<times> bytes" where
  "quadlet_place n = (''artifacts/quadlet/'' @ n, quadlet_target n)"

lemma place_of_artifacts:
  "artifact_place (quadlet_artifact n d) = quadlet_place n"
  "artifact_place (core_artifact n d) = (''artifacts/core/'' @ n, ''/var/lib/vpsmith/generated/core/'' @ n)"
  "artifact_place (inventory_artifact n d) = (''artifacts/inventory/'' @ n, ''/var/lib/vpsmith/inventory/'' @ n)"
  by (simp_all add: artifact_place_def quadlet_place_def quadlet_artifact_def quadlet_target_def
      core_artifact_def inventory_artifact_def)

lemma mset_map_sort_key: "mset (map f (sort_key k xs)) = mset (map f xs)"
  by (metis mset_map mset_sort)

lemma generate_artifacts_places:
  "mset (map artifact_place (generate_artifacts mods links)) =
     mset (map quadlet_place (quadlet_files mods links) @ fixed_files)"
proof -
  have modules: "map artifact_place (concat (map (module_artifacts links) mods)) =
      map quadlet_place (concat (map module_files mods))" for mods
    by (induction mods) (simp_all only: list.map concat.simps map_append module_artifacts_def module_files_def
        map_map comp_def place_of_artifacts append_assoc)
  have "map artifact_place
      [core_artifact ''Caddyfile'' a, core_artifact ''caddy-networks.conf'' b,
       core_artifact ''authelia-access-control.yml'' c, inventory_artifact ''modules.json'' d,
       inventory_artifact ''link-networks.json'' e] = fixed_files" for a b c d e
    by (simp only: list.map place_of_artifacts fixed_files_def append_Cons append_Nil)
  then show ?thesis
    unfolding generate_artifacts_def mset_map_sort_key quadlet_files_def map_append modules
    by (simp only: map_map comp_def place_of_artifacts append_assoc)
qed

lemma distinct_concat_map:
  "distinct xs \<Longrightarrow> (\<And>x. x \<in> set xs \<Longrightarrow> distinct (f x)) \<Longrightarrow>
   (\<And>x y. x \<in> set xs \<Longrightarrow> y \<in> set xs \<Longrightarrow> x \<noteq> y \<Longrightarrow> set (f x) \<inter> set (f y) = {}) \<Longrightarrow>
   distinct (concat (map f xs))"
proof (induction xs)
  case (Cons x xs)
  have "set (f x) \<inter> set (f y) = {}" if "y \<in> set xs" for y
    using Cons.prems(1) that by (intro Cons.prems(3)) auto
  moreover have "distinct (concat (map f xs))" using Cons by simp
  ultimately show ?case using Cons.prems(2) by (auto simp: disjoint_iff)
qed simp

lemma file_kinds: "x @ ''.network'' \<noteq> y @ ''.container''"
proof
  assume "x @ ''.network'' = y @ ''.container''"
  then have "last (x @ ''.network'') = last (y @ ''.container'')" by (rule arg_cong)
  then show False by simp
qed

lemma module_files_iff:
  "n \<in> set (module_files m) \<longleftrightarrow>
     (\<exists>v. mk_claim ''network'' v (cmp_Instance m) \<in> set (module_claims m) \<and> n = v @ ''.network'') \<or>
     (\<exists>v. mk_claim ''container'' v (cmp_Instance m) \<in> set (module_claims m) \<and> n = v @ ''.container'')"
  unfolding module_files_def module_claims_def by (auto simp: mk_claim_def image_iff)

lemma module_files_distinct:
  assumes "module_contract pu (cmp_Contract m)"
  shows "distinct (module_files m)"
proof -
  have "distinct (map net_ID (mod_Networks (cmp_Contract m)))" "distinct (map ctr_ID (mod_Containers (cmp_Contract m)))"
    using assms by (simp_all add: module_contract_def networks_contract_def containers_contract_def)
  then have "distinct (map (\<lambda>i. module_prefix m @ ''-'' @ i @ ''.network'') (map net_ID (mod_Networks (cmp_Contract m))))"
    "distinct (map (\<lambda>i. module_prefix m @ ''-'' @ i @ ''.container'') (map ctr_ID (mod_Containers (cmp_Contract m))))"
    by (auto simp only: distinct_map intro!: inj_onI dest!: same_append_eq [THEN iffD1] append_same_eq [THEN iffD1])
  moreover have "(p @ ''-'' @ i @ ''.network'') \<noteq> (p @ ''-'' @ j @ ''.container'')" for p i j
    using file_kinds [of "p @ ''-'' @ i" "p @ ''-'' @ j"] by simp
  ultimately show ?thesis unfolding module_files_def distinct_append by (auto simp: comp_def)
qed

text \<open>
  The owners of a deployment: the modules and the relationships of the links, apart from the
  prefix that marks an observed owner.
\<close>

definition owners_distinct :: "compiled_module list \<Rightarrow> link_network list \<Rightarrow> bool" where
  "owners_distinct mods links = distinct (map logical_owner (map cmp_Instance mods @ map lnk_Relationship links))"

lemma link_claims_in: "l \<in> set links \<Longrightarrow> c \<in> set (link_claims l) \<Longrightarrow> c \<in> set (derive_claims mods links @ os)"
  by (auto simp: derive_claims_def)

lemma quadlet_files_distinct:
  assumes ok: "validate_claims mods links os = Inr ()"
    and contracts: "\<forall>m\<in>set mods. module_contract pu (cmp_Contract m)"
    and owners: "owners_distinct mods links"
  shows "distinct (quadlet_files mods links)"
proof -
  note pairs = ok [unfolded validate_claims_Inr_iff, THEN conjunct2]
  have dm: "distinct (map (logical_owner \<circ> cmp_Instance) mods)"
    and dl: "distinct (map (logical_owner \<circ> lnk_Relationship) links)"
    and disj: "\<And>m l. m \<in> set mods \<Longrightarrow> l \<in> set links \<Longrightarrow>
        logical_owner (cmp_Instance m) \<noteq> logical_owner (lnk_Relationship l)"
    using owners by (auto simp: owners_distinct_def)
  have mine: "c \<in> set (derive_claims mods links @ observed_claims os)" if "m \<in> set mods" "c \<in> set (module_claims m)" for m c
    using that by (rule module_claims_in)
  have link: "mk_claim ''network'' (lnk_Name l) (lnk_Relationship l) \<in> set (derive_claims mods links @ observed_claims os)"
    if "l \<in> set links" for l
    using that by (rule link_claims_in) (simp add: link_claims_def)
  have across: "set (module_files m) \<inter> set (module_files m') = {}"
    if m: "m \<in> set mods" "m' \<in> set mods" "m \<noteq> m'" for m m'
  proof -
    have "logical_owner (cmp_Instance m) \<noteq> logical_owner (cmp_Instance m')"
      using dm m by (auto simp: distinct_map inj_on_def)
    then have "False" if "mk_claim k v (cmp_Instance m) \<in> set (module_claims m)"
        "mk_claim k v (cmp_Instance m') \<in> set (module_claims m')" for k v
      using collisions_owner [OF pairs mine [OF m(1) that(1)] mine [OF m(2) that(2)]] by simp
    then show ?thesis unfolding disjoint_iff module_files_iff by (metis append_same_eq file_kinds)
  qed
  have links: "lnk_Name l @ ''.network'' \<notin> set (module_files m)" if "m \<in> set mods" "l \<in> set links" for m l
    unfolding module_files_iff using that collisions_owner [OF pairs mine link] disj
    by (metis append_same_eq file_kinds)
  have names: "distinct (map (\<lambda>l. lnk_Name l @ ''.network'') links)"
    unfolding distinct_map
  proof (intro conjI inj_onI)
    show "distinct links" using dl by (simp add: distinct_map)
  next
    fix l l' assume l: "l \<in> set links" "l' \<in> set links" "lnk_Name l @ ''.network'' = lnk_Name l' @ ''.network''"
    then have "lnk_Name l = lnk_Name l'" by simp
    then have "logical_owner (lnk_Relationship l) = logical_owner (lnk_Relationship l')"
      using collisions_owner [OF pairs link [OF l(1)]] link [OF l(2)] by simp
    then show "l = l'" using dl l by (auto simp: distinct_map inj_on_def)
  qed
  have "distinct (concat (map module_files mods))"
    using dm contracts module_files_distinct across by (intro distinct_concat_map) (auto simp: distinct_map)
  then show ?thesis
    using names links by (auto simp: quadlet_files_def)
qed

text \<open>
  C16: After a successful claim check the generated artifacts have pairwise different bundle
  paths and pairwise different target paths, so no file of a module or a link overwrites another.
\<close>

theorem artifact_paths_distinct:
  assumes "validate_claims mods links os = Inr ()"
    and "\<forall>m\<in>set mods. module_contract pu (cmp_Contract m)" and "owners_distinct mods links"
  shows "distinct (map gen_Path (generate_artifacts mods links)) \<and>
    distinct (map gen_TargetPath (generate_artifacts mods links))"
proof -
  let ?ps = "map quadlet_place (quadlet_files mods links) @ fixed_files"
  have q: "distinct (quadlet_files mods links)" by (rule quadlet_files_distinct [OF assms])
  have d: "distinct (map fst ?ps)" "distinct (map snd ?ps)"
    using q by (auto simp: distinct_map inj_on_def quadlet_place_def quadlet_target_def fixed_files_def)
  have same: "mset (map f (map artifact_place (generate_artifacts mods links))) = mset (map f ?ps)" for f :: "bytes \<times> bytes \<Rightarrow> bytes"
    by (metis generate_artifacts_places mset_map)
  have "distinct (map fst (map artifact_place (generate_artifacts mods links)))"
    "distinct (map snd (map artifact_place (generate_artifacts mods links)))"
    using d same by (metis mset_eq_imp_distinct_iff)+
  then show ?thesis by (simp add: comp_def artifact_place_def)
qed


lemma generated_targets:
  "gen_TargetPath ` set (generate_artifacts mods links) =
     quadlet_target ` set (quadlet_files mods links) \<union> snd ` set fixed_files"
proof -
  have "artifact_place ` set (generate_artifacts mods links) =
      quadlet_place ` set (quadlet_files mods links) \<union> set fixed_files"
    using generate_artifacts_places [of mods links] by (metis mset_eq_setD set_append set_map)
  then have "snd ` artifact_place ` set (generate_artifacts mods links) =
      snd ` (quadlet_place ` set (quadlet_files mods links) \<union> set fixed_files)" by simp
  then show ?thesis by (simp add: image_Un image_image artifact_place_def quadlet_place_def)
qed

text \<open>
  the inventory of a module agrees with what is deployed. Every managed artifact that it
  lists is the target of a generated artifact, and its containers, units and networks are the
  runtime objects that the state comparison expects of the module.
\<close>

theorem inventory_consistent:
  assumes "m \<in> set mods"
  shows "set (managed_artifacts links m) \<subseteq> gen_TargetPath ` set (generate_artifacts mods links) \<and>
    set (runtime_objects m links) =
      (\<lambda>n. ''container:'' @ n) ` set (container_names m) \<union>
      (\<lambda>n. ''unit:'' @ n @ ''.service'') ` set (container_names m) \<union>
      (\<lambda>n. ''network:'' @ n) ` set (network_names links m)"
proof
  have "n @ ''.container'' \<in> set (quadlet_files mods links)" if "n \<in> set (container_names m)" for n
    using assms that by (auto simp: quadlet_files_def module_files_def container_names_def intro!: bexI [of _ m])
  moreover have "n @ ''.network'' \<in> set (quadlet_files mods links)" if "n \<in> set (network_names links m)" for n
    using assms that
    by (auto simp: quadlet_files_def module_files_def network_names_def intro!: bexI [of _ m])
  moreover have "''/var/lib/vpsmith/generated/core/Caddyfile'' \<in> snd ` set fixed_files"
    "''/var/lib/vpsmith/generated/core/authelia-access-control.yml'' \<in> snd ` set fixed_files"
    by (simp_all add: fixed_files_def)
  ultimately show "set (managed_artifacts links m) \<subseteq> gen_TargetPath ` set (generate_artifacts mods links)"
    unfolding generated_targets managed_artifacts_def by auto
  show "set (runtime_objects m links) =
      (\<lambda>n. ''container:'' @ n) ` set (container_names m) \<union>
      (\<lambda>n. ''unit:'' @ n @ ''.service'') ` set (container_names m) \<union>
      (\<lambda>n. ''network:'' @ n) ` set (network_names links m)"
    unfolding runtime_objects_def container_names_def network_names_def by (auto simp: image_iff)
qed

subsection \<open>On the sample deployment\<close>

lemma sample_contracts:
  "module_contract sample_url (cmp_Contract db_compiled)" "module_contract sample_url (cmp_Contract web_compiled)"
  using compiled_module_contract [OF compile_samples(1)] compiled_module_contract [OF compile_samples(2)]
  by (simp_all add: db_compiled_def web_compiled_def)

lemma sample_claims_ok: "validate_claims [db_compiled, web_compiled] [sample_link] [] = Inr ()"
proof -
  have "sorted_wrt (\<lambda>a b. \<not> claims_collide a b) (derive_claims [db_compiled, web_compiled] [sample_link])"
    by (simp add: derive_claims_def module_claims_def link_claims_def claims_collide_def mk_claim_def
        module_prefix_def sample_link_def link_name_def sample_defs)
  then show ?thesis by (simp add: validate_claims_Inr_iff observed_claims_def)
qed

lemma sample_owners: "owners_distinct [db_compiled, web_compiled] [sample_link]"
proof -
  have "map cmp_Instance [db_compiled, web_compiled] @ map lnk_Relationship [sample_link] =
      [''db1'', ''web1'', ''db1/sql->web1/app'']"
    by (simp add: sample_link_def sample_relationship_def sample_defs)
  moreover have "distinct (map logical_owner [''db1'', ''web1'', ''db1/sql->web1/app''])" by code_simp
  ultimately show ?thesis by (simp only: owners_distinct_def)
qed

theorem artifact_paths_distinct_witness:
  "distinct (map gen_Path (generate_artifacts [db_compiled, web_compiled] [sample_link]))"
  using artifact_paths_distinct [OF sample_claims_ok _ sample_owners, of sample_url] sample_contracts by simp

theorem inventory_consistent_witness:
  "''/var/lib/vpsmith/generated/quadlet/vpsmith-db1-app.container''
     \<in> gen_TargetPath ` set (generate_artifacts [db_compiled, web_compiled] [sample_link])"
proof -
  have "''/var/lib/vpsmith/generated/quadlet/vpsmith-db1-app.container'' \<in> set (managed_artifacts [sample_link] db_compiled)"
    by (simp add: managed_artifacts_def container_names_def quadlet_target_def module_prefix_def sample_defs)
  then show ?thesis
    using inventory_consistent [of db_compiled "[db_compiled, web_compiled]" "[sample_link]"] by auto
qed

text \<open>
  The unit files are written line by line from strings of the package. The contract asks of a
  capability only that it is not blank, so a line break in it starts a line of its own.
\<close>

definition sample_injecting :: module_t where
  "sample_injecting =
     (module_of_raw sample_db)\<lparr>mod_Containers :=
        map (\<lambda>c. c\<lparr>ctr_Capabilities := [''CHOWN'' @ nl @ ''PodmanArgs=--privileged'']\<rparr>)
          (mod_Containers (module_of_raw sample_db))\<rparr>"

text \<open>
  a package whose capability contains a line break satisfies the whole contract, and the
  generated unit file of its container has the injected text as a line of its own.
\<close>

theorem capability_line_injection:
  "validate_module sample_url sample_injecting = Inr () \<and>
   (\<exists>before after. generate_container (db_compiled\<lparr>cmp_Contract := sample_injecting\<rparr>) ''app'' [] =
      before @ nl @ ''PodmanArgs=--privileged'' @ nl @ after)"
proof
  show "validate_module sample_url sample_injecting = Inr ()" by code_simp
  have c: "find (\<lambda>c. ctr_ID c = ''app'') (mod_Containers sample_injecting) =
      Some (hd (mod_Containers sample_injecting))" (is "_ = Some ?c")
    by (simp add: sample_injecting_def module_of_raw_def sample_db_def)
  have caps: "ctr_Capabilities ?c = [''CHOWN'' @ nl @ ''PodmanArgs=--privileged'']"
    by (simp add: sample_injecting_def module_of_raw_def sample_db_def)
  have split: "\<exists>before after. lines_text (xs @ [''AddCapability='' @ a @ nl @ b] @ ys) = before @ nl @ b @ nl @ after"
    for xs ys a b
  proof -
    have "lines_text (xs @ [''AddCapability='' @ a @ nl @ b] @ ys) =
        (lines_text xs @ ''AddCapability='' @ a) @ nl @ b @ nl @ lines_text ys"
      by (simp add: lines_text_def line_def)
    then show ?thesis by blast
  qed
  have text_of: "\<exists>xs ys. container_text m' c' ls = lines_text (xs @ map (\<lambda>k. ''AddCapability='' @ k) (ctr_Capabilities c') @ ys)"
    for m' c' ls
    unfolding container_text_def Let_def by (intro exI) (rule refl)
  have "cmp_Contract (db_compiled\<lparr>cmp_Contract := sample_injecting\<rparr>) = sample_injecting" by simp
  then have "\<exists>xs ys. generate_container (db_compiled\<lparr>cmp_Contract := sample_injecting\<rparr>) ''app'' [] =
      lines_text (xs @ [''AddCapability='' @ (''CHOWN'' @ nl @ ''PodmanArgs=--privileged'')] @ ys)"
    unfolding generate_container_def
    using text_of [of "db_compiled\<lparr>cmp_Contract := sample_injecting\<rparr>" ?c "[]"] by (simp only: c option.case caps list.map)
  then show "\<exists>before after. generate_container (db_compiled\<lparr>cmp_Contract := sample_injecting\<rparr>) ''app'' [] =
      before @ nl @ ''PodmanArgs=--privileged'' @ nl @ after"
    using split by metis
qed


end
