(* ===== verification/Deploy_Plan.thy ===== *)
theory Deploy_Plan
  imports Deploy_Artifacts
begin

section \<open>Requests, plans and identities\<close>

text \<open>
  \<open>internal/deployment/validation.go\<close>, \<open>transitions.go\<close>, \<open>plan.go\<close>, \<open>action_scope.go\<close>,
  \<open>freeze.go\<close> and the helpers of \<open>helpers.go\<close>: what a request must satisfy, the steps of its
  plan, and the identities that the bundle freezes.
\<close>

abbreviation mode_0555 :: int where "mode_0555 \<equiv> 365"

subsection \<open>Validation of a request\<close>

definition validate_request :: "request \<Rightarrow> unit result" where
  "validate_request req =
     checks
       [reject_if (case req_Operation req of Other_Op _ \<Rightarrow> True | _ \<Rightarrow> False) (Err ''unsupported operation''),
        reject_if (trim_space (req_TargetID req) = []) (Err ''target id is required''),
        reject_if (trim_space (req_SubjectInstance req) = []) (Err ''subject module instance is required''),
        reject_if (obs_TargetID (req_Observed req) \<noteq> [] \<and> obs_TargetID (req_Observed req) \<noteq> req_TargetID req)
          (Err ''observed state belongs to different target''),
        bind_r
          (each_unique
            (\<lambda>m. reject_if (des_InstanceID m = [] \<or>
                    fsr_InstanceID (des_Source m) \<noteq> [] \<and> fsr_InstanceID (des_Source m) \<noteq> des_InstanceID m)
               (Err ''desired module identity is inconsistent''))
            des_InstanceID (\<lambda>m. Errf ''duplicate desired module instance %s'' [des_InstanceID m])
            (\<lambda>m. Inr ()) {} (req_DesiredModules req)) (\<lambda>_. Inr ())]"

definition find_instance :: "bytes \<Rightarrow> compiled_module list \<Rightarrow> compiled_module option" where
  "find_instance i mods = find (\<lambda>m. cmp_Instance m = i) mods"

definition validate_subject :: "request \<Rightarrow> compiled_module list \<Rightarrow> unit result" where
  "validate_subject req mods =
     (if req_Operation req = Uninstall then Inr ()
      else if find_instance (req_SubjectInstance req) mods \<noteq> None then Inr ()
      else Inl (Errf ''subject module %s is absent from desired state'' [req_SubjectInstance req]))"

definition validate_secret_bindings :: "module_t \<Rightarrow> bytes go_map \<Rightarrow> unit result" where
  "validate_secret_bindings m bindings =
     also_r
       (for_each (\<lambda>s. reject_if (trim_space (map_get bindings (sec_ID s)) = [])
          (Errf ''secret %s has no stable SecretID binding'' [sec_ID s])) (mod_Secrets m))
       (for_each (\<lambda>(i, _). reject_if (i \<notin> sec_ID ` set (mod_Secrets m))
          (Errf ''secret binding %s is not declared by module'' [i])) bindings)"

definition merge_resources :: "resources \<Rightarrow> resource_override \<Rightarrow> resources" where
  "merge_resources base o' =
     \<lparr>res_MemoryBytes = if ovr_MemoryBytes o' > 0 then ovr_MemoryBytes o' else res_MemoryBytes base,
      res_CPUQuota = if ovr_CPUQuota o' > 0 then ovr_CPUQuota o' else res_CPUQuota base,
      res_PIDsLimit = if ovr_PIDsLimit o' > 0 then ovr_PIDsLimit o' else res_PIDsLimit base,
      res_TasksMax = if ovr_TasksMax o' > 0 then ovr_TasksMax o' else res_TasksMax base\<rparr>"

definition valid_digest :: "bytes \<Rightarrow> bool" where
  "valid_digest v =
     (has_prefix v ''sha256:'' \<and> length v = 71 \<and> hex_decode (trim_prefix v ''sha256:'') \<noteq> None)"

subsection \<open>Transitions\<close>

definition observed_subject :: "request \<Rightarrow> observed_module option" where
  "observed_subject req =
     find (\<lambda>o'. obm_InstanceID o' = req_SubjectInstance req) (obs_Modules (req_Observed req))"

definition validate_provider_removal :: "request \<Rightarrow> compiled_module list \<Rightarrow> unit result" where
  "validate_provider_removal req mods =
     (let removed = (case observed_subject req of Some o' \<Rightarrow> obm_ModuleID o' | None \<Rightarrow> []) in
      if removed = [] then Inr ()
      else for_each (\<lambda>m. for_each (\<lambda>d. reject_if (dep_TargetModule d = removed)
             (Errf ''cannot uninstall provider %s: still required by %s'' [req_SubjectInstance req, cmp_Instance m]))
           (mod_Dependencies (cmp_Contract m))) mods)"

definition validate_update :: "request \<Rightarrow> compiled_module list \<Rightarrow> bytes list result" where
  "validate_update req mods =
     (if req_Operation req \<noteq> Update then Inr []
      else
        (case find_instance (req_SubjectInstance req) mods of
           None \<Rightarrow> Inl (Err ''update subject not in desired state'')
         | Some target \<Rightarrow>
             (let old = (case observed_subject req of Some o' \<Rightarrow> obm_Version o' | None \<Rightarrow> []) in
              if old = [] then Inl (Err ''installed exact module version is unknown'')
              else
                (case map_of (mod_UpdateFrom (cmp_Contract target)) old of
                   None \<Rightarrow> Inl (Errf ''target version %s has no direct update_from transition from %s''
                             [mod_Version (cmp_Contract target), old])
                 | Some transition \<Rightarrow> Inr (upd_Actions transition)))))"

subsection \<open>The plan\<close>

record plan_state =
  pst_Plan :: "plan_step list"
  pst_Steps :: "step list"
  pst_Files :: "bundle_file list"
  pst_IDs :: "bytes list"
  pst_Seen :: "bytes set"

definition action_step :: "bytes \<Rightarrow> bool \<Rightarrow> step" where
  "action_step i mutating =
     \<lparr>stp_ID = ''action:'' @ i, stp_Kind = ''action'', stp_Artifact = [], stp_Action = i, stp_Args = [],
      stp_Mutating = mutating\<rparr>"

definition append_action ::
  "request \<Rightarrow> compiled_module option \<Rightarrow> plan_state \<Rightarrow> bytes \<times> bool \<Rightarrow> plan_state result" where
  "append_action req target st a =
     (case a of (i, mutating) \<Rightarrow>
      (case target of
         None \<Rightarrow> Inl (Err ''subject module action requested without desired subject'')
       | Some m \<Rightarrow>
           (case map_of (mod_Actions (cmp_Contract m)) i of
              None \<Rightarrow> Inl (Errf ''unknown action %s'' [i])
            | Some rel \<Rightarrow>
                (let st' =
                   (if i \<in> pst_Seen st then st
                    else st\<lparr>pst_Files := pst_Files st @
                              [\<lparr>fil_Path = ''actions/'' @ req_SubjectInstance req @ ''/'' @ path_base rel,
                                fil_TargetPath = [], fil_Mode = mode_0555,
                                fil_Data = map_get (mod_ActionFiles (cmp_Contract m)) i\<rparr>],
                            pst_IDs := pst_IDs st @ [i], pst_Seen := insert i (pst_Seen st)\<rparr>)
                 in Inr (st'\<lparr>pst_Plan := pst_Plan st' @
                           [\<lparr>pls_ID = ''action:'' @ i, pls_Description = ''Run registered action '' @ i,
                             pls_Mutating = mutating\<rparr>],
                         pst_Steps := pst_Steps st' @ [action_step i mutating]\<rparr>)))))"

definition apply_plan_step :: "generated_artifact \<Rightarrow> plan_step" where
  "apply_plan_step a =
     \<lparr>pls_ID = ''apply:'' @ gen_Path a, pls_Description = ''Generate and apply '' @ gen_Path a, pls_Mutating = True\<rparr>"

definition apply_step :: "generated_artifact \<Rightarrow> step" where
  "apply_step a =
     \<lparr>stp_ID = ''apply:'' @ gen_Path a, stp_Kind = ''apply-artifact'', stp_Artifact = gen_Path a, stp_Action = [],
      stp_Args = [], stp_Mutating = True\<rparr>"

definition build_plan ::
  "request \<Rightarrow> compiled_module list \<Rightarrow> generated_artifact list \<Rightarrow> bytes list \<Rightarrow> plan_state result" where
  "build_plan req mods artifacts update_actions =
     (let target = find_instance (req_SubjectInstance req) mods;
          applied = (if req_Operation req \<noteq> Validate then artifacts else []);
          start = \<lparr>pst_Plan = map apply_plan_step applied, pst_Steps = map apply_step applied,
                   pst_Files = [], pst_IDs = [], pst_Seen = {}\<rparr>;
          actions = map (\<lambda>i. (i, True)) update_actions
            @ (case target of Some m \<Rightarrow> [(mod_ValidationAction (cmp_Contract m), False)] | None \<Rightarrow> [])
      in fold_r (append_action req target) start actions)"

definition validation_specs :: "request \<Rightarrow> compiled_module list \<Rightarrow> validation_spec list" where
  "validation_specs req mods =
     map (\<lambda>m. \<lparr>val_ID = cmp_Instance m @ '':'' @ mod_ValidationAction (cmp_Contract m), val_ReadOnly = True\<rparr>)
       (filter (\<lambda>m. cmp_Instance m = req_SubjectInstance req) mods)"

fun bundle_kind_of :: "operation_kind \<Rightarrow> bundle_kind" where
  "bundle_kind_of Install = Installation"
| "bundle_kind_of Validate = Validation"
| "bundle_kind_of op = Migration"

definition action_writable_paths ::
  "request \<Rightarrow> compiled_module list \<Rightarrow> compiled_module option \<Rightarrow> bytes list" where
  "action_writable_paths req mods detached =
     (let subject =
        (case find_instance (req_SubjectInstance req) mods of
           Some m \<Rightarrow> Some m
         | None \<Rightarrow>
             (case detached of
                Some m \<Rightarrow> if cmp_Instance m = req_SubjectInstance req then Some m else None
              | None \<Rightarrow> None))
      in case subject of
           None \<Rightarrow> []
         | Some m \<Rightarrow> sort (map sto_Path (mod_Persistent (cmp_Contract m))))"

subsection \<open>Frozen identities\<close>

definition frozen_identity_of :: "compiled_module \<Rightarrow> frozen_identity" where
  "frozen_identity_of m =
     \<lparr>fid_InstanceID = cmp_Instance m, fid_ModuleID = mod_ID (cmp_Contract m), fid_Version = mod_Version (cmp_Contract m),
      fid_SourceID = fsr_SourceID (des_Source (cmp_Desired m)), fid_PackageID = fsr_PackageID (des_Source (cmp_Desired m)),
      fid_GitCommit = fsr_GitCommit (des_Source (cmp_Desired m)),
      fid_PackageSHA256 = fsr_PackageSHA256 (des_Source (cmp_Desired m))\<rparr>"

definition source_identity_of :: "compiled_module \<Rightarrow> source_identity" where
  "source_identity_of m =
     \<lparr>src_Kind = ''module'', src_ID = fsr_SourceID (des_Source (cmp_Desired m)), src_Version = mod_Version (cmp_Contract m),
      src_GitCommit = fsr_GitCommit (des_Source (cmp_Desired m)),
      src_PackageSHA256 = fsr_PackageSHA256 (des_Source (cmp_Desired m))\<rparr>"

definition image_identities_of :: "compiled_module \<Rightarrow> image_identity list" where
  "image_identities_of m =
     map (\<lambda>i. \<lparr>imi_Name = cmp_Instance m @ ''/'' @ i, imi_Ref = image_ref m i, imi_Digest = map_get (cmp_Images m) i\<rparr>)
       (sort (map fst (cmp_Images m)))"

definition freeze_plan_identities ::
  "request \<Rightarrow> compiled_module list \<Rightarrow> compiled_module option \<Rightarrow>
   frozen_identity list \<times> source_identity list \<times> image_identity list \<times> bytes go_map" where
  "freeze_plan_identities req mods detached =
     (let every = mods @ (case detached of Some m \<Rightarrow> [m] | None \<Rightarrow> []);
          images = concat (map image_identities_of every)
      in (map frozen_identity_of every,
          (if src_ID (req_CoreSource req) = [] then [] else [req_CoreSource req]) @ map source_identity_of every,
          images,
          foldl (\<lambda>m i. AList.update (imi_Name i) (imi_Digest i) m) [] images))"

definition bundle_secrets :: "compiled_module list \<Rightarrow> secret_reference list" where
  "bundle_secrets mods =
     concat (map (\<lambda>m. concat (map (\<lambda>s. map (\<lambda>c.
         \<lparr>ref_SecretID = map_get (des_SecretIDs (cmp_Desired m)) (sec_ID s), ref_Container = cmp_Instance m @ ''/'' @ c,
          ref_Delivery = sec_Delivery s, ref_Target = secret_target s\<rparr>)
       (sec_Containers s)) (mod_Secrets (cmp_Contract m)))) mods)"

definition subject_version :: "request \<Rightarrow> compiled_module list \<Rightarrow> compiled_module option \<Rightarrow> bytes" where
  "subject_version req mods detached =
     (case find_instance (req_SubjectInstance req) mods of
        Some m \<Rightarrow> mod_Version (cmp_Contract m)
      | None \<Rightarrow>
          (case detached of
             Some m \<Rightarrow> mod_Version (cmp_Contract m)
           | None \<Rightarrow> (case observed_subject req of Some o' \<Rightarrow> obm_Version o' | None \<Rightarrow> ''unknown'')))"

definition subject_bundle_identity ::
  "request \<Rightarrow> compiled_module list \<Rightarrow> compiled_module option \<Rightarrow> bytes \<times> bytes \<times> bytes" where
  "subject_bundle_identity req mods detached =
     (let identity = (\<lambda>m. (mod_ID (cmp_Contract m), fsr_PackageID (des_Source (cmp_Desired m)),
                           fsr_PackageSHA256 (des_Source (cmp_Desired m))))
      in case find_instance (req_SubjectInstance req) mods of
           Some m \<Rightarrow> identity m
         | None \<Rightarrow> (case detached of Some m \<Rightarrow> identity m | None \<Rightarrow> (''unknown'', [], [])))"

subsection \<open>What a plan contains\<close>

definition start_plan :: "request \<Rightarrow> generated_artifact list \<Rightarrow> plan_state" where
  "start_plan req artifacts =
     (let applied = (if req_Operation req \<noteq> Validate then artifacts else []) in
      \<lparr>pst_Plan = map apply_plan_step applied, pst_Steps = map apply_step applied,
       pst_Files = [], pst_IDs = [], pst_Seen = {}\<rparr>)"

definition plan_actions :: "compiled_module option \<Rightarrow> bytes list \<Rightarrow> (bytes \<times> bool) list" where
  "plan_actions target ups =
     map (\<lambda>i. (i, True)) ups
     @ (case target of Some m \<Rightarrow> [(mod_ValidationAction (cmp_Contract m), False)] | None \<Rightarrow> [])"

lemma build_plan_fold:
  "build_plan req mods artifacts ups =
     (let target = find_instance (req_SubjectInstance req) mods in
      fold_r (append_action req target) (start_plan req artifacts) (plan_actions target ups))"
  by (simp add: build_plan_def start_plan_def plan_actions_def Let_def)

definition action_plan_step :: "bytes \<times> bool \<Rightarrow> plan_step" where
  "action_plan_step a =
     \<lparr>pls_ID = ''action:'' @ fst a, pls_Description = ''Run registered action '' @ fst a, pls_Mutating = snd a\<rparr>"

definition action_file :: "request \<Rightarrow> compiled_module \<Rightarrow> bytes \<Rightarrow> bundle_file" where
  "action_file req m i =
     \<lparr>fil_Path = ''actions/'' @ req_SubjectInstance req @ ''/'' @ path_base (map_get (mod_Actions (cmp_Contract m)) i),
      fil_TargetPath = [], fil_Mode = mode_0555, fil_Data = map_get (mod_ActionFiles (cmp_Contract m)) i\<rparr>"

text \<open>What holds between two actions of the loop: one file per identifier seen, in order.\<close>

definition plan_files_ok :: "request \<Rightarrow> compiled_module \<Rightarrow> plan_state \<Rightarrow> bool" where
  "plan_files_ok req m st =
     (pst_Files st = map (action_file req m) (pst_IDs st) \<and> distinct (pst_IDs st) \<and> pst_Seen st = set (pst_IDs st))"

definition add_action_file :: "request \<Rightarrow> compiled_module \<Rightarrow> bytes \<Rightarrow> plan_state \<Rightarrow> plan_state" where
  "add_action_file req m i st =
     (if i \<in> pst_Seen st then st
      else st\<lparr>pst_Files := pst_Files st @ [action_file req m i], pst_IDs := pst_IDs st @ [i],
              pst_Seen := insert i (pst_Seen st)\<rparr>)"

lemma append_action_Inr_iff:
  "append_action req (Some m) st a = Inr st' \<longleftrightarrow>
     fst a \<in> keys_of (mod_Actions (cmp_Contract m)) \<and>
     st' = (let st1 = add_action_file req m (fst a) st in
       st1\<lparr>pst_Plan := pst_Plan st1 @ [action_plan_step a], pst_Steps := pst_Steps st1 @ [action_step (fst a) (snd a)]\<rparr>)"
proof (cases "map_of (mod_Actions (cmp_Contract m)) (fst a)")
  case None
  then show ?thesis by (simp add: append_action_def keys_of_iff case_prod_beta)
next
  case (Some rel)
  have af: "action_file req m (fst a) =
      \<lparr>fil_Path = ''actions/'' @ req_SubjectInstance req @ ''/'' @ path_base rel, fil_TargetPath = [],
       fil_Mode = mode_0555, fil_Data = map_get (mod_ActionFiles (cmp_Contract m)) (fst a)\<rparr>"
    by (simp only: action_file_def map_get_def Some option.case)
  have "fst a \<in> keys_of (mod_Actions (cmp_Contract m))" using Some by (simp add: keys_of_iff)
  then show ?thesis
    unfolding append_action_def case_prod_beta option.case Some Let_def add_action_file_def action_plan_step_def af
    by (auto simp only: sum.inject)
qed

lemma add_action_file_ok:
  assumes "plan_files_ok req m st"
  shows "plan_files_ok req m (add_action_file req m i st) \<and>
    set (pst_IDs (add_action_file req m i st)) = insert i (set (pst_IDs st)) \<and>
    pst_Plan (add_action_file req m i st) = pst_Plan st \<and> pst_Steps (add_action_file req m i st) = pst_Steps st"
  using assms by (auto simp: add_action_file_def plan_files_ok_def)

lemma append_action_files:
  assumes "append_action req (Some m) st a = Inr st'" and "plan_files_ok req m st"
  shows "plan_files_ok req m st' \<and> fst a \<in> keys_of (mod_Actions (cmp_Contract m)) \<and>
    pst_Plan st' = pst_Plan st @ [action_plan_step a] \<and>
    pst_Steps st' = pst_Steps st @ [action_step (fst a) (snd a)] \<and>
    set (pst_IDs st') = insert (fst a) (set (pst_IDs st))"
  using assms(1) add_action_file_ok [OF assms(2), of "fst a"]
  unfolding append_action_Inr_iff Let_def by (simp add: plan_files_ok_def)

lemma append_actions:
  assumes "fold_r (append_action req (Some m)) st acts = Inr st'" and "plan_files_ok req m st"
  shows "plan_files_ok req m st' \<and> fst ` set acts \<subseteq> keys_of (mod_Actions (cmp_Contract m)) \<and>
    pst_Plan st' = pst_Plan st @ map action_plan_step acts \<and>
    pst_Steps st' = pst_Steps st @ map (\<lambda>a. action_step (fst a) (snd a)) acts \<and>
    set (pst_IDs st') = set (pst_IDs st) \<union> fst ` set acts"
  using assms
proof (induction acts arbitrary: st)
  case (Cons a acts)
  obtain st1 where st1: "append_action req (Some m) st a = Inr st1"
    "fold_r (append_action req (Some m)) st1 acts = Inr st'"
    using Cons.prems(1) by (auto simp: result_simps)
  note one = append_action_files [OF st1(1) Cons.prems(2)]
  show ?case using Cons.IH [OF st1(2)] one by auto
qed simp

lemma start_plan_ok: "plan_files_ok req m (start_plan req artifacts)"
  by (simp add: plan_files_ok_def start_plan_def)

lemma build_plan_total:
  assumes "find_instance (req_SubjectInstance req) mods = Some m"
    and "set ups \<subseteq> keys_of (mod_Actions (cmp_Contract m))"
    and "mod_ValidationAction (cmp_Contract m) \<in> keys_of (mod_Actions (cmp_Contract m))"
  shows "\<exists>st. build_plan req mods artifacts ups = Inr st"
proof -
  have step: "fst a \<in> keys_of (mod_Actions (cmp_Contract m)) \<Longrightarrow> \<exists>st'. append_action req (Some m) st a = Inr st'" for st a
    by (simp add: append_action_Inr_iff)
  have "fst ` set acts \<subseteq> keys_of (mod_Actions (cmp_Contract m)) \<Longrightarrow>
      \<exists>st'. fold_r (append_action req (Some m)) st acts = Inr st'" for st acts
  proof (induction acts arbitrary: st)
    case (Cons a acts)
    then obtain st1 where "append_action req (Some m) st a = Inr st1" using step by (metis image_insert insert_subset list.simps(15))
    then show ?case using Cons by simp
  qed simp
  then show ?thesis
    using assms by (simp add: build_plan_fold Let_def plan_actions_def image_Un image_image)
qed


text \<open>The steps of a plan that was built.\<close>

definition expected_steps ::
  "request \<Rightarrow> generated_artifact list \<Rightarrow> compiled_module \<Rightarrow> bytes list \<Rightarrow> step list" where
  "expected_steps req artifacts m ups =
     (if req_Operation req = Validate then [] else map apply_step artifacts)
     @ map (\<lambda>i. action_step i True) ups @ [action_step (mod_ValidationAction (cmp_Contract m)) False]"

lemma build_plan_steps:
  assumes "build_plan req mods artifacts ups = Inr st" and "find_instance (req_SubjectInstance req) mods = Some m"
  shows "pst_Steps st = expected_steps req artifacts m ups \<and>
    map (\<lambda>s. (stp_ID s, stp_Mutating s)) (pst_Steps st) = map (\<lambda>p. (pls_ID p, pls_Mutating p)) (pst_Plan st) \<and>
    plan_files_ok req m st \<and>
    set (pst_IDs st) = insert (mod_ValidationAction (cmp_Contract m)) (set ups) \<and>
    set (pst_IDs st) \<subseteq> keys_of (mod_Actions (cmp_Contract m))"
proof -
  note fold = append_actions [OF _ start_plan_ok, of req m artifacts "plan_actions (Some m) ups" st]
  have st: "plan_files_ok req m st"
    "pst_Plan st = pst_Plan (start_plan req artifacts) @ map action_plan_step (plan_actions (Some m) ups)"
    "pst_Steps st = pst_Steps (start_plan req artifacts) @ map (\<lambda>a. action_step (fst a) (snd a)) (plan_actions (Some m) ups)"
    "set (pst_IDs st) = fst ` set (plan_actions (Some m) ups)"
    "fst ` set (plan_actions (Some m) ups) \<subseteq> keys_of (mod_Actions (cmp_Contract m))"
    using assms fold by (simp_all add: build_plan_fold Let_def start_plan_def)
  have "map (\<lambda>s. (stp_ID s, stp_Mutating s)) (pst_Steps (start_plan req artifacts)) =
      map (\<lambda>p. (pls_ID p, pls_Mutating p)) (pst_Plan (start_plan req artifacts))"
    by (simp add: start_plan_def Let_def apply_step_def apply_plan_step_def comp_def)
  then show ?thesis
    using st by (simp add: expected_steps_def plan_actions_def start_plan_def Let_def action_step_def
        action_plan_step_def image_Un image_image comp_def)
qed

text \<open>Without the subject among the modules, the loop can only run over no action at all.\<close>

lemma build_plan_detached:
  assumes "build_plan req mods artifacts ups = Inr st" and "find_instance (req_SubjectInstance req) mods = None"
  shows "ups = [] \<and> st = start_plan req artifacts"
  using assms by (cases ups) (auto simp: build_plan_fold Let_def plan_actions_def append_action_def result_simps)

lemma start_plan_steps:
  "pst_Steps (start_plan req artifacts) = (if req_Operation req = Validate then [] else map apply_step artifacts)"
  "map (\<lambda>p. (pls_ID p, pls_Mutating p)) (pst_Plan (start_plan req artifacts)) =
   map (\<lambda>s. (stp_ID s, stp_Mutating s)) (pst_Steps (start_plan req artifacts))"
  by (simp_all add: start_plan_def Let_def apply_step_def apply_plan_step_def comp_def)

lemma validate_update_Inr_iff:
  "validate_update req mods = Inr ups \<longleftrightarrow>
     (if req_Operation req \<noteq> Update then ups = []
      else \<exists>m o' transition. find_instance (req_SubjectInstance req) mods = Some m \<and> observed_subject req = Some o' \<and>
        obm_Version o' \<noteq> [] \<and> map_of (mod_UpdateFrom (cmp_Contract m)) (obm_Version o') = Some transition \<and>
        ups = upd_Actions transition)"
  by (auto simp: validate_update_def Let_def split: option.splits if_splits)

lemma update_actions_registered:
  assumes "validate_update req mods = Inr ups" and "find_instance (req_SubjectInstance req) mods = Some m"
    and "module_contract pu (cmp_Contract m)"
  shows "set ups \<subseteq> keys_of (mod_Actions (cmp_Contract m))"
proof (cases "req_Operation req = Update")
  case True
  then obtain v transition where t: "map_of (mod_UpdateFrom (cmp_Contract m)) v = Some transition" "ups = upd_Actions transition"
    using assms(1,2) unfolding validate_update_Inr_iff by auto
  have "(v, transition) \<in> set (mod_UpdateFrom (cmp_Contract m))" using t(1) by (rule map_of_SomeD)
  then show ?thesis using assms(3) t(2) by (auto simp: module_contract_def actions_contract_def)
qed (use assms(1) in \<open>simp add: validate_update_Inr_iff\<close>)

lemma plan_exists:
  assumes contract: "module_contract pu (cmp_Contract m)"
    and ups: "validate_update req mods = Inr ups"
    and m: "find_instance (req_SubjectInstance req) mods = Some m"
  shows "\<exists>st. build_plan req mods artifacts ups = Inr st"
proof (rule build_plan_total [OF m])
  show "set ups \<subseteq> keys_of (mod_Actions (cmp_Contract m))"
    by (rule update_actions_registered [OF ups m contract])
  show "mod_ValidationAction (cmp_Contract m) \<in> keys_of (mod_Actions (cmp_Contract m))"
    using contract by (simp add: module_contract_def actions_contract_def)
qed

text \<open>
  for a subject that satisfies its contract and an accepted transition the plan exists; its
  steps are the generated artifacts, then the actions of the transition, then the validation
  action, the last one read-only; the bundle gets each action script once, with its identifier,
  and a validation has no mutating step.
\<close>

theorem plan_complete:
  assumes "module_contract pu (cmp_Contract m)" and "validate_update req mods = Inr ups"
    and "find_instance (req_SubjectInstance req) mods = Some m"
  shows "\<exists>st. build_plan req mods artifacts ups = Inr st \<and>
    pst_Steps st = expected_steps req artifacts m ups \<and>
    map (\<lambda>s. (stp_ID s, stp_Mutating s)) (pst_Steps st) = map (\<lambda>p. (pls_ID p, pls_Mutating p)) (pst_Plan st) \<and>
    pst_Files st = map (action_file req m) (pst_IDs st) \<and> distinct (pst_IDs st) \<and>
    set (pst_IDs st) = insert (mod_ValidationAction (cmp_Contract m)) (set ups) \<and>
    (req_Operation req = Validate \<longrightarrow> (\<forall>s\<in>set (pst_Steps st). \<not> stp_Mutating s))"
proof -
  obtain st where st: "build_plan req mods artifacts ups = Inr st"
    using plan_exists [OF assms] by blast
  note steps = build_plan_steps [OF st assms(3)]
  have "req_Operation req = Validate \<Longrightarrow> ups = []" using assms(2) by (simp add: validate_update_Inr_iff)
  then have "req_Operation req = Validate \<longrightarrow> (\<forall>s\<in>set (pst_Steps st). \<not> stp_Mutating s)"
    using steps by (auto simp: expected_steps_def action_step_def)
  then show ?thesis using st steps by (auto simp: plan_files_ok_def)
qed


subsection \<open>On the sample deployment\<close>

definition sample_observed_web :: observed_module where
  "sample_observed_web =
     sample_observed_db\<lparr>obm_InstanceID := ''web1'', obm_ModuleID := ''web'', obm_PackageID := ''web_pkg'',
       obm_Version := ''1.1.0'', obm_ArtifactSHA256 := []\<rparr>"

definition sample_update :: request where
  "sample_update =
     (sample_request Update)\<lparr>req_SubjectInstance := ''web1'', req_DesiredModules := [db_desired, web_desired],
       req_Observed := (req_Observed (sample_request Update))
         \<lparr>obs_Modules := [sample_observed_db, sample_observed_web]\<rparr>\<rparr>"

lemma sample_transition:
  "find_instance (req_SubjectInstance sample_update) [db_compiled, web_compiled] = Some web_compiled"
  "validate_update sample_update [db_compiled, web_compiled] = Inr [''migrate'']"
  "req_Operation sample_update = Update"
  by (simp_all add: sample_update_def sample_request_def validate_update_def find_instance_def observed_subject_def
      sample_observed_web_def sample_observed_db_def sample_defs)

theorem plan_complete_witness:
  "\<exists>st. build_plan sample_update [db_compiled, web_compiled] [] [''migrate''] = Inr st \<and>
    pst_Steps st = [action_step ''migrate'' True, action_step ''check'' False]"
proof -
  have "expected_steps sample_update [] web_compiled [''migrate''] =
      [action_step ''migrate'' True, action_step ''check'' False]"
    by (simp add: expected_steps_def sample_defs)
  then show ?thesis
    using plan_complete [OF sample_contracts(2) sample_transition(2,1), of "[]"] by auto
qed


end
