(* ===== verification/Deploy_Compiler.thy ===== *)
theory Deploy_Compiler
  imports Deploy_Plan Bundle_Store
begin

section \<open>The deployment compiler\<close>

text \<open>
  \<open>internal/deployment/compiler.go\<close>: the modules of a request, the subject of an uninstall, and
  \<open>Prepare\<close>, which puts the parts together and assembles the bundle. The registry is a parameter:
  its answer to a call may depend on the instance and the image for which it is asked, and no pair
  of them is asked for twice.
\<close>

definition compile_images ::
  "string \<Rightarrow> string \<Rightarrow> (bytes \<Rightarrow> bytes \<Rightarrow> bytes \<Rightarrow> bytes result) \<Rightarrow> bytes \<Rightarrow> (bytes \<Rightarrow> bytes \<Rightarrow> unit result) \<Rightarrow>
   module_t \<Rightarrow> bytes go_map result" where
  "compile_images failed invalid resolve inst accept m =
     map_r (\<lambda>i.
         bind_r (wrap_error failed [inst, i]
           (resolve inst i (case map_of (mod_Images m) i of Some img \<Rightarrow> img_Ref img | None \<Rightarrow> []))) (\<lambda>digest.
         also_r (reject_if (\<not> valid_digest digest) (Errf invalid [inst, i]))
        (also_r (accept i digest)
         (Inr (i, digest)))))
       (sort (map fst (mod_Images m)))"

definition compile_desired ::
  "(bytes \<Rightarrow> (bytes \<times> bytes) option) \<Rightarrow> (bytes \<Rightarrow> (raw_module \<times> trailing) result) \<Rightarrow>
   (bytes \<Rightarrow> bytes \<Rightarrow> bytes \<Rightarrow> bytes result) \<Rightarrow> request \<Rightarrow> desired_module \<Rightarrow> compiled_module result" where
  "compile_desired pu decode resolve req d =
     (let s = des_Source d in
      bind_r (wrap_error ''compile module %s: %w'' [des_InstanceID d] (compile_module pu decode (fsr_PackageFS s))) (\<lambda>m.
      also_r (reject_if (mod_Version m = [] \<or> fsr_PackageSHA256 s = [] \<or> fsr_PackageID s = [] \<or> fsr_SourceID s = [])
        (Errf ''module %s source identity is incomplete'' [des_InstanceID d]))
     (also_r (reject_if (req_CoreContract req \<noteq> [] \<and> mod_CoreContract m \<noteq> req_CoreContract req)
        (Errf ''module %s requires core_contract %s, target provides %s''
          [des_InstanceID d, mod_CoreContract m, req_CoreContract req]))
     (also_r (wrap_error ''module %s: %w'' [des_InstanceID d] (validate_secret_bindings m (des_SecretIDs d)))
     (bind_r (compile_images ''resolve image %s/%s: %w'' ''registry returned invalid digest for %s/%s'' resolve
        (des_InstanceID d) (\<lambda>_ _. Inr ()) m) (\<lambda>images.
      Inr \<lparr>cmp_Desired = d, cmp_Contract = m, cmp_Images = images,
           cmp_Effective = merge_resources (mod_Resources m) (des_Resources d)\<rparr>))))))"

definition compile_modules ::
  "(bytes \<Rightarrow> (bytes \<times> bytes) option) \<Rightarrow> (bytes \<Rightarrow> (raw_module \<times> trailing) result) \<Rightarrow>
   (bytes \<Rightarrow> bytes \<Rightarrow> bytes \<Rightarrow> bytes result) \<Rightarrow> request \<Rightarrow> compiled_module list result" where
  "compile_modules pu decode resolve req =
     bind_r (map_r (compile_desired pu decode resolve req) (req_DesiredModules req)) (\<lambda>mods.
     Inr (sort_key cmp_Instance mods))"

definition compile_detached_subject ::
  "(bytes \<Rightarrow> (bytes \<times> bytes) option) \<Rightarrow> (bytes \<Rightarrow> (raw_module \<times> trailing) result) \<Rightarrow>
   (bytes \<Rightarrow> bytes \<Rightarrow> bytes \<Rightarrow> bytes result) \<Rightarrow> request \<Rightarrow> compiled_module list \<Rightarrow> compiled_module option result" where
  "compile_detached_subject pu decode resolve req mods =
     (if req_Operation req \<noteq> Uninstall then Inr None
      else
        (let inst = req_SubjectInstance req in
         also_r (reject_if (inst \<in> cmp_Instance ` set mods)
           (Err ''uninstall subject must be absent from target Sollzustand''))
        (case req_SubjectSource req of
           None \<Rightarrow> Inl (Err ''uninstall requires frozen subject source'')
         | Some s \<Rightarrow>
             also_r (reject_if (fsr_InstanceID s \<noteq> [] \<and> fsr_InstanceID s \<noteq> inst)
               (Err ''uninstall frozen subject source belongs to different module instance''))
            (bind_r (wrap_error ''compile uninstall subject %s: %w'' [inst] (compile_module pu decode (fsr_PackageFS s))) (\<lambda>m.
             also_r (reject_if (fsr_SourceID s = [] \<or> fsr_PackageID s = [] \<or> fsr_PackageSHA256 s = [])
               (Err ''uninstall frozen subject identity is incomplete''))
            (also_r (reject_if (req_CoreContract req \<noteq> [] \<and> mod_CoreContract m \<noteq> req_CoreContract req)
               (Errf ''uninstall subject requires core_contract %s, target provides %s''
                 [mod_CoreContract m, req_CoreContract req]))
            (also_r (wrap_error ''uninstall subject: %w'' [] (validate_secret_bindings m (req_SubjectSecretIDs req)))
            (case observed_subject req of
               None \<Rightarrow> Inl (Err ''uninstall subject is not installed in Ist-Zustand'')
             | Some o' \<Rightarrow>
                 also_r (reject_if (obm_Version o' \<noteq> mod_Version m \<or> obm_PackageID o' \<noteq> fsr_PackageID s \<or>
                     obm_PackageSHA256 o' \<noteq> fsr_PackageSHA256 s)
                   (Err ''uninstall frozen source does not match installed exact module identity''))
                (bind_r (compile_images ''resolve uninstall image %s/%s: %w''
                    ''registry returned invalid digest for uninstall subject %s/%s'' resolve inst
                    (\<lambda>i digest. reject_if (map_get (obm_ImageDigests o') i \<noteq> [] \<and> map_get (obm_ImageDigests o') i \<noteq> digest)
                       (Errf ''uninstall image digest drift for %s/%s'' [inst, i])) m) (\<lambda>images.
                 Inr (Some \<lparr>cmp_Desired = \<lparr>des_InstanceID = inst, des_Source = s, des_SecretIDs = req_SubjectSecretIDs req,
                              des_Resources = \<lparr>ovr_MemoryBytes = 0, ovr_CPUQuota = 0, ovr_PIDsLimit = 0, ovr_TasksMax = 0\<rparr>\<rparr>,
                            cmp_Contract = m, cmp_Images = images, cmp_Effective = mod_Resources m\<rparr>)))))))))))"

subsection \<open>Prepare\<close>

text \<open>What \<open>Prepare\<close> has computed before it assembles the bundle.\<close>

record analysis =
  ana_Mods :: "compiled_module list"
  ana_Detached :: "compiled_module option"
  ana_Links :: "link_network list"
  ana_Updates :: "bytes list"
  ana_Artifacts :: "generated_artifact list"
  ana_Plan :: plan_state

definition analyse ::
  "(bytes \<Rightarrow> (bytes \<times> bytes) option) \<Rightarrow> (bytes \<Rightarrow> (raw_module \<times> trailing) result) \<Rightarrow>
   (bytes \<Rightarrow> bytes \<Rightarrow> bytes \<Rightarrow> bytes result) \<Rightarrow> (bytes \<Rightarrow> bool) \<Rightarrow> request \<Rightarrow> analysis result" where
  "analyse pu decode resolve prefix_ok req =
     also_r (validate_request req)
    (bind_r (compile_modules pu decode resolve req) (\<lambda>mods.
     also_r (validate_subject req mods)
    (bind_r (compile_detached_subject pu decode resolve req mods) (\<lambda>detached.
     bind_r (derive_links prefix_ok mods (obs_Networks (req_Observed req))) (\<lambda>links.
     also_r (validate_claims mods links (obs_Claims (req_Observed req)))
    (also_r (if req_Operation req = Uninstall then validate_provider_removal req mods else Inr ())
    (bind_r (validate_update req mods) (\<lambda>updates.
     let artifacts = generate_artifacts mods links in
     bind_r (build_plan req mods artifacts updates) (\<lambda>plan.
     Inr \<lparr>ana_Mods = mods, ana_Detached = detached, ana_Links = links, ana_Updates = updates,
          ana_Artifacts = artifacts, ana_Plan = plan\<rparr>)))))))))"

definition artifact_file :: "generated_artifact \<Rightarrow> bundle_file" where
  "artifact_file a =
     \<lparr>fil_Path = gen_Path a, fil_TargetPath = gen_TargetPath a, fil_Mode = gen_Mode a, fil_Data = gen_Data a\<rparr>"

definition bundle_input_of :: "request \<Rightarrow> analysis \<Rightarrow> bundle_input" where
  "bundle_input_of req a =
     (let mods = ana_Mods a; detached = ana_Detached a;
          (frozen, sources, images, image_map) = freeze_plan_identities req mods detached;
          (identity, package_id, package_sha) = subject_bundle_identity req mods detached
      in \<lparr>inp_Kind = bundle_kind_of (req_Operation req), inp_TargetID = req_TargetID req, inp_SubjectKind = ''module'',
          inp_SubjectID = req_SubjectInstance req, inp_SubjectIdentity = identity, inp_PackageID = package_id,
          inp_PackageSHA256 = package_sha, inp_Version = subject_version req mods detached, inp_Sources = sources,
          inp_Images = images, inp_Files = map artifact_file (ana_Artifacts a), inp_Actions = pst_Files (ana_Plan a),
          inp_ActionIDs = pst_IDs (ana_Plan a), inp_ActionWritablePaths = action_writable_paths req mods detached,
          inp_Secrets = bundle_secrets mods, inp_Preconditions = preconditions req,
          inp_ExpectedPost = expected_post req mods (ana_Artifacts a), inp_Validations = validation_specs req mods,
          inp_Steps = pst_Steps (ana_Plan a), inp_BackupRequired = req_BackupRequired req\<rparr>)"

definition prepared_of :: "request \<Rightarrow> analysis \<Rightarrow> exec_bundle \<Rightarrow> prepared_operation" where
  "prepared_of req a b =
     (let mods = ana_Mods a; (frozen, sources, images, image_map) = freeze_plan_identities req mods (ana_Detached a)
      in \<lparr>pop_Operation = req_Operation req, pop_PlanRequired = (req_Operation req \<noteq> Validate), pop_Plan = pst_Plan (ana_Plan a),
          pop_FrozenSources = frozen, pop_ImageDigests = image_map,
          pop_ExpectedChanges = diff_state req mods (ana_Artifacts a) (ana_Links a), pop_Artifacts = ana_Artifacts a,
          pop_Preconditions = preconditions req, pop_ExpectedPost = expected_post req mods (ana_Artifacts a),
          pop_Validations = validation_specs req mods, pop_LinkNetworks = ana_Links a, pop_Bundle = b\<rparr>)"

definition prepare_operation ::
  "(bytes \<Rightarrow> (bytes \<times> bytes) option) \<Rightarrow> (bytes \<Rightarrow> (raw_module \<times> trailing) result) \<Rightarrow>
   (bytes \<Rightarrow> bytes \<Rightarrow> bytes \<Rightarrow> bytes result) \<Rightarrow> (bytes \<Rightarrow> bool) \<Rightarrow>
   (bundle_file list \<Rightarrow> bytes result) \<Rightarrow> bytes go_map \<Rightarrow> disk_faults \<Rightarrow> request \<Rightarrow> dir \<Rightarrow> prepared_operation result \<times> dir" where
  "prepare_operation pu decode resolve prefix_ok tar_write parts io req fs =
     (case analyse pu decode resolve prefix_ok req of
        Inl e \<Rightarrow> (Inl e, fs)
      | Inr a \<Rightarrow>
          (case assemble tar_write parts io (bundle_input_of req a) fs of
             (Inl e, fs') \<Rightarrow> (Inl e, fs')
           | (Inr b, fs') \<Rightarrow> (Inr (prepared_of req a b), fs')))"

subsection \<open>Compiled modules\<close>

definition pinned :: "compiled_module \<Rightarrow> bool" where
  "pinned m =
     (map fst (cmp_Images m) = sort (map fst (mod_Images (cmp_Contract m))) \<and>
      (\<forall>d\<in>snd ` set (cmp_Images m). valid_digest d))"

lemma compile_images_pinned:
  assumes "compile_images failed invalid resolve inst accept m = Inr images"
  shows "map fst images = sort (map fst (mod_Images m)) \<and> (\<forall>d\<in>snd ` set images. valid_digest d) \<and>
    (\<forall>(i, d)\<in>set images. accept i d = Inr ())"
proof -
  have "list_all2 (\<lambda>i p. fst p = i \<and> valid_digest (snd p) \<and> accept (fst p) (snd p) = Inr ())
      (sort (map fst (mod_Images m))) images"
    using assms unfolding compile_images_def map_r_Inr_iff by (rule list_all2_mono) (auto simp: result_simps)
  moreover have "map fst ps = is \<and> (\<forall>d\<in>snd ` set ps. valid_digest d) \<and> (\<forall>(i, d)\<in>set ps. accept i d = Inr ())"
    if "list_all2 (\<lambda>i p. fst p = i \<and> valid_digest (snd p) \<and> accept (fst p) (snd p) = Inr ()) is ps" for "is" ps
    using that by induction auto
  ultimately show ?thesis by blast
qed

lemma list_all2_hit: "list_all2 P xs ys \<Longrightarrow> x \<in> set xs \<Longrightarrow> \<exists>y\<in>set ys. P x y"
  by (induction rule: list_all2_induct) auto

lemma compile_images_resolved:
  assumes "compile_images failed invalid resolve inst accept m = Inr images" and i: "i \<in> keys_of (mod_Images m)"
  shows "\<exists>d. resolve inst i (img_Ref (the (map_of (mod_Images m) i))) = Inr d \<and> valid_digest d \<and> accept i d = Inr ()"
proof -
  let ?f = "\<lambda>i. bind_r (wrap_error failed [inst, i]
      (resolve inst i (case map_of (mod_Images m) i of Some img \<Rightarrow> img_Ref img | None \<Rightarrow> []))) (\<lambda>digest.
    also_r (reject_if (\<not> valid_digest digest) (Errf invalid [inst, i])) (also_r (accept i digest) (Inr (i, digest))))"
  obtain img where img: "map_of (mod_Images m) i = Some img"
    using i by (cases "map_of (mod_Images m) i") (auto simp: map_of_eq_None_iff keys_of_def)
  have all: "list_all2 (\<lambda>i p. ?f i = Inr p) (sort (map fst (mod_Images m))) images"
    using assms(1) by (simp only: compile_images_def map_r_Inr_iff)
  moreover have "i \<in> set (sort (map fst (mod_Images m)))" using i by (simp add: keys_of_def)
  ultimately have "\<exists>p\<in>set images. ?f i = Inr p" by (rule list_all2_hit)
  then obtain p where "?f i = Inr p" by (elim bexE)
  then show ?thesis by (auto simp: result_simps img)
qed

lemma compile_module_contract: "compile_module pu decode pkg = Inr m \<Longrightarrow> module_contract pu m"
  using compiled_module_contract [of pu decode _ m] by (cases pkg) (auto simp: compile_module_def)

lemma compile_desired_Inr:
  assumes "compile_desired pu decode resolve req d = Inr m"
  shows "cmp_Desired m = d \<and> module_contract pu (cmp_Contract m) \<and> pinned m \<and>
    (req_CoreContract req \<noteq> [] \<longrightarrow> mod_CoreContract (cmp_Contract m) = req_CoreContract req) \<and>
    fsr_PackageID (des_Source d) \<noteq> [] \<and> fsr_PackageSHA256 (des_Source d) \<noteq> [] \<and>
    validate_secret_bindings (cmp_Contract m) (des_SecretIDs d) = Inr ()"
proof -
  obtain c images where m: "compile_module pu decode (fsr_PackageFS (des_Source d)) = Inr c"
      "compile_images ''resolve image %s/%s: %w'' ''registry returned invalid digest for %s/%s'' resolve
         (des_InstanceID d) (\<lambda>_ _. Inr ()) c = Inr images"
      "m = \<lparr>cmp_Desired = d, cmp_Contract = c, cmp_Images = images,
           cmp_Effective = merge_resources (mod_Resources c) (des_Resources d)\<rparr>"
      "req_CoreContract req \<noteq> [] \<longrightarrow> mod_CoreContract c = req_CoreContract req"
      "fsr_PackageID (des_Source d) \<noteq> []" "fsr_PackageSHA256 (des_Source d) \<noteq> []"
      "validate_secret_bindings c (des_SecretIDs d) = Inr ()"
    using assms by (auto simp: compile_desired_def Let_def result_simps)
  show ?thesis
    using compile_images_pinned [OF m(2)] compile_module_contract [OF m(1)] m(4-) by (simp add: m(3) pinned_def)
qed

lemma compile_modules_Inr:
  assumes "compile_modules pu decode resolve req = Inr mods"
  shows "sorted (map cmp_Instance mods) \<and> mset (map cmp_Desired mods) = mset (req_DesiredModules req) \<and>
    (\<forall>m\<in>set mods. compile_desired pu decode resolve req (cmp_Desired m) = Inr m)"
proof -
  obtain ms where ms: "list_all2 (\<lambda>d m. compile_desired pu decode resolve req d = Inr m) (req_DesiredModules req) ms"
    "mods = sort_key cmp_Instance ms"
    using assms by (auto simp: compile_modules_def result_simps)
  have "list_all2 (\<lambda>d m. compile_desired pu decode resolve req d = Inr m \<and> cmp_Desired m = d) (req_DesiredModules req) ms"
    using ms(1) by (rule list_all2_mono) (use compile_desired_Inr in blast)
  then have "map cmp_Desired ms = req_DesiredModules req \<and>
      (\<forall>m\<in>set ms. compile_desired pu decode resolve req (cmp_Desired m) = Inr m)"
    by induction auto
  then show ?thesis unfolding ms(2) by (metis mset_map mset_sort set_sort sorted_sort_key)
qed

lemma analyse_Inr:
  assumes "analyse pu decode resolve prefix_ok req = Inr a"
  shows "validate_request req = Inr ()" "compile_modules pu decode resolve req = Inr (ana_Mods a)"
    "validate_subject req (ana_Mods a) = Inr ()"
    "compile_detached_subject pu decode resolve req (ana_Mods a) = Inr (ana_Detached a)"
    "derive_links prefix_ok (ana_Mods a) (obs_Networks (req_Observed req)) = Inr (ana_Links a)"
    "validate_claims (ana_Mods a) (ana_Links a) (obs_Claims (req_Observed req)) = Inr ()"
    "req_Operation req = Uninstall \<Longrightarrow> validate_provider_removal req (ana_Mods a) = Inr ()"
    "validate_update req (ana_Mods a) = Inr (ana_Updates a)"
    "ana_Artifacts a = generate_artifacts (ana_Mods a) (ana_Links a)"
    "build_plan req (ana_Mods a) (ana_Artifacts a) (ana_Updates a) = Inr (ana_Plan a)"
  using assms by (auto simp: analyse_def Let_def result_simps split: if_splits)

subsection \<open>What Prepare returns\<close>

lemma prepare_Inr:
  assumes "prepare_operation pu decode resolve prefix_ok tar_write parts io req fs = (Inr p, fs')"
  shows "\<exists>a b. analyse pu decode resolve prefix_ok req = Inr a \<and> p = prepared_of req a b \<and>
    assemble_bytes tar_write parts (bundle_input_of req a) = Inr b \<and>
    store io (bun_ID b) (bun_Bytes b) fs = (Inr (), fs')"
proof -
  obtain a b where "analyse pu decode resolve prefix_ok req = Inr a"
    "assemble tar_write parts io (bundle_input_of req a) fs = (Inr b, fs')" "p = prepared_of req a b"
    using assms by (auto simp: prepare_operation_def split: sum.splits prod.splits)
  then show ?thesis using assemble_Inr_cases by blast
qed

lemma assembled_manifest:
  assumes "assemble_bytes tar_write parts i = Inr b"
  shows "man_TargetID (bun_Manifest b) = inp_TargetID i \<and> man_Kind (bun_Manifest b) = inp_Kind i \<and>
    man_SubjectID (bun_Manifest b) = inp_SubjectID i \<and> man_Steps (bun_Manifest b) = inp_Steps i \<and>
    man_BackupRequired (bun_Manifest b) = inp_BackupRequired i \<and> validate_input i = Inr () \<and>
    mset (man_Artifacts (bun_Manifest b)) = mset (map artifact_of (inp_Files i))"
proof -
  obtain files arts acts where files: "validate_input i = Inr ()" "normalize_files i = Inr (files, arts, acts)"
    and man: "bun_Manifest b = (draft_manifest parts i arts acts)\<lparr>man_BundleID := bundle_identity (draft_manifest parts i arts acts)\<rparr>"
    using assms by (auto simp: assemble_bytes_def Let_def result_simps)
  have "length (inp_ActionIDs i) = length (inp_Actions i)"
    using files(1) by (simp add: validate_input_def result_simps)
  from files(2) [unfolded normalize_files_accepts [OF this]]
  have "mset arts = mset (map artifact_of (inp_Files i))" by simp
  then show ?thesis using files(1) by (simp add: man draft_manifest_def normalize_manifest_def)
qed

lemma bundle_input_fields [simp]:
  "inp_TargetID (bundle_input_of req a) = req_TargetID req"
  "inp_Kind (bundle_input_of req a) = bundle_kind_of (req_Operation req)"
  "inp_SubjectID (bundle_input_of req a) = req_SubjectInstance req"
  "inp_Steps (bundle_input_of req a) = pst_Steps (ana_Plan a)"
  "inp_BackupRequired (bundle_input_of req a) = req_BackupRequired req"
  "inp_Files (bundle_input_of req a) = map artifact_file (ana_Artifacts a)"
  by (simp_all add: bundle_input_of_def Let_def split: prod.split)

lemma prepared_fields [simp]:
  "pop_Bundle (prepared_of req a b) = b" "pop_LinkNetworks (prepared_of req a b) = ana_Links a"
  "pop_Artifacts (prepared_of req a b) = ana_Artifacts a" "pop_Plan (prepared_of req a b) = pst_Plan (ana_Plan a)"
  "pop_PlanRequired (prepared_of req a b) = (req_Operation req \<noteq> Validate)"
  by (simp_all add: prepared_of_def Let_def split: prod.split)

lemma stored_cases:
  assumes "store io i body fs = (Inr (), fs')"
  shows "fs' = fs(tar_name i \<mapsto> body) \<and> fs (tar_name i) \<in> {None, Some body}"
  using store_cases [of io i body fs] assms by (auto simp: remove_file_def fun_upd_idem)

text \<open>
  C24: what a successful \<open>Prepare\<close> stands for. Every desired module is compiled under the
  contract, with a valid digest for each of its images, in the order of the instances; the claims
  of all modules and links are free of collisions; the generated artifacts are those of the modules
  and links; the bundle carries the target, the subject, the kind, the backup requirement, exactly
  these artifacts and exactly the steps of the operation: the artifacts are applied, then the
  actions of the accepted transition and the validation action of the subject run; when the subject
  is not among the desired modules, which only an uninstall allows, the artifacts are applied and
  nothing else runs. No step mutates when the operation is a validation. The plan that is returned
  names the steps of the bundle, one for one, with what they are said to mutate. The store holds
  the bundle's bytes under its identifier and is otherwise unchanged.
\<close>

theorem prepare_sound:
  assumes "prepare_operation pu decode resolve prefix_ok tar_write parts io req fs = (Inr p, fs')"
  shows "\<exists>mods ups. let b = pop_Bundle p; m = bun_Manifest b in
    mset (map cmp_Desired mods) = mset (req_DesiredModules req) \<and>
    sorted (map cmp_Instance mods) \<and> distinct (map cmp_Instance mods) \<and>
    list_all (\<lambda>m. module_contract pu (cmp_Contract m) \<and> pinned m) mods \<and>
    validate_claims mods (pop_LinkNetworks p) (obs_Claims (req_Observed req)) = Inr () \<and>
    derive_links prefix_ok mods (obs_Networks (req_Observed req)) = Inr (pop_LinkNetworks p) \<and>
    pop_Artifacts p = generate_artifacts mods (pop_LinkNetworks p) \<and>
    validate_update req mods = Inr ups \<and>
    man_TargetID m = req_TargetID req \<and> man_SubjectID m = req_SubjectInstance req \<and>
    man_Kind m = bundle_kind_of (req_Operation req) \<and> man_BackupRequired m = req_BackupRequired req \<and>
    mset (man_Artifacts m) = mset (map (artifact_of \<circ> artifact_file) (pop_Artifacts p)) \<and>
    (case find_instance (req_SubjectInstance req) mods of
       Some s \<Rightarrow> man_Steps m = expected_steps req (pop_Artifacts p) s ups
     | None \<Rightarrow> req_Operation req = Uninstall \<and> ups = [] \<and> man_Steps m = map apply_step (pop_Artifacts p)) \<and>
    map (\<lambda>s. (stp_ID s, stp_Mutating s)) (man_Steps m) = map (\<lambda>s. (pls_ID s, pls_Mutating s)) (pop_Plan p) \<and>
    pop_PlanRequired p = (req_Operation req \<noteq> Validate) \<and>
    list_all (\<lambda>s. req_Operation req \<noteq> Validate \<or> \<not> stp_Mutating s) (man_Steps m) \<and>
    fs' = fs(tar_name (bun_ID b) \<mapsto> bun_Bytes b) \<and> fs (tar_name (bun_ID b)) \<in> {None, Some (bun_Bytes b)}"
proof -
  obtain a b where a: "analyse pu decode resolve prefix_ok req = Inr a" and p: "p = prepared_of req a b"
    and b: "assemble_bytes tar_write parts (bundle_input_of req a) = Inr b"
    and st: "store io (bun_ID b) (bun_Bytes b) fs = (Inr (), fs')"
    using prepare_Inr [OF assms] by blast
  note ana = analyse_Inr [OF a]
  note mods = compile_modules_Inr [OF ana(2)]
  have "distinct (map des_InstanceID (req_DesiredModules req))"
    using ana(1) by (simp add: validate_request_def result_simps)
  moreover have "mset (map des_InstanceID (map cmp_Desired (ana_Mods a))) = mset (map des_InstanceID (req_DesiredModules req))"
    using mods by (metis mset_map)
  ultimately have dist: "distinct (map cmp_Instance (ana_Mods a))"
    by (metis (no_types, lifting) list.map_comp comp_apply mset_eq_imp_distinct_iff map_cong)
  have contracts: "list_all (\<lambda>m. module_contract pu (cmp_Contract m) \<and> pinned m) (ana_Mods a)"
    using mods compile_desired_Inr unfolding list_all_iff by blast
  note man = assembled_manifest [OF b]
  have steps: "case find_instance (req_SubjectInstance req) (ana_Mods a) of
       Some s \<Rightarrow> man_Steps (bun_Manifest b) = expected_steps req (ana_Artifacts a) s (ana_Updates a)
     | None \<Rightarrow> req_Operation req = Uninstall \<and> ana_Updates a = [] \<and>
         man_Steps (bun_Manifest b) = map apply_step (ana_Artifacts a)"
    using build_plan_steps [OF ana(10)] build_plan_detached [OF ana(10)] ana(3) man
    by (auto simp: validate_subject_def start_plan_steps split: option.split if_splits)
  have plan: "map (\<lambda>s. (stp_ID s, stp_Mutating s)) (man_Steps (bun_Manifest b)) =
      map (\<lambda>s. (pls_ID s, pls_Mutating s)) (pst_Plan (ana_Plan a))"
    using build_plan_steps [OF ana(10)] build_plan_detached [OF ana(10)] man
    by (cases "find_instance (req_SubjectInstance req) (ana_Mods a)") (auto simp: start_plan_steps)
  have quiet: "list_all (\<lambda>s. req_Operation req \<noteq> Validate \<or> \<not> stp_Mutating s) (man_Steps (bun_Manifest b))"
  proof (cases "req_Operation req = Validate")
    case True
    then have "inp_Kind (bundle_input_of req a) = Validation" by simp
    then have "\<forall>s\<in>set (pst_Steps (ana_Plan a)). \<not> stp_Mutating s"
      using man by (simp add: validate_input_def result_simps)
    then show ?thesis using man by (auto simp: list_all_iff)
  qed (simp add: list_all_iff)
  show ?thesis
    unfolding Let_def p prepared_fields
    by (rule exI [of _ "ana_Mods a"], rule exI [of _ "ana_Updates a"])
      (use mods dist contracts ana(5,6,8,9) man steps plan quiet stored_cases [OF st] in simp)
qed

text \<open>
  an uninstall is exact. It goes through only when the subject is gone from the desired
  modules, is observed with exactly the version, package and digest of its frozen source, has no
  image whose resolved digest differs from the installed one, and no module that stays depends on
  the module that goes.
\<close>

theorem uninstall_exact:
  assumes "prepare_operation pu decode resolve prefix_ok tar_write parts io req fs = (Inr p, fs')"
    and "req_Operation req = Uninstall"
  shows "\<exists>s o' m mods. req_SubjectSource req = Some s \<and> o' \<in> set (obs_Modules (req_Observed req)) \<and>
    obm_InstanceID o' = req_SubjectInstance req \<and> module_contract pu m \<and>
    obm_Version o' = mod_Version m \<and> obm_PackageID o' = fsr_PackageID s \<and> obm_PackageSHA256 o' = fsr_PackageSHA256 s \<and>
    compile_modules pu decode resolve req = Inr mods \<and>
    (\<forall>i\<in>keys_of (mod_Images m). \<exists>d. resolve (req_SubjectInstance req) i (img_Ref (the (map_of (mod_Images m) i))) = Inr d \<and>
       valid_digest d \<and> map_get (obm_ImageDigests o') i \<in> {[], d}) \<and>
    (\<forall>d\<in>set (req_DesiredModules req). des_InstanceID d \<noteq> req_SubjectInstance req) \<and>
    (obm_ModuleID o' \<noteq> [] \<longrightarrow>
      (\<forall>c\<in>set mods. \<forall>d\<in>set (mod_Dependencies (cmp_Contract c)). dep_TargetModule d \<noteq> obm_ModuleID o'))"
proof -
  obtain a b where a: "analyse pu decode resolve prefix_ok req = Inr a" using prepare_Inr [OF assms(1)] by blast
  note ana = analyse_Inr [OF a]
  note mods = compile_modules_Inr [OF ana(2)]
  obtain s m o' images where s: "req_SubjectSource req = Some s"
      "compile_module pu decode (fsr_PackageFS s) = Inr m" "observed_subject req = Some o'"
      "obm_Version o' = mod_Version m" "obm_PackageID o' = fsr_PackageID s" "obm_PackageSHA256 o' = fsr_PackageSHA256 s"
      "req_SubjectInstance req \<notin> cmp_Instance ` set (ana_Mods a)"
      and images: "compile_images ''resolve uninstall image %s/%s: %w''
        ''registry returned invalid digest for uninstall subject %s/%s'' resolve (req_SubjectInstance req)
        (\<lambda>i digest. reject_if (map_get (obm_ImageDigests o') i \<noteq> [] \<and> map_get (obm_ImageDigests o') i \<noteq> digest)
           (Errf ''uninstall image digest drift for %s/%s'' [req_SubjectInstance req, i])) m = Inr images"
    using ana(4) assms(2)
    by (auto simp: compile_detached_subject_def Let_def result_simps split: option.splits)
  have o': "o' \<in> set (obs_Modules (req_Observed req))" "obm_InstanceID o' = req_SubjectInstance req"
    using find_Some_in [OF s(3) [unfolded observed_subject_def]] by auto
  have gone: "\<forall>d\<in>set (req_DesiredModules req). des_InstanceID d \<noteq> req_SubjectInstance req"
  proof
    fix d assume "d \<in> set (req_DesiredModules req)"
    then have "d \<in> cmp_Desired ` set (ana_Mods a)" using mods by (metis list.set_map mset_eq_setD)
    then show "des_InstanceID d \<noteq> req_SubjectInstance req" using s(7) by (metis imageE imageI)
  qed
  have free: "obm_ModuleID o' \<noteq> [] \<longrightarrow>
      (\<forall>c\<in>set (ana_Mods a). \<forall>d\<in>set (mod_Dependencies (cmp_Contract c)). dep_TargetModule d \<noteq> obm_ModuleID o')"
    using ana(7) [OF assms(2)] s(3) by (auto simp: validate_provider_removal_def Let_def result_simps split: if_splits)
  have digests: "\<exists>d. resolve (req_SubjectInstance req) i (img_Ref (the (map_of (mod_Images m) i))) = Inr d \<and>
       valid_digest d \<and> map_get (obm_ImageDigests o') i \<in> {[], d}" if i: "i \<in> keys_of (mod_Images m)" for i
    using compile_images_resolved [OF images i] by (auto simp: result_simps)
  show ?thesis
    by (intro exI [of _ s] exI [of _ o'] exI [of _ m] exI [of _ "ana_Mods a"] conjI ballI s(1,4-6) o' ana(2)
        compile_module_contract [OF s(2)] digests gone [rule_format] free)
qed

subsection \<open>The order of the desired modules does not matter\<close>

lemma map_r_permuted:
  assumes "map_r f xs = Inr ys" and "mset xs = mset xs'"
  shows "\<exists>ys'. map_r f xs' = Inr ys' \<and> mset ys' = mset ys"
proof -
  define g where "g x = (case f x of Inr y \<Rightarrow> y | Inl e \<Rightarrow> undefined)" for x
  have all: "list_all2 (\<lambda>x y. f x = Inr y) xs ys" using assms(1) by (simp add: map_r_Inr_iff)
  then have ys: "ys = map g xs" by induction (auto simp: g_def)
  have "\<forall>x\<in>set xs. \<exists>y. f x = Inr y" using all by induction auto
  then have "\<forall>x\<in>set xs'. f x = Inr (g x)" using assms(2) by (metis g_def mset_eq_setD sum.case(2))
  then have "map_r f xs' = Inr (map g xs')" by (induction xs') auto
  then show ?thesis using ys assms(2) by (metis mset_map)
qed

lemma compile_modules_permuted:
  assumes c: "compile_modules pu decode resolve req = Inr mods" and perm: "mset ds = mset (req_DesiredModules req)"
    and dist: "distinct (map des_InstanceID ds)"
  shows "compile_modules pu decode resolve (req\<lparr>req_DesiredModules := ds\<rparr>) = Inr mods"
proof -
  obtain ms where ms: "map_r (compile_desired pu decode resolve req) (req_DesiredModules req) = Inr ms"
    "mods = sort_key cmp_Instance ms" using c by (auto simp: compile_modules_def result_simps)
  obtain ms' where ms': "map_r (compile_desired pu decode resolve req) ds = Inr ms'" "mset ms' = mset ms"
    using map_r_permuted [OF ms(1) perm [symmetric]] by blast
  have same: "compile_desired pu decode resolve (req\<lparr>req_DesiredModules := ds\<rparr>) = compile_desired pu decode resolve req"
    by (rule ext) (simp add: compile_desired_def)
  have "list_all2 (\<lambda>d m. compile_desired pu decode resolve req d = Inr m \<and> cmp_Desired m = d) ds ms'"
    using ms'(1) unfolding map_r_Inr_iff by (rule list_all2_mono) (use compile_desired_Inr in blast)
  then have "map cmp_Desired ms' = ds" by induction auto
  then have "map cmp_Instance ms' = map des_InstanceID ds" by (metis (no_types, lifting) list.map_comp comp_apply map_cong)
  then have "inj_on cmp_Instance (set ms')" using dist by (metis distinct_map)
  then have "sort_key cmp_Instance ms' = sort_key cmp_Instance ms" by (rule sort_key_canonical [OF ms'(2)])
  then show ?thesis by (simp add: compile_modules_def same ms'(1) ms(2))
qed

lemma request_parts_permuted:
  "validate_subject (req\<lparr>req_DesiredModules := ds\<rparr>) = validate_subject req"
  "compile_detached_subject pu decode resolve (req\<lparr>req_DesiredModules := ds\<rparr>) = compile_detached_subject pu decode resolve req"
  "validate_provider_removal (req\<lparr>req_DesiredModules := ds\<rparr>) = validate_provider_removal req"
  "validate_update (req\<lparr>req_DesiredModules := ds\<rparr>) = validate_update req"
  "build_plan (req\<lparr>req_DesiredModules := ds\<rparr>) = build_plan req"
proof -
  have o': "observed_subject (req\<lparr>req_DesiredModules := ds\<rparr>) = observed_subject req" by (simp add: observed_subject_def)
  have act: "append_action (req\<lparr>req_DesiredModules := ds\<rparr>) = append_action req"
    by (intro ext) (simp add: append_action_def Let_def split: prod.split option.split)
  show "validate_subject (req\<lparr>req_DesiredModules := ds\<rparr>) = validate_subject req"
    "validate_provider_removal (req\<lparr>req_DesiredModules := ds\<rparr>) = validate_provider_removal req"
    "validate_update (req\<lparr>req_DesiredModules := ds\<rparr>) = validate_update req"
    "build_plan (req\<lparr>req_DesiredModules := ds\<rparr>) = build_plan req"
    "compile_detached_subject pu decode resolve (req\<lparr>req_DesiredModules := ds\<rparr>) = compile_detached_subject pu decode resolve req"
    by (intro ext; simp add: validate_subject_def validate_provider_removal_def validate_update_def build_plan_def
        compile_detached_subject_def o' act Let_def cong: if_cong option.case_cong)+
qed

lemma analyse_permuted:
  assumes a: "analyse pu decode resolve prefix_ok req = Inr a" and perm: "mset ds = mset (req_DesiredModules req)"
  shows "analyse pu decode resolve prefix_ok (req\<lparr>req_DesiredModules := ds\<rparr>) = Inr a"
proof -
  note ana = analyse_Inr [OF a]
  have valid: "distinct (map des_InstanceID (req_DesiredModules req))" "validate_request req = Inr ()"
    using ana(1) by (simp_all add: validate_request_def result_simps)
  have "mset (map des_InstanceID ds) = mset (map des_InstanceID (req_DesiredModules req))" using perm by simp
  then have dist: "distinct (map des_InstanceID ds)" using valid(1) mset_eq_imp_distinct_iff by blast
  have "set ds = set (req_DesiredModules req)" using perm by (rule mset_eq_setD)
  then have "validate_request (req\<lparr>req_DesiredModules := ds\<rparr>) = Inr ()"
    using valid(2) dist by (simp add: validate_request_def result_simps)
  then show ?thesis
    using a unfolding analyse_def request_parts_permuted
    by (simp add: valid(2) compile_modules_permuted [OF ana(2) perm dist] ana(2))
qed

text \<open>
  C25: \<open>Prepare\<close> is deterministic in the order of the desired modules: with the modules listed in
  any other order it returns the same operation, the same bundle and the same store.
\<close>

theorem prepare_order_independent:
  assumes "prepare_operation pu decode resolve prefix_ok tar_write parts io req fs = (Inr p, fs')"
    and "mset ds = mset (req_DesiredModules req)"
  shows "prepare_operation pu decode resolve prefix_ok tar_write parts io (req\<lparr>req_DesiredModules := ds\<rparr>) fs = (Inr p, fs')"
proof -
  obtain a b where a: "analyse pu decode resolve prefix_ok req = Inr a" using prepare_Inr [OF assms(1)] by blast
  let ?req = "req\<lparr>req_DesiredModules := ds\<rparr>"
  have o': "observed_subject ?req = observed_subject req" by (simp add: observed_subject_def)
  have same: "freeze_plan_identities ?req = freeze_plan_identities req"
    "subject_bundle_identity ?req = subject_bundle_identity req" "subject_version ?req = subject_version req"
    "action_writable_paths ?req = action_writable_paths req" "expected_post ?req = expected_post req"
    "validation_specs ?req = validation_specs req" "diff_state ?req = diff_state req"
    by (intro ext; simp add: freeze_plan_identities_def subject_bundle_identity_def subject_version_def
        action_writable_paths_def expected_post_def validation_specs_def diff_state_def o' Let_def cong: option.case_cong)+
  have parts: "bundle_input_of ?req a = bundle_input_of req a" "prepared_of ?req a b = prepared_of req a b" for b
    by (simp_all add: bundle_input_of_def prepared_of_def same preconditions_def)
  show ?thesis
    using assms(1) by (simp add: prepare_operation_def a analyse_permuted [OF a assms(2)] parts cong: sum.case_cong prod.case_cong)
qed

subsection \<open>On the sample deployment\<close>

definition sample_resolve :: "bytes \<Rightarrow> bytes \<Rightarrow> bytes \<Rightarrow> bytes result" where
  "sample_resolve inst i ref = Inr sample_digest"

definition sample_uninstall :: request where
  "sample_uninstall =
     (sample_request Uninstall)\<lparr>req_DesiredModules := [], req_SubjectSource := Some (sample_source ''db1'' ''db'')\<rparr>"

abbreviation sample_prepare :: "request \<Rightarrow> prepared_operation result \<times> dir" where
  "sample_prepare req \<equiv>
     prepare_operation sample_url sample_decode sample_resolve (\<lambda>_. True) (\<lambda>_. Inr ''tar'') [] no_faults req Map.empty"

lemma sample_valid_digest: "valid_digest sample_digest" "valid_sha256 (trim_prefix sample_digest ''sha256:'')"
  by (simp_all only: sample_digest_def) code_simp+

lemma sample_compile_db:
  "compile_desired sample_url sample_decode sample_resolve (sample_request op) db_desired = Inr db_compiled"
  using compile_samples(1) sample_valid_digest(1)
  by (simp add: compile_desired_def compile_images_def sample_resolve_def sample_request_def validate_secret_bindings_def
      merge_resources_def wrap_error_def sample_defs)

lemma sample_assembles:
  assumes "validate_input i = Inr ()" and "length (inp_ActionIDs i) = length (inp_Actions i)"
    and "\<forall>f\<in>set (inp_Files i). target_path_ok (fil_TargetPath f)" and "\<forall>f\<in>set (inp_Files i @ inp_Actions i). file_ok f"
    and "distinct (map fil_Path (inp_Files i @ inp_Actions i))"
  shows "\<exists>b. assemble (\<lambda>_. Inr ''tar'') [] no_faults i Map.empty = (Inr b, [tar_name (bun_ID b) \<mapsto> ''tar''])"
proof -
  obtain x where "normalize_files i = Inr x" using normalize_files_accepts [OF assms(2)] assms(3-) by blast
  then show ?thesis
    using assms(1)
    by (cases x) (simp add: assemble_def assemble_bytes_def store_def Let_def no_faults_def flush_file_def try_op_def wrap_error_def)
qed

lemma generated_modes: "\<forall>a\<in>set (generate_artifacts mods links). gen_Mode a = mode_0444"
  by (auto simp: generate_artifacts_def module_artifacts_def quadlet_artifact_def core_artifact_def
      inventory_artifact_def mk_artifact_def)

lemma artifact_files_ok:
  assumes "mset (map artifact_place (generate_artifacts mods links)) = mset ps"
    and "\<forall>(p, t)\<in>set ps. bundle_path_ok p \<and> target_path_ok t"
  shows "(\<forall>f\<in>set (map artifact_file (generate_artifacts mods links)). target_path_ok (fil_TargetPath f) \<and> file_ok f) \<and>
    mset (map fil_Path (map artifact_file (generate_artifacts mods links))) = mset (map fst ps)"
proof -
  let ?as = "generate_artifacts mods links"
  have mode: "\<not> unsafe_mode mode_0444" by code_simp
  have places: "artifact_place ` set ?as = set ps" using assms(1) by (metis list.set_map mset_eq_setD)
  have "bundle_path_ok (gen_Path a) \<and> target_path_ok (gen_TargetPath a)" if "a \<in> set ?as" for a
  proof -
    have "artifact_place a \<in> set ps" using that places by blast
    then show ?thesis using assms(2) by (auto simp: artifact_place_def)
  qed
  then have "\<forall>f\<in>set (map artifact_file ?as). target_path_ok (fil_TargetPath f) \<and> file_ok f"
    using mode generated_modes [of mods links] by (simp add: artifact_file_def file_ok_def archived_def)
  moreover have "map fil_Path (map artifact_file ?as) = map fst (map artifact_place ?as)"
    by (simp add: artifact_file_def artifact_place_def comp_def)
  then have "mset (map fil_Path (map artifact_file ?as)) = mset (map fst ps)" using assms(1) by (metis mset_map)
  ultimately show ?thesis by blast
qed

lemma fixed_places_ok:
  "\<forall>(p, t)\<in>set fixed_files. bundle_path_ok p \<and> target_path_ok t" "distinct (map fst fixed_files)"
  by code_simp+

lemma sample_places_ok:
  "\<forall>(p, t)\<in>set (map quadlet_place (quadlet_files [db_compiled] []) @ fixed_files). bundle_path_ok p \<and> target_path_ok t"
  "distinct (''actions/db1/check.sh'' # map fst (map quadlet_place (quadlet_files [db_compiled] []) @ fixed_files))"
proof -
  have "quadlet_files [db_compiled] [] = [''vpsmith-db1-back.network'', ''vpsmith-db1-app.container'']"
    by (simp add: quadlet_files_def module_files_def module_prefix_def sample_defs)
  moreover have "\<forall>(p, t)\<in>set (map quadlet_place [''vpsmith-db1-back.network'', ''vpsmith-db1-app.container''] @ fixed_files).
      bundle_path_ok p \<and> target_path_ok t" by code_simp
  moreover have "distinct (''actions/db1/check.sh'' #
      map fst (map quadlet_place [''vpsmith-db1-back.network'', ''vpsmith-db1-app.container''] @ fixed_files))" by code_simp
  ultimately show
    "\<forall>(p, t)\<in>set (map quadlet_place (quadlet_files [db_compiled] []) @ fixed_files). bundle_path_ok p \<and> target_path_ok t"
    "distinct (''actions/db1/check.sh'' # map fst (map quadlet_place (quadlet_files [db_compiled] []) @ fixed_files))"
    by simp_all
qed

text \<open>The analysis of an installation of \<open>db1\<close>.\<close>

definition sample_plan :: plan_state where
  "sample_plan =
     (let applied = generate_artifacts [db_compiled] [] in
      \<lparr>pst_Plan = map apply_plan_step applied @ [action_plan_step (''check'', False)],
       pst_Steps = map apply_step applied @ [action_step ''check'' False],
       pst_Files = [action_file (sample_request Install) db_compiled ''check''], pst_IDs = [''check''],
       pst_Seen = {''check''}\<rparr>)"

definition sample_analysis :: analysis where
  "sample_analysis =
     \<lparr>ana_Mods = [db_compiled], ana_Detached = None, ana_Links = [], ana_Updates = [],
      ana_Artifacts = generate_artifacts [db_compiled] [], ana_Plan = sample_plan\<rparr>"

lemma sample_trims:
  "trim_space ''target_1'' \<noteq> []" "trim_space ''db1'' \<noteq> []" "trim_space ''module'' \<noteq> []" "trim_space ''db'' \<noteq> []"
  "trim_space ''1.2.0'' \<noteq> []" "trim_space ''source_1'' \<noteq> []" "trim_space ''db1/postgres'' \<noteq> []"
  "trim_space ''docker.io/library/postgres:16.3'' \<noteq> []"
  by code_simp+

lemma sample_no_links: "derive_links (\<lambda>_. True) mods [] = Inr []" if "module_dependencies mods = []"
  using that by (simp add: derive_links_def)

lemma sample_analyses: "analyse sample_url sample_decode sample_resolve (\<lambda>_. True) (sample_request Install) = Inr sample_analysis"
proof -
  have mods: "compile_modules sample_url sample_decode sample_resolve (sample_request Install) = Inr [db_compiled]"
    using sample_compile_db [of Install] by (simp add: compile_modules_def) (simp add: sample_request_def)
  have links: "derive_links (\<lambda>_. True) [db_compiled] [] = Inr []"
    by (rule sample_no_links) (simp add: module_dependencies_def sample_defs)
  have claims: "validate_claims [db_compiled] [] [] = Inr ()"
  proof -
    have "sorted_wrt (\<lambda>a b. \<not> claims_collide a b) (derive_claims [db_compiled] [])"
      by (simp add: derive_claims_def module_claims_def claims_collide_def mk_claim_def module_prefix_def sample_defs)
    then show ?thesis by (simp add: validate_claims_Inr_iff observed_claims_def)
  qed
  have inst: "find_instance ''db1'' [db_compiled] = Some db_compiled"
    by (simp add: find_instance_def sample_defs)
  have acts: "mod_Actions (cmp_Contract db_compiled) = [(''check'', ''actions/check.sh'')]"
    "mod_ValidationAction (cmp_Contract db_compiled) = ''check''" by (simp_all add: sample_defs)
  have plan: "build_plan (sample_request Install) [db_compiled] (generate_artifacts [db_compiled] []) [] = Inr sample_plan"
    by (simp add: build_plan_def sample_request_def inst append_action_def sample_plan_def action_plan_step_def
        action_file_def map_get_def Let_def acts)
  have "validate_request (sample_request Install) = Inr ()"
    by (simp add: validate_request_def sample_request_def sample_defs sample_trims)
  then show ?thesis
    using mods links claims plan
    by (simp add: analyse_def sample_analysis_def validate_subject_def compile_detached_subject_def validate_update_def
        Let_def) (simp add: sample_request_def inst)
qed

lemma db_identity:
  "mod_ID (cmp_Contract db_compiled) = ''db''" "mod_Version (cmp_Contract db_compiled) = ''1.2.0''"
  "mod_Persistent (cmp_Contract db_compiled) = [\<lparr>sto_ID = ''data'', sto_Path = ''/srv/db''\<rparr>]"
  "fsr_PackageSHA256 (des_Source (cmp_Desired db_compiled)) = sample_sha"
  "src_Kind (source_identity_of db_compiled) = ''module''" "src_ID (source_identity_of db_compiled) = ''source_1''"
  "src_Version (source_identity_of db_compiled) = ''1.2.0''" "src_PackageSHA256 (source_identity_of db_compiled) = sample_sha"
  "src_GitCommit (source_identity_of db_compiled) = []"
  "image_identities_of db_compiled =
     [\<lparr>imi_Name = ''db1/postgres'', imi_Ref = ''docker.io/library/postgres:16.3'', imi_Digest = sample_digest\<rparr>]"
  "valid_sha256 sample_sha" "has_prefix sample_digest ''sha256:''" "writable_path_ok ''/srv/db''"
proof -
  show "valid_sha256 sample_sha" unfolding sample_sha_def by code_simp
  show "has_prefix sample_digest ''sha256:''" unfolding sample_digest_def by code_simp
  show "writable_path_ok ''/srv/db''" by code_simp
qed (simp_all add: source_identity_of_def image_identities_of_def image_ref_def map_get_def sample_defs)

lemma sample_input_ok: "validate_input (bundle_input_of (sample_request Install) sample_analysis) = Inr ()"
proof -
  have inst: "find_instance ''db1'' [db_compiled] = Some db_compiled"
    by (simp add: find_instance_def sample_defs)
  show ?thesis
    using db_identity(11-13) sample_valid_digest(2)
    by (simp add: validate_input_def bundle_input_of_def sample_analysis_def freeze_plan_identities_def
        subject_bundle_identity_def subject_version_def action_writable_paths_def sample_request_def inst db_identity(1-10)
        sample_plan_def complete_source_def complete_image_def sample_trims Let_def)
qed

lemma sample_operation_prepared:
  "\<exists>b. sample_prepare (sample_request Install) =
     (Inr (prepared_of (sample_request Install) sample_analysis b), [tar_name (bun_ID b) \<mapsto> ''tar''])"
proof -
  let ?i = "bundle_input_of (sample_request Install) sample_analysis"
  let ?ps = "map quadlet_place (quadlet_files [db_compiled] []) @ fixed_files"
  have files: "inp_Files ?i = map artifact_file (generate_artifacts [db_compiled] [])"
    "inp_Actions ?i = [action_file (sample_request Install) db_compiled ''check'']" "inp_ActionIDs ?i = [''check'']"
    by (simp_all add: bundle_input_of_def sample_analysis_def sample_plan_def Let_def split: prod.split)
  have act: "fil_Path (action_file (sample_request Install) db_compiled ''check'') = ''actions/db1/check.sh''"
    "fil_Mode (action_file (sample_request Install) db_compiled ''check'') = mode_0555"
  proof -
    have "path_base ''actions/check.sh'' = ''check.sh''" by code_simp
    then show "fil_Path (action_file (sample_request Install) db_compiled ''check'') = ''actions/db1/check.sh''"
      "fil_Mode (action_file (sample_request Install) db_compiled ''check'') = mode_0555"
      by (simp_all add: action_file_def sample_request_def map_get_def sample_defs)
  qed
  have act_ok: "file_ok (action_file (sample_request Install) db_compiled ''check'')"
  proof -
    have "bundle_path_ok ''actions/db1/check.sh''" "\<not> unsafe_mode mode_0555" by code_simp+
    then show ?thesis by (simp add: file_ok_def archived_def act)
  qed
  note places = artifact_files_ok [OF generate_artifacts_places sample_places_ok(1)]
  have m: "mset (map fil_Path (inp_Files ?i @ inp_Actions ?i)) = mset (''actions/db1/check.sh'' # map fst ?ps)"
    using places unfolding files by (simp add: act)
  have "distinct (map fil_Path (inp_Files ?i @ inp_Actions ?i))"
    using sample_places_ok(2) by (simp only: mset_eq_imp_distinct_iff [OF m])
  then obtain b where "assemble (\<lambda>_. Inr ''tar'') [] no_faults ?i Map.empty = (Inr b, [tar_name (bun_ID b) \<mapsto> ''tar''])"
    using sample_assembles [OF sample_input_ok] places act_ok unfolding files by auto
  then show ?thesis by (auto simp: prepare_operation_def sample_analyses)
qed

theorem prepare_sound_witness:
  "\<exists>p fs' mods. sample_prepare (sample_request Install) = (Inr p, fs') \<and>
     map cmp_Instance mods = [''db1''] \<and> list_all pinned mods \<and>
     man_TargetID (bun_Manifest (pop_Bundle p)) = ''target_1'' \<and> fs' (tar_name (bun_ID (pop_Bundle p))) \<noteq> None"
proof -
  obtain b where b: "sample_prepare (sample_request Install) =
      (Inr (prepared_of (sample_request Install) sample_analysis b), [tar_name (bun_ID b) \<mapsto> ''tar''])"
    using sample_operation_prepared by blast
  from prepare_sound [OF this] obtain mods where mods: "mset (map cmp_Desired mods) = mset [db_desired]"
      "list_all (\<lambda>m. module_contract sample_url (cmp_Contract m) \<and> pinned m) mods"
      "man_TargetID (bun_Manifest b) = ''target_1''"
    by (auto simp: Let_def sample_request_def)
  have "map cmp_Desired mods = [db_desired]"
    using mods(1) by (cases mods; cases "tl mods") auto
  then have "map cmp_Instance mods = [''db1'']" by (auto simp: sample_defs)
  moreover have "list_all pinned mods" using mods(2) by (simp add: list_all_iff)
  ultimately show ?thesis
    using b mods(3)
    by (intro exI [of _ "prepared_of (sample_request Install) sample_analysis b"]
        exI [of _ "[tar_name (bun_ID b) \<mapsto> ''tar'']"] exI [of _ mods]) simp
qed

theorem prepare_order_independent_witness:
  "\<exists>p fs'. sample_prepare ((sample_request Install)\<lparr>req_DesiredModules := [db_desired]\<rparr>) = (Inr p, fs')"
  using sample_operation_prepared prepare_order_independent [of sample_url sample_decode sample_resolve "\<lambda>_. True" "\<lambda>_. Inr ''tar''" "[]"
      no_faults "sample_request Install" Map.empty _ _ "[db_desired]"]
  by (auto simp: sample_request_def)

definition uninstall_analysis :: analysis where
  "uninstall_analysis =
     \<lparr>ana_Mods = [], ana_Detached = Some db_compiled, ana_Links = [], ana_Updates = [],
      ana_Artifacts = generate_artifacts [] [], ana_Plan = start_plan sample_uninstall (generate_artifacts [] [])\<rparr>"

lemma uninstall_fields:
  "req_Operation sample_uninstall = Uninstall" "req_SubjectInstance sample_uninstall = ''db1''"
  "req_DesiredModules sample_uninstall = []" "req_SubjectSource sample_uninstall = Some (sample_source ''db1'' ''db'')"
  "req_TargetID sample_uninstall = ''target_1''" "req_CoreContract sample_uninstall = ''2''"
  "req_SubjectSecretIDs sample_uninstall = []" "obs_TargetID (req_Observed sample_uninstall) = ''target_1''"
  "obs_Networks (req_Observed sample_uninstall) = []" "obs_Claims (req_Observed sample_uninstall) = []"
  "observed_subject sample_uninstall = Some sample_observed_db" "src_ID (req_CoreSource sample_uninstall) = []"
  by (simp_all add: sample_uninstall_def sample_request_def observed_subject_def sample_observed_db_def)

lemma uninstall_detached:
  "compile_detached_subject sample_url sample_decode sample_resolve sample_uninstall [] = Inr (Some db_compiled)"
  using compile_samples(1) sample_valid_digest(1)
  by (simp add: compile_detached_subject_def uninstall_fields compile_images_def sample_resolve_def
      validate_secret_bindings_def wrap_error_def sample_observed_db_def map_get_def Let_def sample_defs)

lemma uninstall_analyses:
  "analyse sample_url sample_decode sample_resolve (\<lambda>_. True) sample_uninstall = Inr uninstall_analysis"
proof -
  have "compile_modules sample_url sample_decode sample_resolve sample_uninstall = Inr []"
    by (simp add: compile_modules_def uninstall_fields)
  moreover have "validate_claims [] [] [] = Inr ()" by (simp add: validate_claims_def derive_claims_def)
  moreover have "derive_links (\<lambda>_. True) [] [] = Inr []" by (rule sample_no_links) (simp add: module_dependencies_def)
  moreover have "validate_request sample_uninstall = Inr ()"
    by (simp add: validate_request_def uninstall_fields sample_trims)
  moreover have "build_plan sample_uninstall [] as [] = Inr (start_plan sample_uninstall as)" for as
    by (simp add: build_plan_fold plan_actions_def find_instance_def)
  ultimately show ?thesis
    by (simp add: analyse_def validate_subject_def uninstall_fields uninstall_detached validate_provider_removal_def
        validate_update_def uninstall_analysis_def Let_def)
qed

lemma uninstall_prepared:
  "\<exists>b. sample_prepare sample_uninstall =
     (Inr (prepared_of sample_uninstall uninstall_analysis b), [tar_name (bun_ID b) \<mapsto> ''tar''])"
proof -
  let ?i = "bundle_input_of sample_uninstall uninstall_analysis"
  have files: "inp_Files ?i = map artifact_file (generate_artifacts [] [])" "inp_Actions ?i = []" "inp_ActionIDs ?i = []"
    by (simp_all add: bundle_input_of_def uninstall_analysis_def start_plan_def Let_def split: prod.split)
  have inst: "cmp_Instance db_compiled = ''db1''" by (simp add: sample_defs)
  have valid: "validate_input ?i = Inr ()"
    using db_identity(11-13) sample_valid_digest(2)
    by (simp add: validate_input_def bundle_input_of_def uninstall_analysis_def freeze_plan_identities_def
        subject_bundle_identity_def subject_version_def action_writable_paths_def uninstall_fields find_instance_def
        db_identity(1-10) start_plan_def complete_source_def complete_image_def sample_trims inst Let_def)
  have "mset (map artifact_place (generate_artifacts [] [])) = mset fixed_files"
    using generate_artifacts_places [of "[]" "[]"] by (simp add: quadlet_files_def)
  note places = artifact_files_ok [OF this fixed_places_ok(1)]
  have m: "mset (map fil_Path (inp_Files ?i @ inp_Actions ?i)) = mset (map fst fixed_files)"
    using places unfolding files by simp
  have "distinct (map fil_Path (inp_Files ?i @ inp_Actions ?i))"
    using fixed_places_ok(2) by (simp only: mset_eq_imp_distinct_iff [OF m])
  then obtain b where "assemble (\<lambda>_. Inr ''tar'') [] no_faults ?i Map.empty = (Inr b, [tar_name (bun_ID b) \<mapsto> ''tar''])"
    using sample_assembles [OF valid] places unfolding files by auto
  then show ?thesis by (auto simp: prepare_operation_def uninstall_analyses)
qed

theorem uninstall_exact_witness:
  "\<exists>o'\<in>set (obs_Modules (req_Observed sample_uninstall)). obm_InstanceID o' = ''db1'' \<and> obm_PackageSHA256 o' = sample_sha"
proof -
  obtain b where b: "sample_prepare sample_uninstall =
      (Inr (prepared_of sample_uninstall uninstall_analysis b), [tar_name (bun_ID b) \<mapsto> ''tar''])"
    using uninstall_prepared by blast
  from uninstall_exact [OF this uninstall_fields(1)] obtain s o' where
    "req_SubjectSource sample_uninstall = Some s" "o' \<in> set (obs_Modules (req_Observed sample_uninstall))"
    "obm_InstanceID o' = req_SubjectInstance sample_uninstall" "obm_PackageSHA256 o' = fsr_PackageSHA256 s" by blast
  then show ?thesis by (intro bexI [of _ o']) (auto simp: uninstall_fields sample_source_def)
qed

end
