(* ===== verification/Deploy_Input.thy ===== *)
theory Deploy_Input
  imports Deploy_Graph Mgmt_Types
begin

section \<open>Observed networks as input of the compiler\<close>

text \<open>
  \<open>internal/deploymentinput/network.go\<close>: the facts that the management state keeps of a target,
  translated into the network list of a deployment request.
\<close>

definition managed_link :: "link_observed \<Rightarrow> observed_network" where
  "managed_link l = \<lparr>obn_Name = lko_Name l, obn_Subnet = lko_Subnet l, obn_Relationship = lko_Relationship l\<rparr>"

definition add_link ::
  "bytes set \<times> observed_network list \<Rightarrow> link_observed \<Rightarrow> (bytes set \<times> observed_network list) result" where
  "add_link st l =
     (if \<not> lko_Present l then Inr st
      else
        also_r (checks
          [reject_if (\<not> lko_DefinitionMatches l)
             (Errf ''observed Link-Net %s differs from its managed definition'' [lko_Name l]),
           reject_if (trim_space (lko_Name l) = [] \<or> trim_space (lko_Subnet l) = [] \<or> trim_space (lko_Relationship l) = [])
             (Err ''observed managed Link-Net identity is incomplete''),
           reject_if (lko_Name l \<in> fst st) (Errf ''duplicate observed managed Link-Net %s'' [lko_Name l])])
        (Inr (insert (lko_Name l) (fst st), snd st @ [managed_link l])))"

definition foreign_networks :: "network_observed \<Rightarrow> observed_network list" where
  "foreign_networks n =
     (if nto_Subnets n = [] then [\<lparr>obn_Name = nto_Name n, obn_Subnet = [], obn_Relationship = []\<rparr>]
      else map (\<lambda>s. \<lparr>obn_Name = nto_Name n, obn_Subnet = s, obn_Relationship = []\<rparr>) (nto_Subnets n))"

definition add_network :: "bytes set \<Rightarrow> observed_network list \<Rightarrow> network_observed \<Rightarrow> observed_network list result" where
  "add_network managed out n =
     (if \<not> nto_Present n then Inr out
      else also_r (reject_if (trim_space (nto_Name n) = []) (Err ''observed Podman network name is empty''))
        (Inr (if nto_Name n \<in> managed then out else out @ foreign_networks n)))"

definition deployment_networks :: "target_observed \<Rightarrow> observed_network list result" where
  "deployment_networks v =
     bind_r (fold_r add_link ({}, []) (tob_LinkNetworks v)) (\<lambda>(managed, links).
     bind_r (fold_r (add_network managed) links (tob_PodmanNetworks v)) (\<lambda>out.
     Inr (sort_key (\<lambda>n. (obn_Name n, obn_Subnet n, obn_Relationship n)) out)))"

subsection \<open>What the translation keeps\<close>

definition link_complete :: "link_observed \<Rightarrow> bool" where
  "link_complete l =
     (lko_DefinitionMatches l \<and> trim_space (lko_Name l) \<noteq> [] \<and> trim_space (lko_Subnet l) \<noteq> [] \<and>
      trim_space (lko_Relationship l) \<noteq> [])"

abbreviation present_links :: "target_observed \<Rightarrow> link_observed list" where
  "present_links v \<equiv> filter lko_Present (tob_LinkNetworks v)"

abbreviation foreign_nets :: "target_observed \<Rightarrow> network_observed list" where
  "foreign_nets v \<equiv>
     filter (\<lambda>n. nto_Present n \<and> nto_Name n \<notin> lko_Name ` set (present_links v)) (tob_PodmanNetworks v)"

lemma add_links_Inr_iff:
  "fold_r add_link (seen, out) ls = Inr (seen', out') \<longleftrightarrow>
     (\<forall>l\<in>set (filter lko_Present ls). link_complete l) \<and> distinct (map lko_Name (filter lko_Present ls)) \<and>
     lko_Name ` set (filter lko_Present ls) \<inter> seen = {} \<and>
     seen' = seen \<union> lko_Name ` set (filter lko_Present ls) \<and> out' = out @ map managed_link (filter lko_Present ls)"
proof (induction ls arbitrary: seen out)
  case (Cons l ls)
  show ?case
  proof (cases "lko_Present l")
    case True
    have "fold_r add_link (seen, out) (l # ls) = Inr (seen', out') \<longleftrightarrow>
        link_complete l \<and> lko_Name l \<notin> seen \<and>
        fold_r add_link (insert (lko_Name l) seen, out @ [managed_link l]) ls = Inr (seen', out')"
      using True by (auto simp: add_link_def link_complete_def result_simps)
    then show ?thesis using True by (auto simp: Cons.IH)
  next
    case False
    then show ?thesis using Cons.IH by (simp add: add_link_def)
  qed
qed auto

lemma add_networks_Inr_iff:
  "fold_r (add_network managed) out ns = Inr out' \<longleftrightarrow>
     (\<forall>n\<in>set ns. nto_Present n \<longrightarrow> trim_space (nto_Name n) \<noteq> []) \<and>
     out' = out @ concat (map foreign_networks (filter (\<lambda>n. nto_Present n \<and> nto_Name n \<notin> managed) ns))"
proof (induction ns arbitrary: out)
  case (Cons n ns)
  have "fold_r (add_network managed) out (n # ns) = Inr out' \<longleftrightarrow>
      (nto_Present n \<longrightarrow> trim_space (nto_Name n) \<noteq> []) \<and>
      fold_r (add_network managed) (if nto_Present n \<and> nto_Name n \<notin> managed then out @ foreign_networks n else out) ns = Inr out'"
    by (auto simp: add_network_def result_simps)
  then show ?case by (auto simp: Cons.IH)
qed auto

lemma deployment_networks_Inr_iff:
  "deployment_networks v = Inr out \<longleftrightarrow>
     (\<forall>l\<in>set (present_links v). link_complete l) \<and> distinct (map lko_Name (present_links v)) \<and>
     (\<forall>n\<in>set (tob_PodmanNetworks v). nto_Present n \<longrightarrow> trim_space (nto_Name n) \<noteq> []) \<and>
     out = sort_key (\<lambda>n. (obn_Name n, obn_Subnet n, obn_Relationship n))
       (map managed_link (present_links v) @ concat (map foreign_networks (foreign_nets v)))"
  unfolding deployment_networks_def bind_r_Inr_iff split_paired_Ex prod.case add_links_Inr_iff add_networks_Inr_iff
  by auto

text \<open>
  the translation succeeds exactly when every present link is complete, matches its definition
  and has its own name and every present network has a name. The compiler then sees each managed
  link once with its relationship, every subnet of every other present network without one, and
  nothing else; so a relationship is claimed by managed links only, and no subnet on the target is
  hidden from the collision check.
\<close>

theorem deployment_networks_faithful:
  "deployment_networks v = Inr out \<longleftrightarrow>
     list_all link_complete (present_links v) \<and> distinct (map lko_Name (present_links v)) \<and>
     list_all (\<lambda>n. trim_space (nto_Name n) \<noteq> []) (filter nto_Present (tob_PodmanNetworks v)) \<and>
     mset out = mset (map managed_link (present_links v)) + mset (concat (map foreign_networks (foreign_nets v))) \<and>
     sorted (map (\<lambda>n. (obn_Name n, obn_Subnet n, obn_Relationship n)) out)"
proof -
  let ?key = "\<lambda>n. (obn_Name n, obn_Subnet n, obn_Relationship n)"
  let ?all = "map managed_link (present_links v) @ concat (map foreign_networks (foreign_nets v))"
  have inj: "inj_on ?key A" for A :: "observed_network set" by (auto intro!: inj_onI observed_network.equality)
  have "out = sort_key ?key ?all \<longleftrightarrow> mset out = mset ?all \<and> sorted (map ?key out)"
    using sorted_is_sort_key [of out ?all ?key] inj by auto
  then show ?thesis
    unfolding deployment_networks_Inr_iff by (auto simp: list_all_iff)
qed

end
