(* ===== verification/Go_Action.thy ===== *)
theory Go_Action
  imports Prelude
begin

section \<open>Operations with a state and an error\<close>

text \<open>
  Code that calls the operating system or a target changes a state and may fail on the way: an
  \<open>action\<close> maps a state to a result and the state it leaves, after an error too. The combinators are
  the control flow of the Go code (sequencing with an early return, loops, wrapping of an error,
  a deferred clean-up), and \<open>leaves\<close> is the weakest precondition with which the proofs about
  actions are computed: its equations follow the combinators, the loops have an invariant rule.
\<close>

type_synonym ('s, 'a) action = "'s \<Rightarrow> 'a result \<times> 's"

definition ret_s :: "'a \<Rightarrow> ('s, 'a) action" where
  "ret_s x s = (Inr x, s)"

definition lift_s :: "'a result \<Rightarrow> ('s, 'a) action" where
  "lift_s r s = (r, s)"

definition read_s :: "('s \<Rightarrow> 'a result) \<Rightarrow> ('s, 'a) action" where
  "read_s f s = (f s, s)"

definition bind_s :: "('s, 'a) action \<Rightarrow> ('a \<Rightarrow> ('s, 'b) action) \<Rightarrow> ('s, 'b) action" where
  "bind_s m f s = (case m s of (Inl e, s') \<Rightarrow> (Inl e, s') | (Inr x, s') \<Rightarrow> f x s')"

definition also_s :: "('s, unit) action \<Rightarrow> ('s, 'a) action \<Rightarrow> ('s, 'a) action" where
  "also_s m k = bind_s m (\<lambda>_. k)"

definition wrap_s :: "string \<Rightarrow> string list \<Rightarrow> ('s, 'a) action \<Rightarrow> ('s, 'a) action" where
  "wrap_s fmt args m s = (case m s of (Inl e, s') \<Rightarrow> (Inl (Wrapf fmt args e), s') | (Inr x, s') \<Rightarrow> (Inr x, s'))"

text \<open>A deferred clean-up whose own error is ignored; \<open>on_error_s\<close> runs it only after a failure.\<close>

definition defer_s :: "('s \<Rightarrow> 's) \<Rightarrow> ('s, 'a) action \<Rightarrow> ('s, 'a) action" where
  "defer_s undo m s = (let (r, s') = m s in (r, undo s'))"

definition on_error_s :: "('s \<Rightarrow> 's) \<Rightarrow> ('s, 'a) action \<Rightarrow> ('s, 'a) action" where
  "on_error_s undo m s = (case m s of (Inl e, s') \<Rightarrow> (Inl e, undo s') | (Inr x, s') \<Rightarrow> (Inr x, s'))"

text \<open>An error that is looked at before it is returned.\<close>

definition rescue_s :: "('s, 'a) action \<Rightarrow> (error \<Rightarrow> ('s, 'a) action) \<Rightarrow> ('s, 'a) action" where
  "rescue_s m g s = (case m s of (Inl e, s') \<Rightarrow> g e s' | (Inr x, s') \<Rightarrow> (Inr x, s'))"

fun each_s :: "('a \<Rightarrow> ('s, unit) action) \<Rightarrow> 'a list \<Rightarrow> ('s, unit) action" where
  "each_s f [] = ret_s ()"
| "each_s f (x # xs) = also_s (f x) (each_s f xs)"

fun fold_s :: "('b \<Rightarrow> 'a \<Rightarrow> ('s, 'b) action) \<Rightarrow> 'b \<Rightarrow> 'a list \<Rightarrow> ('s, 'b) action" where
  "fold_s f b [] = ret_s b"
| "fold_s f b (x # xs) = bind_s (f b x) (\<lambda>b'. fold_s f b' xs)"

lemma also_s_assoc: "also_s (also_s a b) c = also_s a (also_s b c)"
  by (intro ext) (simp add: also_s_def bind_s_def split: prod.split sum.split)

lemma also_s_ret [simp]: "also_s (ret_s ()) m = m"
  by (intro ext) (simp add: also_s_def bind_s_def ret_s_def)

subsection \<open>What an action leaves\<close>

definition leaves :: "('s, 'a) action \<Rightarrow> ('a result \<Rightarrow> 's \<Rightarrow> bool) \<Rightarrow> 's \<Rightarrow> bool" where
  "leaves m Q s = Q (fst (m s)) (snd (m s))"

text \<open>The postcondition of an action that is followed by another one.\<close>

definition goes_on :: "('a \<Rightarrow> 's \<Rightarrow> bool) \<Rightarrow> (error \<Rightarrow> 's \<Rightarrow> bool) \<Rightarrow> 'a result \<Rightarrow> 's \<Rightarrow> bool" where
  "goes_on Q E r s = (case r of Inl e \<Rightarrow> E e s | Inr x \<Rightarrow> Q x s)"

lemma goes_on_simps [simp]: "goes_on Q E (Inl e) s = E e s" "goes_on Q E (Inr x) s = Q x s"
  by (simp_all add: goes_on_def)

lemma goes_on_refl [simp]: "goes_on (\<lambda>x. Q (Inr x)) (\<lambda>e. Q (Inl e)) = Q"
  by (intro ext) (simp add: goes_on_def split: sum.split)

lemma leaves_ret [simp]: "leaves (ret_s x) Q s = Q (Inr x) s"
  by (simp add: leaves_def ret_s_def)

lemma leaves_lift [simp]: "leaves (lift_s r) Q s = Q r s"
  by (simp add: leaves_def lift_s_def)

lemma leaves_read [simp]: "leaves (read_s f) Q s = Q (f s) s"
  by (simp add: leaves_def read_s_def)

lemma leaves_bind [simp]:
  "leaves (bind_s m f) Q s = leaves m (goes_on (\<lambda>x. leaves (f x) Q) (\<lambda>e. Q (Inl e))) s"
  by (simp add: leaves_def bind_s_def goes_on_def split: prod.split sum.split)

lemma leaves_also [simp]:
  "leaves (also_s m k) Q s = leaves m (goes_on (\<lambda>_. leaves k Q) (\<lambda>e. Q (Inl e))) s"
  by (simp add: also_s_def)

lemma leaves_wrap [simp]:
  "leaves (wrap_s fmt args m) Q s = leaves m (goes_on (\<lambda>x. Q (Inr x)) (\<lambda>e. Q (Inl (Wrapf fmt args e)))) s"
  by (simp add: leaves_def wrap_s_def goes_on_def split: prod.split sum.split)

lemma leaves_defer [simp]: "leaves (defer_s undo m) Q s = leaves m (\<lambda>r s'. Q r (undo s')) s"
  by (simp add: leaves_def defer_s_def split: prod.split)

lemma leaves_on_error [simp]:
  "leaves (on_error_s undo m) Q s = leaves m (goes_on (\<lambda>x. Q (Inr x)) (\<lambda>e s'. Q (Inl e) (undo s'))) s"
  by (simp add: leaves_def on_error_s_def goes_on_def split: prod.split sum.split)

lemma leaves_rescue [simp]:
  "leaves (rescue_s m g) Q s = leaves m (goes_on (\<lambda>x. Q (Inr x)) (\<lambda>e. leaves (g e) Q)) s"
  by (simp add: leaves_def rescue_s_def goes_on_def split: prod.split sum.split)

lemma leaves_mono: "leaves m P s \<Longrightarrow> (\<And>r s'. P r s' \<Longrightarrow> Q r s') \<Longrightarrow> leaves m Q s"
  by (simp add: leaves_def)

lemma leaves_goes_on_mono:
  assumes "leaves m (goes_on P F) s" "\<And>x s'. P x s' \<Longrightarrow> Q x s'" "\<And>e s'. F e s' \<Longrightarrow> E e s'"
  shows "leaves m (goes_on Q E) s"
  using assms by (auto simp: leaves_def goes_on_def split: sum.split)

lemma leaves_bindI:
  assumes "leaves m P s" "\<And>x s'. P (Inr x) s' \<Longrightarrow> leaves (f x) Q s'" "\<And>e s'. P (Inl e) s' \<Longrightarrow> Q (Inl e) s'"
  shows "leaves (bind_s m f) Q s"
  using assms by (auto simp: leaves_def bind_s_def split: prod.split sum.split)

lemma leaves_alsoI:
  assumes "leaves m P s" "\<And>s'. P (Inr ()) s' \<Longrightarrow> leaves k Q s'" "\<And>e s'. P (Inl e) s' \<Longrightarrow> Q (Inl e) s'"
  shows "leaves (also_s m k) Q s"
  unfolding also_s_def by (rule leaves_bindI [OF assms(1)]) (auto intro: assms(2,3))

lemma leaves_conj: "leaves m (\<lambda>r s'. P r s' \<and> Q r s') s \<longleftrightarrow> leaves m P s \<and> leaves m Q s"
  by (simp add: leaves_def)

lemma leavesD: "leaves m Q s \<Longrightarrow> m s = (r, s') \<Longrightarrow> Q r s'"
  by (simp add: leaves_def)

lemma leavesI: "(\<And>r s'. m s = (r, s') \<Longrightarrow> Q r s') \<Longrightarrow> leaves m Q s"
  by (simp add: leaves_def)

text \<open>The loop rules: the invariant may speak of the elements that are already handled.\<close>

lemma leaves_each:
  assumes "I [] s"
    and "\<And>done x todo s. \<lbrakk>xs = done @ x # todo; I done s\<rbrakk> \<Longrightarrow>
           leaves (f x) (goes_on (\<lambda>_. I (done @ [x])) E) s"
  shows "leaves (each_s f xs) (goes_on (\<lambda>_. I xs) E) s"
proof -
  have "I done s \<Longrightarrow> xs = done @ todo \<Longrightarrow> leaves (each_s f todo) (goes_on (\<lambda>_. I xs) E) s" for "done" todo s
  proof (induction todo arbitrary: "done" s)
    case (Cons x todo)
    from Cons.prems(2) have xs: "xs = (done @ [x]) @ todo" by simp
    from assms(2) [OF Cons.prems(2,1)] show ?case
      by (auto elim!: leaves_goes_on_mono dest: Cons.IH [OF _ xs])
  qed simp
  from this [OF assms(1)] show ?thesis by simp
qed

lemma leaves_fold:
  assumes "I [] b s"
    and "\<And>done x todo b s. \<lbrakk>xs = done @ x # todo; I done b s\<rbrakk> \<Longrightarrow>
           leaves (f b x) (goes_on (\<lambda>b'. I (done @ [x]) b') E) s"
  shows "leaves (fold_s f b xs) (goes_on (\<lambda>b'. I xs b') E) s"
proof -
  have "I done b s \<Longrightarrow> xs = done @ todo \<Longrightarrow> leaves (fold_s f b todo) (goes_on (\<lambda>b'. I xs b') E) s"
    for "done" todo b s
  proof (induction todo arbitrary: "done" b s)
    case (Cons x todo)
    from Cons.prems(2) have xs: "xs = (done @ [x]) @ todo" by simp
    from assms(2) [OF Cons.prems(2,1)] show ?case
      by (auto elim!: leaves_goes_on_mono dest: Cons.IH [OF _ xs])
  qed simp
  from this [OF assms(1)] show ?thesis by simp
qed

text \<open>What every step of an action maintains, on its error paths as well.\<close>

definition maintains :: "('s \<Rightarrow> bool) \<Rightarrow> ('s, 'a) action \<Rightarrow> bool" where
  "maintains K m \<longleftrightarrow> (\<forall>s. K s \<longrightarrow> leaves m (\<lambda>_. K) s)"

lemma maintainsI: "(\<And>s. K s \<Longrightarrow> leaves m (\<lambda>_. K) s) \<Longrightarrow> maintains K m"
  by (simp add: maintains_def)

lemma maintains_simple [intro, simp]: "maintains K (ret_s x)" "maintains K (lift_s r)" "maintains K (read_s f)"
  by (simp_all add: maintains_def)

lemma maintains_bind [intro!]: "maintains K m \<Longrightarrow> (\<And>x. maintains K (f x)) \<Longrightarrow> maintains K (bind_s m f)"
  by (auto simp: maintains_def leaves_def bind_s_def split: prod.split sum.split)

lemma maintains_also [intro!]: "maintains K m \<Longrightarrow> maintains K k \<Longrightarrow> maintains K (also_s m k)"
  by (auto simp: also_s_def)

lemma maintains_wrap [intro!]: "maintains K m \<Longrightarrow> maintains K (wrap_s fmt args m)"
  by (auto simp: maintains_def leaves_def wrap_s_def split: prod.split sum.split)

lemma maintains_rescue [intro!]: "maintains K m \<Longrightarrow> (\<And>e. maintains K (g e)) \<Longrightarrow> maintains K (rescue_s m g)"
  by (auto simp: maintains_def leaves_def rescue_s_def split: prod.split sum.split)

lemma maintains_each [intro!]: "(\<And>x. x \<in> set xs \<Longrightarrow> maintains K (f x)) \<Longrightarrow> maintains K (each_s f xs)"
  by (induction xs) auto

lemma maintains_fold [intro!]: "(\<And>b x. x \<in> set xs \<Longrightarrow> maintains K (f b x)) \<Longrightarrow> maintains K (fold_s f b xs)"
  by (induction xs arbitrary: b) auto

text \<open>
  A frame is a reflexive and transitive relation between the states before and after: what every
  step keeps, the whole action keeps.
\<close>

locale frame =
  fixes keeps :: "'s \<Rightarrow> 's \<Rightarrow> bool"
  assumes keeps_refl: "keeps s s"
    and keeps_trans: "keeps s t \<Longrightarrow> keeps t u \<Longrightarrow> keeps s u"
begin

definition framed :: "('s, 'a) action \<Rightarrow> bool" where
  "framed m \<longleftrightarrow> (\<forall>s. keeps s (snd (m s)))"

lemma framed_ret [intro, simp]: "framed (ret_s x)" "framed (lift_s r)" "framed (read_s f)"
  by (simp_all add: framed_def ret_s_def lift_s_def read_s_def keeps_refl)

lemma framed_bind [intro]:
  assumes "framed m" "\<And>x. framed (f x)"
  shows "framed (bind_s m f)"
  using assms unfolding framed_def bind_s_def
  by (auto split: prod.split sum.split) (metis keeps_trans snd_conv)+

lemma framed_also [intro]: "framed m \<Longrightarrow> framed k \<Longrightarrow> framed (also_s m k)"
  unfolding also_s_def by (rule framed_bind)

lemma framed_wrap [intro]: "framed m \<Longrightarrow> framed (wrap_s fmt args m)"
  unfolding framed_def wrap_s_def by (auto split: prod.split sum.split) (metis snd_conv)+

lemma framed_rescue [intro]:
  assumes "framed m" "\<And>e. framed (g e)"
  shows "framed (rescue_s m g)"
  using assms unfolding framed_def rescue_s_def
  by (auto split: prod.split sum.split) (metis keeps_trans snd_conv)+

lemma framed_each [intro]:
  assumes "\<And>x. x \<in> set xs \<Longrightarrow> framed (f x)"
  shows "framed (each_s f xs)"
  using assms by (induction xs) auto

lemma framed_fold [intro]:
  assumes "\<And>b x. x \<in> set xs \<Longrightarrow> framed (f b x)"
  shows "framed (fold_s f b xs)"
  using assms by (induction xs arbitrary: b) auto

end

end
