(* ===== verification/Registry.thy ===== *)
theory Registry
  imports Deploy_Plan Go_Action Bundle_Archive
begin

section \<open>Pinning image references\<close>

text \<open>
  \<open>internal/registry\<close>: a tagged image reference is resolved to a digest by asking the registry for the
  manifest, with a bearer token when the registry demands one. The HTTP client, the parsing of URLs and
  the decoding of the token answer are parameters (\<open>oci_env\<close>); closing a response is not modelled. Names of
  registries are ASCII: \<open>to_lower\<close> leaves the letters of other scripts as they are.
\<close>

subsection \<open>References\<close>

record image_reference =
  imr_Registry :: bytes
  imr_Repository :: bytes
  imr_Tag :: bytes

definition parse_reference :: "bytes \<Rightarrow> image_reference result" where
  "parse_reference ref0 =
     (let ref = trim_space ref0;
          registry = takeWhile (\<lambda>c. c \<noteq> CHR ''/'') ref;
          remainder = drop (length registry + 1) ref;
          colon = last_index CHR '':'' remainder;
          repository = take (nat colon) remainder;
          tag = drop (nat colon + 1) remainder in
      also_r (checks
        [reject_if (ref = [] \<or> contains_any ref (''@?#'' @ [CHR 0x0D, CHR 0x0A, CHR 0x00]))
           (Err ''image reference must be a fixed tagged reference''),
         reject_if (CHR ''/'' \<notin> set ref \<or> registry = [] \<or> remainder = [])
           (Err ''image reference must include registry and repository''),
         reject_if (colon \<le> 0 \<or> colon = int (length remainder) - 1)
           (Err ''image reference must include explicit tag''),
         reject_if (contains_str repository ''..'' \<or> has_prefix repository ''/'' \<or> contains_any repository ('' '' @ [CHR 0x09]))
           (Err ''image repository is invalid''),
         reject_if (equal_fold_latest tag \<or> contains_any tag ''*<>=^~| '')
           (Err ''image tag must be fixed and must not be latest'')])
        (Inr \<lparr>imr_Registry = to_lower registry, imr_Repository = repository, imr_Tag = tag\<rparr>))"

definition hex_char :: "char \<Rightarrow> bool" where
  "hex_char c = (c \<in> set ''0123456789abcdefABCDEF'')"

definition valid_sha256_digest :: "bytes \<Rightarrow> bool" where
  "valid_sha256_digest v = (length v = 71 \<and> has_prefix (to_lower v) ''sha256:'' \<and> list_all hex_char (drop 7 v))"

subsection \<open>The challenge of a registry\<close>

lemma trim_space_length: "length (trim_space s) \<le> length s"
proof -
  obtain a b where "s = a @ trim_space s @ b" using trim_space_infix by blast
  then have "length s = length a + length (trim_space s) + length b" by (metis length_append add.assoc)
  then show ?thesis by simp
qed

text \<open>The parameters are a map; a later one replaces an earlier one of the same name.\<close>

function challenge_params :: "bytes \<Rightarrow> (bytes \<times> bytes) list \<Rightarrow> (bytes \<times> bytes) list result" where
  "challenge_params rest params =
     (if rest = [] then Inr params
      else
        let name = takeWhile (\<lambda>c. c \<noteq> CHR ''='') rest in
        if CHR ''='' \<notin> set rest \<or> name = [] then Inl (Err ''invalid registry Bearer challenge'')
        else
          case trim_space (drop (length name + 1) rest) of
            [] \<Rightarrow> Inl (Err ''invalid registry Bearer challenge value'')
          | q # r \<Rightarrow>
              if q \<noteq> CHR 0x22 then Inl (Err ''invalid registry Bearer challenge value'')
              else
                let v = takeWhile (\<lambda>c. c \<noteq> CHR 0x22) r; params' = AList.update (trim_space name) v params in
                if CHR 0x22 \<notin> set r then Inl (Err ''unterminated registry Bearer challenge value'')
                else
                  case trim_space (drop (length v + 1) r) of
                    [] \<Rightarrow> Inr params'
                  | c # later \<Rightarrow>
                      if c \<noteq> CHR '','' then Inl (Err ''invalid registry Bearer challenge separator'')
                      else challenge_params (trim_space later) params')"
  by pat_completeness auto

termination
proof (relation "measure (\<lambda>(rest, params). length rest)")
  fix rest :: bytes and params name q r v params' c later
  assume a: "trim_space (drop (length name + 1) rest) = q # r" "trim_space (drop (length v + 1) r) = c # later"
  have "length (trim_space later) \<le> length later" by (rule trim_space_length)
  moreover have "Suc (length later) \<le> length r" using trim_space_length [of "drop (length v + 1) r"] a(2) by simp
  moreover have "Suc (length r) \<le> length rest" using trim_space_length [of "drop (length name + 1) rest"] a(1) by simp
  ultimately show "((trim_space later, params'), rest, params) \<in> measure (\<lambda>(rest, params). length rest)" by simp
qed simp

declare challenge_params.simps [simp del]

definition param :: "bytes \<Rightarrow> (bytes \<times> bytes) list \<Rightarrow> bytes" where
  "param k params = (case map_of params k of None \<Rightarrow> [] | Some v \<Rightarrow> v)"

definition parse_bearer_challenge :: "bytes \<Rightarrow> (bytes \<times> (bytes \<times> bytes) list) result" where
  "parse_bearer_challenge value0 =
     (let v = trim_space value0 in
      also_r (reject_if (length v < 7 \<or> map ascii_lower (take 6 v) \<noteq> ''bearer'')
        (Err ''registry did not provide a supported Bearer challenge''))
     (bind_r (challenge_params (trim_space (drop 6 v)) []) (\<lambda>params.
      also_r (reject_if (param ''realm'' params = []) (Err ''registry Bearer challenge has no realm''))
        (Inr (param ''realm'' params, params)))))"

subsection \<open>The client\<close>

record http_request =
  hrq_Url :: bytes
  hrq_Header :: "(bytes \<times> bytes) list"

record http_response =
  hrs_Code :: int
  hrs_Status :: bytes
  hrs_Header :: "bytes \<Rightarrow> bytes"
  hrs_Body :: bytes
  hrs_Fault :: "error option"

text \<open>A URL that was parsed: how it reads with the given values set in its query.\<close>

record realm_url =
  rlm_Scheme :: bytes
  rlm_Host :: bytes
  rlm_With :: "(bytes \<times> bytes) list \<Rightarrow> bytes"

record 'w oci_env =
  oci_Endpoints :: "(bytes \<times> bytes) list"
  oci_NewRequest :: "bytes \<Rightarrow> unit result"
  oci_Do :: "http_request \<Rightarrow> ('w, http_response) action"
  oci_ParseURL :: "bytes \<Rightarrow> realm_url result"
  oci_ReadToken :: "bytes \<Rightarrow> error option \<Rightarrow> (bytes \<times> bytes) result"

text \<open>What a reader with a limit yields: the error of the body is met only before the limit.\<close>

definition read_limited :: "nat \<Rightarrow> http_response \<Rightarrow> bytes \<times> error option" where
  "read_limited n r = (take n (hrs_Body r), if length (hrs_Body r) < n then hrs_Fault r else None)"

definition read_all :: "nat \<Rightarrow> http_response \<Rightarrow> bytes result" where
  "read_all n r = (case read_limited n r of (body, None) \<Rightarrow> Inr body | (body, Some e) \<Rightarrow> Inl e)"

definition manifest_accept :: bytes where
  "manifest_accept =
     ''application/vnd.oci.image.manifest.v1+json, application/vnd.oci.image.index.v1+json, '' @
     ''application/vnd.docker.distribution.manifest.v2+json, application/vnd.docker.distribution.manifest.list.v2+json''"

definition manifest_limit :: nat where "manifest_limit = 16777216"

definition token_limit :: nat where "token_limit = 1048576"

text \<open>\<open>url.PathEscape\<close>\<close>

definition path_char :: "char \<Rightarrow> bool" where
  "path_char c =
     (c \<in> set (''abcdefghijklmnopqrstuvwxyz'' @ ''ABCDEFGHIJKLMNOPQRSTUVWXYZ'' @ ''0123456789-_.~$&+:=@''))"

definition upper_hex :: "nat \<Rightarrow> char" where
  "upper_hex n = ''0123456789ABCDEF'' ! n"

definition path_escape :: "bytes \<Rightarrow> bytes" where
  "path_escape s =
     concat (map (\<lambda>c. if path_char c then [c] else [CHR ''%'', upper_hex (of_char c div 16), upper_hex (of_char c mod 16)]) s)"

definition trim_slashes :: "bytes \<Rightarrow> bytes" where
  "trim_slashes s = rev (dropWhile (\<lambda>c. c = CHR ''/'') (rev s))"

definition manifest_url :: "('w, 'x) oci_env_scheme \<Rightarrow> image_reference \<Rightarrow> bytes" where
  "manifest_url env img =
     (let known = param (imr_Registry img) (oci_Endpoints env);
          endpoint = (if known = []
            then ''https://'' @ (if imr_Registry img = ''docker.io'' then ''registry-1.docker.io'' else imr_Registry img)
            else known) in
      trim_slashes endpoint @ ''/v2/'' @ imr_Repository img @ ''/manifests/'' @ path_escape (imr_Tag img))"

definition manifest_request :: "('w, 'x) oci_env_scheme \<Rightarrow> bytes \<Rightarrow> bytes \<Rightarrow> ('w, http_response) action" where
  "manifest_request env target token =
     also_s (lift_s (oci_NewRequest env target))
       (wrap_s ''request registry manifest: %w'' []
         (oci_Do env \<lparr>hrq_Url = target,
            hrq_Header = (''Accept'', manifest_accept) # (if token = [] then [] else [(''Authorization'', ''Bearer '' @ token)])\<rparr>))"

definition realm_of :: "('w, 'x) oci_env_scheme \<Rightarrow> bytes \<Rightarrow> realm_url result" where
  "realm_of env realm =
     (case oci_ParseURL env realm of
        Inl e \<Rightarrow> Inl (Err ''registry bearer challenge has invalid realm'')
      | Inr u \<Rightarrow>
          also_r (reject_if (rlm_Scheme u \<noteq> ''https'' \<and> rlm_Scheme u \<noteq> ''http'' \<or> rlm_Host u = [])
            (Err ''registry bearer challenge has invalid realm'')) (Inr u))"

definition usable_token :: "bytes \<times> bytes \<Rightarrow> bytes result" where
  "usable_token x =
     (case x of (token, access) \<Rightarrow>
      let t = (if token = [] then access else token) in
      also_r (reject_if (t = [] \<or> contains_any t [CHR 0x0D, CHR 0x0A]) (Err ''registry bearer token is empty or invalid'')) (Inr t))"

definition bearer_token :: "('w, 'x) oci_env_scheme \<Rightarrow> bytes \<Rightarrow> ('w, bytes) action" where
  "bearer_token env challenge =
     bind_s (lift_s (parse_bearer_challenge challenge)) (\<lambda>(realm, params).
     bind_s (lift_s (realm_of env realm)) (\<lambda>u.
     let target = rlm_With u (filter (\<lambda>(k, v). v \<noteq> []) (map (\<lambda>k. (k, param k params)) [''service'', ''scope''])) in
     also_s (lift_s (oci_NewRequest env target))
    (bind_s (wrap_s ''request registry bearer token: %w'' [] (oci_Do env \<lparr>hrq_Url = target, hrq_Header = []\<rparr>)) (\<lambda>resp.
     also_s (lift_s (reject_if (hrs_Code resp \<noteq> 200) (Errf ''registry token request returned %s'' [hrs_Status resp])))
    (bind_s (wrap_s ''decode registry bearer token: %w'' []
       (lift_s (case read_limited token_limit resp of (body, e) \<Rightarrow> oci_ReadToken env body e))) (\<lambda>answer.
     lift_s (usable_token answer)))))))"

definition manifest_digest :: "http_response \<Rightarrow> bytes result" where
  "manifest_digest resp =
     also_r (reject_if (hrs_Code resp \<noteq> 200) (Errf ''registry manifest request returned %s'' [hrs_Status resp]))
    (bind_r (wrap_error ''read registry manifest: %w'' [] (read_all manifest_limit resp)) (\<lambda>body.
     let named = trim_space (hrs_Header resp ''Docker-Content-Digest'');
         digest = (if named = [] then ''sha256:'' @ sha256_hex body else named) in
     also_r (reject_if (\<not> valid_sha256_digest digest) (Err ''registry returned invalid manifest digest''))
       (Inr (to_lower digest))))"

definition oci_resolve :: "('w, 'x) oci_env_scheme \<Rightarrow> bytes \<Rightarrow> ('w, bytes) action" where
  "oci_resolve env ref =
     bind_s (lift_s (parse_reference ref)) (\<lambda>img.
     bind_s (manifest_request env (manifest_url env img) []) (\<lambda>resp.
     bind_s (if hrs_Code resp = 401
             then bind_s (bearer_token env (hrs_Header resp ''WWW-Authenticate'')) (\<lambda>token.
                    manifest_request env (manifest_url env img) token)
             else ret_s resp) (\<lambda>answer.
     lift_s (manifest_digest answer))))"

subsection \<open>Challenges are read back\<close>

text \<open>A challenge as a registry prints it, without spaces: the parameters are read back in order.\<close>

definition print_param :: "bytes \<times> bytes \<Rightarrow> bytes" where
  "print_param x = fst x @ [CHR ''='', CHR 0x22] @ snd x @ [CHR 0x22]"

definition printable :: "bytes \<times> bytes \<Rightarrow> bool" where
  "printable x \<longleftrightarrow>
     fst x \<noteq> [] \<and> set (fst x) \<inter> insert (CHR ''='') (set (concat space_runes)) = {} \<and>
     set (snd x) \<inter> insert (CHR 0x22) (set (concat space_runes)) = {}"

lemma takeWhile_before: "a \<notin> set s \<Longrightarrow> takeWhile (\<lambda>c. c \<noteq> a) (s @ a # t) = s"
  by (induction s) auto

lemma no_space_chars: "set [CHR ''='', CHR 0x22, CHR '',''] \<inter> set (concat space_runes) = {}"
  by code_simp

lemma challenge_roundtrip:
  assumes "\<forall>x\<in>set ps. printable x" "distinct (map fst ps)" "fst ` set ps \<inter> fst ` set seen = {}"
  shows "challenge_params (join_with '','' (map print_param ps)) seen = Inr (seen @ ps)"
  using assms
proof (induction ps arbitrary: seen)
  case Nil
  then show ?case by (simp add: challenge_params.simps)
next
  case (Cons x ps)
  obtain k v where x: "x = (k, v)" by fastforce
  let ?rest = "join_with '','' (map print_param ps)"
  let ?tail = "if ps = [] then [] else CHR '','' # ?rest"
  have printed: "join_with '','' (map print_param (x # ps)) = k @ CHR ''='' # CHR 0x22 # v @ CHR 0x22 # ?tail"
    by (cases ps) (simp_all add: x print_param_def)
  have free: "set (join_with '','' (map print_param qs)) \<inter> set (concat space_runes) = {}" if "\<forall>x\<in>set qs. printable x" for qs
    using that
  proof (induction qs)
    case (Cons y qs)
    then show ?case using no_space_chars by (cases qs) (auto simp: print_param_def printable_def)
  qed simp
  have xp: "printable x" "\<forall>x\<in>set ps. printable x" using Cons.prems(1) by simp_all
  have k: "k \<noteq> []" "CHR ''='' \<notin> set k" "set k \<inter> set (concat space_runes) = {}"
    and v: "CHR 0x22 \<notin> set v" "set v \<inter> set (concat space_runes) = {}"
    using xp(1) x by (auto simp: printable_def)
  have tail: "set ?tail \<inter> set (concat space_runes) = {}" using free [OF xp(2)] no_space_chars by auto
  have trimmed: "trim_space (CHR 0x22 # v @ CHR 0x22 # ?tail) = CHR 0x22 # v @ CHR 0x22 # ?tail"
    "trim_space ?tail = ?tail" "trim_space ?rest = ?rest" "trim_space k = k"
    using k(3) v(2) tail free [OF xp(2)] no_space_chars by (intro trim_space_free; auto)+
  have new: "AList.update k v seen = seen @ [(k, v)]"
    using Cons.prems(3) x by (induction seen) auto
  have next_step: "challenge_params ?rest (seen @ [(k, v)]) = Inr (seen @ x # ps)"
    using Cons.IH [OF xp(2), of "seen @ [(k, v)]"] Cons.prems(2,3) x by auto
  show ?case
  proof (cases "ps = []")
    case True
    then show ?thesis
      unfolding printed using trimmed new k v x
      by (subst challenge_params.simps) (simp add: Let_def takeWhile_before)
  next
    case False
    then show ?thesis
      unfolding printed using trimmed new k v x next_step
      by (subst challenge_params.simps) (simp add: Let_def takeWhile_before)
  qed
qed

subsection \<open>What is resolved\<close>

lemma to_lower_word:
  assumes "to_lower v = w @ rest" "set w \<subseteq> set ''abcdefghjlmnopqrstuvwxyz0123456789:''"
  shows "\<exists>u. v = take (length w) v @ u \<and> length (take (length w) v) = length w \<and> to_lower u = rest"
  using assms
proof (induction w arbitrary: v)
  case (Cons c w)
  obtain a s where v: "v = a # s" using Cons.prems(1) by (cases v) auto
  have "c \<noteq> CHR ''k''" "c \<noteq> CHR ''i''" using Cons.prems(2) by auto
  then have "to_lower s = w @ rest" using Cons.prems(1) v by (auto split: if_splits)
  from Cons.IH [OF this] show ?case using Cons.prems(2) v by auto
qed simp

definition lower_hex :: "char \<Rightarrow> bool" where
  "lower_hex c \<longleftrightarrow> c \<in> set ''0123456789abcdef''"

lemma valid_sha256_lower: "valid_sha256 v \<longleftrightarrow> length v = 64 \<and> list_all lower_hex v"
  unfolding valid_sha256_def lower_hex_def [abs_def] ..

lemma hex_char_lower: "hex_char c \<Longrightarrow> lower_hex (ascii_lower c) \<and> c \<noteq> CHR 0xE2 \<and> c \<noteq> CHR 0xC4"
proof -
  have "\<forall>c\<in>set ''0123456789abcdefABCDEF''. lower_hex (ascii_lower c) \<and> c \<noteq> CHR 0xE2 \<and> c \<noteq> CHR 0xC4" by code_simp
  then show "hex_char c \<Longrightarrow> lower_hex (ascii_lower c) \<and> c \<noteq> CHR 0xE2 \<and> c \<noteq> CHR 0xC4"
    unfolding hex_char_def by (rule bspec)
qed

lemma lower_hex_value: "lower_hex c \<Longrightarrow> hex_value c \<noteq> None"
proof -
  have "\<forall>c\<in>set ''0123456789abcdef''. hex_value c \<noteq> None" by code_simp
  then show "lower_hex c \<Longrightarrow> hex_value c \<noteq> None" unfolding lower_hex_def by (rule bspec)
qed

lemma to_lower_hex: "list_all hex_char s \<Longrightarrow> to_lower s = map ascii_lower s"
proof (induction s)
  case (Cons c s)
  then have "c \<noteq> CHR 0xE2" "c \<noteq> CHR 0xC4" using hex_char_lower [of c] by simp_all
  then show ?case using Cons by (simp add: has_prefix_def)
qed simp

lemma lowered_hex: "list_all hex_char s \<Longrightarrow> list_all lower_hex (to_lower s)"
  using hex_char_lower by (simp add: to_lower_hex list_all_iff)

lemma lowered_digest:
  assumes "valid_sha256_digest v"
  shows "\<exists>h. to_lower v = ''sha256:'' @ h \<and> length h = 64 \<and> list_all lower_hex h"
proof -
  obtain h where h: "to_lower v = ''sha256:'' @ h" using assms unfolding valid_sha256_digest_def has_prefix_iff by blast
  have "set ''sha256:'' \<subseteq> set ''abcdefghjlmnopqrstuvwxyz0123456789:''" by code_simp
  from to_lower_word [OF h this] obtain u where u: "v = take (length ''sha256:'') v @ u" "to_lower u = h" by blast
  have "u = drop (length ''sha256:'') v" using u(1) by (metis append_take_drop_id same_append_eq)
  moreover have "length ''sha256:'' = 7" by simp
  ultimately have "u = drop 7 v" by (simp only:)
  then have hex: "list_all hex_char u" "length u = 64" using assms by (simp_all add: valid_sha256_digest_def)
  have "length h = 64" using hex to_lower_hex [OF hex(1)] u(2) by auto
  then show ?thesis using h lowered_hex [OF hex(1)] u(2) by blast
qed

lemma lower_hex_decodes: "list_all lower_hex s \<Longrightarrow> even (length s) \<Longrightarrow> hex_decode s \<noteq> None"
proof (induction s rule: hex_decode.induct)
  case (3 a b s)
  then show ?case using lower_hex_value [of a] lower_hex_value [of b] by (auto split: option.split)
qed auto

text \<open>
  C22: Whatever the registry answers, a reference that is resolved is resolved to a digest of the form
  \<open>sha256:\<close> and 64 lower-case hexadecimal digits, which the deployment compiler accepts.
\<close>

theorem resolved_digest:
  assumes "oci_resolve env ref w = (Inr d, w')"
  shows "valid_digest d \<and> valid_sha256 (trim_prefix d ''sha256:'')"
proof -
  obtain resp where "manifest_digest resp = Inr d"
    using assms by (auto simp: oci_resolve_def bind_s_def lift_s_def split: prod.splits sum.splits if_splits)
  then obtain v where v: "valid_sha256_digest v" "d = to_lower v" by (auto simp: manifest_digest_def Let_def result_simps)
  then obtain h where h: "d = ''sha256:'' @ h" "length h = 64" "list_all lower_hex h" using lowered_digest by blast
  then have "hex_decode h \<noteq> None" using lower_hex_decodes by simp
  then show ?thesis
    unfolding h(1) valid_digest_def valid_sha256_lower trim_prefix_append using h by (simp add: has_prefix_def)
qed

definition sample_answer :: http_response where
  "sample_answer =
     \<lparr>hrs_Code = 200, hrs_Status = ''200 OK'', hrs_Header = (\<lambda>k. ''SHA256:'' @ replicate 64 CHR ''A''), hrs_Body = ''{}'', hrs_Fault = None\<rparr>"

definition sample_registry :: "unit oci_env" where
  "sample_registry =
     \<lparr>oci_Endpoints = [], oci_NewRequest = (\<lambda>u. Inr ()),
      oci_Do = (\<lambda>r. if hrq_Url r = ''https://registry-1.docker.io/v2/library/x/manifests/1%3B'' then ret_s sample_answer else lift_s (Inl (Err ''dial''))),
      oci_ParseURL = (\<lambda>u. Inl (Err ''parse'')), oci_ReadToken = (\<lambda>b e. Inl (Err ''json''))\<rparr>"

lemma named_digest:
  assumes "hrs_Code r = 200" "read_all manifest_limit r = Inr body" "trim_space (hrs_Header r ''Docker-Content-Digest'') = v"
    and "v \<noteq> []" "valid_sha256_digest v"
  shows "manifest_digest r = Inr (to_lower v)"
  unfolding manifest_digest_def Let_def assms(2,3) using assms(1,4,5) by (simp add: wrap_error_def)

lemma sample_digest: "manifest_digest sample_answer = Inr (''sha256:'' @ replicate 64 CHR ''a'')"
proof -
  have "set ''SHA256:A'' \<inter> set (concat space_runes) = {}" by code_simp
  then have "trim_space (hrs_Header sample_answer ''Docker-Content-Digest'') = ''SHA256:'' @ replicate 64 CHR ''A''"
    by (subst trim_space_free) (auto simp: sample_answer_def)
  moreover have low: "to_lower (''SHA256:'' @ replicate 64 CHR ''A'') = ''sha256:'' @ replicate 64 CHR ''a''"
    by (simp add: to_lower_hex list_all_iff hex_char_def has_prefix_def) code_simp
  moreover have "valid_sha256_digest (''SHA256:'' @ replicate 64 CHR ''A'')"
    unfolding valid_sha256_digest_def low by (simp add: has_prefix_def list_all_iff hex_char_def)
  ultimately show ?thesis
    unfolding low [symmetric]
    by (intro named_digest [where body = "''{}''"])
      (simp_all add: read_all_def read_limited_def manifest_limit_def sample_answer_def del: append.simps to_lower.simps)
qed

lemma resolved_digest_witness:
  "valid_digest (''sha256:'' @ replicate 64 CHR ''a'') \<and> valid_sha256 (trim_prefix (''sha256:'' @ replicate 64 CHR ''a'') ''sha256:'')"
proof (rule resolved_digest)
  let ?img = "\<lparr>imr_Registry = ''docker.io'', imr_Repository = ''library/x'', imr_Tag = ''1;''\<rparr>"
  have "parse_reference ''Docker.io/library/x:1;'' = Inr ?img" by code_simp
  moreover have "manifest_url sample_registry ?img = ''https://registry-1.docker.io/v2/library/x/manifests/1%3B''" by code_simp
  moreover have "hrs_Code sample_answer = 200" by (simp add: sample_answer_def)
  ultimately show "oci_resolve sample_registry ''Docker.io/library/x:1;'' () = (Inr (''sha256:'' @ replicate 64 CHR ''a''), ())"
    using sample_digest
    by (simp add: oci_resolve_def manifest_request_def sample_registry_def bind_s_def also_s_def lift_s_def ret_s_def wrap_s_def del: append.simps)
qed

end
