(* ===== verification/Host_Files.thy ===== *)
theory Host_Files
  imports Go_Action Go_Path "HOL-Library.AList"
begin

unbundle bit_operations_syntax

section \<open>The file system of the host\<close>

text \<open>
  The calls of \<open>os\<close>, \<open>io\<close> and \<open>unix\<close> that the archive code makes, on a tree with directories,
  symbolic links, special files and regular files that share an inode when they are hard links. A
  path is the list of its components. \<open>walk\<close> resolves a path as the kernel does, following a
  symbolic link wherever it meets one, so that a call on a path may act on another place of the
  tree; \<open>ose_Fail\<close> gives the error of a call that fails for another reason and \<open>ose_Umask\<close> the bits
  that the process's file mode creation mask takes from every file and directory it makes. The times
  of directories that change because an entry is added to them, the checking of access rights and the
  limits of names are left out.
\<close>

type_synonym path = "bytes list"

record attrs =
  att_Mode :: nat
  att_Uid :: int
  att_Gid :: int
  att_Time :: int
  att_Xattrs :: "(bytes \<times> bytes) list"

datatype node = Directory attrs | Regular nat | Symlink bytes attrs | Special char attrs

record inode =
  ind_Content :: bytes
  ind_Attrs :: attrs

record files =
  fls_Nodes :: "(path \<times> node) list"
  fls_Inodes :: "(nat \<times> inode) list"
  fls_Next :: nat

record os_env =
  ose_Fail :: "bytes \<Rightarrow> path \<Rightarrow> error option"
  ose_Uid :: int
  ose_Gid :: int
  ose_Now :: int
  ose_Written :: nat
  ose_Umask :: nat

abbreviation node_at :: "files \<Rightarrow> path \<Rightarrow> node option" where
  "node_at fs \<equiv> map_of (fls_Nodes fs)"

abbreviation inode_at :: "files \<Rightarrow> nat \<Rightarrow> inode option" where
  "inode_at fs \<equiv> map_of (fls_Inodes fs)"

fun is_directory :: "node option \<Rightarrow> bool" where
  "is_directory (Some (Directory a)) = True"
| "is_directory _ = False"

fun is_symlink :: "node option \<Rightarrow> bool" where
  "is_symlink (Some (Symlink t a)) = True"
| "is_symlink _ = False"

lemma is_directory_iff: "is_directory x \<longleftrightarrow> (\<exists>a. x = Some (Directory a))"
  by (cases x rule: is_directory.cases) auto

definition err_not_exist :: error where
  "err_not_exist = Err ''no such file or directory''"

definition err_exist :: error where
  "err_exist = Err ''file exists''"

definition err_not_dir :: error where
  "err_not_dir = Err ''not a directory''"

definition err_loop :: error where
  "err_loop = Err ''too many levels of symbolic links''"

subsection \<open>Path resolution\<close>

text \<open>
  \<open>walk\<close> goes down from the directory \<open>cur\<close>; the number bounds the symbolic links it follows. The
  result is the place reached, none where a component is missing, or an error.
\<close>

function walk :: "(path \<Rightarrow> node option) \<Rightarrow> nat \<Rightarrow> path \<Rightarrow> path \<Rightarrow> path option result" where
  "walk look n cur [] = Inr (Some cur)"
| "walk look n cur (c # cs) =
     (case look cur of
        None \<Rightarrow> Inr None
      | Some (Directory a) \<Rightarrow>
          if c = [] \<or> c = ''.'' then walk look n cur cs
          else if c = ''..'' then walk look n (butlast cur) cs
          else
            (case look (cur @ [c]) of
               None \<Rightarrow> Inr None
             | Some (Symlink t b) \<Rightarrow>
                 (case n of
                    0 \<Rightarrow> Inl err_loop
                  | Suc m \<Rightarrow> walk look m (if has_prefix t ''/'' then [] else cur) (split_on CHR ''/'' t @ cs))
             | Some nd \<Rightarrow> walk look n (cur @ [c]) cs)
      | Some nd \<Rightarrow> Inl err_not_dir)"
  by pat_completeness auto
termination
  by (relation "measures [\<lambda>(look, n, cur, cs). n, \<lambda>(look, n, cur, cs). length cs]") auto

definition link_limit :: nat where
  "link_limit = 40"

definition followed :: "files \<Rightarrow> path \<Rightarrow> path option result" where
  "followed fs p = walk (node_at fs) link_limit [] p"

text \<open>Calls that do not follow a link in the last component act on the entry of its directory.\<close>

definition located :: "files \<Rightarrow> path \<Rightarrow> path option result" where
  "located fs p =
     bind_r (walk (node_at fs) link_limit [] (butlast p)) (\<lambda>d.
     case d of
       None \<Rightarrow> Inr None
     | Some d \<Rightarrow>
         (case node_at fs d of
            None \<Rightarrow> Inr None
          | Some (Directory a) \<Rightarrow> Inr (Some (d @ [last p]))
          | Some nd \<Rightarrow> Inl err_not_dir))"

definition at_place :: "path option result \<Rightarrow> path result" where
  "at_place r = bind_r r (\<lambda>p. case p of None \<Rightarrow> Inl err_not_exist | Some q \<Rightarrow> Inr q)"

subsection \<open>Changes of the tree\<close>

definition put_node :: "path \<Rightarrow> node \<Rightarrow> files \<Rightarrow> files" where
  "put_node p nd fs = fs\<lparr>fls_Nodes := AList.update p nd (fls_Nodes fs)\<rparr>"

definition put_inode :: "nat \<Rightarrow> inode \<Rightarrow> files \<Rightarrow> files" where
  "put_inode i x fs = fs\<lparr>fls_Inodes := AList.update i x (fls_Inodes fs)\<rparr>"

definition change_attrs :: "(attrs \<Rightarrow> attrs) \<Rightarrow> path \<Rightarrow> files \<Rightarrow> files" where
  "change_attrs f p fs =
     (case node_at fs p of
        None \<Rightarrow> fs
      | Some (Directory a) \<Rightarrow> put_node p (Directory (f a)) fs
      | Some (Symlink t a) \<Rightarrow> put_node p (Symlink t (f a)) fs
      | Some (Special c a) \<Rightarrow> put_node p (Special c (f a)) fs
      | Some (Regular i) \<Rightarrow>
          (case inode_at fs i of
             None \<Rightarrow> fs
           | Some x \<Rightarrow> put_inode i (x\<lparr>ind_Attrs := f (ind_Attrs x)\<rparr>) fs))"

text \<open>
  A file or directory is made with the permissions asked for less those of the umask; a symbolic link
  always has all of them, and \<open>Chmod\<close> sets what it is asked for.
\<close>

definition masked :: "nat \<Rightarrow> nat \<Rightarrow> nat" where
  "masked taken mode = (mode mod 512) AND (511 XOR (taken mod 512))"

lemma masked_bits: "bit (masked taken mode) n \<longleftrightarrow> n < 9 \<and> bit mode n \<and> \<not> bit taken n"
proof -
  have low: "x mod 512 = take_bit 9 x" for x :: nat by (simp add: take_bit_eq_mod)
  have all: "511 = (mask 9 :: nat)" by (simp add: mask_eq_exp_minus_1)
  show ?thesis unfolding masked_def low all by (auto simp: bit_simps)
qed

lemma masked_masked [simp]: "masked taken (masked taken mode) = masked taken mode"
  by (rule bit_eqI) (auto simp: masked_bits)

lemma masked_mod [simp]: "masked taken mode mod 512 = masked taken mode" "masked taken mode mod 4096 = masked taken mode"
proof -
  have "x mod 512 = take_bit 9 x" "x mod 4096 = take_bit 12 x" for x :: nat by (simp_all add: take_bit_eq_mod)
  then show "masked taken mode mod 512 = masked taken mode" "masked taken mode mod 4096 = masked taken mode"
    by (auto intro!: bit_eqI simp: masked_bits bit_simps)
qed

lemma masked_less [simp]: "masked taken mode < 512"
  by (metis masked_mod(1) mod_less_divisor zero_less_numeral)

abbreviation created_mode :: "os_env \<Rightarrow> nat \<Rightarrow> nat" where
  "created_mode io \<equiv> masked (ose_Umask io)"

definition own_attrs :: "os_env \<Rightarrow> nat \<Rightarrow> attrs" where
  "own_attrs io mode =
     \<lparr>att_Mode = mode, att_Uid = ose_Uid io, att_Gid = ose_Gid io, att_Time = ose_Now io, att_Xattrs = []\<rparr>"

definition new_attrs :: "os_env \<Rightarrow> nat \<Rightarrow> attrs" where
  "new_attrs io mode = own_attrs io (created_mode io mode)"

abbreviation link_attrs :: "os_env \<Rightarrow> attrs" where
  "link_attrs io \<equiv> own_attrs io 511"

definition update_s :: "(files \<Rightarrow> files) \<Rightarrow> (files, unit) action" where
  "update_s f fs = (Inr (), f fs)"

lemma leaves_update [simp]: "leaves (update_s f) Q fs = Q (Inr ()) (f fs)"
  by (simp add: leaves_def update_s_def)

definition try_s :: "os_env \<Rightarrow> bytes \<Rightarrow> path \<Rightarrow> (files, 'a) action \<Rightarrow> (files, 'a) action" where
  "try_s io call p m = (case ose_Fail io call p of Some e \<Rightarrow> lift_s (Inl e) | None \<Rightarrow> m)"

lemma leaves_try [simp]:
  "leaves (try_s io call p m) Q fs = (case ose_Fail io call p of Some e \<Rightarrow> Q (Inl e) fs | None \<Rightarrow> leaves m Q fs)"
  by (simp add: try_s_def split: option.split)

subsection \<open>The calls\<close>

definition os_lstat :: "os_env \<Rightarrow> path \<Rightarrow> (files, node option) action" where
  "os_lstat io p = try_s io ''lstat'' p (read_s (\<lambda>fs.
     bind_r (located fs p) (\<lambda>q. Inr (Option.bind q (node_at fs)))))"

definition os_stat :: "os_env \<Rightarrow> path \<Rightarrow> (files, node option) action" where
  "os_stat io p = try_s io ''stat'' p (read_s (\<lambda>fs.
     bind_r (followed fs p) (\<lambda>q. Inr (Option.bind q (node_at fs)))))"

text \<open>A new entry is made where none is: \<open>Mkdir\<close>, \<open>OpenFile\<close> with \<open>O_EXCL\<close>, \<open>Symlink\<close> and \<open>Link\<close>.\<close>

definition add_entry :: "os_env \<Rightarrow> bytes \<Rightarrow> path \<Rightarrow> (path \<Rightarrow> files \<Rightarrow> files) \<Rightarrow> (files, unit) action" where
  "add_entry io call p mk = try_s io call p
     (bind_s (read_s (\<lambda>fs. at_place (located fs p))) (\<lambda>q.
      also_s (read_s (\<lambda>fs. reject_if (node_at fs q \<noteq> None) err_exist))
        (update_s (mk q))))"

definition os_mkdir :: "os_env \<Rightarrow> path \<Rightarrow> nat \<Rightarrow> (files, unit) action" where
  "os_mkdir io p mode = add_entry io ''mkdir'' p (\<lambda>q. put_node q (Directory (new_attrs io mode)))"

definition os_symlink :: "os_env \<Rightarrow> bytes \<Rightarrow> path \<Rightarrow> (files, unit) action" where
  "os_symlink io target p = add_entry io ''symlink'' p (\<lambda>q. put_node q (Symlink target (link_attrs io)))"

definition make_file :: "os_env \<Rightarrow> nat \<Rightarrow> bytes \<Rightarrow> path \<Rightarrow> files \<Rightarrow> files" where
  "make_file io mode body q fs =
     put_node q (Regular (fls_Next fs))
       (put_inode (fls_Next fs) \<lparr>ind_Content = body, ind_Attrs = new_attrs io mode\<rparr>
         (fs\<lparr>fls_Next := Suc (fls_Next fs)\<rparr>))"

text \<open>
  A file that is created exclusively and filled in one copy: a copy that fails leaves a part of the
  content, a failure to close leaves all of it.
\<close>

definition os_write_new :: "os_env \<Rightarrow> path \<Rightarrow> nat \<Rightarrow> bytes \<Rightarrow> (files, unit) action" where
  "os_write_new io p mode body =
     (case ose_Fail io ''write'' p of
        Some e \<Rightarrow>
          also_s (add_entry io ''create'' p (make_file io mode (take (ose_Written io) body))) (lift_s (Inl e))
      | None \<Rightarrow>
          also_s (add_entry io ''create'' p (make_file io mode body)) (try_s io ''close'' p (ret_s ())))"

text \<open>\<open>Link\<close> does not follow a link that is its target.\<close>

definition os_link :: "os_env \<Rightarrow> path \<Rightarrow> path \<Rightarrow> (files, unit) action" where
  "os_link io target p =
     bind_s (read_s (\<lambda>fs. bind_r (at_place (located fs target)) (\<lambda>t.
        case node_at fs t of
          None \<Rightarrow> Inl err_not_exist
        | Some (Directory a) \<Rightarrow> Inl (Err ''operation not permitted'')
        | Some nd \<Rightarrow> Inr nd))) (\<lambda>nd.
     add_entry io ''link'' p (\<lambda>q. put_node q nd))"

text \<open>\<open>Chmod\<close>, \<open>Chown\<close> and \<open>Chtimes\<close> follow a link, \<open>Lchown\<close> and \<open>Lsetxattr\<close> do not.\<close>

definition set_attrs :: "os_env \<Rightarrow> bytes \<Rightarrow> (files \<Rightarrow> path \<Rightarrow> path option result) \<Rightarrow> path \<Rightarrow> (attrs \<Rightarrow> attrs) \<Rightarrow> (files, unit) action" where
  "set_attrs io call locate p f = try_s io call p
     (bind_s (read_s (\<lambda>fs. at_place (locate fs p))) (\<lambda>q.
      also_s (read_s (\<lambda>fs. reject_if (node_at fs q = None) err_not_exist))
        (update_s (change_attrs f q))))"

text \<open>
  \<open>os.Chmod\<close> passes the nine permission bits of its argument and the bits that stand for
  \<open>ModeSetuid\<close>, \<open>ModeSetgid\<close> and \<open>ModeSticky\<close> in Go's encoding; the raw bits 9 to 11 are not among them.
\<close>

definition os_chmod :: "os_env \<Rightarrow> path \<Rightarrow> nat \<Rightarrow> (files, unit) action" where
  "os_chmod io p mode = set_attrs io ''chmod'' followed p (\<lambda>a. a\<lparr>att_Mode := mode mod 512\<rparr>)"

definition os_chown :: "os_env \<Rightarrow> path \<Rightarrow> int \<Rightarrow> int \<Rightarrow> (files, unit) action" where
  "os_chown io p u g = set_attrs io ''chown'' followed p (\<lambda>a. a\<lparr>att_Uid := u, att_Gid := g\<rparr>)"

definition os_lchown :: "os_env \<Rightarrow> path \<Rightarrow> int \<Rightarrow> int \<Rightarrow> (files, unit) action" where
  "os_lchown io p u g = set_attrs io ''lchown'' located p (\<lambda>a. a\<lparr>att_Uid := u, att_Gid := g\<rparr>)"

definition os_chtimes :: "os_env \<Rightarrow> path \<Rightarrow> int \<Rightarrow> (files, unit) action" where
  "os_chtimes io p t = set_attrs io ''chtimes'' followed p (\<lambda>a. a\<lparr>att_Time := t\<rparr>)"

definition os_lsetxattr :: "os_env \<Rightarrow> path \<Rightarrow> bytes \<Rightarrow> bytes \<Rightarrow> (files, unit) action" where
  "os_lsetxattr io p k v = set_attrs io ''lsetxattr'' located p (\<lambda>a. a\<lparr>att_Xattrs := AList.update k v (att_Xattrs a)\<rparr>)"

text \<open>
  \<open>os.MkdirAll\<close>, on the components in reverse: a directory that is there is enough, otherwise the
  parents are made first; an error of \<open>Mkdir\<close> is forgiven when a directory is there by then.
\<close>

fun mkdir_up :: "os_env \<Rightarrow> nat \<Rightarrow> path \<Rightarrow> (files, unit) action" where
  "mkdir_up io mode [] = ret_s ()"
| "mkdir_up io mode (c # up) =
     (\<lambda>fs. case fst (os_stat io (rev (c # up)) fs) of
        Inr (Some (Directory a)) \<Rightarrow> ret_s () fs
      | Inr (Some nd) \<Rightarrow> lift_s (Inl err_not_dir) fs
      | _ \<Rightarrow>
          also_s (mkdir_up io mode up)
            (rescue_s (os_mkdir io (rev (c # up)) mode) (\<lambda>e. read_s (\<lambda>fs'.
               case fst (os_lstat io (rev (c # up)) fs') of
                 Inr (Some (Directory a)) \<Rightarrow> Inr ()
               | _ \<Rightarrow> Inl e))) fs)"

definition os_mkdir_all :: "os_env \<Rightarrow> path \<Rightarrow> nat \<Rightarrow> (files, unit) action" where
  "os_mkdir_all io p mode = mkdir_up io mode (rev p)"

subsection \<open>Where a call acts\<close>

text \<open>
  On a way that is clear of links, every directory of the path being a real one as far as it exists, a
  call acts on the path as it is written, or finds a part of it missing.
\<close>

definition clear_way :: "files \<Rightarrow> path \<Rightarrow> bool" where
  "clear_way fs p \<longleftrightarrow> (\<forall>k<length p. node_at fs (take k p) = None \<or> is_directory (node_at fs (take k p)))"

definition real_way :: "files \<Rightarrow> path \<Rightarrow> bool" where
  "real_way fs p \<longleftrightarrow> (\<forall>k<length p. is_directory (node_at fs (take k p)))"

abbreviation plain_path :: "path \<Rightarrow> bool" where
  "plain_path p \<equiv> (\<forall>c\<in>set p. plain_comp c)"

lemma real_way_clear [intro]: "real_way fs p \<Longrightarrow> clear_way fs p"
  by (auto simp: real_way_def clear_way_def)

lemma clear_way_butlast: "clear_way fs p \<Longrightarrow> clear_way fs (butlast p)"
  by (auto simp: clear_way_def butlast_conv_take min_def)

lemma walk_clear:
  assumes "plain_path cs" "\<forall>k<length cs. look (cur @ take k cs) = None \<or> is_directory (look (cur @ take k cs))"
    and "\<not> is_symlink (look (cur @ cs))"
  shows "walk look n cur cs = Inr None \<or>
    walk look n cur cs = Inr (Some (cur @ cs)) \<and> (\<forall>k<length cs. is_directory (look (cur @ take k cs)))
      \<and> (cs \<noteq> [] \<longrightarrow> look (cur @ cs) \<noteq> None)"
  using assms
proof (induction cs arbitrary: cur)
  case (Cons c cs)
  have plain: "c \<noteq> []" "c \<noteq> ''.''" "c \<noteq> ''..''" using Cons.prems(1) by (auto simp: plain_comp_def)
  have here: "look cur = None \<or> is_directory (look cur)" using Cons.prems(2) by (auto dest: spec [of _ 0])
  have step: "\<forall>k<length cs. look ((cur @ [c]) @ take k cs) = None \<or> is_directory (look ((cur @ [c]) @ take k cs))"
    using Cons.prems(2) by (auto dest: spec [of _ "Suc _"])
  show ?case
  proof (cases "is_directory (look cur)")
    case False
    then show ?thesis using here by simp
  next
    case True
    then obtain a where cur: "look cur = Some (Directory a)" by (auto simp: is_directory_iff)
    have IH: "walk look n (cur @ [c]) cs = Inr None \<or>
      walk look n (cur @ [c]) cs = Inr (Some (cur @ c # cs)) \<and> (\<forall>k<length cs. is_directory (look ((cur @ [c]) @ take k cs)))
      \<and> (cs \<noteq> [] \<longrightarrow> look (cur @ c # cs) \<noteq> None)"
      using Cons.IH [of "cur @ [c]"] Cons.prems(1,3) step by simp
    have all: "(\<forall>k<length (c # cs). is_directory (look (cur @ take k (c # cs))))"
      if "\<forall>k<length cs. is_directory (look ((cur @ [c]) @ take k cs))"
      using that cur by (auto simp: less_Suc_eq_0_disj)
    show ?thesis
    proof (cases "look (cur @ [c])")
      case None
      then show ?thesis using plain cur by simp
    next
      case (Some nd)
      have "\<not> is_symlink (Some nd)"
        using Cons.prems(3) step Some by (cases cs) (auto dest: spec [of _ 0] simp: is_directory_iff)
      then have eq: "walk look n cur (c # cs) = walk look n (cur @ [c]) cs"
        using plain cur Some by (cases nd) auto
      have "look (cur @ c # cs) \<noteq> None" if "cs \<noteq> [] \<longrightarrow> look (cur @ c # cs) \<noteq> None"
        using that Some by (cases "cs = []") auto
      then show ?thesis using IH all unfolding eq by blast
    qed
  qed
qed simp

lemma clear_located:
  assumes "plain_path p" "p \<noteq> []" "clear_way fs p"
  shows "located fs p = Inr None \<or> located fs p = Inr (Some p) \<and> real_way fs p"
proof -
  have last: "node_at fs (butlast p) = None \<or> is_directory (node_at fs (butlast p))"
    using assms(2,3) by (auto simp: clear_way_def butlast_conv_take dest: spec [of _ "length p - 1"])
  have "walk (node_at fs) link_limit [] (butlast p) = Inr None \<or>
    walk (node_at fs) link_limit [] (butlast p) = Inr (Some (butlast p)) \<and>
      (\<forall>k<length (butlast p). is_directory (node_at fs (take k (butlast p))))"
  proof (intro disj_forward [OF walk_clear [of "butlast p" "node_at fs" "[]" link_limit]])
    show "plain_path (butlast p)" using assms(1) by (auto dest: in_set_butlastD)
    show "\<not> is_symlink (node_at fs ([] @ butlast p))" using last by (auto simp: is_directory_iff)
  qed (use clear_way_butlast [OF assms(3)] in \<open>auto simp: clear_way_def\<close>)
  moreover have "real_way fs p"
    if "\<forall>k<length (butlast p). is_directory (node_at fs (take k (butlast p)))" "is_directory (node_at fs (butlast p))"
    unfolding real_way_def
  proof (intro allI impI)
    fix k assume "k < length p"
    then have "k = length p - 1 \<or> k < length (butlast p) \<and> take k (butlast p) = take k p"
      by (auto simp: take_butlast)
    then show "is_directory (node_at fs (take k p))"
      using that by (auto simp: butlast_conv_take)
  qed
  ultimately show ?thesis
    using last assms(2) by (auto simp: located_def is_directory_iff)
qed

lemma clear_followed:
  assumes "plain_path p" "clear_way fs p" "\<not> is_symlink (node_at fs p)"
  shows "followed fs p = Inr None \<or> followed fs p = Inr (Some p)"
  using walk_clear [of p "node_at fs" "[]" link_limit] assms by (auto simp: clear_way_def followed_def)


end
