(* ===== verification/Go_Base64.thy ===== *)
theory Go_Base64
  imports Go_Text
begin

section \<open>Base64\<close>

text \<open>
  \<open>base64.StdEncoding\<close> and \<open>base64.RawURLEncoding\<close> of the Go standard library. The decoder ignores
  line breaks wherever they stand and does not look at the unused low bits of the last character.
\<close>

definition std_alphabet :: bytes where
  "std_alphabet = ''ABCDEFGHIJKLMNOPQRSTUVWXYZabcdefghijklmnopqrstuvwxyz0123456789+/''"

definition url_alphabet :: bytes where
  "url_alphabet = ''ABCDEFGHIJKLMNOPQRSTUVWXYZabcdefghijklmnopqrstuvwxyz0123456789-_''"

definition padding :: "bool \<Rightarrow> nat \<Rightarrow> bytes" where
  "padding padded n = (if padded then replicate n CHR ''='' else [])"

definition sextet :: "bytes \<Rightarrow> nat \<Rightarrow> char" where
  "sextet alphabet n = alphabet ! (n mod 64)"

fun base64_encode :: "bytes \<Rightarrow> bool \<Rightarrow> bytes \<Rightarrow> bytes" where
  "base64_encode alphabet padded [] = []"
| "base64_encode alphabet padded [a] =
     (let x = of_char a in
      [sextet alphabet (x div 4), sextet alphabet (x * 16)] @ padding padded 2)"
| "base64_encode alphabet padded [a, b] =
     (let x = of_char a; y = of_char b in
      [sextet alphabet (x div 4), sextet alphabet (x * 16 + y div 16), sextet alphabet (y * 4)] @ padding padded 1)"
| "base64_encode alphabet padded (a # b # c # rest) =
     (let x = of_char a; y = of_char b; z = of_char c in
      [sextet alphabet (x div 4), sextet alphabet (x * 16 + y div 16),
       sextet alphabet (y * 4 + z div 64), sextet alphabet z] @ base64_encode alphabet padded rest)"

fun index_of :: "char \<Rightarrow> bytes \<Rightarrow> nat option" where
  "index_of c [] = None"
| "index_of c (x # xs) = (if x = c then Some 0 else map_option Suc (index_of c xs))"

fun decode_groups :: "bytes \<Rightarrow> bool \<Rightarrow> bytes \<Rightarrow> bytes option" where
  "decode_groups alphabet padded [] = Some []"
| "decode_groups alphabet padded [w] = None"
| "decode_groups alphabet padded [w, x] =
     (if padded then None
      else
        (case (index_of w alphabet, index_of x alphabet) of
           (Some i, Some j) \<Rightarrow> Some [char_of (i * 4 + j div 16)]
         | _ \<Rightarrow> None))"
| "decode_groups alphabet padded [w, x, y] =
     (if padded then None
      else
        (case (index_of w alphabet, index_of x alphabet, index_of y alphabet) of
           (Some i, Some j, Some k) \<Rightarrow> Some [char_of (i * 4 + j div 16), char_of (j * 16 + k div 4)]
         | _ \<Rightarrow> None))"
| "decode_groups alphabet padded (w # x # y # z # rest) =
     (case (index_of w alphabet, index_of x alphabet) of
        (Some i, Some j) \<Rightarrow>
          (case (index_of y alphabet, index_of z alphabet) of
             (Some k, Some l) \<Rightarrow>
               map_option ((@) [char_of (i * 4 + j div 16), char_of (j * 16 + k div 4), char_of (k * 64 + l)])
                 (decode_groups alphabet padded rest)
           | (Some k, None) \<Rightarrow>
               if padded \<and> z = CHR ''='' \<and> rest = []
               then Some [char_of (i * 4 + j div 16), char_of (j * 16 + k div 4)] else None
           | (None, _) \<Rightarrow>
               if padded \<and> y = CHR ''='' \<and> z = CHR ''='' \<and> rest = []
               then Some [char_of (i * 4 + j div 16)] else None)
      | _ \<Rightarrow> None)"

definition base64_decode :: "bytes \<Rightarrow> bool \<Rightarrow> bytes \<Rightarrow> bytes option" where
  "base64_decode alphabet padded s =
     decode_groups alphabet padded (filter (\<lambda>c. c \<noteq> CHR 0x0D \<and> c \<noteq> CHR 0x0A) s)"

abbreviation std_encode :: "bytes \<Rightarrow> bytes" where "std_encode \<equiv> base64_encode std_alphabet True"
abbreviation std_decode :: "bytes \<Rightarrow> bytes option" where "std_decode \<equiv> base64_decode std_alphabet True"
abbreviation rawurl_encode :: "bytes \<Rightarrow> bytes" where "rawurl_encode \<equiv> base64_encode url_alphabet False"
abbreviation rawurl_decode :: "bytes \<Rightarrow> bytes option" where "rawurl_decode \<equiv> base64_decode url_alphabet False"

subsection \<open>Decoding what was encoded\<close>

definition base64_alphabet :: "bytes \<Rightarrow> bool" where
  "base64_alphabet alphabet \<longleftrightarrow>
     length alphabet = 64 \<and> distinct alphabet \<and> list_all (\<lambda>c. c \<notin> {CHR 0x0D, CHR 0x0A, CHR ''=''}) alphabet"

lemma alphabets [simp]: "base64_alphabet std_alphabet" "base64_alphabet url_alphabet"
  by (simp_all add: base64_alphabet_def std_alphabet_def url_alphabet_def)

lemma index_of_nth: "distinct xs \<Longrightarrow> n < length xs \<Longrightarrow> index_of (xs ! n) xs = Some n"
proof (induction xs arbitrary: n)
  case (Cons x xs)
  then show ?case by (cases n) (auto simp: in_set_conv_nth)
qed simp

lemma index_of_None: "c \<notin> set xs \<Longrightarrow> index_of c xs = None"
  by (induction xs) auto

lemma index_of_sextet: "base64_alphabet alphabet \<Longrightarrow> index_of (sextet alphabet n) alphabet = Some (n mod 64)"
  by (simp add: sextet_def base64_alphabet_def index_of_nth)

lemma index_of_pad: "base64_alphabet alphabet \<Longrightarrow> index_of CHR ''='' alphabet = None"
  by (intro index_of_None) (auto simp: base64_alphabet_def list_all_iff)

lemma encode_chars:
  assumes "base64_alphabet alphabet" "c \<in> set (base64_encode alphabet padded s)"
  shows "c \<in> set alphabet \<or> c = CHR ''=''"
proof -
  have "sextet alphabet n \<in> set alphabet" for n
    using assms(1) by (simp add: sextet_def base64_alphabet_def)
  then show ?thesis using assms(2)
    by (induction alphabet padded s rule: base64_encode.induct) (auto simp: Let_def padding_def split: if_splits)
qed

text \<open>The bits of three bytes, put together again from four groups of six.\<close>

lemma char_of_sum: "n mod 256 = of_char c \<Longrightarrow> char_of (n :: nat) = c"
  by (metis char_of_mod_256 char_of_char)

lemma of_char_bound [simp]: "(of_char c :: nat) < 256"
  by (simp add: of_char_eq_iff)

lemma split_sextets:
  fixes x y :: nat
  assumes "r < 16" "t < 4"
  shows "(x * 16 + r) mod 64 = x mod 4 * 16 + r" "(y * 4 + t) mod 64 = y mod 16 * 4 + t"
proof -
  have "x * 16 + r = (x mod 4 * 16 + r) + 64 * (x div 4)" using div_mult_mod_eq [of x 4] by linarith
  moreover have "x mod 4 * 16 + r < 64" using assms(1) mod_less_divisor [of 4 x] by linarith
  ultimately show "(x * 16 + r) mod 64 = x mod 4 * 16 + r" by (metis mod_less mod_mult_self2)
  have "y * 4 + t = (y mod 16 * 4 + t) + 64 * (y div 16)" using div_mult_mod_eq [of y 16] by linarith
  moreover have "y mod 16 * 4 + t < 64" using assms(2) mod_less_divisor [of 16 y] by linarith
  ultimately show "(y * 4 + t) mod 64 = y mod 16 * 4 + t" by (metis mod_less mod_mult_self2)
qed

lemma join_first:
  fixes x :: nat
  assumes "x < 256" "r < 16"
  shows "x div 4 mod 64 * 4 + (x * 16 + r) mod 64 div 16 = x"
proof -
  have "(x * 16 + r) mod 64 div 16 = x mod 4" using split_sextets(1) [OF assms(2), of 0 x] assms(2) by simp
  then show ?thesis using assms(1) by simp
qed

lemma join_second:
  fixes x y :: nat
  assumes "y < 256" "t < 4"
  shows "((x * 16 + y div 16) mod 64 * 16 + (y * 4 + t) mod 64 div 4) mod 256 = y"
proof -
  have "y div 16 < 16" using assms(1) by simp
  then have "(x * 16 + y div 16) mod 64 = x mod 4 * 16 + y div 16" using split_sextets(1) [of "y div 16" 0 x] by simp
  moreover have "(y * 4 + t) mod 64 div 4 = y mod 16" using split_sextets(2) [of 0 t y] assms(2) by simp
  ultimately have "(x * 16 + y div 16) mod 64 * 16 + (y * 4 + t) mod 64 div 4 = x mod 4 * 256 + y"
    using div_mult_mod_eq [of y 16] by linarith
  then show ?thesis using assms(1) by simp
qed

lemma join_third:
  fixes y z :: nat
  assumes "z < 256"
  shows "((y * 4 + z div 64) mod 64 * 64 + z mod 64) mod 256 = z"
proof -
  have "z div 64 < 4" using assms by simp
  then have "(y * 4 + z div 64) mod 64 = y mod 16 * 4 + z div 64" using split_sextets(2) [of 0 "z div 64" y] by simp
  then have "(y * 4 + z div 64) mod 64 * 64 + z mod 64 = y mod 16 * 256 + z"
    using div_mult_mod_eq [of z 64] by linarith
  then show ?thesis using assms by simp
qed

lemma join_chars:
  shows "r < 16 \<Longrightarrow> char_of (of_char a div 4 mod 64 * 4 + (of_char a * 16 + r) mod 64 div 16 :: nat) = a"
    and "t < 4 \<Longrightarrow> char_of ((w * 16 + of_char b div 16) mod 64 * 16 + (of_char b * 4 + t) mod 64 div 4 :: nat) = b"
    and "char_of ((w * 4 + of_char c div 64) mod 64 * 64 + of_char c mod 64 :: nat) = c"
proof -
  show "char_of (of_char a div 4 mod 64 * 4 + (of_char a * 16 + r) mod 64 div 16 :: nat) = a" if "r < 16"
    using join_first [OF of_char_bound that, of a] by (intro char_of_sum) (simp only: mod_less [OF of_char_bound])
qed (rule char_of_sum, rule join_second [OF of_char_bound], assumption, rule char_of_sum, rule join_third [OF of_char_bound])

lemma decode_sextets:
  assumes "base64_alphabet alphabet"
  shows "decode_groups alphabet padded (sextet alphabet i # sextet alphabet j # sextet alphabet k # sextet alphabet l # rest) =
    map_option ((@) [char_of (i mod 64 * 4 + j mod 64 div 16), char_of (j mod 64 * 16 + k mod 64 div 4),
      char_of (k mod 64 * 64 + l mod 64)]) (decode_groups alphabet padded rest)"
  by (simp only: decode_groups.simps index_of_sextet [OF assms] option.case prod.case)

lemma groups_encode:
  assumes "base64_alphabet alphabet"
  shows "decode_groups alphabet padded (base64_encode alphabet padded s) = Some s"
  using assms
proof (induction alphabet padded s rule: base64_encode.induct)
  case (2 alphabet padded a)
  then show ?case
    using join_chars(1) [of 0 a]
    by (auto simp: Let_def padding_def numeral_2_eq_2 index_of_sextet index_of_pad)
next
  case (3 alphabet padded a b)
  then show ?case
    using join_chars(1) [of "of_char b div 16" a] join_chars(2) [of 0 "of_char a" b]
    by (auto simp: Let_def padding_def index_of_sextet index_of_pad less_mult_imp_div_less)
next
  case (4 alphabet padded a b c rest)
  have quot: "(of_char b :: nat) div 16 < 16" "(of_char c :: nat) div 64 < 4"
    by (simp_all add: less_mult_imp_div_less)
  show ?case
    by (simp only: base64_encode.simps Let_def append.simps decode_sextets [OF 4(2)]
      join_chars(1) [OF quot(1)] join_chars(2) [OF quot(2)] join_chars(3)
      4(1) [OF refl refl refl 4(2)] option.map)
qed simp

lemma base64_round [simp]:
  assumes "base64_alphabet alphabet"
  shows "base64_decode alphabet padded (base64_encode alphabet padded s) = Some s"
proof -
  have "filter (\<lambda>c. c \<noteq> CHR 0x0D \<and> c \<noteq> CHR 0x0A) (base64_encode alphabet padded s) = base64_encode alphabet padded s"
    using assms encode_chars [OF assms, of _ padded s]
    by (intro filter_True) (auto simp: base64_alphabet_def list_all_iff)
  then show ?thesis by (simp add: base64_decode_def groups_encode [OF assms])
qed

end
