(* ===== verification/Backup_Archive.thy ===== *)
theory Backup_Archive
  imports Host_Files Go_Base64
begin

section \<open>Archives of a file tree\<close>

text \<open>
  \<open>internal/backuprestore/archive.go\<close>. An archive is a sequence of tar entries; \<open>unpack\<close> and \<open>pack\<close>
  stand for \<open>archive/tar\<close> over zstd: \<open>unpack\<close> gives the entries a stream yields and the error it ends
  with, or the error with which it cannot be opened. Inspection, extraction below a root and the
  creation from a tree are the code's, on the file system of \<open>Host_Files\<close>.
\<close>

record tar_header =
  hdr_Name :: bytes
  hdr_Type :: char
  hdr_Linkname :: bytes
  hdr_Mode :: nat
  hdr_Uid :: int
  hdr_Gid :: int
  hdr_ModTime :: "int option"
  hdr_PAX :: "(bytes \<times> bytes) list"
  hdr_Xattrs :: "(bytes \<times> bytes) list"

type_synonym tar_entry = "tar_header \<times> bytes"
type_synonym unpacker = "bytes \<Rightarrow> (tar_entry list \<times> error option) result"

record archive_entry =
  ent_Name :: bytes
  ent_Type :: char
  ent_LinkName :: bytes

definition type_reg :: char where "type_reg = CHR ''0''"
definition type_rega :: char where "type_rega = CHR 0x00"
definition type_link :: char where "type_link = CHR ''1''"
definition type_symlink :: char where "type_symlink = CHR ''2''"
definition type_dir :: char where "type_dir = CHR ''5''"

lemmas type_defs = type_reg_def type_rega_def type_link_def type_symlink_def type_dir_def

definition xattr_prefix :: bytes where "xattr_prefix = ''VPSMITH.xattr.''"
definition standard_xattr_prefix :: bytes where "standard_xattr_prefix = ''SCHILY.xattr.''"

subsection \<open>Local names\<close>

text \<open>\<open>filepath.IsLocal\<close> of a Unix system, \<open>path.Dir\<close> and \<open>path.Join\<close> of two elements.\<close>

definition is_local :: "bytes \<Rightarrow> bool" where
  "is_local p =
     (if p = [] \<or> has_prefix p ''/'' then False
      else
        (let q = (if (\<exists>c\<in>set (split_on CHR ''/'' p). c = ''.'' \<or> c = ''..'') then path_clean p else p) in
         q \<noteq> ''..'' \<and> \<not> has_prefix q ''../''))"

definition path_dir :: "bytes \<Rightarrow> bytes" where
  "path_dir p = path_clean (rev (dropWhile (\<lambda>c. c \<noteq> CHR ''/'') (rev p)))"

definition path_join :: "bytes \<Rightarrow> bytes \<Rightarrow> bytes" where
  "path_join a b =
     (if a = [] \<and> b = [] then [] else if a = [] then path_clean b else if b = [] then path_clean a
      else path_clean (a @ ''/'' @ b))"

definition trim_slashes :: "bytes \<Rightarrow> bytes" where
  "trim_slashes s = rev (dropWhile (\<lambda>c. c = CHR ''/'') (rev s))"

text \<open>The function trims the name of a directory in place; here it returns the header it leaves.\<close>

definition check_target :: "tar_header \<Rightarrow> unit result" where
  "check_target h =
     (if hdr_Type h \<in> {type_reg, type_rega, type_dir} then Inr ()
      else if hdr_Type h = type_symlink then
        (if hdr_Linkname h = [] \<or> has_prefix (hdr_Linkname h) ''/'' \<or> CHR 0x00 \<in> set (hdr_Linkname h)
            \<or> CHR 0x5C \<in> set (hdr_Linkname h)
         then Inl (Errf ''unsafe symlink %q'' [hdr_Name h])
         else
           (let resolved = path_clean (path_join (path_dir (hdr_Name h)) (hdr_Linkname h)) in
            reject_if (\<not> is_local resolved \<or> resolved = ''.'')
              (Errf ''symlink %q escapes archive root'' [hdr_Name h])))
      else if hdr_Type h = type_link then
        reject_if (hdr_Linkname h = [] \<or> has_prefix (hdr_Linkname h) ''/''
            \<or> path_clean (hdr_Linkname h) \<noteq> hdr_Linkname h \<or> \<not> is_local (hdr_Linkname h))
          (Errf ''hardlink %q escapes archive root'' [hdr_Name h])
      else Inl (Errf ''special archive entry %q is forbidden'' [hdr_Name h]))"

definition trimmed_header :: "tar_header \<Rightarrow> tar_header" where
  "trimmed_header h = (if hdr_Type h = type_dir then h\<lparr>hdr_Name := trim_slashes (hdr_Name h)\<rparr> else h)"

definition validate_archive_header :: "tar_header \<Rightarrow> tar_header result" where
  "validate_archive_header h0 =
     (if hdr_Name h0 = [] \<or> CHR 0x00 \<in> set (hdr_Name h0) \<or> CHR 0x5C \<in> set (hdr_Name h0)
      then Inl (Err ''archive contains invalid path'')
      else
        (let h = trimmed_header h0; clean = path_clean (hdr_Name h) in
         if hdr_Name h = [] then Inl (Err ''archive contains invalid directory path'')
         else if clean \<noteq> hdr_Name h \<or> clean = ''.'' \<or> \<not> is_local clean \<or> has_prefix clean ''/''
         then Inl (Errf ''archive path %q is not local'' [hdr_Name h])
         else also_r (check_target h) (Inr h)))"

subsection \<open>Inspection\<close>

definition listed_entry :: "tar_header \<Rightarrow> archive_entry" where
  "listed_entry h = \<lparr>ent_Name = hdr_Name h, ent_Type = hdr_Type h, ent_LinkName = hdr_Linkname h\<rparr>"

fun inspect_from :: "bytes set \<Rightarrow> tar_entry list \<Rightarrow> error option \<Rightarrow> archive_entry list result" where
  "inspect_from seen [] err =
     (case err of None \<Rightarrow> Inr [] | Some e \<Rightarrow> Inl (Wrapf ''inspect tar payload: %w'' [] e))"
| "inspect_from seen ((h0, body) # es) err =
     bind_r (validate_archive_header h0) (\<lambda>h.
     if hdr_Name h \<in> seen then Inl (Errf ''duplicate archive path %q'' [hdr_Name h])
     else bind_r (inspect_from (insert (hdr_Name h) seen) es err) (\<lambda>rest. Inr (listed_entry h # rest)))"

definition inspect_tar_zst :: "unpacker \<Rightarrow> bytes \<Rightarrow> archive_entry list result" where
  "inspect_tar_zst unpack body =
     bind_r (wrap_error ''open zstd payload: %w'' [] (unpack body)) (\<lambda>(es, err). inspect_from {} es err)"

subsection \<open>Extended attributes\<close>

definition add_xattr :: "(bytes \<times> bytes) list \<Rightarrow> bytes \<times> bytes \<Rightarrow> (bytes \<times> bytes) list result" where
  "add_xattr xs kv =
     (case kv of (name, val) \<Rightarrow>
      if name = [] \<or> CHR 0x00 \<in> set name then Inl (Err ''invalid archived xattr name'')
      else
        (case map_of xs name of
           None \<Rightarrow> Inr (xs @ [kv])
         | Some old \<Rightarrow>
             if old \<noteq> val then Inl (Errf ''conflicting archived xattr %s'' [name]) else Inr xs))"

definition add_pax :: "(bytes \<times> bytes) list \<Rightarrow> bytes \<times> bytes \<Rightarrow> (bytes \<times> bytes) list result" where
  "add_pax xs kv =
     (case kv of (key, val) \<Rightarrow>
      if has_prefix key xattr_prefix then
        (case rawurl_decode (trim_prefix key xattr_prefix) of
           None \<Rightarrow> Inl (Err ''invalid archived xattr name'')
         | Some name \<Rightarrow>
             if name = [] then Inl (Err ''invalid archived xattr name'')
             else
               (case std_decode val of
                  None \<Rightarrow> Inl (Err ''invalid archived xattr value'')
                | Some raw \<Rightarrow> add_xattr xs (name, raw)))
      else if has_prefix key standard_xattr_prefix then add_xattr xs (trim_prefix key standard_xattr_prefix, val)
      else Inr xs)"

definition archived_xattrs :: "tar_header \<Rightarrow> (bytes \<times> bytes) list result" where
  "archived_xattrs h = bind_r (fold_r add_pax [] (hdr_PAX h)) (\<lambda>xs. fold_r add_xattr xs (hdr_Xattrs h))"

subsection \<open>Extraction\<close>

definition name_comps :: "bytes \<Rightarrow> path" where
  "name_comps name = clean_comps False (split_on CHR ''/'' name)"

definition path_text :: "path \<Rightarrow> bytes" where
  "path_text p = CHR ''/'' # join_with ''/'' p"

text \<open>Every directory between the root and the destination is looked at before anything is made there.\<close>

definition ensure_no_symlink_parent :: "os_env \<Rightarrow> path \<Rightarrow> path \<Rightarrow> (files, unit) action" where
  "ensure_no_symlink_parent io root rel =
     each_s (\<lambda>k.
       bind_s (os_lstat io (root @ take k rel)) (\<lambda>x.
       lift_s (reject_if (x \<noteq> None \<and> \<not> is_directory x)
         (Errf ''archive path traverses non-directory %q'' [path_text (root @ take k rel)]))))
       [1..<length rel]"

definition restore_metadata :: "os_env \<Rightarrow> path \<Rightarrow> tar_header \<Rightarrow> bool \<Rightarrow> bool \<Rightarrow> (files, unit) action" where
  "restore_metadata io p h preserve symlink =
     also_s
       (if preserve then
          wrap_s ''restore numeric ownership: %w'' []
            (if symlink then os_lchown io p (hdr_Uid h) (hdr_Gid h) else os_chown io p (hdr_Uid h) (hdr_Gid h))
        else ret_s ())
    (also_s
       (if symlink then ret_s ()
        else
          also_s (wrap_s ''restore mode: %w'' [] (os_chmod io p (hdr_Mode h mod 4096)))
            (case hdr_ModTime h of
               None \<Rightarrow> ret_s ()
             | Some t \<Rightarrow> wrap_s ''restore modification time: %w'' [] (os_chtimes io p t)))
    (bind_s (lift_s (archived_xattrs h)) (\<lambda>xs.
       each_s (\<lambda>(k, v). wrap_s ''restore xattr %s: %w'' [k] (os_lsetxattr io p k v)) xs)))"

type_synonym pending = "tar_header list \<times> tar_header list"

definition extract_entry :: "os_env \<Rightarrow> path \<Rightarrow> bool \<Rightarrow> pending \<Rightarrow> tar_entry \<Rightarrow> (files, pending) action" where
  "extract_entry io root preserve pend e =
     (case (pend, e) of ((dirs, links), (h0, body)) \<Rightarrow>
      bind_s (lift_s (validate_archive_header h0)) (\<lambda>h.
      let rel = name_comps (hdr_Name h); dest = root @ rel in
      also_s (ensure_no_symlink_parent io root rel)
       (if hdr_Type h = type_dir then
          also_s (os_mkdir_all io (butlast dest) 448)
         (also_s (rescue_s (os_mkdir io dest 448) (\<lambda>e. lift_s (if error_is e err_exist then Inr () else Inl e)))
            (ret_s (dirs @ [h], links)))
        else if hdr_Type h = type_reg \<or> hdr_Type h = type_rega then
          also_s (os_mkdir_all io (butlast dest) 448)
         (also_s (os_write_new io dest (hdr_Mode h mod 4096) body)
         (also_s (restore_metadata io dest h preserve False) (ret_s (dirs, links))))
        else if hdr_Type h = type_symlink then
          also_s (os_mkdir_all io (butlast dest) 448)
         (also_s (os_symlink io (hdr_Linkname h) dest)
         (also_s (restore_metadata io dest h preserve True) (ret_s (dirs, links))))
        else if hdr_Type h = type_link then ret_s (dirs, links @ [h])
        else lift_s (Inl (Errf ''unsupported archive entry type %d'' [decimal (of_char (hdr_Type h))])))))"

definition extract_hardlink :: "os_env \<Rightarrow> path \<Rightarrow> tar_header \<Rightarrow> (files, unit) action" where
  "extract_hardlink io root h =
     (let rel = name_comps (hdr_Name h); dest = root @ rel;
          to_rel = name_comps (hdr_Linkname h); to = root @ to_rel in
      also_s (ensure_no_symlink_parent io root rel)
     (also_s (ensure_no_symlink_parent io root to_rel)
     (also_s (read_s (\<lambda>fs. case fst (os_lstat io to fs) of
                Inr (Some (Regular i)) \<Rightarrow> Inr ()
              | _ \<Rightarrow> Inl (Errf ''hardlink target %q is not an extracted regular file'' [hdr_Linkname h])))
     (also_s (os_mkdir_all io (butlast dest) 448) (os_link io to dest)))))"

definition children :: "files \<Rightarrow> path \<Rightarrow> path list" where
  "children fs d = filter (\<lambda>p. p \<noteq> [] \<and> butlast p = d) (map fst (fls_Nodes fs))"

definition check_empty :: "os_env \<Rightarrow> path \<Rightarrow> (files, unit) action" where
  "check_empty io root = read_s (\<lambda>fs.
     case ose_Fail io ''readdir'' root of
       Some e \<Rightarrow> Inl e
     | None \<Rightarrow>
         bind_r (followed fs root) (\<lambda>q.
         case q of
           None \<Rightarrow> Inr ()
         | Some d \<Rightarrow>
             (case node_at fs d of
                None \<Rightarrow> Inr ()
              | Some (Directory a) \<Rightarrow>
                  reject_if (children fs d \<noteq> []) (Err ''safe extraction requires an empty destination'')
              | Some nd \<Rightarrow> Inl err_not_dir)))"

definition extract_tar_zst :: "os_env \<Rightarrow> unpacker \<Rightarrow> bytes \<Rightarrow> path \<Rightarrow> bool \<Rightarrow> (files, unit) action" where
  "extract_tar_zst io unpack body root preserve =
     bind_s (lift_s (inspect_tar_zst unpack body)) (\<lambda>entries.
     also_s (check_empty io root)
    (also_s (os_mkdir_all io root 448)
    (bind_s (lift_s (unpack body)) (\<lambda>(es, err).
     bind_s (fold_s (extract_entry io root preserve) ([], []) es) (\<lambda>(dirs, links).
     also_s (lift_s (case err of None \<Rightarrow> Inr () | Some e \<Rightarrow> Inl e))
    (also_s (each_s (extract_hardlink io root) links)
       (each_s (\<lambda>h. restore_metadata io (root @ name_comps (hdr_Name h)) h preserve False) (rev dirs))))))))"

subsection \<open>Creation\<close>

text \<open>
  The entries of a tree are taken in the order of their slash-separated names. \<open>FileInfoHeader\<close> gives
  the header of an entry; a file whose inode was met under another name becomes a hard link to it.
\<close>

definition tree_names :: "files \<Rightarrow> path \<Rightarrow> path list" where
  "tree_names fs root =
     sort_key (join_with ''/'')
       (map (drop (length root)) (filter (\<lambda>p. take (length root) p = root \<and> p \<noteq> root) (map fst (fls_Nodes fs))))"

definition node_attrs :: "files \<Rightarrow> node \<Rightarrow> attrs option" where
  "node_attrs fs nd =
     (case nd of Directory a \<Rightarrow> Some a | Symlink t a \<Rightarrow> Some a | Special c a \<Rightarrow> Some a
      | Regular i \<Rightarrow> map_option ind_Attrs (inode_at fs i))"

definition link_count :: "files \<Rightarrow> nat \<Rightarrow> nat" where
  "link_count fs i = length (filter (\<lambda>e. snd e = Regular i) (fls_Nodes fs))"

definition node_type :: "node \<Rightarrow> char result" where
  "node_type nd =
     (case nd of
        Directory a \<Rightarrow> Inr type_dir
      | Regular i \<Rightarrow> Inr type_reg
      | Symlink t a \<Rightarrow> Inr type_symlink
      | Special c a \<Rightarrow> if c = CHR ''s'' then Inl (Err ''archive/tar: sockets not supported'') else Inr c)"

definition xattr_records :: "(bytes \<times> bytes) list \<Rightarrow> (bytes \<times> bytes) list" where
  "xattr_records xs = map (\<lambda>(k, v). (xattr_prefix @ rawurl_encode k, std_encode v)) xs"

definition read_xattrs :: "os_env \<Rightarrow> path \<Rightarrow> attrs \<Rightarrow> (bytes \<times> bytes) list result" where
  "read_xattrs io p a =
     (case ose_Fail io ''listxattr'' p of
        Some e \<Rightarrow> (if error_is e (Err ''operation not supported'') then Inr [] else Inl e)
      | None \<Rightarrow>
          (case ose_Fail io ''getxattr'' p of Some e \<Rightarrow> (if att_Xattrs a = [] then Inr [] else Inl e) | None \<Rightarrow> Inr (att_Xattrs a)))"

text \<open>The name of the first path of an inode, the header and the content of an entry.\<close>

definition entry_header ::
  "os_env \<Rightarrow> path \<Rightarrow> files \<Rightarrow> (nat \<times> bytes) list \<Rightarrow> path \<Rightarrow> node \<Rightarrow> ((nat \<times> bytes) list \<times> tar_header) result" where
  "entry_header io root fs seen rel nd =
     (let name = join_with ''/'' rel; p = root @ rel in
      also_r (case nd of
          Symlink t a \<Rightarrow> (case ose_Fail io ''readlink'' p of Some e \<Rightarrow> Inl e | None \<Rightarrow> Inr ())
        | _ \<Rightarrow> Inr ())
     (bind_r (wrap_error ''create tar header: %w'' [] (node_type nd)) (\<lambda>c.
      case node_attrs fs nd of
        None \<Rightarrow> Inl (Wrapf ''lstat archive input: %w'' [] err_not_exist)
      | Some a \<Rightarrow>
          (let (seen', c', link) =
             (case nd of
                Symlink t b \<Rightarrow> (seen, c, t)
              | Regular i \<Rightarrow>
                  if link_count fs i > 1 then
                    (case map_of seen i of
                       Some first \<Rightarrow> (seen, type_link, first)
                     | None \<Rightarrow> (seen @ [(i, name)], c, []))
                  else (seen, c, [])
              | _ \<Rightarrow> (seen, c, [])) in
           bind_r (wrap_error ''read xattrs for %s: %w'' [name] (read_xattrs io p a)) (\<lambda>xs.
           Inr (seen', \<lparr>hdr_Name = name, hdr_Type = c', hdr_Linkname = link, hdr_Mode = att_Mode a,
                        hdr_Uid = att_Uid a, hdr_Gid = att_Gid a, hdr_ModTime = Some (att_Time a),
                        hdr_PAX = xattr_records xs, hdr_Xattrs = []\<rparr>))))))"

definition create_entry ::
  "os_env \<Rightarrow> path \<Rightarrow> files \<Rightarrow> (nat \<times> bytes) list \<times> tar_entry list \<Rightarrow> path \<Rightarrow>
   ((nat \<times> bytes) list \<times> tar_entry list) result" where
  "create_entry io root fs acc rel =
     (case acc of (seen, es) \<Rightarrow>
      bind_r (wrap_error ''lstat archive input: %w'' [] (fst (os_lstat io (root @ rel) fs))) (\<lambda>x.
      case x of
        None \<Rightarrow> Inl (Wrapf ''lstat archive input: %w'' [] err_not_exist)
      | Some nd \<Rightarrow>
          bind_r (entry_header io root fs seen rel nd) (\<lambda>(seen', h).
          if hdr_Type h = type_reg then
            (case ose_Fail io ''open'' (root @ rel) of
               Some e \<Rightarrow> Inl e
             | None \<Rightarrow>
                 (case nd of
                    Regular i \<Rightarrow>
                      (case inode_at fs i of
                         None \<Rightarrow> Inl err_not_exist
                       | Some x \<Rightarrow> Inr (seen', es @ [(h, ind_Content x)]))
                  | _ \<Rightarrow> Inr (seen', es @ [(h, [])])))
          else Inr (seen', es @ [(h, [])]))))"

definition create_tar_zst :: "os_env \<Rightarrow> (tar_entry list \<Rightarrow> bytes result) \<Rightarrow> path \<Rightarrow> files \<Rightarrow> bytes result" where
  "create_tar_zst io pack root fs =
     bind_r (wrap_error ''walk archive root: %w'' [] (case ose_Fail io ''walk'' root of Some e \<Rightarrow> Inl e | None \<Rightarrow> Inr ())) (\<lambda>_.
     bind_r (fold_r (create_entry io root fs) ([], []) (tree_names fs root)) (\<lambda>(seen, es). pack es))"

end
