(* ===== verification/Go_Scan.thy ===== *)
theory Go_Scan
  imports Go_Text
begin

section \<open>Words and lines\<close>

text \<open>
  \<open>strings.Fields\<close>, and the lines of a \<open>bufio.Scanner\<close>: a carriage return before the end of a line
  is dropped, an empty last line does not count, and a line that does not fit the buffer of 65536
  bytes ends the scan with an error.
\<close>

fun fields_from :: "nat \<Rightarrow> bytes \<Rightarrow> bytes \<Rightarrow> bytes list" where
  "fields_from 0 word s = (if word = [] then [] else [rev word])"
| "fields_from (Suc n) word [] = (if word = [] then [] else [rev word])"
| "fields_from (Suc n) word (c # cs) =
     (case find (has_prefix (c # cs)) space_runes of
        Some w \<Rightarrow> (if word = [] then [] else [rev word]) @ fields_from n [] (drop (length w) (c # cs))
      | None \<Rightarrow> fields_from n (c # word) cs)"

definition string_fields :: "bytes \<Rightarrow> bytes list" where
  "string_fields s = fields_from (length s) [] s"

definition scan_lines :: "bytes \<Rightarrow> bytes list" where
  "scan_lines s =
     (let ls = split_on CHR 0x0A s in
      if last ls = [] then butlast ls else ls)"

definition drop_cr :: "bytes \<Rightarrow> bytes" where
  "drop_cr s = (if s \<noteq> [] \<and> last s = CHR 0x0D then butlast s else s)"

definition max_token :: nat where "max_token = 65536"

text \<open>The lines that a scanner with a buffer of \<open>lim\<close> bytes gives, and whether it read the whole text.\<close>

definition scanner_lines :: "nat \<Rightarrow> bytes \<Rightarrow> bytes list \<times> bool" where
  "scanner_lines lim s =
     (let ls = scan_lines s in (map drop_cr (takeWhile (\<lambda>l. length l < lim) ls), list_all (\<lambda>l. length l < lim) ls))"

text \<open>Words of visible ASCII characters: no white space begins inside them.\<close>

definition graph_char :: "char \<Rightarrow> bool" where
  "graph_char c \<longleftrightarrow> CHR '' '' < c \<and> c < CHR 0x7F"

lemma graph_no_prefix:
  assumes "list_all (\<lambda>r. r \<noteq> [] \<and> \<not> graph_char (hd r)) ws" "graph_char c"
  shows "find (has_prefix (c # cs)) ws = None"
proof -
  have heads: "r \<noteq> [] \<and> hd r \<noteq> c" if "r \<in> set ws" for r
    using that assms by (auto simp: list_all_iff)
  have "\<not> has_prefix (c # cs) r" if "r \<in> set ws" for r
    using heads [OF that] by (cases r) (auto simp: has_prefix_def)
  then show ?thesis by (simp add: find_None_iff)
qed

lemma space_graph:
  "list_all (\<lambda>r. r \<noteq> [] \<and> \<not> graph_char (hd r)) space_runes"
  "list_all (\<lambda>r. r \<noteq> [] \<and> \<not> graph_char (hd r)) (map rev space_runes)"
  by code_simp+

lemmas graph_no_space = graph_no_prefix [OF space_graph(1)]

lemma trim_space_graph:
  assumes "graph_char c" "graph_char d"
  shows "trim_space (c # s @ [d]) = c # s @ [d]"
  using graph_no_prefix [OF space_graph(1) assms(1), of "s @ [d]"]
    graph_no_prefix [OF space_graph(2) assms(2), of "rev s @ [c]"]
  by (simp add: trim_space_def strip_def)

lemma fields_word:
  assumes "list_all graph_char w"
  shows "fields_from (length w + n) acc (w @ rest) = fields_from n (rev w @ acc) rest"
  using assms
proof (induction w arbitrary: acc)
  case (Cons c w)
  then show ?case using graph_no_space [of c "w @ rest"] by simp
qed simp

lemma fields_space: "fields_from (Suc n) acc (CHR '' '' # rest) = (if acc = [] then [] else [rev acc]) @ fields_from n [] rest"
proof -
  have "find (has_prefix (CHR '' '' # rest)) space_runes = Some '' ''"
    by (simp add: space_runes_def has_prefix_def)
  then show ?thesis by simp
qed

lemma fields_of_words:
  assumes "list_all graph_char a" "list_all graph_char b" "a \<noteq> []" "b \<noteq> []"
  shows "string_fields (a @ '' '' @ b) = [a, b]"
proof -
  have "string_fields (a @ '' '' @ b) = fields_from (length a + Suc (length b + 0)) [] (a @ CHR '' '' # b @ [])"
    by (simp add: string_fields_def)
  also have "\<dots> = [a, b]"
    unfolding fields_word [OF assms(1)] fields_space fields_word [OF assms(2)] using assms(3,4) by simp
  finally show ?thesis .
qed

lemma fields_of_line:
  assumes "list_all graph_char a" "list_all graph_char b" "a \<noteq> []" "b \<noteq> []"
  shows "string_fields (a @ ''  '' @ b) = [a, b]"
proof -
  have "string_fields (a @ ''  '' @ b) = fields_from (length a + Suc (Suc (length b + 0))) [] (a @ CHR '' '' # CHR '' '' # b @ [])"
    by (simp add: string_fields_def)
  also have "\<dots> = [a, b]"
    unfolding fields_word [OF assms(1)] fields_space fields_word [OF assms(2)] using assms(3,4) by simp
  finally show ?thesis .
qed

end
