(* ===== verification/Backup_Envelope.thy ===== *)
theory Backup_Envelope
  imports Backup_Archive Go_Scan Mgmt_Types Bundle_Normalize Module_Compile
begin

section \<open>The envelope of a backup\<close>

text \<open>
  \<open>internal/backuprestore/envelope_contract.go\<close>, \<open>envelope_verify.go\<close> and the data of \<open>manager.go\<close>.
  An envelope is a directory with the manifest, the payload archive and their checksums. The
  YAML decoder is a parameter: it gives the manifest and what follows it, or an error.
\<close>

record image_ident =
  imd_Name :: bytes
  imd_Digest :: bytes

record artifact_identity =
  aid_SubjectKind :: bytes
  aid_SubjectID :: bytes
  aid_Version :: bytes
  aid_GitCommit :: bytes
  aid_PackageSHA256 :: bytes
  aid_Images :: "image_ident list"
  aid_StoragePaths :: "bytes list"
  aid_SecretIDs :: "bytes list"
  aid_PreviousDesiredStateRef :: bytes
  aid_ExecutionBundleRef :: bytes

record payload_item =
  pit_Path :: bytes
  pit_Kind :: bytes
  pit_LinkName :: bytes

record backup_manifest =
  bmf_FormatVersion :: int
  bmf_ArtifactType :: backup_type
  bmf_ArtifactID :: bytes
  bmf_CreatedAt :: bytes
  bmf_TargetID :: bytes
  bmf_ModuleInstanceID :: bytes
  bmf_Identity :: "artifact_identity option"
  bmf_SourceRefs :: "bytes list"
  bmf_BundleRefs :: "bytes list"
  bmf_PayloadInventory :: "payload_item list"
  bmf_RestoreRefs :: "bytes list"

record payload_descriptor =
  pds_Identity :: "artifact_identity option"
  pds_SourceRefs :: "bytes list"
  pds_BundleRefs :: "bytes list"
  pds_RestoreRefs :: "bytes list"

text \<open>The producer of a request fills a tree and describes it.\<close>

record create_request =
  crq_Type :: backup_type
  crq_TargetID :: bytes
  crq_ModuleInstanceID :: bytes
  crq_Passphrase :: bytes
  crq_Producer :: "(files \<times> payload_descriptor) result option"

definition format_version :: int where "format_version = 1"

subsection \<open>Requests and inventories\<close>

definition validate_create_request :: "create_request \<Rightarrow> unit result" where
  "validate_create_request r =
     checks
       [reject_if (crq_TargetID r = []) (Err ''backup target id is required''),
        reject_if (crq_Producer r = None) (Err ''backup payload producer is required''),
        (case crq_Type r of
           Backup_Module \<Rightarrow> checks
             [reject_if (crq_ModuleInstanceID r = []) (Err ''module backup requires module instance id''),
              reject_if (crq_Passphrase r = []) (Err ''recovery passphrase is required'')]
         | Backup_System_Restore_Point \<Rightarrow> checks
             [reject_if (crq_ModuleInstanceID r = []) (Err ''system restore point requires module instance id''),
              reject_if (crq_Passphrase r \<noteq> []) (Err ''system restore point is not a long-term encrypted backup'')]
         | Other_Backup s \<Rightarrow> Inl (Err ''unknown backup artifact type'')
         | _ \<Rightarrow> checks
             [reject_if (crq_ModuleInstanceID r \<noteq> []) (Err ''non-module backup must not carry module instance id''),
              reject_if (crq_Passphrase r = []) (Err ''recovery passphrase is required'')])]"

definition is_long_term_type :: "backup_type \<Rightarrow> bool" where
  "is_long_term_type t = (t \<in> {Backup_Recovery_Package, Backup_Core, Backup_Module})"

fun keep_new :: "bytes set \<Rightarrow> bytes list \<Rightarrow> bytes list" where
  "keep_new seen [] = []"
| "keep_new seen (x # xs) =
     (let v = trim_space x in
      if v = [] \<or> v \<in> seen then keep_new seen xs else v # keep_new (insert v seen) xs)"

definition sorted_unique :: "bytes list \<Rightarrow> bytes list" where
  "sorted_unique xs = sort_key (\<lambda>x. x) (keep_new {} xs)"

definition kind_of :: "char \<Rightarrow> bytes" where
  "kind_of t =
     (if t = CHR 0x00 \<or> t = CHR ''0'' then ''file''
      else if t = CHR ''5'' then ''directory''
      else if t = CHR ''2'' then ''symlink''
      else if t = CHR ''1'' then ''hardlink''
      else ''unknown'')"

definition inventory :: "archive_entry list \<Rightarrow> payload_item list" where
  "inventory entries =
     sort_key pit_Path (sort_key pit_Kind
       (map (\<lambda>e. \<lparr>pit_Path = ent_Name e, pit_Kind = kind_of (ent_Type e), pit_LinkName = ent_LinkName e\<rparr>) entries))"

subsection \<open>The manifest\<close>

definition sha256_text :: "bytes \<Rightarrow> bool" where
  "sha256_text v = (length v = 64 \<and> hex_decode v \<noteq> None \<and> v = to_lower v)"

definition git_commit_text :: "bytes \<Rightarrow> bool" where
  "git_commit_text v = ((length v = 40 \<or> length v = 64) \<and> list_all (\<lambda>c. c \<in> set ''0123456789abcdef'') v)"

definition storage_path_ok :: "bytes \<Rightarrow> bool" where
  "storage_path_ok p = (p \<noteq> [] \<and> has_prefix p ''/'' \<and> path_clean p = p \<and> p \<noteq> ''/'')"

definition validate_identity :: "backup_manifest \<Rightarrow> artifact_identity \<Rightarrow> unit result" where
  "validate_identity m i =
     checks
       [reject_if (aid_SubjectKind i \<noteq> ''module'' \<or> trim_space (aid_SubjectID i) = [] \<or> trim_space (aid_Version i) = [] \<or>
            \<not> git_commit_text (aid_GitCommit i) \<or> \<not> sha256_text (aid_PackageSHA256 i))
          (Err ''module backup manifest has incomplete module identity''),
        reject_if (aid_Images i = []) (Err ''module backup manifest is missing image identities''),
        bind_r (each_unique
          (\<lambda>x. reject_if (trim_space (imd_Name x) = [] \<or> \<not> has_prefix (imd_Digest x) ''sha256:'' \<or>
               \<not> sha256_text (trim_prefix (imd_Digest x) ''sha256:''))
             (Err ''module backup manifest has invalid image identity''))
          imd_Name (\<lambda>x. Err ''module backup manifest has duplicate image identity'') (\<lambda>x. Inr ()) {} (aid_Images i))
          (\<lambda>_. Inr ()),
        reject_if (aid_StoragePaths i = []) (Err ''module backup manifest is missing declared storage paths''),
        for_each (\<lambda>p. reject_if (\<not> storage_path_ok p) (Err ''module backup manifest has invalid storage path''))
          (aid_StoragePaths i),
        bind_r (each_unique (\<lambda>s. reject_if (s = []) (Err ''module backup manifest has empty secret id'')) (\<lambda>s. s)
          (\<lambda>s. Err ''module backup manifest has duplicate secret id'') (\<lambda>s. Inr ()) {} (aid_SecretIDs i)) (\<lambda>_. Inr ()),
        reject_if (bmf_ArtifactType m = Backup_System_Restore_Point \<and>
            trim_space (aid_PreviousDesiredStateRef i) = [] \<and> trim_space (aid_ExecutionBundleRef i) = [])
          (Err ''system restore point is missing previous desired state or execution bundle reference'')]"

definition validate_manifest :: "backup_manifest \<Rightarrow> backup_type \<Rightarrow> unit result" where
  "validate_manifest m expected =
     checks
       [reject_if (bmf_FormatVersion m \<noteq> format_version)
          (Errf ''unsupported backup format version %d'' [decimal_int (bmf_FormatVersion m)]),
        reject_if (bmf_ArtifactType m \<noteq> expected)
          (Errf ''backup artifact type %q does not match expected %q''
             [backup_type_text (bmf_ArtifactType m), backup_type_text expected]),
        reject_if (bmf_ArtifactID m = [] \<or> bmf_TargetID m = [] \<or> trim_space (bmf_CreatedAt m) = [])
          (Err ''backup manifest identity is incomplete''),
        (if expected = Backup_Module \<or> expected = Backup_System_Restore_Point then
           also_r (reject_if (bmf_ModuleInstanceID m = []) (Err ''module backup manifest is missing module instance id''))
             (case bmf_Identity m of
                None \<Rightarrow> Inl (Err ''module backup manifest is missing exact artifact identity'')
              | Some i \<Rightarrow> validate_identity m i)
         else reject_if (bmf_ModuleInstanceID m \<noteq> []) (Err ''non-module backup manifest carries module instance id'')),
        for_each (\<lambda>x. reject_if (pit_Path x = [] \<or> pit_Kind x = ''unknown'') (Err ''backup payload inventory is invalid''))
          (bmf_PayloadInventory m)]"

definition normalize_identity :: "artifact_identity \<Rightarrow> artifact_identity" where
  "normalize_identity i = i\<lparr>aid_StoragePaths := sorted_unique (aid_StoragePaths i)\<rparr>"

subsection \<open>Checksums\<close>

text \<open>\<open>os.ReadFile\<close> and \<open>fileSHA256\<close> follow links; the checks before them leave no link in an envelope.\<close>

definition read_file :: "os_env \<Rightarrow> path \<Rightarrow> files \<Rightarrow> bytes result" where
  "read_file io p fs =
     (case ose_Fail io ''read'' p of
        Some e \<Rightarrow> Inl e
      | None \<Rightarrow>
          bind_r (at_place (followed fs p)) (\<lambda>q.
          case node_at fs q of
            Some (Regular i) \<Rightarrow>
              (case inode_at fs i of None \<Rightarrow> Inl err_not_exist | Some x \<Rightarrow> Inr (ind_Content x))
          | None \<Rightarrow> Inl err_not_exist
          | Some nd \<Rightarrow> Inl (Err ''is a directory'')))"

definition file_sha256 :: "os_env \<Rightarrow> path \<Rightarrow> files \<Rightarrow> bytes result" where
  "file_sha256 io p fs = bind_r (read_file io p fs) (\<lambda>body. Inr (sha256_hex body))"

definition simple_name :: "bytes \<Rightarrow> bool" where
  "simple_name n = (n \<noteq> [] \<and> path_base n = n)"

definition sums_line :: "bytes \<Rightarrow> bytes \<Rightarrow> bytes" where
  "sums_line dg name = dg @ ''  '' @ name @ [CHR 0x0A]"

definition sums_document :: "os_env \<Rightarrow> path \<Rightarrow> files \<Rightarrow> bytes list \<Rightarrow> bytes result" where
  "sums_document io root fs names =
     bind_r (map_r (\<lambda>name.
       also_r (reject_if (\<not> simple_name name) (Err ''checksum entry name must be a simple filename''))
         (bind_r (file_sha256 io (root @ [name]) fs) (\<lambda>dg. Inr (sums_line dg name)))) names)
     (\<lambda>lines. Inr (concat lines))"

definition check_sums_line :: "os_env \<Rightarrow> path \<Rightarrow> files \<Rightarrow> bytes list \<Rightarrow> bytes set \<Rightarrow> bytes \<Rightarrow> bytes set result" where
  "check_sums_line io root fs expected seen l =
     (if length l \<ge> max_token then Inl (Err ''bufio.Scanner: token too long'')
      else
        (case string_fields (drop_cr l) of
           [dg, name] \<Rightarrow>
             if \<not> sha256_text dg \<or> path_base name \<noteq> name then Inl (Err ''invalid SHA256SUMS entry'')
             else if name \<notin> set expected then Inl (Errf ''unexpected checksum entry %q'' [name])
             else if name \<in> seen then Inl (Errf ''duplicate checksum entry %q'' [name])
             else
               bind_r (file_sha256 io (root @ [name]) fs) (\<lambda>actual.
               also_r (reject_if (actual \<noteq> dg) (Errf ''checksum mismatch for %s'' [name]))
                 (Inr (insert name seen)))
         | _ \<Rightarrow> Inl (Err ''invalid SHA256SUMS entry'')))"

definition verify_checksums :: "os_env \<Rightarrow> path \<Rightarrow> files \<Rightarrow> bytes list \<Rightarrow> unit result" where
  "verify_checksums io root fs expected =
     bind_r (wrap_error ''read SHA256SUMS: %w'' [] (read_file io (root @ [''SHA256SUMS'']) fs)) (\<lambda>data.
     bind_r (fold_r (check_sums_line io root fs expected) {} (scan_lines data)) (\<lambda>seen.
     reject_if (card seen \<noteq> card (set expected)) (Err ''SHA256SUMS is incomplete'')))"

subsection \<open>Verification\<close>

definition require_exact_envelope :: "os_env \<Rightarrow> path \<Rightarrow> files \<Rightarrow> bytes \<Rightarrow> unit result" where
  "require_exact_envelope io root fs payload =
     (case ose_Fail io ''readdir'' root of
        Some e \<Rightarrow> Inl e
      | None \<Rightarrow>
          bind_r (at_place (followed fs root)) (\<lambda>d.
          case node_at fs d of
            Some (Directory a) \<Rightarrow>
              (let names = sort_key (\<lambda>x. x) (map last (children fs d)); expected = {''manifest.yaml'', payload, ''SHA256SUMS''} in
               also_r (reject_if (length names \<noteq> card expected) (Err ''backup envelope contains unexpected entries''))
                 (for_each (\<lambda>n.
                    also_r (reject_if (n \<notin> expected) (Errf ''backup envelope contains unexpected entry %q'' [n]))
                      (case ose_Fail io ''lstat'' (root @ [n]) of
                         Some e \<Rightarrow> Inl e
                       | None \<Rightarrow>
                           (case node_at fs (d @ [n]) of
                              Some (Regular i) \<Rightarrow> Inr ()
                            | _ \<Rightarrow> Inl (Errf ''backup envelope entry %q is not a regular file'' [n])))) names))
          | None \<Rightarrow> Inl err_not_exist
          | Some nd \<Rightarrow> Inl err_not_dir))"

definition read_manifest ::
  "(bytes \<Rightarrow> (backup_manifest \<times> trailing) result) \<Rightarrow> os_env \<Rightarrow> path \<Rightarrow> files \<Rightarrow> backup_manifest result" where
  "read_manifest yaml io p fs =
     bind_r (read_file io p fs) (\<lambda>body.
     bind_r (wrap_error ''decode backup manifest: %w'' [] (yaml body)) (\<lambda>(m, extra).
     case extra of
       No_More \<Rightarrow> Inr m
     | Another_Document \<Rightarrow> Inl (Err ''backup manifest contains multiple YAML documents'')
     | Bad_Trailing e \<Rightarrow> Inl (Wrapf ''decode trailing backup manifest data: %w'' [] e)))"

definition verify_envelope ::
  "(bytes \<Rightarrow> (backup_manifest \<times> trailing) result) \<Rightarrow> os_env \<Rightarrow> path \<Rightarrow> files \<Rightarrow> bytes \<Rightarrow> backup_type \<Rightarrow>
   backup_manifest result" where
  "verify_envelope yaml io root fs payload expected =
     also_r (require_exact_envelope io root fs payload)
    (also_r (verify_checksums io root fs [''manifest.yaml'', payload])
    (bind_r (read_manifest yaml io (root @ [''manifest.yaml'']) fs) (\<lambda>m.
     also_r (validate_manifest m expected) (Inr m))))"

end
