(* ===== verification/Backup_Manager.thy ===== *)
theory Backup_Manager
  imports Backup_Envelope Mgmt_Store
begin

section \<open>The manager of backups\<close>

text \<open>
  \<open>internal/backuprestore/manager.go\<close>, \<open>envelope_store.go\<close> and \<open>envelope_crypto.go\<close>. The manager keeps the
  artifacts of its root directory, a map from a name to an encrypted file or, for a restore point, a
  directory, and the catalogue in the management state. The scratch directory only holds values that
  are gone at the end, so it is not part of the state: an artifact is unpacked into a fresh tree.
  The fields of \<open>backup_env\<close> stand for zstd and tar, \<open>age\<close>, YAML and the operating system;
  \<open>bke_Fail\<close> is the error of a call on the files of the manager itself. Absolute paths, the closing of
  inspections and the cancellation of a context are left out.
\<close>

datatype stored = Stored_File bytes | Stored_Dir files

type_synonym backup_root = "bytes \<rightharpoonup> stored"

record backup_env =
  bke_Os :: os_env
  bke_Unpack :: unpacker
  bke_Pack :: "tar_entry list \<Rightarrow> bytes result"
  bke_Encrypt :: "bytes \<Rightarrow> bytes \<Rightarrow> bytes result"
  bke_Decrypt :: "bytes \<Rightarrow> bytes \<Rightarrow> (bytes \<times> error option) result"
  bke_Yaml :: "backup_manifest \<Rightarrow> bytes result"
  bke_ReadYaml :: "bytes \<Rightarrow> (backup_manifest \<times> trailing) result"
  bke_Fail :: "bytes \<Rightarrow> bytes \<Rightarrow> error option"
  bke_Crypto :: crypto
  bke_Sql :: sql_faults
  bke_Key :: bytes

record manager_state =
  mst_Root :: backup_root
  mst_Db :: db

definition try_b :: "backup_env \<Rightarrow> bytes \<Rightarrow> bytes \<Rightarrow> unit result" where
  "try_b env call name = (case bke_Fail env call name of None \<Rightarrow> Inr () | Some e \<Rightarrow> Inl e)"

lemma try_b_Inr_iff [result_simps]: "try_b env call name = Inr u \<longleftrightarrow> bke_Fail env call name = None"
  by (simp add: try_b_def split: option.split)

subsection \<open>Encryption\<close>

definition encrypt_age :: "backup_env \<Rightarrow> bytes \<Rightarrow> bytes \<Rightarrow> bytes result" where
  "encrypt_age env pass body =
     also_r (reject_if (pass = []) (Err ''recovery passphrase is required''))
    (also_r (try_b env ''create'' ''candidate'')
    (bind_r (wrap_error ''encrypt backup envelope: %w'' [] (bke_Encrypt env pass body)) (\<lambda>c.
     also_r (try_b env ''sync'' ''candidate'') (Inr c))))"

definition decrypt_age :: "backup_env \<Rightarrow> bytes \<Rightarrow> bytes \<Rightarrow> bytes result" where
  "decrypt_age env pass body =
     also_r (reject_if (pass = []) (Err ''recovery passphrase is required''))
    (bind_r (wrap_error ''decrypt age backup: %w'' [] (bke_Decrypt env pass body)) (\<lambda>(plain, err).
     also_r (try_b env ''create'' ''envelope'')
    (also_r (wrap_error ''write decrypted backup envelope: %w'' [] (case err of None \<Rightarrow> Inr () | Some e \<Rightarrow> Inl e))
    (also_r (try_b env ''sync'' ''envelope'') (Inr plain)))))"

subsection \<open>Inspection\<close>

record inspection =
  ins_Manifest :: backup_manifest
  ins_Payload :: bytes

definition fresh_tree :: "os_env \<Rightarrow> files" where
  "fresh_tree io = \<lparr>fls_Nodes = [([], Directory (new_attrs io 448))], fls_Inodes = [], fls_Next = 0\<rparr>"

definition payload_name :: "backup_type \<Rightarrow> bytes" where
  "payload_name t = (if t = Backup_System_Restore_Point then ''storage.tar.zst'' else ''payload.tar.zst'')"

text \<open>The part that both kinds of artifact share: the payload is listed and compared with the manifest.\<close>

definition inspect_payload ::
  "backup_env \<Rightarrow> path \<Rightarrow> files \<Rightarrow> backup_type \<Rightarrow> backup_manifest \<Rightarrow> (error \<Rightarrow> error) \<Rightarrow> bytes \<Rightarrow> inspection result" where
  "inspect_payload env root fs t m wrap mismatch =
     bind_r (read_file (bke_Os env) (root @ [payload_name t]) fs) (\<lambda>payload.
     case inspect_tar_zst (bke_Unpack env) payload of
       Inl e \<Rightarrow> Inl (wrap e)
     | Inr entries \<Rightarrow>
         also_r (reject_if (bmf_PayloadInventory m \<noteq> inventory entries) (Err mismatch))
           (Inr \<lparr>ins_Manifest = m, ins_Payload = payload\<rparr>))"

definition inspect_restore_point :: "backup_env \<Rightarrow> stored \<Rightarrow> backup_type \<Rightarrow> inspection result" where
  "inspect_restore_point env art expected =
     (if expected \<noteq> Backup_System_Restore_Point
      then Inl (Err ''restore point inspection requires system restore point type'')
      else
        (case art of
           Stored_File body \<Rightarrow> Inl err_not_dir
         | Stored_Dir fs \<Rightarrow>
             also_r (require_exact_envelope (bke_Os env) [] fs ''storage.tar.zst'')
            (bind_r (verify_envelope (bke_ReadYaml env) (bke_Os env) [] fs ''storage.tar.zst'' expected) (\<lambda>m.
             inspect_payload env [] fs expected m (\<lambda>e. e) ''restore point inventory does not match manifest''))))"

definition inspect_long_term :: "backup_env \<Rightarrow> bytes \<Rightarrow> backup_type \<Rightarrow> bytes \<Rightarrow> inspection result" where
  "inspect_long_term env body expected pass =
     bind_r (decrypt_age env pass body) (\<lambda>outer.
     case extract_tar_zst (bke_Os env) (bke_Unpack env) outer [''envelope''] False (fresh_tree (bke_Os env)) of
       (Inl e, fs) \<Rightarrow> Inl (Wrapf ''extract backup envelope: %w'' [] e)
     | (Inr u, fs) \<Rightarrow>
         also_r (require_exact_envelope (bke_Os env) [''envelope''] fs ''payload.tar.zst'')
        (bind_r (verify_envelope (bke_ReadYaml env) (bke_Os env) [''envelope''] fs ''payload.tar.zst'' expected) (\<lambda>m.
         inspect_payload env [''envelope''] fs expected m (\<lambda>e. Wrapf ''inspect backup payload: %w'' [] e)
           ''payload inventory does not match manifest'')))"

definition inspect_artifact :: "backup_env \<Rightarrow> stored \<Rightarrow> backup_type \<Rightarrow> bytes \<Rightarrow> inspection result" where
  "inspect_artifact env art expected pass =
     (if expected = Backup_System_Restore_Point then inspect_restore_point env art expected
      else if \<not> is_long_term_type expected then Inl (Err ''unknown backup artifact type'')
      else if pass = [] then Inl (Err ''recovery passphrase is required'')
      else
        also_r (wrap_error ''create volatile backup work directory: %w'' [] (try_b env ''mkdtemp'' ''inspect''))
          (case art of
             Stored_Dir fs \<Rightarrow> Inl (Err ''is a directory'')
           | Stored_File body \<Rightarrow> inspect_long_term env body expected pass))"

text \<open>
  \<open>PrepareRestore\<close> extracts the payload beside the envelope. The inspection of a restore point has no
  work directory: the candidate is then the relative path \<open>restore-candidate\<close>, which the extraction
  refuses after it has inspected the archive.
\<close>

definition prepare_restore ::
  "backup_env \<Rightarrow> stored \<Rightarrow> backup_type \<Rightarrow> bytes \<Rightarrow> (backup_manifest \<times> files) result" where
  "prepare_restore env art expected pass =
     bind_r (inspect_artifact env art expected pass) (\<lambda>i.
     if expected = Backup_System_Restore_Point then
       wrap_error ''prepare replace-not-merge candidate: %w'' []
         (bind_r (inspect_tar_zst (bke_Unpack env) (ins_Payload i)) (\<lambda>_.
          Inl (Err ''absolute extraction root is required'')))
     else
       (case extract_tar_zst (bke_Os env) (bke_Unpack env) (ins_Payload i) [''restore-candidate''] False
               (fresh_tree (bke_Os env)) of
          (Inl e, fs) \<Rightarrow> Inl (Wrapf ''prepare replace-not-merge candidate: %w'' [] e)
        | (Inr u, fs) \<Rightarrow> Inr (ins_Manifest i, fs)))"

subsection \<open>Building a candidate\<close>

text \<open>The directory of an envelope: regular files of mode 0600 in the order they are written.\<close>

definition envelope_tree :: "os_env \<Rightarrow> (bytes \<times> bytes) list \<Rightarrow> files" where
  "envelope_tree io fl =
     \<lparr>fls_Nodes = ([], Directory (new_attrs io 448)) # map (\<lambda>(i, n). ([n], Regular i)) (enumerate 0 (map fst fl)),
      fls_Inodes = map (\<lambda>(i, b). (i, \<lparr>ind_Content = b, ind_Attrs = new_attrs io 384\<rparr>)) (enumerate 0 (map snd fl)),
      fls_Next = length fl\<rparr>"

definition envelope_members :: "backup_env \<Rightarrow> bytes \<Rightarrow> backup_manifest \<Rightarrow> bytes \<Rightarrow> (bytes \<times> bytes) list result" where
  "envelope_members env member m payload =
     bind_r (bke_Yaml env m) (\<lambda>manifest.
     also_r (try_b env ''write'' ''manifest.yaml'')
    (bind_r (sums_document (bke_Os env) []
        (envelope_tree (bke_Os env) [(''manifest.yaml'', manifest), (member, payload)]) [''manifest.yaml'', member]) (\<lambda>sums.
     also_r (try_b env ''write'' ''SHA256SUMS'')
       (Inr [(''manifest.yaml'', manifest), (member, payload), (''SHA256SUMS'', sums)]))))"

definition long_term_candidate :: "backup_env \<Rightarrow> bytes \<Rightarrow> backup_manifest \<Rightarrow> bytes \<Rightarrow> bytes result" where
  "long_term_candidate env payload m pass =
     bind_r (envelope_members env ''payload.tar.zst'' m payload) (\<lambda>members.
     also_r (checks (map (\<lambda>(n, b). try_b env ''copy'' n) members))
    (bind_r (create_tar_zst (bke_Os env) (bke_Pack env) [] (envelope_tree (bke_Os env) members)) (\<lambda>outer.
     bind_r (encrypt_age env pass outer) (\<lambda>candidate.
     also_r (wrap_error ''verify encrypted backup candidate: %w'' []
         (bind_r (inspect_artifact env (Stored_File candidate) (bmf_ArtifactType m) pass) (\<lambda>i. try_b env ''rmdir'' ''inspect'')))
       (Inr candidate)))))"

definition artifact_name :: "backup_manifest \<Rightarrow> bytes" where
  "artifact_name m = backup_type_text (bmf_ArtifactType m) @ ''-'' @ bmf_ArtifactID m"

definition encrypted_name :: "backup_manifest \<Rightarrow> bytes" where
  "encrypted_name m = artifact_name m @ ''.tar.zst.age''"

definition metadata_of :: "backup_manifest \<Rightarrow> bytes \<Rightarrow> bytes \<Rightarrow> backup_metadata" where
  "metadata_of m name sha =
     \<lparr>bkm_ID = bmf_ArtifactID m, bkm_Type = bmf_ArtifactType m, bkm_TargetID = bmf_TargetID m,
      bkm_ModuleInstanceID = bmf_ModuleInstanceID m, bkm_CreatedAt = bmf_CreatedAt m,
      bkm_LocationRef = name, bkm_SHA256 = sha\<rparr>"

definition tree_envelope_sha :: "os_env \<Rightarrow> files \<Rightarrow> bytes list \<Rightarrow> bytes result" where
  "tree_envelope_sha io fs names =
     bind_r (map_r (\<lambda>n. bind_r (file_sha256 io [n] fs) (\<lambda>dg. Inr (n @ [CHR 0x00] @ dg @ [CHR 0x0A]))) names)
       (\<lambda>parts. Inr (sha256_hex (concat parts)))"

subsection \<open>Publishing\<close>

definition remove_stored :: "backup_env \<Rightarrow> bytes \<Rightarrow> manager_state \<Rightarrow> manager_state" where
  "remove_stored env name st =
     (if bke_Fail env ''remove'' name = None then st\<lparr>mst_Root := (mst_Root st)(name := None)\<rparr> else st)"

definition put_stored :: "bytes \<Rightarrow> stored \<Rightarrow> (manager_state, unit) action" where
  "put_stored name x st = (Inr (), st\<lparr>mst_Root := (mst_Root st)(name \<mapsto> x)\<rparr>)"

lemma leaves_put_stored [simp]: "leaves (put_stored name x) Q st = Q (Inr ()) (st\<lparr>mst_Root := (mst_Root st)(name \<mapsto> x)\<rparr>)"
  by (simp add: leaves_def put_stored_def)

text \<open>
  The bytes go to a temporary file that is linked to the final name, so that an existing artifact is
  never replaced; a failure after the link removes the artifact again.
\<close>

definition publish_file :: "backup_env \<Rightarrow> bytes \<Rightarrow> bytes \<Rightarrow> (manager_state, unit) action" where
  "publish_file env name body =
     also_s (lift_s (checks (map (\<lambda>c. try_b env c name) [''mkstemp'', ''chmod'', ''open'', ''copy'', ''fsync'', ''close''])))
    (also_s (read_s (\<lambda>st. reject_if (mst_Root st name \<noteq> None) err_exist))
    (also_s (lift_s (try_b env ''link'' name))
    (also_s (put_stored name (Stored_File body))
       (on_error_s (remove_stored env name)
         (lift_s (checks [try_b env ''unlink'' name, try_b env ''syncdir'' name]))))))"

text \<open>A directory is renamed into place; a failure to sync the root afterwards leaves it there.\<close>

definition publish_directory :: "backup_env \<Rightarrow> bytes \<Rightarrow> files \<Rightarrow> (manager_state, unit) action" where
  "publish_directory env name fs =
     also_s (lift_s (try_b env ''lstat'' name))
    (also_s (read_s (\<lambda>st. reject_if (mst_Root st name \<noteq> None) err_exist))
    (also_s (lift_s (checks (map (\<lambda>c. try_b env c name) [''mkdtemp'', ''chmod'', ''copy'', ''fsync'', ''rename''])))
    (also_s (put_stored name (Stored_Dir fs)) (lift_s (try_b env ''syncdir'' name)))))"

definition change_s :: "backup_env \<Rightarrow> (db \<Rightarrow> unit result \<times> db) \<Rightarrow> (manager_state, unit) action" where
  "change_s env g st = (let (r, db') = change (bke_Sql env) g (mst_Db st) in (r, st\<lparr>mst_Db := db'\<rparr>))"

definition register_artifact :: "backup_env \<Rightarrow> backup_metadata \<Rightarrow> (manager_state, unit) action" where
  "register_artifact env v =
     change_s env (op (register_backup (bke_Crypto env) (bke_Sql env) (bke_Key env) (bkm_CreatedAt v) v))"

record artifact =
  art_Metadata :: backup_metadata
  art_Manifest :: backup_manifest

definition stored_sha :: "backup_env \<Rightarrow> bytes \<Rightarrow> manager_state \<Rightarrow> bytes result" where
  "stored_sha env name st =
     also_r (try_b env ''hash'' name)
       (case mst_Root st name of
          None \<Rightarrow> Inl err_not_exist
        | Some (Stored_File body) \<Rightarrow> Inr (sha256_hex body)
        | Some (Stored_Dir fs) \<Rightarrow> Inl (Err ''is a directory''))"

definition publish_long_term :: "backup_env \<Rightarrow> bytes \<Rightarrow> backup_manifest \<Rightarrow> bytes \<Rightarrow> (manager_state, artifact) action" where
  "publish_long_term env payload m pass =
     bind_s (lift_s (long_term_candidate env payload m pass)) (\<lambda>candidate.
     let name = encrypted_name m in
     also_s (wrap_s ''publish encrypted backup: %w'' [] (publish_file env name candidate))
    (bind_s (on_error_s (remove_stored env name) (read_s (stored_sha env name))) (\<lambda>sha.
     let v = metadata_of m name sha in
     also_s (on_error_s (remove_stored env name) (register_artifact env v))
       (ret_s \<lparr>art_Metadata = v, art_Manifest = m\<rparr>))))"

definition publish_restore_point :: "backup_env \<Rightarrow> bytes \<Rightarrow> backup_manifest \<Rightarrow> (manager_state, artifact) action" where
  "publish_restore_point env payload m =
     bind_s (lift_s (also_r (try_b env ''mkdtemp'' ''restore-point'')
       (envelope_members env ''storage.tar.zst'' m payload))) (\<lambda>members.
     let name = artifact_name m; fs = envelope_tree (bke_Os env) members in
     also_s (lift_s (wrap_error ''verify system restore point candidate: %w'' []
         (bind_r (inspect_restore_point env (Stored_Dir fs) (bmf_ArtifactType m)) (\<lambda>_. Inr ()))))
    (bind_s (lift_s (tree_envelope_sha (bke_Os env) fs [''manifest.yaml'', ''storage.tar.zst'', ''SHA256SUMS''])) (\<lambda>sha.
     also_s (wrap_s ''publish system restore point: %w'' [] (publish_directory env name fs))
    (let v = metadata_of m name sha in
     also_s (on_error_s (remove_stored env name) (register_artifact env v))
       (ret_s \<lparr>art_Metadata = v, art_Manifest = m\<rparr>)))))"

subsection \<open>Create\<close>

definition manifest_of :: "bytes \<Rightarrow> bytes \<Rightarrow> create_request \<Rightarrow> payload_descriptor \<Rightarrow> archive_entry list \<Rightarrow> backup_manifest" where
  "manifest_of i now r d entries =
     \<lparr>bmf_FormatVersion = format_version, bmf_ArtifactType = crq_Type r, bmf_ArtifactID = i, bmf_CreatedAt = now,
      bmf_TargetID = crq_TargetID r, bmf_ModuleInstanceID = crq_ModuleInstanceID r,
      bmf_Identity = map_option normalize_identity (pds_Identity d),
      bmf_SourceRefs = sorted_unique (pds_SourceRefs d), bmf_BundleRefs = sorted_unique (pds_BundleRefs d),
      bmf_PayloadInventory = inventory entries, bmf_RestoreRefs = sorted_unique (pds_RestoreRefs d)\<rparr>"

definition produced_payload :: "backup_env \<Rightarrow> bytes result \<Rightarrow> bytes \<Rightarrow> create_request \<Rightarrow> (bytes \<times> backup_manifest) result" where
  "produced_payload env i now r =
     also_r (validate_create_request r)
    (bind_r i (\<lambda>i.
     also_r (wrap_error ''create volatile backup work directory: %w'' [] (try_b env ''mkdtemp'' ''create''))
    (also_r (try_b env ''mkdir'' ''payload'')
    (bind_r (wrap_error ''produce backup payload: %w'' []
        (case crq_Producer r of None \<Rightarrow> Inl (Err ''backup payload producer is required'') | Some p \<Rightarrow> p)) (\<lambda>(fs, d).
     bind_r (create_tar_zst (bke_Os env) (bke_Pack env) [] fs) (\<lambda>payload.
     bind_r (inspect_tar_zst (bke_Unpack env) payload) (\<lambda>entries.
     let m = manifest_of i now r d entries in
     also_r (wrap_error ''validate backup manifest: %w'' [] (validate_manifest m (crq_Type r))) (Inr (payload, m)))))))))"

definition create_backup :: "backup_env \<Rightarrow> bytes result \<Rightarrow> bytes \<Rightarrow> create_request \<Rightarrow> (manager_state, artifact) action" where
  "create_backup env i now r =
     bind_s (lift_s (produced_payload env i now r)) (\<lambda>(payload, m).
     if crq_Type r = Backup_System_Restore_Point then publish_restore_point env payload m
     else publish_long_term env payload m (crq_Passphrase r))"

subsection \<open>Export, deletion and adoption\<close>

definition catalog_entry :: "backup_env \<Rightarrow> bytes \<Rightarrow> manager_state \<Rightarrow> backup_metadata result" where
  "catalog_entry env i st =
     also_r (case bke_Sql env ''snapshot'' [] of None \<Rightarrow> Inr () | Some e \<Rightarrow> Inl e)
       (case find (\<lambda>b. bkm_ID b = i) (db_Backups (mst_Db st)) of
          None \<Rightarrow> Inl (Errf ''backup artifact %s does not exist'' [i])
        | Some b \<Rightarrow> Inr b)"

definition location_path :: "bytes \<Rightarrow> bytes result" where
  "location_path ref =
     (if ref = [] \<or> \<not> is_local ref \<or> CHR 0x5C \<in> set ref then Inl (Err ''invalid backup storage reference'')
      else Inr (join_with ''/'' (name_comps ref)))"

definition export_artifact :: "backup_env \<Rightarrow> bytes \<Rightarrow> manager_state \<Rightarrow> bytes result" where
  "export_artifact env i st =
     bind_r (catalog_entry env i st) (\<lambda>b.
     bind_r (location_path (bkm_LocationRef b)) (\<lambda>name.
     also_r (try_b env ''lstat'' name)
       (case mst_Root st name of
          None \<Rightarrow> Inl err_not_exist
        | Some (Stored_Dir fs) \<Rightarrow> Inl (Err ''only portable long-term backup files can be exported with this operation'')
        | Some (Stored_File body) \<Rightarrow> also_r (try_b env ''copy'' name) (Inr body))))"

definition tombstone_name :: "bytes \<Rightarrow> bytes" where
  "tombstone_name i = ''.delete-'' @ i"

definition rename_stored :: "backup_env \<Rightarrow> bytes \<Rightarrow> bytes \<Rightarrow> bytes \<Rightarrow> (manager_state, unit) action" where
  "rename_stored env call from to =
     also_s (lift_s (try_b env call from))
       (\<lambda>st. case mst_Root st from of
          None \<Rightarrow> (Inl err_not_exist, st)
        | Some x \<Rightarrow> (Inr (), st\<lparr>mst_Root := (mst_Root st)(from := None, to \<mapsto> x)\<rparr>))"

text \<open>
  The artifact is moved aside first, then the catalogue entry goes, then the bytes; when the
  catalogue refuses, the artifact is moved back.
\<close>

definition delete_artifact :: "backup_env \<Rightarrow> bytes \<Rightarrow> (manager_state, unit) action" where
  "delete_artifact env i =
     bind_s (read_s (catalog_entry env i)) (\<lambda>b.
     bind_s (lift_s (location_path (bkm_LocationRef b))) (\<lambda>name.
     let tomb = tombstone_name i in
     also_s (lift_s (try_b env ''lstat'' tomb))
    (also_s (read_s (\<lambda>st. reject_if (mst_Root st tomb \<noteq> None) (Err ''backup deletion tombstone already exists'')))
    (also_s (wrap_s ''stage backup artifact deletion: %w'' [] (rename_stored env ''rename'' name tomb))
    (also_s (rescue_s (change_s env (op (delete_backup (bke_Sql env) i))) (\<lambda>e st.
        case rename_stored env ''rename back'' tomb name st of
          (Inr u, st') \<Rightarrow> (Inl e, st')
        | (Inl e', st') \<Rightarrow>
            (Inl (Wrapf ''delete backup catalogue entry: %w; restore artifact after failed catalogue delete: %v'' [] e), st')))
       (wrap_s ''cleanup deleted backup artifact bytes: %w'' []
         (also_s (lift_s (try_b env ''removeall'' tomb))
           (\<lambda>st. (Inr (), st\<lparr>mst_Root := (mst_Root st)(tomb := None)\<rparr>)))))))))"

text \<open>
  Adoption of a recovery package that was validated before: it is published unless it is there
  already, and removed again when the caller's commit of the imported state fails.
\<close>

definition adopt_recovery ::
  "backup_env \<Rightarrow> bytes result \<Rightarrow> backup_manifest \<Rightarrow> (backup_metadata \<Rightarrow> db \<Rightarrow> unit result \<times> db) \<Rightarrow>
   (manager_state, artifact) action" where
  "adopt_recovery env source m commit =
     also_s (lift_s (validate_manifest m Backup_Recovery_Package))
    (bind_s (lift_s source) (\<lambda>body.
     let sha = sha256_hex body; name = encrypted_name m; v = (metadata_of m name sha)\<lparr>bkm_ModuleInstanceID := []\<rparr> in
     bind_s (\<lambda>st. case stored_sha env name st of
         Inr old \<Rightarrow>
           (if old \<noteq> sha then Inl (Err ''existing recovery artifact has different bytes'') else Inr False, st)
       | Inl e \<Rightarrow>
           if \<not> error_is e err_not_exist then (Inl e, st)
           else
             also_s (lift_s (checks (map (\<lambda>c. try_b env c ''adopt'') [''mkdtemp'', ''copy''])))
            (also_s (wrap_s ''publish imported recovery artifact: %w'' [] (publish_file env name body)) (ret_s True)) st) (\<lambda>created.
     also_s (on_error_s (if created then remove_stored env name else (\<lambda>st. st))
         (\<lambda>st. let (r, db') = commit v (mst_Db st) in (r, st\<lparr>mst_Db := db'\<rparr>)))
       (ret_s \<lparr>art_Metadata = v, art_Manifest = m\<rparr>))))"

end
