(* ===== verification/Backup_Catalogue.thy ===== *)
theory Backup_Catalogue
  imports Backup_Manager
begin

section \<open>Artifacts and their catalogue\<close>

text \<open>
  Creation publishes an artifact that was inspected with its passphrase and registers it, or leaves the
  catalogue as it was; whatever fails, the catalogue never names an artifact that is not there with
  the recorded digest.
\<close>

subsection \<open>Publishing\<close>

text \<open>
  Nothing is there under the name before, and afterwards either the artifact or nothing again. An artifact that
  should go stays only when its removal fails, or when it is a directory whose parent cannot be synced: a
  directory is not removed then.
\<close>

definition published :: "bytes \<Rightarrow> stored \<Rightarrow> manager_state \<Rightarrow> manager_state \<Rightarrow> bool" where
  "published name x st st' \<longleftrightarrow> mst_Root st name = None \<and> st' = st\<lparr>mst_Root := (mst_Root st)(name \<mapsto> x)\<rparr>"

definition stored_dir :: "stored \<Rightarrow> bool" where
  "stored_dir x = (case x of Stored_File body \<Rightarrow> False | Stored_Dir fs \<Rightarrow> True)"

definition left_behind :: "backup_env \<Rightarrow> bytes \<Rightarrow> stored \<Rightarrow> manager_state \<Rightarrow> manager_state \<Rightarrow> bool" where
  "left_behind env name x st st' \<longleftrightarrow>
     st' = st \<or> published name x st st' \<and>
       (bke_Fail env ''remove'' name \<noteq> None \<or> stored_dir x \<and> bke_Fail env ''syncdir'' name \<noteq> None)"

lemma remove_published:
  assumes "published name x st st'"
  shows "left_behind env name x st (remove_stored env name st')"
  using assms by (auto simp: published_def left_behind_def remove_stored_def fun_upd_idem)

lemma publish_file_leaves:
  "leaves (publish_file env name body)
     (goes_on (\<lambda>_. published name (Stored_File body) st) (\<lambda>e. left_behind env name (Stored_File body) st)) st"
  using remove_published [of name "Stored_File body" st]
  by (auto simp: publish_file_def goes_on_def reject_if_def published_def left_behind_def split: sum.split)

lemma publish_directory_leaves:
  "leaves (publish_directory env name fs)
     (goes_on (\<lambda>_. published name (Stored_Dir fs) st) (\<lambda>e. left_behind env name (Stored_Dir fs) st)) st"
  by (auto simp: publish_directory_def goes_on_def reject_if_def published_def left_behind_def stored_dir_def try_b_def
      split: sum.split option.splits)

subsection \<open>Digests\<close>

text \<open>The digest of an artifact, whatever a single call may report: faults only cause errors.\<close>

definition calm :: os_env where
  "calm = \<lparr>ose_Fail = (\<lambda>_ _. None), ose_Uid = 0, ose_Gid = 0, ose_Now = 0, ose_Written = 0, ose_Umask = 0\<rparr>"

definition restore_members :: "bytes list" where
  "restore_members = [''manifest.yaml'', ''storage.tar.zst'', ''SHA256SUMS'']"

fun artifact_digest :: "stored \<Rightarrow> bytes result" where
  "artifact_digest (Stored_File body) = Inr (sha256_hex body)"
| "artifact_digest (Stored_Dir fs) = tree_envelope_sha calm fs restore_members"

lemma read_file_calm: "read_file io p fs = Inr body \<Longrightarrow> read_file calm p fs = Inr body"
  by (auto simp: read_file_def calm_def split: option.splits)

lemma tree_sha_calm:
  assumes "tree_envelope_sha io fs names = Inr d"
  shows "tree_envelope_sha calm fs names = Inr d"
proof -
  let ?part = "\<lambda>io n. bind_r (file_sha256 io [n] fs) (\<lambda>dg. Inr (n @ [CHR 0x00] @ dg @ [CHR 0x0A]))"
  obtain parts where parts: "map_r (?part io) names = Inr parts" "d = sha256_hex (concat parts)"
    using assms by (cases "map_r (?part io) names") (auto simp: tree_envelope_sha_def)
  have "list_all2 (\<lambda>n p. ?part io n = Inr p) names parts" using parts(1) unfolding map_r_Inr_iff .
  then have "map_r (?part calm) names = Inr parts"
    unfolding map_r_Inr_iff by (rule list_all2_mono) (auto simp: file_sha256_def result_simps dest: read_file_calm)
  then show ?thesis by (simp add: tree_envelope_sha_def parts(2))
qed

subsection \<open>Creation\<close>

definition registered :: "backup_metadata \<Rightarrow> manager_state \<Rightarrow> manager_state \<Rightarrow> bool" where
  "registered v st st' \<longleftrightarrow>
     bkm_ID v \<notin> bkm_ID ` set (db_Backups (mst_Db st)) \<and> valid_backup_type (bkm_Type v) \<and>
     st' = st\<lparr>mst_Db := (mst_Db st)\<lparr>db_Backups := db_Backups (mst_Db st) @ [v]\<rparr>\<rparr>"

lemma register_leaves:
  assumes "bkm_CreatedAt v \<noteq> []"
  shows "leaves (register_artifact env v) (goes_on (\<lambda>_. registered v st) (\<lambda>e st'. st' = st)) st"
proof (rule leavesI)
  fix r st' assume run: "register_artifact env v st = (r, st')"
  let ?reg = "register_backup (bke_Crypto env) (bke_Sql env) (bke_Key env) (bkm_CreatedAt v) v (mst_Db st)"
  have "?reg = Inr db' \<Longrightarrow> registered v st (st\<lparr>mst_Db := db'\<rparr>)" for db'
    using assms by (auto simp: register_backup_def registered_def result_simps Let_def)
  then show "goes_on (\<lambda>_. registered v st) (\<lambda>e st'. st' = st) r st'"
    using run by (cases ?reg) (auto simp: register_artifact_def change_s_def change_def op_def split: option.splits)
qed

text \<open>
  What a successful creation leaves: a new artifact under the name of its manifest, which opens with
  the passphrase, and its entry in the catalogue with its digest.
\<close>

definition final_name :: "backup_manifest \<Rightarrow> bytes" where
  "final_name m = (if bmf_ArtifactType m = Backup_System_Restore_Point then artifact_name m else encrypted_name m)"

definition created :: "backup_env \<Rightarrow> bytes \<Rightarrow> artifact \<Rightarrow> manager_state \<Rightarrow> manager_state \<Rightarrow> bool" where
  "created env pass a st st' \<longleftrightarrow>
     (\<exists>x sha i st1. published (final_name (art_Manifest a)) x st st1 \<and>
        registered (art_Metadata a) st1 st' \<and>
        art_Metadata a = metadata_of (art_Manifest a) (final_name (art_Manifest a)) sha \<and>
        artifact_digest x = Inr sha \<and>
        inspect_artifact env x (bmf_ArtifactType (art_Manifest a)) pass = Inr i)"

text \<open>
  What a failure leaves: nothing, or the artifact of the manifest, complete and open to its passphrase but not in
  the catalogue.
\<close>

definition failed_creation :: "backup_env \<Rightarrow> backup_manifest \<Rightarrow> bytes \<Rightarrow> manager_state \<Rightarrow> manager_state \<Rightarrow> bool" where
  "failed_creation env m pass st st' \<longleftrightarrow>
     st' = st \<or>
     (\<exists>x i. published (final_name m) x st st' \<and> inspect_artifact env x (bmf_ArtifactType m) pass = Inr i \<and>
        (stored_dir x \<longleftrightarrow> bmf_ArtifactType m = Backup_System_Restore_Point) \<and>
        (bke_Fail env ''remove'' (final_name m) \<noteq> None \<or>
         bmf_ArtifactType m = Backup_System_Restore_Point \<and> bke_Fail env ''syncdir'' (final_name m) \<noteq> None))"

lemma failed_same [simp]: "failed_creation env m pass st st"
  by (simp add: failed_creation_def)

lemma failed_left:
  assumes "left_behind env (final_name m) x st st'" "inspect_artifact env x (bmf_ArtifactType m) pass = Inr i"
    and "stored_dir x \<longleftrightarrow> bmf_ArtifactType m = Backup_System_Restore_Point"
  shows "failed_creation env m pass st st'"
  using assms unfolding left_behind_def failed_creation_def by blast

text \<open>The end that both kinds share: the artifact is there, it is registered or removed again.\<close>

lemma register_published:
  assumes pub: "published name x st st1" and created: "bmf_CreatedAt m \<noteq> []"
    and name: "name = final_name m" and digest: "artifact_digest x = Inr sha"
    and opens: "inspect_artifact env x (bmf_ArtifactType m) pass = Inr i"
    and dir: "stored_dir x \<longleftrightarrow> bmf_ArtifactType m = Backup_System_Restore_Point"
  shows "leaves (also_s (on_error_s (remove_stored env name) (register_artifact env (metadata_of m name sha)))
       (ret_s \<lparr>art_Metadata = metadata_of m name sha, art_Manifest = m\<rparr>))
     (goes_on (\<lambda>a s. art_Manifest a = m \<and> created env pass a st s) (\<lambda>e. failed_creation env m pass st)) st1"
proof -
  have "leaves (register_artifact env (metadata_of m name sha))
      (goes_on (\<lambda>_. registered (metadata_of m name sha) st1) (\<lambda>e st'. st' = st1)) st1"
    using register_leaves created by (simp add: metadata_of_def)
  then show ?thesis
    unfolding leaves_also leaves_on_error
  proof (rule leaves_goes_on_mono)
    fix u st2 assume reg: "registered (metadata_of m name sha) st1 st2"
    then have "created env pass \<lparr>art_Metadata = metadata_of m name sha, art_Manifest = m\<rparr> st st2"
      using pub reg digest opens name unfolding created_def by auto
    then show "goes_on (\<lambda>_. leaves (ret_s \<lparr>art_Metadata = metadata_of m name sha, art_Manifest = m\<rparr>)
        (goes_on (\<lambda>a s. art_Manifest a = m \<and> created env pass a st s) (\<lambda>e. failed_creation env m pass st)))
        (\<lambda>e. goes_on (\<lambda>a s. art_Manifest a = m \<and> created env pass a st s) (\<lambda>e. failed_creation env m pass st) (Inl e)) (Inr u) st2"
      by simp
  qed (use failed_left [OF remove_published [OF pub, unfolded name] opens dir] name in auto)
qed

lemma publish_long_term_leaves:
  assumes "bmf_ArtifactType m \<noteq> Backup_System_Restore_Point" "bmf_CreatedAt m \<noteq> []"
  shows "leaves (publish_long_term env payload m pass)
    (goes_on (\<lambda>a s. art_Manifest a = m \<and> created env pass a st s) (\<lambda>e. failed_creation env m pass st)) st"
proof (cases "long_term_candidate env payload m pass")
  case (Inl e)
  then show ?thesis by (simp add: publish_long_term_def)
next
  case (Inr candidate)
  obtain i where opens: "inspect_artifact env (Stored_File candidate) (bmf_ArtifactType m) pass = Inr i"
    using Inr by (auto simp: long_term_candidate_def wrap_error_def result_simps split: sum.splits)
  have name: "encrypted_name m = final_name m" using assms(1) by (simp add: final_name_def)
  have dir: "stored_dir (Stored_File candidate) \<longleftrightarrow> bmf_ArtifactType m = Backup_System_Restore_Point"
    using assms(1) by (simp add: stored_dir_def)
  note left = failed_left [OF _ opens dir]
  have "leaves (bind_s (on_error_s (remove_stored env (encrypted_name m)) (read_s (stored_sha env (encrypted_name m)))) (\<lambda>sha.
      also_s (on_error_s (remove_stored env (encrypted_name m)) (register_artifact env (metadata_of m (encrypted_name m) sha)))
       (ret_s \<lparr>art_Metadata = metadata_of m (encrypted_name m) sha, art_Manifest = m\<rparr>)))
     (goes_on (\<lambda>a s. art_Manifest a = m \<and> created env pass a st s) (\<lambda>e. failed_creation env m pass st)) st1"
    if pub: "published (encrypted_name m) (Stored_File candidate) st st1" for st1
  proof (cases "stored_sha env (encrypted_name m) st1")
    case (Inl e)
    then show ?thesis using left [OF remove_published [OF pub, unfolded name]] name by auto
  next
    case (Inr sha)
    then have "artifact_digest (Stored_File candidate) = Inr sha"
      using pub by (auto simp: stored_sha_def published_def result_simps)
    from register_published [OF pub assms(2) name this opens dir] show ?thesis
      unfolding leaves_bind leaves_on_error [of _ "read_s _"] leaves_read Inr goes_on_simps .
  qed
  then show ?thesis
    unfolding publish_long_term_def leaves_bind [of "lift_s _"] leaves_lift Inr goes_on_simps Let_def
      leaves_also [of "wrap_s _ _ _"] leaves_wrap
    using left name by (intro leaves_goes_on_mono [OF publish_file_leaves]) auto
qed

lemma publish_restore_point_leaves:
  assumes "bmf_ArtifactType m = Backup_System_Restore_Point" "bmf_CreatedAt m \<noteq> []"
  shows "leaves (publish_restore_point env payload m)
    (goes_on (\<lambda>a s. art_Manifest a = m \<and> created env pass a st s) (\<lambda>e. failed_creation env m pass st)) st"
proof (cases "also_r (try_b env ''mkdtemp'' ''restore-point'') (envelope_members env ''storage.tar.zst'' m payload)")
  case (Inl e)
  then show ?thesis by (simp add: publish_restore_point_def)
next
  case (Inr members)
  let ?fs = "envelope_tree (bke_Os env) members" and ?name = "artifact_name m"
  have name: "?name = final_name m" using assms(1) by (simp add: final_name_def)
  show ?thesis
  proof (cases "inspect_restore_point env (Stored_Dir ?fs) (bmf_ArtifactType m)")
    case (Inl e)
    then show ?thesis using Inr by (simp add: publish_restore_point_def wrap_error_def Let_def)
  next
    case opened: (Inr i)
    then have opens: "inspect_artifact env (Stored_Dir ?fs) (bmf_ArtifactType m) pass = Inr i"
      using assms(1) by (simp add: inspect_artifact_def)
    have dir: "stored_dir (Stored_Dir ?fs) \<longleftrightarrow> bmf_ArtifactType m = Backup_System_Restore_Point"
      using assms(1) by (simp add: stored_dir_def)
    show ?thesis
    proof (cases "tree_envelope_sha (bke_Os env) ?fs [''manifest.yaml'', ''storage.tar.zst'', ''SHA256SUMS'']")
      case (Inl e)
      then show ?thesis using Inr opened by (simp add: publish_restore_point_def wrap_error_def Let_def)
    next
      case sha: (Inr sha)
      then have digest: "artifact_digest (Stored_Dir ?fs) = Inr sha"
        using tree_sha_calm by (simp add: restore_members_def)
      have "leaves (also_s (wrap_s ''publish system restore point: %w'' [] (publish_directory env ?name ?fs))
          (also_s (on_error_s (remove_stored env ?name) (register_artifact env (metadata_of m ?name sha)))
            (ret_s \<lparr>art_Metadata = metadata_of m ?name sha, art_Manifest = m\<rparr>)))
         (goes_on (\<lambda>a s. art_Manifest a = m \<and> created env pass a st s) (\<lambda>e. failed_creation env m pass st)) st"
        unfolding leaves_also [of "wrap_s _ _ _"] leaves_wrap
        by (intro leaves_goes_on_mono [OF publish_directory_leaves])
          (use register_published [OF _ assms(2) name digest opens dir] failed_left [OF _ opens dir] name in
            \<open>auto simp del: leaves_also\<close>)
      then show ?thesis
        using Inr opened sha by (simp add: publish_restore_point_def wrap_error_def Let_def del: leaves_also add: leaves_also [of "lift_s _"])
    qed
  qed
qed

lemma create_leaves:
  "leaves (create_backup env i now r)
    (goes_on (\<lambda>a s. i = Inr (bmf_ArtifactID (art_Manifest a)) \<and> created env (crq_Passphrase r) a st s)
      (\<lambda>e s. s = st \<or> (\<exists>m. i = Inr (bmf_ArtifactID m) \<and> bmf_ArtifactType m = crq_Type r \<and>
         failed_creation env m (crq_Passphrase r) st s))) st"
proof (cases "produced_payload env i now r")
  case (Inl e)
  then show ?thesis by (simp add: create_backup_def)
next
  case (Inr p)
  obtain payload m where p: "p = (payload, m)" by fastforce
  have m: "bmf_ArtifactType m = crq_Type r" "bmf_CreatedAt m \<noteq> []" "i = Inr (bmf_ArtifactID m)"
    using Inr by (auto simp: p produced_payload_def manifest_of_def validate_manifest_def Let_def result_simps)
  have "leaves (if crq_Type r = Backup_System_Restore_Point then publish_restore_point env payload m
      else publish_long_term env payload m (crq_Passphrase r))
     (goes_on (\<lambda>a s. art_Manifest a = m \<and> created env (crq_Passphrase r) a st s) (\<lambda>e. failed_creation env m (crq_Passphrase r) st)) st"
    using publish_restore_point_leaves [of m] publish_long_term_leaves [of m] m by simp
  then show ?thesis
    unfolding create_backup_def leaves_bind leaves_lift Inr p goes_on_simps prod.case
    by (rule leaves_goes_on_mono) (use m in auto)
qed

subsection \<open>The catalogue\<close>

definition location_name :: "backup_metadata \<Rightarrow> bytes" where
  "location_name b =
     backup_type_text (bkm_Type b) @ ''-'' @ bkm_ID b @
       (if bkm_Type b = Backup_System_Restore_Point then [] else ''.tar.zst.age'')"

definition catalogued :: "manager_state \<Rightarrow> bool" where
  "catalogued st \<longleftrightarrow>
     distinct (map bkm_ID (db_Backups (mst_Db st))) \<and>
     (\<forall>b\<in>set (db_Backups (mst_Db st)).
        valid_backup_type (bkm_Type b) \<and> CHR ''/'' \<notin> set (bkm_ID b) \<and> bkm_LocationRef b = location_name b \<and>
        (\<exists>x. mst_Root st (location_name b) = Some x \<and> artifact_digest x = Inr (bkm_SHA256 b)))"

text \<open>Names of different artifacts differ, and none is the name of a tombstone.\<close>

lemma type_texts:
  assumes "valid_backup_type t" "valid_backup_type u" "backup_type_text t @ xs = backup_type_text u @ ys"
  shows "t = u \<and> xs = ys"
  using assms by (cases t; cases u) auto

lemma location_names:
  assumes "valid_backup_type (bkm_Type a)" "valid_backup_type (bkm_Type b)" "location_name a = location_name b"
  shows "bkm_ID a = bkm_ID b"
proof -
  note type_texts [OF assms(1,2) assms(3) [unfolded location_name_def]]
  then show ?thesis by (auto split: if_splits)
qed

lemma tombstone_names: "valid_backup_type (bkm_Type b) \<Longrightarrow> location_name b \<noteq> tombstone_name i"
  by (cases "bkm_Type b") (auto simp: location_name_def tombstone_name_def)

lemma location_plain:
  assumes "valid_backup_type (bkm_Type b)" "CHR ''/'' \<notin> set (bkm_ID b)"
  shows "plain_comp (location_name b)"
proof -
  have "CHR ''/'' \<notin> set (location_name b)"
    using assms by (cases "bkm_Type b") (auto simp: location_name_def)
  moreover have "location_name b \<noteq> ''.'' \<and> location_name b \<noteq> ''..'' \<and> location_name b \<noteq> []"
    using assms(1) by (cases "bkm_Type b") (auto simp: location_name_def)
  ultimately show ?thesis by (simp add: plain_comp_def)
qed

lemma location_path_plain:
  assumes "plain_comp n" "location_path n = Inr p"
  shows "p = n"
proof -
  have "name_comps n = [n]"
    using assms(1) by (simp add: name_comps_def split_on_absent clean_comps_plain plain_comp_def)
  then show ?thesis using assms(2) by (auto simp: location_path_def split: if_splits)
qed

lemma create_catalogued:
  assumes "catalogued st" "\<And>x. i = Inr x \<Longrightarrow> CHR ''/'' \<notin> set x"
  shows "leaves (create_backup env i now r) (\<lambda>_. catalogued) st"
proof (rule leavesI)
  fix res st' assume run: "create_backup env i now r st = (res, st')"
  have keep: "catalogued (st\<lparr>mst_Root := (mst_Root st)(n \<mapsto> x)\<rparr>)" if "mst_Root st n = None" for n x
    using assms(1) that unfolding catalogued_def by auto
  show "catalogued st'"
  proof (cases res)
    case (Inl e)
    then show ?thesis
      using leavesD [OF create_leaves run] assms(1) keep
      by (auto simp: failed_creation_def published_def)
  next
    case (Inr a)
    then have "created env (crq_Passphrase r) a st st'"
      using leavesD [OF create_leaves run] by simp
    then obtain x sha st1 where pub: "published (final_name (art_Manifest a)) x st st1"
      and reg: "registered (art_Metadata a) st1 st'"
      and meta: "art_Metadata a = metadata_of (art_Manifest a) (final_name (art_Manifest a)) sha"
      and digest: "artifact_digest x = Inr sha"
      unfolding created_def by blast
    have root: "mst_Root st (final_name (art_Manifest a)) = None"
        "mst_Root st' = (mst_Root st)(final_name (art_Manifest a) \<mapsto> x)"
      using pub reg by (auto simp: published_def registered_def)
    have db: "db_Backups (mst_Db st') = db_Backups (mst_Db st) @ [art_Metadata a]"
        "bkm_ID (art_Metadata a) \<notin> bkm_ID ` set (db_Backups (mst_Db st))" "valid_backup_type (bkm_Type (art_Metadata a))"
      using pub reg by (auto simp: published_def registered_def)
    have loc: "final_name (art_Manifest a) = location_name (art_Metadata a)"
      by (simp add: meta metadata_of_def location_name_def final_name_def encrypted_name_def artifact_name_def)
    have "CHR ''/'' \<notin> set (bkm_ID (art_Metadata a))"
      using leavesD [OF create_leaves run] Inr assms(2) by (simp add: meta metadata_of_def)
    moreover have "bkm_LocationRef (art_Metadata a) = final_name (art_Manifest a)" "bkm_SHA256 (art_Metadata a) = sha"
      by (simp_all add: meta metadata_of_def)
    ultimately have new: "valid_backup_type (bkm_Type (art_Metadata a)) \<and> CHR ''/'' \<notin> set (bkm_ID (art_Metadata a)) \<and>
        bkm_LocationRef (art_Metadata a) = location_name (art_Metadata a) \<and>
        mst_Root st' (location_name (art_Metadata a)) = Some x \<and> artifact_digest x = Inr (bkm_SHA256 (art_Metadata a))"
      using db(3) digest root(2) loc by simp
    have old: "mst_Root st' (location_name b) = mst_Root st (location_name b)" if "b \<in> set (db_Backups (mst_Db st))" for b
      using assms(1) that root loc by (auto simp: catalogued_def)
    show ?thesis
      unfolding catalogued_def db(1)
      using assms(1) new old db(2) unfolding catalogued_def by auto
  qed
qed

lemma rename_leaves:
  "leaves (rename_stored env call from to)
     (\<lambda>r st'. (r = Inr () \<longrightarrow> (\<exists>x. mst_Root st from = Some x \<and> st' = st\<lparr>mst_Root := (mst_Root st)(from := None, to \<mapsto> x)\<rparr>)) \<and>
        ((\<exists>e. r = Inl e) \<longrightarrow> st' = st \<and> (mst_Root st from = None \<or> bke_Fail env call from \<noteq> None))) st"
  by (auto simp: rename_stored_def leaves_def also_s_def bind_s_def lift_s_def try_b_def split: option.splits)

lemma delete_catalogued:
  assumes cat: "catalogued st" and undo: "\<And>n. bke_Fail env ''rename back'' n = None"
  shows "leaves (delete_artifact env i) (\<lambda>r st'. catalogued st' \<and>
    (r = Inr () \<longrightarrow> db_Backups (mst_Db st') = filter (\<lambda>b. bkm_ID b \<noteq> i) (db_Backups (mst_Db st)))) st"
proof -
  let ?Q = "\<lambda>r st'. catalogued st' \<and>
    (r = Inr () \<longrightarrow> db_Backups (mst_Db st') = filter (\<lambda>b. bkm_ID b \<noteq> i) (db_Backups (mst_Db st)))"
  let ?tomb = "tombstone_name i"
  have same: "?Q (Inl e) st" for e using cat by simp
  show ?thesis
  proof (cases "bind_r (catalog_entry env i st) (\<lambda>b. bind_r (location_path (bkm_LocationRef b)) (\<lambda>name. Inr (b, name)))")
    case (Inl e)
    then show ?thesis using same
      by (cases "catalog_entry env i st"; cases "location_path (bkm_LocationRef (projr (catalog_entry env i st)))")
        (auto simp: delete_artifact_def)
  next
    case (Inr bn)
    then obtain b name where bn: "catalog_entry env i st = Inr b" "location_path (bkm_LocationRef b) = Inr name"
      by (auto simp: result_simps)
    have b: "b \<in> set (db_Backups (mst_Db st))" "bkm_ID b = i"
      using bn(1) by (auto simp: catalog_entry_def result_simps dest!: find_Some_in split: option.splits)
    obtain x where x: "valid_backup_type (bkm_Type b)" "mst_Root st (location_name b) = Some x"
        "bkm_LocationRef b = location_name b" "CHR ''/'' \<notin> set (bkm_ID b)"
      using cat b(1) by (auto simp: catalogued_def)
    have name: "name = location_name b"
      using location_path_plain [OF location_plain [OF x(1,4)]] bn(2) x(3) by simp
    have tomb: "location_name c \<noteq> ?tomb" if "c \<in> set (db_Backups (mst_Db st))" for c
      using that cat tombstone_names by (auto simp: catalogued_def)
    have others: "location_name c = location_name b \<longleftrightarrow> bkm_ID c = i" if "c \<in> set (db_Backups (mst_Db st))" for c
    proof
      assume "location_name c = location_name b"
      then show "bkm_ID c = i" using location_names [of c b] that x(1) cat b by (auto simp: catalogued_def)
    next
      assume "bkm_ID c = i"
      then have "c = b" using that b cat by (auto simp: catalogued_def distinct_map inj_on_def)
      then show "location_name c = location_name b" by simp
    qed
    let ?moved = "st\<lparr>mst_Root := (mst_Root st)(name := None, ?tomb \<mapsto> x)\<rparr>"
    let ?del = "rescue_s (change_s env (op (delete_backup (bke_Sql env) i))) (\<lambda>e st.
        case rename_stored env ''rename back'' ?tomb name st of
          (Inr u, st') \<Rightarrow> (Inl e, st')
        | (Inl e', st') \<Rightarrow>
            (Inl (Wrapf ''delete backup catalogue entry: %w; restore artifact after failed catalogue delete: %v'' [] e), st'))"
    let ?clean = "wrap_s ''cleanup deleted backup artifact bytes: %w'' []
         (also_s (lift_s (try_b env ''removeall'' ?tomb))
           (\<lambda>st. (Inr (), st\<lparr>mst_Root := (mst_Root st)(?tomb := None)\<rparr>)))"
    have gone: "catalogued st2"
      if "mst_Db st2 = (mst_Db st)\<lparr>db_Backups := filter (\<lambda>b. bkm_ID b \<noteq> i) (db_Backups (mst_Db st))\<rparr>"
        "\<forall>n. n \<noteq> ?tomb \<longrightarrow> mst_Root st2 n = mst_Root ?moved n" for st2
      using cat that tomb others unfolding catalogued_def name by (auto simp: distinct_map_filter)
    have rest: "leaves (also_s ?del ?clean) ?Q ?moved" if free: "mst_Root st ?tomb = None"
    proof (rule leaves_alsoI [where P = "\<lambda>r st'. (r = Inr () \<longrightarrow> st' = ?moved\<lparr>mst_Db := (mst_Db st)\<lparr>db_Backups :=
        filter (\<lambda>b. bkm_ID b \<noteq> i) (db_Backups (mst_Db st))\<rparr>\<rparr>) \<and> ((\<exists>e. r = Inl e) \<longrightarrow> st' = st)"])
      have undone: "rename_stored env ''rename back'' ?tomb name ?moved = (Inr (), st)"
        using undo free x(2) tomb [OF b(1)] unfolding name
        by (auto simp: rename_stored_def also_s_def bind_s_def lift_s_def try_b_def fun_upd_twist fun_upd_idem)
      show "leaves ?del (\<lambda>r st'. (r = Inr () \<longrightarrow> st' = ?moved\<lparr>mst_Db := (mst_Db st)\<lparr>db_Backups :=
        filter (\<lambda>b. bkm_ID b \<noteq> i) (db_Backups (mst_Db st))\<rparr>\<rparr>) \<and> ((\<exists>e. r = Inl e) \<longrightarrow> st' = st)) ?moved"
      proof (cases "change (bke_Sql env) (op (delete_backup (bke_Sql env) i)) (mst_Db st)")
        case (Pair r db')
        show ?thesis
        proof (cases r)
          case (Inl e)
          then have "db' = mst_Db st" using Pair by (auto simp: change_def split: option.splits prod.splits sum.splits)
          then show ?thesis using Pair Inl undone by (simp add: leaves_def rescue_s_def change_s_def)
        next
          case (Inr u)
          then have "db' = (mst_Db st)\<lparr>db_Backups := filter (\<lambda>b. bkm_ID b \<noteq> i) (db_Backups (mst_Db st))\<rparr>"
          proof -
            have "delete_backup (bke_Sql env) i (mst_Db st) = Inr db'"
              using Pair Inr by (cases "delete_backup (bke_Sql env) i (mst_Db st)")
                (simp_all add: change_def op_def split: option.splits)
            then show ?thesis by (auto simp: delete_backup_def result_simps)
          qed
          then show ?thesis using Pair Inr by (simp add: leaves_def rescue_s_def change_s_def)
        qed
      qed
    qed (use same in \<open>auto simp: leaves_def wrap_s_def also_s_def bind_s_def lift_s_def try_b_def split: option.split intro!: gone\<close>)
    have moved: "leaves (also_s (wrap_s ''stage backup artifact deletion: %w'' [] (rename_stored env ''rename'' name ?tomb))
        (also_s ?del ?clean)) ?Q st" if "mst_Root st ?tomb = None"
      unfolding leaves_also [of "wrap_s _ _ _"] leaves_wrap
    proof (rule leaves_mono [OF rename_leaves])
      fix r :: "unit result" and st'
      assume r: "(r = Inr () \<longrightarrow> (\<exists>x. mst_Root st name = Some x \<and>
          st' = st\<lparr>mst_Root := (mst_Root st)(name := None, ?tomb \<mapsto> x)\<rparr>)) \<and>
        ((\<exists>e. r = Inl e) \<longrightarrow> st' = st \<and> (mst_Root st name = None \<or> bke_Fail env ''rename'' name \<noteq> None))"
      show "goes_on (\<lambda>x. goes_on (\<lambda>_. leaves (also_s ?del ?clean) ?Q) (\<lambda>e. ?Q (Inl e)) (Inr x))
          (\<lambda>e. goes_on (\<lambda>_. leaves (also_s ?del ?clean) ?Q) (\<lambda>e. ?Q (Inl e))
            (Inl (Wrapf ''stage backup artifact deletion: %w'' [] e))) r st'"
      proof (cases r)
        case (Inr u)
        then have "st' = ?moved" using r x(2) unfolding name by auto
        then show ?thesis using rest [OF that] unfolding Inr goes_on_simps by simp
      next
        case (Inl e)
        then have "st' = st" using r by simp
        then show ?thesis unfolding Inl goes_on_simps using same by simp
      qed
    qed
    have start: "leaves (delete_artifact env i) ?Q st = leaves (also_s (lift_s (try_b env ''lstat'' ?tomb))
      (also_s (read_s (\<lambda>st. reject_if (mst_Root st ?tomb \<noteq> None) (Err ''backup deletion tombstone already exists'')))
      (also_s (wrap_s ''stage backup artifact deletion: %w'' [] (rename_stored env ''rename'' name ?tomb))
        (also_s ?del ?clean)))) ?Q st"
      unfolding delete_artifact_def leaves_bind leaves_read leaves_lift bn goes_on_simps Let_def ..
    show ?thesis
      unfolding start leaves_also [of "lift_s _"] leaves_also [of "read_s _"] leaves_lift leaves_read
      using moved same by (auto simp: goes_on_def reject_if_def split: sum.split)
  qed
qed

end
