(* ===== verification/Host_Frame.thy ===== *)
theory Host_Frame
  imports Host_Files "HOL-Library.Sublist"
begin

section \<open>What a call leaves of the tree\<close>

text \<open>
  A call on a path that is clear of links acts on this path only. The invariant \<open>below\<close> says that
  nothing outside a root has changed, that the files below it have inodes of their own, and where
  links may stand; \<open>grown\<close> says that nothing that is there goes away or changes its kind.
\<close>

definition tree_ok :: "files \<Rightarrow> bool" where
  "tree_ok fs \<longleftrightarrow>
     is_directory (node_at fs []) \<and>
     (\<forall>p nd. node_at fs p = Some nd \<and> p \<noteq> [] \<longrightarrow> is_directory (node_at fs (butlast p))) \<and>
     (\<forall>p i. node_at fs p = Some (Regular i) \<longrightarrow> i < fls_Next fs)"

lemma real_way_butlast:
  assumes "real_way fs (butlast p)" "is_directory (node_at fs (butlast p))"
  shows "real_way fs p"
  unfolding real_way_def
proof (intro allI impI)
  fix k assume "k < length p"
  then have "k = length p - 1 \<or> k < length (butlast p) \<and> take k (butlast p) = take k p" by (auto simp: take_butlast)
  then show "is_directory (node_at fs (take k p))"
    using assms by (auto simp: real_way_def butlast_conv_take)
qed

lemma tree_ok_real:
  assumes "tree_ok fs" "node_at fs p = Some nd"
  shows "real_way fs p"
  using assms(2)
proof (induction p arbitrary: nd rule: rev_induct)
  case (snoc c p)
  then have "is_directory (node_at fs p)"
    using assms(1) by (auto simp: tree_ok_def dest: spec [of _ "p @ [c]"])
  moreover from this have "real_way fs p" using snoc.IH by (auto simp: is_directory_iff)
  ultimately show ?case by (auto simp: real_way_def less_Suc_eq)
qed (simp add: real_way_def)

lemma real_followed:
  assumes "plain_path p" "real_way fs p" "node_at fs p = Some nd" "\<not> is_symlink (Some nd)"
  shows "followed fs p = Inr (Some p)"
proof -
  have "walk look n cur cs = Inr (Some (cur @ cs))"
    if "plain_path cs" "\<forall>k<length cs. is_directory (look (cur @ take k cs))" "look (cur @ cs) = Some nd"
    for look n cur cs
    using that
  proof (induction cs arbitrary: cur)
    case (Cons c cs)
    have here: "is_directory (look cur)" using Cons.prems(2) by (auto dest: spec [of _ 0])
    have rest: "\<forall>k<length cs. is_directory (look ((cur @ [c]) @ take k cs))"
      using Cons.prems(2) by (auto dest: spec [of _ "Suc _"])
    have "\<exists>x. look (cur @ [c]) = Some x \<and> \<not> is_symlink (Some x)"
      using rest Cons.prems(3) assms(4) by (cases cs) (auto simp: is_directory_iff dest: spec [of _ 0])
    then obtain x where x: "look (cur @ [c]) = Some x" "\<not> is_symlink (Some x)" by blast
    have plain: "c \<noteq> []" "c \<noteq> ''.''" "c \<noteq> ''..''" using Cons.prems(1) by (auto simp: plain_comp_def)
    obtain a where "look cur = Some (Directory a)" using here by (auto simp: is_directory_iff)
    then have "walk look n cur (c # cs) = walk look n (cur @ [c]) cs"
      using plain x by (cases x) auto
    then show ?case using Cons.IH [of "cur @ [c]"] Cons.prems(1,3) rest by simp
  qed simp
  from this [of p "node_at fs" "[]" link_limit] show ?thesis
    using assms by (simp add: followed_def real_way_def)
qed

lemma located_None:
  assumes "tree_ok fs" "plain_path p" "p \<noteq> []" "located fs p = Inr None"
  shows "node_at fs p = None"
proof (rule ccontr)
  assume "node_at fs p \<noteq> None"
  then have real: "real_way fs p" using tree_ok_real [OF assms(1)] by auto
  have up: "is_directory (node_at fs (butlast p))"
    using real assms(3) by (auto simp: real_way_def butlast_conv_take dest: spec [of _ "length p - 1"])
  moreover have "real_way fs (butlast p)" using real by (auto simp: real_way_def take_butlast)
  moreover obtain a where a: "node_at fs (butlast p) = Some (Directory a)" using up by (auto simp: is_directory_iff)
  ultimately have "followed fs (butlast p) = Inr (Some (butlast p))"
    using assms(2) by (intro real_followed [OF _ _ a]) (auto dest: in_set_butlastD)
  then show False using assms(4) a by (auto simp: located_def followed_def)
qed

subsection \<open>Nothing goes away\<close>

fun same_kind :: "node \<Rightarrow> node \<Rightarrow> bool" where
  "same_kind (Directory a) (Directory b) = True"
| "same_kind (Regular i) (Regular j) = (i = j)"
| "same_kind (Symlink s a) (Symlink t b) = (s = t)"
| "same_kind (Special c a) (Special d b) = (c = d)"
| "same_kind _ _ = False"

lemma same_kind_refl [simp]: "same_kind nd nd"
  by (cases nd) auto

lemma same_kind_trans: "same_kind a b \<Longrightarrow> same_kind b c \<Longrightarrow> same_kind a c"
  by (cases a; cases b; cases c) auto

definition grown :: "files \<Rightarrow> files \<Rightarrow> bool" where
  "grown fs fs' \<longleftrightarrow>
     (\<forall>p nd. node_at fs p = Some nd \<longrightarrow> (\<exists>nd'. node_at fs' p = Some nd' \<and> same_kind nd nd')) \<and> fls_Next fs \<le> fls_Next fs'"

interpretation growth: frame grown
proof unfold_locales
  show "grown s s" for s by (auto simp: grown_def)
  show "grown s u" if "grown s t" "grown t u" for s t u
    using that unfolding grown_def by (metis same_kind_trans le_trans)
qed

lemma grown_directory: "grown fs fs' \<Longrightarrow> is_directory (node_at fs p) \<Longrightarrow> is_directory (node_at fs' p)"
  by (auto simp: grown_def is_directory_iff dest!: spec [of _ p] elim: same_kind.elims)

lemma grown_real: "grown fs fs' \<Longrightarrow> real_way fs p \<Longrightarrow> real_way fs' p"
  by (auto simp: real_way_def dest: grown_directory)

lemma grown_regular: "grown fs fs' \<Longrightarrow> node_at fs p = Some (Regular i) \<Longrightarrow> node_at fs' p = Some (Regular i)"
  by (auto simp: grown_def dest!: spec [of _ p] elim: same_kind.elims)

lemma grown_put: "node_at fs p = None \<Longrightarrow> grown fs (put_node p nd fs)"
  by (auto simp: grown_def put_node_def update_conv)

lemma grown_make_file: "node_at fs p = None \<Longrightarrow> grown fs (make_file io mode body p fs)"
  by (auto simp: grown_def put_node_def put_inode_def make_file_def update_conv)

lemma node_at_change:
  "node_at (change_attrs f p fs) q =
     (if q = p then
        (case node_at fs p of
           Some (Directory a) \<Rightarrow> Some (Directory (f a))
         | Some (Symlink t a) \<Rightarrow> Some (Symlink t (f a))
         | Some (Special c a) \<Rightarrow> Some (Special c (f a))
         | x \<Rightarrow> x)
      else node_at fs q)"
  by (auto simp: change_attrs_def put_node_def put_inode_def update_conv split: option.split node.split)

lemma grown_change: "grown fs (change_attrs f p fs)"
proof -
  have "fls_Next (change_attrs f p fs) = fls_Next fs"
    by (simp add: change_attrs_def put_node_def put_inode_def split: option.split node.split)
  then show ?thesis
    by (auto simp: grown_def node_at_change split: node.split)
qed

lemma grown_try: "growth.framed m \<Longrightarrow> growth.framed (try_s io call p m)"
  by (simp add: try_s_def split: option.split)

lemma grown_add_entry:
  assumes "\<And>q fs. node_at fs q = None \<Longrightarrow> grown fs (mk q fs)"
  shows "growth.framed (add_entry io call p mk)"
  unfolding add_entry_def
  by (rule grown_try) (auto simp: growth.framed_def bind_s_def also_s_def read_s_def update_s_def reject_if_def
      growth.keeps_refl assms split: sum.split)

lemma grown_set_attrs: "growth.framed (set_attrs io call locate p f)"
  unfolding set_attrs_def
  by (rule grown_try) (auto simp: growth.framed_def bind_s_def also_s_def read_s_def update_s_def reject_if_def
      growth.keeps_refl grown_change split: sum.split)

subsection \<open>Nothing outside a root changes\<close>

definition below :: "path \<Rightarrow> files \<Rightarrow> path set \<Rightarrow> files \<Rightarrow> bool" where
  "below root fs0 links fs \<longleftrightarrow>
     tree_ok fs \<and> real_way fs root \<and> fls_Next fs0 \<le> fls_Next fs \<and>
     (\<forall>p. \<not> prefix root p \<longrightarrow> node_at fs p = node_at fs0 p) \<and>
     (\<forall>i<fls_Next fs0. inode_at fs i = inode_at fs0 i) \<and>
     (\<forall>p i. prefix root p \<and> node_at fs p = Some (Regular i) \<longrightarrow> fls_Next fs0 \<le> i) \<and>
     (\<forall>p. prefix root p \<and> is_symlink (node_at fs p) \<longrightarrow> p \<in> links)"

lemma below_put:
  assumes "below root fs0 links fs" "prefix root p" "p \<noteq> []" "node_at fs p = None" "real_way fs p"
    and "\<And>i. nd = Regular i \<Longrightarrow> fls_Next fs0 \<le> i \<and> i < fls_Next fs" "is_symlink (Some nd) \<Longrightarrow> p \<in> links"
  shows "below root fs0 links (put_node p nd fs)"
proof -
  have up: "is_directory (node_at fs (butlast p))"
    using assms(3,5) by (auto simp: real_way_def butlast_conv_take dest: spec [of _ "length p - 1"])
  have "is_directory (node_at fs q) \<Longrightarrow> q \<noteq> p" for q using assms(4) by auto
  then have "tree_ok (put_node p nd fs)"
    using assms(1,6) up unfolding below_def tree_ok_def put_node_def
    by (auto simp: update_conv)
  moreover have "real_way (put_node p nd fs) root"
    using assms(1,4) unfolding below_def real_way_def put_node_def by (auto simp: update_conv)
  ultimately show ?thesis
    using assms(1,2,6,7) unfolding below_def by (auto simp: put_node_def update_conv)
qed

lemma below_make_file:
  assumes "below root fs0 links fs" "prefix root p" "p \<noteq> []" "node_at fs p = None" "real_way fs p"
  shows "below root fs0 links (make_file io mode body p fs)"
  unfolding make_file_def
proof (rule below_put [OF _ assms(2,3)])
  show "below root fs0 links (put_inode (fls_Next fs) \<lparr>ind_Content = body, ind_Attrs = new_attrs io mode\<rparr>
     (fs\<lparr>fls_Next := Suc (fls_Next fs)\<rparr>))"
    using assms(1) unfolding below_def tree_ok_def real_way_def put_inode_def
    by (auto simp: update_conv less_Suc_eq)
qed (use assms in \<open>auto simp: put_inode_def real_way_def below_def\<close>)

lemma below_change:
  assumes "below root fs0 links fs" "prefix root p"
  shows "below root fs0 links (change_attrs f p fs)"
proof -
  have kinds: "is_directory (node_at (change_attrs f p fs) q) = is_directory (node_at fs q)"
    "is_symlink (node_at (change_attrs f p fs) q) = is_symlink (node_at fs q)"
    "node_at (change_attrs f p fs) q = Some (Regular i) \<longleftrightarrow> node_at fs q = Some (Regular i)"
    "node_at (change_attrs f p fs) q = None \<longleftrightarrow> node_at fs q = None" for q i
    by (auto simp: node_at_change split: option.splits node.splits)
  have other: "q \<noteq> p \<Longrightarrow> node_at (change_attrs f p fs) q = node_at fs q" for q by (simp add: node_at_change)
  have fresh: "fls_Next (change_attrs f p fs) = fls_Next fs"
    by (simp add: change_attrs_def put_node_def put_inode_def split: option.split node.split)
  have inodes: "inode_at (change_attrs f p fs) i = inode_at fs0 i" if "i < fls_Next fs0" for i
  proof -
    have "inode_at fs i = inode_at fs0 i" using assms(1) that by (simp add: below_def)
    moreover have "node_at fs p \<noteq> Some (Regular i)" using assms that by (force simp: below_def)
    ultimately show ?thesis
      by (auto simp: change_attrs_def put_node_def put_inode_def update_conv split: option.splits node.splits)
  qed
  have "tree_ok (change_attrs f p fs)"
    using assms(1) kinds fresh unfolding below_def tree_ok_def by (metis option.exhaust)
  moreover have "node_at (change_attrs f p fs) q = node_at fs0 q" if "\<not> prefix root q" for q
  proof -
    have "q \<noteq> p" using that assms(2) by blast
    then show ?thesis using assms(1) that other by (simp add: below_def)
  qed
  ultimately show ?thesis
    using assms(1) inodes unfolding below_def real_way_def kinds fresh by blast
qed

subsection \<open>The calls below a root\<close>

text \<open>The two facts every step of the extraction keeps, as a postcondition.\<close>

abbreviation stays_below :: "path \<Rightarrow> files \<Rightarrow> path set \<Rightarrow> files \<Rightarrow> files \<Rightarrow> bool" where
  "stays_below root fs0 links fs fs' \<equiv> below root fs0 links fs' \<and> grown fs fs'"

lemma leaves_add_entry:
  assumes "plain_path p" "p \<noteq> []" "clear_way fs p" "\<And>e. Q (Inl e) fs"
    and "\<lbrakk>real_way fs p; node_at fs p = None\<rbrakk> \<Longrightarrow> Q (Inr ()) (mk p fs)"
  shows "leaves (add_entry io call p mk) Q fs"
  using clear_located [OF assms(1-3)] assms(4,5)
  by (auto simp: add_entry_def at_place_def reject_if_def split: option.split)

lemma leaves_set_attrs:
  assumes "locate fs p = Inr None \<or> locate fs p = Inr (Some p)" "\<And>e. Q (Inl e) fs"
    and "node_at fs p \<noteq> None \<Longrightarrow> Q (Inr ()) (change_attrs f p fs)"
  shows "leaves (set_attrs io call locate p f) Q fs"
  using assms by (auto simp: set_attrs_def at_place_def reject_if_def split: option.split)

lemma below_add_entry:
  assumes "below root fs0 links fs" "prefix root p" "plain_path p" "p \<noteq> []" "clear_way fs p"
    and "\<lbrakk>real_way fs p; node_at fs p = None\<rbrakk> \<Longrightarrow> stays_below root fs0 links fs (mk p fs) \<and> Q (mk p fs)"
  shows "leaves (add_entry io call p mk) (\<lambda>r fs'. stays_below root fs0 links fs fs' \<and> (r = Inr () \<longrightarrow> Q fs')) fs"
  by (rule leaves_add_entry) (use assms growth.keeps_refl in auto)

lemma below_set_attrs:
  assumes "below root fs0 links fs" "prefix root p" "locate fs p = Inr None \<or> locate fs p = Inr (Some p)"
  shows "leaves (set_attrs io call locate p f) (\<lambda>r fs'. stays_below root fs0 links fs fs') fs"
  by (rule leaves_set_attrs) (use assms growth.keeps_refl below_change grown_change in auto)

lemma os_lstat_reads: "os_lstat io p fs = (fst (os_lstat io p fs), fs)" "os_stat io p fs = (fst (os_stat io p fs), fs)"
  by (simp_all add: os_lstat_def os_stat_def try_s_def read_s_def lift_s_def split: option.split)

text \<open>\<open>MkdirAll\<close> adds directories on its path, and nothing else.\<close>

definition adds_dirs :: "path \<Rightarrow> files \<Rightarrow> files \<Rightarrow> bool" where
  "adds_dirs p fs fs' \<longleftrightarrow>
     fls_Next fs' = fls_Next fs \<and> fls_Inodes fs' = fls_Inodes fs \<and>
     (\<forall>q. node_at fs' q = node_at fs q \<or> node_at fs q = None \<and> is_directory (node_at fs' q) \<and> prefix q p)"

lemma adds_dirs_refl [simp]: "adds_dirs p fs fs"
  by (simp add: adds_dirs_def)

lemma adds_dirs_trans:
  assumes "adds_dirs p fs fs1" "adds_dirs q fs1 fs2" "prefix p q"
  shows "adds_dirs q fs fs2"
  using assms unfolding adds_dirs_def by (metis is_directory.simps(2) prefix_order.trans)

lemma adds_dirs_grown: "adds_dirs p fs fs' \<Longrightarrow> grown fs fs'"
  unfolding adds_dirs_def grown_def by (metis le_refl option.distinct(1) same_kind_refl)

lemma adds_dirs_symlink: "adds_dirs p fs fs' \<Longrightarrow> is_symlink (node_at fs' q) \<Longrightarrow> is_symlink (node_at fs q)"
  unfolding adds_dirs_def by (metis is_directory_iff is_symlink.simps(3))

lemma tree_ok_put:
  assumes "tree_ok fs" "p \<noteq> []" "node_at fs p = None" "real_way fs p" "\<And>i. nd = Regular i \<Longrightarrow> i < fls_Next fs"
  shows "tree_ok (put_node p nd fs)"
proof -
  have up: "is_directory (node_at fs (butlast p))"
    using assms(2,4) by (auto simp: real_way_def butlast_conv_take dest: spec [of _ "length p - 1"])
  have "is_directory (node_at fs q) \<Longrightarrow> q \<noteq> p" for q using assms(3) by auto
  then show ?thesis
    using assms(1,5) up unfolding tree_ok_def put_node_def by (auto simp: update_conv)
qed

lemma mkdir_up_adds:
  assumes "tree_ok fs" "plain_path p" "clear_way fs p" "\<not> is_symlink (node_at fs p)"
  shows "leaves (mkdir_up io mode (rev p))
    (\<lambda>r fs'. tree_ok fs' \<and> adds_dirs p fs fs' \<and> (r = Inr () \<longrightarrow> is_directory (node_at fs' p))) fs"
  using assms
proof (induction p rule: rev_induct)
  case Nil
  then show ?case by (simp add: tree_ok_def)
next
  case (snoc c p)
  let ?Q = "\<lambda>r fs'. tree_ok fs' \<and> adds_dirs (p @ [c]) fs fs' \<and> (r = Inr () \<longrightarrow> is_directory (node_at fs' (p @ [c])))"
  let ?make = "also_s (mkdir_up io mode (rev p))
     (rescue_s (os_mkdir io (p @ [c]) mode) (\<lambda>e. read_s (\<lambda>fs'.
        case fst (os_lstat io (p @ [c]) fs') of Inr (Some (Directory a)) \<Rightarrow> Inr () | _ \<Rightarrow> Inl e)))"
  have found: "followed fs (p @ [c]) = Inr None \<or> followed fs (p @ [c]) = Inr (Some (p @ [c]))"
    using snoc.prems by (intro clear_followed) auto
  have up: "clear_way fs p" "node_at fs p = None \<or> is_directory (node_at fs p)"
    using snoc.prems(3) clear_way_butlast [of fs "p @ [c]"] by (auto simp: clear_way_def)
  have made: "leaves ?make ?Q fs"
  proof -
    have "leaves (mkdir_up io mode (rev p))
       (\<lambda>r fs'. tree_ok fs' \<and> adds_dirs p fs fs' \<and> (r = Inr () \<longrightarrow> is_directory (node_at fs' p))) fs"
      using snoc.IH snoc.prems(1,2) up by (auto simp: is_directory_iff)
    moreover have "leaves (rescue_s (os_mkdir io (p @ [c]) mode) (\<lambda>e. read_s (\<lambda>fs'.
        case fst (os_lstat io (p @ [c]) fs') of Inr (Some (Directory a)) \<Rightarrow> Inr () | _ \<Rightarrow> Inl e))) ?Q fs1"
      if fs1: "tree_ok fs1" "adds_dirs p fs fs1" "is_directory (node_at fs1 p)" for fs1
    proof -
      have real: "real_way fs1 (p @ [c])"
        using tree_ok_real [OF fs1(1)] fs1(3) by (auto simp: real_way_def is_directory_iff less_Suc_eq)
      have nolink: "\<not> is_symlink (node_at fs1 (p @ [c]))"
        using adds_dirs_symlink [OF fs1(2)] snoc.prems(4) by blast
      have here: "adds_dirs (p @ [c]) fs fs1" using adds_dirs_trans [OF fs1(2) adds_dirs_refl] by simp
      show ?thesis
        unfolding os_mkdir_def leaves_rescue
      proof (rule leaves_add_entry)
        show "goes_on (\<lambda>x. ?Q (Inr x)) (\<lambda>e. leaves (read_s (\<lambda>fs'.
            case fst (os_lstat io (p @ [c]) fs') of Inr (Some (Directory a)) \<Rightarrow> Inr () | _ \<Rightarrow> Inl e)) ?Q) (Inl e) fs1" for e
        proof -
          have "is_directory (node_at fs1 (p @ [c]))"
            if "fst (os_lstat io (p @ [c]) fs1) = Inr (Some (Directory a))" for a
            using that clear_located [OF snoc.prems(2) _ real_way_clear [OF real]]
            by (auto simp: os_lstat_def try_s_def read_s_def lift_s_def split: option.splits)
          then show ?thesis using fs1(1) here by (auto split: sum.split option.split node.split)
        qed
        assume free: "node_at fs1 (p @ [c]) = None"
        have "adds_dirs (p @ [c]) fs1 (put_node (p @ [c]) (Directory (new_attrs io mode)) fs1)"
          using free by (auto simp: adds_dirs_def put_node_def update_conv)
        moreover have "tree_ok (put_node (p @ [c]) (Directory (new_attrs io mode)) fs1)"
          by (rule tree_ok_put [OF fs1(1) _ free real]) simp_all
        ultimately show "goes_on (\<lambda>x. ?Q (Inr x)) (\<lambda>e. leaves (read_s (\<lambda>fs'.
            case fst (os_lstat io (p @ [c]) fs') of Inr (Some (Directory a)) \<Rightarrow> Inr () | _ \<Rightarrow> Inl e)) ?Q) (Inr ())
            (put_node (p @ [c]) (Directory (new_attrs io mode)) fs1)"
          using adds_dirs_trans [OF here] by (simp add: put_node_def update_conv)
      qed (use snoc.prems(2) real in auto)
    qed
    ultimately show ?thesis
      using adds_dirs_trans [OF _ adds_dirs_refl, of p fs _ "p @ [c]"]
      by (elim leaves_alsoI) auto
  qed
  have "fst (os_stat io (p @ [c]) fs) = Inr (Some nd) \<Longrightarrow> node_at fs (p @ [c]) = Some nd" for nd
    using found by (auto simp: os_stat_def try_s_def read_s_def lift_s_def split: option.splits)
  then show ?case
    using made snoc.prems(1)
    by (auto simp: leaves_def ret_s_def lift_s_def split: sum.split option.split node.split)
qed

lemma below_adds_dirs:
  assumes "below root fs0 links fs" "tree_ok fs'" "adds_dirs p fs fs'" "prefix root p \<or> prefix p root"
  shows "below root fs0 links fs'"
proof -
  have old: "node_at fs' q = node_at fs q" if "\<not> prefix root q" for q
  proof (rule ccontr)
    assume "node_at fs' q \<noteq> node_at fs q"
    then have q: "node_at fs q = None" "prefix q p" using assms(3) by (auto simp: adds_dirs_def)
    then have "strict_prefix q root"
      using assms(4) that by (metis prefix_order.dual_order.order_iff_strict prefix_same_cases prefix_order.trans)
    then have "is_directory (node_at fs q)"
      using assms(1) by (auto simp: below_def real_way_def strict_prefix_def prefix_def dest!: spec [of _ "length q"])
    then show False using q(1) by simp
  qed
  have own: "node_at fs' q = Some (Regular i) \<Longrightarrow> node_at fs q = Some (Regular i)" for q i
    using assms(3) unfolding adds_dirs_def by (metis is_directory.simps(3))
  have "real_way fs' root"
    using grown_real [OF adds_dirs_grown [OF assms(3)]] assms(1) by (simp add: below_def)
  moreover have "fls_Next fs' = fls_Next fs" "inode_at fs' = inode_at fs" using assms(3) by (simp_all add: adds_dirs_def)
  ultimately show ?thesis
    using assms(1,2) old own adds_dirs_symlink [OF assms(3)] unfolding below_def by metis
qed

lemma below_mkdir_all:
  assumes "below root fs0 links fs" "plain_path p" "clear_way fs p" "\<not> is_symlink (node_at fs p)"
    and "prefix root p \<or> prefix p root"
  shows "leaves (os_mkdir_all io p mode)
    (\<lambda>r fs'. stays_below root fs0 links fs fs' \<and> (r = Inr () \<longrightarrow> is_directory (node_at fs' p) \<and> real_way fs' p)) fs"
proof -
  have "tree_ok fs" using assms(1) by (simp add: below_def)
  from mkdir_up_adds [OF this assms(2-4)] show ?thesis
    unfolding os_mkdir_all_def
    by (rule leaves_mono)
      (use below_adds_dirs [OF assms(1) _ _ assms(5)] in \<open>auto simp: is_directory_iff intro: adds_dirs_grown tree_ok_real\<close>)
qed

end
