(* ===== verification/Backup_Extract.thy ===== *)
theory Backup_Extract
  imports Backup_Archive Host_Frame
begin

section \<open>Extraction stays below its root\<close>

text \<open>
  Whatever the archive holds and whichever call of the operating system fails, the extraction changes
  nothing outside its root, although symbolic links are extracted before other entries are: the
  names that pass the header check are chains of plain components, no call goes through a link that
  was extracted, and metadata is restored on entries that are not links.
\<close>

subsection \<open>Names that pass the check\<close>

lemma clean_comps_dots:
  assumes "\<forall>c\<in>set cs. CHR ''/'' \<notin> set c"
  shows "\<exists>k ps. clean_comps False cs = replicate k ''..'' @ ps \<and> plain_path ps"
proof -
  have "\<exists>k ps. foldl (clean_step False) (ps0 @ replicate k0 ''..'') cs = ps @ replicate k ''..'' \<and> plain_path ps"
    if "plain_path ps0" for ps0 k0
    using assms that
  proof (induction cs arbitrary: ps0 k0)
    case (Cons c cs)
    have "\<exists>k ps. clean_step False (ps0 @ replicate k0 ''..'') c = ps @ replicate k ''..'' \<and> plain_path ps"
    proof (cases "plain_comp c")
      case True
      then show ?thesis using Cons.prems(2) by (intro exI [of _ k0] exI [of _ "c # ps0"]) simp
    next
      case False
      then consider "c = [] \<or> c = ''.''" | "c = ''..''" using Cons.prems(1) by (auto simp: plain_comp_def)
      then show ?thesis
      proof cases
        case 1
        then show ?thesis using Cons.prems(2) by (auto simp: clean_step_def)
      next
        case 2
        show ?thesis
        proof (cases ps0)
          case Nil
          then show ?thesis using 2
            by (intro exI [of _ "Suc k0"] exI [of _ "[]"]) (cases k0; simp add: clean_step_def)
        next
          case (Cons q qs)
          then show ?thesis using 2 Cons.prems(2)
            by (intro exI [of _ k0] exI [of _ qs]) (auto simp: clean_step_def plain_comp_def)
        qed
      qed
    qed
    then show ?case using Cons.IH Cons.prems(1) by (metis foldl_Cons list.set_intros(2))
  qed auto
  from this [of "[]" 0] obtain k ps where "foldl (clean_step False) [] cs = ps @ replicate k ''..''" "plain_path ps"
    by auto
  then show ?thesis by (intro exI [of _ k] exI [of _ "rev ps"]) (simp add: clean_comps_def)
qed

lemma local_name:
  assumes "path_clean n = n" "is_local n"
  shows "plain_path (name_comps n)" "n \<noteq> ''.'' \<Longrightarrow> name_comps n \<noteq> [] \<and> join_with ''/'' (name_comps n) = n"
proof -
  have n: "n \<noteq> []" "\<not> has_prefix n ''/''" using assms(2) by (auto simp: is_local_def split: if_splits)
  then obtain h t where ht: "n = h # t" "h \<noteq> CHR ''/''" by (cases n) (auto simp: has_prefix_def)
  have joined: "name_comps n = [] \<and> n = ''.'' \<or> name_comps n \<noteq> [] \<and> n = join_with ''/'' (name_comps n)"
    using assms(1) ht by (auto simp: path_clean_def name_comps_def Let_def split: if_splits)
  then show "n \<noteq> ''.'' \<Longrightarrow> name_comps n \<noteq> [] \<and> join_with ''/'' (name_comps n) = n" by auto
  have up: "n \<noteq> ''..''" "\<not> has_prefix n ''../''"
    using assms n by (auto simp: is_local_def Let_def split: if_splits)
  obtain k ps where out: "name_comps n = replicate k ''..'' @ ps" "plain_path ps"
    using clean_comps_dots [of "split_on CHR ''/'' n"] split_on_free unfolding name_comps_def by blast
  have "k = 0"
  proof (rule ccontr)
    assume "k \<noteq> 0"
    then obtain cs where cs: "name_comps n = ''..'' # cs" using out(1) by (cases k) auto
    then have "n = join_with ''/'' (''..'' # cs)" using joined by auto
    then show False using up by (cases cs) (auto simp: has_prefix_def)
  qed
  then show "plain_path (name_comps n)" using out by simp
qed

lemma validated_header:
  assumes "validate_archive_header h0 = Inr h"
  shows "plain_path (name_comps (hdr_Name h))" "name_comps (hdr_Name h) \<noteq> []"
    "join_with ''/'' (name_comps (hdr_Name h)) = hdr_Name h" "h = trimmed_header h0"
    "hdr_Type h = type_link \<Longrightarrow> plain_path (name_comps (hdr_Linkname h))"
proof -
  have h: "path_clean (hdr_Name h) = hdr_Name h" "hdr_Name h \<noteq> ''.''" "is_local (hdr_Name h)" "check_target h = Inr ()"
    and trimmed: "h = trimmed_header h0"
    using assms by (auto simp: validate_archive_header_def Let_def result_simps split: if_splits)
  show "plain_path (name_comps (hdr_Name h))" by (rule local_name(1) [OF h(1,3)])
  show "name_comps (hdr_Name h) \<noteq> []" "join_with ''/'' (name_comps (hdr_Name h)) = hdr_Name h"
    using local_name(2) [OF h(1,3,2)] by simp_all
  show "h = trimmed_header h0" by (rule trimmed)
  show "plain_path (name_comps (hdr_Linkname h))" if "hdr_Type h = type_link"
  proof (rule local_name(1))
    show "path_clean (hdr_Linkname h) = hdr_Linkname h" "is_local (hdr_Linkname h)"
      using h(4) that by (auto simp: check_target_def type_defs reject_if_def split: if_splits)
  qed
qed

text \<open>Inspection lets no name pass twice.\<close>

lemma inspect_from_names:
  assumes "inspect_from seen es err = Inr entries"
  shows "\<exists>hs. map_r (\<lambda>e. validate_archive_header (fst e)) es = Inr hs \<and> entries = map listed_entry hs
    \<and> distinct (map hdr_Name hs) \<and> hdr_Name ` set hs \<inter> seen = {} \<and> err = None"
  using assms
proof (induction seen es err arbitrary: entries rule: inspect_from.induct)
  case (1 seen err)
  then show ?case by (simp split: option.splits)
next
  case (2 seen h0 body es err)
  then obtain h rest where h: "validate_archive_header h0 = Inr h" "hdr_Name h \<notin> seen"
      "inspect_from (insert (hdr_Name h) seen) es err = Inr rest" "entries = listed_entry h # rest"
    by (auto simp: result_simps split: if_splits)
  from "2.IH" [OF h(1,2,3)] obtain hs where "map_r (\<lambda>e. validate_archive_header (fst e)) es = Inr hs" "rest = map listed_entry hs"
      "distinct (map hdr_Name hs)" "hdr_Name ` set hs \<inter> insert (hdr_Name h) seen = {}" "err = None"
    by blast
  then show ?case using h by (intro exI [of _ "h # hs"]) auto
qed

subsection \<open>The steps\<close>

lemma position_cases:
  fixes j m n :: nat
  assumes "j < m + n"
  obtains "j < m" | "j = m" | i where "j = m + i" "1 \<le> i" "i < n"
proof -
  have "j < m \<or> j = m \<or> (j = m + (j - m) \<and> 1 \<le> j - m \<and> j - m < n)" using assms by linarith
  then show ?thesis using that by blast
qed

lemma leaves_ensure:
  assumes "tree_ok fs" "real_way fs root" "is_directory (node_at fs root)" "plain_path (root @ rel)"
  shows "leaves (ensure_no_symlink_parent io root rel) (\<lambda>r fs'. fs' = fs \<and> (r = Inr () \<longrightarrow> clear_way fs (root @ rel))) fs"
proof -
  let ?ok = "\<lambda>k. node_at fs (root @ take k rel) = None \<or> is_directory (node_at fs (root @ take k rel))"
  have "leaves (ensure_no_symlink_parent io root rel)
     (goes_on (\<lambda>_ fs'. fs' = fs \<and> (\<forall>k\<in>set [1..<length rel]. ?ok k)) (\<lambda>e fs'. fs' = fs)) fs"
    unfolding ensure_no_symlink_parent_def
  proof (rule leaves_each)
    fix "done" k todo s
    assume split: "[1..<length rel] = done @ k # todo" and I: "s = fs \<and> (\<forall>k\<in>set done. ?ok k)"
    have "k \<in> set [1..<length rel]" unfolding split by simp
    then have k: "1 \<le> k" "k < length rel" by simp_all
    have "sorted (done @ k # todo)" "distinct (done @ k # todo)" unfolding split [symmetric] by simp_all
    then have prev: "j \<in> set done" if "1 \<le> j" "j < k" for j
    proof -
      have "j \<in> set (done @ k # todo)" unfolding split [symmetric] using that k by simp
      then show ?thesis using that \<open>sorted (done @ k # todo)\<close> by (auto simp: sorted_append)
    qed
    let ?p = "root @ take k rel"
    have clear: "clear_way fs ?p"
      unfolding clear_way_def
    proof (intro allI impI)
      fix j assume j: "j < length ?p"
      then have "j < length root + k" using k by simp
      then show "node_at fs (take j ?p) = None \<or> is_directory (node_at fs (take j ?p))"
      proof (cases rule: position_cases)
        case 1
        then show ?thesis using assms(2) by (simp add: real_way_def)
      next
        case 2
        then show ?thesis using assms(3) by simp
      next
        case (3 i)
        then show ?thesis using I prev [of i] k by (simp add: min_def)
      qed
    qed
    have plain: "plain_path ?p" using assms(4) by (auto dest: in_set_takeD)
    have found: "located fs ?p = Inr None \<or> located fs ?p = Inr (Some ?p)"
      using clear_located [OF plain _ clear] k by (cases rel) auto
    moreover have "located fs ?p = Inr None \<Longrightarrow> node_at fs ?p = None"
      using located_None [OF assms(1) plain] k by (cases rel) auto
    ultimately have read: "fst (os_lstat io ?p fs) = Inr x \<Longrightarrow> x = node_at fs ?p" for x
      by (auto simp: os_lstat_def try_s_def read_s_def lift_s_def split: option.splits)
    obtain r where r: "os_lstat io ?p fs = (r, fs)" using os_lstat_reads(1) [of io ?p fs] by blast
    with read show "leaves (bind_s (os_lstat io ?p) (\<lambda>x. lift_s (reject_if (x \<noteq> None \<and> \<not> is_directory x)
         (Errf ''archive path traverses non-directory %q'' [path_text ?p]))))
       (goes_on (\<lambda>_ s. s = fs \<and> (\<forall>k\<in>set (done @ [k]). ?ok k)) (\<lambda>e fs'. fs' = fs)) s"
      using I by (cases r) (auto simp: leaves_def bind_s_def lift_s_def reject_if_def)
  qed simp
  then show ?thesis
  proof (rule leaves_mono)
    fix r :: "unit result" and fs'
    assume "goes_on (\<lambda>_ fs'. fs' = fs \<and> (\<forall>k\<in>set [1..<length rel]. ?ok k)) (\<lambda>e fs'. fs' = fs) r fs'"
    then have fs': "fs' = fs" "r = Inr () \<Longrightarrow> 1 \<le> k \<Longrightarrow> k < length rel \<Longrightarrow> ?ok k" for k
      by (cases r; simp)+
    have "clear_way fs (root @ rel)" if "r = Inr ()"
      unfolding clear_way_def
    proof (intro allI impI)
      fix j assume "j < length (root @ rel)"
      then have "j < length root + length rel" by simp
      then show "node_at fs (take j (root @ rel)) = None \<or> is_directory (node_at fs (take j (root @ rel)))"
        using assms(2,3) fs'(2) [OF that] by (cases rule: position_cases) (auto simp: real_way_def)
    qed
    then show "fs' = fs \<and> (r = Inr () \<longrightarrow> clear_way fs (root @ rel))" using fs'(1) by simp
  qed
qed

text \<open>Metadata is restored at the path itself where it is not one of the links.\<close>

lemma leaves_restore:
  assumes "below root fs0 links fs" "prefix root p" "plain_path p" "p \<noteq> []" "real_way fs p" "symlink \<or> p \<notin> links"
  shows "leaves (restore_metadata io p h preserve symlink) (\<lambda>r fs'. stays_below root fs0 links fs fs') fs"
proof -
  let ?K = "stays_below root fs0 links fs"
  have loc: "maintains ?K (set_attrs io call located p f)" for call f
  proof (rule maintainsI)
    fix fs1 assume K: "?K fs1"
    then have "real_way fs1 p" using grown_real assms(5) by blast
    then have "located fs1 p = Inr None \<or> located fs1 p = Inr (Some p)"
      using clear_located [of p fs1] assms(3,4) by blast
    with K assms(2) show "leaves (set_attrs io call located p f) (\<lambda>_. ?K) fs1"
      by (intro leaves_mono [OF below_set_attrs [of root fs0 links fs1 p]]) (auto intro: growth.keeps_trans)
  qed
  have fol: "maintains ?K (set_attrs io call followed p f)" if "p \<notin> links" for call f
  proof (rule maintainsI)
    fix fs1 assume K: "?K fs1"
    then have "\<not> is_symlink (node_at fs1 p)" using that assms(2) by (auto simp: below_def)
    then have "followed fs1 p = Inr None \<or> followed fs1 p = Inr (Some p)"
      using K assms(3,5) grown_real [of fs fs1 p] by (intro clear_followed) auto
    with K assms(2) show "leaves (set_attrs io call followed p f) (\<lambda>_. ?K) fs1"
      by (intro leaves_mono [OF below_set_attrs [of root fs0 links fs1 p]]) (auto intro: growth.keeps_trans)
  qed
  have "maintains ?K (restore_metadata io p h preserve symlink)"
    using loc fol assms(6)
    by (auto simp: restore_metadata_def os_chown_def os_lchown_def os_chmod_def os_chtimes_def os_lsetxattr_def
        split: option.split prod.split)
  then show ?thesis using assms(1) growth.keeps_refl by (simp add: maintains_def)
qed

text \<open>
  Between the entries: the tree below the root, the directories whose metadata is still to be
  restored and the hard links still to be made.
\<close>

definition waiting :: "path \<Rightarrow> path set \<Rightarrow> pending \<Rightarrow> files \<Rightarrow> bool" where
  "waiting root links pend fs \<longleftrightarrow>
     is_directory (node_at fs root) \<and>
     (\<forall>h\<in>set (fst pend). \<exists>h0. validate_archive_header h0 = Inr h \<and> real_way fs (root @ name_comps (hdr_Name h)) \<and>
        root @ name_comps (hdr_Name h) \<notin> links) \<and>
     (\<forall>h\<in>set (snd pend). \<exists>h0. validate_archive_header h0 = Inr h \<and> hdr_Type h = type_link)"

lemma waiting_grown: "waiting root links pend fs \<Longrightarrow> grown fs fs' \<Longrightarrow> waiting root links pend fs'"
  unfolding waiting_def by (meson grown_directory grown_real)

definition extracted_links :: "path \<Rightarrow> tar_entry list \<Rightarrow> path set" where
  "extracted_links root es =
     {root @ name_comps (hdr_Name h) |h. \<exists>e\<in>set es. validate_archive_header (fst e) = Inr h \<and> hdr_Type h = type_symlink}"

text \<open>A new entry is made at the end of a way whose directories are there after \<open>MkdirAll\<close>.\<close>

lemma leaves_make:
  assumes below: "below root fs0 links fs" and way: "clear_way fs (root @ rel)" "plain_path (root @ rel)" "rel \<noteq> []"
    and make: "\<And>fs1. \<lbrakk>stays_below root fs0 links fs fs1; real_way fs1 (root @ rel)\<rbrakk> \<Longrightarrow> leaves k Q fs1"
    and fail: "\<And>e fs1. stays_below root fs0 links fs fs1 \<Longrightarrow> Q (Inl e) fs1"
  shows "leaves (also_s (os_mkdir_all io (butlast (root @ rel)) 448) k) Q fs"
proof (rule leaves_alsoI [where P = "\<lambda>r fs'. stays_below root fs0 links fs fs' \<and>
    (r = Inr () \<longrightarrow> is_directory (node_at fs' (butlast (root @ rel))) \<and> real_way fs' (butlast (root @ rel)))"])
  let ?up = "butlast (root @ rel)"
  have "node_at fs ?up = None \<or> is_directory (node_at fs ?up)"
    using way(1,3) by (auto simp: clear_way_def butlast_conv_take dest: spec [of _ "length (root @ rel) - 1"])
  then show "leaves (os_mkdir_all io ?up 448) (\<lambda>r fs'. stays_below root fs0 links fs fs' \<and>
    (r = Inr () \<longrightarrow> is_directory (node_at fs' ?up) \<and> real_way fs' ?up)) fs"
    using way below clear_way_butlast [OF way(1)]
    by (intro below_mkdir_all) (auto simp: is_directory_iff butlast_append dest: in_set_butlastD)
  fix fs1 assume fs1: "stays_below root fs0 links fs fs1 \<and>
    (Inr () = Inr () \<longrightarrow> is_directory (node_at fs1 ?up) \<and> real_way fs1 ?up)"
  then have "real_way fs1 ?up" "is_directory (node_at fs1 ?up)" by blast+
  then have "real_way fs1 (root @ rel)" by (rule real_way_butlast)
  then show "leaves k Q fs1" using make fs1 by blast
qed (use fail in blast)

lemma leaves_entry:
  assumes below: "below root fs0 links fs" and wait: "waiting root links pend fs" and plain: "plain_path root"
    and links: "\<And>h. validate_archive_header h0 = Inr h \<Longrightarrow>
      (hdr_Type h = type_symlink \<longleftrightarrow> root @ name_comps (hdr_Name h) \<in> links)"
  shows "leaves (extract_entry io root preserve pend (h0, body))
    (goes_on (\<lambda>pend' fs'. below root fs0 links fs' \<and> waiting root links pend' fs') (\<lambda>e. below root fs0 links)) fs"
proof (cases "validate_archive_header h0")
  case (Inl e)
  then show ?thesis using below by (simp add: extract_entry_def split: prod.split)
next
  case (Inr h)
  obtain dirs lks where pend: "pend = (dirs, lks)" by fastforce
  let ?rel = "name_comps (hdr_Name h)"
  let ?dest = "root @ ?rel"
  let ?Q = "goes_on (\<lambda>pend' fs'. below root fs0 links fs' \<and> waiting root links pend' fs') (\<lambda>e. below root fs0 links)"
  have rel: "plain_path ?dest" "?rel \<noteq> []" "?dest \<noteq> []"
    using validated_header(1,2) [OF Inr] plain by auto
  have tree: "tree_ok fs" "real_way fs root" "is_directory (node_at fs root)"
    using below wait by (simp_all add: below_def waiting_def)
  have same: "below root fs0 links fs' \<and> waiting root links pend fs'" if "stays_below root fs0 links fs fs'" for fs'
    using that waiting_grown [OF wait] by blast
  have created: "leaves (also_s (os_mkdir_all io (butlast ?dest) 448)
        (also_s (add_entry io call ?dest mk) (also_s m (also_s (restore_metadata io ?dest h preserve symlink) (ret_s pend))))) ?Q fs"
    if clear: "clear_way fs ?dest"
      and mk: "\<And>fs1. \<lbrakk>below root fs0 links fs1; real_way fs1 ?dest; node_at fs1 ?dest = None\<rbrakk>
        \<Longrightarrow> stays_below root fs0 links fs1 (mk ?dest fs1)"
      and symlink: "symlink \<or> ?dest \<notin> links" and m: "\<And>fs1 P. P (fst (m fs1)) fs1 \<Longrightarrow> leaves m P fs1"
    for call mk symlink and m :: "(files, unit) action"
  proof (rule leaves_make [OF below clear rel(1,2)])
    fix fs1 assume fs1: "stays_below root fs0 links fs fs1" "real_way fs1 ?dest"
    have "leaves (add_entry io call ?dest mk) (\<lambda>r fs'. stays_below root fs0 links fs1 fs' \<and> (r = Inr () \<longrightarrow> True)) fs1"
      by (rule below_add_entry) (use fs1 rel mk in auto)
    then show "leaves (also_s (add_entry io call ?dest mk)
        (also_s m (also_s (restore_metadata io ?dest h preserve symlink) (ret_s pend)))) ?Q fs1"
    proof (rule leaves_alsoI)
      fix fs2 assume fs2: "stays_below root fs0 links fs1 fs2 \<and> (Inr () = Inr () \<longrightarrow> True)"
      then have grown: "grown fs fs2" "real_way fs2 ?dest"
        using fs1 growth.keeps_trans grown_real by blast+
      have "leaves (restore_metadata io ?dest h preserve symlink) (\<lambda>r fs'. stays_below root fs0 links fs2 fs') fs2"
        by (rule leaves_restore) (use fs2 rel symlink grown in auto)
      then have "leaves (also_s (restore_metadata io ?dest h preserve symlink) (ret_s pend)) ?Q fs2"
        by (rule leaves_alsoI) (use grown same growth.keeps_trans in \<open>auto dest: same\<close>)
      then show "leaves (also_s m (also_s (restore_metadata io ?dest h preserve symlink) (ret_s pend))) ?Q fs2"
        unfolding leaves_also by (intro m) (use fs2 in \<open>simp add: goes_on_def split: sum.split\<close>)
    qed (auto dest: same)
  qed auto
  have entry: "leaves (if hdr_Type h = type_dir then
          also_s (os_mkdir_all io (butlast ?dest) 448)
         (also_s (rescue_s (os_mkdir io ?dest 448) (\<lambda>e. lift_s (if error_is e err_exist then Inr () else Inl e)))
            (ret_s (dirs @ [h], lks)))
        else if hdr_Type h = type_reg \<or> hdr_Type h = type_rega then
          also_s (os_mkdir_all io (butlast ?dest) 448)
         (also_s (os_write_new io ?dest (hdr_Mode h mod 4096) body)
         (also_s (restore_metadata io ?dest h preserve False) (ret_s (dirs, lks))))
        else if hdr_Type h = type_symlink then
          also_s (os_mkdir_all io (butlast ?dest) 448)
         (also_s (os_symlink io (hdr_Linkname h) ?dest)
         (also_s (restore_metadata io ?dest h preserve True) (ret_s (dirs, lks))))
        else if hdr_Type h = type_link then ret_s (dirs, lks @ [h])
        else lift_s (Inl (Errf ''unsupported archive entry type %d'' [decimal (of_char (hdr_Type h))]))) ?Q fs"
    if clear: "clear_way fs ?dest"
  proof -
    consider (dir) "hdr_Type h = type_dir" | (reg) "hdr_Type h = type_reg \<or> hdr_Type h = type_rega"
      | (sym) "hdr_Type h = type_symlink" | (link) "hdr_Type h = type_link"
      | (other) "hdr_Type h \<notin> {type_dir, type_reg, type_rega, type_symlink, type_link}" by blast
    then show ?thesis
    proof cases
      case dir
      then have out: "?dest \<notin> links" using links [OF Inr] by (simp add: type_defs)
      have "leaves (also_s (os_mkdir_all io (butlast ?dest) 448)
         (also_s (rescue_s (os_mkdir io ?dest 448) (\<lambda>e. lift_s (if error_is e err_exist then Inr () else Inl e)))
            (ret_s (dirs @ [h], lks)))) ?Q fs"
      proof (rule leaves_make [OF below clear rel(1,2)])
        fix fs1 assume fs1: "stays_below root fs0 links fs fs1" "real_way fs1 ?dest"
        have "leaves (os_mkdir io ?dest 448) (\<lambda>r fs'. stays_below root fs0 links fs1 fs' \<and> (r = Inr () \<longrightarrow> True)) fs1"
          unfolding os_mkdir_def
          by (rule below_add_entry) (use fs1 rel in \<open>auto intro!: below_put grown_put\<close>)
        then have made: "leaves (rescue_s (os_mkdir io ?dest 448) (\<lambda>e. lift_s (if error_is e err_exist then Inr () else Inl e)))
            (\<lambda>r. stays_below root fs0 links fs1) fs1"
          by (auto simp: goes_on_def elim!: leaves_mono split: sum.split)
        show "leaves (also_s (rescue_s (os_mkdir io ?dest 448) (\<lambda>e. lift_s (if error_is e err_exist then Inr () else Inl e)))
            (ret_s (dirs @ [h], lks))) ?Q fs1"
        proof (rule leaves_alsoI [OF made])
          fix fs2 assume fs2: "stays_below root fs0 links fs1 fs2"
          then have "stays_below root fs0 links fs fs2" "real_way fs2 ?dest"
            using fs1 growth.keeps_trans grown_real by blast+
          then show "leaves (ret_s (dirs @ [h], lks)) ?Q fs2"
            using same [of fs2] Inr out by (auto simp: pend waiting_def)
        qed simp
      qed simp
      then show ?thesis using dir by simp
    next
      case reg
      then have out: "?dest \<notin> links" "hdr_Type h \<noteq> type_dir" using links [OF Inr] by (auto simp: type_defs)
      have "leaves (also_s (os_mkdir_all io (butlast ?dest) 448)
         (also_s (os_write_new io ?dest (hdr_Mode h mod 4096) body)
         (also_s (restore_metadata io ?dest h preserve False) (ret_s pend)))) ?Q fs"
      proof (cases "ose_Fail io ''write'' ?dest")
        case None
        have "leaves (also_s (os_mkdir_all io (butlast ?dest) 448)
          (also_s (add_entry io ''create'' ?dest (make_file io (hdr_Mode h mod 4096) body))
          (also_s (try_s io ''close'' ?dest (ret_s ()))
          (also_s (restore_metadata io ?dest h preserve False) (ret_s pend))))) ?Q fs"
          by (rule created [OF clear])
            (use rel out in \<open>auto simp: try_s_def ret_s_def lift_s_def intro!: below_make_file grown_make_file split: option.splits\<close>)
        then show ?thesis by (simp add: os_write_new_def None also_s_assoc del: leaves_also)
      next
        case (Some e)
        have "leaves (also_s (os_mkdir_all io (butlast ?dest) 448)
          (also_s (add_entry io ''create'' ?dest (make_file io (hdr_Mode h mod 4096) (take (ose_Written io) body)))
          (also_s (lift_s (Inl e))
          (also_s (restore_metadata io ?dest h preserve False) (ret_s pend))))) ?Q fs"
          by (rule created [OF clear])
            (use rel out in \<open>auto simp: lift_s_def intro!: below_make_file grown_make_file\<close>)
        then show ?thesis by (simp add: os_write_new_def Some also_s_assoc del: leaves_also)
      qed
      then show ?thesis using reg out(2) by (simp only: if_False if_True pend)
    next
      case sym
      then have out: "?dest \<in> links" using links [OF Inr] by simp
      have "leaves (also_s (os_mkdir_all io (butlast ?dest) 448)
          (also_s (add_entry io ''symlink'' ?dest (\<lambda>q. put_node q (Symlink (hdr_Linkname h) (link_attrs io))))
          (also_s (ret_s ()) (also_s (restore_metadata io ?dest h preserve True) (ret_s pend))))) ?Q fs"
        by (rule created [OF clear])
          (use rel out in \<open>auto simp: ret_s_def intro!: below_put grown_put\<close>)
      then show ?thesis using sym by (simp add: type_defs os_symlink_def pend del: leaves_also)
    next
      case link
      then show ?thesis using below wait Inr by (auto simp: type_defs pend waiting_def)
    next
      case other
      then show ?thesis using below by simp
    qed
  qed
  show ?thesis
    using leaves_ensure [OF tree rel(1), of io] entry below
    unfolding pend extract_entry_def prod.case Inr leaves_bind leaves_lift goes_on_simps Let_def
    by (elim leaves_alsoI) auto
qed

lemma leaves_hardlink:
  assumes below: "below root fs0 links fs" and dir: "is_directory (node_at fs root)"
    and root: "plain_path root" "root \<noteq> []" and h: "validate_archive_header h0 = Inr h" "hdr_Type h = type_link"
  shows "leaves (extract_hardlink io root h) (\<lambda>r. stays_below root fs0 links fs) fs"
proof -
  let ?rel = "name_comps (hdr_Name h)" and ?to_rel = "name_comps (hdr_Linkname h)"
  let ?dest = "root @ ?rel" and ?to = "root @ ?to_rel"
  let ?K = "\<lambda>r. stays_below root fs0 links fs"
  have plain: "plain_path ?dest" "?rel \<noteq> []" "plain_path ?to" "?to \<noteq> []"
    using validated_header(1,2,5) [OF h(1)] h(2) root by auto
  have tree: "tree_ok fs" "real_way fs root" using below by (simp_all add: below_def)
  have here: "stays_below root fs0 links fs fs" using below growth.keeps_refl by simp
  have link: "leaves (also_s (os_mkdir_all io (butlast ?dest) 448) (os_link io ?to ?dest)) ?K fs"
    if clear: "clear_way fs ?dest" and target: "node_at fs ?to = Some (Regular i)" for i
  proof (rule leaves_make [OF below clear plain(1,2)])
    fix fs1 assume fs1: "stays_below root fs0 links fs fs1" "real_way fs1 ?dest"
    have to: "node_at fs1 ?to = Some (Regular i)" using grown_regular fs1 target by blast
    have "located fs1 ?to = Inr None \<or> located fs1 ?to = Inr (Some ?to)"
      using clear_located [OF plain(3,4)] tree_ok_real [OF _ to] fs1(1) by (auto simp: below_def)
    moreover have "fls_Next fs0 \<le> i \<and> i < fls_Next fs1" 
    proof -
      have "prefix root ?to" by simp
      then show ?thesis using fs1(1) to unfolding below_def tree_ok_def by blast
    qed
    then have "leaves (add_entry io ''link'' ?dest (\<lambda>q. put_node q (Regular i)))
        (\<lambda>r fs'. stays_below root fs0 links fs1 fs' \<and> (r = Inr () \<longrightarrow> True)) fs1"
      using fs1 plain root by (intro below_add_entry) (auto intro!: below_put grown_put)
    ultimately show "leaves (os_link io ?to ?dest) ?K fs1"
      using to fs1 by (auto simp: os_link_def at_place_def elim!: leaves_mono intro: growth.keeps_trans)
  qed
  have "leaves (also_s (read_s (\<lambda>fs. case fst (os_lstat io ?to fs) of
        Inr (Some (Regular i)) \<Rightarrow> Inr ()
      | _ \<Rightarrow> Inl (Errf ''hardlink target %q is not an extracted regular file'' [hdr_Linkname h])))
      (also_s (os_mkdir_all io (butlast ?dest) 448) (os_link io ?to ?dest))) ?K fs"
    if clear: "clear_way fs ?dest" "clear_way fs ?to"
  proof -
    have "node_at fs ?to = Some nd" if "fst (os_lstat io ?to fs) = Inr (Some nd)" for nd
      using that clear_located [OF plain(3,4) clear(2)]
      by (auto simp: os_lstat_def try_s_def read_s_def lift_s_def split: option.splits)
    then show ?thesis
      using here link [OF clear(1)]
      by (auto simp: goes_on_def simp del: leaves_also simp: leaves_also [of "read_s _"] split: sum.split option.split node.split)
  qed
  then have "leaves (also_s (ensure_no_symlink_parent io root ?to_rel)
      (also_s (read_s (\<lambda>fs. case fst (os_lstat io ?to fs) of
          Inr (Some (Regular i)) \<Rightarrow> Inr ()
        | _ \<Rightarrow> Inl (Errf ''hardlink target %q is not an extracted regular file'' [hdr_Linkname h])))
        (also_s (os_mkdir_all io (butlast ?dest) 448) (os_link io ?to ?dest)))) ?K fs"
    if "clear_way fs ?dest"
    using that here by (intro leaves_alsoI [OF leaves_ensure [OF tree dir plain(3)]]) auto
  then show ?thesis
    unfolding extract_hardlink_def Let_def
    using here by (intro leaves_alsoI [OF leaves_ensure [OF tree dir plain(1)]]) auto
qed

text \<open>An empty root has nothing below it.\<close>

lemma empty_below:
  assumes "tree_ok fs" "children fs root = []" "node_at fs p = Some nd" "prefix root p"
  shows "p = root"
proof (rule ccontr)
  assume "p \<noteq> root"
  with assms(4) obtain zs where "p = root @ zs" "zs \<noteq> []" by (auto simp: prefix_def)
  then obtain c cs where p: "p = root @ c # cs" by (cases zs) auto
  let ?q = "root @ [c]"
  have "node_at fs ?q \<noteq> None"
  proof (cases cs)
    case Nil
    then show ?thesis using assms(3) p by simp
  next
    case (Cons d ds)
    then have "is_directory (node_at fs (take (length ?q) p))"
      using tree_ok_real [OF assms(1,3)] p by (auto simp: real_way_def simp del: take_append)
    then show ?thesis using p by (auto simp: is_directory_iff)
  qed
  then have "?q \<in> set (children fs root)"
    by (auto simp: children_def dest!: map_of_SomeD intro: rev_image_eqI)
  then show False using assms(2) by simp
qed

lemma checked_empty:
  assumes "tree_ok fs" "real_way fs root" "plain_path root" "\<not> is_symlink (node_at fs root)"
    and "check_empty io root fs = (Inr (), fs')"
  shows "below root fs links fs"
proof -
  have state: "node_at fs root = None \<or> is_directory (node_at fs root) \<and> children fs root = []"
  proof (cases "node_at fs root")
    case (Some nd)
    then have "followed fs root = Inr (Some root)" using real_followed [OF assms(3,2) Some] assms(4) by simp
    then show ?thesis
      using assms(5) Some by (cases nd) (auto simp: check_empty_def read_s_def reject_if_def split: option.splits if_splits)
  qed simp
  have absent: "node_at fs p = None" if "node_at fs root = None" "prefix root p" for p
  proof (rule ccontr)
    assume "node_at fs p \<noteq> None"
    then obtain nd where "node_at fs p = Some nd" by blast
    then show False using that tree_ok_real [OF assms(1), of p nd]
      by (auto simp: real_way_def prefix_def is_directory_iff dest!: spec [of _ "length root"])
  qed
  show ?thesis
  proof (cases "node_at fs root")
    case (Some nd)
    then have root: "is_directory (node_at fs root)" "children fs root = []" using state by auto
    have here: "p = root" if "prefix root p" "node_at fs p = Some x" for p x
      using empty_below [OF assms(1) root(2) that(2,1)] .
    have "node_at fs p \<noteq> Some (Regular i)" "\<not> is_symlink (node_at fs p)" if "prefix root p" for p i
      using here [OF that] root(1) by (cases "node_at fs p"; auto simp: is_directory_iff)+
    then show ?thesis using assms(1,2) unfolding below_def by blast
  next
    case None
    then have "node_at fs p = None" if "prefix root p" for p using that absent by blast
    then show ?thesis using assms(1,2) unfolding below_def by auto
  qed
qed

lemma extraction_below:
  assumes fs: "tree_ok fs" "real_way fs root" "\<not> is_symlink (node_at fs root)" and root: "plain_path root" "root \<noteq> []"
  shows "leaves (extract_tar_zst io unpack body root preserve)
    (\<lambda>r fs'. fs' = fs \<or> (\<exists>links. below root fs links fs')) fs"
proof (cases "inspect_tar_zst unpack body")
  case (Inl e)
  then show ?thesis by (simp add: extract_tar_zst_def)
next
  case (Inr entries)
  then obtain es err hs where unpack: "unpack body = Inr (es, err)"
    and hs: "map_r (\<lambda>e. validate_archive_header (fst e)) es = Inr hs" "distinct (map hdr_Name hs)"
    by (auto simp: inspect_tar_zst_def result_simps dest!: inspect_from_names)
  let ?links = "extracted_links root es"
  let ?Q = "\<lambda>r fs'. fs' = fs \<or> (\<exists>links. below root fs links fs')"
  have member: "hdr_Type h = type_symlink \<longleftrightarrow> root @ name_comps (hdr_Name h) \<in> ?links"
    if "validate_archive_header (fst e) = Inr h" "e \<in> set es" for e h
  proof -
    have in_hs: "h' \<in> set hs" if "validate_archive_header (fst e') = Inr h'" "e' \<in> set es" for e' h'
      using hs(1) that by (force simp: map_r_Inr_iff list_all2_conv_all_nth in_set_conv_nth)
    have "h' = h" if "validate_archive_header (fst e') = Inr h'" "e' \<in> set es" "name_comps (hdr_Name h') = name_comps (hdr_Name h)" for e' h'
      using in_hs [OF that(1,2)] in_hs [OF \<open>validate_archive_header (fst e) = Inr h\<close> \<open>e \<in> set es\<close>] hs(2)
        validated_header(3) [OF that(1)] validated_header(3) [OF \<open>validate_archive_header (fst e) = Inr h\<close>] that(3)
      by (metis distinct_map inj_on_eq_iff)
    then show ?thesis using that by (auto simp: extracted_links_def)
  qed
  have rest: "leaves (bind_s (fold_s (extract_entry io root preserve) ([], []) es) (\<lambda>(dirs, links).
       also_s (lift_s (case err of None \<Rightarrow> Inr () | Some e \<Rightarrow> Inl e))
      (also_s (each_s (extract_hardlink io root) links)
         (each_s (\<lambda>h. restore_metadata io (root @ name_comps (hdr_Name h)) h preserve False) (rev dirs))))) ?Q fs1"
    if fs1: "below root fs ?links fs1" "is_directory (node_at fs1 root)" for fs1
  proof -
    have "leaves (fold_s (extract_entry io root preserve) ([], []) es)
      (goes_on (\<lambda>pend fs'. below root fs ?links fs' \<and> waiting root ?links pend fs') (\<lambda>e. below root fs ?links)) fs1"
    proof (rule leaves_fold [where I = "\<lambda>_ pend fs'. below root fs ?links fs' \<and> waiting root ?links pend fs'"])
      fix "done" e todo pend fs2
      assume "es = done @ e # todo" and fs2: "below root fs ?links fs2 \<and> waiting root ?links pend fs2"
      then have "e \<in> set es" by simp
      then show "leaves (extract_entry io root preserve pend e)
        (goes_on (\<lambda>pend fs'. below root fs ?links fs' \<and> waiting root ?links pend fs') (\<lambda>e. below root fs ?links)) fs2"
        using leaves_entry [of root fs ?links fs2 pend "fst e" io preserve "snd e"] member fs2 root(1) by simp
    qed (use fs1 in \<open>simp add: waiting_def\<close>)
    then show ?thesis
    proof (rule leaves_bindI)
      fix pend fs2
      assume "goes_on (\<lambda>pend fs'. below root fs ?links fs' \<and> waiting root ?links pend fs') (\<lambda>e. below root fs ?links) (Inr pend) fs2"
      then have fs2: "below root fs ?links fs2" "waiting root ?links pend fs2" by simp_all
      obtain dirs lks where pend: "pend = (dirs, lks)" by fastforce
      let ?K = "\<lambda>fs'. below root fs ?links fs' \<and> waiting root ?links pend fs'"
      have "maintains ?K (extract_hardlink io root h)" if mem: "h \<in> set lks" for h
      proof (rule maintainsI)
        fix fs3 assume K: "?K fs3"
        then have "\<forall>h\<in>set lks. \<exists>h0. validate_archive_header h0 = Inr h \<and> hdr_Type h = type_link"
          by (simp add: waiting_def pend)
        then obtain h0 where h: "validate_archive_header h0 = Inr h" "hdr_Type h = type_link"
          using mem by blast
        have "is_directory (node_at fs3 root)" "below root fs ?links fs3" using K unfolding waiting_def by blast+
        then have "leaves (extract_hardlink io root h) (\<lambda>r. stays_below root fs ?links fs3) fs3"
          by (intro leaves_hardlink [OF _ _ root h])
        then show "leaves (extract_hardlink io root h) (\<lambda>_. ?K) fs3"
          by (rule leaves_mono) (use K waiting_grown [of root ?links pend fs3] in blast)
      qed
      moreover have "maintains ?K (restore_metadata io (root @ name_comps (hdr_Name h)) h preserve False)" if mem: "h \<in> set dirs" for h
      proof (rule maintainsI)
        fix fs3 assume K: "?K fs3"
        then obtain h0 where h: "validate_archive_header h0 = Inr h" "real_way fs3 (root @ name_comps (hdr_Name h))"
            "root @ name_comps (hdr_Name h) \<notin> ?links"
          using mem by (auto simp: waiting_def pend)
        have "leaves (restore_metadata io (root @ name_comps (hdr_Name h)) h preserve False) (\<lambda>r. stays_below root fs ?links fs3) fs3"
          using K h root validated_header(1) [OF h(1)] by (intro leaves_restore) auto
        then show "leaves (restore_metadata io (root @ name_comps (hdr_Name h)) h preserve False) (\<lambda>_. ?K) fs3"
          by (rule leaves_mono) (use K waiting_grown [of root ?links pend fs3] in blast)
      qed
      ultimately have "maintains ?K (case pend of (dirs, links) \<Rightarrow>
        also_s (lift_s (case err of None \<Rightarrow> Inr () | Some e \<Rightarrow> Inl e))
       (also_s (each_s (extract_hardlink io root) links)
         (each_s (\<lambda>h. restore_metadata io (root @ name_comps (hdr_Name h)) h preserve False) (rev dirs))))"
        by (auto simp: pend)
      then show "leaves (case pend of (dirs, links) \<Rightarrow>
        also_s (lift_s (case err of None \<Rightarrow> Inr () | Some e \<Rightarrow> Inl e))
       (also_s (each_s (extract_hardlink io root) links)
         (each_s (\<lambda>h. restore_metadata io (root @ name_comps (hdr_Name h)) h preserve False) (rev dirs)))) ?Q fs2"
        using fs2 by (auto simp: maintains_def elim!: leaves_mono)
    qed auto
  qed
  show ?thesis
    unfolding extract_tar_zst_def Inr leaves_bind leaves_lift goes_on_simps
  proof (rule leaves_alsoI [where P = "\<lambda>r fs'. fs' = fs \<and> (r = Inr () \<longrightarrow> below root fs ?links fs)"])
    show "leaves (check_empty io root) (\<lambda>r fs'. fs' = fs \<and> (r = Inr () \<longrightarrow> below root fs ?links fs)) fs"
      using checked_empty [OF fs(1,2) root(1) fs(3)]
      by (intro leavesI) (auto simp: check_empty_def read_s_def)
    fix s assume "s = fs \<and> (Inr () = Inr () \<longrightarrow> below root fs ?links fs)"
    then have s: "s = fs" "below root fs ?links fs" by auto
    have "leaves (os_mkdir_all io root 448) (\<lambda>r fs'. stays_below root fs ?links fs fs' \<and>
        (r = Inr () \<longrightarrow> is_directory (node_at fs' root) \<and> real_way fs' root)) fs"
      using s root fs by (intro below_mkdir_all) auto
    then show "leaves (also_s (os_mkdir_all io root 448) (bind_s (lift_s (unpack body)) (\<lambda>(es, err).
       bind_s (fold_s (extract_entry io root preserve) ([], []) es) (\<lambda>(dirs, links).
       also_s (lift_s (case err of None \<Rightarrow> Inr () | Some e \<Rightarrow> Inl e))
      (also_s (each_s (extract_hardlink io root) links)
         (each_s (\<lambda>h. restore_metadata io (root @ name_comps (hdr_Name h)) h preserve False) (rev dirs))))))) ?Q s"
      unfolding s(1)
    proof (rule leaves_alsoI)
      fix fs1 assume "stays_below root fs ?links fs fs1 \<and> (Inr () = Inr () \<longrightarrow> is_directory (node_at fs1 root) \<and> real_way fs1 root)"
      then show "leaves (bind_s (lift_s (unpack body)) (\<lambda>(es, err).
         bind_s (fold_s (extract_entry io root preserve) ([], []) es) (\<lambda>(dirs, links).
         also_s (lift_s (case err of None \<Rightarrow> Inr () | Some e \<Rightarrow> Inl e))
        (also_s (each_s (extract_hardlink io root) links)
           (each_s (\<lambda>h. restore_metadata io (root @ name_comps (hdr_Name h)) h preserve False) (rev dirs)))))) ?Q fs1"
        unfolding leaves_bind [of "lift_s _"] leaves_lift unpack goes_on_simps prod.case by (intro rest) auto
    qed blast
  qed auto
qed

subsection \<open>The properties\<close>

text \<open>
  C31: Whatever an archive holds and whichever call fails, its extraction changes no path outside the
  root and no file that was there before.
\<close>

theorem extraction_confined:
  assumes "tree_ok fs" "real_way fs root" "\<not> is_symlink (node_at fs root)" "plain_path root" "root \<noteq> []"
    and "extract_tar_zst io unpack body root preserve fs = (r, fs')"
  shows "(\<forall>p. \<not> prefix root p \<longrightarrow> node_at fs' p = node_at fs p) \<and> (\<forall>i<fls_Next fs. inode_at fs' i = inode_at fs i)"
  using leavesD [OF extraction_below [OF assms(1-5)] assms(6)] by (auto simp: below_def)

subsection \<open>A sample archive\<close>

definition no_os :: os_env where
  "no_os = \<lparr>ose_Fail = (\<lambda>_ _. None), ose_Uid = 0, ose_Gid = 0, ose_Now = 0, ose_Written = 0, ose_Umask = 18\<rparr>"

definition sample_attrs :: attrs where
  "sample_attrs = \<lparr>att_Mode = 493, att_Uid = 0, att_Gid = 0, att_Time = 0, att_Xattrs = []\<rparr>"

definition sample_files :: files where
  "sample_files = \<lparr>fls_Nodes = [([], Directory sample_attrs), ([''etc''], Directory sample_attrs)], fls_Inodes = [], fls_Next = 0\<rparr>"

definition sample_header :: "bytes \<Rightarrow> char \<Rightarrow> bytes \<Rightarrow> tar_header" where
  "sample_header name t link =
     \<lparr>hdr_Name = name, hdr_Type = t, hdr_Linkname = link, hdr_Mode = 493, hdr_Uid = 0, hdr_Gid = 0,
      hdr_ModTime = Some 0, hdr_PAX = [], hdr_Xattrs = []\<rparr>"

definition escaping_entries :: "tar_entry list" where
  "escaping_entries =
     [(sample_header ''a/x'' type_symlink ''../t'', []), (sample_header ''l'' type_symlink ''a/x/../../etc'', []),
      (sample_header ''t/'' type_dir [], [])]"

definition escaping_unpack :: unpacker where
  "escaping_unpack body = Inr (escaping_entries, None)"

definition escaped :: "unit result \<times> files" where
  "escaped = extract_tar_zst no_os escaping_unpack ''archive'' [''r''] True sample_files"


text \<open>
  The check of a symbolic link is lexical: it takes the components of the target for the
  directories they name. When one of them is a link itself, \<open>..\<close> leads elsewhere: the archive of
  this sample passes the inspection and is extracted, and then holds a link to a place outside the root.
\<close>

theorem extracted_link_escapes:
  "fst escaped = Inr () \<and> followed (snd escaped) [''r'', ''l''] = Inr (Some [''etc'']) \<and> \<not> prefix [''r''] [''etc'']"
  by code_simp

lemma sample_tree_ok: "tree_ok sample_files" "real_way sample_files [''r'']" "\<not> is_symlink (node_at sample_files [''r''])"
  by (auto simp: tree_ok_def real_way_def sample_files_def split: if_splits)

theorem extraction_confined_witness:
  "node_at (snd escaped) [''etc''] = Some (Directory sample_attrs) \<and> escaped = (fst escaped, snd escaped)"
  using extraction_confined [OF sample_tree_ok, of no_os escaping_unpack "''archive''" True "fst escaped" "snd escaped"]
  by (auto simp: plain_comp_def escaped_def sample_files_def)

end
