(* ===== verification/Backup_Roundtrip.thy ===== *)
theory Backup_Roundtrip
  imports Backup_Catalogue Backup_Extract Bundle_Archive "HOL-Library.Countable"
begin

section \<open>A backup opens again\<close>

text \<open>
  With the documented behaviour of \<open>age\<close>, the YAML package and tar over zstd, an encrypted backup that
  was created opens with its passphrase and yields the manifest and the payload it was made of.
\<close>

definition quiet_os :: "nat \<Rightarrow> int \<Rightarrow> int \<Rightarrow> int \<Rightarrow> nat \<Rightarrow> os_env" where
  "quiet_os k u g t w = \<lparr>ose_Fail = (\<lambda>_ _. None), ose_Uid = u, ose_Gid = g, ose_Now = t, ose_Written = w, ose_Umask = k\<rparr>"

definition member_header :: "nat \<Rightarrow> int \<Rightarrow> int \<Rightarrow> int \<Rightarrow> bytes \<Rightarrow> tar_header" where
  "member_header k u g t name =
     \<lparr>hdr_Name = name, hdr_Type = type_reg, hdr_Linkname = [], hdr_Mode = masked k 384, hdr_Uid = u, hdr_Gid = g,
      hdr_ModTime = Some t, hdr_PAX = [], hdr_Xattrs = []\<rparr>"

definition members3 :: "bytes \<Rightarrow> bytes \<Rightarrow> bytes \<Rightarrow> (bytes \<times> bytes) list" where
  "members3 m p s = [(''manifest.yaml'', m), (''payload.tar.zst'', p), (''SHA256SUMS'', s)]"

definition entries3 :: "nat \<Rightarrow> int \<Rightarrow> int \<Rightarrow> int \<Rightarrow> bytes \<Rightarrow> bytes \<Rightarrow> bytes \<Rightarrow> tar_entry list" where
  "entries3 k u g t m p s =
     [(member_header k u g t ''SHA256SUMS'', s), (member_header k u g t ''manifest.yaml'', m),
      (member_header k u g t ''payload.tar.zst'', p)]"

definition member_attrs :: "int \<Rightarrow> int \<Rightarrow> int \<Rightarrow> nat \<Rightarrow> attrs" where
  "member_attrs u g t mode = \<lparr>att_Mode = mode, att_Uid = u, att_Gid = g, att_Time = t, att_Xattrs = []\<rparr>"

definition extracted3 :: "nat \<Rightarrow> int \<Rightarrow> int \<Rightarrow> int \<Rightarrow> bytes \<Rightarrow> bytes \<Rightarrow> bytes \<Rightarrow> files" where
  "extracted3 k u g t m p s =
     \<lparr>fls_Nodes =
        [([], Directory (member_attrs u g t (masked k 448))), ([''envelope''], Directory (member_attrs u g t (masked k 448))),
         ([''envelope'', ''SHA256SUMS''], Regular 0), ([''envelope'', ''manifest.yaml''], Regular 1),
         ([''envelope'', ''payload.tar.zst''], Regular 2)],
      fls_Inodes =
        [(0, \<lparr>ind_Content = s, ind_Attrs = member_attrs u g t (masked k 384)\<rparr>),
         (1, \<lparr>ind_Content = m, ind_Attrs = member_attrs u g t (masked k 384)\<rparr>),
         (2, \<lparr>ind_Content = p, ind_Attrs = member_attrs u g t (masked k 384)\<rparr>)],
      fls_Next = 3\<rparr>"

lemma created_entries:
  "create_tar_zst (quiet_os k u g t w) pack [] (envelope_tree (quiet_os k u g t w) (members3 m p s)) = pack (entries3 k u g t m p s)"
  by code_simp

lemma valid3: "validate_archive_header (member_header k u g t ''SHA256SUMS'') = Inr (member_header k u g t ''SHA256SUMS'')"
  "validate_archive_header (member_header k u g t ''manifest.yaml'') = Inr (member_header k u g t ''manifest.yaml'')"
  "validate_archive_header (member_header k u g t ''payload.tar.zst'') = Inr (member_header k u g t ''payload.tar.zst'')"
  by (simp_all add: validate_archive_header_def member_header_def type_defs check_target_def trimmed_header_def) code_simp+

lemma names3: "name_comps ''SHA256SUMS'' = [''SHA256SUMS'']"
  "name_comps ''manifest.yaml'' = [''manifest.yaml'']"
  "name_comps ''payload.tar.zst'' = [''payload.tar.zst'']"
  by code_simp+

lemma inspected3: "inspect_tar_zst (\<lambda>_. Inr (entries3 k u g t m p s, None)) outer = Inr
    (map listed_entry [member_header k u g t ''SHA256SUMS'', member_header k u g t ''manifest.yaml'', member_header k u g t ''payload.tar.zst''])"
  by (simp add: inspect_tar_zst_def entries3_def valid3 wrap_error_def) (simp add: member_header_def)

text \<open>Calls that nothing hinders, one level below the root of an extraction.\<close>

lemma shallow_places:
  assumes "plain_path [r, n]" "node_at fs [] = Some (Directory a)" "node_at fs [r] = Some (Directory b)"
  shows "located fs [r, n] = Inr (Some [r, n])" "followed fs [r] = Inr (Some [r])"
    "node_at fs [r, n] = Some (Regular i) \<Longrightarrow> followed fs [r, n] = Inr (Some [r, n])"
  using assms by (auto simp: located_def followed_def plain_comp_def)

definition extracted_file :: "os_env \<Rightarrow> path \<Rightarrow> tar_header \<Rightarrow> bytes \<Rightarrow> files \<Rightarrow> files" where
  "extracted_file io p h body fs =
     (case hdr_ModTime h of
        None \<Rightarrow> id
      | Some t \<Rightarrow> change_attrs (\<lambda>a. a\<lparr>att_Time := t\<rparr>) p)
       (change_attrs (\<lambda>a. a\<lparr>att_Mode := hdr_Mode h mod 512\<rparr>) p (make_file io (hdr_Mode h mod 4096) body p fs))"

lemma make_file_at: "node_at (make_file io mode body p fs) q = (if q = p then Some (Regular (fls_Next fs)) else node_at fs q)"
  by (simp add: make_file_def put_node_def put_inode_def update_conv)

lemma extracted_member:
  assumes io: "\<And>call q. ose_Fail io call q = None" and way: "plain_path [r, n]" "node_at fs [] = Some (Directory a)" "node_at fs [r] = Some (Directory b)"
    and free: "node_at fs [r, n] = None"
    and h: "validate_archive_header h = Inr h" "name_comps (hdr_Name h) = [n]" "hdr_Type h = type_reg" "hdr_PAX h = []" "hdr_Xattrs h = []"
  shows "extract_entry io [r] False pend (h, body) fs = (Inr pend, extracted_file io [r, n] h body fs)"
proof -
  obtain ds ls where pend: "pend = (ds, ls)" by fastforce
  let ?made = "make_file io (hdr_Mode h mod 4096) body [r, n] fs"
  let ?moded = "change_attrs (\<lambda>a. a\<lparr>att_Mode := hdr_Mode h mod 512\<rparr>) [r, n] ?made"
  note places = shallow_places [OF way]
  have dir: "os_mkdir_all io [r] 448 fs = (Inr (), fs)"
    by (simp add: os_mkdir_all_def os_stat_def try_s_def io read_s_def lift_s_def places way(3) ret_s_def)
  have filled: "os_write_new io [r, n] (hdr_Mode h mod 4096) body fs = (Inr (), ?made)"
    by (simp add: os_write_new_def io add_entry_def try_s_def also_s_def bind_s_def read_s_def lift_s_def places free
        at_place_def reject_if_def update_s_def ret_s_def)
  have made: "node_at ?made [] = Some (Directory a)" "node_at ?made [r] = Some (Directory b)"
      "node_at ?made [r, n] = Some (Regular (fls_Next fs))"
    using way by (simp_all add: make_file_at)
  have moded: "node_at ?moded = node_at ?made"
    using made by (auto simp: change_attrs_def put_inode_def split: option.split)
  note made_places = shallow_places [OF way(1) made(1,2)]
  have moded_places: "followed ?moded [r, n] = Inr (Some [r, n])"
    by (rule shallow_places(3) [OF way(1)]) (use made moded in simp_all)
  have chmod: "os_chmod io [r, n] (hdr_Mode h mod 4096) ?made = (Inr (), ?moded)"
    using made by (simp add: os_chmod_def set_attrs_def try_s_def io bind_s_def also_s_def read_s_def lift_s_def made_places at_place_def
        reject_if_def update_s_def mod_mod_cancel)
  have chtimes: "os_chtimes io [r, n] t ?moded = (Inr (), change_attrs (\<lambda>a. a\<lparr>att_Time := t\<rparr>) [r, n] ?moded)" for t
    using made by (simp add: os_chtimes_def set_attrs_def try_s_def io bind_s_def also_s_def read_s_def lift_s_def moded_places moded at_place_def
        reject_if_def update_s_def)
  have meta: "restore_metadata io [r, n] h False False ?made = (Inr (), extracted_file io [r, n] h body fs)"
    by (simp add: restore_metadata_def also_s_def bind_s_def ret_s_def wrap_s_def chmod chtimes lift_s_def archived_xattrs_def h(4,5)
        wrap_error_def extracted_file_def split: option.split)
  show ?thesis
    by (simp add: pend extract_entry_def h bind_s_def lift_s_def Let_def also_s_def ensure_no_symlink_parent_def ret_s_def type_defs dir filled meta)
qed

text \<open>Only the bits of the umask are lost, and only once.\<close>

lemma extracted_entries:
  "extract_tar_zst (quiet_os k u g t w) (\<lambda>_. Inr (entries3 k u g t m p s, None)) outer [''envelope''] False
     (fresh_tree (quiet_os k u g t w)) = (Inr (), extracted3 k u g t m p s)"
proof -
  let ?io = "quiet_os k u g t w" and ?root = "[''envelope'']"
  let ?dir = "Directory (member_attrs u g t (masked k 448))"
  let ?empty = "\<lparr>fls_Nodes = [([], ?dir), (?root, ?dir)], fls_Inodes = [], fls_Next = 0\<rparr>"
  have io: "ose_Fail ?io c p = None" for c p by (simp add: quiet_os_def)
  have dir: "new_attrs ?io 448 = member_attrs u g t (masked k 448)"
    by (simp add: new_attrs_def own_attrs_def member_attrs_def quiet_os_def)
  have root: "followed (fresh_tree ?io) ?root = Inr None" "located (fresh_tree ?io) ?root = Inr (Some ?root)"
    by (simp_all add: followed_def located_def fresh_tree_def)
  have empty: "check_empty ?io ?root (fresh_tree ?io) = (Inr (), fresh_tree ?io)"
    by (simp add: check_empty_def read_s_def io root)
  have free: "node_at (fresh_tree ?io) ?root = None" by (simp add: fresh_tree_def)
  have made: "os_mkdir_all ?io ?root 448 (fresh_tree ?io) = (Inr (), ?empty)"
    by (simp add: os_mkdir_all_def os_stat_def try_s_def io read_s_def lift_s_def root also_s_def bind_s_def ret_s_def rescue_s_def
        os_mkdir_def add_entry_def at_place_def reject_if_def update_s_def free)
      (simp add: fresh_tree_def put_node_def dir)
  have plain: "plain_path [''envelope'', n]" if "n \<in> {''SHA256SUMS'', ''manifest.yaml'', ''payload.tar.zst''}" for n
    using that by (auto simp: plain_comp_def)
  define after where "after n b fs = extracted_file ?io [''envelope'', n] (member_header k u g t n) b fs" for n b fs
  have step: "extract_entry ?io ?root False pend (member_header k u g t n, b) fs = (Inr pend, after n b fs)"
    if "n \<in> {''SHA256SUMS'', ''manifest.yaml'', ''payload.tar.zst''}" "node_at fs [] = Some ?dir" "node_at fs ?root = Some ?dir"
      "node_at fs [''envelope'', n] = None" for n b fs pend
    unfolding after_def
    by (rule extracted_member [OF io plain [OF that(1)] that(2-4)])
      (use that(1) valid3 names3 in \<open>auto simp: member_header_def\<close>)
  have after: "after n b fs = (put_node [''envelope'', n] (Regular (fls_Next fs)) (put_inode (fls_Next fs)
       \<lparr>ind_Content = b, ind_Attrs = member_attrs u g t (masked k 384)\<rparr> (fs\<lparr>fls_Next := Suc (fls_Next fs)\<rparr>)))" for n b fs
    by (simp add: after_def extracted_file_def member_header_def change_attrs_def make_file_at)
      (simp add: make_file_def put_node_def put_inode_def update_conv member_attrs_def new_attrs_def own_attrs_def quiet_os_def)
  have at: "node_at (after n b fs) q = (if q = [''envelope'', n] then Some (Regular (fls_Next fs)) else node_at fs q)" for n b fs q
    by (simp add: after put_node_def put_inode_def update_conv)
  have result: "after ''payload.tar.zst'' p (after ''manifest.yaml'' m (after ''SHA256SUMS'' s ?empty)) = extracted3 k u g t m p s"
    by (simp add: after extracted3_def put_node_def put_inode_def numeral_2_eq_2 numeral_3_eq_3)
  have "fold_s (extract_entry ?io ?root False) ([], []) (entries3 k u g t m p s) ?empty = (Inr ([], []), extracted3 k u g t m p s)"
    by (simp add: entries3_def step at bind_s_def ret_s_def result)
  then show ?thesis unfolding extract_tar_zst_def inspected3
    by (simp add: bind_s_def lift_s_def also_s_def ret_s_def empty made)
qed
lemma exact_envelope:
  "require_exact_envelope (quiet_os k u g t w) [''envelope''] (extracted3 k u g t m p s) ''payload.tar.zst'' = Inr ()"
  by code_simp

lemma read_members:
  "read_file (quiet_os k u g t w) [''envelope'', ''manifest.yaml''] (extracted3 k u g t m p s) = Inr m"
  "read_file (quiet_os k u g t w) [''envelope'', ''payload.tar.zst''] (extracted3 k u g t m p s) = Inr p"
  "read_file (quiet_os k u g t w) [''envelope'', ''SHA256SUMS''] (extracted3 k u g t m p s) = Inr s"
  by code_simp+

lemma read_drafts:
  "read_file (quiet_os k u g t w) [''manifest.yaml''] (envelope_tree (quiet_os k u g t w) [(''manifest.yaml'', m), (''payload.tar.zst'', p)]) = Inr m"
  "read_file (quiet_os k u g t w) [''payload.tar.zst''] (envelope_tree (quiet_os k u g t w) [(''manifest.yaml'', m), (''payload.tar.zst'', p)]) = Inr p"
  by code_simp+

subsection \<open>The checksum document\<close>

lemma hex_graph: "list_all graph_char (sha256_hex x)"
proof -
  have "list_all graph_char ''0123456789abcdef''" by code_simp
  then show ?thesis using hex_encode_chars [of _ "sha256 x"] by (auto simp: list_all_iff simp del: set_simps)
qed

lemma hex_nonempty: "sha256_hex x \<noteq> []"
  by (metis length_hex_encode length_sha256 list.size(3) mult_eq_0_iff zero_neq_numeral)

lemma lower_hex:
  assumes "list_all (\<lambda>c. ascii_lower c = c \<and> c \<noteq> CHR 0xE2 \<and> c \<noteq> CHR 0xC4) s"
  shows "to_lower s = s"
  using assms
proof (induction s)
  case (Cons a s)
  have "\<not> has_prefix (a # s) [CHR 0xE2, CHR 0x84, CHR 0xAA]" "\<not> has_prefix (a # s) [CHR 0xC4, CHR 0xB0]"
    using Cons.prems by (auto simp: has_prefix_def)
  then show ?case using Cons by (simp only: to_lower.simps if_False list.pred_inject)
qed simp

lemma sha256_text_hex [simp]: "sha256_text (sha256_hex x)"
proof -
  have "list_all (\<lambda>c. ascii_lower c = c \<and> c \<noteq> CHR 0xE2 \<and> c \<noteq> CHR 0xC4) ''0123456789abcdef''" by code_simp
  then have "list_all (\<lambda>c. ascii_lower c = c \<and> c \<noteq> CHR 0xE2 \<and> c \<noteq> CHR 0xC4) (sha256_hex x)"
    unfolding list_all_iff by (intro ballI) (rule bspec, assumption, rule hex_encode_chars)
  from lower_hex [OF this] show ?thesis by (simp only: sha256_text_def length_hex_encode length_sha256 hex_decode_encode) simp
qed

definition sums2 :: "bytes \<Rightarrow> bytes \<Rightarrow> bytes" where
  "sums2 m p = sums_line (sha256_hex m) ''manifest.yaml'' @ sums_line (sha256_hex p) ''payload.tar.zst''"

lemma created_sums:
  "sums_document (quiet_os k u g t w) []
     (envelope_tree (quiet_os k u g t w) [(''manifest.yaml'', m), (''payload.tar.zst'', p)]) [''manifest.yaml'', ''payload.tar.zst'']
   = Inr (sums2 m p)"
proof -
  have names: "simple_name ''manifest.yaml''" "simple_name ''payload.tar.zst''" by code_simp+
  show ?thesis by (simp add: sums_document_def file_sha256_def read_drafts names sums2_def)
qed

lemma scanned_sums:
  "scan_lines (sums2 m p) = [sha256_hex m @ ''  manifest.yaml'', sha256_hex p @ ''  payload.tar.zst'']"
proof -
  let ?a = "sha256_hex m @ ''  manifest.yaml''" and ?b = "sha256_hex p @ ''  payload.tar.zst''"
  have free: "CHR 0x0A \<notin> set ?a" "CHR 0x0A \<notin> set ?b"
    using hex_encode_chars [of "CHR 0x0A"] by auto
  have "sums2 m p = ?a @ CHR 0x0A # (?b @ CHR 0x0A # [])" by (simp add: sums2_def sums_line_def)
  then have "split_on CHR 0x0A (sums2 m p) = [?a, ?b, []]"
    using split_on_sep [OF free(1)] split_on_sep [OF free(2)] by simp
  then show ?thesis by (simp add: scan_lines_def)
qed

lemma checked_line:
  assumes "name \<in> {''manifest.yaml'', ''payload.tar.zst''}" "name \<notin> seen"
    and "read_file io (root @ [name]) fs = Inr body"
  shows "check_sums_line io root fs [''manifest.yaml'', ''payload.tar.zst''] seen (sha256_hex body @ ''  '' @ name) = Inr (insert name seen)"
proof -
  have name: "list_all graph_char name" "name \<noteq> []" "path_base name = name" "length name < 20" "last name \<noteq> CHR 0x0D"
  proof -
    have "list_all (\<lambda>n. list_all graph_char n \<and> n \<noteq> [] \<and> path_base n = n \<and> length n < 20 \<and> last n \<noteq> CHR 0x0D)
        [''manifest.yaml'', ''payload.tar.zst'']" by code_simp
    then show "list_all graph_char name" "name \<noteq> []" "path_base name = name" "length name < 20" "last name \<noteq> CHR 0x0D"
      using assms(1) by auto
  qed
  have "string_fields (drop_cr (sha256_hex body @ ''  '' @ name)) = [sha256_hex body, name]"
    using name fields_of_line [OF hex_graph name(1) _ name(2), of body] hex_nonempty [of body] by (simp add: drop_cr_def)
  moreover have "length (sha256_hex body @ ''  '' @ name) < max_token" using name(4) by (simp add: max_token_def)
  ultimately show ?thesis
    using assms name(3) by (auto simp: check_sums_line_def file_sha256_def)
qed

lemma verified_sums:
  "verify_checksums (quiet_os k u g t w) [''envelope''] (extracted3 k u g t m p (sums2 m p)) [''manifest.yaml'', ''payload.tar.zst''] = Inr ()"
proof -
  let ?fs = "extracted3 k u g t m p (sums2 m p)"
  note line = checked_line [of _ _ "quiet_os k u g t w" "[''envelope'']" ?fs]
  have "fold_r (check_sums_line (quiet_os k u g t w) [''envelope''] ?fs [''manifest.yaml'', ''payload.tar.zst'']) {} (scan_lines (sums2 m p))
     = Inr {''payload.tar.zst'', ''manifest.yaml''}"
    using line [of "''manifest.yaml''" "{}" m] line [of "''payload.tar.zst''" "{''manifest.yaml''}" p]
    by (simp add: scanned_sums read_members)
  then show ?thesis
    by (simp add: verify_checksums_def read_members wrap_error_def reject_if_def insert_commute)
qed

subsection \<open>What is stored opens\<close>

lemma register_root: "leaves (register_artifact env v) (\<lambda>_ st'. mst_Root st' = mst_Root st) st"
  by (simp add: leaves_def register_artifact_def change_s_def Let_def split: prod.split)

lemma long_term_stored:
  "leaves (publish_long_term env payload m pass)
     (goes_on (\<lambda>a st'. art_Manifest a = m \<and> (\<exists>c. long_term_candidate env payload m pass = Inr c \<and>
        mst_Root st' (encrypted_name m) = Some (Stored_File c))) (\<lambda>_ _. True)) st"
proof (cases "long_term_candidate env payload m pass")
  case (Inl e)
  then show ?thesis by (simp add: publish_long_term_def)
next
  case (Inr c)
  let ?Q = "goes_on (\<lambda>a st'. art_Manifest a = m \<and> mst_Root st' (encrypted_name m) = Some (Stored_File c)) (\<lambda>_ _. True)"
  let ?meta = "metadata_of m (encrypted_name m)" and ?undo = "on_error_s (remove_stored env (encrypted_name m))"
  have reg: "leaves (also_s (?undo (register_artifact env v)) (ret_s \<lparr>art_Metadata = v, art_Manifest = m\<rparr>)) ?Q st1"
    if "mst_Root st1 (encrypted_name m) = Some (Stored_File c)" for st1 v
    unfolding leaves_also [of "?undo _"] leaves_on_error
    by (rule leaves_mono [OF register_root]) (use that in \<open>auto simp: goes_on_def split: sum.split\<close>)
  have "leaves (bind_s (?undo (read_s (stored_sha env (encrypted_name m)))) (\<lambda>sha.
      also_s (?undo (register_artifact env (?meta sha))) (ret_s \<lparr>art_Metadata = ?meta sha, art_Manifest = m\<rparr>))) ?Q st1"
    if "mst_Root st1 (encrypted_name m) = Some (Stored_File c)" for st1
    unfolding leaves_bind leaves_on_error [of _ "read_s _"] leaves_read
    using reg [OF that] by (auto simp: goes_on_def split: sum.split)
  then have "leaves (publish_long_term env payload m pass) ?Q st"
    unfolding publish_long_term_def leaves_bind [of "lift_s _"] leaves_lift Inr goes_on_simps Let_def
      leaves_also [of "wrap_s _ _ _"] leaves_wrap
    by (intro leaves_goes_on_mono [OF publish_file_leaves]) (auto simp: published_def)
  then show ?thesis using Inr by simp
qed

lemma created_stored:
  assumes "create_backup env i now r st = (Inr a, st')" "produced_payload env i now r = Inr (payload, m)"
    and "crq_Type r \<noteq> Backup_System_Restore_Point"
  shows "art_Manifest a = m \<and> (\<exists>c. long_term_candidate env payload m (crq_Passphrase r) = Inr c \<and>
    mst_Root st' (encrypted_name m) = Some (Stored_File c))"
proof -
  have "publish_long_term env payload m (crq_Passphrase r) st = (Inr a, st')"
    using assms by (simp add: create_backup_def bind_s_def lift_s_def)
  from leavesD [OF long_term_stored this] show ?thesis by simp
qed

text \<open>Headers that need no extension record: such entries come back as they were written.\<close>

definition short_entry :: "tar_entry \<Rightarrow> bool" where
  "short_entry e = (case e of (h, body) \<Rightarrow>
     hdr_Type h = type_reg \<and> hdr_Name h \<noteq> [] \<and> length (hdr_Name h) \<le> 100 \<and> hdr_Linkname h = [] \<and>
     list_all (\<lambda>c. CHR '' '' < c \<and> c < CHR 0x7F) (hdr_Name h) \<and> hdr_Mode h < 4096 \<and>
     0 \<le> hdr_Uid h \<and> hdr_Uid h < 2 ^ 21 \<and> 0 \<le> hdr_Gid h \<and> hdr_Gid h < 2 ^ 21 \<and>
     (\<exists>t. hdr_ModTime h = Some t \<and> 0 \<le> t \<and> t < 2 ^ 33) \<and>
     hdr_PAX h = [] \<and> hdr_Xattrs h = [] \<and> length body < 2 ^ 33)"

lemma short_member:
  assumes "name \<in> {''SHA256SUMS'', ''manifest.yaml'', ''payload.tar.zst''}"
    and "0 \<le> u" "u < 2 ^ 21" "0 \<le> g" "g < 2 ^ 21" "0 \<le> t" "t < 2 ^ 33" "length b < 2 ^ 33"
  shows "short_entry (member_header k u g t name, b)"
proof -
  have "list_all (\<lambda>n. n \<noteq> [] \<and> length n \<le> 100 \<and> list_all (\<lambda>c. CHR '' '' < c \<and> c < CHR 0x7F) n)
     [''SHA256SUMS'', ''manifest.yaml'', ''payload.tar.zst'']" by code_simp
  then have "name \<noteq> [] \<and> length name \<le> 100 \<and> list_all (\<lambda>c. CHR '' '' < c \<and> c < CHR 0x7F) name"
    using assms(1) by auto
  moreover have "masked k 384 < 4096" using masked_less [of k 384] by linarith
  ultimately show ?thesis using assms(2-) by (simp add: short_entry_def member_header_def)
qed

lemma sums_short: "length (sums2 m p) < 2 ^ 33"
  by (simp add: sums2_def sums_line_def)

text \<open>The sealing of an envelope, when nothing fails and the libraries keep their word.\<close>

definition no_faults :: "backup_env \<Rightarrow> bool" where
  "no_faults env \<longleftrightarrow> (\<forall>c n. bke_Fail env c n = None) \<and> (\<forall>c a. bke_Sql env c a = None) \<and>
     (\<exists>k u g t w. bke_Os env = quiet_os k u g t w \<and> 0 \<le> u \<and> u < 2 ^ 21 \<and> 0 \<le> g \<and> g < 2 ^ 21 \<and> 0 \<le> t \<and> t < 2 ^ 33)"

definition seals :: "backup_env \<Rightarrow> bytes \<Rightarrow> bool" where
  "seals env pass \<longleftrightarrow>
     (\<forall>es. list_all short_entry es \<longrightarrow> (\<exists>b. bke_Pack env es = Inr b \<and> bke_Unpack env b = Inr (es, None))) \<and>
     (\<forall>body. \<exists>c. bke_Encrypt env pass body = Inr c \<and> bke_Decrypt env pass c = Inr (body, None))"

lemma candidate_opens:
  assumes faults: "no_faults env" and seals: "seals env pass" "pass \<noteq> []"
    and yaml: "bke_Yaml env m = Inr y" "bke_ReadYaml env y = Inr (m, No_More)" "length y < 2 ^ 33"
    and payload: "inspect_tar_zst (bke_Unpack env) payload = Inr entries" "bmf_PayloadInventory m = inventory entries"
      "length payload < 2 ^ 33"
    and m: "validate_manifest m (bmf_ArtifactType m) = Inr ()" "is_long_term_type (bmf_ArtifactType m)"
  shows "\<exists>c. long_term_candidate env payload m pass = Inr c \<and>
    inspect_artifact env (Stored_File c) (bmf_ArtifactType m) pass = Inr \<lparr>ins_Manifest = m, ins_Payload = payload\<rparr>"
proof -
  obtain k u g t w where io: "bke_Os env = quiet_os k u g t w"
    and range: "0 \<le> u" "u < 2 ^ 21" "0 \<le> g" "g < 2 ^ 21" "0 \<le> t" "t < 2 ^ 33"
    using faults unfolding no_faults_def by blast
  have fail: "bke_Fail env c n = None" for c n using faults by (simp add: no_faults_def)
  let ?members = "members3 y payload (sums2 y payload)" and ?entries = "entries3 k u g t y payload (sums2 y payload)"
  have "list_all short_entry ?entries"
    using short_member [OF _ range] sums_short yaml(3) payload(3) by (simp add: entries3_def)
  then obtain outer where outer: "bke_Pack env ?entries = Inr outer" "bke_Unpack env outer = Inr (?entries, None)"
    using seals(1) unfolding seals_def by blast
  obtain c where c: "bke_Encrypt env pass outer = Inr c" "bke_Decrypt env pass c = Inr (outer, None)"
    using seals(1) unfolding seals_def by blast
  have type: "bmf_ArtifactType m \<noteq> Backup_System_Restore_Point" using m(2) by (auto simp: is_long_term_type_def)
  have unpack: "extract_tar_zst io' (bke_Unpack env) outer r o' fs = extract_tar_zst io' (\<lambda>_. Inr (?entries, None)) outer r o' fs"
    for io' r o' fs by (simp add: extract_tar_zst_def inspect_tar_zst_def outer(2))
  have opens: "inspect_artifact env (Stored_File c) (bmf_ArtifactType m) pass = Inr \<lparr>ins_Manifest = m, ins_Payload = payload\<rparr>"
    using type m(2) seals(2) payload(1,2) yaml(2) m(1) verified_sums
    by (simp add: inspect_artifact_def inspect_long_term_def decrypt_age_def try_b_def fail c(2) wrap_error_def
        unpack io extracted_entries exact_envelope verify_envelope_def read_manifest_def read_members inspect_payload_def
        payload_name_def reject_if_def)
  have members: "envelope_members env ''payload.tar.zst'' m payload = Inr ?members"
    by (simp add: envelope_members_def yaml(1) try_b_def fail io created_sums members3_def)
  have "create_tar_zst (bke_Os env) (bke_Pack env) [] (envelope_tree (bke_Os env) ?members) = Inr outer"
    unfolding io created_entries by (rule outer(1))
  then have "long_term_candidate env payload m pass = Inr c"
    using seals(2) by (simp add: long_term_candidate_def members encrypt_age_def try_b_def fail c(1) opens wrap_error_def
        members3_def reject_if_def)
  then show ?thesis using opens by blast
qed

text \<open>The names and numbers of the catalogue are free and the metadata holds no secret.\<close>

definition free_for :: "backup_env \<Rightarrow> backup_manifest \<Rightarrow> manager_state \<Rightarrow> bool" where
  "free_for env m st \<longleftrightarrow>
     mst_Root st (encrypted_name m) = None \<and> bmf_ArtifactID m \<notin> bkm_ID ` set (db_Backups (mst_Db st)) \<and>
     (\<forall>sha. reject_known_secret_material (bke_Crypto env) (bke_Sql env) (bke_Key env)
        (backup_metadata_json (metadata_of m (encrypted_name m) sha)) (mst_Db st) = Inr ())"

lemma register_succeeds:
  assumes "no_faults env" "free_for env m st0" "mst_Db st = mst_Db st0"
    and "validate_manifest m (bmf_ArtifactType m) = Inr ()" "valid_backup_type (bmf_ArtifactType m)"
  shows "\<exists>st'. register_artifact env (metadata_of m (encrypted_name m) sha) st = (Inr (), st') \<and> mst_Root st' = mst_Root st"
proof -
  have sql: "bke_Sql env c n = None" for c n using assms(1) by (simp add: no_faults_def)
  let ?v = "metadata_of m (encrypted_name m) sha"
  let ?db = "(mst_Db st)\<lparr>db_Backups := db_Backups (mst_Db st) @ [?v]\<rparr>"
  have "bmf_ArtifactID m \<noteq> []" "bmf_TargetID m \<noteq> []" "bmf_CreatedAt m \<noteq> []"
      "bmf_ArtifactType m \<in> {Backup_Module, Backup_System_Restore_Point} \<longrightarrow> bmf_ModuleInstanceID m \<noteq> []"
    using assms(4) by (auto simp: validate_manifest_def result_simps split: if_splits)
  then have "register_backup (bke_Crypto env) (bke_Sql env) (bke_Key env) (bkm_CreatedAt ?v) ?v (mst_Db st) = Inr ?db"
    using assms(2,3,5) by (auto simp: register_backup_def result_simps sql metadata_of_def free_for_def Let_def)
  then show ?thesis by (simp add: register_artifact_def change_s_def change_def op_def sql)
qed

lemma publishing_succeeds:
  assumes env: "no_faults env" and free: "free_for env m st" and cand: "long_term_candidate env payload m pass = Inr c"
    and m: "validate_manifest m (bmf_ArtifactType m) = Inr ()" "valid_backup_type (bmf_ArtifactType m)"
  shows "\<exists>a st'. publish_long_term env payload m pass st = (Inr a, st') \<and> art_Manifest a = m \<and>
    mst_Root st' (encrypted_name m) = Some (Stored_File c)"
proof -
  let ?st1 = "st\<lparr>mst_Root := (mst_Root st)(encrypted_name m \<mapsto> Stored_File c)\<rparr>"
  have fail: "bke_Fail env c n = None" for c n using env by (simp add: no_faults_def)
  have "mst_Db ?st1 = mst_Db st" by simp
  from register_succeeds [OF env free this m, of "sha256_hex c"]
  obtain st' where reg: "register_artifact env (metadata_of m (encrypted_name m) (sha256_hex c)) ?st1 = (Inr (), st')"
    and root: "mst_Root st' = mst_Root ?st1" by blast
  have publish: "publish_file env (encrypted_name m) c st = (Inr (), ?st1)"
    using free by (simp add: publish_file_def free_for_def try_b_def fail also_s_def bind_s_def lift_s_def read_s_def
        put_stored_def on_error_s_def reject_if_def)
  have "publish_long_term env payload m pass st =
      (Inr \<lparr>art_Metadata = metadata_of m (encrypted_name m) (sha256_hex c), art_Manifest = m\<rparr>, st')"
    using reg by (simp add: publish_long_term_def cand bind_s_def lift_s_def also_s_def wrap_s_def publish Let_def
        on_error_s_def read_s_def stored_sha_def try_b_def fail ret_s_def)
  then show ?thesis using root by simp
qed

text \<open>
  C32: A backup that nothing hinders is created, and what is stored under its name opens with the
  passphrase of the request and yields the manifest and the payload that were produced.
\<close>

theorem backup_opens:
  assumes "no_faults env" "seals env (crq_Passphrase r)" "free_for env m st"
    and "produced_payload env i now r = Inr (payload, m)" "crq_Type r \<noteq> Backup_System_Restore_Point"
    and "bke_Yaml env m = Inr y" "bke_ReadYaml env y = Inr (m, No_More)"
    and "length y < 2 ^ 33" "length payload < 2 ^ 33"
  shows "\<exists>a st' c. create_backup env i now r st = (Inr a, st') \<and> art_Manifest a = m \<and>
    mst_Root st' (encrypted_name m) = Some (Stored_File c) \<and>
    inspect_artifact env (Stored_File c) (crq_Type r) (crq_Passphrase r) = Inr \<lparr>ins_Manifest = m, ins_Payload = payload\<rparr>"
proof -
  have type: "bmf_ArtifactType m = crq_Type r" and m: "validate_manifest m (crq_Type r) = Inr ()"
    and request: "validate_create_request r = Inr ()"
    using assms(4) by (auto simp: produced_payload_def manifest_of_def Let_def result_simps)
  obtain entries where payload: "inspect_tar_zst (bke_Unpack env) payload = Inr entries" "bmf_PayloadInventory m = inventory entries"
    using assms(4) by (auto simp: produced_payload_def manifest_of_def Let_def result_simps)
  have long: "is_long_term_type (crq_Type r)" "crq_Passphrase r \<noteq> []"
    using request assms(5) by (auto simp: validate_create_request_def is_long_term_type_def result_simps split: backup_type.splits)
  have valid: "valid_backup_type (crq_Type r)" using long(1) by (auto simp: is_long_term_type_def)
  obtain c where c: "long_term_candidate env payload m (crq_Passphrase r) = Inr c"
      "inspect_artifact env (Stored_File c) (crq_Type r) (crq_Passphrase r) = Inr \<lparr>ins_Manifest = m, ins_Payload = payload\<rparr>"
    using candidate_opens [OF assms(1,2) long(2) assms(6-8) payload assms(9)] m long(1) unfolding type by blast
  from publishing_succeeds [OF assms(1,3) c(1)] m valid obtain a st' where
      "publish_long_term env payload m (crq_Passphrase r) st = (Inr a, st')" "art_Manifest a = m"
      "mst_Root st' (encrypted_name m) = Some (Stored_File c)"
    unfolding type by blast
  then show ?thesis using c(2) assms(4,5) by (auto simp: create_backup_def bind_s_def lift_s_def)
qed

subsection \<open>An instance\<close>

definition flat_entry where
  "flat_entry e = (case e of (h, body) \<Rightarrow>
     (hdr_Name h, hdr_Type h, hdr_Linkname h, hdr_Mode h, hdr_Uid h, hdr_Gid h, hdr_ModTime h, hdr_PAX h, hdr_Xattrs h, body))"

definition tar_sample :: "tar_entry list \<Rightarrow> bytes" where
  "tar_sample es = (if es = [] then [] else CHR ''T'' # replicate (to_nat (map flat_entry es)) CHR ''x'')"

definition entry_from where
  "entry_from x = (case x of (n, t, l, m, u, g, tm, px, xs, body) \<Rightarrow>
     (\<lparr>hdr_Name = n, hdr_Type = t, hdr_Linkname = l, hdr_Mode = m, hdr_Uid = u, hdr_Gid = g, hdr_ModTime = tm,
       hdr_PAX = px, hdr_Xattrs = xs\<rparr>, body))"

definition untar_sample :: "bytes \<Rightarrow> tar_entry list" where
  "untar_sample b = (if b = [] then [] else map entry_from (from_nat (length b - 1)))"

lemma entry_from_flat: "entry_from (flat_entry e) = e"
  by (cases e) (simp add: entry_from_def flat_entry_def)

lemma untar_tar [simp]: "untar_sample (tar_sample es) = es"
  by (simp add: tar_sample_def untar_sample_def comp_def entry_from_flat)

definition sample_request :: create_request where
  "sample_request =
     \<lparr>crq_Type = Backup_Core, crq_TargetID = ''t1'', crq_ModuleInstanceID = [], crq_Passphrase = ''secret'',
      crq_Producer = Some (Inr (fresh_tree (quiet_os 18 0 0 0 0),
        \<lparr>pds_Identity = None, pds_SourceRefs = [], pds_BundleRefs = [], pds_RestoreRefs = []\<rparr>))\<rparr>"

definition sample_manifest :: backup_manifest where
  "sample_manifest = manifest_of ''b1'' ''2026'' sample_request
     \<lparr>pds_Identity = None, pds_SourceRefs = [], pds_BundleRefs = [], pds_RestoreRefs = []\<rparr> []"

definition sample_backups :: backup_env where
  "sample_backups =
     \<lparr>bke_Os = quiet_os 18 0 0 0 0, bke_Unpack = (\<lambda>b. Inr (untar_sample b, None)), bke_Pack = (\<lambda>es. Inr (tar_sample es)),
      bke_Encrypt = (\<lambda>pass body. Inr body), bke_Decrypt = (\<lambda>pass body. Inr (body, None)),
      bke_Yaml = (\<lambda>m. Inr ''M''), bke_ReadYaml = (\<lambda>y. Inr (sample_manifest, No_More)), bke_Fail = (\<lambda>_ _. None),
      bke_Crypto = \<lparr>cry_Seal = (\<lambda>_ _ _ p. p), cry_Open = (\<lambda>_ _ _ c. Some c)\<rparr>, bke_Sql = (\<lambda>_ _. None), bke_Key = []\<rparr>"

definition no_backups :: manager_state where
  "no_backups = \<lparr>mst_Root = Map.empty, mst_Db = empty_db\<rparr>"

lemma sample_faults: "no_faults sample_backups"
  proof -
  have "bke_Os sample_backups = quiet_os 18 0 0 0 0 \<and> (0::int) \<le> 0 \<and> (0::int) < 2 ^ 21 \<and> (0::int) < 2 ^ 33"
    by (simp add: sample_backups_def)
  moreover have "bke_Fail sample_backups c n = None" "bke_Sql sample_backups d a = None" for c n d a
    by (simp_all add: sample_backups_def)
  ultimately show ?thesis unfolding no_faults_def by blast
qed

lemma sample_seals: "seals sample_backups pass"
  by (simp add: seals_def sample_backups_def)

lemma sample_free: "free_for sample_backups sample_manifest no_backups"
  by (simp add: free_for_def no_backups_def empty_db_def reject_known_secret_material_def set_secrets_def exec_sql_def
      sample_backups_def wrap_error_def)

lemma sample_produced:
  "produced_payload sample_backups (Inr ''b1'') ''2026'' sample_request = Inr ([], sample_manifest)"
proof -
  have "create_tar_zst (quiet_os 18 0 0 0 0) (\<lambda>es. Inr (tar_sample es)) [] (fresh_tree (quiet_os 18 0 0 0 0)) = Inr (tar_sample [])"
    by code_simp
  moreover have "validate_create_request sample_request = Inr ()" "validate_manifest sample_manifest (crq_Type sample_request) = Inr ()"
    by code_simp+
  moreover have "crq_Producer sample_request = Some (Inr (fresh_tree (quiet_os 18 0 0 0 0),
      \<lparr>pds_Identity = None, pds_SourceRefs = [], pds_BundleRefs = [], pds_RestoreRefs = []\<rparr>))"
    by (simp add: sample_request_def)
  ultimately show ?thesis
    by (simp add: produced_payload_def sample_backups_def try_b_def wrap_error_def tar_sample_def
        inspect_tar_zst_def untar_sample_def Let_def flip: sample_manifest_def)
qed

theorem backup_opens_witness:
  "\<exists>a st' c. create_backup sample_backups (Inr ''b1'') ''2026'' sample_request no_backups = (Inr a, st') \<and>
    art_Manifest a = sample_manifest \<and> mst_Root st' (encrypted_name sample_manifest) = Some (Stored_File c) \<and>
    inspect_artifact sample_backups (Stored_File c) Backup_Core ''secret'' =
      Inr \<lparr>ins_Manifest = sample_manifest, ins_Payload = []\<rparr>"
proof -
  have "bke_Yaml sample_backups sample_manifest = Inr ''M''"
      "bke_ReadYaml sample_backups ''M'' = Inr (sample_manifest, No_More)"
    by (simp_all add: sample_backups_def)
  from backup_opens [OF sample_faults sample_seals sample_free sample_produced _ this] show ?thesis
    by (simp add: sample_request_def)
qed

end
