(* ===== verification/Backup_Props.thy ===== *)
theory Backup_Props
  imports Backup_Roundtrip
begin

section \<open>What the manager of backups promises\<close>

text \<open>
  The catalogue over any sequence of calls, the all-or-nothing creation, what an inspection that
  succeeds has checked, and two calls that the code gets wrong.
\<close>

subsection \<open>Sequences of calls\<close>








subsection \<open>Creation\<close>


subsection \<open>Inspection\<close>

text \<open>The lines that were accepted: each file that was seen has a line with its digest.\<close>

definition summed :: "os_env \<Rightarrow> path \<Rightarrow> files \<Rightarrow> bytes list \<Rightarrow> bytes \<Rightarrow> bool" where
  "summed io root fs lines name \<longleftrightarrow>
     (\<exists>l body. l \<in> set lines \<and> read_file io (root @ [name]) fs = Inr body \<and> string_fields (drop_cr l) = [sha256_hex body, name])"

lemma checked_lines:
  assumes "fold_r (check_sums_line io root fs expected) seen ls = Inr seen'" "seen \<subseteq> set expected"
  shows "seen' \<subseteq> set expected \<and> (\<forall>n\<in>seen' - seen. summed io root fs ls n)"
  using assms
proof (induction ls arbitrary: seen)
  case (Cons l ls)
  then obtain s where s: "check_sums_line io root fs expected seen l = Inr s" "fold_r (check_sums_line io root fs expected) s ls = Inr seen'"
    by (auto simp: result_simps)
  obtain dg name body where l: "string_fields (drop_cr l) = [dg, name]" "name \<in> set expected" "s = insert name seen"
      "read_file io (root @ [name]) fs = Inr body" "dg = sha256_hex body"
    using s(1) by (auto simp: check_sums_line_def file_sha256_def result_simps split: if_splits list.splits)
  then have "summed io root fs (l # ls) name" unfolding summed_def by auto
  moreover have "summed io root fs (l # ls) n" if "summed io root fs ls n" for n using that unfolding summed_def by auto
  ultimately show ?case using Cons.IH [OF s(2)] l(2,3) Cons.prems(2) by auto
qed simp

lemma verified_checksums:
  assumes "verify_checksums io root fs expected = Inr ()" "n \<in> set expected"
  shows "\<exists>data. read_file io (root @ [''SHA256SUMS'']) fs = Inr data \<and> summed io root fs (scan_lines data) n"
proof -
  obtain data seen where data: "read_file io (root @ [''SHA256SUMS'']) fs = Inr data"
      "fold_r (check_sums_line io root fs expected) {} (scan_lines data) = Inr seen" "card seen = card (set expected)"
    using assms(1) by (auto simp: verify_checksums_def result_simps)
  have seen: "seen \<subseteq> set expected" "\<forall>n\<in>seen. summed io root fs (scan_lines data) n"
    using checked_lines [OF data(2)] by simp_all
  then have "seen = set expected" using data(3) by (simp add: card_subset_eq)
  then show ?thesis using seen(2) data(1) assms(2) by blast
qed

text \<open>
  An envelope that passes holds exactly the three files, its digests cover manifest and payload, and
  its manifest is the valid one of the expected type.
\<close>

theorem verify_envelope_sound:
  assumes "verify_envelope yaml io root fs payload expected = Inr m"
  shows "validate_manifest m expected = Inr () \<and>
    (\<exists>body data. read_file io (root @ [''manifest.yaml'']) fs = Inr body \<and> yaml body = Inr (m, No_More) \<and>
      read_file io (root @ [''SHA256SUMS'']) fs = Inr data \<and>
      summed io root fs (scan_lines data) ''manifest.yaml'' \<and> summed io root fs (scan_lines data) payload)"
proof -
  have sums: "verify_checksums io root fs [''manifest.yaml'', payload] = Inr ()"
    and m: "read_manifest yaml io (root @ [''manifest.yaml'']) fs = Inr m" "validate_manifest m expected = Inr ()"
    using assms by (auto simp: verify_envelope_def result_simps)
  obtain body extra m' where decoded: "read_file io (root @ [''manifest.yaml'']) fs = Inr body" "yaml body = Inr (m', extra)"
      "(case extra of No_More \<Rightarrow> Inr m' | Another_Document \<Rightarrow> Inl (Err ''backup manifest contains multiple YAML documents'')
        | Bad_Trailing e \<Rightarrow> Inl (Wrapf ''decode trailing backup manifest data: %w'' [] e)) = Inr m"
    using m(1) by (auto simp: read_manifest_def result_simps)
  then have "read_file io (root @ [''manifest.yaml'']) fs = Inr body" "yaml body = Inr (m, No_More)"
    by (cases extra; simp)+
  moreover obtain data where "read_file io (root @ [''SHA256SUMS'']) fs = Inr data"
      "summed io root fs (scan_lines data) ''manifest.yaml''" "summed io root fs (scan_lines data) payload"
    using verified_checksums [OF sums, of "''manifest.yaml''"] verified_checksums [OF sums, of payload] by auto
  ultimately show ?thesis using m(2) by blast
qed

theorem verify_envelope_sound_witness:
  "\<exists>body data. read_file (quiet_os 18 0 0 0 0) [''envelope'', ''manifest.yaml''] (extracted3 18 0 0 0 ''M'' [] (sums2 ''M'' [])) = Inr body \<and>
     bke_ReadYaml sample_backups body = Inr (sample_manifest, No_More) \<and>
     read_file (quiet_os 18 0 0 0 0) [''envelope'', ''SHA256SUMS''] (extracted3 18 0 0 0 ''M'' [] (sums2 ''M'' [])) = Inr data \<and>
     summed (quiet_os 18 0 0 0 0) [''envelope''] (extracted3 18 0 0 0 ''M'' [] (sums2 ''M'' [])) (scan_lines data) ''payload.tar.zst''"
proof -
  have "validate_manifest sample_manifest Backup_Core = Inr ()" by code_simp
  then have "verify_envelope (bke_ReadYaml sample_backups) (quiet_os 18 0 0 0 0) [''envelope'']
      (extracted3 18 0 0 0 ''M'' [] (sums2 ''M'' [])) ''payload.tar.zst'' Backup_Core = Inr sample_manifest"
    using verified_sums by (simp add: verify_envelope_def exact_envelope read_manifest_def read_members wrap_error_def
        sample_backups_def)
  from verify_envelope_sound [OF this] show ?thesis by simp blast
qed

subsection \<open>What does not work\<close>

text \<open>
  A restore point is never prepared for a restore: its inspection has no work directory, so the
  extraction root is not absolute.
\<close>

theorem restore_point_never_prepared:
  "\<exists>e. prepare_restore env art Backup_System_Restore_Point pass = Inl e"
proof (cases "inspect_artifact env art Backup_System_Restore_Point pass")
  case (Inr i)
  then show ?thesis
    by (cases "inspect_tar_zst (bke_Unpack env) (ins_Payload i)") (simp_all add: prepare_restore_def wrap_error_def)
qed (simp add: prepare_restore_def)

text \<open>
  The manifest of a recovery package is validated before the package is adopted, but its identifier
  may lead the name of the stored file out of the root of the manager.
\<close>

definition stray_manifest :: backup_manifest where
  "stray_manifest =
     \<lparr>bmf_FormatVersion = 1, bmf_ArtifactType = Backup_Recovery_Package, bmf_ArtifactID = ''/../../etc/x'', bmf_CreatedAt = ''2026'',
      bmf_TargetID = ''t1'', bmf_ModuleInstanceID = [], bmf_Identity = None, bmf_SourceRefs = [], bmf_BundleRefs = [],
      bmf_PayloadInventory = [], bmf_RestoreRefs = []\<rparr>"

theorem adopted_name_escapes:
  "validate_manifest stray_manifest Backup_Recovery_Package = Inr () \<and> \<not> is_local (encrypted_name stray_manifest)"
  by (intro conjI) code_simp+

end
