(* ===== verification/Gateway_Identity.thy ===== *)
theory Gateway_Identity
  imports Prelude Go_Scan Go_Base64 Sha256
begin

section \<open>SSH keys of a target\<close>

text \<open>
  \<open>internal/targetgateway/identity.go\<close>: the administrative Ed25519 identity, its public line and its
  OpenSSH private key file, and the parser of host keys. The public key of a seed is a parameter
  \<open>pub\<close>; the private key of \<open>crypto/ed25519\<close> is the seed followed by the public key. The random
  check value of the key file, or the error of the random source, is an argument.
\<close>

definition ssh_ed25519 :: bytes where "ssh_ed25519 = ''ssh-ed25519''"
definition seed_size :: nat where "seed_size = 32"

subsection \<open>Wire strings\<close>

fun wire_bytes :: "nat \<Rightarrow> nat \<Rightarrow> bytes" where
  "wire_bytes 0 n = []"
| "wire_bytes (Suc k) n = wire_bytes k (n div 256) @ [char_of (n mod 256)]"

definition wire_value :: "bytes \<Rightarrow> nat" where
  "wire_value s = foldl (\<lambda>a c. a * 256 + of_char c) 0 s"

definition write_ssh_string :: "bytes \<Rightarrow> bytes" where
  "write_ssh_string v = wire_bytes 4 (length v) @ v"

definition read_ssh_string :: "bytes \<Rightarrow> (bytes \<times> bytes) result" where
  "read_ssh_string v =
     (if length v < 4 then Inl (Err ''invalid ssh wire string'')
      else
        (let n = wire_value (take 4 v) in
         if length v < 4 + n then Inl (Err ''invalid ssh wire string length'')
         else Inr (take n (drop 4 v), drop (4 + n) v)))"

lemma length_wire_bytes [simp]: "length (wire_bytes k n) = k"
  by (induction k arbitrary: n) simp_all

lemma wire_value_bytes: "wire_value (wire_bytes k n) = n mod 256 ^ k"
proof (induction k arbitrary: n)
  case (Suc k)
  have "wire_value (wire_bytes (Suc k) n) = wire_value (wire_bytes k (n div 256)) * 256 + n mod 256"
    by (simp add: wire_value_def)
  also have "\<dots> = n mod 256 ^ Suc k"
    unfolding Suc.IH by (simp add: mod_mult2_eq mult.commute)
  finally show ?case .
qed (simp add: wire_value_def)

lemma length_write_ssh [simp]: "length (write_ssh_string v) = 4 + length v"
  by (simp add: write_ssh_string_def del: wire_bytes.simps upt_Suc)

lemma write_ssh_nonempty [simp]: "write_ssh_string v \<noteq> []"
  using length_write_ssh [of v] by (metis add_is_0 list.size(3) zero_neq_numeral)

lemma read_write [simp]:
  assumes "length v < 2 ^ 32"
  shows "read_ssh_string (write_ssh_string v @ rest) = Inr (v, rest)"
  using assms by (simp add: read_ssh_string_def write_ssh_string_def wire_value_bytes)

subsection \<open>Public keys\<close>

record ssh_identity =
  shi_PublicKey :: bytes
  shi_Fingerprint :: bytes

definition ssh_public_blob :: "bytes \<Rightarrow> bytes" where
  "ssh_public_blob public = write_ssh_string ssh_ed25519 @ write_ssh_string public"

definition ssh_fingerprint :: "bytes \<Rightarrow> bytes" where
  "ssh_fingerprint blob = ''SHA256:'' @ base64_encode std_alphabet False (sha256 blob)"

definition public_identity :: "(bytes \<Rightarrow> bytes) \<Rightarrow> bytes \<Rightarrow> bytes \<Rightarrow> ssh_identity result" where
  "public_identity pub target seed =
     (if length seed \<noteq> seed_size then Inl (Err ''invalid ed25519 seed'')
      else
        (let blob = ssh_public_blob (pub seed) in
         Inr \<lparr>shi_PublicKey = ssh_ed25519 @ '' '' @ std_encode blob @ '' '' @ ''vpsmith:'' @ target,
              shi_Fingerprint = ssh_fingerprint blob\<rparr>))"

definition parse_public_key :: "bytes \<Rightarrow> (bytes \<times> bytes \<times> bytes) result" where
  "parse_public_key key =
     (case string_fields key of
        [algorithm, payload] \<Rightarrow>
          (case std_decode payload of
             None \<Rightarrow> Inl (Err ''host key has invalid base64 payload'')
           | Some decoded \<Rightarrow>
               bind_r (read_ssh_string decoded) (\<lambda>(wire, rest).
               also_r (checks
                 [reject_if (wire \<noteq> algorithm) (Err ''host key algorithm does not match wire payload''),
                  reject_if (rest = []) (Err ''host key payload is incomplete'')])
                 (Inr (algorithm, decoded, ssh_fingerprint decoded))))
      | _ \<Rightarrow> Inl (Err ''host key must contain algorithm and base64 payload''))"

subsection \<open>The private key file\<close>

text \<open>The padding bytes 1, 2, 3, \<open>\<dots>\<close> until the length is a multiple of eight; the counter is a byte.\<close>

function pad_private :: "nat \<Rightarrow> bytes \<Rightarrow> bytes" where
  "pad_private p buf =
     (if length buf mod 8 = 0 then buf else pad_private ((p + 1) mod 256) (buf @ [char_of p]))"
  by pat_completeness auto
termination
proof (relation "measure (\<lambda>(p, buf). 8 - length buf mod 8 + (if length buf mod 8 = 0 then 0 else 8))")
  fix p :: nat and buf :: bytes
  assume "length buf mod 8 \<noteq> 0"
  moreover have "length buf mod 8 < 8" by simp
  ultimately show "(((p + 1) mod 256, buf @ [char_of p]), (p, buf)) \<in>
      measure (\<lambda>(p, buf). 8 - length buf mod 8 + (if length buf mod 8 = 0 then 0 else 8))"
    by (simp add: mod_Suc) linarith
qed simp

declare pad_private.simps [simp del]

text \<open>\<open>pem.EncodeToMemory\<close> without headers: base64 in lines of 64 characters.\<close>

fun pem_lines :: "nat \<Rightarrow> bytes \<Rightarrow> bytes" where
  "pem_lines n [] = []"
| "pem_lines 0 s = []"
| "pem_lines (Suc n) s = take 64 s @ [CHR 0x0A] @ pem_lines n (drop 64 s)"

definition pem_encode :: "bytes \<Rightarrow> bytes \<Rightarrow> bytes" where
  "pem_encode kind body =
     ''-----BEGIN '' @ kind @ ''-----'' @ [CHR 0x0A] @
     (let s = std_encode body in pem_lines (length s) s) @
     ''-----END '' @ kind @ ''-----'' @ [CHR 0x0A]"

definition openssh_magic :: bytes where "openssh_magic = ''openssh-key-v1'' @ [CHR 0x00]"

definition openssh_private :: "(bytes \<Rightarrow> bytes) \<Rightarrow> bytes \<Rightarrow> bytes \<Rightarrow> bytes \<Rightarrow> bytes" where
  "openssh_private pub check comment seed =
     (let c = wire_bytes 4 (wire_value check) in
      pad_private 1 (c @ c @ write_ssh_string ssh_ed25519 @ write_ssh_string (pub seed) @
        write_ssh_string (seed @ pub seed) @ write_ssh_string comment))"

definition openssh_payload :: "(bytes \<Rightarrow> bytes) \<Rightarrow> bytes \<Rightarrow> bytes \<Rightarrow> bytes \<Rightarrow> bytes" where
  "openssh_payload pub check comment seed =
     openssh_magic @ write_ssh_string ''none'' @ write_ssh_string ''none'' @ write_ssh_string [] @ wire_bytes 4 1 @
     write_ssh_string (ssh_public_blob (pub seed)) @ write_ssh_string (openssh_private pub check comment seed)"

definition marshal_openssh_private_key ::
  "(bytes \<Rightarrow> bytes) \<Rightarrow> bytes result \<Rightarrow> bytes \<Rightarrow> bytes \<Rightarrow> bytes result" where
  "marshal_openssh_private_key pub check comment seed =
     (if length seed \<noteq> seed_size then Inl (Err ''invalid ed25519 seed'')
      else
        bind_r (wrap_error ''generate openssh private key check value: %w'' [] check) (\<lambda>check.
        Inr (pem_encode ''OPENSSH PRIVATE KEY'' (openssh_payload pub check comment seed))))"

subsection \<open>What is written is read back\<close>

lemma base64_graph: "list_all graph_char (base64_encode std_alphabet padded s)"
proof -
  have "list_all graph_char std_alphabet" "graph_char CHR ''=''" by code_simp+
  then show ?thesis
    using encode_chars [OF alphabets(1), of _ padded s] unfolding list_all_iff by blast
qed

lemma base64_nonempty: "s \<noteq> [] \<Longrightarrow> base64_encode std_alphabet padded s \<noteq> []"
  by (cases "(std_alphabet, padded, s)" rule: base64_encode.cases) (auto simp: Let_def)

lemma parse_own_key:
  assumes "pub seed \<noteq> []" "length (pub seed) < 2 ^ 32"
  shows "parse_public_key (ssh_ed25519 @ '' '' @ std_encode (ssh_public_blob (pub seed))) =
    Inr (ssh_ed25519, ssh_public_blob (pub seed), ssh_fingerprint (ssh_public_blob (pub seed)))"
proof -
  let ?blob = "ssh_public_blob (pub seed)"
  have alg: "list_all graph_char ssh_ed25519" "ssh_ed25519 \<noteq> []" by code_simp+
  have short: "length ssh_ed25519 < 2 ^ 32" by (simp add: ssh_ed25519_def)
  have blob: "?blob \<noteq> []" by (simp add: ssh_public_blob_def)
  have "string_fields (ssh_ed25519 @ '' '' @ std_encode ?blob) = [ssh_ed25519, std_encode ?blob]"
    using fields_of_words [OF alg(1) base64_graph alg(2) base64_nonempty [OF blob]] by simp
  then show ?thesis
    using assms(2) short read_write [of ssh_ed25519 "write_ssh_string (pub seed)"]
    by (simp add: parse_public_key_def ssh_public_blob_def reject_if_def)
qed

lemma read_write_end: "length v < 2 ^ 32 \<Longrightarrow> read_ssh_string (write_ssh_string v) = Inr (v, [])"
  using read_write [of v "[]"] by simp

lemma pad_private_eq:
  assumes "(length buf + k) mod 8 = 0" "k < 8" "p + k < 256"
  shows "pad_private p buf = buf @ map char_of [p..<p + k]"
  using assms
proof (induction k arbitrary: p buf)
  case 0
  then show ?case by (simp add: pad_private.simps [of p buf])
next
  case (Suc k)
  have "pad_private ((p + 1) mod 256) (buf @ [char_of p]) = (buf @ [char_of p]) @ map char_of [p + 1..<p + 1 + k]"
    using Suc.IH [of "buf @ [char_of p]" "p + 1"] Suc.prems by simp
  moreover have "length buf mod 8 \<noteq> 0" using Suc.prems by presburger
  moreover have "[p..<p + Suc k] = p # [p + 1..<p + 1 + k]" by (simp add: upt_conv_Cons del: upt_Suc)
  ultimately show ?case by (simp add: pad_private.simps [of p buf] del: upt_Suc)
qed

text \<open>The format of an unencrypted OpenSSH key file, as its documentation gives it, read without the PEM lines.\<close>

definition read_openssh :: "bytes \<Rightarrow> (bytes \<times> bytes \<times> bytes) result" where
  "read_openssh body =
     (if \<not> has_prefix body openssh_magic then Inl (Err ''magic'')
      else
        bind_r (read_ssh_string (trim_prefix body openssh_magic)) (\<lambda>(cipher, r).
        bind_r (read_ssh_string r) (\<lambda>(kdf, r).
        bind_r (read_ssh_string r) (\<lambda>(options, r).
        if cipher \<noteq> ''none'' \<or> kdf \<noteq> ''none'' \<or> options \<noteq> [] \<or> wire_value (take 4 r) \<noteq> 1 then Inl (Err ''encrypted'')
        else
          bind_r (read_ssh_string (drop 4 r)) (\<lambda>(blob, r).
          bind_r (read_ssh_string r) (\<lambda>(private, r).
          if r \<noteq> [] \<or> length private mod 8 \<noteq> 0 \<or> take 4 private \<noteq> take 4 (drop 4 private) then Inl (Err ''private section'')
          else
            bind_r (read_ssh_string (drop 8 private)) (\<lambda>(kind, p).
            bind_r (read_ssh_string p) (\<lambda>(public, p).
            bind_r (read_ssh_string p) (\<lambda>(key, p).
            bind_r (read_ssh_string p) (\<lambda>(comment, padding).
            if kind \<noteq> ssh_ed25519 \<or> blob \<noteq> ssh_public_blob public \<or> length padding \<ge> 8 \<or>
               padding \<noteq> map char_of [1..<1 + length padding]
            then Inl (Err ''private key'')
            else Inr (key, public, comment)))))))))))"

lemma private_padded:
  "\<exists>k<8. openssh_private pub check comment seed =
     wire_bytes 4 (wire_value check) @ wire_bytes 4 (wire_value check) @ write_ssh_string ssh_ed25519 @ write_ssh_string (pub seed) @
     write_ssh_string (seed @ pub seed) @ write_ssh_string comment @ map char_of [1..<1 + k] \<and>
   length (openssh_private pub check comment seed) mod 8 = 0"
proof -
  let ?c = "wire_bytes 4 (wire_value check)"
  let ?buf = "?c @ ?c @ write_ssh_string ssh_ed25519 @ write_ssh_string (pub seed) @
     write_ssh_string (seed @ pub seed) @ write_ssh_string comment"
  have "\<exists>k<8. (n + k) mod 8 = 0" for n :: nat by presburger
  from this [of "length ?buf"] obtain k where k: "(length ?buf + k) mod 8 = 0" "k < 8"
    by (elim exE conjE) (rule that; assumption)
  have eq: "openssh_private pub check comment seed = ?buf @ map char_of [1..<1 + k]"
    unfolding openssh_private_def Let_def using pad_private_eq [OF k(1), of 1] k(2) by simp
  moreover have "length (openssh_private pub check comment seed) mod 8 = 0"
    using k(1) by (simp only: eq length_append length_map length_upt add_diff_cancel_left')
  ultimately show ?thesis using k(2) by (intro exI [of _ k]) simp
qed

text \<open>
  The key file that is written for \<open>ssh\<close> is one PEM block of a well-formed OpenSSH key, and reading it
  gives the seed, the public key and the comment it was made of.
\<close>

theorem private_key_readable:
  assumes "length seed = 32" "length (pub seed) = 32" "length comment < 2 ^ 31"
  shows "marshal_openssh_private_key pub (Inr check) comment seed =
      Inr (pem_encode ''OPENSSH PRIVATE KEY'' (openssh_payload pub check comment seed)) \<and>
    read_openssh (openssh_payload pub check comment seed) = Inr (seed @ pub seed, pub seed, comment)"
proof -
  obtain k where k: "k < 8" and eq: "openssh_private pub check comment seed =
     wire_bytes 4 (wire_value check) @ wire_bytes 4 (wire_value check) @ write_ssh_string ssh_ed25519 @ write_ssh_string (pub seed) @
     write_ssh_string (seed @ pub seed) @ write_ssh_string comment @ map char_of [1..<1 + k]"
    and whole: "length (openssh_private pub check comment seed) mod 8 = 0"
    using private_padded [of pub check comment seed] by (elim exE conjE) (rule that; assumption)
  have ed: "length ssh_ed25519 = 11" by (simp add: ssh_ed25519_def)
  have blob: "length (ssh_public_blob (pub seed)) < 2 ^ 32"
    using assms(2) ed by (simp add: ssh_public_blob_def)
  have priv: "length (openssh_private pub check comment seed) < 2 ^ 32"
    using assms k ed by (simp add: eq del: wire_bytes.simps upt_Suc)
  have one: "wire_value (wire_bytes 4 (Suc 0)) = 1" by (simp add: wire_value_bytes)
  have four: "take 4 (wire_bytes 4 n @ r) = wire_bytes 4 n" "drop 4 (wire_bytes 4 n @ r) = r" "drop 8 (wire_bytes 4 n @ wire_bytes 4 m @ r) = r" for n m r
    by (simp_all del: wire_bytes.simps add: drop_append)
  have "read_openssh (openssh_payload pub check comment seed) = Inr (seed @ pub seed, pub seed, comment)"
    using assms blob priv whole k ed
    by (simp add: read_openssh_def openssh_payload_def one four read_write_end eq del: wire_bytes.simps upt_Suc)
  then show ?thesis using assms(1) by (simp add: marshal_openssh_private_key_def seed_size_def wrap_error_def)
qed

theorem private_key_readable_witness:
  "read_openssh (openssh_payload (\<lambda>s. replicate 32 CHR ''p'') ''abcd'' ''vpsmith:root@10.0.0.1'' (replicate 32 CHR ''s'')) =
     Inr (replicate 32 CHR ''s'' @ replicate 32 CHR ''p'', replicate 32 CHR ''p'', ''vpsmith:root@10.0.0.1'')"
  using private_key_readable [of "replicate 32 CHR ''s''" "\<lambda>s. replicate 32 CHR ''p''" "''vpsmith:root@10.0.0.1''" "''abcd''"]
  by simp

end
