(* ===== verification/Gateway_Wire.thy ===== *)
theory Gateway_Wire
  imports Gateway_Identity Exec_Types Mgmt_Types Go_Path "HOL-Library.AList"
begin

section \<open>Names, commands and outputs of the SSH transport\<close>

text \<open>
  The pure part of \<open>internal/targetgateway/ssh_transport.go\<close>, \<open>execution_helpers.go\<close>,
  \<open>execution_input.go\<close>, \<open>execution_proofs.go\<close> and \<open>storage_backup.go\<close>: the checks of every name that
  gets into a remote command, the quoting for the shell, the stream of secrets, and the parsers of
  what the target prints. \<open>net.ParseIP\<close> (giving the canonical text) and \<open>json.Unmarshal\<close> are parameters.
\<close>

subsection \<open>Names\<close>

abbreviation chars_from :: "char \<Rightarrow> char \<Rightarrow> char \<Rightarrow> bool" where
  "chars_from lo hi c \<equiv> lo \<le> c \<and> c \<le> hi"

definition ascii_letter :: "char \<Rightarrow> bool" where
  "ascii_letter c = (chars_from CHR ''a'' CHR ''z'' c \<or> chars_from CHR ''A'' CHR ''Z'' c)"

definition ascii_digit :: "char \<Rightarrow> bool" where
  "ascii_digit c = (chars_from CHR ''0'' CHR ''9'' c)"

definition safe_execution_id :: "bytes \<Rightarrow> bool" where
  "safe_execution_id v =
     (v \<noteq> [] \<and> length v \<le> 96 \<and>
      list_all (\<lambda>c. ascii_letter c \<or> ascii_digit c \<or> c = CHR ''_'' \<or> c = CHR ''-'') v)"

definition hex64 :: "bytes \<Rightarrow> bool" where
  "hex64 v = (length v = 64 \<and> list_all (\<lambda>c. ascii_digit c \<or> chars_from CHR ''a'' CHR ''f'' c) v)"

definition safe_bundle_path :: "bytes \<Rightarrow> bool" where
  "safe_bundle_path v =
     (v \<noteq> [] \<and> \<not> has_prefix v ''/'' \<and> CHR 0x5C \<notin> set v \<and> CHR 0x00 \<notin> set v \<and>
      list_all (\<lambda>p. p \<noteq> [] \<and> p \<noteq> ''.'' \<and> p \<noteq> ''..'') (split_on CHR ''/'' v))"

definition safe_ssh_user :: "bytes \<Rightarrow> bool" where
  "safe_ssh_user v =
     (v \<noteq> [] \<and> length v \<le> 32 \<and> ascii_letter (hd v) \<and>
      list_all (\<lambda>c. ascii_letter c \<or> ascii_digit c \<or> c = CHR ''-'' \<or> c = CHR ''_'') (tl v))"

definition safe_object_name :: "bytes \<Rightarrow> bool" where
  "safe_object_name v =
     (v \<noteq> [] \<and> length v \<le> 255 \<and> hd v \<noteq> CHR ''-'' \<and>
      list_all (\<lambda>c. ascii_letter c \<or> ascii_digit c \<or> c \<in> set ''._@:-'') v)"

definition safe_artifact_path :: "bytes \<Rightarrow> bool" where
  "safe_artifact_path v =
     (v \<noteq> [] \<and> has_prefix v ''/'' \<and> path_clean v = v \<and> \<not> contains_any v [CHR 0x0D, CHR 0x0A, CHR 0x00] \<and>
      list_ex (has_prefix v) [''/etc/vpsmith/'', ''/var/lib/vpsmith/'', ''/home/''])"

definition safe_storage_token :: "bytes \<Rightarrow> bool" where
  "safe_storage_token v =
     (has_prefix v ''copy-'' \<and> length v \<le> 96 \<and>
      list_all (\<lambda>c. chars_from CHR ''a'' CHR ''z'' c \<or> ascii_digit c \<or> c = CHR ''-'') v)"

definition is_hex :: "bytes \<Rightarrow> bool" where
  "is_hex v = list_all (\<lambda>c. ascii_digit c \<or> chars_from CHR ''a'' CHR ''f'' c \<or> chars_from CHR ''A'' CHR ''F'' c) v"

definition validate_storage_paths :: "bytes list \<Rightarrow> bytes list result" where
  "validate_storage_paths vs =
     also_r (reject_if (vs = []) (Err ''declared storage list is empty''))
    (bind_r (each_unique
       (\<lambda>v. checks
          [reject_if (v = [] \<or> \<not> has_prefix v ''/'' \<or> contains_any v [CHR 0x00, CHR 0x0D, CHR 0x0A])
             (Errf ''invalid declared storage path %q'' [v]),
           reject_if (path_clean v \<noteq> v \<or> path_clean v = ''/'')
             (Errf ''declared storage path %q must be canonical and narrower than root'' [v])])
       (\<lambda>v. v) (\<lambda>v. Errf ''duplicate declared storage path %q'' [v]) (\<lambda>v. Inr ()) {} vs)
     (\<lambda>_. Inr vs))"

subsection \<open>The shell\<close>

definition quote_escape :: bytes where
  "quote_escape = [CHR 0x27, CHR 0x5C, CHR 0x27, CHR 0x27]"

definition shell_quote :: "bytes \<Rightarrow> bytes" where
  "shell_quote v =
     [CHR 0x27] @ concat (map (\<lambda>c. if c = CHR 0x27 then quote_escape else [c]) v) @ [CHR 0x27]"

subsection \<open>Numbers\<close>

text \<open>\<open>strconv.ParseInt\<close> in base 10 with 64 bits, and \<open>Atoi\<close> on a 64-bit machine.\<close>

definition parse_int64 :: "bytes \<Rightarrow> int option" where
  "parse_int64 s =
     (let (neg, d) = (if has_prefix s ''-'' then (True, tl s) else if has_prefix s ''+'' then (False, tl s) else (False, s)) in
      if d = [] \<or> \<not> list_all ascii_digit d then None
      else
        (let n = (if neg then - int (decimal_value d) else int (decimal_value d)) in
         if - (2 ^ 63) \<le> n \<and> n < 2 ^ 63 then Some n else None))"

subsection \<open>Endpoints\<close>

record endpoint =
  epn_Address :: bytes
  epn_SSHUser :: bytes

record parsed_endpoint =
  pep_Host :: bytes
  pep_Port :: bytes

text \<open>\<open>net.SplitHostPort\<close>; the caller replaces its errors by one of its own.\<close>

definition split_host_port :: "bytes \<Rightarrow> (bytes \<times> bytes) option" where
  "split_host_port s =
     (let i = last_index CHR '':'' s in
      if i < 0 then None
      else if hd s = CHR ''['' then
        (case index_of CHR '']'' s of
           None \<Rightarrow> None
         | Some e \<Rightarrow>
             if int e + 1 \<noteq> i then None
             else if CHR ''['' \<in> set (tl s) \<or> CHR '']'' \<in> set (drop (e + 1) s) then None
             else Some (drop 1 (take e s), drop (nat i + 1) s))
      else
        (let host = take (nat i) s in
         if CHR '':'' \<in> set host \<or> CHR ''['' \<in> set s \<or> CHR '']'' \<in> set s then None
         else Some (host, drop (nat i + 1) s)))"

definition parse_endpoint :: "(bytes \<Rightarrow> bytes option) \<Rightarrow> bytes \<Rightarrow> parsed_endpoint result" where
  "parse_endpoint parse_ip address0 =
     (let address = trim_space address0 in
      if address = [] then Inl (Err ''target address is required'')
      else
        (case parse_ip address of
           Some ip \<Rightarrow> Inr \<lparr>pep_Host = ip, pep_Port = ''22''\<rparr>
         | None \<Rightarrow>
             (case split_host_port address of
                None \<Rightarrow> Inl (Err ''target address must be an IP address or IP:port'')
              | Some (host, port) \<Rightarrow>
                  (case parse_ip host of
                     None \<Rightarrow> Inl (Err ''target address must contain an IP address'')
                   | Some ip \<Rightarrow>
                       (case parse_int64 port of
                          None \<Rightarrow> Inl (Err ''target ssh port is invalid'')
                        | Some n \<Rightarrow>
                            if n < 1 \<or> n > 65535 then Inl (Err ''target ssh port is invalid'')
                            else Inr \<lparr>pep_Host = ip, pep_Port = decimal_int n\<rparr>)))))"

definition known_hosts_name :: "parsed_endpoint \<Rightarrow> bytes" where
  "known_hosts_name p =
     (if pep_Port p = ''22'' then pep_Host p else ''['' @ pep_Host p @ '']:'' @ pep_Port p)"

subsection \<open>Outputs of lines\<close>

text \<open>\<open>strings.Cut\<close> with a separator of one character.\<close>

fun cut_at :: "char \<Rightarrow> bytes \<Rightarrow> (bytes \<times> bytes) option" where
  "cut_at sep [] = None"
| "cut_at sep (c # cs) = (if c = sep then Some ([], cs) else map_option (\<lambda>(a, b). (c # a, b)) (cut_at sep cs))"

definition err_too_long :: error where "err_too_long = Err ''bufio.Scanner: token too long''"

text \<open>The last value of a key counts; an association list with the newest binding first.\<close>

fun put_facts :: "bytes list \<Rightarrow> (bytes \<times> bytes) list \<Rightarrow> (bytes \<times> bytes) list result" where
  "put_facts [] m = Inr m"
| "put_facts (l # ls) m =
     (case cut_at CHR 0x09 l of
        Some (k, v) \<Rightarrow> if k = [] then Inl (Err ''invalid host fact output'') else put_facts ls (AList.update k v m)
      | None \<Rightarrow> Inl (Err ''invalid host fact output''))"

definition parse_tab_facts :: "bytes \<Rightarrow> (bytes \<times> bytes) list result" where
  "parse_tab_facts raw =
     (case scanner_lines max_token raw of (ls, whole) \<Rightarrow>
      bind_r (put_facts ls []) (\<lambda>m. also_r (reject_if (\<not> whole) err_too_long) (Inr m)))"

definition parse_equals_facts :: "bytes \<Rightarrow> (bytes \<times> bytes) list" where
  "parse_equals_facts raw =
     fold (\<lambda>l m. case cut_at CHR ''='' l of Some (k, v) \<Rightarrow> AList.update k v m | None \<Rightarrow> m) (fst (scanner_lines max_token raw)) []"

definition fact :: "(bytes \<times> bytes) list \<Rightarrow> bytes \<Rightarrow> bytes" where
  "fact m k = (case map_of m k of None \<Rightarrow> [] | Some v \<Rightarrow> v)"

definition int64_fact :: "(bytes \<times> bytes) list \<Rightarrow> bytes \<Rightarrow> int result" where
  "int64_fact m k =
     (case map_of m k of
        None \<Rightarrow> Inl (Errf ''host fact %s is missing'' [k])
      | Some v \<Rightarrow>
          (case parse_int64 (trim_space v) of
             None \<Rightarrow> Inl (Errf ''host fact %s is invalid'' [k])
           | Some n \<Rightarrow> if n < 0 then Inl (Errf ''host fact %s is invalid'' [k]) else Inr n))"

subsection \<open>Host keys\<close>

record host_key =
  hky_Algorithm :: bytes
  hky_PublicKey :: bytes
  hky_Fingerprint :: bytes

text \<open>
  The lines of \<open>ssh-keyscan\<close>. The map of maps is the list of the distinct keys in the order in which
  they come; a second line with the same key replaces an equal observation.
\<close>

fun host_keys :: "bytes list \<Rightarrow> host_key list \<Rightarrow> host_key list result" where
  "host_keys [] seen = Inr seen"
| "host_keys (l0 # ls) seen =
     (let l = trim_space l0; w = string_fields l in
      if l = [] \<or> has_prefix l ''#'' \<or> length w < 3 then host_keys ls seen
      else
        (let key = w ! 1 @ '' '' @ w ! 2 in
         bind_r (parse_public_key key) (\<lambda>(algorithm, blob, fingerprint).
         let k = \<lparr>hky_Algorithm = algorithm, hky_PublicKey = key, hky_Fingerprint = fingerprint\<rparr> in
         host_keys ls (if k \<in> set seen then seen else seen @ [k]))))"

fun pick_host_key :: "bytes list \<Rightarrow> host_key list \<Rightarrow> host_key result" where
  "pick_host_key [] keys = Inl (Err ''no supported ssh host key observed'')"
| "pick_host_key (a # as) keys =
     (case filter (\<lambda>k. hky_Algorithm k = a) keys of
        [] \<Rightarrow> pick_host_key as keys
      | [k] \<Rightarrow> Inr k
      | _ \<Rightarrow> Inl (Errf ''ambiguous %s host keys'' [a]))"

definition host_key_algorithms :: "bytes list" where
  "host_key_algorithms = [''ssh-ed25519'', ''ecdsa-sha2-nistp256'', ''ssh-rsa'']"

definition select_host_key :: "bytes \<Rightarrow> host_key result" where
  "select_host_key raw =
     (case scanner_lines max_token raw of (ls, whole) \<Rightarrow>
      bind_r (host_keys ls []) (\<lambda>keys.
      also_r (reject_if (\<not> whole) err_too_long) (pick_host_key host_key_algorithms keys)))"

subsection \<open>The stream of secrets\<close>

definition secret_stream_magic :: bytes where
  "secret_stream_magic = ''VPSMITH-SECRETS-1'' @ [CHR 0x0A]"

definition encode_secret :: "secret_value \<Rightarrow> bytes" where
  "encode_secret v =
     wire_bytes 4 (length (scv_ID v)) @ scv_ID v @ wire_bytes 8 (length (scv_Value v)) @ scv_Value v"

definition encode_secret_stream :: "secret_value list \<Rightarrow> bytes result" where
  "encode_secret_stream vs =
     bind_r (each_unique
       (\<lambda>v. reject_if (scv_ID v = [] \<or> length (scv_ID v) > 4096 \<or> scv_Value v = []) (Err ''invalid execution secret value''))
       scv_ID (\<lambda>v. Err ''duplicate execution secret id'') (\<lambda>v. Inr ()) {} vs)
     (\<lambda>_. Inr (secret_stream_magic @ concat (map encode_secret vs) @ wire_bytes 4 0))"

subsection \<open>Observations and proofs of executions\<close>

definition observation_limit :: nat where "observation_limit = 8 * 1024 * 1024"

fun observe_lines ::
  "(bytes \<Rightarrow> exec_proof result) \<Rightarrow> bytes list \<Rightarrow> bytes list \<Rightarrow> observation \<Rightarrow> (bytes list \<times> observation) result" where
  "observe_lines decode [] seen obs = Inr (seen, obs)"
| "observe_lines decode (l # ls) seen obs =
     (case cut_at CHR 0x09 l of
        None \<Rightarrow> Inl (Err ''invalid execution observation output'')
      | Some (k, v) \<Rightarrow>
          if k \<in> set seen then Inl (Err ''invalid execution observation output'')
          else if k = ''PROOF'' then
            (if v = [] then observe_lines decode ls (k # seen) obs
             else bind_r (wrap_error ''decode execution proof: %w'' [] (decode v)) (\<lambda>p.
               observe_lines decode ls (k # seen) (obs\<lparr>obv_Proof := Some p\<rparr>)))
          else if k = ''LOCK'' then observe_lines decode ls (k # seen) (obs\<lparr>obv_LockHeld := (v = ''1'')\<rparr>)
          else if k = ''UNIT'' then observe_lines decode ls (k # seen) (obs\<lparr>obv_UnitRunning := (v = ''1'')\<rparr>)
          else Inl (Err ''unknown execution observation field''))"

definition parse_execution_observation :: "(bytes \<Rightarrow> exec_proof result) \<Rightarrow> bytes \<Rightarrow> observation result" where
  "parse_execution_observation decode raw =
     (case scanner_lines observation_limit raw of (ls, whole) \<Rightarrow>
      bind_r (observe_lines decode ls [] \<lparr>obv_Proof = None, obv_LockHeld = False, obv_UnitRunning = False\<rparr>) (\<lambda>(seen, obs).
      also_r (checks
        [reject_if (\<not> whole) err_too_long,
         reject_if (\<not> {''PROOF'', ''LOCK'', ''UNIT''} \<subseteq> set seen) (Err ''incomplete execution observation output'')])
        (Inr obs)))"

record proof_document =
  pdo_FormatVersion :: int
  pdo_RunID :: bytes
  pdo_BundleID :: bytes
  pdo_BundleSHA256 :: bytes
  pdo_Kind :: bytes
  pdo_Status :: bytes

text \<open>\<open>strings.SplitN\<close> with a tab and four parts.\<close>

definition tab_fields4 :: "bytes \<Rightarrow> (bytes \<times> bytes \<times> bytes \<times> bytes) option" where
  "tab_fields4 l =
     (case cut_at CHR 0x09 l of None \<Rightarrow> None
      | Some (a, r) \<Rightarrow>
          (case cut_at CHR 0x09 r of None \<Rightarrow> None
           | Some (b, r) \<Rightarrow> (case cut_at CHR 0x09 r of None \<Rightarrow> None | Some (c, d) \<Rightarrow> Some (a, b, c, d))))"

fun proof_lines ::
  "(bytes \<Rightarrow> proof_document result) \<Rightarrow> bytes list \<Rightarrow> bytes set \<Rightarrow> proof_observed list result" where
  "proof_lines decode [] seen = Inr []"
| "proof_lines decode (l # ls) seen =
     (if trim_space l = [] then proof_lines decode ls seen
      else
        (case tab_fields4 l of
           None \<Rightarrow> Inl (Err ''invalid execution proof observation output'')
         | Some (tag, run, dg, document) \<Rightarrow>
             also_r (checks
               [reject_if (tag \<noteq> ''PROOF'') (Err ''invalid execution proof observation output''),
                reject_if (\<not> safe_execution_id run \<or> \<not> hex64 dg) (Err ''invalid execution proof identity''),
                reject_if (run \<in> seen) (Err ''duplicate execution proof identity''),
                reject_if (sha256_hex (document @ [CHR 0x0A]) \<noteq> dg) (Err ''execution proof sha256 mismatch'')])
             (bind_r (wrap_error ''decode execution proof: %w'' [] (decode document)) (\<lambda>p.
              if pdo_FormatVersion p \<noteq> 1 \<or> pdo_RunID p \<noteq> run \<or> \<not> safe_execution_id (pdo_BundleID p) \<or>
                 \<not> hex64 (pdo_BundleSHA256 p) \<or> trim_space (pdo_Kind p) = []
              then Inl (Err ''invalid execution proof document'')
              else
                bind_r (proof_lines decode ls (insert run seen)) (\<lambda>rest.
                Inr (if pdo_Status p \<noteq> ''success'' \<and> pdo_Status p \<noteq> ''failed'' then rest
                     else \<lparr>pro_ID = run, pro_BundleID = pdo_BundleID p, pro_BundleSHA256 = pdo_BundleSHA256 p,
                            pro_Kind = pdo_Kind p, pro_Outcome = pdo_Status p, pro_SHA256 = dg\<rparr> # rest))))))"

definition parse_execution_proof_facts :: "(bytes \<Rightarrow> proof_document result) \<Rightarrow> bytes \<Rightarrow> proof_observed list result" where
  "parse_execution_proof_facts decode raw =
     (case scanner_lines observation_limit raw of (ls, whole) \<Rightarrow>
      bind_r (proof_lines decode ls {}) (\<lambda>proofs. also_r (reject_if (\<not> whole) err_too_long) (Inr proofs)))"

subsection \<open>Replies of the storage copy\<close>

definition parse_storage_reply :: "bytes \<Rightarrow> (bytes \<times> bytes \<times> int) result" where
  "parse_storage_reply stdout =
     (let w = string_fields (trim_space stdout) in
      if w = [''prerequisite''] then Inl (Err ''target storage-copy requires GNU tar and zstd'')
      else if length w = 2 \<and> w ! 0 = ''error'' then
        (case parse_int64 (w ! 1) of
           None \<Rightarrow> Inl (Err ''invalid target storage-copy failure response'')
         | Some code \<Rightarrow>
             if code \<le> 0 then Inl (Err ''invalid target storage-copy failure response'')
             else Inl (Errf ''target storage-copy %s failed with exit code %d'' [''archive'', decimal_int code]))
      else if length w \<noteq> 4 \<or> w ! 0 \<noteq> ''ok'' \<or> \<not> safe_storage_token (w ! 1) \<or> \<not> hex64 (w ! 2)
      then Inl (Err ''invalid target storage-copy response'')
      else
        (case parse_int64 (w ! 3) of
           None \<Rightarrow> Inl (Err ''invalid target storage-copy size'')
         | Some n \<Rightarrow>
             if n < 0 then Inl (Err ''invalid target storage-copy size'') else Inr (w ! 1, w ! 2, n)))"

definition bounded_remote_error :: "bytes \<Rightarrow> bytes" where
  "bounded_remote_error stderr =
     (let t = trim_space stderr in
      if t = [] then [] else '': '' @ (if length t > 512 then take 512 t @ ''...'' else t))"

end
