(* ===== verification/Gateway_Session.thy ===== *)
theory Gateway_Session
  imports Gateway_Wire Go_Action Mgmt_Recovery
begin

section \<open>The gateway to a target\<close>

text \<open>
  \<open>internal/targetgateway/gateway.go\<close>, \<open>enrollment.go\<close>, \<open>execution_gateway.go\<close>, \<open>runtime_gateway.go\<close> and the
  adapter of \<open>storage_backup.go\<close>. The gateway works on the management state and on the world outside,
  which its transport changes: every operation of the transport is a field of \<open>gateway_env\<close>. The type
  assertions on the transport are options. The clock, the random values, the faults of SQL and the
  JSON decoders are fields too, so that each call may meet different ones.
\<close>

record ssh_session =
  ses_Endpoint :: endpoint
  ses_HostKey :: bytes
  ses_IdentitySeed :: bytes

datatype log_kind = Journal_Unit | Podman_Container | Other_Log bytes

record log_request =
  lgr_Kind :: log_kind
  lgr_Name :: bytes
  lgr_Scope :: bytes
  lgr_Lines :: int

datatype runtime_action = Runtime_Start | Runtime_Stop | Runtime_Restart | Other_Action bytes

record runtime_result =
  rtr_Module :: bytes
  rtr_Action :: runtime_action
  rtr_Units :: "bytes list"

record health_result =
  hcr_Module :: bytes
  hcr_Type :: bytes
  hcr_Container :: bytes
  hcr_Healthy :: bool
  hcr_ExitCode :: int
  hcr_Stdout :: bytes
  hcr_Stderr :: bytes

record 'w execution_transport =
  ext_Upload :: "ssh_session \<Rightarrow> exec_bundle \<Rightarrow> ('w, unit) action"
  ext_Start :: "ssh_session \<Rightarrow> start_request \<Rightarrow> ('w, unit) action"
  ext_Observe :: "ssh_session \<Rightarrow> bytes \<Rightarrow> ('w, observation) action"
  ext_SendSecrets :: "ssh_session \<Rightarrow> bytes \<Rightarrow> secret_value list \<Rightarrow> ('w, unit) action"

record 'w runtime_transport =
  rtt_Control :: "ssh_session \<Rightarrow> bytes \<Rightarrow> runtime_action \<Rightarrow> ('w, runtime_result) action"
  rtt_Healthcheck :: "ssh_session \<Rightarrow> bytes \<Rightarrow> ('w, health_result) action"

text \<open>The bytes of a transfer go to a writer of the caller: they are the result.\<close>

record 'w storage_transport =
  stt_Prepare :: "ssh_session \<Rightarrow> bytes list \<Rightarrow> ('w, bytes \<times> bytes \<times> int) action"
  stt_Transfer :: "ssh_session \<Rightarrow> bytes \<Rightarrow> ('w, bytes) action"
  stt_Cleanup :: "ssh_session \<Rightarrow> bytes \<Rightarrow> ('w, unit) action"

record 'w gateway_env =
  gwe_ObserveHostKey :: "endpoint \<Rightarrow> ('w, host_key) action"
  gwe_Inspect :: "ssh_session \<Rightarrow> ('w, target_observed) action"
  gwe_Logs :: "ssh_session \<Rightarrow> log_request \<Rightarrow> ('w, unit) action"
  gwe_Execution :: "'w execution_transport option"
  gwe_Runtime :: "'w runtime_transport option"
  gwe_Storage :: "'w storage_transport option"
  gwe_Decoders :: state_decoders
  gwe_Crypto :: crypto
  gwe_Sql :: sql_faults
  gwe_Key :: bytes
  gwe_Pub :: "bytes \<Rightarrow> bytes"
  gwe_Seed :: "bytes result"
  gwe_NewSecretID :: "bytes result"
  gwe_Nonce :: "bytes result"
  gwe_Now :: bytes

record 'w gateway_state =
  gws_Db :: db
  gws_World :: 'w

definition world_s :: "('w, 'a) action \<Rightarrow> ('w gateway_state, 'a) action" where
  "world_s m st = (case m (gws_World st) of (r, w') \<Rightarrow> (r, st\<lparr>gws_World := w'\<rparr>))"

definition db_s :: "('w, 'x) gateway_env_scheme \<Rightarrow> (db \<Rightarrow> db result) \<Rightarrow> ('w gateway_state, unit) action" where
  "db_s env g st = (case change (gwe_Sql env) (op g) (gws_Db st) of (r, db') \<Rightarrow> (r, st\<lparr>gws_Db := db'\<rparr>))"

subsection \<open>Trust\<close>

definition err_trust_required :: error where
  "err_trust_required = Err ''ssh host key is not confirmed''"

definition host_key_mismatch :: "mgmt_target \<Rightarrow> host_key \<Rightarrow> error" where
  "host_key_mismatch t o' =
     Errf ''ssh host key changed: expected %s, observed %s'' [tgt_SSHHostFingerprint t, hky_Fingerprint o']"

definition gateway_target :: "('w, 'x) gateway_env_scheme \<Rightarrow> bytes \<Rightarrow> db \<Rightarrow> mgmt_target result" where
  "gateway_target env i db =
     also_r (reject_if (i = []) (Err ''target id is required''))
    (bind_r (wrap_error ''read management state: %w'' [] (read_snapshot (gwe_Decoders env) (gwe_Sql env) db)) (\<lambda>s.
     case find (\<lambda>t. tgt_ID t = i) (snp_Targets s) of
       Some t \<Rightarrow> Inr t
     | None \<Rightarrow> Inl (Errf ''target %s does not exist'' [i])))"

definition target_s :: "('w, 'x) gateway_env_scheme \<Rightarrow> bytes \<Rightarrow> ('w gateway_state, mgmt_target) action" where
  "target_s env i = read_s (\<lambda>st. gateway_target env i (gws_Db st))"

definition target_endpoint :: "mgmt_target \<Rightarrow> endpoint" where
  "target_endpoint t = \<lparr>epn_Address = tgt_Address t, epn_SSHUser = tgt_SSHUser t\<rparr>"

definition resolve_seed :: "('w, 'x) gateway_env_scheme \<Rightarrow> bytes \<Rightarrow> db \<Rightarrow> bytes result" where
  "resolve_seed env i db =
     bind_r (wrap_error ''resolve target ssh identity: %w'' []
       (secret_value_of (gwe_Crypto env) (gwe_Sql env) (gwe_Key env) i db)) (\<lambda>seed.
     also_r (reject_if (length seed \<noteq> seed_size) (Err ''target ssh identity has invalid format'')) (Inr seed))"

definition strict_session :: "('w, 'x) gateway_env_scheme \<Rightarrow> bytes \<Rightarrow> ('w gateway_state, ssh_session) action" where
  "strict_session env i =
     bind_s (target_s env i) (\<lambda>t.
     also_s (lift_s (reject_if (tgt_SSHTrust t \<noteq> Trust_Confirmed \<or> tgt_SSHHostKey t = [] \<or> tgt_SSHHostFingerprint t = [])
       err_trust_required))
    (bind_s (wrap_s ''verify ssh host key: %w'' [] (world_s (gwe_ObserveHostKey env (target_endpoint t)))) (\<lambda>o'.
     also_s (lift_s (checks
       [reject_if (tgt_SSHHostKey t \<noteq> hky_PublicKey o' \<or> tgt_SSHHostFingerprint t \<noteq> hky_Fingerprint o')
          (host_key_mismatch t o'),
        reject_if (tgt_SSHIdentitySecretID t = []) (Err ''target ssh identity is missing'')]))
    (bind_s (read_s (\<lambda>st. resolve_seed env (tgt_SSHIdentitySecretID t) (gws_Db st))) (\<lambda>seed.
     ret_s \<lparr>ses_Endpoint = target_endpoint t, ses_HostKey = tgt_SSHHostKey t, ses_IdentitySeed = seed\<rparr>)))))"

definition validate_observation :: "host_key \<Rightarrow> unit result" where
  "validate_observation k =
     reject_if (trim_space (hky_Algorithm k) = [] \<or> trim_space (hky_PublicKey k) = [] \<or> trim_space (hky_Fingerprint k) = [])
       (Err ''complete host key observation is required'')"

definition observe_host_key :: "('w, 'x) gateway_env_scheme \<Rightarrow> bytes \<Rightarrow> ('w gateway_state, host_key) action" where
  "observe_host_key env i =
     bind_s (target_s env i) (\<lambda>t.
     wrap_s ''observe ssh host key: %w'' [] (world_s (gwe_ObserveHostKey env (target_endpoint t))))"

definition set_trust ::
  "('w, 'x) gateway_env_scheme \<Rightarrow> bytes \<Rightarrow> bytes \<Rightarrow> bytes \<Rightarrow> trust_status \<Rightarrow> ('w gateway_state, unit) action" where
  "set_trust env i key fingerprint trust =
     db_s env (set_ssh_trust (gwe_Crypto env) (gwe_Sql env) (gwe_Key env) i key fingerprint trust)"

definition confirm_host_key ::
  "('w, 'x) gateway_env_scheme \<Rightarrow> bytes \<Rightarrow> host_key \<Rightarrow> ('w gateway_state, unit) action" where
  "confirm_host_key env i confirmed =
     also_s (lift_s (validate_observation confirmed))
    (bind_s (target_s env i) (\<lambda>t.
     bind_s (wrap_s ''re-observe ssh host key: %w'' [] (world_s (gwe_ObserveHostKey env (target_endpoint t)))) (\<lambda>o'.
     also_s (lift_s (reject_if (confirmed \<noteq> o')
       (Errf ''ssh host key changed before confirmation: confirmed %s, observed %s''
          [hky_Fingerprint confirmed, hky_Fingerprint o'])))
    (if tgt_SSHTrust t = Trust_Confirmed then
       lift_s (reject_if (tgt_SSHHostKey t \<noteq> hky_PublicKey o' \<or> tgt_SSHHostFingerprint t \<noteq> hky_Fingerprint o')
         (host_key_mismatch t o'))
     else set_trust env i (hky_PublicKey o') (hky_Fingerprint o') Trust_Confirmed))))"

definition reset_trust :: "('w, 'x) gateway_env_scheme \<Rightarrow> bytes \<Rightarrow> ('w gateway_state, unit) action" where
  "reset_trust env i = set_trust env i [] [] Trust_Unknown"

subsection \<open>The administrative identity\<close>

definition identity_change :: "('w, 'x) gateway_env_scheme \<Rightarrow> bytes \<Rightarrow> db \<Rightarrow> (bytes \<times> db) result" where
  "identity_change env i db =
     bind_r (ssh_identity_secret_id (gwe_Sql env) i db) (\<lambda>existing.
     if existing \<noteq> [] then Inr (existing, db)
     else
       bind_r (wrap_error ''generate ssh ed25519 seed: %w'' [] (gwe_Seed env)) (\<lambda>seed.
       bind_r (create_secret (gwe_Crypto env) (gwe_Sql env) (gwe_Key env) (gwe_NewSecretID env) (gwe_Now env)
         (''ssh-admin:'' @ i) Secret_Generated db) (\<lambda>(secret, db).
       bind_r (set_secret (gwe_Crypto env) (gwe_Sql env) (gwe_Key env) (gwe_Nonce env) secret seed db) (\<lambda>db.
       bind_r (set_ssh_identity (gwe_Sql env) i secret db) (\<lambda>db. Inr (secret, db))))))"

definition ensure_identity :: "('w, 'x) gateway_env_scheme \<Rightarrow> bytes \<Rightarrow> ('w gateway_state, ssh_identity) action" where
  "ensure_identity env i =
     also_s (lift_s (reject_if (i = []) (Err ''target id is required'')))
    (bind_s (read_s (\<lambda>st. case identity_change env i (gws_Db st) of Inl e \<Rightarrow> Inr [] | Inr (secret, db) \<Rightarrow> Inr secret)) (\<lambda>selected.
     also_s (wrap_s ''ensure target ssh identity: %w'' []
       (db_s env (\<lambda>db. bind_r (identity_change env i db) (\<lambda>(secret, db'). Inr db'))))
    (read_s (\<lambda>st. bind_r (resolve_seed env selected (gws_Db st)) (public_identity (gwe_Pub env) i)))))"

subsection \<open>Inspection and logs\<close>

definition record_inspection ::
  "('w, 'x) gateway_env_scheme \<Rightarrow> bytes \<Rightarrow> target_observed \<Rightarrow> ('w gateway_state, unit) action" where
  "record_inspection env i v =
     db_s env (record_observed_state (gwe_Crypto env) (gwe_Sql env) (gwe_Key env) i v)"

definition inspect_target :: "('w, 'x) gateway_env_scheme \<Rightarrow> bytes \<Rightarrow> ('w gateway_state, target_observed) action" where
  "inspect_target env i =
     bind_s (strict_session env i) (\<lambda>s.
     bind_s (wrap_s ''inspect target: %w'' [] (world_s (gwe_Inspect env s))) (\<lambda>v.
     let v' = normalize_observed (v\<lparr>tob_ObservedAt := gwe_Now env\<rparr>) in
     also_s (wrap_s ''record target inspection: %w'' [] (record_inspection env i v')) (ret_s v')))"

definition max_log_lines :: int where "max_log_lines = 2000"

definition target_logs :: "('w, 'x) gateway_env_scheme \<Rightarrow> bytes \<Rightarrow> log_request \<Rightarrow> ('w gateway_state, unit) action" where
  "target_logs env i r0 =
     (let r = r0\<lparr>lgr_Name := trim_space (lgr_Name r0)\<rparr> in
      also_s (lift_s (checks
        [reject_if (lgr_Kind r \<noteq> Journal_Unit \<and> lgr_Kind r \<noteq> Podman_Container) (Err ''unsupported log kind''),
         reject_if (\<not> safe_object_name (lgr_Name r)) (Err ''invalid log object name''),
         reject_if (lgr_Lines r \<le> 0 \<or> lgr_Lines r > max_log_lines)
           (Errf ''log lines must be between 1 and %d'' [decimal_int max_log_lines])]))
      (bind_s (strict_session env i) (\<lambda>s. world_s (gwe_Logs env s r))))"

subsection \<open>Enrollment\<close>

definition required_ssh_values :: "(bytes \<times> bytes) list" where
  "required_ssh_values =
     [(''permitrootlogin'', ''no''), (''passwordauthentication'', ''no''), (''kbdinteractiveauthentication'', ''no''),
      (''pubkeyauthentication'', ''yes''), (''authenticationmethods'', ''publickey''), (''permitemptypasswords'', ''no''),
      (''logingracetime'', ''20''), (''maxauthtries'', ''3''), (''maxsessions'', ''3''), (''maxstartups'', ''10:30:60''),
      (''x11forwarding'', ''no''), (''allowagentforwarding'', ''no''), (''allowtcpforwarding'', ''no''),
      (''allowstreamlocalforwarding'', ''no''), (''permittunnel'', ''no''), (''gatewayports'', ''no''),
      (''permituserenvironment'', ''no''), (''compression'', ''no''), (''loglevel'', ''verbose'')]"

text \<open>
  The map of required values is walked in an arbitrary order, so which of several wrong values is
  reported is not determined; here it is the first of the list.
\<close>

definition validate_enrollment :: "target_observed \<Rightarrow> cloud_init_desired \<Rightarrow> unit result" where
  "validate_enrollment v d =
     (let ci = tob_CloudInit v; h = hst_PrimaryHardening (tob_Host v) in
      checks
       [reject_if (\<not> cio_Present ci \<or> cio_Status ci \<noteq> ''ok'' \<or> trim_space (cio_Version ci) = [] \<or> trim_space (cio_FinishedAt ci) = [])
          (Err ''cloud-init successful atomic status is required''),
        reject_if (trim_space (cid_DefinitionVersion d) = [] \<or> cio_Version ci \<noteq> cid_DefinitionVersion d)
          (Errf ''cloud-init observed version %q does not match desired version %q'' [cio_Version ci, cid_DefinitionVersion d]),
        reject_if (coo_Present (tob_Core v) \<or> tob_Modules v \<noteq> [])
          (Err ''enrollment requires Cloud-init only; Core and Modules must be absent''),
        reject_if (\<not> hob_RootPasswordLocked h) (Err ''root password must be locked''),
        reject_if (\<not> hob_SSHConfigValid h) (Err ''effective ssh configuration is invalid''),
        for_each (\<lambda>(k, want). reject_if (to_lower (fact (hob_SSHValues h) k) \<noteq> want)
          (Errf ''effective ssh %s must be %s'' [k, want])) required_ssh_values,
        reject_if (\<not> hob_UFWActive h \<or> hob_UFWDefaultIncoming h \<noteq> ''deny'' \<or> hob_UFWDefaultOutgoing h \<noteq> ''allow'' \<or>
            hob_UFWDefaultRouted h \<noteq> ''deny'' \<or> \<not> hob_UFWLoggingLow h \<or> hob_UFWUnexpectedPublicAllow h \<or>
            sort (hob_UFWAllowedPublicTCPPorts h) \<noteq> [22, 80, 443])
          (Err ''effective UFW policy does not match Primary Host Hardening''),
        reject_if (\<not> hob_Fail2banSSHActive h \<or> \<not> hob_Fail2banRecidiveActive h)
          (Err ''fail2ban ssh and recidive jails must be active''),
        reject_if (\<not> hob_UnattendedUpgradesEnabled h \<or> \<not> hob_AutomaticRebootDisabled h)
          (Err ''automatic security update policy is not effective'')])"

definition enroll :: "('w, 'x) gateway_env_scheme \<Rightarrow> bytes \<Rightarrow> ('w gateway_state, target_observed) action" where
  "enroll env i =
     bind_s (target_s env i) (\<lambda>t.
     bind_s (strict_session env i) (\<lambda>s.
     bind_s (wrap_s ''inspect enrollment target: %w'' [] (world_s (gwe_Inspect env s))) (\<lambda>v.
     also_s (lift_s (validate_enrollment v (dst_CloudInit (tgt_Desired t))))
    (let v' = normalize_observed (v\<lparr>tob_ObservedAt := gwe_Now env\<rparr>) in
     also_s (wrap_s ''record enrolled target inspection: %w'' [] (record_inspection env i v')) (ret_s v')))))"

subsection \<open>Executions\<close>

definition with_transport ::
  "('w, 'x) gateway_env_scheme \<Rightarrow> bytes \<Rightarrow> 't option \<Rightarrow> bytes \<Rightarrow> ('t \<Rightarrow> ssh_session \<Rightarrow> ('w, 'a) action) \<Rightarrow>
   ('w gateway_state, 'a) action" where
  "with_transport env i transport missing f =
     bind_s (strict_session env i) (\<lambda>s.
     case transport of None \<Rightarrow> lift_s (Inl (Err missing)) | Some t \<Rightarrow> world_s (f t s))"

definition no_bundles :: bytes where
  "no_bundles = ''target transport does not support execution bundles''"

definition gateway_upload ::
  "('w, 'x) gateway_env_scheme \<Rightarrow> (exec_bundle \<Rightarrow> manifest result) \<Rightarrow> bytes \<Rightarrow> exec_bundle \<Rightarrow> ('w gateway_state, unit) action" where
  "gateway_upload env verified i b =
     also_s (lift_s (reject_if (i = []) (Err ''target id is required'')))
    (bind_s (lift_s (verified b)) (\<lambda>m.
     also_s (lift_s (reject_if (man_TargetID m \<noteq> i) (Err ''execution bundle belongs to another target'')))
    (with_transport env i (gwe_Execution env) no_bundles (\<lambda>t s. ext_Upload t s b))))"

definition check_start :: "bytes \<Rightarrow> start_request \<Rightarrow> unit result" where
  "check_start i q =
     checks
       [reject_if (i = [] \<or> srq_TargetID q \<noteq> i \<or> \<not> safe_execution_id (srq_RunID q) \<or> \<not> safe_execution_id (srq_BundleID q))
          (Err ''invalid execution start identity''),
        reject_if (\<not> hex64 (srq_BundleSHA256 q) \<or> \<not> hex64 (run_SHA256 (srq_Runner q)) \<or>
            \<not> safe_bundle_path (run_Path (srq_Runner q)) \<or> run_Version (srq_Runner q) = [])
          (Err ''invalid execution start integrity identity'')]"

definition gateway_start :: "('w, 'x) gateway_env_scheme \<Rightarrow> bytes \<Rightarrow> start_request \<Rightarrow> ('w gateway_state, unit) action" where
  "gateway_start env i q =
     also_s (lift_s (check_start i q))
       (with_transport env i (gwe_Execution env) no_bundles (\<lambda>t s. ext_Start t s q))"

definition gateway_observe :: "('w, 'x) gateway_env_scheme \<Rightarrow> bytes \<Rightarrow> bytes \<Rightarrow> ('w gateway_state, observation) action" where
  "gateway_observe env i run =
     also_s (lift_s (reject_if (i = [] \<or> \<not> safe_execution_id run) (Err ''invalid execution observation identity'')))
       (with_transport env i (gwe_Execution env) no_bundles (\<lambda>t s. ext_Observe t s run))"

definition gateway_send_secrets ::
  "('w, 'x) gateway_env_scheme \<Rightarrow> bytes \<Rightarrow> bytes \<Rightarrow> secret_value list \<Rightarrow> ('w gateway_state, unit) action" where
  "gateway_send_secrets env i run vs =
     also_s (lift_s (reject_if (i = [] \<or> \<not> safe_execution_id run) (Err ''invalid execution secret target'')))
       (with_transport env i (gwe_Execution env) no_bundles (\<lambda>t s. ext_SendSecrets t s run vs))"

subsection \<open>Running modules\<close>

definition control_module ::
  "('w, 'x) gateway_env_scheme \<Rightarrow> bytes \<Rightarrow> bytes \<Rightarrow> runtime_action \<Rightarrow> ('w gateway_state, runtime_result) action" where
  "control_module env i m a =
     also_s (lift_s (checks
       [reject_if (i = [] \<or> m = []) (Err ''target id and module instance id are required''),
        reject_if (a \<noteq> Runtime_Start \<and> a \<noteq> Runtime_Stop \<and> a \<noteq> Runtime_Restart) (Err ''unsupported runtime action'')]))
       (with_transport env i (gwe_Runtime env) ''target transport does not support direct runtime operations''
         (\<lambda>t s. rtt_Control t s m a))"

definition healthcheck_module ::
  "('w, 'x) gateway_env_scheme \<Rightarrow> bytes \<Rightarrow> bytes \<Rightarrow> ('w gateway_state, health_result) action" where
  "healthcheck_module env i m =
     also_s (lift_s (reject_if (i = [] \<or> m = []) (Err ''target id and module instance id are required'')))
       (with_transport env i (gwe_Runtime env) ''target transport does not support module healthchecks''
         (\<lambda>t s. rtt_Healthcheck t s m))"

subsection \<open>Storage copies\<close>

definition prepare_storage_copy ::
  "('w, 'x) gateway_env_scheme \<Rightarrow> bytes \<Rightarrow> bytes list \<Rightarrow> ('w gateway_state, bytes \<times> bytes \<times> int) action" where
  "prepare_storage_copy env i declared =
     also_s (lift_s (reject_if (i = []) (Err ''target id is required'')))
    (bind_s (lift_s (validate_storage_paths declared)) (\<lambda>paths.
     with_transport env i (gwe_Storage env) ''target transport does not support storage copy'' (\<lambda>t s. stt_Prepare t s paths)))"

definition transfer_storage_copy ::
  "('w, 'x) gateway_env_scheme \<Rightarrow> bytes \<Rightarrow> bytes \<Rightarrow> ('w gateway_state, bytes) action" where
  "transfer_storage_copy env i token =
     also_s (lift_s (reject_if (i = [] \<or> \<not> safe_storage_token token) (Err ''invalid target storage-copy transfer'')))
       (with_transport env i (gwe_Storage env) ''target transport does not support storage-copy transfer''
         (\<lambda>t s. stt_Transfer t s token))"

definition cleanup_storage_copy ::
  "('w, 'x) gateway_env_scheme \<Rightarrow> bytes \<Rightarrow> bytes \<Rightarrow> ('w gateway_state, unit) action" where
  "cleanup_storage_copy env i token =
     also_s (lift_s (reject_if (i = [] \<or> \<not> safe_storage_token token) (Err ''invalid target storage-copy identity'')))
       (with_transport env i (gwe_Storage env) ''target transport does not support storage-copy cleanup''
         (\<lambda>t s. stt_Cleanup t s token))"

end
