(* ===== verification/Backup_Storage.thy ===== *)
theory Backup_Storage
  imports Backup_Manager Gateway_Session
begin

section \<open>Copies of the storage of a target\<close>

text \<open>
  \<open>internal/backuprestore/storage_copy.go\<close>. The target prepares an archive of declared paths under a
  token, its bytes go to a fresh work directory and are checked there. Size and digest of a copy are
  those the target announced; a copy with an archive has its verified bytes in the work directory, one
  without has no work directory. A call that fails returns the copy as far as it is known, so the
  operator can clean up the token. \<open>bke_Fail\<close> is the error of a call on the files of the manager; a
  write that fails makes the transfer fail.
\<close>

record storage_copy =
  spc_TargetID :: bytes
  spc_Token :: bytes
  spc_SHA256 :: bytes
  spc_Size :: int
  spc_DeclaredPath :: "bytes list"
  spc_Archive :: "bytes option"

record 's target_storage =
  tst_Prepare :: "bytes \<Rightarrow> bytes list \<Rightarrow> ('s, bytes \<times> bytes \<times> int) action"
  tst_Transfer :: "bytes \<Rightarrow> bytes \<Rightarrow> ('s, bytes) action"
  tst_Cleanup :: "bytes \<Rightarrow> bytes \<Rightarrow> ('s, unit) action"

definition no_copy :: storage_copy where
  "no_copy = \<lparr>spc_TargetID = [], spc_Token = [], spc_SHA256 = [], spc_Size = 0, spc_DeclaredPath = [], spc_Archive = None\<rparr>"

definition new_work_dir :: "backup_env \<Rightarrow> bytes \<Rightarrow> unit result" where
  "new_work_dir env kind =
     also_r (wrap_error ''create volatile backup work directory: %w'' [] (try_b env ''mkdtemp'' kind))
       (wrap_error ''secure volatile backup work directory: %w'' [] (try_b env ''chmod'' kind))"

text \<open>What is checked of the bytes that arrived.\<close>

definition checked_archive :: "backup_env \<Rightarrow> storage_copy \<Rightarrow> bytes result \<Rightarrow> bytes result" where
  "checked_archive env c transferred =
     (let left = (\<lambda>f. f @ '' %s; target temporary material remains: %w''); token = [spc_Token c] in
      bind_r (wrap_error (left ''transfer storage copy'') token transferred) (\<lambda>body.
      also_r (wrap_error (left ''sync local storage copy'') token (try_b env ''sync'' ''storage.tar.zst''))
     (also_r (wrap_error (left ''close local storage copy'') token (try_b env ''close'' ''storage.tar.zst''))
     (also_r (reject_if (int (length body) \<noteq> spc_Size c \<or> sha256_hex body \<noteq> spc_SHA256 c)
        (Errf ''verify storage copy %s failed; target temporary material remains'' token))
     (also_r (wrap_error (left ''inspect local storage copy'') token
        (bind_r (inspect_tar_zst (bke_Unpack env) body) (\<lambda>_. Inr ())))
       (Inr body))))))"

definition transfer_copy ::
  "backup_env \<Rightarrow> 's target_storage \<Rightarrow> storage_copy \<Rightarrow> 's \<Rightarrow> (storage_copy \<times> unit result) \<times> 's" where
  "transfer_copy env target c st =
     (case tst_Transfer target (spc_TargetID c) (spc_Token c) st of
        (r, st') \<Rightarrow>
          (case checked_archive env c (bind_r r (\<lambda>body. also_r (try_b env ''write'' ''storage.tar.zst'') (Inr body))) of
             Inl e \<Rightarrow> ((c, Inl e), st')
           | Inr body \<Rightarrow> ((c\<lparr>spc_Archive := Some body\<rparr>, Inr ()), st')))"

definition copy_offline_storage ::
  "backup_env \<Rightarrow> 's target_storage option \<Rightarrow> bytes \<Rightarrow> bytes list \<Rightarrow> 's \<Rightarrow> (storage_copy \<times> unit result) \<times> 's" where
  "copy_offline_storage env target i paths st =
     (case target of
        None \<Rightarrow> ((no_copy, Inl (Err ''target storage source, target id, and declared paths are required'')), st)
      | Some t \<Rightarrow>
          if i = [] \<or> paths = []
          then ((no_copy, Inl (Err ''target storage source, target id, and declared paths are required'')), st)
          else
            (case tst_Prepare t i paths st of
               (Inl e, st') \<Rightarrow> ((no_copy, Inl e), st')
             | (Inr (token, sha, n), st') \<Rightarrow>
                 (let c = \<lparr>spc_TargetID = i, spc_Token = token, spc_SHA256 = sha, spc_Size = n, spc_DeclaredPath = paths,
                           spc_Archive = None\<rparr> in
                  case wrap_error ''prepare local storage copy %s; target temporary material remains: %w'' [token]
                         (new_work_dir env ''storage-copy'') of
                    Inl e \<Rightarrow> ((c, Inl e), st')
                  | Inr u \<Rightarrow>
                      (case wrap_error ''create local storage copy %s; target temporary material remains: %w'' [token]
                              (try_b env ''create'' ''storage.tar.zst'') of
                         Inl e \<Rightarrow> ((c, Inl e), st')
                       | Inr u \<Rightarrow> transfer_copy env t c st'))))"

text \<open>The work directory of a copy is given up; the error of the removal is returned.\<close>

definition close_copy :: "backup_env \<Rightarrow> storage_copy \<Rightarrow> unit result \<times> storage_copy" where
  "close_copy env c =
     (if spc_Archive c = None then (Inr (), c)
      else (try_b env ''removeall'' ''storage-copy'', c\<lparr>spc_Archive := None\<rparr>))"

definition finalize_storage_copy ::
  "'s target_storage option \<Rightarrow> storage_copy option \<Rightarrow> 's \<Rightarrow> (storage_copy option \<times> unit result) \<times> 's" where
  "finalize_storage_copy target c st =
     (case (target, c) of
        (Some t, Some c) \<Rightarrow>
          if spc_TargetID c = [] \<or> spc_Token c = [] \<or> spc_Archive c = None
          then ((Some c, Inl (Err ''verified storage copy identity is required'')), st)
          else
            (case tst_Cleanup t (spc_TargetID c) (spc_Token c) st of
               (Inl e, st') \<Rightarrow> ((Some c, Inl (Wrapf ''cleanup verified target storage copy %s: %w'' [spc_Token c] e)), st')
             | (Inr u, st') \<Rightarrow> ((Some (c\<lparr>spc_Token := []\<rparr>), Inr ()), st'))
      | _ \<Rightarrow> ((c, Inl (Err ''verified storage copy identity is required'')), st))"

definition cleanup_target_storage_copy ::
  "'s target_storage option \<Rightarrow> bytes \<Rightarrow> bytes \<Rightarrow> ('s, unit) action" where
  "cleanup_target_storage_copy target i token st =
     (case target of
        None \<Rightarrow> (Inl (Err ''target storage cleanup identity is required''), st)
      | Some t \<Rightarrow>
          if i = [] \<or> token = [] then (Inl (Err ''target storage cleanup identity is required''), st)
          else tst_Cleanup t i token st)"

text \<open>The gateway is the storage of the targets.\<close>

definition gateway_storage :: "'w gateway_env \<Rightarrow> 'w gateway_state target_storage" where
  "gateway_storage env =
     \<lparr>tst_Prepare = prepare_storage_copy env, tst_Transfer = transfer_storage_copy env, tst_Cleanup = cleanup_storage_copy env\<rparr>"

subsection \<open>The material of the target outlives the copy\<close>

text \<open>
  A copy that is returned without an error holds an archive of the announced size and digest that
  can be inspected; after any failure no plaintext is kept. Either way the target was asked at most to
  prepare the copy and then to transfer it under the token that the caller is given back: nothing on
  the target is removed before the copy is finalized.
\<close>

theorem storage_copy_verified:
  "case copy_offline_storage env (Some t) i paths st of
     ((c, Inr u), st') \<Rightarrow>
       \<exists>body st1. spc_Archive c = Some body \<and> int (length body) = spc_Size c \<and> sha256_hex body = spc_SHA256 c \<and>
         inspect_tar_zst (bke_Unpack env) body \<noteq> Inl e \<and>
         tst_Prepare t i paths st = (Inr (spc_Token c, spc_SHA256 c, spc_Size c), st1) \<and>
         tst_Transfer t i (spc_Token c) st1 = (Inr body, st')
   | ((c, Inl f), st') \<Rightarrow>
       spc_Archive c = None \<and>
       (st' = st \<or> st' = snd (tst_Prepare t i paths st) \<or>
        (\<exists>st1. tst_Prepare t i paths st = (Inr (spc_Token c, spc_SHA256 c, spc_Size c), st1) \<and>
           st' = snd (tst_Transfer t i (spc_Token c) st1)))"
  by (cases "tst_Prepare t i paths st"; cases "fst (tst_Prepare t i paths st)")
    (auto simp: copy_offline_storage_def no_copy_def Let_def transfer_copy_def checked_archive_def result_simps
      split: prod.splits sum.splits if_splits)

end
