(* ===== verification/Gateway_Ssh.thy ===== *)
theory Gateway_Ssh
  imports Gateway_Session
begin

section \<open>The SSH transport\<close>

text \<open>
  \<open>internal/targetgateway/ssh_transport.go\<close>, \<open>execution_ssh.go\<close>, \<open>runtime_ssh.go\<close> and the transport part of
  \<open>execution_input.go\<close> and \<open>storage_backup.go\<close>: how a remote command is turned into a process \<open>ssh\<close> with its
  key file and its file of known hosts, and the commands themselves. The state is the files of the
  machine that the transport writes, and the world the processes act on. The runner of processes,
  the faults of the operating system, the names that \<open>os.CreateTemp\<close> tries, \<open>net.ParseIP\<close>, the ed25519 public
  key and the JSON decoders are parameters. A failing write leaves an empty file.
\<close>

subsection \<open>Processes\<close>

record process =
  prc_Stdout :: bytes
  prc_Stderr :: bytes
  prc_Error :: "error option"

record 'w ssh_host =
  sho_Files :: "bytes \<Rightarrow> bytes option"
  sho_World :: 'w

record 'w ssh_env =
  sse_RuntimeDir :: bytes
  sse_Os :: "string \<Rightarrow> bytes \<Rightarrow> error option"
  sse_TempNames :: "bytes \<Rightarrow> bytes list"
  sse_ParseIP :: "bytes \<Rightarrow> bytes option"
  sse_Pub :: "bytes \<Rightarrow> bytes"
  sse_Check :: "bytes result"
  sse_Run :: "(bytes \<Rightarrow> bytes option) \<Rightarrow> bytes \<Rightarrow> bytes list \<Rightarrow> bytes \<Rightarrow> 'w \<Rightarrow> process \<times> 'w"
  sse_TakesInput :: bool
  sse_Streams :: bool

definition os_step :: "('w, 'x) ssh_env_scheme \<Rightarrow> string \<Rightarrow> string \<Rightarrow> bytes \<Rightarrow> ('w ssh_host, unit) action" where
  "os_step env fmt step p =
     lift_s (case sse_Os env step p of None \<Rightarrow> Inr () | Some e \<Rightarrow> Inl (Wrapf fmt [] e))"

definition put_file :: "bytes \<Rightarrow> bytes option \<Rightarrow> 'w ssh_host \<Rightarrow> 'w ssh_host" where
  "put_file p c h = h\<lparr>sho_Files := (sho_Files h)(p := c)\<rparr>"

definition write_s :: "bytes \<Rightarrow> bytes option \<Rightarrow> ('w ssh_host, unit) action" where
  "write_s p c h = (Inr (), put_file p c h)"

text \<open>\<open>os.Remove\<close> whose error is ignored.\<close>

definition remove_quietly :: "('w, 'x) ssh_env_scheme \<Rightarrow> bytes \<Rightarrow> 'w ssh_host \<Rightarrow> 'w ssh_host" where
  "remove_quietly env p h = (case sse_Os env ''remove'' p of None \<Rightarrow> put_file p None h | Some e \<Rightarrow> h)"

definition temp_path :: "bytes \<Rightarrow> bytes \<Rightarrow> bytes" where
  "temp_path dir name = (if has_suffix dir ''/'' then dir @ name else dir @ ''/'' @ name)"

definition create_temp :: "('w, 'x) ssh_env_scheme \<Rightarrow> bytes \<Rightarrow> bytes \<Rightarrow> ('w ssh_host, bytes) action" where
  "create_temp env dir pattern h =
     (case sse_Os env ''create'' dir of
        Some e \<Rightarrow> (Inl e, h)
      | None \<Rightarrow>
          (case find (\<lambda>p. sho_Files h p = None) (map (\<lambda>x. temp_path dir (pattern @ x)) (sse_TempNames env pattern)) of
             None \<Rightarrow> (Inl (Err ''file exists''), h)
           | Some p \<Rightarrow> (Inr p, put_file p (Some []) h)))"

definition write_exclusive_temp :: "('w, 'x) ssh_env_scheme \<Rightarrow> bytes \<Rightarrow> bytes \<Rightarrow> bytes \<Rightarrow> ('w ssh_host, bytes) action" where
  "write_exclusive_temp env dir pattern content =
     bind_s (wrap_s ''create ssh runtime file: %w'' [] (create_temp env dir pattern)) (\<lambda>name.
     on_error_s (remove_quietly env name)
       (also_s (os_step env ''secure ssh runtime file: %w'' ''chmod'' name)
       (also_s (os_step env ''write ssh runtime file: %w'' ''write'' name)
       (also_s (write_s name (Some content))
       (also_s (os_step env ''sync ssh runtime file: %w'' ''sync'' name)
       (also_s (os_step env ''close ssh runtime file: %w'' ''close'' name)
       (ret_s name)))))))"

record invocation =
  inv_Args :: "bytes list"
  inv_Identity :: bytes
  inv_KnownHosts :: bytes

definition ssh_args :: "parsed_endpoint \<Rightarrow> bytes \<Rightarrow> bytes \<Rightarrow> bytes \<Rightarrow> bytes \<Rightarrow> bytes list" where
  "ssh_args parsed user identity known command =
     [''-F'', ''none'', ''-a'', ''-x'', ''-T'',
      ''-o'', ''BatchMode=yes'',
      ''-o'', ''StrictHostKeyChecking=yes'',
      ''-o'', ''UserKnownHostsFile='' @ known,
      ''-o'', ''GlobalKnownHostsFile=/dev/null'',
      ''-o'', ''UpdateHostKeys=no'',
      ''-o'', ''CheckHostIP=no'',
      ''-o'', ''VerifyHostKeyDNS=no'',
      ''-o'', ''IdentitiesOnly=yes'',
      ''-o'', ''IdentityAgent=none'',
      ''-o'', ''PasswordAuthentication=no'',
      ''-o'', ''KbdInteractiveAuthentication=no'',
      ''-o'', ''PubkeyAuthentication=yes'',
      ''-o'', ''ClearAllForwardings=yes'',
      ''-o'', ''PermitLocalCommand=no'',
      ''-o'', ''ConnectTimeout=8'',
      ''-o'', ''ConnectionAttempts=1'',
      ''-i'', identity,
      ''-p'', pep_Port parsed,
      user @ ''@'' @ pep_Host parsed,
      command]"

definition known_hosts_line :: "parsed_endpoint \<Rightarrow> bytes \<Rightarrow> bytes" where
  "known_hosts_line parsed key = known_hosts_name parsed @ '' '' @ trim_space key @ [CHR 0x0A]"

definition prepare_ssh_invocation ::
  "('w, 'x) ssh_env_scheme \<Rightarrow> ssh_session \<Rightarrow> bytes \<Rightarrow> ('w ssh_host, invocation) action" where
  "prepare_ssh_invocation env s command =
     (let dir = sse_RuntimeDir env; user = epn_SSHUser (ses_Endpoint s) in
      bind_s (lift_s (parse_endpoint (sse_ParseIP env) (epn_Address (ses_Endpoint s)))) (\<lambda>parsed.
      also_s (lift_s (checks
        [reject_if (\<not> safe_ssh_user user) (Err ''invalid ssh user''),
         reject_if (dir = []) (Err ''ssh runtime directory is required'')]))
     (also_s (os_step env ''create ssh runtime directory: %w'' ''mkdir'' dir)
     (also_s (os_step env ''secure ssh runtime directory: %w'' ''chmod'' dir)
     (bind_s (lift_s (marshal_openssh_private_key (sse_Pub env) (sse_Check env)
        (''vpsmith:'' @ user @ ''@'' @ pep_Host parsed) (ses_IdentitySeed s))) (\<lambda>key.
      bind_s (write_exclusive_temp env dir ''identity-'' key) (\<lambda>identity.
      bind_s (on_error_s (remove_quietly env identity)
        (write_exclusive_temp env dir ''known-hosts-'' (known_hosts_line parsed (ses_HostKey s)))) (\<lambda>known.
      ret_s \<lparr>inv_Args = ssh_args parsed user identity known command, inv_Identity = identity, inv_KnownHosts = known\<rparr>))))))))"

definition clean_up :: "('w, 'x) ssh_env_scheme \<Rightarrow> invocation \<Rightarrow> 'w ssh_host \<Rightarrow> 'w ssh_host" where
  "clean_up env call h = remove_quietly env (inv_KnownHosts call) (remove_quietly env (inv_Identity call) h)"

definition run_process ::
  "('w, 'x) ssh_env_scheme \<Rightarrow> bytes \<Rightarrow> bytes list \<Rightarrow> bytes \<Rightarrow> ('w ssh_host, process) action" where
  "run_process env name args input h =
     (case sse_Run env (sho_Files h) name args input (sho_World h) of (p, w') \<Rightarrow> (Inr p, h\<lparr>sho_World := w'\<rparr>))"

definition with_ssh ::
  "('w, 'x) ssh_env_scheme \<Rightarrow> ssh_session \<Rightarrow> bytes \<Rightarrow> bytes \<Rightarrow> bool \<Rightarrow> error \<Rightarrow> ('w ssh_host, process) action" where
  "with_ssh env s command input supported missing =
     bind_s (prepare_ssh_invocation env s command) (\<lambda>call.
     defer_s (clean_up env call)
       (if supported then run_process env ''ssh'' (inv_Args call) input else lift_s (Inl missing)))"

definition run_remote_streams ::
  "('w, 'x) ssh_env_scheme \<Rightarrow> ssh_session \<Rightarrow> bytes \<Rightarrow> ('w ssh_host, bytes \<times> bytes) action" where
  "run_remote_streams env s command =
     bind_s (with_ssh env s command [] True (Err [])) (\<lambda>p.
     if prc_Error p \<noteq> None then lift_s (Inl (Err ''strict ssh read operation failed''))
     else ret_s (prc_Stdout p, prc_Stderr p))"

definition run_remote :: "('w, 'x) ssh_env_scheme \<Rightarrow> ssh_session \<Rightarrow> bytes \<Rightarrow> ('w ssh_host, bytes) action" where
  "run_remote env s command = bind_s (run_remote_streams env s command) (\<lambda>(stdout, stderr). ret_s stdout)"

text \<open>
  The two variants that return what was printed with the error as well: \<open>with_stderr\<close> gives the result
  of the caller's \<open>fmt.Errorf\<close> with the bounded error output.
\<close>

definition with_stderr :: "string \<Rightarrow> string \<Rightarrow> ('w ssh_host, process) action \<Rightarrow> ('w ssh_host, bytes) action" where
  "with_stderr fmt failed m h =
     (case m h of
        (Inl e, h') \<Rightarrow> (Inl (Wrapf fmt [[]] e), h')
      | (Inr p, h') \<Rightarrow>
          (if prc_Error p \<noteq> None then Inl (Wrapf fmt [bounded_remote_error (prc_Stderr p)] (Err failed)) else Inr (prc_Stdout p), h'))"

definition run_remote_input ::
  "('w, 'x) ssh_env_scheme \<Rightarrow> ssh_session \<Rightarrow> string \<Rightarrow> bytes \<Rightarrow> bytes \<Rightarrow> ('w ssh_host, bytes) action" where
  "run_remote_input env s fmt command input =
     with_stderr fmt ''strict ssh execution transport failed''
       (with_ssh env s command input (sse_TakesInput env) (Err ''ssh process runner does not support stdin''))"

definition run_remote_output ::
  "('w, 'x) ssh_env_scheme \<Rightarrow> ssh_session \<Rightarrow> string \<Rightarrow> bytes \<Rightarrow> ('w ssh_host, bytes) action" where
  "run_remote_output env s fmt command =
     with_stderr fmt ''strict ssh streamed operation failed''
       (with_ssh env s command [] (sse_Streams env) (Err ''ssh process runner does not support streamed stdout''))"

definition read_optional :: "('w, 'x) ssh_env_scheme \<Rightarrow> ssh_session \<Rightarrow> bytes \<Rightarrow> ('w ssh_host, bytes) action" where
  "read_optional env s p =
     run_remote env s (''if [ -r '' @ shell_quote p @ '' ]; then cat -- '' @ shell_quote p @ ''; fi'')"

subsection \<open>Host keys and logs\<close>

definition ssh_observe_host_key :: "('w, 'x) ssh_env_scheme \<Rightarrow> endpoint \<Rightarrow> ('w ssh_host, host_key) action" where
  "ssh_observe_host_key env e =
     bind_s (lift_s (parse_endpoint (sse_ParseIP env) (epn_Address e))) (\<lambda>parsed.
     bind_s (run_process env ''ssh-keyscan''
       [''-T'', ''5'', ''-p'', pep_Port parsed, ''-t'', ''ed25519,ecdsa,rsa'', pep_Host parsed] []) (\<lambda>p.
     if prc_Error p \<noteq> None \<and> trim_space (prc_Stdout p) = [] then lift_s (Inl (Err ''ssh-keyscan failed''))
     else lift_s (select_host_key (prc_Stdout p))))"

definition log_command :: "log_request \<Rightarrow> bytes result" where
  "log_command q =
     (case lgr_Kind q of
        Journal_Unit \<Rightarrow>
          (let scope = (if lgr_Scope q = [] then ''user'' else lgr_Scope q) in
           if scope \<noteq> ''user'' \<and> scope \<noteq> ''system'' then Inl (Err ''journal scope must be user or system'')
           else Inr (''journalctl'' @ (if scope = ''user'' then '' --user'' else []) @ '' --no-pager -n '' @ decimal_int (lgr_Lines q) @
             '' -o short-iso-precise -u '' @ shell_quote (lgr_Name q)))
      | Podman_Container \<Rightarrow>
          Inr (''podman logs --tail '' @ decimal_int (lgr_Lines q) @ '' '' @ shell_quote (lgr_Name q))
      | Other_Log k \<Rightarrow> Inl (Err ''unsupported log kind''))"

definition chunk_size :: nat where "chunk_size = 32 * 1024"

function chunks :: "bytes \<Rightarrow> bytes list" where
  "chunks data = (if data = [] then [] else take chunk_size data # chunks (drop chunk_size data))"
  by pat_completeness auto
termination by (relation "measure length") (auto simp: chunk_size_def)

declare chunks.simps [simp del]

text \<open>The consumer of the chunks is a callback on the world.\<close>

definition ssh_logs ::
  "('w, 'x) ssh_env_scheme \<Rightarrow> (bytes \<times> bytes \<Rightarrow> ('w ssh_host, unit) action) \<Rightarrow> ssh_session \<Rightarrow> log_request \<Rightarrow> ('w ssh_host, unit) action" where
  "ssh_logs env consume s q =
     bind_s (lift_s (log_command q)) (\<lambda>command.
     bind_s (run_remote_streams env s command) (\<lambda>(stdout, stderr).
     each_s consume (map (Pair ''stdout'') (chunks stdout) @ map (Pair ''stderr'') (chunks stderr))))"

end
