(* ===== verification/Gateway_Exec.thy ===== *)
theory Gateway_Exec
  imports Gateway_Ssh
begin

section \<open>Executions, modules and storage over SSH\<close>

text \<open>
  \<open>internal/targetgateway/execution_ssh.go\<close>, \<open>runtime_ssh.go\<close> and the transport part of \<open>storage_backup.go\<close>: the
  scripts that run on the target, with what is spliced into them, and the operations that send them.
  In the texts of \<open>sh\<close> a back quote stands for a backslash and an at sign for a single quote.
\<close>

subsection \<open>Scripts\<close>

definition sh :: "bytes \<Rightarrow> bytes" where
  "sh = map (\<lambda>c. if c = CHR 0x60 then CHR 0x5C else if c = CHR ''@'' then CHR 0x27 else c)"

definition sh_lines :: "bytes list \<Rightarrow> bytes" where
  "sh_lines = join_with [CHR 0x0A]"

definition as_root :: "bytes \<Rightarrow> bytes" where
  "as_root script = ''sudo -n sh -eu -c '' @ shell_quote script"

definition upload_script :: "bytes \<Rightarrow> bytes \<Rightarrow> bytes" where
  \<open>upload_script i sha =
     sh_lines
      [sh ''set -eu'',
       sh ''umask 077'',
       sh ''root=/var/tmp/vpsmith-execution'',
       sh ''if [ -f /var/lib/vpsmith/execution/.active ]; then root=/var/lib/vpsmith/execution; fi'',
       sh ''install -d -m 0700 "$root" "$root/bundles" "$root/proofs" "$root/locks" "$root/claims"'',
       sh ''dest="$root/bundles/'' @ i @ sh ''.tar"'',
       sh ''tmp="$dest.upload.$$"'',
       sh ''cleanup() { if [ -n "${tmp:-}" ]; then rm -f -- "$tmp"; fi; }'',
       sh ''trap cleanup EXIT HUP INT TERM'',
       sh ''cat > "$tmp"'',
       sh ''got=$(sha256sum "$tmp"); got=${got%% *}'',
       sh ''[ "$got" = "'' @ sha @ sh ''" ] || { echo @bundle sha256 mismatch@ >&2; exit 41; }'',
       sh ''if [ -e "$dest" ]; then'',
       sh ''  old=$(sha256sum "$dest"); old=${old%% *}'',
       sh ''  [ "$old" = "$got" ] || { echo @historical bundle collision@ >&2; exit 42; }'',
       sh ''else'',
       sh ''  chmod 0400 "$tmp"'',
       sh ''  mv "$tmp" "$dest"'',
       sh ''  tmp=@@'',
       sh ''  sync -f "$dest"'',
       sh ''fi'']\<close>

definition run_dir :: "start_request \<Rightarrow> bytes" where
  "run_dir q = ''/run/vpsmith-execution/'' @ srq_RunID q"

definition work_root :: bytes where "work_root = ''/var/tmp/vpsmith-execution-work''"

definition work_dir :: "start_request \<Rightarrow> bytes" where
  "work_dir q = work_root @ ''/'' @ srq_RunID q"

definition start_script :: "bytes \<Rightarrow> start_request \<Rightarrow> bytes" where
  \<open>start_script user q =
     sh_lines
      [sh ''set -eu'',
       sh ''umask 077'',
       sh ''root=/var/tmp/vpsmith-execution'',
       sh ''if [ -f /var/lib/vpsmith/execution/.active ]; then root=/var/lib/vpsmith/execution; fi'',
       sh ''bundle="$root/bundles/'' @ srq_BundleID q @ sh ''.tar"'',
       sh ''[ -r "$bundle" ] || { echo @execution bundle missing@ >&2; exit 43; }'',
       sh ''got=$(sha256sum "$bundle"); got=${got%% *}'',
       sh ''[ "$got" = "'' @ srq_BundleSHA256 q @ sh ''" ] || { echo @execution bundle sha256 mismatch@ >&2; exit 44; }'',
       sh ''python=$(command -v python3) || { echo @python3 missing@ >&2; exit 45; }'',
       sh ''"$python" -c @import json,sys,tarfile; tf=tarfile.open(sys.argv[1], "r:"); m=json.load(tf.extractfile("manifest.json")); r=m.get("runner") or {}; ok=(r.get("path")==sys.argv[2] and r.get("sha256")==sys.argv[3] and r.get("version")==sys.argv[4]); sys.exit(0 if ok else 1)@ "$bundle" '' @ shell_quote (run_Path (srq_Runner q)) @ sh '' '' @ shell_quote (run_SHA256 (srq_Runner q)) @ sh '' '' @ shell_quote (run_Version (srq_Runner q)) @ sh '' || { echo @target runner identity does not match manifest@ >&2; exit 48; }'',
       sh ''command -v systemd-run >/dev/null 2>&1 || { echo @systemd-run missing@ >&2; exit 46; }'',
       sh ''command -v tar >/dev/null 2>&1 || { echo @tar missing@ >&2; exit 47; }'',
       sh ''command -v flock >/dev/null 2>&1 || { echo @flock missing@ >&2; exit 48; }'',
       sh ''install -d -m 0700 '' @ shell_quote (run_dir q),
       sh ''install -d -m 0711 '' @ shell_quote work_root @ sh '' '' @ shell_quote (work_dir q),
       sh ''runner='' @ shell_quote (run_dir q @ ''/runner.py''),
       sh ''tar -xOf "$bundle" '' @ shell_quote (run_Path (srq_Runner q)) @ sh '' > "$runner"'',
       sh ''rgot=$(sha256sum "$runner"); rgot=${rgot%% *}'',
       sh ''[ "$rgot" = "'' @ run_SHA256 (srq_Runner q) @ sh ''" ] || { echo @target runner sha256 mismatch@ >&2; exit 48; }'',
       sh ''chmod 0500 "$runner"'',
       sh ''systemd-run --quiet --collect --unit='' @ shell_quote (''vpsmith-exec-'' @ srq_RunID q) @ sh '' --property=Type=exec --property=UMask=0077 --property=StandardOutput=null --property=StandardError=null "$python" "$runner" --bundle "$bundle" --bundle-id '' @ shell_quote (srq_BundleID q) @ sh '' --bundle-sha256 '' @ shell_quote (srq_BundleSHA256 q) @ sh '' --target-id '' @ shell_quote (srq_TargetID q) @ sh '' --run-id '' @ shell_quote (srq_RunID q) @ sh '' --admin-user '' @ shell_quote user @ sh '' --secret-fifo '' @ shell_quote (run_dir q @ ''/secrets.pipe'') @ sh '' --work-dir '' @ shell_quote (work_dir q)]\<close>

definition observe_script :: "bytes \<Rightarrow> bytes" where
  \<open>observe_script run =
     sh_lines
      [sh ''set -eu'',
       sh ''root=/var/tmp/vpsmith-execution'',
       sh ''if [ -f /var/lib/vpsmith/execution/.active ]; then root=/var/lib/vpsmith/execution; fi'',
       sh ''proof="$root/proofs/'' @ run @ sh ''.json"'',
       sh ''if [ -r "$proof" ]; then printf @PROOF`t@; cat "$proof"; else printf @PROOF`t`n@; fi'',
       sh ''lock=0'',
       sh ''if [ -e "$root/locks/structural.lock" ]; then'',
       sh ''  if flock -n "$root/locks/structural.lock" -c true >/dev/null 2>&1; then lock=0; else lock=1; fi'',
       sh ''fi'',
       sh ''printf @LOCK`t%s`n@ "$lock"'',
       sh ''if systemctl is-active --quiet '' @ shell_quote (''vpsmith-exec-'' @ run @ ''.service'') @ sh ''; then printf @UNIT`t1`n@; else printf @UNIT`t0`n@; fi'']\<close>

definition secrets_script :: "bytes \<Rightarrow> bytes" where
  \<open>secrets_script run =
     sh_lines
      [sh ''set -eu'',
       sh ''fifo='' @ shell_quote (''/run/vpsmith-execution/'' @ run @ ''/secrets.pipe''),
       sh ''[ -p "$fifo" ] || { echo @secret fifo missing@ >&2; exit 49; }'',
       sh ''cat > "$fifo"'']\<close>

subsection \<open>Executions\<close>

definition upload_execution ::
  "('w, 'x) ssh_env_scheme \<Rightarrow> ssh_session \<Rightarrow> exec_bundle \<Rightarrow> ('w ssh_host, unit) action" where
  "upload_execution env s b =
     also_s (lift_s (reject_if (\<not> safe_execution_id (bun_ID b) \<or> \<not> hex64 (bun_SHA256 b))
       (Err ''invalid execution bundle identity'')))
    (bind_s (run_remote_input env s ''upload immutable execution bundle: %w%s''
       (as_root (upload_script (bun_ID b) (bun_SHA256 b))) (bun_Bytes b)) (\<lambda>_. ret_s ()))"

definition start_execution ::
  "('w, 'x) ssh_env_scheme \<Rightarrow> ssh_session \<Rightarrow> start_request \<Rightarrow> ('w ssh_host, unit) action" where
  "start_execution env s q =
     also_s (lift_s (checks
       [reject_if (\<not> safe_execution_id (srq_RunID q) \<or> \<not> safe_execution_id (srq_BundleID q) \<or>
          \<not> hex64 (srq_BundleSHA256 q) \<or> \<not> hex64 (run_SHA256 (srq_Runner q))) (Err ''invalid execution start request''),
        reject_if (\<not> safe_bundle_path (run_Path (srq_Runner q))) (Err ''invalid target runner path'')]))
    (bind_s (run_remote_input env s ''start detached execution runner: %w%s''
       (as_root (start_script (epn_SSHUser (ses_Endpoint s)) q)) []) (\<lambda>_. ret_s ()))"

definition observe_execution ::
  "('w, 'x) ssh_env_scheme \<Rightarrow> (bytes \<Rightarrow> exec_proof result) \<Rightarrow> ssh_session \<Rightarrow> bytes \<Rightarrow> ('w ssh_host, observation) action" where
  "observe_execution env decode s run =
     also_s (lift_s (reject_if (\<not> safe_execution_id run) (Err ''invalid execution run id'')))
    (bind_s (run_remote_input env s ''observe execution runner: %w%s'' (as_root (observe_script run)) []) (\<lambda>stdout.
     lift_s (parse_execution_observation decode stdout)))"

definition send_execution_secrets ::
  "('w, 'x) ssh_env_scheme \<Rightarrow> ssh_session \<Rightarrow> bytes \<Rightarrow> secret_value list \<Rightarrow> ('w ssh_host, unit) action" where
  "send_execution_secrets env s run vs =
     also_s (lift_s (reject_if (\<not> safe_execution_id run) (Err ''invalid execution run id'')))
    (bind_s (lift_s (encode_secret_stream vs)) (\<lambda>payload.
     bind_s (run_remote_input env s ''deliver execution secret stream: %w%s'' (as_root (secrets_script run)) payload) (\<lambda>_.
     ret_s ())))"

subsection \<open>Storage copies\<close>

definition storage_copy_root :: bytes where "storage_copy_root = ''/var/lib/vpsmith/tmp/storage-copy''"

definition storage_command :: "bytes list \<Rightarrow> bytes" where
  \<open>storage_command declared =
     sh ''set -eu; '' @
     sh ''if ! command -v tar >/dev/null 2>&1 || ! command -v zstd >/dev/null 2>&1; then printf @prerequisite`n@; exit 0; fi; '' @
     sh ''root='' @ shell_quote storage_copy_root @ sh ''; '' @
     sh ''sudo -n install -d -m 0700 -o root -g root "$root"; '' @
     sh ''token=copy-$(date +%s)-$$; file="$root/$token.tar.zst"; '' @
     sh ''set +e; sudo -n tar --format=pax --numeric-owner --acls --xattrs --xattrs-include=@*@ --zstd -C / -cf "$file" --'' @
     concat (map (\<lambda>item. '' '' @ shell_quote (trim_prefix item ''/'')) declared) @ sh ''; rc=$?; set -e; '' @
     sh ''if [ "$rc" -ne 0 ]; then sudo -n rm -f -- "$file"; printf @error`t%s`n@ "$rc"; exit 0; fi; '' @
     sh ''sha=$(sudo -n sha256sum -- "$file" | awk '' @ shell_quote ''{print $1}'' @
     sh ''); size=$(sudo -n stat -c %s -- "$file"); '' @
     sh ''printf @ok`t%s`t%s`t%s`n@ "$token" "$sha" "$size"''\<close>

definition storage_copy_file :: "bytes \<Rightarrow> bytes" where
  "storage_copy_file token = path_clean (storage_copy_root @ ''/'' @ token @ ''.tar.zst'')"

definition ssh_prepare_storage_copy ::
  "('w, 'x) ssh_env_scheme \<Rightarrow> ssh_session \<Rightarrow> bytes list \<Rightarrow> ('w ssh_host, bytes \<times> bytes \<times> int) action" where
  "ssh_prepare_storage_copy env s declared =
     bind_s (run_remote env s (storage_command declared)) (\<lambda>stdout. lift_s (parse_storage_reply stdout))"

definition ssh_transfer_storage_copy ::
  "('w, 'x) ssh_env_scheme \<Rightarrow> ssh_session \<Rightarrow> bytes \<Rightarrow> ('w ssh_host, bytes) action" where
  "ssh_transfer_storage_copy env s token =
     also_s (lift_s (reject_if (\<not> safe_storage_token token) (Err ''invalid storage-copy transfer'')))
       (run_remote_output env s ''transfer target storage-copy: %w%s''
         (''sudo -n test -f '' @ shell_quote (storage_copy_file token) @ '' && sudo -n cat -- '' @ shell_quote (storage_copy_file token)))"

definition ssh_cleanup_storage_copy ::
  "('w, 'x) ssh_env_scheme \<Rightarrow> ssh_session \<Rightarrow> bytes \<Rightarrow> ('w ssh_host, unit) action" where
  "ssh_cleanup_storage_copy env s token =
     also_s (lift_s (reject_if (\<not> safe_storage_token token) (Err ''invalid storage-copy token'')))
    (wrap_s ''cleanup target storage-copy: %w'' []
      (bind_s (run_remote env s (''sudo -n rm -f -- '' @ shell_quote (storage_copy_file token))) (\<lambda>_. ret_s ())))"

subsection \<open>Running modules\<close>

record unit_ref =
  unr_Name :: bytes
  unr_Scope :: bytes

record healthcheck_ref =
  hcf_Type :: bytes
  hcf_Container :: bytes
  hcf_URL :: bytes
  hcf_Port :: int
  hcf_Command :: "bytes list"

record runtime_inventory =
  rin_InstanceID :: bytes
  rin_Units :: "unit_ref list"
  rin_Containers :: "bytes list"
  rin_Healthcheck :: healthcheck_ref

definition module_inventory_path :: bytes where
  "module_inventory_path = ''/var/lib/vpsmith/inventory/modules.json''"

text \<open>\<open>json.Unmarshal\<close> of the inventory of modules is the parameter \<open>decode\<close>.\<close>

definition module_runtime_inventory ::
  "('w, 'x) ssh_env_scheme \<Rightarrow> (bytes \<Rightarrow> runtime_inventory list result) \<Rightarrow> ssh_session \<Rightarrow> bytes \<Rightarrow>
   ('w ssh_host, runtime_inventory) action" where
  "module_runtime_inventory env decode s m =
     bind_s (read_optional env s module_inventory_path) (\<lambda>raw.
     also_s (lift_s (reject_if (trim_space raw = []) (Err ''module inventory is missing'')))
    (bind_s (wrap_s ''decode module inventory: %w'' [] (lift_s (decode raw))) (\<lambda>modules.
     case find (\<lambda>i. rin_InstanceID i = m) modules of
       Some i \<Rightarrow> ret_s i
     | None \<Rightarrow> lift_s (Inl (Errf ''module %s is not present in target inventory'' [m])))))"

definition runtime_unit_command :: "bytes \<Rightarrow> unit_ref \<Rightarrow> bytes result" where
  "runtime_unit_command verb u =
     also_r (checks
       [reject_if (\<not> safe_object_name (unr_Name u)) (Err ''module inventory contains invalid unit name''),
        reject_if (verb \<noteq> ''start'' \<and> verb \<noteq> ''stop'') (Err ''unsupported systemd runtime verb'')])
      (if unr_Scope u = [] \<or> unr_Scope u = ''user'' then Inr (''systemctl --user '' @ verb @ '' '' @ shell_quote (unr_Name u))
       else if unr_Scope u = ''system'' then Inr (''sudo -n systemctl '' @ verb @ '' '' @ shell_quote (unr_Name u))
       else Inl (Err ''module inventory contains invalid unit scope''))"

definition unit_commands :: "runtime_action \<Rightarrow> unit_ref list \<Rightarrow> bytes list result" where
  "unit_commands a units =
     (case a of
        Runtime_Start \<Rightarrow> map_r (runtime_unit_command ''start'') units
      | Runtime_Stop \<Rightarrow> map_r (runtime_unit_command ''stop'') (rev units)
      | Runtime_Restart \<Rightarrow>
          bind_r (map_r (runtime_unit_command ''stop'') (rev units)) (\<lambda>stops.
          bind_r (map_r (runtime_unit_command ''start'') units) (\<lambda>starts. Inr (stops @ starts)))
      | Other_Action x \<Rightarrow> Inl (Err ''unsupported runtime action''))"

definition action_text :: "runtime_action \<Rightarrow> bytes" where
  "action_text a =
     (case a of Runtime_Start \<Rightarrow> ''start'' | Runtime_Stop \<Rightarrow> ''stop'' | Runtime_Restart \<Rightarrow> ''restart'' | Other_Action x \<Rightarrow> x)"

definition control_module_runtime ::
  "('w, 'x) ssh_env_scheme \<Rightarrow> (bytes \<Rightarrow> runtime_inventory list result) \<Rightarrow> ssh_session \<Rightarrow> bytes \<Rightarrow> runtime_action \<Rightarrow>
   ('w ssh_host, runtime_result) action" where
  "control_module_runtime env decode s m a =
     bind_s (module_runtime_inventory env decode s m) (\<lambda>i.
     also_s (lift_s (reject_if (rin_Units i = []) (Errf ''module %s has no inventoried runtime units'' [m])))
    (bind_s (lift_s (unit_commands a (rin_Units i))) (\<lambda>commands.
     also_s (wrap_s ''%s module %s: %w'' [action_text a, m]
       (bind_s (run_remote env s (''set -eu; '' @ join_with ''; '' commands)) (\<lambda>_. ret_s ())))
    (ret_s \<lparr>rtr_Module = m, rtr_Action = a, rtr_Units = map unr_Name (rin_Units i)\<rparr>))))"

definition validate_healthcheck_ref :: "(bytes \<Rightarrow> (bytes \<times> bytes) option) \<Rightarrow> healthcheck_ref \<Rightarrow> unit result" where
  "validate_healthcheck_ref parse_url c =
     also_r (reject_if (\<not> safe_object_name (hcf_Container c)) (Err ''invalid container id''))
      (if hcf_Type c = ''http'' then
         reject_if (case parse_url (hcf_URL c) of None \<Rightarrow> True
           | Some (scheme, host) \<Rightarrow> (scheme \<noteq> ''http'' \<and> scheme \<noteq> ''https'') \<or> host = [])
           (Err ''invalid http healthcheck url'')
       else if hcf_Type c = ''tcp'' then
         reject_if (hcf_Port c < 1 \<or> hcf_Port c > 65535) (Err ''invalid tcp healthcheck port'')
       else if hcf_Type c = ''command'' then
         checks
           [reject_if (hcf_Command c = [] \<or> trim_space (hd (hcf_Command c)) = []) (Err ''invalid command healthcheck''),
            reject_if (list_ex (\<lambda>a. CHR 0x00 \<in> set a) (hcf_Command c)) (Err ''command healthcheck contains NUL'')]
       else Inl (Err ''unsupported healthcheck type''))"

definition network_namespace_command :: "bytes \<Rightarrow> bytes \<Rightarrow> bytes \<Rightarrow> bytes" where
  \<open>network_namespace_command container python argument =
     sh ''pid=$(podman inspect --format @'' @ ''{{.State.Pid}}'' @ sh ''@ '' @ shell_quote container @ sh ''); '' @
     sh ''case $pid in @@|*[!0-9]*) exit 97;; esac; [ "$pid" -gt 0 ] || exit 97; '' @
     sh ''sudo -n nsenter -t "$pid" -n -- python3 -c '' @ shell_quote python @ '' '' @ shell_quote argument\<close>

definition http_probe :: bytes where
  "http_probe = ''import sys,urllib.request; r=urllib.request.urlopen(sys.argv[1],timeout=5); sys.stdout.write(str(r.status)); r.close()''"

definition tcp_probe :: bytes where
  \<open>tcp_probe = ''import socket,sys; s=socket.create_connection(("127.0.0.1",int(sys.argv[1])),timeout=5); s.close()''\<close>

definition healthcheck_command :: "healthcheck_ref \<Rightarrow> bytes \<Rightarrow> bytes result" where
  "healthcheck_command c container =
     (if hcf_Type c = ''command'' then
        Inr (join_with '' '' ([''podman'', ''exec'', ''--'', shell_quote container] @ map shell_quote (hcf_Command c)))
      else if hcf_Type c = ''http'' then Inr (network_namespace_command container http_probe (hcf_URL c))
      else if hcf_Type c = ''tcp'' then Inr (network_namespace_command container tcp_probe (decimal_int (hcf_Port c)))
      else Inl (Err ''unsupported healthcheck type''))"

definition health_capture :: nat where "health_capture = 16 * 1024"

definition bounded_healthcheck_script :: "bytes \<Rightarrow> bytes" where
  \<open>bounded_healthcheck_script command =
     sh_lines
      [sh ''set -eu'',
       sh ''umask 077'',
       sh ''out=$(mktemp)'',
       sh ''err=$(mktemp)'',
       sh ''cleanup() { rm -f -- "$out" "$err"; }'',
       sh ''trap cleanup EXIT HUP INT TERM'',
       sh ''set +e'',
       sh ''timeout 10s sh -c '' @ shell_quote command @ sh '' >"$out" 2>"$err"'',
       sh ''code=$?'',
       sh ''set -e'',
       sh ''printf @CODE`t%s`n@ "$code"'',
       sh ''printf @STDOUT`t@; head -c '' @ decimal health_capture @ sh '' "$out" | base64 | tr -d @`n@; printf @`n@'',
       sh ''printf @STDERR`t@; head -c '' @ decimal health_capture @ sh '' "$err" | base64 | tr -d @`n@; printf @`n@'']\<close>

definition decoded_fact :: "(bytes \<times> bytes) list \<Rightarrow> bytes \<Rightarrow> bytes result" where
  "decoded_fact m k =
     (case std_decode (fact m k) of
        None \<Rightarrow> Inl (Wrapf ''decode healthcheck %s: %w'' [to_lower k] (Err ''illegal base64 data''))
      | Some v \<Rightarrow> Inr v)"

definition parse_healthcheck_output :: "bytes \<Rightarrow> (int \<times> bytes \<times> bytes) result" where
  "parse_healthcheck_output raw =
     bind_r (parse_tab_facts raw) (\<lambda>m.
     also_r (reject_if (length m \<noteq> 3 \<or> fact m ''CODE'' = []) (Err ''incomplete healthcheck result''))
    (case parse_int64 (fact m ''CODE'') of
       None \<Rightarrow> Inl (Err ''invalid healthcheck exit code'')
     | Some code \<Rightarrow>
         also_r (reject_if (code < 0 \<or> code > 255) (Err ''invalid healthcheck exit code''))
        (bind_r (decoded_fact m ''STDOUT'') (\<lambda>out.
         bind_r (decoded_fact m ''STDERR'') (\<lambda>err. Inr (code, out, err))))))"

definition ssh_healthcheck_module ::
  "('w, 'x) ssh_env_scheme \<Rightarrow> (bytes \<Rightarrow> (bytes \<times> bytes) option) \<Rightarrow> (bytes \<Rightarrow> runtime_inventory list result) \<Rightarrow> ssh_session \<Rightarrow>
   bytes \<Rightarrow> ('w ssh_host, health_result) action" where
  "ssh_healthcheck_module env parse_url decode s m =
     bind_s (module_runtime_inventory env decode s m) (\<lambda>i.
     let c = rin_Healthcheck i; container = ''vpsmith-'' @ m @ ''-'' @ hcf_Container c in
     also_s (wrap_s ''module %s inventory healthcheck: %w'' [m] (lift_s (validate_healthcheck_ref parse_url c)))
    (also_s (lift_s (reject_if (\<not> safe_object_name container \<or> container \<notin> set (rin_Containers i))
       (Err ''module healthcheck container is not present in inventory'')))
    (bind_s (lift_s (healthcheck_command c container)) (\<lambda>command.
     bind_s (wrap_s ''run module healthcheck: %w'' [] (run_remote env s (bounded_healthcheck_script command))) (\<lambda>stdout.
     bind_s (lift_s (parse_healthcheck_output stdout)) (\<lambda>(code, out, err).
     ret_s \<lparr>hcr_Module = m, hcr_Type = hcf_Type c, hcr_Container = container, hcr_Healthy = (code = 0),
            hcr_ExitCode = code, hcr_Stdout = out, hcr_Stderr = err\<rparr>))))))"

end
