(* ===== verification/Gateway_Inspect.thy ===== *)
theory Gateway_Inspect
  imports Gateway_Exec
begin

section \<open>Inspection of a target\<close>

text \<open>
  \<open>internal/targetgateway/inspector.go\<close>, \<open>network_planning.go\<close>, \<open>enrollment_ssh.go\<close> and \<open>coreObservation\<close> of
  \<open>execution_proofs.go\<close>: the probes, what is parsed of their output, and the composition to the
  observed state of a target. \<open>json.Unmarshal\<close> of each document and \<open>netip.ParsePrefix\<close> (the canonical text of
  a prefix) are the fields of \<open>inspect_env\<close>; an absent object of a document is \<open>None\<close>.
\<close>

definition map_s :: "('a \<Rightarrow> ('s, 'b) action) \<Rightarrow> 'a list \<Rightarrow> ('s, 'b list) action" where
  "map_s f xs = fold_s (\<lambda>ys x. bind_s (f x) (\<lambda>y. ret_s (ys @ [y]))) [] xs"

text \<open>An action of which only the success is used.\<close>

definition succeeds_s :: "('s, 'a) action \<Rightarrow> ('s, bool) action" where
  "succeeds_s m s = (case m s of (Inl e, s') \<Rightarrow> (Inr False, s') | (Inr x, s') \<Rightarrow> (Inr True, s'))"

subsection \<open>The documents\<close>

record caddy_ref =
  cdr_Unit :: unit_ref
  cdr_Container :: bytes
  cdr_ConfigPath :: bytes

record service_ref =
  svr_Unit :: unit_ref
  svr_Container :: bytes

record core_inventory =
  cin_SourceID :: bytes
  cin_Version :: bytes
  cin_PackageSHA256 :: bytes
  cin_Units :: "unit_ref list"
  cin_Containers :: "bytes list"
  cin_Networks :: "bytes list"
  cin_Caddy :: "caddy_ref option"
  cin_Authelia :: "service_ref option"
  cin_ManagedArtifacts :: "bytes list"

record module_inventory =
  min_InstanceID :: bytes
  min_PackageID :: bytes
  min_Version :: bytes
  min_PackageSHA256 :: bytes
  min_Units :: "unit_ref list"
  min_Containers :: "bytes list"
  min_Networks :: "bytes list"
  min_ManagedArtifacts :: "bytes list"

record planning_link =
  pli_Name :: bytes
  pli_Subnet :: bytes
  pli_Relationship :: bytes

record podman_info =
  pin_Rootless :: bool
  pin_CgroupVersion :: bytes
  pin_RootlessNetworkCmd :: bytes

record container_entry =
  cen_Running :: bool
  cen_Health :: "bytes option"
  cen_Networks :: "bytes list"

record network_entry =
  nen_Internal :: bool
  nen_Containers :: "(bytes \<times> bytes) list"

record network_list_entry =
  nle_Name :: bytes
  nle_Internal :: bool
  nle_Labels :: "bytes go_map"
  nle_Subnets :: "bytes list"

record inspect_env =
  ine_Core :: "bytes \<Rightarrow> core_inventory result"
  ine_Modules :: "bytes \<Rightarrow> module_inventory list result"
  ine_Links :: "bytes \<Rightarrow> bytes list result"
  ine_Planning :: "bytes \<Rightarrow> planning_link list result"
  ine_Podman :: "bytes \<Rightarrow> podman_info result"
  ine_Container :: "bytes \<Rightarrow> container_entry list result"
  ine_Network :: "bytes \<Rightarrow> network_entry list result"
  ine_NetworkList :: "bytes \<Rightarrow> network_list_entry list result"
  ine_Proof :: "bytes \<Rightarrow> proof_document result"
  ine_Prefix :: "bytes \<Rightarrow> bytes option"

subsection \<open>The host\<close>

definition no_hardening :: hardening_observed where
  "no_hardening =
     \<lparr>hob_RootPasswordLocked = False, hob_SSHConfigValid = False, hob_SSHValues = [], hob_UFWActive = False,
      hob_UFWDefaultIncoming = [], hob_UFWDefaultOutgoing = [], hob_UFWDefaultRouted = [], hob_UFWLoggingLow = False,
      hob_UFWUnexpectedPublicAllow = False, hob_UFWAllowedPublicTCPPorts = [], hob_Fail2banSSHActive = False,
      hob_Fail2banRecidiveActive = False, hob_UnattendedUpgradesEnabled = False, hob_AutomaticRebootDisabled = False\<rparr>"

definition host_probe :: "bytes" where
  \<open>host_probe =
     sh_lines
      [sh ''set -eu'',
       sh ''hostname=$(hostname)'',
       sh ''kernel=$(uname -sr)'',
       sh ''os_id=@@'',
       sh ''os_version=@@'',
       sh ''if [ -r /etc/os-release ]; then'',
       sh ''  . /etc/os-release'',
       sh ''  os_id=${ID:-}'',
       sh ''  os_version=${VERSION_ID:-}'',
       sh ''fi'',
       sh ''set -- $(df -B1 -P / | tail -n 1)'',
       sh ''root_total=$2'',
       sh ''root_available=$4'',
       sh ''mem_total=$(awk @/^MemTotal:/ {print $2 * 1024}@ /proc/meminfo)'',
       sh ''mem_available=$(awk @/^MemAvailable:/ {print $2 * 1024}@ /proc/meminfo)'',
       sh ''swap_total=$(awk @/^SwapTotal:/ {print $2 * 1024}@ /proc/meminfo)'',
       sh ''swap_free=$(awk @/^SwapFree:/ {print $2 * 1024}@ /proc/meminfo)'',
       sh ''reboot=0'',
       sh ''[ ! -e /var/run/reboot-required ] || reboot=1'',
       sh ''ufw=0'',
       sh ''systemctl is-active --quiet ufw.service 2>/dev/null && ufw=1 || true'',
       sh ''fail2ban=0'',
       sh ''systemctl is-active --quiet fail2ban.service 2>/dev/null && fail2ban=1 || true'',
       sh ''printf @hostname`t%s`n@ "$hostname"'',
       sh ''printf @kernel`t%s`n@ "$kernel"'',
       sh ''printf @os_id`t%s`n@ "$os_id"'',
       sh ''printf @os_version`t%s`n@ "$os_version"'',
       sh ''printf @root_total`t%s`n@ "$root_total"'',
       sh ''printf @root_available`t%s`n@ "$root_available"'',
       sh ''printf @mem_total`t%s`n@ "$mem_total"'',
       sh ''printf @mem_available`t%s`n@ "$mem_available"'',
       sh ''printf @swap_total`t%s`n@ "$swap_total"'',
       sh ''printf @swap_free`t%s`n@ "$swap_free"'',
       sh ''printf @reboot`t%s`n@ "$reboot"'',
       sh ''printf @ufw`t%s`n@ "$ufw"'',
       sh ''printf @fail2ban`t%s`n@ "$fail2ban"'']\<close>

definition host_facts_of :: "bytes \<Rightarrow> host_observed result" where
  "host_facts_of stdout =
     bind_r (parse_tab_facts stdout) (\<lambda>m.
     bind_r (int64_fact m ''root_total'') (\<lambda>root_total.
     bind_r (int64_fact m ''root_available'') (\<lambda>root_available.
     bind_r (int64_fact m ''mem_total'') (\<lambda>mem_total.
     bind_r (int64_fact m ''mem_available'') (\<lambda>mem_available.
     bind_r (int64_fact m ''swap_total'') (\<lambda>swap_total.
     bind_r (int64_fact m ''swap_free'') (\<lambda>swap_free.
     Inr \<lparr>hst_Reachable = True, hst_SSH = True, hst_Hostname = fact m ''hostname'', hst_OSID = fact m ''os_id'',
          hst_OSVersion = fact m ''os_version'', hst_Kernel = fact m ''kernel'',
          hst_RootFilesystem = \<lparr>meo_TotalBytes = root_total, meo_AvailableBytes = root_available\<rparr>,
          hst_Memory = \<lparr>meo_TotalBytes = mem_total, meo_AvailableBytes = mem_available\<rparr>,
          hst_Swap = \<lparr>meo_TotalBytes = swap_total, meo_AvailableBytes = swap_free\<rparr>,
          hst_RebootRequired = (fact m ''reboot'' = ''1''), hst_UFWActive = (fact m ''ufw'' = ''1''),
          hst_Fail2banActive = (fact m ''fail2ban'' = ''1''), hst_PrimaryHardening = no_hardening\<rparr>)))))))"

definition host_facts :: "('w, 'x) ssh_env_scheme \<Rightarrow> ssh_session \<Rightarrow> ('w ssh_host, host_observed) action" where
  "host_facts env s =
     bind_s (wrap_s ''read host facts: %w'' [] (run_remote env s host_probe)) (\<lambda>stdout. lift_s (host_facts_of stdout))"

definition cloud_init_status_path :: bytes where
  "cloud_init_status_path = ''/var/lib/vpsmith/cloud-init/status''"

definition cloud_init_line :: "bytes \<Rightarrow> cloud_init_observed \<Rightarrow> cloud_init_observed" where
  "cloud_init_line l f =
     (case cut_at CHR ''='' (trim_space l) of
        None \<Rightarrow> f
      | Some (k, v) \<Rightarrow>
          if k = ''status'' then f\<lparr>cio_Status := v\<rparr>
          else if k = ''version'' then f\<lparr>cio_Version := v\<rparr>
          else if k = ''finished_at'' then f\<lparr>cio_FinishedAt := v\<rparr> else f)"

definition cloud_init_of :: "bytes \<Rightarrow> cloud_init_observed result" where
  "cloud_init_of stdout =
     (if trim_space stdout = [] then Inr \<lparr>cio_Present = False, cio_Status = [], cio_Version = [], cio_FinishedAt = []\<rparr>
      else
        (case scanner_lines max_token stdout of (ls, whole) \<Rightarrow>
         if \<not> whole then Inl err_too_long
         else Inr (fold cloud_init_line ls \<lparr>cio_Present = True, cio_Status = [], cio_Version = [], cio_FinishedAt = []\<rparr>)))"

definition cloud_init_facts :: "('w, 'x) ssh_env_scheme \<Rightarrow> ssh_session \<Rightarrow> ('w ssh_host, cloud_init_observed) action" where
  "cloud_init_facts env s = bind_s (read_optional env s cloud_init_status_path) (\<lambda>stdout. lift_s (cloud_init_of stdout))"

subsection \<open>The hardening of the host\<close>

definition hardening_probe :: "bytes \<Rightarrow> bytes" where
  \<open>hardening_probe user =
     sh_lines
      [sh ''set -eu'',
       sh ''export LC_ALL=C'',
       sh ''root_hash=$(getent shadow root | cut -d: -f2)'',
       sh ''case "$root_hash" in !*|@*@*) printf @root_locked`t1`n@ ;; *) printf @root_locked`t0`n@ ;; esac'',
       sh ''if sshd -t; then printf @ssh_config_valid`t1`n@; else printf @ssh_config_valid`t0`n@; exit 0; fi'',
       sh ''sshd -T -C user='' @ shell_quote user @ sh '',host="$(hostname)",addr=127.0.0.1 | awk @$1 ~ /^(permitrootlogin|passwordauthentication|kbdinteractiveauthentication|pubkeyauthentication|authenticationmethods|permitemptypasswords|logingracetime|maxauthtries|maxsessions|maxstartups|x11forwarding|allowagentforwarding|allowtcpforwarding|allowstreamlocalforwarding|permittunnel|gatewayports|permituserenvironment|compression|loglevel)$/ {print "ssh_" $1 "`t" $2}@'',
       sh ''ufw status verbose | awk @/^Status:/ {print "ufw_active`t" ($2=="active"?1:0)} /^Logging:/ {print "ufw_logging_low`t" ($2=="on" && $3=="(low)"?1:0)} /^Default:/ {sub(/^Default:['' @ sh ''[:space:]]*/, ""); print "ufw_defaults`t" $0}@'',
       sh ''ipv4_forward=$(sysctl -n net.ipv4.ip_forward 2>/dev/null || printf @?@)'',
       sh ''ipv6_forward=$(sysctl -n net.ipv6.conf.all.forwarding 2>/dev/null || printf @?@)'',
       sh ''printf @ufw_forwarding`t%s,%s`n@ "$ipv4_forward" "$ipv6_forward"'',
       sh ''ufw status | awk @$2=="ALLOW" {rule=$1; if (rule ~ /^[0-9]+`/tcp$/) {p=rule; sub(/`/tcp$/, "", p); if (!seen[p]++) print "ufw_port`t" p} else {print "ufw_unexpected_allow`t1"}}@'',
       sh ''if systemctl is-active --quiet fail2ban.service && fail2ban-client status sshd >/dev/null 2>&1; then printf @fail2ban_sshd`t1`n@; else printf @fail2ban_sshd`t0`n@; fi'',
       sh ''if systemctl is-active --quiet fail2ban.service && fail2ban-client status recidive >/dev/null 2>&1; then printf @fail2ban_recidive`t1`n@; else printf @fail2ban_recidive`t0`n@; fi'',
       sh ''u=$(apt-config shell x APT::Periodic::Unattended-Upgrade | sed -n "s/^x=@`(.*`)@$/`1/p")'',
       sh ''r=$(apt-config shell x Unattended-Upgrade::Automatic-Reboot | sed -n "s/^x=@`(.*`)@$/`1/p")'',
       sh ''printf @unattended`t%s`n@ "$u"'',
       sh ''printf @automatic_reboot`t%s`n@ "$r"'']\<close>

text \<open>\<open>strings.Trim\<close> with a set of characters.\<close>

definition trim_chars :: "bytes \<Rightarrow> bytes \<Rightarrow> bytes" where
  "trim_chars s cutset = rev (dropWhile (\<lambda>c. c \<in> set cutset) (rev (dropWhile (\<lambda>c. c \<in> set cutset) s)))"

fun ufw_parts :: "bytes list \<Rightarrow> bytes \<times> bytes \<times> bytes \<Rightarrow> (bytes \<times> bytes \<times> bytes) result" where
  "ufw_parts [] acc = Inr acc"
| "ufw_parts (part # parts) (incoming, outgoing, routed) =
     (case string_fields (trim_space part) of
        [p, d] \<Rightarrow>
          (let policy = to_lower p; direction = trim_chars d ''()'' in
           if direction = ''incoming'' then ufw_parts parts (policy, outgoing, routed)
           else if direction = ''outgoing'' then ufw_parts parts (incoming, policy, routed)
           else if direction = ''routed'' then ufw_parts parts (incoming, outgoing, policy)
           else Inl (Errf ''unknown UFW default direction %q'' [direction]))
      | _ \<Rightarrow> Inl (Errf ''invalid UFW default policy %q'' [part]))"

definition parse_ufw_defaults :: "bytes \<Rightarrow> (bytes \<times> bytes \<times> bytes) result" where
  "parse_ufw_defaults v =
     bind_r (ufw_parts (split_on CHR '','' v) ([], [], [])) (\<lambda>(incoming, outgoing, routed).
     also_r (reject_if (incoming = [] \<or> outgoing = [] \<or> routed = [])
       (Err ''UFW default policies must include incoming, outgoing, and routed'')) (Inr (incoming, outgoing, routed)))"

text \<open>The state of the loop is the facts, the reported policy for routed packets, and whether forwarding is off.\<close>

definition hardening_line ::
  "hardening_observed \<times> bytes \<times> bool \<Rightarrow> bytes \<Rightarrow> (hardening_observed \<times> bytes \<times> bool) result" where
  "hardening_line acc l =
     (case acc of (f, routed, off) \<Rightarrow>
      (case cut_at CHR 0x09 l of
         None \<Rightarrow> Inr (f, routed, off)
       | Some (k, v) \<Rightarrow>
           if k = ''root_locked'' then Inr (f\<lparr>hob_RootPasswordLocked := (v = ''1'')\<rparr>, routed, off)
           else if k = ''ssh_config_valid'' then Inr (f\<lparr>hob_SSHConfigValid := (v = ''1'')\<rparr>, routed, off)
           else if has_prefix k ''ssh_'' then
             Inr (f\<lparr>hob_SSHValues := AList.update (trim_prefix k ''ssh_'') v (hob_SSHValues f)\<rparr>, routed, off)
           else if k = ''ufw_active'' then Inr (f\<lparr>hob_UFWActive := (v = ''1'')\<rparr>, routed, off)
           else if k = ''ufw_defaults'' then
             bind_r (parse_ufw_defaults v) (\<lambda>(incoming, outgoing, reported).
             Inr (f\<lparr>hob_UFWDefaultIncoming := incoming, hob_UFWDefaultOutgoing := outgoing\<rparr>, reported, off))
           else if k = ''ufw_forwarding'' then Inr (f, routed, v = ''0,0'')
           else if k = ''ufw_logging_low'' then Inr (f\<lparr>hob_UFWLoggingLow := (v = ''1'')\<rparr>, routed, off)
           else if k = ''ufw_unexpected_allow'' then Inr (f\<lparr>hob_UFWUnexpectedPublicAllow := (v = ''1'')\<rparr>, routed, off)
           else if k = ''ufw_port'' then
             (case parse_int64 v of
                None \<Rightarrow> Inl (Wrapf ''invalid UFW port fact: %w'' [] (Err ''invalid syntax''))
              | Some p \<Rightarrow> Inr (f\<lparr>hob_UFWAllowedPublicTCPPorts := hob_UFWAllowedPublicTCPPorts f @ [p]\<rparr>, routed, off))
           else if k = ''fail2ban_sshd'' then Inr (f\<lparr>hob_Fail2banSSHActive := (v = ''1'')\<rparr>, routed, off)
           else if k = ''fail2ban_recidive'' then Inr (f\<lparr>hob_Fail2banRecidiveActive := (v = ''1'')\<rparr>, routed, off)
           else if k = ''unattended'' then Inr (f\<lparr>hob_UnattendedUpgradesEnabled := (v = ''1'')\<rparr>, routed, off)
           else if k = ''automatic_reboot'' then Inr (f\<lparr>hob_AutomaticRebootDisabled := (v = ''false'')\<rparr>, routed, off)
           else Inr (f, routed, off)))"

definition hardening_of :: "bytes \<Rightarrow> hardening_observed result" where
  "hardening_of stdout =
     (case scanner_lines max_token stdout of (ls, whole) \<Rightarrow>
      bind_r (fold_r hardening_line (no_hardening, [], False) ls) (\<lambda>(f, routed, off).
      also_r (reject_if (\<not> whole) err_too_long)
        (Inr (f\<lparr>hob_UFWDefaultRouted := (if routed = ''disabled'' \<and> off then ''deny'' else routed)\<rparr>))))"

definition inspect_primary_hardening ::
  "('w, 'x) ssh_env_scheme \<Rightarrow> ssh_session \<Rightarrow> ('w ssh_host, hardening_observed) action" where
  "inspect_primary_hardening env s =
     bind_s (run_remote env s (as_root (hardening_probe (epn_SSHUser (ses_Endpoint s))))) (\<lambda>stdout. lift_s (hardening_of stdout))"

subsection \<open>Units, containers, networks and files\<close>

definition unit_facts :: "('w, 'x) ssh_env_scheme \<Rightarrow> ssh_session \<Rightarrow> unit_ref \<Rightarrow> ('w ssh_host, unit_observed) action" where
  "unit_facts env s u =
     (let scope = (if unr_Scope u = [] then ''user'' else unr_Scope u) in
      also_s (lift_s (checks
        [reject_if (\<not> safe_object_name (unr_Name u)) (Err ''inventory contains invalid unit name''),
         reject_if (scope \<noteq> ''user'' \<and> scope \<noteq> ''system'') (Err ''inventory contains invalid unit scope'')]))
     (bind_s (run_remote env s (''systemctl'' @ (if scope = ''user'' then '' --user'' else []) @
        '' show --no-pager --property=LoadState --property=ActiveState --property=SubState '' @ shell_quote (unr_Name u) @
        '' 2>/dev/null || true'')) (\<lambda>stdout.
      let m = parse_equals_facts stdout in
      ret_s \<lparr>uno_Name = unr_Name u, uno_Scope = scope,
             uno_Present = (fact m ''LoadState'' \<noteq> [] \<and> fact m ''LoadState'' \<noteq> ''not-found''),
             uno_Running = (fact m ''ActiveState'' = ''active''), uno_ActiveState = fact m ''ActiveState'',
             uno_SubState = fact m ''SubState''\<rparr>)))"

definition container_facts ::
  "('w, 'x) ssh_env_scheme \<Rightarrow> inspect_env \<Rightarrow> ssh_session \<Rightarrow> bytes \<Rightarrow> ('w ssh_host, container_observed) action" where
  "container_facts env ie s name =
     also_s (lift_s (reject_if (\<not> safe_object_name name) (Err ''inventory contains invalid container name'')))
    (bind_s (run_remote env s (''podman inspect '' @ shell_quote name @ '' 2>/dev/null || true'')) (\<lambda>stdout.
     if trim_space stdout = [] then
       ret_s \<lparr>cto_Name = name, cto_Present = False, cto_Running = False, cto_Health = [], cto_Networks = []\<rparr>
     else
       (case ine_Container ie stdout of
          Inr [e] \<Rightarrow>
            ret_s \<lparr>cto_Name = name, cto_Present = True, cto_Running = cen_Running e,
                   cto_Health = (case cen_Health e of None \<Rightarrow> [] | Some h \<Rightarrow> h), cto_Networks = sort_key id (cen_Networks e)\<rparr>
        | _ \<Rightarrow> lift_s (Inl (Err ''decode podman container inspection'')))))"

definition network_facts ::
  "('w, 'x) ssh_env_scheme \<Rightarrow> inspect_env \<Rightarrow> ssh_session \<Rightarrow> bytes \<Rightarrow> ('w ssh_host, network_observed) action" where
  "network_facts env ie s name =
     also_s (lift_s (reject_if (\<not> safe_object_name name) (Err ''inventory contains invalid network name'')))
    (bind_s (run_remote env s (''podman network inspect '' @ shell_quote name @ '' 2>/dev/null || true'')) (\<lambda>stdout.
     if trim_space stdout = [] then
       ret_s \<lparr>nto_Name = name, nto_Internal = False, nto_Present = False, nto_Subnets = [], nto_Relationship = [], nto_Members = []\<rparr>
     else
       (case ine_Network ie stdout of
          Inr [e] \<Rightarrow>
            ret_s \<lparr>nto_Name = name, nto_Internal = nen_Internal e, nto_Present = True, nto_Subnets = [], nto_Relationship = [],
                   nto_Members = sort_key id (map (\<lambda>(i, n). if n = [] then i else n) (nen_Containers e))\<rparr>
        | _ \<Rightarrow> lift_s (Inl (Err ''decode podman network inspection'')))))"

definition artifact_facts :: "('w, 'x) ssh_env_scheme \<Rightarrow> ssh_session \<Rightarrow> bytes \<Rightarrow> ('w ssh_host, artifact_observed) action" where
  "artifact_facts env s p =
     also_s (lift_s (reject_if (\<not> safe_artifact_path p) (Err ''inventory contains invalid managed artifact path'')))
    (bind_s (run_remote env s (''if [ -f '' @ shell_quote p @ '' ]; then sha256sum -- '' @ shell_quote p @ ''; fi'')) (\<lambda>stdout.
     case string_fields stdout of
       [] \<Rightarrow> ret_s \<lparr>aro_Path = p, aro_Present = False, aro_SHA256 = []\<rparr>
     | d # _ \<Rightarrow>
         if length d \<noteq> 64 \<or> \<not> is_hex d then lift_s (Inl (Err ''invalid managed artifact sha256''))
         else ret_s \<lparr>aro_Path = p, aro_Present = True, aro_SHA256 = to_lower d\<rparr>))"

definition no_service :: service_observed where
  "no_service = \<lparr>svo_Present = False, svo_Running = False, svo_ConfigChecked = False, svo_ConfigValid = False\<rparr>"

definition service_facts ::
  "('w, 'x) ssh_env_scheme \<Rightarrow> inspect_env \<Rightarrow> ssh_session \<Rightarrow> service_ref \<Rightarrow> ('w ssh_host, service_observed) action" where
  "service_facts env ie s r =
     (let named = unr_Name (svr_Unit r) \<noteq> [] in
      bind_s (if named then
          bind_s (unit_facts env s (svr_Unit r)) (\<lambda>u. ret_s (no_service\<lparr>svo_Present := uno_Present u, svo_Running := uno_Running u\<rparr>))
        else ret_s no_service) (\<lambda>v.
      if svr_Container r = [] then ret_s v
      else
        bind_s (container_facts env ie s (svr_Container r)) (\<lambda>c.
        ret_s (v\<lparr>svo_Present := (svo_Present v \<or> cto_Present c),
                 svo_Running := (if named then svo_Running v \<and> cto_Running c else cto_Running c)\<rparr>))))"

definition caddy_facts ::
  "('w, 'x) ssh_env_scheme \<Rightarrow> inspect_env \<Rightarrow> ssh_session \<Rightarrow> caddy_ref \<Rightarrow> ('w ssh_host, service_observed) action" where
  "caddy_facts env ie s r =
     bind_s (service_facts env ie s \<lparr>svr_Unit = cdr_Unit r, svr_Container = cdr_Container r\<rparr>) (\<lambda>v.
     if \<not> svo_Present v \<or> cdr_Container r = [] \<or> cdr_ConfigPath r = [] then ret_s v
     else
       also_s (lift_s (reject_if (\<not> safe_object_name (cdr_Container r) \<or> \<not> safe_artifact_path (cdr_ConfigPath r))
         (Err ''inventory contains invalid caddy reference'')))
      (bind_s (succeeds_s (run_remote env s (''podman exec '' @ shell_quote (cdr_Container r) @ '' caddy validate --config '' @
         shell_quote (cdr_ConfigPath r)))) (\<lambda>ok.
       ret_s (v\<lparr>svo_ConfigChecked := True, svo_ConfigValid := ok\<rparr>))))"

definition all_expected_running :: "unit_observed list \<Rightarrow> container_observed list \<Rightarrow> bool" where
  "all_expected_running units containers =
     ((units \<noteq> [] \<or> containers \<noteq> []) \<and> list_all (\<lambda>u. uno_Present u \<and> uno_Running u) units \<and>
      list_all (\<lambda>c. cto_Present c \<and> cto_Running c) containers)"

definition no_podman :: podman_observed where
  "no_podman = \<lparr>pod_Present = False, pod_Rootless = False, pod_CgroupVersion = [], pod_RootlessNetworkCmd = []\<rparr>"

definition podman_facts ::
  "('w, 'x) ssh_env_scheme \<Rightarrow> inspect_env \<Rightarrow> ssh_session \<Rightarrow> ('w ssh_host, podman_observed) action" where
  "podman_facts env ie s =
     bind_s (run_remote env s ''if command -v podman >/dev/null 2>&1; then podman info --format json; fi'') (\<lambda>stdout.
     if trim_space stdout = [] then ret_s no_podman
     else
       bind_s (wrap_s ''decode podman info: %w'' [] (lift_s (ine_Podman ie stdout))) (\<lambda>i.
       ret_s \<lparr>pod_Present = True, pod_Rootless = pin_Rootless i, pod_CgroupVersion = pin_CgroupVersion i,
              pod_RootlessNetworkCmd = pin_RootlessNetworkCmd i\<rparr>))"

subsection \<open>Core and modules\<close>

definition core_script :: "bytes" where
  \<open>core_script =
     sh_lines
      [sh ''set -eu'',
       sh ''root=/var/tmp/vpsmith-execution'',
       sh ''if [ -f /var/lib/vpsmith/execution/.active ]; then root=/var/lib/vpsmith/execution; fi'',
       sh ''if [ -r /var/lib/vpsmith/inventory/core.json ]; then cat -- /var/lib/vpsmith/inventory/core.json; fi'',
       sh ''printf @`nVPSMITH_EXECUTION_PROOFS_V1`n@'',
       sh ''for proof in "$root"/proofs/*.json; do'',
       sh ''  [ -e "$proof" ] || continue'',
       sh ''  [ -f "$proof" ] && [ ! -L "$proof" ] || { echo @invalid execution proof file@ >&2; exit 51; }'',
       sh ''  name=${proof##*/}'',
       sh ''  run=${name%.json}'',
       sh ''  before=$(sha256sum -- "$proof"); before=${before%% *}'',
       sh ''  printf @PROOF`t%s`t%s`t@ "$run" "$before"'',
       sh ''  cat -- "$proof"'',
       sh ''  after=$(sha256sum -- "$proof"); after=${after%% *}'',
       sh ''  [ "$before" = "$after" ] || { echo @execution proof changed during inspection@ >&2; exit 52; }'',
       sh ''done'']\<close>

definition proofs_marker :: bytes where
  "proofs_marker = [CHR 0x0A] @ ''VPSMITH_EXECUTION_PROOFS_V1'' @ [CHR 0x0A]"

text \<open>\<open>bytes.SplitN\<close> at the first marker.\<close>

fun split_first :: "bytes \<Rightarrow> bytes \<Rightarrow> (bytes \<times> bytes) option" where
  "split_first sep [] = (if sep = [] then Some ([], []) else None)"
| "split_first sep (c # cs) =
     (if has_prefix (c # cs) sep then Some ([], drop (length sep) (c # cs))
      else map_option (\<lambda>(a, b). (c # a, b)) (split_first sep cs))"

definition core_observation ::
  "('w, 'x) ssh_env_scheme \<Rightarrow> inspect_env \<Rightarrow> ssh_session \<Rightarrow> ('w ssh_host, bytes \<times> proof_observed list) action" where
  "core_observation env ie s =
     bind_s (wrap_s ''read core inventory and execution proofs: %w'' [] (run_remote env s (as_root core_script))) (\<lambda>raw.
     case split_first proofs_marker raw of
       None \<Rightarrow> ret_s (raw, [])
     | Some (inventory, printed) \<Rightarrow>
         bind_s (lift_s (parse_execution_proof_facts (ine_Proof ie) printed)) (\<lambda>proofs. ret_s (trim_space inventory, proofs)))"

definition core_facts :: "('w, 'x) ssh_env_scheme \<Rightarrow> inspect_env \<Rightarrow> ssh_session \<Rightarrow> ('w ssh_host, core_observed) action" where
  "core_facts env ie s =
     bind_s (core_observation env ie s) (\<lambda>(raw, proofs).
     if trim_space raw = [] then
       ret_s \<lparr>coo_Present = False, coo_SourceID = [], coo_Version = [], coo_PackageSHA256 = [], coo_Running = False,
              coo_Podman = no_podman, coo_Units = [], coo_Containers = [], coo_Networks = [], coo_Caddy = no_service,
              coo_Authelia = no_service, coo_ExecutionProofs = proofs, coo_ManagedArtifacts = []\<rparr>
     else
       bind_s (wrap_s ''decode core inventory: %w'' [] (lift_s (ine_Core ie raw))) (\<lambda>i.
       bind_s (podman_facts env ie s) (\<lambda>podman.
       bind_s (map_s (unit_facts env s) (cin_Units i)) (\<lambda>units.
       bind_s (map_s (container_facts env ie s) (cin_Containers i)) (\<lambda>containers.
       bind_s (map_s (network_facts env ie s) (cin_Networks i)) (\<lambda>networks.
       bind_s (map_s (artifact_facts env s) (cin_ManagedArtifacts i)) (\<lambda>artifacts.
       bind_s (case cin_Caddy i of None \<Rightarrow> ret_s no_service | Some r \<Rightarrow> caddy_facts env ie s r) (\<lambda>caddy.
       bind_s (case cin_Authelia i of None \<Rightarrow> ret_s no_service | Some r \<Rightarrow> service_facts env ie s r) (\<lambda>authelia.
       ret_s \<lparr>coo_Present = True, coo_SourceID = cin_SourceID i, coo_Version = cin_Version i,
              coo_PackageSHA256 = cin_PackageSHA256 i, coo_Running = all_expected_running units containers,
              coo_Podman = podman, coo_Units = units, coo_Containers = containers, coo_Networks = networks, coo_Caddy = caddy,
              coo_Authelia = authelia, coo_ExecutionProofs = proofs, coo_ManagedArtifacts = artifacts\<rparr>)))))))))"

fun first_health :: "container_observed list \<Rightarrow> bytes" where
  "first_health [] = []"
| "first_health (c # cs) = (if cto_Health c \<noteq> [] then cto_Health c else first_health cs)"

definition module_entry_facts ::
  "('w, 'x) ssh_env_scheme \<Rightarrow> inspect_env \<Rightarrow> ssh_session \<Rightarrow> module_inventory \<Rightarrow> ('w ssh_host, module_observed) action" where
  "module_entry_facts env ie s i =
     also_s (lift_s (reject_if (min_InstanceID i = [] \<or> min_PackageID i = []) (Err ''module inventory entry is missing identity'')))
    (bind_s (map_s (unit_facts env s) (min_Units i)) (\<lambda>units.
     bind_s (map_s (container_facts env ie s) (min_Containers i)) (\<lambda>containers.
     bind_s (map_s (network_facts env ie s) (min_Networks i)) (\<lambda>networks.
     bind_s (map_s (artifact_facts env s) (min_ManagedArtifacts i)) (\<lambda>artifacts.
     ret_s \<lparr>moo_Present = True, moo_InstanceID = min_InstanceID i, moo_PackageID = min_PackageID i, moo_Version = min_Version i,
            moo_PackageSHA256 = min_PackageSHA256 i, moo_Running = all_expected_running units containers,
            moo_Health = first_health containers, moo_Units = units, moo_Containers = containers, moo_Networks = networks,
            moo_ManagedArtifacts = artifacts\<rparr>)))))"

definition module_facts ::
  "('w, 'x) ssh_env_scheme \<Rightarrow> inspect_env \<Rightarrow> ssh_session \<Rightarrow> ('w ssh_host, module_observed list) action" where
  "module_facts env ie s =
     bind_s (read_optional env s module_inventory_path) (\<lambda>raw.
     if trim_space raw = [] then ret_s []
     else
       bind_s (wrap_s ''decode module inventory: %w'' [] (lift_s (ine_Modules ie raw))) (\<lambda>modules.
       map_s (module_entry_facts env ie s) modules))"

subsection \<open>Networks\<close>

definition link_inventory_path :: bytes where
  "link_inventory_path = ''/var/lib/vpsmith/inventory/link-networks.json''"

definition link_facts ::
  "('w, 'x) ssh_env_scheme \<Rightarrow> inspect_env \<Rightarrow> ssh_session \<Rightarrow> ('w ssh_host, link_observed list) action" where
  "link_facts env ie s =
     bind_s (read_optional env s link_inventory_path) (\<lambda>raw.
     if trim_space raw = [] then ret_s []
     else
       bind_s (wrap_s ''decode link-network inventory: %w'' [] (lift_s (ine_Links ie raw))) (\<lambda>names.
       map_s (\<lambda>name. bind_s (network_facts env ie s name) (\<lambda>n.
         ret_s \<lparr>lko_Name = name, lko_Present = nto_Present n, lko_Subnet = [], lko_Relationship = [],
                lko_DefinitionMatches = False, lko_Members = nto_Members n\<rparr>)) names))"

definition relationship_label :: bytes where "relationship_label = ''vpsmith.relationship''"

definition listed_network :: "inspect_env \<Rightarrow> network_list_entry \<Rightarrow> network_observed result" where
  "listed_network ie e =
     bind_r (map_r (\<lambda>x. case ine_Prefix ie x of
         None \<Rightarrow> Inl (Errf ''podman network %s contains invalid subnet'' [nle_Name e]) | Some p \<Rightarrow> Inr p) (nle_Subnets e)) (\<lambda>subnets.
     Inr \<lparr>nto_Name = nle_Name e, nto_Internal = nle_Internal e, nto_Present = True, nto_Subnets = sort_key id subnets,
          nto_Relationship = trim_space (fact (nle_Labels e) relationship_label), nto_Members = []\<rparr>)"

fun listed_networks :: "inspect_env \<Rightarrow> bytes set \<Rightarrow> network_list_entry list \<Rightarrow> network_observed list result" where
  "listed_networks ie seen [] = Inr []"
| "listed_networks ie seen (e # es) =
     also_r (checks
       [reject_if (\<not> safe_object_name (nle_Name e)) (Err ''podman network list contains invalid network name''),
        reject_if (nle_Name e \<in> seen) (Errf ''podman network list contains duplicate network %s'' [nle_Name e])])
    (bind_r (listed_network ie e) (\<lambda>n. bind_r (listed_networks ie (insert (nle_Name e) seen) es) (\<lambda>ns. Inr (n # ns))))"

definition podman_networks_of :: "inspect_env \<Rightarrow> bytes \<Rightarrow> network_observed list result" where
  "podman_networks_of ie stdout =
     (if trim_space stdout = [] then Inr []
      else
        bind_r (wrap_error ''decode podman network list: %w'' [] (ine_NetworkList ie stdout)) (\<lambda>es.
        bind_r (listed_networks ie {} es) (\<lambda>ns. Inr (sort_key nto_Name ns))))"

definition all_podman_network_facts ::
  "('w, 'x) ssh_env_scheme \<Rightarrow> inspect_env \<Rightarrow> ssh_session \<Rightarrow> ('w ssh_host, network_observed list) action" where
  "all_podman_network_facts env ie s =
     bind_s (wrap_s ''list podman networks: %w'' []
       (run_remote env s ''if command -v podman >/dev/null 2>&1; then podman network ls --format json; fi'')) (\<lambda>stdout.
     lift_s (podman_networks_of ie stdout))"

definition planning_link_inventory ::
  "('w, 'x) ssh_env_scheme \<Rightarrow> inspect_env \<Rightarrow> ssh_session \<Rightarrow> ('w ssh_host, planning_link list) action" where
  "planning_link_inventory env ie s =
     bind_s (read_optional env s link_inventory_path) (\<lambda>raw.
     if trim_space raw = [] then ret_s []
     else wrap_s ''decode planning link-network inventory: %w'' [] (lift_s (ine_Planning ie raw)))"

fun check_declared :: "inspect_env \<Rightarrow> bytes set \<Rightarrow> planning_link list \<Rightarrow> unit result" where
  "check_declared ie seen [] = Inr ()"
| "check_declared ie seen (r # rs) =
     also_r (checks
       [reject_if (\<not> safe_object_name (pli_Name r) \<or> trim_space (pli_Relationship r) = [])
          (Err ''link-network inventory contains invalid identity''),
        reject_if (ine_Prefix ie (pli_Subnet r) \<noteq> Some (pli_Subnet r))
          (Errf ''link-network inventory %s contains invalid subnet'' [pli_Name r]),
        reject_if (pli_Name r \<in> seen) (Errf ''link-network inventory contains duplicate network %s'' [pli_Name r])])
      (check_declared ie (insert (pli_Name r) seen) rs)"

definition planned_link :: "network_observed list \<Rightarrow> planning_link list \<Rightarrow> link_observed \<Rightarrow> link_observed result" where
  "planned_link networks declared l =
     (case find (\<lambda>r. pli_Name r = lko_Name l) declared of
        None \<Rightarrow> Inl (Errf ''observed Link-Net %s is missing from inventory'' [lko_Name l])
      | Some r \<Rightarrow>
          if \<not> lko_Present l then Inr l
          else
            (case find (\<lambda>n. nto_Name n = lko_Name l) networks of
               None \<Rightarrow> Inr l
             | Some n \<Rightarrow>
                 if \<not> nto_Present n then Inr l
                 else
                   Inr (l\<lparr>lko_Relationship := nto_Relationship n,
                          lko_Subnet := (case nto_Subnets n of [x] \<Rightarrow> x | _ \<Rightarrow> lko_Subnet l),
                          lko_DefinitionMatches := (nto_Subnets n = [pli_Subnet r] \<and> nto_Relationship n = pli_Relationship r)\<rparr>)))"

definition plan_links ::
  "inspect_env \<Rightarrow> network_observed list \<Rightarrow> planning_link list \<Rightarrow> link_observed list \<Rightarrow> link_observed list result" where
  "plan_links ie networks declared links =
     also_r (check_declared ie {} declared) (map_r (planned_link networks declared) links)"

definition planning_network_facts ::
  "('w, 'x) ssh_env_scheme \<Rightarrow> inspect_env \<Rightarrow> ssh_session \<Rightarrow> link_observed list \<Rightarrow>
   ('w ssh_host, network_observed list \<times> link_observed list) action" where
  "planning_network_facts env ie s links =
     bind_s (all_podman_network_facts env ie s) (\<lambda>networks.
     bind_s (planning_link_inventory env ie s) (\<lambda>declared.
     bind_s (lift_s (plan_links ie networks declared links)) (\<lambda>planned. ret_s (networks, planned))))"

subsection \<open>The whole inspection\<close>

definition ssh_inspect :: "('w, 'x) ssh_env_scheme \<Rightarrow> inspect_env \<Rightarrow> ssh_session \<Rightarrow> ('w ssh_host, target_observed) action" where
  "ssh_inspect env ie s =
     bind_s (host_facts env s) (\<lambda>host.
     bind_s (cloud_init_facts env s) (\<lambda>ci.
     bind_s (if cio_Present ci \<and> cio_Status ci = ''ok'' then
         bind_s (wrap_s ''inspect primary hardening: %w'' [] (inspect_primary_hardening env s)) (\<lambda>h.
         ret_s (host\<lparr>hst_PrimaryHardening := h\<rparr>))
       else ret_s host) (\<lambda>host.
     bind_s (core_facts env ie s) (\<lambda>core.
     bind_s (module_facts env ie s) (\<lambda>modules.
     bind_s (link_facts env ie s) (\<lambda>links.
     bind_s (planning_network_facts env ie s links) (\<lambda>(networks, links).
     ret_s \<lparr>tob_ObservedAt = [], tob_Host = host, tob_CloudInit = ci, tob_Core = core, tob_Modules = modules,
            tob_PodmanNetworks = networks, tob_LinkNetworks = links, tob_ManagedArtifacts = []\<rparr>)))))))"

end
