(* ===== verification/Gateway_Codec.thy ===== *)
theory Gateway_Codec
  imports Gateway_Wire
begin

section \<open>What crosses the SSH connection\<close>

text \<open>
  The quoted arguments of a remote command reach the program as they are, the stream of secrets can be
  read back, and what the parsers of the target's output accept is what the target printed.
\<close>

subsection \<open>Words of the shell\<close>

text \<open>
  The part of the POSIX token recognition that the commands use: blanks, single quotes, backslashes and
  characters without a meaning of their own. Anything else is not a word here.
\<close>

definition inert_char :: "char \<Rightarrow> bool" where
  "inert_char c = (ascii_letter c \<or> ascii_digit c \<or> c \<in> set ''._@:-/+,%='')"

definition flush_word :: "bytes option \<Rightarrow> bytes list" where
  "flush_word w = (case w of None \<Rightarrow> [] | Some x \<Rightarrow> [x])"

definition extend_word :: "bytes option \<Rightarrow> bytes \<Rightarrow> bytes" where
  "extend_word w s = (case w of None \<Rightarrow> s | Some x \<Rightarrow> x @ s)"

fun sh_words :: "bool \<Rightarrow> bytes option \<Rightarrow> bytes \<Rightarrow> bytes list option" where
  "sh_words quoted w [] = (if quoted then None else Some (flush_word w))"
| "sh_words quoted w (c # cs) =
     (if quoted then
        (if c = CHR 0x27 then sh_words False w cs else sh_words True (Some (extend_word w [c])) cs)
      else if c = CHR '' '' then map_option ((@) (flush_word w)) (sh_words False None cs)
      else if c = CHR 0x27 then sh_words True (Some (extend_word w [])) cs
      else if c = CHR 0x5C then
        (case cs of [] \<Rightarrow> None | d # ds \<Rightarrow> sh_words False (Some (extend_word w [d])) ds)
      else if inert_char c then sh_words False (Some (extend_word w [c])) cs
      else None)"

lemma inert_plain: "inert_char c \<Longrightarrow> c \<noteq> CHR '' '' \<and> c \<noteq> CHR 0x27 \<and> c \<noteq> CHR 0x5C"
  by (auto simp: inert_char_def ascii_letter_def ascii_digit_def)

lemma sh_inert:
  assumes "list_all inert_char v"
  shows "sh_words False w (v @ rest) = sh_words False (if v = [] then w else Some (extend_word w v)) rest"
  using assms
proof (induction v arbitrary: w)
  case (Cons c v)
  then show ?case using inert_plain [of c] by (auto simp: extend_word_def split: option.split)
qed simp

lemma sh_inside:
  "sh_words True (Some x) (concat (map (\<lambda>c. if c = CHR 0x27 then quote_escape else [c]) v) @ CHR 0x27 # rest) =
   sh_words False (Some (x @ v)) rest"
  by (induction v arbitrary: x) (simp_all add: quote_escape_def extend_word_def)

lemma sh_quoted: "sh_words False w (shell_quote v @ rest) = sh_words False (Some (extend_word w v)) rest"
  using sh_inside [of "extend_word w []" v rest]
  by (cases w) (simp_all add: shell_quote_def extend_word_def)

lemma sh_space: "sh_words False (Some x) (CHR '' '' # rest) = map_option ((#) x) (sh_words False None rest)"
  by (simp add: flush_word_def) (cases "sh_words False None rest"; simp)

lemma sh_quoted_list: "sh_words False None (join_with '' '' (map shell_quote vs)) = Some vs"
proof (induction vs rule: induct_list012)
  case 1
  then show ?case by (simp add: flush_word_def)
next
  case (2 v)
  show ?case using sh_quoted [of None v "[]"] by (simp add: extend_word_def flush_word_def)
next
  case (3 v w vs)
  then show ?case using sh_quoted [of None v] by (simp add: extend_word_def sh_space del: sh_words.simps)
qed

text \<open>
  A remote command of plain words and quoted arguments is split by the shell into exactly these words
  and arguments, whatever the arguments hold: quotes, blanks, line breaks or dollar signs.
\<close>

theorem quoted_command_words:
  assumes "list_all (\<lambda>w. w \<noteq> [] \<and> list_all inert_char w) ws"
  shows "sh_words False None (join_with '' '' (ws @ map shell_quote vs)) = Some (ws @ vs)"
  using assms
proof (induction ws)
  case Nil
  then show ?case using sh_quoted_list by simp
next
  case (Cons w ws)
  then have w: "list_all inert_char w" "w \<noteq> []" and rest: "sh_words False None (join_with '' '' (ws @ map shell_quote vs)) = Some (ws @ vs)"
    by simp_all
  show ?case
  proof (cases "ws @ map shell_quote vs")
    case Nil
    then show ?thesis using sh_inert [OF w(1), of None "[]"] w(2) by (simp add: extend_word_def flush_word_def)
  next
    case (Cons x xs)
    then show ?thesis
      using sh_inert [OF w(1), of None "CHR '' '' # join_with '' '' (x # xs)"] w(2) rest
      by (simp add: extend_word_def sh_space del: sh_words.simps)
  qed
qed

theorem quoted_command_words_witness:
  "sh_words False None (join_with '' '' ([''sudo'', ''-n'', ''sh'', ''-eu'', ''-c''] @ map shell_quote [''echo $(id); it'' @ [CHR 0x27] @ ''s''])) =
     Some ([''sudo'', ''-n'', ''sh'', ''-eu'', ''-c''] @ [''echo $(id); it'' @ [CHR 0x27] @ ''s''])"
proof -
  have "list_all (\<lambda>w. w \<noteq> [] \<and> list_all inert_char w) [''sudo'', ''-n'', ''sh'', ''-eu'', ''-c'']" by code_simp
  then show ?thesis by (rule quoted_command_words)
qed

subsection \<open>The stream of secrets\<close>

text \<open>The reader of the stream: the magic line, entries with their lengths, and an empty identifier at the end.\<close>

fun read_secrets_from :: "nat \<Rightarrow> bytes \<Rightarrow> secret_value list option" where
  "read_secrets_from 0 s = None"
| "read_secrets_from (Suc n) s =
     (let k = wire_value (take 4 s); r = drop 4 s in
      if length s < 4 then None
      else if k = 0 then (if r = [] then Some [] else None)
      else
        (let l = wire_value (take 8 (drop k r)); r' = drop 8 (drop k r) in
         if length r < k + 8 \<or> length r' < l then None
         else map_option ((#) \<lparr>scv_ID = take k r, scv_Value = take l r'\<rparr>) (read_secrets_from n (drop l r'))))"

definition decode_secret_stream :: "bytes \<Rightarrow> secret_value list option" where
  "decode_secret_stream s =
     (if has_prefix s secret_stream_magic then read_secrets_from (length s) (trim_prefix s secret_stream_magic) else None)"

lemma read_secret:
  assumes "scv_ID v \<noteq> []" "length (scv_ID v) < 2 ^ 32" "length (scv_Value v) < 2 ^ 64"
  shows "read_secrets_from (Suc n) (encode_secret v @ rest) = map_option ((#) v) (read_secrets_from n rest)"
  using assms by (cases v) (simp add: encode_secret_def wire_value_bytes Let_def del: wire_bytes.simps)

lemma read_encoded:
  assumes "\<forall>v\<in>set vs. scv_ID v \<noteq> [] \<and> length (scv_ID v) < 2 ^ 32 \<and> length (scv_Value v) < 2 ^ 64" "length vs < n"
  shows "read_secrets_from n (concat (map encode_secret vs) @ wire_bytes 4 0) = Some vs"
  using assms
proof (induction vs arbitrary: n)
  case Nil
  then show ?case by (cases n) (simp_all add: wire_value_bytes Let_def del: wire_bytes.simps)
next
  case (Cons v vs)
  then obtain m where n: "n = Suc m" by (cases n) auto
  have "read_secrets_from n (encode_secret v @ concat (map encode_secret vs) @ wire_bytes 4 0) =
      map_option ((#) v) (read_secrets_from m (concat (map encode_secret vs) @ wire_bytes 4 0))"
    unfolding n using Cons.prems by (intro read_secret) auto
  then show ?case using Cons n by simp
qed

lemma encode_secret_long: "length (concat (map encode_secret vs)) \<ge> length vs"
  by (induction vs) (simp_all add: encode_secret_def del: wire_bytes.simps)

text \<open>Every list of secrets that is sent is read back as it was, no matter which bytes the values hold.\<close>

theorem secret_stream_reads:
  assumes "encode_secret_stream vs = Inr s" "\<forall>v\<in>set vs. length (scv_Value v) < 2 ^ 64"
  shows "decode_secret_stream s = Some vs"
proof -
  have ids: "\<forall>v\<in>set vs. scv_ID v \<noteq> [] \<and> length (scv_ID v) < 2 ^ 32 \<and> length (scv_Value v) < 2 ^ 64"
    using assms by (fastforce simp: encode_secret_stream_def result_simps)
  have s: "s = secret_stream_magic @ concat (map encode_secret vs) @ wire_bytes 4 0"
    using assms(1) by (auto simp: encode_secret_stream_def result_simps)
  have "length vs < length s" using encode_secret_long [of vs] by (simp add: s secret_stream_magic_def del: wire_bytes.simps)
  with ids show ?thesis by (simp add: decode_secret_stream_def s read_encoded del: wire_bytes.simps)
qed

theorem secret_stream_reads_witness:
  "\<exists>s. encode_secret_stream [\<lparr>scv_ID = ''db'', scv_Value = ''pw'' @ [CHR 0x0A]\<rparr>] = Inr s \<and>
     decode_secret_stream s = Some [\<lparr>scv_ID = ''db'', scv_Value = ''pw'' @ [CHR 0x0A]\<rparr>]"
proof -
  let ?vs = "[\<lparr>scv_ID = ''db'', scv_Value = ''pw'' @ [CHR 0x0A]\<rparr>]"
  obtain s where s: "encode_secret_stream ?vs = Inr s" by (auto simp: encode_secret_stream_def reject_if_def)
  from secret_stream_reads [OF s] show ?thesis using s by simp
qed

subsection \<open>Host keys\<close>

text \<open>The lines that count and the observation each of them gives.\<close>

definition key_line :: "bytes \<Rightarrow> bool" where
  "key_line l \<longleftrightarrow> trim_space l \<noteq> [] \<and> \<not> has_prefix (trim_space l) ''#'' \<and> length (string_fields (trim_space l)) \<ge> 3"

definition offers :: "bytes \<Rightarrow> host_key \<Rightarrow> bool" where
  "offers l k \<longleftrightarrow> key_line l \<and>
     hky_PublicKey k = string_fields (trim_space l) ! 1 @ '' '' @ string_fields (trim_space l) ! 2 \<and>
     (\<exists>blob. parse_public_key (hky_PublicKey k) = Inr (hky_Algorithm k, blob, hky_Fingerprint k))"

lemma host_keys_offered:
  assumes "host_keys ls seen = Inr keys" "distinct seen"
  shows "distinct keys \<and> set keys = set seen \<union> {k. \<exists>l\<in>set ls. offers l k}"
  using assms
proof (induction ls arbitrary: seen)
  case (Cons l0 ls)
  let ?l = "trim_space l0"
  let ?w = "string_fields ?l"
  show ?case
  proof (cases "key_line l0")
    case False
    then have "host_keys (l0 # ls) seen = host_keys ls seen" by (auto simp: key_line_def Let_def not_le)
    moreover have "\<not> offers l0 k" for k using False by (simp add: offers_def)
    ultimately show ?thesis using Cons by auto
  next
    case True
    then have skip: "\<not> (?l = [] \<or> has_prefix ?l ''#'' \<or> length ?w < 3)" by (auto simp: key_line_def)
    obtain algorithm blob fingerprint where parsed:
        "parse_public_key (?w ! 1 @ '' '' @ ?w ! 2) = Inr (algorithm, blob, fingerprint)"
      using Cons.prems(1) skip by (auto simp: Let_def result_simps)
    let ?k = "\<lparr>hky_Algorithm = algorithm, hky_PublicKey = ?w ! 1 @ '' '' @ ?w ! 2, hky_Fingerprint = fingerprint\<rparr>"
    let ?seen = "if ?k \<in> set seen then seen else seen @ [?k]"
    have "host_keys (l0 # ls) seen = host_keys ls ?seen"
      unfolding host_keys.simps Let_def parsed if_not_P [OF skip] by simp
    then have rest: "host_keys ls ?seen = Inr keys" using Cons.prems(1) by simp
    have "offers l0 k \<longleftrightarrow> k = ?k" for k
      using True parsed by (cases k) (auto simp: offers_def)
    moreover have "distinct ?seen" using Cons.prems(2) by simp
    moreover note Cons.IH [OF rest this]
    ultimately show ?thesis by auto
  qed
qed simp

lemma pick_host_key_Inr:
  assumes "pick_host_key algorithms keys = Inr k"
  shows "\<exists>before after. algorithms = before @ hky_Algorithm k # after \<and>
    filter (\<lambda>j. hky_Algorithm j = hky_Algorithm k) keys = [k] \<and> (\<forall>j\<in>set keys. hky_Algorithm j \<notin> set before)"
  using assms
proof (induction algorithms)
  case (Cons a as)
  consider "filter (\<lambda>j. hky_Algorithm j = a) keys = []" | "filter (\<lambda>j. hky_Algorithm j = a) keys = [k]"
    using Cons.prems by (auto split: list.splits)
  then show ?case
  proof cases
    case 1
    then obtain before after where *: "as = before @ hky_Algorithm k # after"
        "filter (\<lambda>j. hky_Algorithm j = hky_Algorithm k) keys = [k]" "\<forall>j\<in>set keys. hky_Algorithm j \<notin> set before"
      using Cons by auto
    have "\<forall>j\<in>set keys. hky_Algorithm j \<notin> set (a # before)" using 1 *(3) by (auto simp: filter_empty_conv)
    then show ?thesis using * by (intro exI [of _ "a # before"] exI [of _ after]) simp
  next
    case 2
    then have "k \<in> set (filter (\<lambda>j. hky_Algorithm j = a) keys)" by simp
    then have "hky_Algorithm k = a" by simp
    then show ?thesis using 2 by (intro exI [of _ "[]"] exI [of _ as]) simp
  qed
qed simp

text \<open>
  The host key that is selected was offered with this fingerprint in some line; it is the only key of
  its algorithm that was offered, and no algorithm that is preferred was offered at all.
\<close>

theorem selected_host_key:
  assumes "select_host_key raw = Inr k"
  shows "(\<exists>l\<in>set (fst (scanner_lines max_token raw)). offers l k) \<and>
    (\<exists>before after. host_key_algorithms = before @ hky_Algorithm k # after \<and>
      (\<forall>l j. l \<in> set (fst (scanner_lines max_token raw)) \<and> offers l j \<longrightarrow>
         hky_Algorithm j \<notin> set before \<and> (hky_Algorithm j = hky_Algorithm k \<longrightarrow> j = k)))"
proof -
  obtain ls whole keys where ls: "scanner_lines max_token raw = (ls, whole)" "host_keys ls [] = Inr keys"
      "pick_host_key host_key_algorithms keys = Inr k"
    using assms by (auto simp: select_host_key_def result_simps split: prod.splits)
  have keys: "set keys = {k. \<exists>l\<in>set ls. offers l k}" using host_keys_offered [OF ls(2)] by simp
  obtain before after where pick: "host_key_algorithms = before @ hky_Algorithm k # after"
      "filter (\<lambda>j. hky_Algorithm j = hky_Algorithm k) keys = [k]" "\<forall>j\<in>set keys. hky_Algorithm j \<notin> set before"
    using pick_host_key_Inr [OF ls(3)] by blast
  have "k \<in> set (filter (\<lambda>j. hky_Algorithm j = hky_Algorithm k) keys)" unfolding pick(2) by simp
  then have k: "k \<in> set keys" by simp
  have "j = k" if "j \<in> set keys" "hky_Algorithm j = hky_Algorithm k" for j
  proof -
    have "j \<in> set (filter (\<lambda>j. hky_Algorithm j = hky_Algorithm k) keys)" using that by simp
    then show ?thesis unfolding pick(2) by simp
  qed
  then show ?thesis using k pick(1,3) keys unfolding ls(1) fst_conv by blast
qed

definition scan_sample :: bytes where
  "scan_sample = ''10.0.0.1 ssh-ed25519 AAAAC3NzaC1lZDI1NTE5aw=='' @ [CHR 0x0A]"

definition blob_sample :: bytes where
  "blob_sample = [CHR 0x00, CHR 0x00, CHR 0x00, CHR 0x0B] @ ''ssh-ed25519k''"

definition key_sample :: host_key where
  "key_sample = \<lparr>hky_Algorithm = ''ssh-ed25519'', hky_PublicKey = ''ssh-ed25519 AAAAC3NzaC1lZDI1NTE5aw=='',
     hky_Fingerprint = ssh_fingerprint blob_sample\<rparr>"

lemma scanned_sample:
  "scanner_lines max_token scan_sample = ([''10.0.0.1 ssh-ed25519 AAAAC3NzaC1lZDI1NTE5aw==''], True)"
proof -
  have "scan_lines scan_sample = [''10.0.0.1 ssh-ed25519 AAAAC3NzaC1lZDI1NTE5aw=='']" by code_simp
  moreover have "drop_cr ''10.0.0.1 ssh-ed25519 AAAAC3NzaC1lZDI1NTE5aw=='' = ''10.0.0.1 ssh-ed25519 AAAAC3NzaC1lZDI1NTE5aw==''" by code_simp
  ultimately show ?thesis by (simp add: scanner_lines_def max_token_def)
qed

lemma selected_sample: "select_host_key scan_sample = Inr key_sample"
proof -
  let ?l = "''10.0.0.1 ssh-ed25519 AAAAC3NzaC1lZDI1NTE5aw==''"
  have words: "trim_space ?l = ?l" "string_fields ?l = [''10.0.0.1'', ''ssh-ed25519'', ''AAAAC3NzaC1lZDI1NTE5aw=='']"
      "string_fields ''ssh-ed25519 AAAAC3NzaC1lZDI1NTE5aw=='' = [''ssh-ed25519'', ''AAAAC3NzaC1lZDI1NTE5aw=='']"
      "std_encode blob_sample = ''AAAAC3NzaC1lZDI1NTE5aw==''" "read_ssh_string blob_sample = Inr (''ssh-ed25519'', ''k'')"
      "\<not> has_prefix ?l ''#''"
    by code_simp+
  note decoded = base64_round [OF alphabets(1), of True blob_sample, unfolded words(4)]
  have "parse_public_key ''ssh-ed25519 AAAAC3NzaC1lZDI1NTE5aw=='' = Inr (''ssh-ed25519'', blob_sample, ssh_fingerprint blob_sample)"
    by (simp add: parse_public_key_def words decoded reject_if_def)
  then show ?thesis
    using words by (simp add: select_host_key_def scanned_sample host_key_algorithms_def key_sample_def reject_if_def)
qed

theorem selected_host_key_witness:
  "\<exists>l\<in>set (fst (scanner_lines max_token scan_sample)). offers l key_sample"
  using selected_host_key [OF selected_sample] by blast

subsection \<open>Proofs of executions\<close>

lemma proof_lines_sound:
  assumes "proof_lines decode ls seen = Inr proofs"
  shows "distinct (map pro_ID proofs) \<and> pro_ID ` set proofs \<inter> seen = {} \<and>
    (\<forall>p\<in>set proofs. \<exists>l\<in>set ls. \<exists>document d. tab_fields4 l = Some (''PROOF'', pro_ID p, pro_SHA256 p, document) \<and>
       sha256_hex (document @ [CHR 0x0A]) = pro_SHA256 p \<and> decode document = Inr d \<and> pdo_RunID d = pro_ID p \<and>
       pdo_BundleID d = pro_BundleID p \<and> pdo_BundleSHA256 d = pro_BundleSHA256 p \<and> pdo_Kind d = pro_Kind p \<and>
       pdo_Status d = pro_Outcome p \<and> pro_Outcome p \<in> {''success'', ''failed''})"
  using assms
proof (induction ls arbitrary: seen proofs)
  case (Cons l ls)
  show ?case
  proof (cases "trim_space l = []")
    case True
    then show ?thesis using Cons.IH [of seen proofs] Cons.prems by auto
  next
    case False
    then obtain tag run dg document where l: "tab_fields4 l = Some (tag, run, dg, document)"
      using Cons.prems by (auto split: option.splits)
    obtain d rest where d: "tag = ''PROOF''" "run \<notin> seen" "sha256_hex (document @ [CHR 0x0A]) = dg" "decode document = Inr d"
        "pdo_RunID d = run" "proof_lines decode ls (insert run seen) = Inr rest"
        "proofs = (if pdo_Status d \<noteq> ''success'' \<and> pdo_Status d \<noteq> ''failed'' then rest
           else \<lparr>pro_ID = run, pro_BundleID = pdo_BundleID d, pro_BundleSHA256 = pdo_BundleSHA256 d,
                  pro_Kind = pdo_Kind d, pro_Outcome = pdo_Status d, pro_SHA256 = dg\<rparr> # rest)"
      using Cons.prems False l by (auto simp: result_simps split: if_split_asm)
    note IH = Cons.IH [OF d(6)]
    show ?thesis using IH l d(1-5) unfolding d(7) by (auto 0 3)
  qed
qed simp

text \<open>
  Every proof that is reported was printed by the target as a document with the digest that stands
  beside it, names this run and its outcome, and no run is reported twice.
\<close>

theorem reported_proofs:
  assumes "parse_execution_proof_facts decode raw = Inr proofs"
  shows "distinct (map pro_ID proofs) \<and>
    (\<forall>p\<in>set proofs. \<exists>l\<in>set (fst (scanner_lines observation_limit raw)). \<exists>document d.
       tab_fields4 l = Some (''PROOF'', pro_ID p, pro_SHA256 p, document) \<and>
       sha256_hex (document @ [CHR 0x0A]) = pro_SHA256 p \<and> decode document = Inr d \<and> pdo_RunID d = pro_ID p \<and>
       pdo_BundleID d = pro_BundleID p \<and> pdo_BundleSHA256 d = pro_BundleSHA256 p \<and> pdo_Kind d = pro_Kind p \<and>
       pdo_Status d = pro_Outcome p \<and> pro_Outcome p \<in> {''success'', ''failed''})"
proof -
  obtain ls whole where ls: "scanner_lines observation_limit raw = (ls, whole)" "proof_lines decode ls {} = Inr proofs"
    using assms by (auto simp: parse_execution_proof_facts_def result_simps split: prod.splits)
  show ?thesis using proof_lines_sound [OF ls(2)] unfolding ls(1) fst_conv by blast
qed

text \<open>An instance with one document.\<close>

lemma cut_at_sep: "sep \<notin> set p \<Longrightarrow> cut_at sep (p @ sep # r) = Some (p, r)"
  by (induction p) auto

definition sum_sample :: bytes where
  "sum_sample = sha256_hex (''{}'' @ [CHR 0x0A])"

definition proof_line_sample :: bytes where
  "proof_line_sample = ''PROOF'' @ [CHR 0x09] @ ''r1'' @ [CHR 0x09] @ sum_sample @ [CHR 0x09] @ ''{}''"

definition document_sample :: proof_document where
  "document_sample = \<lparr>pdo_FormatVersion = 1, pdo_RunID = ''r1'', pdo_BundleID = ''b1'',
     pdo_BundleSHA256 = replicate 64 CHR ''a'', pdo_Kind = ''install'', pdo_Status = ''success''\<rparr>"

lemma sample_line: "tab_fields4 proof_line_sample = Some (''PROOF'', ''r1'', sum_sample, ''{}'')"
proof -
  have "CHR 0x09 \<notin> set sum_sample" using hex_encode_chars [of "CHR 0x09"] by (auto simp: sum_sample_def)
  then show ?thesis
    using cut_at_sep [of "CHR 0x09" "''PROOF''" "''r1'' @ [CHR 0x09] @ sum_sample @ [CHR 0x09] @ ''{}''"]
      cut_at_sep [of "CHR 0x09" "''r1''" "sum_sample @ [CHR 0x09] @ ''{}''"] cut_at_sep [of "CHR 0x09" sum_sample "''{}''"]
    by (simp add: tab_fields4_def proof_line_sample_def)
qed

lemma sample_scanned: "scanner_lines observation_limit proof_line_sample = ([proof_line_sample], True)"
proof -
  have "CHR 0x0A \<notin> set proof_line_sample" "CHR 0x0D \<noteq> last proof_line_sample"
    using hex_encode_chars [of "CHR 0x0A"] by (auto simp: sum_sample_def proof_line_sample_def)
  moreover have "length proof_line_sample < observation_limit"
    by (simp add: proof_line_sample_def sum_sample_def observation_limit_def)
  moreover have "proof_line_sample \<noteq> []" by (simp add: proof_line_sample_def)
  ultimately show ?thesis
    by (simp add: scanner_lines_def scan_lines_def split_on_absent drop_cr_def)
qed

theorem reported_proofs_witness:
  "\<exists>p. parse_execution_proof_facts (\<lambda>_. Inr document_sample) proof_line_sample = Inr [p] \<and>
     (\<exists>document. tab_fields4 proof_line_sample = Some (''PROOF'', pro_ID p, pro_SHA256 p, document) \<and>
       sha256_hex (document @ [CHR 0x0A]) = pro_SHA256 p)"
proof -
  have "trim_space proof_line_sample = proof_line_sample"
    using trim_space_graph [of "CHR ''P''" "CHR ''}''" "''ROOF'' @ [CHR 0x09] @ ''r1'' @ [CHR 0x09] @ sum_sample @ [CHR 0x09] @ ''{''"]
    by (simp add: proof_line_sample_def graph_char_def)
  then have line: "trim_space proof_line_sample \<noteq> []" by (simp add: proof_line_sample_def)
  have ids: "safe_execution_id ''r1''" "safe_execution_id ''b1''" "hex64 (replicate 64 CHR ''a'')" "trim_space ''install'' = ''install''"
    by code_simp+
  have sum: "hex64 sum_sample"
  proof -
    let ?P = "\<lambda>c. ascii_digit c \<or> CHR ''a'' \<le> c \<and> c \<le> CHR ''f''"
    have "list_all ?P ''0123456789abcdef''" by code_simp
    then have "?P c" if "c \<in> set sum_sample" for c
      unfolding list_all_iff by (rule bspec [OF _ hex_encode_chars [OF that [unfolded sum_sample_def]]])
    then have "list_all ?P sum_sample" unfolding list_all_iff by blast
    then show ?thesis by (simp add: hex64_def sum_sample_def)
  qed
  let ?p = "\<lparr>pro_ID = ''r1'', pro_BundleID = ''b1'', pro_BundleSHA256 = replicate 64 CHR ''a'', pro_Kind = ''install'',
     pro_Outcome = ''success'', pro_SHA256 = sum_sample\<rparr>"
  have dg: "sha256_hex [CHR ''{'', CHR ''}'', CHR 0x0A] = sum_sample" by (simp add: sum_sample_def)
  have "parse_execution_proof_facts (\<lambda>_. Inr document_sample) proof_line_sample = Inr [?p]"
    using line ids sum dg
    by (simp add: parse_execution_proof_facts_def sample_scanned sample_line reject_if_def wrap_error_def document_sample_def)
  from reported_proofs [OF this] this show ?thesis unfolding sample_scanned by (intro exI [of _ ?p]) auto
qed

end
