(* ===== verification/Gateway_Commands.thy ===== *)
theory Gateway_Commands
  imports Gateway_Inspect Gateway_Codec
begin

section \<open>What the commands do and what their output means\<close>

text \<open>
  The commands that control a module, word by word and in their order; the report of a healthcheck, which
  fits the buffer of the scanner that reads it; and the link networks that count as unchanged.
\<close>

subsection \<open>Starting and stopping units\<close>

definition unit_words :: "bytes \<Rightarrow> unit_ref \<Rightarrow> bytes list" where
  "unit_words verb u =
     (if unr_Scope u = ''system'' then [''sudo'', ''-n'', ''systemctl'', verb, unr_Name u]
      else [''systemctl'', ''--user'', verb, unr_Name u])"

definition planned_words :: "runtime_action \<Rightarrow> unit_ref list \<Rightarrow> bytes list list" where
  "planned_words a us =
     (case a of
        Runtime_Start \<Rightarrow> map (unit_words ''start'') us
      | Runtime_Stop \<Rightarrow> map (unit_words ''stop'') (rev us)
      | Runtime_Restart \<Rightarrow> map (unit_words ''stop'') (rev us) @ map (unit_words ''start'') us
      | Other_Action x \<Rightarrow> [])"

lemma inert_words:
  "list_all (\<lambda>w. w \<noteq> [] \<and> list_all inert_char w)
     [''systemctl'', ''--user'', ''start'', ''stop'', ''sudo'', ''-n'']"
  by code_simp

lemma unit_command_words:
  assumes "runtime_unit_command verb u = Inr c"
  shows "sh_words False None c = Some (unit_words verb u)"
proof -
  have verb: "verb \<in> {''start'', ''stop''}" using assms by (auto simp: runtime_unit_command_def result_simps)
  have ok: "list_all (\<lambda>w. w \<noteq> [] \<and> list_all inert_char w) ws"
    if "set ws \<subseteq> set [''systemctl'', ''--user'', ''start'', ''stop'', ''sudo'', ''-n'']" for ws
    using that inert_words unfolding list_all_iff by blast
  show ?thesis
  proof (cases "unr_Scope u = ''system''")
    case True
    then have c: "c = join_with '' '' ([''sudo'', ''-n'', ''systemctl'', verb] @ map shell_quote [unr_Name u])"
      using assms by (auto simp: runtime_unit_command_def result_simps)
    show ?thesis
      unfolding c using True verb by (subst quoted_command_words [OF ok]) (auto simp: unit_words_def)
  next
    case False
    then have c: "c = join_with '' '' ([''systemctl'', ''--user'', verb] @ map shell_quote [unr_Name u])"
      using assms by (auto simp: runtime_unit_command_def result_simps split: if_splits)
    show ?thesis
      unfolding c using False verb by (subst quoted_command_words [OF ok]) (auto simp: unit_words_def)
  qed
qed

lemma unit_commands_words:
  "list_all2 (\<lambda>u c. runtime_unit_command verb u = Inr c) us cs \<Longrightarrow> map (sh_words False None) cs = map (Some \<circ> unit_words verb) us"
  by (induction rule: list_all2_induct) (simp_all add: unit_command_words)

text \<open>
  The commands of a start, stop or restart are, as the shell splits them, one \<open>systemctl\<close> command for
  each inventoried unit: started in the order of the inventory, stopped in the reverse order, and for a
  restart all of them stopped before the first is started again.
\<close>

theorem control_order:
  assumes "unit_commands a us = Inr cs"
  shows "map (sh_words False None) cs = map Some (planned_words a us)"
  using assms
  by (cases a) (auto simp: unit_commands_def planned_words_def result_simps dest!: unit_commands_words)

theorem control_order_witness:
  "map (sh_words False None) [''systemctl --user stop '' @ shell_quote ''b.service'', ''sudo -n systemctl stop '' @ shell_quote ''a.service'',
     ''sudo -n systemctl start '' @ shell_quote ''a.service'', ''systemctl --user start '' @ shell_quote ''b.service''] =
   map Some (planned_words Runtime_Restart [\<lparr>unr_Name = ''a.service'', unr_Scope = ''system''\<rparr>, \<lparr>unr_Name = ''b.service'', unr_Scope = []\<rparr>])"
proof (rule control_order)
  have "safe_object_name ''a.service''" "safe_object_name ''b.service''" by code_simp+
  then show "unit_commands Runtime_Restart
      [\<lparr>unr_Name = ''a.service'', unr_Scope = ''system''\<rparr>, \<lparr>unr_Name = ''b.service'', unr_Scope = []\<rparr>] =
    Inr [''systemctl --user stop '' @ shell_quote ''b.service'', ''sudo -n systemctl stop '' @ shell_quote ''a.service'',
     ''sudo -n systemctl start '' @ shell_quote ''a.service'', ''systemctl --user start '' @ shell_quote ''b.service'']"
    by (simp add: unit_commands_def runtime_unit_command_def)
qed

subsection \<open>The report of a healthcheck\<close>

text \<open>
  The script that bounds a healthcheck, as a program of a small shell. \<open>script_text\<close> writes a program
  out; \<open>run_script\<close> executes it. The check itself is a parameter: what \<open>timeout 10s sh -c\<close> gives for a
  command, an exit status and the two outputs. The tools of the script (\<open>mktemp\<close>, \<open>head\<close>, \<open>base64\<close>, \<open>tr\<close>,
  \<open>printf\<close>, \<open>rm\<close>) succeed; \<open>base64\<close> breaks its output into lines of 76 characters, as the GNU tool does.
\<close>

datatype stage = Head_Of nat bytes | Base64_Tool | Delete_Chars bytes

datatype script_command =
    Set_Flags bytes
  | Umask_Of bytes
  | Assign_Temp bytes
  | Define_Cleanup "bytes list"
  | Trap_Cleanup
  | Run_Limited bytes bytes bytes
  | Assign_Status bytes
  | Print_Of bytes "bytes list"
  | Pipe_Of "stage list"

type_synonym script = "script_command list list"

definition use_var :: "bytes \<Rightarrow> bytes" where
  "use_var v = [CHR 0x22] @ ''$'' @ v @ [CHR 0x22]"

fun stage_text :: "stage \<Rightarrow> bytes" where
  "stage_text (Head_Of n v) = ''head -c '' @ decimal n @ '' '' @ use_var v"
| "stage_text Base64_Tool = ''base64''"
| "stage_text (Delete_Chars f) = sh ''tr -d @'' @ f @ sh ''@''"

fun command_text :: "script_command \<Rightarrow> bytes" where
  "command_text (Set_Flags f) = ''set '' @ f"
| "command_text (Umask_Of m) = ''umask '' @ m"
| "command_text (Assign_Temp v) = v @ ''=$(mktemp)''"
| "command_text (Define_Cleanup vs) = ''cleanup() { rm -f -- '' @ join_with '' '' (map use_var vs) @ ''; }''"
| "command_text Trap_Cleanup = ''trap cleanup EXIT HUP INT TERM''"
| "command_text (Run_Limited w o' e) = ''timeout 10s sh -c '' @ w @ '' >'' @ use_var o' @ '' 2>'' @ use_var e"
| "command_text (Assign_Status v) = v @ ''=$?''"
| "command_text (Print_Of f vs) = ''printf '' @ join_with '' '' ((sh ''@'' @ f @ sh ''@'') # map use_var vs)"
| "command_text (Pipe_Of stages) = join_with '' | '' (map stage_text stages)"

definition script_text :: "script \<Rightarrow> bytes" where
  "script_text s = sh_lines (map (\<lambda>l. join_with ''; '' (map command_text l)) s)"

text \<open>The program; \<open>`\<close> in \<open>sh\<close> stands for a backslash.\<close>

definition health_script :: "bytes \<Rightarrow> script" where
  "health_script command =
     [[Set_Flags ''-eu''], [Umask_Of ''077''], [Assign_Temp ''out''], [Assign_Temp ''err''],
      [Define_Cleanup [''out'', ''err'']], [Trap_Cleanup], [Set_Flags ''+e''],
      [Run_Limited (shell_quote command) ''out'' ''err''], [Assign_Status ''code''], [Set_Flags ''-e''],
      [Print_Of (sh ''CODE`t%s`n'') [''code'']],
      [Print_Of (sh ''STDOUT`t'') [], Pipe_Of [Head_Of health_capture ''out'', Base64_Tool, Delete_Chars (sh ''`n'')],
       Print_Of (sh ''`n'') []],
      [Print_Of (sh ''STDERR`t'') [], Pipe_Of [Head_Of health_capture ''err'', Base64_Tool, Delete_Chars (sh ''`n'')],
       Print_Of (sh ''`n'') []]]"

lemma health_script_text: "script_text (health_script command) = bounded_healthcheck_script command"
  by (simp add: script_text_def health_script_def bounded_healthcheck_script_def use_var_def sh_def)

record shell_state =
  shs_Vars :: "bytes \<Rightarrow> bytes"
  shs_Files :: "bytes \<Rightarrow> bytes option"
  shs_Temps :: "bytes list"
  shs_Status :: nat
  shs_Strict :: bool
  shs_Stopped :: bool
  shs_Cleanup :: "bytes list"
  shs_Trapped :: bool
  shs_Printed :: bytes

definition escape_char :: "char \<Rightarrow> bytes" where
  "escape_char c = (if c = CHR ''t'' then [CHR 0x09] else if c = CHR ''n'' then [CHR 0x0A] else [CHR 0x5C, c])"

fun print_format :: "bytes \<Rightarrow> bytes list \<Rightarrow> bytes" where
  "print_format (c # d # f) vs =
     (if c = CHR 0x5C then escape_char d @ print_format f vs
      else if c = CHR ''%'' \<and> d = CHR ''s'' then
        (case vs of [] \<Rightarrow> print_format f [] | v # vs' \<Rightarrow> v @ print_format f vs')
      else c # print_format (d # f) vs)"
| "print_format f vs = f"

function base64_lines :: "bytes \<Rightarrow> bytes" where
  "base64_lines s = (if s = [] then [] else take 76 s @ [CHR 0x0A] @ base64_lines (drop 76 s))"
  by pat_completeness auto
termination by (relation "measure length") auto

declare base64_lines.simps [simp del]

fun run_stage :: "shell_state \<Rightarrow> stage \<Rightarrow> bytes \<Rightarrow> bytes" where
  "run_stage st (Head_Of n v) input = take n (case shs_Files st (shs_Vars st v) of Some d \<Rightarrow> d | None \<Rightarrow> [])"
| "run_stage st Base64_Tool input = base64_lines (std_encode input)"
| "run_stage st (Delete_Chars f) input = filter (\<lambda>c. c \<notin> set (print_format f [])) input"

fun run_command :: "(bytes \<Rightarrow> nat \<times> bytes \<times> bytes) \<Rightarrow> script_command \<Rightarrow> shell_state \<Rightarrow> shell_state" where
  "run_command check (Set_Flags f) st =
     st\<lparr>shs_Strict := (if CHR ''e'' \<in> set f then hd f = CHR ''-'' else shs_Strict st)\<rparr>"
| "run_command check (Umask_Of m) st = st"
| "run_command check (Assign_Temp v) st =
     (case shs_Temps st of
        [] \<Rightarrow> st\<lparr>shs_Stopped := True\<rparr>
      | t # ts \<Rightarrow> st\<lparr>shs_Vars := (shs_Vars st)(v := t), shs_Files := (shs_Files st)(t \<mapsto> []), shs_Temps := ts\<rparr>)"
| "run_command check (Define_Cleanup vs) st = st\<lparr>shs_Cleanup := vs\<rparr>"
| "run_command check Trap_Cleanup st = st\<lparr>shs_Trapped := True\<rparr>"
| "run_command check (Run_Limited w o' e) st =
     (case sh_words False None w of
        Some [c] \<Rightarrow>
          (case check c of (code, out, err) \<Rightarrow>
             st\<lparr>shs_Files := (shs_Files st)(shs_Vars st o' \<mapsto> out, shs_Vars st e \<mapsto> err), shs_Status := code,
                shs_Stopped := (shs_Strict st \<and> code \<noteq> 0)\<rparr>)
      | _ \<Rightarrow> st\<lparr>shs_Stopped := True\<rparr>)"
| "run_command check (Assign_Status v) st = st\<lparr>shs_Vars := (shs_Vars st)(v := decimal (shs_Status st))\<rparr>"
| "run_command check (Print_Of f vs) st =
     st\<lparr>shs_Printed := shs_Printed st @ print_format f (map (shs_Vars st) vs)\<rparr>"
| "run_command check (Pipe_Of stages) st =
     st\<lparr>shs_Printed := shs_Printed st @ fold (run_stage st) stages []\<rparr>"

definition run_script :: "(bytes \<Rightarrow> nat \<times> bytes \<times> bytes) \<Rightarrow> bytes list \<Rightarrow> script \<Rightarrow> shell_state" where
  "run_script check temps s =
     (let st = fold (\<lambda>c st. if shs_Stopped st then st else run_command check c st) (concat s)
        \<lparr>shs_Vars = (\<lambda>v. []), shs_Files = Map.empty, shs_Temps = temps, shs_Status = 0, shs_Strict = False, shs_Stopped = False,
         shs_Cleanup = [], shs_Trapped = False, shs_Printed = []\<rparr>
      in if shs_Trapped st then st\<lparr>shs_Files := fold (\<lambda>v fs. fs(shs_Vars st v := None)) (shs_Cleanup st) (shs_Files st)\<rparr> else st)"

text \<open>What the script prints for an exit code and the two outputs of the check.\<close>

definition health_report :: "nat \<Rightarrow> bytes \<Rightarrow> bytes \<Rightarrow> bytes" where
  "health_report code out err =
     sh_lines
      [''CODE'' @ [CHR 0x09] @ decimal code,
       ''STDOUT'' @ [CHR 0x09] @ std_encode (take health_capture out),
       ''STDERR'' @ [CHR 0x09] @ std_encode (take health_capture err),
       []]"

lemma length_encode: "3 * length (base64_encode alphabet padded s) \<le> 4 * length s + 8"
proof (induction alphabet padded s rule: base64_encode.induct)
  case (4 alphabet padded a b c rest)
  from 4 [OF refl refl refl] show ?case by (simp add: Let_def)
qed (simp_all add: Let_def padding_def)

lemma encode_visible: "c \<in> set (std_encode s) \<Longrightarrow> graph_char c"
proof -
  have "list_all graph_char std_alphabet" "graph_char CHR ''=''" by code_simp+
  then show "c \<in> set (std_encode s) \<Longrightarrow> graph_char c"
    using encode_chars [OF alphabets(1), of c True s] unfolding list_all_iff by blast
qed

lemma encode_line: "drop_cr (t @ [CHR 0x09] @ std_encode s) = t @ [CHR 0x09] @ std_encode s" "CHR 0x0A \<notin> set (std_encode s)"
proof -
  have no: "CHR 0x0D \<notin> set (std_encode s)" "CHR 0x0A \<notin> set (std_encode s)"
    using encode_visible [of "CHR 0x0D" s] encode_visible [of "CHR 0x0A" s] by (auto simp: graph_char_def)
  then show "CHR 0x0A \<notin> set (std_encode s)" by blast
  show "drop_cr (t @ [CHR 0x09] @ std_encode s) = t @ [CHR 0x09] @ std_encode s"
  proof (cases "std_encode s = []")
    case False
    then have "last (std_encode s) \<noteq> CHR 0x0D" using no(1) last_in_set [OF False] by metis
    with False show ?thesis by (simp add: drop_cr_def)
  qed (simp add: drop_cr_def)
qed

lemma decimal_line: "CHR 0x0A \<notin> set (decimal n)" "drop_cr (t @ [CHR 0x09] @ decimal n) = t @ [CHR 0x09] @ decimal n" "decimal n \<noteq> []"
  "list_all ascii_digit (decimal n)" "\<not> has_prefix (decimal n) ''-''" "\<not> has_prefix (decimal n) ''+''"
proof -
  have dig: "list_all (\<lambda>c. ascii_digit c \<and> c \<noteq> CHR 0x0A \<and> c \<noteq> CHR 0x0D \<and> c \<noteq> CHR ''-'' \<and> c \<noteq> CHR ''+'') ''0123456789''"
    by code_simp
  have all: "ascii_digit c \<and> c \<noteq> CHR 0x0A \<and> c \<noteq> CHR 0x0D \<and> c \<noteq> CHR ''-'' \<and> c \<noteq> CHR ''+''" if "c \<in> set (decimal n)" for c
    by (rule bspec [OF dig [unfolded list_all_iff] decimal_digits [OF that]])
  show ne: "decimal n \<noteq> []" by (subst decimal.simps) simp
  show "CHR 0x0A \<notin> set (decimal n)" "list_all ascii_digit (decimal n)" using all by (auto simp: list_all_iff)
  have "last (decimal n) \<noteq> CHR 0x0D" "hd (decimal n) \<noteq> CHR ''-''" "hd (decimal n) \<noteq> CHR ''+''"
    using all [OF last_in_set [OF ne]] all [OF hd_in_set [OF ne]] by auto
  then show "drop_cr (t @ [CHR 0x09] @ decimal n) = t @ [CHR 0x09] @ decimal n" "\<not> has_prefix (decimal n) ''-''"
      "\<not> has_prefix (decimal n) ''+''"
    using ne by (cases "decimal n"; simp add: drop_cr_def has_prefix_def)+
qed

lemma parse_decimal: "n < 2 ^ 63 \<Longrightarrow> parse_int64 (decimal n) = Some (int n)"
  using decimal_line(3-6) [of n] by (simp add: parse_int64_def)

lemma short_encode: "length (std_encode (take health_capture s)) < 65000"
  using length_encode [of std_alphabet True "take health_capture s"] by (simp add: health_capture_def)

lemma short_decimal: "code < 256 \<Longrightarrow> length (decimal code) < 4"
  by (subst decimal.simps, subst decimal.simps, subst decimal.simps) auto

lemma report_read:
  assumes "code < 256"
  shows "parse_healthcheck_output (health_report code out err) =
    Inr (int code, take health_capture out, take health_capture err)"
proof -
  let ?a = "''CODE'' @ [CHR 0x09] @ decimal code" and ?b = "''STDOUT'' @ [CHR 0x09] @ std_encode (take health_capture out)"
    and ?c = "''STDERR'' @ [CHR 0x09] @ std_encode (take health_capture err)"
  have free: "\<forall>p\<in>set [?a, ?b, ?c, []]. CHR 0x0A \<notin> set p"
    using decimal_line(1) encode_line(2) by simp
  have lines: "scan_lines (health_report code out err) = [?a, ?b, ?c]"
    unfolding scan_lines_def health_report_def sh_lines_def by (subst split_join [OF _ free]) simp_all
  have short: "length ?a < max_token" "length ?b < max_token" "length ?c < max_token"
    using short_encode [of out] short_encode [of err] short_decimal [OF assms] by (simp_all add: max_token_def)
  have scanned: "scanner_lines max_token (health_report code out err) = ([?a, ?b, ?c], True)"
    using short decimal_line(2) [of "''CODE''"] encode_line(1) [of "''STDOUT''"] encode_line(1) [of "''STDERR''"]
    by (simp add: scanner_lines_def lines)
  have "parse_tab_facts (health_report code out err) =
      Inr [(''CODE'', decimal code), (''STDOUT'', std_encode (take health_capture out)), (''STDERR'', std_encode (take health_capture err))]"
    by (simp add: parse_tab_facts_def scanned)
  then show ?thesis
    using parse_decimal [of code] assms decimal_line(3) [of code] base64_round [OF alphabets(1)]
    by (simp add: parse_healthcheck_output_def decoded_fact_def fact_def)
qed

lemma lines_joined: "filter (\<lambda>c. c \<noteq> CHR 0x0A) (base64_lines s) = filter (\<lambda>c. c \<noteq> CHR 0x0A) s"
proof (induction s rule: base64_lines.induct)
  case (1 s)
  have "filter (\<lambda>c. c \<noteq> CHR 0x0A) s = filter (\<lambda>c. c \<noteq> CHR 0x0A) (take 76 s) @ filter (\<lambda>c. c \<noteq> CHR 0x0A) (drop 76 s)"
    unfolding filter_append [symmetric] append_take_drop_id ..
  then show ?case using 1 by (subst base64_lines.simps) (cases "s = []"; simp)
qed

lemma encoded_unwrapped: "filter (\<lambda>c. c \<noteq> CHR 0x0A) (base64_lines (std_encode s)) = std_encode s"
  unfolding lines_joined filter_id_conv using encode_line(2) [of s] by metis

lemma health_script_run:
  assumes "check command = (code, out, err)" and "t \<noteq> t'"
  shows "shs_Printed (run_script check [t, t'] (health_script command)) = health_report code out err"
    "shs_Files (run_script check [t, t'] (health_script command)) = Map.empty"
proof -
  have word: "sh_words False None (shell_quote command) = Some [command]" using sh_quoted_list [of "[command]"] by simp
  show "shs_Printed (run_script check [t, t'] (health_script command)) = health_report code out err"
    "shs_Files (run_script check [t, t'] (health_script command)) = Map.empty"
    using assms
    by (simp_all add: run_script_def health_script_def word Let_def sh_def escape_char_def encoded_unwrapped health_report_def
        sh_lines_def fun_upd_twist)
qed

text \<open>
  C40: A healthcheck is reported as it went. The script that is sent is a program that runs the check with
  its two outputs in two new files, prints the exit code and the first 16 KiB of each output, and removes
  the files; and whatever the check does and prints, what the script prints is read back as exactly this
  exit code and these bytes. Its lines stay below the buffer of the scanner, and a check that fails does
  not stop the script.
\<close>

theorem health_report_read:
  assumes "check command = (code, out, err)" and "code < 256" and "t \<noteq> t'"
  shows "script_text (health_script command) = bounded_healthcheck_script command \<and>
    (let st = run_script check [t, t'] (health_script command) in
       parse_healthcheck_output (shs_Printed st) = Inr (int code, take health_capture out, take health_capture err) \<and>
       shs_Files st = Map.empty)"
proof -
  have "shs_Printed (run_script check [t, t'] (health_script command)) = health_report code out err"
    by (rule health_script_run(1)) (rule assms)+
  moreover have "shs_Files (run_script check [t, t'] (health_script command)) = Map.empty"
    by (rule health_script_run(2)) (rule assms)+
  ultimately show ?thesis using report_read [OF assms(2), of out err] health_script_text by (simp add: Let_def)
qed

theorem health_report_read_witness:
  "parse_healthcheck_output
     (shs_Printed (run_script (\<lambda>c. (7, [], ''refused'')) [''/tmp/a'', ''/tmp/b''] (health_script ''nc -z db 5432''))) =
   Inr (7, [], ''refused'')"
  using health_report_read [of "\<lambda>c. (7, [], ''refused'')" "''nc -z db 5432''" 7 "[]" "''refused''" "''/tmp/a''" "''/tmp/b''"]
  by (simp add: health_capture_def Let_def)

subsection \<open>Link networks that count as unchanged\<close>

text \<open>
  A link network is reported as the one that was installed only if the inventory names it, the
  inventory has no two entries of its name and only canonical subnets, and Podman shows a network of
  its name with exactly the one subnet and the relationship of the inventory.
\<close>

theorem matching_links_real:
  assumes "plan_links ie networks declared links = Inr planned"
    and "l \<in> set planned" "lko_DefinitionMatches l" "\<forall>k\<in>set links. \<not> lko_DefinitionMatches k"
  shows "distinct (map pli_Name declared) \<and>
    (\<exists>r\<in>set declared. pli_Name r = lko_Name l \<and> ine_Prefix ie (pli_Subnet r) = Some (pli_Subnet r) \<and>
      lko_Subnet l = pli_Subnet r \<and> lko_Relationship l = pli_Relationship r \<and>
      (\<exists>n\<in>set networks. nto_Name n = lko_Name l \<and> nto_Present n \<and> nto_Subnets n = [pli_Subnet r] \<and>
         nto_Relationship n = pli_Relationship r))"
proof -
  have checked: "check_declared ie seen ds = Inr () \<Longrightarrow> distinct (map pli_Name ds) \<and> pli_Name ` set ds \<inter> seen = {} \<and>
      (\<forall>r\<in>set ds. ine_Prefix ie (pli_Subnet r) = Some (pli_Subnet r))" for seen ds
    by (induction ie seen ds rule: check_declared.induct) (auto simp: result_simps)
  have made: "list_all2 Q ks ls \<Longrightarrow> m \<in> set ls \<Longrightarrow> \<exists>k\<in>set ks. Q k m" for Q ks ls and m :: link_observed
    by (induction rule: list_all2_induct) auto
  obtain k where k: "k \<in> set links" "planned_link networks declared k = Inr l"
    using made [of "\<lambda>k m. planned_link networks declared k = Inr m" links planned l] assms(1,2)
    by (auto simp: plan_links_def result_simps)
  with assms(3,4) obtain r n where found: "find (\<lambda>r. pli_Name r = lko_Name k) declared = Some r"
      "find (\<lambda>n. nto_Name n = lko_Name k) networks = Some n" and
      facts: "nto_Present n" "nto_Subnets n = [pli_Subnet r]"
      "nto_Relationship n = pli_Relationship r" "lko_Name l = lko_Name k" "lko_Subnet l = pli_Subnet r"
      "lko_Relationship l = pli_Relationship r"
    by (auto simp: planned_link_def split: option.splits if_splits)
  have "check_declared ie {} declared = Inr ()" using assms(1) by (auto simp: plan_links_def result_simps)
  from checked [OF this] have ok: "distinct (map pli_Name declared)" "\<forall>r\<in>set declared. ine_Prefix ie (pli_Subnet r) = Some (pli_Subnet r)"
    by simp_all
  from find_Some_in [OF found(1)] find_Some_in [OF found(2)] have "r \<in> set declared" "pli_Name r = lko_Name k"
      "n \<in> set networks" "nto_Name n = lko_Name k"
    by simp_all
  with ok facts show ?thesis by (intro conjI bexI [of _ r] bexI [of _ n]) simp_all
qed

definition sample_link :: link_observed where
  "sample_link = \<lparr>lko_Name = ''vps-a'', lko_Present = True, lko_Subnet = [], lko_Relationship = [], lko_DefinitionMatches = False, lko_Members = []\<rparr>"

definition sample_network :: network_observed where
  "sample_network = \<lparr>nto_Name = ''vps-a'', nto_Internal = True, nto_Present = True, nto_Subnets = [''10.89.0.0/24''],
     nto_Relationship = ''a:b'', nto_Members = []\<rparr>"

definition sample_declared :: planning_link where
  "sample_declared = \<lparr>pli_Name = ''vps-a'', pli_Subnet = ''10.89.0.0/24'', pli_Relationship = ''a:b''\<rparr>"

definition sample_inspect :: inspect_env where
  "sample_inspect =
     \<lparr>ine_Core = (\<lambda>s. Inl (Err ''json'')), ine_Modules = (\<lambda>s. Inl (Err ''json'')), ine_Links = (\<lambda>s. Inl (Err ''json'')),
      ine_Planning = (\<lambda>s. Inl (Err ''json'')), ine_Podman = (\<lambda>s. Inl (Err ''json'')), ine_Container = (\<lambda>s. Inl (Err ''json'')),
      ine_Network = (\<lambda>s. Inl (Err ''json'')), ine_NetworkList = (\<lambda>s. Inl (Err ''json'')), ine_Proof = (\<lambda>s. Inl (Err ''json'')),
      ine_Prefix = Some\<rparr>"

theorem matching_links_real_witness:
  "distinct (map pli_Name [sample_declared]) \<and> (\<exists>l. plan_links sample_inspect [sample_network] [sample_declared] [sample_link] = Inr [l] \<and>
     lko_Subnet l = ''10.89.0.0/24'' \<and> lko_Relationship l = ''a:b'')"
proof -
  let ?l = "sample_link\<lparr>lko_Relationship := ''a:b'', lko_Subnet := ''10.89.0.0/24'', lko_DefinitionMatches := True\<rparr>"
  have names: "safe_object_name ''vps-a''" "trim_space ''a:b'' \<noteq> []" by code_simp+
  have plan: "plan_links sample_inspect [sample_network] [sample_declared] [sample_link] = Inr [?l]"
    using names by (simp add: plan_links_def planned_link_def sample_inspect_def sample_network_def sample_declared_def sample_link_def)
  have "\<forall>k\<in>set [sample_link]. \<not> lko_DefinitionMatches k" by (simp add: sample_link_def)
  from matching_links_real [OF plan _ _ this, of ?l] plan show ?thesis by (simp add: sample_declared_def)
qed

end
