(* ===== verification/Gateway_Trust.thy ===== *)
theory Gateway_Trust
  imports Gateway_Session Mgmt_Restore
begin

section \<open>Trust in the key of a target\<close>

text \<open>
  The trust that is recorded of a target changes only by a confirmation, which needs that the target
  offers the confirmed key, and by a reset; and nothing is asked of a target before it has shown
  the confirmed key. Both hold for any sequence of calls, whatever target, database and transport do.
\<close>

datatype gateway_call =
    Ensure_Identity bytes
  | Observe_Key bytes
  | Confirm_Key bytes host_key
  | Reset_Key bytes
  | Inspect_Target bytes
  | Read_Logs bytes log_request
  | Enroll_Target bytes
  | Upload_Bundle "exec_bundle \<Rightarrow> manifest result" bytes exec_bundle
  | Start_Bundle bytes start_request
  | Observe_Run bytes bytes
  | Send_Values bytes bytes "secret_value list"
  | Control_Module bytes bytes runtime_action
  | Check_Module bytes bytes
  | Prepare_Copy bytes "bytes list"
  | Transfer_Copy bytes bytes
  | Cleanup_Copy bytes bytes

fun call_gateway :: "'w gateway_env \<Rightarrow> gateway_call \<Rightarrow> 'w gateway_state \<Rightarrow> 'w gateway_state" where
  "call_gateway env (Ensure_Identity i) st = snd (ensure_identity env i st)"
| "call_gateway env (Observe_Key i) st = snd (observe_host_key env i st)"
| "call_gateway env (Confirm_Key i k) st = snd (confirm_host_key env i k st)"
| "call_gateway env (Reset_Key i) st = snd (reset_trust env i st)"
| "call_gateway env (Inspect_Target i) st = snd (inspect_target env i st)"
| "call_gateway env (Read_Logs i r) st = snd (target_logs env i r st)"
| "call_gateway env (Enroll_Target i) st = snd (enroll env i st)"
| "call_gateway env (Upload_Bundle v i b) st = snd (gateway_upload env v i b st)"
| "call_gateway env (Start_Bundle i q) st = snd (gateway_start env i q st)"
| "call_gateway env (Observe_Run i run) st = snd (gateway_observe env i run st)"
| "call_gateway env (Send_Values i run vs) st = snd (gateway_send_secrets env i run vs st)"
| "call_gateway env (Control_Module i m a) st = snd (control_module env i m a st)"
| "call_gateway env (Check_Module i m) st = snd (healthcheck_module env i m st)"
| "call_gateway env (Prepare_Copy i ps) st = snd (prepare_storage_copy env i ps st)"
| "call_gateway env (Transfer_Copy i t) st = snd (transfer_storage_copy env i t st)"
| "call_gateway env (Cleanup_Copy i t) st = snd (cleanup_storage_copy env i t st)"

primrec call_gateways :: "('w gateway_env \<times> gateway_call) list \<Rightarrow> 'w gateway_state \<Rightarrow> 'w gateway_state" where
  "call_gateways [] st = st"
| "call_gateways (c # cs) st = call_gateways cs (call_gateway (fst c) (snd c) st)"

subsection \<open>The recorded trust\<close>

definition trust_row :: "target_row \<Rightarrow> trust_status \<times> bytes \<times> bytes" where
  "trust_row r = (trw_SSHTrust r, trw_SSHHostKey r, trw_SSHHostFingerprint r)"

definition trust_of :: "bytes \<Rightarrow> db \<Rightarrow> (trust_status \<times> bytes \<times> bytes) option" where
  "trust_of i db = map_option trust_row (find (\<lambda>r. trw_ID r = i) (db_Targets db))"

lemma trust_map:
  assumes "\<And>r. trw_ID (g r) = trw_ID r" "\<And>r. trw_ID r = i \<Longrightarrow> trust_row (g r) = trust_row r"
  shows "map_option trust_row (find (\<lambda>r. trw_ID r = i) (map g rows)) = map_option trust_row (find (\<lambda>r. trw_ID r = i) rows)"
  using assms by (induction rows) auto

lemma update_target_trust:
  assumes "update_target f stmt failed j g db = Inr db'" "\<And>r. trw_ID (g r) = trw_ID r"
    and "\<And>r. j = i \<Longrightarrow> trust_row (g r) = trust_row r"
  shows "trust_of i db' = trust_of i db"
  using assms by (auto simp: update_target_def update_one_def trust_of_def result_simps intro!: trust_map)

lemma secret_ops_trust:
  "create_secret cry f key nid now name origin db = Inr (s, db') \<Longrightarrow> trust_of i db' = trust_of i db"
  "set_secret cry f key nonce s v db = Inr db' \<Longrightarrow> trust_of i db' = trust_of i db"
  by (auto simp: create_secret_def set_secret_def trust_of_def result_simps)

lemma set_identity_trust: "set_ssh_identity f j s db = Inr db' \<Longrightarrow> trust_of i db' = trust_of i db"
  by (auto simp: set_ssh_identity_def result_simps trust_row_def intro!: update_target_trust)

lemma record_observed_trust: "record_observed_state cry f key j v db = Inr db' \<Longrightarrow> trust_of i db' = trust_of i db"
  by (auto simp: record_observed_state_def result_simps trust_row_def intro!: update_target_trust)

lemma set_trust_other: "set_ssh_trust cry f key j k fp t db = Inr db' \<Longrightarrow> j \<noteq> i \<Longrightarrow> trust_of i db' = trust_of i db"
  by (auto simp: set_ssh_trust_def result_simps trust_row_def intro!: update_target_trust)

lemma identity_change_trust:
  assumes "identity_change env j db = Inr (s, db')"
  shows "trust_of i db' = trust_of i db"
proof (cases "ssh_identity_secret_id (gwe_Sql env) j db = Inr [] \<or> (\<exists>e. ssh_identity_secret_id (gwe_Sql env) j db = Inl e)")
  case True
  then obtain seed db1 db2 where steps:
      "create_secret (gwe_Crypto env) (gwe_Sql env) (gwe_Key env) (gwe_NewSecretID env) (gwe_Now env)
        (''ssh-admin:'' @ j) Secret_Generated db = Inr (s, db1)"
      "set_secret (gwe_Crypto env) (gwe_Sql env) (gwe_Key env) (gwe_Nonce env) s seed db1 = Inr db2"
      "set_ssh_identity (gwe_Sql env) j s db2 = Inr db'"
    using assms by (auto simp: identity_change_def result_simps)
  show ?thesis
    using secret_ops_trust(1) [OF steps(1)] secret_ops_trust(2) [OF steps(2)] set_identity_trust [OF steps(3)] by simp
next
  case False
  then obtain existing where "ssh_identity_secret_id (gwe_Sql env) j db = Inr existing" "existing \<noteq> []"
    by (cases "ssh_identity_secret_id (gwe_Sql env) j db") auto
  then show ?thesis using assms by (simp add: identity_change_def)
qed

definition same_trust :: "bytes \<Rightarrow> 'w gateway_state \<Rightarrow> 'w gateway_state \<Rightarrow> bool" where
  "same_trust i st st' \<longleftrightarrow> trust_of i (gws_Db st') = trust_of i (gws_Db st)"

interpretation trust: frame "same_trust i" for i
  by unfold_locales (simp_all add: same_trust_def)

lemma world_trust [intro]: "trust.framed i (world_s m)"
  by (simp add: trust.framed_def same_trust_def world_s_def split: prod.split)

lemma db_trust:
  assumes "\<And>db db'. g db = Inr db' \<Longrightarrow> trust_of i db' = trust_of i db"
  shows "trust.framed i (db_s env g)"
  using assms by (auto simp: trust.framed_def same_trust_def db_s_def change_def op_def split: option.splits sum.splits prod.splits)

lemma session_trust [intro]: "trust.framed i (target_s env j)" "trust.framed i (strict_session env j)"
  unfolding target_s_def strict_session_def by (intro trust.framed_bind trust.framed_also trust.framed_wrap
      trust.framed_ret world_trust)+

lemma with_transport_trust [intro]: "trust.framed i (with_transport env j t missing f)"
  unfolding with_transport_def by (rule trust.framed_bind [OF session_trust(2)]) (auto split: option.split)

lemma record_trust [intro]: "trust.framed i (record_inspection env j v)"
  unfolding record_inspection_def by (rule db_trust) (rule record_observed_trust)

lemmas trust_steps = trust.framed_bind trust.framed_also trust.framed_wrap trust.framed_ret world_trust session_trust
  with_transport_trust record_trust

lemma calls_trust:
  "trust.framed i (ensure_identity env j)" "trust.framed i (observe_host_key env j)" "trust.framed i (inspect_target env j)"
  "trust.framed i (target_logs env j r)" "trust.framed i (enroll env j)" "trust.framed i (gateway_upload env v j b)"
  "trust.framed i (gateway_start env j q)" "trust.framed i (gateway_observe env j run)"
  "trust.framed i (gateway_send_secrets env j run vs)" "trust.framed i (control_module env j m a)"
  "trust.framed i (healthcheck_module env j m)" "trust.framed i (prepare_storage_copy env j ps)"
  "trust.framed i (transfer_storage_copy env j token)" "trust.framed i (cleanup_storage_copy env j token)"
proof -
  show "trust.framed i (ensure_identity env j)"
    unfolding ensure_identity_def
    by (intro trust.framed_bind trust.framed_also trust.framed_wrap trust.framed_ret db_trust)
      (auto simp: result_simps dest: identity_change_trust)
qed (unfold observe_host_key_def inspect_target_def target_logs_def enroll_def gateway_upload_def gateway_start_def
    gateway_observe_def gateway_send_secrets_def control_module_def healthcheck_module_def prepare_storage_copy_def
    transfer_storage_copy_def cleanup_storage_copy_def Let_def, (intro trust_steps)+)


lemma find_sort_key: "find (\<lambda>x. f x = k) (sort_key f xs) = find (\<lambda>x. f x = k) xs"
proof -
  have hd: "find P ys = (case filter P ys of [] \<Rightarrow> None | y # _ \<Rightarrow> Some y)" for P :: "'a \<Rightarrow> bool" and ys
    by (induction ys) auto
  show ?thesis unfolding hd sort_key_stable by (rule refl)
qed

lemma find_map_field: "map f xs = map g ys \<Longrightarrow>
    map_option f (find (\<lambda>x. fst (f x) = k) xs) = map_option g (find (\<lambda>y. fst (g y) = k) ys)"
proof (induction xs arbitrary: ys)
  case (Cons x xs)
  then show ?case by (cases ys) auto
qed simp

definition target_trust :: "mgmt_target \<Rightarrow> trust_status \<times> bytes \<times> bytes" where
  "target_trust t = (tgt_SSHTrust t, tgt_SSHHostKey t, tgt_SSHHostFingerprint t)"

lemma snapshot_columns:
  assumes "read_snapshot dec f db = Inr s"
    and "\<And>r t. target_of_row dec r = Inr t \<Longrightarrow> col (normalize_target t) = row r"
  shows "map_option col (find (\<lambda>t. tgt_ID t = i) (snp_Targets s)) =
    map_option row (find (\<lambda>r. trw_ID r = i) (db_Targets db))"
proof -
  obtain ts where ts: "map_r (target_of_row dec) (sort_key trw_ID (db_Targets db)) = Inr ts"
      "snp_Targets s = sort_key tgt_ID (map normalize_target ts)"
    using assms(1) by (auto simp: read_snapshot_def normalize_snapshot_def result_simps split: prod.splits)
  have same: "target_of_row dec r = Inr t \<Longrightarrow> (tgt_ID (normalize_target t), col (normalize_target t)) = (trw_ID r, row r)" for r t
    using assms(2) by (auto simp: target_of_row_def normalize_target_def result_simps)
  have "map (\<lambda>t. (tgt_ID t, col t)) (map normalize_target ts) =
      map (\<lambda>r. (trw_ID r, row r)) (sort_key trw_ID (db_Targets db))"
    using ts(1) same by (fastforce simp: result_simps list_all2_conv_all_nth intro!: nth_equalityI)
  from find_map_field [OF this, where k = i]
  have "map_option (\<lambda>t. (tgt_ID t, col t)) (find (\<lambda>t. tgt_ID t = i) (map normalize_target ts)) =
      map_option (\<lambda>r. (trw_ID r, row r)) (find (\<lambda>r. trw_ID r = i) (sort_key trw_ID (db_Targets db)))"
    by simp
  from arg_cong [where f = "map_option snd", OF this] show ?thesis
    by (simp add: ts(2) find_sort_key option.map_comp comp_def)
qed

text \<open>The row that the gateway reads for a target, with the columns that say where and how it connects.\<close>

definition target_row_of :: "bytes \<Rightarrow> db \<Rightarrow> target_row option" where
  "target_row_of i db = find (\<lambda>r. trw_ID r = i) (db_Targets db)"

definition row_endpoint :: "target_row \<Rightarrow> endpoint" where
  "row_endpoint r = \<lparr>epn_Address = trw_Address r, epn_SSHUser = trw_SSHUser r\<rparr>"

lemma trust_of_row: "trust_of i db = map_option trust_row (target_row_of i db)"
  by (simp add: trust_of_def target_row_of_def)

lemma gateway_target_row:
  assumes "gateway_target env i db = Inr t"
  obtains r where "target_row_of i db = Some r" "target_endpoint t = row_endpoint r"
    "tgt_SSHIdentitySecretID t = trw_SSHIdentitySecretID r" "target_trust t = trust_row r"
proof -
  obtain s where s: "read_snapshot (gwe_Decoders env) (gwe_Sql env) db = Inr s"
      "find (\<lambda>t. tgt_ID t = i) (snp_Targets s) = Some t"
    using assms by (auto simp: gateway_target_def result_simps split: option.splits)
  have "map_option (\<lambda>t. (target_endpoint t, tgt_SSHIdentitySecretID t, target_trust t)) (find (\<lambda>t. tgt_ID t = i) (snp_Targets s)) =
      map_option (\<lambda>r. (row_endpoint r, trw_SSHIdentitySecretID r, trust_row r)) (find (\<lambda>r. trw_ID r = i) (db_Targets db))"
    by (rule snapshot_columns [OF s(1)])
      (auto simp: target_of_row_def normalize_target_def target_trust_def trust_row_def target_endpoint_def row_endpoint_def result_simps)
  then show ?thesis using that by (cases "find (\<lambda>r. trw_ID r = i) (db_Targets db)") (auto simp: s(2) target_row_of_def)
qed

lemma gateway_target_trust:
  assumes "gateway_target env i db = Inr t"
  shows "trust_of i db = Some (target_trust t)" "tgt_ID t = i"
proof -
  obtain r where r: "target_row_of i db = Some r" "target_trust t = trust_row r" by (rule gateway_target_row [OF assms])
  then show "trust_of i db = Some (target_trust t)" by (simp add: trust_of_row)
  obtain s where s: "read_snapshot (gwe_Decoders env) (gwe_Sql env) db = Inr s"
      "find (\<lambda>t. tgt_ID t = i) (snp_Targets s) = Some t"
    using assms by (auto simp: gateway_target_def result_simps split: option.splits)
  from find_Some_in [OF s(2)] show "tgt_ID t = i" by simp
qed

lemma find_updated:
  assumes "\<And>r. trw_ID (g r) = trw_ID r" "filter (\<lambda>r. trw_ID r = i) rows \<noteq> []"
  shows "\<exists>r. find (\<lambda>r. trw_ID r = i) (map (\<lambda>r. if trw_ID r = i then g r else r) rows) = Some (g r)"
  using assms by (induction rows) (auto split: if_splits)

lemma set_trust_recorded:
  assumes "set_ssh_trust cry f key i k fp t db = Inr db'"
  shows "trust_of i db' = Some (t, k, fp)"
proof -
  define g :: "target_row \<Rightarrow> target_row" where
    "g = (\<lambda>r. r\<lparr>trw_SSHHostKey := k, trw_SSHHostFingerprint := fp, trw_SSHTrust := t\<rparr>)"
  have rows: "filter (\<lambda>r. trw_ID r = i) (db_Targets db) \<noteq> []"
      "db' = db\<lparr>db_Targets := map (\<lambda>r. if trw_ID r = i then g r else r) (db_Targets db)\<rparr>"
    using assms by (auto simp: set_ssh_trust_def update_target_def result_simps g_def)
  obtain r where "find (\<lambda>r. trw_ID r = i) (db_Targets db') = Some (g r)"
    using find_updated [OF _ rows(1), where g = g] rows(2) by (auto simp: g_def)
  then show ?thesis by (simp add: trust_of_def trust_row_def g_def)
qed

text \<open>
  The host key that a confirmation records is the one the caller confirmed and the target offered: the
  transport, asked for the address and the user in the row of this target in the world of that moment,
  observed this key.
\<close>

definition offered :: "'w gateway_env \<Rightarrow> bytes \<Rightarrow> db \<Rightarrow> 'w \<Rightarrow> host_key \<Rightarrow> bool" where
  "offered env i db w k \<longleftrightarrow>
     (\<exists>r. target_row_of i db = Some r \<and>
        fst (gwe_ObserveHostKey env \<lparr>epn_Address = trw_Address r, epn_SSHUser = trw_SSHUser r\<rparr> w) = Inr k)"

definition trust_event :: "'w gateway_env \<Rightarrow> gateway_call \<Rightarrow> bytes \<Rightarrow> 'w gateway_state \<Rightarrow> 'w gateway_state \<Rightarrow> bool" where
  "trust_event env c i st st' \<longleftrightarrow>
     trust_of i (gws_Db st') = trust_of i (gws_Db st) \<or>
     (c = Reset_Key i \<and> trust_of i (gws_Db st') = Some (Trust_Unknown, [], [])) \<or>
     (\<exists>k t. c = Confirm_Key i k \<and> offered env i (gws_Db st) (gws_World st) k \<and> trust_of i (gws_Db st) = Some t \<and>
        fst t \<noteq> Trust_Confirmed \<and> trust_of i (gws_Db st') = Some (Trust_Confirmed, hky_PublicKey k, hky_Fingerprint k))"

lemma db_s_cases: "gws_Db (snd (db_s env g st)) = gws_Db st \<or> g (gws_Db st) = Inr (gws_Db (snd (db_s env g st)))"
  by (auto simp: db_s_def change_def op_def split: option.splits sum.splits prod.splits)

lemma reset_event: "trust_event env (Reset_Key j) i st (snd (reset_trust env j st))"
proof (cases "i = j")
  case True
  then show ?thesis
    using db_s_cases [of env "set_ssh_trust (gwe_Crypto env) (gwe_Sql env) (gwe_Key env) j [] [] Trust_Unknown" st]
    by (auto simp: trust_event_def reset_trust_def set_trust_def dest: set_trust_recorded)
next
  case False
  then show ?thesis
    using db_s_cases [of env "set_ssh_trust (gwe_Crypto env) (gwe_Sql env) (gwe_Key env) j [] [] Trust_Unknown" st]
    by (auto simp: trust_event_def reset_trust_def set_trust_def dest: set_trust_other)
qed

lemma confirm_event:
  "leaves (confirm_host_key env j k) (\<lambda>r st'. trust_event env (Confirm_Key j k) i st st') st"
proof (cases "validate_observation k")
  case (Inr u)
  show ?thesis
  proof (cases "gateway_target env j (gws_Db st)")
    case (Inr t)
    obtain r w' where seen: "gwe_ObserveHostKey env (target_endpoint t) (gws_World st) = (r, w')" by (rule prod.exhaust)
    obtain row where "target_row_of j (gws_Db st) = Some row" "target_endpoint t = row_endpoint row"
      by (rule gateway_target_row [OF Inr])
    then have offer: "offered env j (gws_Db st) (gws_World st) o'" if "r = Inr o'" for o'
      using seen that by (simp add: offered_def row_endpoint_def)
    have recorded: "trust_of i db = Some (Trust_Confirmed, hky_PublicKey k, hky_Fingerprint k)"
      if "set_ssh_trust (gwe_Crypto env) (gwe_Sql env) (gwe_Key env) i (hky_PublicKey k) (hky_Fingerprint k) Trust_Confirmed (gws_Db st) = Inr db" for db
      using that by (rule set_trust_recorded)
    have other: "trust_of i db = trust_of i (gws_Db st)"
      if "set_ssh_trust (gwe_Crypto env) (gwe_Sql env) (gwe_Key env) j (hky_PublicKey k) (hky_Fingerprint k) Trust_Confirmed (gws_Db st) = Inr db" "j \<noteq> i" for db
      using that by (rule set_trust_other)
    show ?thesis
      using seen Inr \<open>validate_observation k = Inr u\<close> gateway_target_trust(1) [OF Inr]
        db_s_cases [of env "set_ssh_trust (gwe_Crypto env) (gwe_Sql env) (gwe_Key env) j (hky_PublicKey k) (hky_Fingerprint k) Trust_Confirmed"
          "st\<lparr>gws_World := w'\<rparr>"] recorded other offer
      by (cases r; cases "i = j")
        (auto simp: confirm_host_key_def target_s_def world_s_def leaves_def bind_s_def also_s_def read_s_def lift_s_def wrap_s_def
          set_trust_def trust_event_def target_trust_def reject_if_def)
  qed (simp add: confirm_host_key_def target_s_def trust_event_def \<open>validate_observation k = Inr u\<close>)
qed (simp add: confirm_host_key_def trust_event_def)

lemma framed_event: "trust.framed i m \<Longrightarrow> trust_event env c i st (snd (m st))"
  by (simp add: trust.framed_def same_trust_def trust_event_def)

lemma call_event: "trust_event env c i st (call_gateway env c st)"
  by (cases c) (auto intro!: framed_event calls_trust reset_event confirm_event [unfolded leaves_def])

text \<open>
  C38: Once the operator has confirmed the host key of a target, no sequence of calls of the gateway
  changes the recorded key, its fingerprint or the confirmation, unless it resets the trust of this
  target: not a target that offers another key, not an enrollment, an inspection, an execution or a
  second confirmation of another key.
\<close>

theorem trust_pinned:
  assumes "trust_of i (gws_Db st) = Some (Trust_Confirmed, key, fingerprint)"
    and "Reset_Key i \<notin> set (map snd cs)"
  shows "trust_of i (gws_Db (call_gateways cs st)) = Some (Trust_Confirmed, key, fingerprint)"
  using assms
proof (induction cs arbitrary: st)
  case (Cons c cs)
  have "trust_of i (gws_Db (call_gateway (fst c) (snd c) st)) = trust_of i (gws_Db st)"
    using call_event [of "fst c" "snd c" i st] Cons.prems by (auto simp: trust_event_def)
  with Cons show ?case by simp
qed simp

text \<open>
  The trust in a key has one origin: if a target is confirmed with some key after a
  sequence of calls and was not confirmed with it before, then the sequence holds a confirmation of
  this target for exactly this key and fingerprint, and the target offered the key on the wire then.
\<close>

theorem trust_by_confirmation:
  assumes "trust_of i (gws_Db (call_gateways cs st)) = Some (Trust_Confirmed, key, fingerprint)"
    and "trust_of i (gws_Db st) \<noteq> Some (Trust_Confirmed, key, fingerprint)"
  shows "\<exists>before env k later. cs = before @ (env, Confirm_Key i k) # later \<and> hky_PublicKey k = key \<and>
    hky_Fingerprint k = fingerprint \<and>
    offered env i (gws_Db (call_gateways before st)) (gws_World (call_gateways before st)) k"
  using assms
proof (induction cs arbitrary: st)
  case (Cons c cs)
  let ?st = "call_gateway (fst c) (snd c) st"
  show ?case
  proof (cases "trust_of i (gws_Db ?st) = Some (Trust_Confirmed, key, fingerprint)")
    case True
    then obtain k where "snd c = Confirm_Key i k" "offered (fst c) i (gws_Db st) (gws_World st) k" "hky_PublicKey k = key"
        "hky_Fingerprint k = fingerprint"
      using call_event [of "fst c" "snd c" i st] Cons.prems(2) by (auto simp: trust_event_def)
    then show ?thesis by (intro exI [of _ "[]"] exI [of _ "fst c"] exI [of _ k] exI [of _ cs]) (simp, metis prod.collapse)
  next
    case False
    then obtain before env k later where "cs = before @ (env, Confirm_Key i k) # later" "hky_PublicKey k = key"
        "hky_Fingerprint k = fingerprint"
        "offered env i (gws_Db (call_gateways before ?st)) (gws_World (call_gateways before ?st)) k"
      using Cons.IH [of ?st] Cons.prems(1) by auto
    then show ?thesis by (intro exI [of _ "c # before"] exI [of _ env] exI [of _ k] exI [of _ later]) simp
  qed
qed simp

subsection \<open>A target that is confirmed\<close>

definition sample_key :: host_key where
  "sample_key = \<lparr>hky_Algorithm = ''ssh-ed25519'', hky_PublicKey = ''ssh-ed25519 AAAA'', hky_Fingerprint = ''SHA256:x''\<rparr>"

definition other_key :: host_key where
  "other_key = sample_key\<lparr>hky_PublicKey := ''ssh-ed25519 BBBB'', hky_Fingerprint := ''SHA256:y''\<rparr>"

definition sample_env :: "host_key \<Rightarrow> unit gateway_env" where
  "sample_env k =
     \<lparr>gwe_ObserveHostKey = (\<lambda>e. ret_s k), gwe_Inspect = (\<lambda>s. lift_s (Inl (Err ''down''))),
      gwe_Logs = (\<lambda>s q. ret_s ()), gwe_Execution = None, gwe_Runtime = None, gwe_Storage = None,
      gwe_Decoders = ((\<lambda>s. Inr toy_desired), (\<lambda>s. Inr empty_observed)), gwe_Crypto = toy_cipher, gwe_Sql = (\<lambda>s args. None),
      gwe_Key = toy_key, gwe_Pub = id, gwe_Seed = Inr [], gwe_NewSecretID = Inr ''s'', gwe_Nonce = Inr [], gwe_Now = ''now''\<rparr>"

definition sample_target :: target_row where
  "sample_target =
     \<lparr>trw_ID = ''web'', trw_Address = ''10.0.0.1'', trw_SSHUser = ''admin'', trw_SSHIdentitySecretID = [], trw_SSHHostKey = [],
      trw_SSHHostFingerprint = [], trw_SSHTrust = Trust_Unknown, trw_DesiredJSON = [], trw_ObservedJSON = []\<rparr>"

definition sample_new :: "unit gateway_state" where
  "sample_new = \<lparr>gws_Db = empty_db\<lparr>db_Targets := [sample_target]\<rparr>, gws_World = ()\<rparr>"

definition sample_pinned :: "unit gateway_state" where
  "sample_pinned = call_gateways [(sample_env sample_key, Confirm_Key ''web'' sample_key)] sample_new"

lemma sample_confirmed:
  "trust_of ''web'' (gws_Db sample_new) = Some (Trust_Unknown, [], [])"
  "trust_of ''web'' (gws_Db sample_pinned) = Some (Trust_Confirmed, ''ssh-ed25519 AAAA'', ''SHA256:x'')"
proof -
  show new: "trust_of ''web'' (gws_Db sample_new) = Some (Trust_Unknown, [], [])"
    by (simp add: sample_new_def trust_of_def sample_target_def trust_row_def)
  show "trust_of ''web'' (gws_Db sample_pinned) = Some (Trust_Confirmed, ''ssh-ed25519 AAAA'', ''SHA256:x'')"
    by code_simp
qed

theorem trust_pinned_witness:
  "trust_of ''web'' (gws_Db (call_gateways
     [(sample_env other_key, Confirm_Key ''web'' other_key), (sample_env other_key, Inspect_Target ''web''),
      (sample_env other_key, Reset_Key ''db'')] sample_pinned)) = Some (Trust_Confirmed, ''ssh-ed25519 AAAA'', ''SHA256:x'')"
  by (rule trust_pinned [OF sample_confirmed(2)]) simp

theorem trust_by_confirmation_witness:
  "\<exists>before env k later. [(sample_env sample_key, Confirm_Key ''web'' sample_key)] = before @ (env, Confirm_Key ''web'' k) # later \<and>
     hky_PublicKey k = ''ssh-ed25519 AAAA'' \<and> hky_Fingerprint k = ''SHA256:x'' \<and>
     offered env ''web'' (gws_Db (call_gateways before sample_new)) (gws_World (call_gateways before sample_new)) k"
  by (rule trust_by_confirmation [OF sample_confirmed(2) [unfolded sample_pinned_def]]) (simp add: sample_confirmed(1))

end
