(* ===== verification/Gateway_Sessions.thy ===== *)
theory Gateway_Sessions
  imports Gateway_Trust
begin

section \<open>Nothing is asked of an unverified target\<close>

text \<open>
  The transport with a log of what the gateway asks of it: the key a target has shown, and every use
  of a session. Each call of the gateway uses at most one session, directly after the target of that
  very endpoint has shown the key that the operator confirmed for it.
\<close>

datatype gateway_event = Key_Seen endpoint "host_key option" | Session_Used ssh_session

definition noted :: "gateway_event \<Rightarrow> ('w, 'a) action \<Rightarrow> ('w \<times> gateway_event list, 'a) action" where
  "noted e m w = (case m (fst w) of (r, w') \<Rightarrow> (r, w', e # snd w))"

definition seen :: "(endpoint \<Rightarrow> ('w, host_key) action) \<Rightarrow> endpoint \<Rightarrow> ('w \<times> gateway_event list, host_key) action" where
  "seen m e w = (case m e (fst w) of (r, w') \<Rightarrow>
     (r, w', Key_Seen e (case r of Inl _ \<Rightarrow> None | Inr k \<Rightarrow> Some k) # snd w))"

definition watched :: "'w gateway_env \<Rightarrow> ('w \<times> gateway_event list) gateway_env" where
  "watched env =
     \<lparr>gwe_ObserveHostKey = seen (gwe_ObserveHostKey env),
      gwe_Inspect = (\<lambda>s. noted (Session_Used s) (gwe_Inspect env s)),
      gwe_Logs = (\<lambda>s q. noted (Session_Used s) (gwe_Logs env s q)),
      gwe_Execution = map_option (\<lambda>t.
        \<lparr>ext_Upload = (\<lambda>s b. noted (Session_Used s) (ext_Upload t s b)),
         ext_Start = (\<lambda>s q. noted (Session_Used s) (ext_Start t s q)),
         ext_Observe = (\<lambda>s r. noted (Session_Used s) (ext_Observe t s r)),
         ext_SendSecrets = (\<lambda>s r vs. noted (Session_Used s) (ext_SendSecrets t s r vs))\<rparr>) (gwe_Execution env),
      gwe_Runtime = map_option (\<lambda>t.
        \<lparr>rtt_Control = (\<lambda>s m a. noted (Session_Used s) (rtt_Control t s m a)),
         rtt_Healthcheck = (\<lambda>s m. noted (Session_Used s) (rtt_Healthcheck t s m))\<rparr>) (gwe_Runtime env),
      gwe_Storage = map_option (\<lambda>t.
        \<lparr>stt_Prepare = (\<lambda>s ps. noted (Session_Used s) (stt_Prepare t s ps)),
         stt_Transfer = (\<lambda>s token. noted (Session_Used s) (stt_Transfer t s token)),
         stt_Cleanup = (\<lambda>s token. noted (Session_Used s) (stt_Cleanup t s token))\<rparr>) (gwe_Storage env),
      gwe_Decoders = gwe_Decoders env, gwe_Crypto = gwe_Crypto env, gwe_Sql = gwe_Sql env, gwe_Key = gwe_Key env,
      gwe_Pub = gwe_Pub env, gwe_Seed = gwe_Seed env, gwe_NewSecretID = gwe_NewSecretID env, gwe_Nonce = gwe_Nonce env,
      gwe_Now = gwe_Now env\<rparr>"

fun call_target :: "gateway_call \<Rightarrow> bytes" where
  "call_target (Ensure_Identity i) = i"
| "call_target (Observe_Key i) = i"
| "call_target (Confirm_Key i k) = i"
| "call_target (Reset_Key i) = i"
| "call_target (Inspect_Target i) = i"
| "call_target (Read_Logs i r) = i"
| "call_target (Enroll_Target i) = i"
| "call_target (Upload_Bundle v i b) = i"
| "call_target (Start_Bundle i q) = i"
| "call_target (Observe_Run i run) = i"
| "call_target (Send_Values i run vs) = i"
| "call_target (Control_Module i m a) = i"
| "call_target (Check_Module i m) = i"
| "call_target (Prepare_Copy i ps) = i"
| "call_target (Transfer_Copy i t) = i"
| "call_target (Cleanup_Copy i t) = i"

abbreviation asked :: "('w \<times> gateway_event list) gateway_state \<Rightarrow> gateway_event list" where
  "asked st \<equiv> snd (gws_World st)"

text \<open>The newest event is the first of the list.\<close>

definition verified_session :: "bytes \<Rightarrow> db \<Rightarrow> gateway_event list \<Rightarrow> ssh_session \<Rightarrow> gateway_event list \<Rightarrow> bool" where
  "verified_session i db es s es' \<longleftrightarrow>
     (\<exists>k. es' = Key_Seen (ses_Endpoint s) (Some k) # es \<and> hky_PublicKey k = ses_HostKey s \<and>
        trust_of i db = Some (Trust_Confirmed, ses_HostKey s, hky_Fingerprint k) \<and> ses_HostKey s \<noteq> [] \<and>
        length (ses_IdentitySeed s) = seed_size)"

definition asked_in_order :: "bytes \<Rightarrow> db \<Rightarrow> gateway_event list \<Rightarrow> gateway_event list \<Rightarrow> bool" where
  "asked_in_order i db es es' \<longleftrightarrow>
     es' = es \<or> (\<exists>e k. es' = Key_Seen e k # es) \<or>
     (\<exists>s es1. es' = Session_Used s # es1 \<and> verified_session i db es s es1)"

lemma strict_logged:
  "leaves (strict_session (watched env) i)
     (goes_on (\<lambda>s st'. verified_session i (gws_Db st) (asked st) s (asked st'))
        (\<lambda>e st'. asked st' = asked st \<or> (\<exists>e k. asked st' = Key_Seen e k # asked st))) st"
proof (cases "gateway_target (watched env) i (gws_Db st)")
  case (Inr t)
  show ?thesis
    using Inr gateway_target_trust(1) [OF Inr]
    by (auto simp: strict_session_def target_s_def world_s_def leaves_def bind_s_def also_s_def read_s_def lift_s_def wrap_s_def
        ret_s_def reject_if_def watched_def seen_def verified_session_def target_trust_def resolve_seed_def goes_on_def
        result_simps split: prod.splits sum.splits)
qed (simp add: strict_session_def target_s_def)

text \<open>What follows a session uses it at most once.\<close>

definition uses :: "ssh_session \<Rightarrow> (('w \<times> gateway_event list) gateway_state, 'a) action \<Rightarrow> bool" where
  "uses s m \<longleftrightarrow> (\<forall>st. asked (snd (m st)) = asked st \<or> asked (snd (m st)) = Session_Used s # asked st)"

definition quiet :: "(('w \<times> gateway_event list) gateway_state, 'a) action \<Rightarrow> bool" where
  "quiet m \<longleftrightarrow> (\<forall>st. asked (snd (m st)) = asked st)"

lemma quiet_simple [intro]:
  "quiet (ret_s x)" "quiet (lift_s r)" "quiet (read_s f)" "quiet (db_s env g)"
  by (auto simp: quiet_def ret_s_def lift_s_def read_s_def db_s_def split: prod.split)

lemma quiet_bind [intro]: "quiet m \<Longrightarrow> (\<And>x. quiet (f x)) \<Longrightarrow> quiet (bind_s m f)"
  by (auto simp: quiet_def bind_s_def split: prod.split sum.split) (metis snd_conv)+

lemma quiet_also [intro]: "quiet m \<Longrightarrow> quiet k \<Longrightarrow> quiet (also_s m k)"
  by (auto simp: also_s_def)

lemma quiet_wrap [intro]: "quiet m \<Longrightarrow> quiet (wrap_s fmt args m)"
  by (auto simp: quiet_def wrap_s_def split: prod.split sum.split) (metis snd_conv)+

lemma uses_noted [intro]: "uses s (world_s (noted (Session_Used s) m))"
  by (auto simp: uses_def world_s_def noted_def split: prod.split)

lemma uses_quiet: "quiet m \<Longrightarrow> uses s m"
  by (simp add: quiet_def uses_def)

lemma uses_wrap [intro]: "uses s m \<Longrightarrow> uses s (wrap_s fmt args m)"
  by (auto simp: uses_def wrap_s_def split: prod.split sum.split) (metis snd_conv)+

lemma uses_bind: "uses s m \<Longrightarrow> (\<And>x. quiet (f x)) \<Longrightarrow> uses s (bind_s m f)"
  by (auto simp: uses_def quiet_def bind_s_def split: prod.split sum.split) (metis snd_conv)+

definition in_order :: "bytes \<Rightarrow> (('w \<times> gateway_event list) gateway_state, 'a) action \<Rightarrow> bool" where
  "in_order i m \<longleftrightarrow> (\<forall>st. asked_in_order i (gws_Db st) (asked st) (asked (snd (m st))))"

lemma in_order_quiet: "quiet m \<Longrightarrow> in_order i m"
  by (simp add: in_order_def asked_in_order_def quiet_def)

lemma in_order_checked: "in_order i m \<Longrightarrow> in_order i (also_s (lift_s r) m)"
  by (cases r) (simp_all add: in_order_def also_s_def bind_s_def lift_s_def asked_in_order_def)

lemma in_order_read: "(\<And>x. in_order i (f x)) \<Longrightarrow> in_order i (bind_s (read_s g) f)"
  by (auto simp: in_order_def bind_s_def read_s_def asked_in_order_def split: sum.split)

lemma in_order_lift: "(\<And>x. in_order i (f x)) \<Longrightarrow> in_order i (bind_s (lift_s r) f)"
  by (auto simp: in_order_def bind_s_def lift_s_def asked_in_order_def split: sum.split)

lemma in_order_session:
  assumes "\<And>s. uses s (f s)"
  shows "in_order i (bind_s (strict_session (watched env) i) f)"
  unfolding in_order_def
proof
  fix st
  show "asked_in_order i (gws_Db st) (asked st) (asked (snd (bind_s (strict_session (watched env) i) f st)))"
    using strict_logged [of env i st] assms
    unfolding leaves_def goes_on_def bind_s_def asked_in_order_def uses_def
    by (auto split: prod.splits sum.splits) (metis snd_conv verified_session_def)+
qed

lemma in_order_transport:
  assumes "\<And>t s. transport = Some t \<Longrightarrow> uses s (world_s (f t s))"
  shows "in_order i (with_transport (watched env) i transport missing f)"
  unfolding with_transport_def using assms
  by (intro in_order_session) (auto split: option.split intro: uses_quiet)

lemma in_order_seen:
  assumes "\<And>k. quiet (f k)"
  shows "in_order i (bind_s (wrap_s fmt args (world_s (gwe_ObserveHostKey (watched env) e))) f)"
  using assms unfolding in_order_def asked_in_order_def bind_s_def wrap_s_def world_s_def watched_def seen_def quiet_def
  by (auto split: prod.split sum.split)


lemma quiet_trust: "quiet (set_trust env i k fp t)" "quiet (record_inspection env i v)"
  unfolding set_trust_def record_inspection_def by (rule quiet_simple)+

lemma in_order_calls:
  "in_order i (ensure_identity (watched env) i)" "in_order i (observe_host_key (watched env) i)"
  "in_order i (confirm_host_key (watched env) i k)" "in_order i (reset_trust (watched env) i)"
  "in_order i (inspect_target (watched env) i)" "in_order i (target_logs (watched env) i r)" "in_order i (enroll (watched env) i)"
proof -
  show "in_order i (ensure_identity (watched env) i)"
    unfolding ensure_identity_def by (intro in_order_quiet quiet_also quiet_bind quiet_wrap quiet_simple)
  show "in_order i (confirm_host_key (watched env) i k)"
    unfolding confirm_host_key_def target_s_def
    by (intro in_order_checked in_order_read in_order_seen) (auto intro: quiet_trust)
  show "in_order i (reset_trust (watched env) i)"
    unfolding reset_trust_def by (intro in_order_quiet quiet_trust)
  show "in_order i (observe_host_key (watched env) i)"
    unfolding observe_host_key_def target_s_def
    by (intro in_order_read) (auto simp: in_order_def asked_in_order_def wrap_s_def world_s_def watched_def seen_def split: prod.split sum.split)
  show "in_order i (inspect_target (watched env) i)"
    unfolding inspect_target_def Let_def
    by (intro in_order_session uses_bind uses_wrap) (auto simp: watched_def intro: quiet_trust)
  show "in_order i (enroll (watched env) i)"
    unfolding enroll_def target_s_def Let_def
    by (intro in_order_read in_order_session uses_bind uses_wrap) (auto simp: watched_def intro: quiet_trust)
  show "in_order i (target_logs (watched env) i r)"
    unfolding target_logs_def Let_def
    by (intro in_order_checked in_order_session) (auto simp: watched_def)
qed

lemma in_order_transports:
  "in_order i (gateway_upload (watched env) v i b)" "in_order i (gateway_start (watched env) i q)"
  "in_order i (gateway_observe (watched env) i run)" "in_order i (gateway_send_secrets (watched env) i run vs)"
  "in_order i (control_module (watched env) i m a)" "in_order i (healthcheck_module (watched env) i m)"
  "in_order i (prepare_storage_copy (watched env) i ps)" "in_order i (transfer_storage_copy (watched env) i token)"
  "in_order i (cleanup_storage_copy (watched env) i token)"
  unfolding gateway_upload_def gateway_start_def gateway_observe_def gateway_send_secrets_def control_module_def
    healthcheck_module_def prepare_storage_copy_def transfer_storage_copy_def cleanup_storage_copy_def
  by (intro in_order_checked in_order_lift in_order_transport; auto simp: watched_def)+

lemmas in_order_results = in_order_calls [unfolded in_order_def, rule_format] in_order_transports [unfolded in_order_def, rule_format]

text \<open>
  A call of the gateway asks nothing of a target (no inspection, log, upload, start,
  observation, secret, module or storage operation) unless the target at the very endpoint of the
  session has just shown a key, this key and its fingerprint are those recorded of the target, the
  target is confirmed, and the seed of the session is a whole one; it then asks once. This holds for every
  call, database and transport, and when the transport fails.
\<close>

theorem sessions_verified:
  "asked_in_order (call_target c) (gws_Db st) (asked st) (asked (call_gateway (watched env) c st))"
  by (cases c) (simp_all add: in_order_results)

end
