(* ===== verification/Gateway_Safety.thy ===== *)
theory Gateway_Safety
  imports Gateway_Inspect Gateway_Sessions Gateway_Codec
begin

section \<open>Every connection is strict\<close>

text \<open>
  The gateway on its SSH transport. \<open>runs env P w w'\<close> says that the world comes from \<open>w\<close> to \<open>w'\<close> by processes
  that satisfy \<open>P\<close> only; with it the theorems say which processes the calls of the gateway start, and
  what they leave in the directory of the key files.
\<close>

subsection \<open>The processes that are started\<close>

type_synonym process_pred = "(bytes \<Rightarrow> bytes option) \<Rightarrow> bytes \<Rightarrow> bytes list \<Rightarrow> bool"

inductive runs :: "'w ssh_env \<Rightarrow> process_pred \<Rightarrow> 'w \<Rightarrow> 'w \<Rightarrow> bool" for env P where
  stay: "runs env P w w"
| start: "runs env P w w' \<Longrightarrow> P files name args \<Longrightarrow> runs env P w (snd (sse_Run env files name args input w'))"

lemma runs_trans: "runs env P w' w'' \<Longrightarrow> runs env P w w' \<Longrightarrow> runs env P w w''"
  by (induction rule: runs.induct) (auto intro: runs.intros)

text \<open>A file that differs afterwards is a new one whose removal failed.\<close>

definition wiped :: "'w ssh_env \<Rightarrow> (bytes \<Rightarrow> bytes option) \<Rightarrow> (bytes \<Rightarrow> bytes option) \<Rightarrow> bool" where
  "wiped env fs fs' \<longleftrightarrow> (\<forall>p. fs' p = fs p \<or> fs p = None \<and> sse_Os env ''remove'' p \<noteq> None)"

lemma wiped_refl [simp]: "wiped env fs fs"
  by (simp add: wiped_def)

lemma wiped_trans: "wiped env fs fs' \<Longrightarrow> wiped env fs' fs'' \<Longrightarrow> wiped env fs fs''"
  unfolding wiped_def by metis

definition host_step :: "'w ssh_env \<Rightarrow> process_pred \<Rightarrow> 'w ssh_host \<Rightarrow> 'w ssh_host \<Rightarrow> bool" where
  "host_step env P h h' \<longleftrightarrow>
     runs env P (sho_World h) (sho_World h') \<and> wiped env (sho_Files h) (sho_Files h')"

interpretation host: frame "host_step env P" for env :: "'w ssh_env" and P
  by unfold_locales (auto simp: host_step_def intro: runs.stay runs_trans wiped_trans)

text \<open>
  How \<open>ssh\<close> reads its command line, as far as the gateway uses it: options come first, \<open>-F\<close>, \<open>-i\<close> and \<open>-p\<close>
  have a value, \<open>-o\<close> has a setting \<open>key=value\<close>, and what is left is the destination and the command. Of
  several settings of one key the first counts.
\<close>

fun ssh_line :: "bytes list \<Rightarrow> (bytes \<times> bytes) list \<times> bytes list" where
  "ssh_line (a # b # args) =
     (if a = ''-o'' then
        (case ssh_line args of (settings, rest) \<Rightarrow>
           ((takeWhile (\<lambda>c. c \<noteq> CHR ''='') b, tl (dropWhile (\<lambda>c. c \<noteq> CHR ''='') b)) # settings, rest))
      else if a = ''-F'' \<or> a = ''-i'' \<or> a = ''-p'' then
        (case ssh_line args of (settings, rest) \<Rightarrow> ((a, b) # settings, rest))
      else if a = ''-a'' \<or> a = ''-x'' \<or> a = ''-T'' then
        (case ssh_line (b # args) of (settings, rest) \<Rightarrow> ((a, []) # settings, rest))
      else ([], a # b # args))"
| "ssh_line args = ([], args)"

text \<open>
  A strict command line: the host must be known, and the only file of known hosts is the given one; the
  only identity is the given file; no other method, no agent, no forwarding, no configuration file.
\<close>

definition strict_line :: "parsed_endpoint \<Rightarrow> bytes \<Rightarrow> bytes \<Rightarrow> bytes \<Rightarrow> bytes list \<Rightarrow> bool" where
  "strict_line parsed user identity known args \<longleftrightarrow>
     (\<exists>settings command.
        ssh_line args = (settings, [user @ ''@'' @ pep_Host parsed, command]) \<and>
        map_of settings ''-p'' = Some (pep_Port parsed) \<and>
        map_of settings ''StrictHostKeyChecking'' = Some ''yes'' \<and>
        map_of settings ''UserKnownHostsFile'' = Some known \<and>
        map_of settings ''GlobalKnownHostsFile'' = Some ''/dev/null'' \<and>
        map_of settings ''UpdateHostKeys'' = Some ''no'' \<and>
        map_of settings ''VerifyHostKeyDNS'' = Some ''no'' \<and>
        map_of settings ''-F'' = Some ''none'' \<and>
        map_of settings ''BatchMode'' = Some ''yes'' \<and>
        map_of settings ''-i'' = Some identity \<and>
        map_of settings ''IdentitiesOnly'' = Some ''yes'' \<and>
        map_of settings ''IdentityAgent'' = Some ''none'' \<and>
        map_of settings ''PubkeyAuthentication'' = Some ''yes'' \<and>
        map_of settings ''PasswordAuthentication'' = Some ''no'' \<and>
        map_of settings ''KbdInteractiveAuthentication'' = Some ''no'' \<and>
        map_of settings ''-a'' = Some [] \<and> map_of settings ''-x'' = Some [] \<and>
        map_of settings ''ClearAllForwardings'' = Some ''yes'' \<and>
        map_of settings ''PermitLocalCommand'' = Some ''no'')"

lemma args_strict:
  assumes "safe_ssh_user user"
  shows "strict_line parsed user identity known (ssh_args parsed user identity known command)"
proof -
  obtain c cs where user: "user = c # cs" "ascii_letter c" using assms by (cases user) (auto simp: safe_ssh_user_def)
  then have "c \<noteq> CHR ''-''" by (auto simp: ascii_letter_def)
  then have "ssh_line [user @ ''@'' @ pep_Host parsed, command] = ([], [user @ ''@'' @ pep_Host parsed, command])"
    by (simp add: user(1))
  then show ?thesis unfolding strict_line_def ssh_args_def by simp
qed

text \<open>A strict invocation for a session, in the files it finds.\<close>

definition strict_ssh :: "'w ssh_env \<Rightarrow> ssh_session \<Rightarrow> (bytes \<Rightarrow> bytes option) \<Rightarrow> bytes list \<Rightarrow> bool" where
  "strict_ssh env s files args \<longleftrightarrow>
     (\<exists>parsed identity known key.
        parse_endpoint (sse_ParseIP env) (epn_Address (ses_Endpoint s)) = Inr parsed \<and>
        safe_ssh_user (epn_SSHUser (ses_Endpoint s)) \<and>
        strict_line parsed (epn_SSHUser (ses_Endpoint s)) identity known args \<and>
        files known = Some (known_hosts_name parsed @ '' '' @ trim_space (ses_HostKey s) @ [CHR 0x0A]) \<and>
        marshal_openssh_private_key (sse_Pub env) (sse_Check env)
          (''vpsmith:'' @ epn_SSHUser (ses_Endpoint s) @ ''@'' @ pep_Host parsed) (ses_IdentitySeed s) = Inr key \<and>
        files identity = Some key)"

lemma os_step_leaves: "leaves (os_step env fmt step p) (\<lambda>r h'. h' = h) h"
  by (simp add: os_step_def)

lemma put_file_simps [simp]:
  "sho_World (put_file p c h) = sho_World h" "sho_Files (put_file p c h) = (sho_Files h)(p := c)"
  by (simp_all add: put_file_def)

lemma remove_quietly_world [simp]: "sho_World (remove_quietly env p h) = sho_World h"
  by (simp add: remove_quietly_def split: option.split)

lemma create_temp_leaves:
  "leaves (create_temp env dir pattern)
     (goes_on (\<lambda>p h'. h' = put_file p (Some []) h \<and> sho_Files h p = None) (\<lambda>e h'. h' = h)) h"
  by (auto simp: create_temp_def leaves_def goes_on_def find_Some_iff split: option.split)

lemma removed_quietly: "fs p = None \<Longrightarrow> sho_Files h = fs(p := c) \<Longrightarrow> wiped env fs (sho_Files (remove_quietly env p h))"
  by (auto simp: wiped_def remove_quietly_def fun_eq_iff split: option.split)

lemma temp_written:
  "leaves (write_exclusive_temp env dir pattern content)
     (goes_on (\<lambda>p h'. sho_World h' = sho_World h \<and> sho_Files h' = (sho_Files h)(p := Some content) \<and> sho_Files h p = None)
       (\<lambda>e h'. sho_World h' = sho_World h \<and> wiped env (sho_Files h) (sho_Files h'))) h"
proof -
  have rest: "leaves (also_s (os_step env a ''chmod'' p) (also_s (os_step env b ''write'' p) (also_s (write_s p (Some content))
      (also_s (os_step env c ''sync'' p) (also_s (os_step env d ''close'' p) (ret_s p))))))
      (goes_on (\<lambda>p' h'. p' = p \<and> h' = put_file p (Some content) h0) (\<lambda>e h'. h' = h0 \<or> h' = put_file p (Some content) h0)) h0"
    for a b c d p h0
    by (simp add: os_step_def write_s_def also_s_def bind_s_def leaves_def goes_on_def lift_s_def ret_s_def
        split: option.split)
  show ?thesis
    unfolding write_exclusive_temp_def
  proof (rule leaves_bindI [where P = "goes_on (\<lambda>p h'. h' = put_file p (Some []) h \<and> sho_Files h p = None) (\<lambda>e h'. h' = h)"], goal_cases)
    case 1
    show ?case by (rule leaves_wrap [THEN iffD2], rule leaves_goes_on_mono [OF create_temp_leaves]) simp_all
  next
    case (2 p h0)
    then have h0: "h0 = put_file p (Some []) h" "sho_Files h p = None" by simp_all
    show ?case
      by (rule leaves_on_error [THEN iffD2], rule leaves_goes_on_mono [OF rest]) (use h0 in \<open>auto simp: intro!: removed_quietly\<close>)
  qed simp
qed

lemma wiped_identity:
  "wiped env (fs(p := Some c)) (sho_Files h) \<Longrightarrow> fs p = None \<Longrightarrow> wiped env fs (sho_Files (remove_quietly env p h))"
  unfolding wiped_def remove_quietly_def by (auto split: option.split if_splits)

lemma clean_up_wiped:
  "(sho_Files h)(inv_Identity c := None, inv_KnownHosts c := None) = fs \<Longrightarrow> wiped env fs (sho_Files (clean_up env c h))"
  by (auto simp: wiped_def clean_up_def remove_quietly_def split: option.split if_splits)

lemma leaves_lift_bind:
  "leaves (bind_s (lift_s r) f) Q h = (case r of Inl e \<Rightarrow> Q (Inl e) h | Inr x \<Rightarrow> leaves (f x) Q h)"
  by (simp split: sum.split)

lemma leaves_lift_also:
  "leaves (also_s (lift_s r) m) Q h = (case r of Inl e \<Rightarrow> Q (Inl e) h | Inr x \<Rightarrow> leaves m Q h)"
  by (simp split: sum.split)

lemma prepare_leaves:
  "leaves (prepare_ssh_invocation env s command)
     (goes_on (\<lambda>c h'. sho_World h' = sho_World h \<and> strict_ssh env s (sho_Files h') (inv_Args c) \<and>
          (sho_Files h')(inv_Identity c := None, inv_KnownHosts c := None) = sho_Files h)
       (\<lambda>e h'. sho_World h' = sho_World h \<and> wiped env (sho_Files h) (sho_Files h'))) h"
proof -
  let ?user = "epn_SSHUser (ses_Endpoint s)"
  let ?post = "goes_on (\<lambda>c h'. sho_World h' = sho_World h \<and> strict_ssh env s (sho_Files h') (inv_Args c) \<and>
          (sho_Files h')(inv_Identity c := None, inv_KnownHosts c := None) = sho_Files h)
       (\<lambda>e h'. sho_World h' = sho_World h \<and> wiped env (sho_Files h) (sho_Files h'))"
  have files: "leaves (bind_s (write_exclusive_temp env (sse_RuntimeDir env) ''identity-'' key) (\<lambda>identity.
      bind_s (on_error_s (remove_quietly env identity)
        (write_exclusive_temp env (sse_RuntimeDir env) ''known-hosts-'' (known_hosts_line parsed (ses_HostKey s)))) (\<lambda>known.
      ret_s \<lparr>inv_Args = ssh_args parsed ?user identity known command, inv_Identity = identity, inv_KnownHosts = known\<rparr>))) ?post h"
    if ok: "parse_endpoint (sse_ParseIP env) (epn_Address (ses_Endpoint s)) = Inr parsed" "safe_ssh_user ?user"
      "marshal_openssh_private_key (sse_Pub env) (sse_Check env) (''vpsmith:'' @ ?user @ ''@'' @ pep_Host parsed) (ses_IdentitySeed s) = Inr key"
    for parsed key
  proof (rule leaves_bindI [OF temp_written], goal_cases)
    case (1 identity h1)
    then have h1: "sho_World h1 = sho_World h" "sho_Files h1 = (sho_Files h)(identity := Some key)" "sho_Files h identity = None"
      by simp_all
    show ?case
      unfolding leaves_bind leaves_on_error
    proof (rule leaves_goes_on_mono [OF temp_written], goal_cases)
      case (1 known h2)
      then have h2: "sho_World h2 = sho_World h" "sho_Files h2 = (sho_Files h)(identity := Some key, known := Some (known_hosts_line parsed (ses_HostKey s)))"
          "known \<noteq> identity" "sho_Files h known = None"
        using h1 by (auto split: if_splits)
      have strict: "strict_ssh env s (sho_Files h2) (ssh_args parsed ?user identity known command)"
        unfolding strict_ssh_def using ok h2 args_strict
        by (intro exI [of _ parsed] exI [of _ identity] exI [of _ known] exI [of _ key]) (simp add: known_hosts_line_def)
      have restored: "(sho_Files h2)(identity := None, known := None) = sho_Files h"
        using h1(3) h2 by (auto simp: fun_eq_iff)
      show ?case by (simp add: h2(1) strict restored)
    next
      case (2 e h2)
      then have "wiped env ((sho_Files h)(identity := Some key)) (sho_Files h2)" "sho_World h2 = sho_World h" using h1 by simp_all
      then show ?case using wiped_identity [of env "sho_Files h" identity key h2] h1(3) by simp
    qed
  qed simp
  show ?thesis
    unfolding prepare_ssh_invocation_def Let_def os_step_def leaves_lift_bind leaves_lift_also
    by (auto simp: files result_simps simp del: leaves_bind leaves_also split: sum.split option.split)
qed


text \<open>What an operation for the session \<open>s\<close> may start.\<close>

definition strict_for :: "'w ssh_env \<Rightarrow> ssh_session \<Rightarrow> process_pred \<Rightarrow> bool" where
  "strict_for env s P \<longleftrightarrow> (\<forall>files args. strict_ssh env s files args \<longrightarrow> P files ''ssh'' args)"

lemma run_process_step:
  "P (sho_Files h) name args \<Longrightarrow> host_step env P h (snd (run_process env name args input h))"
  using runs.start [OF runs.stay, of P "sho_Files h" name args env "sho_World h" input]
  by (simp add: run_process_def host_step_def split_beta)

lemma run_process_files: "sho_Files (snd (run_process env name args input h)) = sho_Files h"
  by (simp add: run_process_def split: prod.split)

lemma with_ssh_framed:
  assumes "strict_for env s P"
  shows "host.framed env P (with_ssh env s command input supported missing)"
  unfolding host.framed_def
proof
  fix h
  show "host_step env P h (snd (with_ssh env s command input supported missing h))"
  proof (cases "prepare_ssh_invocation env s command h")
    case (Pair r h1)
    note prep = prepare_leaves [of env s command h, unfolded leaves_def Pair]
    show ?thesis
    proof (cases r)
      case (Inl e)
      then show ?thesis using prep Pair by (simp add: with_ssh_def bind_s_def host_step_def runs.stay)
    next
      case (Inr c)
      have h1: "sho_World h1 = sho_World h" "P (sho_Files h1) ''ssh'' (inv_Args c)"
          "(sho_Files h1)(inv_Identity c := None, inv_KnownHosts c := None) = sho_Files h"
        using prep Inr assms by (simp_all add: strict_for_def)
      let ?h2 = "snd ((if supported then run_process env ''ssh'' (inv_Args c) input else lift_s (Inl missing)) h1)"
      have h2: "runs env P (sho_World h1) (sho_World ?h2)" "sho_Files ?h2 = sho_Files h1"
        using run_process_step [where P = P and h = h1 and env = env and input = input, OF h1(2)] run_process_files [of env "''ssh''" "inv_Args c" input h1]
        by (simp_all add: host_step_def lift_s_def runs.stay)
      have "snd (with_ssh env s command input supported missing h) = clean_up env c ?h2"
        using Pair Inr by (simp add: with_ssh_def bind_s_def defer_s_def split_beta Let_def)
      moreover have "wiped env (sho_Files h) (sho_Files (clean_up env c ?h2))" by (rule clean_up_wiped) (simp add: h1(3) h2(2))
      ultimately show ?thesis using h1(1) h2(1) by (simp add: host_step_def clean_up_def)
    qed
  qed
qed

lemmas host_steps = host.framed_bind host.framed_also host.framed_wrap host.framed_ret host.framed_each

lemma host_lift [intro]: "host.framed env P (lift_s r)"
  by (rule host.framed_ret)

lemma with_stderr_framed: "host.framed env P m \<Longrightarrow> host.framed env P (with_stderr fmt failed m)"
  by (auto simp: host.framed_def with_stderr_def split: prod.split sum.split) (metis snd_conv)+

lemma succeeds_framed: "host.framed env P m \<Longrightarrow> host.framed env P (succeeds_s m)"
  by (auto simp: host.framed_def succeeds_s_def split: prod.split sum.split) (metis snd_conv)+

lemma map_s_framed: "(\<And>x. host.framed env P (f x)) \<Longrightarrow> host.framed env P (map_s f xs)"
  unfolding map_s_def by (intro host.framed_fold host.framed_bind host.framed_ret) auto

lemma remote_framed:
  assumes "strict_for env s P"
  shows "host.framed env P (run_remote_streams env s command)" "host.framed env P (run_remote env s command)"
    "host.framed env P (run_remote_input env s fmt command input)" "host.framed env P (run_remote_output env s fmt command)"
    "host.framed env P (read_optional env s p)"
proof -
  show streams: "host.framed env P (run_remote_streams env s command)" for command
    unfolding run_remote_streams_def by (intro host.framed_bind with_ssh_framed assms) auto
  show remote: "host.framed env P (run_remote env s command)" for command
    unfolding run_remote_def by (intro host.framed_bind streams) auto
  show "host.framed env P (read_optional env s p)" unfolding read_optional_def by (rule remote)
  show "host.framed env P (run_remote_input env s fmt command input)" "host.framed env P (run_remote_output env s fmt command)"
    unfolding run_remote_input_def run_remote_output_def by (intro with_stderr_framed with_ssh_framed assms)+
qed


lemma framed_cases:
  "(b \<Longrightarrow> host.framed env P m) \<Longrightarrow> (\<not> b \<Longrightarrow> host.framed env P k) \<Longrightarrow> host.framed env P (if b then m else k)"
  "host.framed env P m \<Longrightarrow> (\<And>x. host.framed env P (f x)) \<Longrightarrow> host.framed env P (case z of None \<Rightarrow> m | Some x \<Rightarrow> f x)"
  "(\<And>a b. host.framed env P (g a b)) \<Longrightarrow> host.framed env P (case y of (a, b) \<Rightarrow> g a b)"
  "(\<And>e. host.framed env P (u e)) \<Longrightarrow> (\<And>x. host.framed env P (v x)) \<Longrightarrow> host.framed env P (case w of Inl e \<Rightarrow> u e | Inr x \<Rightarrow> v x)"
  "host.framed env P m \<Longrightarrow> (\<And>x xs. host.framed env P (q x xs)) \<Longrightarrow> host.framed env P (case l of [] \<Rightarrow> m | x # xs \<Rightarrow> q x xs)"
  by (cases b; cases z; cases y; cases w; cases l; simp)+

lemmas ops_steps = host.framed_bind host.framed_also host.framed_wrap host.framed_ret host.framed_each framed_cases
  remote_framed map_s_framed succeeds_framed

lemma exec_framed:
  assumes "strict_for env s P"
  shows "host.framed env P (upload_execution env s b)" "host.framed env P (start_execution env s q)"
    "host.framed env P (observe_execution env decode s run)" "host.framed env P (send_execution_secrets env s run vs)"
    "host.framed env P (ssh_prepare_storage_copy env s declared)" "host.framed env P (ssh_transfer_storage_copy env s token)"
    "host.framed env P (ssh_cleanup_storage_copy env s token)"
  unfolding upload_execution_def start_execution_def observe_execution_def send_execution_secrets_def
    ssh_prepare_storage_copy_def ssh_transfer_storage_copy_def ssh_cleanup_storage_copy_def
  by (intro ops_steps assms)+

lemma runtime_framed:
  assumes "strict_for env s P"
  shows "host.framed env P (control_module_runtime env decode s m a)"
    "host.framed env P (ssh_healthcheck_module env parse_url decode s m)"
    "host.framed env P (ssh_logs env (\<lambda>c. lift_s (consume c)) s q)"
  unfolding control_module_runtime_def ssh_healthcheck_module_def module_runtime_inventory_def ssh_logs_def Let_def
  by (intro ops_steps assms)+

lemma facts_framed:
  assumes "strict_for env s P"
  shows "host.framed env P (unit_facts env s u)" "host.framed env P (container_facts env ie s name)"
    "host.framed env P (network_facts env ie s name)" "host.framed env P (artifact_facts env s p)"
    "host.framed env P (podman_facts env ie s)" "host.framed env P (host_facts env s)" "host.framed env P (cloud_init_facts env s)"
    "host.framed env P (inspect_primary_hardening env s)" "host.framed env P (core_observation env ie s)"
  unfolding unit_facts_def container_facts_def network_facts_def artifact_facts_def podman_facts_def host_facts_def
    cloud_init_facts_def inspect_primary_hardening_def core_observation_def Let_def
  by (intro ops_steps assms)+

lemma service_framed:
  assumes "strict_for env s P"
  shows "host.framed env P (service_facts env ie s r)" "host.framed env P (caddy_facts env ie s r')"
proof -
  show service: "host.framed env P (service_facts env ie s r)" for r
    unfolding service_facts_def Let_def by (intro ops_steps facts_framed assms)
  show "host.framed env P (caddy_facts env ie s r')"
    unfolding caddy_facts_def by (intro ops_steps service assms)
qed

lemma inspect_framed:
  assumes "strict_for env s P"
  shows "host.framed env P (ssh_inspect env ie s)"
proof -
  have "host.framed env P (core_facts env ie s)" "host.framed env P (module_facts env ie s)" "host.framed env P (link_facts env ie s)"
      "host.framed env P (planning_network_facts env ie s links)" for links
    unfolding core_facts_def module_facts_def link_facts_def planning_network_facts_def module_entry_facts_def
      all_podman_network_facts_def planning_link_inventory_def
    by (intro ops_steps facts_framed service_framed assms)+
  then show ?thesis unfolding ssh_inspect_def by (intro ops_steps facts_framed assms)
qed

subsection \<open>The gateway on the SSH transport\<close>

record remote_env =
  rme_Inspect :: inspect_env
  rme_Consume :: "bytes \<times> bytes \<Rightarrow> unit result"
  rme_Proof :: "bytes \<Rightarrow> exec_proof result"
  rme_Runtime :: "bytes \<Rightarrow> runtime_inventory list result"
  rme_Url :: "bytes \<Rightarrow> (bytes \<times> bytes) option"

text \<open>\<open>New\<close>: the gateway whose transport is the SSH transport; what is not the transport's comes from \<open>g\<close>.\<close>

definition ssh_gateway :: "'w ssh_env \<Rightarrow> remote_env \<Rightarrow> 'w ssh_host gateway_env \<Rightarrow> 'w ssh_host gateway_env" where
  "ssh_gateway env re g =
     g\<lparr>gwe_ObserveHostKey := ssh_observe_host_key env,
       gwe_Inspect := ssh_inspect env (rme_Inspect re),
       gwe_Logs := ssh_logs env (\<lambda>c. lift_s (rme_Consume re c)),
       gwe_Execution := Some \<lparr>ext_Upload = upload_execution env, ext_Start = start_execution env,
         ext_Observe = observe_execution env (rme_Proof re), ext_SendSecrets = send_execution_secrets env\<rparr>,
       gwe_Runtime := Some \<lparr>rtt_Control = control_module_runtime env (rme_Runtime re),
         rtt_Healthcheck = ssh_healthcheck_module env (rme_Url re) (rme_Runtime re)\<rparr>,
       gwe_Storage := Some \<lparr>stt_Prepare = ssh_prepare_storage_copy env, stt_Transfer = ssh_transfer_storage_copy env,
         stt_Cleanup = ssh_cleanup_storage_copy env\<rparr>\<rparr>"

text \<open>
  The processes that a call for the target \<open>i\<close> may start when the database is \<open>db\<close>: at the address in the
  row of this target, the scan of the host key, and, if the row is confirmed with a key, \<open>ssh\<close> with a strict
  command line for the user in the row, a file of known hosts that is one line with the name of the
  endpoint and the confirmed key, and a file with the private key made of the secret that the row
  names as its identity.
\<close>

definition permitted ::
  "'w ssh_env \<Rightarrow> ('v, 'x) gateway_env_scheme \<Rightarrow> bytes \<Rightarrow> db \<Rightarrow> process_pred" where
  "permitted env g i db files name args \<longleftrightarrow>
     (\<exists>r parsed. target_row_of i db = Some r \<and> parse_endpoint (sse_ParseIP env) (trw_Address r) = Inr parsed \<and>
        (name = ''ssh-keyscan'' \<and>
           args = [''-T'', ''5'', ''-p'', pep_Port parsed, ''-t'', ''ed25519,ecdsa,rsa'', pep_Host parsed] \<or>
         name = ''ssh'' \<and> trw_SSHTrust r = Trust_Confirmed \<and> trw_SSHHostKey r \<noteq> [] \<and>
         (\<exists>identity known seed key.
            strict_line parsed (trw_SSHUser r) identity known args \<and>
            files known = Some (known_hosts_name parsed @ '' '' @ trim_space (trw_SSHHostKey r) @ [CHR 0x0A]) \<and>
            resolve_seed g (trw_SSHIdentitySecretID r) db = Inr seed \<and>
            marshal_openssh_private_key (sse_Pub env) (sse_Check env)
              (''vpsmith:'' @ trw_SSHUser r @ ''@'' @ pep_Host parsed) seed = Inr key \<and>
            files identity = Some key)))"

definition gateway_step :: "'w ssh_env \<Rightarrow> process_pred \<Rightarrow> 'w ssh_host gateway_state \<Rightarrow> 'w ssh_host gateway_state \<Rightarrow> bool" where
  "gateway_step env P st st' \<longleftrightarrow> host_step env P (gws_World st) (gws_World st')"

interpretation gateway: frame "gateway_step env P" for env :: "'w ssh_env" and P
  by unfold_locales (auto simp: gateway_step_def intro: host.keeps_refl host.keeps_trans)

lemma world_framed [intro]: "host.framed env P m \<Longrightarrow> gateway.framed env P (world_s m)"
  by (simp add: gateway.framed_def host.framed_def gateway_step_def world_s_def split_beta)

lemma db_framed [intro]: "gateway.framed env P (db_s e g)"
  by (simp add: gateway.framed_def gateway_step_def db_s_def split_beta host.keeps_refl)

lemma host_lift_bind: "(\<And>x. r = Inr x \<Longrightarrow> host.framed env P (f x)) \<Longrightarrow> host.framed env P (bind_s (lift_s r) f)"
  by (cases r) (simp_all add: host.framed_def bind_s_def lift_s_def host.keeps_refl)

lemma keyscan_framed:
  assumes "\<And>parsed files. parse_endpoint (sse_ParseIP env) (epn_Address e) = Inr parsed \<Longrightarrow>
      P files ''ssh-keyscan'' [''-T'', ''5'', ''-p'', pep_Port parsed, ''-t'', ''ed25519,ecdsa,rsa'', pep_Host parsed]"
  shows "host.framed env P (ssh_observe_host_key env e)"
  unfolding ssh_observe_host_key_def
  by (intro host_lift_bind host.framed_bind framed_cases host_lift) (simp add: host.framed_def run_process_step assms)

definition proper :: "'w ssh_env \<Rightarrow> ('v, 'x) gateway_env_scheme \<Rightarrow> bytes \<Rightarrow> ('w ssh_host gateway_state, 'a) action \<Rightarrow> bool" where
  "proper env g i m \<longleftrightarrow> (\<forall>st. gateway_step env (permitted env g i (gws_Db st)) st (snd (m st)))"

lemma proper_framed: "(\<And>db. gateway.framed env (permitted env g i db) m) \<Longrightarrow> proper env g i m"
  by (simp add: proper_def gateway.framed_def)

lemma proper_checked: "proper env g i m \<Longrightarrow> proper env g i (also_s (lift_s r) m)"
  by (cases r) (simp_all add: proper_def also_s_def bind_s_def lift_s_def gateway.keeps_refl)

lemma proper_read: "(\<And>x. proper env g i (f x)) \<Longrightarrow> proper env g i (bind_s (read_s h) f)"
  by (auto simp: proper_def bind_s_def read_s_def gateway.keeps_refl split: sum.split)

lemma proper_lift: "(\<And>x. proper env g i (f x)) \<Longrightarrow> proper env g i (bind_s (lift_s r) f)"
  by (auto simp: proper_def bind_s_def lift_s_def gateway.keeps_refl split: sum.split)

text \<open>What is done with a target that was read works on the row of this target.\<close>

lemma proper_target:
  assumes "\<And>t r db. target_row_of i db = Some r \<Longrightarrow> target_endpoint t = row_endpoint r \<Longrightarrow>
      gateway.framed env (permitted env g i db) (f t)"
  shows "proper env g i (bind_s (target_s e i) f)"
  unfolding proper_def
proof
  fix st :: "'a ssh_host gateway_state"
  show "gateway_step env (permitted env g i (gws_Db st)) st (snd (bind_s (target_s e i) f st))"
  proof (cases "gateway_target e i (gws_Db st)")
    case (Inr t)
    obtain r where "target_row_of i (gws_Db st) = Some r" "target_endpoint t = row_endpoint r"
      by (rule gateway_target_row [OF Inr])
    from assms [OF this] show ?thesis by (simp add: gateway.framed_def bind_s_def target_s_def read_s_def Inr)
  qed (simp add: bind_s_def target_s_def read_s_def gateway.keeps_refl)
qed

lemma scan_framed:
  assumes "target_row_of i db = Some r" "e = row_endpoint r"
  shows "gateway.framed env (permitted env g i db) (world_s (gwe_ObserveHostKey (ssh_gateway env re h) e))"
proof (rule world_framed)
  show "host.framed env (permitted env g i db) (gwe_ObserveHostKey (ssh_gateway env re h) e)"
    unfolding ssh_gateway_def using assms by (auto simp: permitted_def row_endpoint_def intro!: keyscan_framed)
qed

lemma session_proper: "proper env g i (strict_session (ssh_gateway env re h) i)"
  unfolding strict_session_def
  by (intro proper_target gateway.framed_bind gateway.framed_also gateway.framed_wrap gateway.framed_ret scan_framed)

lemma session_confirmed:
  "leaves (strict_session e i)
     (goes_on (\<lambda>s st'. \<exists>r. target_row_of i (gws_Db st) = Some r \<and> ses_Endpoint s = row_endpoint r \<and>
          ses_HostKey s = trw_SSHHostKey r \<and> trw_SSHTrust r = Trust_Confirmed \<and> trw_SSHHostKey r \<noteq> [] \<and>
          resolve_seed e (trw_SSHIdentitySecretID r) (gws_Db st) = Inr (ses_IdentitySeed s)) (\<lambda>e st'. True)) st"
proof (cases "gateway_target e i (gws_Db st)")
  case (Inr t)
  obtain r where r: "target_row_of i (gws_Db st) = Some r" "target_endpoint t = row_endpoint r"
      "tgt_SSHIdentitySecretID t = trw_SSHIdentitySecretID r" "target_trust t = trust_row r"
    by (rule gateway_target_row [OF Inr])
  show ?thesis
    using Inr r
    by (auto simp: strict_session_def target_s_def world_s_def leaves_def bind_s_def also_s_def read_s_def lift_s_def wrap_s_def
        ret_s_def reject_if_def target_trust_def trust_row_def goes_on_def result_simps split: prod.splits sum.splits)
qed (simp add: strict_session_def target_s_def)

lemma resolve_gateway: "resolve_seed (ssh_gateway env re g) i db = resolve_seed g i db"
  by (simp add: resolve_seed_def ssh_gateway_def)

lemma permitted_strict:
  assumes "target_row_of i db = Some r" "ses_Endpoint s = row_endpoint r" "ses_HostKey s = trw_SSHHostKey r"
    "trw_SSHTrust r = Trust_Confirmed" "trw_SSHHostKey r \<noteq> []" "resolve_seed g (trw_SSHIdentitySecretID r) db = Inr (ses_IdentitySeed s)"
  shows "strict_for env s (permitted env g i db)"
  unfolding strict_for_def
proof (intro allI impI)
  fix files args assume "strict_ssh env s files args"
  then show "permitted env g i db files ''ssh'' args"
    unfolding strict_ssh_def permitted_def using assms by (fastforce simp: row_endpoint_def)
qed

lemma proper_session:
  fixes env :: "'w ssh_env" and f :: "ssh_session \<Rightarrow> ('w ssh_host gateway_state, 'a) action"
  assumes "\<And>s db. strict_for env s (permitted env g i db) \<Longrightarrow> gateway.framed env (permitted env g i db) (f s)"
  shows "proper env g i (bind_s (strict_session (ssh_gateway env re g) i) f)"
  unfolding proper_def
proof
  fix st :: "'w ssh_host gateway_state"
  let ?P = "permitted env g i (gws_Db st)"
  obtain r st1 where eq: "strict_session (ssh_gateway env re g) i st = (r, st1)" by (rule prod.exhaust)
  have first: "gateway_step env ?P st st1"
    using session_proper [of env g i re g] eq unfolding proper_def by (metis snd_conv)
  show "gateway_step env ?P st (snd (bind_s (strict_session (ssh_gateway env re g) i) f st))"
  proof (cases r)
    case (Inl e)
    with eq first show ?thesis by (simp add: bind_s_def)
  next
    case (Inr s)
    have "strict_for env s ?P"
      using session_confirmed [of "ssh_gateway env re g" i st] eq Inr
      by (auto simp: leaves_def resolve_gateway intro: permitted_strict)
    from assms [OF this] have "gateway_step env ?P st1 (snd (f s st1))" by (simp add: gateway.framed_def)
    with first show ?thesis using eq Inr by (simp add: bind_s_def) (rule gateway.keeps_trans)
  qed
qed

lemmas gateway_steps = gateway.framed_bind gateway.framed_also gateway.framed_wrap gateway.framed_ret world_framed db_framed

lemma proper_transport:
  assumes "\<And>t s P. transport = Some t \<Longrightarrow> strict_for env s P \<Longrightarrow> host.framed env P (f t s)"
  shows "proper env g i (with_transport (ssh_gateway env re g) i transport missing f)"
  unfolding with_transport_def using assms
  by (intro proper_session) (auto split: option.split)

lemma proper_calls:
  fixes env re and g :: "'w ssh_host gateway_env"
  defines "e \<equiv> ssh_gateway env re g"
  shows "proper env g i (ensure_identity e i)" "proper env g i (observe_host_key e i)" "proper env g i (confirm_host_key e i k)"
    "proper env g i (reset_trust e i)" "proper env g i (inspect_target e i)" "proper env g i (target_logs e i r)" "proper env g i (enroll e i)"
proof -
  show "proper env g i (ensure_identity e i)"
    unfolding ensure_identity_def by (intro proper_framed gateway_steps)
  show "proper env g i (reset_trust e i)"
    unfolding reset_trust_def set_trust_def by (intro proper_framed gateway_steps)
  show "proper env g i (observe_host_key e i)"
    unfolding observe_host_key_def e_def by (intro proper_target gateway.framed_wrap scan_framed)
  show "proper env g i (confirm_host_key e i k)"
    unfolding confirm_host_key_def e_def set_trust_def
    by (intro proper_checked proper_target gateway.framed_bind gateway.framed_wrap scan_framed) (auto intro!: gateway_steps)
  show "proper env g i (inspect_target e i)"
    unfolding inspect_target_def Let_def e_def record_inspection_def
    by (intro proper_session gateway_steps) (simp add: ssh_gateway_def inspect_framed)
  show "proper env g i (enroll e i)"
    unfolding enroll_def target_s_def Let_def e_def record_inspection_def
    by (intro proper_read proper_session gateway_steps) (simp add: ssh_gateway_def inspect_framed)
  show "proper env g i (target_logs e i r)"
    unfolding target_logs_def Let_def e_def
    by (intro proper_checked proper_session gateway_steps) (simp add: ssh_gateway_def runtime_framed)
qed

lemma proper_transports:
  fixes env re and g :: "'w ssh_host gateway_env"
  defines "e \<equiv> ssh_gateway env re g"
  shows "proper env g i (gateway_upload e v i b)" "proper env g i (gateway_start e i q)"
    "proper env g i (gateway_observe e i run)" "proper env g i (gateway_send_secrets e i run vs)"
    "proper env g i (control_module e i m a)" "proper env g i (healthcheck_module e i m)"
    "proper env g i (prepare_storage_copy e i ps)" "proper env g i (transfer_storage_copy e i token)"
    "proper env g i (cleanup_storage_copy e i token)"
  unfolding gateway_upload_def gateway_start_def gateway_observe_def gateway_send_secrets_def control_module_def
    healthcheck_module_def prepare_storage_copy_def transfer_storage_copy_def cleanup_storage_copy_def e_def
  by (intro proper_checked proper_lift proper_transport; auto simp: ssh_gateway_def exec_framed runtime_framed)+

lemmas proper_results = proper_calls [unfolded proper_def, rule_format] proper_transports [unfolded proper_def, rule_format]

lemma call_proper:
  "gateway_step env (permitted env g (call_target c) (gws_Db st)) st (call_gateway (ssh_gateway env re g) c st)"
  by (cases c) (simp_all add: proper_results)

text \<open>
  C37: Whatever the gateway is asked to do for a target, the only processes it starts are the scan of the
  host key at the recorded address of this target and, once a key is confirmed for it, \<open>ssh\<close> to this
  address and the recorded user with strict host key checking. The command line that \<open>ssh\<close> reads turns
  StrictHostKeyChecking on, names one file of known hosts for the user and none for the system, allows no other
  authentication than by the given key file, no agent, no forwarding and no configuration; the file of
  known hosts holds exactly the key the operator confirmed for this target, and the key file the private
  key of the identity of this target. No answer of a target, no fault of the system and no stored state
  makes it connect in another way.
\<close>

theorem connections_strict:
  "runs env (permitted env g (call_target c) (gws_Db st))
     (sho_World (gws_World st)) (sho_World (gws_World (call_gateway (ssh_gateway env re g) c st)))"
  using call_proper [of env g c st re] by (simp add: gateway_step_def host_step_def)


subsection \<open>A session that writes its key\<close>






















end
