(* ===== verification/Host_Calls.thy ===== *)
theory Host_Calls
  imports Backup_Envelope Host_Frame
begin

section \<open>Calls on whole trees\<close>

text \<open>
  The calls of \<open>os\<close> and \<open>filepath\<close> that the source library makes and the archive code does not:
  \<open>ReadDir\<close>, \<open>WalkDir\<close>, \<open>EvalSymlinks\<close>, \<open>Remove\<close>, \<open>RemoveAll\<close>, \<open>Rename\<close>, \<open>MkdirTemp\<close> and
  \<open>WriteFile\<close>, on the tree of \<open>Host_Files\<close>, with the relation in which they leave a tree: nothing
  has changed outside a set of places.
\<close>

subsection \<open>Joining and resolving\<close>

text \<open>\<open>filepath.Join\<close> of an absolute path and a slash-separated text; the result is cleaned as a text.\<close>

definition join_path :: "path \<Rightarrow> bytes \<Rightarrow> path" where
  "join_path root name = clean_comps True (root @ split_on CHR ''/'' name)"

definition eval_limit :: nat where "eval_limit = 255"

text \<open>\<open>filepath.EvalSymlinks\<close> resolves every link of a path to something that exists.\<close>

definition eval_symlinks :: "os_env \<Rightarrow> path \<Rightarrow> files \<Rightarrow> path result" where
  "eval_symlinks io p fs =
     (case ose_Fail io ''evalsymlinks'' p of
        Some e \<Rightarrow> Inl e
      | None \<Rightarrow>
          bind_r (at_place (walk (node_at fs) eval_limit [] p)) (\<lambda>q.
          if node_at fs q = None then Inl err_not_exist else Inr q))"

subsection \<open>Reading directories\<close>

definition os_read_dir :: "os_env \<Rightarrow> path \<Rightarrow> (files, (bytes \<times> node) list) action" where
  "os_read_dir io p = try_s io ''readdir'' p (read_s (\<lambda>fs.
     bind_r (at_place (followed fs p)) (\<lambda>q.
     case node_at fs q of
       None \<Rightarrow> Inl err_not_exist
     | Some (Directory a) \<Rightarrow>
         Inr (map (\<lambda>c. (c, the (node_at fs (q @ [c])))) (sort_key (\<lambda>c. c) (remdups (map last (children fs q)))))
     | Some nd \<Rightarrow> Inl err_not_dir)))"

text \<open>
  \<open>filepath.WalkDir\<close> visits the entries below a real directory, a directory before its entries and
  those in the order of their names: that is the order of the component lists. The visit of an entry
  may skip what is below it. A link is not followed; a root that is no directory has no entries. The
  entries are listed before the first visit, which is the same as long as the visits change nothing
  below the root.
\<close>

definition tree_below :: "files \<Rightarrow> path \<Rightarrow> (path \<times> node) list" where
  "tree_below fs q =
     map (\<lambda>p. (p, the (node_at fs (q @ p))))
       (sort_key (\<lambda>p. p)
         (remdups (map (drop (length q)) (filter (\<lambda>p. take (length q) p = q \<and> p \<noteq> q) (map fst (fls_Nodes fs))))))"

definition pruned :: "(path \<Rightarrow> bool) \<Rightarrow> path \<Rightarrow> bool" where
  "pruned skip p = list_ex (\<lambda>k. skip (take k p)) [1..<length p]"

definition walk_dir ::
  "os_env \<Rightarrow> (path \<Rightarrow> bool) \<Rightarrow> ('b \<Rightarrow> path \<Rightarrow> node \<Rightarrow> (files, 'b) action) \<Rightarrow> path \<Rightarrow> 'b \<Rightarrow> (files, 'b) action" where
  "walk_dir io skip visit root b =
     bind_s (os_lstat io root) (\<lambda>x.
     case x of
       None \<Rightarrow> lift_s (Inl err_not_exist)
     | Some (Directory a) \<Rightarrow>
         bind_s (try_s io ''readdir'' root (read_s (\<lambda>fs.
           bind_r (at_place (located fs root)) (\<lambda>q. Inr (filter (\<lambda>(p, nd). \<not> pruned skip p) (tree_below fs q)))))) (\<lambda>entries.
         fold_s (\<lambda>b (p, nd).
           bind_s (visit b p nd) (\<lambda>b'.
           if is_directory (Some nd) \<and> \<not> skip p then try_s io ''readdir'' (root @ p) (ret_s b') else ret_s b')) b entries)
     | Some nd \<Rightarrow> ret_s b)"

subsection \<open>Removing, renaming, writing\<close>

definition drop_below :: "(path \<Rightarrow> bool) \<Rightarrow> path \<Rightarrow> files \<Rightarrow> files" where
  "drop_below stays q fs = fs\<lparr>fls_Nodes := filter (\<lambda>(p, nd). take (length q) p = q \<longrightarrow> stays p) (fls_Nodes fs)\<rparr>"

definition os_remove :: "os_env \<Rightarrow> path \<Rightarrow> (files, unit) action" where
  "os_remove io p = try_s io ''remove'' p
     (bind_s (read_s (\<lambda>fs. at_place (located fs p))) (\<lambda>q.
      also_s (read_s (\<lambda>fs. checks
         [reject_if (node_at fs q = None) err_not_exist,
          reject_if (is_directory (node_at fs q) \<and> children fs q \<noteq> []) (Err ''directory not empty'')]))
        (update_s (drop_below (\<lambda>_. False) q))))"

text \<open>
  \<open>RemoveAll\<close> removes what it can: an entry that cannot be removed stays, with the directories above
  it, and the call fails. Nothing to remove is no error.
\<close>

definition os_remove_all :: "os_env \<Rightarrow> path \<Rightarrow> (files, unit) action" where
  "os_remove_all io p =
     bind_s (read_s (\<lambda>fs. located fs p)) (\<lambda>x.
     case x of
       None \<Rightarrow> ret_s ()
     | Some q \<Rightarrow>
         bind_s (read_s (\<lambda>fs. Inr (filter (\<lambda>r. take (length q) r = q \<and> ose_Fail io ''remove'' r \<noteq> None)
             (map fst (fls_Nodes fs))))) (\<lambda>kept.
         also_s (update_s (drop_below (\<lambda>r. list_ex (\<lambda>k. take (length r) k = r) kept) q))
           (case kept of [] \<Rightarrow> ret_s () | r # rs \<Rightarrow> lift_s (Inl (the (ose_Fail io ''remove'' r))))))"

text \<open>A clean-up whose error is dropped.\<close>

definition quietly :: "(files, unit) action \<Rightarrow> files \<Rightarrow> files" where
  "quietly m fs = snd (m fs)"

text \<open>\<open>os.Rename\<close> refuses a new name that is a directory; it moves a tree with everything below it.\<close>

definition move_below :: "path \<Rightarrow> path \<Rightarrow> files \<Rightarrow> files" where
  "move_below p q fs =
     fs\<lparr>fls_Nodes :=
       map (\<lambda>(r, nd). (if take (length p) r = p then q @ drop (length p) r else r, nd))
         (filter (\<lambda>(r, nd). r \<noteq> q) (fls_Nodes fs))\<rparr>"

definition os_rename :: "os_env \<Rightarrow> path \<Rightarrow> path \<Rightarrow> (files, unit) action" where
  "os_rename io old new = try_s io ''rename'' old
     (bind_s (read_s (\<lambda>fs. at_place (located fs old))) (\<lambda>p.
      also_s (read_s (\<lambda>fs. reject_if (node_at fs p = None) err_not_exist))
     (bind_s (read_s (\<lambda>fs. at_place (located fs new))) (\<lambda>q.
      also_s (read_s (\<lambda>fs. checks
         [reject_if (is_directory (node_at fs q)) err_exist,
          reject_if (is_directory (node_at fs p) \<and> node_at fs q \<noteq> None) err_not_dir,
          reject_if (is_directory (node_at fs p) \<and> take (length p) q = p) (Err ''invalid argument'')]))
        (update_s (if p = q then id else move_below p q))))))"

text \<open>\<open>os.MkdirTemp\<close> draws names until one is free; the draws are an argument.\<close>

fun os_mkdir_temp :: "os_env \<Rightarrow> path \<Rightarrow> bytes list \<Rightarrow> (files, path) action" where
  "os_mkdir_temp io dir [] = lift_s (Inl err_exist)"
| "os_mkdir_temp io dir (name # names) =
     rescue_s (also_s (os_mkdir io (dir @ [name]) 448) (ret_s (dir @ [name])))
       (\<lambda>e. if error_is e err_exist then os_mkdir_temp io dir names else lift_s (Inl e))"

text \<open>
  Where \<open>open\<close> with \<open>O_CREATE\<close> makes a file: a link in the last component is followed to the place it
  names although nothing is there.
\<close>

fun create_place :: "nat \<Rightarrow> files \<Rightarrow> path \<Rightarrow> path result" where
  "create_place n fs p =
     bind_r (at_place (located fs p)) (\<lambda>q.
     case node_at fs q of
       Some (Symlink t a) \<Rightarrow>
         (case n of
            0 \<Rightarrow> Inl err_loop
          | Suc m \<Rightarrow> create_place m fs ((if has_prefix t ''/'' then [] else butlast q) @ split_on CHR ''/'' t))
     | _ \<Rightarrow> Inr q)"

definition open_place :: "files \<Rightarrow> path \<Rightarrow> path result" where
  "open_place fs p =
     bind_r (followed fs p) (\<lambda>x. case x of Some q \<Rightarrow> Inr q | None \<Rightarrow> create_place link_limit fs p)"

definition write_content :: "bytes \<Rightarrow> nat \<Rightarrow> files \<Rightarrow> files" where
  "write_content body i fs =
     (case inode_at fs i of None \<Rightarrow> fs | Some x \<Rightarrow> put_inode i (x\<lparr>ind_Content := body\<rparr>) fs)"

definition os_write_file :: "os_env \<Rightarrow> path \<Rightarrow> bytes \<Rightarrow> nat \<Rightarrow> (files, unit) action" where
  "os_write_file io p body mode = try_s io ''open'' p
     (bind_s (read_s (\<lambda>fs. open_place fs p)) (\<lambda>q.
      let written = (case ose_Fail io ''write'' p of Some e \<Rightarrow> take (ose_Written io) body | None \<Rightarrow> body);
          ending = lift_s (case ose_Fail io ''write'' p of
                       Some e \<Rightarrow> Inl e
                     | None \<Rightarrow> (case ose_Fail io ''close'' p of Some e \<Rightarrow> Inl e | None \<Rightarrow> Inr ())) in
      bind_s (read_s (\<lambda>fs. Inr (node_at fs q))) (\<lambda>x.
      case x of
        None \<Rightarrow> also_s (update_s (make_file io mode written q)) ending
      | Some (Regular i) \<Rightarrow> also_s (update_s (write_content written i)) ending
      | Some (Directory a) \<Rightarrow> lift_s (Inl (Err ''is a directory''))
      | Some nd \<Rightarrow> ending)))"

end
