(* ===== verification/Source_Tree.thy ===== *)
theory Source_Tree
  imports Host_Calls
begin

section \<open>The identity of a source tree\<close>

text \<open>
  \<open>internal/sourcehash/sourcehash.go\<close> and the functions of \<open>internal/sourcelibrary/library.go\<close> on one
  tree: \<open>copyTree\<close>, \<open>fileDigests\<close>, \<open>diffTrees\<close> and the check of a path of an edit. The text that is
  hashed is a definition of its own, \<open>tree_document\<close>, so that what it determines can be stated without
  SHA-256.
\<close>

subsection \<open>TreeSHA256\<close>

record tree_entry =
  ten_Path :: bytes
  ten_Symlink :: bool
  ten_Mode :: nat
  ten_Size :: nat
  ten_Target :: bytes
  ten_Digest :: bytes

definition ignored :: "bytes \<Rightarrow> bool \<Rightarrow> bool" where
  "ignored rel is_dir =
     (let base = path_base rel in
      list_ex (\<lambda>p. p = ''.git'') (split_on CHR ''/'' rel) \<or>
      is_dir \<and> (base = ''.idea'' \<or> base = ''.vscode'') \<or>
      base = ''.DS_Store'' \<or> base = ''Thumbs.db'' \<or> has_suffix base ''~'' \<or> has_suffix base ''.swp'' \<or>
      has_suffix base ''.swo'' \<or> has_prefix base ''.#'')"

definition relevant_path :: "bytes \<Rightarrow> bool \<Rightarrow> bool" where
  "relevant_path rel is_dir = (\<not> ignored rel is_dir)"

abbreviation rel_text :: "path \<Rightarrow> bytes" where
  "rel_text p \<equiv> join_with ''/'' p"

text \<open>The target is joined to the directory of the link as a text, and cleaned, before it is resolved.\<close>

definition validate_symlink :: "os_env \<Rightarrow> path \<Rightarrow> path \<Rightarrow> bytes \<Rightarrow> files \<Rightarrow> unit result" where
  "validate_symlink io root p target fs =
     (if has_prefix target ''/'' then Inl (Err ''target must be relative'')
      else
        bind_r (wrap_error ''resolve target: %w'' [] (eval_symlinks io (join_path (butlast p) target) fs)) (\<lambda>resolved.
        reject_if (take (length root) resolved \<noteq> root) (Err ''target escapes source tree'')))"

text \<open>\<open>%04o\<close>\<close>

fun octal_digits :: "nat \<Rightarrow> nat \<Rightarrow> bytes" where
  "octal_digits 0 n = []"
| "octal_digits (Suc k) n = octal_digits k (n div 8) @ [char_of (48 + n mod 8)]"

definition perm_text :: "nat \<Rightarrow> bytes" where
  "perm_text mode = octal_digits 4 (mode mod 512)"

definition file_content :: "files \<Rightarrow> nat \<Rightarrow> bytes result" where
  "file_content fs i = (case inode_at fs i of None \<Rightarrow> Inl err_not_exist | Some x \<Rightarrow> Inr (ind_Content x))"

definition source_file_sha :: "os_env \<Rightarrow> path \<Rightarrow> nat \<Rightarrow> files \<Rightarrow> bytes result" where
  "source_file_sha io p i fs =
     (case ose_Fail io ''open'' p of
        Some e \<Rightarrow> Inl e
      | None \<Rightarrow>
          (case ose_Fail io ''read'' p of
             Some e \<Rightarrow> Inl e
           | None \<Rightarrow> bind_r (file_content fs i) (\<lambda>body. Inr (sha256_hex body))))"

definition skipped_dir :: "path \<Rightarrow> bool" where
  "skipped_dir p = ignored (rel_text p) True"

definition mode_text :: "node \<Rightarrow> bytes" where
  "mode_text nd = (case nd of Special c a \<Rightarrow> [c] | _ \<Rightarrow> [])"

definition tree_visit ::
  "os_env \<Rightarrow> path \<Rightarrow> path \<Rightarrow> tree_entry list \<Rightarrow> path \<Rightarrow> node \<Rightarrow> (files, tree_entry list) action" where
  "tree_visit io root resolved es p nd =
     (if ignored (rel_text p) (is_directory (Some nd)) then ret_s es
      else
        case nd of
          Directory a \<Rightarrow> ret_s es
        | Regular i \<Rightarrow>
            try_s io ''lstat'' (root @ p)
              (bind_s (read_s (source_file_sha io (root @ p) i)) (\<lambda>digest.
               bind_s (read_s (\<lambda>fs. case inode_at fs i of None \<Rightarrow> Inl err_not_exist | Some x \<Rightarrow> Inr x)) (\<lambda>x.
               ret_s (es @ [\<lparr>ten_Path = rel_text p, ten_Symlink = False, ten_Mode = att_Mode (ind_Attrs x),
                             ten_Size = length (ind_Content x), ten_Target = [], ten_Digest = digest\<rparr>]))))
        | Symlink t a \<Rightarrow>
            try_s io ''lstat'' (root @ p)
              (try_s io ''readlink'' (root @ p)
                (also_s (wrap_s ''unsafe source symlink %s: %w'' [rel_text p] (read_s (validate_symlink io resolved (root @ p) t)))
                  (ret_s (es @ [\<lparr>ten_Path = rel_text p, ten_Symlink = True, ten_Mode = att_Mode a, ten_Size = 0,
                                 ten_Target = t, ten_Digest = []\<rparr>]))))
        | Special c a \<Rightarrow>
            try_s io ''lstat'' (root @ p)
              (lift_s (Inl (Errf ''unsupported source entry %s with mode %s'' [rel_text p, mode_text nd]))))"

definition source_entries :: "os_env \<Rightarrow> path \<Rightarrow> (files, tree_entry list) action" where
  "source_entries io root =
     bind_s (os_lstat io root) (\<lambda>x.
     also_s (lift_s (case x of
         None \<Rightarrow> Inl err_not_exist
       | Some nd \<Rightarrow> reject_if (\<not> is_directory x) (Errf ''%s must be a real directory'' [path_text root])))
    (bind_s (wrap_s ''resolve source root: %w'' [] (read_s (eval_symlinks io root))) (\<lambda>resolved.
     bind_s (walk_dir io skipped_dir (tree_visit io root resolved) root []) (\<lambda>es.
     also_s (lift_s (reject_if (es = []) (Err ''source tree contains no relevant files'')))
       (ret_s (sort_key ten_Path es))))))"

definition nul_field :: "bytes \<Rightarrow> bytes" where
  "nul_field v = v @ [CHR 0x00]"

definition entry_fields :: "tree_entry \<Rightarrow> bytes list" where
  "entry_fields e =
     (if ten_Symlink e then [''symlink'', ten_Path e, ten_Target e]
      else [''file'', ten_Path e, perm_text (ten_Mode e), decimal (ten_Size e), ten_Digest e])"

definition tree_document :: "tree_entry list \<Rightarrow> bytes" where
  "tree_document es = concat (map (\<lambda>e. concat (map nul_field (entry_fields e))) es)"

definition tree_sha256 :: "os_env \<Rightarrow> path \<Rightarrow> (files, bytes) action" where
  "tree_sha256 io root = bind_s (source_entries io root) (\<lambda>es. ret_s (sha256_hex (tree_document es)))"

subsection \<open>Copying\<close>

definition copy_visit :: "os_env \<Rightarrow> path \<Rightarrow> path \<Rightarrow> unit \<Rightarrow> path \<Rightarrow> node \<Rightarrow> (files, unit) action" where
  "copy_visit io src dst u p nd =
     try_s io ''lstat'' (src @ p)
       (case nd of
          Directory a \<Rightarrow> os_mkdir_all io (dst @ p) (att_Mode a mod 512)
        | Symlink t a \<Rightarrow> try_s io ''readlink'' (src @ p) (os_symlink io t (dst @ p))
        | Special c a \<Rightarrow> lift_s (Inl (Errf ''unsupported source entry %s'' [rel_text p]))
        | Regular i \<Rightarrow>
            try_s io ''open'' (src @ p)
              (bind_s (read_s (\<lambda>fs. case inode_at fs i of None \<Rightarrow> Inl err_not_exist | Some x \<Rightarrow> Inr x)) (\<lambda>x.
               os_write_new io (dst @ p) (att_Mode (ind_Attrs x) mod 512) (ind_Content x))))"

definition copy_tree :: "os_env \<Rightarrow> path \<Rightarrow> path \<Rightarrow> (files, unit) action" where
  "copy_tree io src dst =
     also_s (os_mkdir_all io dst 448) (walk_dir io (\<lambda>_. False) (copy_visit io src dst) src ())"

subsection \<open>Differences\<close>

datatype change_kind = Added | Modified | Deleted

record file_change =
  fch_Path :: bytes
  fch_Kind :: change_kind
  fch_BeforeSHA :: bytes
  fch_AfterSHA :: bytes

definition digest_visit ::
  "os_env \<Rightarrow> path \<Rightarrow> (bytes \<times> bytes) list \<Rightarrow> path \<Rightarrow> node \<Rightarrow> (files, (bytes \<times> bytes) list) action" where
  "digest_visit io root ds p nd =
     (if \<not> relevant_path (rel_text p) (is_directory (Some nd)) then ret_s ds
      else
        case nd of
          Directory a \<Rightarrow> ret_s ds
        | Symlink t a \<Rightarrow>
            try_s io ''readlink'' (root @ p)
              (ret_s (ds @ [(rel_text p, sha256_hex (''symlink'' @ [CHR 0x00] @ t))]))
        | Special c a \<Rightarrow> ret_s ds
        | Regular i \<Rightarrow>
            try_s io ''read'' (root @ p)
              (bind_s (read_s (\<lambda>fs. file_content fs i)) (\<lambda>body. ret_s (ds @ [(rel_text p, sha256_hex body)]))))"

definition file_digests :: "os_env \<Rightarrow> path \<Rightarrow> (files, (bytes \<times> bytes) list) action" where
  "file_digests io root = walk_dir io skipped_dir (digest_visit io root) root []"

definition change_at :: "(bytes \<times> bytes) list \<Rightarrow> (bytes \<times> bytes) list \<Rightarrow> bytes \<Rightarrow> file_change list" where
  "change_at before after p =
     (case (map_of before p, map_of after p) of
        (None, Some a) \<Rightarrow> [\<lparr>fch_Path = p, fch_Kind = Added, fch_BeforeSHA = [], fch_AfterSHA = a\<rparr>]
      | (Some b, None) \<Rightarrow> [\<lparr>fch_Path = p, fch_Kind = Deleted, fch_BeforeSHA = b, fch_AfterSHA = []\<rparr>]
      | (Some b, Some a) \<Rightarrow>
          (if b \<noteq> a then [\<lparr>fch_Path = p, fch_Kind = Modified, fch_BeforeSHA = b, fch_AfterSHA = a\<rparr>] else [])
      | (None, None) \<Rightarrow> [])"

definition changes_between :: "(bytes \<times> bytes) list \<Rightarrow> (bytes \<times> bytes) list \<Rightarrow> file_change list" where
  "changes_between before after =
     concat (map (change_at before after) (sort_key (\<lambda>p. p) (remdups (map fst before @ map fst after))))"

definition diff_trees :: "os_env \<Rightarrow> path \<Rightarrow> path \<Rightarrow> (files, file_change list) action" where
  "diff_trees io before after =
     bind_s (file_digests io before) (\<lambda>b.
     bind_s (file_digests io after) (\<lambda>a. ret_s (changes_between b a)))"

subsection \<open>Edits\<close>

record edit =
  edi_Path :: bytes
  edi_Content :: bytes
  edi_Mode :: nat
  edi_Delete :: bool

definition validate_edit_path :: "bytes \<Rightarrow> unit result" where
  "validate_edit_path v =
     (let clean = path_clean v in
      reject_if (v = [] \<or> clean = ''.'' \<or> clean \<noteq> v \<or> has_prefix v ''/'' \<or> v = ''..'' \<or> has_prefix v ''../'' \<or>
          has_prefix v ''.git/'' \<or> v = ''.git'')
        (Errf ''workspace path %q must be a clean relative non-git path'' [v]))"

definition apply_edit :: "os_env \<Rightarrow> path \<Rightarrow> edit \<Rightarrow> (files, unit) action" where
  "apply_edit io root e =
     also_s (lift_s (validate_edit_path (edi_Path e)))
    (let p = join_path root (edi_Path e) in
     if edi_Delete e then
       rescue_s (os_remove io p) (\<lambda>err. lift_s (if error_is err err_not_exist then Inr () else Inl err))
     else
       also_s (os_mkdir_all io (butlast p) 448)
         (os_write_file io p (edi_Content e)
           (let mode = edi_Mode e mod 512 in if mode = 0 then 420 else mode)))"

end
