(* ===== verification/Source_Frame.thy ===== *)
theory Source_Frame
  imports Source_Tree
begin

section \<open>What the calls on trees leave\<close>

text \<open>
  \<open>local_to may\<close> says that a call changed nothing outside the places \<open>may\<close>: no entry and no content of
  a file. \<open>good\<close> is the shape that a tree keeps: entries stand in directories and have plain names. The
  lemmas give what the calls and the copy of a tree leave, on their errors too.
\<close>

subsection \<open>The relation\<close>

definition good :: "files \<Rightarrow> bool" where
  "good fs \<longleftrightarrow> tree_ok fs \<and> (\<forall>p nd. node_at fs p = Some nd \<longrightarrow> plain_path p)"

definition local_to :: "(path \<Rightarrow> bool) \<Rightarrow> files \<Rightarrow> files \<Rightarrow> bool" where
  "local_to may fs fs' \<longleftrightarrow>
     fls_Next fs \<le> fls_Next fs' \<and>
     (\<forall>p. \<not> may p \<longrightarrow> node_at fs' p = node_at fs p) \<and>
     (\<forall>p i. \<not> may p \<and> node_at fs p = Some (Regular i) \<longrightarrow> inode_at fs' i = inode_at fs i)"

abbreviation stays :: "(path \<Rightarrow> bool) \<Rightarrow> files \<Rightarrow> files \<Rightarrow> bool" where
  "stays may fs fs' \<equiv> good fs' \<and> local_to may fs fs'"

lemma local_to_refl [simp]: "local_to may fs fs"
  by (simp add: local_to_def)

lemma local_to_trans: "local_to may fs fs1 \<Longrightarrow> local_to may fs1 fs2 \<Longrightarrow> local_to may fs fs2"
  unfolding local_to_def by auto

lemma local_to_mono: "local_to may fs fs' \<Longrightarrow> (\<And>p. may p \<Longrightarrow> may' p) \<Longrightarrow> local_to may' fs fs'"
  unfolding local_to_def by blast

lemma local_to_node: "local_to may fs fs' \<Longrightarrow> \<not> may p \<Longrightarrow> node_at fs' p = node_at fs p"
  by (simp add: local_to_def)

lemma below_local: "tree_ok fs \<Longrightarrow> below root fs links fs' \<Longrightarrow> local_to (prefix root) fs fs'"
  unfolding local_to_def below_def tree_ok_def by blast

subsection \<open>Listing a tree\<close>

lemma tree_below_iff:
  "(p, nd) \<in> set (tree_below fs q) \<longleftrightarrow> p \<noteq> [] \<and> node_at fs (q @ p) = Some nd"
proof -
  have "r \<in> set (map fst (fls_Nodes fs)) \<longleftrightarrow> node_at fs r \<noteq> None" for r
    by (simp add: map_of_eq_None_iff)
  then have "(\<exists>r. r \<in> set (map fst (fls_Nodes fs)) \<and> take (length q) r = q \<and> r \<noteq> q \<and> drop (length q) r = p) \<longleftrightarrow>
      p \<noteq> [] \<and> node_at fs (q @ p) \<noteq> None"
    by (metis append_eq_conv_conj append_is_Nil_conv append_self_conv append_take_drop_id self_append_conv)
  then show ?thesis by (auto simp: tree_below_def image_iff)
qed

lemma sorted_tree_below: "sorted (map fst (tree_below fs q)) \<and> distinct (map fst (tree_below fs q))"
  by (simp add: tree_below_def comp_def)

lemma tree_below_cong:
  assumes "\<And>p. node_at fs' (q @ p) = node_at fs (q @ p)"
  shows "tree_below fs' q = tree_below fs q"
proof -
  have nodes: "set (map fst (tree_below fs' q)) = set (map fst (tree_below fs q))"
    using assms by (force simp: tree_below_iff image_iff)
  then have keys: "map fst (tree_below fs' q) = map fst (tree_below fs q)"
    using sorted_tree_below by (metis sorted_distinct_set_unique)
  show ?thesis
  proof (rule nth_equalityI)
    show len: "length (tree_below fs' q) = length (tree_below fs q)" using keys by (metis length_map)
    fix i assume i: "i < length (tree_below fs' q)"
    obtain p nd where a: "tree_below fs' q ! i = (p, nd)" by fastforce
    obtain p' nd' where b: "tree_below fs q ! i = (p', nd')" by fastforce
    have "p = p'" using keys i len a b by (metis fst_conv nth_map)
    moreover have "(p, nd) \<in> set (tree_below fs' q)" "(p', nd') \<in> set (tree_below fs q)"
      using i len a b by (metis nth_mem)+
    ultimately show "tree_below fs' q ! i = tree_below fs q ! i" using a b assms by (simp add: tree_below_iff)
  qed
qed

text \<open>A directory stands before its entries.\<close>

lemma prefix_list_le:
  assumes "strict_prefix (p::path) q"
  shows "p < q"
proof -
  obtain z zs where q: "q = p @ z # zs"
    using assms by (metis append_self_conv list.exhaust prefix_def strict_prefix_def)
  show ?thesis unfolding q by (induction p) (simp_all add: Cons_less_Cons)
qed

lemma listed: "node_at fs (q @ p) = Some nd \<Longrightarrow> p \<noteq> [] \<Longrightarrow> p \<in> set (map fst (tree_below fs q))"
  by (metis fst_conv image_eqI list.set_map tree_below_iff)

lemma parent_first:
  assumes "good fs" "map fst (tree_below fs q) = earlier @ p # later" "strict_prefix r p" "r \<noteq> []"
  shows "r \<in> set earlier \<and> is_directory (node_at fs (q @ r))"
proof -
  have "p \<in> set (map fst (tree_below fs q))" using assms(2) by simp
  then obtain nd where "node_at fs (q @ p) = Some nd" by (auto simp: tree_below_iff)
  then have real: "real_way fs (q @ p)" using assms(1) tree_ok_real by (auto simp: good_def)
  have "q @ r = take (length q + length r) (q @ p)" "length q + length r < length (q @ p)"
    using assms(3) by (auto simp: strict_prefix_def prefix_def)
  then have dir: "is_directory (node_at fs (q @ r))" using real by (metis real_way_def)
  then have "r \<in> set (map fst (tree_below fs q))"
    using assms(4) listed by (auto simp only: is_directory_iff)
  moreover have "r < p" using prefix_list_le [OF assms(3)] .
  moreover have "sorted (earlier @ p # later)" using sorted_tree_below [of fs q] assms(2) by simp
  ultimately show ?thesis using dir assms(2) by (auto simp: sorted_append)
qed

subsection \<open>The copy of a tree\<close>

fun copied :: "os_env \<Rightarrow> files \<Rightarrow> node \<Rightarrow> files \<Rightarrow> node \<Rightarrow> bool" where
  "copied io fs (Directory a) fs' (Directory b) = (att_Mode b = created_mode io (att_Mode a))"
| "copied io fs (Symlink t a) fs' (Symlink u b) = (t = u)"
| "copied io fs (Regular i) fs' (Regular j) =
     (\<exists>x y. inode_at fs i = Some x \<and> inode_at fs' j = Some y \<and> ind_Content y = ind_Content x \<and>
        att_Mode (ind_Attrs y) = created_mode io (att_Mode (ind_Attrs x)))"
| "copied _ _ _ _ _ = False"

definition empty_place :: "files \<Rightarrow> path \<Rightarrow> bool" where
  "empty_place fs dst \<longleftrightarrow>
     plain_path dst \<and> dst \<noteq> [] \<and> real_way fs dst \<and> (node_at fs dst = None \<or> is_directory (node_at fs dst)) \<and>
     (\<forall>p. p \<noteq> [] \<longrightarrow> node_at fs (dst @ p) = None)"

text \<open>The copy has come to the entries \<open>seen\<close> of the list \<open>es\<close>.\<close>

definition copying :: "os_env \<Rightarrow> files \<Rightarrow> (path \<times> node) list \<Rightarrow> path \<Rightarrow> path list \<Rightarrow> files \<Rightarrow> bool" where
  "copying io fs0 es dst seen fs \<longleftrightarrow>
     below dst fs0 UNIV fs \<and> good fs \<and> is_directory (node_at fs dst) \<and>
     (\<forall>(p, nd)\<in>set es. p \<in> set seen \<longrightarrow> (\<exists>nd'. node_at fs (dst @ p) = Some nd' \<and> copied io fs0 nd fs nd')) \<and>
     (\<forall>p. p \<noteq> [] \<and> p \<notin> set seen \<longrightarrow> node_at fs (dst @ p) = None)"

lemma copyingD:
  assumes "copying io fs0 es dst seen fs"
  shows "below dst fs0 UNIV fs" "good fs" "is_directory (node_at fs dst)"
    "(p, nd) \<in> set es \<Longrightarrow> p \<in> set seen \<Longrightarrow> \<exists>nd'. node_at fs (dst @ p) = Some nd' \<and> copied io fs0 nd fs nd'"
    "p \<noteq> [] \<Longrightarrow> p \<notin> set seen \<Longrightarrow> node_at fs (dst @ p) = None"
  using assms unfolding copying_def by blast+

lemma good_put:
  assumes "good fs" "p \<noteq> []" "plain_path p" "node_at fs p = None" "real_way fs p" "\<And>i. nd = Regular i \<Longrightarrow> i < fls_Next fs"
  shows "good (put_node p nd fs)"
proof -
  have "tree_ok (put_node p nd fs)" using assms by (intro tree_ok_put) (auto simp: good_def)
  then show ?thesis using assms(1,3) by (auto simp: good_def put_node_def update_conv)
qed

lemma good_make_file:
  assumes "good fs" "p \<noteq> []" "plain_path p" "node_at fs p = None" "real_way fs p"
  shows "good (make_file io mode body p fs)"
  unfolding make_file_def
  by (rule good_put) (use assms in \<open>auto simp: good_def tree_ok_def put_inode_def real_way_def less_Suc_eq\<close>)

lemma copied_kept:
  assumes "copied io fs0 nd fs nd'" "\<And>i. nd' = Regular i \<Longrightarrow> inode_at fs' i = inode_at fs i"
  shows "copied io fs0 nd fs' nd'"
  using assms by (cases "(io, fs0, nd, fs, nd')" rule: copied.cases) auto

text \<open>A directory that is made on the way has the permissions asked for, less the umask.\<close>

definition made_dirs :: "os_env \<Rightarrow> nat \<Rightarrow> files \<Rightarrow> files \<Rightarrow> bool" where
  "made_dirs io mode fs fs' \<longleftrightarrow>
     (\<forall>q nd. node_at fs' q = Some nd \<longrightarrow> node_at fs q = Some nd \<or> nd = Directory (new_attrs io mode))"

lemma made_dirsD:
  "made_dirs io mode fs fs' \<Longrightarrow> node_at fs' q = Some (Directory b) \<Longrightarrow> node_at fs q = None \<Longrightarrow> b = new_attrs io mode"
  unfolding made_dirs_def by (metis node.inject(1) option.distinct(1))

lemma made_dirs_mkdir: "maintains (made_dirs io mode fs) (os_mkdir io p mode)"
proof -
  have "maintains (made_dirs io mode fs) (update_s (put_node q (Directory (new_attrs io mode))))" for q
    by (auto simp: maintains_def made_dirs_def put_node_def update_conv)
  then show ?thesis by (auto simp: os_mkdir_def add_entry_def try_s_def split: option.split)
qed

lemma made_dirs_up_from: "maintains (made_dirs io mode fs) (mkdir_up io mode p)"
proof (induction p)
  case (Cons c up)
  have stat: "maintains (made_dirs io mode fs) (also_s (mkdir_up io mode up)
     (rescue_s (os_mkdir io (rev (c # up)) mode) (\<lambda>e. read_s (\<lambda>fs'.
       case fst (os_lstat io (rev (c # up)) fs') of Inr (Some (Directory a)) \<Rightarrow> Inr () | _ \<Rightarrow> Inl e))))"
    by (intro maintains_also maintains_rescue Cons made_dirs_mkdir maintains_simple)
  show ?case
    using stat unfolding maintains_def leaves_def mkdir_up.simps
    by (auto simp: ret_s_def lift_s_def split: sum.split option.split node.split)
qed simp

lemma made_dirs_up: "leaves (mkdir_up io mode p) (\<lambda>_. made_dirs io mode fs) fs"
  using made_dirs_up_from unfolding maintains_def by (simp add: made_dirs_def)

lemma copying_step:
  assumes "copying io fs0 es dst seen fs" "distinct (map fst es)" "(p, nd) \<in> set es"
    and "below dst fs0 UNIV fs'" "good fs'" "copied io fs0 nd fs' nd'"
    and "\<And>r. node_at fs' r = (if r = dst @ p then Some nd' else node_at fs r)" "p \<noteq> []"
    and "\<And>i. i < fls_Next fs \<Longrightarrow> inode_at fs' i = inode_at fs i"
  shows "copying io fs0 es dst (seen @ [p]) fs'"
proof -
  have old: "i < fls_Next fs" if "node_at fs r = Some (Regular i)" for r i
    using copyingD(2) [OF assms(1)] that by (auto simp: good_def tree_ok_def)
  have here: "\<exists>nd'. node_at fs' (dst @ r) = Some nd' \<and> copied io fs0 x fs' nd'"
    if r: "(r, x) \<in> set es" "r \<in> set seen \<or> r = p" for r x
  proof (cases "r = p")
    case True
    then have "x = nd" using assms(2,3) r(1) by (auto dest: eq_key_imp_eq_value)
    then show ?thesis using True assms(6,7) by simp
  next
    case False
    then obtain y where y: "node_at fs (dst @ r) = Some y" "copied io fs0 x fs y"
      using r copyingD(4) [OF assms(1)] by blast
    have "copied io fs0 x fs' y" by (rule copied_kept [OF y(2)]) (use assms(9) old y(1) in blast)
    then show ?thesis using False y(1) assms(7) by simp
  qed
  have "is_directory (node_at fs' dst)" using copyingD(3) [OF assms(1)] assms(7,8) by simp
  moreover have "node_at fs' (dst @ r) = None" if "r \<noteq> []" "r \<notin> set (seen @ [p])" for r
    using copyingD(5) [OF assms(1)] that assms(7) by simp
  ultimately show ?thesis
    using assms(4,5) here unfolding copying_def by fastforce
qed

lemma copying_way:
  assumes "good fs1" "map fst (tree_below fs1 q) = seen @ p # later" "copying io fs0 (tree_below fs1 q) dst seen fs"
    and "plain_path dst" "real_way fs dst"
  shows "real_way fs (dst @ p)" "node_at fs (dst @ p) = None" "p \<noteq> []" "plain_path (dst @ p)"
proof -
  obtain nd where nd: "(p, nd) \<in> set (tree_below fs1 q)"
  proof -
    have "p \<in> fst ` set (tree_below fs1 q)" using arg_cong [OF assms(2), of set] by simp
    then show thesis using that by auto
  qed
  show p: "p \<noteq> []" using nd by (simp add: tree_below_iff)
  have "p \<notin> set seen" using sorted_tree_below [of fs1 q] assms(2) by auto
  then show "node_at fs (dst @ p) = None" using copyingD(5) [OF assms(3)] p by blast
  show "plain_path (dst @ p)" using assms(1,4) nd unfolding good_def by (auto simp: tree_below_iff)
  have up: "is_directory (node_at fs (dst @ r))" if "strict_prefix r p" for r
  proof (cases "r = []")
    case True
    then show ?thesis using copyingD(3) [OF assms(3)] by simp
  next
    case False
    note first = parent_first [OF assms(1,2) that False]
    then obtain a where "node_at fs1 (q @ r) = Some (Directory a)" by (auto simp: is_directory_iff)
    then have "(r, Directory a) \<in> set (tree_below fs1 q)" using False by (simp add: tree_below_iff)
    then obtain nd' where "node_at fs (dst @ r) = Some nd'" "copied io fs0 (Directory a) fs nd'"
      using copyingD(4) [OF assms(3)] first by blast
    then show ?thesis by (cases nd') auto
  qed
  show "real_way fs (dst @ p)"
    unfolding real_way_def
  proof (intro allI impI)
    fix k assume k: "k < length (dst @ p)"
    show "is_directory (node_at fs (take k (dst @ p)))"
    proof (cases "k < length dst")
      case True
      then show ?thesis using assms(5) by (simp add: real_way_def)
    next
      case False
      have "strict_prefix (take (k - length dst) p) p"
        using k False by (metis add_diff_inverse_nat length_append nat_add_left_cancel_less order_less_irrefl
            strict_prefixI take_all_iff take_is_prefix linorder_not_le)
      then show ?thesis using up False by simp
    qed
  qed
qed

lemma copy_visit_leaves:
  assumes "good fs1" "map fst (tree_below fs1 q) = seen @ p # later" "copying io fs0 (tree_below fs1 q) dst seen fs"
    and "plain_path dst" "(p, nd) \<in> set (tree_below fs1 q)" "\<And>i. nd = Regular i \<Longrightarrow> i < fls_Next fs0"
  shows "leaves (copy_visit io src dst u p nd)
    (goes_on (\<lambda>_. copying io fs0 (tree_below fs1 q) dst (seen @ [p])) (\<lambda>_ fs'. below dst fs0 UNIV fs' \<and> good fs')) fs"
proof -
  note D = copyingD [OF assms(3)]
  have root: "real_way fs dst" using D(1) by (simp add: below_def)
  note way = copying_way [OF assms(1-4) root]
  have dist: "distinct (map fst (tree_below fs1 q))" by (simp add: sorted_tree_below)
  note step = copying_step [OF assms(3) dist assms(5)]
  have ne: "dst @ p \<noteq> []" and pre: "prefix dst (dst @ p)" using way(3) by simp_all
  have made: "copying io fs0 (tree_below fs1 q) dst (seen @ [p]) (make_file io mode body (dst @ p) fs)"
    if "nd = Regular i" "inode_at fs i = Some x" "mode = att_Mode (ind_Attrs x) mod 512" "body = ind_Content x" for i x mode body
  proof (rule step [where nd' = "Regular (fls_Next fs)"])
    show "below dst fs0 UNIV (make_file io mode body (dst @ p) fs)" by (rule below_make_file [OF D(1) pre ne way(2,1)])
    show "good (make_file io mode body (dst @ p) fs)" by (rule good_make_file [OF D(2) ne way(4,2,1)])
    have "inode_at fs0 i = Some x" using D(1) assms(6) that(1,2) by (simp add: below_def)
    then show "copied io fs0 nd (make_file io mode body (dst @ p) fs) (Regular (fls_Next fs))"
      using that by (simp add: make_file_def put_node_def put_inode_def update_conv new_attrs_def own_attrs_def masked_def)
  qed (use way(3) in \<open>simp_all add: make_file_def put_node_def put_inode_def update_conv\<close>)
  have partial: "below dst fs0 UNIV (make_file io mode body (dst @ p) fs) \<and> good (make_file io mode body (dst @ p) fs)" for mode body
    using below_make_file [OF D(1) pre ne way(2,1)] good_make_file [OF D(2) ne way(4,2,1)] by blast
  show ?thesis
  proof (cases nd)
    case (Directory a)
    have nolink: "\<not> is_symlink (node_at fs (dst @ p))" using way(2) by simp
    have "tree_ok fs" using D(2) by (simp add: good_def)
    from leaves_conj [THEN iffD2, OF conjI, OF mkdir_up_adds [OF this way(4) real_way_clear [OF way(1)] nolink] made_dirs_up,
        of io "att_Mode a mod 512"]
    have "leaves (os_mkdir_all io (dst @ p) (att_Mode a mod 512))
       (goes_on (\<lambda>_. copying io fs0 (tree_below fs1 q) dst (seen @ [p])) (\<lambda>_ fs'. below dst fs0 UNIV fs' \<and> good fs')) fs"
      unfolding os_mkdir_all_def
    proof (rule leaves_mono)
      fix r :: "unit result" and fs'
      assume after: "(tree_ok fs' \<and> adds_dirs (dst @ p) fs fs' \<and> (r = Inr () \<longrightarrow> is_directory (node_at fs' (dst @ p)))) \<and>
        made_dirs io (att_Mode a mod 512) fs fs'"
      have B: "below dst fs0 UNIV fs'" by (rule below_adds_dirs [OF D(1)]) (use after in auto)
      have nodes: "node_at fs' r = node_at fs r \<or> r = dst @ p \<and> is_directory (node_at fs' r)" for r
        using after way(1) unfolding adds_dirs_def real_way_def
        by (metis is_directory.simps(2) linorder_not_le prefix_def append_eq_conv_conj take_all)
      have G: "good fs'" using after D(2) nodes way(4) unfolding good_def by metis
      have "copying io fs0 (tree_below fs1 q) dst (seen @ [p]) fs'" if made: "is_directory (node_at fs' (dst @ p))"
      proof -
        obtain b where b: "node_at fs' (dst @ p) = Some (Directory b)" using made by (auto simp: is_directory_iff)
        have one: "node_at fs' r = (if r = dst @ p then Some (Directory b) else node_at fs r)" for r using nodes b by auto
        have cp: "copied io fs0 nd fs' (Directory b)"
          using made_dirsD [OF conjunct2 [OF after] b way(2)] by (simp add: Directory new_attrs_def own_attrs_def masked_def)
        have "inode_at fs' i = inode_at fs i" for i using after by (simp add: adds_dirs_def)
        then show ?thesis using step [OF B G cp one way(3)] by blast
      qed
      then show "goes_on (\<lambda>_. copying io fs0 (tree_below fs1 q) dst (seen @ [p])) (\<lambda>_ fs'. below dst fs0 UNIV fs' \<and> good fs') r fs'"
        using B G after by (cases r) simp_all
    qed
    then show ?thesis using D(1,2) by (simp add: copy_visit_def Directory split: option.split)
  next
    case (Symlink t a)
    have "copying io fs0 (tree_below fs1 q) dst (seen @ [p]) (put_node (dst @ p) (Symlink t (link_attrs io)) fs)"
    proof (rule step [where nd' = "Symlink t (link_attrs io)"])
      show "below dst fs0 UNIV (put_node (dst @ p) (Symlink t (link_attrs io)) fs)"
        by (rule below_put [OF D(1) pre ne way(2,1)]) simp_all
      show "good (put_node (dst @ p) (Symlink t (link_attrs io)) fs)" by (rule good_put [OF D(2) ne way(4,2,1)]) simp
    qed (use way(3) in \<open>simp_all add: Symlink put_node_def update_conv\<close>)
    then show ?thesis
      using D(1,2) way
      by (auto simp: copy_visit_def Symlink os_symlink_def real_way_clear split: option.split intro!: leaves_add_entry)
  next
    case (Special c a)
    then show ?thesis using D(1,2) by (simp add: copy_visit_def split: option.split)
  next
    case (Regular i)
    have "leaves (os_write_new io (dst @ p) (att_Mode (ind_Attrs x) mod 512) (ind_Content x))
       (goes_on (\<lambda>_. copying io fs0 (tree_below fs1 q) dst (seen @ [p])) (\<lambda>_ fs'. below dst fs0 UNIV fs' \<and> good fs')) fs"
      if "inode_at fs i = Some x" for x
      using D(1,2) way partial made [OF Regular that refl refl]
      by (auto simp: os_write_new_def real_way_clear split: option.split intro!: leaves_add_entry)
    then show ?thesis using D(1,2) by (auto simp: copy_visit_def Regular split: option.split)
  qed
qed

lemma leaves_lstat [simp]: "leaves (os_lstat io p) Q fs = Q (fst (os_lstat io p fs)) fs"
  "leaves (os_stat io p) Q fs = Q (fst (os_stat io p fs)) fs"
  by (subst leaves_def, subst (2) os_lstat_reads, simp)+

lemma walk_grown:
  assumes "grown fs fs'" "walk (node_at fs) n cur cs = Inr (Some r)"
  shows "walk (node_at fs') n cur cs = Inr (Some r)"
  using assms(2)
proof (induction "node_at fs" n cur cs rule: walk.induct)
  case (2 n cur c cs)
  from "2.prems" obtain a where cur: "node_at fs cur = Some (Directory a)"
    by (auto split: option.splits node.splits)
  have "is_directory (node_at fs' cur)" using grown_directory [OF assms(1)] cur by simp
  then obtain b where cur': "node_at fs' cur = Some (Directory b)" by (auto simp: is_directory_iff)
  show ?case
  proof (cases "c = [] \<or> c = ''.'' \<or> c = ''..''")
    case True
    then show ?thesis using "2.hyps" "2.prems" cur cur' by auto
  next
    case False
    then obtain nd where nd: "node_at fs (cur @ [c]) = Some nd" using "2.prems" cur by (auto split: option.splits)
    then obtain nd' where nd': "node_at fs' (cur @ [c]) = Some nd'" "same_kind nd nd'"
      using assms(1) by (auto simp: grown_def)
    then show ?thesis using "2.hyps" "2.prems" False cur cur' nd
      by (cases nd; cases nd') (auto split: nat.splits split del: if_split)
  qed
qed simp

lemma located_grown:
  assumes "grown fs fs'" "located fs p = Inr (Some q)"
  shows "located fs' p = Inr (Some q)"
proof -
  obtain d a where d: "walk (node_at fs) link_limit [] (butlast p) = Inr (Some d)" "node_at fs d = Some (Directory a)" "q = d @ [last p]"
    using assms(2)
    by (cases "walk (node_at fs) link_limit [] (butlast p)") (auto simp: located_def split: option.splits node.splits)
  moreover have "is_directory (node_at fs' d)" using grown_directory [OF assms(1)] d(2) by simp
  ultimately show ?thesis using walk_grown [OF assms(1) d(1)] by (auto simp: located_def is_directory_iff)
qed

lemma empty_place_below:
  assumes "good fs" "empty_place fs dst"
  shows "below dst fs UNIV fs"
proof -
  have "node_at fs p \<noteq> Some (Regular i)" if "prefix dst p" for p i
  proof (cases "p = dst")
    case True
    then show ?thesis using assms(2) by (auto simp: empty_place_def)
  next
    case False
    from that obtain r where "p = dst @ r" unfolding prefix_def by blast
    moreover from this have "r \<noteq> []" using False by auto
    ultimately show ?thesis using assms(2) by (auto simp: empty_place_def)
  qed
  then show ?thesis using assms by (auto simp: below_def good_def empty_place_def)
qed

lemma mkdir_empty:
  assumes "good fs" "empty_place fs dst"
  shows "leaves (os_mkdir_all io dst mode)
    (\<lambda>r fs1. below dst fs UNIV fs1 \<and> good fs1 \<and> grown fs fs1 \<and> fls_Next fs1 = fls_Next fs \<and>
       (\<forall>p. p \<noteq> dst \<longrightarrow> node_at fs1 p = node_at fs p) \<and> (r = Inr () \<longrightarrow> (\<forall>es. copying io fs es dst [] fs1))) fs"
proof -
  note E = assms(2) [unfolded empty_place_def]
  have "tree_ok fs" "\<not> is_symlink (node_at fs dst)" using assms E by (auto simp: good_def is_directory_iff)
  from mkdir_up_adds [OF this(1) _ _ this(2), of io mode] show ?thesis
    unfolding os_mkdir_all_def
  proof (rule leaves_mono)
    fix r :: "unit result" and fs1
    assume after: "tree_ok fs1 \<and> adds_dirs dst fs fs1 \<and> (r = Inr () \<longrightarrow> is_directory (node_at fs1 dst))"
    have nodes: "node_at fs1 p = node_at fs p" if "p \<noteq> dst" for p
    proof (rule ccontr)
      assume "node_at fs1 p \<noteq> node_at fs p"
      then have p: "node_at fs p = None" "prefix p dst" using after by (auto simp: adds_dirs_def)
      then have "length p < length dst" "take (length p) dst = p"
        using that by (auto simp: prefix_def)
      then have "is_directory (node_at fs p)" using E by (metis real_way_def)
      then show False using p(1) by simp
    qed
    have B: "below dst fs UNIV fs1" by (rule below_adds_dirs [OF empty_place_below [OF assms]]) (use after in auto)
    have G: "good fs1" using after assms(1) nodes E unfolding good_def by metis
    have "node_at fs1 (dst @ p) = None" if "p \<noteq> []" for p using nodes that E by simp
    then show "below dst fs UNIV fs1 \<and> good fs1 \<and> grown fs fs1 \<and> fls_Next fs1 = fls_Next fs \<and>
       (\<forall>p. p \<noteq> dst \<longrightarrow> node_at fs1 p = node_at fs p) \<and> (r = Inr () \<longrightarrow> (\<forall>es. copying io fs es dst [] fs1))"
      using after B G nodes adds_dirs_grown by (auto simp: copying_def adds_dirs_def)
  qed (use E in auto)
qed

lemma nothing_pruned [simp]: "pruned (\<lambda>_. False) p = False"
  by (simp add: pruned_def list_ex_iff)

text \<open>The whole copy: what it leaves in every case, and when it succeeds.\<close>

definition same_tree :: "os_env \<Rightarrow> files \<Rightarrow> path \<Rightarrow> files \<Rightarrow> path \<Rightarrow> bool" where
  "same_tree io fs q fs' dst \<longleftrightarrow>
     is_directory (node_at fs' dst) \<and>
     (\<forall>p. p \<noteq> [] \<longrightarrow>
        (case node_at fs (q @ p) of
           None \<Rightarrow> node_at fs' (dst @ p) = None
         | Some nd \<Rightarrow> \<exists>nd'. node_at fs' (dst @ p) = Some nd' \<and> copied io fs nd fs' nd'))"

lemma copying_same:
  assumes "copying io fs es dst (map fst es) fs'" "es = tree_below fs1 q" "\<And>p. p \<noteq> [] \<Longrightarrow> node_at fs1 (q @ p) = node_at fs (q @ p)"
  shows "same_tree io fs q fs' dst"
  unfolding same_tree_def
proof (intro conjI allI impI)
  show "is_directory (node_at fs' dst)" by (rule copyingD(3) [OF assms(1)])
  fix p :: path assume p: "p \<noteq> []"
  show "case node_at fs (q @ p) of None \<Rightarrow> node_at fs' (dst @ p) = None
    | Some nd \<Rightarrow> \<exists>nd'. node_at fs' (dst @ p) = Some nd' \<and> copied io fs nd fs' nd'"
  proof (cases "node_at fs (q @ p)")
    case None
    then have "p \<notin> set (map fst es)" using assms(2,3) p by (auto simp: tree_below_iff)
    then show ?thesis using copyingD(5) [OF assms(1) p] None by simp
  next
    case (Some nd)
    then have "(p, nd) \<in> set es" using assms(2,3) p by (simp add: tree_below_iff)
    moreover from this have "p \<in> set (map fst es)" by force
    ultimately show ?thesis using copyingD(4) [OF assms(1)] Some by simp
  qed
qed

lemma copy_tree_leaves:
  assumes "good fs" "empty_place fs dst"
  shows "leaves (copy_tree io src dst) (\<lambda>r fs'. good fs' \<and> local_to (prefix dst) fs fs' \<and> (r = Inr () \<longrightarrow> is_directory (node_at fs' dst)) \<and>
    (r = Inr () \<and> located fs src = Inr (Some q) \<and> is_directory (node_at fs q) \<and> \<not> prefix dst q \<and> \<not> prefix q dst \<longrightarrow>
       same_tree io fs q fs' dst)) fs"
proof -
  let ?Q = "\<lambda>r fs'. below dst fs UNIV fs' \<and> good fs' \<and> (r = Inr () \<longrightarrow> is_directory (node_at fs' dst)) \<and>
    (r = Inr () \<and> located fs src = Inr (Some q) \<and> is_directory (node_at fs q) \<and> \<not> prefix dst q \<and> \<not> prefix q dst \<longrightarrow>
       same_tree io fs q fs' dst)"
  have plain: "plain_path dst" using assms(2) by (simp add: empty_place_def)
  have loop: "leaves (fold_s (\<lambda>b (p, nd).
        bind_s (copy_visit io src dst b p nd) (\<lambda>b'.
        if is_directory (Some nd) \<and> \<not> False then try_s io ''readdir'' (src @ p) (ret_s b') else ret_s b')) () (tree_below fs1 q'))
      (goes_on (\<lambda>_. copying io fs (tree_below fs1 q') dst (map fst (tree_below fs1 q'))) (\<lambda>_ fs'. below dst fs UNIV fs' \<and> good fs')) fs1"
    if fs1: "good fs1" "fls_Next fs1 = fls_Next fs" "\<And>es. copying io fs es dst [] fs1" for fs1 q'
  proof (rule leaves_fold [where I = "\<lambda>seen b. copying io fs (tree_below fs1 q') dst (map fst seen)"])
    show "copying io fs (tree_below fs1 q') dst (map fst []) fs1" using fs1(3) by simp
    fix seen x later and b :: unit and fs2
    assume es: "tree_below fs1 q' = seen @ x # later" and at: "copying io fs (tree_below fs1 q') dst (map fst seen) fs2"
    obtain p nd where x: "x = (p, nd)" by fastforce
    have "leaves (copy_visit io src dst b p nd)
      (goes_on (\<lambda>_. copying io fs (tree_below fs1 q') dst (map fst seen @ [p])) (\<lambda>_ fs'. below dst fs UNIV fs' \<and> good fs')) fs2"
    proof (rule copy_visit_leaves [OF fs1(1) _ at plain])
      show "map fst (tree_below fs1 q') = map fst seen @ p # map fst later" using es x by simp
      show in_es: "(p, nd) \<in> set (tree_below fs1 q')" using es x by simp
      show "i < fls_Next fs" if "nd = Regular i" for i
        using in_es that fs1(1,2) by (auto simp: tree_below_iff good_def tree_ok_def)
    qed
    then show "leaves (case x of (p, nd) \<Rightarrow> bind_s (copy_visit io src dst b p nd) (\<lambda>b'.
        if is_directory (Some nd) \<and> \<not> False then try_s io ''readdir'' (src @ p) (ret_s b') else ret_s b'))
      (goes_on (\<lambda>_. copying io fs (tree_below fs1 q') dst (map fst (seen @ [x]))) (\<lambda>_ fs'. below dst fs UNIV fs' \<and> good fs')) fs2"
      unfolding x prod.case leaves_bind
      by (rule leaves_goes_on_mono) (auto split: option.split dest: copyingD(1,2))
  qed
  have "leaves (copy_tree io src dst) ?Q fs"
    unfolding copy_tree_def leaves_also
  proof (rule leaves_mono [OF mkdir_empty [OF assms]])
    fix r :: "unit result" and fs1
    assume after: "below dst fs UNIV fs1 \<and> good fs1 \<and> grown fs fs1 \<and> fls_Next fs1 = fls_Next fs \<and>
       (\<forall>p. p \<noteq> dst \<longrightarrow> node_at fs1 p = node_at fs p) \<and> (r = Inr () \<longrightarrow> (\<forall>es. copying io fs es dst [] fs1))"
    show "goes_on (\<lambda>_. leaves (walk_dir io (\<lambda>_. False) (copy_visit io src dst) src ()) ?Q) (\<lambda>e. ?Q (Inl e)) r fs1"
    proof (cases r)
      case (Inl e)
      then show ?thesis using after by simp
    next
      case (Inr u)
      have fs1: "good fs1" "fls_Next fs1 = fls_Next fs" "\<And>es. copying io fs es dst [] fs1" "below dst fs UNIV fs1"
        using after Inr by auto
      have entries: "leaves (fold_s (\<lambda>b (p, nd).
          bind_s (copy_visit io src dst b p nd) (\<lambda>b'.
          if is_directory (Some nd) \<and> \<not> False then try_s io ''readdir'' (src @ p) (ret_s b') else ret_s b')) () (tree_below fs1 q'))
          ?Q fs1" if q': "located fs1 src = Inr (Some q')" for q'
      proof (rule leaves_mono [OF loop [OF fs1(1-3), of q']])
        fix r' :: "unit result" and fs'
        assume "goes_on (\<lambda>_. copying io fs (tree_below fs1 q') dst (map fst (tree_below fs1 q')))
          (\<lambda>_ fs'. below dst fs UNIV fs' \<and> good fs') r' fs'"
        moreover have "same_tree io fs q fs' dst"
          if "copying io fs (tree_below fs1 q') dst (map fst (tree_below fs1 q')) fs'" "located fs src = Inr (Some q)" "\<not> prefix q dst"
        proof (rule copying_same [OF that(1)])
          have "q' = q" using located_grown [of fs fs1 src q] after that(2) q' by simp
          then show "tree_below fs1 q' = tree_below fs1 q" by simp
          show "node_at fs1 (q @ p) = node_at fs (q @ p)" if "p \<noteq> []" for p
            using after \<open>\<not> prefix q dst\<close> by (metis prefixI)
        qed
        ultimately show "?Q r' fs'" by (cases r') (auto dest: copyingD(1-3))
      qed
      have none: "?Q (Inl e) fs1" for e using fs1 by simp
      have elsewhere: "?Q (Inr ()) fs1" if "fst (os_lstat io src fs1) = Inr (Some nd)" "\<not> is_directory (Some nd)" for nd
      proof -
        have "False" if q: "located fs src = Inr (Some q)" "is_directory (node_at fs q)" "\<not> prefix q dst"
        proof -
          have "located fs1 src = Inr (Some q)" using located_grown [of fs fs1 src q] after q(1) by simp
          then have "node_at fs1 q = Some nd"
            using \<open>fst (os_lstat io src fs1) = Inr (Some nd)\<close>
            by (auto simp: os_lstat_def try_s_def read_s_def lift_s_def split: option.splits)
          moreover have "node_at fs1 q = node_at fs q" using after q(3) by (metis prefix_order.order_refl)
          ultimately show False using q(2) \<open>\<not> is_directory (Some nd)\<close> by simp
        qed
        then show ?thesis using fs1 copyingD(3) [OF fs1(3)] by auto
      qed
      have visits: "leaves (bind_s (try_s io ''readdir'' src (read_s (\<lambda>fs.
           bind_r (at_place (located fs src)) (\<lambda>q. Inr (filter (\<lambda>(p, nd). \<not> pruned (\<lambda>_. False) p) (tree_below fs q)))))) (\<lambda>es.
         fold_s (\<lambda>b (p, nd).
           bind_s (copy_visit io src dst b p nd) (\<lambda>b'.
           if is_directory (Some nd) \<and> \<not> False then try_s io ''readdir'' (src @ p) (ret_s b') else ret_s b')) () es)) ?Q fs1"
      proof (cases "located fs1 src")
        case (Inl e)
        then show ?thesis using none by (simp add: at_place_def bind_r_def split: option.split)
      next
        case (Inr x)
        then show ?thesis
          using none entries by (cases x) (simp_all add: at_place_def split: option.split)
      qed
      show ?thesis
      proof (cases "fst (os_lstat io src fs1)")
        case (Inl e)
        then show ?thesis using none Inr by (simp add: walk_dir_def)
      next
        case (Inr x)
        show ?thesis
        proof (cases "is_directory x")
          case True
          then obtain a where "x = Some (Directory a)" by (auto simp: is_directory_iff)
          then show ?thesis using visits Inr \<open>r = Inr u\<close> by (simp add: walk_dir_def)
        next
          case False
          then show ?thesis
            using none elsewhere Inr \<open>r = Inr u\<close>
            by (cases x) (auto simp: walk_dir_def split: node.split)
        qed
      qed
    qed
  qed
  then show ?thesis
    by (rule leaves_mono) (use assms(1) below_local in \<open>auto simp: good_def\<close>)
qed

lemma copy_tree_stays:
  assumes "good fs" "empty_place fs dst"
  shows "leaves (copy_tree io src dst)
    (\<lambda>r fs'. stays (prefix dst) fs fs' \<and> (r = Inr () \<longrightarrow> is_directory (node_at fs' dst))) fs"
  by (rule leaves_mono [OF copy_tree_leaves [OF assms, where q = "[]"]]) blast

end
