(* ===== verification/Source_Remote.thy ===== *)
theory Source_Remote
  imports Source_Tree Go_Scan
begin

section \<open>The repository of custom modules\<close>

text \<open>
  \<open>internal/sourcelibrary/remote.go\<close> and \<open>merge.go\<close>: packages are fetched from a git repository and pushed
  to it, and a core workspace is merged with a new base in a repository of its own. \<open>git\<close> is not part
  of the program: \<open>git_env\<close> gives the run of a command in a directory, which changes the files there and
  the world outside (the remote repository), prints something and exits with a code, or cannot be run.
  The names that \<open>os.MkdirTemp\<close> draws, \<open>PATH\<close>, and the hook that the tests run before a push are fields too.
\<close>

record 'w git_host =
  gho_Files :: files
  gho_World :: 'w

record 'w git_env =
  gte_Os :: os_env
  gte_Run :: "path option \<Rightarrow> bytes list \<Rightarrow> bytes list \<Rightarrow> ('w git_host, int \<times> bytes) action"
  gte_Path :: bytes
  gte_TempDir :: path
  gte_Draws :: "bytes \<Rightarrow> bytes list"
  gte_FixedURL :: bytes
  gte_BeforePush :: "'w git_host \<Rightarrow> 'w git_host"

definition files_s :: "(files, 'a) action \<Rightarrow> ('w git_host, 'a) action" where
  "files_s m h = (case m (gho_Files h) of (r, fs) \<Rightarrow> (r, h\<lparr>gho_Files := fs\<rparr>))"

definition removing :: "('w, 'x) git_env_scheme \<Rightarrow> path \<Rightarrow> 'w git_host \<Rightarrow> 'w git_host" where
  "removing env p h = h\<lparr>gho_Files := quietly (os_remove_all (gte_Os env) p) (gho_Files h)\<rparr>"

definition temp_dir :: "('w, 'x) git_env_scheme \<Rightarrow> path \<Rightarrow> bytes \<Rightarrow> ('w git_host, path) action" where
  "temp_dir env dir pattern = files_s (os_mkdir_temp (gte_Os env) dir (map (\<lambda>d. pattern @ d) (gte_Draws env pattern)))"

text \<open>A temporary directory that is removed when the function returns.\<close>

definition with_temp_dir ::
  "('w, 'x) git_env_scheme \<Rightarrow> bytes \<Rightarrow> (path \<Rightarrow> ('w git_host, 'a) action) \<Rightarrow> ('w git_host, 'a) action" where
  "with_temp_dir env pattern f =
     bind_s (temp_dir env (gte_TempDir env) pattern) (\<lambda>work. defer_s (removing env work) (f work))"

record remote_config =
  rmc_Owner :: bytes
  rmc_Repository :: bytes
  rmc_Ref :: bytes
  rmc_Token :: bytes

record fetch_result =
  ftr_Commit :: bytes
  ftr_Path :: path

record push_request =
  pur_Config :: remote_config
  pur_PackagePath :: bytes
  pur_WorkspacePath :: path
  pur_BaseCommit :: bytes
  pur_Message :: bytes

record push_result =
  psh_Commit :: bytes
  psh_RemoteCommit :: bytes

subsection \<open>Names\<close>

definition branch_destination :: "bytes \<Rightarrow> bytes result" where
  "branch_destination ref0 =
     (let ref = trim_space ref0 in
      if has_prefix ref ''refs/heads/'' then Inr ref
      else if ref \<noteq> [] \<and> \<not> contains_str ref ''/'' then Inr (''refs/heads/'' @ ref)
      else Inl (Errf ''push requires a branch ref, got %q'' [ref]))"

definition validate_package_path :: "bytes \<Rightarrow> unit result" where
  "validate_package_path v =
     (let clean = path_clean v in
      reject_if (v = [] \<or> clean = ''.'' \<or> clean \<noteq> v \<or> has_prefix v ''/'' \<or> v = ''..'' \<or> has_prefix v ''../'')
        (Errf ''package path %q must be a clean relative path'' [v]))"

definition remote_url :: "('w, 'x) git_env_scheme \<Rightarrow> remote_config \<Rightarrow> bytes result" where
  "remote_url env cfg =
     (if gte_FixedURL env \<noteq> [] then Inr (gte_FixedURL env)
      else
        also_r (checks
          [reject_if (trim_space (rmc_Owner cfg) = [] \<or> trim_space (rmc_Repository cfg) = [])
             (Err ''custom module github owner and repository are required''),
           reject_if (contains_any (rmc_Owner cfg @ rmc_Repository cfg) (''/'' @ [CHR 0x5C] @ ''?#@ ''))
             (Err ''invalid custom module github repository identity'')])
        (Inr (''https://github.com/'' @ rmc_Owner cfg @ ''/'' @ rmc_Repository cfg @ ''.git'')))"

subsection \<open>Running git\<close>

definition ask_pass_path :: bytes where "ask_pass_path = ''/usr/local/libexec/vpsmith-git-askpass''"

definition git_environment :: "('w, 'x) git_env_scheme \<Rightarrow> bytes \<Rightarrow> bytes list" where
  "git_environment env token =
     [''PATH='' @ gte_Path env, ''HOME=/nonexistent'', ''GIT_CONFIG_NOSYSTEM=1'', ''GIT_TERMINAL_PROMPT=0'',
      ''GIT_OPTIONAL_LOCKS=0''] @
     (if token = [] then [] else [''VPSMITH_GIT_PAT='' @ token, ''GIT_ASKPASS='' @ ask_pass_path])"

definition unsafe_arg :: "bytes \<Rightarrow> bool" where
  "unsafe_arg a = (a = ''--force'' \<or> a = ''--force-with-lease'' \<or> has_prefix a ''+'')"

definition exit_error :: "int \<Rightarrow> error" where
  "exit_error code = Errf ''exit status %d'' [decimal_int code]"

definition git_command ::
  "('w, 'x) git_env_scheme \<Rightarrow> path option \<Rightarrow> bytes \<Rightarrow> bytes list \<Rightarrow> ('w git_host, bytes) action" where
  "git_command env dir token args =
     also_s (lift_s (reject_if (list_ex unsafe_arg args) (Err ''unsafe git push option is forbidden'')))
       (wrap_s ''git command failed: %w'' []
         (bind_s (gte_Run env dir (git_environment env token) args) (\<lambda>(code, out).
          if code = 0 then ret_s out else lift_s (Inl (exit_error code)))))"

definition run_git :: "('w, 'x) git_env_scheme \<Rightarrow> path \<Rightarrow> bytes \<Rightarrow> bytes list \<Rightarrow> ('w git_host, unit) action" where
  "run_git env dir token args = bind_s (git_command env (Some dir) token args) (\<lambda>_. ret_s ())"

definition git_output :: "('w, 'x) git_env_scheme \<Rightarrow> path option \<Rightarrow> bytes \<Rightarrow> bytes list \<Rightarrow> ('w git_host, bytes) action" where
  "git_output env dir token args = bind_s (git_command env dir token args) (\<lambda>out. ret_s (trim_space out))"

definition git_changed :: "('w, 'x) git_env_scheme \<Rightarrow> path \<Rightarrow> bytes \<Rightarrow> ('w git_host, bool) action" where
  "git_changed env dir token =
     wrap_s ''inspect staged git diff: %w'' []
       (bind_s (gte_Run env (Some dir) (git_environment env token) [''diff'', ''--cached'', ''--quiet'', ''--exit-code'']) (\<lambda>(code, out).
        if code = 0 then ret_s False else if code = 1 then ret_s True else lift_s (Inl (exit_error code))))"

definition identity_args :: "bytes list" where
  "identity_args = [''-c'', ''user.name=VPSmith Studio'', ''-c'', ''user.email=vpsmith@localhost'']"

subsection \<open>Fetch and push\<close>

definition fetch_in :: "('w, 'x) git_env_scheme \<Rightarrow> remote_config \<Rightarrow> bytes \<Rightarrow> path \<Rightarrow> ('w git_host, fetch_result) action" where
  "fetch_in env cfg package work =
     also_s (run_git env work (rmc_Token cfg) [''init'', ''-q''])
    (bind_s (lift_s (remote_url env cfg)) (\<lambda>url.
     also_s (wrap_s ''fetch configured custom module ref: %w'' []
       (run_git env work (rmc_Token cfg) [''fetch'', ''--no-tags'', url, rmc_Ref cfg]))
    (bind_s (git_output env (Some work) (rmc_Token cfg) [''rev-parse'', ''FETCH_HEAD'']) (\<lambda>commit.
     also_s (run_git env work (rmc_Token cfg) [''checkout'', ''-q'', ''--detach'', commit])
    (let src = join_path work package in
     also_s (files_s (\<lambda>fs. lift_s (case fst (os_stat (gte_Os env) src fs) of
         Inr (Some (Directory a)) \<Rightarrow> Inr ()
       | _ \<Rightarrow> Inl (Errf ''custom module package %q is not present at commit %s'' [package, commit])) fs))
    (bind_s (temp_dir env (gte_TempDir env) ''vpsmith-package-'') (\<lambda>out.
     also_s (on_error_s (removing env out) (files_s (copy_tree (gte_Os env) src out)))
       (ret_s \<lparr>ftr_Commit = commit, ftr_Path = out\<rparr>))))))))"

definition remote_fetch :: "('w, 'x) git_env_scheme \<Rightarrow> remote_config \<Rightarrow> bytes \<Rightarrow> ('w git_host, fetch_result) action" where
  "remote_fetch env cfg package =
     also_s (lift_s (validate_package_path package)) (with_temp_dir env ''vpsmith-fetch-'' (fetch_in env cfg package))"

definition read_remote_ref :: "('w, 'x) git_env_scheme \<Rightarrow> remote_config \<Rightarrow> bytes \<Rightarrow> ('w git_host, bytes) action" where
  "read_remote_ref env cfg url =
     bind_s (lift_s (branch_destination (rmc_Ref cfg))) (\<lambda>ref.
     bind_s (git_output env None (rmc_Token cfg) [''ls-remote'', ''--refs'', url, ref]) (\<lambda>out.
     case string_fields out of
       [commit, name] \<Rightarrow> ret_s commit
     | _ \<Rightarrow> lift_s (Inl (Err ''configured remote ref did not resolve exactly once''))))"

definition after_rejected_push ::
  "('w, 'x) git_env_scheme \<Rightarrow> push_request \<Rightarrow> bytes \<Rightarrow> error \<Rightarrow> ('w git_host, push_result option) action" where
  "after_rejected_push env r url err =
     bind_s (rescue_s (read_remote_ref env (pur_Config r) url) (\<lambda>_. ret_s [])) (\<lambda>observed.
     if observed \<noteq> [] \<and> observed \<noteq> pur_BaseCommit r
     then ret_s (Some \<lparr>psh_Commit = pur_BaseCommit r, psh_RemoteCommit = observed\<rparr>)
     else lift_s (Inl (Wrapf ''push custom module commit rejected: %w'' [] err)))"

definition push_commit ::
  "('w, 'x) git_env_scheme \<Rightarrow> push_request \<Rightarrow> bytes \<Rightarrow> path \<Rightarrow> ('w git_host, push_result) action" where
  "push_commit env r url work =
     (let token = rmc_Token (pur_Config r); package = pur_PackagePath r; dst = join_path work package in
      also_s (files_s (os_remove_all (gte_Os env) dst))
     (also_s (files_s (copy_tree (gte_Os env) (pur_WorkspacePath r) dst))
     (also_s (run_git env work token [''add'', ''--'', package])
     (bind_s (git_changed env work token) (\<lambda>changed.
      also_s (lift_s (reject_if (\<not> changed) (Err ''workspace has no changes to push'')))
     (also_s (run_git env work token
        (identity_args @ [''commit'', ''-q'', ''-m'', pur_Message r, ''--'', package]))
     (bind_s (git_output env (Some work) token [''rev-parse'', ''HEAD'']) (\<lambda>commit.
      also_s (\<lambda>h. ret_s () (gte_BeforePush env h))
     (bind_s (lift_s (branch_destination (rmc_Ref (pur_Config r)))) (\<lambda>ref.
      bind_s (rescue_s
         (also_s (run_git env work token [''push'', url, ''HEAD:'' @ ref]) (ret_s None))
         (after_rejected_push env r url)) (\<lambda>drift.
      case drift of
        Some p \<Rightarrow> ret_s p
      | None \<Rightarrow>
          bind_s (read_remote_ref env (pur_Config r) url) (\<lambda>remote.
          ret_s \<lparr>psh_Commit = commit, psh_RemoteCommit = remote\<rparr>))))))))))))"

definition push_in :: "('w, 'x) git_env_scheme \<Rightarrow> push_request \<Rightarrow> path \<Rightarrow> ('w git_host, push_result) action" where
  "push_in env r work =
     (let token = rmc_Token (pur_Config r) in
      also_s (run_git env work token [''init'', ''-q''])
     (bind_s (lift_s (remote_url env (pur_Config r))) (\<lambda>url.
      also_s (run_git env work token [''fetch'', ''--no-tags'', url, rmc_Ref (pur_Config r)])
     (bind_s (git_output env (Some work) token [''rev-parse'', ''FETCH_HEAD'']) (\<lambda>actual.
      if actual \<noteq> pur_BaseCommit r
      then ret_s \<lparr>psh_Commit = pur_BaseCommit r, psh_RemoteCommit = actual\<rparr>
      else
        also_s (run_git env work token [''checkout'', ''-q'', ''--detach'', actual])
          (push_commit env r url work))))))"

definition remote_push :: "('w, 'x) git_env_scheme \<Rightarrow> push_request \<Rightarrow> ('w git_host, push_result) action" where
  "remote_push env r =
     also_s (lift_s (reject_if (trim_space (pur_Message r) = []) (Err ''commit message is required'')))
    (also_s (lift_s (validate_package_path (pur_PackagePath r)))
       (with_temp_dir env ''vpsmith-push-'' (push_in env r)))"

subsection \<open>The merge of a core workspace\<close>

definition replace_tree :: "('w, 'x) git_env_scheme \<Rightarrow> path \<Rightarrow> path \<Rightarrow> ('w git_host, unit) action" where
  "replace_tree env dst src =
     bind_s (files_s (os_read_dir (gte_Os env) dst)) (\<lambda>entries.
     also_s (each_s (\<lambda>(name, nd).
        if name = ''.git'' then ret_s () else files_s (os_remove_all (gte_Os env) (dst @ [name]))) entries)
    (with_temp_dir env ''vpsmith-replace-'' (\<lambda>tmp.
     also_s (files_s (copy_tree (gte_Os env) src tmp))
    (bind_s (files_s (os_read_dir (gte_Os env) tmp)) (\<lambda>moved.
     each_s (\<lambda>(name, nd). files_s (os_rename (gte_Os env) (tmp @ [name]) (dst @ [name]))) moved)))))"

definition copy_tree_file :: "os_env \<Rightarrow> path \<Rightarrow> path \<Rightarrow> node \<Rightarrow> (files, unit) action" where
  "copy_tree_file io src dst nd =
     (case nd of
        Symlink t a \<Rightarrow> try_s io ''readlink'' src (os_symlink io t dst)
      | _ \<Rightarrow>
          bind_s (read_s (read_file io src)) (\<lambda>body.
          bind_s (read_s (\<lambda>fs. Inr (case node_attrs fs nd of None \<Rightarrow> 0 | Some a \<Rightarrow> att_Mode a mod 512))) (\<lambda>mode.
          wrap_s ''copy merge file: %w'' [] (os_write_file io dst body mode))))"

definition copy_tree_excluding_git :: "os_env \<Rightarrow> path \<Rightarrow> path \<Rightarrow> (files, unit) action" where
  "copy_tree_excluding_git io src dst =
     bind_s (os_read_dir io src) (\<lambda>entries.
     each_s (\<lambda>(name, nd).
       if name = ''.git'' then ret_s ()
       else
         try_s io ''lstat'' (src @ [name])
           (if is_directory (Some nd) then copy_tree io (src @ [name]) (dst @ [name])
            else copy_tree_file io (src @ [name]) (dst @ [name]) nd)) entries)"

definition commit_changes :: "('w, 'x) git_env_scheme \<Rightarrow> path \<Rightarrow> bytes \<Rightarrow> ('w git_host, unit) action" where
  "commit_changes env work message =
     bind_s (git_changed env work []) (\<lambda>changed.
     if changed then run_git env work [] (identity_args @ [''commit'', ''-q'', ''-m'', message]) else ret_s ())"

text \<open>The two branches of the repository, a merge that may stop with conflicts, and its result.\<close>

definition merge_branches :: "('w, 'x) git_env_scheme \<Rightarrow> path \<Rightarrow> path \<Rightarrow> path \<Rightarrow> path \<Rightarrow> ('w git_host, unit) action" where
  "merge_branches env old_base local new_base work =
     also_s (run_git env work [] [''init'', ''-q''])
    (also_s (replace_tree env work old_base)
    (also_s (run_git env work [] [''add'', ''-A''])
    (also_s (run_git env work [] (identity_args @ [''commit'', ''-q'', ''-m'', ''old embedded base'']))
    (bind_s (git_output env (Some work) [] [''rev-parse'', ''HEAD'']) (\<lambda>base.
     also_s (run_git env work [] [''checkout'', ''-q'', ''-b'', ''local''])
    (also_s (replace_tree env work local)
    (also_s (run_git env work [] [''add'', ''-A''])
    (also_s (commit_changes env work ''local workspace'')
    (also_s (run_git env work [] [''checkout'', ''-q'', ''-b'', ''upstream'', base])
    (also_s (replace_tree env work new_base)
    (also_s (run_git env work [] [''add'', ''-A''])
    (also_s (commit_changes env work ''new embedded base'')
       (run_git env work [] [''checkout'', ''-q'', ''local''])))))))))))))"

definition merge_conflicts :: "('w, 'x) git_env_scheme \<Rightarrow> path \<Rightarrow> ('w git_host, bytes list) action" where
  "merge_conflicts env work =
     bind_s (rescue_s
        (also_s (run_git env work [] (identity_args @ [''merge'', ''--no-commit'', ''--no-ff'', ''upstream''])) (ret_s None))
        (\<lambda>e. ret_s (Some e))) (\<lambda>merge_err.
     bind_s (git_output env (Some work) [] [''diff'', ''--name-only'', ''--diff-filter=U'']) (\<lambda>conflicts.
     let names = (if trim_space conflicts = [] then [] else sort_key (\<lambda>p. p) (split_on CHR 0x0A conflicts)) in
     also_s (lift_s (case merge_err of Some e \<Rightarrow> (if names = [] then Inl e else Inr ()) | None \<Rightarrow> Inr ()))
       (ret_s names)))"

definition three_way_merge ::
  "('w, 'x) git_env_scheme \<Rightarrow> path \<Rightarrow> path \<Rightarrow> path \<Rightarrow> ('w git_host, path \<times> bytes list) action" where
  "three_way_merge env old_base local new_base =
     with_temp_dir env ''vpsmith-core-merge-'' (\<lambda>work.
     also_s (merge_branches env old_base local new_base work)
    (bind_s (merge_conflicts env work) (\<lambda>names.
     bind_s (temp_dir env (gte_TempDir env) ''vpsmith-core-candidate-'') (\<lambda>payload.
     also_s (on_error_s (removing env payload) (files_s (copy_tree_excluding_git (gte_Os env) work payload)))
       (ret_s (payload, names))))))"

end
