(* ===== verification/Source_Library.thy ===== *)
theory Source_Library
  imports Source_Remote Mgmt_Recovery Bundle_Types Bundle_Normalize
begin

section \<open>The source library\<close>

text \<open>
  \<open>internal/releaseinfo/releaseinfo.go\<close> and \<open>internal/sourcelibrary/library.go\<close>, \<open>embedded.go\<close>: immutable
  snapshots named by the identity of their tree, workspaces made from them, and the operations that
  move between the two and the repository of custom modules. The state is the management state, the
  files of the machine and the world of git. The JSON decoder of the release manifest, with what a
  second \<open>Decode\<close> reports, and the random identifiers are parameters. Where the code iterates over a map
  of the three embedded sources, the model takes them in the order of the literal.
\<close>

subsection \<open>The release manifest\<close>

record release_source =
  rls_Version :: bytes
  rls_Path :: bytes
  rls_SHA256 :: bytes

record release_info =
  rli_SchemaVersion :: int
  rli_StudioVersion :: bytes
  rli_CloudInit :: release_source
  rli_Core :: release_source
  rli_N8N :: release_source

definition embedded_sources :: "release_info \<Rightarrow> (bytes \<times> release_source) list" where
  "embedded_sources i = [(''cloud-init'', rli_CloudInit i), (''core'', rli_Core i), (''n8n'', rli_N8N i)]"

definition escapes_root :: "bytes \<Rightarrow> bool" where
  "escapes_root rel = (rel = ''..'' \<or> has_prefix rel ''../'')"

definition validate_relative_path :: "bytes \<Rightarrow> unit result" where
  "validate_relative_path v =
     (let clean = path_clean v in
      checks
       [reject_if (v = []) (Err ''path is required''),
        reject_if (has_prefix clean ''/'' \<or> clean = ''.'' \<or> escapes_root clean)
          (Errf ''path %q must stay inside embedded root'' [v]),
        reject_if (clean \<noteq> v) (Errf ''path %q must use a clean POSIX relative path'' [v])])"

definition validate_release_metadata :: "release_info \<Rightarrow> unit result" where
  "validate_release_metadata i =
     checks
      [reject_if (rli_SchemaVersion i \<noteq> 1)
         (Errf ''unsupported release manifest schema_version %d'' [decimal_int (rli_SchemaVersion i)]),
       reject_if (trim_space (rli_StudioVersion i) = []) (Err ''studio version is required''),
       for_each (\<lambda>(name, s). checks
          [reject_if (trim_space (rls_Version s) = []) (Errf ''%s version is required'' [name]),
           wrap_error ''%s path: %w'' [name] (validate_relative_path (rls_Path s))]) (embedded_sources i)]"

definition validate_release_sha :: "bytes \<Rightarrow> unit result" where
  "validate_release_sha v =
     checks
      [reject_if (length v \<noteq> 64) (Err ''must contain 64 lowercase hexadecimal characters''),
       reject_if (case hex_decode v of None \<Rightarrow> True | Some raw \<Rightarrow> hex_encode raw \<noteq> v) (Err ''must be lowercase hexadecimal'')]"

definition validate_release_manifest :: "release_info \<Rightarrow> unit result" where
  "validate_release_manifest i =
     also_r (validate_release_metadata i)
       (for_each (\<lambda>(name, s). wrap_error ''%s sha256: %w'' [name] (validate_release_sha (rls_SHA256 s))) (embedded_sources i))"

definition release_trailer :: "trailing \<Rightarrow> unit result" where
  "release_trailer t =
     (case t of
        No_More \<Rightarrow> Inr ()
      | Bad_Trailing e \<Rightarrow> Inl (Wrapf ''decode trailing release manifest data: %w'' [] e)
      | Another_Document \<Rightarrow> Inl (Err ''release manifest contains trailing JSON data''))"

definition source_root :: "os_env \<Rightarrow> path \<Rightarrow> bytes \<Rightarrow> files \<Rightarrow> path result" where
  "source_root io root rel fs =
     bind_r (wrap_error ''resolve embedded root: %w'' [] (eval_symlinks io root fs)) (\<lambda>resolved.
     bind_r (eval_symlinks io (join_path root rel) fs) (\<lambda>candidate.
     also_r (reject_if (take (length resolved) candidate \<noteq> resolved) (Errf ''path %q escapes embedded root'' [rel]))
       (Inr candidate)))"

definition check_release_source :: "os_env \<Rightarrow> path \<Rightarrow> bytes \<times> release_source \<Rightarrow> (files, unit) action" where
  "check_release_source io root x =
     (case x of (name, s) \<Rightarrow>
      bind_s (wrap_s ''%s embedded source path: %w'' [name] (read_s (source_root io root (rls_Path s)))) (\<lambda>p.
      bind_s (wrap_s ''hash %s embedded source: %w'' [name] (tree_sha256 io p)) (\<lambda>actual.
      lift_s (reject_if (actual \<noteq> rls_SHA256 s)
        (Errf ''%s embedded source sha256 mismatch: manifest=%s actual=%s'' [name, rls_SHA256 s, actual])))))"

type_synonym release_decoder = "bytes \<Rightarrow> (release_info \<times> trailing) result"

definition load_release :: "os_env \<Rightarrow> release_decoder \<Rightarrow> path \<Rightarrow> (files, release_info) action" where
  "load_release io decode root =
     bind_s (wrap_s ''read release manifest: %w'' [] (read_s (read_file io (root @ [''manifest.json''])))) (\<lambda>body.
     bind_s (wrap_s ''decode release manifest: %w'' [] (lift_s (decode body))) (\<lambda>(info, extra).
     also_s (lift_s (release_trailer extra))
    (also_s (lift_s (validate_release_manifest info))
    (also_s (each_s (check_release_source io root) (embedded_sources info)) (ret_s info)))))"

definition refreshed_sha :: "os_env \<Rightarrow> path \<Rightarrow> bytes \<Rightarrow> release_source \<Rightarrow> (files, release_source) action" where
  "refreshed_sha io root name s =
     bind_s (wrap_s ''%s embedded source path: %w'' [name] (read_s (source_root io root (rls_Path s)))) (\<lambda>p.
     bind_s (wrap_s ''hash %s embedded source: %w'' [name] (tree_sha256 io p)) (\<lambda>sha.
     ret_s (s\<lparr>rls_SHA256 := sha\<rparr>)))"

definition refresh_release :: "os_env \<Rightarrow> path \<Rightarrow> release_info \<Rightarrow> (files, release_info) action" where
  "refresh_release io root i =
     also_s (lift_s (validate_release_metadata i))
    (bind_s (refreshed_sha io root ''cloud-init'' (rli_CloudInit i)) (\<lambda>c.
     bind_s (refreshed_sha io root ''core'' (rli_Core i)) (\<lambda>o'.
     bind_s (refreshed_sha io root ''n8n'' (rli_N8N i)) (\<lambda>n.
     ret_s (i\<lparr>rli_CloudInit := c, rli_Core := o', rli_N8N := n\<rparr>)))))"

subsection \<open>The library\<close>

record snapshot_ref =
  snr_ID :: bytes
  snr_Kind :: source_kind
  snr_PackageID :: bytes
  snr_PackagePath :: bytes
  snr_Version :: bytes
  snr_Commit :: bytes
  snr_SHA256 :: bytes

record workspace_ref =
  wrf_ID :: bytes
  wrf_Kind :: source_kind
  wrf_PackageID :: bytes
  wrf_PackagePath :: bytes
  wrf_BaseSnapshotID :: bytes
  wrf_BaseCommit :: bytes
  wrf_SHA256 :: bytes
  wrf_SynchronizedCommit :: bytes

record 'w remote =
  rem_Fetch :: "remote_config \<Rightarrow> bytes \<Rightarrow> ('w git_host, fetch_result) action"
  rem_Push :: "push_request \<Rightarrow> ('w git_host, push_result) action"

definition git_remote :: "('w, 'x) git_env_scheme \<Rightarrow> 'w remote" where
  "git_remote env = \<lparr>rem_Fetch = remote_fetch env, rem_Push = remote_push env\<rparr>"

record 'w library_env = "'w git_env" +
  lie_Root :: path
  lie_Embedded :: path
  lie_Decode :: release_decoder
  lie_Crypto :: crypto
  lie_Sql :: sql_faults
  lie_Key :: bytes
  lie_NewID :: "bytes \<Rightarrow> bytes result"
  lie_Remote :: "'w remote"

record 'w library_state =
  lis_Db :: db
  lis_Host :: "'w git_host"

text \<open>The parts of an operation that work on the machine, on its files alone, and on the management state.\<close>

definition machine_s :: "('w git_host, 'a) action \<Rightarrow> ('w library_state, 'a) action" where
  "machine_s m st = (case m (lis_Host st) of (r, h) \<Rightarrow> (r, st\<lparr>lis_Host := h\<rparr>))"

abbreviation tree_s :: "(files, 'a) action \<Rightarrow> ('w library_state, 'a) action" where
  "tree_s m \<equiv> machine_s (files_s m)"

definition state_change :: "('w, 'x) library_env_scheme \<Rightarrow> (db \<Rightarrow> db result) \<Rightarrow> ('w library_state, unit) action" where
  "state_change env g st = (case change (lie_Sql env) (op g) (lis_Db st) of (r, db) \<Rightarrow> (r, st\<lparr>lis_Db := db\<rparr>))"

definition sources_s :: "('w, 'x) library_env_scheme \<Rightarrow> ('w library_state, source_state) action" where
  "sources_s env = read_s (\<lambda>st. read_canonical_sources (lie_Sql env) (lis_Db st))"

text \<open>\<open>ResolveSecret\<close>, with a consumer that works on the machine: its error is replaced.\<close>

definition with_secret ::
  "('w, 'x) library_env_scheme \<Rightarrow> bytes \<Rightarrow> (bytes \<Rightarrow> ('w git_host, 'a) action) \<Rightarrow> ('w library_state, 'a) action" where
  "with_secret env i consume =
     bind_s (read_s (\<lambda>st. secret_value_of (lie_Crypto env) (lie_Sql env) (lie_Key env) i (lis_Db st))) (\<lambda>plain.
     rescue_s (machine_s (consume plain)) (\<lambda>_. lift_s (Inl (Err ''secret consumer failed''))))"

definition removing_tree :: "('w, 'x) library_env_scheme \<Rightarrow> path \<Rightarrow> 'w library_state \<Rightarrow> 'w library_state" where
  "removing_tree env p st = st\<lparr>lis_Host := removing env p (lis_Host st)\<rparr>"

definition new_library :: "('w, 'x) library_env_scheme \<Rightarrow> ('w library_state, unit) action" where
  "new_library env =
     each_s (\<lambda>p. wrap_s ''create source library: %w'' [] (tree_s (os_mkdir_all (gte_Os env) p 448)))
       [lie_Root env @ [''snapshots'', ''sha256''], lie_Root env @ [''workspaces'']]"

definition snapshot_path :: "('w, 'x) library_env_scheme \<Rightarrow> bytes \<Rightarrow> path" where
  "snapshot_path env sha = join_path (lie_Root env) (''snapshots/sha256/'' @ sha)"

definition workspace_path :: "('w, 'x) library_env_scheme \<Rightarrow> source_workspace \<Rightarrow> path" where
  "workspace_path env w = join_path (lie_Root env) (wsp_StorageRef w)"

definition snapshot_from_state :: "source_artifact \<Rightarrow> snapshot_ref" where
  "snapshot_from_state a =
     \<lparr>snr_ID = sar_ID a, snr_Kind = sar_Kind a, snr_PackageID = sar_PackageID a, snr_PackagePath = sar_PackagePath a,
      snr_Version = sar_Version a, snr_Commit = sar_Commit a, snr_SHA256 = sar_SHA256 a\<rparr>"

definition workspace_from_state :: "source_workspace \<Rightarrow> workspace_ref" where
  "workspace_from_state w =
     \<lparr>wrf_ID = wsp_ID w, wrf_Kind = wsp_Kind w, wrf_PackageID = wsp_PackageID w, wrf_PackagePath = wsp_PackagePath w,
      wrf_BaseSnapshotID = wsp_BaseSourceID w, wrf_BaseCommit = wsp_BaseCommit w, wrf_SHA256 = wsp_CurrentSHA256 w,
      wrf_SynchronizedCommit = wsp_SynchronizedCommit w\<rparr>"

definition verify_snapshot :: "('w, 'x) library_env_scheme \<Rightarrow> source_artifact \<Rightarrow> ('w library_state, unit) action" where
  "verify_snapshot env a =
     bind_s (wrap_s ''verify immutable source snapshot %s: %w'' [sar_ID a]
       (tree_s (tree_sha256 (gte_Os env) (snapshot_path env (sar_SHA256 a))))) (\<lambda>actual.
     lift_s (reject_if (actual \<noteq> sar_SHA256 a)
       (Errf ''immutable source snapshot %s changed: expected=%s actual=%s'' [sar_ID a, sar_SHA256 a, actual])))"

definition library_artifact :: "('w, 'x) library_env_scheme \<Rightarrow> bytes \<Rightarrow> ('w library_state, source_artifact) action" where
  "library_artifact env i =
     bind_s (sources_s env) (\<lambda>s.
     case find (\<lambda>a. sar_ID a = i) (sst_Artifacts s) of
       None \<Rightarrow> lift_s (Inl (Errf ''source snapshot %s does not exist'' [i]))
     | Some a \<Rightarrow> also_s (verify_snapshot env a) (ret_s a))"

definition library_workspace :: "('w, 'x) library_env_scheme \<Rightarrow> bytes \<Rightarrow> ('w library_state, source_workspace) action" where
  "library_workspace env i =
     bind_s (sources_s env) (\<lambda>s.
     case find (\<lambda>w. wsp_ID w = i) (sst_Workspaces s) of
       None \<Rightarrow> lift_s (Inl (Errf ''source workspace %s does not exist'' [i]))
     | Some w \<Rightarrow> ret_s w)"

definition library_config :: "('w, 'x) library_env_scheme \<Rightarrow> ('w library_state, github_config) action" where
  "library_config env =
     bind_s (sources_s env) (\<lambda>s.
     case sst_Github s of
       None \<Rightarrow> lift_s (Inl (Err ''custom module github is not configured''))
     | Some c \<Rightarrow> ret_s c)"

subsection \<open>Importing a snapshot\<close>

definition same_source :: "source_kind \<Rightarrow> bytes \<Rightarrow> bytes \<Rightarrow> bytes \<Rightarrow> source_artifact \<Rightarrow> bool" where
  "same_source kind package commit sha a =
     (sar_Kind a = kind \<and> sar_PackageID a = package \<and> sar_Commit a = commit \<and> sar_SHA256 a = sha)"

definition fill_snapshot ::
  "('w, 'x) library_env_scheme \<Rightarrow> path \<Rightarrow> bytes \<Rightarrow> path \<Rightarrow> path \<Rightarrow> ('w library_state, unit) action" where
  "fill_snapshot env src sha dst tmp =
     (let payload = tmp @ [''payload''] in
      also_s (tree_s (copy_tree (gte_Os env) src payload))
     (bind_s (tree_s (tree_sha256 (gte_Os env) payload)) (\<lambda>check.
      also_s (lift_s (reject_if (check \<noteq> sha) (Err ''source changed while importing'')))
        (rescue_s (tree_s (os_rename (gte_Os env) payload dst)) (\<lambda>e.
           tree_s (\<lambda>fs. case fst (os_stat (gte_Os env) dst fs) of
               Inr (Some nd) \<Rightarrow> ret_s () fs
             | _ \<Rightarrow> lift_s (Inl (Wrapf ''publish immutable snapshot: %w'' [] e)) fs))))))"

text \<open>The temporary directory goes when the import returns, after the steps \<open>finish\<close> that follow the rename.\<close>

definition publish_snapshot ::
  "('w, 'x) library_env_scheme \<Rightarrow> path \<Rightarrow> bytes \<Rightarrow> path \<Rightarrow> ('w library_state, 'a) action \<Rightarrow> ('w library_state, 'a) action" where
  "publish_snapshot env src sha dst finish =
     bind_s (machine_s (temp_dir env (lie_Root env @ [''snapshots'']) ''.import-'')) (\<lambda>tmp.
     defer_s (removing_tree env tmp) (also_s (fill_snapshot env src sha dst tmp) finish))"

definition register_snapshot ::
  "('w, 'x) library_env_scheme \<Rightarrow> source_kind \<Rightarrow> bytes \<Rightarrow> bytes \<Rightarrow> bytes \<Rightarrow> bytes \<Rightarrow> bytes \<Rightarrow> path \<Rightarrow>
   ('w library_state, snapshot_ref) action" where
  "register_snapshot env kind package package_path version commit sha dst =
     bind_s (tree_s (tree_sha256 (gte_Os env) dst)) (\<lambda>check.
     also_s (lift_s (reject_if (check \<noteq> sha) (Err ''immutable snapshot integrity failure'')))
    (bind_s (lift_s (lie_NewID env ''source'')) (\<lambda>i.
     let a = \<lparr>sar_ID = i, sar_Kind = kind, sar_PackageID = package, sar_PackagePath = package_path,
              sar_Version = version, sar_Commit = commit, sar_SHA256 = sha,
              sar_StorageRef = ''snapshots/sha256/'' @ sha\<rparr> in
     also_s (state_change env (register_source_artifact (lie_Crypto env) (lie_Sql env) (lie_Key env) a))
       (ret_s (snapshot_from_state a)))))"

definition import_snapshot ::
  "('w, 'x) library_env_scheme \<Rightarrow> source_kind \<Rightarrow> bytes \<Rightarrow> bytes \<Rightarrow> bytes \<Rightarrow> bytes \<Rightarrow> path \<Rightarrow> bytes \<Rightarrow>
   ('w library_state, snapshot_ref) action" where
  "import_snapshot env kind package package_path version commit src expected =
     bind_s (tree_s (tree_sha256 (gte_Os env) src)) (\<lambda>sha.
     also_s (lift_s (reject_if (expected \<noteq> [] \<and> sha \<noteq> expected)
       (Errf ''embedded source sha256 mismatch: expected=%s actual=%s'' [expected, sha])))
    (bind_s (sources_s env) (\<lambda>s.
     case find (same_source kind package commit sha) (sst_Artifacts s) of
       Some a \<Rightarrow> also_s (verify_snapshot env a) (ret_s (snapshot_from_state a))
     | None \<Rightarrow>
         (let dst = snapshot_path env sha; finish = register_snapshot env kind package package_path version commit sha dst in
          bind_s (tree_s (os_stat (gte_Os env) dst)) (\<lambda>there.
          case there of None \<Rightarrow> publish_snapshot env src sha dst finish | Some nd \<Rightarrow> finish)))))"

definition import_embedded :: "('w, 'x) library_env_scheme \<Rightarrow> ('w library_state, snapshot_ref list) action" where
  "import_embedded env =
     bind_s (tree_s (load_release (gte_Os env) (lie_Decode env) (lie_Embedded env))) (\<lambda>info.
     fold_s (\<lambda>out (kind, s).
       bind_s (import_snapshot env kind [] [] (rls_Version s) [] (join_path (lie_Embedded env) (rls_Path s)) (rls_SHA256 s))
         (\<lambda>snap. ret_s (out @ [snap]))) []
       [(Source_Cloud_Init, rli_CloudInit info), (Source_Core, rli_Core info), (Source_Embedded_N8N, rli_N8N info)])"

definition current_embedded ::
  "('w, 'x) library_env_scheme \<Rightarrow> source_kind \<Rightarrow> ('w library_state, snapshot_ref \<times> path) action" where
  "current_embedded env kind =
     bind_s (tree_s (load_release (gte_Os env) (lie_Decode env) (lie_Embedded env))) (\<lambda>info.
     bind_s (lift_s
       (if kind = Source_Cloud_Init then Inr (rli_CloudInit info)
        else if kind = Source_Core then Inr (rli_Core info)
        else if kind = Source_Embedded_N8N then Inr (rli_N8N info)
        else Inl (Errf ''source kind %s has no embedded release'' [source_kind_text kind]))) (\<lambda>released.
     bind_s (sources_s env) (\<lambda>s.
     case find (\<lambda>a. sar_Kind a = kind \<and> sar_Version a = rls_Version released \<and> sar_SHA256 a = rls_SHA256 released \<and>
                    sar_Commit a = []) (sst_Artifacts s) of
       None \<Rightarrow> lift_s (Inl (Errf ''current embedded %s source is not imported'' [source_kind_text kind]))
     | Some a \<Rightarrow> also_s (verify_snapshot env a) (ret_s (snapshot_from_state a, snapshot_path env (sar_SHA256 a))))))"

subsection \<open>Workspaces\<close>

definition workspace_row :: "bytes \<Rightarrow> source_artifact \<Rightarrow> bytes \<Rightarrow> source_workspace" where
  "workspace_row i a sha =
     \<lparr>wsp_ID = i, wsp_Kind = sar_Kind a, wsp_PackageID = sar_PackageID a, wsp_PackagePath = sar_PackagePath a,
      wsp_BaseSourceID = sar_ID a, wsp_BaseCommit = sar_Commit a, wsp_CurrentSHA256 = sha,
      wsp_StorageRef = ''workspaces/'' @ i, wsp_SynchronizedCommit = []\<rparr>"

text \<open>The tree stays when the copy fails; it is removed when a later step does.\<close>

definition register_workspace ::
  "('w, 'x) library_env_scheme \<Rightarrow> source_artifact \<Rightarrow> bytes \<Rightarrow> path \<Rightarrow> ('w library_state, workspace_ref) action" where
  "register_workspace env a i dst =
     on_error_s (removing_tree env dst)
       (bind_s (tree_s (tree_sha256 (gte_Os env) dst)) (\<lambda>sha.
        also_s (state_change env (create_source_workspace (lie_Crypto env) (lie_Sql env) (lie_Key env) (workspace_row i a sha)))
          (ret_s (workspace_from_state (workspace_row i a sha)))))"

definition create_workspace :: "('w, 'x) library_env_scheme \<Rightarrow> bytes \<Rightarrow> ('w library_state, workspace_ref) action" where
  "create_workspace env snapshot =
     bind_s (library_artifact env snapshot) (\<lambda>a.
     bind_s (lift_s (lie_NewID env ''workspace'')) (\<lambda>i.
     let dst = join_path (lie_Root env) (''workspaces/'' @ i) in
     also_s (wrap_s ''create workspace: %w'' [] (tree_s (copy_tree (gte_Os env) (snapshot_path env (sar_SHA256 a)) dst)))
       (register_workspace env a i dst)))"

definition create_workspace_from_path ::
  "('w, 'x) library_env_scheme \<Rightarrow> source_artifact \<Rightarrow> path \<Rightarrow> ('w library_state, workspace_ref) action" where
  "create_workspace_from_path env a src =
     bind_s (lift_s (lie_NewID env ''workspace'')) (\<lambda>i.
     let dst = join_path (lie_Root env) (''workspaces/'' @ i) in
     also_s (tree_s (copy_tree (gte_Os env) src dst)) (register_workspace env a i dst))"

definition refresh_workspace :: "('w, 'x) library_env_scheme \<Rightarrow> bytes \<Rightarrow> ('w library_state, workspace_ref) action" where
  "refresh_workspace env i =
     bind_s (library_workspace env i) (\<lambda>w.
     bind_s (tree_s (tree_sha256 (gte_Os env) (workspace_path env w))) (\<lambda>sha.
     also_s (state_change env (update_workspace_current (lie_Sql env) i sha))
       (ret_s (workspace_from_state (w\<lparr>wsp_CurrentSHA256 := sha, wsp_SynchronizedCommit := []\<rparr>)))))"

definition apply_edits :: "('w, 'x) library_env_scheme \<Rightarrow> bytes \<Rightarrow> edit list \<Rightarrow> ('w library_state, workspace_ref) action" where
  "apply_edits env i edits =
     bind_s (library_workspace env i) (\<lambda>w.
     also_s (each_s (\<lambda>e. tree_s (apply_edit (gte_Os env) (workspace_path env w) e)) edits)
       (refresh_workspace env i))"

definition workspace_diff :: "('w, 'x) library_env_scheme \<Rightarrow> bytes \<Rightarrow> ('w library_state, file_change list) action" where
  "workspace_diff env i =
     bind_s (library_workspace env i) (\<lambda>w.
     bind_s (library_artifact env (wsp_BaseSourceID w)) (\<lambda>a.
     tree_s (diff_trees (gte_Os env) (snapshot_path env (sar_SHA256 a)) (workspace_path env w))))"

subsection \<open>Custom modules\<close>

definition config_of :: "github_config \<Rightarrow> bytes \<Rightarrow> remote_config" where
  "config_of c token =
     \<lparr>rmc_Owner = ghc_Owner c, rmc_Repository = ghc_Repository c, rmc_Ref = ghc_Ref c, rmc_Token = token\<rparr>"

definition load_custom_module ::
  "('w, 'x) library_env_scheme \<Rightarrow> bytes \<Rightarrow> bytes \<Rightarrow> ('w library_state, snapshot_ref) action" where
  "load_custom_module env package version =
     bind_s (library_config env) (\<lambda>c.
     bind_s (wrap_s ''fetch custom module: %w'' []
       (with_secret env (ghc_PATSecretID c) (\<lambda>token. rem_Fetch (lie_Remote env) (config_of c token) package))) (\<lambda>fetched.
     defer_s (removing_tree env (ftr_Path fetched))
       (bind_s (lift_s (lie_NewID env ''module-pkg'')) (\<lambda>p.
        import_snapshot env Source_Custom_Module p package version (ftr_Commit fetched) (ftr_Path fetched) []))))"

definition drift_error :: "bytes \<Rightarrow> bytes \<Rightarrow> error" where
  "drift_error expected actual = Errf ''custom module remote drift: expected %s, actual %s'' [expected, actual]"

definition push_custom_module ::
  "('w, 'x) library_env_scheme \<Rightarrow> bytes \<Rightarrow> bytes \<Rightarrow> ('w library_state, workspace_ref) action" where
  "push_custom_module env i message =
     also_s (lift_s (reject_if (trim_space message = []) (Err ''commit message is required'')))
    (bind_s (library_workspace env i) (\<lambda>w0.
     also_s (lift_s (reject_if (wsp_Kind w0 \<noteq> Source_Custom_Module) (Err ''only custom module workspaces can be pushed'')))
    (bind_s (refresh_workspace env i) (\<lambda>_.
     bind_s (library_workspace env i) (\<lambda>w.
     bind_s (library_config env) (\<lambda>c.
     bind_s (wrap_s ''push custom module: %w'' [] (with_secret env (ghc_PATSecretID c) (\<lambda>token.
       rem_Push (lie_Remote env)
         \<lparr>pur_Config = config_of c token, pur_PackagePath = wsp_PackagePath w, pur_WorkspacePath = workspace_path env w,
          pur_BaseCommit = wsp_BaseCommit w, pur_Message = message\<rparr>))) (\<lambda>pushed.
     bind_s (tree_s (tree_sha256 (gte_Os env) (workspace_path env w))) (\<lambda>sha.
     also_s (lift_s (reject_if (psh_RemoteCommit pushed \<noteq> psh_Commit pushed)
       (drift_error (psh_Commit pushed) (psh_RemoteCommit pushed))))
    (also_s (state_change env (mark_workspace_synchronized (lie_Sql env) i (psh_Commit pushed) sha))
       (ret_s (workspace_from_state (w\<lparr>wsp_CurrentSHA256 := sha, wsp_SynchronizedCommit := psh_Commit pushed\<rparr>))))))))))))"

record merge_result =
  mrr_Candidate :: "workspace_ref option"
  mrr_Conflicts :: "bytes list"

definition merge_core :: "('w, 'x) library_env_scheme \<Rightarrow> bytes \<Rightarrow> bytes \<Rightarrow> ('w library_state, merge_result) action" where
  "merge_core env i new_base =
     bind_s (library_workspace env i) (\<lambda>w.
     also_s (lift_s (reject_if (wsp_Kind w \<noteq> Source_Core) (Err ''core merge requires a core workspace'')))
    (bind_s (library_artifact env (wsp_BaseSourceID w)) (\<lambda>old.
     bind_s (library_artifact env new_base) (\<lambda>new.
     also_s (lift_s (reject_if (sar_Kind new \<noteq> Source_Core) (Err ''new core base is not a core snapshot'')))
    (bind_s (machine_s (three_way_merge env (snapshot_path env (sar_SHA256 old)) (workspace_path env w)
       (snapshot_path env (sar_SHA256 new)))) (\<lambda>(merged, conflicts).
     defer_s (removing_tree env merged)
       (if conflicts \<noteq> [] then ret_s \<lparr>mrr_Candidate = None, mrr_Conflicts = conflicts\<rparr>
        else
          bind_s (create_workspace_from_path env new merged) (\<lambda>candidate.
          ret_s \<lparr>mrr_Candidate = Some candidate, mrr_Conflicts = []\<rparr>))))))))"

end
