(* ===== verification/Source_Recovery.thy ===== *)
theory Source_Recovery
  imports Source_Library
begin

section \<open>Export and recovery of the source library\<close>

text \<open>
  \<open>internal/sourcelibrary/recovery.go\<close>. An export copies the trees that the management state names. An
  import is prepared in a directory of its own, published by renaming, and undone by \<open>Close\<close> unless it
  was sealed; the record of the import and the files are the state of the later steps. The context of
  a call is never cancelled.
\<close>

subsection \<open>Export\<close>

definition portable_ref_path :: "path \<Rightarrow> bytes \<Rightarrow> path result" where
  "portable_ref_path root ref =
     also_r (reject_if (ref = [] \<or> \<not> is_local ref \<or> CHR 0x5C \<in> set ref) (Err ''invalid source storage reference''))
    (let p = join_path root ref in
     also_r (reject_if (take (length root) p \<noteq> root) (Err ''source storage reference escapes library root'')) (Inr p))"

definition export_artifact_tree ::
  "('w, 'x) library_env_scheme \<Rightarrow> path \<Rightarrow> source_artifact \<Rightarrow> ('w library_state, unit) action" where
  "export_artifact_tree env destination a =
     bind_s (lift_s (portable_ref_path (lie_Root env) (sar_StorageRef a))) (\<lambda>source.
     also_s (verify_snapshot env a)
       (wrap_s ''export source artifact %s: %w'' [sar_ID a]
         (tree_s (copy_tree (gte_Os env) source (join_path destination (sar_StorageRef a))))))"

definition export_workspace_tree ::
  "('w, 'x) library_env_scheme \<Rightarrow> path \<Rightarrow> source_workspace \<Rightarrow> ('w library_state, unit) action" where
  "export_workspace_tree env destination w =
     bind_s (lift_s (portable_ref_path (lie_Root env) (wsp_StorageRef w))) (\<lambda>source.
     bind_s (wrap_s ''verify source workspace %s: %w'' [wsp_ID w] (tree_s (tree_sha256 (gte_Os env) source))) (\<lambda>actual.
     also_s (lift_s (reject_if (actual \<noteq> wsp_CurrentSHA256 w) (Errf ''source workspace %s integrity mismatch'' [wsp_ID w])))
       (wrap_s ''export source workspace %s: %w'' [wsp_ID w]
         (tree_s (copy_tree (gte_Os env) source (join_path destination (wsp_StorageRef w)))))))"

text \<open>The destination is an absolute path.\<close>

definition export_sources :: "('w, 'x) library_env_scheme \<Rightarrow> path \<Rightarrow> ('w library_state, unit) action" where
  "export_sources env destination =
     bind_s (sources_s env) (\<lambda>s.
     also_s (tree_s (os_mkdir_all (gte_Os env) destination 448))
    (also_s (each_s (export_artifact_tree env destination) (sst_Artifacts s))
       (each_s (export_workspace_tree env destination) (sst_Workspaces s))))"

subsection \<open>The shape of a recovered library\<close>

definition artifact_ref :: "source_artifact \<Rightarrow> bytes" where
  "artifact_ref a = path_clean (''snapshots/sha256/'' @ sar_SHA256 a)"

definition workspace_storage_ref :: "source_workspace \<Rightarrow> bytes" where
  "workspace_storage_ref w = path_clean (''workspaces/'' @ wsp_ID w)"

definition validate_artifact_ref :: "source_artifact \<Rightarrow> unit result" where
  "validate_artifact_ref a =
     reject_if (sar_StorageRef a \<noteq> artifact_ref a) (Errf ''source artifact %s has non-canonical storage reference'' [sar_ID a])"

definition validate_workspace_ref :: "source_workspace \<Rightarrow> unit result" where
  "validate_workspace_ref w =
     reject_if (wsp_StorageRef w \<noteq> workspace_storage_ref w)
       (Errf ''source workspace %s has non-canonical storage reference'' [wsp_ID w])"

definition named_directories :: "os_env \<Rightarrow> path \<Rightarrow> bytes list \<Rightarrow> (files, unit) action" where
  "named_directories io root expected fs =
     (case os_read_dir io root fs of
        (Inl e, fs') \<Rightarrow>
          lift_s (if error_is e err_not_exist
                  then reject_if (expected \<noteq> []) (Errf ''recovery source directory %s is missing'' [path_text root])
                  else Inl e) fs'
      | (Inr entries, fs') \<Rightarrow>
          lift_s (checks
            [for_each (\<lambda>(name, nd). reject_if (\<not> is_directory (Some nd) \<or> name \<notin> set expected)
               (Errf ''unexpected recovery source object %q'' [name])) entries,
             for_each (\<lambda>name. reject_if (name \<notin> fst ` set entries)
               (Errf ''recovery source object %q is missing'' [name])) expected]) fs')"

definition validate_source_shape :: "os_env \<Rightarrow> path \<Rightarrow> source_state \<Rightarrow> (files, unit) action" where
  "validate_source_shape io root s =
     bind_s (wrap_s ''read recovery source root: %w'' [] (os_read_dir io root)) (\<lambda>entries.
     also_s (lift_s (for_each validate_artifact_ref (sst_Artifacts s)))
    (also_s (lift_s (for_each validate_workspace_ref (sst_Workspaces s)))
    (let top = (if sst_Artifacts s = [] then [] else [''snapshots'']) @ (if sst_Workspaces s = [] then [] else [''workspaces'']);
         snapshots = map sar_SHA256 (sst_Artifacts s) in
     also_s (lift_s (for_each (\<lambda>(name, nd). reject_if (\<not> is_directory (Some nd) \<or> name \<notin> set top)
         (Errf ''unexpected recovery source entry %q'' [name])) entries))
    (also_s (if snapshots = [] then ret_s ()
             else bind_s (os_read_dir io (root @ [''snapshots''])) (\<lambda>below.
               lift_s (case below of
                   [(name, nd)] \<Rightarrow> reject_if (name \<noteq> ''sha256'' \<or> \<not> is_directory (Some nd))
                     (Err ''recovery snapshots directory has unexpected shape'')
                 | _ \<Rightarrow> Inl (Err ''recovery snapshots directory has unexpected shape''))))
    (also_s (named_directories io (root @ [''snapshots'', ''sha256'']) snapshots)
       (named_directories io (root @ [''workspaces'']) (map wsp_ID (sst_Workspaces s))))))))"

subsection \<open>Preparing an import\<close>

record recovery_tree =
  rct_Stage :: path
  rct_Target :: path
  rct_SHA256 :: bytes
  rct_Reusable :: bool

record recovery_import =
  rci_Stage :: path
  rci_Trees :: "recovery_tree list"
  rci_Published :: "path list"
  rci_Sealed :: bool

definition verify_recovery_tree :: "os_env \<Rightarrow> path \<Rightarrow> bytes \<Rightarrow> bytes \<Rightarrow> bytes \<Rightarrow> (files, unit) action" where
  "verify_recovery_tree io root expected kind i =
     bind_s (wrap_s ''verify recovered %s %s: %w'' [kind, i] (tree_sha256 io root)) (\<lambda>actual.
     lift_s (reject_if (actual \<noteq> expected) (Errf ''recovered %s %s sha256 mismatch'' [kind, i])))"

definition reusable_tree :: "os_env \<Rightarrow> path \<Rightarrow> bytes \<Rightarrow> (files, bool) action" where
  "reusable_tree io target expected =
     bind_s (os_lstat io target) (\<lambda>x.
     case x of
       None \<Rightarrow> ret_s False
     | Some nd \<Rightarrow>
         bind_s (tree_sha256 io target) (\<lambda>actual.
         also_s (lift_s (reject_if (actual \<noteq> expected) (Err ''existing recovery source tree differs''))) (ret_s True)))"

definition stage_number :: "nat \<Rightarrow> bytes" where
  "stage_number n = (let d = decimal n in replicate (6 - length d) CHR ''0'' @ d)"

text \<open>The two loops of the function have the same body, for a tree of the expected state.\<close>

definition stage_tree ::
  "os_env \<Rightarrow> path \<Rightarrow> path \<Rightarrow> recovery_tree list \<Rightarrow> unit result \<times> bytes \<times> bytes \<times> bytes \<times> bytes \<times> path \<Rightarrow>
   (files, recovery_tree list) action" where
  "stage_tree io recovered stage_root trees x =
     (case x of (valid, kind, i, ref, sha, target) \<Rightarrow>
      also_s (lift_s valid)
     (let source = join_path recovered ref in
      also_s (verify_recovery_tree io source sha kind i)
     (bind_s (wrap_s ''verify existing %s %s: %w'' [kind, i] (reusable_tree io target sha)) (\<lambda>reused.
      if reused then ret_s trees
      else
        (let stage = stage_root @ [''tree-'' @ stage_number (length trees)] in
         also_s (wrap_s ''stage recovered %s %s: %w'' [kind, i] (copy_tree io source stage))
        (also_s (verify_recovery_tree io stage sha (''staged '' @ kind) i)
           (ret_s (trees @ [\<lparr>rct_Stage = stage, rct_Target = target, rct_SHA256 = sha, rct_Reusable = True\<rparr>]))))))))"

definition expected_trees ::
  "path \<Rightarrow> source_state \<Rightarrow> (unit result \<times> bytes \<times> bytes \<times> bytes \<times> bytes \<times> path) list" where
  "expected_trees root s =
     map (\<lambda>a. (validate_artifact_ref a, ''source artifact'', sar_ID a, sar_StorageRef a, sar_SHA256 a,
               join_path root (sar_StorageRef a))) (sst_Artifacts s) @
     map (\<lambda>w. (validate_workspace_ref w, ''source workspace'', wsp_ID w, wsp_StorageRef w, wsp_CurrentSHA256 w,
               join_path root (wsp_StorageRef w))) (sst_Workspaces s)"

definition prepare_source_import ::
  "('w, 'x) library_env_scheme \<Rightarrow> path \<Rightarrow> source_state \<Rightarrow> ('w git_host, recovery_import) action" where
  "prepare_source_import env recovered s =
     also_s (files_s (validate_source_shape (gte_Os env) recovered s))
    (bind_s (wrap_s ''create recovery source stage: %w'' [] (temp_dir env (lie_Root env) ''.recovery-stage-'')) (\<lambda>stage.
     on_error_s (removing env stage)
       (also_s (files_s (os_chmod (gte_Os env) stage 448))
       (bind_s (files_s (fold_s (stage_tree (gte_Os env) recovered stage) [] (expected_trees (lie_Root env) s))) (\<lambda>trees.
        ret_s \<lparr>rci_Stage = stage, rci_Trees = trees, rci_Published = [], rci_Sealed = False\<rparr>)))))"

subsection \<open>Publishing\<close>

record import_state =
  ims_Import :: recovery_import
  ims_Files :: files

definition on_files :: "(files, 'a) action \<Rightarrow> (import_state, 'a) action" where
  "on_files m st = (case m (ims_Files st) of (r, fs) \<Rightarrow> (r, st\<lparr>ims_Files := fs\<rparr>))"

definition rollback_import :: "os_env \<Rightarrow> import_state \<Rightarrow> import_state" where
  "rollback_import io st =
     (let r = ims_Import st in
      if rci_Sealed r then st
      else st\<lparr>ims_Import := r\<lparr>rci_Published := []\<rparr>,
              ims_Files := quietly (os_remove_all io (rci_Stage r))
                (foldl (\<lambda>fs p. quietly (os_remove_all io p) fs) (ims_Files st) (rev (rci_Published r)))\<rparr>)"

definition add_published :: "path \<Rightarrow> (import_state, unit) action" where
  "add_published p st =
     (Inr (), st\<lparr>ims_Import := (ims_Import st)\<lparr>rci_Published := rci_Published (ims_Import st) @ [p]\<rparr>\<rparr>)"

definition publish_tree :: "os_env \<Rightarrow> recovery_tree \<Rightarrow> (import_state, unit) action" where
  "publish_tree io t =
     also_s (on_files (os_mkdir_all io (butlast (rct_Target t)) 448))
       (rescue_s (also_s (on_files (os_rename io (rct_Stage t) (rct_Target t))) (add_published (rct_Target t)))
         (\<lambda>e st. case fst (reusable_tree io (rct_Target t) (rct_SHA256 t) (ims_Files st)) of
             Inr True \<Rightarrow>
               if rct_Reusable t
               then (Inr (), st\<lparr>ims_Files := quietly (os_remove_all io (rct_Stage t)) (ims_Files st)\<rparr>)
               else (Inl (Wrapf ''publish recovered source tree: %w'' [] e), st)
           | _ \<Rightarrow> (Inl (Wrapf ''publish recovered source tree: %w'' [] e), st)))"

definition commit_source_import :: "os_env \<Rightarrow> (import_state, unit) action" where
  "commit_source_import io st =
     (if rci_Sealed (ims_Import st) then (Inl (Err ''recovery source import is not commit-ready''), st)
      else on_error_s (rollback_import io) (each_s (publish_tree io) (rci_Trees (ims_Import st))) st)"

definition seal_import :: "os_env \<Rightarrow> import_state \<Rightarrow> import_state" where
  "seal_import io st =
     (let r = ims_Import st in
      if rci_Sealed r then st
      else st\<lparr>ims_Import := r\<lparr>rci_Sealed := True, rci_Published := []\<rparr>,
              ims_Files := quietly (os_remove_all io (rci_Stage r)) (ims_Files st)\<rparr>)"

definition close_import :: "os_env \<Rightarrow> import_state \<Rightarrow> import_state" where
  "close_import io st =
     (if rci_Sealed (ims_Import st)
      then st\<lparr>ims_Files := quietly (os_remove_all io (rci_Stage (ims_Import st))) (ims_Files st)\<rparr>
      else rollback_import io st)"

definition import_sources ::
  "('w, 'x) library_env_scheme \<Rightarrow> path \<Rightarrow> source_state \<Rightarrow> ('w git_host, unit) action" where
  "import_sources env recovered s =
     bind_s (prepare_source_import env recovered s) (\<lambda>r h.
     case commit_source_import (gte_Os env) \<lparr>ims_Import = r, ims_Files = gho_Files h\<rparr> of
       (Inl e, st) \<Rightarrow> (Inl e, h\<lparr>gho_Files := ims_Files (close_import (gte_Os env) st)\<rparr>)
     | (Inr u, st) \<Rightarrow> (Inr (), h\<lparr>gho_Files := ims_Files (close_import (gte_Os env) (seal_import (gte_Os env) st))\<rparr>))"

end
