(* ===== verification/Source_Confine.thy ===== *)
theory Source_Confine
  imports Source_Frame Source_Recovery
begin

section \<open>What the other calls leave\<close>

text \<open>
  \<open>RemoveAll\<close>, \<open>MkdirTemp\<close> and \<open>Rename\<close> on ways that are clear of links, and the reading functions, in the
  form of \<open>Source_Frame\<close>.
\<close>

lemma map_of_filter_key: "map_of (filter (\<lambda>(p, nd). P p) xs) p = (if P p then map_of xs p else None)"
  by (induction xs) auto

lemma map_of_rekeyed:
  assumes "inj_on f (fst ` set xs)" "r \<in> fst ` set xs"
  shows "map_of (map (\<lambda>(p, x). (f p, x)) xs) (f r) = map_of xs r"
  using assms
proof (induction xs)
  case (Cons a xs)
  obtain p x where a: "a = (p, x)" by fastforce
  show ?case
  proof (cases "r = p")
    case False
    then have "f p \<noteq> f r" using Cons.prems a by (auto simp: inj_on_def)
    then show ?thesis using Cons a False by (auto simp: inj_on_def)
  qed (simp add: a)
qed simp

lemma map_of_rekeyed_None: "s \<notin> f ` fst ` set xs \<Longrightarrow> map_of (map (\<lambda>(p, x). (f p, x)) xs) s = None"
  by (force simp: map_of_eq_None_iff image_iff)

lemma take_prefix: "take (length q) r = q \<longleftrightarrow> prefix q r"
  by (metis append_eq_conv_conj prefix_def)

subsection \<open>RemoveAll\<close>

lemma drop_below_node: "node_at (drop_below keep q fs) p = (if prefix q p \<longrightarrow> keep p then node_at fs p else None)"
  by (simp add: drop_below_def take_prefix [symmetric] map_of_filter_key [where P = "\<lambda>p. take (length q) p = q \<longrightarrow> keep p"])

lemma drop_below_rest [simp]: "fls_Next (drop_below keep q fs) = fls_Next fs" "fls_Inodes (drop_below keep q fs) = fls_Inodes fs"
  by (simp_all add: drop_below_def)

lemma drop_below_stays:
  assumes "good fs" "q \<noteq> []" "\<And>p r. keep r \<Longrightarrow> prefix p r \<Longrightarrow> keep p"
  shows "stays (prefix q) fs (drop_below keep q fs)"
proof
  have up: "node_at (drop_below keep q fs) (butlast p) = node_at fs (butlast p)"
    if "node_at (drop_below keep q fs) p = Some nd" for p nd
    using that assms(3) [of p "butlast p"] unfolding drop_below_node
    by (metis butlast_conv_take prefix_order.trans take_is_prefix option.distinct(1))
  have "tree_ok (drop_below keep q fs)"
    unfolding tree_ok_def
  proof (intro conjI allI impI)
    show "is_directory (node_at (drop_below keep q fs) [])"
      using assms(1,2) by (simp add: drop_below_node good_def tree_ok_def)
    show "is_directory (node_at (drop_below keep q fs) (butlast p))"
      if "node_at (drop_below keep q fs) p = Some nd \<and> p \<noteq> []" for p nd
      using that up [of p nd] assms(1) by (auto simp: drop_below_node good_def tree_ok_def split: if_splits)
    show "i < fls_Next (drop_below keep q fs)" if "node_at (drop_below keep q fs) p = Some (Regular i)" for p i
      using that assms(1) by (auto simp: drop_below_node good_def tree_ok_def split: if_splits)
  qed
  then show "good (drop_below keep q fs)"
    using assms(1) by (auto simp: good_def drop_below_node split: if_splits)
  show "local_to (prefix q) fs (drop_below keep q fs)"
    by (auto simp: local_to_def drop_below_node)
qed

lemma remove_all_leaves:
  assumes "good fs" "plain_path p" "p \<noteq> []" "real_way fs p"
  shows "leaves (os_remove_all io p) (\<lambda>r fs'. stays (prefix p) fs fs') fs"
proof -
  have "located fs p = Inr None \<or> located fs p = Inr (Some p)"
    using clear_located [OF assms(2,3) real_way_clear [OF assms(4)]] by blast
  moreover have "stays (prefix p) fs (drop_below (\<lambda>r. list_ex (\<lambda>k. take (length r) k = r) kept) p fs)" for kept
    by (rule drop_below_stays [OF assms(1,3)])
      (auto simp: list_ex_iff take_prefix intro: prefix_order.trans)
  ultimately show ?thesis
    using assms(1) by (auto simp: os_remove_all_def split: list.split simp del: list_ex_Nil_iff list_ex_Cons_iff)
qed

lemma quietly_leaves: "leaves m (\<lambda>r. Q) fs \<Longrightarrow> Q (quietly m fs)"
  by (simp add: leaves_def quietly_def)

subsection \<open>MkdirTemp\<close>

lemma mkdir_temp_leaves:
  assumes "good fs" "plain_path dir" "real_way fs dir" "is_directory (node_at fs dir)" "\<forall>n\<in>set names. plain_comp n"
  shows "leaves (os_mkdir_temp io dir names)
    (\<lambda>r fs'. case r of Inl e \<Rightarrow> fs' = fs
       | Inr p \<Rightarrow> (\<exists>n\<in>set names. p = dir @ [n]) \<and> node_at fs p = None \<and> is_directory (node_at fs' p) \<and>
           empty_place fs' p \<and> stays (\<lambda>q. q = p) fs fs') fs"
  using assms(5)
proof (induction names)
  case Nil
  then show ?case by simp
next
  case (Cons n names)
  let ?p = "dir @ [n]"
  have way: "real_way fs ?p" using assms(3,4) by (auto simp: real_way_def less_Suc_eq)
  have plain: "plain_path ?p" using assms(2) Cons.prems by simp
  have new: "is_directory (node_at (put_node ?p (Directory a) fs) ?p) \<and>
      empty_place (put_node ?p (Directory a) fs) ?p \<and> stays (\<lambda>q. q = ?p) fs (put_node ?p (Directory a) fs)"
    if "node_at fs ?p = None" for a
  proof -
    have "good (put_node ?p (Directory a) fs)" by (rule good_put [OF assms(1) _ plain that way]) simp_all
    moreover have "node_at fs (?p @ r) = None" if "r \<noteq> []" for r
    proof (rule ccontr)
      assume "node_at fs (?p @ r) \<noteq> None"
      then have "real_way fs (?p @ r)" using assms(1) tree_ok_real by (auto simp: good_def)
      moreover have "take (length ?p) (?p @ r) = ?p" "length ?p < length (?p @ r)" using \<open>r \<noteq> []\<close> by simp_all
      ultimately have "is_directory (node_at fs ?p)" by (metis real_way_def)
      then show False using \<open>node_at fs ?p = None\<close> by simp
    qed
    ultimately show ?thesis
      using way plain by (auto simp: empty_place_def put_node_def update_conv real_way_def local_to_def)
  qed
  show ?case
    using new plain way Cons
    by (auto simp: os_mkdir_def real_way_clear intro!: leaves_add_entry elim!: leaves_mono split: sum.splits)
qed

subsection \<open>Rename\<close>

lemma move_below_node:
  assumes "good fs" "node_at fs p = Some nd" "real_way fs q" "p \<noteq> q" "\<not> is_directory (node_at fs q)"
    and "is_directory (Some nd) \<Longrightarrow> \<not> prefix p q"
  shows "node_at (move_below p q fs) r =
    (if prefix q r then node_at fs (p @ drop (length q) r) else if prefix p r then None else node_at fs r)"
proof -
  let ?f = "\<lambda>r. if take (length p) r = p then q @ drop (length p) r else r"
  let ?xs = "filter (\<lambda>(r, nd). r \<noteq> q) (fls_Nodes fs)"
  have keys: "fst ` set ?xs = {r. node_at fs r \<noteq> None \<and> r \<noteq> q}"
    by (force simp: map_of_eq_None_iff image_iff)
  have pq: "\<not> prefix p q"
  proof
    assume "prefix p q"
    then have "take (length p) q = p" "length p < length q" using assms(4) by (auto simp: take_prefix prefix_length_less strict_prefixI)
    then have "is_directory (node_at fs p)" using assms(3) by (metis real_way_def)
    then show False using assms(2,6) \<open>prefix p q\<close> by simp
  qed
  have below_q: "node_at fs s = None" if "prefix q s" "s \<noteq> q" for s
  proof (rule ccontr)
    assume "node_at fs s \<noteq> None"
    then have "real_way fs s" using assms(1) tree_ok_real by (auto simp: good_def)
    moreover have "take (length q) s = q" "length q < length s" using that by (auto simp: take_prefix prefix_length_less strict_prefixI)
    ultimately have "is_directory (node_at fs q)" by (metis real_way_def)
    then show False using assms(5) by simp
  qed
  have inj: "inj_on ?f (fst ` set ?xs)"
  proof (rule inj_onI)
    fix a b assume ab: "a \<in> fst ` set ?xs" "b \<in> fst ` set ?xs" "?f a = ?f b"
    have "\<not> prefix q c" if "c \<in> fst ` set ?xs" "\<not> prefix p c" for c using that below_q keys by auto
    then show "a = b" using ab by (auto simp: take_prefix prefix_def split: if_splits)
  qed
  have node: "node_at (move_below p q fs) r = map_of (map (\<lambda>(s, x). (?f s, x)) ?xs) r"
    by (simp add: move_below_def case_prod_unfold)
  have old: "map_of ?xs s = node_at fs s" if "s \<noteq> q" for s
    using that by (simp add: map_of_filter_key [where P = "\<lambda>s. s \<noteq> q"])
  show ?thesis
  proof (cases "r \<in> ?f ` fst ` set ?xs")
    case True
    then obtain s where s: "s \<in> fst ` set ?xs" "r = ?f s" by (elim imageE) blast
    have sq: "s \<noteq> q" using s(1) keys by blast
    have "node_at (move_below p q fs) r = map_of (map (\<lambda>(s, x). (?f s, x)) ?xs) (?f s)"
      unfolding s(2) [symmetric] by (rule node)
    also have "\<dots> = map_of ?xs s" by (rule map_of_rekeyed [OF inj s(1)])
    also have "\<dots> = node_at fs s" by (rule old [OF sq])
    finally have "node_at (move_below p q fs) r = node_at fs s" .
    moreover have "\<not> prefix q s" if "\<not> prefix p s" using s(1) that below_q keys by auto
    ultimately show ?thesis using s(2) by (auto simp: take_prefix prefix_def)
  next
    case False
    then have none: "node_at (move_below p q fs) r = None" unfolding node by (rule map_of_rekeyed_None)
    have "node_at fs (p @ drop (length q) r) = None" if "prefix q r"
    proof (rule ccontr)
      assume "node_at fs (p @ drop (length q) r) \<noteq> None"
      moreover have "p @ drop (length q) r \<noteq> q" using pq by (metis prefixI)
      ultimately have at: "p @ drop (length q) r \<in> fst ` set ?xs" using keys by simp
      have "r = ?f (p @ drop (length q) r)" using that by (auto simp: prefix_def)
      then have "r \<in> ?f ` fst ` set ?xs" by (rule rev_image_eqI [OF at])
      then show False using False by contradiction
    qed
    moreover have "node_at fs r = None" if "\<not> prefix q r" "\<not> prefix p r"
    proof (rule ccontr)
      assume "node_at fs r \<noteq> None"
      then have at: "r \<in> fst ` set ?xs" using keys that by auto
      have "r = ?f r" using that by (simp add: take_prefix)
      then have "r \<in> ?f ` fst ` set ?xs" by (rule rev_image_eqI [OF at])
      then show False using False by contradiction
    qed
    ultimately show ?thesis using none by simp
  qed
qed

lemma move_below_rest [simp]: "fls_Next (move_below p q fs) = fls_Next fs" "fls_Inodes (move_below p q fs) = fls_Inodes fs"
  by (simp_all add: move_below_def)

lemma real_here: "good fs \<Longrightarrow> node_at fs p = Some nd \<Longrightarrow> real_way fs p"
  using tree_ok_real by (auto simp: good_def)

lemma nothing_below:
  assumes "good fs" "\<not> is_directory (node_at fs q)" "strict_prefix q s"
  shows "node_at fs s = None"
proof (rule ccontr)
  assume "node_at fs s \<noteq> None"
  then have "real_way fs s" using assms(1) real_here by blast
  moreover have "take (length q) s = q" "length q < length s"
    using assms(3) by (auto simp: take_prefix prefix_length_less strict_prefixI)
  ultimately show False using assms(2) by (metis real_way_def)
qed

lemma move_below_stays:
  assumes "good fs" "node_at fs p = Some nd" "real_way fs q" "plain_path q" "p \<noteq> []" "q \<noteq> []" "p \<noteq> q"
    and "\<not> is_directory (node_at fs q)" "is_directory (Some nd) \<Longrightarrow> \<not> prefix p q"
  shows "stays (\<lambda>s. prefix p s \<or> prefix q s) fs (move_below p q fs)"
proof -
  let ?fs = "move_below p q fs"
  note node = move_below_node [OF assms(1,2,3,7,8,9)]
  have pq: "\<not> prefix p q"
  proof
    assume pre: "prefix p q"
    then have "take (length p) q = p" "length p < length q" using assms(7) by (auto simp: take_prefix prefix_length_less strict_prefixI)
    then have "is_directory (node_at fs p)" using assms(3) by (metis real_way_def)
    then show False using assms(2,9) pre by simp
  qed
  have qp: "\<not> prefix q p"
  proof
    assume "prefix q p"
    then have "strict_prefix q p" using assms(7) by auto
    then show False using nothing_below [OF assms(1,8)] assms(2) by simp
  qed
  have ok: "tree_ok fs" "\<And>r x. node_at fs r = Some x \<Longrightarrow> plain_path r" using assms(1) by (auto simp: good_def)
  have "tree_ok ?fs"
    unfolding tree_ok_def
  proof (intro conjI allI impI)
    show "is_directory (node_at ?fs [])" using ok(1) assms(5,6) by (simp add: node tree_ok_def)
    fix s x assume s: "node_at ?fs s = Some x \<and> s \<noteq> []"
    show "is_directory (node_at ?fs (butlast s))"
    proof (cases "prefix q s")
      case True
      then obtain r where r: "s = q @ r" by (auto simp: prefix_def)
      show ?thesis
      proof (cases "r = []")
        case True
        have "is_directory (node_at fs (butlast q))"
          using assms(3,6) by (auto simp: real_way_def butlast_conv_take dest: spec [of _ "length q - 1"])
        moreover have "\<not> prefix q (butlast q)" using assms(6) by (simp add: prefix_def) (metis append_butlast_last_id append_self_conv append_is_Nil_conv append_assoc not_Cons_self2)
        moreover have "\<not> prefix p (butlast q)" using pq by (metis append_butlast_last_id assms(6) prefix_append prefix_prefix)
        ultimately show ?thesis using r True by (simp add: node)
      next
        case False
        then have "node_at fs (p @ r) = Some x" using s r by (simp add: node)
        then have "is_directory (node_at fs (butlast (p @ r)))" using ok(1) False by (simp add: tree_ok_def)
        then show ?thesis using False r by (simp add: node butlast_append)
      qed
    next
      case False
      then have x: "node_at fs s = Some x" "\<not> prefix p s" using s by (auto simp: node split: if_splits)
      then have "is_directory (node_at fs (butlast s))" using ok(1) s by (simp add: tree_ok_def)
      moreover have "\<not> prefix q (butlast s)" "\<not> prefix p (butlast s)"
        using False x(2) s by (metis append_butlast_last_id prefix_append prefix_prefix)+
      ultimately show ?thesis by (simp add: node)
    qed
  next
    show "i < fls_Next ?fs" if "node_at ?fs s = Some (Regular i)" for s i
      using that ok(1) by (auto simp: node tree_ok_def split: if_splits)
  qed
  moreover have "plain_path s" if s: "node_at ?fs s = Some x" for s x
  proof (cases "prefix q s")
    case True
    then obtain r where r: "s = q @ r" by (auto simp: prefix_def)
    then have "plain_path (p @ r)" using s ok(2) by (simp add: node)
    then show ?thesis using assms(4) r by auto
  qed (use s ok(2) in \<open>auto simp: node split: if_splits\<close>)
  ultimately show ?thesis
    by (auto simp: good_def local_to_def node)
qed

lemma os_rename_leaves:
  assumes "good fs" "plain_path p" "plain_path q" "p \<noteq> []" "q \<noteq> []" "real_way fs p" "real_way fs q"
  shows "leaves (os_rename io p q) (\<lambda>r fs'. stays (\<lambda>s. prefix p s \<or> prefix q s) fs fs' \<and>
    (case r of Inl e \<Rightarrow> fs' = fs
     | Inr u \<Rightarrow> p \<noteq> q \<longrightarrow> (\<exists>nd. node_at fs p = Some nd) \<and> \<not> is_directory (node_at fs q) \<and>
         (\<forall>s. node_at fs' s = (if prefix q s then node_at fs (p @ drop (length q) s) else if prefix p s then None else node_at fs s)))) fs"
proof -
  have old: "located fs p = Inr None \<or> located fs p = Inr (Some p)"
    using clear_located [OF assms(2,4) real_way_clear [OF assms(6)]] by blast
  have new: "located fs q = Inr None \<or> located fs q = Inr (Some q)"
    using clear_located [OF assms(3,5) real_way_clear [OF assms(7)]] by blast
  have moved: "stays (\<lambda>s. prefix p s \<or> prefix q s) fs (move_below p q fs) \<and>
      (\<forall>s. node_at (move_below p q fs) s = (if prefix q s then node_at fs (p @ drop (length q) s) else if prefix p s then None else node_at fs s))"
    if "node_at fs p = Some nd" "p \<noteq> q" "\<not> is_directory (node_at fs q)" "is_directory (Some nd) \<longrightarrow> \<not> prefix p q" for nd
    using move_below_stays [OF assms(1) that(1) assms(7,3,4,5) that(2,3)] move_below_node [OF assms(1) that(1) assms(7) that(2,3)] that(4)
    by blast
  show ?thesis
    using old new assms(1) moved
    by (auto simp: os_rename_def at_place_def take_prefix reject_if_def split: option.split if_splits)
qed

subsection \<open>Reading\<close>

lemma maintains_try [intro!]: "maintains K m \<Longrightarrow> maintains K (try_s io call p m)"
  by (simp add: try_s_def split: option.split)

lemma maintains_lstat [intro!, simp]: "maintains K (os_lstat io p)" "maintains K (os_stat io p)"
  by (simp_all add: maintains_def)

lemma maintains_walk [intro!]:
  assumes "\<And>b p nd. maintains K (visit b p nd)"
  shows "maintains K (walk_dir io skip visit root b)"
  unfolding walk_dir_def using assms
  by (intro maintains_bind maintains_lstat)
    (auto intro!: maintains_bind maintains_fold maintains_try split: option.split node.split prod.split)

lemma tree_sha_reads [intro!, simp]: "maintains K (tree_sha256 io root)"
  unfolding tree_sha256_def source_entries_def
  by (auto simp: tree_visit_def split: node.split)

lemma file_digests_reads [intro!, simp]: "maintains K (file_digests io root)"
  unfolding file_digests_def
  by (auto simp: digest_visit_def split: node.split)

lemma load_release_reads [intro!, simp]: "maintains K (load_release io decode root)"
  unfolding load_release_def
  by (auto simp: check_release_source_def split: prod.split)

lemma diff_trees_reads [intro!, simp]: "maintains K (diff_trees io a b)"
  unfolding diff_trees_def by auto

subsection \<open>Actions of the library\<close>

lemma leaves_machine [simp]: "leaves (machine_s m) Q st = leaves m (\<lambda>r h. Q r (st\<lparr>lis_Host := h\<rparr>)) (lis_Host st)"
  by (simp add: leaves_def machine_s_def split: prod.split)

lemma leaves_files [simp]: "leaves (files_s m) Q h = leaves m (\<lambda>r fs. Q r (h\<lparr>gho_Files := fs\<rparr>)) (gho_Files h)"
  by (simp add: leaves_def files_s_def split: prod.split)

lemma removing_files [simp]: "gho_Files (removing env p h) = quietly (os_remove_all (gte_Os env) p) (gho_Files h)"
  by (simp add: removing_def)

lemma removing_simps [simp]:
  "lis_Host (removing_tree env p st) = removing env p (lis_Host st)" "lis_Db (removing_tree env p st) = lis_Db st"
  by (simp_all add: removing_tree_def)

text \<open>What an action of the library keeps when it keeps a property of the files.\<close>

abbreviation on_tree :: "(files \<Rightarrow> bool) \<Rightarrow> 'w library_state \<Rightarrow> bool" where
  "on_tree K st \<equiv> K (gho_Files (lis_Host st))"

lemma maintains_tree [intro!]: "maintains K m \<Longrightarrow> maintains (on_tree K) (tree_s m)"
  by (simp add: maintains_def)

lemma maintains_state [intro!, simp]: "maintains (on_tree K) (state_change env g)"
  by (simp add: maintains_def leaves_def state_change_def split: prod.split)

lemma maintains_library [intro!, simp]:
  "maintains (on_tree K) (sources_s env)" "maintains (on_tree K) (verify_snapshot env a)"
  "maintains (on_tree K) (library_artifact env i)" "maintains (on_tree K) (library_workspace env i)"
  "maintains (on_tree K) (library_config env)"
  by (auto simp: sources_s_def verify_snapshot_def library_artifact_def library_workspace_def library_config_def split: option.split)

end
