(* ===== verification/Source_Snapshots.thy ===== *)
theory Source_Snapshots
  imports Source_Confine Bundle_Archive
begin

section \<open>Published snapshots do not change\<close>

text \<open>
  \<open>library_ok\<close> is the shape of the machine that the library works on: its directories are real ones, every
  entry of \<open>snapshots/sha256\<close> is a directory, and the directory for temporary files is elsewhere.
  \<open>immutable\<close> says that nothing at or below a published snapshot has changed, neither an entry nor the
  content of a file. Git is given by a hypothesis: a command changes files only below the directory it
  runs in. The operations that edit a workspace are left out, since an edit follows the links of the
  workspace; so is the push, since it follows the links of the checked-out repository.
\<close>

abbreviation snapshots_dir :: "('w, 'x) library_env_scheme \<Rightarrow> path" where
  "snapshots_dir env \<equiv> lie_Root env @ [''snapshots'', ''sha256'']"

abbreviation workspaces_dir :: "('w, 'x) library_env_scheme \<Rightarrow> path" where
  "workspaces_dir env \<equiv> lie_Root env @ [''workspaces'']"

definition published :: "('w, 'x) library_env_scheme \<Rightarrow> files \<Rightarrow> path \<Rightarrow> bool" where
  "published env fs p \<longleftrightarrow> (\<exists>x. node_at fs (snapshots_dir env @ [x]) \<noteq> None \<and> prefix (snapshots_dir env @ [x]) p)"

definition library_ok :: "('w, 'x) library_env_scheme \<Rightarrow> files \<Rightarrow> bool" where
  "library_ok env fs \<longleftrightarrow>
     good fs \<and> is_directory (node_at fs (snapshots_dir env)) \<and> is_directory (node_at fs (workspaces_dir env)) \<and>
     (\<forall>x. node_at fs (snapshots_dir env @ [x]) = None \<or> is_directory (node_at fs (snapshots_dir env @ [x]))) \<and>
     is_directory (node_at fs (gte_TempDir env)) \<and> gte_TempDir env \<noteq> [] \<and>
     \<not> prefix (lie_Root env) (gte_TempDir env) \<and> \<not> prefix (gte_TempDir env) (lie_Root env)"

definition immutable :: "('w, 'x) library_env_scheme \<Rightarrow> files \<Rightarrow> files \<Rightarrow> bool" where
  "immutable env fs fs' \<longleftrightarrow> local_to (\<lambda>p. \<not> published env fs p) fs fs'"

definition kept :: "('w, 'x) library_env_scheme \<Rightarrow> files \<Rightarrow> files \<Rightarrow> bool" where
  "kept env fs0 fs \<longleftrightarrow> library_ok env fs \<and> immutable env fs0 fs"

lemma published_mono:
  assumes "immutable env fs fs'" "published env fs p"
  shows "published env fs' p"
proof -
  obtain x where x: "node_at fs (snapshots_dir env @ [x]) \<noteq> None" "prefix (snapshots_dir env @ [x]) p"
    using assms(2) by (auto simp: published_def)
  then have "published env fs (snapshots_dir env @ [x])" unfolding published_def by blast
  then have "node_at fs' (snapshots_dir env @ [x]) = node_at fs (snapshots_dir env @ [x])"
    using local_to_node [OF assms(1) [unfolded immutable_def]] by blast
  then show ?thesis using x unfolding published_def by metis
qed

lemma immutable_trans:
  assumes "immutable env fs fs1" "immutable env fs1 fs2"
  shows "immutable env fs fs2"
proof -
  have "local_to (\<lambda>p. \<not> published env fs p) fs1 fs2"
    by (rule local_to_mono [OF assms(2) [unfolded immutable_def]]) (use published_mono [OF assms(1)] in blast)
  then show ?thesis
    unfolding immutable_def by (rule local_to_trans [OF assms(1) [unfolded immutable_def]])
qed

lemma kept_refl: "library_ok env fs \<Longrightarrow> kept env fs fs"
  by (simp add: kept_def immutable_def)

lemma kept_trans: "kept env fs0 fs \<Longrightarrow> (library_ok env fs \<Longrightarrow> kept env fs fs') \<Longrightarrow> kept env fs0 fs'"
  unfolding kept_def using immutable_trans by blast

lemma kept_outside:
  assumes "library_ok env fs" "stays may fs fs'"
    and "\<And>p. may p \<Longrightarrow> \<not> published env fs p \<and> p \<noteq> snapshots_dir env \<and> p \<noteq> workspaces_dir env \<and> p \<noteq> gte_TempDir env"
    and "\<And>x. may (snapshots_dir env @ [x]) \<Longrightarrow>
      node_at fs' (snapshots_dir env @ [x]) = None \<or> is_directory (node_at fs' (snapshots_dir env @ [x]))"
  shows "kept env fs fs'"
proof -
  have same: "node_at fs' p = node_at fs p" if "\<not> may p" for p
    using assms(2) that by (simp add: local_to_def)
  have "node_at fs' (snapshots_dir env @ [x]) = None \<or> is_directory (node_at fs' (snapshots_dir env @ [x]))" for x
    using assms(1,4) same by (cases "may (snapshots_dir env @ [x])") (auto simp: library_ok_def)
  then have "library_ok env fs'"
    using assms(1-3) same unfolding library_ok_def by metis
  then show ?thesis
    using assms(2,3) local_to_mono [of may fs fs'] by (auto simp: kept_def immutable_def)
qed

text \<open>The places that the operations write to.\<close>

lemma not_published:
  assumes "prefix p q" "\<And>x. node_at fs (snapshots_dir env @ [x]) \<noteq> None \<Longrightarrow> \<not> prefix (snapshots_dir env @ [x]) p \<and> \<not> prefix p (snapshots_dir env @ [x])"
  shows "\<not> published env fs q"
  using assms prefix_same_cases unfolding published_def by blast

lemma plain_digest [simp]: "plain_comp (sha256_hex d)"
proof -
  obtain h where h: "sha256_hex d = h" by simp
  have "valid_sha256 h" unfolding h [symmetric] by simp
  then have "CHR ''/'' \<notin> set h" "length h = 64" by (auto simp: valid_sha256_def list_all_iff)
  then show ?thesis unfolding h by (auto simp: plain_comp_def)
qed

lemma join_plain:
  assumes "plain_path root" "\<forall>c\<in>set cs. plain_comp c" "cs \<noteq> []"
  shows "join_path root (join_with ''/'' cs) = root @ cs"
proof -
  have "split_on CHR ''/'' (join_with ''/'' cs) = cs"
    using split_join [of cs "CHR ''/''"] assms(2,3) by (auto simp: plain_comp_def)
  then show ?thesis using clean_comps_plain [of "root @ cs"] assms by (auto simp: join_path_def)
qed

lemma library_plain:
  assumes "library_ok env fs"
  shows "plain_path (lie_Root env)" "plain_path (gte_TempDir env)" "good fs"
    "real_way fs (snapshots_dir env)" "real_way fs (workspaces_dir env)" "real_way fs (gte_TempDir env)"
proof -
  show good: "good fs" using assms by (simp add: library_ok_def)
  obtain a where "node_at fs (snapshots_dir env) = Some (Directory a)" using assms by (auto simp: library_ok_def is_directory_iff)
  then show "plain_path (lie_Root env)" "real_way fs (snapshots_dir env)" using good real_here by (auto simp: good_def)
  obtain b where "node_at fs (workspaces_dir env) = Some (Directory b)" using assms by (auto simp: library_ok_def is_directory_iff)
  then show "real_way fs (workspaces_dir env)" using good real_here by auto
  obtain c where "node_at fs (gte_TempDir env) = Some (Directory c)" using assms by (auto simp: library_ok_def is_directory_iff)
  then show "plain_path (gte_TempDir env)" "real_way fs (gte_TempDir env)" using good real_here by (auto simp: good_def)
qed

lemma snapshot_place:
  "library_ok env fs \<Longrightarrow> plain_comp sha \<Longrightarrow> snapshot_path env sha = snapshots_dir env @ [sha]"
  using join_plain [of "lie_Root env" "[''snapshots'', ''sha256'', sha]"] library_plain(1)
  by (fastforce simp: snapshot_path_def plain_comp_def)

lemma workspace_place:
  "library_ok env fs \<Longrightarrow> plain_comp i \<Longrightarrow> join_path (lie_Root env) (''workspaces/'' @ i) = workspaces_dir env @ [i]"
  using join_plain [of "lie_Root env" "[''workspaces'', i]"] library_plain(1)
  by (fastforce simp: plain_comp_def)

lemma removed_stays:
  assumes "good fs" "empty_place fs0 p" "stays may fs0 fs" "\<And>q. may q \<Longrightarrow> prefix p q"
  shows "stays (prefix p) fs0 (quietly (os_remove_all io p) fs)"
proof -
  have E: "plain_path p" "p \<noteq> []" "real_way fs0 p" using assms(2) by (simp_all add: empty_place_def)
  have "real_way fs p"
    using E(3) assms(3,4) unfolding real_way_def local_to_def
    by (metis length_take min.absorb2 not_less order_less_imp_le prefix_length_le)
  from quietly_leaves [OF remove_all_leaves [OF assms(1) E(1,2) this]] have
    "stays (prefix p) fs (quietly (os_remove_all io p) fs)" .
  moreover have "local_to (prefix p) fs0 fs" using assms(3,4) local_to_mono by blast
  ultimately show ?thesis using local_to_trans by blast
qed

subsection \<open>Publishing a snapshot\<close>

definition draws_ok :: "('w, 'x) git_env_scheme \<Rightarrow> bool" where
  "draws_ok env \<longleftrightarrow> (\<forall>pattern. plain_comp pattern \<longrightarrow> (\<forall>d\<in>set (gte_Draws env pattern). plain_comp (pattern @ d)))"

lemma plain_patterns [simp]:
  "plain_comp ''.import-''" "plain_comp ''vpsmith-fetch-''" "plain_comp ''vpsmith-package-''"
  "plain_comp ''vpsmith-core-merge-''" "plain_comp ''vpsmith-core-candidate-''" "plain_comp ''vpsmith-replace-''"
  by (simp_all add: plain_comp_def)

lemma temp_dir_leaves:
  assumes "draws_ok env" "good (gho_Files h)" "is_directory (node_at (gho_Files h) dir)" "plain_comp pattern"
  shows "leaves (temp_dir env dir pattern)
    (\<lambda>r h'. case r of Inl e \<Rightarrow> h' = h
       | Inr p \<Rightarrow> (\<exists>n. plain_comp n \<and> p = dir @ [n]) \<and> node_at (gho_Files h) p = None \<and>
           is_directory (node_at (gho_Files h') p) \<and> empty_place (gho_Files h') p \<and>
           stays (\<lambda>q. q = p) (gho_Files h) (gho_Files h') \<and> gho_World h' = gho_World h) h"
proof -
  obtain a where a: "node_at (gho_Files h) dir = Some (Directory a)" using assms(3) by (auto simp: is_directory_iff)
  have "plain_path dir" "real_way (gho_Files h) dir" using a assms(2) real_here by (auto simp: good_def)
  from mkdir_temp_leaves [OF assms(2) this assms(3), of "map (\<lambda>d. pattern @ d) (gte_Draws env pattern)"] show ?thesis
    unfolding temp_dir_def leaves_files
    by (rule leaves_mono [OF _]) (use assms(1,4) in \<open>auto simp: draws_ok_def split: sum.splits\<close>)
qed

lemma inner_place:
  assumes "empty_place fs p" "is_directory (node_at fs p)" "plain_comp c"
  shows "empty_place fs (p @ [c])"
proof -
  have "real_way fs (p @ [c])" using assms by (auto simp: empty_place_def real_way_def less_Suc_eq)
  then show ?thesis using assms by (auto simp: empty_place_def)
qed

lemma real_kept:
  assumes "local_to may fs fs'" "real_way fs p" "\<And>k. k < length p \<Longrightarrow> \<not> may (take k p)"
  shows "real_way fs' p"
  using assms unfolding real_way_def local_to_def by simp

lemma tree_sha_leaves:
  assumes "K fs" "\<And>d. K fs \<Longrightarrow> Q (Inr (sha256_hex d)) fs" "\<And>e. K fs \<Longrightarrow> Q (Inl e) fs"
  shows "leaves (tree_sha256 io root) Q fs"
proof -
  have "maintains ((=) fs) (source_entries io root)"
    unfolding source_entries_def by (auto simp: tree_visit_def split: node.split)
  then have "leaves (source_entries io root) (\<lambda>r fs'. fs' = fs) fs" by (auto simp: maintains_def elim!: leaves_mono)
  then show ?thesis
    unfolding tree_sha256_def using assms by (elim leaves_bindI) auto
qed

lemma local_to_then:
  assumes "local_to a fs fs1" "local_to b fs1 fs2" "\<And>p. a p \<Longrightarrow> c p" "\<And>p. b p \<Longrightarrow> c p"
  shows "local_to c fs fs2"
  by (rule local_to_trans [OF local_to_mono [OF assms(1,3)] local_to_mono [OF assms(2,4)]])

lemma not_in_own_prefix: "k < length p \<Longrightarrow> \<not> prefix p (take k p)"
  by (auto dest: prefix_length_le)

lemma stat_reads:
  assumes "\<And>r. Q r fs"
  shows "leaves (\<lambda>fs. case fst (os_stat io p fs) of Inr (Some nd) \<Rightarrow> ret_s () fs | _ \<Rightarrow> lift_s (Inl e) fs) Q fs"
  using assms by (auto simp: leaves_def ret_s_def lift_s_def split: sum.split option.split)

lemma publish_kept:
  fixes env :: "('w, 'x) library_env_scheme"
  assumes "library_ok env (gho_Files (lis_Host st))" "draws_ok env" "plain_comp sha"
    and finish: "\<And>K. maintains (on_tree K) finish"
  shows "leaves (publish_snapshot env src sha (snapshots_dir env @ [sha]) finish)
    (\<lambda>r st'. kept env (gho_Files (lis_Host st)) (gho_Files (lis_Host st'))) st"
proof -
  let ?fs = "gho_Files (lis_Host st)" and ?dst = "snapshots_dir env @ [sha]" and ?dir = "lie_Root env @ [''snapshots'']"
  note L = assms(1) [unfolded library_ok_def] and P = library_plain [OF assms(1)]
  have dir: "is_directory (node_at ?fs ?dir)"
    using P(4) unfolding real_way_def by (auto dest: spec [of _ "length ?dir"])
  have dst_way: "real_way ?fs ?dst" using P(4) L by (auto simp: real_way_def less_Suc_eq)
  have dst_plain: "plain_path ?dst" using P(1) assms(3) by (auto simp: plain_comp_def)
  show ?thesis
    unfolding publish_snapshot_def
  proof (rule leaves_bindI)
    show "leaves (machine_s (temp_dir env ?dir ''.import-''))
      (\<lambda>r st1. case r of Inl e \<Rightarrow> gho_Files (lis_Host st1) = ?fs
       | Inr p \<Rightarrow> (\<exists>n. plain_comp n \<and> p = ?dir @ [n]) \<and> node_at ?fs p = None \<and>
           is_directory (node_at (gho_Files (lis_Host st1)) p) \<and> empty_place (gho_Files (lis_Host st1)) p \<and>
           stays (\<lambda>q. q = p) ?fs (gho_Files (lis_Host st1))) st"
      unfolding leaves_machine
      by (rule leaves_mono [OF temp_dir_leaves [OF assms(2) P(3) dir plain_patterns(1)]]) (auto split: sum.splits)
  next
    fix e and st1 :: "'w library_state"
    assume "case Inl e of Inl e \<Rightarrow> gho_Files (lis_Host st1) = ?fs
       | Inr p \<Rightarrow> (\<exists>n. plain_comp n \<and> p = ?dir @ [n]) \<and> node_at ?fs p = None \<and>
           is_directory (node_at (gho_Files (lis_Host st1)) p) \<and> empty_place (gho_Files (lis_Host st1)) p \<and>
           stays (\<lambda>q. q = p) ?fs (gho_Files (lis_Host st1))"
    then show "kept env ?fs (gho_Files (lis_Host st1))" using kept_refl [OF assms(1)] by simp
  next
    fix tmp and st1 :: "'w library_state"
    assume "case Inr tmp of Inl e \<Rightarrow> gho_Files (lis_Host st1) = ?fs
       | Inr p \<Rightarrow> (\<exists>n. plain_comp n \<and> p = ?dir @ [n]) \<and> node_at ?fs p = None \<and>
           is_directory (node_at (gho_Files (lis_Host st1)) p) \<and> empty_place (gho_Files (lis_Host st1)) p \<and>
           stays (\<lambda>q. q = p) ?fs (gho_Files (lis_Host st1))"
    then obtain n where tmp: "plain_comp n" "tmp = ?dir @ [n]" "node_at ?fs tmp = None"
      and fs1: "is_directory (node_at (gho_Files (lis_Host st1)) tmp)" "empty_place (gho_Files (lis_Host st1)) tmp"
        "good (gho_Files (lis_Host st1))" "local_to (\<lambda>q. q = tmp) ?fs (gho_Files (lis_Host st1))"
      by auto
    let ?payload = "tmp @ [''payload'']" and ?fs1 = "gho_Files (lis_Host st1)"
    have n: "n \<noteq> ''sha256''" using tmp(2,3) L by auto
    have apart: "\<not> prefix tmp ?dst" "\<not> prefix ?dst tmp" using n tmp(2) by auto
    have payload: "empty_place ?fs1 ?payload" by (rule inner_place [OF fs1(2,1)]) (simp add: plain_comp_def)
    let ?may = "\<lambda>p. prefix tmp p \<or> node_at ?fs ?dst = None \<and> prefix ?dst p"
    let ?B = "\<lambda>fs'. good fs' \<and> local_to ?may ?fs fs' \<and> (node_at fs' ?dst = None \<or> is_directory (node_at fs' ?dst))"
    have done_: "kept env ?fs (quietly (os_remove_all (gte_Os env) tmp) fs')" if B: "?B fs'" for fs'
    proof -
      have way: "real_way fs' tmp"
      proof (rule real_kept [where fs = ?fs])
        show "local_to ?may ?fs fs'" using B by simp
        show "real_way ?fs tmp" using P(4) tmp(2) dir by (auto simp: real_way_def less_Suc_eq)
        show "\<not> ?may (take k tmp)" if "k < length tmp" for k
          using not_in_own_prefix [OF that] apart(2) prefix_order.trans [OF _ take_is_prefix] by blast
      qed
      have tmp_plain: "plain_path tmp" "tmp \<noteq> []" using tmp(1,2) P(1) by (auto simp: plain_comp_def)
      from quietly_leaves [OF remove_all_leaves [OF _ tmp_plain way]] B
      have R: "stays (prefix tmp) fs' (quietly (os_remove_all (gte_Os env) tmp) fs')" by blast
      have "stays ?may ?fs (quietly (os_remove_all (gte_Os env) tmp) fs')"
        using R B by (auto intro: local_to_then)
      then show ?thesis
      proof (rule kept_outside [OF assms(1)])
        fix p assume may: "?may p"
        have "\<not> published env ?fs p"
        proof
          assume "published env ?fs p"
          then obtain x where x: "node_at ?fs (snapshots_dir env @ [x]) \<noteq> None" "prefix (snapshots_dir env @ [x]) p"
            by (auto simp: published_def)
          then have "\<not> prefix tmp p" using n tmp(2) prefix_same_cases by (fastforce simp: prefix_def)
          then have "x = sha" "node_at ?fs ?dst = None" using may x(2) prefix_same_cases [OF x(2), of ?dst] by auto
          then show False using x(1) by simp
        qed
        moreover have "p \<noteq> gte_TempDir env" using may L tmp(2) by (auto simp: prefix_def)
        ultimately show "\<not> published env ?fs p \<and> p \<noteq> snapshots_dir env \<and> p \<noteq> workspaces_dir env \<and> p \<noteq> gte_TempDir env"
          using may n tmp(2) by (auto simp: prefix_def)
      next
        fix x assume "?may (snapshots_dir env @ [x])"
        then have "x = sha" using n tmp(2) by auto
        moreover have "node_at (quietly (os_remove_all (gte_Os env) tmp) fs') ?dst = node_at fs' ?dst"
          using R apart(1) by (simp add: local_to_def)
        ultimately show "node_at (quietly (os_remove_all (gte_Os env) tmp) fs') (snapshots_dir env @ [x]) = None \<or>
            is_directory (node_at (quietly (os_remove_all (gte_Os env) tmp) fs') (snapshots_dir env @ [x]))"
          using B by simp
      qed
    qed
    have dst_old: "node_at ?fs ?dst = None \<or> is_directory (node_at ?fs ?dst)" using L by simp
    have dst_same: "node_at fs2 ?dst = node_at ?fs ?dst" if "stays (prefix ?payload) ?fs1 fs2" for fs2
    proof -
      have "node_at fs2 ?dst = node_at ?fs1 ?dst"
        by (rule local_to_node [OF conjunct2 [OF that]]) (use apart in \<open>auto dest: append_prefixD\<close>)
      also have "\<dots> = node_at ?fs ?dst" by (rule local_to_node [OF fs1(4)]) (use apart in auto)
      finally show ?thesis .
    qed
    have B1: "?B fs2" if "stays (prefix ?payload) ?fs1 fs2" for fs2
    proof -
      have "local_to ?may ?fs fs2"
        by (rule local_to_then [OF fs1(4) conjunct2 [OF that]]) (auto dest: append_prefixD)
      then show ?thesis using that dst_old dst_same [OF that] by simp
    qed
    have moved: "leaves (os_rename (gte_Os env) ?payload ?dst) (\<lambda>r fs3. ?B fs3) fs2"
      if fs2: "stays (prefix ?payload) ?fs1 fs2" "is_directory (node_at fs2 ?payload)" for fs2
    proof (rule leaves_mono [OF os_rename_leaves])
      show "good fs2" using fs2 by simp
      show "plain_path ?payload" "?payload \<noteq> []" using payload by (simp_all add: empty_place_def)
      show "plain_path ?dst" "?dst \<noteq> []" using dst_plain by simp_all
      obtain a where a: "node_at fs2 ?payload = Some (Directory a)" using fs2(2) by (auto simp: is_directory_iff)
      show "real_way fs2 ?payload" using real_here [OF _ a] fs2 by simp
      show "real_way fs2 ?dst"
      proof (rule real_kept [where fs = ?fs])
        show "local_to ?may ?fs fs2" using B1 [OF fs2(1)] by simp
        show "real_way ?fs ?dst" by (rule dst_way)
        show "\<not> ?may (take k ?dst)" if "k < length ?dst" for k
          using not_in_own_prefix [OF that] apart(1) prefix_order.trans [OF _ take_is_prefix] by blast
      qed
    next
      fix r :: "unit result" and fs3
      assume R: "stays (\<lambda>s. prefix ?payload s \<or> prefix ?dst s) fs2 fs3 \<and>
        (case r of Inl e \<Rightarrow> fs3 = fs2
         | Inr u \<Rightarrow> ?payload \<noteq> ?dst \<longrightarrow> (\<exists>nd. node_at fs2 ?payload = Some nd) \<and> \<not> is_directory (node_at fs2 ?dst) \<and>
             (\<forall>s. node_at fs3 s = (if prefix ?dst s then node_at fs2 (?payload @ drop (length ?dst) s)
                else if prefix ?payload s then None else node_at fs2 s)))"
      show "?B fs3"
      proof (cases r)
        case (Inl e)
        then show ?thesis using R B1 [OF fs2(1)] by simp
      next
        case (Inr u)
        have ne: "?payload \<noteq> ?dst" using apart(1) by auto
        then have "\<not> is_directory (node_at fs2 ?dst)" and at: "node_at fs3 ?dst = node_at fs2 ?payload" using R Inr by auto
        then have none: "node_at ?fs ?dst = None" using dst_old dst_same [OF fs2(1)] by simp
        have "local_to ?may ?fs fs2" "local_to (\<lambda>s. prefix ?payload s \<or> prefix ?dst s) fs2 fs3"
          using R B1 [OF fs2(1)] by blast+
        then have "local_to ?may ?fs fs3"
          by (rule local_to_then) (use none in \<open>auto dest: append_prefixD\<close>)
        then show ?thesis using R at fs2(2) by simp
      qed
    qed
    have copy: "leaves (copy_tree (gte_Os env) src ?payload)
      (\<lambda>r fs2. stays (prefix ?payload) ?fs1 fs2 \<and> (r = Inr () \<longrightarrow> is_directory (node_at fs2 ?payload))) ?fs1"
      by (rule copy_tree_stays [OF fs1(3) payload])
    have stat: "leaves (rescue_s (tree_s (os_rename (gte_Os env) ?payload ?dst)) (\<lambda>e.
          tree_s (\<lambda>fs. case fst (os_stat (gte_Os env) ?dst fs) of
              Inr (Some nd) \<Rightarrow> ret_s () fs
            | _ \<Rightarrow> lift_s (Inl (Wrapf ''publish immutable snapshot: %w'' [] e)) fs)))
        (\<lambda>r st'. ?B (gho_Files (lis_Host st'))) st2"
      if "stays (prefix ?payload) ?fs1 (gho_Files (lis_Host st2))" "is_directory (node_at (gho_Files (lis_Host st2)) ?payload)" for st2
    proof -
      from moved [OF that] show ?thesis
        unfolding leaves_rescue leaves_machine leaves_files
        by (rule leaves_mono) (auto simp: goes_on_def intro!: stat_reads split: sum.split)
    qed
    have filled: "leaves (fill_snapshot env src sha ?dst tmp) (\<lambda>r st'. ?B (gho_Files (lis_Host st'))) st1"
      unfolding fill_snapshot_def Let_def
    proof (rule leaves_alsoI)
      show "leaves (tree_s (copy_tree (gte_Os env) src ?payload))
        (\<lambda>r st2. stays (prefix ?payload) ?fs1 (gho_Files (lis_Host st2)) \<and>
           (r = Inr () \<longrightarrow> is_directory (node_at (gho_Files (lis_Host st2)) ?payload))) st1"
        using copy by simp
    next
      fix st2 :: "'w library_state"
      assume st2: "stays (prefix ?payload) ?fs1 (gho_Files (lis_Host st2)) \<and>
           (Inr () = Inr () \<longrightarrow> is_directory (node_at (gho_Files (lis_Host st2)) ?payload))"
      show "leaves (bind_s (tree_s (tree_sha256 (gte_Os env) ?payload)) (\<lambda>check.
            also_s (lift_s (reject_if (check \<noteq> sha) (Err ''source changed while importing'')))
              (rescue_s (tree_s (os_rename (gte_Os env) ?payload ?dst)) (\<lambda>e.
                 tree_s (\<lambda>fs. case fst (os_stat (gte_Os env) ?dst fs) of
                     Inr (Some nd) \<Rightarrow> ret_s () fs
                   | _ \<Rightarrow> lift_s (Inl (Wrapf ''publish immutable snapshot: %w'' [] e)) fs)))))
          (\<lambda>r st'. ?B (gho_Files (lis_Host st'))) st2"
      proof (rule leaves_bindI)
        show "leaves (tree_s (tree_sha256 (gte_Os env) ?payload)) (\<lambda>r st3. st3 = st2) st2"
          unfolding leaves_machine leaves_files by (rule tree_sha_leaves [where K = "\<lambda>_. True"]) simp_all
      qed (use stat st2 B1 in \<open>auto simp: reject_if_def\<close>)
    qed (use B1 in simp)
    show "leaves (defer_s (removing_tree env tmp) (also_s (fill_snapshot env src sha ?dst tmp) finish))
        (\<lambda>r st'. kept env ?fs (gho_Files (lis_Host st'))) st1"
      unfolding leaves_defer
    proof (rule leaves_alsoI [OF filled])
      fix st2 :: "'w library_state"
      assume B: "?B (gho_Files (lis_Host st2))"
      have "leaves finish (\<lambda>_. on_tree ?B) st2"
        using finish [of ?B] B unfolding maintains_def by blast
      then show "leaves finish (\<lambda>r st'. kept env ?fs (gho_Files (lis_Host (removing_tree env tmp st')))) st2"
        by (rule leaves_mono) (use done_ in simp)
    qed (use done_ in simp)
  qed
qed

subsection \<open>The operations\<close>

lemma maintainsD: "maintains K m \<Longrightarrow> K s \<Longrightarrow> leaves m (\<lambda>_. K) s"
  by (simp add: maintains_def)

lemma register_maintains:
  "maintains (on_tree K) (register_snapshot env kind package package_path version commit sha dst)"
  unfolding register_snapshot_def Let_def by auto

lemma publish_maintains:
  fixes env :: "('w, 'x) library_env_scheme"
  assumes "draws_ok env" "plain_comp sha" "\<And>K. maintains (on_tree K) finish"
  shows "maintains (on_tree (kept env fs0)) (publish_snapshot env src sha (snapshot_path env sha) finish)"
proof (rule maintainsI)
  fix st :: "'w library_state"
  assume K: "on_tree (kept env fs0) st"
  then have ok: "library_ok env (gho_Files (lis_Host st))" by (simp add: kept_def)
  show "leaves (publish_snapshot env src sha (snapshot_path env sha) finish) (\<lambda>_. on_tree (kept env fs0)) st"
    unfolding snapshot_place [OF ok assms(2)]
    by (rule leaves_mono [OF publish_kept [OF ok assms]]) (use kept_trans [OF K] in blast)
qed

lemma import_maintains:
  fixes env :: "('w, 'x) library_env_scheme"
  assumes "draws_ok env"
  shows "maintains (on_tree (kept env fs0)) (import_snapshot env kind package package_path version commit src expected)"
proof (rule maintainsI)
  fix st :: "'w library_state"
  assume K: "on_tree (kept env fs0) st"
  have body: "maintains (on_tree (kept env fs0))
     (also_s (lift_s (reject_if (expected \<noteq> [] \<and> sha \<noteq> expected)
       (Errf ''embedded source sha256 mismatch: expected=%s actual=%s'' [expected, sha])))
    (bind_s (sources_s env) (\<lambda>s.
     case find (same_source kind package commit sha) (sst_Artifacts s) of
       Some a \<Rightarrow> also_s (verify_snapshot env a) (ret_s (snapshot_from_state a))
     | None \<Rightarrow>
         (let dst = snapshot_path env sha; finish = register_snapshot env kind package package_path version commit sha dst in
          bind_s (tree_s (os_stat (gte_Os env) dst)) (\<lambda>there.
          case there of None \<Rightarrow> publish_snapshot env src sha dst finish | Some nd \<Rightarrow> finish)))))" if "plain_comp sha" for sha
    unfolding Let_def using publish_maintains [OF assms that register_maintains] register_maintains
    by (auto split: option.split)
  show "leaves (import_snapshot env kind package package_path version commit src expected) (\<lambda>_. on_tree (kept env fs0)) st"
    unfolding import_snapshot_def
  proof (rule leaves_bindI)
    show "leaves (tree_s (tree_sha256 (gte_Os env) src))
      (\<lambda>r st'. on_tree (kept env fs0) st' \<and> (case r of Inl e \<Rightarrow> True | Inr x \<Rightarrow> plain_comp x)) st"
      unfolding leaves_machine leaves_files
      by (rule tree_sha_leaves [where K = "kept env fs0"]) (use K in simp_all)
  qed (use maintainsD [OF body] in auto)
qed

lemma import_embedded_maintains:
  "draws_ok env \<Longrightarrow> maintains (on_tree (kept env fs0)) (import_embedded env)"
  unfolding import_embedded_def by (auto intro!: maintains_bind maintains_fold import_maintains split: prod.split)

lemma current_embedded_maintains: "maintains (on_tree K) (current_embedded env kind)"
  unfolding current_embedded_def by (auto split: option.split)

lemma refresh_maintains: "maintains (on_tree K) (refresh_workspace env i)"
  unfolding refresh_workspace_def by auto

lemma diff_maintains: "maintains (on_tree K) (workspace_diff env i)"
  unfolding workspace_diff_def by auto

definition fresh_id :: "('w, 'x) library_env_scheme \<Rightarrow> files \<Rightarrow> bool" where
  "fresh_id env fs \<longleftrightarrow>
     (\<forall>i. lie_NewID env ''workspace'' = Inr i \<longrightarrow> plain_comp i \<and> node_at fs (workspaces_dir env @ [i]) = None)"

lemma new_workspace_kept:
  assumes "library_ok env fs" "plain_comp i" "node_at fs (workspaces_dir env @ [i]) = None"
    and "stays (prefix (workspaces_dir env @ [i])) fs fs'"
  shows "kept env fs fs'"
proof (rule kept_outside [OF assms(1,4)])
  fix p assume pre: "prefix (workspaces_dir env @ [i]) p"
  have "\<not> published env fs p" using pre by (auto simp: published_def prefix_def)
  moreover have "p \<noteq> gte_TempDir env" using append_prefixD [OF append_prefixD [OF pre]] assms(1) by (auto simp: library_ok_def)
  ultimately show "\<not> published env fs p \<and> p \<noteq> snapshots_dir env \<and> p \<noteq> workspaces_dir env \<and> p \<noteq> gte_TempDir env"
    using pre by (auto simp: prefix_def)
qed (auto simp: prefix_def)

lemma workspace_kept:
  fixes env :: "('w, 'x) library_env_scheme"
  assumes "library_ok env fs" "plain_comp i" "node_at fs (workspaces_dir env @ [i]) = None" "gho_Files (lis_Host st) = fs"
    and "\<And>st1. stays (prefix (workspaces_dir env @ [i])) fs (gho_Files (lis_Host st1)) \<Longrightarrow> Q st1"
    and "\<And>st1. kept env fs (gho_Files (lis_Host st1)) \<Longrightarrow> Q st1"
  shows "leaves (also_s (tree_s (copy_tree (gte_Os env) src (workspaces_dir env @ [i])))
      (register_workspace env a i (workspaces_dir env @ [i]))) (\<lambda>r. Q) st" (is "leaves ?m _ _")
    and "leaves (also_s (wrap_s f args (tree_s (copy_tree (gte_Os env) src (workspaces_dir env @ [i]))))
      (register_workspace env a i (workspaces_dir env @ [i]))) (\<lambda>r. Q) st"
proof -
  let ?dst = "workspaces_dir env @ [i]"
  note P = library_plain [OF assms(1)]
  have good: "good fs" using P(3) .
  have "real_way fs ?dst"
    using P(5) assms(1) by (auto simp: real_way_def less_Suc_eq library_ok_def)
  moreover have "node_at fs (?dst @ p) = None" if "p \<noteq> []" for p
    using nothing_below [OF good, of ?dst "?dst @ p"] assms(3) that by (simp add: strict_prefix_def)
  ultimately have place: "empty_place fs ?dst"
    using P(1) assms(2,3) by (auto simp: empty_place_def plain_comp_def)
  note K = new_workspace_kept [OF assms(1-3)]
  have copy: "leaves (tree_s (copy_tree (gte_Os env) src ?dst))
    (\<lambda>r st1. stays (prefix ?dst) fs (gho_Files (lis_Host st1))) st"
    unfolding leaves_machine leaves_files assms(4)
    by (rule leaves_mono [OF copy_tree_stays [OF good place]]) simp
  have reg: "leaves (register_workspace env a i ?dst) (\<lambda>r. Q) st1"
    if st1: "stays (prefix ?dst) fs (gho_Files (lis_Host st1))" for st1
  proof -
    let ?body = "bind_s (tree_s (tree_sha256 (gte_Os env) ?dst)) (\<lambda>sha.
        also_s (state_change env (create_source_workspace (lie_Crypto env) (lie_Sql env) (lie_Key env) (workspace_row i a sha)))
          (ret_s (workspace_from_state (workspace_row i a sha))))"
    have "maintains (on_tree (stays (prefix ?dst) fs)) ?body" by (intro maintains_bind maintains_also) auto
    then have "leaves ?body (\<lambda>_. on_tree (stays (prefix ?dst) fs)) st1"
      using st1 by (rule maintainsD [where K = "on_tree (stays (prefix ?dst) fs)"])
    then show ?thesis
      unfolding register_workspace_def leaves_on_error
      by (rule leaves_mono)
        (use assms(5,6) K removed_stays [OF _ place] in \<open>auto simp: goes_on_def split: sum.split\<close>)
  qed
  show "leaves ?m (\<lambda>r. Q) st"
    by (rule leaves_alsoI [OF copy reg]) (use assms(5) in auto)
  show "leaves (also_s (wrap_s f args (tree_s (copy_tree (gte_Os env) src ?dst)))
      (register_workspace env a i ?dst)) (\<lambda>r. Q) st"
  proof (rule leaves_alsoI [OF _ reg])
    show "leaves (wrap_s f args (tree_s (copy_tree (gte_Os env) src ?dst)))
      (\<lambda>r st1. stays (prefix ?dst) fs (gho_Files (lis_Host st1))) st"
      unfolding leaves_wrap by (rule leaves_mono [OF copy]) (simp add: goes_on_def split: sum.split)
  qed (use assms(5) in auto)
qed

subsection \<open>Git in a temporary directory\<close>

text \<open>A git command changes files only below the directory it runs in, none without one.\<close>

definition git_local :: "('w, 'x) git_env_scheme \<Rightarrow> bool" where
  "git_local env \<longleftrightarrow>
     (\<forall>dir environ args h. good (gho_Files h) \<longrightarrow>
        leaves (gte_Run env dir environ args)
          (\<lambda>r h'. case dir of
              None \<Rightarrow> gho_Files h' = gho_Files h
            | Some d \<Rightarrow> stays (strict_prefix d) (gho_Files h) (gho_Files h')) h)"

text \<open>The invariant of a function that works in \<open>work\<close>, below the directory of temporary files.\<close>

definition working :: "path \<Rightarrow> path \<Rightarrow> files \<Rightarrow> files \<Rightarrow> bool" where
  "working t work fs0 fs \<longleftrightarrow>
     good fs \<and> local_to (strict_prefix t) fs0 fs \<and> is_directory (node_at fs t) \<and> is_directory (node_at fs work)"

abbreviation on_files_of :: "(files \<Rightarrow> bool) \<Rightarrow> 'w git_host \<Rightarrow> bool" where
  "on_files_of K h \<equiv> K (gho_Files h)"

lemma working_step:
  assumes "working t work fs0 fs" "stays may fs fs'" "\<And>p. may p \<Longrightarrow> strict_prefix t p \<and> p \<noteq> work"
  shows "working t work fs0 fs'"
proof -
  have "node_at fs' t = node_at fs t" by (rule local_to_node [OF conjunct2 [OF assms(2)]]) (use assms(3) in auto)
  moreover have "node_at fs' work = node_at fs work" by (rule local_to_node [OF conjunct2 [OF assms(2)]]) (use assms(3) in auto)
  moreover have "local_to (strict_prefix t) fs0 fs'"
    by (rule local_to_then [of "strict_prefix t" fs0 fs may fs']) (use assms in \<open>auto simp: working_def\<close>)
  ultimately show ?thesis using assms(1,2) by (simp add: working_def)
qed

lemma git_works:
  fixes env :: "('w, 'x) git_env_scheme"
  assumes "git_local env" "strict_prefix t work"
  shows "maintains (on_files_of (working t work fs0)) (gte_Run env (Some work) environ args)"
proof (rule maintainsI)
  fix h :: "'w git_host" assume h: "on_files_of (working t work fs0) h"
  have "leaves (gte_Run env (Some work) environ args)
      (\<lambda>r h'. stays (strict_prefix work) (gho_Files h) (gho_Files h')) h"
    using assms(1) h by (auto simp: git_local_def working_def dest!: spec [of _ "Some work"])
  then show "leaves (gte_Run env (Some work) environ args) (\<lambda>r. on_files_of (working t work fs0)) h"
    by (rule leaves_mono)
      (use assms(2) in \<open>auto intro!: working_step [OF h] intro: prefix_order.less_trans\<close>)
qed

lemma git_commands_work:
  assumes "git_local env" "strict_prefix t work"
  shows "maintains (on_files_of (working t work fs0)) (git_command env (Some work) token args)"
    "maintains (on_files_of (working t work fs0)) (run_git env work token args)"
    "maintains (on_files_of (working t work fs0)) (git_output env (Some work) token args)"
    "maintains (on_files_of (working t work fs0)) (git_changed env work token)"
  using git_works [OF assms]
  by (auto simp: run_git_def git_output_def git_command_def git_changed_def split: prod.split)

lemma working_dir: "working t work fs0 fs \<Longrightarrow> p = t \<or> p = work \<Longrightarrow> plain_path p \<and> real_way fs p"
  using real_here unfolding working_def good_def is_directory_iff by blast

lemma temp_works:
  assumes "draws_ok env" "working t work fs0 (gho_Files h)"
    and "\<And>p h'. \<lbrakk>\<exists>n. plain_comp n \<and> p = t @ [n]; working t work fs0 (gho_Files h'); empty_place (gho_Files h') p;
      is_directory (node_at (gho_Files h') p); p \<noteq> work\<rbrakk> \<Longrightarrow> leaves (f p) Q h'"
    and "\<And>e h'. working t work fs0 (gho_Files h') \<Longrightarrow> Q (Inl e) h'" "plain_comp pattern"
  shows "leaves (bind_s (temp_dir env t pattern) f) Q h"
proof (rule leaves_bindI [OF temp_dir_leaves [OF assms(1), where dir = t and h = h]])
  show "good (gho_Files h)" "is_directory (node_at (gho_Files h) t)" using assms(2) by (simp_all add: working_def)
  show "plain_comp pattern" by (rule assms(5))
  fix p h'
  assume "case Inr p of Inl e \<Rightarrow> h' = h
       | Inr p \<Rightarrow> (\<exists>n. plain_comp n \<and> p = t @ [n]) \<and> node_at (gho_Files h) p = None \<and>
           is_directory (node_at (gho_Files h') p) \<and> empty_place (gho_Files h') p \<and>
           stays (\<lambda>q. q = p) (gho_Files h) (gho_Files h') \<and> gho_World h' = gho_World h"
  then have p: "\<exists>n. plain_comp n \<and> p = t @ [n]" "node_at (gho_Files h) p = None" "is_directory (node_at (gho_Files h') p)"
    "empty_place (gho_Files h') p" "stays (\<lambda>q. q = p) (gho_Files h) (gho_Files h')" by auto
  have ne: "p \<noteq> work" using p(2) assms(2) by (auto simp: working_def)
  have "working t work fs0 (gho_Files h')"
    by (rule working_step [OF assms(2) p(5)]) (use p(1) ne in \<open>auto simp: strict_prefix_def\<close>)
  then show "leaves (f p) Q h'" using assms(3) p(1,3,4) ne by blast
qed (use assms(2,4) in auto)

lemma below_temp:
  assumes "working t work fs0 fs" "plain_comp n" "p = t @ [n]"
  shows "plain_path p" "p \<noteq> []" "real_way fs p"
proof -
  have t: "plain_path t \<and> real_way fs t" using working_dir [OF assms(1)] by blast
  then show "plain_path p" "p \<noteq> []" using assms(2,3) by auto
  show "real_way fs p" using t assms(1,3) by (auto simp: working_def real_way_def less_Suc_eq)
qed

lemma temp_removed:
  assumes "working t work fs0 (gho_Files h)" "plain_comp n" "p = t @ [n]" "\<not> prefix p work"
  shows "working t work fs0 (gho_Files (removing env p h))"
proof -
  note at = below_temp [OF assms(1-3)]
  have good: "good (gho_Files h)" using assms(1) by (simp add: working_def)
  have "stays (prefix p) (gho_Files h) (gho_Files (removing env p h))"
    using quietly_leaves [OF remove_all_leaves [OF good at]] by simp
  then show ?thesis
    by (rule working_step [OF assms(1)]) (use assms(3,4) in \<open>auto simp: strict_prefix_def prefix_def\<close>)
qed

lemma maintains_bindI:
  assumes "maintains K m" "K s" "\<And>x s'. K s' \<Longrightarrow> leaves (f x) Q s'" "\<And>e s'. K s' \<Longrightarrow> Q (Inl e) s'"
  shows "leaves (bind_s m f) Q s"
  by (rule leaves_bindI [OF maintainsD [OF assms(1,2)]]) (use assms(3,4) in auto)

lemma maintains_alsoI:
  assumes "maintains K m" "K s" "\<And>s'. K s' \<Longrightarrow> leaves k Q s'" "\<And>e s'. K s' \<Longrightarrow> Q (Inl e) s'"
  shows "leaves (also_s m k) Q s"
  by (rule leaves_alsoI [OF maintainsD [OF assms(1,2)]]) (use assms(3,4) in auto)

lemma with_temp_works:
  fixes env :: "('w, 'x) git_env_scheme"
  assumes "draws_ok env" "working (gte_TempDir env) work fs0 (gho_Files h)" "\<And>e. P (Inl e)"
    and "\<And>p h'. \<lbrakk>\<exists>n. plain_comp n \<and> p = gte_TempDir env @ [n]; working (gte_TempDir env) work fs0 (gho_Files h');
      empty_place (gho_Files h') p; is_directory (node_at (gho_Files h') p); p \<noteq> work\<rbrakk> \<Longrightarrow>
      leaves (f p) (\<lambda>r h''. working (gte_TempDir env) work fs0 (gho_Files h'') \<and> P r) h'"
    and "work = gte_TempDir env \<or> (\<exists>n. work = gte_TempDir env @ [n])" "plain_comp pattern"
  shows "leaves (with_temp_dir env pattern f) (\<lambda>r h''. working (gte_TempDir env) work fs0 (gho_Files h'') \<and> P r) h"
  unfolding with_temp_dir_def
proof (rule temp_works [OF assms(1,2)])
  fix p and h' :: "'w git_host"
  assume p: "\<exists>n. plain_comp n \<and> p = gte_TempDir env @ [n]" "working (gte_TempDir env) work fs0 (gho_Files h')"
    "empty_place (gho_Files h') p" "is_directory (node_at (gho_Files h') p)" "p \<noteq> work"
  then obtain n where n: "plain_comp n" "p = gte_TempDir env @ [n]" by blast
  have apart: "\<not> prefix p work" using assms(5) n(2) p(5) by (auto simp: prefix_def)
  show "leaves (defer_s (removing env p) (f p)) (\<lambda>r h''. working (gte_TempDir env) work fs0 (gho_Files h'') \<and> P r) h'"
    unfolding leaves_defer
    by (rule leaves_mono [OF assms(4) [OF p]]) (use temp_removed [OF _ n apart] in blast)
qed (use assms(3,6) in auto)

lemma copied_to_temp:
  fixes h :: "'w git_host"
  assumes "working t work fs0 (gho_Files h)" "plain_comp n" "p = t @ [n]" "empty_place (gho_Files h) p" "\<not> prefix p work"
    and "leaves m (\<lambda>r. stays (prefix p) (gho_Files h)) (gho_Files h)"
  shows "leaves (on_error_s (removing env p) (files_s m)) (\<lambda>r h'. working t work fs0 (gho_Files h')) h"
proof -
  have step: "working t work fs0 fs'" if "stays (prefix p) (gho_Files h) fs'" for fs'
    by (rule working_step [OF assms(1) that]) (use assms(3,5) in \<open>auto simp: strict_prefix_def prefix_def\<close>)
  have "working t work fs0 (quietly (os_remove_all (gte_Os env) p) fs')" if "stays (prefix p) (gho_Files h) fs'" for fs'
    using step removed_stays [OF conjunct1 [OF that] assms(4) that] by blast
  then show ?thesis
    unfolding leaves_on_error leaves_files
    by (intro leaves_mono [OF assms(6)]) (use step in \<open>auto simp: goes_on_def split: sum.split\<close>)
qed

lemma fetch_works:
  fixes env :: "('w, 'x) git_env_scheme"
  assumes "draws_ok env" "git_local env" "working (gte_TempDir env) (gte_TempDir env) fs0 (gho_Files h)"
  shows "leaves (remote_fetch env cfg package)
    (\<lambda>r h'. working (gte_TempDir env) (gte_TempDir env) fs0 (gho_Files h') \<and>
       (case r of Inl e \<Rightarrow> True | Inr x \<Rightarrow> \<exists>n. plain_comp n \<and> ftr_Path x = gte_TempDir env @ [n])) h"
proof -
  let ?t = "gte_TempDir env"
  let ?P = "\<lambda>r. case r of Inl e \<Rightarrow> True | Inr x \<Rightarrow> \<exists>n. plain_comp n \<and> ftr_Path x = ?t @ [n]"
  have tail: "leaves (bind_s (temp_dir env ?t ''vpsmith-package-'') (\<lambda>out.
       also_s (on_error_s (removing env out) (files_s (copy_tree (gte_Os env) src out)))
         (ret_s \<lparr>ftr_Commit = commit, ftr_Path = out\<rparr>)))
     (\<lambda>r h'. working ?t work fs0 (gho_Files h') \<and> ?P r) h'"
    if "working ?t work fs0 (gho_Files h')" "work = ?t @ [m]" for work m src commit h'
  proof (rule temp_works [OF assms(1) that(1)])
    fix p and h2 :: "'w git_host"
    assume p: "\<exists>n. plain_comp n \<and> p = ?t @ [n]" "working ?t work fs0 (gho_Files h2)" "empty_place (gho_Files h2) p"
      "is_directory (node_at (gho_Files h2) p)" "p \<noteq> work"
    then obtain n where n: "plain_comp n" "p = ?t @ [n]" by blast
    have good: "good (gho_Files h2)" using p(2) by (simp add: working_def)
    have "leaves (copy_tree (gte_Os env) src p) (\<lambda>r. stays (prefix p) (gho_Files h2)) (gho_Files h2)"
      by (rule leaves_mono [OF copy_tree_stays [OF good p(3)]]) blast
    from copied_to_temp [OF p(2) n p(3) _ this] have
      "leaves (on_error_s (removing env p) (files_s (copy_tree (gte_Os env) src p)))
        (\<lambda>r h'. working ?t work fs0 (gho_Files h')) h2"
      using n(2) p(5) that(2) by (auto simp: prefix_def)
    then show "leaves (also_s (on_error_s (removing env p) (files_s (copy_tree (gte_Os env) src p)))
         (ret_s \<lparr>ftr_Commit = commit, ftr_Path = p\<rparr>)) (\<lambda>r h'. working ?t work fs0 (gho_Files h') \<and> ?P r) h2"
      by (rule leaves_alsoI) (use n in auto)
  qed simp_all
  have body: "leaves (fetch_in env cfg package work) (\<lambda>r h'. working ?t work fs0 (gho_Files h') \<and> ?P r) h'"
    if w: "working ?t work fs0 (gho_Files h')" and m: "work = ?t @ [m]" for work m h'
  proof -
    have sub: "strict_prefix ?t work" using m by (simp add: strict_prefix_def)
    note git = git_commands_work [OF assms(2) sub, where ?fs0.0 = fs0]
    have look: "maintains (on_files_of (working ?t work fs0)) (files_s (\<lambda>fs. lift_s (g fs) fs))" for g :: "files \<Rightarrow> unit result"
      by (auto simp: maintains_def leaves_def lift_s_def files_s_def)
    show ?thesis
      unfolding fetch_in_def Let_def
      by (intro maintains_alsoI [OF git(2) w] maintains_alsoI [OF git(2)] maintains_bindI [OF git(3)] maintains_alsoI [OF look]
          maintains_alsoI [OF maintains_wrap [OF git(2)]]
          maintains_bindI [OF maintains_simple(2), where K = "on_files_of (working ?t work fs0)"] tail [OF _ m]) auto
  qed
  have "leaves (with_temp_dir env ''vpsmith-fetch-'' (fetch_in env cfg package))
      (\<lambda>r h'. working ?t ?t fs0 (gho_Files h') \<and> ?P r) h"
  proof (rule with_temp_works [OF assms(1,3)])
    fix work and h' :: "'w git_host"
    assume work: "\<exists>n. plain_comp n \<and> work = ?t @ [n]" "working ?t ?t fs0 (gho_Files h')" "is_directory (node_at (gho_Files h') work)"
    have w: "working ?t work fs0 (gho_Files h')" using work(2,3) by (simp add: working_def)
    obtain m where "work = ?t @ [m]" using work(1) by blast
    from body [OF w this] show "leaves (fetch_in env cfg package work) (\<lambda>r h''. working ?t ?t fs0 (gho_Files h'') \<and> ?P r) h'"
      by (rule leaves_mono) (auto simp: working_def)
  qed simp_all
  then show ?thesis
    unfolding remote_fetch_def using assms(3)
    by (intro maintains_alsoI [OF maintains_simple(2), where K = "(=) h"]) auto
qed

subsection \<open>Loading a custom module\<close>

lemma kept_working:
  assumes "library_ok env fs" "working (gte_TempDir env) (gte_TempDir env) fs fs'"
  shows "kept env fs fs'"
proof (rule kept_outside [OF assms(1)])
  show "stays (strict_prefix (gte_TempDir env)) fs fs'" using assms(2) by (simp add: working_def)
  have L: "\<not> prefix (lie_Root env) (gte_TempDir env)" "\<not> prefix (gte_TempDir env) (lie_Root env)"
    using assms(1) by (simp_all add: library_ok_def)
  have apart: "\<not> prefix (gte_TempDir env) p" if "prefix (lie_Root env) p" for p
    using L prefix_same_cases [OF _ that] by blast
  fix p assume p: "strict_prefix (gte_TempDir env) p"
  then have out: "\<not> prefix (lie_Root env) p" using apart prefix_order.less_imp_le by blast
  then have "\<not> published env fs p" unfolding published_def using append_prefixD by metis
  then show "\<not> published env fs p \<and> p \<noteq> snapshots_dir env \<and> p \<noteq> workspaces_dir env \<and> p \<noteq> gte_TempDir env"
    using p out by (auto simp: strict_prefix_def)
next
  fix x assume "strict_prefix (gte_TempDir env) (snapshots_dir env @ [x])"
  then have "prefix (gte_TempDir env) (snapshots_dir env @ [x])" by (rule prefix_order.less_imp_le)
  moreover have "prefix (lie_Root env) (snapshots_dir env @ [x])" by simp
  ultimately have "prefix (gte_TempDir env) (lie_Root env) \<or> prefix (lie_Root env) (gte_TempDir env)"
    using prefix_same_cases by blast
  then show "node_at fs' (snapshots_dir env @ [x]) = None \<or> is_directory (node_at fs' (snapshots_dir env @ [x]))"
    using assms(1) by (simp add: library_ok_def)
qed

lemma library_working: "library_ok env fs \<Longrightarrow> working (gte_TempDir env) (gte_TempDir env) fs fs"
  by (simp add: library_ok_def working_def)

lemma temp_tree_removed:
  assumes "kept env fs0 (gho_Files h)" "plain_comp n"
  shows "kept env fs0 (gho_Files (removing env (gte_TempDir env @ [n]) h))"
proof (rule kept_trans [OF assms(1)])
  assume ok: "library_ok env (gho_Files h)"
  note w = library_working [OF ok]
  have "\<not> prefix (gte_TempDir env @ [n]) (gte_TempDir env)" by (auto dest: prefix_length_le)
  then show "kept env (gho_Files h) (gho_Files (removing env (gte_TempDir env @ [n]) h))"
    by (intro kept_working [OF ok] temp_removed [OF w assms(2)]) simp_all
qed

lemma load_maintains:
  fixes env :: "('w, 'x) library_env_scheme"
  assumes "draws_ok env" "git_local env" "lie_Remote env = git_remote env"
  shows "maintains (on_tree (kept env fs0)) (load_custom_module env package version)"
proof -
  let ?K = "on_tree (kept env fs0)"
  let ?P = "\<lambda>r. case r of Inl e \<Rightarrow> True | Inr x \<Rightarrow> \<exists>n. plain_comp n \<and> ftr_Path x = gte_TempDir env @ [n]"
  have fetch: "leaves (wrap_s f args (with_secret env i (\<lambda>token. rem_Fetch (lie_Remote env) (config_of c token) package)))
      (\<lambda>r st1. ?K st1 \<and> ?P r) st" if K: "?K st" for f args i c and st :: "'w library_state"
  proof -
    have ok: "library_ok env (gho_Files (lis_Host st))" using K by (simp add: kept_def)
    have "leaves (machine_s (remote_fetch env (config_of c token) package)) (\<lambda>r st1. ?K st1 \<and> ?P r) st" for token
      unfolding leaves_machine
      by (rule leaves_mono [OF fetch_works [OF assms(1,2) library_working [OF ok]]])
        (use kept_trans [OF K] kept_working [OF ok] in auto)
    then have "leaves (rescue_s (machine_s (remote_fetch env (config_of c token) package))
        (\<lambda>_. lift_s (Inl (Err ''secret consumer failed'')))) (\<lambda>r st1. ?K st1 \<and> ?P r) st" for token
      unfolding leaves_rescue by (rule leaves_mono) (auto simp: goes_on_def split: sum.split)
    then have "leaves (with_secret env i (\<lambda>token. rem_Fetch (lie_Remote env) (config_of c token) package))
        (\<lambda>r st1. ?K st1 \<and> ?P r) st"
      unfolding with_secret_def assms(3) git_remote_def using K
      by (intro maintains_bindI [where K = "(=) st"]) auto
    then show ?thesis
      unfolding leaves_wrap by (rule leaves_mono) (auto simp: goes_on_def split: sum.split)
  qed
  have rest: "leaves (defer_s (removing_tree env (ftr_Path x))
       (bind_s (lift_s (lie_NewID env ''module-pkg'')) (\<lambda>p.
        import_snapshot env Source_Custom_Module p package version (ftr_Commit x) (ftr_Path x) []))) (\<lambda>_. ?K) st"
    if K: "?K st" and n: "plain_comp n" "ftr_Path x = gte_TempDir env @ [n]" for x n and st :: "'w library_state"
  proof -
    have "maintains ?K (bind_s (lift_s (lie_NewID env ''module-pkg'')) (\<lambda>p.
        import_snapshot env Source_Custom_Module p package version (ftr_Commit x) (ftr_Path x) []))"
      using import_maintains [OF assms(1)] by auto
    from maintainsD [OF this K] show ?thesis
      unfolding leaves_defer
      by (rule leaves_mono) (use temp_tree_removed n in \<open>simp add: removing_tree_def\<close>)
  qed
  show ?thesis
  proof (rule maintainsI)
    fix st :: "'w library_state" assume K: "?K st"
    have config: "maintains ?K (library_config env)" unfolding library_config_def by (auto split: option.split)
    show "leaves (load_custom_module env package version) (\<lambda>_. ?K) st"
      unfolding load_custom_module_def
      by (intro maintains_bindI [OF config K] leaves_bindI [OF fetch]) (use rest in auto)
  qed
qed

end
