(* ===== verification/Source_Immutable.thy ===== *)
theory Source_Immutable
  imports Source_Snapshots Backup_Extract Mgmt_Vault
begin

section \<open>The merge, and every operation of the library\<close>

text \<open>
  The merge of a core workspace works in temporary directories and leaves the snapshots alone, and so
  does every operation of \<open>library_call\<close>, whatever fails on the way.
\<close>

subsection \<open>Entries of a directory, and a new file\<close>

lemma read_dir_leaves:
  assumes "good fs"
  shows "leaves (os_read_dir io p)
    (\<lambda>r fs'. fs' = fs \<and> (case r of Inl e \<Rightarrow> True | Inr es \<Rightarrow> distinct (map fst es) \<and> (\<forall>x\<in>set es. plain_comp (fst x)))) fs"
proof -
  have plain: "plain_comp (last r)" if "r \<in> set (children fs q)" for r q
  proof -
    have "r \<in> set (map fst (fls_Nodes fs))" and r: "r \<noteq> []" using that by (auto simp: children_def)
    then have "node_at fs r \<noteq> None" by (simp add: map_of_eq_None_iff)
    then have "plain_path r" using assms by (auto simp: good_def)
    then show ?thesis using r by auto
  qed
  have "distinct (map fst (map (\<lambda>c. (c, nd c)) (sort_key (\<lambda>c. c) (remdups (map last (children fs q))))))" for q and nd :: "bytes \<Rightarrow> node"
    by (simp add: comp_def)
  then show ?thesis
    using plain by (auto simp: os_read_dir_def try_s_def bind_r_def comp_def split: option.split node.split sum.split)
qed

lemma make_file_stays:
  assumes "good fs" "plain_path p" "p \<noteq> []" "real_way fs p" "node_at fs p = None"
  shows "stays (\<lambda>q. q = p) fs (make_file io mode body p fs)"
  using good_make_file [OF assms(1,3,2,5,4)] assms(1)
  by (auto simp: local_to_def make_file_def put_node_def put_inode_def update_conv good_def tree_ok_def)

lemma write_new_leaves:
  assumes "good fs" "plain_path p" "p \<noteq> []" "real_way fs p" "node_at fs p = None"
  shows "leaves (os_write_file io p body mode) (\<lambda>r fs'. stays (\<lambda>q. q = p) fs fs') fs"
proof -
  have way: "clear_way fs p" using assms(4) by (rule real_way_clear)
  have "open_place fs p = Inr p \<or> (\<exists>e. open_place fs p = Inl e)"
    using clear_located [OF assms(2,3) way] clear_followed [OF assms(2) way] assms(5)
    by (auto simp: open_place_def at_place_def)
  then show ?thesis
    using make_file_stays [OF assms] assms(1,5)
    by (auto simp: os_write_file_def try_s_def Let_def split: option.split)
qed

subsection \<open>The merge\<close>

lemma maintains_eachI:
  assumes "\<And>x. x \<in> set xs \<Longrightarrow> maintains K (f x)" "K s" "\<And>s'. K s' \<Longrightarrow> leaves k Q s'" "\<And>e s'. K s' \<Longrightarrow> Q (Inl e) s'"
  shows "leaves (also_s (each_s f xs) k) Q s"
  by (rule maintains_alsoI [where K = K, OF maintains_each]) (use assms in auto)

lemma in_work:
  assumes "working t work fs0 fs" "plain_comp n"
  shows "plain_path (work @ [n])" "real_way fs (work @ [n])"
  using working_dir [OF assms(1), of work] assms by (auto simp: working_def real_way_def less_Suc_eq)

lemma replace_works:
  fixes env :: "('w, 'x) git_env_scheme"
  assumes "draws_ok env" "work = gte_TempDir env @ [m]" "working (gte_TempDir env) work fs0 (gho_Files h)"
  shows "leaves (replace_tree env work src) (\<lambda>r h'. working (gte_TempDir env) work fs0 (gho_Files h')) h"
proof -
  let ?t = "gte_TempDir env" and ?W = "on_files_of (working (gte_TempDir env) work fs0) :: 'w git_host \<Rightarrow> bool"
  have below: "strict_prefix ?t p \<and> p \<noteq> work" if "prefix (work @ [n]) p" for n p
    using that assms(2) by (auto simp: strict_prefix_def prefix_def)
  have emptied: "maintains ?W (files_s (os_remove_all (gte_Os env) (work @ [n])))" if "plain_comp n" for n
  proof (rule maintainsI)
    fix h :: "'w git_host" assume w: "?W h"
    then have "good (gho_Files h)" by (simp add: working_def)
    note removed = remove_all_leaves [OF this in_work(1) [OF w that] _ in_work(2) [OF w that], of "gte_Os env"]
    have "working ?t work fs0 fs'" if "stays (prefix (work @ [n])) (gho_Files h) fs'" for fs'
      by (rule working_step [OF w that]) (use below in blast)
    then show "leaves (files_s (os_remove_all (gte_Os env) (work @ [n]))) (\<lambda>_. ?W) h"
      unfolding leaves_files by (intro leaves_mono [OF removed]) auto
  qed
  have filled: "leaves (also_s (files_s (copy_tree (gte_Os env) src tmp))
       (bind_s (files_s (os_read_dir (gte_Os env) tmp)) (\<lambda>moved.
        each_s (\<lambda>(name, nd). files_s (os_rename (gte_Os env) (tmp @ [name]) (work @ [name]))) moved)))
      (\<lambda>r h'. ?W h') h1"
    if w: "?W h1" and tmp: "tmp = ?t @ [n]" "empty_place (gho_Files h1) tmp" "tmp \<noteq> work" for tmp n h1
  proof -
    let ?K = "\<lambda>h. ?W h \<and> is_directory (node_at (gho_Files h) tmp)"
    have inside: "strict_prefix ?t p \<and> p \<noteq> work" if "prefix tmp p" for p
      using that tmp(1,3) assms(2) by (auto simp: strict_prefix_def prefix_def)
    have plain: "plain_path tmp" using tmp(2) by (simp add: empty_place_def)
    have moving: "maintains ?K (files_s (os_rename (gte_Os env) (tmp @ [c]) (work @ [c])))" if c: "plain_comp c" for c
    proof (rule maintainsI)
      fix h2 :: "'w git_host" assume K: "?K h2"
      then have w2: "?W h2" and d: "is_directory (node_at (gho_Files h2) tmp)" by blast+
      have good: "good (gho_Files h2)" using w2 by (simp add: working_def)
      have "real_way (gho_Files h2) tmp" using d good real_here by (auto simp: is_directory_iff)
      then have way: "real_way (gho_Files h2) (tmp @ [c])" using d by (auto simp: real_way_def less_Suc_eq)
      have "plain_path (tmp @ [c])" using plain c by auto
      note renamed = os_rename_leaves [OF good this in_work(1) [OF w2 c] _ _ way in_work(2) [OF w2 c], of "gte_Os env"]
      show "leaves (files_s (os_rename (gte_Os env) (tmp @ [c]) (work @ [c]))) (\<lambda>_. ?K) h2"
        unfolding leaves_files
      proof (rule leaves_mono [OF renamed])
        fix r and fs3
        assume R: "stays (\<lambda>s. prefix (tmp @ [c]) s \<or> prefix (work @ [c]) s) (gho_Files h2) fs3 \<and> (case r of Inl e \<Rightarrow> fs3 = gho_Files h2
          | Inr u \<Rightarrow> tmp @ [c] \<noteq> work @ [c] \<longrightarrow> (\<exists>nd. node_at (gho_Files h2) (tmp @ [c]) = Some nd) \<and>
             \<not> is_directory (node_at (gho_Files h2) (work @ [c])) \<and>
             (\<forall>s. node_at fs3 s = (if prefix (work @ [c]) s then node_at (gho_Files h2) ((tmp @ [c]) @ drop (length (work @ [c])) s)
                else if prefix (tmp @ [c]) s then None else node_at (gho_Files h2) s)))"
        then have st: "stays (\<lambda>s. prefix (tmp @ [c]) s \<or> prefix (work @ [c]) s) (gho_Files h2) fs3" by blast
        have "working ?t work fs0 fs3"
          by (rule working_step [OF w2 st]) (use below inside append_prefixD in blast)
        moreover have "node_at fs3 tmp = node_at (gho_Files h2) tmp"
          by (rule local_to_node [OF conjunct2 [OF st]])
            (use tmp(1) assms(2) in \<open>auto dest: prefix_length_le\<close>)
        ultimately show "?K (h2\<lparr>gho_Files := fs3\<rparr>)" using d by simp
      qed simp_all
    qed
    show ?thesis
    proof (rule leaves_alsoI [where P = "\<lambda>r h2. ?W h2 \<and> (r = Inr () \<longrightarrow> ?K h2)"])
      have good: "good (gho_Files h1)" using w by (simp add: working_def)
      show "leaves (files_s (copy_tree (gte_Os env) src tmp)) (\<lambda>r h2. ?W h2 \<and> (r = Inr () \<longrightarrow> ?K h2)) h1"
        unfolding leaves_files
        by (rule leaves_mono [OF copy_tree_stays [OF good tmp(2)]]) (use working_step [OF w] inside in auto)
    next
      fix h2 :: "'w git_host" assume "?W h2 \<and> (Inr () = Inr () \<longrightarrow> ?K h2)"
      then have K: "?K h2" by simp
      then have good: "good (gho_Files h2)" by (simp add: working_def)
      show "leaves (bind_s (files_s (os_read_dir (gte_Os env) tmp)) (\<lambda>moved.
          each_s (\<lambda>(name, nd). files_s (os_rename (gte_Os env) (tmp @ [name]) (work @ [name]))) moved)) (\<lambda>r h'. ?W h') h2"
      proof (rule leaves_bindI)
        show "leaves (files_s (os_read_dir (gte_Os env) tmp)) (\<lambda>r h3. h3 = h2 \<and>
            (case r of Inl e \<Rightarrow> True | Inr es \<Rightarrow> distinct (map fst es) \<and> (\<forall>x\<in>set es. plain_comp (fst x)))) h2"
          unfolding leaves_files by (rule leaves_mono [OF read_dir_leaves [OF good]]) auto
        fix es and h3 :: "'w git_host"
        assume "h3 = h2 \<and> (case Inr es of Inl e \<Rightarrow> True | Inr es \<Rightarrow> distinct (map fst es) \<and> (\<forall>x\<in>set es. plain_comp (fst x)))"
        then have es: "h3 = h2" "\<forall>x\<in>set es. plain_comp (fst x)" by auto
        have keep: "maintains ?K (each_s (\<lambda>(name, nd). files_s (os_rename (gte_Os env) (tmp @ [name]) (work @ [name]))) es)"
          using es(2) moving by (intro maintains_each) (auto split: prod.split)
        have "?K h3" using K es(1) by simp
        from maintainsD [where K = ?K, OF keep this]
        show "leaves (each_s (\<lambda>(name, nd). files_s (os_rename (gte_Os env) (tmp @ [name]) (work @ [name]))) es) (\<lambda>r h'. ?W h') h3"
          by (rule leaves_mono) blast
      qed (use K in auto)
    qed simp
  qed
  have good: "good (gho_Files h)" using assms(3) by (simp add: working_def)
  show ?thesis
    unfolding replace_tree_def
  proof (rule leaves_bindI)
    show "leaves (files_s (os_read_dir (gte_Os env) work)) (\<lambda>r h1. h1 = h \<and>
        (case r of Inl e \<Rightarrow> True | Inr es \<Rightarrow> distinct (map fst es) \<and> (\<forall>x\<in>set es. plain_comp (fst x)))) h"
      unfolding leaves_files by (rule leaves_mono [OF read_dir_leaves [OF good]]) auto
    fix es and h1 :: "'w git_host"
    assume "h1 = h \<and> (case Inr es of Inl e \<Rightarrow> True | Inr es \<Rightarrow> distinct (map fst es) \<and> (\<forall>x\<in>set es. plain_comp (fst x)))"
    then have es: "?W h1" "\<forall>x\<in>set es. plain_comp (fst x)" using assms(3) by auto
    show "leaves (also_s (each_s (\<lambda>(name, nd). if name = ''.git'' then ret_s () else files_s (os_remove_all (gte_Os env) (work @ [name]))) es)
        (with_temp_dir env ''vpsmith-replace-'' (\<lambda>tmp.
         also_s (files_s (copy_tree (gte_Os env) src tmp))
        (bind_s (files_s (os_read_dir (gte_Os env) tmp)) (\<lambda>moved.
         each_s (\<lambda>(name, nd). files_s (os_rename (gte_Os env) (tmp @ [name]) (work @ [name]))) moved))))) (\<lambda>r h'. ?W h') h1"
    proof (rule maintains_eachI [where K = ?W])
      show "maintains ?W (case x of (name, nd) \<Rightarrow> if name = ''.git'' then ret_s () else files_s (os_remove_all (gte_Os env) (work @ [name])))"
        if "x \<in> set es" for x using es(2) emptied that by (auto split: prod.split)
      fix h2 :: "'w git_host" assume w: "?W h2"
      have "leaves (with_temp_dir env ''vpsmith-replace-'' (\<lambda>tmp.
         also_s (files_s (copy_tree (gte_Os env) src tmp))
        (bind_s (files_s (os_read_dir (gte_Os env) tmp)) (\<lambda>moved.
         each_s (\<lambda>(name, nd). files_s (os_rename (gte_Os env) (tmp @ [name]) (work @ [name]))) moved))))
        (\<lambda>r h'. ?W h' \<and> True) h2"
      proof (rule with_temp_works [where P = "\<lambda>_. True", OF assms(1) w])
        fix tmp and h3 :: "'w git_host"
        assume "\<exists>n. plain_comp n \<and> tmp = ?t @ [n]" "?W h3" "empty_place (gho_Files h3) tmp" "tmp \<noteq> work"
        then show "leaves (also_s (files_s (copy_tree (gte_Os env) src tmp))
            (bind_s (files_s (os_read_dir (gte_Os env) tmp)) (\<lambda>moved.
             each_s (\<lambda>(name, nd). files_s (os_rename (gte_Os env) (tmp @ [name]) (work @ [name]))) moved)))
            (\<lambda>r h'. ?W h' \<and> True) h3"
          unfolding simp_thms using filled by blast
      qed (use assms(2) in auto)
      then show "leaves (with_temp_dir env ''vpsmith-replace-'' (\<lambda>tmp.
         also_s (files_s (copy_tree (gte_Os env) src tmp))
        (bind_s (files_s (os_read_dir (gte_Os env) tmp)) (\<lambda>moved.
         each_s (\<lambda>(name, nd). files_s (os_rename (gte_Os env) (tmp @ [name]) (work @ [name]))) moved))))
        (\<lambda>r h'. ?W h') h2" by simp
    qed (use es in auto)
  qed (use assms(3) in auto)
qed

text \<open>The copy of the merged tree, entry by entry.\<close>

lemma leaves_tryI: "leaves m Q fs \<Longrightarrow> (\<And>e. Q (Inl e) fs) \<Longrightarrow> leaves (try_s io call p m) Q fs"
  by (simp add: try_s_def split: option.split)

lemma goes_on_same [simp]: "goes_on (\<lambda>_. S) (\<lambda>_. S) = (\<lambda>_. S)"
  by (auto simp: goes_on_def fun_eq_iff split: sum.split)

lemma copy_file_leaves:
  assumes "good fs" "plain_path p" "p \<noteq> []" "real_way fs p" "node_at fs p = None"
  shows "leaves (copy_tree_file io src p nd) (\<lambda>r fs'. stays (prefix p) fs fs') fs"
proof -
  have writing: "leaves (os_write_file io p body mode) (\<lambda>r fs'. stays (prefix p) fs fs') fs" for body mode
    by (rule leaves_mono [OF write_new_leaves [OF assms]]) (auto intro: local_to_mono)
  have link: "leaves (os_symlink io t p) (\<lambda>r fs'. stays (prefix p) fs fs') fs" for t
  proof -
    have "good (put_node p (Symlink t a) fs)" for a by (rule good_put) (use assms in simp_all)
    then show ?thesis
      unfolding os_symlink_def using assms
      by (intro leaves_add_entry real_way_clear) (auto simp: local_to_def put_node_def update_conv)
  qed
  have file_case: "leaves (bind_s (read_s (read_file io src)) (\<lambda>body. bind_s (read_s g) (\<lambda>mode.
      wrap_s ''copy merge file: %w'' [] (os_write_file io p body mode)))) (\<lambda>r fs'. stays (prefix p) fs fs') fs" for g
  proof (rule maintains_bindI [where K = "(=) fs"])
    show "leaves (bind_s (read_s g) (\<lambda>mode. wrap_s ''copy merge file: %w'' [] (os_write_file io p body mode)))
        (\<lambda>r fs'. stays (prefix p) fs fs') s'" if "fs = s'" for body s'
      using that assms(1)
      by (intro maintains_bindI [where K = "(=) fs"])
        (use writing in simp_all)
  qed (use assms(1) in auto)
  show ?thesis
  proof (cases nd)
    case (Symlink t a)
    then show ?thesis using link assms(1) by (simp add: copy_tree_file_def split: option.split)
  qed (use file_case in \<open>simp_all add: copy_tree_file_def\<close>)
qed

lemma copy_excluding_leaves:
  assumes "good fs" "empty_place fs dst" "is_directory (node_at fs dst)"
  shows "leaves (copy_tree_excluding_git io src dst) (\<lambda>r fs'. stays (prefix dst) fs fs') fs"
  unfolding copy_tree_excluding_git_def
proof (rule leaves_bindI [OF read_dir_leaves [OF assms(1)]])
  fix es :: "(bytes \<times> node) list" and fs1
  assume "fs1 = fs \<and> (case Inr es of Inl e \<Rightarrow> True | Inr es \<Rightarrow> distinct (map fst es) \<and> (\<forall>x\<in>set es. plain_comp (fst x)))"
  then have es: "fs1 = fs" "distinct (map fst es)" "\<forall>x\<in>set es. plain_comp (fst x)" by auto
  let ?one = "\<lambda>(name, nd). if name = ''.git'' then ret_s ()
       else try_s io ''lstat'' (src @ [name])
           (if is_directory (Some nd) then copy_tree io (src @ [name]) (dst @ [name])
            else copy_tree_file io (src @ [name]) (dst @ [name]) nd)"
  let ?I = "\<lambda>done fs'. stays (prefix dst) fs fs' \<and> is_directory (node_at fs' dst) \<and>
    (\<forall>n p. n \<notin> fst ` set done \<longrightarrow> node_at fs' (dst @ n # p) = None)"
  have "leaves (each_s ?one es) (goes_on (\<lambda>_. ?I es) (\<lambda>_ fs'. stays (prefix dst) fs fs')) fs"
  proof (rule leaves_each)
    show "?I [] fs" using assms by (auto simp: empty_place_def)
    fix seen x todo fs2
    assume split: "es = seen @ x # todo" and I: "?I seen fs2"
    obtain n nd where x: "x = (n, nd)" by fastforce
    have n: "plain_comp n" "n \<notin> fst ` set seen" using es(2,3) split x by (auto simp: image_iff)
    have good: "good fs2" using I by blast
    have none: "node_at fs2 (dst @ n # p) = None" for p using I n(2) by blast
    obtain a where "node_at fs2 dst = Some (Directory a)" using I by (auto simp: is_directory_iff)
    from real_here [OF good this] have "real_way fs2 (dst @ [n])" using I by (auto simp: real_way_def less_Suc_eq)
    then have place: "empty_place fs2 (dst @ [n])" using assms(2) n(1) none by (auto simp: empty_place_def)
    have step: "?I (seen @ [x]) fs3" if st: "stays (prefix (dst @ [n])) fs2 fs3" for fs3
    proof -
      have "local_to (prefix dst) fs fs3"
        by (rule local_to_then [where a = "prefix dst"]) (use I st append_prefixD in blast)+
      moreover have "is_directory (node_at fs3 dst)"
        using I local_to_node [OF conjunct2 [OF st], of dst] by (auto dest: prefix_length_le)
      moreover have "node_at fs3 (dst @ m # p) = None" if "m \<notin> fst ` set (seen @ [x])" for m p
        using I that x local_to_node [OF conjunct2 [OF st], of "dst @ m # p"] by auto
      ultimately show ?thesis using st by blast
    qed
    have "leaves (copy_tree io (src @ [n]) (dst @ [n])) (\<lambda>r. ?I (seen @ [x])) fs2"
      by (rule leaves_mono [OF copy_tree_stays [OF good place]]) (use step in blast)
    moreover have "leaves (copy_tree_file io (src @ [n]) (dst @ [n]) nd) (\<lambda>r. ?I (seen @ [x])) fs2"
    proof (rule leaves_mono [OF copy_file_leaves [OF good]])
      show "node_at fs2 (dst @ [n]) = None" by (rule none)
      show "?I (seen @ [x]) fs3" if "stays (prefix (dst @ [n])) fs2 fs3" for fs3 by (rule step [OF that])
    qed (use place in \<open>simp_all add: empty_place_def\<close>)
    ultimately have "leaves (if is_directory (Some nd) then copy_tree io (src @ [n]) (dst @ [n])
        else copy_tree_file io (src @ [n]) (dst @ [n]) nd) (\<lambda>r. ?I (seen @ [x])) fs2" by simp
    moreover have here: "?I (seen @ [x]) fs2" by (rule step) (simp add: good)
    ultimately have "leaves (try_s io ''lstat'' (src @ [n]) (if is_directory (Some nd) then copy_tree io (src @ [n]) (dst @ [n])
        else copy_tree_file io (src @ [n]) (dst @ [n]) nd)) (\<lambda>r. ?I (seen @ [x])) fs2"
      by (rule leaves_tryI)
    then have "leaves (?one x) (\<lambda>r. ?I (seen @ [x])) fs2" unfolding x using here [unfolded x] by simp
    then show "leaves (?one x) (goes_on (\<lambda>_. ?I (seen @ [x])) (\<lambda>_ fs'. stays (prefix dst) fs fs')) fs2"
      by (rule leaves_mono) (auto simp: goes_on_def split: sum.split)
  qed
  then show "leaves (each_s ?one es) (\<lambda>r fs'. stays (prefix dst) fs fs') fs1"
    unfolding es(1) by (rule leaves_mono) (auto simp: goes_on_def split: sum.splits)
qed (use assms(1) in simp)

lemma branches_work:
  fixes env :: "('w, 'x) git_env_scheme"
  assumes "draws_ok env" "git_local env" "work = gte_TempDir env @ [m]"
  shows "maintains (on_files_of (working (gte_TempDir env) work fs0)) (merge_branches env old_base local new_base work)"
    "maintains (on_files_of (working (gte_TempDir env) work fs0)) (merge_conflicts env work)"
proof -
  have sub: "strict_prefix (gte_TempDir env) work" using assms(3) by (simp add: strict_prefix_def)
  note git = git_commands_work [OF assms(2) sub, where ?fs0.0 = fs0]
  have replace: "maintains (on_files_of (working (gte_TempDir env) work fs0)) (replace_tree env work src)" for src
    by (rule maintainsI) (rule replace_works [OF assms(1,3)])
  show "maintains (on_files_of (working (gte_TempDir env) work fs0)) (merge_branches env old_base local new_base work)"
    unfolding merge_branches_def commit_changes_def
    by (intro maintains_also maintains_bind git replace) (simp_all add: git)
  show "maintains (on_files_of (working (gte_TempDir env) work fs0)) (merge_conflicts env work)"
    unfolding merge_conflicts_def Let_def
    by (intro maintains_also maintains_bind maintains_rescue maintains_simple git)
qed

lemma merge_works:
  fixes env :: "('w, 'x) git_env_scheme"
  assumes "draws_ok env" "git_local env" "working (gte_TempDir env) (gte_TempDir env) fs0 (gho_Files h)"
  shows "leaves (three_way_merge env old_base local new_base)
    (\<lambda>r h'. working (gte_TempDir env) (gte_TempDir env) fs0 (gho_Files h') \<and>
       (case r of Inl e \<Rightarrow> True | Inr x \<Rightarrow> \<exists>n. plain_comp n \<and> fst x = gte_TempDir env @ [n])) h"
proof -
  let ?t = "gte_TempDir env"
  let ?P = "\<lambda>r. case r of Inl e \<Rightarrow> True | Inr x \<Rightarrow> \<exists>n. plain_comp n \<and> fst x = ?t @ [n]"
  have tail: "leaves (bind_s (temp_dir env ?t ''vpsmith-core-candidate-'') (\<lambda>payload.
       also_s (on_error_s (removing env payload) (files_s (copy_tree_excluding_git (gte_Os env) work payload)))
         (ret_s (payload, names)))) (\<lambda>r h'. working ?t work fs0 (gho_Files h') \<and> ?P r) h'"
    if "working ?t work fs0 (gho_Files h')" "work = ?t @ [m]" for work m names h'
  proof (rule temp_works [OF assms(1) that(1)])
    fix p and h2 :: "'w git_host"
    assume p: "\<exists>n. plain_comp n \<and> p = ?t @ [n]" "working ?t work fs0 (gho_Files h2)" "empty_place (gho_Files h2) p"
      "is_directory (node_at (gho_Files h2) p)" "p \<noteq> work"
    then obtain n where n: "plain_comp n" "p = ?t @ [n]" by blast
    have good: "good (gho_Files h2)" using p(2) by (simp add: working_def)
    from copied_to_temp [OF p(2) n p(3) _ copy_excluding_leaves [OF good p(3,4)]] have
      "leaves (on_error_s (removing env p) (files_s (copy_tree_excluding_git (gte_Os env) work p)))
        (\<lambda>r h'. working ?t work fs0 (gho_Files h')) h2"
      using n(2) p(5) that(2) by (auto simp: prefix_def)
    then show "leaves (also_s (on_error_s (removing env p) (files_s (copy_tree_excluding_git (gte_Os env) work p)))
         (ret_s (p, names))) (\<lambda>r h'. working ?t work fs0 (gho_Files h') \<and> ?P r) h2"
      by (rule leaves_alsoI) (use n in auto)
  qed simp_all
  have "leaves (with_temp_dir env ''vpsmith-core-merge-'' (\<lambda>work.
     also_s (merge_branches env old_base local new_base work)
    (bind_s (merge_conflicts env work) (\<lambda>names.
     bind_s (temp_dir env (gte_TempDir env) ''vpsmith-core-candidate-'') (\<lambda>payload.
     also_s (on_error_s (removing env payload) (files_s (copy_tree_excluding_git (gte_Os env) work payload)))
       (ret_s (payload, names))))))) (\<lambda>r h'. working ?t ?t fs0 (gho_Files h') \<and> ?P r) h"
  proof (rule with_temp_works [OF assms(1,3)])
    fix work and h' :: "'w git_host"
    assume work: "\<exists>n. plain_comp n \<and> work = ?t @ [n]" "working ?t ?t fs0 (gho_Files h')" "is_directory (node_at (gho_Files h') work)"
    have w: "working ?t work fs0 (gho_Files h')" using work(2,3) by (simp add: working_def)
    obtain m where m: "work = ?t @ [m]" using work(1) by blast
    have "leaves (also_s (merge_branches env old_base local new_base work)
      (bind_s (merge_conflicts env work) (\<lambda>names.
       bind_s (temp_dir env (gte_TempDir env) ''vpsmith-core-candidate-'') (\<lambda>payload.
       also_s (on_error_s (removing env payload) (files_s (copy_tree_excluding_git (gte_Os env) work payload)))
         (ret_s (payload, names)))))) (\<lambda>r h'. working ?t work fs0 (gho_Files h') \<and> ?P r) h'"
      by (intro maintains_alsoI [OF branches_work(1) [OF assms(1,2) m] w] maintains_bindI [OF branches_work(2) [OF assms(1,2) m]]
          tail [OF _ m]) auto
    then show "leaves (also_s (merge_branches env old_base local new_base work)
      (bind_s (merge_conflicts env work) (\<lambda>names.
       bind_s (temp_dir env (gte_TempDir env) ''vpsmith-core-candidate-'') (\<lambda>payload.
       also_s (on_error_s (removing env payload) (files_s (copy_tree_excluding_git (gte_Os env) work payload)))
         (ret_s (payload, names)))))) (\<lambda>r h'. working ?t ?t fs0 (gho_Files h') \<and> ?P r) h'"
      by (rule leaves_mono) (auto simp: working_def)
  qed simp_all
  then show ?thesis unfolding three_way_merge_def .
qed

subsection \<open>New workspaces\<close>

lemma fresh_kept: "kept env fs0 fs \<Longrightarrow> working (gte_TempDir env) (gte_TempDir env) fs0 fs \<Longrightarrow> fresh_id env fs0 \<Longrightarrow> fresh_id env fs"
proof -
  assume K: "kept env fs0 fs" and w: "working (gte_TempDir env) (gte_TempDir env) fs0 fs" and f: "fresh_id env fs0"
  have ok: "library_ok env fs" using K by (simp add: kept_def)
  have "\<not> strict_prefix (gte_TempDir env) (workspaces_dir env @ [i])" for i
  proof
    assume "strict_prefix (gte_TempDir env) (workspaces_dir env @ [i])"
    then have "prefix (gte_TempDir env) (workspaces_dir env @ [i])" by (rule prefix_order.less_imp_le)
    moreover have "prefix (lie_Root env) (workspaces_dir env @ [i])" by simp
    ultimately show False using prefix_same_cases ok unfolding library_ok_def by blast
  qed
  then have "node_at fs (workspaces_dir env @ [i]) = node_at fs0 (workspaces_dir env @ [i])" for i
    using w local_to_node unfolding working_def by blast
  then show "fresh_id env fs" using f by (simp add: fresh_id_def)
qed

lemma from_path_kept:
  fixes env :: "('w, 'x) library_env_scheme"
  assumes "kept env fs0 (gho_Files (lis_Host st))" "fresh_id env (gho_Files (lis_Host st))"
  shows "leaves (create_workspace_from_path env a src) (\<lambda>_. on_tree (kept env fs0)) st"
  unfolding create_workspace_from_path_def Let_def
proof (rule leaves_bindI [where P = "\<lambda>r st'. st' = st \<and> r = lie_NewID env ''workspace''"])
  have ok: "library_ok env (gho_Files (lis_Host st))" using assms(1) by (simp add: kept_def)
  fix i and st' :: "'w library_state"
  assume st': "st' = st \<and> Inr i = lie_NewID env ''workspace''"
  then have i: "plain_comp i" "node_at (gho_Files (lis_Host st)) (workspaces_dir env @ [i]) = None"
    using assms(2) by (auto simp: fresh_id_def)
  from workspace_kept(1) [OF ok i refl, of "on_tree (kept env fs0)"]
  have "leaves (also_s (tree_s (copy_tree (gte_Os env) src (workspaces_dir env @ [i])))
      (register_workspace env a i (workspaces_dir env @ [i]))) (\<lambda>_. on_tree (kept env fs0)) st"
    using kept_trans [OF assms(1)] new_workspace_kept [OF ok i] by blast
  then show "leaves (also_s (tree_s (copy_tree (gte_Os env) src (join_path (lie_Root env) (''workspaces/'' @ i))))
      (register_workspace env a i (join_path (lie_Root env) (''workspaces/'' @ i)))) (\<lambda>_. on_tree (kept env fs0)) st'"
    unfolding workspace_place [OF ok i(1)] using st' by blast
qed (use assms(1) in auto)

lemma create_kept:
  fixes env :: "('w, 'x) library_env_scheme"
  assumes "kept env fs0 (gho_Files (lis_Host st))" "fresh_id env (gho_Files (lis_Host st))"
  shows "leaves (create_workspace env snapshot) (\<lambda>_. on_tree (kept env fs0)) st"
proof -
  have ok: "library_ok env (gho_Files (lis_Host st))" using assms(1) by (simp add: kept_def)
  have make: "leaves (also_s (wrap_s ''create workspace: %w'' []
        (tree_s (copy_tree (gte_Os env) src (join_path (lie_Root env) (''workspaces/'' @ i)))))
      (register_workspace env a i (join_path (lie_Root env) (''workspaces/'' @ i)))) (\<lambda>_. on_tree (kept env fs0)) st1"
    if "gho_Files (lis_Host st1) = gho_Files (lis_Host st)" "lie_NewID env ''workspace'' = Inr i" for src a i st1
  proof -
    have i: "plain_comp i" "node_at (gho_Files (lis_Host st)) (workspaces_dir env @ [i]) = None"
      using assms(2) that(2) by (auto simp: fresh_id_def)
    from workspace_kept(2) [OF ok i that(1), of "on_tree (kept env fs0)"] show ?thesis
      unfolding workspace_place [OF ok i(1)]
      using kept_trans [OF assms(1)] new_workspace_kept [OF ok i] by blast
  qed
  have look: "maintains (on_tree ((=) (gho_Files (lis_Host st)))) (library_artifact env snapshot)" by simp
  show ?thesis
    unfolding create_workspace_def Let_def
  proof (rule maintains_bindI [OF look])
    fix a and st1 :: "'w library_state"
    assume st1: "gho_Files (lis_Host st) = gho_Files (lis_Host st1)"
    show "leaves (bind_s (lift_s (lie_NewID env ''workspace'')) (\<lambda>i.
        also_s (wrap_s ''create workspace: %w'' []
            (tree_s (copy_tree (gte_Os env) (snapshot_path env (sar_SHA256 a)) (join_path (lie_Root env) (''workspaces/'' @ i)))))
          (register_workspace env a i (join_path (lie_Root env) (''workspaces/'' @ i))))) (\<lambda>_. on_tree (kept env fs0)) st1"
      by (rule leaves_bindI [where P = "\<lambda>r st'. st' = st1 \<and> r = lie_NewID env ''workspace''"])
        (use make st1 assms(1) in auto)
  qed (use assms(1) in auto)
qed

lemma merge_core_kept:
  fixes env :: "('w, 'x) library_env_scheme"
  assumes "draws_ok env" "git_local env" "kept env fs0 (gho_Files (lis_Host st))" "fresh_id env (gho_Files (lis_Host st))"
  shows "leaves (merge_core env i new_base) (\<lambda>_. on_tree (kept env fs0)) st"
proof -
  let ?fs = "gho_Files (lis_Host st)"
  let ?same = "on_tree ((=) ?fs) :: 'w library_state \<Rightarrow> bool"
  have ok: "library_ok env ?fs" using assms(3) by (simp add: kept_def)
  have reads: "maintains ?same (library_workspace env i)" "maintains ?same (library_artifact env j)"
    "maintains ?same (lift_s r)" for j and r :: "unit result" by simp_all
  have merge: "leaves (machine_s (three_way_merge env a b c)) (\<lambda>r st1. kept env ?fs (gho_Files (lis_Host st1)) \<and>
      fresh_id env (gho_Files (lis_Host st1)) \<and>
      (case r of Inl e \<Rightarrow> True | Inr x \<Rightarrow> \<exists>n. plain_comp n \<and> fst x = gte_TempDir env @ [n])) st1"
    if "?same st1" for a b c st1
    unfolding leaves_machine
    by (rule leaves_mono [OF merge_works [OF assms(1,2), where ?fs0.0 = ?fs]])
      (use that library_working [OF ok] kept_working [OF ok] fresh_kept [OF kept_working [OF ok] _ assms(4)] in auto)
  have K: "kept env fs0 fs" if "kept env ?fs fs" for fs using that kept_trans [OF assms(3)] by blast
  have last: "leaves (defer_s (removing_tree env merged)
       (if conflicts \<noteq> [] then ret_s \<lparr>mrr_Candidate = None, mrr_Conflicts = conflicts\<rparr>
        else
          bind_s (create_workspace_from_path env new merged) (\<lambda>candidate.
          ret_s \<lparr>mrr_Candidate = Some candidate, mrr_Conflicts = []\<rparr>))) (\<lambda>_. on_tree (kept env fs0)) st1"
    if at: "kept env ?fs (gho_Files (lis_Host st1))" "fresh_id env (gho_Files (lis_Host st1))" "plain_comp n" "merged = gte_TempDir env @ [n]"
    for merged conflicts new n st1
  proof -
    have "leaves (if conflicts \<noteq> [] then ret_s \<lparr>mrr_Candidate = None, mrr_Conflicts = conflicts\<rparr>
        else
          bind_s (create_workspace_from_path env new merged) (\<lambda>candidate.
          ret_s \<lparr>mrr_Candidate = Some candidate, mrr_Conflicts = []\<rparr>)) (\<lambda>_. on_tree (kept env fs0)) st1"
    proof (cases "conflicts = []")
      case True
      then show ?thesis
        unfolding True simp_thms if_False
        by (intro leaves_bindI [OF from_path_kept [OF K [OF at(1)] at(2)]]) simp_all
    qed (use K [OF at(1)] in simp)
    then show ?thesis
      unfolding leaves_defer
      by (rule leaves_mono) (use temp_tree_removed [OF _ at(3)] at(4) in \<open>simp add: removing_tree_def\<close>)
  qed
  show ?thesis
    unfolding merge_core_def
    by (intro maintains_bindI [OF reads(1)] maintains_alsoI [OF reads(3)] maintains_bindI [OF reads(2)] leaves_bindI [OF merge])
      (use assms(3) K last in auto)
qed

subsection \<open>The operations\<close>

text \<open>
  The operations that make, load and read snapshots. The name of a new workspace is drawn when the
  operation starts: that it names no entry is a hypothesis of the operations that need it.
\<close>

datatype library_call =
    Import_Embedded
  | Current_Embedded source_kind
  | Create_Workspace bytes
  | Refresh_Workspace bytes
  | Workspace_Diff bytes
  | Load_Custom_Module bytes bytes
  | Merge_Core bytes bytes

definition dropping :: "('s, 'a) action \<Rightarrow> ('s, unit) action" where
  "dropping m = bind_s m (\<lambda>_. ret_s ())"

primrec library_step :: "('w, 'x) library_env_scheme \<Rightarrow> library_call \<Rightarrow> ('w library_state, unit) action" where
  "library_step env Import_Embedded = dropping (import_embedded env)"
| "library_step env (Current_Embedded kind) = dropping (current_embedded env kind)"
| "library_step env (Create_Workspace i) = dropping (create_workspace env i)"
| "library_step env (Refresh_Workspace i) = dropping (refresh_workspace env i)"
| "library_step env (Workspace_Diff i) = dropping (workspace_diff env i)"
| "library_step env (Load_Custom_Module p v) = dropping (load_custom_module env p v)"
| "library_step env (Merge_Core i base) = dropping (merge_core env i base)"

lemma leaves_dropping: "leaves m (\<lambda>_. K) st \<Longrightarrow> leaves (dropping m) (\<lambda>_. K) st"
  unfolding dropping_def by (rule leaves_bindI) auto

lemma library_step_kept:
  fixes env :: "('w, 'x) library_env_scheme"
  assumes "library_ok env (gho_Files (lis_Host st))" "draws_ok env" "git_local env" "lie_Remote env = git_remote env"
    "fresh_id env (gho_Files (lis_Host st))"
  shows "leaves (library_step env c) (\<lambda>_. on_tree (kept env (gho_Files (lis_Host st)))) st"
proof -
  have K: "kept env (gho_Files (lis_Host st)) (gho_Files (lis_Host st))" using assms(1) by (rule kept_refl)
  note run = maintainsD [where K = "on_tree (kept env (gho_Files (lis_Host st)))" and s = st, OF _ K]
  note all = run [OF import_embedded_maintains [OF assms(2)]] run [OF current_embedded_maintains] run [OF refresh_maintains]
    run [OF diff_maintains] run [OF load_maintains [OF assms(2-4)]] create_kept [OF K assms(5)]
    merge_core_kept [OF assms(2,3) K assms(5)]
  show ?thesis by (cases c) (simp_all only: library_step.simps all leaves_dropping)
qed

text \<open>
  C11: No operation of the library, whatever fails in it, changes anything at or below a published
  snapshot, neither an entry nor the content of a file, as long as git keeps to the directory it runs in.
\<close>

theorem snapshots_immutable:
  fixes env :: "('w, 'x) library_env_scheme"
  assumes "library_ok env (gho_Files (lis_Host st))" "draws_ok env" "git_local env" "lie_Remote env = git_remote env"
    "fresh_id env (gho_Files (lis_Host st))"
  shows "immutable env (gho_Files (lis_Host st)) (gho_Files (lis_Host (snd (library_step env c st)))) \<and>
    library_ok env (gho_Files (lis_Host (snd (library_step env c st))))"
  using library_step_kept [OF assms, of c] by (simp add: leaves_def kept_def split: prod.splits)

text \<open>A library with one snapshot and an embedded release, on a machine where nothing fails.\<close>

definition shelf_files :: files where
  "shelf_files =
     (let d = Directory sample_attrs in
      \<lparr>fls_Nodes =
         [([], d), ([''tmp''], d), ([''emb''], d), ([''lib''], d), ([''lib'', ''workspaces''], d), ([''lib'', ''snapshots''], d),
          ([''lib'', ''snapshots'', ''sha256''], d), ([''lib'', ''snapshots'', ''sha256'', ''aa''], d),
          ([''lib'', ''snapshots'', ''sha256'', ''aa'', ''f''], Regular 0)],
       fls_Inodes = [(0, \<lparr>ind_Content = ''body'', ind_Attrs = sample_attrs\<lparr>att_Mode := 436\<rparr>\<rparr>)], fls_Next = 1\<rparr>)"

definition quiet_git :: "path option \<Rightarrow> bytes list \<Rightarrow> bytes list \<Rightarrow> (unit git_host, int \<times> bytes) action" where
  "quiet_git dir environ args = ret_s (0, ''c0'')"

definition shelf_git :: "unit git_env" where
  "shelf_git =
     \<lparr>gte_Os = no_os, gte_Run = quiet_git, gte_Path = ''/bin'', gte_TempDir = [''tmp''], gte_Draws = (\<lambda>p. [''1'', ''2'']),
      gte_FixedURL = [], gte_BeforePush = id\<rparr>"

definition shelf_env :: "unit library_env" where
  "shelf_env = git_env.extend shelf_git
     \<lparr>lie_Root = [''lib''], lie_Embedded = [''emb''], lie_Decode = (\<lambda>b. Inl (Err ''json'')), lie_Crypto = toy_cipher,
      lie_Sql = (\<lambda>_ _. None), lie_Key = toy_key, lie_NewID = (\<lambda>p. Inr (p @ ''_1'')), lie_Remote = git_remote shelf_git\<rparr>"

definition shelf_state :: "unit library_state" where
  "shelf_state = \<lparr>lis_Db = empty_db, lis_Host = \<lparr>gho_Files = shelf_files, gho_World = ()\<rparr>\<rparr>"

lemma git_remote_base: "git_remote env = git_remote (git_env.truncate env)"
proof -
  let ?g = "git_env.truncate env"
  have base: "gte_Os ?g = gte_Os env" "gte_Run ?g = gte_Run env" "gte_Path ?g = gte_Path env" "gte_TempDir ?g = gte_TempDir env"
    "gte_Draws ?g = gte_Draws env" "gte_FixedURL ?g = gte_FixedURL env" "gte_BeforePush ?g = gte_BeforePush env"
    by (simp_all add: git_env.truncate_def)
  have tools: "temp_dir ?g = temp_dir env" "removing ?g = removing env" "git_command ?g = git_command env"
    "git_changed ?g = git_changed env" "remote_url ?g = remote_url env"
    by (simp_all add: fun_eq_iff base temp_dir_def removing_def git_command_def git_changed_def git_environment_def remote_url_def)
  have more: "run_git ?g = run_git env" "git_output ?g = git_output env" "with_temp_dir ?g = with_temp_dir env"
    by (simp_all add: fun_eq_iff run_git_def git_output_def with_temp_dir_def base tools)
  have refs: "read_remote_ref ?g = read_remote_ref env" by (simp add: fun_eq_iff read_remote_ref_def more)
  have "remote_fetch ?g = remote_fetch env"
    unfolding remote_fetch_def [abs_def] fetch_in_def [abs_def] base tools more by (rule refl)
  moreover have rejected: "after_rejected_push ?g = after_rejected_push env" by (simp add: fun_eq_iff after_rejected_push_def refs)
  have "remote_push ?g = remote_push env"
    unfolding remote_push_def [abs_def] push_in_def [abs_def] push_commit_def [abs_def] base tools more refs rejected by (rule refl)
  ultimately show ?thesis by (simp add: git_remote_def)
qed

lemma shelf_git_base: "git_env.truncate shelf_env = shelf_git"
  by (simp add: shelf_env_def shelf_git_def git_env.defs)

lemma shelf_remote: "lie_Remote shelf_env = git_remote shelf_env"
  unfolding git_remote_base [of shelf_env] shelf_git_base by (simp add: shelf_env_def git_env.defs)

lemma shelf_good: "good shelf_files"
  by (auto simp: good_def tree_ok_def shelf_files_def plain_comp_def Let_def split: if_splits)

lemma shelf_ok: "library_ok shelf_env shelf_files" "draws_ok shelf_env" "git_local shelf_env" "fresh_id shelf_env shelf_files"
proof -
  have env: "lie_Root shelf_env = [''lib'']" "gte_TempDir shelf_env = [''tmp'']" "gte_Run shelf_env = quiet_git"
    "lie_NewID shelf_env = (\<lambda>p. Inr (p @ ''_1''))"
    by (simp_all add: shelf_env_def git_env.defs shelf_git_def)
  show "library_ok shelf_env shelf_files"
    unfolding library_ok_def env using shelf_good by (simp add: shelf_files_def Let_def)
  show "fresh_id shelf_env shelf_files"
    by (simp add: fresh_id_def env shelf_files_def Let_def plain_comp_def)
  show "git_local shelf_env" by (auto simp: git_local_def env quiet_git_def split: option.split)
  show "draws_ok shelf_env"
    by (simp add: draws_ok_def shelf_env_def git_env.defs shelf_git_def plain_comp_def)
qed

lemma snapshots_immutable_witness:
  "library_ok shelf_env shelf_files \<and> published shelf_env shelf_files [''lib'', ''snapshots'', ''sha256'', ''aa'', ''f''] \<and>
   immutable shelf_env shelf_files
     (gho_Files (lis_Host (snd (library_step shelf_env (Load_Custom_Module ''pkg'' ''1'') shelf_state))))"
proof -
  have "published shelf_env shelf_files [''lib'', ''snapshots'', ''sha256'', ''aa'', ''f'']"
    by (auto simp: published_def shelf_env_def git_env.defs shelf_files_def Let_def intro!: exI [of _ "''aa''"])
  then show ?thesis
    using snapshots_immutable [of shelf_env shelf_state "Load_Custom_Module ''pkg'' ''1''"] shelf_ok shelf_remote
    by (simp add: shelf_state_def)
qed

end
