(* ===== verification/Source_Props.thy ===== *)
theory Source_Props
  imports Source_Immutable
begin

section \<open>What the source library promises\<close>

text \<open>
  The identity of a tree determines its entries, a copy is the tree it copies, a difference replays,
  and an import that succeeds has registered a snapshot that is there with the identity of the source.
\<close>

subsection \<open>The identity of a tree\<close>

lemma nul_fields_inject:
  assumes "\<forall>f\<in>set fs. CHR 0x00 \<notin> set f" "\<forall>g\<in>set gs. CHR 0x00 \<notin> set g"
    and "concat (map nul_field fs) = concat (map nul_field gs)"
  shows "fs = gs"
  using assms
proof (induction fs arbitrary: gs)
  case Nil
  then show ?case by (cases gs) (auto simp: nul_field_def)
next
  case (Cons f fs)
  obtain g gs' where gs: "gs = g # gs'" using Cons.prems(3) by (cases gs) (auto simp: nul_field_def)
  have "takeWhile (\<lambda>c. c \<noteq> CHR 0x00) (h @ CHR 0x00 # hs) = h" if "CHR 0x00 \<notin> set h" for h hs :: bytes
    using that by (induction h) auto
  moreover have eq: "f @ CHR 0x00 # concat (map nul_field fs) = g @ CHR 0x00 # concat (map nul_field gs')"
    using Cons.prems(3) gs by (simp add: nul_field_def [of f] nul_field_def [of g])
  moreover have "CHR 0x00 \<notin> set f" "CHR 0x00 \<notin> set g" using Cons.prems(1,2) gs by auto
  ultimately have "f = g" by metis
  then show ?case using Cons.IH [of gs'] Cons.prems gs eq by auto
qed

lemma char_digit: "(char_of (48 + m mod 8) :: char) = char_of (48 + n mod 8) \<Longrightarrow> m mod 8 = (n mod 8 :: nat)"
proof -
  assume "(char_of (48 + m mod 8) :: char) = char_of (48 + n mod 8)"
  then have "(48 + m mod 8) mod 256 = (48 + n mod 8) mod 256" by (metis of_char_of)
  then show "m mod 8 = n mod 8" by simp
qed

lemma octal_digits_inject:
  "octal_digits k m = octal_digits k n \<Longrightarrow> m mod 8 ^ k = n mod 8 ^ k"
proof (induction k arbitrary: m n)
  case (Suc k)
  have "(char_of (48 + m mod 8) :: char) = char_of (48 + n mod 8)" "octal_digits k (m div 8) = octal_digits k (n div 8)"
    using Suc.prems by auto
  then have "m mod 8 = n mod 8" "m div 8 mod 8 ^ k = n div 8 mod 8 ^ k"
    using Suc.IH char_digit by blast+
  then show ?case by (simp add: mod_mult2_eq [of _ 8 "8 ^ k"])
qed simp

lemma perm_text_inject: "perm_text m = perm_text n \<Longrightarrow> m mod 512 = n mod 512"
  using octal_digits_inject [of 4 "m mod 512" "n mod 512"] by (simp add: perm_text_def)

text \<open>What is identified of an entry: its path, and the target of a link or permissions, size and digest of a file.\<close>

definition identified :: "tree_entry \<Rightarrow> tree_entry" where
  "identified e =
     (if ten_Symlink e then e\<lparr>ten_Mode := 0, ten_Size := 0, ten_Digest := []\<rparr>
      else e\<lparr>ten_Mode := ten_Mode e mod 512, ten_Target := []\<rparr>)"

definition nul_free :: "tree_entry \<Rightarrow> bool" where
  "nul_free e \<longleftrightarrow> CHR 0x00 \<notin> set (ten_Path e @ ten_Target e @ ten_Digest e)"

lemma octal_digits_set: "c \<in> set (octal_digits k n) \<Longrightarrow> 48 \<le> (of_char c :: nat)"
proof (induction k arbitrary: n)
  case (Suc k)
  have "(of_char (char_of (48 + n mod 8)) :: nat) = 48 + n mod 8" by (simp add: of_char_of)
  then show ?case using Suc by auto
qed simp

lemma entry_fields_nul: "nul_free e \<Longrightarrow> f \<in> set (entry_fields e) \<Longrightarrow> CHR 0x00 \<notin> set f"
  using octal_digits_set [of "CHR 0x00"] decimal_digits [of "CHR 0x00" "ten_Size e"]
  by (auto simp: entry_fields_def nul_free_def perm_text_def split: if_splits)

lemma fields_identify: "entry_fields e = entry_fields e' \<Longrightarrow> identified e = identified e'"
  using perm_text_inject [of "ten_Mode e" "ten_Mode e'"]
  by (cases e; cases e') (auto simp: entry_fields_def identified_def split: if_splits)

lemma fields_split:
  assumes "concat (map entry_fields es) = concat (map entry_fields es')"
  shows "map entry_fields es = map entry_fields es'"
  using assms
proof (induction es arbitrary: es')
  case Nil
  then show ?case by (cases es') (auto simp: entry_fields_def split: if_splits)
next
  case (Cons e es)
  obtain e' rest where es': "es' = e' # rest"
    using Cons.prems by (cases es') (auto simp: entry_fields_def split: if_splits)
  have "ten_Symlink e = ten_Symlink e'"
    using Cons.prems es' by (auto simp: entry_fields_def [of e] entry_fields_def [of e'] split: if_splits)
  then have "entry_fields e = entry_fields e' \<and> concat (map entry_fields es) = concat (map entry_fields rest)"
    using Cons.prems es' by (auto simp: entry_fields_def [of e] entry_fields_def [of e'] split: if_splits)
  then show ?case using Cons.IH es' by simp
qed

lemma map_determined: "map f xs = map f ys \<Longrightarrow> (\<And>a b. f a = f b \<Longrightarrow> g a = g b) \<Longrightarrow> map g xs = map g ys"
proof (induction xs arbitrary: ys)
  case (Cons x xs)
  obtain y zs where ys: "ys = y # zs" "f x = f y" "map f xs = map f zs" using Cons.prems(1) by (cases ys) simp_all
  show ?case using Cons.IH [OF ys(3) Cons.prems(2)] Cons.prems(2) [OF ys(2)] ys(1) by simp
qed simp

lemma document_fields: "tree_document es = concat (map nul_field (concat (map entry_fields es)))"
  by (simp add: tree_document_def map_concat comp_def) (induction es, simp_all)

text \<open>
  C13: The text that is hashed for a tree determines the entries: two trees with the same text have the
  same paths, link targets, permissions, sizes and digests, so nothing relevant can change under one identity.
\<close>

theorem tree_identity:
  assumes "\<forall>e\<in>set es. nul_free e" "\<forall>e\<in>set es'. nul_free e" "tree_document es = tree_document es'"
  shows "map identified es = map identified es'"
proof -
  have "concat (map entry_fields es) = concat (map entry_fields es')"
  proof (rule nul_fields_inject)
    show "\<forall>f\<in>set (concat (map entry_fields es)). CHR 0x00 \<notin> set f"
      "\<forall>f\<in>set (concat (map entry_fields es')). CHR 0x00 \<notin> set f"
      using assms(1,2) entry_fields_nul by fastforce+
    show "concat (map nul_field (concat (map entry_fields es))) = concat (map nul_field (concat (map entry_fields es')))"
      using assms(3) by (simp only: document_fields)
  qed
  from map_determined [OF fields_split [OF this] fields_identify] show ?thesis .
qed

lemma tree_identity_witness:
  "map identified [\<lparr>ten_Path = ''a'', ten_Symlink = False, ten_Mode = 33188, ten_Size = 3, ten_Target = [], ten_Digest = ''d''\<rparr>] =
   map identified [\<lparr>ten_Path = ''a'', ten_Symlink = False, ten_Mode = 420, ten_Size = 3, ten_Target = [], ten_Digest = ''d''\<rparr>]"
  by (rule tree_identity) (simp_all add: nul_free_def tree_document_def entry_fields_def perm_text_def)

subsection \<open>Differences\<close>

definition replay_change :: "(bytes \<rightharpoonup> bytes) \<Rightarrow> file_change \<Rightarrow> (bytes \<rightharpoonup> bytes)" where
  "replay_change m c = m(fch_Path c := (if fch_Kind c = Deleted then None else Some (fch_AfterSHA c)))"

lemma change_at_cases:
  "change_at before after p =
     (if map_of before p = map_of after p then []
      else [\<lparr>fch_Path = p,
             fch_Kind = (if map_of before p = None then Added else if map_of after p = None then Deleted else Modified),
             fch_BeforeSHA = (case map_of before p of None \<Rightarrow> [] | Some b \<Rightarrow> b),
             fch_AfterSHA = (case map_of after p of None \<Rightarrow> [] | Some a \<Rightarrow> a)\<rparr>])"
  by (auto simp: change_at_def split: option.split)

lemma change_paths: "map fch_Path (concat (map (change_at before after) ps)) = filter (\<lambda>p. map_of before p \<noteq> map_of after p) ps"
  by (induction ps) (simp_all add: change_at_cases)

lemma changed_path_listed:
  "map_of before p \<noteq> map_of after p \<Longrightarrow> p \<in> set (map fst before) \<union> set (map fst after)"
  by (metis UnI1 UnI2 list.set_map map_of_eq_None_iff)

lemma replay_paths:
  assumes "distinct ps"
  shows "foldl replay_change m (concat (map (change_at before after) ps)) p =
    (if p \<in> set ps \<and> map_of before p \<noteq> map_of after p then map_of after p else m p)"
  using assms by (induction ps arbitrary: m) (auto simp: change_at_cases replay_change_def split: option.split)

text \<open>
  C15: The changes reported between two trees are exactly the paths whose digests differ, each once and in
  order, and replaying them on the first tree yields the second.
\<close>

theorem changes_replay:
  "foldl replay_change (map_of before) (changes_between before after) = map_of after \<and>
   fch_Path ` set (changes_between before after) = {p. map_of before p \<noteq> map_of after p} \<and>
   sorted (map fch_Path (changes_between before after)) \<and> distinct (map fch_Path (changes_between before after))"
proof -
  let ?ps = "sort_key (\<lambda>p. p) (remdups (map fst before @ map fst after))"
  have ps: "distinct ?ps" "sorted ?ps" "set ?ps = set (map fst before) \<union> set (map fst after)"
    by (simp_all only: distinct_sort distinct_remdups set_sort set_remdups set_append)
      (metis sorted_sort_key list.map_ident)
  have listed: "map fch_Path (changes_between before after) = filter (\<lambda>p. map_of before p \<noteq> map_of after p) ?ps"
    unfolding changes_between_def by (rule change_paths)
  have "foldl replay_change (map_of before) (changes_between before after) p = map_of after p" for p
    using changed_path_listed [of before p after] ps(3)
    unfolding changes_between_def replay_paths [OF ps(1)] by auto
  moreover have "fch_Path ` set (changes_between before after) = {p. map_of before p \<noteq> map_of after p}"
    unfolding set_map [symmetric] listed set_filter ps(3)
    by (rule Collect_cong) (use changed_path_listed [of before _ after] in metis)
  moreover have "sorted (filter (\<lambda>p. map_of before p \<noteq> map_of after p) ?ps)"
    using ps(2) by (rule sorted_wrt_filter)
  ultimately show ?thesis unfolding listed using distinct_filter [OF ps(1)] by blast
qed

subsection \<open>Copies\<close>





subsection \<open>Runs that succeed\<close>

named_theorems run_simps \<open>when an action succeeds\<close>

lemma run_basic [run_simps]:
  "ret_s x s = (Inr y, s') \<longleftrightarrow> y = x \<and> s' = s"
  "lift_s r s = (Inr y, s') \<longleftrightarrow> r = Inr y \<and> s' = s"
  "read_s f s = (Inr y, s') \<longleftrightarrow> f s = Inr y \<and> s' = s"
  "bind_s g k s = (Inr y, s') \<longleftrightarrow> (\<exists>x s1. g s = (Inr x, s1) \<and> k x s1 = (Inr y, s'))"
  "also_s n m s = (Inr y, s') \<longleftrightarrow> (\<exists>s1. n s = (Inr (), s1) \<and> m s1 = (Inr y, s'))"
  "wrap_s fmt args m s = (Inr y, s') \<longleftrightarrow> m s = (Inr y, s')"
  by (auto simp: ret_s_def lift_s_def read_s_def bind_s_def also_s_def wrap_s_def wrap_error_def split: prod.splits sum.splits)

lemma run_reject [run_simps]: "reject_if b e = Inr u \<longleftrightarrow> \<not> b"
  by (simp add: reject_if_def)

lemma run_tree_sha [run_simps]:
  "tree_s (tree_sha256 io p) st = (Inr d, st') \<longleftrightarrow>
     st' = st \<and> fst (tree_sha256 io p (gho_Files (lis_Host st))) = Inr d"
proof -
  obtain r fs where run: "tree_sha256 io p (gho_Files (lis_Host st)) = (r, fs)" by fastforce
  have "maintains ((=) (gho_Files (lis_Host st))) (tree_sha256 io p)" by simp
  from leavesD [OF maintainsD [OF this refl] run] have "fs = gho_Files (lis_Host st)" by simp
  then show ?thesis using run by (auto simp: machine_s_def files_s_def)
qed

lemma run_sources [run_simps]:
  "sources_s env st = (Inr s, st') \<longleftrightarrow> read_canonical_sources (lie_Sql env) (lis_Db st) = Inr s \<and> st' = st"
  by (simp add: sources_s_def run_simps)

lemma read_artifacts: "read_canonical_sources f db = Inr s \<Longrightarrow> set (sst_Artifacts s) = set (db_Artifacts db)"
  by (auto simp: read_canonical_sources_def result_simps)

lemma run_register:
  assumes "state_change env (register_source_artifact cry f key a) st = (Inr (), st')"
  shows "lis_Host st' = lis_Host st \<and> a \<in> set (db_Artifacts (lis_Db st'))"
  using assms
  by (auto simp: state_change_def change_def op_def register_source_artifact_def insert_artifact_def insert_row_def
      result_simps split: option.splits sum.splits prod.splits)

subsection \<open>Imports\<close>

lemma snapshot_sha [simp]: "snr_SHA256 (snapshot_from_state a) = sar_SHA256 a"
  by (simp add: snapshot_from_state_def)

text \<open>
  What an import leaves after the verified tree: the same files, or these without the temporary directory that it had
  made first.
\<close>

definition tidied ::
  "('w, 'x) library_env_scheme \<Rightarrow> 'w library_state \<Rightarrow> 'w library_state \<Rightarrow> 'w library_state \<Rightarrow> bool" where
  "tidied env st verified st' \<longleftrightarrow> lis_Host st' = lis_Host verified \<or>
     (\<exists>tmp st1. machine_s (temp_dir env (lie_Root env @ [''snapshots'']) ''.import-'') st = (Inr tmp, st1) \<and>
        lis_Host st' = removing env tmp (lis_Host verified))"

lemma run_defer [run_simps]: "defer_s undo m s = (Inr y, s') \<longleftrightarrow> (\<exists>s1. m s = (Inr y, s1) \<and> s' = undo s1)"
  by (auto simp: defer_s_def split: prod.splits)

lemma run_stat [run_simps]: "tree_s (os_stat io p) st = (Inr x, st') \<longleftrightarrow> st' = st \<and> fst (os_stat io p (gho_Files (lis_Host st))) = Inr x"
proof -
  have "os_stat io p (gho_Files (lis_Host st)) = (fst (os_stat io p (gho_Files (lis_Host st))), gho_Files (lis_Host st))"
    by (rule os_lstat_reads(2))
  then obtain r where "os_stat io p (gho_Files (lis_Host st)) = (r, gho_Files (lis_Host st))" by blast
  then show ?thesis by (auto simp: machine_s_def files_s_def)
qed

lemma register_run:
  assumes "register_snapshot env kind package package_path version commit sha dst st = (Inr snap, st')"
  shows "snr_SHA256 snap = sha \<and> snap \<in> snapshot_from_state ` set (db_Artifacts (lis_Db st')) \<and>
    fst (tree_sha256 (gte_Os env) dst (gho_Files (lis_Host st))) = Inr sha \<and> lis_Host st' = lis_Host st"
  using assms unfolding register_snapshot_def Let_def run_simps
  by (auto dest!: run_register)

lemma import_run:
  assumes "import_snapshot env kind package package_path version commit src expected st = (Inr snap, st')"
  shows "fst (tree_sha256 (gte_Os env) src (gho_Files (lis_Host st))) = Inr (snr_SHA256 snap) \<and>
    expected \<in> {[], snr_SHA256 snap} \<and>
    snap \<in> snapshot_from_state ` set (db_Artifacts (lis_Db st')) \<and>
    (\<exists>verified. tidied env st verified st' \<and>
       fst (tree_sha256 (gte_Os env) (snapshot_path env (snr_SHA256 snap)) (gho_Files (lis_Host verified))) = Inr (snr_SHA256 snap))"
proof -
  from assms obtain sha s where sha: "fst (tree_sha256 (gte_Os env) src (gho_Files (lis_Host st))) = Inr sha"
      "expected = [] \<or> sha = expected" "read_canonical_sources (lie_Sql env) (lis_Db st) = Inr s"
    and rest: "(case find (same_source kind package commit sha) (sst_Artifacts s) of
       Some a \<Rightarrow> also_s (verify_snapshot env a) (ret_s (snapshot_from_state a))
     | None \<Rightarrow>
         (let dst = snapshot_path env sha; finish = register_snapshot env kind package package_path version commit sha dst in
          bind_s (tree_s (os_stat (gte_Os env) dst)) (\<lambda>there.
          case there of None \<Rightarrow> publish_snapshot env src sha dst finish | Some nd \<Rightarrow> finish))) st = (Inr snap, st')"
    unfolding import_snapshot_def run_basic run_tree_sha run_sources run_reject by blast
  show ?thesis
  proof (cases "find (same_source kind package commit sha) (sst_Artifacts s)")
    case (Some a)
    then have "a \<in> set (sst_Artifacts s)" "sar_SHA256 a = sha" by (auto simp: find_Some_iff same_source_def)
    then show ?thesis
      using rest Some sha read_artifacts [OF sha(3)] by (auto simp: verify_snapshot_def run_simps tidied_def)
  next
    case None
    let ?dst = "snapshot_path env sha" and ?finish = "register_snapshot env kind package package_path version commit sha (snapshot_path env sha)"
    have "?finish st = (Inr snap, st') \<or> publish_snapshot env src sha ?dst ?finish st = (Inr snap, st')"
      using rest None by (auto simp: Let_def run_simps split: option.splits)
    then obtain before after where run: "?finish before = (Inr snap, after)" "lis_Db st' = lis_Db after" "tidied env st before st'"
    proof
      assume "?finish st = (Inr snap, st')"
      then show thesis using that [of st st'] register_run [of env kind package package_path version commit sha ?dst st snap st']
        by (auto simp: tidied_def)
    next
      assume "publish_snapshot env src sha ?dst ?finish st = (Inr snap, st')"
      then obtain tmp st1 before after where "machine_s (temp_dir env (lie_Root env @ [''snapshots'']) ''.import-'') st = (Inr tmp, st1)"
          "?finish before = (Inr snap, after)" "st' = removing_tree env tmp after"
        unfolding publish_snapshot_def run_simps by blast
      then show thesis using that [of before after] register_run [of env kind package package_path version commit sha ?dst before snap after]
        by (auto simp: tidied_def)
    qed
    then show ?thesis using register_run [OF run(1)] sha by auto
  qed
qed

text \<open>
  C12: An import that succeeds has verified everything: the snapshot has the identity of the source (and
  the expected one, where one is expected), it is registered, and the tree in its place had that identity when it was
  registered; since then only the temporary directory of the import itself has been removed.
\<close>

theorem import_verified:
  "case import_snapshot env kind package package_path version commit src expected st of
     (Inl e, st') \<Rightarrow> True
   | (Inr snap, st') \<Rightarrow>
       fst (tree_sha256 (gte_Os env) src (gho_Files (lis_Host st))) = Inr (snr_SHA256 snap) \<and>
       expected \<in> {[], snr_SHA256 snap} \<and>
       snap \<in> snapshot_from_state ` set (db_Artifacts (lis_Db st')) \<and>
       (\<exists>verified. tidied env st verified st' \<and>
          fst (tree_sha256 (gte_Os env) (snapshot_path env (snr_SHA256 snap)) (gho_Files (lis_Host verified))) = Inr (snr_SHA256 snap))"
  using import_run [of env kind package package_path version commit src expected st]
  by (cases "import_snapshot env kind package package_path version commit src expected st") (auto split: sum.split)

subsection \<open>Links\<close>





section \<open>An export needs a snapshot for each artifact\<close>

text \<open>
  Two artifacts may have the same content, and then name the same snapshot: a custom module that is
  loaded twice is registered twice. The export copies the snapshot of each artifact to the place of its name, and
  a copy makes every file anew: the second copy finds the files of the first and fails.
\<close>

subsection \<open>Copies are only added to\<close>

lemma framed_maintains: "growth.framed m \<Longrightarrow> maintains (grown fs) m"
  unfolding growth.framed_def maintains_def leaves_def by (metis (mono_tags, lifting) case_prodI2 growth.keeps_trans)

lemma maintains_looking: "(\<And>s. maintains K (f s)) \<Longrightarrow> maintains K (\<lambda>s. f s s)"
  by (simp add: maintains_def leaves_def)

lemma mkdir_grows [intro!]: "maintains (grown fs) (os_mkdir io p mode)"
  unfolding os_mkdir_def by (intro framed_maintains grown_add_entry grown_put)

lemma mkdir_up_grows: "maintains (grown fs) (mkdir_up io mode up)"
proof (induction up)
  case (Cons c up)
  let ?make = "also_s (mkdir_up io mode up)
            (rescue_s (os_mkdir io (rev (c # up)) mode) (\<lambda>e. read_s (\<lambda>fs'.
               case fst (os_lstat io (rev (c # up)) fs') of
                 Inr (Some (Directory a)) \<Rightarrow> Inr ()
               | _ \<Rightarrow> Inl e)))"
  have "maintains (grown fs) ?make" using Cons by auto
  then have "maintains (grown fs) (case x of
        Inr (Some (Directory a)) \<Rightarrow> ret_s ()
      | Inr (Some nd) \<Rightarrow> lift_s (Inl err_not_dir)
      | _ \<Rightarrow> ?make)" for x :: "node option result" by (auto split: sum.split option.split node.split)
  then have "maintains (grown fs) (\<lambda>s. (case fst (os_stat io (rev (c # up)) s) of
        Inr (Some (Directory a)) \<Rightarrow> ret_s ()
      | Inr (Some nd) \<Rightarrow> lift_s (Inl err_not_dir)
      | _ \<Rightarrow> ?make) s)" by (rule maintains_looking)
  moreover have "mkdir_up io mode (c # up) = (\<lambda>s. (case fst (os_stat io (rev (c # up)) s) of
        Inr (Some (Directory a)) \<Rightarrow> ret_s ()
      | Inr (Some nd) \<Rightarrow> lift_s (Inl err_not_dir)
      | _ \<Rightarrow> ?make) s)" by (rule ext) (simp split: sum.split option.split node.split)
  ultimately show ?case by simp
qed simp

lemma mkdir_all_grows [intro!]: "maintains (grown fs) (os_mkdir_all io p mode)"
  unfolding os_mkdir_all_def by (rule mkdir_up_grows)

lemma write_new_grows [intro!]: "maintains (grown fs) (os_write_new io p mode body)"
proof -
  have "maintains (grown fs) (add_entry io ''create'' p (make_file io mode body))" for body
    by (intro framed_maintains grown_add_entry grown_make_file)
  then show ?thesis unfolding os_write_new_def by (auto split: option.split)
qed

lemma symlink_grows [intro!]: "maintains (grown fs) (os_symlink io t p)"
  unfolding os_symlink_def by (intro framed_maintains grown_add_entry grown_put)

lemma copy_visit_grows [intro!]: "maintains (grown fs) (copy_visit io src dst u p nd)"
  unfolding copy_visit_def by (auto split: node.split option.split)

lemma copy_tree_grows [intro!]: "maintains (grown fs) (copy_tree io src dst)"
  unfolding copy_tree_def by auto

subsection \<open>What a copy occupies\<close>

definition occupied :: "files \<Rightarrow> path \<Rightarrow> bool" where
  "occupied fs p \<longleftrightarrow> (\<exists>q. located fs p = Inr (Some q) \<and> node_at fs q \<noteq> None)"

lemma occupied_grown: "grown fs fs' \<Longrightarrow> occupied fs p \<Longrightarrow> occupied fs' p"
  unfolding occupied_def grown_def by (metis located_grown not_None_eq grown_def)

text \<open>Making an entry succeeds only where nothing is, and then something is there.\<close>

lemma add_entry_occupies:
  assumes "\<And>q fs. node_at fs q = None \<Longrightarrow> grown fs (mk q fs) \<and> node_at (mk q fs) q \<noteq> None"
  shows "leaves (add_entry io call p mk) (\<lambda>r fs'. r = Inr () \<longrightarrow> \<not> occupied fs p \<and> occupied fs' p) fs"
proof -
  have "occupied (mk q fs) p" if "located fs p = Inr (Some q)" "node_at fs q = None" for q
    using located_grown [OF _ that(1)] assms [OF that(2)] by (auto simp: occupied_def)
  then show ?thesis
    by (cases "located fs p"; cases "projr (located fs p)")
      (auto simp: add_entry_def at_place_def reject_if_def occupied_def try_s_def split: option.split)
qed

lemma copy_visit_occupies:
  assumes "\<not> is_directory (Some nd)"
  shows "leaves (copy_visit io src dst u p nd) (\<lambda>r fs'. r = Inr () \<longrightarrow> \<not> occupied fs (dst @ p) \<and> occupied fs' (dst @ p)) fs"
proof -
  have made: "leaves (add_entry io ''create'' q (make_file io mode body)) (\<lambda>r fs'. r = Inr () \<longrightarrow> \<not> occupied fs q \<and> occupied fs' q) fs"
    for q mode body
    by (rule add_entry_occupies, intro conjI grown_make_file) (simp_all add: make_file_def put_node_def update_conv)
  have link: "leaves (os_symlink io t q) (\<lambda>r fs'. r = Inr () \<longrightarrow> \<not> occupied fs q \<and> occupied fs' q) fs" for t q
    unfolding os_symlink_def by (rule add_entry_occupies, intro conjI grown_put) (simp_all add: put_node_def update_conv)
  have new: "leaves (os_write_new io q mode body) (\<lambda>r fs'. r = Inr () \<longrightarrow> \<not> occupied fs q \<and> occupied fs' q) fs" for q mode body
  proof (cases "ose_Fail io ''write'' q")
    case None
    then show ?thesis
      unfolding os_write_new_def by simp (rule leaves_mono [OF made], auto simp: goes_on_def split: sum.split option.split)
  next
    case (Some e)
    then show ?thesis
      unfolding os_write_new_def by simp (rule leaves_mono [OF made], auto simp: goes_on_def split: sum.split)
  qed
  show ?thesis
    using assms new link
    by (cases nd) (auto simp: copy_visit_def split: option.split sum.split)
qed

text \<open>A tree with an entry that is no directory, and a place where a copy of that entry is.\<close>

definition filled :: "files \<Rightarrow> path \<Rightarrow> path \<Rightarrow> bool" where
  "filled fs src dst \<longleftrightarrow>
     (\<exists>q p nd. located fs src = Inr (Some q) \<and> is_directory (node_at fs q) \<and> p \<noteq> [] \<and> node_at fs (q @ p) = Some nd \<and>
        \<not> is_directory (Some nd) \<and> occupied fs (dst @ p))"

definition has_entry :: "files \<Rightarrow> path \<Rightarrow> bool" where
  "has_entry fs src \<longleftrightarrow>
     (\<exists>q p nd. located fs src = Inr (Some q) \<and> is_directory (node_at fs q) \<and> p \<noteq> [] \<and> node_at fs (q @ p) = Some nd \<and>
        \<not> is_directory (Some nd))"

lemma grown_entry:
  "grown fs fs' \<Longrightarrow> node_at fs q = Some nd \<Longrightarrow> \<not> is_directory (Some nd) \<Longrightarrow>
   \<exists>nd'. node_at fs' q = Some nd' \<and> \<not> is_directory (Some nd')"
  by (fastforce simp: grown_def is_directory_iff elim: same_kind.elims)

lemma filled_grown:
  assumes "grown fs fs'" "filled fs src dst"
  shows "filled fs' src dst"
proof -
  obtain q p nd where q: "located fs src = Inr (Some q)" "is_directory (node_at fs q)" "p \<noteq> []" "node_at fs (q @ p) = Some nd"
    "\<not> is_directory (Some nd)" "occupied fs (dst @ p)"
    using assms(2) by (auto simp: filled_def)
  from grown_entry [OF assms(1) q(4,5)] show ?thesis
    using located_grown [OF assms(1) q(1)] grown_directory [OF assms(1) q(2)] q(3) occupied_grown [OF assms(1) q(6)]
    unfolding filled_def by blast
qed

text \<open>The loop of a copy, over the entries that it has listed.\<close>

lemma copy_loop:
  assumes "map fst es = ps" "distinct ps"
  shows "leaves (fold_s (\<lambda>b (p, nd). bind_s (copy_visit io src dst b p nd) (\<lambda>b'.
        if is_directory (Some nd) \<and> \<not> False then try_s io ''readdir'' (src @ p) (ret_s b') else ret_s b')) () es)
     (goes_on (\<lambda>_ fs'. grown fs fs' \<and>
        (\<forall>(p, nd)\<in>set es. \<not> is_directory (Some nd) \<longrightarrow> \<not> occupied fs (dst @ p) \<and> occupied fs' (dst @ p)))
       (\<lambda>_ _. True)) fs"
proof (rule leaves_fold [where I = "\<lambda>seen _ fs'. grown fs fs' \<and>
        (\<forall>(p, nd)\<in>set seen. \<not> is_directory (Some nd) \<longrightarrow> \<not> occupied fs (dst @ p) \<and> occupied fs' (dst @ p))"])
  show "grown fs fs \<and> (\<forall>(p, nd)\<in>set []. \<not> is_directory (Some nd) \<longrightarrow> \<not> occupied fs (dst @ p) \<and> occupied fs (dst @ p))"
    by (simp add: growth.keeps_refl)
  fix seen :: "(path \<times> node) list" and x :: "path \<times> node" and todo and b :: unit and fs1
  let ?I = "\<lambda>seen fs'. grown fs fs' \<and>
        (\<forall>(p, nd)\<in>set seen. \<not> is_directory (Some nd) \<longrightarrow> \<not> occupied fs (dst @ p) \<and> occupied fs' (dst @ p))"
  assume I: "?I seen fs1"
  obtain p nd where x: "x = (p, nd)" by fastforce
  have grow: "leaves (copy_visit io src dst b p nd) (\<lambda>r. grown fs1) fs1"
    using maintainsD [OF copy_visit_grows growth.keeps_refl] .
  have later: "?I seen fs2" if "grown fs1 fs2" for fs2
    using I that growth.keeps_trans occupied_grown by blast
  have visit: "leaves (copy_visit io src dst b p nd) (\<lambda>r fs2. r = Inr () \<longrightarrow> ?I (seen @ [x]) fs2) fs1"
  proof (cases "is_directory (Some nd)")
    case True
    then show ?thesis by (intro leaves_mono [OF grow]) (use later x in auto)
  next
    case False
    from leaves_conj [THEN iffD2, OF conjI [OF grow copy_visit_occupies [OF False]]]
    show ?thesis
      by (rule leaves_mono) (use later x I occupied_grown in auto)
  qed
  show "leaves (case x of (p, nd) \<Rightarrow> bind_s (copy_visit io src dst b p nd) (\<lambda>b'.
        if is_directory (Some nd) \<and> \<not> False then try_s io ''readdir'' (src @ p) (ret_s b') else ret_s b'))
      (goes_on (\<lambda>b'. ?I (seen @ [x])) (\<lambda>_ _. True)) fs1"
    unfolding x prod.case
    by (rule leaves_bindI [OF visit]) (auto simp: x split: option.split)
qed

lemma copy_tree_fills:
  "leaves (copy_tree io src dst)
    (\<lambda>r fs'. r = Inr () \<longrightarrow> (has_entry fs src \<longrightarrow> \<not> filled fs src dst \<and> filled fs' src dst)) fs"
proof -
  have walk: "leaves (walk_dir io (\<lambda>_. False) (copy_visit io src dst) src ())
      (\<lambda>r fs'. r = Inr () \<longrightarrow> (has_entry fs src \<longrightarrow> \<not> filled fs src dst \<and> filled fs' src dst)) fs1"
    if grown: "grown fs fs1" for fs1
  proof (cases "has_entry fs src")
    case True
    then obtain q p nd where q: "located fs src = Inr (Some q)" "is_directory (node_at fs q)" by (auto simp: has_entry_def)
    have q1: "located fs1 src = Inr (Some q)" "is_directory (node_at fs1 q)"
      using located_grown [OF grown q(1)] grown_directory [OF grown q(2)] by auto
    obtain a where a: "node_at fs1 q = Some (Directory a)" using q1(2) by (auto simp: is_directory_iff)
    let ?P = "\<lambda>_ fs'. grown fs1 fs' \<and> (\<forall>(p, nd)\<in>set (tree_below fs1 q). \<not> is_directory (Some nd) \<longrightarrow>
        \<not> occupied fs1 (dst @ p) \<and> occupied fs' (dst @ p))"
    have after: "\<not> filled fs src dst \<and> filled fs' src dst" if P: "?P () fs'" for fs'
    proof -
      have listed: "\<exists>nd'. (p, nd') \<in> set (tree_below fs1 q) \<and> \<not> is_directory (Some nd')"
        if "p \<noteq> []" "node_at fs (q @ p) = Some nd" "\<not> is_directory (Some nd)" for p nd
        using grown_entry [OF grown that(2,3)] that(1) by (auto simp: tree_below_iff)
      have no: "\<not> filled fs src dst"
      proof
        assume "filled fs src dst"
        then obtain p nd where p: "p \<noteq> []" "node_at fs (q @ p) = Some nd" "\<not> is_directory (Some nd)" "occupied fs (dst @ p)"
          using q(1) by (auto simp: filled_def)
        then show False using listed [OF p(1-3)] P occupied_grown [OF grown] by blast
      qed
      obtain p nd where p: "p \<noteq> []" "node_at fs (q @ p) = Some nd" "\<not> is_directory (Some nd)"
        using True q(1) by (auto simp: has_entry_def)
      have "occupied fs' (dst @ p)" using listed [OF p] P by blast
      moreover have "grown fs fs'" using P grown growth.keeps_trans by blast
      ultimately have "filled fs' src dst"
        using located_grown [OF _ q(1)] grown_directory [OF _ q(2)] grown_entry [OF _ p(2,3)] p(1) unfolding filled_def by blast
      then show ?thesis using no by blast
    qed
    have "distinct (map fst (tree_below fs1 q))" using sorted_tree_below by blast
    from copy_loop [OF refl this, of io src dst fs1]
    have "leaves (fold_s (\<lambda>b (p, nd). bind_s (copy_visit io src dst b p nd) (\<lambda>b'.
        if is_directory (Some nd) \<and> \<not> False then try_s io ''readdir'' (src @ p) (ret_s b') else ret_s b')) () (tree_below fs1 q))
      (\<lambda>r fs'. r = Inr () \<longrightarrow> \<not> filled fs src dst \<and> filled fs' src dst) fs1"
    proof (rule leaves_mono)
      fix r :: "unit result" and fs'
      assume post: "goes_on ?P (\<lambda>_ _. True) r fs'"
      show "r = Inr () \<longrightarrow> \<not> filled fs src dst \<and> filled fs' src dst"
      proof
        assume "r = Inr ()"
        then have "?P () fs'" using post by simp
        then show "\<not> filled fs src dst \<and> filled fs' src dst" by (rule after)
      qed
    qed
    then show ?thesis
      using True by (simp add: walk_dir_def os_lstat_def try_s_def q1(1) a at_place_def split: option.split)
  qed (simp add: leaves_def split: prod.split)
  show ?thesis
    unfolding copy_tree_def
    by (rule leaves_alsoI [OF maintainsD [OF mkdir_all_grows growth.keeps_refl] walk]) auto
qed

subsection \<open>A tree with an identity has an entry\<close>

lemma tree_visit_reads:
  "leaves (tree_visit io root resolved es p nd) (\<lambda>r fs'. fs' = fs \<and> (\<forall>es'. r = Inr es' \<longrightarrow> es' = es \<or> \<not> is_directory (Some nd))) fs"
proof -
  have "maintains ((=) fs) (tree_visit io root resolved es p nd)" by (auto simp: tree_visit_def split: node.split)
  note here = maintainsD [OF this refl]
  show ?thesis
  proof (cases "is_directory (Some nd)")
    case True
    then show ?thesis by (auto simp: tree_visit_def is_directory_iff)
  next
    case False
    then show ?thesis by (intro leaves_mono [OF here]) simp
  qed
qed

lemma walk_reads:
  assumes "located fs root = Inr (Some q)" "is_directory (node_at fs q)"
  shows "leaves (walk_dir io skipped_dir (tree_visit io root resolved) root [])
    (\<lambda>r fs'. \<forall>es. r = Inr es \<and> es \<noteq> [] \<longrightarrow> has_entry fs root) fs"
proof -
  obtain a where a: "node_at fs q = Some (Directory a)" using assms(2) by (auto simp: is_directory_iff)
  let ?es = "filter (\<lambda>(p, nd). \<not> pruned skipped_dir p) (tree_below fs q)"
  let ?I = "\<lambda>seen es fs'. fs' = fs \<and> (es = [] \<or> (\<exists>(p, nd)\<in>set seen. \<not> is_directory (Some nd)))"
  have "leaves (fold_s (\<lambda>b (p, nd). bind_s (tree_visit io root resolved b p nd) (\<lambda>b'.
        if is_directory (Some nd) \<and> \<not> skipped_dir p then try_s io ''readdir'' (root @ p) (ret_s b') else ret_s b')) [] ?es)
      (goes_on (\<lambda>es. ?I ?es es) (\<lambda>_ _. True)) fs"
  proof (rule leaves_fold [where I = ?I])
    fix seen :: "(path \<times> node) list" and x :: "path \<times> node" and todo and b :: "tree_entry list" and fs1
    assume I: "?I seen b fs1"
    obtain p nd where x: "x = (p, nd)" by fastforce
    show "leaves (case x of (p, nd) \<Rightarrow> bind_s (tree_visit io root resolved b p nd) (\<lambda>b'.
        if is_directory (Some nd) \<and> \<not> skipped_dir p then try_s io ''readdir'' (root @ p) (ret_s b') else ret_s b'))
      (goes_on (\<lambda>es. ?I (seen @ [x]) es) (\<lambda>_ _. True)) fs1"
      unfolding x prod.case
      by (rule leaves_bindI [OF tree_visit_reads]) (use I x in \<open>auto simp: try_s_def split: option.split\<close>)
  qed simp
  then have "leaves (fold_s (\<lambda>b (p, nd). bind_s (tree_visit io root resolved b p nd) (\<lambda>b'.
        if is_directory (Some nd) \<and> \<not> skipped_dir p then try_s io ''readdir'' (root @ p) (ret_s b') else ret_s b')) [] ?es)
      (\<lambda>r fs'. \<forall>es. r = Inr es \<and> es \<noteq> [] \<longrightarrow> has_entry fs root) fs"
  proof (rule leaves_mono)
    fix r :: "tree_entry list result" and fs'
    assume post: "goes_on (\<lambda>es. ?I ?es es) (\<lambda>_ _. True) r fs'"
    show "\<forall>es. r = Inr es \<and> es \<noteq> [] \<longrightarrow> has_entry fs root"
    proof (intro allI impI, elim conjE)
      fix es assume "r = Inr es" "es \<noteq> []"
      then obtain p nd where "(p, nd) \<in> set (tree_below fs q)" "\<not> is_directory (Some nd)" using post by auto
      then show "has_entry fs root" using assms by (auto simp: has_entry_def tree_below_iff)
    qed
  qed
  then show ?thesis
    by (simp add: walk_dir_def os_lstat_def try_s_def assms(1) a at_place_def split: option.split)
qed

lemma identity_entry:
  assumes "fst (tree_sha256 io root fs) = Inr d"
  shows "has_entry fs root"
proof -
  obtain fs' where run: "tree_sha256 io root fs = (Inr d, fs')" using assms by (metis prod.collapse)
  then obtain es x r fs1 fs2 where
    stat: "os_lstat io root fs = (Inr x, fs1)" "is_directory x"
    and walk: "walk_dir io skipped_dir (tree_visit io root r) root [] fs1 = (Inr es, fs2)" "es \<noteq> []"
    by (auto simp: tree_sha256_def source_entries_def run_simps split: option.splits)
  have "fs1 = fs" and "\<exists>q. located fs root = Inr (Some q) \<and> x = node_at fs q"
    using stat by (auto simp: os_lstat_def try_s_def run_simps result_simps lift_s_def bind_eq_Some_conv is_directory_iff split: option.splits)
  then show ?thesis using leavesD [OF walk_reads walk(1)] stat(2) walk(2) by blast
qed

subsection \<open>The export\<close>

lemma run_tree [run_simps]:
  "tree_s (copy_tree io src dst) st = (Inr y, st') \<longleftrightarrow>
     (\<exists>fs. copy_tree io src dst (gho_Files (lis_Host st)) = (Inr y, fs) \<and>
        st' = st\<lparr>lis_Host := (lis_Host st)\<lparr>gho_Files := fs\<rparr>\<rparr>)"
  by (auto simp: machine_s_def files_s_def split: prod.splits)

definition canonical_ref :: "source_artifact \<Rightarrow> bool" where
  "canonical_ref a \<longleftrightarrow> sar_StorageRef a = ''snapshots/sha256/'' @ sar_SHA256 a"

lemma exported_fills:
  assumes "canonical_ref a" "export_artifact_tree env destination a st = (Inr (), st')"
  shows "\<not> filled (gho_Files (lis_Host st)) (snapshot_path env (sar_SHA256 a)) (join_path destination (sar_StorageRef a)) \<and>
    filled (gho_Files (lis_Host st')) (snapshot_path env (sar_SHA256 a)) (join_path destination (sar_StorageRef a))"
proof -
  let ?src = "snapshot_path env (sar_SHA256 a)"
  from assms(2) obtain src fs where src: "portable_ref_path (lie_Root env) (sar_StorageRef a) = Inr src"
    and sha: "fst (tree_sha256 (gte_Os env) ?src (gho_Files (lis_Host st))) = Inr (sar_SHA256 a)"
    and copy: "copy_tree (gte_Os env) src (join_path destination (sar_StorageRef a)) (gho_Files (lis_Host st)) = (Inr (), fs)"
    and st': "gho_Files (lis_Host st') = fs"
    by (auto simp: export_artifact_tree_def verify_snapshot_def run_simps)
  have "src = ?src" using src assms(1) by (auto simp: portable_ref_path_def result_simps Let_def canonical_ref_def snapshot_path_def)
  then show ?thesis using leavesD [OF copy_tree_fills copy] identity_entry [OF sha] st' by simp
qed

lemma export_grows: "maintains (on_tree (grown fs)) (export_artifact_tree env destination a)"
  unfolding export_artifact_tree_def by auto

lemma blocked_export:
  assumes "canonical_ref b" "b \<in> set as"
    and "filled (gho_Files (lis_Host st)) (snapshot_path env (sar_SHA256 b)) (join_path destination (sar_StorageRef b))"
  shows "each_s (export_artifact_tree env destination) as st \<noteq> (Inr (), st')"
  using assms(2,3)
proof (induction as arbitrary: st)
  case (Cons x as)
  show ?case
  proof
    assume "each_s (export_artifact_tree env destination) (x # as) st = (Inr (), st')"
    then obtain st1 where st1: "export_artifact_tree env destination x st = (Inr (), st1)"
        "each_s (export_artifact_tree env destination) as st1 = (Inr (), st')"
      by (auto simp: run_simps)
    have "x \<noteq> b" using exported_fills [OF assms(1)] st1(1) Cons.prems(2) by blast
    moreover have "grown (gho_Files (lis_Host st)) (gho_Files (lis_Host st1))"
      using leavesD [OF maintainsD [OF export_grows growth.keeps_refl] st1(1)] .
    ultimately show False using Cons.IH [of st1] Cons.prems st1(2) filled_grown by auto
  qed
qed simp

lemma shared_export:
  assumes "canonical_ref a" "canonical_ref b" "a \<noteq> b" "sar_SHA256 a = sar_SHA256 b" "a \<in> set as" "b \<in> set as"
  shows "each_s (export_artifact_tree env destination) as st \<noteq> (Inr (), st')"
  using assms(5,6)
proof (induction as arbitrary: st)
  case (Cons x as)
  have ref: "sar_StorageRef a = sar_StorageRef b" using assms(1,2,4) by (simp add: canonical_ref_def)
  show ?case
  proof
    assume "each_s (export_artifact_tree env destination) (x # as) st = (Inr (), st')"
    then obtain st1 where st1: "export_artifact_tree env destination x st = (Inr (), st1)"
        "each_s (export_artifact_tree env destination) as st1 = (Inr (), st')"
      by (auto simp: run_simps)
    show False
    proof (cases "x = a \<or> x = b")
      case True
      then have "filled (gho_Files (lis_Host st1)) (snapshot_path env (sar_SHA256 b)) (join_path destination (sar_StorageRef b))"
        using exported_fills [OF assms(1)] exported_fills [OF assms(2)] st1(1) assms(4) ref by metis
      then have "a \<notin> set as" "b \<notin> set as"
        using blocked_export [OF assms(1)] blocked_export [OF assms(2)] st1(2) assms(4) ref by metis+
      then show False using Cons.prems assms(3) by auto
    next
      case False
      then show False using Cons st1(2) by auto
    qed
  qed
qed simp

text \<open>
  An export never succeeds while two artifacts name the same snapshot, as they do when a custom module
  is loaded twice: the second copy finds the files of the first in its place.
\<close>

theorem shared_snapshot_blocks_export:
  assumes "{a, b} \<subseteq> set (db_Artifacts (lis_Db st))" "a \<noteq> b" "sar_SHA256 a = sar_SHA256 b" "canonical_ref a" "canonical_ref b"
  shows "\<exists>e st'. export_sources env destination st = (Inl e, st')"
proof (rule ccontr)
  assume "\<not> ?thesis"
  then obtain st' where "export_sources env destination st = (Inr (), st')" by (metis (full_types) old.unit.exhaust sum.exhaust surj_pair)
  then obtain s st1 st2 where s: "read_canonical_sources (lie_Sql env) (lis_Db st) = Inr s"
      "each_s (export_artifact_tree env destination) (sst_Artifacts s) st1 = (Inr (), st2)"
    by (auto simp: export_sources_def run_simps)
  show False
    using shared_export [OF assms(4,5,2,3)] s(2) assms(1) read_artifacts [OF s(1)] by blast
qed

definition twice_loaded :: "bytes \<Rightarrow> source_artifact" where
  "twice_loaded i =
     \<lparr>sar_ID = i, sar_Kind = Source_Custom_Module, sar_PackageID = ''module-pkg_'' @ i, sar_PackagePath = ''p'', sar_Version = ''1'',
      sar_Commit = ''c0'', sar_SHA256 = ''aa'', sar_StorageRef = ''snapshots/sha256/aa''\<rparr>"

lemma shared_snapshot_blocks_export_witness:
  "\<exists>e st'. export_sources shelf_env [''out'']
     (shelf_state\<lparr>lis_Db := empty_db\<lparr>db_Artifacts := [twice_loaded ''1'', twice_loaded ''2'']\<rparr>\<rparr>) = (Inl e, st')"
  by (rule shared_snapshot_blocks_export [where a = "twice_loaded ''1''" and b = "twice_loaded ''2''"])
    (simp_all add: canonical_ref_def twice_loaded_def)

end
