(* ===== verification/Bootstrap.thy ===== *)
theory Bootstrap
  imports Source_Library Gateway_Trust Deploy_Bootstrap
begin

section \<open>A new target\<close>

text \<open>
  \<open>internal/bootstrap\<close>: the coordinator brings the source library, the gateway and the renderer of the
  Cloud-init document together. All three work on one management state; the machine with the sources
  and the world behind the gateway are the rest of the state.
\<close>

record ('w, 'g) coordinator_env =
  cor_Library :: "'w library_env"
  cor_Gateway :: "'g gateway_env"
  cor_Render :: "bytes \<Rightarrow> (bytes \<times> bytes) list \<Rightarrow> rendered"
  cor_NewTargetID :: "bytes result"

record ('w, 'g) coordinator_state =
  cos_Db :: db
  cos_Host :: "'w git_host"
  cos_World :: 'g

definition library_c :: "('w library_state, 'a) action \<Rightarrow> (('w, 'g) coordinator_state, 'a) action" where
  "library_c m st =
     (case m \<lparr>lis_Db = cos_Db st, lis_Host = cos_Host st\<rparr> of (r, l) \<Rightarrow> (r, st\<lparr>cos_Db := lis_Db l, cos_Host := lis_Host l\<rparr>))"

definition gateway_c :: "('g gateway_state, 'a) action \<Rightarrow> (('w, 'g) coordinator_state, 'a) action" where
  "gateway_c m st =
     (case m \<lparr>gws_Db = cos_Db st, gws_World = cos_World st\<rparr> of (r, g) \<Rightarrow> (r, st\<lparr>cos_Db := gws_Db g, cos_World := gws_World g\<rparr>))"

definition change_c :: "('w, 'g) coordinator_env \<Rightarrow> (db \<Rightarrow> db result) \<Rightarrow> (('w, 'g) coordinator_state, unit) action" where
  "change_c env g st = (case change (lie_Sql (cor_Library env)) (op g) (cos_Db st) of (r, db') \<Rightarrow> (r, st\<lparr>cos_Db := db'\<rparr>))"

record new_target_request =
  ntr_Hostname :: bytes
  ntr_Timezone :: bytes
  ntr_Administrator :: bytes

record prepared_target =
  ptg_TargetID :: bytes
  ptg_SSHIdentity :: ssh_identity
  ptg_CloudInitSource :: snapshot_ref
  ptg_CloudInit :: bootstrap_artifact

definition cloud_init_template_path :: bytes where "cloud_init_template_path = ''cloud-init.yaml.tmpl''"

definition cloud_init_of :: "snapshot_ref \<Rightarrow> new_target_request \<Rightarrow> cloud_init_desired" where
  "cloud_init_of source req =
     \<lparr>cid_SourceSnapshotID = snr_ID source, cid_DefinitionVersion = snr_Version source, cid_SourceSHA256 = snr_SHA256 source,
      cid_RenderedSHA256 = [], cid_Hostname = ntr_Hostname req, cid_Timezone = ntr_Timezone req,
      cid_Administrator = ntr_Administrator req\<rparr>"

text \<open>A desired state with the Cloud-init part alone: the rest are zero values.\<close>

definition bootstrap_desired :: "cloud_init_desired \<Rightarrow> desired_state" where
  "bootstrap_desired d =
     \<lparr>dst_CloudInit = d, dst_Core = \<lparr>cod_SourceID = [], cod_Version = [], cod_Swap = \<lparr>swp_Mode = [], swp_SizeGiB = 0\<rparr>\<rparr>,
      dst_Modules = []\<rparr>"

definition released_template :: "('w, 'g) coordinator_env \<Rightarrow> (('w, 'g) coordinator_state, snapshot_ref \<times> bytes) action" where
  "released_template env =
     bind_s (wrap_s ''resolve released Cloud-init source: %w'' []
        (library_c (current_embedded (cor_Library env) Source_Cloud_Init))) (\<lambda>(source, root).
     bind_s (wrap_s ''read released Cloud-init template: %w'' []
        (library_c (tree_s (read_s (read_file (gte_Os (cor_Library env)) (root @ [cloud_init_template_path])))))) (\<lambda>template.
     ret_s (source, template)))"

definition register_target ::
  "('w, 'g) coordinator_env \<Rightarrow> new_target_request \<Rightarrow> bytes \<Rightarrow> snapshot_ref \<Rightarrow> bytes \<Rightarrow> (('w, 'g) coordinator_state, prepared_target) action" where
  "register_target env req i source template =
     (let lib = cor_Library env; desired = cloud_init_of source req in
      also_s (change_c env (create_pending_target (lie_Sql lib) i (ntr_Administrator req)))
     (bind_s (gateway_c (ensure_identity (cor_Gateway env) i)) (\<lambda>identity.
      bind_s (lift_s (prepare_bootstrap (cor_Render env)
         \<lparr>brq_TargetID = i, brq_Desired = desired, brq_SSHPublicKey = shi_PublicKey identity,
          brq_Source = \<lparr>bso_SnapshotID = snr_ID source, bso_Version = snr_Version source, bso_SHA256 = snr_SHA256 source,
            bso_Template = template\<rparr>\<rparr>)) (\<lambda>a.
      also_s (wrap_s ''record Cloud-init desired state: %w'' []
         (change_c env (set_desired_state (lie_Crypto lib) (lie_Sql lib) (lie_Key lib) i
           (bootstrap_desired (desired\<lparr>cid_RenderedSHA256 := bar_SHA256 a\<rparr>)))))
        (ret_s \<lparr>ptg_TargetID = i, ptg_SSHIdentity = identity, ptg_CloudInitSource = source, ptg_CloudInit = a\<rparr>)))))"

definition prepare_new_target ::
  "('w, 'g) coordinator_env \<Rightarrow> new_target_request \<Rightarrow> (('w, 'g) coordinator_state, prepared_target) action" where
  "prepare_new_target env req =
     bind_s (released_template env) (\<lambda>(source, template).
     also_s (wrap_s ''validate Cloud-init target values: %w'' [] (lift_s (validate_bootstrap_desired (cloud_init_of source req))))
    (bind_s (lift_s (cor_NewTargetID env)) (\<lambda>i. register_target env req i source template)))"

definition set_address :: "('w, 'g) coordinator_env \<Rightarrow> bytes \<Rightarrow> bytes \<Rightarrow> (('w, 'g) coordinator_state, unit) action" where
  "set_address env i address = change_c env (set_target_address (lie_Sql (cor_Library env)) i address)"

subsection \<open>The row of the target\<close>

definition same_db :: "('w, 'g) coordinator_state \<Rightarrow> ('w, 'g) coordinator_state \<Rightarrow> bool" where
  "same_db st st' \<longleftrightarrow> cos_Db st' = cos_Db st"

definition same_library :: "'w library_state \<Rightarrow> 'w library_state \<Rightarrow> bool" where
  "same_library st st' \<longleftrightarrow> lis_Db st' = lis_Db st"

interpretation kept: frame same_db
  by unfold_locales (simp_all add: same_db_def)

interpretation reading: frame same_library
  by unfold_locales (simp_all add: same_library_def)

lemma machine_reading [intro]: "reading.framed (machine_s m)"
  by (simp add: reading.framed_def same_library_def machine_s_def split: prod.split)

lemma sources_reading [intro]: "reading.framed (sources_s env)"
  by (simp add: sources_s_def)

lemma verify_reading [intro]: "reading.framed (verify_snapshot env a)"
  unfolding verify_snapshot_def by (intro reading.framed_bind reading.framed_wrap reading.framed_ret machine_reading)

lemma embedded_reading: "reading.framed (current_embedded env kind)"
  unfolding current_embedded_def
  by (intro reading.framed_bind machine_reading reading.framed_ret sources_reading)
    (auto split: option.split intro!: reading.framed_also)

lemma library_kept: "reading.framed m \<Longrightarrow> kept.framed (library_c m)"
  by (simp add: reading.framed_def kept.framed_def same_library_def same_db_def library_c_def split: prod.split)
    (metis library_state.select_convs(1) snd_conv)

lemma template_kept: "kept.framed (released_template env)"
  unfolding released_template_def
  by (intro kept.framed_bind kept.framed_wrap library_kept embedded_reading machine_reading)
    (auto intro!: kept.framed_bind kept.framed_wrap library_kept machine_reading)

text \<open>One row was added, for a target that nothing is known of yet.\<close>

definition appended :: "bytes \<Rightarrow> db \<Rightarrow> db \<Rightarrow> target_row \<Rightarrow> bool" where
  "appended i db db' row \<longleftrightarrow>
     i \<notin> trw_ID ` set (db_Targets db) \<and> db_Targets db' = db_Targets db @ [row] \<and> trw_ID row = i \<and>
     trust_row row = (Trust_Unknown, [], [])"

lemma appended_created:
  "create_pending_target f i user db = Inr db' \<Longrightarrow> \<exists>row. appended i db db' row \<and> trw_DesiredJSON row = ''{}''"
  by (auto simp: create_pending_target_def result_simps appended_def trust_row_def)

lemma appended_updated:
  assumes "appended i db db1 row" "update_target f stmt failed i g db1 = Inr db2"
    and "\<And>r. trw_ID (g r) = trw_ID r" "\<And>r. trust_row (g r) = trust_row r"
  shows "appended i db db2 (g row)"
proof -
  have "map (\<lambda>r. if trw_ID r = i then g r else r) (db_Targets db) = db_Targets db"
    using assms(1) by (auto simp: appended_def image_iff intro!: map_idI)
  then show ?thesis using assms by (auto simp: appended_def update_target_def result_simps)
qed

lemma appended_identity:
  assumes row: "appended i db db1 row" and changed: "identity_change env i db1 = Inr (s, db2)"
  shows "\<exists>row'. appended i db db2 row' \<and> trw_DesiredJSON row' = trw_DesiredJSON row"
proof (cases "ssh_identity_secret_id (gwe_Sql env) i db1")
  case (Inr existing)
  show ?thesis
  proof (cases "existing = []")
    case True
    then obtain seed db' db'' where steps:
        "create_secret (gwe_Crypto env) (gwe_Sql env) (gwe_Key env) (gwe_NewSecretID env) (gwe_Now env)
          (''ssh-admin:'' @ i) Secret_Generated db1 = Inr (s, db')"
        "set_secret (gwe_Crypto env) (gwe_Sql env) (gwe_Key env) (gwe_Nonce env) s seed db' = Inr db''"
        "set_ssh_identity (gwe_Sql env) i s db'' = Inr db2"
      using changed Inr by (auto simp: identity_change_def result_simps)
    have "db_Targets db'' = db_Targets db1"
      using steps(1,2) by (auto simp: create_secret_def set_secret_def result_simps)
    then have "appended i db db'' row" using row by (simp add: appended_def)
    moreover obtain stmt failed where
      "update_target (gwe_Sql env) stmt failed i (\<lambda>t. t\<lparr>trw_SSHIdentitySecretID := s\<rparr>) db'' = Inr db2"
      using steps(3) by (auto simp: set_ssh_identity_def result_simps)
    ultimately have "appended i db db2 (row\<lparr>trw_SSHIdentitySecretID := s\<rparr>)"
      by (rule appended_updated) (simp_all add: trust_row_def)
    then show ?thesis by force
  next
    case False
    then show ?thesis using changed Inr row by (auto simp: identity_change_def)
  qed
qed (use changed in \<open>simp add: identity_change_def\<close>)

definition recorded :: "new_target_request \<Rightarrow> db \<Rightarrow> db \<Rightarrow> prepared_target \<Rightarrow> bool" where
  "recorded req db db' p \<longleftrightarrow>
     (\<exists>row. appended (ptg_TargetID p) db db' row \<and>
        trw_DesiredJSON row = json_encode (desired_json (bootstrap_desired ((cloud_init_of (ptg_CloudInitSource p) req)
          \<lparr>cid_RenderedSHA256 := hex_encode (sha256 (bar_Bytes (ptg_CloudInit p)))\<rparr>))))"

lemma recordedI:
  assumes "appended (ptg_TargetID p) db db' (row\<lparr>trw_DesiredJSON := json\<rparr>)"
    and "json = json_encode (desired_json (bootstrap_desired ((cloud_init_of (ptg_CloudInitSource p) req)
          \<lparr>cid_RenderedSHA256 := hex_encode (sha256 (bar_Bytes (ptg_CloudInit p)))\<rparr>)))"
  shows "recorded req db db' p"
  unfolding recorded_def assms(2) [symmetric] using assms(1) by (cases row) (intro exI conjI, assumption, simp)

lemma change_c_cases:
  "change_c env g st = (r, st') \<Longrightarrow> (case r of Inr u \<Rightarrow> g (cos_Db st) = Inr (cos_Db st') | Inl e \<Rightarrow> cos_Db st' = cos_Db st)"
  by (auto simp: change_c_def change_def op_def split: option.splits sum.splits prod.splits)

lemma identity_appended:
  assumes "appended i db (cos_Db st) row"
  shows "leaves (gateway_c (ensure_identity env i))
    (\<lambda>r st'. \<exists>row'. appended i db (cos_Db st') row' \<and> trw_DesiredJSON row' = trw_DesiredJSON row) st"
proof -
  let ?g = "\<lambda>db. bind_r (identity_change env i db) (\<lambda>(secret, db'). Inr db')"
  let ?st = "\<lparr>gws_Db = cos_Db st, gws_World = cos_World st\<rparr>"
  have "gws_Db (snd (db_s env ?g ?st)) = cos_Db st \<or> ?g (cos_Db st) = Inr (gws_Db (snd (db_s env ?g ?st)))"
    using db_s_cases [of env ?g ?st] by simp
  then have "\<exists>row'. appended i db (gws_Db (snd (db_s env ?g ?st))) row' \<and> trw_DesiredJSON row' = trw_DesiredJSON row"
    using assms appended_identity [OF assms] by (auto simp: result_simps)
  then have "leaves (ensure_identity env i)
      (\<lambda>r g. \<exists>row'. appended i db (gws_Db g) row' \<and> trw_DesiredJSON row' = trw_DesiredJSON row) ?st"
    using assms by (auto simp: ensure_identity_def leaves_def also_s_def bind_s_def wrap_s_def lift_s_def read_s_def
        split: prod.split sum.split)
  then show ?thesis by (auto simp: leaves_def gateway_c_def split: prod.split)
qed

definition abandoned :: "db \<Rightarrow> db \<Rightarrow> bool" where
  "abandoned db db' \<longleftrightarrow> db' = db \<or> (\<exists>i row. appended i db db' row \<and> trw_DesiredJSON row = ''{}'')"


lemma register_target_cases:
  assumes "register_target env req i source template st = (r, st')"
  shows "case r of Inr p \<Rightarrow> recorded req (cos_Db st) (cos_Db st') p \<and> ptg_CloudInitSource p = source
    | Inl e \<Rightarrow> abandoned (cos_Db st) (cos_Db st')"
proof -
  let ?lib = "cor_Library env" and ?db = "cos_Db st"
  obtain r1 st1 where c1: "change_c env (create_pending_target (lie_Sql ?lib) i (ntr_Administrator req)) st = (r1, st1)"
    by (rule prod.exhaust)
  note created = change_c_cases [OF c1]
  show ?thesis
  proof (cases r1)
    case (Inl e)
    then show ?thesis using assms c1 created
      by (auto simp: register_target_def Let_def also_s_def bind_s_def abandoned_def)
  next
    case (Inr u)
    then obtain row where row: "appended i ?db (cos_Db st1) row" "trw_DesiredJSON row = ''{}''"
      using created by (auto dest: appended_created)
    obtain r2 st2 where c2: "gateway_c (ensure_identity (cor_Gateway env) i) st1 = (r2, st2)" by (rule prod.exhaust)
    obtain row2 where row2: "appended i ?db (cos_Db st2) row2" "trw_DesiredJSON row2 = ''{}''"
      using leavesD [OF identity_appended [OF row(1)] c2] row(2) by auto
    then have left: "abandoned ?db (cos_Db st2)" by (auto simp: abandoned_def)
    let ?b = "\<lambda>identity. prepare_bootstrap (cor_Render env)
       \<lparr>brq_TargetID = i, brq_Desired = cloud_init_of source req, brq_SSHPublicKey = shi_PublicKey identity,
        brq_Source = \<lparr>bso_SnapshotID = snr_ID source, bso_Version = snr_Version source, bso_SHA256 = snr_SHA256 source,
          bso_Template = template\<rparr>\<rparr>"
    let ?set = "\<lambda>a. set_desired_state (lie_Crypto ?lib) (lie_Sql ?lib) (lie_Key ?lib) i
      (bootstrap_desired ((cloud_init_of source req)\<lparr>cid_RenderedSHA256 := bar_SHA256 a\<rparr>))"
    show ?thesis
    proof (cases "\<exists>identity a. r2 = Inr identity \<and> ?b identity = Inr a")
      case False
      then have "(\<exists>e. r = Inl e) \<and> st' = st2"
        using assms c1 c2 Inr by (cases r2)
          (auto simp: register_target_def Let_def also_s_def bind_s_def lift_s_def split: sum.splits)
      then show ?thesis using left by auto
    next
      case True
      then obtain identity a where ok: "r2 = Inr identity" "?b identity = Inr a" by blast
      then have sha: "bar_SHA256 a = hex_encode (sha256 (bar_Bytes a))" by (auto simp: prepare_bootstrap_def result_simps)
      obtain r3 st3 where c3: "change_c env (?set a) st2 = (r3, st3)" by (rule prod.exhaust)
      note set3 = change_c_cases [OF c3]
      show ?thesis
      proof (cases r3)
        case (Inl e)
        then show ?thesis using assms c1 c2 c3 Inr ok set3 left
          by (auto simp: register_target_def Let_def also_s_def bind_s_def lift_s_def wrap_s_def)
      next
        case (Inr u')
        then obtain stmt failed where "update_target (lie_Sql ?lib) stmt failed i (\<lambda>t. t\<lparr>trw_DesiredJSON := json_encode (desired_json
            (bootstrap_desired ((cloud_init_of source req)\<lparr>cid_RenderedSHA256 := bar_SHA256 a\<rparr>)))\<rparr>) (cos_Db st2) = Inr (cos_Db st3)"
          using set3 by (auto simp: set_desired_state_def result_simps)
        from appended_updated [OF row2(1) this]
        have "recorded req ?db (cos_Db st3) \<lparr>ptg_TargetID = i, ptg_SSHIdentity = identity, ptg_CloudInitSource = source, ptg_CloudInit = a\<rparr>"
          by (intro recordedI) (simp_all add: sha trust_row_def)
        then show ?thesis
          using assms c1 c2 c3 Inr ok \<open>r1 = Inr u\<close>
          by (auto simp: register_target_def Let_def also_s_def bind_s_def lift_s_def wrap_s_def ret_s_def)
      qed
    qed
  qed
qed

lemma values_only: "validate_bootstrap_desired (cloud_init_of a req) = validate_bootstrap_desired (cloud_init_of b req)"
  by (simp add: validate_bootstrap_desired_def cloud_init_of_def)

lemma prepare_steps:
  "(\<exists>e st1. prepare_new_target env req st = (Inl e, st1) \<and> cos_Db st1 = cos_Db st) \<or>
   (\<exists>s t i st1. prepare_new_target env req st = register_target env req i s t st1 \<and> cos_Db st1 = cos_Db st \<and>
      validate_bootstrap_desired (cloud_init_of s req) = Inr ())"
proof -
  obtain r1 st1 where c1: "released_template env st = (r1, st1)" by (rule prod.exhaust)
  have kept: "cos_Db st1 = cos_Db st" using template_kept c1 unfolding kept.framed_def same_db_def by (metis snd_conv)
  show ?thesis
  proof (cases "\<exists>s t i. r1 = Inr (s, t) \<and> validate_bootstrap_desired (cloud_init_of s req) = Inr () \<and> cor_NewTargetID env = Inr i")
    case True
    then obtain s t i where ok: "r1 = Inr (s, t)" "validate_bootstrap_desired (cloud_init_of s req) = Inr ()" "cor_NewTargetID env = Inr i"
      by blast
    have "prepare_new_target env req st = register_target env req i s t st1"
      using c1 ok by (simp add: prepare_new_target_def bind_s_def also_s_def wrap_s_def lift_s_def)
    then show ?thesis using kept ok(2) by blast
  next
    case False
    then have "\<exists>e. prepare_new_target env req st = (Inl e, st1)"
      using c1 by (cases r1)
        (auto simp: prepare_new_target_def bind_s_def also_s_def wrap_s_def lift_s_def split: sum.splits)
    then show ?thesis using kept by blast
  qed
qed

lemma prepared_rows: "abandoned (cos_Db st) (cos_Db (snd (prepare_new_target env req st))) \<or>
    (\<exists>i row. appended i (cos_Db st) (cos_Db (snd (prepare_new_target env req st))) row)"
  using prepare_steps [of env req st]
proof (elim disjE exE conjE)
  fix s t i st1 assume same: "prepare_new_target env req st = register_target env req i s t st1" "cos_Db st1 = cos_Db st"
  obtain r st2 where c: "register_target env req i s t st1 = (r, st2)" by (rule prod.exhaust)
  from register_target_cases [OF c] show ?thesis using same c by (cases r) (auto simp: recorded_def)
qed (simp add: abandoned_def)

text \<open>
  C23: A new target that is prepared has one new row, of a target without trust, whose desired state
  names the frozen source, the values of the request and the digest of the very document that is
  returned; the rows of other targets are as they were. After a failure there is no row or one without
  a desired state, and a request with unacceptable values changes nothing in the management state.
\<close>

theorem new_target_recorded:
  "case prepare_new_target env req st of
     (Inr p, st') \<Rightarrow> recorded req (cos_Db st) (cos_Db st') p
   | (Inl e, st') \<Rightarrow>
       if validate_bootstrap_desired (cloud_init_of source req) = Inr () then abandoned (cos_Db st) (cos_Db st')
       else cos_Db st' = cos_Db st"
  using prepare_steps [of env req st]
proof (elim disjE exE conjE)
  fix s t i st1
  assume same: "prepare_new_target env req st = register_target env req i s t st1" "cos_Db st1 = cos_Db st"
    and ok: "validate_bootstrap_desired (cloud_init_of s req) = Inr ()"
  obtain r st2 where c: "register_target env req i s t st1 = (r, st2)" by (rule prod.exhaust)
  from register_target_cases [OF c] show ?thesis using same c ok values_only [of source req s] by (auto split: sum.splits)
qed (auto simp: abandoned_def)

end
