(* ===== verification/Recovery_Package.thy ===== *)
theory Recovery_Package
  imports Mgmt_Restore Backup_Manager Host_Calls
begin

section \<open>The recovery package\<close>

text \<open>
  \<open>internal/recoverypackage/service.go\<close>. After a recovery the restored history of executions is compared
  with the proofs that the target keeps (\<open>Reconcile\<close>). The payload of a package is described by what the
  exported state refers to, and a received package is checked before anything is imported. The JSON
  decoder is a parameter, with what follows the first document.
\<close>

definition contains_target :: "mgmt_target list \<Rightarrow> bytes \<Rightarrow> bool" where
  "contains_target ts i = list_ex (\<lambda>t. tgt_ID t = i) ts"

subsection \<open>Reconnection\<close>

record reconnection_difference =
  rcd_Kind :: bytes
  rcd_ExecutionID :: bytes
  rcd_BundleID :: bytes
  rcd_LocalValue :: bytes
  rcd_TargetValue :: bytes

record reconnection_report =
  rcr_TargetID :: bytes
  rcr_Observed :: target_observed
  rcr_Matches :: bool
  rcr_Differences :: "reconnection_difference list"

text \<open>What the target has of the table, by identifier; a later entry replaces an earlier one.\<close>

definition owned_by :: "('a \<Rightarrow> bytes) \<Rightarrow> ('a \<Rightarrow> bytes) \<Rightarrow> bytes \<Rightarrow> 'a list \<Rightarrow> bytes \<Rightarrow> 'a option" where
  "owned_by key owner target xs i = find (\<lambda>x. key x = i) (rev (filter (\<lambda>x. owner x = target) xs))"

definition run_difference ::
  "(bytes \<Rightarrow> record_metadata option) \<Rightarrow> proof_observed \<Rightarrow> reconnection_difference list" where
  "run_difference records p =
     (case records (pro_ID p) of
        None \<Rightarrow> [\<lparr>rcd_Kind = ''target-only-run'', rcd_ExecutionID = pro_ID p, rcd_BundleID = pro_BundleID p,
                   rcd_LocalValue = [], rcd_TargetValue = pro_Outcome p\<rparr>]
      | Some r \<Rightarrow>
          if rmd_BundleID r \<noteq> pro_BundleID p \<or> rmd_Outcome r \<noteq> pro_Outcome p
          then [\<lparr>rcd_Kind = ''execution-history-mismatch'', rcd_ExecutionID = pro_ID p, rcd_BundleID = pro_BundleID p,
                  rcd_LocalValue = rmd_BundleID r @ '':'' @ rmd_Outcome r,
                  rcd_TargetValue = pro_BundleID p @ '':'' @ pro_Outcome p\<rparr>]
          else [])"

definition proof_differences ::
  "(bytes \<Rightarrow> bundle_metadata option) \<Rightarrow> (bytes \<Rightarrow> record_metadata option) \<Rightarrow> proof_observed \<Rightarrow> reconnection_difference list" where
  "proof_differences bundles records p =
     (case bundles (pro_BundleID p) of
        None \<Rightarrow> [\<lparr>rcd_Kind = ''target-only-bundle'', rcd_ExecutionID = pro_ID p, rcd_BundleID = pro_BundleID p,
                   rcd_LocalValue = [], rcd_TargetValue = pro_BundleSHA256 p\<rparr>]
      | Some b \<Rightarrow>
          (if bmd_SHA256 b \<noteq> pro_BundleSHA256 p
           then [\<lparr>rcd_Kind = ''bundle-sha256-mismatch'', rcd_ExecutionID = pro_ID p, rcd_BundleID = pro_BundleID p,
                   rcd_LocalValue = bmd_SHA256 b, rcd_TargetValue = pro_BundleSHA256 p\<rparr>]
           else []) @ run_difference records p)"

definition local_only :: "bytes set \<Rightarrow> record_metadata \<Rightarrow> reconnection_difference list" where
  "local_only proved r =
     (if rmd_ID r \<in> proved then []
      else [\<lparr>rcd_Kind = ''local-only-run'', rcd_ExecutionID = rmd_ID r, rcd_BundleID = rmd_BundleID r,
              rcd_LocalValue = rmd_Outcome r, rcd_TargetValue = []\<rparr>])"

text \<open>
  The records are a Go map, whose order does not matter because the differences are sorted; differences
  that agree in all three keys come from proofs with the same identifier and stand in their order here.
\<close>

definition compare_reconnection :: "snapshot \<Rightarrow> bytes \<Rightarrow> target_observed \<Rightarrow> reconnection_report" where
  "compare_reconnection s target observed =
     (let bundles = owned_by bmd_ID bmd_TargetID target (snp_ExecutionBundles s);
          records = owned_by rmd_ID rmd_TargetID target (snp_ExecutionRecords s);
          proofs = coo_ExecutionProofs (tob_Core observed);
          ids = remdups (map rmd_ID (filter (\<lambda>r. rmd_TargetID r = target) (snp_ExecutionRecords s)));
          differences = concat (map (proof_differences bundles records) proofs) @
            concat (map (\<lambda>i. case records i of None \<Rightarrow> [] | Some r \<Rightarrow> local_only (pro_ID ` set proofs) r) ids);
          sorted = sort_key (\<lambda>d. (rcd_Kind d, rcd_ExecutionID d, rcd_BundleID d)) differences in
      \<lparr>rcr_TargetID = target, rcr_Observed = observed, rcr_Matches = (length sorted = 0), rcr_Differences = sorted\<rparr>)"

definition reconcile_target ::
  "state_decoders \<Rightarrow> sql_faults \<Rightarrow> db \<Rightarrow> bytes \<Rightarrow> target_observed \<Rightarrow> reconnection_report result" where
  "reconcile_target dec f db target observed =
     also_r (reject_if (target = []) (Err ''reconnection target id is required''))
    (bind_r (read_snapshot dec f db) (\<lambda>s.
     also_r (reject_if (\<not> contains_target (snp_Targets s) target) (Errf ''target %s does not exist'' [target]))
       (Inr (compare_reconnection s target observed))))"

subsection \<open>The payload\<close>

definition management_state_file :: bytes where "management_state_file = ''management-state.json''"

text \<open>What \<open>Produce\<close> exports of the management state and how it describes the payload.\<close>

definition packaged_state ::
  "crypto \<Rightarrow> state_decoders \<Rightarrow> sql_faults \<Rightarrow> bytes \<Rightarrow> bool \<Rightarrow> bytes \<Rightarrow> db \<Rightarrow> recovery_state result" where
  "packaged_state cry dec f key include_pat target db =
     bind_r (export_recovery cry dec f key include_pat db) (\<lambda>r.
     also_r (reject_if (\<not> contains_target (snp_Targets (rcs_Snapshot r)) target)
        (Err ''recovery target is not present in canonical management state''))
       (Inr (r\<lparr>rcs_Snapshot := (rcs_Snapshot r)\<lparr>snp_Backups := []\<rparr>\<rparr>)))"

definition recovery_descriptor :: "recovery_state \<Rightarrow> payload_descriptor" where
  "recovery_descriptor r =
     (let s = rcs_Snapshot r;
          source_refs = map (\<lambda>a. sar_ID a @ '':'' @ sar_SHA256 a) (sst_Artifacts (snp_Sources s)) @
            map (\<lambda>w. wsp_ID w @ '':'' @ wsp_CurrentSHA256 w) (sst_Workspaces (snp_Sources s));
          bundle_refs = map (\<lambda>b. bmd_ID b @ '':'' @ bmd_SHA256 b) (snp_ExecutionBundles s) in
      \<lparr>pds_Identity = None, pds_SourceRefs = sort source_refs, pds_BundleRefs = sort bundle_refs,
       pds_RestoreRefs = [''canonical-management-state'', ''ssh-host-trust'', ''canonical-secrets'', ''source-library'',
         ''execution-history'']\<rparr>)"

definition payload_layout :: "(bytes \<times> bool) list" where
  "payload_layout = [(management_state_file, False), (''sources'', True), (''execution-bundles'', True)]"

definition require_recovery_payload_layout :: "os_env \<Rightarrow> path \<Rightarrow> (files, unit) action" where
  "require_recovery_payload_layout io root =
     bind_s (wrap_s ''read recovery payload root: %w'' [] (os_read_dir io root)) (\<lambda>entries.
     lift_s (also_r (reject_if (length entries \<noteq> length payload_layout)
          (Err ''recovery payload has unexpected top-level entries''))
       (for_each (\<lambda>(name, nd). reject_if (map_of payload_layout name \<noteq> Some (is_directory (Some nd)))
          (Errf ''unexpected recovery payload entry %q'' [name])) entries)))"

type_synonym recovery_decoder = "bytes \<Rightarrow> (recovery_state \<times> trailing) result"

definition decode_recovery_state :: "recovery_decoder \<Rightarrow> bytes \<Rightarrow> recovery_state result" where
  "decode_recovery_state decode data =
     bind_r (wrap_error ''decode recovery management state: %w'' [] (decode data)) (\<lambda>(r, rest).
     case rest of
       No_More \<Rightarrow> Inr r
     | Another_Document \<Rightarrow> Inl (Err ''recovery management state contains multiple JSON values'')
     | Bad_Trailing e \<Rightarrow> Inl (Wrapf ''decode recovery management state trailer: %w'' [] e))"

text \<open>The checks of \<open>Import\<close> before the sources and the bundles are staged.\<close>

definition received_recovery ::
  "backup_env \<Rightarrow> recovery_decoder \<Rightarrow> stored \<Rightarrow> bytes \<Rightarrow> (backup_manifest \<times> recovery_state \<times> files) result" where
  "received_recovery env decode art pass =
     bind_r (prepare_restore env art Backup_Recovery_Package pass) (\<lambda>(m, fs).
     also_r (fst (require_recovery_payload_layout (bke_Os env) [''restore-candidate''] fs))
    (bind_r (wrap_error ''read recovery management state: %w'' []
        (read_file (bke_Os env) [''restore-candidate'', management_state_file] fs)) (\<lambda>data.
     bind_r (decode_recovery_state decode data) (\<lambda>r.
     also_r (checks
       [reject_if (snp_Backups (rcs_Snapshot r) \<noteq> [])
          (Err ''recovery package must not contain backup catalogue entries without their artifact bytes''),
        reject_if (\<not> contains_target (snp_Targets (rcs_Snapshot r)) (bmf_TargetID m))
          (Err ''recovery manifest target is absent from canonical payload state'')])
       (Inr (m, r, fs))))))"

subsection \<open>What a match means\<close>

lemma owned_by_Some:
  assumes "distinct (map key xs)"
  shows "owned_by key owner target xs i = Some x \<longleftrightarrow> x \<in> set xs \<and> owner x = target \<and> key x = i"
proof
  assume found: "x \<in> set xs \<and> owner x = target \<and> key x = i"
  then have "owned_by key owner target xs i \<noteq> None" by (auto simp: owned_by_def find_None_all)
  then obtain y where y: "owned_by key owner target xs i = Some y" by blast
  then have "y \<in> set xs" "key y = i" by (auto simp: owned_by_def dest: find_Some_in)
  then have "y = x" using assms found by (auto simp: distinct_map dest: inj_onD)
  with y show "owned_by key owner target xs i = Some x" by simp
qed (auto simp: owned_by_def dest: find_Some_in)

lemma run_difference_none: "run_difference records p = [] \<longleftrightarrow>
    (\<exists>r. records (pro_ID p) = Some r \<and> rmd_BundleID r = pro_BundleID p \<and> rmd_Outcome r = pro_Outcome p)"
  by (simp add: run_difference_def split: option.split)

lemma proof_differences_none: "proof_differences bundles records p = [] \<longleftrightarrow>
    (\<exists>b. bundles (pro_BundleID p) = Some b \<and> bmd_SHA256 b = pro_BundleSHA256 p) \<and> run_difference records p = []"
  by (simp add: proof_differences_def split: option.split)

lemma compare_matches:
  assumes "distinct (map bmd_ID (snp_ExecutionBundles s))" "distinct (map rmd_ID (snp_ExecutionRecords s))"
  shows "rcr_Matches (compare_reconnection s target observed) \<longleftrightarrow>
    (\<lambda>p. (pro_ID p, pro_BundleID p, pro_Outcome p)) ` set (coo_ExecutionProofs (tob_Core observed)) =
      (\<lambda>r. (rmd_ID r, rmd_BundleID r, rmd_Outcome r)) ` {r \<in> set (snp_ExecutionRecords s). rmd_TargetID r = target} \<and>
    (\<lambda>p. (pro_BundleID p, pro_BundleSHA256 p)) ` set (coo_ExecutionProofs (tob_Core observed)) \<subseteq>
      (\<lambda>b. (bmd_ID b, bmd_SHA256 b)) ` {b \<in> set (snp_ExecutionBundles s). bmd_TargetID b = target}"
    (is "_ \<longleftrightarrow> ?runs ` ?P = ?known ` ?R \<and> ?named ` ?P \<subseteq> ?stored ` ?B")
proof -
  let ?ids = "remdups (map rmd_ID (filter (\<lambda>r. rmd_TargetID r = target) (snp_ExecutionRecords s)))"
  note records = owned_by_Some [OF assms(2), of rmd_TargetID target]
  note bundles = owned_by_Some [OF assms(1), of bmd_TargetID target]
  have lonely: "(\<forall>i\<in>set ?ids. (case owned_by rmd_ID rmd_TargetID target (snp_ExecutionRecords s) i of
      None \<Rightarrow> [] | Some r \<Rightarrow> local_only (pro_ID ` ?P) r) = []) \<longleftrightarrow> (\<forall>r\<in>?R. rmd_ID r \<in> pro_ID ` ?P)"
    by (auto simp: local_only_def records split: option.splits if_splits)
  have proved: "(\<forall>p\<in>?P. run_difference (owned_by rmd_ID rmd_TargetID target (snp_ExecutionRecords s)) p = []) \<longleftrightarrow>
      ?runs ` ?P \<subseteq> ?known ` ?R"
    by (force simp: run_difference_none records image_subset_iff)
  have stored: "(\<forall>p\<in>?P. \<exists>b. owned_by bmd_ID bmd_TargetID target (snp_ExecutionBundles s) (pro_BundleID p) = Some b \<and>
      bmd_SHA256 b = pro_BundleSHA256 p) \<longleftrightarrow> ?named ` ?P \<subseteq> ?stored ` ?B"
    by (force simp: bundles image_subset_iff)
  have converse: "(\<forall>r\<in>?R. rmd_ID r \<in> pro_ID ` ?P) \<longleftrightarrow> ?known ` ?R \<subseteq> ?runs ` ?P" if sub: "?runs ` ?P \<subseteq> ?known ` ?R"
  proof
    assume all: "\<forall>r\<in>?R. rmd_ID r \<in> pro_ID ` ?P"
    show "?known ` ?R \<subseteq> ?runs ` ?P"
    proof
      fix x assume "x \<in> ?known ` ?R"
      then obtain r where r: "r \<in> ?R" "x = ?known r" by blast
      then obtain p where p: "p \<in> ?P" "pro_ID p = rmd_ID r" using all by force
      then obtain r' where r': "r' \<in> ?R" "?runs p = ?known r'" using sub by blast
      then have "r' = r" using p r assms(2) by (auto simp: distinct_map dest: inj_onD)
      then show "x \<in> ?runs ` ?P" using p(1) r(2) r'(2) by force
    qed
  qed force
  have "rcr_Matches (compare_reconnection s target observed) \<longleftrightarrow>
      ?named ` ?P \<subseteq> ?stored ` ?B \<and> ?runs ` ?P \<subseteq> ?known ` ?R \<and> (\<forall>r\<in>?R. rmd_ID r \<in> pro_ID ` ?P)"
    unfolding stored [symmetric] proved [symmetric] lonely [symmetric]
    by (auto simp: compare_reconnection_def Let_def proof_differences_none)
  then show ?thesis using converse by blast
qed

text \<open>
  C35: Where the identifiers of bundles and of records are unique, as in every reachable state of the
  store, a reconciliation reports a match exactly when the runs that the target proves, with their
  bundles and outcomes, are the recorded runs of the target and every proof names a stored bundle of the
  target by its digest.
\<close>

theorem reconnection_matches_iff:
  assumes "reconcile_target dec f db target observed = Inr report" "history_ok db"
  shows "rcr_Matches report \<longleftrightarrow>
    (\<lambda>p. (pro_ID p, pro_BundleID p, pro_Outcome p)) ` set (coo_ExecutionProofs (tob_Core observed)) =
      (\<lambda>r. (rmd_ID r, rmd_BundleID r, rmd_Outcome r)) ` {r \<in> set (db_Records db). rmd_TargetID r = target} \<and>
    (\<lambda>p. (pro_BundleID p, pro_BundleSHA256 p)) ` set (coo_ExecutionProofs (tob_Core observed)) \<subseteq>
      (\<lambda>b. (bmd_ID b, bmd_SHA256 b)) ` {b \<in> set (db_Bundles db). bmd_TargetID b = target}"
proof -
  obtain s where s: "read_snapshot dec f db = Inr s" "report = compare_reconnection s target observed"
    using assms(1) by (auto simp: reconcile_target_def result_simps)
  then have tables: "snp_ExecutionBundles s = sort_key bmd_ID (sort_key bmd_ID (db_Bundles db))"
    "snp_ExecutionRecords s = sort_key rmd_ID (sort_key rmd_ID (db_Records db))"
    by (auto simp: read_snapshot_def read_history_def exec_sql_def result_simps normalize_snapshot_def split: option.splits)
  have "distinct (map bmd_ID (snp_ExecutionBundles s))" "distinct (map rmd_ID (snp_ExecutionRecords s))"
    using assms(2) by (auto simp: tables history_ok_def distinct_map)
  from compare_matches [OF this, of target observed] show ?thesis by (simp add: s(2) tables)
qed

definition restored_history :: db where
  "restored_history = empty_db
     \<lparr>db_Targets := [\<lparr>trw_ID = ''t'', trw_Address = [], trw_SSHUser = ''root'', trw_SSHIdentitySecretID = [], trw_SSHHostKey = [],
        trw_SSHHostFingerprint = [], trw_SSHTrust = Trust_Unknown, trw_DesiredJSON = [], trw_ObservedJSON = []\<rparr>],
      db_Bundles := [\<lparr>bmd_ID = ''b1'', bmd_TargetID = ''t'', bmd_Kind = ''installation'', bmd_Version = ''1'', bmd_SHA256 = ''ab'', bmd_CreatedAt = ''now''\<rparr>],
      db_Records := [\<lparr>rmd_ID = ''r1'', rmd_BundleID = ''b1'', rmd_TargetID = ''t'', rmd_Outcome = ''success'', rmd_StartedAt = ''a'', rmd_FinishedAt = ''b''\<rparr>]\<rparr>"

definition proved_runs :: "proof_observed list \<Rightarrow> target_observed" where
  "proved_runs ps = empty_observed\<lparr>tob_Core := (tob_Core empty_observed)\<lparr>coo_ExecutionProofs := ps\<rparr>\<rparr>"

definition first_proof :: "bytes \<Rightarrow> proof_observed" where
  "first_proof out =
     \<lparr>pro_ID = ''r1'', pro_BundleID = ''b1'', pro_BundleSHA256 = ''ab'', pro_Kind = ''installation'', pro_Outcome = out, pro_SHA256 = ''cd''\<rparr>"

lemma restored_reports: "\<exists>report. reconcile_target (\<lambda>s. Inr toy_desired, \<lambda>s. Inr empty_observed) no_faults restored_history ''t'' observed = Inr report"
proof -
  have "(case read_snapshot (\<lambda>s. Inr toy_desired, \<lambda>s. Inr empty_observed) no_faults restored_history of Inl e \<Rightarrow> False | Inr s \<Rightarrow> contains_target (snp_Targets s) ''t'')"
    by code_simp
  then show ?thesis by (auto simp: reconcile_target_def split: sum.splits)
qed

lemma reconnection_matches_iff_witness:
  "\<exists>report report'. reconcile_target (\<lambda>s. Inr toy_desired, \<lambda>s. Inr empty_observed) no_faults restored_history ''t'' (proved_runs [first_proof ''success'']) = Inr report \<and>
     rcr_Matches report \<and>
     reconcile_target (\<lambda>s. Inr toy_desired, \<lambda>s. Inr empty_observed) no_faults restored_history ''t'' (proved_runs [first_proof ''failed'']) = Inr report' \<and>
     \<not> rcr_Matches report'"
proof -
  have h: "history_ok restored_history"
    "{b \<in> set (db_Bundles restored_history). bmd_TargetID b = ''t''} = set (db_Bundles restored_history)"
    "{r \<in> set (db_Records restored_history). rmd_TargetID r = ''t''} = set (db_Records restored_history)"
    by (auto simp: history_ok_def restored_history_def empty_db_def)
  obtain report report' where
    "reconcile_target (\<lambda>s. Inr toy_desired, \<lambda>s. Inr empty_observed) no_faults restored_history ''t'' (proved_runs [first_proof ''success'']) = Inr report"
    "reconcile_target (\<lambda>s. Inr toy_desired, \<lambda>s. Inr empty_observed) no_faults restored_history ''t'' (proved_runs [first_proof ''failed'']) = Inr report'"
    using restored_reports by blast
  from this reconnection_matches_iff [OF this(1) h(1)] reconnection_matches_iff [OF this(2) h(1)]
  show ?thesis unfolding h(2,3) by (simp add: proved_runs_def first_proof_def restored_history_def)
qed

end
