(* ===== verification/Studio.thy ===== *)
theory Studio
  imports Bootstrap Recovery_Package
begin

section \<open>The Studio\<close>

text \<open>
  \<open>internal/studio\<close>: the HTTP handlers over the operations of the application, and the parts of
  \<open>internal/application\<close> that they reach. \<open>net/http\<close> finds the registered pattern of a request, so a
  request comes with its route. The JSON decoders, the rendering of an error and of the start page are
  parameters; a decoder is given what the limit of a body lets through and whether more was cut off,
  and says whether more values follow. A reply is what the handler writes, whether or not it arrives.
\<close>

record 's target_application =
  tap_PrepareNewTarget :: "new_target_request \<Rightarrow> ('s, prepared_target) action"
  tap_SetTargetAddress :: "bytes \<Rightarrow> bytes \<Rightarrow> ('s, unit) action"
  tap_ObserveHostKey :: "bytes \<Rightarrow> ('s, host_key) action"
  tap_ConfirmHostKey :: "bytes \<Rightarrow> host_key \<Rightarrow> ('s, unit) action"
  tap_Enroll :: "bytes \<Rightarrow> ('s, target_observed) action"

record build_identity =
  bid_Version :: bytes
  bid_Revision :: bytes
  bid_BuiltAt :: bytes
  bid_Embedded :: "release_source \<times> release_source \<times> release_source"

datatype route =
    Health_Route
  | Version_Route
  | Targets_Route
  | Observe_Route bytes
  | Confirm_Route bytes
  | Enroll_Route bytes
  | Start_Route bytes

type_synonym 'a body_decoder = "bytes \<Rightarrow> bool \<Rightarrow> ('a \<times> bool) result"

record studio_env =
  sen_Identity :: build_identity
  sen_ErrorText :: "error \<Rightarrow> bytes"
  sen_Page :: "build_identity \<Rightarrow> bytes"
  sen_Target :: "new_target_request body_decoder"
  sen_Address :: "bytes body_decoder"
  sen_Key :: "host_key body_decoder"

record studio_request =
  sdq_ContentType :: bytes
  sdq_Body :: bytes

record studio_reply =
  sdr_Status :: int
  sdr_Header :: "(bytes \<times> bytes) list"
  sdr_Body :: bytes

subsection \<open>Replies\<close>

definition write_json :: "int \<Rightarrow> json \<Rightarrow> studio_reply" where
  "write_json status j =
     \<lparr>sdr_Status = status,
      sdr_Header = [(''Content-Type'', ''application/json; charset=utf-8''), (''Cache-Control'', ''no-store'')],
      sdr_Body = json_encode j @ [CHR 0x0A]\<rparr>"

definition write_error :: "studio_env \<Rightarrow> int \<Rightarrow> error \<Rightarrow> studio_reply" where
  "write_error env status e = write_json status (JObj [(''error'', JStr (sen_ErrorText env e))])"

definition security_headers :: "(bytes \<times> bytes) list" where
  "security_headers =
     [(''Content-Security-Policy'', ''default-src '' @ [CHR 0x27] @ ''none'' @ [CHR 0x27] @ ''; style-src '' @ [CHR 0x27] @ ''unsafe-inline'' @
         [CHR 0x27] @ ''; base-uri '' @ [CHR 0x27] @ ''none'' @ [CHR 0x27] @ ''; form-action '' @ [CHR 0x27] @ ''none'' @ [CHR 0x27] @
         ''; frame-ancestors '' @ [CHR 0x27] @ ''none'' @ [CHR 0x27]),
      (''Referrer-Policy'', ''no-referrer''), (''X-Content-Type-Options'', ''nosniff''), (''X-Frame-Options'', ''DENY''),
      (''Permissions-Policy'', ''camera=(), microphone=(), geolocation=()'')]"

definition source_json :: "release_source \<Rightarrow> json" where
  "source_json s =
     JObj ([(''version'', JStr (rls_Version s))] @ (if rls_Path s = [] then [] else [(''path'', JStr (rls_Path s))]) @
       [(''sha256'', JStr (rls_SHA256 s))])"

definition identity_json :: "build_identity \<Rightarrow> json" where
  "identity_json b =
     (case bid_Embedded b of (c, k, n) \<Rightarrow>
        JObj [(''version'', JStr (bid_Version b)), (''revision'', JStr (bid_Revision b)), (''built_at'', JStr (bid_BuiltAt b)),
          (''embedded'', JObj [(''cloud_init'', source_json c), (''core'', source_json k), (''n8n'', source_json n)])])"

definition prepared_json :: "prepared_target \<Rightarrow> json" where
  "prepared_json p =
     JObj [(''target_id'', JStr (ptg_TargetID p)), (''cloud_init_source_id'', JStr (snr_ID (ptg_CloudInitSource p))),
       (''cloud_init_version'', JStr (snr_Version (ptg_CloudInitSource p))),
       (''cloud_init_source_sha256'', JStr (snr_SHA256 (ptg_CloudInitSource p))),
       (''cloud_init_rendered_sha256'', JStr (bar_SHA256 (ptg_CloudInit p))),
       (''cloud_init'', JStr (bar_Bytes (ptg_CloudInit p)))]"

definition host_key_json :: "host_key \<Rightarrow> json" where
  "host_key_json k =
     JObj [(''algorithm'', JStr (hky_Algorithm k)), (''public_key'', JStr (hky_PublicKey k)), (''fingerprint'', JStr (hky_Fingerprint k))]"

definition enrollment_json :: "target_observed \<Rightarrow> json" where
  "enrollment_json v =
     JObj [(''Observed'', observed_json v), (''PrimaryHardening'', hardening_json (hst_PrimaryHardening (tob_Host v)))]"

subsection \<open>Requests\<close>

definition body_limit :: nat where "body_limit = 1048576"

definition decode_json :: "'a body_decoder \<Rightarrow> studio_request \<Rightarrow> 'a result" where
  "decode_json decode req =
     bind_r (decode (take body_limit (sdq_Body req)) (body_limit < length (sdq_Body req))) (\<lambda>(v, more).
     also_r (reject_if more (Err ''request must contain one JSON object'')) (Inr v))"

text \<open>A handler that works on the state of the application; an error of it is written with its status.\<close>

type_synonym 's handler = "'s \<Rightarrow> studio_reply \<times> 's"

definition reply_with :: "studio_reply \<Rightarrow> 's handler" where
  "reply_with r st = (r, st)"

definition decoded :: "studio_env \<Rightarrow> 'a body_decoder \<Rightarrow> studio_request \<Rightarrow> ('a \<Rightarrow> 's handler) \<Rightarrow> 's handler" where
  "decoded env decode req k =
     (case decode_json decode req of Inl e \<Rightarrow> reply_with (write_error env 400 e) | Inr v \<Rightarrow> k v)"

definition called :: "studio_env \<Rightarrow> (error \<Rightarrow> int) \<Rightarrow> ('s, 'a) action \<Rightarrow> ('a \<Rightarrow> 's handler) \<Rightarrow> 's handler" where
  "called env status m k st =
     (case m st of (Inl e, st') \<Rightarrow> (write_error env (status e) e, st') | (Inr v, st') \<Rightarrow> k v st')"

definition guarded :: "studio_env \<Rightarrow> 's target_application option \<Rightarrow> studio_request \<Rightarrow> ('s target_application \<Rightarrow> 's handler) \<Rightarrow> 's handler" where
  "guarded env app req k =
     (case app of
        None \<Rightarrow> reply_with (write_error env 503 (Err ''VPSmith target application is unavailable''))
      | Some a \<Rightarrow>
          if has_prefix (to_lower (sdq_ContentType req)) ''application/json'' then k a
          else reply_with (write_error env 415 (Err ''application/json is required'')))"

definition plain_reply :: "int \<Rightarrow> (bytes \<times> bytes) list \<Rightarrow> bytes \<Rightarrow> studio_reply" where
  "plain_reply status headers body = \<lparr>sdr_Status = status, sdr_Header = headers, sdr_Body = body\<rparr>"

fun handle_route ::
  "studio_env \<Rightarrow> 's target_application option \<Rightarrow> route \<Rightarrow> studio_request \<Rightarrow> 's handler" where
  "handle_route env app Health_Route req =
     reply_with (plain_reply 200 [(''Content-Type'', ''text/plain; charset=utf-8''), (''Cache-Control'', ''no-store'')]
       (''ok'' @ [CHR 0x0A]))"
| "handle_route env app Version_Route req = reply_with (write_json 200 (identity_json (sen_Identity env)))"
| "handle_route env app Targets_Route req =
     guarded env app req (\<lambda>a. decoded env (sen_Target env) req (\<lambda>input.
       called env (\<lambda>_. 422) (tap_PrepareNewTarget a input) (\<lambda>p. reply_with (write_json 201 (prepared_json p)))))"
| "handle_route env app (Observe_Route i) req =
     guarded env app req (\<lambda>a. decoded env (sen_Address env) req (\<lambda>address.
       called env (\<lambda>_. 422) (tap_SetTargetAddress a i address) (\<lambda>_.
       called env (\<lambda>_. 502) (tap_ObserveHostKey a i) (\<lambda>k. reply_with (write_json 200 (host_key_json k))))))"
| "handle_route env app (Confirm_Route i) req =
     guarded env app req (\<lambda>a. decoded env (sen_Key env) req (\<lambda>k.
       called env (\<lambda>_. 409) (tap_ConfirmHostKey a i k) (\<lambda>_.
       reply_with (write_json 200 (JObj [(''status'', JStr ''confirmed'')])))))"
| "handle_route env app (Enroll_Route i) req =
     guarded env app req (\<lambda>a.
       called env (\<lambda>e. if error_is e err_trust_required then 428 else 422) (tap_Enroll a i) (\<lambda>v.
       reply_with (write_json 200 (enrollment_json v))))"
| "handle_route env app (Start_Route path) req =
     (if path \<noteq> ''/'' then
        reply_with (plain_reply 404 [(''Content-Type'', ''text/plain; charset=utf-8''), (''X-Content-Type-Options'', ''nosniff'')]
          (''404 page not found'' @ [CHR 0x0A]))
      else
        reply_with (plain_reply 200 [(''Content-Type'', ''text/html; charset=utf-8''), (''Cache-Control'', ''no-store'')]
          (sen_Page env (sen_Identity env))))"

definition serve :: "studio_env \<Rightarrow> 's target_application option \<Rightarrow> route \<Rightarrow> studio_request \<Rightarrow> 's handler" where
  "serve env app route req st =
     (case handle_route env app route req st of (r, st') \<Rightarrow> (r\<lparr>sdr_Header := security_headers @ sdr_Header r\<rparr>, st'))"

subsection \<open>The application\<close>

definition application_of :: "('w, 'g) coordinator_env \<Rightarrow> ('w, 'g) coordinator_state target_application" where
  "application_of env =
     \<lparr>tap_PrepareNewTarget = prepare_new_target env,
      tap_SetTargetAddress = set_address env,
      tap_ObserveHostKey = (\<lambda>i. gateway_c (observe_host_key (cor_Gateway env) i)),
      tap_ConfirmHostKey = (\<lambda>i k. gateway_c (confirm_host_key (cor_Gateway env) i k)),
      tap_Enroll = (\<lambda>i. gateway_c (enroll (cor_Gateway env) i))\<rparr>"

definition reconnect_after_recovery ::
  "('w, 'g) coordinator_env \<Rightarrow> bytes \<Rightarrow> (('w, 'g) coordinator_state, reconnection_report) action" where
  "reconnect_after_recovery env i =
     bind_s (gateway_c (inspect_target (cor_Gateway env) i)) (\<lambda>observed.
     read_s (\<lambda>st. reconcile_target (gwe_Decoders (cor_Gateway env)) (gwe_Sql (cor_Gateway env)) (cos_Db st) i observed))"

record application_paths =
  aps_StateDir :: bytes
  aps_SourcesDir :: bytes
  aps_BackupsDir :: bytes
  aps_EmbeddedRoot :: bytes
  aps_SSHRuntimeDir :: bytes
  aps_BundlesDir :: bytes

text \<open>The paths are checked in the arbitrary order of a Go map; here it is the order of the literal.\<close>

definition normalize_paths :: "application_paths \<Rightarrow> application_paths result" where
  "normalize_paths p =
     (let q = (if aps_BundlesDir p = [] \<and> aps_StateDir p \<noteq> []
               then p\<lparr>aps_BundlesDir := path_clean (aps_StateDir p @ ''/execution-bundles'')\<rparr> else p) in
      also_r (for_each (\<lambda>(name, v). reject_if (v = [] \<or> \<not> has_prefix v ''/'') (Errf ''absolute %s path is required'' [name]))
          [(''state'', aps_StateDir q), (''sources'', aps_SourcesDir q), (''backups'', aps_BackupsDir q),
           (''embedded'', aps_EmbeddedRoot q), (''ssh runtime'', aps_SSHRuntimeDir q), (''bundles'', aps_BundlesDir q)])
        (Inr q))"

subsection \<open>Trust comes from one route\<close>

lemma gateway_c_db: "cos_Db (snd (gateway_c m st)) = gws_Db (snd (m \<lparr>gws_Db = cos_Db st, gws_World = cos_World st\<rparr>))"
  by (simp add: gateway_c_def split: prod.split)

lemma gateway_framed_c: "trust.framed i m \<Longrightarrow> trust_of i (cos_Db (snd (gateway_c m st))) = trust_of i (cos_Db st)"
  by (simp add: gateway_c_db trust.framed_def same_trust_def)

lemma address_trust: "trust_of i (cos_Db (snd (set_address env j address st))) = trust_of i (cos_Db st)"
proof -
  obtain r st' where c: "set_address env j address st = (r, st')" by (rule prod.exhaust)
  have "set_target_address (lie_Sql (cor_Library env)) j address (cos_Db st) = Inr (cos_Db st') \<or> cos_Db st' = cos_Db st"
    using change_c_cases [OF c [unfolded set_address_def]] by (cases r) auto
  then show ?thesis
  proof
    assume "set_target_address (lie_Sql (cor_Library env)) j address (cos_Db st) = Inr (cos_Db st')"
    then have "update_target (lie_Sql (cor_Library env)) ''update address'' ''set target address: %w'' j
        (\<lambda>t. t\<lparr>trw_Address := trim_space address\<rparr>) (cos_Db st) = Inr (cos_Db st')"
      by (simp add: set_target_address_def result_simps)
    from update_target_trust [OF this] show ?thesis by (simp add: c trust_row_def)
  qed (simp add: c)
qed

definition newly_known :: "bytes \<Rightarrow> db \<Rightarrow> db \<Rightarrow> bool" where
  "newly_known i db db' \<longleftrightarrow> trust_of i db = None \<and> trust_of i db' = Some (Trust_Unknown, [], [])"

lemma find_snoc:
  "find P (xs @ [x]) = (case find P xs of None \<Rightarrow> if P x then Some x else None | Some y \<Rightarrow> Some y)"
  by (induction xs) auto

lemma appended_trust: "appended j db db' row \<Longrightarrow> trust_of i db' = trust_of i db \<or> newly_known i db db'"
  unfolding appended_def trust_of_def newly_known_def
  by (auto simp: find_snoc find_None_all split: option.split)

lemma prepared_trust:
  "trust_of i (cos_Db (snd (prepare_new_target env req st))) = trust_of i (cos_Db st) \<or>
   newly_known i (cos_Db st) (cos_Db (snd (prepare_new_target env req st)))"
  using prepared_rows [of st env req] by (auto simp: abandoned_def dest: appended_trust)

lemma called_state: "snd (called env status m (\<lambda>v. reply_with (f v)) st) = snd (m st)"
  by (simp add: called_def reply_with_def split: prod.split sum.split)

lemma called_trust:
  assumes "trust_of i (cos_Db (snd (m st))) = trust_of i (cos_Db st)"
    and "\<And>v st'. trust_of i (cos_Db (snd (k v st'))) = trust_of i (cos_Db st')"
  shows "trust_of i (cos_Db (snd (called env status m k st))) = trust_of i (cos_Db st)"
  using assms by (cases "m st") (auto simp: called_def split: sum.split)

lemma reply_trust: "trust_of i (cos_Db (snd (reply_with r st))) = trust_of i (cos_Db st)"
  by (simp add: reply_with_def)

lemma observe_trust:
  "trust_of i (cos_Db (snd (handle_route env (Some (application_of cenv)) (Observe_Route j) req st))) = trust_of i (cos_Db st)"
  unfolding handle_route.simps guarded_def decoded_def application_of_def option.case target_application.select_convs
  by (auto split: sum.split intro!: called_trust reply_trust address_trust gateway_framed_c calls_trust)

lemma enroll_trust:
  "trust_of i (cos_Db (snd (handle_route env (Some (application_of cenv)) (Enroll_Route j) req st))) = trust_of i (cos_Db st)"
  unfolding handle_route.simps guarded_def application_of_def option.case target_application.select_convs
  by (auto intro!: called_trust reply_trust gateway_framed_c calls_trust)

lemma targets_trust:
  "trust_of i (cos_Db (snd (handle_route env (Some (application_of cenv)) Targets_Route req st))) = trust_of i (cos_Db st) \<or>
   newly_known i (cos_Db st) (cos_Db (snd (handle_route env (Some (application_of cenv)) Targets_Route req st)))"
  using prepared_trust [of i cenv _ st]
  by (auto simp: guarded_def decoded_def application_of_def called_state reply_trust split: sum.split)

lemma confirm_trust:
  "snd (handle_route env (Some (application_of cenv)) (Confirm_Route j) req st) = st \<or>
   (\<exists>k st'. decode_json (sen_Key env) req = Inr k \<and>
      trust_event (cor_Gateway cenv) (Confirm_Key j k) i \<lparr>gws_Db = cos_Db st, gws_World = cos_World st\<rparr> st' \<and>
      gws_Db st' = cos_Db (snd (handle_route env (Some (application_of cenv)) (Confirm_Route j) req st)))"
  using confirm_event [unfolded leaves_def, of "cor_Gateway cenv" j _ i "\<lparr>gws_Db = cos_Db st, gws_World = cos_World st\<rparr>"]
  by (auto simp: guarded_def decoded_def application_of_def called_state reply_with_def gateway_c_db split: sum.split)

text \<open>
  C36: Whatever is sent to the Studio, and whatever the target, the sources and the database do, the
  recorded trust of a target changes in two ways only: a target that did not exist comes into being
  without trust, or the confirmation route of this very target was called with a key in its body, the
  transport observed exactly this key when it was asked for the recorded address and user of this
  target in the world of that request, and the target had not been confirmed before. Observing a key,
  setting an address or enrolling never establishes or changes trust.
\<close>

theorem studio_trust:
  "trust_of i (cos_Db (snd (serve env (Some (application_of cenv)) route req st))) = trust_of i (cos_Db st) \<or>
   newly_known i (cos_Db st) (cos_Db (snd (serve env (Some (application_of cenv)) route req st))) \<or>
   (\<exists>k t. route = Confirm_Route i \<and> decode_json (sen_Key env) req = Inr k \<and>
      offered (cor_Gateway cenv) i (cos_Db st) (cos_World st) k \<and>
      trust_of i (cos_Db st) = Some t \<and> fst t \<noteq> Trust_Confirmed \<and>
      trust_of i (cos_Db (snd (serve env (Some (application_of cenv)) route req st))) =
        Some (Trust_Confirmed, hky_PublicKey k, hky_Fingerprint k))"
proof -
  have served: "snd (serve env app route req st) = snd (handle_route env app route req st)" for app
    by (simp add: serve_def split: prod.split)
  show ?thesis
  proof (cases route)
    case Targets_Route
    then show ?thesis unfolding served using targets_trust [of i env cenv req st] by blast
  next
    case (Observe_Route j)
    then show ?thesis unfolding served by (simp only: observe_trust) simp
  next
    case (Confirm_Route j)
    then show ?thesis
      unfolding served using confirm_trust [of env cenv j req st i] by (auto simp: trust_event_def simp del: handle_route.simps)
  next
    case (Enroll_Route j)
    then show ?thesis unfolding served by (simp only: enroll_trust) simp
  qed (unfold served, simp_all add: reply_with_def)
qed

end
