(* ===== verification/Spec2Isabelle.thy ===== *)
theory Spec2Isabelle
  imports Bundle_Recovery Exec_State Exec_Props Deploy_Bootstrap Deploy_Compiler Deploy_Input Registry Backup_Props Backup_Storage
    Gateway_Commands Gateway_Safety Source_Props Studio
begin

text \<open>
  VPSmith: a verification of the Go code under \<open>src/internal\<close>.

  \<^bold>\<open>The program.\<close> VPSmith is a local Studio that sets up and maintains servers over SSH. Module packages are
  validated and compiled (\<open>modulecontract\<close>); the deployment compiler (\<open>deployment\<close>) turns a desired and
  an observed state into generated artifacts, claims, link networks and a plan, pins images by asking
  their registry (\<open>registry\<close>), and hands the plan to the assembler of execution bundles
  (\<open>executionbundle\<close>), whose archives are content-addressed and stored for ever. The executor
  (\<open>execution\<close>) uploads a bundle, starts it and polls the target for a proof; it talks to the target
  through the gateway (\<open>targetgateway\<close>) and to the history and the secrets through an adapter
  (\<open>executionstate\<close>) of the management state (\<open>managementstate\<close>), a SQLite store. The sources of what is
  deployed are immutable snapshots and workspaces of the source library (\<open>sourcelibrary\<close>,
  \<open>sourcehash\<close>, \<open>releaseinfo\<close>). Backups and recovery packages are encrypted archives
  (\<open>backuprestore\<close>, \<open>recoverypackage\<close>). \<open>bootstrap\<close> prepares a new target and \<open>studio\<close> offers all
  this over HTTP.

  \<^bold>\<open>How the code is represented.\<close> A Go string or byte slice is a list of characters that stand for bytes
  (\<open>bytes\<close>); a struct is a record whose fields carry a prefix of the type and the name of the source; an
  enumeration over strings is a datatype with a constructor for other strings; a map is an association
  list with distinct keys or a function; integers are unbounded where the code cannot overflow them,
  words in the hash. An error is \<open>Error format arguments wrapped\<close>, so that \<open>errors.Is\<close> is the search
  of a chain; what fails returns \<open>error + 'a\<close>, and the order of the checks is that of the code. Code
  with a state is an \<open>action\<close>: a function from the state to a result and the state it leaves, also after
  an error (\<open>Go_Action\<close>), built from sequencing, wrapping, deferred clean-up, rescue and loops; the
  combinator \<open>leaves\<close> computes its weakest preconditions, and the locale \<open>frame\<close> carries what every step
  keeps through the combinators. The loop of the executor, which may poll for ever, is a
  \<open>partial_function\<close>; a theorem that it returns says so.

  \<^bold>\<open>Foundations.\<close> \<open>Prelude\<close> (results, checked loops, sorting into a canonical order, the collection
  \<open>result_simps\<close>), \<open>Go_Text\<close>, \<open>Go_Regexp\<close> (the program's regular expressions by derivatives, with the
  language they accept), \<open>Go_Path\<close>, \<open>Go_Json\<close>, \<open>Go_Base64\<close>, \<open>Go_Scan\<close> (what the code uses of the
  standard library), \<open>Go_Action\<close>, \<open>Sha256\<close> (the algorithm on 32-bit words; only that it is a function
  with a fixed length is used, through the locale \<open>digest\<close>, and a conclusion that two texts are equal
  is drawn from equal digests nowhere), \<open>Host_Files\<close>, \<open>Host_Calls\<close>, \<open>Host_Frame\<close> (a file system with
  links, inodes, attributes and the umask of the process, the calls on it, each of which may fail, and
  what each call leaves).

  \<^bold>\<open>Theories and sources.\<close>
  \<^item> \<open>Module_Types\<close>, \<open>Module_Validate\<close>, \<open>Module_Compile\<close>: \<open>modulecontract\<close>. \<open>Module_Contract\<close> states the
    contract declaratively and proves that the validator decides it; \<open>Module_Sample\<close> has two packages.
  \<^item> \<open>Bundle_Types\<close>, \<open>Bundle_Normalize\<close>, \<open>Bundle_Archive\<close>, \<open>Bundle_Store\<close>, \<open>Bundle_Recovery\<close>:
    \<open>executionbundle\<close>. Assembling and \<open>Verify\<close> are inverse, \<open>Verify\<close> is sound; the store never changes a
    file (locale \<open>immutable_store\<close>), an import is published whole or taken back, but for a file whose removal
    fails in turn.
  \<^item> \<open>Deploy_Types\<close>, \<open>Deploy_Graph\<close>, \<open>Deploy_Claims\<close>, \<open>Deploy_State\<close>, \<open>Deploy_Artifacts\<close>, \<open>Deploy_Plan\<close>,
    \<open>Deploy_Compiler\<close>, \<open>Deploy_Bootstrap\<close>, \<open>Deploy_Input\<close>: \<open>deployment\<close>, \<open>deploymentinput\<close>. Link networks
    are complete and differ from each other and from the observed ones (as blocks of the pool where both are
    written so, otherwise as texts), claims collide only where the check says so, plans follow declared
    transitions, \<open>Prepare\<close> combines them and does not depend on the order of the modules.
    \<open>Deploy_Sample\<close> is a small deployment for the examples. \<open>Registry\<close>: \<open>registry\<close>.
  \<^item> \<open>Exec_Types\<close>, \<open>Exec_Run\<close>: \<open>execution\<close>. \<open>Exec_Protocol\<close> is an abstract machine of the events of a
    run, \<open>Exec_Refine\<close> shows that the executor is a simulation of it, \<open>Exec_Props\<close> draws the safety
    properties, termination under a deadline, and success where nothing hinders it.
    \<open>Exec_History\<close>, \<open>Exec_State\<close>: \<open>executionstate\<close> with the locale \<open>run_history\<close> of what the executor
    needs from a history, interpreted by the store.
  \<^item> \<open>Mgmt_Types\<close>, \<open>Mgmt_Crypto\<close>, \<open>Mgmt_Store\<close>, \<open>Mgmt_Ops\<close>, \<open>Mgmt_Recovery\<close>: \<open>managementstate\<close>. A state
    is the tables of the schema, a change runs a program of operations in a transaction and every SQL
    statement may fail. \<open>Mgmt_Invariant\<close>, \<open>Mgmt_Vault\<close>: invariants of all reachable states, the secrets
    as an abstract vault, their absence from the JSON texts of the states (a value that JSON escapes is not
    found there); \<open>Mgmt_Restore\<close>: an exported state is restored.
  \<^item> \<open>Source_Tree\<close>, \<open>Source_Remote\<close>, \<open>Source_Library\<close>, \<open>Source_Recovery\<close>: \<open>sourcehash\<close>,
    \<open>sourcelibrary\<close>, \<open>releaseinfo\<close>. \<open>Source_Frame\<close>, \<open>Source_Confine\<close>, \<open>Source_Snapshots\<close>,
    \<open>Source_Immutable\<close>: nothing at or below a published snapshot is changed by the operations that import,
    load, merge, compare or read snapshots or make a workspace (\<open>Apply\<close>, \<open>Push\<close> and the recovery
    operations are modelled but not covered by this theorem);
    \<open>Source_Props\<close>: identities, copies, differences, and what an export needs.
  \<^item> \<open>Backup_Archive\<close>, \<open>Backup_Envelope\<close>, \<open>Backup_Manager\<close>, \<open>Backup_Storage\<close>: \<open>backuprestore\<close>.
    \<open>Backup_Extract\<close>: extraction changes nothing outside its root; \<open>Backup_Roundtrip\<close>: what is created
    opens again; \<open>Backup_Catalogue\<close>, \<open>Backup_Props\<close>: the catalogue and the artifacts agree, unless a deletion can
    neither change the catalogue nor rename its artifact back.
    \<open>Recovery_Package\<close>: \<open>recoverypackage\<close>.
  \<^item> \<open>Gateway_Identity\<close>, \<open>Gateway_Session\<close>, \<open>Gateway_Wire\<close>, \<open>Gateway_Ssh\<close>, \<open>Gateway_Exec\<close>,
    \<open>Gateway_Inspect\<close>: \<open>targetgateway\<close>, down to the text of every remote command. \<open>Gateway_Trust\<close>,
    \<open>Gateway_Sessions\<close>, \<open>Gateway_Safety\<close>: trust has one origin, a key observed at the recorded endpoint of
    the target (\<open>offered\<close>); nothing is asked of an unverified target; every command line, read as ssh reads
    its options (\<open>ssh_line\<close>), checks the host key strictly; a file of a call is left only when its removal
    fails. \<open>Gateway_Codec\<close>, \<open>Gateway_Commands\<close>: quoting and tokens are read back; the healthcheck script is
    the text of a small shell program whose run is defined (\<open>run_script\<close>), and its report is read back.
  \<^item> \<open>Bootstrap\<close>: \<open>bootstrap\<close>. \<open>Studio\<close>: \<open>studio\<close> and what it reaches of \<open>application\<close>.

  \<^bold>\<open>Bounds.\<close> Those of the code: 40 links in a resolved path, 255 components in the resolution of a link
  target, 16 KiB for a Cloud-init document, 8 MiB for an observation, 64 KiB for a token of the scanner
  and 16 KiB for an output in a health report, 16 MiB and 1 MiB for the answers of a registry, 1 MiB for
  the body of a request. No other fuel is used: the remaining recursions are structural or have a
  termination proof.

  \<^bold>\<open>Parameters.\<close> Code outside the repository is an argument of the definitions that use it: the YAML and
  JSON decoders, URL and address parsing, tar and zstd, \<open>age\<close>, AES-GCM (laws: opening a sealed text
  yields it, and a fixed overhead), Ed25519, git (its commands may do anything to the directory they are
  given and to the remote repository), the ssh processes, the HTTP client and dispatch, text/template,
  the faults of SQL statements and of calls of the operating system, the clock and the random
  identifiers. A decoder that a round trip needs is assumed to read what the encoder of the same
  library wrote; each theorem with such a hypothesis has a witness with a concrete function.

  \<^bold>\<open>Not modelled.\<close> Opening the SQLite file, its master key and the migrations (file and driver calls; the
  schema's constraints and triggers are part of the operations); the wiring of \<open>application.Open\<close>; the
  composition of the recovery package over the three stores (its parts are modelled); the commands of
  \<open>src/cmd\<close> and \<open>src/build\<close> (flags and start-up); the runner on the target, which is not Go; the
  wiping of buffers, the checking of access rights, modification times of directories, and the cancellation
  of contexts outside the polling loop.
\<close>

end
